(* ===== verification/Prelude.thy ===== *)
theory Prelude
  imports Complex_Main "HOL-Library.AList" "HOL-Library.Sublist" "HOL-Library.Multiset"
    "HOL-Library.Char_ord" "HOL-Library.List_Lexorder"
begin

text \<open>
  The pieces of the JavaScript standard library that the application core uses, and the two
  interfaces that several components share.

  Strings are lists of \<^typ>\<open>char\<close>, that is code units below 256; on those \<open>js_trim\<close> and
  \<open>js_lower\<close> are exactly \<open>String.prototype.trim\<close> and \<open>toLowerCase\<close>.  A \<open>Set\<close> is the list of its
  elements in insertion order, a \<open>Map\<close> an association list updated in place, and
  \<open>Array.prototype.sort\<close> is the stable sort by a comparison function.  A value that may be
  \<open>undefined\<close> or \<open>null\<close> is an option.
\<close>

named_theorems js_simps \<open>defining facts of the standard-library operations\<close>
named_theorems path_simps \<open>archive paths as lists of segments\<close>
named_theorems frame_simps \<open>fields an operation leaves alone\<close>

section \<open>Numbers\<close>

text \<open>
  A JavaScript number is a finite value or one of the three special values.  Finite values are
  rationals; the operations modelled here (comparison, rounding, clamping, sums of integers) are
  exact on them.
\<close>

datatype jsnum = Fin rat | PosInf | NegInf | NaN

fun is_finite :: "jsnum \<Rightarrow> bool" where
  "is_finite (Fin _) = True"
| "is_finite _ = False"

section \<open>Absent values and truthiness\<close>

definition nullish :: "'a option \<Rightarrow> 'a \<Rightarrow> 'a" where
  "nullish v d = (case v of None \<Rightarrow> d | Some x \<Rightarrow> x)"

lemma nullish_simps [simp]: "nullish None d = d" "nullish (Some x) d = x"
  by (simp_all add: nullish_def)

definition str_or :: "string \<Rightarrow> string \<Rightarrow> string" where
  "str_or s d = (if s = [] then d else s)"

lemma str_or_simps [simp]: "str_or [] d = d" "str_or (c # s) d = c # s"
  by (simp_all add: str_or_def)

text \<open>\<open>value || null\<close> on a string: the empty string counts as absent.\<close>

definition some_nonempty :: "string \<Rightarrow> string option" where
  "some_nonempty s = (if s = [] then None else Some s)"

definition truthy :: "string option \<Rightarrow> bool" where
  "truthy v = (case v of None \<Rightarrow> False | Some s \<Rightarrow> s \<noteq> [])"

lemma truthy_simps [simp]: "\<not> truthy None" "truthy (Some s) \<longleftrightarrow> s \<noteq> []"
  by (simp_all add: truthy_def)

section \<open>Strings\<close>

definition js_space :: "char \<Rightarrow> bool" where
  "js_space c \<longleftrightarrow> c \<in> {CHR 0x09, CHR 0x0A, CHR 0x0B, CHR 0x0C, CHR 0x0D, CHR 0x20, CHR 0xA0}"

definition js_trim :: "string \<Rightarrow> string" where
  "js_trim s = rev (dropWhile js_space (rev (dropWhile js_space s)))"

definition js_lower_char :: "char \<Rightarrow> char" where
  "js_lower_char c =
     (let n = of_char c :: nat
      in if (65 \<le> n \<and> n \<le> 90) \<or> (192 \<le> n \<and> n \<le> 222 \<and> n \<noteq> 215) then char_of (n + 32) else c)"

definition js_lower :: "string \<Rightarrow> string" where
  "js_lower s = map js_lower_char s"

lemma js_trim_Nil [simp]: "js_trim [] = []"
  by (simp add: js_trim_def)

lemma js_trim_ends:
  "js_trim s = [] \<or> (\<not> js_space (hd (js_trim s)) \<and> \<not> js_space (last (js_trim s)))"
proof -
  let ?t = "dropWhile js_space s"
  let ?r = "dropWhile js_space (rev ?t)"
  have r: "?r = [] \<or> \<not> js_space (hd ?r)"
    using hd_dropWhile by blast
  have "js_trim s = [] \<or> \<not> js_space (hd (js_trim s))"
  proof (cases "?r = []")
    case False
    obtain zs where "rev ?t = zs @ ?r"
      by (metis takeWhile_dropWhile_id)
    then have "?t = rev ?r @ rev zs"
      by (metis rev_append rev_rev_ident)
    moreover have "?t \<noteq> []"
      using False by (metis dropWhile.simps(1) rev.simps(1))
    ultimately have "hd (rev ?r) = hd ?t"
      using False by (metis Nil_is_rev_conv hd_append2)
    moreover have "\<not> js_space (hd ?t)"
      using \<open>?t \<noteq> []\<close> hd_dropWhile by blast
    ultimately show ?thesis
      by (simp add: js_trim_def)
  qed (simp add: js_trim_def)
  with r show ?thesis
    by (auto simp: js_trim_def last_rev)
qed

lemma js_trim_fixed:
  "s = [] \<or> (\<not> js_space (hd s) \<and> \<not> js_space (last s)) \<Longrightarrow> js_trim s = s"
proof (cases s)
  case (Cons c cs)
  assume "s = [] \<or> (\<not> js_space (hd s) \<and> \<not> js_space (last s))"
  with Cons have a: "dropWhile js_space s = s" and b: "\<not> js_space (hd (rev s))"
    unfolding hd_rev by auto
  from b have "dropWhile js_space (rev s) = rev s"
    by (cases "rev s") auto
  with a show ?thesis
    by (simp add: js_trim_def)
qed simp

lemma js_trim_idem [simp]: "js_trim (js_trim s) = js_trim s"
  by (rule js_trim_fixed) (rule js_trim_ends)

lemma js_lower_append: "js_lower (a @ b) = js_lower a @ js_lower b"
  by (simp add: js_lower_def)

lemma length_js_lower [simp]: "length (js_lower s) = length s"
  by (simp add: js_lower_def)

fun js_split :: "'a \<Rightarrow> 'a list \<Rightarrow> 'a list list" where
  "js_split c [] = [[]]"
| "js_split c (x # xs) =
     (if x = c then [] # js_split c xs
      else (case js_split c xs of [] \<Rightarrow> [[x]] | w # ws \<Rightarrow> (x # w) # ws))"

fun js_join :: "'a \<Rightarrow> 'a list list \<Rightarrow> 'a list" where
  "js_join c [] = []"
| "js_join c [w] = w"
| "js_join c (w # v # ws) = w @ c # js_join c (v # ws)"

lemma js_split_neq_Nil [simp]: "js_split c s \<noteq> []"
  by (induction s) (auto split: list.splits)

lemma js_split_append: "js_split c (a @ c # b) = js_split c a @ js_split c b"
  by (induction a) (auto split: list.splits)

lemma js_split_no_sep: "c \<notin> set s \<Longrightarrow> js_split c s = [s]"
  by (induction s) auto

lemma js_split_pieces: "w \<in> set (js_split c s) \<Longrightarrow> c \<notin> set w"
proof (induction s arbitrary: w)
  case (Cons x xs)
  then show ?case
    by (cases "js_split c xs") (auto split: if_splits)
qed simp

lemma js_split_subset: "w \<in> set (js_split c s) \<Longrightarrow> set w \<subseteq> set s"
proof (induction s arbitrary: w)
  case (Cons x xs)
  show ?case
  proof (cases "js_split c xs")
    case (Cons v vs)
    then have "set v \<subseteq> set xs" and "w \<in> set vs \<Longrightarrow> set w \<subseteq> set xs"
      using Cons.IH by (metis list.set_intros)+
    with Cons Cons.prems show ?thesis
      by (auto split: if_splits)
  qed simp
qed simp

lemma js_join_Cons: "js_join c (w # ws) = (if ws = [] then w else w @ c # js_join c ws)"
  by (cases ws) auto

lemma js_join_append:
  "js_join c (us @ vs) =
     (if us = [] then js_join c vs else if vs = [] then js_join c us
      else js_join c us @ c # js_join c vs)"
  by (induction us) (auto simp: js_join_Cons)

lemma js_join_split [simp]: "js_join c (js_split c s) = s"
proof (induction s)
  case (Cons x xs)
  then show ?case
    by (cases "js_split c xs") (auto simp: js_join_Cons split: if_splits)
qed simp

lemma js_split_join:
  "ws \<noteq> [] \<Longrightarrow> (\<And>w. w \<in> set ws \<Longrightarrow> c \<notin> set w) \<Longrightarrow> js_split c (js_join c ws) = ws"
proof (induction ws)
  case (Cons w ws)
  then show ?case
    by (cases ws) (simp_all add: js_split_no_sep js_split_append)
qed simp

lemma js_join_eq_Nil: "js_join c ws = [] \<longleftrightarrow> ws = [] \<or> ws = [[]]"
  by (cases ws) (auto simp: js_join_Cons)

lemma length_js_join_butlast:
  "us \<noteq> [] \<Longrightarrow> last us \<noteq> [] \<Longrightarrow> length (js_join c (butlast us)) < length (js_join c us)"
  by (induction us) (auto simp: js_join_Cons)

fun last_index :: "'a \<Rightarrow> 'a list \<Rightarrow> nat option" where
  "last_index c [] = None"
| "last_index c (x # xs) =
     (case last_index c xs of Some i \<Rightarrow> Some (Suc i) | None \<Rightarrow> if x = c then Some 0 else None)"

lemma last_index_None: "last_index c s = None \<longleftrightarrow> c \<notin> set s"
  by (induction s) (auto split: option.splits)

lemma last_index_append: "c \<notin> set b \<Longrightarrow> last_index c (a @ c # b) = Some (length a)"
  by (induction a) (auto simp: last_index_None split: option.splits)

lemma filter_key_unique:
  "distinct (map f xs) \<Longrightarrow> x \<in> set xs \<Longrightarrow> filter (\<lambda>y. f y = f x) xs = [x]"
proof (induction xs)
  case (Cons y ys)
  show ?case
  proof (cases "y = x")
    case True
    then have "filter (\<lambda>z. f z = f x) ys = []"
      using Cons.prems(1) by (auto simp: filter_empty_conv image_iff)
    with True show ?thesis
      by simp
  next
    case False
    then show ?thesis
      using Cons by (auto simp: image_iff)
  qed
qed simp

section \<open>Indices\<close>

fun indexOf :: "'a \<Rightarrow> 'a list \<Rightarrow> int" where
  "indexOf x [] = -1"
| "indexOf x (y # ys) = (if y = x then 0 else let i = indexOf x ys in if i < 0 then -1 else i + 1)"

lemma indexOf_neg: "indexOf x xs < 0 \<longleftrightarrow> x \<notin> set xs"
  by (induction xs) (auto simp: Let_def)

lemma indexOf_nth: "x \<in> set xs \<Longrightarrow> nat (indexOf x xs) < length xs \<and> xs ! nat (indexOf x xs) = x"
proof (induction xs)
  case (Cons y ys)
  show ?case
  proof (cases "y = x")
    case False
    then have "0 \<le> indexOf x ys"
      using Cons.prems indexOf_neg [of x ys] by auto
    with False Cons show ?thesis
      by (simp add: nat_add_distrib Let_def)
  qed simp
qed simp

lemma indexOf_distinct: "distinct xs \<Longrightarrow> i < length xs \<Longrightarrow> indexOf (xs ! i) xs = int i"
proof (induction xs arbitrary: i)
  case (Cons y ys)
  show ?case
  proof (cases i)
    case (Suc k)
    then have "y \<noteq> ys ! k"
      using Cons.prems by (auto simp: in_set_conv_nth)
    with Suc Cons show ?thesis
      by (simp add: Let_def)
  qed simp
qed simp

section \<open>Association lists\<close>

lemma in_set_update:
  "distinct (map fst al) \<Longrightarrow> (s, c) \<in> set (AList.update k v al) \<Longrightarrow>
     (s = k \<and> c = v) \<or> (s \<noteq> k \<and> (s, c) \<in> set al)"
proof -
  assume d: "distinct (map fst al)" and m: "(s, c) \<in> set (AList.update k v al)"
  have "map_of (AList.update k v al) s = Some c"
    using m distinct_update [OF d] by (metis map_of_is_SomeI)
  then show ?thesis
    by (auto simp: update_conv split: if_splits dest: map_of_SomeD)
qed

section \<open>Moving elements of a list\<close>

lemma indexOf_append: "x \<notin> set us \<Longrightarrow> indexOf x (us @ x # vs) = int (length us)"
  by (induction us) (auto simp: Let_def)

lemma list_update_middle:
  "(us @ x # vs)[length us := y] = us @ y # vs"
  by simp

lemma nat_Suc_int [simp]: "nat (1 + (int a + int b)) = Suc (a + b)"
  by simp

lemma filter_eq_append:
  "filter P xs = us @ vs \<Longrightarrow> \<exists>as bs. xs = as @ bs \<and> filter P as = us \<and> filter P bs = vs"
proof (induction us arbitrary: xs)
  case Nil
  then show ?case
    by (intro exI [of _ "[]"] exI [of _ xs]) simp
next
  case (Cons u us)
  then obtain as0 rest where r: "xs = as0 @ u # rest" "\<forall>x \<in> set as0. \<not> P x" "P u" "filter P rest = us @ vs"
    by (auto simp: filter_eq_Cons_iff)
  from Cons.IH [OF r(4)] obtain as bs where "rest = as @ bs" "filter P as = us" "filter P bs = vs"
    by blast
  with r show ?case
    by (intro exI [of _ "as0 @ u # as"] exI [of _ bs]) (simp add: filter_empty_conv)
qed

end
