(* ===== verification/JsCollections.thy ===== *)
theory JsCollections
  imports Prelude
begin

text \<open>
  \<open>Set\<close>, \<open>Map\<close> and \<open>Array.prototype.sort\<close> of the JavaScript standard library, and the interfaces
  built on them: \<open>js_set_ops\<close> (what the workspaces rely on when they keep a set of paths),
  \<open>comparator\<close> (what a comparison function owes to a sort) and \<open>normaliser\<close> (an idempotent
  clean-up of strings; path histories, source lists and selections all collect the normalised,
  non-empty, distinct members of a list).
\<close>

section \<open>Sets in insertion order\<close>

definition set_add :: "'a \<Rightarrow> 'a list \<Rightarrow> 'a list" where
  "set_add x xs = (if x \<in> set xs then xs else xs @ [x])"

definition set_delete :: "'a \<Rightarrow> 'a list \<Rightarrow> 'a list" where
  "set_delete x xs = filter (\<lambda>y. y \<noteq> x) xs"

definition set_has :: "'a list \<Rightarrow> 'a \<Rightarrow> bool" where
  "set_has xs x \<longleftrightarrow> x \<in> set xs"

definition set_toggle :: "'a \<Rightarrow> 'a list \<Rightarrow> 'a list" where
  "set_toggle x xs = (if set_has xs x then set_delete x xs else set_add x xs)"

definition set_add_all :: "'a list \<Rightarrow> 'a list \<Rightarrow> 'a list" where
  "set_add_all ys xs = fold set_add ys xs"

definition js_set :: "'a list \<Rightarrow> 'a list" where
  "js_set ys = set_add_all ys []"

locale js_set_ops =
  fixes has :: "'s \<Rightarrow> 'a \<Rightarrow> bool"
    and add :: "'a \<Rightarrow> 's \<Rightarrow> 's"
    and delete :: "'a \<Rightarrow> 's \<Rightarrow> 's"
    and elems :: "'s \<Rightarrow> 'a set"
    and ok :: "'s \<Rightarrow> bool"
  assumes has_elems: "has s x \<longleftrightarrow> x \<in> elems s"
    and elems_add: "elems (add x s) = insert x (elems s)"
    and elems_delete: "elems (delete x s) = elems s - {x}"
    and ok_add: "ok s \<Longrightarrow> ok (add x s)"
    and ok_delete: "ok s \<Longrightarrow> ok (delete x s)"
begin

lemma elems_toggle:
  "elems (if has s x then delete x s else add x s) = (elems s - {x}) \<union> ({x} - elems s)"
  by (auto simp: has_elems elems_add elems_delete)

lemma ok_toggle: "ok s \<Longrightarrow> ok (if has s x then delete x s else add x s)"
  by (simp add: ok_add ok_delete)

lemma elems_fold_add: "elems (fold add xs s) = elems s \<union> set xs"
  by (induction xs arbitrary: s) (auto simp: elems_add)

lemma ok_fold_add: "ok s \<Longrightarrow> ok (fold add xs s)"
  by (induction xs arbitrary: s) (auto simp: ok_add)

lemma elems_fold_toggle:
  "distinct xs \<Longrightarrow>
   elems (fold (\<lambda>x s. if has s x then delete x s else add x s) xs s)
     = (elems s - set xs) \<union> (set xs - elems s)"
proof (induction xs arbitrary: s)
  case (Cons x xs)
  then show ?case
    by (auto simp: has_elems elems_add elems_delete)
qed simp

lemma ok_fold_toggle:
  "ok s \<Longrightarrow> ok (fold (\<lambda>x s. if has s x then delete x s else add x s) xs s)"
  by (induction xs arbitrary: s) (auto simp: ok_add ok_delete)

end

interpretation oset: js_set_ops set_has set_add set_delete set distinct
  by unfold_locales (auto simp: set_has_def set_add_def set_delete_def)

lemma set_set_add [simp]: "set (set_add x xs) = insert x (set xs)"
  by (rule oset.elems_add)

lemma set_set_delete [simp]: "set (set_delete x xs) = set xs - {x}"
  by (rule oset.elems_delete)

lemma set_set_toggle [simp]: "set (set_toggle x xs) = (set xs - {x}) \<union> ({x} - set xs)"
  unfolding set_toggle_def by (rule oset.elems_toggle)

lemma distinct_set_add [simp]: "distinct xs \<Longrightarrow> distinct (set_add x xs)"
  by (rule oset.ok_add)

lemma distinct_set_delete [simp]: "distinct xs \<Longrightarrow> distinct (set_delete x xs)"
  by (rule oset.ok_delete)

lemma distinct_set_toggle [simp]: "distinct xs \<Longrightarrow> distinct (set_toggle x xs)"
  unfolding set_toggle_def by (rule oset.ok_toggle)

lemma set_set_add_all [simp]: "set (set_add_all ys xs) = set xs \<union> set ys"
  unfolding set_add_all_def by (rule oset.elems_fold_add)

lemma distinct_set_add_all [simp]: "distinct xs \<Longrightarrow> distinct (set_add_all ys xs)"
  unfolding set_add_all_def by (rule oset.ok_fold_add)

lemma set_js_set [simp]: "set (js_set ys) = set ys"
  by (simp add: js_set_def)

lemma distinct_js_set [simp]: "distinct (js_set ys)"
  by (simp add: js_set_def)

lemma set_add_all_fresh:
  "distinct (xs @ ys) \<Longrightarrow> set_add_all ys xs = xs @ ys"
  by (induction ys arbitrary: xs) (auto simp: set_add_all_def set_add_def)

lemma js_set_distinct: "distinct ys \<Longrightarrow> js_set ys = ys"
  by (simp add: js_set_def set_add_all_fresh)

lemma js_set_Nil [simp]: "js_set [] = []"
  by (simp add: js_set_def set_add_all_def)

lemma hd_set_add_all: "xs \<noteq> [] \<Longrightarrow> hd (set_add_all ys xs) = hd xs"
  by (induction ys arbitrary: xs) (auto simp: set_add_all_def set_add_def)

lemma set_add_all_neq_Nil: "xs \<noteq> [] \<Longrightarrow> set_add_all ys xs \<noteq> []"
  by (induction ys arbitrary: xs) (auto simp: set_add_all_def set_add_def)

lemma hd_js_set: "ys \<noteq> [] \<Longrightarrow> hd (js_set ys) = hd ys"
  by (cases ys) (simp_all add: js_set_def set_add_all_def hd_set_add_all [unfolded set_add_all_def] set_add_def)

text \<open>Two sets of strings as JavaScript compares them: sizes, then membership.\<close>

definition same_string_set :: "string list \<Rightarrow> string list \<Rightarrow> bool" where
  "same_string_set l r \<longleftrightarrow> length l = length r \<and> (\<forall>x \<in> set l. x \<in> set r)"

lemma same_string_set_iff:
  "distinct l \<Longrightarrow> distinct r \<Longrightarrow> same_string_set l r \<longleftrightarrow> set l = set r"
proof -
  assume d: "distinct l" "distinct r"
  show ?thesis
  proof
    assume "same_string_set l r"
    then have "set l \<subseteq> set r" and "card (set l) = card (set r)"
      using d by (auto simp: same_string_set_def distinct_card)
    then show "set l = set r"
      by (simp add: card_subset_eq)
  next
    assume "set l = set r"
    then show "same_string_set l r"
      using d by (metis distinct_card same_string_set_def)
  qed
qed

section \<open>Sorting\<close>

text \<open>
  Since ES2019 the sort is stable, so for a consistent comparison function its result is the
  stable sorted arrangement; insertion sort computes it.
\<close>

fun js_insert :: "('a \<Rightarrow> 'a \<Rightarrow> int) \<Rightarrow> 'a \<Rightarrow> 'a list \<Rightarrow> 'a list" where
  "js_insert cmp x [] = [x]"
| "js_insert cmp x (y # ys) = (if cmp x y \<le> 0 then x # y # ys else y # js_insert cmp x ys)"

fun js_sort :: "('a \<Rightarrow> 'a \<Rightarrow> int) \<Rightarrow> 'a list \<Rightarrow> 'a list" where
  "js_sort cmp [] = []"
| "js_sort cmp (x # xs) = js_insert cmp x (js_sort cmp xs)"

lemma mset_js_insert [simp]: "mset (js_insert cmp x xs) = add_mset x (mset xs)"
  by (induction xs) auto

lemma mset_js_sort [simp]: "mset (js_sort cmp xs) = mset xs"
  by (induction xs) auto

lemma set_js_sort [simp]: "set (js_sort cmp xs) = set xs"
  by (metis mset_js_sort set_mset_mset)

lemma length_js_sort [simp]: "length (js_sort cmp xs) = length xs"
  by (metis mset_js_sort size_mset)

lemma distinct_js_sort [simp]: "distinct (js_sort cmp xs) = distinct xs"
  by (metis mset_js_sort mset_eq_imp_distinct_iff)

lemma js_sort_eq_Nil [simp]: "js_sort cmp xs = [] \<longleftrightarrow> xs = []"
  by (metis length_0_conv length_js_sort)

locale comparator =
  fixes cmp :: "'a \<Rightarrow> 'a \<Rightarrow> int"
  assumes cmp_refl: "cmp x x = 0"
    and cmp_swap: "cmp x y < 0 \<longleftrightarrow> 0 < cmp y x"
    and cmp_trans: "cmp x y \<le> 0 \<Longrightarrow> cmp y z \<le> 0 \<Longrightarrow> cmp x z \<le> 0"
begin

lemma cmp_total: "cmp x y \<le> 0 \<or> cmp y x \<le> 0"
  using cmp_swap [of y x] by linarith

lemma cmp_zero_sym: "cmp x y = 0 \<Longrightarrow> cmp y x = 0"
  using cmp_swap [of x y] cmp_swap [of y x] by linarith

lemma cmp_le_flip: "cmp x y \<le> 0 \<longleftrightarrow> 0 \<le> cmp y x"
  using cmp_swap [of y x] by linarith

lemma cmp_less_trans1: "cmp x y < 0 \<Longrightarrow> cmp y z \<le> 0 \<Longrightarrow> cmp x z < 0"
  using cmp_trans [of y z x] cmp_swap [of x y] cmp_le_flip [of z x] by linarith

lemma cmp_less_trans2: "cmp x y \<le> 0 \<Longrightarrow> cmp y z < 0 \<Longrightarrow> cmp x z < 0"
  using cmp_trans [of z x y] cmp_swap [of y z] cmp_le_flip [of z x] by linarith

lemma set_js_insert: "set (js_insert cmp x xs) = insert x (set xs)"
  by (induction xs) auto

lemma sorted_js_insert:
  "sorted_wrt (\<lambda>x y. cmp x y \<le> 0) xs \<Longrightarrow> sorted_wrt (\<lambda>x y. cmp x y \<le> 0) (js_insert cmp x xs)"
proof (induction xs)
  case (Cons y ys)
  then show ?case
    using cmp_total [of x y] by (auto simp: set_js_insert intro: cmp_trans)
qed simp

lemma sorted_js_sort: "sorted_wrt (\<lambda>x y. cmp x y \<le> 0) (js_sort cmp xs)"
  by (induction xs) (auto intro: sorted_js_insert)

lemma js_sort_sorted: "sorted_wrt (\<lambda>x y. cmp x y \<le> 0) xs \<Longrightarrow> js_sort cmp xs = xs"
proof (induction xs)
  case (Cons x xs)
  then show ?case
    by (cases xs) auto
qed simp

lemma js_sort_idem: "js_sort cmp (js_sort cmp xs) = js_sort cmp xs"
  by (rule js_sort_sorted) (rule sorted_js_sort)

lemma filter_js_insert:
  "filter (\<lambda>y. cmp y a = 0) (js_insert cmp x xs)
     = (if cmp x a = 0 then x # filter (\<lambda>y. cmp y a = 0) xs else filter (\<lambda>y. cmp y a = 0) xs)"
proof (induction xs)
  case (Cons y ys)
  have "cmp x a = 0 \<Longrightarrow> cmp y a = 0 \<Longrightarrow> cmp x y \<le> 0"
    using cmp_zero_sym [of y a] cmp_trans [of x a y] by simp
  with Cons show ?case
    by auto
qed simp

lemma js_sort_stable:
  "filter (\<lambda>y. cmp y a = 0) (js_sort cmp xs) = filter (\<lambda>y. cmp y a = 0) xs"
  by (induction xs) (auto simp: filter_js_insert)

end

text \<open>Comparing a key, and breaking ties with a second comparison, keep the contract.\<close>

lemma comparator_key: "comparator f \<Longrightarrow> comparator (\<lambda>x y. f (k x) (k y))"
  unfolding comparator_def by blast

lemma comparator_lex:
  assumes "comparator f" and "comparator g"
  shows "comparator (\<lambda>x y. if f x y \<noteq> 0 then f x y else g x y)"
proof (unfold_locales, goal_cases)
  case (1 x)
  show ?case
    using comparator.cmp_refl [OF assms(1)] comparator.cmp_refl [OF assms(2)] by simp
next
  case (2 x y)
  show ?case
    using comparator.cmp_swap [OF assms(1), of x y] comparator.cmp_swap [OF assms(1), of y x]
      comparator.cmp_swap [OF assms(2), of x y] by auto
next
  case (3 x y z)
  consider "f x y < 0" "f y z \<le> 0" | "f x y = 0" "f y z < 0" | "f x y = 0" "f y z = 0" "g x y \<le> 0" "g y z \<le> 0"
    using 3 by (auto split: if_splits)
  then show ?case
  proof cases
    case 1
    then show ?thesis
      using comparator.cmp_less_trans1 [OF assms(1), of x y z] by simp
  next
    case 2
    then show ?thesis
      using comparator.cmp_less_trans2 [OF assms(1), of x y z] by simp
  next
    case 3
    have "f x z \<le> 0" and "f z x \<le> 0"
      using 3 comparator.cmp_trans [OF assms(1)] comparator.cmp_zero_sym [OF assms(1)]
      by (metis order_refl)+
    then show ?thesis
      using 3 comparator.cmp_le_flip [OF assms(1), of z x] comparator.cmp_trans [OF assms(2), of x y z]
      by auto
  qed
qed

lemma comparator_class:
  assumes "comparator f"
  shows "comparator (\<lambda>x y. if P x \<noteq> P y then (if P x then -1 else 1) else f x y)"
  using assms unfolding comparator_def by (auto split: if_splits)

lemma comparator_zero: "comparator (\<lambda>x y. 0)"
  by unfold_locales auto

lemma comparator_flip:
  assumes "comparator f"
  shows "comparator (\<lambda>x y. - f x y)"
proof (unfold_locales, goal_cases)
  case (1 x)
  show ?case
    using comparator.cmp_refl [OF assms] by simp
next
  case (2 x y)
  show ?case
    using comparator.cmp_swap [OF assms, of y x] by simp
next
  case (3 x y z)
  then show ?case
    using comparator.cmp_trans [OF assms, of z y x] comparator.cmp_le_flip [OF assms, of z x]
      comparator.cmp_le_flip [OF assms, of z y] comparator.cmp_le_flip [OF assms, of y x] by linarith
qed

text \<open>Comparing a rank first, with a comparison of its own for each rank.\<close>

lemma comparator_rank:
  fixes k :: "'a \<Rightarrow> nat"
  assumes "\<And>n. comparator (f n)"
  shows "comparator (\<lambda>x y. if k x \<noteq> k y then (if k x < k y then -1 else 1) else f (k x) x y)"
proof (unfold_locales, goal_cases)
  case (1 x)
  show ?case
    using comparator.cmp_refl [OF assms] by simp
next
  case (2 x y)
  show ?case
    using comparator.cmp_swap [OF assms, of "k x" x y] by auto
next
  case (3 x y z)
  show ?case
  proof (cases "k x = k y \<and> k y = k z")
    case True
    then show ?thesis
      using 3 comparator.cmp_trans [OF assms, of "k x" x y z] by simp
  next
    case False
    then have "k x < k z"
      using 3 by (auto split: if_splits)
    then show ?thesis
      by simp
  qed
qed

text \<open>The order of \<open><\<close> on strings (by code unit), as a comparison function.\<close>

definition code_unit_compare :: "string \<Rightarrow> string \<Rightarrow> int" where
  "code_unit_compare l r = (if l < r then -1 else if r < l then 1 else 0)"

interpretation code_units: comparator code_unit_compare
  by unfold_locales (auto simp: code_unit_compare_def split: if_splits)

section \<open>Normalised collections of strings\<close>

definition collect_normalised :: "(string \<Rightarrow> string) \<Rightarrow> string list \<Rightarrow> string list" where
  "collect_normalised nf xs =
     fold (\<lambda>x acc. let n = nf x in if n = [] then acc else set_add n acc) xs []"

lemma collect_normalised_conv:
  "collect_normalised nf xs = js_set (filter (\<lambda>s. s \<noteq> []) (map nf xs))"
proof -
  have "fold (\<lambda>x acc. let n = nf x in if n = [] then acc else set_add n acc) xs acc
      = set_add_all (filter (\<lambda>s. s \<noteq> []) (map nf xs)) acc" for acc
    by (induction xs arbitrary: acc) (auto simp: set_add_all_def Let_def)
  then show ?thesis
    by (simp add: collect_normalised_def js_set_def)
qed

lemma distinct_collect_normalised [simp]: "distinct (collect_normalised nf xs)"
  by (simp add: collect_normalised_conv)

lemma set_collect_normalised: "set (collect_normalised nf xs) = nf ` set xs - {[]}"
  by (auto simp: collect_normalised_conv)

lemma Nil_notin_collect_normalised [simp]: "[] \<notin> set (collect_normalised nf xs)"
  by (simp add: set_collect_normalised)

locale normaliser =
  fixes nf :: "string \<Rightarrow> string"
  assumes nf_idem: "nf (nf s) = nf s"
    and nf_Nil: "nf [] = []"
begin

lemma collect_fixed: "s \<in> set (collect_normalised nf xs) \<Longrightarrow> nf s = s"
  by (auto simp: set_collect_normalised nf_idem)

lemma collect_id:
  "distinct xs \<Longrightarrow> (\<And>s. s \<in> set xs \<Longrightarrow> nf s = s \<and> s \<noteq> []) \<Longrightarrow> collect_normalised nf xs = xs"
proof -
  assume d: "distinct xs" and f: "\<And>s. s \<in> set xs \<Longrightarrow> nf s = s \<and> s \<noteq> []"
  then have "map nf xs = xs" and "filter (\<lambda>s. s \<noteq> []) xs = xs"
    by (auto intro: map_idI filter_True)
  with d show ?thesis
    by (simp add: collect_normalised_conv js_set_distinct)
qed

lemma collect_idem:
  "collect_normalised nf (collect_normalised nf xs) = collect_normalised nf xs"
  by (rule collect_id) (auto simp: collect_fixed dest: Nil_notin_collect_normalised [THEN notE, rotated])

end

interpretation trim: normaliser js_trim
  by unfold_locales simp_all

end
