(* ===== verification/TableColumns.thy ===== *)
theory TableColumns
  imports JsCollections
begin

text \<open>
  The column settings shared by both tables, \<^verbatim>\<open>src/src/app/tableColumns.ts\<close>: which columns are visible,
  in which order, how wide.  Column ids are strings, a width map is the list of the object's entries,
  and \<open>Partial<...>\<close> makes every field of \<open>partial_settings\<close> optional.  The locale
  \<open>column_catalogue\<close> states what a table's column list owes to these functions; the catalogues of
  the application interpret it in the theory \<open>ColumnCatalogue\<close>.
\<close>

section \<open>Data\<close>

datatype column_align = AlignLeft | AlignRight | AlignCenter

record table_column =
  tc_id :: string
  tc_label :: string
  tc_labelKey :: string
  tc_width :: jsnum
  tc_minWidth :: "int option"
  tc_align :: column_align
  tc_defaultVisible :: bool
  tc_alwaysVisible :: "bool option"

type_synonym width_map = "(string \<times> jsnum option) list"

record column_settings =
  cs_visible :: "string list"
  cs_order :: "string list"
  cs_widths :: width_map

record partial_settings =
  ps_visible :: "string list option"
  ps_order :: "string list option"
  ps_widths :: "width_map option"

definition as_partial :: "column_settings \<Rightarrow> partial_settings" where
  "as_partial s = \<lparr> ps_visible = Some (cs_visible s), ps_order = Some (cs_order s),
     ps_widths = Some (cs_widths s) \<rparr>"

datatype move_direction = MoveLeft | MoveRight

section \<open>Normalising\<close>

text \<open>\<open>Math.round\<close> followed by the two bounds.\<close>

definition clampColumnWidth :: "rat \<Rightarrow> table_column \<Rightarrow> int" where
  "clampColumnWidth width column =
     min 520 (max (nullish (tc_minWidth column) 64) \<lfloor>width + 1 / 2\<rfloor>)"

definition uniqueColumnIds :: "string list \<Rightarrow> string list" where
  "uniqueColumnIds ids = fold (\<lambda>id result. if id \<in> set result then result else result @ [id]) ids []"

text \<open>\<open>new Map(columns.map(c => [c.id, c]))\<close>: the last column of an id wins.\<close>

definition column_map :: "table_column list \<Rightarrow> string \<Rightarrow> table_column option" where
  "column_map columns = map_of (rev (map (\<lambda>c. (tc_id c, c)) columns))"

definition normalizeColumnWidthsMap ::
    "width_map option \<Rightarrow> (string \<Rightarrow> table_column option) \<Rightarrow> width_map" where
  "normalizeColumnWidthsMap columnWidths availableColumns =
     (case columnWidths of
        None \<Rightarrow> []
      | Some widths \<Rightarrow>
          fold (\<lambda>(key, value) normalized.
             case (availableColumns key, value) of
               (Some column, Some (Fin w)) \<Rightarrow>
                 AList.update key (Some (Fin (of_int (clampColumnWidth w column)))) normalized
             | _ \<Rightarrow> normalized) widths [])"

definition normalizeGenericColumnSettings ::
    "table_column list \<Rightarrow> string list \<Rightarrow> string list \<Rightarrow> partial_settings option \<Rightarrow> string list option
      \<Rightarrow> column_settings" where
  "normalizeGenericColumnSettings columns defaultVisibleIds defaultOrderIds settings availableColumnIds =
     (let ids = map tc_id columns;
          available = nullish availableColumnIds ids;
          incomingVisible = nullish (Option.bind settings ps_visible) defaultVisibleIds;
          visibleColumnIds = filter (\<lambda>id. id \<in> set available) incomingVisible;
          incomingOrder = nullish (Option.bind settings ps_order) defaultOrderIds;
          orderedIds = uniqueColumnIds (filter (\<lambda>id. id \<in> set available) incomingOrder);
          missingOrderedIds =
            filter (\<lambda>id. id \<in> set available \<and> id \<notin> set orderedIds) defaultOrderIds;
          push = (\<lambda>id acc. if id \<noteq> ''name'' \<and> id \<notin> set acc then acc @ [id] else acc);
          order0 = (if ''name'' \<in> set ids \<and> ''name'' \<in> set available then [''name''] else []);
          order1 = fold push orderedIds order0;
          columnOrderIds = fold push missingOrderedIds order1;
          visible =
            fold (\<lambda>col acc.
               if nullish (tc_alwaysVisible col) False \<and> tc_id col \<in> set available
                  \<and> tc_id col \<notin> set acc
               then tc_id col # acc else acc) columns visibleColumnIds
      in \<lparr> cs_visible = uniqueColumnIds visible, cs_order = columnOrderIds,
           cs_widths = normalizeColumnWidthsMap (Option.bind settings ps_widths) (column_map columns) \<rparr>)"

section \<open>Operations\<close>

definition toggleGenericColumnVisibility ::
    "table_column list \<Rightarrow> string list \<Rightarrow> string list \<Rightarrow> column_settings \<Rightarrow> string
      \<Rightarrow> string list option \<Rightarrow> column_settings" where
  "toggleGenericColumnVisibility columns defaultVisibleIds defaultOrderIds settings columnId availableColumnIds =
     (let colDef = find (\<lambda>c. tc_id c = columnId) columns
      in if columnId = ''name'' \<or> nullish (Option.bind colDef tc_alwaysVisible) False
         then normalizeGenericColumnSettings columns defaultVisibleIds defaultOrderIds
                (Some (as_partial settings)) availableColumnIds
         else normalizeGenericColumnSettings columns defaultVisibleIds defaultOrderIds
                (Some (as_partial
                   (settings\<lparr> cs_visible := set_toggle columnId (js_set (cs_visible settings)) \<rparr>)))
                availableColumnIds)"

text \<open>The new width is a JavaScript number; rounding and clamping a value that is not finite gives
  \<open>NaN\<close>, or a bound for an infinity, and only a finite result is kept.\<close>

fun clamp_number :: "jsnum \<Rightarrow> table_column \<Rightarrow> jsnum" where
  "clamp_number (Fin w) column = Fin (of_int (clampColumnWidth w column))"
| "clamp_number PosInf column = Fin 520"
| "clamp_number NegInf column = Fin (of_int (min 520 (nullish (tc_minWidth column) 64)))"
| "clamp_number NaN column = NaN"

definition setGenericColumnWidth ::
    "table_column list \<Rightarrow> string list \<Rightarrow> string list \<Rightarrow> column_settings \<Rightarrow> string \<Rightarrow> jsnum
      \<Rightarrow> string list option \<Rightarrow> column_settings" where
  "setGenericColumnWidth columns defaultVisibleIds defaultOrderIds settings columnId width availableColumnIds =
     (case find (\<lambda>c. tc_id c = columnId) columns of
        None \<Rightarrow>
          normalizeGenericColumnSettings columns defaultVisibleIds defaultOrderIds
            (Some (as_partial settings)) availableColumnIds
      | Some column \<Rightarrow>
          normalizeGenericColumnSettings columns defaultVisibleIds defaultOrderIds
            (Some (as_partial
               (settings\<lparr> cs_widths :=
                  AList.update columnId (Some (clamp_number width column)) (cs_widths settings) \<rparr>)))
            availableColumnIds)"

definition swap_at :: "nat \<Rightarrow> nat \<Rightarrow> 'a list \<Rightarrow> 'a list" where
  "swap_at i j xs = xs[i := xs ! j, j := xs ! i]"

definition moveGenericColumn ::
    "table_column list \<Rightarrow> string list \<Rightarrow> string list \<Rightarrow> column_settings \<Rightarrow> string \<Rightarrow> move_direction
      \<Rightarrow> string list option \<Rightarrow> column_settings" where
  "moveGenericColumn columns defaultVisibleIds defaultOrderIds settings columnId direction availableColumnIds =
     (let normalized =
            normalizeGenericColumnSettings columns defaultVisibleIds defaultOrderIds
              (Some (as_partial settings)) availableColumnIds
      in if columnId = ''name'' then normalized
         else (let order = cs_order normalized;
                   visibleOrder = filter (\<lambda>id. id \<in> set (cs_visible normalized)) order;
                   currentVisibleIndex = indexOf columnId visibleOrder;
                   nextVisibleIndex =
                     (if direction = MoveLeft then currentVisibleIndex - 1 else currentVisibleIndex + 1)
               in if currentVisibleIndex \<le> 0 \<or> nextVisibleIndex \<le> 0
                     \<or> nextVisibleIndex \<ge> int (length visibleOrder)
                  then normalized
                  else (let targetColumnId = visibleOrder ! nat nextVisibleIndex;
                            currentIndex = indexOf columnId order;
                            nextIndex = indexOf targetColumnId order
                        in normalizeGenericColumnSettings columns defaultVisibleIds defaultOrderIds
                             (Some (as_partial
                                (normalized\<lparr> cs_order := swap_at (nat currentIndex) (nat nextIndex) order \<rparr>)))
                             availableColumnIds)))"

definition splice_out :: "nat \<Rightarrow> 'a list \<Rightarrow> 'a list" where
  "splice_out i xs = take i xs @ drop (Suc i) xs"

definition splice_in :: "nat \<Rightarrow> 'a \<Rightarrow> 'a list \<Rightarrow> 'a list" where
  "splice_in i x xs = take i xs @ x # drop i xs"

definition reorderGenericColumn ::
    "table_column list \<Rightarrow> string list \<Rightarrow> string list \<Rightarrow> column_settings \<Rightarrow> string \<Rightarrow> string
      \<Rightarrow> string list option \<Rightarrow> column_settings" where
  "reorderGenericColumn columns defaultVisibleIds defaultOrderIds settings sourceColumnId targetColumnId
      availableColumnIds =
     (let normalized =
            normalizeGenericColumnSettings columns defaultVisibleIds defaultOrderIds
              (Some (as_partial settings)) availableColumnIds
      in if sourceColumnId = ''name'' \<or> targetColumnId = ''name'' \<or> sourceColumnId = targetColumnId
         then normalized
         else (let order = cs_order normalized;
                   sourceIndex = indexOf sourceColumnId order;
                   targetIndex = indexOf targetColumnId order
               in if sourceIndex \<le> 0 \<or> targetIndex \<le> 0 then normalized
                  else normalizeGenericColumnSettings columns defaultVisibleIds defaultOrderIds
                         (Some (as_partial
                            (normalized\<lparr> cs_order :=
                               splice_in (nat targetIndex) sourceColumnId
                                 (splice_out (nat sourceIndex) order) \<rparr>)))
                         availableColumnIds))"

text \<open>\<open>columnsById.get(id)!\<close> is \<open>undefined\<close> for an id that is no column, and reading its
  width throws: that case is \<open>None\<close>.\<close>

definition visible_column :: "table_column list \<Rightarrow> width_map \<Rightarrow> string \<Rightarrow> table_column option" where
  "visible_column columns widths cid =
     (case column_map columns cid of
        None \<Rightarrow> None
      | Some column \<Rightarrow>
          Some (column\<lparr> tc_width := nullish (Option.bind (map_of widths cid) (\<lambda>w. w)) (tc_width column) \<rparr>))"

definition visibleGenericColumns ::
    "table_column list \<Rightarrow> string list \<Rightarrow> string list \<Rightarrow> column_settings \<Rightarrow> string list option
      \<Rightarrow> table_column list option" where
  "visibleGenericColumns columns defaultVisibleIds defaultOrderIds settings availableColumnIds =
     (let normalized =
            normalizeGenericColumnSettings columns defaultVisibleIds defaultOrderIds
              (Some (as_partial settings)) availableColumnIds;
          found = map (visible_column columns (cs_widths normalized))
                    (filter (\<lambda>id. id \<in> set (cs_visible normalized)) (cs_order normalized))
      in if None \<in> set found then None else Some (map the found))"

section \<open>Visibility resolver\<close>

definition filterToCanonicalOrder :: "string list \<Rightarrow> string list \<Rightarrow> string list" where
  "filterToCanonicalOrder canonicalOrder ids = filter (\<lambda>id. id \<in> set ids) canonicalOrder"

definition intersectVisibleColumns :: "string list \<Rightarrow> string list \<Rightarrow> string list" where
  "intersectVisibleColumns candidates allowed = filter (set_has allowed) candidates"

definition resolveWorkspaceVisibility ::
    "string list \<Rightarrow> string list option \<Rightarrow> string list \<Rightarrow> string \<Rightarrow> string list" where
  "resolveWorkspaceVisibility configuredDefaults localOverrides available nameId =
     (let source = nullish localOverrides configuredDefaults;
          visible0 = (if set_has available nameId then set_add nameId [] else [])
      in fold (\<lambda>id visible. if set_has available id then set_add id visible else visible) source visible0)"

fun dedupe_known :: "string list \<Rightarrow> string list \<Rightarrow> string list \<Rightarrow> string list option" where
  "dedupe_known known deduped [] = Some deduped"
| "dedupe_known known deduped (cid # ids) =
     (if cid \<notin> set known then None
      else if cid \<in> set deduped then None
      else dedupe_known known (deduped @ [cid]) ids)"

definition validateCompressCapabilitySet ::
    "string list option \<Rightarrow> string list \<Rightarrow> string list \<Rightarrow> string list" where
  "validateCompressCapabilitySet capabilitySet safeBaseIds allKnownCompressIds =
     (case capabilitySet of
        None \<Rightarrow> safeBaseIds
      | Some ids \<Rightarrow>
          if ids = [] then safeBaseIds
          else (case dedupe_known allKnownCompressIds [] ids of
                  None \<Rightarrow> safeBaseIds
                | Some deduped \<Rightarrow>
                    if list_ex (\<lambda>requiredId. requiredId \<notin> set deduped) safeBaseIds then safeBaseIds
                    else deduped))"

definition clampColumnSettingsToAvailableSet ::
    "string list \<Rightarrow> string list \<Rightarrow> string list \<Rightarrow> string list
      \<Rightarrow> string list \<times> string list \<times> string list" where
  "clampColumnSettingsToAvailableSet visibleIds orderIds widthKeys available =
     (filter (set_has available) visibleIds, filter (set_has available) orderIds,
      filter (set_has available) widthKeys)"

section \<open>Normal settings\<close>

text \<open>
  The settings every operation returns: duplicate-free lists of known columns, the name column visible
  and first in the order, the order complete, and each width an integer within the column's bounds.
\<close>

definition width_ok :: "table_column list \<Rightarrow> string \<times> jsnum option \<Rightarrow> bool" where
  "width_ok columns kv \<longleftrightarrow>
     (case (column_map columns (fst kv), snd kv) of
        (Some column, Some (Fin w)) \<Rightarrow> w = of_int (clampColumnWidth w column)
      | _ \<Rightarrow> False)"

definition normal_settings :: "table_column list \<Rightarrow> column_settings \<Rightarrow> bool" where
  "normal_settings columns s \<longleftrightarrow>
     distinct (cs_visible s) \<and> set (cs_visible s) \<subseteq> tc_id ` set columns \<and> ''name'' \<in> set (cs_visible s)
     \<and> distinct (cs_order s) \<and> set (cs_order s) = tc_id ` set columns \<and> hd (cs_order s) = ''name''
     \<and> distinct (map fst (cs_widths s)) \<and> (\<forall>kv \<in> set (cs_widths s). width_ok columns kv)"

lemma uniqueColumnIds_eq: "uniqueColumnIds ids = js_set ids"
  by (simp add: uniqueColumnIds_def js_set_def set_add_all_def set_add_def [abs_def])

lemma push_fold:
  "fold (\<lambda>id acc. if id \<noteq> ''name'' \<and> id \<notin> set acc then acc @ [id] else acc) xs acc
     = set_add_all (filter (\<lambda>id. id \<noteq> ''name'') xs) acc"
  by (induction xs arbitrary: acc) (auto simp: set_add_all_def set_add_def)

lemma clamp_idem: "clampColumnWidth (of_int (clampColumnWidth w c)) c = clampColumnWidth w c"
proof -
  have "\<lfloor>of_int z + 1 / 2 :: rat\<rfloor> = z" for z
    by linarith
  then show ?thesis
    by (simp add: clampColumnWidth_def)
qed

lemma clamp_bounds:
  "nullish (tc_minWidth c) 64 \<le> 520 \<Longrightarrow>
     nullish (tc_minWidth c) 64 \<le> clampColumnWidth w c \<and> clampColumnWidth w c \<le> 520"
  by (simp add: clampColumnWidth_def)

lemma widths_fold:
  fixes acc :: width_map
  assumes "distinct (map fst acc)" and "\<forall>kv \<in> set acc. width_ok columns kv"
  shows "let r = fold (\<lambda>(key, value) normalized.
             case (column_map columns key, value) of
               (Some column, Some (Fin w)) \<Rightarrow>
                 AList.update key (Some (Fin (of_int (clampColumnWidth w column)))) normalized
             | _ \<Rightarrow> normalized) widths acc
     in distinct (map fst r) \<and> (\<forall>kv \<in> set r. width_ok columns kv)"
  using assms
proof (induction widths arbitrary: acc)
  case (Cons kv widths)
  obtain key val where kv: "kv = (key, val)"
    by (cases kv)
  show ?case
  proof (cases "\<exists>column w. column_map columns key = Some column \<and> val = Some (Fin w)")
    case True
    then obtain column w where c: "column_map columns key = Some column" "val = Some (Fin w)"
      by blast
    let ?acc = "AList.update key (Some (Fin (of_int (clampColumnWidth w column)))) acc"
    have d: "distinct (map fst ?acc)"
      using Cons.prems(1) by (rule distinct_update)
    have "width_ok columns kv'" if "kv' \<in> set ?acc" for kv'
    proof -
      obtain k v where k: "kv' = (k, v)"
        by (cases kv')
      then have "(k = key \<and> v = Some (Fin (of_int (clampColumnWidth w column)))) \<or> (k, v) \<in> set acc"
        using in_set_update [OF Cons.prems(1)] that by blast
      then show ?thesis
      proof
        assume "k = key \<and> v = Some (Fin (of_int (clampColumnWidth w column)))"
        with k c show ?thesis
          by (simp add: width_ok_def clamp_idem)
      qed (use Cons.prems(2) k in blast)
    qed
    then show ?thesis
      using Cons.IH [of ?acc] d c kv by simp
  next
    case False
    then have "(case (column_map columns key, val) of (Some column, Some (Fin w)) \<Rightarrow>
          AList.update key (Some (Fin (of_int (clampColumnWidth w column)))) acc
        | _ \<Rightarrow> acc) = acc"
      by (auto split: option.split jsnum.split)
    with Cons kv show ?thesis
      by simp
  qed
qed simp

lemma normal_widths:
  "distinct (map fst (normalizeColumnWidthsMap widths (column_map columns)))
   \<and> (\<forall>kv \<in> set (normalizeColumnWidthsMap widths (column_map columns)). width_ok columns kv)"
  using widths_fold [of "[]" columns] by (cases widths) (auto simp: normalizeColumnWidthsMap_def Let_def)

lemma update_fresh: "k \<notin> fst ` set al \<Longrightarrow> AList.update k v al = al @ [(k, v)]"
  by (induction al) auto

lemma widths_fixed:
  assumes "distinct (map fst widths)" and "\<forall>kv \<in> set widths. width_ok columns kv"
  shows "normalizeColumnWidthsMap (Some widths) (column_map columns) = widths"
proof -
  have "fold (\<lambda>(key, value) normalized.
             case (column_map columns key, value) of
               (Some column, Some (Fin w)) \<Rightarrow>
                 AList.update key (Some (Fin (of_int (clampColumnWidth w column)))) normalized
             | _ \<Rightarrow> normalized) ws acc = acc @ ws"
    if "distinct (map fst (acc @ ws))" and "\<forall>kv \<in> set ws. width_ok columns kv" for acc ws
    using that
  proof (induction ws arbitrary: acc)
    case (Cons kv ws)
    obtain key val where kv: "kv = (key, val)"
      by (cases kv)
    then obtain column w where c: "column_map columns key = Some column" "val = Some (Fin w)"
      "w = of_int (clampColumnWidth w column)"
      using Cons.prems(2) by (auto simp: width_ok_def split: option.splits jsnum.splits)
    have "AList.update key (Some (Fin w)) acc = acc @ [kv]"
      using Cons.prems(1) kv c(2) by (auto intro: update_fresh)
    then have "(case (column_map columns key, val) of (Some column, Some (Fin w)) \<Rightarrow>
          AList.update key (Some (Fin (of_int (clampColumnWidth w column)))) acc
        | _ \<Rightarrow> acc) = acc @ [kv]"
      unfolding c(1,2) using c(3) by simp
    then show ?case
      using Cons.IH [of "acc @ [kv]"] Cons.prems kv by simp
  qed simp
  from this [of "[]" widths] assms show ?thesis
    by (simp add: normalizeColumnWidthsMap_def)
qed

lemma swap_split:
  "swap_at (length (as @ t # bs)) (length as) (as @ t # bs @ c # cs) = as @ c # bs @ t # cs"
  "swap_at (length as) (length (as @ t # bs)) (as @ t # bs @ c # cs) = as @ c # bs @ t # cs"
proof -
  have nth: "(as @ t # bs @ c # cs) ! length (as @ t # bs) = c"
    by (simp add: nth_append)
  have "(as @ c # bs @ c # cs)[length (as @ t # bs) := t] = as @ c # bs @ t # cs"
    using list_update_middle [of "as @ c # bs" c cs t] by simp
  moreover have "(as @ t # bs @ c # cs)[length (as @ t # bs) := t] = as @ t # bs @ t # cs"
    using list_update_middle [of "as @ t # bs" c cs t] by simp
  ultimately show "swap_at (length (as @ t # bs)) (length as) (as @ t # bs @ c # cs) = as @ c # bs @ t # cs"
    and "swap_at (length as) (length (as @ t # bs)) (as @ t # bs @ c # cs) = as @ c # bs @ t # cs"
    using nth by (simp_all add: swap_at_def list_update_middle)
qed

lemma filter_adjacent:
  assumes "filter P xs = us @ t # c # ws"
  obtains as bs cs where "xs = as @ t # bs @ c # cs" "filter P as = us" "filter P bs = []" "filter P cs = ws"
    "P t" "P c"
proof -
  from assms obtain as rest where 1: "xs = as @ rest" "filter P as = us" "filter P rest = t # c # ws"
    by (auto dest: filter_eq_append)
  from filter_eq_ConsD [OF 1(3)] obtain bs0 rest' where 2: "rest = bs0 @ t # rest'"
    "\<forall>u \<in> set bs0. \<not> P u" "P t" "c # ws = filter P rest'"
    by blast
  from filter_eq_ConsD [OF 2(4) [symmetric]] obtain bs cs where 3: "rest' = bs @ c # cs"
    "\<forall>u \<in> set bs. \<not> P u" "P c" "ws = filter P cs"
    by blast
  show ?thesis
    by (rule that [of "as @ bs0" bs cs]) (use 1 2 3 in \<open>simp_all add: filter_empty_conv\<close>)
qed

lemma distinct_split_unique:
  "as @ c # bs = as' @ c # bs' \<Longrightarrow> distinct (as @ c # bs) \<Longrightarrow> as = as' \<and> bs = bs'"
proof (induction as arbitrary: as')
  case Nil
  then show ?case
    by (cases as') auto
next
  case (Cons a as)
  then show ?case
    by (cases as') auto
qed

lemma splice_facts:
  assumes "distinct xs" and "i < length xs" and "j < length xs"
  defines "ys \<equiv> splice_in j (xs ! i) (splice_out i xs)"
  shows "mset ys = mset xs" and "ys ! j = xs ! i" and "length ys = length xs"
    and "filter (\<lambda>x. x \<noteq> xs ! i) ys = filter (\<lambda>x. x \<noteq> xs ! i) xs"
    and "0 < i \<Longrightarrow> 0 < j \<Longrightarrow> hd ys = hd xs"
proof -
  have xs: "xs = take i xs @ xs ! i # drop (Suc i) xs"
    using assms(2) by (rule id_take_nth_drop)
  have out: "mset (splice_out i xs) + {#xs ! i#} = mset xs"
    unfolding splice_out_def by (subst (3) xs) simp
  have len: "length (splice_out i xs) = length xs - 1"
    using assms(2) by (simp add: splice_out_def)
  have "mset ys = add_mset (xs ! i) (mset (take j (splice_out i xs)) + mset (drop j (splice_out i xs)))"
    by (simp add: ys_def splice_in_def)
  also have "\<dots> = add_mset (xs ! i) (mset (splice_out i xs))"
    by (metis append_take_drop_id mset_append)
  finally show ms: "mset ys = mset xs"
    using out by simp
  then show "length ys = length xs"
    by (metis size_mset)
  show "ys ! j = xs ! i"
    using assms(3) len by (simp add: ys_def splice_in_def nth_append)
  have "xs ! i \<notin> set (splice_out i xs)"
    using assms(1) unfolding splice_out_def by (subst (asm) xs) auto
  then have f: "filter (\<lambda>x. x \<noteq> xs ! i) (splice_out i xs) = splice_out i xs"
    by (auto intro: filter_True)
  have "filter (\<lambda>x. x \<noteq> xs ! i) ys = filter (\<lambda>x. x \<noteq> xs ! i) (take j (splice_out i xs) @ drop j (splice_out i xs))"
    by (simp add: ys_def splice_in_def del: append_take_drop_id)
  also have "\<dots> = splice_out i xs"
    by (simp only: append_take_drop_id f)
  also have "\<dots> = filter (\<lambda>x. x \<noteq> xs ! i) xs"
    using f unfolding splice_out_def by (subst (2) xs) simp
  finally show "filter (\<lambda>x. x \<noteq> xs ! i) ys = filter (\<lambda>x. x \<noteq> xs ! i) xs" .
  assume "0 < i" "0 < j"
  then show "hd ys = hd xs"
    using assms(2,3) by (cases xs; cases i; cases j) (auto simp: ys_def splice_in_def splice_out_def)
qed

section \<open>What a column list owes, and what it gets\<close>

locale column_catalogue =
  fixes columns :: "table_column list"
    and defaultVisible :: "string list"
    and defaultOrder :: "string list"
  assumes distinct_ids: "distinct (map tc_id columns)"
    and name_id: "''name'' \<in> tc_id ` set columns"
    and always_name: "c \<in> set columns \<Longrightarrow> nullish (tc_alwaysVisible c) False \<longleftrightarrow> tc_id c = ''name''"
    and order_complete: "set defaultOrder = tc_id ` set columns"
    and min_width: "c \<in> set columns \<Longrightarrow> nullish (tc_minWidth c) 64 \<le> 520"
begin

lemma always_fold:
  assumes "set cols \<subseteq> set columns" and "''name'' \<in> set acc"
  shows "fold (\<lambda>col acc. if nullish (tc_alwaysVisible col) False \<and> tc_id col \<in> A \<and> tc_id col \<notin> set acc
               then tc_id col # acc else acc) cols acc = acc"
  using assms(1) by (induction cols) (use assms(2) always_name in auto)

lemma always_fold_name:
  assumes "set cols \<subseteq> set columns" and "''name'' \<notin> set acc" and "''name'' \<in> A"
  shows "fold (\<lambda>col acc. if nullish (tc_alwaysVisible col) False \<and> tc_id col \<in> A \<and> tc_id col \<notin> set acc
               then tc_id col # acc else acc) cols acc
      = (if ''name'' \<in> tc_id ` set cols then ''name'' # acc else acc)"
  using assms(1)
proof (induction cols)
  case (Cons col cols)
  show ?case
  proof (cases "tc_id col = ''name''")
    case True
    then show ?thesis
      using Cons.prems assms always_name always_fold [of cols "''name'' # acc" A] by simp
  next
    case False
    then show ?thesis
      using Cons always_name by auto
  qed
qed simp

lemma visible_fold:
  "fold (\<lambda>col acc. if nullish (tc_alwaysVisible col) False \<and> tc_id col \<in> tc_id ` set columns
               \<and> tc_id col \<notin> set acc then tc_id col # acc else acc) columns acc
      = (if ''name'' \<in> set acc then acc else ''name'' # acc)"
  using always_fold [of columns acc] always_fold_name [of columns acc] name_id by simp

lemma normalize_eq:
  "normalizeGenericColumnSettings columns defaultVisible defaultOrder ps None =
     (let vis = filter (\<lambda>id. id \<in> tc_id ` set columns) (nullish (Option.bind ps ps_visible) defaultVisible);
          ord = js_set (filter (\<lambda>id. id \<in> tc_id ` set columns) (nullish (Option.bind ps ps_order) defaultOrder))
      in \<lparr> cs_visible = js_set (if ''name'' \<in> set vis then vis else ''name'' # vis),
           cs_order = set_add_all (filter (\<lambda>id. id \<noteq> ''name'') 
              (filter (\<lambda>id. id \<in> tc_id ` set columns \<and> id \<notin> set ord) defaultOrder))
              (set_add_all (filter (\<lambda>id. id \<noteq> ''name'') ord) [''name'']),
           cs_widths = normalizeColumnWidthsMap (Option.bind ps ps_widths) (column_map columns) \<rparr>)"
  using name_id
  by (simp add: normalizeGenericColumnSettings_def Let_def uniqueColumnIds_eq push_fold visible_fold)

lemma normalize_normal:
  "normal_settings columns (normalizeGenericColumnSettings columns defaultVisible defaultOrder ps None)"
proof -
  let ?ids = "tc_id ` set columns"
  let ?ord = "js_set (filter (\<lambda>id. id \<in> ?ids) (nullish (Option.bind ps ps_order) defaultOrder))"
  let ?o1 = "set_add_all (filter (\<lambda>id. id \<noteq> ''name'') ?ord) [''name'']"
  let ?o2 = "set_add_all (filter (\<lambda>id. id \<noteq> ''name'')
      (filter (\<lambda>id. id \<in> ?ids \<and> id \<notin> set ?ord) defaultOrder)) ?o1"
  have "set ?o2 = ?ids"
    using name_id order_complete by auto
  moreover have "distinct ?o2"
    by simp
  moreover have "hd ?o2 = ''name''"
    by (simp add: hd_set_add_all set_add_all_neq_Nil)
  ultimately show ?thesis
    unfolding normalize_eq Let_def normal_settings_def
    using name_id normal_widths [of "Option.bind ps ps_widths" columns] by (auto split: if_splits)
qed

lemma normalize_fixed:
  assumes "normal_settings columns s"
  shows "normalizeGenericColumnSettings columns defaultVisible defaultOrder (Some (as_partial s)) None = s"
proof -
  let ?ids = "tc_id ` set columns"
  have vis: "filter (\<lambda>id. id \<in> ?ids) (cs_visible s) = cs_visible s"
    and ord: "filter (\<lambda>id. id \<in> ?ids) (cs_order s) = cs_order s"
    using assms by (auto simp: normal_settings_def filter_id_conv)
  have missing: "filter (\<lambda>id. id \<in> ?ids \<and> id \<notin> set (cs_order s)) defaultOrder = []"
    using assms by (auto simp: normal_settings_def filter_empty_conv)
  obtain rest where rest: "cs_order s = ''name'' # rest"
    using assms name_id by (cases "cs_order s") (auto simp: normal_settings_def)
  then have r: "filter (\<lambda>id. id \<noteq> ''name'') (cs_order s) = rest" and d: "distinct (''name'' # rest)"
    using assms by (auto simp: normal_settings_def filter_id_conv)
  have "set_add_all rest [''name''] = ''name'' # rest"
    using set_add_all_fresh [of "[''name'']" rest] d by simp
  then have "set_add_all (filter (\<lambda>id. id \<noteq> ''name'') (cs_order s)) [''name''] = cs_order s"
    unfolding r by (simp add: rest)
  moreover have "set_add_all [] xs = xs" for xs :: "string list"
    by (simp add: set_add_all_def)
  ultimately show ?thesis
    using assms
    unfolding normalize_eq
    by (simp add: as_partial_def vis ord js_set_distinct missing widths_fixed normal_settings_def)
qed

lemma normal_name_Cons:
  "normal_settings columns s \<Longrightarrow> \<exists>rest. cs_order s = ''name'' # rest \<and> ''name'' \<notin> set rest \<and> distinct rest"
  using name_id by (cases "cs_order s") (auto simp: normal_settings_def)

lemma find_column:
  "find (\<lambda>c. tc_id c = k) columns = None \<longleftrightarrow> k \<notin> tc_id ` set columns"
  by (auto simp: find_None_iff)

lemma find_always:
  "nullish (Option.bind (find (\<lambda>c. tc_id c = k) columns) tc_alwaysVisible) False \<longleftrightarrow> k = ''name''"
proof (cases "find (\<lambda>c. tc_id c = k) columns")
  case None
  then have "k \<noteq> ''name''"
    using name_id find_column by blast
  with None show ?thesis
    by simp
next
  case (Some c)
  then have "c \<in> set columns" "tc_id c = k"
    by (auto simp: find_Some_iff)
  with Some always_name show ?thesis
    by simp
qed

lemma toggle_normal:
  "normal_settings columns
     (toggleGenericColumnVisibility columns defaultVisible defaultOrder s k None)"
  by (simp add: toggleGenericColumnVisibility_def normalize_normal Let_def)

lemma toggle_eq:
  assumes n: "normal_settings columns s"
  shows "toggleGenericColumnVisibility columns defaultVisible defaultOrder s k None =
     (if k = ''name'' \<or> k \<notin> tc_id ` set columns then s
      else s\<lparr> cs_visible := set_toggle k (cs_visible s) \<rparr>)"
proof -
  have js: "js_set (cs_visible s) = cs_visible s"
    using n by (simp add: normal_settings_def js_set_distinct)
  have "normalizeGenericColumnSettings columns defaultVisible defaultOrder
      (Some (as_partial (s\<lparr> cs_visible := set_toggle k (cs_visible s) \<rparr>))) None = s"
    if "k \<notin> tc_id ` set columns"
  proof -
    have fresh: "k \<notin> set (cs_visible s)"
      using n that by (auto simp: normal_settings_def)
    have "normalizeGenericColumnSettings columns defaultVisible defaultOrder
        (Some (as_partial (s\<lparr> cs_visible := set_toggle k (cs_visible s) \<rparr>))) None
      = normalizeGenericColumnSettings columns defaultVisible defaultOrder (Some (as_partial s)) None"
      using fresh that by (simp add: normalize_eq as_partial_def set_toggle_def set_has_def set_add_def)
    then show ?thesis
      using normalize_fixed [OF n] by simp
  qed
  moreover have "normal_settings columns (s\<lparr> cs_visible := set_toggle k (cs_visible s) \<rparr>)"
    if "k \<in> tc_id ` set columns" "k \<noteq> ''name''"
    using n that by (auto simp: normal_settings_def)
  ultimately show ?thesis
    using normalize_fixed n
    by (auto simp: toggleGenericColumnVisibility_def find_always js Let_def)
qed

lemma set_width_normal:
  "normal_settings columns
     (setGenericColumnWidth columns defaultVisible defaultOrder s k w None)"
  by (simp add: setGenericColumnWidth_def normalize_normal split: option.split)

lemma column_map_in: "c \<in> set columns \<Longrightarrow> column_map columns (tc_id c) = Some c"
proof -
  assume "c \<in> set columns"
  moreover have "distinct (map fst (rev (map (\<lambda>c. (tc_id c, c)) columns)))"
    using distinct_ids by (simp add: rev_map [symmetric] o_def)
  ultimately show ?thesis
    unfolding column_map_def by (intro map_of_is_SomeI) auto
qed

lemma column_map_dom: "column_map columns k = None \<longleftrightarrow> k \<notin> tc_id ` set columns"
  by (auto simp: column_map_def map_of_eq_None_iff image_image)

lemma set_width_eq:
  assumes n: "normal_settings columns s" and c: "c \<in> set columns"
  shows "setGenericColumnWidth columns defaultVisible defaultOrder s (tc_id c) (Fin w) None =
     s\<lparr> cs_widths := AList.update (tc_id c) (Some (Fin (of_int (clampColumnWidth w c)))) (cs_widths s) \<rparr>"
proof -
  let ?s = "s\<lparr> cs_widths := AList.update (tc_id c) (Some (Fin (of_int (clampColumnWidth w c)))) (cs_widths s) \<rparr>"
  have "find (\<lambda>d. tc_id d = tc_id c) columns = Some c"
  proof (cases "find (\<lambda>d. tc_id d = tc_id c) columns")
    case (Some d)
    then have "d \<in> set columns" "tc_id d = tc_id c"
      by (auto simp: find_Some_iff)
    with c Some show ?thesis
      using column_map_in by (metis option.inject)
  qed (use c in \<open>auto simp: find_None_iff\<close>)
  moreover have "normal_settings columns ?s"
  proof -
    have "width_ok columns kv" if "kv \<in> set (cs_widths ?s)" for kv
    proof -
      obtain k v where kv: "kv = (k, v)"
        by (cases kv)
      have "distinct (map fst (cs_widths s))"
        using n by (simp add: normal_settings_def)
      then have "(k = tc_id c \<and> v = Some (Fin (of_int (clampColumnWidth w c)))) \<or> (k, v) \<in> set (cs_widths s)"
        using in_set_update that kv by fastforce
      then show ?thesis
      proof
        assume "k = tc_id c \<and> v = Some (Fin (of_int (clampColumnWidth w c)))"
        then show ?thesis
          using kv c column_map_in by (simp add: width_ok_def clamp_idem)
      qed (use n kv in \<open>auto simp: normal_settings_def\<close>)
    qed
    then show ?thesis
      using n by (simp add: normal_settings_def distinct_update)
  qed
  ultimately show ?thesis
    using normalize_fixed [of ?s] by (simp add: setGenericColumnWidth_def)
qed

lemma move_normal:
  "normal_settings columns
     (moveGenericColumn columns defaultVisible defaultOrder s k d None)"
  by (simp add: moveGenericColumn_def normalize_normal Let_def)

lemma visible_order_name:
  "normal_settings columns s \<Longrightarrow>
     \<exists>rest. filter (\<lambda>id. id \<in> set (cs_visible s)) (cs_order s) = ''name'' # rest"
  using normal_name_Cons [of s] by (auto simp: normal_settings_def)

lemma move_swaps:
  assumes n: "normal_settings columns s"
    and vo: "filter (\<lambda>id. id \<in> set (cs_visible s)) (cs_order s) = us @ t # c # ws" and "us \<noteq> []"
    and dir: "(k = c \<and> d = MoveLeft) \<or> (k = t \<and> d = MoveRight)"
  shows "\<exists>as bs cs. cs_order s = as @ t # bs @ c # cs
    \<and> filter (\<lambda>id. id \<in> set (cs_visible s)) as = us
    \<and> filter (\<lambda>id. id \<in> set (cs_visible s)) bs = []
    \<and> filter (\<lambda>id. id \<in> set (cs_visible s)) cs = ws
    \<and> t \<in> set (cs_visible s) \<and> c \<in> set (cs_visible s)
    \<and> moveGenericColumn columns defaultVisible defaultOrder s k d None
        = s\<lparr> cs_order := as @ c # bs @ t # cs \<rparr>"
proof -
  let ?V = "\<lambda>id. id \<in> set (cs_visible s)"
  from vo obtain as bs cs where split: "cs_order s = as @ t # bs @ c # cs" "filter ?V as = us"
    "filter ?V bs = []" "filter ?V cs = ws" "?V t" "?V c"
    by (rule filter_adjacent)
  have dist: "distinct (as @ t # bs @ c # cs)"
    using n split(1) by (simp add: normal_settings_def)
  have dvo: "distinct (us @ t # c # ws)"
    using n vo by (metis distinct_filter normal_settings_def)
  obtain rest where "us @ t # c # ws = ''name'' # rest"
    using visible_order_name [OF n] vo by metis
  then have name: "''name'' \<in> set us"
    using assms(3) by (cases us) auto
  then have ne: "k \<noteq> ''name''"
    using dvo dir by auto
  have idx: "indexOf c (cs_order s) = int (length (as @ t # bs))" "indexOf t (cs_order s) = int (length as)"
    "indexOf c (us @ t # c # ws) = int (Suc (length us))" "indexOf t (us @ t # c # ws) = int (length us)"
    using dist dvo indexOf_append [of c "as @ t # bs" cs] indexOf_append [of t as]
      indexOf_append [of c "us @ [t]" ws] indexOf_append [of t us]
    by (auto simp: split(1))
  let ?s = "s\<lparr> cs_order := as @ c # bs @ t # cs \<rparr>"
  have "hd (as @ c # bs @ t # cs) = ''name''"
    using n split(1,2) assms(3) by (cases as) (auto simp: normal_settings_def)
  then have ns: "normal_settings columns ?s"
    using n split(1) dist by (auto simp: normal_settings_def)
  have nth: "(us @ t # c # ws) ! length us = t" "(us @ t # c # ws) ! Suc (length us) = c"
    by (simp_all add: nth_append)
  have "0 < length us"
    using assms(3) by simp
  have "moveGenericColumn columns defaultVisible defaultOrder s k d None = ?s"
    using dir
  proof
    assume k: "k = c \<and> d = MoveLeft"
    have "moveGenericColumn columns defaultVisible defaultOrder s k d None
        = normalizeGenericColumnSettings columns defaultVisible defaultOrder
            (Some (as_partial (s\<lparr> cs_order := swap_at (length (as @ t # bs)) (length as) (cs_order s) \<rparr>))) None"
      using ne k \<open>0 < length us\<close>
      by (simp add: moveGenericColumn_def normalize_fixed [OF n] vo idx nth Let_def)
    also have "\<dots> = ?s"
      unfolding split(1) swap_split by (rule normalize_fixed [OF ns])
    finally show ?thesis .
  next
    assume k: "k = t \<and> d = MoveRight"
    have "moveGenericColumn columns defaultVisible defaultOrder s k d None
        = normalizeGenericColumnSettings columns defaultVisible defaultOrder
            (Some (as_partial (s\<lparr> cs_order := swap_at (length as) (length (as @ t # bs)) (cs_order s) \<rparr>))) None"
      using ne k \<open>0 < length us\<close>
      by (simp add: moveGenericColumn_def normalize_fixed [OF n] vo idx nth nat_add_distrib Let_def)
    also have "\<dots> = ?s"
      unfolding split(1) swap_split by (rule normalize_fixed [OF ns])
    finally show ?thesis .
  qed
  with split show ?thesis
    by blast
qed

lemma move_left_visible:
  assumes "normal_settings columns s"
    and "filter (\<lambda>id. id \<in> set (cs_visible s)) (cs_order s) = us @ t # c # ws" and "us \<noteq> []"
  shows "let r = moveGenericColumn columns defaultVisible defaultOrder s c MoveLeft None
     in filter (\<lambda>id. id \<in> set (cs_visible r)) (cs_order r) = us @ c # t # ws
       \<and> cs_visible r = cs_visible s \<and> cs_widths r = cs_widths s
       \<and> moveGenericColumn columns defaultVisible defaultOrder r c MoveRight None = s"
proof -
  let ?V = "\<lambda>id. id \<in> set (cs_visible s)"
  from move_swaps [OF assms, of c MoveLeft] obtain as bs cs where sw:
    "cs_order s = as @ t # bs @ c # cs" "filter ?V as = us" "filter ?V bs = []" "filter ?V cs = ws"
    "?V t" "?V c" "moveGenericColumn columns defaultVisible defaultOrder s c MoveLeft None
      = s\<lparr> cs_order := as @ c # bs @ t # cs \<rparr>"
    by blast
  let ?r = "s\<lparr> cs_order := as @ c # bs @ t # cs \<rparr>"
  have vr: "filter (\<lambda>id. id \<in> set (cs_visible ?r)) (cs_order ?r) = us @ c # t # ws"
    using sw by simp
  have nr: "normal_settings columns ?r"
    using sw(7) move_normal by metis
  from move_swaps [OF nr vr assms(3), of c MoveRight] obtain as' bs' cs' where sw':
    "cs_order ?r = as' @ c # bs' @ t # cs'"
    "moveGenericColumn columns defaultVisible defaultOrder ?r c MoveRight None
      = ?r\<lparr> cs_order := as' @ t # bs' @ c # cs' \<rparr>"
    by blast
  have d: "distinct (as @ c # bs @ t # cs)"
    using nr by (simp add: normal_settings_def)
  have "as' @ c # bs' @ t # cs' = as @ c # bs @ t # cs"
    using sw'(1) by simp
  then have "as' = as \<and> bs' = bs \<and> cs' = cs"
    using d distinct_split_unique [of as' c "bs' @ t # cs'" as "bs @ t # cs"]
      distinct_split_unique [of bs' t cs' bs cs] by simp
  with sw' sw(1,7) vr show ?thesis
    by (simp add: Let_def)
qed

lemma reorder_normal:
  "normal_settings columns
     (reorderGenericColumn columns defaultVisible defaultOrder s k t None)"
  by (simp add: reorderGenericColumn_def normalize_normal Let_def)

lemma reorder_places:
  assumes n: "normal_settings columns s" and k: "k \<in> tc_id ` set columns" "k \<noteq> ''name''"
    and t: "t \<in> tc_id ` set columns" "t \<noteq> ''name''" and "k \<noteq> t"
  shows "let r = reorderGenericColumn columns defaultVisible defaultOrder s k t None
     in cs_visible r = cs_visible s \<and> cs_widths r = cs_widths s
       \<and> indexOf k (cs_order r) = indexOf t (cs_order s)
       \<and> filter (\<lambda>id. id \<noteq> k) (cs_order r) = filter (\<lambda>id. id \<noteq> k) (cs_order s)"
proof -
  let ?o = "cs_order s"
  have dist: "distinct ?o" and ids: "set ?o = tc_id ` set columns" and h: "hd ?o = ''name''"
    using n by (simp_all add: normal_settings_def)
  define i j where "i = nat (indexOf k ?o)" and "j = nat (indexOf t ?o)"
  have i: "i < length ?o" "?o ! i = k" and j: "j < length ?o" "?o ! j = t"
    using indexOf_nth [of k ?o] indexOf_nth [of t ?o] k t ids by (auto simp: i_def j_def)
  have "?o \<noteq> []"
    using i by auto
  then have "?o ! 0 = ''name''"
    using h by (simp add: hd_conv_nth)
  then have pos: "0 < i" "0 < j"
    using i(2) j(2) k(2) t(2) by (metis gr0I)+
  then have idx: "indexOf k ?o = int i" "indexOf t ?o = int j"
    unfolding i_def j_def by simp_all
  define ys where "ys = splice_in j (?o ! i) (splice_out i ?o)"
  note ys = splice_facts [OF dist i(1) j(1), folded ys_def]
  have "distinct ys" and "set ys = set ?o" and "hd ys = ''name''"
    using ys(1,5) dist h pos by (metis mset_eq_imp_distinct_iff, metis mset_eq_setD, metis)
  then have ns: "normal_settings columns (s\<lparr> cs_order := ys \<rparr>)"
    using n by (simp add: normal_settings_def)
  have "reorderGenericColumn columns defaultVisible defaultOrder s k t None
      = normalizeGenericColumnSettings columns defaultVisible defaultOrder
          (Some (as_partial (s\<lparr> cs_order := splice_in j k (splice_out i ?o) \<rparr>))) None"
    unfolding reorderGenericColumn_def normalize_fixed [OF n] idx Let_def
    using k(2) t(2) assms(6) pos by simp
  also have "splice_in j k (splice_out i ?o) = ys"
    using i(2) by (simp add: ys_def)
  also have "normalizeGenericColumnSettings columns defaultVisible defaultOrder
          (Some (as_partial (s\<lparr> cs_order := ys \<rparr>))) None = s\<lparr> cs_order := ys \<rparr>"
    by (rule normalize_fixed [OF ns])
  finally have r: "reorderGenericColumn columns defaultVisible defaultOrder s k t None
      = s\<lparr> cs_order := ys \<rparr>" .
  have "indexOf k ys = int j"
    using indexOf_distinct [of ys j] \<open>distinct ys\<close> ys(2,3) i(2) j(1) by simp
  then show ?thesis
    unfolding r Let_def using ys(4) i(2) idx by simp
qed

lemma visible_columns_eq:
  "\<exists>cols. visibleGenericColumns columns defaultVisible defaultOrder s None = Some cols
     \<and> map tc_id cols = filter (\<lambda>id. id \<in> set (cs_visible (normalizeGenericColumnSettings columns
          defaultVisible defaultOrder (Some (as_partial s)) None)))
        (cs_order (normalizeGenericColumnSettings columns defaultVisible defaultOrder (Some (as_partial s)) None))
     \<and> (\<exists>c rest. cols = c # rest \<and> tc_id c = ''name'')"
proof -
  let ?n = "normalizeGenericColumnSettings columns defaultVisible defaultOrder (Some (as_partial s)) None"
  let ?ids = "filter (\<lambda>id. id \<in> set (cs_visible ?n)) (cs_order ?n)"
  let ?found = "map (visible_column columns (cs_widths ?n)) ?ids"
  have n: "normal_settings columns ?n"
    by (rule normalize_normal)
  have col: "\<exists>c. visible_column columns (cs_widths ?n) k = Some c \<and> tc_id c = k" if "k \<in> set ?ids" for k
  proof -
    have "k \<in> tc_id ` set columns"
      using n that by (auto simp: normal_settings_def)
    then obtain c where "c \<in> set columns" "k = tc_id c"
      by auto
    then show ?thesis
      using column_map_in by (simp add: visible_column_def)
  qed
  then have none: "None \<notin> set ?found"
    by force
  have ids: "map tc_id (map the ?found) = ?ids"
    unfolding map_map
  proof (rule map_idI)
    fix k assume "k \<in> set ?ids"
    then show "(tc_id \<circ> (the \<circ> visible_column columns (cs_widths ?n))) k = k"
      using col [of k] by auto
  qed
  obtain rest where rest: "?ids = ''name'' # rest"
    using visible_order_name [OF n] by blast
  define cols where "cols = map the ?found"
  have "map tc_id cols = ''name'' # rest"
    unfolding cols_def ids by (rule rest)
  then have "\<exists>c rest. cols = c # rest \<and> tc_id c = ''name''"
    by (auto simp: map_eq_Cons_conv)
  moreover have "visibleGenericColumns columns defaultVisible defaultOrder s None = Some cols"
    using none unfolding visibleGenericColumns_def Let_def cols_def by (simp only: if_False)
  moreover have "map tc_id cols = ?ids"
    unfolding cols_def by (rule ids)
  ultimately show ?thesis
    by (intro exI [of _ cols] conjI)
qed

end

section \<open>The visibility resolver\<close>

lemma dedupe_known_eq:
  "distinct acc \<Longrightarrow> dedupe_known known acc ids =
     (if distinct (acc @ ids) \<and> set ids \<subseteq> set known then Some (acc @ ids) else None)"
proof (induction ids arbitrary: acc)
  case (Cons i ids)
  show ?case
    using Cons.IH [of "acc @ [i]"] Cons.prems by auto
qed simp

end
