(* ===== verification/ColumnCatalogue.thy ===== *)
theory ColumnCatalogue
  imports TableColumns
begin

text \<open>
  The column catalogue of the application: \<^verbatim>\<open>src/src/app/tableColumnCatalogue.ts\<close> (which columns exist,
  and in which scenario), \<^verbatim>\<open>scenarioColumnLayout.ts\<close> (their widths per scenario), the column lists that
  \<^verbatim>\<open>archiveTable.ts\<close> and \<^verbatim>\<open>createTableColumns.ts\<close> build from them with their setting functions, and the
  visibility preferences of \<^verbatim>\<open>tableColumnPreferences.ts\<close>.
\<close>

section \<open>The catalogue\<close>

datatype column_scope = ScopeCommon | ScopeCompress | ScopeExtract

record table_column_definition =
  cd_id :: string
  cd_scope :: column_scope
  cd_labelKey :: string
  cd_tooltipKey :: "string option"
  cd_align :: column_align
  cd_alwaysVisible :: "bool option"

definition column_definition ::
    "string \<Rightarrow> column_scope \<Rightarrow> string \<Rightarrow> string option \<Rightarrow> column_align \<Rightarrow> bool option
      \<Rightarrow> table_column_definition" where
  "column_definition i sc l t a v =
     \<lparr> cd_id = i, cd_scope = sc, cd_labelKey = l, cd_tooltipKey = t, cd_align = a, cd_alwaysVisible = v \<rparr>"

definition TABLE_COLUMN_CATALOGUE :: "table_column_definition list" where
  "TABLE_COLUMN_CATALOGUE =
     [column_definition ''name'' ScopeCommon ''table.name'' None AlignLeft (Some True),
      column_definition ''kind'' ScopeCommon ''table.type'' None AlignLeft None,
      column_definition ''size'' ScopeCommon ''table.size'' None AlignRight None,
      column_definition ''modified'' ScopeCommon ''table.modified'' None AlignLeft None,
      column_definition ''created'' ScopeCommon ''table.created'' None AlignLeft None,
      column_definition ''accessed'' ScopeCommon ''table.accessed'' None AlignLeft None,
      column_definition ''mode'' ScopeCommon ''detail.mode'' None AlignRight None,
      column_definition ''linkTarget'' ScopeCommon ''table.linkTarget'' None AlignLeft None,
      column_definition ''uid'' ScopeCommon ''table.uid'' None AlignRight None,
      column_definition ''gid'' ScopeCommon ''table.gid'' None AlignRight None,
      column_definition ''owner'' ScopeCommon ''table.owner'' None AlignLeft None,
      column_definition ''group'' ScopeCommon ''table.group'' None AlignLeft None,
      column_definition ''attributes'' ScopeCommon ''table.attributes'' (Some ''table.attributes.tooltip'') AlignLeft None,
      column_definition ''sourcePath'' ScopeCompress ''table.sourcePath'' None AlignLeft None,
      column_definition ''compressedSize'' ScopeExtract ''table.packedSize'' None AlignRight None,
      column_definition ''encrypted'' ScopeExtract ''table.encrypted'' None AlignCenter None,
      column_definition ''method'' ScopeExtract ''table.method'' None AlignLeft None,
      column_definition ''crc'' ScopeExtract ''table.crc'' None AlignRight None,
      column_definition ''comment'' ScopeExtract ''table.comment'' None AlignLeft None,
      column_definition ''ratio'' ScopeExtract ''table.ratio'' None AlignRight None,
      column_definition ''solid'' ScopeExtract ''table.solid'' None AlignCenter None,
      column_definition ''metadataDiagnostics'' ScopeExtract ''table.metadataDiagnostics'' None AlignRight None]"

definition getColumnDefinition :: "string \<Rightarrow> table_column_definition option" where
  "getColumnDefinition cid = map_of (rev (map (\<lambda>c. (cd_id c, c)) TABLE_COLUMN_CATALOGUE)) cid"

definition COMMON_COLUMN_IDS :: "string list" where
  "COMMON_COLUMN_IDS = map cd_id (filter (\<lambda>c. cd_scope c = ScopeCommon) TABLE_COLUMN_CATALOGUE)"

definition COMPRESS_ONLY_COLUMN_IDS :: "string list" where
  "COMPRESS_ONLY_COLUMN_IDS = map cd_id (filter (\<lambda>c. cd_scope c = ScopeCompress) TABLE_COLUMN_CATALOGUE)"

definition EXTRACT_ONLY_COLUMN_IDS :: "string list" where
  "EXTRACT_ONLY_COLUMN_IDS = map cd_id (filter (\<lambda>c. cd_scope c = ScopeExtract) TABLE_COLUMN_CATALOGUE)"

definition COMPRESS_APPLICABLE_IDS :: "string list" where
  "COMPRESS_APPLICABLE_IDS = COMMON_COLUMN_IDS @ COMPRESS_ONLY_COLUMN_IDS"

definition EXTRACT_APPLICABLE_IDS :: "string list" where
  "EXTRACT_APPLICABLE_IDS = COMMON_COLUMN_IDS @ EXTRACT_ONLY_COLUMN_IDS"

definition COMPRESS_SAFE_BASE_IDS :: "string list" where
  "COMPRESS_SAFE_BASE_IDS = [''name'', ''kind'', ''size'', ''modified'', ''sourcePath'']"

definition CANONICAL_COLUMN_ORDER :: "string list" where
  "CANONICAL_COLUMN_ORDER = map cd_id TABLE_COLUMN_CATALOGUE"

definition CLEAN_INSTALL_VISIBLE_IDS :: "string list" where
  "CLEAN_INSTALL_VISIBLE_IDS = [''name'', ''kind'', ''size'', ''modified'', ''compressedSize'']"

definition isCompressColumn :: "string \<Rightarrow> bool" where
  "isCompressColumn cid \<longleftrightarrow> cid \<in> set COMPRESS_APPLICABLE_IDS"

definition isExtractColumn :: "string \<Rightarrow> bool" where
  "isExtractColumn cid \<longleftrightarrow> cid \<in> set EXTRACT_APPLICABLE_IDS"

section \<open>Layouts\<close>

definition COMPRESS_LAYOUT :: "(string \<times> int \<times> int option) list" where
  "COMPRESS_LAYOUT =
     [(''name'', (320, Some 140)),
      (''kind'', (120, Some 80)),
      (''size'', (120, Some 72)),
      (''modified'', (170, Some 110)),
      (''created'', (140, Some 110)),
      (''accessed'', (140, Some 110)),
      (''attributes'', (90, Some 64)),
      (''mode'', (82, Some 64)),
      (''linkTarget'', (160, Some 100)),
      (''uid'', (70, Some 56)),
      (''gid'', (70, Some 56)),
      (''owner'', (100, Some 72)),
      (''group'', (100, Some 72)),
      (''sourcePath'', (220, Some 120)),
      (''compressedSize'', (0, Some 0)),
      (''encrypted'', (0, Some 0)),
      (''method'', (0, Some 0)),
      (''crc'', (0, Some 0)),
      (''comment'', (0, Some 0)),
      (''ratio'', (0, Some 0)),
      (''solid'', (0, Some 0)),
      (''metadataDiagnostics'', (0, Some 0))]"

definition EXTRACT_LAYOUT :: "(string \<times> int \<times> int option) list" where
  "EXTRACT_LAYOUT =
     [(''name'', (190, Some 140)),
      (''kind'', (90, Some 80)),
      (''size'', (100, Some 60)),
      (''modified'', (150, Some 110)),
      (''created'', (140, Some 110)),
      (''accessed'', (140, Some 110)),
      (''attributes'', (90, Some 64)),
      (''mode'', (82, Some 64)),
      (''linkTarget'', (160, Some 100)),
      (''uid'', (70, Some 56)),
      (''gid'', (70, Some 56)),
      (''owner'', (100, Some 72)),
      (''group'', (100, Some 72)),
      (''sourcePath'', (0, Some 0)),
      (''compressedSize'', (110, Some 72)),
      (''encrypted'', (80, Some 64)),
      (''method'', (120, Some 80)),
      (''crc'', (90, Some 72)),
      (''comment'', (120, Some 80)),
      (''ratio'', (70, Some 56)),
      (''solid'', (60, Some 52)),
      (''metadataDiagnostics'', (100, Some 72))]"

definition getCompressLayout :: "string \<Rightarrow> int \<times> int option" where
  "getCompressLayout cid = nullish (map_of COMPRESS_LAYOUT cid) (100, Some 64)"

definition getExtractLayout :: "string \<Rightarrow> int \<times> int option" where
  "getExtractLayout cid = nullish (map_of EXTRACT_LAYOUT cid) (100, Some 64)"

section \<open>The two column lists\<close>

definition archive_labels :: "(string \<times> string) list" where
  "archive_labels =
     [(''table.name'', ''Name''),
      (''table.type'', ''Type''),
      (''table.size'', ''Size''),
      (''table.modified'', ''Modified''),
      (''table.created'', ''Created''),
      (''table.accessed'', ''Accessed''),
      (''table.attributes'', ''Attributes''),
      (''detail.mode'', ''Mode''),
      (''table.linkTarget'', ''Link Target''),
      (''table.uid'', ''UID''),
      (''table.gid'', ''GID''),
      (''table.owner'', ''Owner''),
      (''table.group'', ''Group''),
      (''table.packedSize'', ''Packed Size''),
      (''table.encrypted'', ''Encrypted''),
      (''table.method'', ''Method''),
      (''table.crc'', ''CRC''),
      (''table.comment'', ''Comment''),
      (''table.ratio'', ''Ratio''),
      (''table.solid'', ''Solid''),
      (''table.metadataDiagnostics'', ''Diagnostics'')]"

definition create_labels :: "(string \<times> string) list" where
  "create_labels =
     [(''table.name'', ''Name''),
      (''table.type'', ''Type''),
      (''table.size'', ''Size''),
      (''table.modified'', ''Modified''),
      (''table.created'', ''Created''),
      (''table.accessed'', ''Accessed''),
      (''table.attributes'', ''Attributes''),
      (''detail.mode'', ''Mode''),
      (''table.linkTarget'', ''Link Target''),
      (''table.uid'', ''UID''),
      (''table.gid'', ''GID''),
      (''table.owner'', ''Owner''),
      (''table.group'', ''Group''),
      (''table.sourcePath'', ''Source Path'')]"

text \<open>\<open>buildColumn\<close> of both files: they differ in their label table and their layout.\<close>

definition buildColumn ::
    "(string \<times> string) list \<Rightarrow> (string \<Rightarrow> int \<times> int option) \<Rightarrow> string \<Rightarrow> table_column" where
  "buildColumn labels layout cid =
     (let def = getColumnDefinition cid;
          labelKey = nullish (map_option cd_labelKey def) ''table.name''
      in \<lparr> tc_id = cid, tc_label = nullish (map_of labels labelKey) cid, tc_labelKey = labelKey,
           tc_width = Fin (of_int (fst (layout cid))), tc_minWidth = snd (layout cid),
           tc_align = nullish (map_option cd_align def) AlignLeft,
           tc_defaultVisible = (cid \<in> set CLEAN_INSTALL_VISIBLE_IDS),
           tc_alwaysVisible = Option.bind def cd_alwaysVisible \<rparr>)"

definition ARCHIVE_TABLE_COLUMNS :: "table_column list" where
  "ARCHIVE_TABLE_COLUMNS = map (buildColumn archive_labels getExtractLayout) EXTRACT_APPLICABLE_IDS"

definition DEFAULT_ARCHIVE_TABLE_COLUMN_IDS :: "string list" where
  "DEFAULT_ARCHIVE_TABLE_COLUMN_IDS = map tc_id (filter tc_defaultVisible ARCHIVE_TABLE_COLUMNS)"

definition DEFAULT_ARCHIVE_TABLE_COLUMN_ORDER_IDS :: "string list" where
  "DEFAULT_ARCHIVE_TABLE_COLUMN_ORDER_IDS = map tc_id ARCHIVE_TABLE_COLUMNS"

definition CREATE_SOURCE_TABLE_COLUMNS :: "table_column list" where
  "CREATE_SOURCE_TABLE_COLUMNS = map (buildColumn create_labels getCompressLayout) COMPRESS_APPLICABLE_IDS"

definition DEFAULT_CREATE_SOURCE_TABLE_COLUMN_IDS :: "string list" where
  "DEFAULT_CREATE_SOURCE_TABLE_COLUMN_IDS = map tc_id (filter tc_defaultVisible CREATE_SOURCE_TABLE_COLUMNS)"

definition DEFAULT_CREATE_SOURCE_TABLE_COLUMN_ORDER_IDS :: "string list" where
  "DEFAULT_CREATE_SOURCE_TABLE_COLUMN_ORDER_IDS = map tc_id CREATE_SOURCE_TABLE_COLUMNS"

section \<open>The setting functions of the archive table\<close>

definition normalizeColumnSettings :: "partial_settings option \<Rightarrow> column_settings" where
  "normalizeColumnSettings settings =
     normalizeGenericColumnSettings ARCHIVE_TABLE_COLUMNS DEFAULT_ARCHIVE_TABLE_COLUMN_IDS
       DEFAULT_ARCHIVE_TABLE_COLUMN_ORDER_IDS settings None"

definition resetColumnSettings :: column_settings where
  "resetColumnSettings =
     normalizeColumnSettings (Some \<lparr> ps_visible = Some DEFAULT_ARCHIVE_TABLE_COLUMN_IDS,
       ps_order = Some DEFAULT_ARCHIVE_TABLE_COLUMN_ORDER_IDS, ps_widths = Some [] \<rparr>)"

definition toggleColumnVisibility :: "column_settings \<Rightarrow> string \<Rightarrow> column_settings" where
  "toggleColumnVisibility settings columnId =
     toggleGenericColumnVisibility ARCHIVE_TABLE_COLUMNS DEFAULT_ARCHIVE_TABLE_COLUMN_IDS
       DEFAULT_ARCHIVE_TABLE_COLUMN_ORDER_IDS settings columnId None"

definition visibleColumns :: "column_settings \<Rightarrow> table_column list option" where
  "visibleColumns settings =
     visibleGenericColumns ARCHIVE_TABLE_COLUMNS DEFAULT_ARCHIVE_TABLE_COLUMN_IDS
       DEFAULT_ARCHIVE_TABLE_COLUMN_ORDER_IDS settings None"

definition setColumnWidth :: "column_settings \<Rightarrow> string \<Rightarrow> jsnum \<Rightarrow> column_settings" where
  "setColumnWidth settings columnId width =
     setGenericColumnWidth ARCHIVE_TABLE_COLUMNS DEFAULT_ARCHIVE_TABLE_COLUMN_IDS
       DEFAULT_ARCHIVE_TABLE_COLUMN_ORDER_IDS settings columnId width None"

definition moveColumn :: "column_settings \<Rightarrow> string \<Rightarrow> move_direction \<Rightarrow> column_settings" where
  "moveColumn settings columnId direction =
     moveGenericColumn ARCHIVE_TABLE_COLUMNS DEFAULT_ARCHIVE_TABLE_COLUMN_IDS
       DEFAULT_ARCHIVE_TABLE_COLUMN_ORDER_IDS settings columnId direction None"

definition reorderColumn :: "column_settings \<Rightarrow> string \<Rightarrow> string \<Rightarrow> column_settings" where
  "reorderColumn settings sourceColumnId targetColumnId =
     reorderGenericColumn ARCHIVE_TABLE_COLUMNS DEFAULT_ARCHIVE_TABLE_COLUMN_IDS
       DEFAULT_ARCHIVE_TABLE_COLUMN_ORDER_IDS settings sourceColumnId
       targetColumnId None"

section \<open>The setting functions of the create table\<close>

definition normalizeCreateColumnSettings :: "partial_settings option \<Rightarrow> column_settings" where
  "normalizeCreateColumnSettings settings =
     normalizeGenericColumnSettings CREATE_SOURCE_TABLE_COLUMNS DEFAULT_CREATE_SOURCE_TABLE_COLUMN_IDS
       DEFAULT_CREATE_SOURCE_TABLE_COLUMN_ORDER_IDS settings None"

definition resetCreateColumnSettings :: column_settings where
  "resetCreateColumnSettings =
     normalizeCreateColumnSettings (Some \<lparr> ps_visible = Some DEFAULT_CREATE_SOURCE_TABLE_COLUMN_IDS,
       ps_order = Some DEFAULT_CREATE_SOURCE_TABLE_COLUMN_ORDER_IDS, ps_widths = Some [] \<rparr>)"

definition toggleCreateColumnVisibility :: "column_settings \<Rightarrow> string \<Rightarrow> column_settings" where
  "toggleCreateColumnVisibility settings columnId =
     toggleGenericColumnVisibility CREATE_SOURCE_TABLE_COLUMNS DEFAULT_CREATE_SOURCE_TABLE_COLUMN_IDS
       DEFAULT_CREATE_SOURCE_TABLE_COLUMN_ORDER_IDS settings columnId None"

definition visibleCreateColumns :: "column_settings \<Rightarrow> table_column list option" where
  "visibleCreateColumns settings =
     visibleGenericColumns CREATE_SOURCE_TABLE_COLUMNS DEFAULT_CREATE_SOURCE_TABLE_COLUMN_IDS
       DEFAULT_CREATE_SOURCE_TABLE_COLUMN_ORDER_IDS settings None"

definition setCreateColumnWidth :: "column_settings \<Rightarrow> string \<Rightarrow> jsnum \<Rightarrow> column_settings" where
  "setCreateColumnWidth settings columnId width =
     setGenericColumnWidth CREATE_SOURCE_TABLE_COLUMNS DEFAULT_CREATE_SOURCE_TABLE_COLUMN_IDS
       DEFAULT_CREATE_SOURCE_TABLE_COLUMN_ORDER_IDS settings columnId width None"

definition moveCreateColumn :: "column_settings \<Rightarrow> string \<Rightarrow> move_direction \<Rightarrow> column_settings" where
  "moveCreateColumn settings columnId direction =
     moveGenericColumn CREATE_SOURCE_TABLE_COLUMNS DEFAULT_CREATE_SOURCE_TABLE_COLUMN_IDS
       DEFAULT_CREATE_SOURCE_TABLE_COLUMN_ORDER_IDS settings columnId direction None"

definition reorderCreateColumn :: "column_settings \<Rightarrow> string \<Rightarrow> string \<Rightarrow> column_settings" where
  "reorderCreateColumn settings sourceColumnId targetColumnId =
     reorderGenericColumn CREATE_SOURCE_TABLE_COLUMNS DEFAULT_CREATE_SOURCE_TABLE_COLUMN_IDS
       DEFAULT_CREATE_SOURCE_TABLE_COLUMN_ORDER_IDS settings sourceColumnId
       targetColumnId None"

section \<open>Visibility preferences\<close>

text \<open>Format families are the keys of the per-format overrides; an absent or empty list is skipped.\<close>

record visibility_preferences =
  vp_visible :: "string list"
  vp_byFamily :: "(string \<times> string list option) list"

definition normalizeExtractVisibleIds :: "string list \<Rightarrow> string list" where
  "normalizeExtractVisibleIds ids =
     fold (\<lambda>cid result.
        if cid \<noteq> ''name'' \<and> isExtractColumn cid \<and> cid \<notin> set result then result @ [cid] else result)
       ids [''name'']"

definition normalizeTableColumnVisibilityPreferences ::
    "visibility_preferences \<Rightarrow> visibility_preferences" where
  "normalizeTableColumnVisibilityPreferences prefs =
     (let allKnownIds = js_set (COMPRESS_APPLICABLE_IDS @ EXTRACT_APPLICABLE_IDS)
      in \<lparr> vp_visible =
             fold (\<lambda>cid visible. if set_has allKnownIds cid then set_add cid visible else visible)
               (vp_visible prefs) (set_add ''name'' []),
           vp_byFamily =
             fold (\<lambda>(family, ids) byFormat.
                case ids of
                  None \<Rightarrow> byFormat
                | Some l \<Rightarrow>
                    if l = [] then byFormat
                    else (let normalized = normalizeExtractVisibleIds l
                          in if normalized \<noteq> [] then AList.update family (Some normalized) byFormat
                             else byFormat))
               (vp_byFamily prefs) [] \<rparr>)"

definition cleanInstallVisibilityPreferences :: visibility_preferences where
  "cleanInstallVisibilityPreferences =
     normalizeTableColumnVisibilityPreferences
       \<lparr> vp_visible = CLEAN_INSTALL_VISIBLE_IDS, vp_byFamily = [] \<rparr>"

section \<open>Both column lists keep the contract\<close>

lemma archive_columns_ids: "map tc_id ARCHIVE_TABLE_COLUMNS = EXTRACT_APPLICABLE_IDS"
  by (simp add: ARCHIVE_TABLE_COLUMNS_def buildColumn_def Let_def o_def)

lemma create_columns_ids: "map tc_id CREATE_SOURCE_TABLE_COLUMNS = COMPRESS_APPLICABLE_IDS"
  by (simp add: CREATE_SOURCE_TABLE_COLUMNS_def buildColumn_def Let_def o_def)

definition column_contract :: "table_column \<Rightarrow> bool" where
  "column_contract c \<longleftrightarrow> (nullish (tc_alwaysVisible c) False \<longleftrightarrow> tc_id c = ''name'')
     \<and> nullish (tc_minWidth c) 64 \<le> 520"

interpretation extract_columns: column_catalogue ARCHIVE_TABLE_COLUMNS
    DEFAULT_ARCHIVE_TABLE_COLUMN_IDS DEFAULT_ARCHIVE_TABLE_COLUMN_ORDER_IDS
proof unfold_locales
  have "distinct EXTRACT_APPLICABLE_IDS" and "''name'' \<in> set EXTRACT_APPLICABLE_IDS"
    by code_simp+
  then show "distinct (map tc_id ARCHIVE_TABLE_COLUMNS)" and "''name'' \<in> tc_id ` set ARCHIVE_TABLE_COLUMNS"
    by (simp_all add: archive_columns_ids flip: list.set_map)
  have "list_all column_contract ARCHIVE_TABLE_COLUMNS"
    by code_simp
  then show "c \<in> set ARCHIVE_TABLE_COLUMNS \<Longrightarrow> nullish (tc_alwaysVisible c) False \<longleftrightarrow> tc_id c = ''name''"
    and "c \<in> set ARCHIVE_TABLE_COLUMNS \<Longrightarrow> nullish (tc_minWidth c) 64 \<le> 520" for c
    by (auto simp: list_all_iff column_contract_def)
qed (simp add: DEFAULT_ARCHIVE_TABLE_COLUMN_ORDER_IDS_def)

interpretation compress_columns: column_catalogue CREATE_SOURCE_TABLE_COLUMNS
    DEFAULT_CREATE_SOURCE_TABLE_COLUMN_IDS DEFAULT_CREATE_SOURCE_TABLE_COLUMN_ORDER_IDS
proof unfold_locales
  have "distinct COMPRESS_APPLICABLE_IDS" and "''name'' \<in> set COMPRESS_APPLICABLE_IDS"
    by code_simp+
  then show "distinct (map tc_id CREATE_SOURCE_TABLE_COLUMNS)"
    and "''name'' \<in> tc_id ` set CREATE_SOURCE_TABLE_COLUMNS"
    by (simp_all add: create_columns_ids flip: list.set_map)
  have "list_all column_contract CREATE_SOURCE_TABLE_COLUMNS"
    by code_simp
  then show "c \<in> set CREATE_SOURCE_TABLE_COLUMNS \<Longrightarrow> nullish (tc_alwaysVisible c) False \<longleftrightarrow> tc_id c = ''name''"
    and "c \<in> set CREATE_SOURCE_TABLE_COLUMNS \<Longrightarrow> nullish (tc_minWidth c) 64 \<le> 520" for c
    by (auto simp: list_all_iff column_contract_def)
qed (simp add: DEFAULT_CREATE_SOURCE_TABLE_COLUMN_ORDER_IDS_def)

section \<open>Properties\<close>

text \<open>Every setting function of both tables returns normal settings, whatever it is given: no
  duplicates, only columns of the table, the name column visible and first, a complete order, and
  widths rounded and clamped; and normal settings pass through normalisation unchanged.\<close>

theorem column_settings_normal:
  "normal_settings ARCHIVE_TABLE_COLUMNS (normalizeColumnSettings ps)
   \<and> normal_settings ARCHIVE_TABLE_COLUMNS (toggleColumnVisibility s k)
   \<and> normal_settings ARCHIVE_TABLE_COLUMNS (setColumnWidth s k w)
   \<and> normal_settings ARCHIVE_TABLE_COLUMNS (moveColumn s k d)
   \<and> normal_settings ARCHIVE_TABLE_COLUMNS (reorderColumn s k t)
   \<and> normalizeColumnSettings (Some (as_partial (normalizeColumnSettings ps))) = normalizeColumnSettings ps
   \<and> normal_settings CREATE_SOURCE_TABLE_COLUMNS (normalizeCreateColumnSettings ps)
   \<and> normal_settings CREATE_SOURCE_TABLE_COLUMNS (toggleCreateColumnVisibility s k)
   \<and> normal_settings CREATE_SOURCE_TABLE_COLUMNS (setCreateColumnWidth s k w)
   \<and> normal_settings CREATE_SOURCE_TABLE_COLUMNS (moveCreateColumn s k d)
   \<and> normal_settings CREATE_SOURCE_TABLE_COLUMNS (reorderCreateColumn s k t)
   \<and> normalizeCreateColumnSettings (Some (as_partial (normalizeCreateColumnSettings ps)))
       = normalizeCreateColumnSettings ps"
  by (simp add: normalizeColumnSettings_def toggleColumnVisibility_def setColumnWidth_def moveColumn_def
      reorderColumn_def normalizeCreateColumnSettings_def toggleCreateColumnVisibility_def
      setCreateColumnWidth_def moveCreateColumn_def reorderCreateColumn_def
      extract_columns.normalize_normal extract_columns.normalize_fixed extract_columns.toggle_normal
      extract_columns.set_width_normal extract_columns.move_normal extract_columns.reorder_normal
      compress_columns.normalize_normal compress_columns.normalize_fixed compress_columns.toggle_normal
      compress_columns.set_width_normal compress_columns.move_normal compress_columns.reorder_normal)

text \<open>Moving a visible column left swaps it with its visible left neighbour, over any hidden columns
  in between, and moving it right again restores the settings; the neighbour must not be the pinned name
  column.\<close>

theorem move_column_swaps:
  assumes "normal_settings ARCHIVE_TABLE_COLUMNS s"
    and "filter (\<lambda>id. id \<in> set (cs_visible s)) (cs_order s) = us @ t # c # ws" and "us \<noteq> []"
  shows "let r = moveColumn s c MoveLeft
     in filter (\<lambda>id. id \<in> set (cs_visible r)) (cs_order r) = us @ c # t # ws
       \<and> cs_visible r = cs_visible s \<and> cs_widths r = cs_widths s
       \<and> moveColumn r c MoveRight = s"
  unfolding moveColumn_def by (rule extract_columns.move_left_visible [OF assms])

theorem move_column_swaps_witness:
  "filter (\<lambda>id. id \<in> set (cs_visible (moveColumn resetColumnSettings ''modified'' MoveLeft)))
      (cs_order (moveColumn resetColumnSettings ''modified'' MoveLeft))
     = [''name'', ''kind'', ''modified'', ''size'', ''compressedSize'']"
proof -
  have n: "normal_settings ARCHIVE_TABLE_COLUMNS resetColumnSettings"
    unfolding resetColumnSettings_def normalizeColumnSettings_def by (rule extract_columns.normalize_normal)
  have v: "filter (\<lambda>id. id \<in> set (cs_visible resetColumnSettings)) (cs_order resetColumnSettings)
      = [''name'', ''kind''] @ ''size'' # ''modified'' # [''compressedSize'']"
    by code_simp
  from move_column_swaps [OF n v list.distinct(2)] show ?thesis
    unfolding Let_def append.simps by (rule conjunct1)
qed

text \<open>Dragging a column onto another puts it at the target's place and keeps the relative order of
  all other columns, the visible columns and the widths.\<close>

theorem reorder_column_places:
  assumes "normal_settings CREATE_SOURCE_TABLE_COLUMNS s" and "k \<noteq> t"
    and "isCompressColumn k" and "k \<noteq> ''name''" and "isCompressColumn t" and "t \<noteq> ''name''"
  shows "let r = reorderCreateColumn s k t
     in cs_visible r = cs_visible s \<and> cs_widths r = cs_widths s
       \<and> indexOf k (cs_order r) = indexOf t (cs_order s)
       \<and> filter (\<lambda>id. id \<noteq> k) (cs_order r) = filter (\<lambda>id. id \<noteq> k) (cs_order s)"
proof -
  have "isCompressColumn i \<longleftrightarrow> i \<in> tc_id ` set CREATE_SOURCE_TABLE_COLUMNS" for i
    unfolding isCompressColumn_def create_columns_ids [symmetric] by simp
  then show ?thesis
    unfolding reorderCreateColumn_def using assms(2-6)
    by (intro compress_columns.reorder_places [OF assms(1)]) blast+
qed

theorem reorder_column_places_witness:
  "indexOf ''kind'' (cs_order (reorderCreateColumn resetCreateColumnSettings ''kind'' ''modified'')) = 3"
proof -
  have n: "normal_settings CREATE_SOURCE_TABLE_COLUMNS resetCreateColumnSettings"
    unfolding resetCreateColumnSettings_def normalizeCreateColumnSettings_def
    by (rule compress_columns.normalize_normal)
  have c: "isCompressColumn ''kind''" "isCompressColumn ''modified''"
    "indexOf ''modified'' (cs_order resetCreateColumnSettings) = 3"
    by code_simp+
  from reorder_column_places [OF n _ c(1) _ c(2)] show ?thesis
    using c(3) by (simp add: Let_def)
qed

text \<open>Toggling an optional column flips its visibility and nothing else, and toggling it again
  restores the visible set; the name column and unknown columns do not react; a new finite width is
  stored rounded to an integer between the column's minimum and 520.\<close>

theorem toggle_and_resize:
  assumes "normal_settings ARCHIVE_TABLE_COLUMNS s" and "c \<in> set ARCHIVE_TABLE_COLUMNS"
  shows "toggleColumnVisibility s ''name'' = s
    \<and> (let k = tc_id c; r = toggleColumnVisibility s k
       in (tc_id c \<noteq> ''name'' \<longrightarrow> cs_order r = cs_order s \<and> cs_widths r = cs_widths s
              \<and> (\<forall>j. j \<in> set (cs_visible r) \<longleftrightarrow> (if j = k then j \<notin> set (cs_visible s) else j \<in> set (cs_visible s)))
              \<and> set (cs_visible (toggleColumnVisibility r k)) = set (cs_visible s)))
    \<and> (\<exists>n. map_of (cs_widths (setColumnWidth s (tc_id c) (Fin w))) (tc_id c) = Some (Some (Fin (of_int n)))
         \<and> nullish (tc_minWidth c) 64 \<le> n \<and> n \<le> 520)"
proof (intro conjI)
  show "toggleColumnVisibility s ''name'' = s"
    using extract_columns.toggle_eq [OF assms(1), of "''name''"] by (simp add: toggleColumnVisibility_def)
  have t: "toggleColumnVisibility s' (tc_id c)
      = (if tc_id c = ''name'' then s' else s'\<lparr> cs_visible := set_toggle (tc_id c) (cs_visible s') \<rparr>)"
    if "normal_settings ARCHIVE_TABLE_COLUMNS s'" for s'
    using extract_columns.toggle_eq [OF that, of "tc_id c"] assms(2) by (simp add: toggleColumnVisibility_def)
  have "normal_settings ARCHIVE_TABLE_COLUMNS (toggleColumnVisibility s (tc_id c))"
    unfolding toggleColumnVisibility_def by (rule extract_columns.toggle_normal)
  from t [OF this] t [OF assms(1)]
  show "let k = tc_id c; r = toggleColumnVisibility s k
       in (tc_id c \<noteq> ''name'' \<longrightarrow> cs_order r = cs_order s \<and> cs_widths r = cs_widths s
              \<and> (\<forall>j. j \<in> set (cs_visible r) \<longleftrightarrow> (if j = k then j \<notin> set (cs_visible s) else j \<in> set (cs_visible s)))
              \<and> set (cs_visible (toggleColumnVisibility r k)) = set (cs_visible s))"
    by (auto simp: Let_def)
  show "\<exists>n. map_of (cs_widths (setColumnWidth s (tc_id c) (Fin w))) (tc_id c) = Some (Some (Fin (of_int n)))
         \<and> nullish (tc_minWidth c) 64 \<le> n \<and> n \<le> 520"
    using extract_columns.set_width_eq [OF assms, of w]
      clamp_bounds [OF extract_columns.min_width [OF assms(2)], of w]
    by (simp add: setColumnWidth_def update_conv')
qed

theorem toggle_and_resize_witness:
  "toggleColumnVisibility resetColumnSettings ''name'' = resetColumnSettings"
proof -
  have n: "normal_settings ARCHIVE_TABLE_COLUMNS resetColumnSettings"
    unfolding resetColumnSettings_def normalizeColumnSettings_def by (rule extract_columns.normalize_normal)
  have "hd ARCHIVE_TABLE_COLUMNS \<in> set ARCHIVE_TABLE_COLUMNS"
    by code_simp
  from toggle_and_resize [OF n this, of 0] show ?thesis
    by blast
qed

text \<open>The columns a table shows always exist, so looking them up never fails: they are the visible ids
  in the stored order, the name column first.\<close>

theorem visible_columns_total:
  "(\<exists>cols. visibleColumns s = Some cols
      \<and> map tc_id cols = filter (\<lambda>id. id \<in> set (cs_visible (normalizeColumnSettings (Some (as_partial s)))))
          (cs_order (normalizeColumnSettings (Some (as_partial s))))
      \<and> (\<exists>c rest. cols = c # rest \<and> tc_id c = ''name''))
   \<and> (\<exists>cols. visibleCreateColumns s = Some cols
      \<and> map tc_id cols = filter (\<lambda>id. id \<in> set (cs_visible (normalizeCreateColumnSettings (Some (as_partial s)))))
          (cs_order (normalizeCreateColumnSettings (Some (as_partial s))))
      \<and> (\<exists>c rest. cols = c # rest \<and> tc_id c = ''name''))"
  unfolding visibleColumns_def visibleCreateColumns_def normalizeColumnSettings_def normalizeCreateColumnSettings_def
  using extract_columns.visible_columns_eq [of s] compress_columns.visible_columns_eq [of s] by (rule conjI)

end
