(* ===== verification/StateMachine.thy ===== *)
theory StateMachine
  imports JsCollections
begin

text \<open>
  The workspaces and the shell keep one state each, replaced by every operation.  A component is
  described by its initial states and its step relation; \<open>reachable\<close> is the least set closed under
  both, and the locale \<open>machine\<close> states what a component has to show for an invariant: the initial
  states satisfy it and every step keeps it.
\<close>

inductive reachable :: "('s \<Rightarrow> bool) \<Rightarrow> ('s \<Rightarrow> 's \<Rightarrow> bool) \<Rightarrow> 's \<Rightarrow> bool"
  for init :: "'s \<Rightarrow> bool" and step :: "'s \<Rightarrow> 's \<Rightarrow> bool" where
  start: "init s \<Longrightarrow> reachable init step s"
| move: "reachable init step s \<Longrightarrow> step s s' \<Longrightarrow> reachable init step s'"

locale machine =
  fixes init :: "'s \<Rightarrow> bool"
    and step :: "'s \<Rightarrow> 's \<Rightarrow> bool"
    and inv :: "'s \<Rightarrow> bool"
  assumes init_inv: "init s \<Longrightarrow> inv s"
    and step_inv: "inv s \<Longrightarrow> step s s' \<Longrightarrow> inv s'"
begin

lemma reachable_inv: "reachable init step s \<Longrightarrow> inv s"
  by (induction rule: reachable.induct) (auto intro: init_inv step_inv)

end

text \<open>A machine whose steps are given by a function of an input, run over a list of inputs.\<close>

definition run_inputs :: "('i \<Rightarrow> 's \<Rightarrow> 's) \<Rightarrow> 'i list \<Rightarrow> 's \<Rightarrow> 's" where
  "run_inputs f is s = foldl (\<lambda>s i. f i s) s is"

lemma run_inputs_simps [simp]:
  "run_inputs f [] s = s"
  "run_inputs f (i # is) s = run_inputs f is (f i s)"
  "run_inputs f (is @ js) s = run_inputs f js (run_inputs f is s)"
  by (simp_all add: run_inputs_def)

lemma reachable_run:
  assumes "\<And>i s. step s (f i s)"
  shows "reachable init step s \<Longrightarrow> reachable init step (run_inputs f is s)"
  by (induction "is" arbitrary: s) (auto intro: reachable.move assms)

text \<open>A quantity that every step keeps or advances in a given order.\<close>

locale monotone_machine = machine +
  fixes le :: "'s \<Rightarrow> 's \<Rightarrow> bool"
  assumes le_refl: "le s s"
    and le_trans: "le s t \<Longrightarrow> le t u \<Longrightarrow> le s u"
    and step_le: "inv s \<Longrightarrow> step s s' \<Longrightarrow> le s s'"
begin

lemma run_le:
  assumes "\<And>i s. step s (f i s)" and "inv s"
  shows "le s (run_inputs f is s) \<and> inv (run_inputs f is s)"
  using assms(2)
proof (induction "is" arbitrary: s)
  case (Cons i "is")
  have "inv (f i s)" and "le s (f i s)"
    using Cons.prems assms(1) step_inv step_le by blast+
  with Cons.IH [of "f i s"] show ?case
    using le_trans by simp
qed (simp add: le_refl)

lemma steps_le:
  assumes "step\<^sup>*\<^sup>* s t" and "inv s"
  shows "le s t \<and> inv t"
  using assms
proof (induction rule: rtranclp_induct)
  case (step t u)
  then have "inv t" and "le s t" and "le t u"
    using step_le by blast+
  with step.hyps show ?case
    using le_trans step_inv by blast
qed (simp add: le_refl)

end

text \<open>
  A component implements an abstract one when the abstraction of every step is a step (or several) of the abstract
  component; what the abstract steps guarantee then holds of every run of the component.
\<close>

locale simulation =
  fixes step :: "'s \<Rightarrow> 's \<Rightarrow> bool"
    and abstract_step :: "'a \<Rightarrow> 'a \<Rightarrow> bool"
    and abstraction :: "'s \<Rightarrow> 'a"
  assumes step_simulated: "step s s' \<Longrightarrow> abstract_step\<^sup>*\<^sup>* (abstraction s) (abstraction s')"
begin

lemma steps_simulated: "step\<^sup>*\<^sup>* s s' \<Longrightarrow> abstract_step\<^sup>*\<^sup>* (abstraction s) (abstraction s')"
  by (induction rule: rtranclp_induct) (auto intro: rtranclp_trans step_simulated)

lemma steps_guarantee:
  assumes "step\<^sup>*\<^sup>* s s'" and "\<And>a. G a a" and "\<And>a b c. G a b \<Longrightarrow> abstract_step b c \<Longrightarrow> G a c"
  shows "G (abstraction s) (abstraction s')"
  using steps_simulated [OF assms(1)] by (induction rule: rtranclp_induct) (auto intro: assms)

end

end
