(* ===== verification/ArchivePath.thy ===== *)
theory ArchivePath
  imports JsCollections
begin

text \<open>
  The path functions of \<^verbatim>\<open>src/src/app/archiveTree.ts\<close>.  Every one of them is described by
  \<open>path_segments\<close>, the abstract view of an archive path as the list of its names: normalising is
  joining the segments, containment is the prefix order, the parent is \<open>butlast\<close>.
\<close>

definition is_sep :: "char \<Rightarrow> bool" where
  "is_sep c \<longleftrightarrow> c = CHR 0x2F \<or> c = CHR 0x5C"

text \<open>\<open>value.replace(/[\\/]+/g, "/")\<close>: every maximal run of separators becomes one slash.\<close>

function collapse_separators :: "string \<Rightarrow> string" where
  "collapse_separators [] = []"
| "collapse_separators (c # cs) =
     (if is_sep c then CHR 0x2F # collapse_separators (dropWhile is_sep cs)
      else c # collapse_separators cs)"
  by pat_completeness auto
termination
  by (relation "measure length") (auto simp: le_imp_less_Suc length_dropWhile_le)

definition kept_segment :: "string \<Rightarrow> bool" where
  "kept_segment s \<longleftrightarrow> s \<noteq> [] \<and> s \<noteq> ''.''"

definition path_is_plain :: "string \<Rightarrow> bool" where
  "path_is_plain v \<longleftrightarrow>
     \<not> sublist [CHR 0x5C] v \<and> \<not> sublist ''//'' v \<and> \<not> prefix ''/'' v \<and> \<not> suffix ''/'' v
     \<and> \<not> sublist ''/./'' v \<and> v \<noteq> ''.'' \<and> \<not> prefix ''./'' v \<and> \<not> suffix ''/.'' v"

definition normalizeArchivePath :: "string option \<Rightarrow> string" where
  "normalizeArchivePath value =
     (case value of
        None \<Rightarrow> []
      | Some v \<Rightarrow>
          if v = [] then []
          else if path_is_plain v then v
          else js_join (CHR 0x2F) (filter kept_segment (js_split (CHR 0x2F) (collapse_separators v))))"

definition splitArchivePath :: "string option \<Rightarrow> string list" where
  "splitArchivePath value =
     (let normalized = normalizeArchivePath value
      in if normalized = [] then [] else js_split (CHR 0x2F) normalized)"

definition joinArchivePath :: "string option list \<Rightarrow> string" where
  "joinArchivePath parts = js_join (CHR 0x2F) (concat (map splitArchivePath parts))"

definition getArchiveEntryName :: "string option \<Rightarrow> string" where
  "getArchiveEntryName value =
     (let normalized = normalizeArchivePath value
      in if \<not> truthy value \<or> normalized = [] then []
         else (case last_index (CHR 0x2F) normalized of
                 None \<Rightarrow> normalized
               | Some i \<Rightarrow> drop (Suc i) normalized))"

definition getArchiveEntryFolder :: "string option \<Rightarrow> string" where
  "getArchiveEntryFolder value =
     (let normalized = normalizeArchivePath value
      in if \<not> truthy value \<or> normalized = [] then []
         else (case last_index (CHR 0x2F) normalized of
                 None \<Rightarrow> []
               | Some i \<Rightarrow> take i normalized))"

definition getParentArchivePath :: "string option \<Rightarrow> string option" where
  "getParentArchivePath value =
     (if \<not> truthy value then None else some_nonempty (getArchiveEntryFolder value))"

definition isArchivePathInFolder :: "string \<Rightarrow> string option \<Rightarrow> bool" where
  "isArchivePathInFolder entryPath folderPath =
     (let e = normalizeArchivePath (Some entryPath); f = normalizeArchivePath folderPath
      in if e = [] then f = []
         else if f = [] then True
         else e = f \<or> prefix (f @ ''/'') e)"

definition getArchivePathRelativeToFolder :: "string \<Rightarrow> string option \<Rightarrow> string option" where
  "getArchivePathRelativeToFolder entryPath folderPath =
     (let e = normalizeArchivePath (Some entryPath); f = normalizeArchivePath folderPath
      in if \<not> isArchivePathInFolder e (Some f) then None
         else if f = [] then Some e
         else if e = f then Some []
         else Some (drop (length f + 1) e))"

section \<open>Segments\<close>

definition path_segments :: "string \<Rightarrow> string list" where
  "path_segments v =
     filter kept_segment (js_split (CHR 0x2F) (map (\<lambda>c. if is_sep c then CHR 0x2F else c) v))"

definition good_segments :: "string list \<Rightarrow> bool" where
  "good_segments ss \<longleftrightarrow> (\<forall>s \<in> set ss. kept_segment s \<and> (\<forall>c \<in> set s. \<not> is_sep c))"

lemma good_segments_simps [simp]:
  "good_segments []"
  "good_segments (s # ss) \<longleftrightarrow> (kept_segment s \<and> (\<forall>c \<in> set s. \<not> is_sep c)) \<and> good_segments ss"
  "good_segments (ss @ ts) \<longleftrightarrow> good_segments ss \<and> good_segments ts"
  by (auto simp: good_segments_def)

lemma path_segments_Nil [simp]: "path_segments [] = []"
  by (simp add: path_segments_def kept_segment_def)

lemma path_segments_slash:
  "is_sep c \<Longrightarrow> path_segments (a @ c # b) = path_segments a @ path_segments b"
  by (simp add: path_segments_def js_split_append)

lemma path_segments_sep_Cons: "is_sep c \<Longrightarrow> path_segments (c # b) = path_segments b"
  using path_segments_slash [of c "[]" b] by simp

lemma path_segments_no_sep:
  "(\<And>c. c \<in> set s \<Longrightarrow> \<not> is_sep c) \<Longrightarrow> path_segments s = (if kept_segment s then [s] else [])"
proof -
  assume n: "\<And>c. c \<in> set s \<Longrightarrow> \<not> is_sep c"
  then have "map (\<lambda>c. if is_sep c then CHR 0x2F else c) s = s"
    by (auto intro: map_idI)
  moreover have "CHR 0x2F \<notin> set s"
    using n [of "CHR 0x2F"] by (auto simp: is_sep_def)
  ultimately show ?thesis
    by (simp add: path_segments_def js_split_no_sep)
qed

lemma good_path_segments [simp]: "good_segments (path_segments v)"
proof -
  have "\<not> is_sep c" if "s \<in> set (path_segments v)" and "c \<in> set s" for s c
  proof -
    let ?v = "map (\<lambda>c. if is_sep c then CHR 0x2F else c) v"
    from that have s: "s \<in> set (js_split (CHR 0x2F) ?v)"
      by (auto simp: path_segments_def)
    have "CHR 0x2F \<notin> set s" and "set s \<subseteq> set ?v"
      using js_split_pieces [OF s] js_split_subset [OF s] by simp_all
    with that(2) show ?thesis
      by (auto simp: is_sep_def split: if_splits)
  qed
  then show ?thesis
    by (auto simp: good_segments_def path_segments_def)
qed

lemma path_segments_join: "good_segments ss \<Longrightarrow> path_segments (js_join (CHR 0x2F) ss) = ss"
proof (induction ss)
  case (Cons s ss)
  then have s: "path_segments s = [s]"
    by (subst path_segments_no_sep) auto
  with Cons show ?case
    by (cases "ss = []") (simp_all add: js_join_Cons path_segments_slash is_sep_def)
qed simp

lemma path_segments_dropWhile: "path_segments (dropWhile is_sep v) = path_segments v"
  by (induction v) (auto simp: path_segments_sep_Cons)

lemma filter_split_hd_tl:
  "filter P (js_split c v) = (if P (hd (js_split c v)) then [hd (js_split c v)] else []) @ filter P (tl (js_split c v))"
  by (cases "js_split c v") auto

lemma hd_split_Cons: "x \<noteq> c \<Longrightarrow> hd (js_split c (x # xs)) = x # hd (js_split c xs)"
  and tl_split_Cons: "x \<noteq> c \<Longrightarrow> tl (js_split c (x # xs)) = tl (js_split c xs)"
  by (cases "js_split c xs"; simp)+

lemma collapse_pieces:
  fixes v :: string
  defines "w \<equiv> map (\<lambda>c. if is_sep c then CHR 0x2F else c) v"
  shows "hd (js_split (CHR 0x2F) (collapse_separators v)) = hd (js_split (CHR 0x2F) w)
     \<and> filter kept_segment (tl (js_split (CHR 0x2F) (collapse_separators v)))
       = filter kept_segment (tl (js_split (CHR 0x2F) w))"
  unfolding w_def
proof (induction v rule: collapse_separators.induct)
  case (2 c cs)
  show ?case
  proof (cases "is_sep c")
    case True
    then have "filter kept_segment (js_split (CHR 0x2F) (collapse_separators (dropWhile is_sep cs)))
        = path_segments (dropWhile is_sep cs)"
      using 2(1) unfolding path_segments_def by (subst (1 2) filter_split_hd_tl) simp
    then show ?thesis
      using True by (simp add: path_segments_dropWhile) (simp add: path_segments_def)
  next
    case False
    then have "c \<noteq> CHR 0x2F"
      by (auto simp: is_sep_def)
    with False 2(2) show ?thesis
      by (simp add: hd_split_Cons tl_split_Cons del: js_split.simps)
  qed
qed simp

lemma path_segments_collapse:
  "filter kept_segment (js_split (CHR 0x2F) (collapse_separators v)) = path_segments v"
  unfolding path_segments_def
  by (subst (1 2) filter_split_hd_tl) (simp add: collapse_pieces)


section \<open>The fast path returns what the slow path would\<close>

lemma collapse_plain:
  "\<not> sublist [CHR 0x5C] v \<Longrightarrow> \<not> sublist ''//'' v \<Longrightarrow> collapse_separators v = v"
proof (induction v rule: collapse_separators.induct)
  case (2 c cs)
  then have "\<not> sublist [CHR 0x5C] cs" and "\<not> sublist ''//'' cs" and c: "c \<noteq> CHR 0x5C"
    by (auto simp: sublist_Cons_right prefix_Cons)
  moreover have "is_sep c \<Longrightarrow> dropWhile is_sep cs = cs"
    using 2(3,4) c by (cases cs) (auto simp: is_sep_def sublist_Cons_right prefix_Cons)
  ultimately show ?case
    using 2(1,2) c by (auto simp: is_sep_def)
qed simp

lemma plain_segments_kept:
  assumes "v \<noteq> []" and plain: "path_is_plain v" and "s \<in> set (js_split (CHR 0x2F) v)"
  shows "kept_segment s"
proof (rule ccontr)
  assume "\<not> kept_segment s"
  then have s: "s = [] \<or> s = ''.''"
    by (simp add: kept_segment_def)
  obtain as bs where "js_split (CHR 0x2F) v = as @ s # bs"
    using assms(3) by (meson split_list)
  then have v: "v = js_join (CHR 0x2F) (as @ s # bs)"
    by (metis js_join_split)
  let ?A = "js_join (CHR 0x2F) as" and ?B = "js_join (CHR 0x2F) bs"
  consider "as = []" "bs = []" "v = s" | "as = []" "v = s @ CHR 0x2F # ?B"
    | "bs = []" "v = ?A @ CHR 0x2F # s" | "v = ?A @ (CHR 0x2F # s @ ''/'') @ ?B"
    using v by (cases "as = []"; cases "bs = []") (auto simp: js_join_append js_join_Cons)
  then show False
  proof cases
    case 4
    then have "sublist (CHR 0x2F # s @ ''/'') v"
      by (metis sublist_appendI)
    with s plain show ?thesis
      by (auto simp: path_is_plain_def)
  qed (use s plain \<open>v \<noteq> []\<close> in \<open>auto simp: path_is_plain_def suffix_def\<close>)
qed

lemma normalizeArchivePath_eq [path_simps]:
  "normalizeArchivePath (Some v) = js_join (CHR 0x2F) (path_segments v)"
proof (cases "v \<noteq> [] \<and> path_is_plain v")
  case True
  then have "filter kept_segment (js_split (CHR 0x2F) v) = js_split (CHR 0x2F) v"
    by (auto intro: filter_True plain_segments_kept)
  moreover have "collapse_separators v = v"
    using True by (intro collapse_plain) (simp_all add: path_is_plain_def)
  ultimately have "path_segments v = js_split (CHR 0x2F) v"
    using path_segments_collapse [of v] by simp
  with True show ?thesis
    by (simp add: normalizeArchivePath_def)
next
  case False
  then show ?thesis
    by (auto simp: normalizeArchivePath_def path_segments_collapse)
qed

lemma normalizeArchivePath_None [simp]: "normalizeArchivePath None = []"
  by (simp add: normalizeArchivePath_def)

lemma normalizeArchivePath_Nil [simp]: "normalizeArchivePath (Some []) = []"
  by (simp add: normalizeArchivePath_def)

definition option_segments :: "string option \<Rightarrow> string list" where
  "option_segments v = (case v of None \<Rightarrow> [] | Some s \<Rightarrow> path_segments s)"

lemma option_segments_simps [simp]:
  "option_segments None = []" "option_segments (Some v) = path_segments v"
  by (simp_all add: option_segments_def)

lemma good_option_segments [simp]: "good_segments (option_segments v)"
  by (cases v) simp_all

lemma normalizeArchivePath_option [path_simps]:
  "normalizeArchivePath v = js_join (CHR 0x2F) (option_segments v)"
  by (cases v) (simp_all add: path_simps)

lemma path_segments_normalize [simp]: "path_segments (normalizeArchivePath v) = option_segments v"
  by (simp add: normalizeArchivePath_option path_segments_join)

lemma normalizeArchivePath_idem [simp]:
  "normalizeArchivePath (Some (normalizeArchivePath v)) = normalizeArchivePath v"
  by (simp add: normalizeArchivePath_eq) (simp add: normalizeArchivePath_option)

lemma js_join_good_eq_Nil: "good_segments ss \<Longrightarrow> js_join c ss = [] \<longleftrightarrow> ss = []"
  by (auto simp: js_join_eq_Nil kept_segment_def)

lemma normalize_eq_Nil [simp]: "normalizeArchivePath v = [] \<longleftrightarrow> option_segments v = []"
  by (simp add: normalizeArchivePath_option js_join_good_eq_Nil)

lemma normalize_inj:
  "normalizeArchivePath v = normalizeArchivePath w \<longleftrightarrow> option_segments v = option_segments w"
  by (metis normalizeArchivePath_option path_segments_normalize)

interpretation path: normaliser "\<lambda>s. normalizeArchivePath (Some s)"
  by unfold_locales simp_all

section \<open>The path operations on segments\<close>

lemma no_slash_in_good: "good_segments ss \<Longrightarrow> s \<in> set ss \<Longrightarrow> CHR 0x2F \<notin> set s"
  by (auto simp: good_segments_def is_sep_def)

lemma js_split_join_good:
  "good_segments ss \<Longrightarrow> ss \<noteq> [] \<Longrightarrow> js_split (CHR 0x2F) (js_join (CHR 0x2F) ss) = ss"
  by (rule js_split_join) (auto dest: no_slash_in_good)

lemma splitArchivePath_eq [path_simps]: "splitArchivePath v = option_segments v"
  by (auto simp: splitArchivePath_def Let_def)
    (simp add: normalizeArchivePath_option js_split_join_good)

lemma joinArchivePath_eq [path_simps]:
  "joinArchivePath parts = js_join (CHR 0x2F) (concat (map option_segments parts))"
  by (simp add: joinArchivePath_def splitArchivePath_eq cong: map_cong)

lemma good_concat_segments [simp]: "good_segments (concat (map option_segments parts))"
  by (induction parts) simp_all

lemma path_segments_joinArchivePath [simp]:
  "path_segments (joinArchivePath parts) = concat (map option_segments parts)"
  by (simp add: joinArchivePath_eq path_segments_join)

lemma truthy_segments: "option_segments v \<noteq> [] \<Longrightarrow> truthy v"
  by (cases v) auto

lemma join_snoc:
  "js_join c (ss @ [s]) = (if ss = [] then s else js_join c ss @ c # s)"
  by (simp add: js_join_append)

lemma last_index_join:
  assumes "good_segments ss" and "ss \<noteq> []"
  shows "last_index (CHR 0x2F) (js_join (CHR 0x2F) ss)
       = (if butlast ss = [] then None else Some (length (js_join (CHR 0x2F) (butlast ss))))"
proof -
  obtain us u where ss: "ss = us @ [u]"
    using assms(2) by (metis append_butlast_last_id)
  then have "CHR 0x2F \<notin> set u"
    using assms(1) no_slash_in_good by fastforce
  with ss show ?thesis
    by (auto simp: join_snoc last_index_None last_index_append)
qed

lemma getArchiveEntryName_eq [path_simps]:
  "getArchiveEntryName v = (if option_segments v = [] then [] else last (option_segments v))"
proof (cases "option_segments v = []")
  case False
  obtain us u where ss: "option_segments v = us @ [u]"
    using False by (metis append_butlast_last_id)
  have "good_segments (us @ [u])"
    by (metis good_option_segments ss)
  with ss show ?thesis
    using truthy_segments [OF False] last_index_join [of "us @ [u]"]
    by (auto simp: getArchiveEntryName_def Let_def normalizeArchivePath_option join_snoc)
qed (simp add: getArchiveEntryName_def)

lemma getArchiveEntryFolder_eq [path_simps]:
  "getArchiveEntryFolder v = js_join (CHR 0x2F) (butlast (option_segments v))"
proof (cases "option_segments v = []")
  case False
  obtain us u where ss: "option_segments v = us @ [u]"
    using False by (metis append_butlast_last_id)
  have "good_segments (us @ [u])"
    by (metis good_option_segments ss)
  with ss show ?thesis
    using truthy_segments [OF False] last_index_join [of "us @ [u]"]
    by (auto simp: getArchiveEntryFolder_def Let_def normalizeArchivePath_option join_snoc)
qed (simp add: getArchiveEntryFolder_def)

lemma good_butlast [simp]: "good_segments ss \<Longrightarrow> good_segments (butlast ss)"
  by (auto simp: good_segments_def dest: in_set_butlastD)

lemma getParentArchivePath_eq [path_simps]:
  "getParentArchivePath v =
     (if butlast (option_segments v) = [] then None
      else Some (js_join (CHR 0x2F) (butlast (option_segments v))))"
  using truthy_segments [of v]
  by (cases "option_segments v = []")
    (auto simp: getParentArchivePath_def some_nonempty_def getArchiveEntryFolder_eq js_join_good_eq_Nil)

lemma prefix_join:
  assumes "good_segments us" and "good_segments ws" and "us \<noteq> []"
  shows "js_join (CHR 0x2F) ws = js_join (CHR 0x2F) us
           \<or> prefix (js_join (CHR 0x2F) us @ ''/'') (js_join (CHR 0x2F) ws) \<longleftrightarrow> prefix us ws"
    (is "?l = ?r \<or> prefix ?p ?l \<longleftrightarrow> _")
proof
  assume "?l = ?r \<or> prefix ?p ?l"
  then show "prefix us ws"
  proof
    assume "?l = ?r"
    then show ?thesis
      using assms by (metis path_segments_join prefix_order.refl)
  next
    assume "prefix ?p ?l"
    then obtain zs where "?l = ?r @ CHR 0x2F # zs"
      by (auto simp: prefix_def)
    then have "path_segments ?l = us @ path_segments zs"
      using assms(1) by (simp add: path_segments_slash is_sep_def path_segments_join)
    then show ?thesis
      using assms(2) by (simp add: path_segments_join)
  qed
next
  assume "prefix us ws"
  then obtain zs where "ws = us @ zs"
    by (auto simp: prefix_def)
  with assms(3) show "?l = ?r \<or> prefix ?p ?l"
    by (cases "zs = []") (simp_all add: js_join_append)
qed

lemma isArchivePathInFolder_eq [path_simps]:
  "isArchivePathInFolder e f \<longleftrightarrow> prefix (option_segments f) (path_segments e)"
proof -
  have "option_segments f \<noteq> [] \<Longrightarrow>
      (normalizeArchivePath (Some e) = normalizeArchivePath f
        \<or> prefix (normalizeArchivePath f @ ''/'') (normalizeArchivePath (Some e)))
      = prefix (option_segments f) (path_segments e)"
    unfolding normalizeArchivePath_option option_segments_simps by (rule prefix_join) simp_all
  then show ?thesis
    by (auto simp: isArchivePathInFolder_def Let_def)
qed

lemma getArchivePathRelativeToFolder_eq [path_simps]:
  "getArchivePathRelativeToFolder e f =
     (if prefix (option_segments f) (path_segments e)
      then Some (js_join (CHR 0x2F) (drop (length (option_segments f)) (path_segments e)))
      else None)"
proof (cases "prefix (option_segments f) (path_segments e)")
  case True
  then obtain zs where zs: "path_segments e = option_segments f @ zs"
    by (auto simp: prefix_def)
  have good: "good_segments zs"
    using good_path_segments [of e] unfolding zs by simp
  have e: "normalizeArchivePath (Some e)
      = (if option_segments f = [] then js_join (CHR 0x2F) zs
         else if zs = [] then normalizeArchivePath f
         else normalizeArchivePath f @ CHR 0x2F # js_join (CHR 0x2F) zs)"
    by (simp add: normalizeArchivePath_option zs js_join_append)
  have "isArchivePathInFolder (normalizeArchivePath (Some e)) (Some (normalizeArchivePath f))"
    using True by (simp add: isArchivePathInFolder_eq)
  with e zs True show ?thesis
    unfolding getArchivePathRelativeToFolder_def Let_def by auto
next
  case False
  then show ?thesis
    by (simp add: getArchivePathRelativeToFolder_def isArchivePathInFolder_eq Let_def)
qed

text \<open>A map keyed by normalised paths, read through segments.\<close>

locale path_keyed =
  fixes al :: "(string \<times> 'v) list" and P :: "string list \<Rightarrow> bool" and v :: "string list \<Rightarrow> 'v"
  assumes distinct_keys: "distinct (map fst al)"
    and normal_keys: "k \<in> fst ` set al \<Longrightarrow> js_join (CHR 0x2F) (path_segments k) = k"
    and lookup: "good_segments p \<Longrightarrow> map_of al (js_join (CHR 0x2F) p) = (if P p then Some (v p) else None)"
begin

lemma value_of: "(k, x) \<in> set al \<Longrightarrow> x = v (path_segments k) \<and> P (path_segments k)"
proof -
  assume m: "(k, x) \<in> set al"
  then have "map_of al k = Some x"
    using distinct_keys by simp
  moreover have "js_join (CHR 0x2F) (path_segments k) = k"
    using m by (intro normal_keys) force
  ultimately show ?thesis
    using lookup [of "path_segments k"] by (auto split: if_splits)
qed

lemma all_values: "snd ` set al = v ` {p. good_segments p \<and> P p}"
proof (intro set_eqI iffI)
  fix x assume "x \<in> snd ` set al"
  then show "x \<in> v ` {p. good_segments p \<and> P p}"
    using value_of by fastforce
next
  fix x assume "x \<in> v ` {p. good_segments p \<and> P p}"
  then obtain p where "good_segments p" "P p" "x = v p"
    by blast
  then have "map_of al (js_join (CHR 0x2F) p) = Some x"
    using lookup by simp
  then show "x \<in> snd ` set al"
    by (force dest: map_of_SomeD)
qed

lemma keys_of:
  assumes "\<And>p. good_segments p \<Longrightarrow> P p \<Longrightarrow> f (v p) = js_join (CHR 0x2F) p"
  shows "map f (map snd al) = map fst al"
proof -
  have "f x = k" if "(k, x) \<in> set al" for k x
  proof -
    have "js_join (CHR 0x2F) (path_segments k) = k"
      using that by (intro normal_keys) force
    with value_of [OF that] assms [of "path_segments k"] show ?thesis
      by simp
  qed
  then show ?thesis
    by (auto intro: map_cong)
qed

end

end
