(* ===== verification/ArchiveTree.thy ===== *)
theory ArchiveTree
  imports ArchivePath
begin

text \<open>
  The folder tree and the folder listing of \<^verbatim>\<open>src/src/app/archiveTree.ts\<close>, over the entry type of
  \<^verbatim>\<open>src/src/api/types.ts\<close>.  The mutable nodes with their \<open>childMap\<close> become \<open>mutable_node\<close>, whose
  children are an association list updated in place; \<open>getOrCreateMutableFolder\<close> takes what its
  caller does to the node it returns as a function.  The locale-dependent \<open>Intl.Collator\<close> is the
  parameter \<open>collate\<close>.
\<close>

section \<open>Entries\<close>

datatype archive_entry_kind = KFile | KDirectory | KSymlink | KHardlink | KSpecial

fun kind_string :: "archive_entry_kind \<Rightarrow> string" where
  "kind_string KFile = ''file''"
| "kind_string KDirectory = ''directory''"
| "kind_string KSymlink = ''symlink''"
| "kind_string KHardlink = ''hardlink''"
| "kind_string KSpecial = ''special''"

record archive_entry =
  ae_path :: string
  ae_kind :: archive_entry_kind
  ae_size :: "jsnum option"
  ae_compressedSize :: "jsnum option"
  ae_modified :: "string option"
  ae_mode :: "nat option"
  ae_metadataDiagnostics :: "string list option"
  ae_created :: "string option"
  ae_accessed :: "string option"
  ae_attributes :: "string option"
  ae_encrypted :: "bool option"
  ae_method :: "string option"
  ae_crc :: "string option"
  ae_comment :: "string option"
  ae_solid :: "bool option"
  ae_linkTarget :: "string option"
  ae_uid :: "nat option"
  ae_gid :: "nat option"
  ae_owner :: "string option"
  ae_group :: "string option"

text \<open>An entry as the backend sends it when it knows nothing but the path and the kind.\<close>

definition bare_entry :: "string \<Rightarrow> archive_entry_kind \<Rightarrow> archive_entry" where
  "bare_entry p k =
     \<lparr> ae_path = p, ae_kind = k, ae_size = None, ae_compressedSize = None, ae_modified = None,
       ae_mode = None, ae_metadataDiagnostics = None, ae_created = None, ae_accessed = None,
       ae_attributes = None, ae_encrypted = None, ae_method = None, ae_crc = None,
       ae_comment = None, ae_solid = None, ae_linkTarget = None, ae_uid = None, ae_gid = None,
       ae_owner = None, ae_group = None \<rparr>"

lemma bare_entry_sel [simp]: "ae_path (bare_entry p k) = p" "ae_kind (bare_entry p k) = k"
  by (simp_all add: bare_entry_def)

abbreviation entry_segments :: "archive_entry \<Rightarrow> string list" where
  "entry_segments e \<equiv> path_segments (ae_path e)"

section \<open>The folder tree\<close>

record node_info =
  ni_name :: string
  ni_path :: string
  ni_parentPath :: "string option"
  ni_depth :: nat
  ni_entry :: "archive_entry option"
  ni_isRoot :: bool
  ni_isExplicit :: bool

datatype folder_node = FolderNode (fn_info: node_info) (fn_children: "folder_node list")

datatype mutable_node =
  MutableNode (mn_info: node_info) (mn_childMap: "(string \<times> mutable_node) list")

definition createMutableNode :: "node_info \<Rightarrow> mutable_node" where
  "createMutableNode node = MutableNode node []"

fun getOrCreate_loop ::
    "(mutable_node \<Rightarrow> mutable_node) \<Rightarrow> string list \<Rightarrow> string \<Rightarrow> mutable_node \<Rightarrow> mutable_node" where
  "getOrCreate_loop upd [] currentPath currentNode = upd currentNode"
| "getOrCreate_loop upd (segment # segments) currentPath currentNode =
     (let currentPath' = joinArchivePath [Some currentPath, Some segment];
          childNode =
            (case map_of (mn_childMap currentNode) segment of
               Some existingNode \<Rightarrow> existingNode
             | None \<Rightarrow>
                 createMutableNode
                   \<lparr> ni_name = segment, ni_path = currentPath',
                     ni_parentPath = Some (ni_path (mn_info currentNode)),
                     ni_depth = ni_depth (mn_info currentNode) + 1, ni_entry = None,
                     ni_isRoot = False, ni_isExplicit = False \<rparr>)
      in MutableNode (mn_info currentNode)
           (AList.update segment (getOrCreate_loop upd segments currentPath' childNode)
              (mn_childMap currentNode)))"

definition getOrCreateMutableFolder ::
    "(mutable_node \<Rightarrow> mutable_node) \<Rightarrow> mutable_node \<Rightarrow> string \<Rightarrow> mutable_node" where
  "getOrCreateMutableFolder upd rootNode folderPath =
     getOrCreate_loop upd (splitArchivePath (Some folderPath)) [] rootNode"

definition compareFolderNodes ::
    "(string \<Rightarrow> string \<Rightarrow> int) \<Rightarrow> folder_node \<Rightarrow> folder_node \<Rightarrow> int" where
  "compareFolderNodes collate l r =
     (let c = collate (ni_name (fn_info l)) (ni_name (fn_info r))
      in if c \<noteq> 0 then c else collate (ni_path (fn_info l)) (ni_path (fn_info r)))"

fun finalizeFolderNode ::
    "(string \<Rightarrow> string \<Rightarrow> int) \<Rightarrow> mutable_node \<Rightarrow> folder_node" where
  "finalizeFolderNode collate (MutableNode info childMap) =
     FolderNode info
       (js_sort (compareFolderNodes collate)
          (map (finalizeFolderNode collate) (map snd childMap)))"

definition mark_explicit :: "archive_entry \<Rightarrow> mutable_node \<Rightarrow> mutable_node" where
  "mark_explicit entry node =
     (if ae_kind entry = KDirectory
      then MutableNode ((mn_info node)\<lparr> ni_entry := Some entry, ni_isExplicit := True \<rparr>)
             (mn_childMap node)
      else node)"

definition add_tree_entry :: "mutable_node \<Rightarrow> archive_entry \<Rightarrow> mutable_node" where
  "add_tree_entry rootNode entry =
     (let normalizedPath = normalizeArchivePath (Some (ae_path entry))
      in if normalizedPath = [] then rootNode
         else (let folderPath =
                     (if ae_kind entry = KDirectory then normalizedPath
                      else getArchiveEntryFolder (Some normalizedPath))
               in getOrCreateMutableFolder (mark_explicit entry) rootNode folderPath))"

definition initial_root :: "string option \<Rightarrow> mutable_node" where
  "initial_root rootName =
     createMutableNode
       \<lparr> ni_name = nullish rootName ''Archive'', ni_path = [], ni_parentPath = None, ni_depth = 0,
         ni_entry = None, ni_isRoot = True, ni_isExplicit = True \<rparr>"

definition buildArchiveTree ::
    "(string \<Rightarrow> string \<Rightarrow> int) \<Rightarrow> archive_entry list \<Rightarrow> string option \<Rightarrow> folder_node" where
  "buildArchiveTree collate entries rootName =
     finalizeFolderNode collate (foldl add_tree_entry (initial_root rootName) entries)"

fun flattenArchiveTree :: "folder_node \<Rightarrow> folder_node list" where
  "flattenArchiveTree (FolderNode info children) =
     FolderNode info children # concat (map flattenArchiveTree children)"

record archive_breadcrumb =
  bc_name :: string
  bc_path :: string
  bc_isRoot :: bool

fun breadcrumb_loop :: "string \<Rightarrow> string list \<Rightarrow> archive_breadcrumb list" where
  "breadcrumb_loop path [] = []"
| "breadcrumb_loop path (segment # segments) =
     (let path' = joinArchivePath [Some path, Some segment]
      in \<lparr> bc_name = segment, bc_path = path', bc_isRoot = False \<rparr> # breadcrumb_loop path' segments)"

definition getArchiveBreadcrumbs ::
    "string option \<Rightarrow> string option \<Rightarrow> archive_breadcrumb list" where
  "getArchiveBreadcrumbs currentFolderPath rootName =
     \<lparr> bc_name = nullish rootName ''Archive'', bc_path = [], bc_isRoot = True \<rparr>
       # breadcrumb_loop [] (splitArchivePath currentFolderPath)"

definition archiveFolderExists :: "archive_entry list \<Rightarrow> string option \<Rightarrow> bool" where
  "archiveFolderExists entries folderPath =
     (let f = normalizeArchivePath folderPath
      in f = []
         \<or> list_ex (\<lambda>entry.
              let e = normalizeArchivePath (Some (ae_path entry))
              in (ae_kind entry = KDirectory \<and> e = f) \<or> prefix (f @ ''/'') e) entries)"

section \<open>Visible entries\<close>

definition normalizeSearchQuery :: "string option \<Rightarrow> string" where
  "normalizeSearchQuery query = (case query of None \<Rightarrow> [] | Some q \<Rightarrow> js_lower (js_trim q))"

definition archiveEntryMatchesSearch :: "archive_entry \<Rightarrow> string option \<Rightarrow> bool" where
  "archiveEntryMatchesSearch entry query =
     (let q = normalizeSearchQuery query
      in q = []
         \<or> sublist q (js_lower (normalizeArchivePath (Some (ae_path entry))))
         \<or> sublist q (kind_string (ae_kind entry)))"

definition filterArchiveEntries :: "archive_entry list \<Rightarrow> string option \<Rightarrow> archive_entry list" where
  "filterArchiveEntries entries query =
     (let q = normalizeSearchQuery query
      in if q = [] then entries
         else filter (\<lambda>e. archiveEntryMatchesSearch e (Some q)) entries)"

record visible_entry =
  ve_path :: string
  ve_name :: string
  ve_parentPath :: string
  ve_kind :: archive_entry_kind
  ve_entry :: "archive_entry option"
  ve_isDirectory :: bool
  ve_isSynthetic :: bool
  ve_hasChildren :: bool

datatype archive_view_mode = FolderMode | FlatMode

definition collectFoldersWithChildren :: "archive_entry list \<Rightarrow> string list" where
  "collectFoldersWithChildren entries =
     fold (\<lambda>entry folders.
             let segments = splitArchivePath (Some (ae_path entry))
             in fold (\<lambda>index. set_add (js_join (CHR 0x2F) (take index segments)))
                  [1..<length segments] folders)
       entries []"

definition createVisibleEntryFromEntry :: "archive_entry \<Rightarrow> string list \<Rightarrow> visible_entry" where
  "createVisibleEntryFromEntry entry foldersWithChildren =
     (let path = normalizeArchivePath (Some (ae_path entry))
      in \<lparr> ve_path = path, ve_name = getArchiveEntryName (Some path),
           ve_parentPath = getArchiveEntryFolder (Some path), ve_kind = ae_kind entry,
           ve_entry = Some entry, ve_isDirectory = (ae_kind entry = KDirectory),
           ve_isSynthetic = False, ve_hasChildren = set_has foldersWithChildren path \<rparr>)"

definition upsertSyntheticFolder ::
    "(string \<times> visible_entry) list \<Rightarrow> string \<Rightarrow> string \<Rightarrow> string list
      \<Rightarrow> (string \<times> visible_entry) list" where
  "upsertSyntheticFolder visibleByPath folderPath parentPath foldersWithChildren =
     (if map_of visibleByPath folderPath \<noteq> None then visibleByPath
      else AList.update folderPath
        \<lparr> ve_path = folderPath, ve_name = getArchiveEntryName (Some folderPath),
          ve_parentPath = parentPath, ve_kind = KDirectory, ve_entry = None,
          ve_isDirectory = True, ve_isSynthetic = True,
          ve_hasChildren = set_has foldersWithChildren folderPath \<rparr> visibleByPath)"

definition visibleEntryMatchesSearch :: "visible_entry \<Rightarrow> string \<Rightarrow> bool" where
  "visibleEntryMatchesSearch entry query \<longleftrightarrow>
     query = [] \<or> sublist query (js_lower (ve_name entry))
     \<or> sublist query (js_lower (ve_path entry)) \<or> sublist query (kind_string (ve_kind entry))"

definition compareArchiveVisibleEntries ::
    "(string \<Rightarrow> string \<Rightarrow> int) \<Rightarrow> visible_entry \<Rightarrow> visible_entry \<Rightarrow> int" where
  "compareArchiveVisibleEntries collate l r =
     (if ve_isDirectory l \<noteq> ve_isDirectory r then (if ve_isDirectory l then -1 else 1)
      else (let c = collate (ve_name l) (ve_name r)
            in if c \<noteq> 0 then c else collate (ve_path l) (ve_path r)))"

definition visible_step ::
    "string list \<Rightarrow> string \<Rightarrow> (string \<times> visible_entry) list \<Rightarrow> archive_entry
      \<Rightarrow> (string \<times> visible_entry) list" where
  "visible_step foldersWithChildren currentFolderPath visibleByPath entry =
     (let normalizedPath = normalizeArchivePath (Some (ae_path entry))
      in if normalizedPath = [] then visibleByPath
         else (case getArchivePathRelativeToFolder normalizedPath (Some currentFolderPath) of
             None \<Rightarrow> visibleByPath
           | Some relativePath \<Rightarrow>
               if relativePath = [] then visibleByPath
               else (case splitArchivePath (Some relativePath) of
                   [] \<Rightarrow> visibleByPath
                 | childName # remainingSegments \<Rightarrow>
                     let childPath = joinArchivePath [Some currentFolderPath, Some childName]
                     in if remainingSegments \<noteq> []
                        then upsertSyntheticFolder visibleByPath childPath currentFolderPath
                               foldersWithChildren
                        else (let visibleEntry = createVisibleEntryFromEntry entry foldersWithChildren
                              in AList.update (ve_path visibleEntry) visibleEntry visibleByPath))))"

definition getVisibleArchiveEntries ::
    "(string \<Rightarrow> string \<Rightarrow> int) \<Rightarrow> archive_entry list \<Rightarrow> string option
      \<Rightarrow> archive_view_mode option \<Rightarrow> string option \<Rightarrow> visible_entry list" where
  "getVisibleArchiveEntries collate entries currentFolder mode searchQuery =
     (let query = normalizeSearchQuery searchQuery;
          foldersWithChildren = collectFoldersWithChildren entries
      in case nullish mode FolderMode of
           FlatMode \<Rightarrow>
             js_sort (compareArchiveVisibleEntries collate)
               (map (\<lambda>entry. createVisibleEntryFromEntry entry foldersWithChildren)
                  (filterArchiveEntries entries (Some query)))
         | FolderMode \<Rightarrow>
             js_sort (compareArchiveVisibleEntries collate)
               (filter (\<lambda>entry. visibleEntryMatchesSearch entry query)
                  (map snd
                     (foldl (visible_step foldersWithChildren (normalizeArchivePath currentFolder))
                        [] entries))))"

section \<open>What the tree contains\<close>

text \<open>The information stored at a list of segments, and all of it in preorder.\<close>

fun node_at :: "string list \<Rightarrow> mutable_node \<Rightarrow> node_info option" where
  "node_at [] node = Some (mn_info node)"
| "node_at (s # ss) node =
     (case map_of (mn_childMap node) s of None \<Rightarrow> None | Some child \<Rightarrow> node_at ss child)"

fun node_infos :: "mutable_node \<Rightarrow> node_info list" where
  "node_infos (MutableNode info childMap) = info # concat (map node_infos (map snd childMap))"

text \<open>
  A node that stands at \<open>base\<close>: its path, depth and parent are those of \<open>base\<close>, and its children
  have distinct good names and stand below it.
\<close>

fun wf_node :: "string list \<Rightarrow> mutable_node \<Rightarrow> bool" where
  "wf_node base (MutableNode info childMap) \<longleftrightarrow>
     ni_path info = js_join (CHR 0x2F) base \<and> ni_depth info = length base
     \<and> (base \<noteq> [] \<longrightarrow> ni_name info = last base \<and> \<not> ni_isRoot info
           \<and> ni_parentPath info = Some (js_join (CHR 0x2F) (butlast base)))
     \<and> good_segments base \<and> distinct (map fst childMap)
     \<and> (\<forall>(s, child) \<in> set childMap. wf_node (base @ [s]) child)"

lemma wf_node_unfold:
  "wf_node base node \<longleftrightarrow>
     ni_path (mn_info node) = js_join (CHR 0x2F) base \<and> ni_depth (mn_info node) = length base
     \<and> (base \<noteq> [] \<longrightarrow> ni_name (mn_info node) = last base \<and> \<not> ni_isRoot (mn_info node)
           \<and> ni_parentPath (mn_info node) = Some (js_join (CHR 0x2F) (butlast base)))
     \<and> good_segments base \<and> distinct (map fst (mn_childMap node))
     \<and> (\<forall>(s, child) \<in> set (mn_childMap node). wf_node (base @ [s]) child)"
  by (cases node) simp

lemma wf_update_child:
  "wf_node base node \<Longrightarrow> wf_node (base @ [s]) c \<Longrightarrow>
     wf_node base (MutableNode (mn_info node) (AList.update s c (mn_childMap node)))"
  unfolding wf_node_unfold [of base]
  by (auto simp: distinct_update dest: in_set_update)

lemma path_segments_good_join [simp]:
  "good_segments base \<Longrightarrow> path_segments (js_join (CHR 0x2F) base) = base"
  by (rule path_segments_join)

lemma path_segments_good_name:
  "kept_segment s \<Longrightarrow> (\<forall>c \<in> set s. \<not> is_sep c) \<Longrightarrow> path_segments s = [s]"
  by (subst path_segments_no_sep) auto

lemma wf_getOrCreate:
  assumes "wf_node base node" and "good_segments (base @ ss)"
    and "\<And>b n. wf_node b n \<Longrightarrow> wf_node b (upd n)"
  shows "wf_node base (getOrCreate_loop upd ss (js_join (CHR 0x2F) base) node)"
  using assms(1,2)
proof (induction ss arbitrary: base node)
  case (Cons s ss)
  let ?p = "joinArchivePath [Some (js_join (CHR 0x2F) base), Some s]"
  have p: "?p = js_join (CHR 0x2F) (base @ [s])"
    using Cons.prems(2) by (simp add: joinArchivePath_eq path_segments_good_name)
  let ?c = "case map_of (mn_childMap node) s of Some existingNode \<Rightarrow> existingNode
      | None \<Rightarrow> createMutableNode
          \<lparr> ni_name = s, ni_path = ?p, ni_parentPath = Some (ni_path (mn_info node)),
            ni_depth = ni_depth (mn_info node) + 1, ni_entry = None, ni_isRoot = False,
            ni_isExplicit = False \<rparr>"
  have "wf_node (base @ [s]) ?c"
    using Cons.prems unfolding p wf_node_unfold [of base]
    by (auto simp: createMutableNode_def split: option.split dest!: map_of_SomeD)
  then have "wf_node (base @ [s]) (getOrCreate_loop upd ss (js_join (CHR 0x2F) (base @ [s])) ?c)"
    by (rule Cons.IH) (use Cons.prems(2) in simp)
  from wf_update_child [OF Cons.prems(1) this] show ?case
    unfolding getOrCreate_loop.simps Let_def p .
qed (simp add: assms(3))

lemma node_at_getOrCreate_dom:
  assumes "\<And>n. mn_childMap (upd n) = mn_childMap n"
  shows "node_at p (getOrCreate_loop upd ss cp node) \<noteq> None \<longleftrightarrow> prefix p ss \<or> node_at p node \<noteq> None"
proof (induction ss arbitrary: p cp node)
  case Nil
  then show ?case
    by (cases p) (auto simp: assms)
next
  case (Cons s ss)
  show ?case
  proof (cases p)
    case p: (Cons t ts)
    then show ?thesis
    proof (cases "t = s")
      case True
      have "node_at ts (createMutableNode i) \<noteq> None \<longleftrightarrow> ts = []" for i
        by (cases ts) (auto simp: createMutableNode_def)
      with Cons.IH True p show ?thesis
        by (cases "map_of (mn_childMap node) s") (auto simp: Let_def update_conv)
    qed (auto simp: Let_def update_conv)
  qed auto
qed

text \<open>What only the entries decide about a node: the directory entry it carries and whether it is explicit.\<close>

definition info_mark :: "node_info \<Rightarrow> archive_entry option \<times> bool" where
  "info_mark i = (ni_entry i, ni_isExplicit i)"

definition node_mark :: "string list \<Rightarrow> mutable_node \<Rightarrow> archive_entry option \<times> bool" where
  "node_mark p node = (case node_at p node of None \<Rightarrow> (None, False) | Some i \<Rightarrow> info_mark i)"

lemma node_mark_getOrCreate:
  assumes "\<And>n. mn_childMap (upd n) = mn_childMap n"
    and "\<And>n. info_mark (mn_info (upd n)) = h (info_mark (mn_info n))"
  shows "node_mark p (getOrCreate_loop upd ss cp node)
       = (if p = ss then h (node_mark p node) else node_mark p node)"
proof (induction ss arbitrary: p cp node)
  case Nil
  then show ?case
    by (cases p) (auto simp: assms node_mark_def)
next
  case (Cons s ss)
  show ?case
  proof (cases p)
    case p: (Cons t ts)
    then show ?thesis
    proof (cases "t = s")
      case True
      have fresh: "node_mark ts (createMutableNode i) = (None, False)"
        if "ni_entry i = None" "\<not> ni_isExplicit i" for i ts
        using that by (cases ts) (auto simp: createMutableNode_def node_mark_def info_mark_def)
      have step: "node_mark (s # ts) n = (case map_of (mn_childMap n) s of None \<Rightarrow> (None, False)
          | Some c \<Rightarrow> node_mark ts c)" for n ts
        by (simp add: node_mark_def split: option.split)
      show ?thesis
        using True p by (auto simp: step Cons.IH fresh Let_def update_conv split: option.split)
    qed (auto simp: node_mark_def Let_def update_conv)
  qed (auto simp: node_mark_def Let_def)
qed

text \<open>The folder an entry puts into the tree, and the tree's contents after a list of entries.\<close>

definition entry_folder :: "archive_entry \<Rightarrow> string list" where
  "entry_folder e =
     (if ae_kind e = KDirectory then entry_segments e else butlast (entry_segments e))"

definition directory_entries :: "archive_entry list \<Rightarrow> string list \<Rightarrow> archive_entry list" where
  "directory_entries entries p = filter (\<lambda>e. ae_kind e = KDirectory \<and> entry_segments e = p) entries"

lemma add_tree_entry_eq:
  "add_tree_entry node e =
     (if entry_segments e = [] then node
      else getOrCreate_loop (mark_explicit e) (entry_folder e) [] node)"
  by (simp add: add_tree_entry_def entry_folder_def getOrCreateMutableFolder_def path_simps
      js_join_good_eq_Nil Let_def)

lemma mark_explicit_simps [simp]:
  "mn_childMap (mark_explicit e n) = mn_childMap n"
  "info_mark (mn_info (mark_explicit e n))
     = (if ae_kind e = KDirectory then (Some e, True) else info_mark (mn_info n))"
  by (simp_all add: mark_explicit_def info_mark_def)

lemma wf_mark_explicit: "wf_node b n \<Longrightarrow> wf_node b (mark_explicit e n)"
  by (cases n) (auto simp: mark_explicit_def)

lemma good_entry_folder [simp]: "good_segments (entry_folder e)"
  by (simp add: entry_folder_def)

lemma wf_add_tree_entry: "wf_node [] node \<Longrightarrow> wf_node [] (add_tree_entry node e)"
  using wf_getOrCreate [of "[]" node "entry_folder e" "mark_explicit e"]
  by (auto simp: add_tree_entry_eq wf_mark_explicit)

lemma root_add_tree_entry:
  "ni_isRoot (mn_info (add_tree_entry node e)) = ni_isRoot (mn_info node)"
  by (cases "entry_folder e") (auto simp: add_tree_entry_eq mark_explicit_def Let_def)

abbreviation tree_root :: "archive_entry list \<Rightarrow> string option \<Rightarrow> mutable_node" where
  "tree_root entries rootName \<equiv> foldl add_tree_entry (initial_root rootName) entries"

lemma wf_tree_root: "wf_node [] (tree_root entries rootName)"
  by (induction entries rule: rev_induct)
    (auto simp: wf_add_tree_entry initial_root_def createMutableNode_def)

lemma root_tree_root: "ni_isRoot (mn_info (tree_root entries rootName))"
  by (induction entries rule: rev_induct)
    (auto simp: root_add_tree_entry initial_root_def createMutableNode_def)

lemma node_at_Nil_neq [simp]: "node_at [] node \<noteq> None"
  by simp

lemma add_tree_entry_dom:
  "node_at p (add_tree_entry node e) \<noteq> None \<longleftrightarrow> prefix p (entry_folder e) \<or> node_at p node \<noteq> None"
proof (cases "entry_segments e = []")
  case True
  then show ?thesis
    by (auto simp: add_tree_entry_eq entry_folder_def)
next
  case False
  then show ?thesis
    by (simp add: add_tree_entry_eq node_at_getOrCreate_dom del: not_None_eq)
qed

lemma add_tree_entry_mark:
  "node_mark p (add_tree_entry node e) =
     (if ae_kind e = KDirectory \<and> entry_segments e = p \<and> p \<noteq> [] then (Some e, True)
      else node_mark p node)"
  using node_mark_getOrCreate [of "mark_explicit e"
      "\<lambda>m. if ae_kind e = KDirectory then (Some e, True) else m" p "entry_folder e" "[]" node]
  by (auto simp: add_tree_entry_eq entry_folder_def)

lemma tree_root_dom:
  "node_at p (tree_root entries rootName) \<noteq> None \<longleftrightarrow>
     p = [] \<or> (\<exists>e \<in> set entries. prefix p (entry_folder e))"
proof (induction entries rule: rev_induct)
  case Nil
  then show ?case
    by (cases p) (auto simp: initial_root_def createMutableNode_def)
next
  case (snoc e es)
  then show ?case
    by (auto simp: add_tree_entry_dom simp del: not_None_eq)
qed

lemma tree_root_mark:
  "node_mark p (tree_root entries rootName) =
     (if p = [] then (None, True)
      else if directory_entries entries p = [] then (None, False)
      else (Some (last (directory_entries entries p)), True))"
proof (induction entries rule: rev_induct)
  case Nil
  then show ?case
    by (cases p) (auto simp: initial_root_def createMutableNode_def node_mark_def info_mark_def
        directory_entries_def)
next
  case (snoc e es)
  then show ?case
    by (auto simp: add_tree_entry_mark directory_entries_def)
qed

section \<open>Flattening\<close>

lemma mset_flatten_finalize:
  "mset (map fn_info (flattenArchiveTree (finalizeFolderNode collate node))) = mset (node_infos node)"
proof (induction node rule: node_infos.induct)
  case (1 info childMap)
  let ?F = "\<lambda>n. image_mset fn_info (mset (flattenArchiveTree n))"
  have flat: "image_mset fn_info (mset (concat (map flattenArchiveTree ns))) = sum_list (map ?F ns)" for ns
    by (induction ns) simp_all
  have flat': "mset (concat (map node_infos ns)) = sum_list (map (mset \<circ> node_infos) ns)" for ns
    by (induction ns) simp_all
  let ?cs = "map (finalizeFolderNode collate) (map snd childMap)"
  have "sum_list (map ?F (js_sort (compareFolderNodes collate) ?cs)) = sum_list (map ?F ?cs)"
    by (metis mset_js_sort mset_map sum_mset_sum_list)
  also have "map ?F ?cs = map (mset \<circ> node_infos) (map snd childMap)"
    using 1 by auto
  finally show ?case
    by (simp add: flat flat' del: map_map)
qed

lemma node_infos_at:
  "wf_node base node \<Longrightarrow> set (node_infos node) = {i. \<exists>p. node_at p node = Some i}"
proof (induction node arbitrary: base rule: node_infos.induct)
  case (1 info childMap)
  then have d: "distinct (map fst childMap)"
    by simp
  have IH: "set (node_infos c) = {i. \<exists>p. node_at p c = Some i}" if "(s, c) \<in> set childMap" for s c
  proof (rule 1(1) [of c "base @ [s]"])
    show "c \<in> set (map snd childMap)"
      using that by (metis image_eqI list.set_map snd_conv)
    show "wf_node (base @ [s]) c"
      using 1(2) that by auto
  qed
  have "(\<exists>p. node_at p (MutableNode info childMap) = Some i) \<longleftrightarrow>
      i = info \<or> (\<exists>(s, c) \<in> set childMap. \<exists>p. node_at p c = Some i)" for i
  proof
    assume "\<exists>p. node_at p (MutableNode info childMap) = Some i"
    then obtain p where p: "node_at p (MutableNode info childMap) = Some i"
      by blast
    then show "i = info \<or> (\<exists>(s, c) \<in> set childMap. \<exists>p. node_at p c = Some i)"
      by (cases p) (auto split: option.splits dest: map_of_SomeD)
  next
    assume "i = info \<or> (\<exists>(s, c) \<in> set childMap. \<exists>p. node_at p c = Some i)"
    then show "\<exists>p. node_at p (MutableNode info childMap) = Some i"
    proof
      assume "i = info"
      then show ?thesis
        by (intro exI [of _ "[]"]) simp
    next
      assume "\<exists>(s, c) \<in> set childMap. \<exists>p. node_at p c = Some i"
      then obtain s c p where "(s, c) \<in> set childMap" "node_at p c = Some i"
        by blast
      then show ?thesis
        using d by (intro exI [of _ "s # p"]) simp
    qed
  qed
  moreover have "set (node_infos (MutableNode info childMap))
      = insert info (\<Union>(s, c) \<in> set childMap. {i. \<exists>p. node_at p c = Some i})"
  proof -
    have "set (node_infos (MutableNode info childMap))
        = insert info (\<Union>sc \<in> set childMap. set (node_infos (snd sc)))"
      by auto
    also have "(\<Union>sc \<in> set childMap. set (node_infos (snd sc)))
        = (\<Union>(s, c) \<in> set childMap. {i. \<exists>p. node_at p c = Some i})"
      by (rule SUP_cong) (auto simp: IH split: prod.split)
    finally show ?thesis .
  qed
  ultimately show ?case
    by blast
qed

lemma wf_node_at:
  "wf_node base node \<Longrightarrow> node_at p node = Some i \<Longrightarrow>
     ni_path i = js_join (CHR 0x2F) (base @ p) \<and> ni_depth i = length (base @ p) \<and> good_segments (base @ p)
     \<and> (p \<noteq> [] \<longrightarrow> ni_name i = last p \<and> \<not> ni_isRoot i
          \<and> ni_parentPath i = Some (js_join (CHR 0x2F) (butlast (base @ p))))"
proof (induction p arbitrary: base node)
  case Nil
  then show ?case
    by (simp add: wf_node_unfold [of base])
next
  case (Cons s ss)
  then obtain c where c: "map_of (mn_childMap node) s = Some c" "node_at ss c = Some i"
    by (auto split: option.splits)
  moreover have "wf_node (base @ [s]) c"
    using Cons.prems(1) c(1) unfolding wf_node_unfold [of base] by (auto dest: map_of_SomeD)
  ultimately have *: "ni_path i = js_join (CHR 0x2F) ((base @ [s]) @ ss)
      \<and> ni_depth i = length ((base @ [s]) @ ss) \<and> good_segments ((base @ [s]) @ ss)
      \<and> (ss \<noteq> [] \<longrightarrow> ni_name i = last ss \<and> \<not> ni_isRoot i
          \<and> ni_parentPath i = Some (js_join (CHR 0x2F) (butlast ((base @ [s]) @ ss))))"
    by (intro Cons.IH)
  show ?case
  proof (cases "ss = []")
    case True
    with c \<open>wf_node (base @ [s]) c\<close> * show ?thesis
      by (simp add: wf_node_unfold [of "base @ [s]"])
  qed (use * in simp)
qed

lemma distinct_node_infos:
  "wf_node base node \<Longrightarrow> distinct (map ni_path (node_infos node))"
proof (induction node arbitrary: base rule: node_infos.induct)
  case (1 info childMap)
  have below: "\<exists>q. path_segments (ni_path i) = base @ s # q"
    if "(s, c) \<in> set childMap" and "i \<in> set (node_infos c)" for s c i
  proof -
    have wf: "wf_node (base @ [s]) c"
      using 1(2) that(1) by auto
    with that(2) obtain p where "node_at p c = Some i"
      using node_infos_at by blast
    from wf_node_at [OF wf this] show ?thesis
      by auto
  qed
  have self: "path_segments (ni_path info) = base"
    using 1(2) by simp
  have "distinct (concat (map (\<lambda>c. map ni_path (node_infos c)) (map snd al)))"
    if "set al \<subseteq> set childMap" and "distinct (map fst al)" for al
    using that
  proof (induction al)
    case (Cons sc al)
    obtain s c where sc: "sc = (s, c)"
      by (cases sc)
    then have "wf_node (base @ [s]) c"
      using 1(2) Cons.prems by auto
    then have "distinct (map ni_path (node_infos c))"
      using 1(1) [of c "base @ [s]"] Cons.prems sc by (auto simp: image_iff) force
    moreover have False
      if "i \<in> set (node_infos c)" and "(t, d) \<in> set al" and "j \<in> set (node_infos d)"
        and "ni_path i = ni_path j" for i t d j
    proof -
      have "(s, c) \<in> set childMap" "(t, d) \<in> set childMap" "s \<noteq> t"
        using Cons.prems sc that(2) by (auto simp: image_iff)
      then show False
        using below [of s c i] below [of t d j] that by auto
    qed
    ultimately show ?case
      using Cons sc by (auto simp: image_iff) blast
  qed simp
  then have "distinct (concat (map (\<lambda>c. map ni_path (node_infos c)) (map snd childMap)))"
    using 1(2) by simp
  moreover have "ni_path info \<notin> ni_path ` set (node_infos c)" if "(s, c) \<in> set childMap" for s c
    using below [OF that] self by force
  ultimately show ?case
    by (auto simp: map_concat o_def) (metis image_eqI)
qed

section \<open>The finished tree\<close>

definition tree_nodes ::
    "(string \<Rightarrow> string \<Rightarrow> int) \<Rightarrow> archive_entry list \<Rightarrow> string option \<Rightarrow> node_info list" where
  "tree_nodes collate entries rootName =
     map fn_info (flattenArchiveTree (buildArchiveTree collate entries rootName))"

lemma set_tree_nodes:
  "set (tree_nodes collate entries rootName)
     = {i. \<exists>p. node_at p (tree_root entries rootName) = Some i}"
proof -
  have "set (tree_nodes collate entries rootName) = set (node_infos (tree_root entries rootName))"
    unfolding tree_nodes_def buildArchiveTree_def by (metis mset_flatten_finalize set_mset_mset)
  also have "\<dots> = {i. \<exists>p. node_at p (tree_root entries rootName) = Some i}"
    by (rule node_infos_at) (rule wf_tree_root)
  finally show ?thesis .
qed

lemma distinct_tree_paths: "distinct (map ni_path (tree_nodes collate entries rootName))"
proof -
  have "mset (map ni_path (tree_nodes collate entries rootName))
      = mset (map ni_path (node_infos (tree_root entries rootName)))"
    unfolding tree_nodes_def buildArchiveTree_def by (metis mset_flatten_finalize mset_map)
  then show ?thesis
    using distinct_node_infos [OF wf_tree_root] by (metis mset_eq_imp_distinct_iff)
qed

lemma tree_node_props:
  assumes "i \<in> set (tree_nodes collate entries rootName)"
  shows "\<exists>p. good_segments p \<and> ni_path i = js_join (CHR 0x2F) p \<and> ni_depth i = length p
     \<and> node_at p (tree_root entries rootName) = Some i
     \<and> (ni_isRoot i \<longleftrightarrow> p = [])
     \<and> (p \<noteq> [] \<longrightarrow> ni_name i = last p \<and> ni_parentPath i = Some (js_join (CHR 0x2F) (butlast p)))"
proof -
  obtain p where p: "node_at p (tree_root entries rootName) = Some i"
    using assms unfolding set_tree_nodes by blast
  have "p = [] \<Longrightarrow> ni_isRoot i"
    using p root_tree_root by (metis node_at.simps(1) option.inject)
  with p wf_node_at [OF wf_tree_root p] show ?thesis
    by (intro exI [of _ p]) auto
qed

lemma strict_prefix_butlast: "prefix p (butlast ss) \<longleftrightarrow> ss \<noteq> [] \<and> strict_prefix p ss \<or> p = []"
proof (cases ss rule: rev_cases)
  case (snoc xs x)
  then show ?thesis
    by (auto simp: strict_prefix_def)
qed auto

lemma prefix_join_strict:
  assumes "good_segments us" and "good_segments ws" and "us \<noteq> []"
  shows "prefix (js_join (CHR 0x2F) us @ ''/'') (js_join (CHR 0x2F) ws) \<longleftrightarrow> strict_prefix us ws"
proof
  assume p: "prefix (js_join (CHR 0x2F) us @ ''/'') (js_join (CHR 0x2F) ws)"
  then have "prefix us ws"
    using prefix_join [OF assms] by blast
  moreover have "us \<noteq> ws"
    using p by (auto dest: prefix_length_le)
  ultimately show "strict_prefix us ws"
    by (simp add: strict_prefix_def)
next
  assume "strict_prefix us ws"
  then have "js_join (CHR 0x2F) ws \<noteq> js_join (CHR 0x2F) us" and "prefix us ws"
    using assms by (auto simp: strict_prefix_def dest: arg_cong [of _ _ path_segments])
  then show "prefix (js_join (CHR 0x2F) us @ ''/'') (js_join (CHR 0x2F) ws)"
    using prefix_join [OF assms] by blast
qed

lemma archiveFolderExists_eq:
  "archiveFolderExists entries f \<longleftrightarrow>
     option_segments f = [] \<or> (\<exists>e \<in> set entries. prefix (option_segments f) (entry_folder e))"
proof (cases "option_segments f = []")
  case False
  have "(ae_kind e = KDirectory \<and> normalizeArchivePath (Some (ae_path e)) = normalizeArchivePath f)
      \<or> prefix (normalizeArchivePath f @ ''/'') (normalizeArchivePath (Some (ae_path e)))
      \<longleftrightarrow> prefix (option_segments f) (entry_folder e)" for e
    using False prefix_join_strict [of "option_segments f" "entry_segments e"]
    by (auto simp: normalize_inj entry_folder_def strict_prefix_butlast)
      (auto simp: normalizeArchivePath_option strict_prefix_def)
  with False show ?thesis
    by (simp add: archiveFolderExists_def list_ex_iff Let_def)
qed (simp add: archiveFolderExists_def)

lemma tree_paths:
  "ni_path ` set (tree_nodes collate entries rootName)
     = {f. normalizeArchivePath (Some f) = f \<and> archiveFolderExists entries (Some f)}"
proof (intro set_eqI iffI)
  fix f
  assume "f \<in> ni_path ` set (tree_nodes collate entries rootName)"
  then obtain i where i: "i \<in> set (tree_nodes collate entries rootName)" "f = ni_path i"
    by blast
  from tree_node_props [OF i(1)] obtain p where p: "good_segments p" "f = js_join (CHR 0x2F) p"
    "node_at p (tree_root entries rootName) \<noteq> None"
    using i(2) by auto
  then show "f \<in> {f. normalizeArchivePath (Some f) = f \<and> archiveFolderExists entries (Some f)}"
    by (auto simp: normalizeArchivePath_eq archiveFolderExists_eq tree_root_dom simp del: not_None_eq)
next
  fix f
  assume "f \<in> {f. normalizeArchivePath (Some f) = f \<and> archiveFolderExists entries (Some f)}"
  then have f: "js_join (CHR 0x2F) (path_segments f) = f"
    and "node_at (path_segments f) (tree_root entries rootName) \<noteq> None"
    by (auto simp: normalizeArchivePath_eq archiveFolderExists_eq tree_root_dom simp del: not_None_eq)
  then obtain i where i: "node_at (path_segments f) (tree_root entries rootName) = Some i"
    by blast
  then have "i \<in> set (tree_nodes collate entries rootName)"
    unfolding set_tree_nodes by blast
  moreover have "ni_path i = f"
    using wf_node_at [OF wf_tree_root i] f by simp
  ultimately show "f \<in> ni_path ` set (tree_nodes collate entries rootName)"
    by blast
qed

lemma tree_node_mark:
  assumes "i \<in> set (tree_nodes collate entries rootName)"
  shows "info_mark i =
    (if ni_isRoot i then (None, True)
     else let ds = directory_entries entries (path_segments (ni_path i))
          in if ds = [] then (None, False) else (Some (last ds), True))"
proof -
  from tree_node_props [OF assms] obtain p where p: "good_segments p"
    "ni_path i = js_join (CHR 0x2F) p" "node_at p (tree_root entries rootName) = Some i"
    "ni_isRoot i \<longleftrightarrow> p = []"
    by blast
  from p(3) have "info_mark i = node_mark p (tree_root entries rootName)"
    by (simp add: node_mark_def)
  with p(1,2,4) show ?thesis
    by (simp add: tree_root_mark Let_def)
qed

text \<open>Siblings are in collation order, at every level.\<close>

fun siblings_sorted :: "(string \<Rightarrow> string \<Rightarrow> int) \<Rightarrow> folder_node \<Rightarrow> bool" where
  "siblings_sorted collate (FolderNode info children) \<longleftrightarrow>
     sorted_wrt (\<lambda>l r. compareFolderNodes collate l r \<le> 0) children
     \<and> (\<forall>c \<in> set children. siblings_sorted collate c)"

lemma compareFolderNodes_comparator:
  "comparator collate \<Longrightarrow> comparator (compareFolderNodes collate)"
  unfolding compareFolderNodes_def [abs_def] Let_def
  using comparator_lex [OF comparator_key [of collate "\<lambda>n. ni_name (fn_info n)"]
      comparator_key [of collate "\<lambda>n. ni_path (fn_info n)"]] by simp

lemma siblings_sorted_finalize:
  assumes "comparator collate"
  shows "siblings_sorted collate (finalizeFolderNode collate node)"
proof (induction node rule: node_infos.induct)
  case (1 info childMap)
  let ?cs = "js_sort (compareFolderNodes collate) (map (finalizeFolderNode collate) (map snd childMap))"
  have "sorted_wrt (\<lambda>l r. compareFolderNodes collate l r \<le> 0) ?cs"
    by (rule comparator.sorted_js_sort) (rule compareFolderNodes_comparator [OF assms])
  moreover have "\<forall>c \<in> set ?cs. siblings_sorted collate c"
    using 1 by simp
  ultimately show ?case
    by (simp only: finalizeFolderNode.simps siblings_sorted.simps)
qed

section \<open>The listing of a folder\<close>

lemma collectFoldersWithChildren_eq:
  "f \<in> set (collectFoldersWithChildren entries) \<longleftrightarrow>
     (\<exists>e \<in> set entries. \<exists>us. us \<noteq> [] \<and> strict_prefix us (entry_segments e) \<and> f = js_join (CHR 0x2F) us)"
proof -
  have inner: "set (fold (\<lambda>index. set_add (js_join (CHR 0x2F) (take index ss))) is acc)
      = set acc \<union> (\<lambda>i. js_join (CHR 0x2F) (take i ss)) ` set is" for ss "is" acc
    by (induction "is" arbitrary: acc) auto
  have pre: "(\<lambda>i. js_join (CHR 0x2F) (take i ss)) ` {1..<length ss}
      = {js_join (CHR 0x2F) us | us. us \<noteq> [] \<and> strict_prefix us ss}" for ss :: "string list"
  proof (intro set_eqI iffI)
    fix f assume "f \<in> (\<lambda>i. js_join (CHR 0x2F) (take i ss)) ` {1..<length ss}"
    then obtain i where i: "1 \<le> i" "i < length ss" "f = js_join (CHR 0x2F) (take i ss)"
      by auto
    moreover have "strict_prefix (take i ss) ss"
    proof -
      have "length (take i ss) \<noteq> length ss"
        using i by simp
      then show ?thesis
        by (auto simp: strict_prefix_def take_is_prefix)
    qed
    moreover have "take i ss \<noteq> []"
      using i by auto
    ultimately show "f \<in> {js_join (CHR 0x2F) us | us. us \<noteq> [] \<and> strict_prefix us ss}"
      by blast
  next
    fix f assume "f \<in> {js_join (CHR 0x2F) us | us. us \<noteq> [] \<and> strict_prefix us ss}"
    then obtain us vs where "us \<noteq> []" "ss = us @ vs" "vs \<noteq> []" "f = js_join (CHR 0x2F) us"
      by (auto simp: strict_prefix_def prefix_def)
    then show "f \<in> (\<lambda>i. js_join (CHR 0x2F) (take i ss)) ` {1..<length ss}"
      by (intro image_eqI [of _ _ "length us"]) (auto simp: Suc_le_eq)
  qed
  have outer: "set (fold (\<lambda>entry.
             fold (\<lambda>index. set_add (js_join (CHR 0x2F) (take index (entry_segments entry))))
                  [1..<length (entry_segments entry)]) es acc)
      = set acc \<union> (\<Union>e \<in> set es. (\<lambda>i. js_join (CHR 0x2F) (take i (entry_segments e)))
          ` {1..<length (entry_segments e)})" for es acc
    by (induction es arbitrary: acc) (auto simp: inner)
  show ?thesis
    unfolding collectFoldersWithChildren_def Let_def splitArchivePath_eq option_segments_simps outer pre
    by auto
qed

lemma set_has_folders [simp]:
  assumes "good_segments ss"
  shows "set_has (collectFoldersWithChildren entries) (js_join (CHR 0x2F) ss) \<longleftrightarrow>
     ss \<noteq> [] \<and> (\<exists>e \<in> set entries. strict_prefix ss (entry_segments e))"
proof -
  have "us = ss"
    if "strict_prefix us (entry_segments e)" and "js_join (CHR 0x2F) ss = js_join (CHR 0x2F) us" for us e
  proof -
    from that(1) obtain vs where vs: "entry_segments e = us @ vs"
      by (auto simp: strict_prefix_def prefix_def)
    have "good_segments us"
      using good_path_segments [of "ae_path e"] unfolding vs by simp
    with that(2) assms show "us = ss"
      by (metis path_segments_join)
  qed
  then show ?thesis
    unfolding set_has_def collectFoldersWithChildren_eq by blast
qed

definition synthetic_folder :: "string list \<Rightarrow> string list \<Rightarrow> visible_entry" where
  "synthetic_folder F p =
     \<lparr> ve_path = js_join (CHR 0x2F) p, ve_name = last p,
       ve_parentPath = js_join (CHR 0x2F) (butlast p), ve_kind = KDirectory, ve_entry = None,
       ve_isDirectory = True, ve_isSynthetic = True,
       ve_hasChildren = set_has F (js_join (CHR 0x2F) p) \<rparr>"

definition visible_value :: "string list \<Rightarrow> archive_entry list \<Rightarrow> string list \<Rightarrow> visible_entry" where
  "visible_value F es p =
     (let ms = filter (\<lambda>e. entry_segments e = p) es
      in if ms = [] then synthetic_folder F p else createVisibleEntryFromEntry (last ms) F)"

lemma visible_step_outside:
  "\<not> strict_prefix (option_segments f) (entry_segments e) \<Longrightarrow>
     visible_step F (normalizeArchivePath f) vis e = vis"
  unfolding visible_step_def Let_def
  by (auto simp: path_simps js_join_good_eq_Nil strict_prefix_def prefix_def
      split: option.split list.split)

lemma visible_step_inside:
  assumes "entry_segments e = option_segments f @ s # rest"
  shows "visible_step F (normalizeArchivePath f) vis e =
    (if rest = [] then AList.update (js_join (CHR 0x2F) (option_segments f @ [s]))
                         (createVisibleEntryFromEntry e F) vis
     else if map_of vis (js_join (CHR 0x2F) (option_segments f @ [s])) \<noteq> None then vis
     else AList.update (js_join (CHR 0x2F) (option_segments f @ [s]))
            (synthetic_folder F (option_segments f @ [s])) vis)"
proof -
  have good: "good_segments (option_segments f @ s # rest)"
    by (metis assms good_path_segments)
  then have s: "path_segments s = [s]"
    by (simp add: path_segments_good_name)
  have join: "joinArchivePath [Some (normalizeArchivePath f), Some s]
      = js_join (CHR 0x2F) (option_segments f @ [s])"
    by (simp add: joinArchivePath_eq s)
  have rel: "getArchivePathRelativeToFolder (normalizeArchivePath (Some (ae_path e))) (Some (normalizeArchivePath f))
      = Some (js_join (CHR 0x2F) (s # rest))"
    by (simp add: getArchivePathRelativeToFolder_eq assms)
  have ne: "normalizeArchivePath (Some (ae_path e)) \<noteq> []" "js_join (CHR 0x2F) (s # rest) \<noteq> []"
    using good assms by (auto simp: js_join_good_eq_Nil)
  have split: "splitArchivePath (Some (js_join (CHR 0x2F) (s # rest))) = s # rest"
    using good by (simp add: splitArchivePath_eq)
  have path: "rest = [] \<Longrightarrow> ve_path (createVisibleEntryFromEntry e F)
      = js_join (CHR 0x2F) (option_segments f @ [s])"
    by (simp add: createVisibleEntryFromEntry_def normalizeArchivePath_eq assms Let_def)
  have synthetic: "rest \<noteq> [] \<Longrightarrow> upsertSyntheticFolder vis (js_join (CHR 0x2F) (option_segments f @ [s]))
        (normalizeArchivePath f) F
      = (if map_of vis (js_join (CHR 0x2F) (option_segments f @ [s])) \<noteq> None then vis
         else AList.update (js_join (CHR 0x2F) (option_segments f @ [s]))
            (synthetic_folder F (option_segments f @ [s])) vis)"
    using good by (simp add: upsertSyntheticFolder_def synthetic_folder_def getArchiveEntryName_eq
        normalizeArchivePath_option)
  show ?thesis
    unfolding visible_step_def Let_def rel option.case if_not_P [OF ne(1)] if_not_P [OF ne(2)] split
      list.case join
    using path synthetic by simp
qed

abbreviation visible_map ::
    "string list \<Rightarrow> string option \<Rightarrow> archive_entry list \<Rightarrow> (string \<times> visible_entry) list" where
  "visible_map F f es \<equiv> foldl (visible_step F (normalizeArchivePath f)) [] es"

definition child_folder :: "string option \<Rightarrow> archive_entry list \<Rightarrow> string list \<Rightarrow> bool" where
  "child_folder f es p \<longleftrightarrow>
     p \<noteq> [] \<and> butlast p = option_segments f \<and> (\<exists>e \<in> set es. prefix p (entry_segments e))"

lemma visible_value_snoc:
  "visible_value F (es @ [e]) p =
     (if entry_segments e = p then createVisibleEntryFromEntry e F else visible_value F es p)"
  by (simp add: visible_value_def)

lemma distinct_visible_map: "distinct (map fst (visible_map F f es))"
proof (induction es rule: rev_induct)
  case (snoc e es)
  then show ?case
    by (auto simp: visible_step_def upsertSyntheticFolder_def distinct_update Let_def
        split: option.split list.split)
qed simp

lemma child_folder_snoc:
  "child_folder f (es @ [e]) p \<longleftrightarrow>
     child_folder f es p \<or> (p \<noteq> [] \<and> butlast p = option_segments f \<and> prefix p (entry_segments e))"
  by (auto simp: child_folder_def)

lemma child_prefix_iff:
  assumes "p \<noteq> []" and "butlast p = us"
  shows "prefix p (us @ s # rest) \<longleftrightarrow> p = us @ [s]"
proof -
  obtain x where "p = us @ [x]"
    using assms by (metis append_butlast_last_id)
  then show ?thesis
    by auto
qed

lemma map_of_visible_map:
  assumes "good_segments p"
  shows "map_of (visible_map F f es) (js_join (CHR 0x2F) p) =
     (if child_folder f es p then Some (visible_value F es p) else None)"
proof (induction es rule: rev_induct)
  case (snoc e es)
  let ?us = "option_segments f"
  show ?case
  proof (cases "strict_prefix ?us (entry_segments e)")
    case False
    then have no: "\<not> (p \<noteq> [] \<and> butlast p = ?us \<and> prefix p (entry_segments e))"
      by (metis append_butlast_last_id strict_prefixI' prefix_order.less_le_trans)
    then have "child_folder f (es @ [e]) p = child_folder f es p"
      unfolding child_folder_snoc by blast
    moreover have "child_folder f es p \<Longrightarrow> entry_segments e \<noteq> p"
      using no by (auto simp: child_folder_def)
    ultimately show ?thesis
      using snoc False by (simp add: visible_step_outside visible_value_snoc)
  next
    case True
    then obtain s rest where seg: "entry_segments e = ?us @ s # rest"
      by (auto simp: strict_prefix_def prefix_def neq_Nil_conv)
    have good: "good_segments (?us @ [s])"
      using good_path_segments [of "ae_path e"] unfolding seg by simp
    have key: "js_join (CHR 0x2F) p = js_join (CHR 0x2F) (?us @ [s]) \<longleftrightarrow> p = ?us @ [s]"
      using assms good by (metis path_segments_join)
    have child: "child_folder f (es @ [e]) p \<longleftrightarrow> child_folder f es p \<or> p = ?us @ [s]"
      unfolding child_folder_snoc seg using child_prefix_iff [of p ?us s rest] by auto
    have fresh: "\<not> child_folder f es (?us @ [s]) \<Longrightarrow>
        visible_value F es (?us @ [s]) = synthetic_folder F (?us @ [s])"
      by (force simp: child_folder_def visible_value_def filter_empty_conv)
    let ?k = "js_join (CHR 0x2F) (?us @ [s])"
    show ?thesis
    proof (cases "p = ?us @ [s]")
      case True
      have "visible_value F (es @ [e]) (?us @ [s])
          = (if rest = [] then createVisibleEntryFromEntry e F else visible_value F es (?us @ [s]))"
        by (simp add: visible_value_snoc seg)
      then show ?thesis
        using snoc True fresh child by (auto simp: visible_step_inside [OF seg] update_conv)
    next
      case False
      have "child_folder f es p \<Longrightarrow> entry_segments e \<noteq> p"
        using False by (auto simp: child_folder_def seg butlast_append split: if_splits)
      then show ?thesis
        using snoc False child key
        by (simp add: visible_step_inside [OF seg] update_conv' visible_value_snoc)
    qed
  qed
qed (simp add: child_folder_def)

lemma visible_map_keys:
  "k \<in> fst ` set (visible_map F f es) \<Longrightarrow> js_join (CHR 0x2F) (path_segments k) = k"
proof (induction es rule: rev_induct)
  case (snoc e es)
  show ?case
  proof (cases "strict_prefix (option_segments f) (entry_segments e)")
    case True
    then obtain s rest where seg: "entry_segments e = option_segments f @ s # rest"
      by (auto simp: strict_prefix_def prefix_def neq_Nil_conv)
    have "good_segments (option_segments f @ [s])"
      using good_path_segments [of "ae_path e"] unfolding seg by simp
    then have "path_segments (js_join (CHR 0x2F) (option_segments f @ [s])) = option_segments f @ [s]"
      by (rule path_segments_join)
    then show ?thesis
      using snoc by (auto simp: visible_step_inside [OF seg] dom_update split: if_splits)
  qed (use snoc in \<open>simp add: visible_step_outside\<close>)
qed simp

interpretation visible: path_keyed "visible_map F f es" "child_folder f es" "visible_value F es"
  for F f es
  by unfold_locales (rule distinct_visible_map visible_map_keys map_of_visible_map; assumption)+

lemma ve_path_visible_value:
  "good_segments p \<Longrightarrow> ve_path (visible_value F es p) = js_join (CHR 0x2F) p"
proof (cases "filter (\<lambda>e. entry_segments e = p) es = []")
  case False
  then have "last (filter (\<lambda>e. entry_segments e = p) es) \<in> set (filter (\<lambda>e. entry_segments e = p) es)"
    by (rule last_in_set)
  then have "entry_segments (last (filter (\<lambda>e. entry_segments e = p) es)) = p"
    by simp
  with False show ?thesis
    by (simp add: visible_value_def createVisibleEntryFromEntry_def normalizeArchivePath_eq Let_def)
qed (simp add: visible_value_def synthetic_folder_def)

lemma visible_map_paths:
  "map ve_path (map snd (visible_map F f es)) = map fst (visible_map F f es)"
  by (rule visible.keys_of) (rule ve_path_visible_value)

lemma createVisible_sel [simp]:
  "ve_path (createVisibleEntryFromEntry e F) = normalizeArchivePath (Some (ae_path e))"
  "ve_entry (createVisibleEntryFromEntry e F) = Some e"
  "ve_kind (createVisibleEntryFromEntry e F) = ae_kind e"
  "\<not> ve_isSynthetic (createVisibleEntryFromEntry e F)"
  "ve_isDirectory (createVisibleEntryFromEntry e F) \<longleftrightarrow> ae_kind e = KDirectory"
  by (simp_all add: createVisibleEntryFromEntry_def Let_def)

lemma compareArchiveVisibleEntries_comparator:
  "comparator collate \<Longrightarrow> comparator (compareArchiveVisibleEntries collate)"
  unfolding compareArchiveVisibleEntries_def [abs_def] Let_def
  using comparator_class [OF comparator_lex [OF comparator_key [of collate ve_name]
        comparator_key [of collate ve_path]], of ve_isDirectory] by simp

text \<open>The folder listing before sorting, when nothing is searched for.\<close>

lemma folder_listing_eq:
  "getVisibleArchiveEntries collate es f (Some FolderMode) None =
     js_sort (compareArchiveVisibleEntries collate)
       (map snd (visible_map (collectFoldersWithChildren es) f es))"
  by (simp add: getVisibleArchiveEntries_def normalizeSearchQuery_def visibleEntryMatchesSearch_def Let_def)

lemma set_folder_listing:
  "set (getVisibleArchiveEntries collate es f (Some FolderMode) None)
     = visible_value (collectFoldersWithChildren es) es ` {p. good_segments p \<and> child_folder f es p}"
  by (simp add: folder_listing_eq visible.all_values)

lemma child_folder_good: "child_folder f es p \<Longrightarrow> good_segments p"
  by (metis child_folder_def good_path_segments good_segments_simps(3) prefix_def)

lemma child_folder_iff:
  "child_folder f es p \<longleftrightarrow>
     (\<exists>e \<in> set es. strict_prefix (option_segments f) (entry_segments e)
        \<and> p = take (Suc (length (option_segments f))) (entry_segments e))"
proof
  assume "child_folder f es p"
  then obtain e where e: "e \<in> set es" "p \<noteq> []" "butlast p = option_segments f" "prefix p (entry_segments e)"
    by (auto simp: child_folder_def)
  then obtain x zs where "entry_segments e = option_segments f @ x # zs" "p = option_segments f @ [x]"
    by (metis append_butlast_last_id append.assoc append_Cons append_Nil prefix_def)
  with e show "\<exists>e \<in> set es. strict_prefix (option_segments f) (entry_segments e)
        \<and> p = take (Suc (length (option_segments f))) (entry_segments e)"
    by (intro bexI [of _ e]) (auto simp: strict_prefix_def)
next
  assume "\<exists>e \<in> set es. strict_prefix (option_segments f) (entry_segments e)
        \<and> p = take (Suc (length (option_segments f))) (entry_segments e)"
  then obtain e x zs where e: "e \<in> set es" "entry_segments e = option_segments f @ x # zs"
    "p = take (Suc (length (option_segments f))) (entry_segments e)"
    by (auto simp: strict_prefix_def prefix_def neq_Nil_conv)
  then show "child_folder f es p"
    by (auto simp: child_folder_def intro!: bexI [of _ e])
qed

section \<open>Properties\<close>

text \<open>C26: The nodes of the tree that \<open>buildArchiveTree\<close> makes have pairwise different paths, and
  these are exactly the normalised paths for which \<open>archiveFolderExists\<close> answers yes: the tree the
  sidebar shows and the existence test used for navigation agree on every archive.\<close>

theorem tree_is_existing_folders:
  "distinct (map ni_path (tree_nodes collate entries rootName)) \<and>
   set (map ni_path (tree_nodes collate entries rootName))
     = {f. normalizeArchivePath (Some f) = f \<and> archiveFolderExists entries (Some f)}"
  using distinct_tree_paths tree_paths by simp

text \<open>A node of the tree other than the root is named, placed and marked by its path: its name is
  the last segment, its parent path is a node of the tree one level up, it is explicit exactly when
  the archive lists that directory, and then it carries the last such entry.\<close>

theorem tree_node_data:
  assumes "i \<in> set (tree_nodes collate entries rootName)" and "\<not> ni_isRoot i"
  shows "ni_name i = getArchiveEntryName (Some (ni_path i))
    \<and> (\<exists>j \<in> set (tree_nodes collate entries rootName).
         ni_parentPath i = Some (ni_path j) \<and> ni_depth i = Suc (ni_depth j)
         \<and> ni_path j = getArchiveEntryFolder (Some (ni_path i)))
    \<and> (let ds = filter (\<lambda>e. ae_kind e = KDirectory \<and> normalizeArchivePath (Some (ae_path e)) = ni_path i) entries
       in ni_isExplicit i = (ds \<noteq> []) \<and> ni_entry i = (if ds = [] then None else Some (last ds)))"
proof -
  from tree_node_props [OF assms(1)] assms(2) obtain p where p: "good_segments p" "p \<noteq> []"
    "ni_path i = js_join (CHR 0x2F) p" "node_at p (tree_root entries rootName) = Some i"
    "ni_name i = last p" "ni_depth i = length p"
    "ni_parentPath i = Some (js_join (CHR 0x2F) (butlast p))"
    by blast
  have "\<exists>e \<in> set entries. prefix p (entry_folder e)"
    using p(2,4) tree_root_dom [of p rootName entries] by simp
  then have "\<exists>e \<in> set entries. prefix (butlast p) (entry_folder e)"
    using prefixeq_butlast prefix_order.trans by blast
  then have "node_at (butlast p) (tree_root entries rootName) \<noteq> None"
    unfolding tree_root_dom by blast
  then obtain j where j: "node_at (butlast p) (tree_root entries rootName) = Some j"
    by blast
  then have "j \<in> set (tree_nodes collate entries rootName)"
    unfolding set_tree_nodes by blast
  moreover have "ni_path j = js_join (CHR 0x2F) (butlast p)" "ni_depth j = length p - 1"
    using wf_node_at [OF wf_tree_root j] by simp_all
  moreover have "directory_entries entries p
      = filter (\<lambda>e. ae_kind e = KDirectory \<and> normalizeArchivePath (Some (ae_path e)) = ni_path i) entries"
    unfolding directory_entries_def
    by (rule filter_cong) (use p(1,3) in \<open>auto simp: normalizeArchivePath_eq dest: arg_cong [of _ _ path_segments]\<close>)
  ultimately show ?thesis
    using p tree_node_mark [OF assms(1)] assms(2)
    by (auto simp: getArchiveEntryName_eq getArchiveEntryFolder_eq info_mark_def Let_def
        intro!: bexI [of _ j])
qed

theorem tree_node_data_witness:
  "\<exists>j \<in> set (tree_nodes code_unit_compare [bare_entry ''a/b'' KDirectory] None).
     ni_path j = ''a'' \<and> ni_depth j = 1"
proof -
  let ?i = "\<lparr> ni_name = ''b'', ni_path = ''a/b'', ni_parentPath = Some ''a'', ni_depth = 2,
      ni_entry = Some (bare_entry ''a/b'' KDirectory), ni_isRoot = False, ni_isExplicit = True \<rparr>"
  have i: "?i \<in> set (tree_nodes code_unit_compare [bare_entry ''a/b'' KDirectory] None)"
    by code_simp
  have "\<not> ni_isRoot ?i"
    by simp
  from tree_node_data [OF i this] show ?thesis
    by auto
qed

text \<open>Whatever the locale's collation, as long as it is a consistent comparison, the children of
  every node are in its order.\<close>

theorem tree_siblings_sorted:
  assumes "comparator collate"
  shows "siblings_sorted collate (buildArchiveTree collate entries rootName)"
  unfolding buildArchiveTree_def by (rule siblings_sorted_finalize) (rule assms)

theorem tree_siblings_sorted_witness:
  "siblings_sorted code_unit_compare
     (buildArchiveTree code_unit_compare
        [bare_entry ''b/x'' KFile, bare_entry ''a'' KDirectory, bare_entry ''b/c/y'' KFile] None)"
  by (rule tree_siblings_sorted) (rule code_units.comparator_axioms)

text \<open>The folder view lists each child of the current folder once: its paths are the entries
  strictly below the folder, cut after the first further segment, and they are in the collation's
  order with the directories first.\<close>

theorem folder_view_lists_children:
  assumes "comparator collate"
  shows "distinct (map ve_path (getVisibleArchiveEntries collate es f (Some FolderMode) None))
    \<and> set (map ve_path (getVisibleArchiveEntries collate es f (Some FolderMode) None))
        = set (map (\<lambda>e. joinArchivePath [f, Some (hd (drop (length (splitArchivePath f)) (splitArchivePath (Some (ae_path e)))))])
             (filter (\<lambda>e. strict_prefix (splitArchivePath f) (splitArchivePath (Some (ae_path e)))) es))
    \<and> sorted_wrt (\<lambda>l r. compareArchiveVisibleEntries collate l r \<le> 0)
        (getVisibleArchiveEntries collate es f (Some FolderMode) None)"
proof (intro conjI)
  let ?vis = "visible_map (collectFoldersWithChildren es) f es"
  have "distinct (map ve_path (map snd ?vis))"
    unfolding visible_map_paths by (rule distinct_visible_map)
  then show "distinct (map ve_path (getVisibleArchiveEntries collate es f (Some FolderMode) None))"
    unfolding folder_listing_eq by (metis mset_eq_imp_distinct_iff mset_js_sort mset_map)
  show "sorted_wrt (\<lambda>l r. compareArchiveVisibleEntries collate l r \<le> 0)
        (getVisibleArchiveEntries collate es f (Some FolderMode) None)"
    unfolding folder_listing_eq
    by (rule comparator.sorted_js_sort) (rule compareArchiveVisibleEntries_comparator [OF assms])
  have child: "js_join (CHR 0x2F) (take (Suc (length (option_segments f))) (entry_segments e))
      = joinArchivePath [f, Some (hd (drop (length (splitArchivePath f)) (splitArchivePath (Some (ae_path e)))))]"
    if sp: "strict_prefix (option_segments f) (entry_segments e)" for e
  proof -
    from sp obtain x zs where e: "entry_segments e = option_segments f @ x # zs"
      by (auto simp: strict_prefix_def prefix_def neq_Nil_conv)
    have "path_segments x = [x]"
      using good_path_segments [of "ae_path e"] unfolding e by (auto intro: path_segments_good_name)
    with e show ?thesis
      by (simp add: splitArchivePath_eq joinArchivePath_eq)
  qed
  have "set (map ve_path (getVisibleArchiveEntries collate es f (Some FolderMode) None))
      = js_join (CHR 0x2F) ` {p. child_folder f es p}"
    by (auto simp: set_folder_listing ve_path_visible_value child_folder_good image_image)
  also have "\<dots> = set (map (\<lambda>e. joinArchivePath [f, Some (hd (drop (length (splitArchivePath f)) (splitArchivePath (Some (ae_path e)))))])
             (filter (\<lambda>e. strict_prefix (splitArchivePath f) (splitArchivePath (Some (ae_path e)))) es))"
  proof -
    have "{p. child_folder f es p} = (\<lambda>e. take (Suc (length (option_segments f))) (entry_segments e))
        ` {e \<in> set es. strict_prefix (option_segments f) (entry_segments e)}"
      by (auto simp: child_folder_iff)
    then show ?thesis
      using child [unfolded splitArchivePath_eq option_segments_simps]
      by (simp add: image_image splitArchivePath_eq)
  qed
  finally show "set (map ve_path (getVisibleArchiveEntries collate es f (Some FolderMode) None)) = \<dots>" .
qed

theorem folder_view_lists_children_witness:
  "set (map ve_path (getVisibleArchiveEntries code_unit_compare
     [bare_entry ''a/b/c'' KFile, bare_entry ''a//d'' KFile, bare_entry ''e'' KFile] (Some ''a/'')
     (Some FolderMode) None)) = {''a/b'', ''a/d''}"
proof -
  let ?es = "[bare_entry ''a/b/c'' KFile, bare_entry ''a//d'' KFile, bare_entry ''e'' KFile]"
  have "splitArchivePath (Some ''a/'') = [''a'']" "splitArchivePath (Some ''a/b/c'') = [''a'', ''b'', ''c'']"
    "splitArchivePath (Some ''a//d'') = [''a'', ''d'']" "splitArchivePath (Some ''e'') = [''e'']"
    "joinArchivePath [Some ''a/'', Some ''b''] = ''a/b''" "joinArchivePath [Some ''a/'', Some ''d''] = ''a/d''"
    by code_simp+
  then show ?thesis
    using folder_view_lists_children [OF code_units.comparator_axioms, of ?es "Some ''a/''"]
    by (simp add: strict_prefix_def)
qed

text \<open>In the folder view a child is marked synthetic exactly when the archive has no entry of that
  path, otherwise it shows the last such entry; and it is marked as having children exactly when some
  entry lies strictly below it.\<close>

theorem folder_view_entries:
  assumes "v \<in> set (getVisibleArchiveEntries collate es f (Some FolderMode) None)"
  shows "let ms = filter (\<lambda>e. normalizeArchivePath (Some (ae_path e)) = ve_path v) es
     in ve_isSynthetic v = (ms = []) \<and> ve_entry v = (if ms = [] then None else Some (last ms))
      \<and> ve_isDirectory v = (ms = [] \<or> ae_kind (last ms) = KDirectory)
      \<and> ve_name v = getArchiveEntryName (Some (ve_path v))
      \<and> ve_hasChildren v = list_ex (\<lambda>e. prefix (ve_path v @ ''/'') (normalizeArchivePath (Some (ae_path e)))) es"
proof -
  let ?F = "collectFoldersWithChildren es"
  from assms obtain p where p: "good_segments p" "child_folder f es p" "v = visible_value ?F es p"
    unfolding set_folder_listing by blast
  have path: "ve_path v = js_join (CHR 0x2F) p"
    by (simp add: p ve_path_visible_value)
  have ms: "filter (\<lambda>e. normalizeArchivePath (Some (ae_path e)) = ve_path v) es
      = filter (\<lambda>e. entry_segments e = p) es"
    by (rule filter_cong)
      (use p(1) path in \<open>auto simp: normalizeArchivePath_eq dest: arg_cong [of _ _ path_segments]\<close>)
  have "p \<noteq> []"
    using p(2) by (simp add: child_folder_def)
  then have below: "set_has ?F (js_join (CHR 0x2F) p)
      \<longleftrightarrow> list_ex (\<lambda>e. prefix (ve_path v @ ''/'') (normalizeArchivePath (Some (ae_path e)))) es"
    using p(1) by (auto simp: list_ex_iff path normalizeArchivePath_eq prefix_join_strict)
  show ?thesis
  proof (cases "filter (\<lambda>e. entry_segments e = p) es = []")
    case True
    with p(1) below show ?thesis
      unfolding ms Let_def by (simp add: p(3) visible_value_def synthetic_folder_def getArchiveEntryName_eq \<open>p \<noteq> []\<close>)
  next
    case False
    then have v: "v = createVisibleEntryFromEntry (last (filter (\<lambda>e. entry_segments e = p) es)) ?F"
      by (simp add: p(3) visible_value_def)
    with path have "normalizeArchivePath (Some (ae_path (last (filter (\<lambda>e. entry_segments e = p) es))))
        = js_join (CHR 0x2F) p"
      by simp
    with False below show ?thesis
      unfolding ms Let_def by (simp add: v) (simp add: createVisibleEntryFromEntry_def Let_def)
  qed
qed

theorem folder_view_entries_witness:
  "ve_hasChildren (createVisibleEntryFromEntry (bare_entry ''a'' KFile) [''a'', ''a/b''])
     = list_ex (\<lambda>e. prefix ''a/'' (normalizeArchivePath (Some (ae_path e))))
         [bare_entry ''a/b/c'' KFile, bare_entry ''a'' KFile]"
proof -
  let ?es = "[bare_entry ''a/b/c'' KFile, bare_entry ''a'' KFile]"
  let ?v = "createVisibleEntryFromEntry (bare_entry ''a'' KFile) [''a'', ''a/b'']"
  have "?v \<in> set (getVisibleArchiveEntries code_unit_compare ?es None (Some FolderMode) None)"
    by code_simp
  moreover have "ve_path ?v = ''a''"
    by code_simp
  ultimately show ?thesis
    using folder_view_entries [of ?v code_unit_compare ?es None] by (simp add: Let_def)
qed

end
