(* ===== verification/Formatting.thy ===== *)
theory Formatting
  imports ArchiveTree "HOL-Library.Word"
begin

unbundle bit_operations_syntax

text \<open>
  \<^verbatim>\<open>src/src/app/formatting.ts\<close>: byte sizes, dates, ratios, file modes, HTML escaping and paths of the
  host file system.  Locale-dependent formatters (\<open>Intl\<close>) and \<open>Date.parse\<close> are parameters.
  Numbers are exact rationals, so the rounding of a double is not modelled; the bitwise operations of
  JavaScript act on 32-bit words and are modelled at that width.
\<close>

section \<open>Sizes\<close>

definition BYTE_UNITS :: "string list" where
  "BYTE_UNITS = [''B'', ''KB'', ''MB'', ''GB'', ''TB'', ''PB'', ''EB'']"

text \<open>The loop that divides by 1024 until the value is below 1024 or the units are used up.\<close>

function scale_bytes :: "rat \<Rightarrow> nat \<Rightarrow> rat \<times> nat" where
  "scale_bytes scaled unitIndex =
     (if scaled \<ge> 1024 \<and> unitIndex < length BYTE_UNITS - 1
      then scale_bytes (scaled / 1024) (unitIndex + 1) else (scaled, unitIndex))"
  by pat_completeness auto
termination
  by (relation "measure (\<lambda>(_, u). length BYTE_UNITS - u)") auto

declare scale_bytes.simps [simp del]

definition formatBytes ::
    "(rat \<Rightarrow> nat \<Rightarrow> string) \<Rightarrow> jsnum option \<Rightarrow> string option \<Rightarrow> nat option \<Rightarrow> string" where
  "formatBytes formatNumber value emptyOption digitsOption =
     (let emptyValue = nullish emptyOption ''-''
      in case value of
           Some (Fin v) \<Rightarrow>
             if v < 0 then emptyValue
             else if v < 1024 then formatNumber v 0 @ '' B''
             else (let fractionDigits = nullish digitsOption 1;
                       (scaled, unitIndex) = scale_bytes v 0
                   in formatNumber scaled fractionDigits @ '' '' @ BYTE_UNITS ! unitIndex)
         | _ \<Rightarrow> emptyValue)"

section \<open>Dates\<close>

definition is_digit :: "char \<Rightarrow> bool" where
  "is_digit c \<longleftrightarrow> c \<in> set ''0123456789''"

definition digit_value :: "char \<Rightarrow> nat" where
  "digit_value c = of_char c - 48"

definition decimal_value :: "string \<Rightarrow> nat" where
  "decimal_value ds = foldl (\<lambda>n c. 10 * n + digit_value c) 0 ds"

text \<open>\<open>/^-?\d+(?:\.\d+)?$/\<close> and the number such a string denotes.\<close>

definition numeric_date :: "string \<Rightarrow> rat option" where
  "numeric_date s =
     (let negative = (case s of [] \<Rightarrow> False | c # _ \<Rightarrow> c = CHR 0x2D);
          body = (if negative then drop 1 s else s);
          whole = takeWhile is_digit body; rest = dropWhile is_digit body;
          sign = (if negative then - 1 else 1)
      in if whole = [] then None
         else (case rest of
                 [] \<Rightarrow> Some (sign * of_nat (decimal_value whole))
               | c # fraction \<Rightarrow>
                   if c = CHR 0x2E \<and> fraction \<noteq> [] \<and> list_all is_digit fraction
                   then Some (sign * (of_nat (decimal_value whole)
                          + of_nat (decimal_value fraction) / 10 ^ length fraction))
                   else None))"

definition isUnknownDateValue :: "string option \<Rightarrow> bool" where
  "isUnknownDateValue value =
     (case value of
        None \<Rightarrow> True
      | Some v \<Rightarrow> let trimmed = js_trim v
                  in trimmed = [] \<or> trimmed = ''0'' \<or> prefix ''0000-00-00'' trimmed)"

definition EPOCH_SECONDS_THRESHOLD :: rat where
  "EPOCH_SECONDS_THRESHOLD = 100000000000"

definition epoch_milliseconds :: "rat \<Rightarrow> rat" where
  "epoch_milliseconds v = (if \<bar>v\<bar> < EPOCH_SECONDS_THRESHOLD then v * 1000 else v)"

text \<open>\<open>new Date(ms)\<close> is valid only within 8.64e15 milliseconds of the epoch, and drops fractions.\<close>

definition epochDateFromNumber :: "rat \<Rightarrow> int option" where
  "epochDateFromNumber v =
     (if v = 0 then None
      else (let ms = epoch_milliseconds v
            in if \<bar>ms\<bar> > 8640000000000000 then None
               else Some (if ms < 0 then - \<lfloor>- ms\<rfloor> else \<lfloor>ms\<rfloor>)))"

definition parseDateValue :: "(string \<Rightarrow> int option) \<Rightarrow> string option \<Rightarrow> int option" where
  "parseDateValue dateParse value =
     (if isUnknownDateValue value then None
      else (let trimmed = js_trim (nullish value [])
            in case numeric_date trimmed of
                 Some n \<Rightarrow> epochDateFromNumber n
               | None \<Rightarrow> dateParse trimmed))"

definition parseEpochTimestamp :: "(string \<Rightarrow> int option) \<Rightarrow> string option \<Rightarrow> rat option" where
  "parseEpochTimestamp dateParse value =
     (if isUnknownDateValue value then None
      else (let trimmed = js_trim (nullish value [])
            in case numeric_date trimmed of
                 Some n \<Rightarrow> if n = 0 then None else Some (epoch_milliseconds n)
               | None \<Rightarrow> map_option of_int (dateParse trimmed)))"

definition formatDate ::
    "(string \<Rightarrow> int option) \<Rightarrow> (int \<Rightarrow> string) \<Rightarrow> string option \<Rightarrow> string option \<Rightarrow> string" where
  "formatDate dateParse formatter value emptyOption =
     (case parseDateValue dateParse value of
        None \<Rightarrow> nullish emptyOption ''-''
      | Some date \<Rightarrow> formatter date)"

section \<open>Ratios\<close>

definition calculateCompressionRatio :: "jsnum option \<Rightarrow> jsnum option \<Rightarrow> rat option" where
  "calculateCompressionRatio uncompressedBytes compressedBytes =
     (case (uncompressedBytes, compressedBytes) of
        (Some (Fin u), Some (Fin c)) \<Rightarrow>
          if u < 0 \<or> c < 0 then None
          else if u = 0 then (if c = 0 then Some 0 else None)
          else Some (c / u)
      | _ \<Rightarrow> None)"

definition formatCompressionRatio ::
    "(rat \<Rightarrow> nat \<Rightarrow> string) \<Rightarrow> jsnum option \<Rightarrow> jsnum option \<Rightarrow> string option \<Rightarrow> nat option \<Rightarrow> string" where
  "formatCompressionRatio formatNumber uncompressedBytes compressedBytes emptyOption digitsOption =
     (case calculateCompressionRatio uncompressedBytes compressedBytes of
        None \<Rightarrow> nullish emptyOption ''-''
      | Some r \<Rightarrow> formatNumber (r * 100) (nullish digitsOption 1) @ ''%'')"

section \<open>Strings\<close>

definition html_escape_char :: "char \<Rightarrow> string" where
  "html_escape_char c =
     (if c = CHR 0x26 then ''&amp;'' else if c = CHR 0x3C then ''&lt;''
      else if c = CHR 0x3E then ''&gt;'' else if c = CHR 0x22 then ''&quot;''
      else if c = CHR 0x27 then ''&#39;'' else [c])"

definition escapeHtml :: "string \<Rightarrow> string" where
  "escapeHtml value = concat (map html_escape_char value)"

section \<open>Host paths\<close>

definition trimTrailingPathSeparators :: "string \<Rightarrow> string" where
  "trimTrailingPathSeparators value = rev (dropWhile is_sep (rev value))"

definition isFolderishPath :: "string option \<Rightarrow> bool" where
  "isFolderishPath value = (case value of None \<Rightarrow> False | Some v \<Rightarrow> v \<noteq> [] \<and> is_sep (last v))"

definition getPathBasename :: "string option \<Rightarrow> string \<Rightarrow> string" where
  "getPathBasename value fallback =
     (if \<not> truthy value then fallback
      else (let v = the value; trimmed = str_or (trimTrailingPathSeparators v) v
            in if trimmed \<noteq> [] \<and> list_all is_sep trimmed then [hd trimmed]
               else (let segments = filter (\<lambda>s. s \<noteq> [])
                           (js_split (CHR 0x2F) (map (\<lambda>c. if is_sep c then CHR 0x2F else c) trimmed))
                     in if segments = [] then fallback else last segments)))"

definition is_letter :: "char \<Rightarrow> bool" where
  "is_letter c \<longleftrightarrow> (let n = of_char c :: nat in (65 \<le> n \<and> n \<le> 90) \<or> (97 \<le> n \<and> n \<le> 122))"

text \<open>\<open>Math.max(lastIndexOf("/"), lastIndexOf("\\"))\<close>, with \<open>None\<close> for -1.\<close>

definition last_separator :: "string \<Rightarrow> nat option" where
  "last_separator s =
     (case (last_index (CHR 0x2F) s, last_index (CHR 0x5C) s) of
        (None, j) \<Rightarrow> j
      | (i, None) \<Rightarrow> i
      | (Some i, Some j) \<Rightarrow> Some (max i j))"

definition getPathDirectory :: "string option \<Rightarrow> string" where
  "getPathDirectory value =
     (if \<not> truthy value then []
      else (let v = the value; trimmed = str_or (trimTrailingPathSeparators v) v
            in case last_separator trimmed of
                 None \<Rightarrow> []
               | Some separatorIndex \<Rightarrow>
                   if separatorIndex = 0 then [hd trimmed]
                   else (let parent = take separatorIndex trimmed
                         in case parent of
                              [drive, colon] \<Rightarrow>
                                if is_letter drive \<and> colon = CHR 0x3A
                                then parent @ [trimmed ! separatorIndex] else parent
                            | _ \<Rightarrow> parent)))"

section \<open>Unix modes\<close>

definition specialExecChar :: "32 word \<Rightarrow> 32 word \<Rightarrow> 32 word \<Rightarrow> string \<Rightarrow> string \<Rightarrow> string" where
  "specialExecChar mode specialBit execBit onExec offExec =
     (let hasExec = (mode AND execBit \<noteq> 0); hasSpecial = (mode AND specialBit \<noteq> 0)
      in if hasSpecial then (if hasExec then onExec else offExec)
         else (if hasExec then ''x'' else ''-''))"

text \<open>A mode is a natural number; \<open>&\<close> reads it as a 32-bit word.\<close>

definition formatUnixMode :: "nat option \<Rightarrow> string option \<Rightarrow> string" where
  "formatUnixMode mode kind =
     (case mode of
        None \<Rightarrow> []
      | Some m \<Rightarrow>
          (let w = (word_of_nat m :: 32 word);
               typeChar = (if kind = Some ''directory'' then ''d''
                           else if kind = Some ''symlink'' then ''l'' else ''-'');
               ur = (if w AND 256 \<noteq> 0 then ''r'' else ''-'');
               uw = (if w AND 128 \<noteq> 0 then ''w'' else ''-'');
               ux = specialExecChar w 2048 64 ''s'' ''S'';
               gr = (if w AND 32 \<noteq> 0 then ''r'' else ''-'');
               gw = (if w AND 16 \<noteq> 0 then ''w'' else ''-'');
               gx = specialExecChar w 1024 8 ''s'' ''S'';
               otr = (if w AND 4 \<noteq> 0 then ''r'' else ''-'');
               ow = (if w AND 2 \<noteq> 0 then ''w'' else ''-'');
               ox = specialExecChar w 512 1 ''t'' ''T''
           in typeChar @ ur @ uw @ ux @ gr @ gw @ gx @ otr @ ow @ ox))"

section \<open>Facts\<close>

lemma scale_bytes_value:
  "0 \<le> v \<Longrightarrow> scale_bytes v u = (s, i) \<Longrightarrow>
     v = s * 1024 ^ (i - u) \<and> u \<le> i \<and> (s < 1024 \<or> length BYTE_UNITS - 1 \<le> i)
     \<and> (u < i \<longrightarrow> 1 \<le> s) \<and> (u \<le> length BYTE_UNITS - 1 \<longrightarrow> i \<le> length BYTE_UNITS - 1)"
proof (induction v u arbitrary: s i rule: scale_bytes.induct)
  case (1 v u)
  show ?case
  proof (cases "1024 \<le> v \<and> u < length BYTE_UNITS - 1")
    case True
    then have "scale_bytes (v / 1024) (u + 1) = (s, i)"
      using 1(3) by (simp add: scale_bytes.simps [of v u])
    with True 1(1) 1(2) have IH: "v / 1024 = s * 1024 ^ (i - (u + 1)) \<and> u + 1 \<le> i
        \<and> (s < 1024 \<or> length BYTE_UNITS - 1 \<le> i) \<and> (u + 1 < i \<longrightarrow> 1 \<le> s)
        \<and> (u + 1 \<le> length BYTE_UNITS - 1 \<longrightarrow> i \<le> length BYTE_UNITS - 1)"
      by simp
    then have "i - u = Suc (i - (u + 1))"
      by linarith
    with IH True show ?thesis
      by (cases "i = u + 1") (auto simp: field_simps)
  next
    case False
    then show ?thesis
      using 1(3) by (auto simp: scale_bytes.simps [of v u])
  qed
qed

lemma mode_bits:
  "(word_of_nat m :: 32 word) AND 2048 \<noteq> 0 \<longleftrightarrow> bit m 11"
  "(word_of_nat m :: 32 word) AND 1024 \<noteq> 0 \<longleftrightarrow> bit m 10"
  "(word_of_nat m :: 32 word) AND 512 \<noteq> 0 \<longleftrightarrow> bit m 9"
  "(word_of_nat m :: 32 word) AND 256 \<noteq> 0 \<longleftrightarrow> bit m 8"
  "(word_of_nat m :: 32 word) AND 128 \<noteq> 0 \<longleftrightarrow> bit m 7"
  "(word_of_nat m :: 32 word) AND 64 \<noteq> 0 \<longleftrightarrow> bit m 6"
  "(word_of_nat m :: 32 word) AND 32 \<noteq> 0 \<longleftrightarrow> bit m 5"
  "(word_of_nat m :: 32 word) AND 16 \<noteq> 0 \<longleftrightarrow> bit m 4"
  "(word_of_nat m :: 32 word) AND 8 \<noteq> 0 \<longleftrightarrow> bit m 3"
  "(word_of_nat m :: 32 word) AND 4 \<noteq> 0 \<longleftrightarrow> bit m 2"
  "(word_of_nat m :: 32 word) AND 2 \<noteq> 0 \<longleftrightarrow> bit m 1"
  "(word_of_nat m :: 32 word) AND 1 \<noteq> 0 \<longleftrightarrow> bit m 0"
proof -
  have b: "(word_of_nat m :: 32 word) AND 2 ^ n \<noteq> 0 \<longleftrightarrow> bit m n" if "n < 32" for n
    using that by (simp add: and_exp_eq_0_iff_not_bit bit_of_nat_iff)
  show "(word_of_nat m :: 32 word) AND 2048 \<noteq> 0 \<longleftrightarrow> bit m 11" using b [of 11] by simp
  show "(word_of_nat m :: 32 word) AND 1024 \<noteq> 0 \<longleftrightarrow> bit m 10" using b [of 10] by simp
  show "(word_of_nat m :: 32 word) AND 512 \<noteq> 0 \<longleftrightarrow> bit m 9" using b [of 9] by simp
  show "(word_of_nat m :: 32 word) AND 256 \<noteq> 0 \<longleftrightarrow> bit m 8" using b [of 8] by simp
  show "(word_of_nat m :: 32 word) AND 128 \<noteq> 0 \<longleftrightarrow> bit m 7" using b [of 7] by simp
  show "(word_of_nat m :: 32 word) AND 64 \<noteq> 0 \<longleftrightarrow> bit m 6" using b [of 6] by simp
  show "(word_of_nat m :: 32 word) AND 32 \<noteq> 0 \<longleftrightarrow> bit m 5" using b [of 5] by simp
  show "(word_of_nat m :: 32 word) AND 16 \<noteq> 0 \<longleftrightarrow> bit m 4" using b [of 4] by simp
  show "(word_of_nat m :: 32 word) AND 8 \<noteq> 0 \<longleftrightarrow> bit m 3" using b [of 3] by simp
  show "(word_of_nat m :: 32 word) AND 4 \<noteq> 0 \<longleftrightarrow> bit m 2" using b [of 2] by simp
  show "(word_of_nat m :: 32 word) AND 2 \<noteq> 0 \<longleftrightarrow> bit m 1" using b [of 1] by simp
  show "(word_of_nat m :: 32 word) AND 1 \<noteq> 0 \<longleftrightarrow> bit m 0" using b [of 0] by simp
qed

lemma take_bit_12_eq:
  "take_bit 12 (m :: nat) = take_bit 12 m' \<longleftrightarrow> (\<forall>n < 12. bit m n = bit m' n)"
  by (auto simp: bit_eq_iff bit_take_bit_iff)

lemma all_less_12: "(\<forall>n < (12 :: nat). P n) \<longleftrightarrow>
    P 0 \<and> P 1 \<and> P 2 \<and> P 3 \<and> P 4 \<and> P 5 \<and> P 6 \<and> P 7 \<and> P 8 \<and> P 9 \<and> P 10 \<and> P 11"
  by (simp add: eval_nat_numeral less_Suc_eq) blast

text \<open>The three letters of one class of the mode string determine its three permission bits and its
  special bit.\<close>

definition mode_letters :: "bool \<Rightarrow> bool \<Rightarrow> bool \<Rightarrow> bool \<Rightarrow> char \<Rightarrow> char \<Rightarrow> string" where
  "mode_letters r w x special low high =
     [if r then CHR 0x72 else CHR 0x2D, if w then CHR 0x77 else CHR 0x2D,
      if special then (if x then low else high) else (if x then CHR 0x78 else CHR 0x2D)]"

lemma mode_letters_inj:
  "distinct [low, high, CHR 0x78, CHR 0x2D] \<Longrightarrow>
   mode_letters r w x special low high = mode_letters r' w' x' special' low high \<longleftrightarrow>
     r = r' \<and> w = w' \<and> x = x' \<and> special = special'"
  by (auto simp: mode_letters_def)

definition mode_type :: "string option \<Rightarrow> char" where
  "mode_type kind = (if kind = Some ''directory'' then CHR 0x64
     else if kind = Some ''symlink'' then CHR 0x6C else CHR 0x2D)"

lemma formatUnixMode_eq:
  "formatUnixMode (Some m) kind =
     mode_type kind # mode_letters (bit m 8) (bit m 7) (bit m 6) (bit m 11) (CHR 0x73) (CHR 0x53)
       @ mode_letters (bit m 5) (bit m 4) (bit m 3) (bit m 10) (CHR 0x73) (CHR 0x53)
       @ mode_letters (bit m 2) (bit m 1) (bit m 0) (bit m 9) (CHR 0x74) (CHR 0x54)"
  unfolding formatUnixMode_def specialExecChar_def option.case Let_def mode_bits
  by (simp add: mode_letters_def mode_type_def)

lemma length_mode_letters [simp]: "length (mode_letters r w x sp l h) = 3"
  by (simp add: mode_letters_def)

section \<open>Properties\<close>

text \<open>The mode string has ten characters and loses nothing of the twelve permission and special bits:
  two modes print alike for the same kind exactly when those bits agree.\<close>

theorem unix_mode_lossless:
  "length (formatUnixMode (Some m) kind) = 10 \<and>
   (formatUnixMode (Some m) kind = formatUnixMode (Some m') kind \<longleftrightarrow> m mod 4096 = m' mod 4096)"
proof
  show "length (formatUnixMode (Some m) kind) = 10"
    by (simp add: formatUnixMode_eq)
  let ?L = "\<lambda>m a b c d l h. mode_letters (bit m a) (bit m b) (bit m c) (bit (m :: nat) d) l h"
  have "formatUnixMode (Some m) kind = formatUnixMode (Some m') kind \<longleftrightarrow>
      ?L m 8 7 6 11 (CHR 0x73) (CHR 0x53) = ?L m' 8 7 6 11 (CHR 0x73) (CHR 0x53)
      \<and> ?L m 5 4 3 10 (CHR 0x73) (CHR 0x53) = ?L m' 5 4 3 10 (CHR 0x73) (CHR 0x53)
      \<and> ?L m 2 1 0 9 (CHR 0x74) (CHR 0x54) = ?L m' 2 1 0 9 (CHR 0x74) (CHR 0x54)"
    unfolding formatUnixMode_eq by (simp only: list.inject append_eq_append_conv length_mode_letters simp_thms)
  also have "\<dots> \<longleftrightarrow> take_bit 12 m = take_bit 12 m'"
    unfolding take_bit_12_eq all_less_12
    by (subst (1 2 3) mode_letters_inj) (simp, simp, simp, argo)
  also have "\<dots> \<longleftrightarrow> m mod 4096 = m' mod 4096"
    by (simp add: take_bit_eq_mod)
  finally show "formatUnixMode (Some m) kind = formatUnixMode (Some m') kind \<longleftrightarrow> m mod 4096 = m' mod 4096" .
qed

text \<open>A non-negative size is printed scaled by a power of 1024 chosen so that the number is below 1024,
  and at least 1 beyond plain bytes, unless the largest unit is reached; every other value prints as the
  empty value.\<close>

theorem format_bytes_scales:
  "(case value of
      Some (Fin v) \<Rightarrow>
        if v < 0 then formatBytes fmt value e d = nullish e ''-''
        else \<exists>s i digits. v = s * 1024 ^ i \<and> i \<le> 6 \<and> (s < 1024 \<or> i = 6) \<and> (0 < i \<longrightarrow> 1 \<le> s)
               \<and> digits = (if i = 0 then 0 else nullish d 1)
               \<and> formatBytes fmt value e d = fmt s digits @ '' '' @ BYTE_UNITS ! i
    | _ \<Rightarrow> formatBytes fmt value e d = nullish e ''-'')"
proof (cases "value")
  case (Some n)
  then show ?thesis
  proof (cases n)
    case (Fin v)
    show ?thesis
    proof (cases "v < 1024")
      case True
      then show ?thesis
        using Some Fin
        by (auto simp: formatBytes_def BYTE_UNITS_def intro!: exI [of _ v] exI [of _ "0::nat"])
    next
      case False
      have units: "length BYTE_UNITS - 1 = 6"
        by code_simp
      obtain s i where r: "scale_bytes v 0 = (s, i)"
        by force
      with False have f: "v = s * 1024 ^ i" "s < 1024 \<or> 6 \<le> i" "0 < i \<longrightarrow> 1 \<le> s" "i \<le> 6"
        using scale_bytes_value [of v 0 s i] units by simp_all
      have "i \<noteq> 0"
        using f False by (cases i) auto
      with Some Fin False r f show ?thesis
        by (auto simp: formatBytes_def intro!: exI [of _ s] exI [of _ i])
    qed
  qed (simp_all add: Some formatBytes_def)
qed (simp add: formatBytes_def)

theorem format_bytes_scales_witness:
  "\<exists>s i digits. (2048 :: rat) = s * 1024 ^ i \<and> i \<le> 6 \<and> (s < 1024 \<or> i = 6) \<and> (0 < i \<longrightarrow> 1 \<le> s)
     \<and> digits = (if i = 0 then 0 else 1 :: nat)
     \<and> formatBytes (\<lambda>_ _. ''2'') (Some (Fin 2048)) None None = ''2'' @ '' '' @ BYTE_UNITS ! i"
  using format_bytes_scales [of "\<lambda>_ _. ''2''" "Some (Fin 2048)" None None]
  by simp

end
