(* ===== verification/HierarchicalTable.thy ===== *)
theory HierarchicalTable
  imports ArchiveTree
begin

text \<open>
  The rows and the selection of the hierarchical table, \<^verbatim>\<open>src/src/app/hierarchicalTable.ts\<close>, with the
  wrappers of \<^verbatim>\<open>src/src/app/selection.ts\<close>.  Both workspaces (extract and create) build their tables
  from these functions.  A \<open>Map\<close> of folder rows is an association list updated in place, a
  \<open>Set\<close> of paths the list of its elements in insertion order.
\<close>

section \<open>Rows\<close>

datatype hier_mode = HFolder | HFlat | HSearch

datatype 'e hier_row =
    ParentRow (row_id: string) (row_path: string) (row_name: string) (row_currentFolder: string)
  | FolderRow (row_id: string) (row_path: string) (row_name: string) (folder_entry: "'e option")
      (folder_isSynthetic: bool)
  | EntryRow (row_id: string) (row_path: string) (row_name: string) (entry_entry: 'e)

record 'e hier_options =
  ho_entries :: "'e list"
  ho_getPath :: "'e \<Rightarrow> string"
  ho_isFolderEntry :: "'e \<Rightarrow> bool"
  ho_currentFolder :: "string option"
  ho_mode :: "hier_mode option"
  ho_searchQuery :: "string option"
  ho_showParentRow :: "bool option"
  ho_parentRowName :: "string option"
  ho_matchesSearch :: "('e \<Rightarrow> string \<Rightarrow> string \<Rightarrow> bool) option"

definition parentHierarchicalRowId :: "string \<Rightarrow> string" where
  "parentHierarchicalRowId p = ''parent:'' @ normalizeArchivePath (Some p)"

definition folderHierarchicalRowId :: "string \<Rightarrow> string" where
  "folderHierarchicalRowId p = ''folder:'' @ normalizeArchivePath (Some p)"

definition entryHierarchicalRowId :: "string \<Rightarrow> string" where
  "entryHierarchicalRowId p = ''entry:'' @ normalizeArchivePath (Some p)"

definition hierNormalizeSearchQuery :: "string option \<Rightarrow> string" where
  "hierNormalizeSearchQuery query = (case query of None \<Rightarrow> [] | Some q \<Rightarrow> js_lower (js_trim q))"

definition defaultMatchesSearch :: "'e hier_options \<Rightarrow> 'e \<Rightarrow> string \<Rightarrow> string \<Rightarrow> bool" where
  "defaultMatchesSearch options entry normalizedPath normalizedQuery =
     (if normalizedQuery = [] then True
      else (case ho_matchesSearch options of
              Some m \<Rightarrow> m entry normalizedPath normalizedQuery
            | None \<Rightarrow> sublist normalizedQuery (js_lower normalizedPath)))"

definition directRowForEntry :: "'e \<Rightarrow> string \<Rightarrow> bool \<Rightarrow> 'e hier_row" where
  "directRowForEntry entry path isFolder =
     (let name = str_or (getArchiveEntryName (Some path)) path
      in if isFolder then FolderRow (folderHierarchicalRowId path) path name (Some entry) False
         else EntryRow (entryHierarchicalRowId path) path name entry)"

definition buildDirectRows :: "'e list \<Rightarrow> 'e hier_options \<Rightarrow> 'e hier_row list" where
  "buildDirectRows entries options =
     concat (map (\<lambda>entry.
       let path = normalizeArchivePath (Some (ho_getPath options entry))
       in if path = [] then [] else [directRowForEntry entry path (ho_isFolderEntry options entry)])
       entries)"

definition upsertFolderRow ::
    "(string \<times> 'e hier_row) list \<Rightarrow> string \<Rightarrow> string \<Rightarrow> 'e option \<Rightarrow> (string \<times> 'e hier_row) list" where
  "upsertFolderRow rows path name entry =
     (let existing = map_of rows path;
          existingEntry = Option.bind existing folder_entry
      in AList.update path
           (FolderRow (folderHierarchicalRowId path) path name
              (case entry of Some e \<Rightarrow> Some e | None \<Rightarrow> existingEntry)
              (entry = None \<and> existingEntry = None)) rows)"

text \<open>One pass of the loop over the entries; the pair is \<open>folderRows\<close> and \<open>entryRows\<close>.\<close>

definition folder_rows_step ::
    "'e hier_options \<Rightarrow> string \<Rightarrow> (string \<times> 'e hier_row) list \<times> 'e hier_row list \<Rightarrow> 'e
      \<Rightarrow> (string \<times> 'e hier_row) list \<times> 'e hier_row list" where
  "folder_rows_step options currentFolder acc entry =
     (let entryPath = normalizeArchivePath (Some (ho_getPath options entry))
      in if entryPath = [] then acc
         else (case getArchivePathRelativeToFolder entryPath (Some currentFolder) of
             None \<Rightarrow> acc
           | Some relativePath \<Rightarrow>
               if relativePath = [] then acc
               else (case splitArchivePath (Some relativePath) of
                   [] \<Rightarrow> acc
                 | childName # remaining \<Rightarrow>
                     if childName = [] then acc
                     else (let isFolder = ho_isFolderEntry options entry
                           in if remaining \<noteq> [] \<or> isFolder
                              then (let childPath = joinArchivePath [Some currentFolder, Some childName]
                                    in (upsertFolderRow (fst acc) childPath childName
                                          (if isFolder \<and> childPath = entryPath then Some entry else None),
                                        snd acc))
                              else (fst acc,
                                    snd acc @ [EntryRow (entryHierarchicalRowId entryPath) entryPath
                                                 childName entry])))))"

definition buildCurrentFolderRows :: "'e hier_options \<Rightarrow> 'e hier_row list" where
  "buildCurrentFolderRows options =
     (let currentFolder = normalizeArchivePath (ho_currentFolder options);
          rows = (if currentFolder \<noteq> [] \<and> nullish (ho_showParentRow options) False
                  then [ParentRow (parentHierarchicalRowId currentFolder)
                          (nullish (getParentArchivePath (Some currentFolder)) [])
                          (nullish (ho_parentRowName options) ''..'') currentFolder]
                  else []);
          (folderRows, entryRows) = foldl (folder_rows_step options currentFolder) ([], []) (ho_entries options)
      in rows @ map snd folderRows @ entryRows)"

definition buildHierarchicalRows :: "'e hier_options \<Rightarrow> 'e hier_row list" where
  "buildHierarchicalRows options =
     (let query = hierNormalizeSearchQuery (ho_searchQuery options)
      in case nullish (ho_mode options) HFolder of
           HSearch \<Rightarrow>
             buildDirectRows
               (filter (\<lambda>entry.
                  let path = normalizeArchivePath (Some (ho_getPath options entry))
                  in path \<noteq> [] \<and> defaultMatchesSearch options entry path query)
                  (ho_entries options)) options
         | HFlat \<Rightarrow> buildDirectRows (ho_entries options) options
         | HFolder \<Rightarrow> buildCurrentFolderRows options)"

fun isSelectableHierarchicalRow :: "'e hier_row \<Rightarrow> bool" where
  "isSelectableHierarchicalRow (ParentRow _ _ _ _) = False"
| "isSelectableHierarchicalRow (FolderRow _ _ _ _ _) = True"
| "isSelectableHierarchicalRow (EntryRow _ _ _ _) = True"

definition selectableHierarchicalRowPaths :: "'e hier_row list \<Rightarrow> string list" where
  "selectableHierarchicalRowPaths rows = map row_path (filter isSelectableHierarchicalRow rows)"

section \<open>Selection\<close>

record table_selection =
  sel_paths :: "string list"
  sel_focused :: string
  sel_anchor :: string

text \<open>The optional focus and anchor of \<open>HierarchicalTableSelectionState\<close>.\<close>

record table_selection_state =
  st_paths :: "string list"
  st_focused :: "string option"
  st_anchor :: "string option"

record selection_intent =
  in_path :: string
  in_visiblePaths :: "string list"
  in_currentSelection :: "string list"
  in_anchorPath :: "string option"
  in_ctrlKey :: bool
  in_metaKey :: bool
  in_shiftKey :: bool

definition js_slice :: "int \<Rightarrow> int \<Rightarrow> 'a list \<Rightarrow> 'a list" where
  "js_slice start stop xs = take (nat stop - nat start) (drop (nat start) xs)"

definition visiblePathRange :: "string list \<Rightarrow> string \<Rightarrow> string \<Rightarrow> string list" where
  "visiblePathRange visiblePaths anchorPath targetPath =
     (let anchorIndex = indexOf anchorPath visiblePaths; targetIndex = indexOf targetPath visiblePaths
      in if anchorIndex < 0 \<or> targetIndex < 0 then [targetPath]
         else js_slice (min anchorIndex targetIndex) (max anchorIndex targetIndex + 1) visiblePaths)"

definition first_or_empty :: "string list \<Rightarrow> string" where
  "first_or_empty xs = (case xs of [] \<Rightarrow> [] | x # _ \<Rightarrow> x)"

definition replaceHierarchicalTableSelection ::
    "string list \<Rightarrow> string option \<Rightarrow> string option \<Rightarrow> table_selection" where
  "replaceHierarchicalTableSelection paths focused anchor =
     (let selectedPaths = js_set paths;
          focusedPath = (case focused of Some f \<Rightarrow> f | None \<Rightarrow> first_or_empty selectedPaths)
      in \<lparr> sel_paths = selectedPaths, sel_focused = focusedPath,
           sel_anchor = nullish anchor focusedPath \<rparr>)"

definition applyHierarchicalRowSelectionIntent :: "selection_intent \<Rightarrow> table_selection" where
  "applyHierarchicalRowSelectionIntent intent =
     (let anchorPath =
            (if truthy (in_anchorPath intent)
                \<and> the (in_anchorPath intent) \<in> set (in_visiblePaths intent)
             then the (in_anchorPath intent) else in_path intent);
          selectedPaths = in_currentSelection intent
      in if in_shiftKey intent
         then (let range = visiblePathRange (in_visiblePaths intent) anchorPath (in_path intent)
               in \<lparr> sel_paths = (if in_ctrlKey intent \<or> in_metaKey intent
                                then set_add_all range selectedPaths else js_set range),
                    sel_focused = in_path intent, sel_anchor = anchorPath \<rparr>)
         else if in_ctrlKey intent \<or> in_metaKey intent
         then \<lparr> sel_paths = set_toggle (in_path intent) selectedPaths,
                sel_focused = in_path intent, sel_anchor = in_path intent \<rparr>
         else replaceHierarchicalTableSelection [in_path intent] (Some (in_path intent)) None)"

definition selectAllVisibleHierarchicalRows :: "string list \<Rightarrow> table_selection" where
  "selectAllVisibleHierarchicalRows visiblePaths =
     \<lparr> sel_paths = js_set visiblePaths, sel_focused = first_or_empty visiblePaths,
       sel_anchor = first_or_empty visiblePaths \<rparr>"

definition invertVisibleHierarchicalSelection :: "string list \<Rightarrow> string list \<Rightarrow> table_selection" where
  "invertVisibleHierarchicalSelection currentSelection visiblePaths =
     \<lparr> sel_paths = fold set_toggle visiblePaths currentSelection,
       sel_focused = first_or_empty visiblePaths, sel_anchor = first_or_empty visiblePaths \<rparr>"

definition first_such :: "(string \<Rightarrow> bool) \<Rightarrow> string list \<Rightarrow> string" where
  "first_such P xs = (case find P xs of None \<Rightarrow> [] | Some x \<Rightarrow> x)"

definition cleanupHierarchicalTableSelection ::
    "table_selection_state \<Rightarrow> string list \<Rightarrow> bool \<Rightarrow> table_selection" where
  "cleanupHierarchicalTableSelection input visiblePaths preserveHiddenSelection =
     (let visible = js_set visiblePaths;
          selectedPaths = (if preserveHiddenSelection then st_paths input
                           else js_set (filter (set_has visible) (st_paths input)));
          focusedPath = (if truthy (st_focused input) \<and> set_has visible (the (st_focused input))
                         then the (st_focused input) else []);
          visibleSelectedPath = first_such (set_has visible) selectedPaths
      in \<lparr> sel_paths = selectedPaths, sel_focused = focusedPath,
           sel_anchor =
             (if truthy (st_anchor input) \<and> set_has visible (the (st_anchor input))
              then the (st_anchor input) else str_or focusedPath visibleSelectedPath) \<rparr>)"

definition focusHierarchicalTablePath :: "table_selection_state \<Rightarrow> string \<Rightarrow> table_selection" where
  "focusHierarchicalTablePath state focusedPath =
     \<lparr> sel_paths = st_paths state, sel_focused = focusedPath,
       sel_anchor = nullish (st_anchor state) [] \<rparr>"

definition moveHierarchicalTableFocus :: "'e hier_row list \<Rightarrow> int \<Rightarrow> int \<Rightarrow> int \<times> string" where
  "moveHierarchicalTableFocus rows currentIndex direction =
     (if rows = [] \<or> currentIndex < 0 then (-1, [])
      else (let nextIndex = max 0 (min (int (length rows) - 1) (currentIndex + direction));
                row = rows ! nat nextIndex
            in (nextIndex, if isSelectableHierarchicalRow row then row_path row else [])))"

definition toggleHierarchicalTablePathSelection :: "string list \<Rightarrow> string \<Rightarrow> table_selection" where
  "toggleHierarchicalTablePathSelection selectedPaths path =
     \<lparr> sel_paths = set_toggle path selectedPaths, sel_focused = path, sel_anchor = path \<rparr>"

definition setHierarchicalTablePathSelected :: "string list \<Rightarrow> string \<Rightarrow> bool \<Rightarrow> table_selection" where
  "setHierarchicalTablePathSelected selectedPaths path selected =
     \<lparr> sel_paths = (if selected then set_add path selectedPaths else set_delete path selectedPaths),
       sel_focused = path, sel_anchor = path \<rparr>"

definition ensureHierarchicalTablePathSelected ::
    "table_selection_state \<Rightarrow> string \<Rightarrow> bool \<Rightarrow> table_selection" where
  "ensureHierarchicalTablePathSelected input path focusSelectedPath =
     (if set_has (st_paths input) path
      then \<lparr> sel_paths = st_paths input,
             sel_focused = (if focusSelectedPath then path else nullish (st_focused input) []),
             sel_anchor = nullish (st_anchor input) [] \<rparr>
      else replaceHierarchicalTableSelection [path] (Some path) None)"

definition clearHierarchicalTableSelection :: table_selection where
  "clearHierarchicalTableSelection = \<lparr> sel_paths = [], sel_focused = [], sel_anchor = [] \<rparr>"

definition applyHierarchicalMarqueeSelection ::
    "string list \<Rightarrow> string list \<Rightarrow> string list \<Rightarrow> bool \<Rightarrow> table_selection" where
  "applyHierarchicalMarqueeSelection hitPaths visiblePaths baseSelection isAdditive =
     (let selectedPaths = set_add_all hitPaths (if isAdditive then baseSelection else []);
          focusedPath = first_such (set_has selectedPaths) (rev visiblePaths)
      in \<lparr> sel_paths = selectedPaths, sel_focused = focusedPath, sel_anchor = focusedPath \<rparr>)"

section \<open>The wrappers of selection.ts\<close>

definition selectAllVisible :: "string list \<Rightarrow> string list" where
  "selectAllVisible visiblePaths = sel_paths (selectAllVisibleHierarchicalRows visiblePaths)"

definition invertVisibleSelection :: "string list \<Rightarrow> string list \<Rightarrow> string list" where
  "invertVisibleSelection currentSelection visiblePaths =
     sel_paths (invertVisibleHierarchicalSelection currentSelection visiblePaths)"

definition applyRowSelectionIntent :: "selection_intent \<Rightarrow> table_selection" where
  "applyRowSelectionIntent intent = applyHierarchicalRowSelectionIntent intent"

text \<open>\<open>path.split(/[\\/]/).filter(Boolean).at(-1) ?? path\<close>.\<close>

definition getExtension :: "string \<Rightarrow> string" where
  "getExtension path =
     (let pieces = filter (\<lambda>s. s \<noteq> [])
            (js_split (CHR 0x2F) (map (\<lambda>c. if is_sep c then CHR 0x2F else c) path));
          name = (if pieces = [] then path else last pieces)
      in case last_index (CHR 0x2E) name of
           None \<Rightarrow> []
         | Some dotIndex \<Rightarrow> if dotIndex > 0 then js_lower (drop (Suc dotIndex) name) else [])"

definition pathsWithSameExtension :: "string \<Rightarrow> string list \<Rightarrow> string list" where
  "pathsWithSameExtension focusedPath visiblePaths =
     filter (\<lambda>path. getExtension path = getExtension focusedPath) visiblePaths"

section \<open>The rows of a folder\<close>

abbreviation row_segments :: "'e hier_options \<Rightarrow> 'e \<Rightarrow> string list" where
  "row_segments options e \<equiv> path_segments (ho_getPath options e)"

lemma folder_rows_step_outside:
  "\<not> strict_prefix (option_segments f) (row_segments options e) \<Longrightarrow>
     folder_rows_step options (normalizeArchivePath f) acc e = acc"
  unfolding folder_rows_step_def Let_def
  by (auto simp: path_simps js_join_good_eq_Nil strict_prefix_def prefix_def
      split: option.split list.split)

lemma folder_rows_step_inside:
  assumes seg: "row_segments options e = option_segments f @ s # rest"
  shows "folder_rows_step options (normalizeArchivePath f) acc e =
    (let k = js_join (CHR 0x2F) (option_segments f @ [s])
     in if rest \<noteq> [] \<or> ho_isFolderEntry options e
        then (upsertFolderRow (fst acc) k s
                (if ho_isFolderEntry options e \<and> rest = [] then Some e else None), snd acc)
        else (fst acc, snd acc @ [EntryRow (entryHierarchicalRowId k) k s e]))"
proof -
  have good: "good_segments (option_segments f @ s # rest)"
    by (metis seg good_path_segments)
  then have s: "path_segments s = [s]" "s \<noteq> []"
    by (auto simp: path_segments_good_name kept_segment_def)
  have join: "joinArchivePath [Some (normalizeArchivePath f), Some s]
      = js_join (CHR 0x2F) (option_segments f @ [s])"
    by (simp add: joinArchivePath_eq s)
  have rel: "getArchivePathRelativeToFolder (normalizeArchivePath (Some (ho_getPath options e))) (Some (normalizeArchivePath f))
      = Some (js_join (CHR 0x2F) (s # rest))"
    by (simp add: getArchivePathRelativeToFolder_eq seg)
  have ne: "normalizeArchivePath (Some (ho_getPath options e)) \<noteq> []" "js_join (CHR 0x2F) (s # rest) \<noteq> []"
    using good seg by (auto simp: js_join_good_eq_Nil)
  have split: "splitArchivePath (Some (js_join (CHR 0x2F) (s # rest))) = s # rest"
    using good by (simp add: splitArchivePath_eq)
  have full: "normalizeArchivePath (Some (ho_getPath options e))
      = js_join (CHR 0x2F) (option_segments f @ s # rest)"
    by (simp add: normalizeArchivePath_eq seg)
  have eq: "js_join (CHR 0x2F) (option_segments f @ [s]) = js_join (CHR 0x2F) (option_segments f @ s # rest)
      \<longleftrightarrow> rest = []"
  proof
    assume "js_join (CHR 0x2F) (option_segments f @ [s]) = js_join (CHR 0x2F) (option_segments f @ s # rest)"
    moreover have "good_segments (option_segments f @ [s])"
      using good by simp
    ultimately have "option_segments f @ [s] = option_segments f @ s # rest"
      using good by (metis path_segments_join)
    then show "rest = []"
      by simp
  qed simp
  show ?thesis
    unfolding folder_rows_step_def Let_def rel option.case if_not_P [OF ne(1)] if_not_P [OF ne(2)] split
      list.case join if_not_P [OF s(2)]
    by (auto simp: full eq)
qed

abbreviation folder_rows_of ::
    "'e hier_options \<Rightarrow> 'e list \<Rightarrow> (string \<times> 'e hier_row) list \<times> 'e hier_row list" where
  "folder_rows_of options es \<equiv>
     foldl (folder_rows_step options (normalizeArchivePath (ho_currentFolder options))) ([], []) es"

definition folder_child :: "'e hier_options \<Rightarrow> 'e list \<Rightarrow> string list \<Rightarrow> bool" where
  "folder_child options es p \<longleftrightarrow>
     p \<noteq> [] \<and> butlast p = option_segments (ho_currentFolder options)
     \<and> (\<exists>e \<in> set es. strict_prefix p (row_segments options e)
          \<or> (p = row_segments options e \<and> ho_isFolderEntry options e))"

definition folder_row_at :: "'e hier_options \<Rightarrow> 'e list \<Rightarrow> string list \<Rightarrow> 'e hier_row" where
  "folder_row_at options es p =
     (let ms = filter (\<lambda>e. row_segments options e = p \<and> ho_isFolderEntry options e) es
      in FolderRow (folderHierarchicalRowId (js_join (CHR 0x2F) p)) (js_join (CHR 0x2F) p) (last p)
           (if ms = [] then None else Some (last ms)) (ms = []))"

lemma folder_entry_at [simp]:
  "folder_entry (folder_row_at options es p) =
     (let ms = filter (\<lambda>e. row_segments options e = p \<and> ho_isFolderEntry options e) es
      in if ms = [] then None else Some (last ms))"
  "row_path (folder_row_at options es p) = js_join (CHR 0x2F) p"
  "row_name (folder_row_at options es p) = last p"
  "isSelectableHierarchicalRow (folder_row_at options es p)"
  by (simp_all add: folder_row_at_def Let_def)

lemma entry_rows_of:
  "snd (folder_rows_of options es) =
     map (\<lambda>e. EntryRow (entryHierarchicalRowId (normalizeArchivePath (Some (ho_getPath options e))))
            (normalizeArchivePath (Some (ho_getPath options e))) (last (row_segments options e)) e)
       (filter (\<lambda>e. row_segments options e \<noteq> []
            \<and> butlast (row_segments options e) = option_segments (ho_currentFolder options)
            \<and> \<not> ho_isFolderEntry options e) es)"
proof (induction es rule: rev_induct)
  case (snoc e es)
  let ?us = "option_segments (ho_currentFolder options)"
  show ?case
  proof (cases "strict_prefix ?us (row_segments options e)")
    case False
    then have "\<not> (row_segments options e \<noteq> [] \<and> butlast (row_segments options e) = ?us)"
      by (metis append_butlast_last_id strict_prefixI')
    with snoc False show ?thesis
      by (auto simp: folder_rows_step_outside)
  next
    case True
    then obtain s rest where seg: "row_segments options e = ?us @ s # rest"
      by (auto simp: strict_prefix_def prefix_def neq_Nil_conv)
    show ?thesis
      using snoc
      by (auto simp: folder_rows_step_inside [OF seg] normalizeArchivePath_eq seg butlast_append Let_def)
  qed
qed simp

lemma distinct_folder_rows: "distinct (map fst (fst (folder_rows_of options es)))"
proof (induction es rule: rev_induct)
  case (snoc e es)
  then show ?case
    by (auto simp: folder_rows_step_def upsertFolderRow_def distinct_update Let_def
        split: option.split list.split)
qed simp

lemma folder_child_snoc:
  "folder_child options (es @ [e]) p \<longleftrightarrow> folder_child options es p
     \<or> (p \<noteq> [] \<and> butlast p = option_segments (ho_currentFolder options)
        \<and> (strict_prefix p (row_segments options e)
            \<or> (p = row_segments options e \<and> ho_isFolderEntry options e)))"
  by (auto simp: folder_child_def)

lemma folder_row_at_snoc:
  "folder_row_at options (es @ [e]) p =
     (if row_segments options e = p \<and> ho_isFolderEntry options e
      then FolderRow (folderHierarchicalRowId (js_join (CHR 0x2F) p)) (js_join (CHR 0x2F) p) (last p) (Some e) False
      else folder_row_at options es p)"
  by (auto simp: folder_row_at_def)

lemma upsert_at:
  assumes "map_of rows k = (if P then Some (folder_row_at options es p) else None)"
    and "\<not> P \<Longrightarrow> filter (\<lambda>e. row_segments options e = p \<and> ho_isFolderEntry options e) es = []"
    and "k = js_join (CHR 0x2F) p"
  shows "map_of (upsertFolderRow rows k (last p) None) k = Some (folder_row_at options es p)"
    and "map_of (upsertFolderRow rows k (last p) (Some e)) k
       = Some (FolderRow (folderHierarchicalRowId k) k (last p) (Some e) False)"
  using assms by (auto simp: upsertFolderRow_def update_conv' Let_def folder_row_at_def)

lemma map_of_folder_rows:
  assumes good_p: "good_segments p"
  shows "map_of (fst (folder_rows_of options es)) (js_join (CHR 0x2F) p) =
     (if folder_child options es p then Some (folder_row_at options es p) else None)"
proof (induction es rule: rev_induct)
  case (snoc e es)
  let ?us = "option_segments (ho_currentFolder options)"
  show ?case
  proof (cases "strict_prefix ?us (row_segments options e)")
    case False
    have no: "\<not> (p \<noteq> [] \<and> butlast p = ?us \<and> prefix p (row_segments options e))"
      using False by (metis append_butlast_last_id strict_prefixI' prefix_order.less_le_trans)
    then have child: "folder_child options (es @ [e]) p = folder_child options es p"
      unfolding folder_child_snoc by (metis prefix_order.order_refl strict_prefix_def)
    have "folder_child options es p \<Longrightarrow> row_segments options e \<noteq> p"
      using no by (auto simp: folder_child_def)
    with snoc False child show ?thesis
      by (simp add: folder_rows_step_outside folder_row_at_snoc)
  next
    case True
    then obtain s rest where seg: "row_segments options e = ?us @ s # rest"
      by (auto simp: strict_prefix_def prefix_def neq_Nil_conv)
    have good: "good_segments (?us @ [s])"
      using good_path_segments [of "ho_getPath options e"] unfolding seg by simp
    have key: "js_join (CHR 0x2F) p = js_join (CHR 0x2F) (?us @ [s]) \<longleftrightarrow> p = ?us @ [s]"
      using good_p good by (metis path_segments_join)
    have child: "folder_child options (es @ [e]) p \<longleftrightarrow> folder_child options es p
        \<or> (p = ?us @ [s] \<and> (rest \<noteq> [] \<or> ho_isFolderEntry options e))"
      unfolding folder_child_snoc seg using child_prefix_iff [of p ?us s rest]
      by (auto simp: strict_prefix_def)
    show ?thesis
    proof (cases "p = ?us @ [s]")
      case p: True
      have fresh: "\<not> folder_child options es p \<Longrightarrow>
          filter (\<lambda>e. row_segments options e = p \<and> ho_isFolderEntry options e) es = []"
        using p by (auto simp: folder_child_def filter_empty_conv)
      note up = upsert_at [OF snoc fresh refl]
      show ?thesis
        using snoc up child p
        by (auto simp: folder_rows_step_inside [OF seg] folder_row_at_snoc seg Let_def)
    next
      case False
      have "folder_child options es p \<Longrightarrow> row_segments options e \<noteq> p"
        using False child_prefix_iff [of p ?us s rest] unfolding folder_child_def seg by auto
      then show ?thesis
        using snoc False child key
        by (auto simp: folder_rows_step_inside [OF seg] upsertFolderRow_def update_conv'
            folder_row_at_snoc Let_def)
    qed
  qed
qed (simp add: folder_child_def)

lemma folder_rows_keys:
  "k \<in> fst ` set (fst (folder_rows_of options es)) \<Longrightarrow> js_join (CHR 0x2F) (path_segments k) = k"
proof (induction es rule: rev_induct)
  case (snoc e es)
  let ?us = "option_segments (ho_currentFolder options)"
  show ?case
  proof (cases "strict_prefix ?us (row_segments options e)")
    case True
    then obtain s rest where seg: "row_segments options e = ?us @ s # rest"
      by (auto simp: strict_prefix_def prefix_def neq_Nil_conv)
    have "good_segments (?us @ [s])"
      using good_path_segments [of "ho_getPath options e"] unfolding seg by simp
    then have "path_segments (js_join (CHR 0x2F) (?us @ [s])) = ?us @ [s]"
      by (rule path_segments_join)
    then show ?thesis
      using snoc by (auto simp: folder_rows_step_inside [OF seg] upsertFolderRow_def Let_def
          dom_update split: if_splits)
  qed (use snoc in \<open>simp add: folder_rows_step_outside\<close>)
qed simp

interpretation folder_rows: path_keyed "fst (folder_rows_of options es)" "folder_child options es"
    "folder_row_at options es"
  for options :: "'e hier_options" and es
  by unfold_locales (rule distinct_folder_rows folder_rows_keys map_of_folder_rows; assumption)+

lemma folder_row_paths:
  "map row_path (map snd (fst (folder_rows_of options es))) = map fst (fst (folder_rows_of options es))"
  by (rule folder_rows.keys_of) simp

lemma prefix_cases: "prefix p ss \<longleftrightarrow> p = ss \<or> strict_prefix p ss"
  by (auto simp: strict_prefix_def)

lemma selectable_append [simp]:
  "selectableHierarchicalRowPaths (xs @ ys)
     = selectableHierarchicalRowPaths xs @ selectableHierarchicalRowPaths ys"
  by (simp add: selectableHierarchicalRowPaths_def)

lemma buildCurrentFolderRows_eq:
  "buildCurrentFolderRows options =
     (let currentFolder = normalizeArchivePath (ho_currentFolder options)
      in (if currentFolder \<noteq> [] \<and> nullish (ho_showParentRow options) False
          then [ParentRow (parentHierarchicalRowId currentFolder)
                  (nullish (getParentArchivePath (Some currentFolder)) [])
                  (nullish (ho_parentRowName options) ''..'') currentFolder]
          else [])
         @ map snd (fst (folder_rows_of options (ho_entries options)))
         @ snd (folder_rows_of options (ho_entries options)))"
  by (simp add: buildCurrentFolderRows_def Let_def split: prod.split)

lemma selectable_parent [simp]: "selectableHierarchicalRowPaths [ParentRow a b c d] = []"
  by (simp add: selectableHierarchicalRowPaths_def)

lemma selectable_all:
  "(\<And>r. r \<in> set rows \<Longrightarrow> isSelectableHierarchicalRow r) \<Longrightarrow>
     selectableHierarchicalRowPaths rows = map row_path rows"
  by (simp add: selectableHierarchicalRowPaths_def filter_id_conv)

lemma selectable_folder_rows:
  "selectableHierarchicalRowPaths (buildCurrentFolderRows options)
     = map fst (fst (folder_rows_of options (ho_entries options)))
       @ map row_path (snd (folder_rows_of options (ho_entries options)))"
proof -
  let ?es = "ho_entries options"
  have "selectableHierarchicalRowPaths (map snd (fst (folder_rows_of options ?es)))
      = map row_path (map snd (fst (folder_rows_of options ?es)))"
  proof (rule selectable_all)
    fix r assume "r \<in> set (map snd (fst (folder_rows_of options ?es)))"
    then have "r \<in> folder_row_at options ?es ` {p. good_segments p \<and> folder_child options ?es p}"
      unfolding folder_rows.all_values [symmetric] by simp
    then show "isSelectableHierarchicalRow r"
      by auto
  qed
  moreover have "selectableHierarchicalRowPaths (snd (folder_rows_of options ?es))
      = map row_path (snd (folder_rows_of options ?es))"
    by (rule selectable_all) (auto simp: entry_rows_of)
  ultimately show ?thesis
    unfolding buildCurrentFolderRows_eq Let_def folder_row_paths
    by (simp add: selectableHierarchicalRowPaths_def)
qed

lemma set_selectable_folder_rows:
  "set (selectableHierarchicalRowPaths (buildCurrentFolderRows options)) =
     js_join (CHR 0x2F) ` {p. p \<noteq> [] \<and> butlast p = option_segments (ho_currentFolder options)
        \<and> (\<exists>e \<in> set (ho_entries options). prefix p (row_segments options e))}"
    (is "_ = js_join _ ` ?C")
proof -
  let ?es = "ho_entries options"
  have good: "p \<in> ?C \<Longrightarrow> good_segments p" for p
  proof -
    assume "p \<in> ?C"
    then obtain e zs where "row_segments options e = p @ zs"
      by (auto simp: prefix_def)
    with good_path_segments [of "ho_getPath options e"] show "good_segments p"
      by (metis good_path_segments good_segments_simps(3))
  qed
  have fold_good: "folder_child options ?es p \<Longrightarrow> p \<in> ?C" for p
    by (auto simp: folder_child_def strict_prefix_def)
  have "fst ` set (fst (folder_rows_of options ?es))
      = row_path ` snd ` set (fst (folder_rows_of options ?es))"
    using folder_row_paths [of options ?es] by (metis list.set_map)
  also have "\<dots> = js_join (CHR 0x2F) ` {p. folder_child options ?es p}"
    using fold_good good by (auto simp: folder_rows.all_values image_image)
  finally have f: "fst ` set (fst (folder_rows_of options ?es))
      = js_join (CHR 0x2F) ` {p. folder_child options ?es p}" .
  have e: "row_path ` set (snd (folder_rows_of options ?es))
      = js_join (CHR 0x2F) ` {p. p \<noteq> [] \<and> butlast p = option_segments (ho_currentFolder options)
          \<and> (\<exists>e \<in> set ?es. p = row_segments options e \<and> \<not> ho_isFolderEntry options e)}"
    by (auto simp: entry_rows_of image_image normalizeArchivePath_eq)
  show ?thesis
    unfolding selectable_folder_rows set_append set_map f e image_Un [symmetric]
    by (rule arg_cong [of _ _ "image _"])
      (auto simp: folder_child_def prefix_cases)
qed

section \<open>Ranges and toggles\<close>

lemma slice_ends:
  assumes "lo \<le> hi" and "hi < length vs"
  shows "vs = take lo vs @ take (Suc hi - lo) (drop lo vs) @ drop (Suc hi) vs"
    and "take (Suc hi - lo) (drop lo vs) \<noteq> []"
    and "hd (take (Suc hi - lo) (drop lo vs)) = vs ! lo"
    and "last (take (Suc hi - lo) (drop lo vs)) = vs ! hi"
proof -
  let ?r = "take (Suc hi - lo) (drop lo vs)"
  have len: "length ?r = Suc (hi - lo)"
    using assms by simp
  show "vs = take lo vs @ ?r @ drop (Suc hi) vs"
  proof -
    have "drop (Suc hi) vs = drop (Suc hi - lo) (drop lo vs)"
      using assms by simp
    then show ?thesis
      by (simp only: append_take_drop_id)
  qed
  show ne: "?r \<noteq> []"
  proof
    assume "?r = []"
    with len show False
      by (simp only: list.size)
  qed
  show "hd ?r = vs ! lo"
    using ne assms by (simp add: hd_drop_conv_nth)
  show "last ?r = vs ! hi"
    using assms last_conv_nth [OF ne] len by simp
qed

lemma visiblePathRange_visible:
  assumes "a \<in> set vs" and "t \<in> set vs"
  shows "\<exists>us ws. vs = us @ visiblePathRange vs a t @ ws \<and> visiblePathRange vs a t \<noteq> []
     \<and> {hd (visiblePathRange vs a t), last (visiblePathRange vs a t)} = {a, t}"
proof -
  define i j where "i = nat (indexOf a vs)" and "j = nat (indexOf t vs)"
  have ij: "i < length vs" "vs ! i = a" "j < length vs" "vs ! j = t"
    using indexOf_nth [OF assms(1)] indexOf_nth [OF assms(2)] unfolding i_def j_def by blast+
  have pos: "\<not> indexOf a vs < 0" "\<not> indexOf t vs < 0"
    using assms by (simp_all add: indexOf_neg)
  then have "nat (min (indexOf a vs) (indexOf t vs)) = min i j"
    and "nat (max (indexOf a vs) (indexOf t vs) + 1) = Suc (max i j)"
    unfolding i_def j_def by (auto simp: min_def max_def)
  then have r: "visiblePathRange vs a t = take (Suc (max i j) - min i j) (drop (min i j) vs)"
    using pos by (simp add: visiblePathRange_def js_slice_def Let_def)
  have "min i j \<le> max i j" and "max i j < length vs"
    using ij by auto
  note ends = slice_ends [OF this]
  have at: "{vs ! min i j, vs ! max i j} = {a, t}"
    using ij by (auto simp: min_def max_def)
  show ?thesis
    unfolding r
  proof (intro exI conjI)
    show "{hd (take (Suc (max i j) - min i j) (drop (min i j) vs)),
        last (take (Suc (max i j) - min i j) (drop (min i j) vs))} = {a, t}"
      unfolding ends(3,4) by (rule at)
  qed (rule ends(1), rule ends(2))
qed

lemma visiblePathRange_sym:
  "a \<in> set vs \<Longrightarrow> t \<in> set vs \<Longrightarrow> visiblePathRange vs a t = visiblePathRange vs t a"
  by (simp add: visiblePathRange_def indexOf_neg min.commute max.commute Let_def) 

lemma fold_toggle_set:
  "distinct vs \<Longrightarrow> set (fold set_toggle vs sel) = (set sel - set vs) \<union> (set vs - set sel)"
  using oset.elems_fold_toggle [of vs sel] by (simp add: set_toggle_def [abs_def])

lemma fold_toggle_distinct: "distinct sel \<Longrightarrow> distinct (fold set_toggle vs sel)"
  using oset.ok_fold_toggle [of sel vs] by (simp add: set_toggle_def [abs_def])

lemma first_such_in: "first_such P xs \<noteq> [] \<Longrightarrow> first_such P xs \<in> set xs \<and> P (first_such P xs)"
proof (cases "find P xs")
  case (Some x)
  then have "x \<in> set xs \<and> P x"
    by (auto simp: find_Some_iff)
  with Some show ?thesis
    by (simp add: first_such_def)
qed (simp add: first_such_def)

lemma in_folder_rows:
  assumes "FolderRow i q n en syn \<in> set (buildCurrentFolderRows options)"
  shows "\<exists>p. good_segments p \<and> folder_child options (ho_entries options) p
     \<and> FolderRow i q n en syn = folder_row_at options (ho_entries options) p"
proof -
  have "FolderRow i q n en syn \<in> snd ` set (fst (folder_rows_of options (ho_entries options)))"
    using assms by (auto simp: buildCurrentFolderRows_eq entry_rows_of Let_def split: if_splits)
  then show ?thesis
    unfolding folder_rows.all_values by auto
qed

lemma shift_click:
  assumes "in_path intent \<in> set (in_visiblePaths intent)" and "in_shiftKey intent"
  shows "sel_focused (applyHierarchicalRowSelectionIntent intent) = in_path intent \<and>
    (\<exists>us rg ws. in_visiblePaths intent = us @ rg @ ws \<and> rg \<noteq> []
       \<and> {hd rg, last rg} = {sel_anchor (applyHierarchicalRowSelectionIntent intent), in_path intent}
       \<and> set (sel_paths (applyHierarchicalRowSelectionIntent intent))
           = (if in_ctrlKey intent \<or> in_metaKey intent then set (in_currentSelection intent) \<union> set rg
              else set rg)
       \<and> (in_anchorPath intent = Some (sel_anchor (applyHierarchicalRowSelectionIntent intent))
          \<or> sel_anchor (applyHierarchicalRowSelectionIntent intent) = in_path intent))"
proof -
  define a where "a = (if truthy (in_anchorPath intent)
      \<and> the (in_anchorPath intent) \<in> set (in_visiblePaths intent)
    then the (in_anchorPath intent) else in_path intent)"
  define rg where "rg = visiblePathRange (in_visiblePaths intent) a (in_path intent)"
  have a: "a \<in> set (in_visiblePaths intent)" "in_anchorPath intent = Some a \<or> a = in_path intent"
    using assms(1) unfolding a_def by (auto simp: truthy_def split: option.splits)
  have r: "applyHierarchicalRowSelectionIntent intent =
    \<lparr> sel_paths = (if in_ctrlKey intent \<or> in_metaKey intent
         then set_add_all rg (in_currentSelection intent) else js_set rg),
      sel_focused = in_path intent, sel_anchor = a \<rparr>"
    using assms(2) by (simp add: applyHierarchicalRowSelectionIntent_def Let_def a_def rg_def)
  have "\<exists>us ws. in_visiblePaths intent = us @ rg @ ws \<and> rg \<noteq> [] \<and> {hd rg, last rg} = {a, in_path intent}"
    unfolding rg_def by (rule visiblePathRange_visible [OF a(1) assms(1)])
  then show ?thesis
    unfolding r using a(2) by fastforce
qed

lemma shift_click_distinct:
  "distinct (in_currentSelection intent) \<Longrightarrow> in_shiftKey intent \<Longrightarrow>
     distinct (sel_paths (applyHierarchicalRowSelectionIntent intent))"
  by (simp add: applyHierarchicalRowSelectionIntent_def Let_def)

section \<open>Properties\<close>

text \<open>In folder mode a folder row carries the last folder entry of exactly its path, is synthetic
  when there is none, is named after the last segment of its path and identified by it; and no two
  folder rows have the same path.\<close>

theorem folder_row_data:
  assumes "nullish (ho_mode options) HFolder = HFolder"
    and "FolderRow i q n en syn \<in> set (buildHierarchicalRows options)"
  shows "let ms = filter (\<lambda>e. normalizeArchivePath (Some (ho_getPath options e)) = q
                    \<and> ho_isFolderEntry options e) (ho_entries options)
     in en = (if ms = [] then None else Some (last ms)) \<and> syn = (ms = [])
        \<and> n = getArchiveEntryName (Some q) \<and> i = ''folder:'' @ q
        \<and> filter (\<lambda>r. row_path r = q \<and> row_id r = ''folder:'' @ q) (buildHierarchicalRows options)
          = [FolderRow i q n en syn]"
proof -
  let ?es = "ho_entries options" and ?rows = "buildCurrentFolderRows options"
  let ?fr = "map snd (fst (folder_rows_of options ?es))"
  have rows: "buildHierarchicalRows options = ?rows"
    using assms(1) by (simp add: buildHierarchicalRows_def)
  obtain p where p: "good_segments p" "folder_child options ?es p"
    "FolderRow i q n en syn = folder_row_at options ?es p"
    using in_folder_rows assms(2) unfolding rows by blast
  then have q: "q = js_join (CHR 0x2F) p" "i = ''folder:'' @ q" "n = last p" and "p \<noteq> []"
    by (auto simp: folder_row_at_def folderHierarchicalRowId_def normalizeArchivePath_eq Let_def folder_child_def)
  have ms: "filter (\<lambda>e. normalizeArchivePath (Some (ho_getPath options e)) = q
        \<and> ho_isFolderEntry options e) ?es
      = filter (\<lambda>e. row_segments options e = p \<and> ho_isFolderEntry options e) ?es"
    by (rule filter_cong)
      (use p(1) q(1) in \<open>auto simp: normalizeArchivePath_eq dest: arg_cong [of _ _ path_segments]\<close>)
  have "FolderRow i q n en syn \<in> set ?fr"
    using assms(2) unfolding rows
    by (auto simp: buildCurrentFolderRows_eq entry_rows_of Let_def split: if_splits)
  moreover have "distinct (map row_path ?fr)"
    unfolding folder_row_paths by (rule distinct_folder_rows)
  ultimately have uniq: "filter (\<lambda>r. row_path r = q) ?fr = [FolderRow i q n en syn]"
    using filter_key_unique [of row_path ?fr "FolderRow i q n en syn"] by simp
  have "row_path r = q \<Longrightarrow> r \<in> set ?fr \<Longrightarrow> row_id r = ''folder:'' @ q" for r
  proof -
    assume "row_path r = q" and "r \<in> set ?fr"
    then have "r \<in> set (filter (\<lambda>r. row_path r = q) ?fr)"
      by simp
    then show "row_id r = ''folder:'' @ q"
      unfolding uniq using q(2) by simp
  qed
  then have "filter (\<lambda>r. row_path r = q \<and> row_id r = ''folder:'' @ q) ?fr
      = filter (\<lambda>r. row_path r = q) ?fr"
    by (intro filter_cong) auto
  then have "filter (\<lambda>r. row_path r = q \<and> row_id r = ''folder:'' @ q) ?rows = [FolderRow i q n en syn]"
    using uniq by (auto simp: buildCurrentFolderRows_eq Let_def entry_rows_of filter_empty_conv
        parentHierarchicalRowId_def entryHierarchicalRowId_def)
  with p q ms \<open>p \<noteq> []\<close> show ?thesis
    unfolding rows by (auto simp: folder_row_at_def getArchiveEntryName_eq Let_def)
qed

theorem folder_row_data_witness:
  "filter (\<lambda>r. row_path r = ''a'' \<and> row_id r = ''folder:a'')
     (buildHierarchicalRows
       \<lparr> ho_entries = [bare_entry ''a/x'' KFile, bare_entry ''a'' KDirectory], ho_getPath = ae_path,
         ho_isFolderEntry = (\<lambda>e. ae_kind e = KDirectory), ho_currentFolder = None, ho_mode = None,
         ho_searchQuery = None, ho_showParentRow = None, ho_parentRowName = None,
         ho_matchesSearch = None \<rparr>)
   = [FolderRow ''folder:a'' ''a'' ''a'' (Some (bare_entry ''a'' KDirectory)) False]"
    (is "filter _ (buildHierarchicalRows ?o) = [?r]")
proof -
  have "nullish (ho_mode ?o) HFolder = HFolder" and "?r \<in> set (buildHierarchicalRows ?o)"
    by code_simp+
  from folder_row_data [OF this] show ?thesis
    by (simp add: Let_def)
qed

text \<open>A click selects: without modifiers exactly the clicked row; with Ctrl or Cmd it toggles that
  row and nothing else; with Shift it takes the run of visible rows between the anchor and the clicked
  row, added to the selection only under Ctrl or Cmd.  The clicked row is focused, and the selection
  stays free of duplicates.\<close>

theorem click_selects:
  assumes "distinct (in_currentSelection intent)" and "in_path intent \<in> set (in_visiblePaths intent)"
  shows "let r = applyRowSelectionIntent intent; modified = in_ctrlKey intent \<or> in_metaKey intent;
       old = set (in_currentSelection intent); p = in_path intent; vs = in_visiblePaths intent
     in distinct (sel_paths r) \<and> sel_focused r = p
      \<and> (if in_shiftKey intent
          then \<exists>us range ws. vs = us @ range @ ws \<and> range \<noteq> [] \<and> {hd range, last range} = {sel_anchor r, p}
              \<and> set (sel_paths r) = (if modified then old \<union> set range else set range)
              \<and> (in_anchorPath intent = Some (sel_anchor r) \<or> sel_anchor r = p)
          else if modified then set (sel_paths r) = (old - {p}) \<union> ({p} - old) \<and> sel_anchor r = p
          else sel_paths r = [p] \<and> sel_anchor r = p)"
proof (cases "in_shiftKey intent")
  case True
  then show ?thesis
    using shift_click [OF assms(2) True] shift_click_distinct [OF assms(1) True]
    by (simp add: applyRowSelectionIntent_def Let_def del: ex_simps)
next
  case False
  then show ?thesis
    using assms(1)
    by (auto simp: applyRowSelectionIntent_def applyHierarchicalRowSelectionIntent_def Let_def
        replaceHierarchicalTableSelection_def js_set_def set_add_all_def set_add_def)
qed

theorem click_selects_witness:
  "sel_anchor (applyRowSelectionIntent
     \<lparr> in_path = ''c'', in_visiblePaths = [''a'', ''b'', ''c'', ''d''], in_currentSelection = [''d''],
       in_anchorPath = Some ''b'', in_ctrlKey = True, in_metaKey = False, in_shiftKey = True \<rparr>)
     \<in> {''b'', ''c''}"
  using click_selects [of "\<lparr> in_path = ''c'', in_visiblePaths = [''a'', ''b'', ''c'', ''d''],
      in_currentSelection = [''d''], in_anchorPath = Some ''b'', in_ctrlKey = True, in_metaKey = False,
      in_shiftKey = True \<rparr>"]
  by (auto simp: Let_def)

text \<open>After the visible rows change, clean-up leaves a selection, focus and anchor that the table can
  show: unless hidden rows are kept on purpose every selected path is visible, and focus and anchor are
  visible or empty; selected visible paths are never lost.\<close>

theorem cleanup_leaves_visible:
  "let r = cleanupHierarchicalTableSelection st visible keepHidden
   in (sel_focused r = [] \<or> sel_focused r \<in> set visible)
    \<and> (sel_anchor r = [] \<or> sel_anchor r \<in> set visible)
    \<and> set (sel_paths r) = (if keepHidden then set (st_paths st) else set (st_paths st) \<inter> set visible)
    \<and> (sel_anchor r = [] \<or> sel_anchor r \<in> set (sel_paths r) \<or> st_anchor st = Some (sel_anchor r)
        \<or> sel_anchor r = sel_focused r)"
proof -
  define vis where "vis = js_set visible"
  define foc where "foc = (if truthy (st_focused st) \<and> set_has vis (the (st_focused st))
    then the (st_focused st) else [])"
  define sel where "sel = (if keepHidden then st_paths st else js_set (filter (set_has vis) (st_paths st)))"
  have r: "cleanupHierarchicalTableSelection st visible keepHidden =
    \<lparr> sel_paths = sel, sel_focused = foc,
      sel_anchor = (if truthy (st_anchor st) \<and> set_has vis (the (st_anchor st)) then the (st_anchor st)
        else str_or foc (first_such (set_has vis) sel)) \<rparr>"
    by (simp add: cleanupHierarchicalTableSelection_def Let_def vis_def foc_def sel_def)
  have vis: "set_has vis x \<longleftrightarrow> x \<in> set visible" for x
    by (simp add: vis_def set_has_def)
  have foc: "foc = [] \<or> foc \<in> set visible"
    by (simp add: foc_def vis)
  have sel: "set sel = (if keepHidden then set (st_paths st) else set (st_paths st) \<inter> set visible)"
    by (auto simp: sel_def vis)
  have first: "first_such (set_has vis) sel = [] \<or>
      first_such (set_has vis) sel \<in> set sel \<and> first_such (set_has vis) sel \<in> set visible"
    using first_such_in [of "set_has vis" sel] vis by blast
  show ?thesis
    unfolding r Let_def using foc sel first
    by (cases foc) (auto simp: vis truthy_def split: option.splits)
qed

text \<open>Inverting the visible selection exchanges, among the visible rows, the selected and the
  unselected ones and keeps the hidden selection; inverting twice restores the selection.\<close>

theorem invert_selection:
  assumes "distinct visible"
  shows "set (invertVisibleSelection sel visible) \<inter> set visible = set visible - set sel
    \<and> set (invertVisibleSelection sel visible) - set visible = set sel - set visible
    \<and> set (invertVisibleSelection (invertVisibleSelection sel visible) visible) = set sel"
  using assms
  by (auto simp: invertVisibleSelection_def invertVisibleHierarchicalSelection_def fold_toggle_set)

theorem invert_selection_witness:
  "set (invertVisibleSelection (invertVisibleSelection [''x'', ''a''] [''a'', ''b'']) [''a'', ''b''])
     = {''x'', ''a''}"
  using invert_selection [of "[''a'', ''b'']" "[''x'', ''a'']"] by simp

end
