(* ===== verification/ArchiveTable.thy ===== *)
theory ArchiveTable
  imports Formatting HierarchicalTable ColumnCatalogue
begin

text \<open>
  The archive browser's table, \<^verbatim>\<open>src/src/app/archiveTable.ts\<close>: which rows are shown, how a cell is
  printed, and how rows are compared and sorted.  The collator, the locale's formatters and
  \<open>Date.parse\<close> are parameters; \<open>t\<close> is the optional translator.
\<close>

section \<open>Rows\<close>

definition buildArchiveBrowserRows ::
    "archive_entry list \<Rightarrow> string option \<Rightarrow> string option \<Rightarrow> bool \<Rightarrow> bool \<Rightarrow> archive_entry hier_row list" where
  "buildArchiveBrowserRows entries currentFolder searchQuery flatView showParentFolderItem =
     (let query = (case searchQuery of None \<Rightarrow> [] | Some q \<Rightarrow> js_lower (js_trim q))
      in buildHierarchicalRows
           \<lparr> ho_entries = entries, ho_getPath = ae_path,
             ho_isFolderEntry = (\<lambda>entry. ae_kind entry = KDirectory),
             ho_currentFolder = currentFolder,
             ho_mode = Some (if query \<noteq> [] then HSearch else if flatView then HFlat else HFolder),
             ho_searchQuery = searchQuery, ho_showParentRow = Some showParentFolderItem,
             ho_parentRowName = None,
             ho_matchesSearch = Some (\<lambda>_ path normalizedQuery. sublist normalizedQuery (js_lower path)) \<rparr>)"

section \<open>Cells\<close>

datatype archive_column =
    AcName | AcKind | AcSize | AcModified | AcCreated | AcAccessed | AcAttributes | AcMode | AcLinkTarget
  | AcUid | AcGid | AcOwner | AcGroup | AcCompressedSize | AcEncrypted | AcMethod | AcCrc | AcComment
  | AcRatio | AcSolid | AcMetadataDiagnostics

fun nat_digits :: "nat \<Rightarrow> nat \<Rightarrow> string" where
  "nat_digits b n =
     (if b < 2 \<or> n < b then [char_of (48 + n)]
      else nat_digits b (n div b) @ [char_of (48 + n mod b)])"

declare nat_digits.simps [simp del]

text \<open>\<open>String(n)\<close> and \<open>n.toString(8)\<close> of a natural number.\<close>

definition nat_string :: "nat \<Rightarrow> string" where
  "nat_string n = nat_digits 10 n"

definition octal_string :: "nat \<Rightarrow> string" where
  "octal_string n = nat_digits 8 n"

text \<open>\<open>toUpperCase\<close> on hexadecimal checksums: letters only.\<close>

definition js_upper_ascii :: "string \<Rightarrow> string" where
  "js_upper_ascii s = map (\<lambda>c. let n = of_char c :: nat in if 97 \<le> n \<and> n \<le> 122 then char_of (n - 32) else c) s"

record formatters =
  fm_number :: "rat \<Rightarrow> nat \<Rightarrow> string"
  fm_dateParse :: "string \<Rightarrow> int option"
  fm_date :: "int \<Rightarrow> string"
  fm_t :: "(string \<Rightarrow> string option) option"

definition translate :: "formatters \<Rightarrow> string \<Rightarrow> string \<Rightarrow> string" where
  "translate fm key english =
     nullish (Option.bind (fm_t fm) (\<lambda>t. t key)) english"

fun formatKind :: "formatters \<Rightarrow> archive_entry_kind \<Rightarrow> string" where
  "formatKind fm KDirectory = translate fm ''entryKind.directory'' ''Folder''"
| "formatKind fm KHardlink = translate fm ''entryKind.hardlink'' ''Hard link''"
| "formatKind fm KSymlink = translate fm ''entryKind.symlink'' ''Symbolic link''"
| "formatKind fm KSpecial = translate fm ''entryKind.special'' ''Special''"
| "formatKind fm KFile = translate fm ''entryKind.file'' ''File''"

definition yes_mark :: "bool option \<Rightarrow> string" where
  "yes_mark b = (if b = Some True then ''+'' else [])"

definition id_or_empty :: "nat option \<Rightarrow> string" where
  "id_or_empty n = (case n of None \<Rightarrow> [] | Some k \<Rightarrow> nat_string k)"

fun formatArchiveTableValue :: "formatters \<Rightarrow> archive_entry option \<Rightarrow> archive_column \<Rightarrow> string" where
  "formatArchiveTableValue fm None _ = []"
| "formatArchiveTableValue fm (Some e) AcName = getPathBasename (Some (ae_path e)) (ae_path e)"
| "formatArchiveTableValue fm (Some e) AcSize = formatBytes (fm_number fm) (ae_size e) (Some []) None"
| "formatArchiveTableValue fm (Some e) AcCompressedSize =
     formatBytes (fm_number fm) (ae_compressedSize e) (Some []) None"
| "formatArchiveTableValue fm (Some e) AcModified =
     formatDate (fm_dateParse fm) (fm_date fm) (ae_modified e) (Some [])"
| "formatArchiveTableValue fm (Some e) AcMode = formatUnixMode (ae_mode e) (Some (kind_string (ae_kind e)))"
| "formatArchiveTableValue fm (Some e) AcCreated =
     formatDate (fm_dateParse fm) (fm_date fm) (ae_created e) (Some [])"
| "formatArchiveTableValue fm (Some e) AcAccessed =
     formatDate (fm_dateParse fm) (fm_date fm) (ae_accessed e) (Some [])"
| "formatArchiveTableValue fm (Some e) AcAttributes = nullish (ae_attributes e) []"
| "formatArchiveTableValue fm (Some e) AcEncrypted = yes_mark (ae_encrypted e)"
| "formatArchiveTableValue fm (Some e) AcMethod = nullish (ae_method e) []"
| "formatArchiveTableValue fm (Some e) AcCrc = nullish (map_option js_upper_ascii (ae_crc e)) []"
| "formatArchiveTableValue fm (Some e) AcComment = nullish (ae_comment e) []"
| "formatArchiveTableValue fm (Some e) AcKind = formatKind fm (ae_kind e)"
| "formatArchiveTableValue fm (Some e) AcRatio =
     formatCompressionRatio (fm_number fm) (ae_size e) (ae_compressedSize e) (Some []) (Some 0)"
| "formatArchiveTableValue fm (Some e) AcSolid = yes_mark (ae_solid e)"
| "formatArchiveTableValue fm (Some e) AcLinkTarget = nullish (ae_linkTarget e) []"
| "formatArchiveTableValue fm (Some e) AcMetadataDiagnostics =
     (case ae_metadataDiagnostics e of
        None \<Rightarrow> [] | Some ds \<Rightarrow> if ds \<noteq> [] then nat_string (length ds) else [])"
| "formatArchiveTableValue fm (Some e) AcUid = id_or_empty (ae_uid e)"
| "formatArchiveTableValue fm (Some e) AcGid = id_or_empty (ae_gid e)"
| "formatArchiveTableValue fm (Some e) AcOwner = nullish (ae_owner e) (id_or_empty (ae_uid e))"
| "formatArchiveTableValue fm (Some e) AcGroup = nullish (ae_group e) (id_or_empty (ae_gid e))"

section \<open>Comparing and sorting\<close>

fun finite_value :: "jsnum option \<Rightarrow> rat option" where
  "finite_value (Some (Fin v)) = Some v"
| "finite_value _ = None"

definition compare_optional :: "rat option \<Rightarrow> rat option \<Rightarrow> int" where
  "compare_optional left right =
     (case (left, right) of
        (None, None) \<Rightarrow> 0
      | (None, Some _) \<Rightarrow> 1
      | (Some _, None) \<Rightarrow> -1
      | (Some l, Some r) \<Rightarrow> if l = r then 0 else if l < r then -1 else 1)"

definition compareOptionalNumbers :: "jsnum option \<Rightarrow> jsnum option \<Rightarrow> int" where
  "compareOptionalNumbers left right = compare_optional (finite_value left) (finite_value right)"

definition compareOptionalDates ::
    "(string \<Rightarrow> int option) \<Rightarrow> string option \<Rightarrow> string option \<Rightarrow> int" where
  "compareOptionalDates dateParse left right =
     compare_optional (parseEpochTimestamp dateParse left) (parseEpochTimestamp dateParse right)"

definition compressionRatio :: "jsnum option \<Rightarrow> jsnum option \<Rightarrow> rat option" where
  "compressionRatio bytes compressedSize =
     (case (bytes, compressedSize) of
        (Some (Fin s), Some (Fin c)) \<Rightarrow> if s < 0 \<or> c < 0 \<or> s = 0 then None else Some (c / s)
      | _ \<Rightarrow> None)"

fun tri_text :: "bool option \<Rightarrow> string" where
  "tri_text (Some True) = ''yes''"
| "tri_text (Some False) = ''no''"
| "tri_text None = []"

fun archiveSortTextValue :: "formatters \<Rightarrow> archive_entry \<Rightarrow> archive_column \<Rightarrow> string" where
  "archiveSortTextValue fm e AcKind = kind_string (ae_kind e)"
| "archiveSortTextValue fm e AcMode = nullish (map_option octal_string (ae_mode e)) []"
| "archiveSortTextValue fm e AcEncrypted = tri_text (ae_encrypted e)"
| "archiveSortTextValue fm e AcSolid = tri_text (ae_solid e)"
| "archiveSortTextValue fm e AcCrc = nullish (ae_crc e) []"
| "archiveSortTextValue fm e AcMethod = nullish (ae_method e) []"
| "archiveSortTextValue fm e AcComment = nullish (ae_comment e) []"
| "archiveSortTextValue fm e AcLinkTarget = nullish (ae_linkTarget e) []"
| "archiveSortTextValue fm e AcAttributes = nullish (ae_attributes e) []"
| "archiveSortTextValue fm e AcOwner = nullish (ae_owner e) []"
| "archiveSortTextValue fm e AcGroup = nullish (ae_group e) []"
| "archiveSortTextValue fm e AcMetadataDiagnostics =
     (case ae_metadataDiagnostics e of None \<Rightarrow> [] | Some ds \<Rightarrow> concat (case ds of
        [] \<Rightarrow> [] | d # rest \<Rightarrow> d # map (\<lambda>x. '', '' @ x) rest))"
| "archiveSortTextValue fm e c = formatArchiveTableValue fm (Some e) c"

abbreviation nat_number :: "nat option \<Rightarrow> jsnum option" where
  "nat_number n \<equiv> map_option (\<lambda>k. Fin (of_nat k)) n"

text \<open>The comparison of two entries by a column other than the name, before ties and direction.\<close>

definition compare_entries_by ::
    "(string \<Rightarrow> string \<Rightarrow> int) \<Rightarrow> formatters \<Rightarrow> archive_column \<Rightarrow> archive_entry \<Rightarrow> archive_entry \<Rightarrow> int" where
  "compare_entries_by collate fm sortKey l r =
     (case sortKey of
        AcSize \<Rightarrow> compareOptionalNumbers (ae_size l) (ae_size r)
      | AcCompressedSize \<Rightarrow> compareOptionalNumbers (ae_compressedSize l) (ae_compressedSize r)
      | AcUid \<Rightarrow> compareOptionalNumbers (nat_number (ae_uid l)) (nat_number (ae_uid r))
      | AcGid \<Rightarrow> compareOptionalNumbers (nat_number (ae_gid l)) (nat_number (ae_gid r))
      | AcModified \<Rightarrow> compareOptionalDates (fm_dateParse fm) (ae_modified l) (ae_modified r)
      | AcCreated \<Rightarrow> compareOptionalDates (fm_dateParse fm) (ae_created l) (ae_created r)
      | AcAccessed \<Rightarrow> compareOptionalDates (fm_dateParse fm) (ae_accessed l) (ae_accessed r)
      | AcRatio \<Rightarrow>
          compareOptionalNumbers
            (map_option Fin (compressionRatio (ae_size l) (ae_compressedSize l)))
            (map_option Fin (compressionRatio (ae_size r) (ae_compressedSize r)))
      | _ \<Rightarrow> collate (archiveSortTextValue fm l sortKey) (archiveSortTextValue fm r sortKey))"

fun is_parent_row :: "'e hier_row \<Rightarrow> bool" where
  "is_parent_row (ParentRow _ _ _ _) = True"
| "is_parent_row _ = False"

fun is_folder_row :: "'e hier_row \<Rightarrow> bool" where
  "is_folder_row (FolderRow _ _ _ _ _) = True"
| "is_folder_row _ = False"

definition compareArchiveRows ::
    "(string \<Rightarrow> string \<Rightarrow> int) \<Rightarrow> formatters \<Rightarrow> archive_entry hier_row \<Rightarrow> archive_entry hier_row
      \<Rightarrow> archive_column \<Rightarrow> bool \<Rightarrow> int" where
  "compareArchiveRows collate fm left right sortKey ascending =
     (let direction = (if ascending then 1 else -1)
      in if is_parent_row left \<or> is_parent_row right
         then (if is_parent_row left \<and> is_parent_row right then 0
               else if is_parent_row left then -1 else 1)
         else if is_folder_row left \<noteq> is_folder_row right \<and> sortKey = AcName
         then (if is_folder_row left then -1 else 1)
         else if sortKey = AcName
         then direction * collate (row_name left) (row_name right)
         else if is_folder_row left \<or> is_folder_row right
         then (if is_folder_row left \<and> is_folder_row right
               then direction * collate (row_name left) (row_name right)
               else if is_folder_row left then -1 else 1)
         else (let result = compare_entries_by collate fm sortKey (entry_entry left) (entry_entry right)
               in direction * (if result \<noteq> 0 then result else collate (row_path left) (row_path right))))"

definition sortArchiveRows ::
    "(string \<Rightarrow> string \<Rightarrow> int) \<Rightarrow> formatters \<Rightarrow> archive_entry hier_row list \<Rightarrow> archive_column \<Rightarrow> bool
      \<Rightarrow> archive_entry hier_row list" where
  "sortArchiveRows collate fm rows sortKey ascending =
     js_sort (\<lambda>left right. compareArchiveRows collate fm left right sortKey ascending) rows"

section \<open>The comparison is consistent\<close>

lemma compare_optional_comparator: "comparator compare_optional"
  by unfold_locales (auto simp: compare_optional_def split: option.splits if_splits)

lemma compareOptionalNumbers_comparator: "comparator compareOptionalNumbers"
  unfolding compareOptionalNumbers_def [abs_def]
  by (rule comparator_key [OF compare_optional_comparator])

lemma compareOptionalDates_comparator: "comparator (compareOptionalDates dateParse)"
  unfolding compareOptionalDates_def [abs_def]
  by (rule comparator_key [OF compare_optional_comparator])

lemma compare_entries_comparator:
  assumes "comparator collate"
  shows "comparator (compare_entries_by collate fm sortKey)"
proof -
  have num: "comparator (\<lambda>l r. compareOptionalNumbers (k l) (k r))" for k :: "archive_entry \<Rightarrow> jsnum option"
    by (rule comparator_key [OF compareOptionalNumbers_comparator])
  have dat: "comparator (\<lambda>l r. compareOptionalDates (fm_dateParse fm) (k l) (k r))"
    for k :: "archive_entry \<Rightarrow> string option"
    by (rule comparator_key [OF compareOptionalDates_comparator])
  have text_cmp: "comparator (\<lambda>l r. collate (k l) (k r))" for k :: "archive_entry \<Rightarrow> string"
    by (rule comparator_key [OF assms])
  show ?thesis
    unfolding compare_entries_by_def [abs_def]
    by (cases sortKey; simp only: archive_column.case) (rule num dat text_cmp)+
qed

text \<open>The ratio that is sorted by and the one that is printed agree but for empty entries.\<close>

lemma ratio_sort_and_display:
  "compressionRatio u c =
     (if u = Some (Fin 0) then None else calculateCompressionRatio u c)"
  by (auto simp: compressionRatio_def calculateCompressionRatio_def split: option.splits jsnum.splits)

lemma ratio_of_empty_entry:
  "compressionRatio (Some (Fin 0)) (Some (Fin 0)) = None
   \<and> calculateCompressionRatio (Some (Fin 0)) (Some (Fin 0)) = Some 0"
  by (simp add: compressionRatio_def calculateCompressionRatio_def)

definition row_rank :: "'e hier_row \<Rightarrow> nat" where
  "row_rank r = (case r of ParentRow _ _ _ _ \<Rightarrow> 0 | FolderRow _ _ _ _ _ \<Rightarrow> 1 | EntryRow _ _ _ _ \<Rightarrow> 2)"

definition compare_same_rank ::
    "(string \<Rightarrow> string \<Rightarrow> int) \<Rightarrow> formatters \<Rightarrow> archive_column \<Rightarrow> bool \<Rightarrow> nat
      \<Rightarrow> archive_entry hier_row \<Rightarrow> archive_entry hier_row \<Rightarrow> int" where
  "compare_same_rank collate fm sortKey ascending n l r =
     (if n = 0 then 0
      else if n = 1 \<or> sortKey = AcName
      then (if ascending then 1 else -1) * collate (row_name l) (row_name r)
      else (if ascending then 1 else -1) *
           (if compare_entries_by collate fm sortKey (entry_entry l) (entry_entry r) \<noteq> 0
            then compare_entries_by collate fm sortKey (entry_entry l) (entry_entry r)
            else collate (row_path l) (row_path r)))"

lemma compareArchiveRows_rank:
  "compareArchiveRows collate fm l r sortKey ascending =
     (if row_rank l \<noteq> row_rank r then (if row_rank l < row_rank r then -1 else 1)
      else compare_same_rank collate fm sortKey ascending (row_rank l) l r)"
  by (cases l; cases r)
    (auto simp: compareArchiveRows_def row_rank_def compare_same_rank_def Let_def)

lemma compareArchiveRows_comparator:
  assumes "comparator collate"
  shows "comparator (\<lambda>l r. compareArchiveRows collate fm l r sortKey ascending)"
  unfolding compareArchiveRows_rank
proof (rule comparator_rank)
  fix n
  have dir: "comparator (\<lambda>l r. (if ascending then 1 else -1) * f l r)" if "comparator f"
    for f :: "archive_entry hier_row \<Rightarrow> archive_entry hier_row \<Rightarrow> int"
    using that comparator_flip [OF that] by (cases ascending) simp_all
  have name: "comparator (\<lambda>l r. collate (row_name l) (row_name r))"
    for k :: "archive_entry hier_row \<Rightarrow> string"
    by (rule comparator_key [OF assms])
  have entry: "comparator (\<lambda>l r. if compare_entries_by collate fm sortKey (entry_entry l) (entry_entry r) \<noteq> 0
            then compare_entries_by collate fm sortKey (entry_entry l) (entry_entry r)
            else collate (row_path l) (row_path (r :: archive_entry hier_row)))"
    by (rule comparator_lex [OF comparator_key [OF compare_entries_comparator [OF assms]]
          comparator_key [OF assms]])
  show "comparator (compare_same_rank collate fm sortKey ascending n)"
    unfolding compare_same_rank_def [abs_def]
    using comparator_zero dir [OF name] dir [OF entry] by (cases "n = 0"; cases "n = 1 \<or> sortKey = AcName") simp_all
qed

section \<open>Properties\<close>

text \<open>C27: For any consistent collation, sorting the table by any column in either direction permutes the
  rows, puts the parent row first, then the folders, then the entries, orders them by the comparison,
  and leaves rows that compare equal in their previous order.\<close>

theorem sort_rows:
  assumes "comparator collate"
  shows "let out = sortArchiveRows collate fm rows key asc
     in mset out = mset rows
      \<and> sorted_wrt (\<lambda>l r. compareArchiveRows collate fm l r key asc \<le> 0) out
      \<and> sorted_wrt (\<lambda>l r. row_rank l \<le> row_rank r) out
      \<and> filter (\<lambda>r. compareArchiveRows collate fm r x key asc = 0) out
          = filter (\<lambda>r. compareArchiveRows collate fm r x key asc = 0) rows"
proof -
  note c = compareArchiveRows_comparator [OF assms, of fm key asc]
  have "sorted_wrt (\<lambda>l r. compareArchiveRows collate fm l r key asc \<le> 0)
      (sortArchiveRows collate fm rows key asc)"
    unfolding sortArchiveRows_def by (rule comparator.sorted_js_sort [OF c])
  moreover have "compareArchiveRows collate fm l r key asc \<le> 0 \<Longrightarrow> row_rank l \<le> row_rank r" for l r
    by (auto simp: compareArchiveRows_rank split: if_splits)
  with calculation have "sorted_wrt (\<lambda>l r. row_rank l \<le> row_rank r) (sortArchiveRows collate fm rows key asc)"
    using sorted_wrt_mono_rel by (metis (mono_tags, lifting))
  moreover have "filter (\<lambda>r. compareArchiveRows collate fm r x key asc = 0) (sortArchiveRows collate fm rows key asc)
      = filter (\<lambda>r. compareArchiveRows collate fm r x key asc = 0) rows"
    unfolding sortArchiveRows_def by (rule comparator.js_sort_stable [OF c])
  ultimately show ?thesis
    by (simp add: Let_def) (simp add: sortArchiveRows_def)
qed

theorem sort_rows_witness:
  "sorted_wrt (\<lambda>l r. row_rank l \<le> row_rank r)
     (sortArchiveRows code_unit_compare
        \<lparr> fm_number = (\<lambda>_ _. []), fm_dateParse = (\<lambda>_. None), fm_date = (\<lambda>_. []), fm_t = None \<rparr>
        [EntryRow ''entry:b'' ''b'' ''b'' (bare_entry ''b'' KFile),
         FolderRow ''folder:z'' ''z'' ''z'' None True, ParentRow ''parent:p'' [] ''..'' ''p''] AcSize False)"
  using sort_rows [OF code_units.comparator_axioms, of _
      "[EntryRow ''entry:b'' ''b'' ''b'' (bare_entry ''b'' KFile),
        FolderRow ''folder:z'' ''z'' ''z'' None True, ParentRow ''parent:p'' [] ''..'' ''p'']" AcSize False]
  by (simp only: Let_def)

text \<open>Reversing the direction reverses the comparison of any two entry rows, so ascending and
  descending order differ only by the direction inside each kind of row.\<close>

theorem sort_direction:
  "compareArchiveRows collate fm (EntryRow i p n e) (EntryRow i' p' n' e') key False
     = - compareArchiveRows collate fm (EntryRow i p n e) (EntryRow i' p' n' e') key True
   \<and> compareArchiveRows collate fm (FolderRow i p n f s) (FolderRow i' p' n' f' s') key False
     = - compareArchiveRows collate fm (FolderRow i p n f s) (FolderRow i' p' n' f' s') key True"
  by (simp add: compareArchiveRows_def Let_def)

text \<open>The table and the folder listing of the tree module agree: outside search and flat view, the
  selectable rows of the browser show exactly the paths that \<open>getVisibleArchiveEntries\<close> lists.\<close>

theorem browser_rows_match_listing:
  "set (selectableHierarchicalRowPaths (buildArchiveBrowserRows es f None False showParent))
     = set (map ve_path (getVisibleArchiveEntries collate es f (Some FolderMode) None))"
proof -
  have "set (selectableHierarchicalRowPaths (buildArchiveBrowserRows es f None False showParent))
      = js_join (CHR 0x2F) ` {p. child_folder f es p}"
    by (simp add: buildArchiveBrowserRows_def buildHierarchicalRows_def set_selectable_folder_rows
        child_folder_def [abs_def])
  also have "\<dots> = set (map ve_path (getVisibleArchiveEntries collate es f (Some FolderMode) None))"
    by (auto simp: set_folder_listing ve_path_visible_value child_folder_good image_image)
  finally show ?thesis .
qed

lemma direct_rows:
  "buildDirectRows es options =
     map (\<lambda>e. directRowForEntry e (normalizeArchivePath (Some (ho_getPath options e))) (ho_isFolderEntry options e))
       (filter (\<lambda>e. normalizeArchivePath (Some (ho_getPath options e)) \<noteq> []) es)"
  by (induction es) (auto simp: buildDirectRows_def Let_def simp del: normalize_eq_Nil)

lemma row_path_direct [simp]: "row_path (directRowForEntry e p b) = p"
  by (simp add: directRowForEntry_def Let_def)

lemma search_rows_eq:
  assumes "js_lower (js_trim q) \<noteq> []"
  shows "buildArchiveBrowserRows es f (Some q) flat showParent =
    map (\<lambda>e. directRowForEntry e (normalizeArchivePath (Some (ae_path e))) (ae_kind e = KDirectory))
      (filter (\<lambda>e. normalizeArchivePath (Some (ae_path e)) \<noteq> []
          \<and> sublist (js_lower (js_trim q)) (js_lower (normalizeArchivePath (Some (ae_path e))))) es)"
  unfolding buildArchiveBrowserRows_def buildHierarchicalRows_def Let_def hierNormalizeSearchQuery_def
    defaultMatchesSearch_def direct_rows hier_options.simps option.case if_P [OF assms] if_not_P [OF assms]
    nullish_simps hier_mode.case filter_filter
  by (rule arg_cong [of _ _ "map _"], rule filter_cong) auto

text \<open>While a search is active the rows are, in archive order, one row per entry whose normalised path
  contains the trimmed query, whatever the case of either; the current folder plays no part.\<close>

theorem search_rows:
  assumes "js_lower (js_trim q) \<noteq> []"
  shows "map row_path (buildArchiveBrowserRows es f (Some q) flat showParent)
    = filter (\<lambda>p. p \<noteq> [] \<and> sublist (js_lower (js_trim q)) (js_lower p))
        (map (\<lambda>e. normalizeArchivePath (Some (ae_path e))) es)
    \<and> buildArchiveBrowserRows es f (Some q) flat showParent
      = buildArchiveBrowserRows es None (Some q) False False"
  unfolding search_rows_eq [OF assms] by (simp add: filter_map o_def del: normalize_eq_Nil)

theorem search_rows_witness:
  "map row_path (buildArchiveBrowserRows [bare_entry ''Docs/Read.me'' KFile, bare_entry ''src'' KDirectory]
      (Some ''src'') (Some '' READ '') False True) = [''Docs/Read.me'']"
proof -
  have "js_lower (js_trim '' READ '') \<noteq> []"
    by code_simp
  from search_rows [OF this, of "[bare_entry ''Docs/Read.me'' KFile, bare_entry ''src'' KDirectory]"
      "Some ''src''" False True]
  have "map row_path (buildArchiveBrowserRows [bare_entry ''Docs/Read.me'' KFile, bare_entry ''src'' KDirectory]
      (Some ''src'') (Some '' READ '') False True)
    = filter (\<lambda>p. p \<noteq> [] \<and> sublist (js_lower (js_trim '' READ '')) (js_lower p))
        (map (\<lambda>e. normalizeArchivePath (Some (ae_path e)))
          [bare_entry ''Docs/Read.me'' KFile, bare_entry ''src'' KDirectory])"
    by (rule conjunct1)
  also have "\<dots> = [''Docs/Read.me'']"
    by code_simp
  finally show ?thesis .
qed

end
