(* ===== verification/ExtractionPolicy.thy ===== *)
theory ExtractionPolicy
  imports ArchiveTree
begin

text \<open>
  The rules for starting an extraction: \<^verbatim>\<open>src/src/app/extractionPolicy.ts\<close> (which path components are
  stripped, when an archive has one root folder), \<^verbatim>\<open>collisionPolicy.ts\<close> and \<^verbatim>\<open>extractFlow.ts\<close> (the
  request sent to the backend).  \<open>Number(text)\<close> and the native path join are parameters.  Component
  counts are JavaScript numbers, because \<open>Number("Infinity")\<close> passes the code's checks.
\<close>

section \<open>Numbers\<close>

fun js_trunc :: "jsnum \<Rightarrow> jsnum" where
  "js_trunc (Fin v) = Fin (of_int (if v < 0 then - \<lfloor>- v\<rfloor> else \<lfloor>v\<rfloor>))"
| "js_trunc x = x"

fun js_max :: "jsnum \<Rightarrow> jsnum \<Rightarrow> jsnum" where
  "js_max NaN _ = NaN"
| "js_max _ NaN = NaN"
| "js_max PosInf _ = PosInf"
| "js_max _ PosInf = PosInf"
| "js_max NegInf y = y"
| "js_max x NegInf = x"
| "js_max (Fin a) (Fin b) = Fin (max a b)"

fun js_plus_one :: "jsnum \<Rightarrow> jsnum" where
  "js_plus_one (Fin v) = Fin (v + 1)"
| "js_plus_one x = x"

definition js_nat :: "nat \<Rightarrow> jsnum" where
  "js_nat n = Fin (of_nat n)"

datatype strip_input = StripNumber jsnum | StripText string

fun numberOrZero :: "(string \<Rightarrow> jsnum) \<Rightarrow> strip_input \<Rightarrow> jsnum" where
  "numberOrZero parseNumber (StripNumber v) = (if is_finite v then js_trunc v else Fin 0)"
| "numberOrZero parseNumber (StripText s) =
     (let normalized = js_trim s
      in if normalized = [] then Fin 0
         else (let parsed = parseNumber normalized
               in if parsed = NaN then Fin 0 else js_trunc parsed))"

definition archivePathDepth :: "string \<Rightarrow> nat" where
  "archivePathDepth entryPath =
     length (filter (\<lambda>s. s \<noteq> []) (js_split (CHR 0x2F) (normalizeArchivePath (Some entryPath))))"

section \<open>Collisions and overwriting\<close>

datatype overwrite_policy = OwRefuse | OwReplace | OwRename | OwAsk

datatype collision_strategy = CsRefuse | CsRename

datatype restore_policy = RpContent | RpPortable | RpSameOs | RpSystem

record collision_context =
  cx_isDisposableTask :: "bool option"
  cx_isQuickAction :: "bool option"
  cx_replaceExisting :: "bool option"
  cx_overwrite :: "overwrite_policy option"
  cx_strategy :: "collision_strategy option"

definition resolveDestinationCollisionStrategy :: "collision_context \<Rightarrow> collision_strategy option" where
  "resolveDestinationCollisionStrategy context =
     (if cx_strategy context \<noteq> None then cx_strategy context
      else if cx_replaceExisting context = Some True \<or> cx_overwrite context = Some OwReplace then None
      else if cx_replaceExisting context = Some False
              \<and> (nullish (cx_isDisposableTask context) False \<or> nullish (cx_isQuickAction context) False)
      then Some CsRename
      else None)"

section \<open>Extraction policies\<close>

datatype extraction_action = ExtractHere | ExtractToFolder
datatype policy_destination = ArchiveParent | ArchiveNamedFolder
datatype wrapper_root = StripSingleRoot | PreserveRoot

record extraction_policy =
  ep_destination :: policy_destination
  ep_wrapperRoot :: wrapper_root
  ep_strategy :: "collision_strategy option"

fun archiveExtractionPolicy :: "extraction_action \<Rightarrow> extraction_policy" where
  "archiveExtractionPolicy ExtractHere =
     \<lparr> ep_destination = ArchiveParent, ep_wrapperRoot = PreserveRoot, ep_strategy = None \<rparr>"
| "archiveExtractionPolicy ExtractToFolder =
     \<lparr> ep_destination = ArchiveNamedFolder, ep_wrapperRoot = PreserveRoot, ep_strategy = Some CsRename \<rparr>"

definition quickExtractPathPolicy :: "extraction_action \<Rightarrow> bool \<Rightarrow> nat \<times> collision_strategy option" where
  "quickExtractPathPolicy action hasSingleRootFolder =
     (let policy = archiveExtractionPolicy action
      in (if ep_wrapperRoot policy = StripSingleRoot \<and> hasSingleRootFolder then 1 else 0,
          ep_strategy policy))"

definition isSafeArchiveRootName :: "string \<Rightarrow> bool" where
  "isSafeArchiveRootName name \<longleftrightarrow>
     name \<noteq> [] \<and> name \<noteq> ''.'' \<and> name \<noteq> ''..'' \<and> CHR 0x2F \<notin> set name \<and> CHR 0x5C \<notin> set name"

text \<open>The loop over the entries (path and, when known, kind); \<open>None\<close> is the early \<open>return null\<close>, the
  accumulator is \<open>root\<close>, \<open>hasChildBelowRoot\<close> and \<open>hasRootDirectoryEntry\<close>.\<close>

fun single_root_loop ::
    "(string \<times> string option) list \<Rightarrow> string option \<Rightarrow> bool \<Rightarrow> bool
      \<Rightarrow> (string option \<times> bool \<times> bool) option" where
  "single_root_loop [] rootName below dir = Some (rootName, below, dir)"
| "single_root_loop ((p, kind) # entries) rootName below dir =
     (case filter (\<lambda>s. s \<noteq> []) (js_split (CHR 0x2F) (normalizeArchivePath (Some p))) of
        [] \<Rightarrow> single_root_loop entries rootName below dir
      | entryRoot # rest \<Rightarrow>
          if \<not> isSafeArchiveRootName entryRoot then None
          else if rootName \<noteq> None \<and> rootName \<noteq> Some entryRoot then None
          else (if rest \<noteq> [] then single_root_loop entries (Some entryRoot) True dir
                else single_root_loop entries (Some entryRoot) below
                       (dir \<or> kind = Some ''directory'')))"

definition singleArchiveRootFolder :: "(string \<times> string option) list \<Rightarrow> string option" where
  "singleArchiveRootFolder entries =
     (case single_root_loop entries None False False of
        None \<Rightarrow> None
      | Some (rootName, below, dir) \<Rightarrow> if truthy rootName \<and> (below \<or> dir) then rootName else None)"

definition hasSingleArchiveRootFolder :: "string list \<Rightarrow> bool" where
  "hasSingleArchiveRootFolder entryPaths =
     truthy (singleArchiveRootFolder (map (\<lambda>p. (p, None)) entryPaths))"

datatype extract_mode = ModeArchive | ModeSelection

record path_options =
  po_stripComponents :: jsnum
  po_deduplicateRoot :: bool

text \<open>The path mode of the result is always \<open>"full"\<close>.\<close>

definition extractHerePathOptions ::
    "(string \<Rightarrow> jsnum) \<Rightarrow> strip_input \<Rightarrow> extract_mode \<Rightarrow> string option \<Rightarrow> path_options" where
  "extractHerePathOptions parseNumber strip mode selectedFilePath =
     (if mode = ModeSelection \<and> truthy selectedFilePath
      then \<lparr> po_stripComponents =
               js_max (numberOrZero parseNumber strip)
                 (js_nat (archivePathDepth (the selectedFilePath) - 1)),
             po_deduplicateRoot = False \<rparr>
      else \<lparr> po_stripComponents = js_max (Fin 0) (numberOrZero parseNumber strip),
             po_deduplicateRoot = False \<rparr>)"

definition nativeDragStripComponents :: "string list \<Rightarrow> string \<Rightarrow> bool \<Rightarrow> string \<Rightarrow> nat" where
  "nativeDragStripComponents entryPaths currentFolder flatView searchQuery =
     (case entryPaths of
        [p] \<Rightarrow> archivePathDepth p - 1
      | _ \<Rightarrow>
          if flatView \<or> js_trim searchQuery \<noteq> [] \<or> currentFolder = [] then 0
          else archivePathDepth currentFolder)"

section \<open>The start request\<close>

record start_extract_request =
  sx_archivePath :: string
  sx_destinationPath :: string
  sx_overwrite :: overwrite_policy
  sx_strategy :: "collision_strategy option"
  sx_entryPaths :: "string list option"
  sx_selectAll :: "bool option"
  sx_excludedEntryPaths :: "string list option"
  sx_stripComponents :: jsnum
  sx_tzapRestorePolicy :: restore_policy
  sx_tzapAllowDegraded :: bool
  sx_tzapAllowAbsoluteSymlinks :: bool
  sx_ignoreSymlinks :: bool
  sx_recipientKeyId :: "string option"
  sx_password :: "string option"

record build_extract_input =
  bx_archivePath :: string
  bx_destinationPath :: string
  bx_overwrite :: overwrite_policy
  bx_strategy :: "collision_strategy option"
  bx_stripComponents :: jsnum
  bx_password :: "string option"
  bx_entryPaths :: "string list option"
  bx_selectAll :: "bool option"
  bx_excludedEntryPaths :: "string list option"
  bx_tzapRestorePolicy :: "restore_policy option"
  bx_tzapAllowAbsoluteSymlinks :: "bool option"
  bx_ignoreSymlinks :: "bool option"
  bx_recipientKeyId :: "string option"

text \<open>\<open>...(v ? {field: v} : {})\<close> on strings.\<close>

definition nonempty_opt :: "string option \<Rightarrow> string option" where
  "nonempty_opt v = (if truthy v then v else None)"

definition trimmed_opt :: "string option \<Rightarrow> string option" where
  "trimmed_opt v = nonempty_opt (map_option js_trim v)"

definition buildStartExtractRequest :: "build_extract_input \<Rightarrow> start_extract_request" where
  "buildStartExtractRequest input =
     \<lparr> sx_archivePath = bx_archivePath input, sx_destinationPath = bx_destinationPath input,
       sx_overwrite = bx_overwrite input, sx_strategy = bx_strategy input,
       sx_entryPaths = bx_entryPaths input,
       sx_selectAll = (if nullish (bx_selectAll input) False then Some True else None),
       sx_excludedEntryPaths =
         (if nullish (bx_excludedEntryPaths input) [] \<noteq> [] then bx_excludedEntryPaths input else None),
       sx_stripComponents = bx_stripComponents input,
       sx_tzapRestorePolicy = nullish (bx_tzapRestorePolicy input) RpPortable,
       sx_tzapAllowDegraded = True,
       sx_tzapAllowAbsoluteSymlinks = nullish (bx_tzapAllowAbsoluteSymlinks input) False,
       sx_ignoreSymlinks = nullish (bx_ignoreSymlinks input) False,
       sx_recipientKeyId = trimmed_opt (bx_recipientKeyId input),
       sx_password = nonempty_opt (bx_password input) \<rparr>"

datatype path_mode = PmFull | PmCurrent | PmNone

definition resolveExtractDestination ::
    "(string \<Rightarrow> string \<Rightarrow> string) \<Rightarrow> string \<Rightarrow> bool \<Rightarrow> string \<Rightarrow> string option" where
  "resolveExtractDestination joinNativePath destinationBasePath useSubfolder subfolder =
     (let baseDestination = js_trim destinationBasePath
      in if baseDestination = [] then None
         else if \<not> useSubfolder then Some baseDestination
         else (let sub = js_trim subfolder
               in Some (if sub \<noteq> [] then joinNativePath baseDestination sub else baseDestination)))"

definition resolveExtractStripComponents ::
    "(string \<Rightarrow> jsnum) \<Rightarrow> strip_input \<Rightarrow> path_mode \<Rightarrow> string \<Rightarrow> string list \<Rightarrow> string list \<Rightarrow> bool
      \<Rightarrow> jsnum" where
  "resolveExtractStripComponents parseNumber strip pathMode currentFolder allEntryPaths entryReferences
      deduplicateRoot =
     (let references = (if entryReferences \<noteq> [] then entryReferences else allEntryPaths);
          strip0 = js_max (Fin 0) (numberOrZero parseNumber strip);
          strip1 = (if pathMode = PmCurrent then js_max strip0 (js_nat (archivePathDepth currentFolder)) else strip0);
          strip2 = (if pathMode = PmNone
                    then js_max strip1 (js_nat (fold (\<lambda>p m. max m (archivePathDepth p)) references 0))
                    else strip1)
      in if deduplicateRoot \<and> hasSingleArchiveRootFolder references then js_plus_one strip2 else strip2)"

record extract_start_input =
  xi_destinationBasePath :: string
  xi_useSubfolder :: bool
  xi_subfolder :: string
  xi_pathMode :: path_mode
  xi_overwrite :: overwrite_policy
  xi_stripComponents :: strip_input
  xi_deduplicateRoot :: bool
  xi_tzapRestorePolicy :: "restore_policy option"
  xi_tzapAllowAbsoluteSymlinks :: "bool option"
  xi_ignoreSymlinks :: "bool option"
  xi_tzapRecipientKeyId :: "string option"
  xi_password :: "string option"

record resolved_extract_input =
  rx_destination :: "string option"
  rx_destinationValid :: bool
  rx_overwrite :: overwrite_policy
  rx_stripComponents :: jsnum
  rx_password :: "string option"
  rx_entryReferences :: "string list"
  rx_tzapRestorePolicy :: restore_policy
  rx_tzapAllowDegraded :: bool
  rx_tzapAllowAbsoluteSymlinks :: bool
  rx_ignoreSymlinks :: bool
  rx_tzapRecipientKeyId :: "string option"

definition resolveExtractStartInput ::
    "(string \<Rightarrow> jsnum) \<Rightarrow> (string \<Rightarrow> string \<Rightarrow> string) \<Rightarrow> extract_start_input \<Rightarrow> string \<Rightarrow> string list
      \<Rightarrow> string list \<Rightarrow> resolved_extract_input" where
  "resolveExtractStartInput parseNumber joinNativePath input currentFolder allEntryPaths entryReferences =
     (let destination = resolveExtractDestination joinNativePath (xi_destinationBasePath input)
            (xi_useSubfolder input) (xi_subfolder input)
      in \<lparr> rx_destination = destination, rx_destinationValid = (destination \<noteq> None),
           rx_overwrite = xi_overwrite input,
           rx_stripComponents =
             resolveExtractStripComponents parseNumber (xi_stripComponents input) (xi_pathMode input)
               currentFolder allEntryPaths entryReferences (xi_deduplicateRoot input),
           rx_password =
             (if trimmed_opt (xi_password input) \<noteq> None \<and> trimmed_opt (xi_tzapRecipientKeyId input) = None
              then trimmed_opt (xi_password input) else None),
           rx_entryReferences = entryReferences,
           rx_tzapRestorePolicy = nullish (xi_tzapRestorePolicy input) RpPortable,
           rx_tzapAllowDegraded = True,
           rx_tzapAllowAbsoluteSymlinks = nullish (xi_tzapAllowAbsoluteSymlinks input) False,
           rx_ignoreSymlinks = nullish (xi_ignoreSymlinks input) False,
           rx_tzapRecipientKeyId = trimmed_opt (xi_tzapRecipientKeyId input) \<rparr>)"

section \<open>Facts\<close>

lemma kept_ne [simp]: "good_segments ss \<Longrightarrow> filter (\<lambda>s. s \<noteq> []) ss = ss"
  by (induction ss) (auto simp: kept_segment_def)

lemma nonempty_pieces [simp]:
  "filter (\<lambda>s. s \<noteq> []) (js_split (CHR 0x2F) (normalizeArchivePath (Some p))) = path_segments p"
proof (cases "path_segments p = []")
  case True
  then have n: "normalizeArchivePath (Some p) = []"
    by (simp only: normalize_eq_Nil option_segments_simps)
  show ?thesis
    unfolding n by (simp add: True)
next
  case False
  then show ?thesis
    by (simp add: normalizeArchivePath_eq js_split_join_good)
qed

lemma archivePathDepth_eq [path_simps]: "archivePathDepth p = length (path_segments p)"
  by (simp add: archivePathDepth_def)

lemma safe_root_iff:
  "good_segments (r # ss) \<Longrightarrow> isSafeArchiveRootName r \<longleftrightarrow> r \<noteq> ''..''"
  by (auto simp: isSafeArchiveRootName_def kept_segment_def is_sep_def)

definition entry_roots :: "(string \<times> string option) list \<Rightarrow> string list" where
  "entry_roots es = map (\<lambda>e. hd (path_segments (fst e))) (filter (\<lambda>e. path_segments (fst e) \<noteq> []) es)"

lemma entry_roots_simps [simp]:
  "entry_roots [] = []"
  "entry_roots ((p, k) # es) =
     (if path_segments p = [] then entry_roots es else hd (path_segments p) # entry_roots es)"
  by (simp_all add: entry_roots_def)

definition below_root :: "string \<times> string option \<Rightarrow> bool" where
  "below_root e \<longleftrightarrow> 1 < length (path_segments (fst e))"

definition root_directory :: "string \<times> string option \<Rightarrow> bool" where
  "root_directory e \<longleftrightarrow> length (path_segments (fst e)) = 1 \<and> snd e = Some ''directory''"

lemma root_tests_at:
  "path_segments p = [] \<Longrightarrow> \<not> below_root (p, k) \<and> \<not> root_directory (p, k)"
  "path_segments p = r # rest \<Longrightarrow> below_root (p, k) \<longleftrightarrow> rest \<noteq> []"
  "path_segments p = r # rest \<Longrightarrow> root_directory (p, k) \<longleftrightarrow> rest = [] \<and> k = Some ''directory''"
  by (auto simp: below_root_def root_directory_def)

lemma single_root_loop_eq:
  "single_root_loop es rn b d =
     (if (\<forall>r \<in> set (entry_roots es). r \<noteq> ''..'' \<and> r = (if rn = None then hd (entry_roots es) else the rn))
      then Some (if rn = None \<and> entry_roots es \<noteq> [] then Some (hd (entry_roots es)) else rn,
                 b \<or> list_ex below_root es, d \<or> list_ex root_directory es)
      else None)"
proof (induction es arbitrary: rn b d)
  case (Cons e es)
  obtain p k where e: "e = (p, k)"
    by (cases e)
  show ?case
  proof (cases "path_segments p")
    case Nil
    with Cons e show ?thesis
      by (simp add: root_tests_at)
  next
    case (Cons r rest)
    have "good_segments (r # rest)"
      by (metis Cons good_path_segments)
    then have "isSafeArchiveRootName r \<longleftrightarrow> r \<noteq> ''..''"
      by (rule safe_root_iff)
    then show ?thesis
      using Cons Cons.IH e root_tests_at(2,3) [OF Cons]
      by (cases rn) auto
  qed
qed simp

section \<open>Properties\<close>

text \<open>An archive counts as having the single root folder \<open>r\<close> exactly when every entry with a path lies
  in \<open>r\<close>, \<open>r\<close> is not \<open>".."\<close>, and something proves that \<open>r\<close> is a folder: an entry strictly below
  it or a directory entry for it.\<close>

theorem single_root_folder:
  "singleArchiveRootFolder entries = Some r \<longleftrightarrow>
     (\<forall>e \<in> set entries. splitArchivePath (Some (fst e)) = [] \<or> hd (splitArchivePath (Some (fst e))) = r)
     \<and> r \<noteq> ''..''
     \<and> (\<exists>e \<in> set entries. splitArchivePath (Some (fst e)) \<noteq> []
          \<and> (1 < archivePathDepth (fst e) \<or> snd e = Some ''directory''))"
proof -
  have "singleArchiveRootFolder entries = Some r \<longleftrightarrow>
      (\<forall>r' \<in> set (entry_roots entries). r' \<noteq> ''..'' \<and> r' = r)
      \<and> (list_ex below_root entries \<or> list_ex root_directory entries) \<and> entry_roots entries \<noteq> []"
  proof -
    have "entry_roots entries \<noteq> [] \<Longrightarrow> hd (entry_roots entries) \<noteq> []"
    proof -
      assume "entry_roots entries \<noteq> []"
      then have "hd (entry_roots entries) \<in> set (entry_roots entries)"
        by simp
      then obtain p where "path_segments p \<noteq> []" "hd (entry_roots entries) = hd (path_segments p)"
        by (auto simp: entry_roots_def)
      then show ?thesis
        using good_path_segments [of p] by (cases "path_segments p") (auto simp: kept_segment_def)
    qed
    then show ?thesis
      by (cases "entry_roots entries") (auto simp: singleArchiveRootFolder_def single_root_loop_eq)
  qed
  also have "\<dots> \<longleftrightarrow> (\<forall>e \<in> set entries. path_segments (fst e) = [] \<or> hd (path_segments (fst e)) = r) \<and> r \<noteq> ''..''
      \<and> (\<exists>e \<in> set entries. path_segments (fst e) \<noteq> []
          \<and> (1 < length (path_segments (fst e)) \<or> snd e = Some ''directory''))"
  proof -
    have "list_ex below_root entries \<or> list_ex root_directory entries \<longleftrightarrow>
        (\<exists>e \<in> set entries. path_segments (fst e) \<noteq> []
          \<and> (1 < length (path_segments (fst e)) \<or> snd e = Some ''directory''))"
    proof -
      have "below_root e \<or> root_directory e \<longleftrightarrow> path_segments (fst e) \<noteq> []
          \<and> (1 < length (path_segments (fst e)) \<or> snd e = Some ''directory'')" for e
        by (cases "path_segments (fst e)") (auto simp: below_root_def root_directory_def)
      then show ?thesis
        by (auto simp: list_ex_iff)
    qed
    moreover have "entry_roots entries \<noteq> [] \<longleftrightarrow> (\<exists>e \<in> set entries. path_segments (fst e) \<noteq> [])"
      by (auto simp: entry_roots_def filter_empty_conv)
    moreover have "(\<forall>r' \<in> set (entry_roots entries). P r') \<longleftrightarrow>
        (\<forall>e \<in> set entries. path_segments (fst e) = [] \<or> P (hd (path_segments (fst e))))" for P
      by (auto simp: entry_roots_def)
    ultimately show ?thesis
      by auto
  qed
  finally show ?thesis
    by (simp add: path_simps)
qed

fun js_ge :: "jsnum \<Rightarrow> rat \<Rightarrow> bool" where
  "js_ge (Fin v) n \<longleftrightarrow> n \<le> v"
| "js_ge PosInf n \<longleftrightarrow> True"
| "js_ge _ n \<longleftrightarrow> False"

lemma numberOrZero_not_NaN: "numberOrZero parseNumber strip \<noteq> NaN"
proof (cases strip)
  case (StripNumber v)
  then show ?thesis
    by (cases v) simp_all
next
  case (StripText t)
  then show ?thesis
    by (cases "parseNumber (js_trim t)") (simp_all add: Let_def)
qed

lemma js_max_ge:
  assumes "x \<noteq> NaN" and "y \<noteq> NaN"
  shows "js_max x y \<noteq> NaN" "js_ge x n \<Longrightarrow> js_ge (js_max x y) n" "js_ge y n \<Longrightarrow> js_ge (js_max x y) n"
  using assms by (cases x; cases y; auto)+

lemma js_plus_ge: "js_ge x n \<Longrightarrow> js_ge (js_plus_one x) n" "x \<noteq> NaN \<Longrightarrow> js_plus_one x \<noteq> NaN"
  by (cases x; auto)+

lemma js_nat_ge: "js_nat m \<noteq> NaN" "n \<le> m \<Longrightarrow> js_ge (js_nat m) (of_nat n)"
  by (simp_all add: js_nat_def)

lemma fold_max_ge:
  "m \<le> fold (\<lambda>p m. max m (f p)) ps (m :: nat)
   \<and> (x \<in> set ps \<longrightarrow> f x \<le> fold (\<lambda>p m. max m (f p)) ps m)"
proof (induction ps arbitrary: m)
  case (Cons p ps)
  show ?case
    using Cons.IH [of "max m (f p)"] by auto
qed simp

text \<open>The number of stripped components is never negative; in the mode that keeps no folders it is at
  least the depth of every referenced entry, and in the mode relative to the current folder at least that
  folder's depth.  The references are the selected entries, or all of them when there is no selection.\<close>

theorem strip_components_cover:
  "let n = resolveExtractStripComponents parseNumber strip mode folder allPaths refs dedup
   in js_ge n 0
    \<and> (mode = PmNone \<longrightarrow> (\<forall>p \<in> set (if refs \<noteq> [] then refs else allPaths). js_ge n (of_nat (archivePathDepth p))))
    \<and> (mode = PmCurrent \<longrightarrow> js_ge n (of_nat (archivePathDepth folder)))"
proof -
  let ?refs = "if refs \<noteq> [] then refs else allPaths"
  let ?s0 = "js_max (Fin 0) (numberOrZero parseNumber strip)"
  let ?max = "fold (\<lambda>p m. max m (archivePathDepth p)) ?refs 0"
  define s1 where "s1 = (if mode = PmCurrent then js_max ?s0 (js_nat (archivePathDepth folder)) else ?s0)"
  define s2 where "s2 = (if mode = PmNone then js_max s1 (js_nat ?max) else s1)"
  have 0: "?s0 \<noteq> NaN" "js_ge ?s0 0"
    using js_max_ge [of "Fin 0" "numberOrZero parseNumber strip"] numberOrZero_not_NaN by auto
  have 1: "s1 \<noteq> NaN" "js_ge s1 0" "mode = PmCurrent \<longrightarrow> js_ge s1 (of_nat (archivePathDepth folder))"
    unfolding s1_def using 0 js_max_ge js_nat_ge by auto
  have 2: "s2 \<noteq> NaN" "js_ge s2 0" "mode = PmCurrent \<longrightarrow> js_ge s2 (of_nat (archivePathDepth folder))"
    unfolding s2_def using 1 js_max_ge js_nat_ge by auto
  have 3: "mode = PmNone \<longrightarrow> (\<forall>p \<in> set ?refs. js_ge s2 (of_nat (archivePathDepth p)))"
  proof (intro impI ballI)
    fix p assume "mode = PmNone" "p \<in> set ?refs"
    then have "js_ge (js_nat ?max) (of_nat (archivePathDepth p))"
      using fold_max_ge [of 0 archivePathDepth ?refs p] js_nat_ge(2) by blast
    with \<open>mode = PmNone\<close> 1(1) show "js_ge s2 (of_nat (archivePathDepth p))"
      unfolding s2_def using js_max_ge js_nat_ge(1) by simp
  qed
  have "resolveExtractStripComponents parseNumber strip mode folder allPaths refs dedup
      = (if dedup \<and> hasSingleArchiveRootFolder ?refs then js_plus_one s2 else s2)"
    by (simp add: resolveExtractStripComponents_def s1_def s2_def Let_def)
  with 2 3 show ?thesis
    using js_plus_ge by (simp add: Let_def)
qed

text \<open>The collision rule: an explicit strategy wins; an explicit replacement asks for none; a disposable
  task or quick action that declined replacement renames; anything else leaves the strategy out.\<close>

theorem collision_rules:
  "resolveDestinationCollisionStrategy cx = Some CsRename \<longleftrightarrow>
     cx_strategy cx = Some CsRename
     \<or> (cx_strategy cx = None \<and> cx_replaceExisting cx = Some False \<and> cx_overwrite cx \<noteq> Some OwReplace
        \<and> (cx_isDisposableTask cx = Some True \<or> cx_isQuickAction cx = Some True))"
  by (cases "cx_strategy cx"; cases "cx_isDisposableTask cx"; cases "cx_isQuickAction cx")
    (auto simp: resolveDestinationCollisionStrategy_def)

text \<open>When nothing is said about replacement, a quick action does not rename.\<close>

lemma unspecified_replacement_does_not_rename:
  "resolveDestinationCollisionStrategy
     \<lparr> cx_isDisposableTask = Some True, cx_isQuickAction = Some True, cx_replaceExisting = None,
       cx_overwrite = None, cx_strategy = None \<rparr> = None"
  by (simp add: resolveDestinationCollisionStrategy_def)

theorem single_root_folder_witness:
  "singleArchiveRootFolder [(''app/bin/run'', None), (''./app'', Some ''directory'')] = Some ''app''"
proof -
  have "(\<forall>e \<in> set [(''app/bin/run'', None), (''./app'', Some ''directory'')].
      splitArchivePath (Some (fst e)) = [] \<or> hd (splitArchivePath (Some (fst e))) = ''app'')"
    by code_simp
  moreover have "\<exists>e \<in> set [(''app/bin/run'', None), (''./app'', Some ''directory'')].
      splitArchivePath (Some (fst e)) \<noteq> [] \<and> (1 < archivePathDepth (fst e) \<or> snd e = Some ''directory'')"
    by code_simp
  ultimately show ?thesis
    unfolding single_root_folder by simp
qed

theorem strip_components_cover_witness:
  "js_ge (resolveExtractStripComponents (\<lambda>_. NaN) (StripText ''x'') PmNone [] [''a/b/c'', ''d''] [] False)
     (of_nat (archivePathDepth ''a/b/c''))"
  using strip_components_cover [of "\<lambda>_. NaN" "StripText ''x''" PmNone "[]" "[''a/b/c'', ''d'']" "[]" False]
  by (simp add: Let_def)

end
