(* ===== verification/ArchiveWorkspace.thy ===== *)
theory ArchiveWorkspace
  imports StateMachine ArchiveTable ExtractionPolicy
begin

text \<open>
  The archive workspace, \<^verbatim>\<open>src/src/app/workspaces/archiveWorkspace.ts\<close>: its state
  (\<open>MutableArchiveWorkspaceState\<close>) and every operation of the object that \<open>createArchiveWorkspace\<close>
  returns.  An operation replaces the state as a whole, so it is a function on states; spreads that only
  copy are the identity.  What the snapshot computes from the state is in \<open>ArchiveWorkspaceView\<close>.
\<close>

section \<open>State\<close>

datatype browse_state = BsIdle | BsLoading | BsLoaded | BsEmpty | BsError

datatype message_key = MkStatusIdle | MkStatusLoading | MkLoadedEntries | MkValidEmpty | MkFailedList

datatype severity = SevInfo | SevWarning | SevError

record message_payload =
  mp_key :: message_key
  mp_values :: "(string \<times> jsnum) list option"
  mp_fallbackText :: "string option"

record command_error =
  ce_code :: string
  ce_message :: string
  ce_hint :: "string option"
  ce_severity :: severity
  ce_retryable :: bool

datatype load_failure = LfCommand command_error | LfUnknown

record workspace_error =
  we_code :: "string option"
  we_message :: "string option"
  we_messageKey :: "message_key option"
  we_hint :: "string option"
  we_severity :: severity
  we_retryable :: bool

datatype retry_operation =
  RoListArchive | RoTestArchive | RoPreviewEntry | RoOpenOutsideEntry | RoNativeDragOut
  | RoExtractArchive | RoExtractSelection

datatype password_prompt = PromptRequired | PromptInvalid

record password_retry =
  pr_operation :: retry_operation
  pr_archivePath :: string
  pr_commandCode :: string
  pr_promptKey :: password_prompt
  pr_attemptCount :: nat

record ws_sort =
  so_key :: archive_column
  so_ascending :: bool

record ws_selection =
  ws_allSelected :: bool
  ws_excludedPaths :: "string list"
  ws_selectedPaths :: "string list"
  ws_focusedPath :: string
  ws_anchorPath :: string

record ws_page =
  pg_number :: jsnum
  pg_childCount :: jsnum
  pg_hasPrevious :: bool
  pg_hasNext :: bool

record ws_view =
  wv_currentFolder :: string
  wv_navigationHistory :: "string list"
  wv_searchQuery :: string
  wv_flatView :: bool
  wv_expanded :: "string list"
  wv_sort :: ws_sort
  wv_tableColumns :: column_settings
  wv_showParentFolderItem :: bool
  wv_selection :: ws_selection

record ws_state =
  ws_currentArchivePath :: string
  ws_browseState :: browse_state
  ws_status :: message_payload
  ws_error :: "workspace_error option"
  ws_passwordRetry :: "password_retry option"
  ws_entries :: "archive_entry list"
  ws_treeEntries :: "archive_entry list"
  ws_entryCount :: jsnum
  ws_totalSize :: "jsnum option"
  ws_listingRevision :: nat
  ws_page :: ws_page
  ws_view :: ws_view

abbreviation status_key :: "message_key \<Rightarrow> message_payload" where
  "status_key k \<equiv> \<lparr> mp_key = k, mp_values = None, mp_fallbackText = None \<rparr>"

definition loaded_status :: "jsnum \<Rightarrow> message_payload" where
  "loaded_status n =
     \<lparr> mp_key = MkLoadedEntries, mp_values = Some [(''count'', n)], mp_fallbackText = None \<rparr>"

section \<open>Helpers\<close>

definition normalizeExpandedTreeFolders :: "string list option \<Rightarrow> string list" where
  "normalizeExpandedTreeFolders expandedFolders =
     fold (\<lambda>folder normalized. set_add (normalizeArchivePath (Some folder)) normalized)
       (nullish expandedFolders []) (js_set [[]])"

text \<open>\<open>while (current) { expanded.add(current); current = getParentArchivePath(current) ?? "" }\<close>\<close>

function add_ancestors :: "string \<Rightarrow> string list \<Rightarrow> string list" where
  "add_ancestors current expanded =
     (if current = [] then expanded
      else add_ancestors (nullish (getParentArchivePath (Some current)) []) (set_add current expanded))"
  by pat_completeness auto
termination
  by (relation "measure (\<lambda>(c, _). if c = [] then 0 else Suc (length (path_segments c)))")
    (auto simp: getParentArchivePath_eq js_join_good_eq_Nil intro!: diff_less)

declare add_ancestors.simps [simp del]

definition expandedFolderAndAncestors :: "string list option \<Rightarrow> string \<Rightarrow> string list" where
  "expandedFolderAndAncestors expandedFolders folderPath =
     normalizeExpandedTreeFolders
       (Some (add_ancestors (normalizeArchivePath (Some folderPath))
          (js_set (normalizeExpandedTreeFolders expandedFolders))))"

definition normalizeSelectedPaths :: "string list \<Rightarrow> string list" where
  "normalizeSelectedPaths paths = collect_normalised (\<lambda>p. normalizeArchivePath (Some p)) paths"

definition selectionFromResult :: "table_selection \<Rightarrow> ws_selection" where
  "selectionFromResult selection =
     \<lparr> ws_allSelected = False, ws_excludedPaths = [],
       ws_selectedPaths = normalizeSelectedPaths (sel_paths selection),
       ws_focusedPath = normalizeArchivePath (Some (sel_focused selection)),
       ws_anchorPath = normalizeArchivePath (Some (sel_anchor selection)) \<rparr>"

definition empty_ws_selection :: ws_selection where
  "empty_ws_selection =
     \<lparr> ws_allSelected = False, ws_excludedPaths = [], ws_selectedPaths = [], ws_focusedPath = [],
       ws_anchorPath = [] \<rparr>"

definition normalizeSortState :: "archive_column option \<Rightarrow> bool option \<Rightarrow> ws_sort" where
  "normalizeSortState key ascending = \<lparr> so_key = nullish key AcName, so_ascending = nullish ascending True \<rparr>"

definition resetViewState ::
    "bool option \<Rightarrow> ws_sort \<Rightarrow> bool option \<Rightarrow> column_settings option \<Rightarrow> ws_view" where
  "resetViewState flatView sortState showParentFolderItem tableColumns =
     \<lparr> wv_currentFolder = [], wv_navigationHistory = [], wv_searchQuery = [],
       wv_flatView = nullish flatView False, wv_expanded = [[]],
       wv_sort = normalizeSortState (Some (so_key sortState)) (Some (so_ascending sortState)),
       wv_tableColumns =
         nullish tableColumns
           (normalizeColumnSettings (Some \<lparr> ps_visible = None, ps_order = None, ps_widths = None \<rparr>)),
       wv_showParentFolderItem = nullish showParentFolderItem False,
       wv_selection = empty_ws_selection \<rparr>"

record workspace_options =
  wo_flatView :: "bool option"
  wo_showParentFolderItem :: "bool option"
  wo_sortKey :: "archive_column option"
  wo_sortAscending :: "bool option"

definition first_page :: "jsnum \<Rightarrow> ws_page" where
  "first_page children =
     \<lparr> pg_number = Fin 1, pg_childCount = children, pg_hasPrevious = False, pg_hasNext = False \<rparr>"

definition createInitialState :: "workspace_options \<Rightarrow> ws_state" where
  "createInitialState options =
     \<lparr> ws_currentArchivePath = [], ws_browseState = BsIdle, ws_status = status_key MkStatusIdle,
       ws_error = None, ws_passwordRetry = None, ws_entries = [], ws_treeEntries = [],
       ws_entryCount = Fin 0, ws_totalSize = None, ws_listingRevision = 0, ws_page = first_page (Fin 0),
       ws_view =
         resetViewState (wo_flatView options)
           (normalizeSortState (wo_sortKey options) (wo_sortAscending options))
           (wo_showParentFolderItem options) None \<rparr>"

definition normalizeExistingFolderPath :: "archive_entry list \<Rightarrow> string option \<Rightarrow> string" where
  "normalizeExistingFolderPath entries folderPath =
     (let normalized = normalizeArchivePath folderPath
      in if normalized = [] then []
         else if archiveFolderExists entries (Some normalized) then normalized else [])"

definition resolveFolderForNavigation :: "ws_state \<Rightarrow> string option \<Rightarrow> string" where
  "resolveFolderForNavigation state folderPath =
     (let normalized = normalizeArchivePath folderPath
      in if normalized = [] then []
         else if archiveFolderExists (ws_entries state) (Some normalized)
                 \<or> archiveFolderExists (ws_treeEntries state) (Some normalized)
         then normalized else [])"

definition navigateStateToFolder :: "ws_state \<Rightarrow> string \<Rightarrow> bool \<Rightarrow> bool \<Rightarrow> ws_state" where
  "navigateStateToFolder state folderPath pushHistory clearSearch =
     (let nextFolder = resolveFolderForNavigation state (Some folderPath); v = ws_view state
      in if nextFolder = wv_currentFolder v then state
         else state\<lparr> ws_view := v\<lparr>
                wv_currentFolder := nextFolder,
                wv_navigationHistory :=
                  (if pushHistory then wv_navigationHistory v @ [wv_currentFolder v]
                   else wv_navigationHistory v),
                wv_searchQuery := (if clearSearch then [] else wv_searchQuery v),
                wv_expanded := expandedFolderAndAncestors (Some (wv_expanded v)) nextFolder,
                wv_selection := selectionFromResult clearHierarchicalTableSelection \<rparr> \<rparr>)"

definition MAX_ARCHIVE_TREE_SUMMARIES :: nat where
  "MAX_ARCHIVE_TREE_SUMMARIES = 10000"

definition mergeTreeEntries :: "archive_entry list \<Rightarrow> archive_entry list \<Rightarrow> archive_entry list" where
  "mergeTreeEntries existing visiblePage =
     (let byPath0 =
            fold (\<lambda>entry byPath. AList.update (normalizeArchivePath (Some (ae_path entry))) entry byPath)
              (filter (\<lambda>entry. ae_kind entry = KDirectory) existing) [];
          byPath =
            fold (\<lambda>entry byPath.
               let p = normalizeArchivePath (Some (ae_path entry))
               in if ae_kind entry = KDirectory
                     \<and> (map_of byPath p \<noteq> None \<or> length byPath < MAX_ARCHIVE_TREE_SUMMARIES)
                  then AList.update p entry byPath else byPath) visiblePage byPath0
      in map snd byPath)"

definition retryForArchivePath :: "password_retry option \<Rightarrow> string \<Rightarrow> password_retry option" where
  "retryForArchivePath retry archivePath =
     (case retry of
        None \<Rightarrow> None
      | Some r \<Rightarrow> if pr_archivePath r = archivePath then Some r else None)"

definition normalizeLoadError :: "load_failure \<Rightarrow> workspace_error" where
  "normalizeLoadError failure =
     (case failure of
        LfUnknown \<Rightarrow>
          \<lparr> we_code = Some ''unknown'', we_message = None, we_messageKey = Some MkFailedList,
            we_hint = None, we_severity = SevError, we_retryable = False \<rparr>
      | LfCommand e \<Rightarrow>
          \<lparr> we_code = Some (ce_code e), we_message = Some (ce_message e), we_messageKey = None,
            we_hint = ce_hint e, we_severity = ce_severity e, we_retryable = ce_retryable e \<rparr>)"

definition errorMessageText :: "workspace_error \<Rightarrow> string option" where
  "errorMessageText e =
     (if \<not> truthy (we_message e) then None
      else Some (the (we_message e)
             @ (if truthy (we_hint e) then CHR 0x0A # the (we_hint e) else [])))"

definition cloneStatus :: "message_payload \<Rightarrow> message_payload" where
  "cloneStatus s =
     s\<lparr> mp_fallbackText := (if truthy (mp_fallbackText s) then mp_fallbackText s else None) \<rparr>"

definition statusForBrowseState :: "ws_state \<Rightarrow> browse_state \<Rightarrow> message_payload" where
  "statusForBrowseState state browseState =
     (case browseState of
        BsIdle \<Rightarrow> status_key MkStatusIdle
      | BsLoading \<Rightarrow> status_key MkStatusLoading
      | BsEmpty \<Rightarrow> status_key MkValidEmpty
      | BsError \<Rightarrow>
          if mp_key (ws_status state) = MkFailedList then cloneStatus (ws_status state)
          else status_key MkFailedList
      | BsLoaded \<Rightarrow>
          if mp_key (ws_status state) = MkLoadedEntries then cloneStatus (ws_status state)
          else loaded_status (js_nat (length (ws_entries state))))"

definition isPasswordRetryCommandCode :: "string \<Rightarrow> bool" where
  "isPasswordRetryCommandCode code \<longleftrightarrow> code = ''password_required'' \<or> code = ''invalid_password''"

definition passwordPromptKeyForCommandCode :: "string \<Rightarrow> password_prompt" where
  "passwordPromptKeyForCommandCode code =
     (if code = ''password_required'' then PromptRequired else PromptInvalid)"

definition passwordRetryForCommandError ::
    "retry_operation \<Rightarrow> string \<Rightarrow> command_error option \<Rightarrow> password_retry option \<Rightarrow> password_retry option" where
  "passwordRetryForCommandError operation archivePath e previous =
     (case e of
        None \<Rightarrow> None
      | Some err \<Rightarrow>
          if \<not> isPasswordRetryCommandCode (ce_code err) then None
          else (let previousAttemptCount =
                  (case previous of
                     None \<Rightarrow> 0
                   | Some p \<Rightarrow>
                       if pr_operation p = operation \<and> pr_archivePath p = archivePath
                       then pr_attemptCount p else 0)
                in Some \<lparr> pr_operation = operation, pr_archivePath = archivePath,
                          pr_commandCode = ce_code err,
                          pr_promptKey = passwordPromptKeyForCommandCode (ce_code err),
                          pr_attemptCount = previousAttemptCount + 1 \<rparr>))"

section \<open>Restoring the view of a reloaded archive\<close>

text \<open>What the rows and the tree need from the platform: the collators of \<^verbatim>\<open>archiveTable.ts\<close> and
  \<^verbatim>\<open>archiveTree.ts\<close> and the formatters.\<close>

record ws_env =
  en_tableCollate :: "string \<Rightarrow> string \<Rightarrow> int"
  en_pathCollate :: "string \<Rightarrow> string \<Rightarrow> int"
  en_format :: formatters

record preserve_state =
  ps_currentFolder :: "string option"
  ps_navigationHistory :: "string list option"
  ps_searchQuery :: "string option"
  ps_flatView :: "bool option"
  ps_expanded :: "string list option"
  ps_allSelected :: "bool option"
  ps_excludedPaths :: "string list option"
  ps_selectedPaths :: "string list option"
  ps_focusedPath :: "string option"
  ps_anchorPath :: "string option"
  ps_showParentFolderItem :: "bool option"
  ps_sortKey :: "archive_column option"
  ps_sortAscending :: "bool option"
  ps_tableColumns :: "column_settings option"

definition restored_paths :: "archive_entry list \<Rightarrow> string list option \<Rightarrow> string list" where
  "restored_paths entries paths =
     (let listedPaths = js_set (map (\<lambda>entry. normalizeArchivePath (Some (ae_path entry))) entries)
      in filter (\<lambda>path. path \<noteq> [] \<and> (set_has listedPaths path \<or> archiveFolderExists entries (Some path)))
           (map (\<lambda>path. normalizeArchivePath (Some path)) (nullish paths [])))"

definition restored_selection ::
    "string list \<Rightarrow> string list \<Rightarrow> string option \<Rightarrow> string option \<Rightarrow> table_selection" where
  "restored_selection selectedPaths visiblePaths focusedPath anchorPath =
     (let preservedFocusedPath = normalizeArchivePath focusedPath
      in if preservedFocusedPath \<noteq> [] \<and> preservedFocusedPath \<in> set visiblePaths
         then replaceHierarchicalTableSelection selectedPaths (Some preservedFocusedPath)
                (Some (str_or (normalizeArchivePath anchorPath)
                  (if preservedFocusedPath \<in> set selectedPaths then preservedFocusedPath else [])))
         else replaceHierarchicalTableSelection selectedPaths (Some [])
                (Some (str_or (normalizeArchivePath anchorPath) (first_or_empty selectedPaths))))"

definition restoreViewState ::
    "archive_entry list \<Rightarrow> preserve_state option \<Rightarrow> bool \<Rightarrow> ws_sort \<Rightarrow> bool \<Rightarrow> column_settings \<Rightarrow> ws_view" where
  "restoreViewState entries preserveState dfFlat dfSort dfShowParent dfColumns =
     (case preserveState of
        None \<Rightarrow> resetViewState (Some dfFlat) dfSort (Some dfShowParent) (Some dfColumns)
      | Some ps \<Rightarrow>
          (let currentFolder = (if archiveFolderExists entries (ps_currentFolder ps)
                                then normalizeArchivePath (ps_currentFolder ps) else []);
               searchQuery = nullish (ps_searchQuery ps) [];
               flatView = nullish (ps_flatView ps) False;
               showParent = nullish (ps_showParentFolderItem ps) dfShowParent;
               selectedPaths = restored_paths entries (ps_selectedPaths ps);
               visiblePaths = selectableHierarchicalRowPaths
                 (buildArchiveBrowserRows entries (Some currentFolder) (Some searchQuery) flatView showParent);
               selection = restored_selection selectedPaths visiblePaths (ps_focusedPath ps) (ps_anchorPath ps)
           in \<lparr> wv_currentFolder = currentFolder,
                wv_navigationHistory =
                  map (\<lambda>folder. normalizeArchivePath (Some folder)) (nullish (ps_navigationHistory ps) []),
                wv_searchQuery = searchQuery, wv_flatView = flatView,
                wv_expanded = expandedFolderAndAncestors (ps_expanded ps) currentFolder,
                wv_sort = normalizeSortState (Some (nullish (ps_sortKey ps) (so_key dfSort)))
                  (Some (nullish (ps_sortAscending ps) (so_ascending dfSort))),
                wv_tableColumns = dfColumns, wv_showParentFolderItem = showParent,
                wv_selection =
                  \<lparr> ws_allSelected = nullish (ps_allSelected ps) False,
                    ws_excludedPaths = normalizeSelectedPaths (nullish (ps_excludedPaths ps) []),
                    ws_selectedPaths = sel_paths selection, ws_focusedPath = sel_focused selection,
                    ws_anchorPath = sel_anchor selection \<rparr> \<rparr>))"

section \<open>Loading\<close>

record archive_listing =
  al_archivePath :: string
  al_entries :: "archive_entry list"
  al_entryCount :: jsnum
  al_totalSize :: "jsnum option"

definition normalizeListingMetadata :: "archive_listing \<Rightarrow> nat \<Rightarrow> jsnum \<times> jsnum option" where
  "normalizeListingMetadata listing fallbackEntryCount =
     (if is_finite (al_entryCount listing) then al_entryCount listing else js_nat fallbackEntryCount,
      case al_totalSize listing of
        None \<Rightarrow> None
      | Some t \<Rightarrow> if is_finite t then Some t else None)"

record begin_load =
  bl_archivePath :: string
  bl_preserveListing :: bool
  bl_tableColumns :: "column_settings option"

definition beginLoading :: "begin_load \<Rightarrow> ws_state \<Rightarrow> ws_state" where
  "beginLoading input state =
     (let archivePath = js_trim (bl_archivePath input);
          state1 = state\<lparr> ws_currentArchivePath := archivePath, ws_browseState := BsLoading,
                     ws_status := status_key MkStatusLoading, ws_error := None,
                     ws_passwordRetry := retryForArchivePath (ws_passwordRetry state) archivePath \<rparr>;
          v = ws_view state
      in if bl_preserveListing input then state1
         else state1\<lparr> ws_entries := [], ws_treeEntries := [], ws_entryCount := Fin 0,
                ws_totalSize := None, ws_page := first_page (Fin 0),
                ws_view := resetViewState (Some (wv_flatView v)) (wv_sort v)
                  (Some (wv_showParentFolderItem v))
                  (Some (nullish (bl_tableColumns input) (wv_tableColumns v))) \<rparr>)"

record load_options =
  lo_preserveState :: "preserve_state option"
  lo_defaultTableColumns :: "column_settings option"

definition loadSucceeded :: "archive_listing \<Rightarrow> load_options \<Rightarrow> ws_state \<Rightarrow> ws_state" where
  "loadSucceeded listing options state =
     (let entries = al_entries listing;
          metadata = normalizeListingMetadata listing (length entries);
          v = ws_view state;
          columns = (case Option.bind (lo_preserveState options) ps_tableColumns of
                       Some c \<Rightarrow> c
                     | None \<Rightarrow> nullish (lo_defaultTableColumns options) (wv_tableColumns v))
      in \<lparr> ws_currentArchivePath = js_trim (al_archivePath listing),
           ws_browseState = (if entries \<noteq> [] then BsLoaded else BsEmpty),
           ws_status = (if entries \<noteq> [] then loaded_status (js_nat (length entries))
                        else status_key MkValidEmpty),
           ws_error = None, ws_passwordRetry = None, ws_entries = entries, ws_treeEntries = entries,
           ws_entryCount = fst metadata, ws_totalSize = snd metadata,
           ws_listingRevision = ws_listingRevision state + 1,
           ws_page = first_page (js_nat (length entries)),
           ws_view = restoreViewState entries (lo_preserveState options) (wv_flatView v) (wv_sort v)
             (wv_showParentFolderItem v) columns \<rparr>)"

record listing_page =
  lp_archivePath :: string
  lp_parentPath :: string
  lp_entries :: "archive_entry list"
  lp_entryCount :: jsnum
  lp_totalSize :: "jsnum option"
  lp_pageNumber :: "jsnum option"
  lp_childCount :: "jsnum option"
  lp_hasPrevious :: "bool option"
  lp_hasNext :: "bool option"

definition acceptPage :: "listing_page \<Rightarrow> ws_state \<Rightarrow> ws_state" where
  "acceptPage page state =
     (let entries = lp_entries page; v = ws_view state
      in state\<lparr> ws_currentArchivePath := js_trim (lp_archivePath page), ws_browseState := BsLoaded,
           ws_status := loaded_status (lp_entryCount page), ws_error := None, ws_passwordRetry := None,
           ws_entries := entries, ws_treeEntries := mergeTreeEntries (ws_treeEntries state) entries,
           ws_entryCount := lp_entryCount page, ws_totalSize := lp_totalSize page,
           ws_listingRevision := ws_listingRevision state + 1,
           ws_page :=
             \<lparr> pg_number = nullish (lp_pageNumber page) (Fin 1),
               pg_childCount = nullish (lp_childCount page) (js_nat (length entries)),
               pg_hasPrevious = nullish (lp_hasPrevious page) False,
               pg_hasNext = nullish (lp_hasNext page) False \<rparr>,
           ws_view := v\<lparr> wv_currentFolder := normalizeArchivePath (Some (lp_parentPath page)),
             wv_expanded := expandedFolderAndAncestors (Some (wv_expanded v)) (lp_parentPath page),
             wv_selection :=
               (if ws_allSelected (wv_selection v) then wv_selection v
                else selectionFromResult clearHierarchicalTableSelection) \<rparr> \<rparr>)"

definition acceptTreePage :: "archive_entry list \<Rightarrow> ws_state \<Rightarrow> ws_state" where
  "acceptTreePage entries state =
     state\<lparr> ws_treeEntries := mergeTreeEntries (ws_treeEntries state) entries,
       ws_listingRevision := ws_listingRevision state + 1 \<rparr>"

definition loadFailed :: "load_failure \<Rightarrow> ws_state \<Rightarrow> ws_state" where
  "loadFailed failure state =
     (let normalizedError = normalizeLoadError failure;
          fallbackText = errorMessageText normalizedError
      in state\<lparr> ws_browseState := BsError,
           ws_status := \<lparr> mp_key = MkFailedList, mp_values = None,
             mp_fallbackText = (if truthy fallbackText then fallbackText else None) \<rparr>,
           ws_error := Some normalizedError, ws_passwordRetry := None \<rparr>)"

definition setBrowseState :: "browse_state \<Rightarrow> string option \<Rightarrow> ws_state \<Rightarrow> ws_state" where
  "setBrowseState browseState fallbackText state =
     state\<lparr> ws_browseState := browseState,
       ws_status :=
         (if browseState = BsError \<and> truthy fallbackText
          then \<lparr> mp_key = MkFailedList, mp_values = None, mp_fallbackText = fallbackText \<rparr>
          else statusForBrowseState state browseState),
       ws_error := (if browseState = BsError then ws_error state else None),
       ws_passwordRetry := (if browseState = BsError then None else ws_passwordRetry state) \<rparr>"

section \<open>Navigation, search, sorting\<close>

definition navigateToFolder :: "string \<Rightarrow> ws_state \<Rightarrow> ws_state" where
  "navigateToFolder folderPath state = navigateStateToFolder state folderPath True True"

definition navigateBack :: "ws_state \<Rightarrow> ws_state" where
  "navigateBack state =
     (let v = ws_view state; navigationHistory = wv_navigationHistory v
      in if navigationHistory = [] then state
         else (let currentFolder = normalizeExistingFolderPath (ws_entries state) (Some (last navigationHistory))
               in state\<lparr> ws_view := v\<lparr> wv_currentFolder := currentFolder,
                    wv_navigationHistory := butlast navigationHistory,
                    wv_expanded := expandedFolderAndAncestors (Some (wv_expanded v)) currentFolder,
                    wv_selection := selectionFromResult clearHierarchicalTableSelection \<rparr> \<rparr>))"

definition navigateUp :: "ws_state \<Rightarrow> ws_state" where
  "navigateUp state =
     (let f = wv_currentFolder (ws_view state)
      in if f = [] then state
         else navigateStateToFolder state (nullish (getParentArchivePath (Some f)) []) True True)"

definition update_view :: "(ws_view \<Rightarrow> ws_view) \<Rightarrow> ws_state \<Rightarrow> ws_state" where
  "update_view f state = state\<lparr> ws_view := f (ws_view state) \<rparr>"

definition setSearchQuery :: "string \<Rightarrow> ws_state \<Rightarrow> ws_state" where
  "setSearchQuery query = update_view (\<lambda>v. v\<lparr> wv_searchQuery := query \<rparr>)"

definition clearSearch :: "ws_state \<Rightarrow> ws_state" where
  "clearSearch state =
     (if js_trim (wv_searchQuery (ws_view state)) = [] then state
      else update_view (\<lambda>v. v\<lparr> wv_searchQuery := [] \<rparr>) state)"

definition setFlatView :: "bool \<Rightarrow> ws_state \<Rightarrow> ws_state" where
  "setFlatView flatView = update_view (\<lambda>v. v\<lparr> wv_flatView := flatView \<rparr>)"

text \<open>\<open>Partial<ArchiveWorkspaceRowOptions>\<close>: an absent option keeps the current one.\<close>

definition setRowOptions :: "bool option \<Rightarrow> ws_state \<Rightarrow> ws_state" where
  "setRowOptions showParent =
     update_view (\<lambda>v. v\<lparr> wv_showParentFolderItem := nullish showParent (wv_showParentFolderItem v) \<rparr>)"

definition applySortCommand :: "archive_column \<Rightarrow> ws_state \<Rightarrow> ws_state" where
  "applySortCommand sortKey =
     update_view (\<lambda>v. v\<lparr> wv_sort :=
       (if sortKey = so_key (wv_sort v)
        then \<lparr> so_key = so_key (wv_sort v), so_ascending = \<not> so_ascending (wv_sort v) \<rparr>
        else \<lparr> so_key = sortKey, so_ascending = True \<rparr>) \<rparr>)"

definition applySortDirection :: "archive_column \<Rightarrow> bool \<Rightarrow> ws_state \<Rightarrow> ws_state" where
  "applySortDirection sortKey ascending =
     update_view (\<lambda>v. v\<lparr> wv_sort := \<lparr> so_key = sortKey, so_ascending = ascending \<rparr> \<rparr>)"

section \<open>Looking up entries\<close>

definition getEntryMap :: "archive_entry list \<Rightarrow> (string \<times> archive_entry) list" where
  "getEntryMap entries =
     fold (\<lambda>entry. AList.update (normalizeArchivePath (Some (ae_path entry))) entry) entries []"

definition entryByPath :: "archive_entry list \<Rightarrow> string option \<Rightarrow> archive_entry option" where
  "entryByPath entries path =
     (if \<not> truthy path then None else map_of (getEntryMap entries) (normalizeArchivePath path))"

definition archiveEntryIsUnderFolder :: "string \<Rightarrow> string \<Rightarrow> bool" where
  "archiveEntryIsUnderFolder entryPath folderPath =
     (let normalizedEntry = normalizeArchivePath (Some entryPath);
          normalizedFolder = normalizeArchivePath (Some folderPath)
      in if normalizedFolder = [] then True
         else normalizedEntry = normalizedFolder \<or> prefix (normalizedFolder @ ''/'') normalizedEntry)"

definition fileDescendantEntryPaths :: "archive_entry list \<Rightarrow> string \<Rightarrow> string list" where
  "fileDescendantEntryPaths entries folderPath =
     map ae_path
       (filter (\<lambda>entry. ae_kind entry \<noteq> KDirectory \<and> archiveEntryIsUnderFolder (ae_path entry) folderPath)
          entries)"

definition archiveFolderHasFileDescendants :: "archive_entry list \<Rightarrow> string \<Rightarrow> bool" where
  "archiveFolderHasFileDescendants entries folderPath \<longleftrightarrow>
     0 < length (fileDescendantEntryPaths entries folderPath)"

text \<open>One selected path of the loop in \<open>selectedExtractEntryPaths\<close>.\<close>

definition extract_paths_step :: "ws_state \<Rightarrow> string \<Rightarrow> string list \<Rightarrow> string list" where
  "extract_paths_step state selectedPath extractPaths =
     (let entry = (case entryByPath (ws_entries state) (Some selectedPath) of
                     Some e \<Rightarrow> Some e
                   | None \<Rightarrow> entryByPath (ws_treeEntries state) (Some selectedPath))
      in case entry of
           None \<Rightarrow>
             (let found = set_add_all (fileDescendantEntryPaths (ws_treeEntries state) selectedPath)
                            (set_add_all (fileDescendantEntryPaths (ws_entries state) selectedPath) extractPaths)
              in if found = [] \<and> js_trim selectedPath \<noteq> [] then set_add selectedPath found else found)
         | Some e \<Rightarrow>
             if ae_kind e \<noteq> KDirectory then set_add (ae_path e) extractPaths
             else (let descendantPaths =
                         js_set (fileDescendantEntryPaths (ws_entries state) (ae_path e)
                                 @ fileDescendantEntryPaths (ws_treeEntries state) (ae_path e))
                   in if descendantPaths = [] then set_add (ae_path e) extractPaths
                      else set_add_all descendantPaths extractPaths))"

definition selectedExtractEntryPaths :: "ws_state \<Rightarrow> string list" where
  "selectedExtractEntryPaths state =
     (if ws_allSelected (wv_selection (ws_view state)) then []
      else fold (extract_paths_step state) (ws_selectedPaths (wv_selection (ws_view state))) [])"

definition nativeDragEntryPaths :: "ws_state \<Rightarrow> string \<Rightarrow> string list" where
  "nativeDragEntryPaths state entryPath =
     (let normalizedEntryPath = normalizeArchivePath (Some entryPath);
          selected = ws_selectedPaths (wv_selection (ws_view state))
      in if normalizedEntryPath = [] then []
         else if normalizedEntryPath \<in> set selected then selected
         else (case entryByPath (ws_entries state) (Some normalizedEntryPath) of
                 Some entry \<Rightarrow> [ae_path entry]
               | None \<Rightarrow>
                   if archiveFolderHasFileDescendants (ws_entries state) normalizedEntryPath
                   then [normalizedEntryPath] else []))"

definition getExtractReferencePaths :: "ws_state \<Rightarrow> extract_mode \<Rightarrow> string list" where
  "getExtractReferencePaths state mode =
     (if mode = ModeSelection
      then (if ws_allSelected (wv_selection (ws_view state)) then map ae_path (ws_entries state)
            else selectedExtractEntryPaths state)
      else map ae_path (ws_entries state))"

section \<open>The selection\<close>

definition visibleRowsForState :: "ws_env \<Rightarrow> ws_state \<Rightarrow> archive_entry hier_row list" where
  "visibleRowsForState env state =
     (let v = ws_view state
      in sortArchiveRows (en_tableCollate env) (en_format env)
           (buildArchiveBrowserRows (ws_entries state) (Some (wv_currentFolder v)) (Some (wv_searchQuery v))
              (wv_flatView v) (wv_showParentFolderItem v))
           (so_key (wv_sort v)) (so_ascending (wv_sort v)))"

definition selectAllEntries :: "ws_env \<Rightarrow> ws_state \<Rightarrow> ws_state" where
  "selectAllEntries env state =
     (let firstVisiblePath = first_or_empty (selectableHierarchicalRowPaths (visibleRowsForState env state))
      in update_view (\<lambda>v. v\<lparr> wv_selection :=
           \<lparr> ws_allSelected = True, ws_excludedPaths = [], ws_selectedPaths = [],
             ws_focusedPath = firstVisiblePath, ws_anchorPath = firstVisiblePath \<rparr> \<rparr>) state)"

definition setPathSelected :: "string \<Rightarrow> bool \<Rightarrow> ws_state \<Rightarrow> ws_state" where
  "setPathSelected path selected state =
     (let normalizedPath = normalizeArchivePath (Some path); sel = wv_selection (ws_view state)
      in if normalizedPath = [] then state
         else if ws_allSelected sel
         then update_view (\<lambda>v. v\<lparr> wv_selection := sel\<lparr>
                ws_excludedPaths := (if selected then set_delete normalizedPath (ws_excludedPaths sel)
                                     else set_add normalizedPath (ws_excludedPaths sel)),
                ws_focusedPath := normalizedPath, ws_anchorPath := normalizedPath \<rparr> \<rparr>) state
         else update_view (\<lambda>v. v\<lparr> wv_selection :=
                \<lparr> ws_allSelected = False, ws_excludedPaths = [],
                  ws_selectedPaths = (if selected then set_add normalizedPath (ws_selectedPaths sel)
                                      else set_delete normalizedPath (ws_selectedPaths sel)),
                  ws_focusedPath = normalizedPath, ws_anchorPath = normalizedPath \<rparr> \<rparr>) state)"

definition updateSelection :: "table_selection \<Rightarrow> ws_state \<Rightarrow> ws_state" where
  "updateSelection selection = update_view (\<lambda>v. v\<lparr> wv_selection := selectionFromResult selection \<rparr>)"

definition toggleTreeFolder :: "string \<Rightarrow> ws_state \<Rightarrow> ws_state" where
  "toggleTreeFolder folderPath state =
     (let normalizedFolder = normalizeArchivePath (Some folderPath)
      in if normalizedFolder = [] then state
         else update_view (\<lambda>v. v\<lparr> wv_expanded :=
                expandedFolderAndAncestors (Some (set_toggle normalizedFolder (wv_expanded v)))
                  (wv_currentFolder v) \<rparr>) state)"

section \<open>Requests to the backend\<close>

text \<open>\<open>{ ok: true, request }\<close> is \<open>Inr request\<close>, \<open>{ ok: false, reason }\<close> is \<open>Inl reason\<close>.\<close>

datatype extract_unavailable = ExNoArchive | ExNoSelectedEntries
datatype test_unavailable = TsNoArchive
datatype preview_unavailable = PvNoArchive | PvSingleFileRequired | PvDirectorySelected
datatype drag_unavailable = DrNoArchive | DrNoEntryPaths

record extract_request_input =
  ei_mode :: extract_mode
  ei_destinationPath :: string
  ei_overwrite :: overwrite_policy
  ei_strategy :: "collision_strategy option"
  ei_stripComponents :: jsnum
  ei_tzapRestorePolicy :: "restore_policy option"
  ei_tzapAllowAbsoluteSymlinks :: "bool option"
  ei_ignoreSymlinks :: "bool option"
  ei_recipientKeyId :: "string option"
  ei_password :: "string option"

definition buildExtractRequest ::
    "extract_request_input \<Rightarrow> ws_state \<Rightarrow> extract_unavailable + start_extract_request" where
  "buildExtractRequest input state =
     (let sel = wv_selection (ws_view state);
          isSelection = (ei_mode input = ModeSelection);
          allSelected = (isSelection \<and> ws_allSelected sel);
          entryPaths = (if isSelection \<and> \<not> allSelected then selectedExtractEntryPaths state else [])
      in if ws_currentArchivePath state = [] then Inl ExNoArchive
         else if isSelection \<and> \<not> allSelected \<and> entryPaths = [] then Inl ExNoSelectedEntries
         else Inr (buildStartExtractRequest
           \<lparr> bx_archivePath = ws_currentArchivePath state, bx_destinationPath = ei_destinationPath input,
             bx_overwrite = ei_overwrite input, bx_strategy = ei_strategy input,
             bx_stripComponents = ei_stripComponents input,
             bx_password = nonempty_opt (ei_password input),
             bx_entryPaths = (if isSelection \<and> \<not> allSelected then Some entryPaths else None),
             bx_selectAll = (if allSelected then Some True else None),
             bx_excludedEntryPaths =
               (if allSelected \<and> ws_excludedPaths sel \<noteq> [] then Some (ws_excludedPaths sel) else None),
             bx_tzapRestorePolicy = Some (nullish (ei_tzapRestorePolicy input) RpPortable),
             bx_tzapAllowAbsoluteSymlinks = Some (nullish (ei_tzapAllowAbsoluteSymlinks input) False),
             bx_ignoreSymlinks = Some (nullish (ei_ignoreSymlinks input) False),
             bx_recipientKeyId = trimmed_opt (ei_recipientKeyId input) \<rparr>))"

record test_request =
  tq_archivePath :: string
  tq_entryPaths :: "string list option"
  tq_password :: "string option"

definition buildTestRequest :: "string option \<Rightarrow> ws_state \<Rightarrow> test_unavailable + test_request" where
  "buildTestRequest password state =
     (if ws_currentArchivePath state = [] then Inl TsNoArchive
      else (let entryPaths = selectedExtractEntryPaths state
            in Inr \<lparr> tq_archivePath = ws_currentArchivePath state,
                     tq_entryPaths = (if entryPaths \<noteq> [] then Some entryPaths else None),
                     tq_password = nonempty_opt password \<rparr>))"

record preview_request =
  pq_archivePath :: string
  pq_entryPath :: string
  pq_overwrite :: overwrite_policy
  pq_stripComponents :: jsnum
  pq_password :: "string option"

definition buildPreviewRequest ::
    "overwrite_policy \<Rightarrow> jsnum \<Rightarrow> string option \<Rightarrow> ws_state \<Rightarrow> preview_unavailable + preview_request" where
  "buildPreviewRequest overwrite stripComponents password state =
     (if ws_currentArchivePath state = [] then Inl PvNoArchive
      else (case ws_selectedPaths (wv_selection (ws_view state)) of
              [p] \<Rightarrow>
                (case entryByPath (ws_entries state) (Some p) of
                   None \<Rightarrow> Inl PvDirectorySelected
                 | Some entry \<Rightarrow>
                     if ae_kind entry = KDirectory then Inl PvDirectorySelected
                     else Inr \<lparr> pq_archivePath = ws_currentArchivePath state, pq_entryPath = ae_path entry,
                                pq_overwrite = overwrite, pq_stripComponents = stripComponents,
                                pq_password = nonempty_opt password \<rparr>)
            | _ \<Rightarrow> Inl PvSingleFileRequired))"

record drag_request =
  dq_archivePath :: string
  dq_entryPaths :: "string list"
  dq_selectAll :: "bool option"
  dq_excludedEntryPaths :: "string list option"
  dq_stripComponents :: nat
  dq_password :: "string option"

definition buildNativeDragRequest ::
    "string \<Rightarrow> string option \<Rightarrow> ws_state \<Rightarrow> drag_unavailable + drag_request" where
  "buildNativeDragRequest entryPath password state =
     (let v = ws_view state; sel = wv_selection v; allSelected = ws_allSelected sel;
          entryPaths = (if allSelected then [] else nativeDragEntryPaths state entryPath)
      in if ws_currentArchivePath state = [] then Inl DrNoArchive
         else if \<not> allSelected \<and> entryPaths = [] then Inl DrNoEntryPaths
         else Inr \<lparr> dq_archivePath = ws_currentArchivePath state, dq_entryPaths = entryPaths,
                    dq_selectAll = (if allSelected then Some True else None),
                    dq_excludedEntryPaths =
                      (if allSelected \<and> ws_excludedPaths sel \<noteq> [] then Some (ws_excludedPaths sel) else None),
                    dq_stripComponents =
                      (if allSelected then 0
                       else nativeDragStripComponents entryPaths (wv_currentFolder v) (wv_flatView v)
                              (wv_searchQuery v)),
                    dq_password = nonempty_opt password \<rparr>)"

section \<open>Password retries, columns, resets\<close>

definition requestPasswordRetry :: "retry_operation \<Rightarrow> command_error option \<Rightarrow> ws_state \<Rightarrow> ws_state" where
  "requestPasswordRetry operation e state =
     state\<lparr> ws_passwordRetry :=
       passwordRetryForCommandError operation (ws_currentArchivePath state) e (ws_passwordRetry state) \<rparr>"

definition clearPasswordRetry :: "ws_state \<Rightarrow> ws_state" where
  "clearPasswordRetry state =
     (if ws_passwordRetry state = None then state else state\<lparr> ws_passwordRetry := None \<rparr>)"

definition resetAfterAcceptedOperation :: "ws_state \<Rightarrow> ws_state" where
  "resetAfterAcceptedOperation state =
     update_view (\<lambda>v. v\<lparr> wv_selection := selectionFromResult clearHierarchicalTableSelection \<rparr>)
       (state\<lparr> ws_passwordRetry := None \<rparr>)"

definition update_columns :: "(column_settings \<Rightarrow> column_settings) \<Rightarrow> ws_state \<Rightarrow> ws_state" where
  "update_columns f = update_view (\<lambda>v. v\<lparr> wv_tableColumns := f (wv_tableColumns v) \<rparr>)"

definition wsSetColumnWidth :: "string \<Rightarrow> jsnum \<Rightarrow> ws_state \<Rightarrow> ws_state" where
  "wsSetColumnWidth columnId width = update_columns (\<lambda>c. setColumnWidth c columnId width)"

definition wsToggleColumnVisibility :: "string \<Rightarrow> ws_state \<Rightarrow> ws_state" where
  "wsToggleColumnVisibility columnId = update_columns (\<lambda>c. toggleColumnVisibility c columnId)"

definition wsMoveColumn :: "string \<Rightarrow> move_direction \<Rightarrow> ws_state \<Rightarrow> ws_state" where
  "wsMoveColumn columnId direction = update_columns (\<lambda>c. moveColumn c columnId direction)"

definition wsReorderColumn :: "string \<Rightarrow> string \<Rightarrow> ws_state \<Rightarrow> ws_state" where
  "wsReorderColumn sourceColumnId targetColumnId =
     update_columns (\<lambda>c. reorderColumn c sourceColumnId targetColumnId)"

definition resetColumns :: "column_settings option \<Rightarrow> ws_state \<Rightarrow> ws_state" where
  "resetColumns defaults = update_columns (\<lambda>_. nullish defaults resetColumnSettings)"

definition ws_reset :: "ws_state \<Rightarrow> ws_state" where
  "ws_reset state =
     (let v = ws_view state
      in createInitialState
           \<lparr> wo_flatView = Some (wv_flatView v),
             wo_showParentFolderItem = Some (wv_showParentFolderItem v),
             wo_sortKey = Some (so_key (wv_sort v)), wo_sortAscending = Some (so_ascending (wv_sort v)) \<rparr>)"

end
