(* ===== verification/WorkspaceMachine.thy ===== *)
theory WorkspaceMachine
  imports ArchiveWorkspace
begin

text \<open>
  The archive workspace as a machine: the operations of \<^verbatim>\<open>archiveWorkspace.ts\<close> as a data type of
  inputs, the step relation they give, the invariant of the workspace state, and what navigation,
  selection, password retries and the tree of loaded folders guarantee.
\<close>

section \<open>The machine\<close>

datatype ws_op =
    OpBeginLoading begin_load
  | OpLoadSucceeded archive_listing load_options
  | OpAcceptPage listing_page
  | OpAcceptTreePage "archive_entry list"
  | OpLoadFailed load_failure
  | OpSetBrowseState browse_state "string option"
  | OpNavigateToFolder string
  | OpNavigateBack
  | OpNavigateUp
  | OpSetSearchQuery string
  | OpClearSearch
  | OpSetFlatView bool
  | OpSetRowOptions "bool option"
  | OpApplySortCommand archive_column
  | OpApplySortDirection archive_column bool
  | OpSelectAllEntries
  | OpSetPathSelected string bool
  | OpUpdateSelection table_selection
  | OpRequestPasswordRetry retry_operation "command_error option"
  | OpClearPasswordRetry
  | OpResetAfterAccepted
  | OpToggleTreeFolder string
  | OpSetColumnWidth string jsnum
  | OpToggleColumnVisibility string
  | OpMoveColumn string move_direction
  | OpReorderColumn string string
  | OpResetColumns "column_settings option"
  | OpReset

fun ws_apply :: "ws_env \<Rightarrow> ws_op \<Rightarrow> ws_state \<Rightarrow> ws_state" where
  "ws_apply env (OpBeginLoading i) = beginLoading i"
| "ws_apply env (OpLoadSucceeded l i) = loadSucceeded l i"
| "ws_apply env (OpAcceptPage p) = acceptPage p"
| "ws_apply env (OpAcceptTreePage es) = acceptTreePage es"
| "ws_apply env (OpLoadFailed e) = loadFailed e"
| "ws_apply env (OpSetBrowseState b t) = setBrowseState b t"
| "ws_apply env (OpNavigateToFolder p) = navigateToFolder p"
| "ws_apply env OpNavigateBack = navigateBack"
| "ws_apply env OpNavigateUp = navigateUp"
| "ws_apply env (OpSetSearchQuery q) = setSearchQuery q"
| "ws_apply env OpClearSearch = clearSearch"
| "ws_apply env (OpSetFlatView b) = setFlatView b"
| "ws_apply env (OpSetRowOptions b) = setRowOptions b"
| "ws_apply env (OpApplySortCommand k) = applySortCommand k"
| "ws_apply env (OpApplySortDirection k b) = applySortDirection k b"
| "ws_apply env OpSelectAllEntries = selectAllEntries env"
| "ws_apply env (OpSetPathSelected p b) = setPathSelected p b"
| "ws_apply env (OpUpdateSelection t) = updateSelection t"
| "ws_apply env (OpRequestPasswordRetry r e) = requestPasswordRetry r e"
| "ws_apply env OpClearPasswordRetry = clearPasswordRetry"
| "ws_apply env OpResetAfterAccepted = resetAfterAcceptedOperation"
| "ws_apply env (OpToggleTreeFolder p) = toggleTreeFolder p"
| "ws_apply env (OpSetColumnWidth c w) = wsSetColumnWidth c w"
| "ws_apply env (OpToggleColumnVisibility c) = wsToggleColumnVisibility c"
| "ws_apply env (OpMoveColumn c d) = wsMoveColumn c d"
| "ws_apply env (OpReorderColumn c d) = wsReorderColumn c d"
| "ws_apply env (OpResetColumns d) = resetColumns d"
| "ws_apply env OpReset = ws_reset"

inductive ws_initial :: "ws_state \<Rightarrow> bool" where
  "ws_initial (createInitialState options)"

inductive ws_step :: "ws_env \<Rightarrow> ws_state \<Rightarrow> ws_state \<Rightarrow> bool" for env where
  "ws_step env state (ws_apply env op state)"

inductive_cases ws_initialE: "ws_initial s"
inductive_cases ws_stepE: "ws_step env s s'"

section \<open>The invariant\<close>

definition normal_path :: "string \<Rightarrow> bool" where
  "normal_path p \<longleftrightarrow> normalizeArchivePath (Some p) = p"

definition normal_paths :: "string list \<Rightarrow> bool" where
  "normal_paths ps \<longleftrightarrow> distinct ps \<and> (\<forall>p \<in> set ps. normal_path p \<and> p \<noteq> [])"

definition selection_inv :: "ws_selection \<Rightarrow> bool" where
  "selection_inv sel \<longleftrightarrow>
     normal_paths (ws_selectedPaths sel) \<and> normal_paths (ws_excludedPaths sel)
     \<and> normal_path (ws_focusedPath sel) \<and> normal_path (ws_anchorPath sel)"

text \<open>The folder and all its ancestors, the root included.\<close>

definition ancestor_paths :: "string \<Rightarrow> string set" where
  "ancestor_paths f = {js_join (CHR 0x2F) ss | ss. prefix ss (path_segments f)}"

definition view_inv :: "ws_view \<Rightarrow> bool" where
  "view_inv v \<longleftrightarrow>
     normal_path (wv_currentFolder v) \<and> (\<forall>p \<in> set (wv_navigationHistory v). normal_path p)
     \<and> distinct (wv_expanded v) \<and> (\<forall>p \<in> set (wv_expanded v). normal_path p)
     \<and> ancestor_paths (wv_currentFolder v) \<subseteq> set (wv_expanded v)
     \<and> selection_inv (wv_selection v)"

definition retry_inv :: "ws_state \<Rightarrow> bool" where
  "retry_inv s \<longleftrightarrow>
     (case ws_passwordRetry s of
        None \<Rightarrow> True
      | Some r \<Rightarrow>
          pr_archivePath r = ws_currentArchivePath s \<and> 0 < pr_attemptCount r
          \<and> isPasswordRetryCommandCode (pr_commandCode r)
          \<and> pr_promptKey r = passwordPromptKeyForCommandCode (pr_commandCode r))"

definition ws_inv :: "ws_state \<Rightarrow> bool" where
  "ws_inv s \<longleftrightarrow>
     view_inv (ws_view s) \<and> retry_inv s \<and> (ws_error s \<noteq> None \<longrightarrow> ws_browseState s = BsError)"

named_theorems ws_simps

lemma normal_normalize [simp, intro]: "normal_path (normalizeArchivePath v)"
  by (cases v) (simp_all add: normal_path_def)

lemma normal_Nil [simp]: "normal_path []"
  by (simp add: normal_path_def)

lemma normal_join: "good_segments ss \<Longrightarrow> normal_path (js_join (CHR 0x2F) ss)"
  by (simp add: normal_path_def normalizeArchivePath_eq path_segments_join)

lemma normal_path_join: "normal_path p \<Longrightarrow> js_join (CHR 0x2F) (path_segments p) = p"
  by (simp add: normal_path_def normalizeArchivePath_eq)

lemma normal_paths_simps [simp]:
  "normal_paths []"
  "normal_paths ps \<Longrightarrow> normal_path p \<Longrightarrow> p \<noteq> [] \<Longrightarrow> normal_paths (set_add p ps)"
  "normal_paths ps \<Longrightarrow> normal_paths (set_delete p ps)"
  by (auto simp: normal_paths_def)

lemma normal_normalizeSelectedPaths [simp]: "normal_paths (normalizeSelectedPaths ps)"
  by (auto simp: normal_paths_def normalizeSelectedPaths_def set_collect_normalised)

lemma selectionFromResult_inv [simp]: "selection_inv (selectionFromResult t)"
  by (simp add: selection_inv_def selectionFromResult_def)

lemma empty_selection_inv [simp]: "selection_inv empty_ws_selection"
  by (simp add: selection_inv_def empty_ws_selection_def)

lemma selection_cleared: "selectionFromResult clearHierarchicalTableSelection = empty_ws_selection"
  by (simp add: selectionFromResult_def clearHierarchicalTableSelection_def empty_ws_selection_def
      normalizeSelectedPaths_def collect_normalised_def)

subsection \<open>Expanded folders\<close>

lemma set_normalizeExpanded [simp]:
  "set (normalizeExpandedTreeFolders ex) =
     insert [] ((\<lambda>f. normalizeArchivePath (Some f)) ` set (nullish ex []))"
  "distinct (normalizeExpandedTreeFolders ex)"
proof -
  have "set (fold (\<lambda>f acc. set_add (normalizeArchivePath (Some f)) acc) fs acc)
      = set acc \<union> (\<lambda>f. normalizeArchivePath (Some f)) ` set fs
      \<and> (distinct acc \<longrightarrow> distinct (fold (\<lambda>f acc. set_add (normalizeArchivePath (Some f)) acc) fs acc))"
    for fs acc
    by (induction fs arbitrary: acc) auto
  from this [where acc = "js_set [[]]" and fs = "nullish ex []"] show "set (normalizeExpandedTreeFolders ex) =
     insert [] ((\<lambda>f. normalizeArchivePath (Some f)) ` set (nullish ex []))"
    and "distinct (normalizeExpandedTreeFolders ex)"
    by (simp_all add: normalizeExpandedTreeFolders_def)
qed

lemma ancestor_paths_Nil [simp]: "ancestor_paths [] = {[]}"
  by (simp add: ancestor_paths_def)

lemma ancestor_normal: "p \<in> ancestor_paths f \<Longrightarrow> normal_path p"
  unfolding ancestor_paths_def prefix_def
  by (auto intro!: normal_join dest: arg_cong [of _ _ good_segments])

lemma ancestor_step:
  assumes "normal_path c" and "c \<noteq> []"
  shows "ancestor_paths c = insert c (ancestor_paths (nullish (getParentArchivePath (Some c)) []))"
proof -
  obtain us u where s: "path_segments c = us @ [u]"
    using assms by (metis append_butlast_last_id normal_path_join js_join.simps(1))
  have g: "good_segments us"
    using good_path_segments [of c] unfolding s by simp
  have p: "path_segments (nullish (getParentArchivePath (Some c)) []) = us"
    using g by (simp add: getParentArchivePath_eq s path_segments_join)
  show ?thesis
    using normal_path_join [OF assms(1)] unfolding ancestor_paths_def p s by auto
qed

lemma add_ancestors_set:
  assumes "normal_path c"
  shows "insert [] (set (add_ancestors c ex)) = set ex \<union> ancestor_paths c"
  using assms
proof (induction c ex rule: add_ancestors.induct)
  case (1 c ex)
  show ?case
  proof (cases "c = []")
    case True
    then show ?thesis
      by (simp add: add_ancestors.simps)
  next
    case False
    have n: "normal_path (nullish (getParentArchivePath (Some c)) [])"
      by (auto simp: getParentArchivePath_eq intro: normal_join)
    have "insert [] (set (add_ancestors c ex))
        = set (set_add c ex) \<union> ancestor_paths (nullish (getParentArchivePath (Some c)) [])"
      using 1(1) [OF False n] False by (subst add_ancestors.simps) simp
    then show ?thesis
      using ancestor_step [OF 1(2) False] by simp
  qed
qed

lemma ancestor_normalize [simp]: "ancestor_paths (normalizeArchivePath (Some f)) = ancestor_paths f"
  by (simp add: ancestor_paths_def)

lemma expanded_spec [simp]:
  "distinct (expandedFolderAndAncestors ex f)"
  "set (expandedFolderAndAncestors ex f) =
     (\<lambda>p. normalizeArchivePath (Some p)) ` set (nullish ex []) \<union> ancestor_paths f"
proof -
  let ?n = "\<lambda>p. normalizeArchivePath (Some p)"
  let ?e = "add_ancestors (?n f) (js_set (normalizeExpandedTreeFolders ex))"
  show "distinct (expandedFolderAndAncestors ex f)"
    by (simp add: expandedFolderAndAncestors_def)
  have root: "[] \<in> ancestor_paths f"
    by (auto simp: ancestor_paths_def intro: exI [of _ "[]"])
  have "insert [] (set ?e) = insert [] (?n ` set (nullish ex [])) \<union> ancestor_paths f"
    by (subst add_ancestors_set) simp_all
  then have e: "insert [] (?n ` set ?e) = insert [] (?n ` ?n ` set (nullish ex [])) \<union> ?n ` ancestor_paths f"
    by (metis image_insert image_Un normalizeArchivePath_Nil)
  have "?n ` ancestor_paths f = ancestor_paths f"
    using ancestor_normal by (force simp: normal_path_def)
  with e root show "set (expandedFolderAndAncestors ex f) = ?n ` set (nullish ex []) \<union> ancestor_paths f"
    by (auto simp: expandedFolderAndAncestors_def image_image)
qed

lemma normalize_normal_set:
  "\<forall>p \<in> set ps. normal_path p \<Longrightarrow> (\<lambda>p. normalizeArchivePath (Some p)) ` set ps = set ps"
  by (force simp: normal_path_def)

section \<open>Every operation keeps the invariant\<close>

lemma view_inv_simps [simp]:
  "view_inv (resetViewState fv so sp tc)"
  "view_inv (v\<lparr> wv_searchQuery := q \<rparr>) = view_inv v"
  "view_inv (v\<lparr> wv_flatView := b \<rparr>) = view_inv v"
  "view_inv (v\<lparr> wv_showParentFolderItem := b \<rparr>) = view_inv v"
  "view_inv (v\<lparr> wv_sort := st \<rparr>) = view_inv v"
  "view_inv (v\<lparr> wv_tableColumns := c \<rparr>) = view_inv v"
  by (simp_all add: view_inv_def resetViewState_def)

lemma view_inv_selection: "view_inv v \<Longrightarrow> selection_inv sel \<Longrightarrow> view_inv (v\<lparr> wv_selection := sel \<rparr>)"
  by (simp add: view_inv_def)

lemma view_inv_folder:
  assumes "view_inv v" and "normal_path f" and "\<forall>p \<in> set h. normal_path p" and "selection_inv sel"
  shows "view_inv (v\<lparr> wv_currentFolder := f, wv_navigationHistory := h, wv_searchQuery := q,
           wv_expanded := expandedFolderAndAncestors (Some (wv_expanded v)) f, wv_selection := sel \<rparr>)"
  using assms ancestor_normal by (auto simp: view_inv_def)

lemma retry_inv_None: "ws_passwordRetry s = None \<Longrightarrow> retry_inv s"
  by (simp add: retry_inv_def)

lemma retry_inv_same:
  "retry_inv s \<Longrightarrow> ws_passwordRetry t = ws_passwordRetry s
     \<Longrightarrow> ws_currentArchivePath t = ws_currentArchivePath s \<Longrightarrow> retry_inv t"
  by (auto simp: retry_inv_def split: option.splits)

lemma ws_inv_view:
  "ws_inv s \<Longrightarrow> view_inv (f (ws_view s)) \<Longrightarrow> ws_inv (update_view f s)"
  by (auto simp: ws_inv_def update_view_def intro: retry_inv_same)

lemma ws_invD: "ws_inv s \<Longrightarrow> view_inv (ws_view s)"
  by (simp add: ws_inv_def)

lemma createInitialState_inv: "ws_inv (createInitialState options)"
  by (simp add: ws_inv_def createInitialState_def retry_inv_def)

lemma retry_for_path:
  "retry_inv s \<Longrightarrow> ws_passwordRetry t = retryForArchivePath (ws_passwordRetry s) (ws_currentArchivePath t)
     \<Longrightarrow> retry_inv t"
  by (auto simp: retry_inv_def retryForArchivePath_def split: option.splits if_splits)

lemma beginLoading_inv: "ws_inv s \<Longrightarrow> ws_inv (beginLoading i s)"
  by (auto simp: ws_inv_def beginLoading_def Let_def intro: retry_for_path)

lemma restored_paths_normal: "normal_paths (js_set (restored_paths es ps))"
  by (auto simp: normal_paths_def restored_paths_def Let_def)

lemma restored_selection_spec [simp]:
  "sel_paths (restored_selection sp vp fp ap) = js_set sp"
  "normal_path (sel_focused (restored_selection sp vp fp ap))"
  "\<forall>p \<in> set sp. normal_path p \<Longrightarrow> normal_path (sel_anchor (restored_selection sp vp fp ap))"
proof -
  have or_normal: "normal_path (str_or a d)" if "normal_path a" and "normal_path d" for a d
    using that by (cases a) simp_all
  show "sel_paths (restored_selection sp vp fp ap) = js_set sp"
    and "normal_path (sel_focused (restored_selection sp vp fp ap))"
    and "\<forall>p \<in> set sp. normal_path p \<Longrightarrow> normal_path (sel_anchor (restored_selection sp vp fp ap))"
    by (auto simp: restored_selection_def replaceHierarchicalTableSelection_def Let_def
        first_or_empty_def split: list.split intro!: or_normal)
qed

lemma restoreViewState_inv: "view_inv (restoreViewState es ps fv so sp tc)"
proof (cases ps)
  case (Some p)
  have rp: "\<forall>q \<in> set (restored_paths es l). normal_path q" for l
    using restored_paths_normal [of es l] by (simp add: normal_paths_def)
  show ?thesis
    using ancestor_normal restored_paths_normal
    by (auto simp: restoreViewState_def Some Let_def view_inv_def selection_inv_def rp)
qed (simp add: restoreViewState_def)

lemma loadSucceeded_inv: "ws_inv (loadSucceeded l i s)"
  by (simp add: ws_inv_def loadSucceeded_def Let_def restoreViewState_inv retry_inv_def)

lemma expanded_raw_folder:
  "view_inv v \<Longrightarrow> selection_inv sel \<Longrightarrow>
   view_inv (v\<lparr> wv_currentFolder := normalizeArchivePath (Some f),
     wv_expanded := expandedFolderAndAncestors (Some (wv_expanded v)) f, wv_selection := sel \<rparr>)"
  using ancestor_normal by (auto simp: view_inv_def)

lemma acceptPage_inv: "ws_inv s \<Longrightarrow> ws_inv (acceptPage p s)"
  by (auto simp: ws_inv_def acceptPage_def Let_def retry_inv_def view_inv_def ancestor_normal)

lemma acceptTreePage_inv: "ws_inv s \<Longrightarrow> ws_inv (acceptTreePage es s)"
  by (auto simp: ws_inv_def acceptTreePage_def intro: retry_inv_same)

lemma loadFailed_inv: "ws_inv s \<Longrightarrow> ws_inv (loadFailed e s)"
  by (simp add: ws_inv_def loadFailed_def Let_def retry_inv_def)

lemma setBrowseState_inv: "ws_inv s \<Longrightarrow> ws_inv (setBrowseState b t s)"
  by (auto simp: ws_inv_def setBrowseState_def intro: retry_inv_None retry_inv_same)

lemma resolveFolder_normal [simp]: "normal_path (resolveFolderForNavigation s f)"
  by (simp add: resolveFolderForNavigation_def Let_def)

lemma existingFolder_normal [simp]: "normal_path (normalizeExistingFolderPath es f)"
  by (simp add: normalizeExistingFolderPath_def Let_def)

lemma navigateState_inv: "ws_inv s \<Longrightarrow> ws_inv (navigateStateToFolder s f b c)"
  using ancestor_normal
  by (auto simp: navigateStateToFolder_def Let_def ws_inv_def view_inv_def intro: retry_inv_same)

lemma navigateBack_inv: "ws_inv s \<Longrightarrow> ws_inv (navigateBack s)"
  using ancestor_normal
  by (auto simp: navigateBack_def Let_def ws_inv_def view_inv_def dest: in_set_butlastD intro: retry_inv_same)

lemma selectable_paths_normal:
  assumes "p \<in> set (selectableHierarchicalRowPaths (buildArchiveBrowserRows es f q fl sp))"
  shows "normal_path p"
proof -
  have direct: "normal_path p" if "p \<in> set (selectableHierarchicalRowPaths (buildDirectRows xs opts))"
    for xs and opts :: "archive_entry hier_options"
    using that by (auto simp: direct_rows selectableHierarchicalRowPaths_def)
  show ?thesis
  proof (cases "buildArchiveBrowserRows es f q fl sp \<in> range (\<lambda>(xs, opts). buildDirectRows xs opts)")
    case True
    then show ?thesis
      using assms direct by auto
  next
    case False
    then obtain opts :: "archive_entry hier_options"
      where "buildArchiveBrowserRows es f q fl sp = buildCurrentFolderRows opts"
      unfolding buildArchiveBrowserRows_def buildHierarchicalRows_def Let_def
      by (auto split: hier_mode.splits if_splits)
    with assms have "p \<in> set (selectableHierarchicalRowPaths (buildCurrentFolderRows opts))"
      by simp
    then obtain ss e where "p = js_join (CHR 0x2F) ss" and "prefix ss (row_segments opts e)"
      by (auto simp: set_selectable_folder_rows)
    then show ?thesis
      using ancestor_normal [of p] by (auto simp: ancestor_paths_def)
  qed
qed

lemma visible_selectable:
  "set (selectableHierarchicalRowPaths (visibleRowsForState env s)) =
     set (selectableHierarchicalRowPaths (buildArchiveBrowserRows (ws_entries s)
       (Some (wv_currentFolder (ws_view s))) (Some (wv_searchQuery (ws_view s))) (wv_flatView (ws_view s))
       (wv_showParentFolderItem (ws_view s))))"
  by (simp add: visibleRowsForState_def Let_def sortArchiveRows_def selectableHierarchicalRowPaths_def)

lemma selectAllEntries_inv:
  assumes "ws_inv s"
  shows "ws_inv (selectAllEntries env s)"
proof -
  have "normal_path (first_or_empty (selectableHierarchicalRowPaths (visibleRowsForState env s)))"
    using selectable_paths_normal visible_selectable [of env s]
    by (fastforce simp: first_or_empty_def split: list.split)
  with assms show ?thesis
    unfolding selectAllEntries_def Let_def
    by (intro ws_inv_view view_inv_selection) (auto simp: selection_inv_def dest: ws_invD)
qed

lemma setPathSelected_inv: "ws_inv s \<Longrightarrow> ws_inv (setPathSelected p b s)"
  using ws_invD [of s]
  by (auto simp: setPathSelected_def Let_def selection_inv_def view_inv_def normal_path_def
      simp del: normalize_eq_Nil intro!: ws_inv_view)

lemma updateSelection_inv: "ws_inv s \<Longrightarrow> ws_inv (updateSelection t s)"
  unfolding updateSelection_def by (intro ws_inv_view view_inv_selection) (auto dest: ws_invD)

lemma requestPasswordRetry_inv: "ws_inv s \<Longrightarrow> ws_inv (requestPasswordRetry r e s)"
  by (auto simp: ws_inv_def requestPasswordRetry_def retry_inv_def passwordRetryForCommandError_def Let_def
      split: option.splits)

lemma clearPasswordRetry_inv: "ws_inv s \<Longrightarrow> ws_inv (clearPasswordRetry s)"
  by (auto simp: ws_inv_def clearPasswordRetry_def intro: retry_inv_None)

lemma resetAfterAccepted_inv: "ws_inv s \<Longrightarrow> ws_inv (resetAfterAcceptedOperation s)"
  by (auto simp: ws_inv_def resetAfterAcceptedOperation_def update_view_def
      intro: view_inv_selection retry_inv_None)

lemma toggleTreeFolder_inv: "ws_inv s \<Longrightarrow> ws_inv (toggleTreeFolder p s)"
  using ws_invD [of s] ancestor_normal
  by (auto simp: toggleTreeFolder_def Let_def view_inv_def simp del: normalize_eq_Nil intro!: ws_inv_view)

lemmas view_only_ops =
  setSearchQuery_def clearSearch_def setFlatView_def setRowOptions_def applySortCommand_def
  applySortDirection_def update_columns_def wsSetColumnWidth_def wsToggleColumnVisibility_def
  wsMoveColumn_def wsReorderColumn_def resetColumns_def

lemma view_only_inv:
  assumes "ws_inv s"
  shows "ws_inv (setSearchQuery q s)" "ws_inv (clearSearch s)" "ws_inv (setFlatView b s)"
    "ws_inv (setRowOptions o' s)" "ws_inv (applySortCommand k s)" "ws_inv (applySortDirection k b s)"
    "ws_inv (update_columns f s)"
  using assms by (auto simp: view_only_ops dest: ws_invD intro!: ws_inv_view)

lemmas ws_op_inv =
  beginLoading_inv loadSucceeded_inv acceptPage_inv acceptTreePage_inv loadFailed_inv setBrowseState_inv
  navigateState_inv navigateBack_inv selectAllEntries_inv setPathSelected_inv updateSelection_inv
  requestPasswordRetry_inv clearPasswordRetry_inv resetAfterAccepted_inv toggleTreeFolder_inv
  view_only_inv createInitialState_inv

lemma ws_apply_inv: "ws_inv s \<Longrightarrow> ws_inv (ws_apply env op s)"
  by (cases op)
    (simp_all add: ws_op_inv navigateToFolder_def navigateUp_def ws_reset_def Let_def
      wsSetColumnWidth_def wsToggleColumnVisibility_def wsMoveColumn_def wsReorderColumn_def resetColumns_def)

interpretation workspace: machine ws_initial "ws_step env" ws_inv for env
  by unfold_locales (auto elim!: ws_initialE ws_stepE intro: createInitialState_inv ws_apply_inv)

end
