(* ===== verification/WorkspaceProps.thy ===== *)
theory WorkspaceProps
  imports WorkspaceMachine
begin

text \<open>
  What the operations of the archive workspace guarantee: the invariant on every reachable state, the
  entry paths a selection stands for, the requests sent to the backend, the selection as a set of paths,
  navigation and back, the summary of loaded folders, and counting password attempts.
\<close>

section \<open>Reading the entry map\<close>

lemma map_of_getEntryMap:
  "map_of (getEntryMap es) k =
     (case filter (\<lambda>e. normalizeArchivePath (Some (ae_path e)) = k) es of
        [] \<Rightarrow> None | x # xs \<Rightarrow> Some (last (x # xs)))"
  unfolding getEntryMap_def
proof (induction es rule: rev_induct)
  case (snoc e es)
  then show ?case
    by (auto simp: update_conv' split: list.splits)
qed simp

lemma entryByPath_Some:
  assumes "entryByPath es (Some p) = Some e"
  shows "e \<in> set es" and "entry_segments e = path_segments p" and "p \<noteq> []"
proof -
  have p: "p \<noteq> []" and m: "map_of (getEntryMap es) (normalizeArchivePath (Some p)) = Some e"
    using assms by (auto simp: entryByPath_def split: if_splits)
  let ?xs = "filter (\<lambda>e. normalizeArchivePath (Some (ae_path e)) = normalizeArchivePath (Some p)) es"
  have "?xs \<noteq> [] \<and> e = last ?xs"
    using m unfolding map_of_getEntryMap by (cases ?xs) auto
  then have "e \<in> set ?xs"
    by (metis last_in_set)
  then have i: "e \<in> set es" and n: "normalizeArchivePath (Some (ae_path e)) = normalizeArchivePath (Some p)"
    by auto
  from n have "path_segments (ae_path e) = path_segments p"
    by (metis path_segments_normalize option_segments_simps(2))
  with i p show "e \<in> set es" and "entry_segments e = path_segments p" and "p \<noteq> []"
    by simp_all
qed

lemma entryByPath_None:
  assumes "entryByPath es (Some p) = None" and "p \<noteq> []" and "e \<in> set es"
  shows "entry_segments e \<noteq> path_segments p"
proof
  assume "entry_segments e = path_segments p"
  then have n: "normalizeArchivePath (Some (ae_path e)) = normalizeArchivePath (Some p)"
    by (simp add: normalizeArchivePath_eq)
  with assms(1,2) have "filter (\<lambda>e. normalizeArchivePath (Some (ae_path e)) = normalizeArchivePath (Some p)) es = []"
    unfolding entryByPath_def map_of_getEntryMap by (auto split: list.splits)
  with n assms(3) show False
    by (auto simp: filter_empty_conv)
qed

lemma under_folder_eq [path_simps]:
  "archiveEntryIsUnderFolder e f \<longleftrightarrow> prefix (path_segments f) (path_segments e)"
  using prefix_join [OF good_path_segments good_path_segments, of f e]
  by (cases "path_segments f = []")
    (simp_all add: archiveEntryIsUnderFolder_def normalizeArchivePath_eq js_join_good_eq_Nil Let_def)

lemma set_fileDescendants [simp]:
  "set (fileDescendantEntryPaths es f) =
     {ae_path e | e. e \<in> set es \<and> ae_kind e \<noteq> KDirectory \<and> prefix (path_segments f) (entry_segments e)}"
  by (auto simp: fileDescendantEntryPaths_def under_folder_eq)

section \<open>The entries of a selection\<close>

abbreviation known_entries :: "ws_state \<Rightarrow> archive_entry set" where
  "known_entries s \<equiv> set (ws_entries s) \<union> set (ws_treeEntries s)"

abbreviation ws_selected :: "ws_state \<Rightarrow> string list" where
  "ws_selected s \<equiv> ws_selectedPaths (wv_selection (ws_view s))"

abbreviation ws_all :: "ws_state \<Rightarrow> bool" where
  "ws_all s \<equiv> ws_allSelected (wv_selection (ws_view s))"

text \<open>The entry that a selected path names, if any is loaded.\<close>

definition selected_entry :: "ws_state \<Rightarrow> string \<Rightarrow> archive_entry option" where
  "selected_entry s p =
     (case entryByPath (ws_entries s) (Some p) of
        Some e \<Rightarrow> Some e | None \<Rightarrow> entryByPath (ws_treeEntries s) (Some p))"

definition files_under :: "ws_state \<Rightarrow> string \<Rightarrow> string set" where
  "files_under s p =
     {ae_path e | e. e \<in> known_entries s \<and> ae_kind e \<noteq> KDirectory \<and> prefix (path_segments p) (entry_segments e)}"

lemma selected_entry_Some:
  assumes "selected_entry s p = Some e"
  shows "e \<in> known_entries s" and "entry_segments e = path_segments p"
  using assms entryByPath_Some [of "ws_entries s" p e] entryByPath_Some [of "ws_treeEntries s" p e]
  by (auto simp: selected_entry_def split: option.splits)

lemma files_underE:
  assumes "x \<in> files_under s p"
  obtains e where "x = ae_path e" and "e \<in> known_entries s" and "ae_kind e \<noteq> KDirectory"
    and "prefix (path_segments p) (entry_segments e)"
  using assms by (auto simp: files_under_def)

lemma files_under_entry: "selected_entry s p = Some e \<Longrightarrow> files_under s (ae_path e) = files_under s p"
  by (simp add: files_under_def selected_entry_Some(2))

lemma set_extract_paths_step:
  "set (extract_paths_step s p acc) =
     (case selected_entry s p of
        None \<Rightarrow>
          set acc \<union> files_under s p
            \<union> (if set acc \<union> files_under s p = {} \<and> js_trim p \<noteq> [] then {p} else {})
      | Some e \<Rightarrow>
          set acc \<union> (if ae_kind e \<noteq> KDirectory \<or> files_under s p = {} then {ae_path e} else files_under s p))"
proof (cases "selected_entry s p")
  case None
  let ?found = "set_add_all (fileDescendantEntryPaths (ws_treeEntries s) p)
    (set_add_all (fileDescendantEntryPaths (ws_entries s) p) acc)"
  have f: "set ?found = set acc \<union> files_under s p"
    by (auto simp: files_under_def)
  then have "?found = [] \<longleftrightarrow> set acc \<union> files_under s p = {}"
    by (metis set_empty)
  moreover have "extract_paths_step s p acc =
      (if ?found = [] \<and> js_trim p \<noteq> [] then set_add p ?found else ?found)"
    using None by (simp add: extract_paths_step_def selected_entry_def Let_def split: option.splits)
  ultimately show ?thesis
    using f None by (simp only: option.case if_distrib [of set] set_set_add) auto
next
  case (Some e)
  let ?d = "js_set (fileDescendantEntryPaths (ws_entries s) (ae_path e)
    @ fileDescendantEntryPaths (ws_treeEntries s) (ae_path e))"
  have d: "set ?d = files_under s p"
    unfolding files_under_entry [OF Some, symmetric] by (auto simp: files_under_def)
  then have "?d = [] \<longleftrightarrow> files_under s p = {}"
    by (metis set_empty)
  moreover have "extract_paths_step s p acc =
      (if ae_kind e \<noteq> KDirectory then set_add (ae_path e) acc
       else if ?d = [] then set_add (ae_path e) acc else set_add_all ?d acc)"
    using Some by (simp add: extract_paths_step_def selected_entry_def Let_def split: option.splits)
  ultimately show ?thesis
    using d Some by (simp only: option.case if_distrib [of set] set_set_add set_set_add_all) auto
qed

lemma extract_paths_step_distinct: "distinct acc \<Longrightarrow> distinct (extract_paths_step s p acc)"
  by (auto simp: extract_paths_step_def Let_def split: option.split)

lemma extract_fold_mono: "set acc \<subseteq> set (fold (extract_paths_step s) ps acc)"
proof (induction ps arbitrary: acc)
  case (Cons p ps)
  have "set acc \<subseteq> set (extract_paths_step s p acc)"
    by (auto simp: set_extract_paths_step split: option.split)
  with Cons show ?case
    by fastforce
qed simp

lemma extract_fold_distinct: "distinct acc \<Longrightarrow> distinct (fold (extract_paths_step s) ps acc)"
  by (induction ps arbitrary: acc) (simp_all add: extract_paths_step_distinct)

lemma extract_fold_covers:
  assumes "p \<in> set ps"
  shows "(case selected_entry s p of
            None \<Rightarrow> files_under s p
          | Some e \<Rightarrow> if ae_kind e \<noteq> KDirectory \<or> files_under s p = {} then {ae_path e} else files_under s p)
      \<subseteq> set (fold (extract_paths_step s) ps acc)"
proof -
  obtain us vs where ps: "ps = us @ p # vs"
    using assms by (meson split_list)
  let ?acc = "extract_paths_step s p (fold (extract_paths_step s) us acc)"
  have "set ?acc \<subseteq> set (fold (extract_paths_step s) ps acc)"
    using extract_fold_mono [of ?acc s vs] by (simp add: ps)
  then show ?thesis
    unfolding set_extract_paths_step by (auto split: option.splits if_splits)
qed

lemma extract_fold_sound:
  "x \<in> set (fold (extract_paths_step s) ps acc) \<Longrightarrow>
     x \<in> set acc
     \<or> (\<exists>p \<in> set ps. x = p \<and> selected_entry s p = None \<and> files_under s p = {})
     \<or> (\<exists>p \<in> set ps. \<exists>e. selected_entry s p = Some e \<and> x = ae_path e
          \<and> (ae_kind e \<noteq> KDirectory \<or> files_under s p = {}))
     \<or> (\<exists>p \<in> set ps. x \<in> files_under s p)"
proof (induction ps arbitrary: acc)
  case (Cons p ps)
  from Cons.prems have "x \<in> set (fold (extract_paths_step s) ps (extract_paths_step s p acc))"
    by simp
  then show ?case
    by (rule Cons.IH [THEN disjE])
      (auto simp: set_extract_paths_step split: option.splits if_splits)
qed simp

section \<open>The summary of loaded folders\<close>

abbreviation entry_key :: "archive_entry \<Rightarrow> string" where
  "entry_key e \<equiv> normalizeArchivePath (Some (ae_path e))"

abbreviation is_dir :: "archive_entry \<Rightarrow> bool" where
  "is_dir e \<equiv> ae_kind e = KDirectory"

definition merge_step :: "archive_entry \<Rightarrow> (string \<times> archive_entry) list \<Rightarrow> (string \<times> archive_entry) list" where
  "merge_step entry byPath =
     (if is_dir entry \<and> (map_of byPath (entry_key entry) \<noteq> None \<or> length byPath < MAX_ARCHIVE_TREE_SUMMARIES)
      then AList.update (entry_key entry) entry byPath else byPath)"

definition merge_start :: "archive_entry list \<Rightarrow> (string \<times> archive_entry) list" where
  "merge_start existing = fold (\<lambda>entry. AList.update (entry_key entry) entry) (filter is_dir existing) []"

lemma mergeTreeEntries_eq:
  "mergeTreeEntries existing page = map snd (fold merge_step page (merge_start existing))"
  by (simp add: mergeTreeEntries_def merge_step_def [abs_def] merge_start_def Let_def)

text \<open>Keyed directories: distinct keys, every value a directory under its own path, taken from a given set.\<close>

definition keyed_dirs :: "archive_entry set \<Rightarrow> (string \<times> archive_entry) list \<Rightarrow> bool" where
  "keyed_dirs E al \<longleftrightarrow>
     distinct (map fst al) \<and> (\<forall>(k, e) \<in> set al. k = entry_key e \<and> is_dir e \<and> e \<in> E)"

lemma keyed_Nil: "keyed_dirs E []"
  by (simp add: keyed_dirs_def)

lemma keyed_update:
  assumes "keyed_dirs E al" and "is_dir e" and "e \<in> E"
  shows "keyed_dirs E (AList.update (entry_key e) e al)"
proof -
  have "distinct (map fst (AList.update (entry_key e) e al))"
    using assms(1) by (simp add: keyed_dirs_def distinct_update)
  moreover have "\<forall>(k, e') \<in> set (AList.update (entry_key e) e al). k = entry_key e' \<and> is_dir e' \<and> e' \<in> E"
    using assms by (auto simp: keyed_dirs_def dest!: in_set_update)
  ultimately show ?thesis
    by (simp add: keyed_dirs_def)
qed

lemma keyed_mono: "keyed_dirs E al \<Longrightarrow> E \<subseteq> F \<Longrightarrow> keyed_dirs F al"
  by (auto simp: keyed_dirs_def)

lemma keyed_paths: "keyed_dirs E al \<Longrightarrow> map entry_key (map snd al) = map fst al"
  by (auto simp: keyed_dirs_def)

lemma length_alist_update:
  "length (AList.update k v al) = (if k \<in> fst ` set al then length al else Suc (length al))"
  by (induction al) auto

lemma merge_start_spec:
  "keyed_dirs (set existing) (merge_start existing)
   \<and> fst ` set (merge_start existing) = entry_key ` {e \<in> set existing. is_dir e}"
proof -
  have "keyed_dirs E al \<Longrightarrow> set es \<subseteq> E \<Longrightarrow> \<forall>e \<in> set es. is_dir e \<Longrightarrow>
      keyed_dirs E (fold (\<lambda>e. AList.update (entry_key e) e) es al)
      \<and> fst ` set (fold (\<lambda>e. AList.update (entry_key e) e) es al) = fst ` set al \<union> entry_key ` set es"
    for es al E
  proof (induction es arbitrary: al)
    case (Cons e es)
    have "keyed_dirs E (AList.update (entry_key e) e al)"
      using Cons.prems by (intro keyed_update) simp_all
    from Cons.IH [OF this] Cons.prems(2,3) show ?case
      by (simp add: dom_update)
  qed simp
  note fold_spec = this
  have sub: "set (filter is_dir existing) \<subseteq> set existing" and dirs: "\<forall>e \<in> set (filter is_dir existing). is_dir e"
    by auto
  have "keyed_dirs (set existing) (merge_start existing)
      \<and> fst ` set (merge_start existing) = fst ` set ([] :: (string \<times> archive_entry) list) \<union> entry_key ` set (filter is_dir existing)"
    unfolding merge_start_def by (rule fold_spec [OF keyed_Nil sub dirs])
  then show ?thesis
    by (simp only: set_filter list.set image_empty Un_empty_left)
qed

lemma merge_fold:
  assumes "keyed_dirs E al" and "set page \<subseteq> E"
  shows "keyed_dirs E (fold merge_step page al)
    \<and> fst ` set al \<subseteq> fst ` set (fold merge_step page al)
    \<and> length al \<le> length (fold merge_step page al)
    \<and> length (fold merge_step page al) \<le> max (length al) MAX_ARCHIVE_TREE_SUMMARIES
    \<and> (length (fold merge_step page al) < MAX_ARCHIVE_TREE_SUMMARIES \<longrightarrow>
         entry_key ` {e \<in> set page. is_dir e} \<subseteq> fst ` set (fold merge_step page al))"
  using assms
proof (induction page arbitrary: al)
  case (Cons e page)
  let ?al = "merge_step e al"
  have step: "keyed_dirs E ?al" and keys: "fst ` set al \<subseteq> fst ` set ?al" and len: "length al \<le> length ?al"
    and bound: "length ?al \<le> max (length al) MAX_ARCHIVE_TREE_SUMMARIES"
    and new: "is_dir e \<Longrightarrow> length ?al < MAX_ARCHIVE_TREE_SUMMARIES \<Longrightarrow> entry_key e \<in> fst ` set ?al"
    using Cons.prems keyed_update [of E al e]
    by (auto simp: merge_step_def dom_update length_alist_update max_def map_of_eq_None_iff split: if_splits)
  from Cons.IH [OF step] Cons.prems(2) have ih:
    "keyed_dirs E (fold merge_step page ?al)"
    "fst ` set ?al \<subseteq> fst ` set (fold merge_step page ?al)"
    "length ?al \<le> length (fold merge_step page ?al)"
    "length (fold merge_step page ?al) \<le> max (length ?al) MAX_ARCHIVE_TREE_SUMMARIES"
    "length (fold merge_step page ?al) < MAX_ARCHIVE_TREE_SUMMARIES \<Longrightarrow>
       entry_key ` {e \<in> set page. is_dir e} \<subseteq> fst ` set (fold merge_step page ?al)"
    by simp_all
  let ?F = "fold merge_step page ?al"
  have "fst ` set al \<subseteq> fst ` set ?F"
    using keys ih(2) by (rule subset_trans)
  moreover have "length al \<le> length ?F" "length ?F \<le> max (length al) MAX_ARCHIVE_TREE_SUMMARIES"
    using len bound ih(3,4) by auto
  moreover have "entry_key ` {x \<in> set (e # page). is_dir x} \<subseteq> fst ` set ?F"
    if "length ?F < MAX_ARCHIVE_TREE_SUMMARIES"
    using that new ih(2,3) ih(5) [OF that] by auto
  ultimately show ?case
    using ih(1) by simp
qed simp

section \<open>Selected paths\<close>

definition path_selected :: "ws_state \<Rightarrow> string \<Rightarrow> bool" where
  "path_selected s p \<longleftrightarrow>
     (if ws_all s then p \<notin> set (ws_excludedPaths (wv_selection (ws_view s))) else p \<in> set (ws_selected s))"

section \<open>Sample states\<close>

definition no_options :: workspace_options where
  "no_options = \<lparr> wo_flatView = None, wo_showParentFolderItem = None, wo_sortKey = None, wo_sortAscending = None \<rparr>"

text \<open>An archive listed completely, with the given paths selected and nothing else set.\<close>

definition sample_ws :: "archive_entry list \<Rightarrow> string \<Rightarrow> string list \<Rightarrow> ws_state" where
  "sample_ws es folder selected =
     \<lparr> ws_currentArchivePath = ''a.zip'', ws_browseState = BsLoaded,
       ws_status = loaded_status (js_nat (length es)), ws_error = None, ws_passwordRetry = None,
       ws_entries = es, ws_treeEntries = es, ws_entryCount = js_nat (length es), ws_totalSize = None,
       ws_listingRevision = 1, ws_page = first_page (js_nat (length es)),
       ws_view =
         \<lparr> wv_currentFolder = folder, wv_navigationHistory = [], wv_searchQuery = [], wv_flatView = False,
           wv_expanded = [[]], wv_sort = \<lparr> so_key = AcName, so_ascending = True \<rparr>,
           wv_tableColumns = \<lparr> cs_visible = [], cs_order = [], cs_widths = [] \<rparr>,
           wv_showParentFolderItem = False,
           wv_selection =
             \<lparr> ws_allSelected = False, ws_excludedPaths = [], ws_selectedPaths = selected,
               ws_focusedPath = [], ws_anchorPath = [] \<rparr> \<rparr> \<rparr>"

definition plain_env :: ws_env where
  "plain_env =
     \<lparr> en_tableCollate = code_unit_compare, en_pathCollate = code_unit_compare,
       en_format = \<lparr> fm_number = (\<lambda>_ _. []), fm_dateParse = (\<lambda>_. None), fm_date = (\<lambda>_. []), fm_t = None \<rparr> \<rparr>"

definition sample_entries :: "archive_entry list" where
  "sample_entries =
     [bare_entry ''src'' KDirectory, bare_entry ''src/main.c'' KFile, bare_entry ''src/lib/util.c'' KFile,
      bare_entry ''docs'' KDirectory, bare_entry ''README'' KFile]"

section \<open>Properties\<close>

text \<open>C1: In every state the archive workspace can reach, whatever operations ran, the current folder, the
  history, the expanded folders and the selection hold normalised paths, selected and excluded paths are
  distinct and non-empty, the tree is expanded down to the current folder, an error is kept only in the
  error state, and a pending password retry belongs to the open archive and counts at least one attempt.\<close>

theorem workspace_invariant:
  assumes "reachable ws_initial (ws_step env) s"
  shows "ws_inv s"
  using assms by (rule workspace.reachable_inv)

theorem workspace_invariant_witness:
  "ws_inv (run_inputs (ws_apply plain_env)
     [OpLoadSucceeded
        \<lparr> al_archivePath = '' a.zip '', al_entries = sample_entries, al_entryCount = Fin 5, al_totalSize = None \<rparr>
        \<lparr> lo_preserveState = None, lo_defaultTableColumns = None \<rparr>,
      OpNavigateToFolder ''src//lib/'', OpSetPathSelected ''src/lib/util.c'' True, OpNavigateBack]
     (createInitialState no_options))"
  by (rule workspace_invariant [of plain_env], rule reachable_run,
      rule ws_step.intros, rule reachable.start, rule ws_initial.intros)

text \<open>C2: Extracting a selection sends every file of it: a loaded file under a selected path is sent, unless
  the selected path itself names another file.\<close>

theorem extract_selection_complete:
  assumes "\<not> ws_all s" and "p \<in> set (ws_selected s)" and "e \<in> known_entries s"
    and "ae_kind e \<noteq> KDirectory" and "prefix (path_segments p) (entry_segments e)"
    and "\<forall>f. selected_entry s p = Some f \<longrightarrow> f = e \<or> is_dir f"
  shows "ae_path e \<in> set (selectedExtractEntryPaths s)"
proof -
  have u: "ae_path e \<in> files_under s p"
    using assms(3-5) by (auto simp: files_under_def)
  then have "ae_path e \<in> (case selected_entry s p of
      None \<Rightarrow> files_under s p
    | Some f \<Rightarrow> if ae_kind f \<noteq> KDirectory \<or> files_under s p = {} then {ae_path f} else files_under s p)"
    using assms(6) by (auto split: option.split)
  with extract_fold_covers [OF assms(2), of s "[]"] assms(1) show ?thesis
    by (auto simp: selectedExtractEntryPaths_def)
qed

theorem extract_selection_complete_witness:
  "''src/lib/util.c'' \<in> set (selectedExtractEntryPaths (sample_ws sample_entries [] [''src'']))"
proof -
  let ?s = "sample_ws sample_entries [] [''src'']"
  have "ae_path (bare_entry ''src/lib/util.c'' KFile) \<in> set (selectedExtractEntryPaths ?s)"
  proof (rule extract_selection_complete [of ?s "''src''"])
    show "\<not> ws_all ?s" by code_simp
    show "''src'' \<in> set (ws_selected ?s)" by code_simp
    have "ws_entries ?s = sample_entries" by code_simp
    then show "bare_entry ''src/lib/util.c'' KFile \<in> known_entries ?s" by (simp add: sample_entries_def)
    show "prefix (path_segments ''src'') (entry_segments (bare_entry ''src/lib/util.c'' KFile))"
      unfolding bare_entry_sel by code_simp
    have "selected_entry ?s ''src'' = Some (bare_entry ''src'' KDirectory)" by code_simp
    then show "\<forall>f. selected_entry ?s ''src'' = Some f \<longrightarrow>
        f = bare_entry ''src/lib/util.c'' KFile \<or> is_dir f"
      by simp
  qed simp
  then show ?thesis
    by simp
qed

text \<open>C3: Extracting a selection sends nothing else: each path sent is a loaded file at or under a selected
  path, or stands for a selected path under which no file is loaded (an empty or not yet loaded folder);
  no path is sent twice.\<close>

theorem extract_selection_sound:
  assumes "x \<in> set (selectedExtractEntryPaths s)"
  shows "distinct (selectedExtractEntryPaths s) \<and>
    (\<exists>p \<in> set (ws_selected s).
       (\<exists>e \<in> known_entries s. x = ae_path e \<and> ae_kind e \<noteq> KDirectory
          \<and> prefix (path_segments p) (entry_segments e))
       \<or> (files_under s p = {} \<and> (x = p \<and> selected_entry s p = None
            \<or> (\<exists>e. selected_entry s p = Some e \<and> is_dir e \<and> x = ae_path e))))"
proof -
  have f: "x \<in> set (fold (extract_paths_step s) (ws_selected s) [])"
    using assms by (auto simp: selectedExtractEntryPaths_def split: if_splits)
  have d: "distinct (selectedExtractEntryPaths s)"
    by (simp add: selectedExtractEntryPaths_def extract_fold_distinct)
  have sent: ?thesis if "p \<in> set (ws_selected s)" and "x = ae_path e" and "e \<in> known_entries s"
    and "ae_kind e \<noteq> KDirectory" and "prefix (path_segments p) (entry_segments e)" for p e
    by (intro conjI d bexI [OF _ that(1)] disjI1 bexI [OF _ that(3)] that)
  have standing: ?thesis if "p \<in> set (ws_selected s)" and "files_under s p = {}"
    and "x = p \<and> selected_entry s p = None \<or> (\<exists>e. selected_entry s p = Some e \<and> is_dir e \<and> x = ae_path e)" for p
    by (intro conjI d bexI [OF _ that(1)] disjI2 that)
  from extract_fold_sound [OF f] consider
      (unknown) p where "p \<in> set (ws_selected s)" "x = p" "selected_entry s p = None" "files_under s p = {}"
    | (named) p e where "p \<in> set (ws_selected s)" "selected_entry s p = Some e" "x = ae_path e"
        "ae_kind e \<noteq> KDirectory \<or> files_under s p = {}"
    | (below) p where "p \<in> set (ws_selected s)" "x \<in> files_under s p"
    by auto
  then show ?thesis
  proof cases
    case unknown
    show ?thesis by (rule standing [OF unknown(1,4)]) (use unknown in simp)
  next
    case named
    show ?thesis
    proof (cases "is_dir e")
      case True
      with named show ?thesis by (intro standing [of p]) simp_all
    next
      case False
      with named selected_entry_Some [OF named(2)] show ?thesis by (intro sent [of p e]) simp_all
    qed
  next
    case below
    from below(2) show ?thesis by (rule files_underE) (rule sent [OF below(1)])
  qed
qed

theorem extract_selection_sound_witness:
  "\<exists>p \<in> set (ws_selected (sample_ws sample_entries [] [''docs''])).
     (\<exists>e \<in> known_entries (sample_ws sample_entries [] [''docs'']).
        ''docs'' = ae_path e \<and> ae_kind e \<noteq> KDirectory \<and> prefix (path_segments p) (entry_segments e))
     \<or> (files_under (sample_ws sample_entries [] [''docs'']) p = {}
        \<and> (''docs'' = p \<and> selected_entry (sample_ws sample_entries [] [''docs'']) p = None
          \<or> (\<exists>e. selected_entry (sample_ws sample_entries [] [''docs'']) p = Some e
               \<and> is_dir e \<and> ''docs'' = ae_path e)))"
proof -
  have "''docs'' \<in> set (selectedExtractEntryPaths (sample_ws sample_entries [] [''docs'']))"
    by code_simp
  from extract_selection_sound [OF this] show ?thesis
    by (rule conjunct2)
qed

text \<open>A selected folder that is not loaded is sent only when no path was collected before it, so the order
  of the selection decides whether it is extracted.\<close>

lemma unloaded_folder_is_dropped:
  "selectedExtractEntryPaths (sample_ws sample_entries [] [''README'', ''later''])
     = [''README'']
   \<and> selectedExtractEntryPaths (sample_ws sample_entries [] [''later'', ''README''])
     = [''later'', ''README'']"
  by code_simp

text \<open>Ticking or clearing one row changes the selection of that path and of no other, in the mode that
  lists the selected paths and in the mode that lists the exceptions; the mode itself is kept.\<close>

theorem set_path_selected:
  assumes "normalizeArchivePath (Some p) \<noteq> []"
  shows "path_selected (setPathSelected p b s) q =
      (if q = normalizeArchivePath (Some p) then b else path_selected s q)
    \<and> ws_all (setPathSelected p b s) = ws_all s"
  using assms
  by (cases "ws_all s")
    (auto simp: setPathSelected_def Let_def path_selected_def update_view_def simp del: normalize_eq_Nil)

theorem set_path_selected_witness:
  "path_selected (setPathSelected ''docs/'' False (sample_ws sample_entries [] [''docs'', ''README''])) ''README''"
proof -
  have "normalizeArchivePath (Some ''docs/'') \<noteq> []" by code_simp
  from set_path_selected [OF this, of False "sample_ws sample_entries [] [''docs'', ''README'']" "''README''"]
  have "path_selected (setPathSelected ''docs/'' False (sample_ws sample_entries [] [''docs'', ''README''])) ''README''
    = (if ''README'' = normalizeArchivePath (Some ''docs/'') then False
       else path_selected (sample_ws sample_entries [] [''docs'', ''README'']) ''README'')"
    by (rule conjunct1)
  also have "\<dots>" by code_simp
  finally show ?thesis .
qed

text \<open>Navigating into a folder and back returns to the folder and history one came from, with an empty
  selection and the tree still expanded down to it, provided the folder one came from is listed.\<close>

theorem navigate_there_and_back:
  assumes "ws_inv s" and "resolveFolderForNavigation s (Some f) \<noteq> wv_currentFolder (ws_view s)"
    and "archiveFolderExists (ws_entries s) (Some (wv_currentFolder (ws_view s)))"
  shows "let v = ws_view (navigateBack (navigateToFolder f s))
    in wv_currentFolder v = wv_currentFolder (ws_view s)
     \<and> wv_navigationHistory v = wv_navigationHistory (ws_view s)
     \<and> wv_selection v = empty_ws_selection \<and> wv_searchQuery v = []
     \<and> ancestor_paths (wv_currentFolder (ws_view s)) \<subseteq> set (wv_expanded v)"
proof -
  let ?c = "wv_currentFolder (ws_view s)"
  have "normalizeArchivePath (Some ?c) = ?c"
    using assms(1) by (simp add: ws_inv_def view_inv_def normal_path_def)
  then have returns: "normalizeExistingFolderPath (ws_entries s) (Some ?c) = ?c"
    using assms(3) by (simp add: normalizeExistingFolderPath_def Let_def del: normalize_eq_Nil)
  show ?thesis
    using assms(2)
    by (simp add: navigateBack_def navigateToFolder_def navigateStateToFolder_def Let_def returns
        selection_cleared)
qed

lemma sample_ws_inv: "ws_inv (sample_ws es [] [])"
  by (simp add: sample_ws_def ws_inv_def retry_inv_def view_inv_def selection_inv_def)

theorem navigate_there_and_back_witness:
  "wv_currentFolder (ws_view (navigateBack (navigateToFolder ''src//lib'' (sample_ws sample_entries [] [])))) = []"
proof -
  let ?s = "sample_ws sample_entries [] []"
  have "resolveFolderForNavigation ?s (Some ''src//lib'') \<noteq> wv_currentFolder (ws_view ?s)" by code_simp
  moreover have "archiveFolderExists (ws_entries ?s) (Some (wv_currentFolder (ws_view ?s)))" by code_simp
  ultimately have "wv_currentFolder (ws_view (navigateBack (navigateToFolder ''src//lib'' ?s)))
      = wv_currentFolder (ws_view ?s)"
    using navigate_there_and_back [OF sample_ws_inv] unfolding Let_def by blast
  then show ?thesis
    by (simp add: sample_ws_def)
qed

text \<open>Back looks the folder up in the listed entries only, not in the folders loaded for the tree that forward
  navigation accepts, so from a paged listing it can end at the root.\<close>

lemma back_loses_unlisted_folder:
  "let s = (sample_ws [bare_entry ''a/b/x'' KFile] ''a'' [])
             \<lparr> ws_entries := [bare_entry ''c/y'' KFile], ws_treeEntries := [bare_entry ''a'' KDirectory] \<rparr>
   in resolveFolderForNavigation s (Some ''a'') = ''a''
    \<and> wv_currentFolder (ws_view (navigateToFolder ''c'' s)) = ''c''
    \<and> wv_currentFolder (ws_view (navigateBack (navigateToFolder ''c'' s))) = []"
  by code_simp

text \<open>Merging a page into the tree summary keeps only directories, one per path, each the entry of the
  summary or of the page; it forgets no folder, never grows past the limit of 10000 unless it was there
  already, and takes every folder of the page as long as the limit is not reached.\<close>

theorem tree_summary_merge:
  "set (mergeTreeEntries existing page) \<subseteq> {e \<in> set existing \<union> set page. is_dir e}
   \<and> distinct (map entry_key (mergeTreeEntries existing page))
   \<and> entry_key ` {e \<in> set existing. is_dir e} \<subseteq> entry_key ` set (mergeTreeEntries existing page)
   \<and> length (mergeTreeEntries existing page)
       \<le> max (card (entry_key ` {e \<in> set existing. is_dir e})) MAX_ARCHIVE_TREE_SUMMARIES
   \<and> (length (mergeTreeEntries existing page) < MAX_ARCHIVE_TREE_SUMMARIES \<longrightarrow>
       entry_key ` {e \<in> set page. is_dir e} \<subseteq> entry_key ` set (mergeTreeEntries existing page))"
proof -
  let ?al = "merge_start existing" and ?r = "fold merge_step page (merge_start existing)"
  let ?E = "set existing \<union> set page"
  have start: "keyed_dirs ?E ?al" and keys: "fst ` set ?al = entry_key ` {e \<in> set existing. is_dir e}"
    using merge_start_spec [of existing] by (auto intro: keyed_mono)
  have "length ?al = card (fst ` set ?al)"
    using start by (metis distinct_card keyed_dirs_def length_map list.set_map)
  then have len: "length ?al = card (entry_key ` {e \<in> set existing. is_dir e})"
    by (simp only: keys)
  note res = merge_fold [OF start, of page, simplified]
  have out: "map entry_key (mergeTreeEntries existing page) = map fst ?r"
    using keyed_paths [OF conjunct1 [OF res]] by (simp only: mergeTreeEntries_eq)
  then have outs: "entry_key ` set (mergeTreeEntries existing page) = fst ` set ?r"
    by (metis list.set_map)
  have l: "length (mergeTreeEntries existing page) = length ?r"
    by (simp add: mergeTreeEntries_eq)
  have "set (mergeTreeEntries existing page) = snd ` set ?r"
    by (simp add: mergeTreeEntries_eq)
  then have "set (mergeTreeEntries existing page) \<subseteq> {e \<in> ?E. is_dir e}"
    using res by (auto simp: keyed_dirs_def)
  moreover have "distinct (map entry_key (mergeTreeEntries existing page))"
    unfolding out using res by (simp add: keyed_dirs_def)
  ultimately show ?thesis
    unfolding outs l keys [symmetric] len [symmetric]
    using res by (simp add: len keys)
qed

theorem tree_summary_merge_witness:
  "entry_key ` {e \<in> set [bare_entry ''a'' KDirectory, bare_entry ''a/f'' KFile]. is_dir e}
     \<subseteq> entry_key ` set (mergeTreeEntries [] [bare_entry ''a'' KDirectory, bare_entry ''a/f'' KFile])"
proof -
  let ?page = "[bare_entry ''a'' KDirectory, bare_entry ''a/f'' KFile]"
  have "mergeTreeEntries [] ?page = [bare_entry ''a'' KDirectory]"
    by (simp add: mergeTreeEntries_def MAX_ARCHIVE_TREE_SUMMARIES_def)
  then have "length (mergeTreeEntries [] ?page) < MAX_ARCHIVE_TREE_SUMMARIES"
    by (simp add: MAX_ARCHIVE_TREE_SUMMARIES_def)
  with tree_summary_merge [of "[]" ?page] show ?thesis
    by blast
qed

text \<open>A run of password errors for one operation on one archive is counted: after \<open>n\<close> of them the retry
  names the operation, the archive and the last code, and its attempt count is \<open>n\<close>; one other error, or a
  success, forgets the retry.\<close>

theorem password_attempts:
  assumes "codes \<noteq> []" and "\<forall>e \<in> set codes. isPasswordRetryCommandCode (ce_code e)"
    and "ws_passwordRetry s = None" and "other = None \<or> \<not> isPasswordRetryCommandCode (ce_code (the other))"
  shows "let s' = run_inputs (\<lambda>e. requestPasswordRetry operation (Some e)) codes s
    in ws_passwordRetry s' = Some
         \<lparr> pr_operation = operation, pr_archivePath = ws_currentArchivePath s,
           pr_commandCode = ce_code (last codes),
           pr_promptKey = passwordPromptKeyForCommandCode (ce_code (last codes)),
           pr_attemptCount = length codes \<rparr>
     \<and> ws_passwordRetry (requestPasswordRetry operation other s') = None"
proof -
  let ?r = "\<lambda>e n. \<lparr> pr_operation = operation, pr_archivePath = ws_currentArchivePath s,
    pr_commandCode = ce_code e, pr_promptKey = passwordPromptKeyForCommandCode (ce_code e),
    pr_attemptCount = n \<rparr>"
  let ?s = "\<lambda>cs. run_inputs (\<lambda>e. requestPasswordRetry operation (Some e)) cs s"
  have "cs \<noteq> [] \<Longrightarrow> \<forall>e \<in> set cs. isPasswordRetryCommandCode (ce_code e) \<Longrightarrow>
      ws_passwordRetry (?s cs) = Some (?r (last cs) (length cs))
      \<and> ws_currentArchivePath (?s cs) = ws_currentArchivePath s" for cs
  proof (induction cs rule: rev_induct)
    case (snoc e cs)
    then show ?case
      using assms(3)
      by (cases "cs = []") (simp_all add: requestPasswordRetry_def passwordRetryForCommandError_def Let_def)
  qed simp
  from this [OF assms(1,2)] assms(4) show ?thesis
    by (auto simp: Let_def requestPasswordRetry_def passwordRetryForCommandError_def split: option.split)
qed

definition wrong_password :: "string \<Rightarrow> command_error" where
  "wrong_password c =
     \<lparr> ce_code = c, ce_message = ''m'', ce_hint = None, ce_severity = SevError, ce_retryable = True \<rparr>"

theorem password_attempts_witness:
  "pr_attemptCount (the (ws_passwordRetry (run_inputs (\<lambda>e. requestPasswordRetry RoListArchive (Some e))
     [wrong_password ''password_required'', wrong_password ''invalid_password''] (sample_ws [] [] [])))) = 2"
proof -
  have "ws_passwordRetry (run_inputs (\<lambda>e. requestPasswordRetry RoListArchive (Some e))
     [wrong_password ''password_required'', wrong_password ''invalid_password''] (sample_ws [] [] [])) = Some
       \<lparr> pr_operation = RoListArchive, pr_archivePath = ws_currentArchivePath (sample_ws [] [] []),
         pr_commandCode = ce_code (last [wrong_password ''password_required'', wrong_password ''invalid_password'']),
         pr_promptKey = passwordPromptKeyForCommandCode
           (ce_code (last [wrong_password ''password_required'', wrong_password ''invalid_password''])),
         pr_attemptCount = length [wrong_password ''password_required'', wrong_password ''invalid_password''] \<rparr>"
    using password_attempts [of "[wrong_password ''password_required'', wrong_password ''invalid_password'']"
        "sample_ws [] [] []" None RoListArchive]
    by (simp add: wrong_password_def isPasswordRetryCommandCode_def sample_ws_def Let_def)
  then show ?thesis
    by simp
qed

lemma opt_never_empty [simp]: "nonempty_opt v \<noteq> Some []" "trimmed_opt v \<noteq> Some []"
  by (auto simp: trimmed_opt_def nonempty_opt_def)

text \<open>C4: An extract request is refused exactly without an archive or, for a selection that is not of everything,
  without any path to send.  Otherwise it names the archive, and what it asks for is exactly: the paths of the selection,
  at least one and each once, when a selection is extracted and not everything is selected; the whole archive minus the
  excluded paths when everything is selected; and the whole archive with no exclusion when no selection is asked for.\<close>

theorem extract_request_scope:
  "(case buildExtractRequest input s of
      Inl reason \<Rightarrow>
        (if ws_currentArchivePath s = [] then reason = ExNoArchive
         else reason = ExNoSelectedEntries \<and> ei_mode input = ModeSelection \<and> \<not> ws_all s
              \<and> selectedExtractEntryPaths s = [])
    | Inr r \<Rightarrow>
        sx_archivePath r = ws_currentArchivePath s \<and> sx_archivePath r \<noteq> []
        \<and> sx_entryPaths r = (if ei_mode input = ModeSelection \<and> \<not> ws_all s
                             then Some (selectedExtractEntryPaths s) else None)
        \<and> sx_entryPaths r \<noteq> Some [] \<and> distinct (nullish (sx_entryPaths r) [])
        \<and> sx_selectAll r = (if ei_mode input = ModeSelection \<and> ws_all s then Some True else None)
        \<and> sx_excludedEntryPaths r \<noteq> Some []
        \<and> nullish (sx_excludedEntryPaths r) [] =
            (if ei_mode input = ModeSelection \<and> ws_all s
             then ws_excludedPaths (wv_selection (ws_view s)) else [])
        \<and> sx_tzapAllowDegraded r \<and> sx_password r \<noteq> Some [] \<and> sx_recipientKeyId r \<noteq> Some [])"
proof -
  have d: "distinct (selectedExtractEntryPaths s)"
    by (simp add: selectedExtractEntryPaths_def extract_fold_distinct)
  show ?thesis
    by (cases "ei_mode input"; cases "ws_all s")
      (simp_all add: buildExtractRequest_def buildStartExtractRequest_def Let_def d)
qed

text \<open>Testing sends no exclusions: with everything but one path selected, the whole archive is tested.\<close>

lemma test_ignores_exclusions:
  assumes "ws_currentArchivePath s \<noteq> []" and "ws_all s"
  shows "buildTestRequest password s =
    Inr \<lparr> tq_archivePath = ws_currentArchivePath s, tq_entryPaths = None, tq_password = nonempty_opt password \<rparr>"
  using assms by (simp add: buildTestRequest_def selectedExtractEntryPaths_def)

end
