(* ===== verification/ArchiveWorkspaceView.thy ===== *)
theory ArchiveWorkspaceView
  imports WorkspaceProps
begin

text \<open>
  The snapshot of the archive workspace, the second half of
  \<^verbatim>\<open>src/src/app/workspaces/archiveWorkspace.ts\<close>: the folders shown in the tree, what the selection
  looks like in the table, the model of the details pane and the state of the commands.  The caches of
  the code and its copies of unchanging data have no counterpart.  Sums are exact.
\<close>

section \<open>The tree\<close>

record tree_folder =
  tf_path :: string
  tf_name :: string
  tf_depth :: nat
  tf_hasChildren :: bool
  tf_isExpanded :: bool
  tf_isActive :: bool
  tf_isRoot :: bool

fun visit_tree :: "string list \<Rightarrow> string \<Rightarrow> folder_node \<Rightarrow> tree_folder list" where
  "visit_tree expandedFolders currentFolder (FolderNode info children) =
     \<lparr> tf_path = ni_path info, tf_name = ni_name info, tf_depth = ni_depth info,
       tf_hasChildren = (0 < length children),
       tf_isExpanded = (ni_isRoot info \<or> set_has expandedFolders (ni_path info)),
       tf_isActive = (currentFolder = ni_path info), tf_isRoot = ni_isRoot info \<rparr>
     # (if \<not> ni_isRoot info \<and> \<not> set_has expandedFolders (ni_path info) then []
        else concat (map (visit_tree expandedFolders currentFolder) children))"

definition treeFoldersForState :: "ws_env \<Rightarrow> ws_state \<Rightarrow> tree_folder list" where
  "treeFoldersForState env state =
     (if ws_currentArchivePath state = [] then []
      else visit_tree (js_set (normalizeExpandedTreeFolders (Some (wv_expanded (ws_view state)))))
             (wv_currentFolder (ws_view state))
             (buildArchiveTree (en_pathCollate env) (ws_treeEntries state) (Some [])))"

section \<open>The selection\<close>

fun row_entry :: "archive_entry hier_row \<Rightarrow> archive_entry option" where
  "row_entry (FolderRow _ _ _ e _) = e"
| "row_entry (EntryRow _ _ _ e) = Some e"
| "row_entry (ParentRow _ _ _ _) = None"

record selection_snapshot =
  ss_allSelected :: bool
  ss_excludedPaths :: "string list"
  ss_selectedPaths :: "string list"
  ss_selectedCount :: jsnum
  ss_focusedPath :: string
  ss_anchorPath :: string
  ss_visibleSelectablePaths :: "string list"
  ss_visibleSelectedPaths :: "string list"
  ss_visibleSelectedRows :: "archive_entry hier_row list"
  ss_visibleSelectedCount :: nat
  ss_selectedEntries :: "archive_entry list"
  ss_selectedEntryPaths :: "string list"
  ss_visibleSelectedEntries :: "archive_entry list"
  ss_focusedEntry :: "archive_entry option"
  ss_visibleSelectedSize :: rat
  ss_hiddenBySearch :: bool
  ss_firstSelectedEntryPath :: string
  ss_firstSelectedEntryName :: string

fun js_minus_nat :: "jsnum \<Rightarrow> nat \<Rightarrow> jsnum" where
  "js_minus_nat (Fin v) n = Fin (v - of_nat n)"
| "js_minus_nat x n = x"

definition entry_of_row :: "archive_entry list \<Rightarrow> archive_entry hier_row \<Rightarrow> archive_entry option" where
  "entry_of_row entries row =
     (case row_entry row of Some e \<Rightarrow> Some e | None \<Rightarrow> entryByPath entries (Some (row_path row)))"

text \<open>\<open>.filter((entry) => entry !== null)\<close>.\<close>

definition present :: "'a option list \<Rightarrow> 'a list" where
  "present xs = map the (filter (\<lambda>x. x \<noteq> None) xs)"

fun known_number :: "jsnum option \<Rightarrow> rat option" where
  "known_number (Some (Fin v)) = Some v"
| "known_number _ = None"

definition selectionSnapshotFromState ::
    "ws_state \<Rightarrow> archive_entry hier_row list \<Rightarrow> selection_snapshot" where
  "selectionSnapshotFromState state rows =
     (let sel = wv_selection (ws_view state);
          allSelected = ws_allSelected sel;
          excludedPaths = ws_excludedPaths sel;
          selectedPaths = ws_selectedPaths sel;
          selectedPathSet = js_set selectedPaths;
          visibleSelectablePaths = selectableHierarchicalRowPaths rows;
          visibleSelectedRows =
            filter (\<lambda>row. isSelectableHierarchicalRow row
                \<and> (if allSelected then row_path row \<notin> set excludedPaths
                   else set_has selectedPathSet (row_path row))) rows;
          selectedEntries =
            (if allSelected then []
             else present (map (\<lambda>path. entryByPath (ws_entries state) (Some path)) selectedPaths));
          focusedPath = normalizeArchivePath (Some (ws_focusedPath sel));
          firstPath = (case selectedEntries of [] \<Rightarrow> [] | e # _ \<Rightarrow> ae_path e)
      in \<lparr> ss_allSelected = allSelected, ss_excludedPaths = excludedPaths, ss_selectedPaths = selectedPaths,
           ss_selectedCount =
             (if allSelected then js_max (Fin 0) (js_minus_nat (ws_entryCount state) (length excludedPaths))
              else js_nat (length selectedPaths)),
           ss_focusedPath = focusedPath,
           ss_anchorPath = normalizeArchivePath (Some (ws_anchorPath sel)),
           ss_visibleSelectablePaths = visibleSelectablePaths,
           ss_visibleSelectedPaths = map row_path visibleSelectedRows,
           ss_visibleSelectedRows = visibleSelectedRows,
           ss_visibleSelectedCount = length visibleSelectedRows,
           ss_selectedEntries = selectedEntries,
           ss_selectedEntryPaths = map ae_path selectedEntries,
           ss_visibleSelectedEntries = present (map (entry_of_row (ws_entries state)) visibleSelectedRows),
           ss_focusedEntry =
             (if focusedPath \<noteq> [] \<and> focusedPath \<in> set visibleSelectablePaths
              then entryByPath (ws_entries state) (Some focusedPath) else None),
           ss_visibleSelectedSize =
             foldl (\<lambda>total row.
                case known_number (Option.bind (row_entry row) ae_size) of
                  Some v \<Rightarrow> total + v | None \<Rightarrow> total) 0 visibleSelectedRows,
           ss_hiddenBySearch =
             (\<not> allSelected \<and> 0 < length selectedPaths \<and> length visibleSelectedRows = 0
              \<and> js_trim (wv_searchQuery (ws_view state)) \<noteq> []),
           ss_firstSelectedEntryPath = firstPath,
           ss_firstSelectedEntryName =
             (if firstPath \<noteq> [] then str_or (getArchiveEntryName (Some firstPath)) firstPath else []) \<rparr>)"

section \<open>The details pane\<close>

definition sumKnownEntryBytes :: "archive_entry list \<Rightarrow> (archive_entry \<Rightarrow> jsnum option) \<Rightarrow> rat option" where
  "sumKnownEntryBytes entries selector =
     (let (total, hasKnownValue) =
            foldl (\<lambda>(total, known) entry.
               case known_number (selector entry) of
                 Some v \<Rightarrow> if 0 \<le> v then (total + v, True) else (total, known)
               | None \<Rightarrow> (total, known)) (0, False) entries
      in if hasKnownValue then Some total else None)"

datatype details_model =
    DmNoArchive
  | DmHiddenSelection jsnum string string string
  | DmArchiveSummary string jsnum string "jsnum option" "rat option"
  | DmSyntheticFolder "archive_entry hier_row"
  | DmEntry archive_entry
  | DmMultipleSelection jsnum nat nat "rat option" "rat option" "string list" "archive_entry hier_row list"

fun is_entry_row :: "'e hier_row \<Rightarrow> bool" where
  "is_entry_row (EntryRow _ _ _ _) = True"
| "is_entry_row _ = False"

definition row_is_file :: "archive_entry hier_row \<Rightarrow> bool" where
  "row_is_file row \<longleftrightarrow> is_entry_row row \<and> map_option ae_kind (row_entry row) \<noteq> Some KDirectory"

definition row_is_folder :: "archive_entry hier_row \<Rightarrow> bool" where
  "row_is_folder row \<longleftrightarrow> is_folder_row row \<or> map_option ae_kind (row_entry row) = Some KDirectory"

definition detailsModelFromState :: "ws_state \<Rightarrow> selection_snapshot \<Rightarrow> details_model" where
  "detailsModelFromState state selection =
     (let rows = ss_visibleSelectedRows selection
      in if ws_currentArchivePath state = [] then DmNoArchive
         else if ss_hiddenBySearch selection
         then DmHiddenSelection (ss_selectedCount selection) (js_trim (wv_searchQuery (ws_view state)))
                (ss_firstSelectedEntryPath selection) (ss_firstSelectedEntryName selection)
         else if length rows = 0
         then DmArchiveSummary (ws_currentArchivePath state) (ws_entryCount state)
                (wv_currentFolder (ws_view state))
                (case ws_totalSize state of
                   Some t \<Rightarrow> Some t
                 | None \<Rightarrow> map_option Fin (sumKnownEntryBytes (ws_entries state) ae_size))
                (sumKnownEntryBytes (ws_entries state) ae_compressedSize)
         else if \<not> ss_allSelected selection \<and> length rows = 1
         then (case entry_of_row (ws_entries state) (hd rows) of
                 None \<Rightarrow> DmSyntheticFolder (hd rows)
               | Some entry \<Rightarrow> DmEntry entry)
         else (let selectedEntries = present (map (entry_of_row (ws_entries state)) rows)
               in DmMultipleSelection
                    (if ss_allSelected selection then ss_selectedCount selection else js_nat (length rows))
                    (length (filter row_is_file rows)) (length (filter row_is_folder rows))
                    (sumKnownEntryBytes selectedEntries ae_size)
                    (sumKnownEntryBytes selectedEntries ae_compressedSize)
                    (map row_path rows) rows))"

section \<open>The commands and the snapshot\<close>

record command_snapshot =
  co_browseState :: browse_state
  co_hasArchive :: bool
  co_focusedRow :: bool
  co_canNavigateUp :: bool
  co_canOpenInside :: bool
  co_selectedCount :: jsnum
  co_visibleSelectableCount :: nat
  co_canUseArchive :: bool
  co_canListEntries :: bool
  co_canSearchEntries :: bool
  co_canNavigateBack :: bool

definition commandSnapshotFromState :: "ws_state \<Rightarrow> selection_snapshot \<Rightarrow> command_snapshot" where
  "commandSnapshotFromState state selection =
     (let hasArchive = (ws_currentArchivePath state \<noteq> []);
          canUseArchive = (hasArchive \<and> ws_browseState state \<noteq> BsIdle);
          selectedEntry = (case ss_selectedEntries selection of [e] \<Rightarrow> Some e | _ \<Rightarrow> None)
      in \<lparr> co_browseState = ws_browseState state, co_hasArchive = hasArchive,
           co_focusedRow = (ss_focusedPath selection \<noteq> []),
           co_canNavigateUp = (wv_currentFolder (ws_view state) \<noteq> []),
           co_canOpenInside = (map_option ae_kind selectedEntry = Some KDirectory),
           co_selectedCount = ss_selectedCount selection,
           co_visibleSelectableCount = length (ss_visibleSelectablePaths selection),
           co_canUseArchive = canUseArchive,
           co_canListEntries = (canUseArchive \<and> ws_browseState state = BsLoaded),
           co_canSearchEntries = (hasArchive \<and> ws_browseState state = BsLoaded),
           co_canNavigateBack = (0 < length (wv_navigationHistory (ws_view state))) \<rparr>)"

record ws_snapshot =
  sn_state :: ws_state
  sn_command :: command_snapshot
  sn_breadcrumbs :: "archive_breadcrumb list"
  sn_treeFolders :: "tree_folder list"
  sn_rows :: "archive_entry hier_row list"
  sn_selection :: selection_snapshot
  sn_details :: details_model

text \<open>The fields that the snapshot copies from the state are \<open>sn_state\<close>, with its status cloned.\<close>

definition snapshotFromState :: "ws_env \<Rightarrow> ws_state \<Rightarrow> ws_snapshot" where
  "snapshotFromState env state =
     (let rows = visibleRowsForState env state;
          treeFolders = treeFoldersForState env state;
          selection = selectionSnapshotFromState state rows
      in \<lparr> sn_state = state\<lparr> ws_status := cloneStatus (ws_status state) \<rparr>,
           sn_command = commandSnapshotFromState state selection,
           sn_breadcrumbs = getArchiveBreadcrumbs (Some (wv_currentFolder (ws_view state))) None,
           sn_treeFolders = treeFolders, sn_rows = rows, sn_selection = selection,
           sn_details = detailsModelFromState state selection \<rparr>)"

section \<open>Which folders the tree shows\<close>

fun shown_nodes :: "string set \<Rightarrow> folder_node \<Rightarrow> node_info list" where
  "shown_nodes ex (FolderNode info children) =
     info # (if ni_isRoot info \<or> ni_path info \<in> ex then concat (map (shown_nodes ex) children) else [])"

lemma visit_shown_paths: "map tf_path (visit_tree ex cf node) = map ni_path (shown_nodes (set ex) node)"
proof (induction node)
  case (FolderNode info children)
  have "map tf_path (concat (map (visit_tree ex cf) cs)) = map ni_path (concat (map (shown_nodes (set ex)) cs))"
    if "set cs \<subseteq> set children" for cs
    using that FolderNode by (induction cs) auto
  then show ?case
    by (auto simp: set_has_def)
qed

lemma shown_subseq: "subseq (shown_nodes ex node) (map fn_info (flattenArchiveTree node))"
proof (induction node)
  case (FolderNode info children)
  have "subseq (concat (map (shown_nodes ex) cs)) (map fn_info (concat (map flattenArchiveTree cs)))"
    if "set cs \<subseteq> set children" for cs
    using that FolderNode by (induction cs) (auto intro: list_emb_append_mono)
  then show ?case
    by simp
qed

lemma subseq_distinct_paths: "subseq xs ys \<Longrightarrow> distinct ys \<Longrightarrow> distinct xs"
  by (auto simp: subseq_conv_nths intro: distinct_nthsI)

lemma open_node_step:
  "(\<forall>q. strict_prefix q (t # ts) \<longrightarrow> P q) \<longleftrightarrow> P [] \<and> (\<forall>q. strict_prefix q ts \<longrightarrow> P (t # q))"
proof (intro iffI conjI allI impI)
  fix q assume a: "P [] \<and> (\<forall>q. strict_prefix q ts \<longrightarrow> P (t # q))" "strict_prefix q (t # ts)"
  then show "P q"
    by (cases q) (auto simp: strict_prefix_def)
qed (auto simp: strict_prefix_def)

text \<open>A node is shown when every node above it is the root or expanded.\<close>

definition node_open :: "string set \<Rightarrow> mutable_node \<Rightarrow> string list \<Rightarrow> bool" where
  "node_open ex node q \<longleftrightarrow>
     (case node_at q node of None \<Rightarrow> False | Some j \<Rightarrow> ni_isRoot j \<or> ni_path j \<in> ex)"

lemma set_shown_nodes:
  "wf_node base node \<Longrightarrow>
   set (shown_nodes ex (finalizeFolderNode collate node))
     = {i. \<exists>p. node_at p node = Some i \<and> (\<forall>q. strict_prefix q p \<longrightarrow> node_open ex node q)}"
proof (induction node arbitrary: base rule: node_infos.induct)
  case (1 info childMap)
  let ?n = "MutableNode info childMap"
  let ?S = "\<lambda>n. {i. \<exists>p. node_at p n = Some i \<and> (\<forall>q. strict_prefix q p \<longrightarrow> node_open ex n q)}"
  have d: "distinct (map fst childMap)"
    using 1(2) by simp
  have IH: "set (shown_nodes ex (finalizeFolderNode collate c)) = ?S c" if "(s, c) \<in> set childMap" for s c
  proof (rule 1(1))
    show "c \<in> set (map snd childMap)"
      using that by (metis image_eqI list.set_map snd_conv)
    show "wf_node (base @ [s]) c"
      using 1(2) that by auto
  qed
  have child_open: "node_open ex ?n (s # q) = node_open ex c q" if "(s, c) \<in> set childMap" for s c q
    using that d by (simp add: node_open_def)
  have "?S ?n = insert info (if ni_isRoot info \<or> ni_path info \<in> ex
      then (\<Union>(s, c) \<in> set childMap. ?S c) else {})" (is "_ = ?R")
  proof (intro set_eqI iffI)
    fix i assume "i \<in> ?S ?n"
    then obtain p where p: "node_at p ?n = Some i" "\<forall>q. strict_prefix q p \<longrightarrow> node_open ex ?n q"
      by blast
    show "i \<in> ?R"
    proof (cases p)
      case (Cons t ts)
      with p(1) obtain c where c: "(t, c) \<in> set childMap" "node_at ts c = Some i"
        by (auto split: option.splits dest: map_of_SomeD)
      have "node_open ex ?n []" and "\<forall>q. strict_prefix q ts \<longrightarrow> node_open ex ?n (t # q)"
        using p(2) unfolding Cons open_node_step by simp_all
      then have o: "ni_isRoot info \<or> ni_path info \<in> ex" and "\<forall>q. strict_prefix q ts \<longrightarrow> node_open ex c q"
        by (simp_all add: node_open_def [of ex ?n "[]"] child_open [OF c(1)])
      with c(2) have "i \<in> ?S c"
        by blast
      with c(1) have "i \<in> (\<Union>(s, c) \<in> set childMap. ?S c)"
        by blast
      with o show ?thesis
        by simp
    qed (use p in simp)
  next
    fix i assume i: "i \<in> ?R"
    show "i \<in> ?S ?n"
    proof (cases "i = info")
      case True
      then show ?thesis
        by (auto intro: exI [of _ "[]"])
    next
      case False
      with i obtain t c p where c: "(t, c) \<in> set childMap" "node_at p c = Some i"
        "\<forall>q. strict_prefix q p \<longrightarrow> node_open ex c q" and o: "ni_isRoot info \<or> ni_path info \<in> ex"
        by (auto split: if_splits)
      have "node_at (t # p) ?n = Some i"
        using c(1,2) d by simp
      moreover have "\<forall>q. strict_prefix q (t # p) \<longrightarrow> node_open ex ?n q"
        unfolding open_node_step using c(3) child_open [OF c(1)] o by (simp add: node_open_def)
      ultimately show ?thesis
        by blast
    qed
  qed
  moreover have "(\<Union>sc \<in> set childMap. set (shown_nodes ex (finalizeFolderNode collate (snd sc))))
      = (\<Union>(s, c) \<in> set childMap. ?S c)"
    by (rule SUP_cong) (auto simp: IH split: prod.split)
  moreover have "set (shown_nodes ex (finalizeFolderNode collate ?n))
      = insert info (if ni_isRoot info \<or> ni_path info \<in> ex
          then (\<Union>sc \<in> set childMap. set (shown_nodes ex (finalizeFolderNode collate (snd sc)))) else {})"
    by auto
  ultimately show ?case
    by (simp only:)
qed

lemma root_ancestor [simp]: "[] \<in> ancestor_paths f"
  by (auto simp: ancestor_paths_def intro: exI [of _ "[]"])

lemma strict_prefix_paths:
  "good_segments p \<Longrightarrow> ancestor_paths (js_join (CHR 0x2F) p) - {js_join (CHR 0x2F) p}
     = js_join (CHR 0x2F) ` {q. strict_prefix q p}"
  by (auto simp: ancestor_paths_def strict_prefix_def)
    (metis good_path_segments path_segments_join prefix_def good_segments_simps(3))

lemma tree_shown_paths:
  "ni_path ` set (shown_nodes ex (buildArchiveTree collate es rootName)) =
     {f. normal_path f \<and> archiveFolderExists es (Some f) \<and> ancestor_paths f - {f} \<subseteq> insert [] ex}"
    (is "?L = ?R")
proof -
  let ?t = "tree_root es rootName"
  have opened: "node_open ex ?t q \<longleftrightarrow> js_join (CHR 0x2F) q \<in> insert [] ex"
    if "strict_prefix q p" and "node_at p ?t = Some i" for p q i
  proof -
    have "prefix p (entry_folder e) \<Longrightarrow> prefix q (entry_folder e)" for e
      using that(1) by (meson prefix_order.trans strict_prefix_def)
    moreover have "p \<noteq> []"
      using that(1) by auto
    ultimately have "node_at q ?t \<noteq> None"
      using that(2) tree_root_dom [of p rootName es] tree_root_dom [of q rootName es] by auto
    then obtain j where j: "node_at q ?t = Some j"
      by blast
    have "q = [] \<Longrightarrow> ni_isRoot j"
      using j root_tree_root by (metis node_at.simps(1) option.inject)
    with wf_node_at [OF wf_tree_root j] j show ?thesis
      by (auto simp: node_open_def js_join_good_eq_Nil)
  qed
  have "set (shown_nodes ex (buildArchiveTree collate es rootName)) =
      {i. \<exists>p. node_at p ?t = Some i \<and> (\<forall>q. strict_prefix q p \<longrightarrow> node_open ex ?t q)}"
    unfolding buildArchiveTree_def by (rule set_shown_nodes) (rule wf_tree_root)
  also have "\<dots> = {i. \<exists>p. node_at p ?t = Some i
      \<and> (\<forall>q. strict_prefix q p \<longrightarrow> js_join (CHR 0x2F) q \<in> insert [] ex)}"
    using opened by blast
  finally have shown: "set (shown_nodes ex (buildArchiveTree collate es rootName)) = \<dots>" .
  show ?thesis
  proof (intro set_eqI iffI)
    fix f assume "f \<in> ?L"
    then obtain i p where i: "f = ni_path i" "node_at p ?t = Some i"
      "\<forall>q. strict_prefix q p \<longrightarrow> js_join (CHR 0x2F) q \<in> insert [] ex"
      unfolding shown by blast
    from wf_node_at [OF wf_tree_root i(2)] have p: "good_segments p" "f = js_join (CHR 0x2F) p"
      using i(1) by simp_all
    have "node_at p ?t \<noteq> None"
      using i(2) by simp
    then have "archiveFolderExists es (Some f)"
      using p by (auto simp: archiveFolderExists_eq tree_root_dom simp del: not_None_eq)
    moreover have "normal_path f"
      using p by (simp add: normal_join)
    moreover have "ancestor_paths f - {f} \<subseteq> insert [] ex"
      using i(3) strict_prefix_paths [OF p(1)] unfolding p(2) by auto
    ultimately show "f \<in> ?R"
      by simp
  next
    fix f assume f: "f \<in> ?R"
    then have j: "js_join (CHR 0x2F) (path_segments f) = f" and "node_at (path_segments f) ?t \<noteq> None"
      by (auto simp: normal_path_join archiveFolderExists_eq tree_root_dom simp del: not_None_eq)
    then obtain i where i: "node_at (path_segments f) ?t = Some i"
      by blast
    have "\<forall>q. strict_prefix q (path_segments f) \<longrightarrow> js_join (CHR 0x2F) q \<in> insert [] ex"
      using f strict_prefix_paths [of "path_segments f"] j by auto
    with i have "i \<in> set (shown_nodes ex (buildArchiveTree collate es rootName))"
      unfolding shown by blast
    moreover have "ni_path i = f"
      using wf_node_at [OF wf_tree_root i] j by simp
    ultimately show "f \<in> ?L"
      by blast
  qed
qed

lemma tree_shows_expanded_aux:
  assumes "ws_inv s" and "ws_currentArchivePath s \<noteq> []"
  shows "distinct (map tf_path (treeFoldersForState env s))
    \<and> set (map tf_path (treeFoldersForState env s)) =
       {f. normal_path f \<and> archiveFolderExists (ws_treeEntries s) (Some f)
           \<and> ancestor_paths f - {f} \<subseteq> set (wv_expanded (ws_view s))}"
proof -
  let ?x = "js_set (normalizeExpandedTreeFolders (Some (wv_expanded (ws_view s))))"
  let ?t = "buildArchiveTree (en_pathCollate env) (ws_treeEntries s) (Some [])"
  have v: "\<forall>p \<in> set (wv_expanded (ws_view s)). normal_path p" "[] \<in> set (wv_expanded (ws_view s))"
    using assms(1) using root_ancestor by (auto simp: ws_inv_def view_inv_def simp del: root_ancestor)
  then have x: "insert [] (set ?x) = set (wv_expanded (ws_view s))"
    using normalize_normal_set by auto
  have m: "map tf_path (treeFoldersForState env s) = map ni_path (shown_nodes (set ?x) ?t)"
    using assms(2) by (simp add: treeFoldersForState_def visit_shown_paths)
  have "subseq (map ni_path (shown_nodes (set ?x) ?t))
      (map ni_path (tree_nodes (en_pathCollate env) (ws_treeEntries s) (Some [])))"
    unfolding tree_nodes_def by (rule subseq_map) (rule shown_subseq)
  then have "distinct (map ni_path (shown_nodes (set ?x) ?t))"
    using distinct_tree_paths by (rule subseq_distinct_paths)
  moreover have "set (map ni_path (shown_nodes (set ?x) ?t)) =
      {f. normal_path f \<and> archiveFolderExists (ws_treeEntries s) (Some f)
        \<and> ancestor_paths f - {f} \<subseteq> insert [] (set ?x)}"
    by (simp only: set_map tree_shown_paths)
  ultimately show ?thesis
    unfolding m x by simp
qed

section \<open>Sums and rows\<close>

definition known_bytes :: "(archive_entry \<Rightarrow> jsnum option) \<Rightarrow> archive_entry \<Rightarrow> rat option" where
  "known_bytes selector e =
     (case known_number (selector e) of Some v \<Rightarrow> if 0 \<le> v then Some v else None | None \<Rightarrow> None)"

lemma sumKnownEntryBytes_eq:
  "sumKnownEntryBytes es selector =
     (let vs = present (map (known_bytes selector) es) in if vs = [] then None else Some (sum_list vs))"
proof -
  have "foldl (\<lambda>(total, known) entry.
      case known_number (selector entry) of
        Some v \<Rightarrow> if 0 \<le> v then (total + v, True) else (total, known) | None \<Rightarrow> (total, known)) (t, k) es
    = (t + sum_list (present (map (known_bytes selector) es)),
       k \<or> present (map (known_bytes selector) es) \<noteq> [])" for t k
    by (induction es arbitrary: t k) (auto simp: present_def known_bytes_def split: option.split)
  from this [of 0 False] show ?thesis
    by (simp add: sumKnownEntryBytes_def Let_def)
qed

lemma selectable_row_kind:
  "isSelectableHierarchicalRow r \<Longrightarrow> row_is_file r \<noteq> row_is_folder r"
  by (cases r) (auto simp: row_is_file_def row_is_folder_def)

lemma selected_rows_selectable:
  "r \<in> set (ss_visibleSelectedRows (selectionSnapshotFromState s rows)) \<Longrightarrow> isSelectableHierarchicalRow r"
  by (simp add: selectionSnapshotFromState_def Let_def)

lemma visible_selected_paths:
  "ss_visibleSelectedPaths (selectionSnapshotFromState s rows)
     = filter (path_selected s) (selectableHierarchicalRowPaths rows)"
  by (auto simp: selectionSnapshotFromState_def Let_def selectableHierarchicalRowPaths_def path_selected_def
      filter_map o_def set_has_def intro!: arg_cong [of _ _ "map row_path"] filter_cong)

section \<open>Properties\<close>

text \<open>C5: The sidebar shows each folder of the loaded tree at most once, and exactly the existing folders all
  of whose ancestors below the root are expanded.\<close>

theorem tree_shows_expanded:
  assumes "ws_inv s" and "ws_currentArchivePath s \<noteq> []"
  shows "distinct (map tf_path (treeFoldersForState env s))
    \<and> set (map tf_path (treeFoldersForState env s)) =
       {f. normal_path f \<and> archiveFolderExists (ws_treeEntries s) (Some f)
           \<and> ancestor_paths f - {f} \<subseteq> set (wv_expanded (ws_view s))}"
  using assms by (rule tree_shows_expanded_aux)

theorem tree_shows_expanded_witness:
  "''src'' \<in> set (map tf_path (treeFoldersForState plain_env (sample_ws sample_entries [] [])))
   \<and> ''src/lib'' \<notin> set (map tf_path (treeFoldersForState plain_env (sample_ws sample_entries [] [])))"
proof -
  let ?s = "sample_ws sample_entries [] []"
  have a: "ws_currentArchivePath ?s \<noteq> []" and e: "wv_expanded (ws_view ?s) = [[]]" "ws_treeEntries ?s = sample_entries"
    by (simp_all add: sample_ws_def)
  note t = conjunct2 [OF tree_shows_expanded [OF sample_ws_inv a]]
  have "normal_path ''src''" "archiveFolderExists sample_entries (Some ''src'')" "path_segments ''src'' = [''src'']"
    by code_simp+
  moreover have "path_segments ''src/lib'' = [''src'', ''lib'']"
    by code_simp
  moreover have "''src'' \<in> ancestor_paths ''src/lib'' - {''src/lib''}"
    using calculation(4) by (auto simp: ancestor_paths_def intro: exI [of _ "[''src'']"])
  ultimately show ?thesis
    unfolding t e by (auto simp: ancestor_paths_def prefix_Cons)
qed

text \<open>With the current folder in the loaded tree, exactly one row of the sidebar is active, and it is the
  current folder's: the invariant keeps the tree expanded down to it.\<close>

theorem current_folder_is_shown:
  assumes "ws_inv s" and "ws_currentArchivePath s \<noteq> []"
    and "archiveFolderExists (ws_treeEntries s) (Some (wv_currentFolder (ws_view s)))"
  shows "map tf_path (filter tf_isActive (treeFoldersForState env s)) = [wv_currentFolder (ws_view s)]"
proof -
  let ?f = "wv_currentFolder (ws_view s)" and ?T = "treeFoldersForState env s"
  have active: "tf \<in> set (visit_tree ex cf node) \<Longrightarrow> tf_isActive tf = (tf_path tf = cf)" for ex cf node tf
    by (induction ex cf node arbitrary: tf rule: visit_tree.induct) (auto split: if_splits)
  have act: "tf_isActive t = (tf_path t = ?f)" if "t \<in> set ?T" for t
    using that by (cases "ws_currentArchivePath s = []") (auto simp: treeFoldersForState_def dest: active)
  have m: "map tf_path (filter tf_isActive ?T) = filter (\<lambda>p. p = ?f) (map tf_path ?T)"
    unfolding filter_map o_def by (rule arg_cong [of _ _ "map tf_path"], rule filter_cong) (auto simp: act)
  have "normal_path ?f" and "ancestor_paths ?f \<subseteq> set (wv_expanded (ws_view s))"
    using assms(1) by (simp_all add: ws_inv_def view_inv_def)
  then have "?f \<in> set (map tf_path ?T)"
    using tree_shows_expanded_aux [OF assms(1,2)] assms(3) by auto
  moreover have "distinct (map (\<lambda>p. p) (map tf_path ?T))"
    using tree_shows_expanded_aux [OF assms(1,2)] by simp
  ultimately show ?thesis
    unfolding m by (intro filter_key_unique)
qed

theorem current_folder_is_shown_witness:
  "map tf_path (filter tf_isActive (treeFoldersForState plain_env (sample_ws sample_entries [] []))) = [[]]"
proof -
  let ?s = "sample_ws sample_entries [] []"
  have a: "ws_currentArchivePath ?s \<noteq> []" and c: "wv_currentFolder (ws_view ?s) = []"
    by (simp_all add: sample_ws_def)
  have f: "archiveFolderExists (ws_treeEntries ?s) (Some (wv_currentFolder (ws_view ?s)))"
    by code_simp
  from current_folder_is_shown [OF sample_ws_inv a f, of plain_env] show ?thesis
    by (simp only: c)
qed

text \<open>What the table marks as selected is what the state says: the marked rows show exactly the selectable
  paths that are selected (all but the exceptions, when everything is selected), in row order, and nothing is
  reported as hidden by the search unless a search is active and no marked row is left.\<close>

theorem selection_marks_rows:
  "ss_visibleSelectedPaths (selectionSnapshotFromState s rows)
     = filter (path_selected s) (ss_visibleSelectablePaths (selectionSnapshotFromState s rows))
   \<and> ss_visibleSelectedCount (selectionSnapshotFromState s rows)
     = length (ss_visibleSelectedPaths (selectionSnapshotFromState s rows))
   \<and> ss_hiddenBySearch (selectionSnapshotFromState s rows)
     = (\<not> ws_all s \<and> ws_selected s \<noteq> [] \<and> js_trim (wv_searchQuery (ws_view s)) \<noteq> []
        \<and> {p \<in> set (selectableHierarchicalRowPaths rows). path_selected s p} = {})"
proof -
  have p: "ss_visibleSelectablePaths (selectionSnapshotFromState s rows) = selectableHierarchicalRowPaths rows"
    by (simp add: selectionSnapshotFromState_def Let_def)
  have c: "ss_visibleSelectedCount (selectionSnapshotFromState s rows)
      = length (ss_visibleSelectedPaths (selectionSnapshotFromState s rows))"
    by (simp add: selectionSnapshotFromState_def Let_def)
  have "ss_hiddenBySearch (selectionSnapshotFromState s rows)
      = (\<not> ws_all s \<and> ws_selected s \<noteq> [] \<and> js_trim (wv_searchQuery (ws_view s)) \<noteq> []
         \<and> ss_visibleSelectedPaths (selectionSnapshotFromState s rows) = [])"
    by (auto simp: selectionSnapshotFromState_def Let_def)
  moreover have "filter (path_selected s) (selectableHierarchicalRowPaths rows) = []
      \<longleftrightarrow> {p \<in> set (selectableHierarchicalRowPaths rows). path_selected s p} = {}"
    by (auto simp: filter_empty_conv)
  ultimately show ?thesis
    unfolding p c visible_selected_paths by simp
qed

text \<open>The summary of several selected rows counts each row once, as a file or as a folder, and its sizes
  are the exact sums of the non-negative sizes that are known, absent when none is.\<close>

theorem details_of_many:
  assumes "detailsModelFromState s (selectionSnapshotFromState s rows)
    = DmMultipleSelection n files folders bytes packed paths out"
  shows "files + folders = length out \<and> paths = map row_path out
    \<and> paths = filter (path_selected s) (selectableHierarchicalRowPaths rows) \<and> out \<noteq> []
    \<and> (let vs = present (map (known_bytes ae_size) (present (map (entry_of_row (ws_entries s)) out)))
       in bytes = (if vs = [] then None else Some (sum_list vs)))"
proof -
  let ?rows = "ss_visibleSelectedRows (selectionSnapshotFromState s rows)"
  have out: "out = ?rows" "files = length (filter row_is_file ?rows)"
      "folders = length (filter row_is_folder ?rows)" "paths = map row_path ?rows" "?rows \<noteq> []"
      "bytes = sumKnownEntryBytes (present (map (entry_of_row (ws_entries s)) ?rows)) ae_size"
    using assms by (auto simp: detailsModelFromState_def Let_def split: if_splits option.splits)
  have "filter row_is_folder ?rows = filter (\<lambda>r. \<not> row_is_file r) ?rows"
    using selectable_row_kind selected_rows_selectable by (intro filter_cong) blast+
  then have "files + folders = length out"
    using sum_length_filter_compl [of row_is_file ?rows] by (simp add: out)
  moreover have "map row_path ?rows = filter (path_selected s) (selectableHierarchicalRowPaths rows)"
    using visible_selected_paths [of s rows] by (simp add: selectionSnapshotFromState_def Let_def)
  ultimately show ?thesis
    using out by (simp add: sumKnownEntryBytes_eq)
qed

theorem details_of_many_witness:
  "(2 :: nat) + 0 = length [EntryRow ''entry:a'' ''a'' ''a'' (bare_entry ''a'' KFile),
     EntryRow ''entry:b'' ''b'' ''b'' (bare_entry ''b'' KFile)]"
proof -
  let ?rows = "[EntryRow ''entry:a'' ''a'' ''a'' (bare_entry ''a'' KFile),
     EntryRow ''entry:b'' ''b'' ''b'' (bare_entry ''b'' KFile)]"
  let ?s = "sample_ws [bare_entry ''a'' KFile, bare_entry ''b'' KFile] [] [''a'', ''b'']"
  have "detailsModelFromState ?s (selectionSnapshotFromState ?s ?rows)
      = DmMultipleSelection (Fin 2) 2 0 None None [''a'', ''b''] ?rows"
    by code_simp
  from details_of_many [OF this] show ?thesis
    by (rule conjunct1)
qed

text \<open>The navigation commands are enabled exactly when they do something: up is offered when it changes
  the current folder, back when it shortens the history.\<close>

theorem navigation_commands:
  assumes "ws_inv s"
  shows "co_canNavigateUp (commandSnapshotFromState s sel)
      = (wv_currentFolder (ws_view (navigateUp s)) \<noteq> wv_currentFolder (ws_view s))
    \<and> co_canNavigateBack (commandSnapshotFromState s sel)
      = (length (wv_navigationHistory (ws_view (navigateBack s))) < length (wv_navigationHistory (ws_view s)))"
proof -
  let ?f = "wv_currentFolder (ws_view s)"
  have "resolveFolderForNavigation s (Some (nullish (getParentArchivePath (Some ?f)) [])) \<noteq> ?f"
    if "?f \<noteq> []"
  proof -
    have n: "normal_path ?f"
      using assms by (simp add: ws_inv_def view_inv_def)
    then have seg: "path_segments ?f \<noteq> []"
      using that normal_path_join [OF n] by auto
    let ?p = "nullish (getParentArchivePath (Some ?f)) []"
    have "path_segments ?p = butlast (path_segments ?f)"
      by (simp add: getParentArchivePath_eq path_segments_join)
    then have "path_segments ?p \<noteq> path_segments ?f"
      using seg by (metis length_butlast length_greater_0_conv diff_less less_irrefl zero_less_one)
    then have "normalizeArchivePath (Some ?p) \<noteq> ?f"
      by (metis path_segments_normalize option_segments_simps(2))
    with that show ?thesis
      by (auto simp: resolveFolderForNavigation_def Let_def simp del: normalize_eq_Nil)
  qed
  then show ?thesis
    by (auto simp: commandSnapshotFromState_def navigateUp_def navigateStateToFolder_def navigateBack_def Let_def)
qed

theorem navigation_commands_witness:
  "co_canNavigateUp (commandSnapshotFromState (sample_ws sample_entries [] [])
       (selectionSnapshotFromState (sample_ws sample_entries [] []) []))
     = (wv_currentFolder (ws_view (navigateUp (sample_ws sample_entries [] [])))
         \<noteq> wv_currentFolder (ws_view (sample_ws sample_entries [] [])))"
  by (rule conjunct1 [OF navigation_commands [OF sample_ws_inv]])

end
