(* ===== verification/Jobs.thy ===== *)
theory Jobs
  imports ArchiveWorkspace
begin

text \<open>
  Jobs as the backend reports them, \<^verbatim>\<open>src/src/app/jobs.ts\<close> with the types of
  \<^verbatim>\<open>src/src/api/types.ts\<close>: status predicates and the progress shown for a job.  The numbers of a
  snapshot come from JSON, so they are finite; they are exact here.  Revisions are decimal strings
  compared as \<open>BigInt\<close>, which throws on anything else.
\<close>

section \<open>BigInt of a string\<close>

definition digit_value :: "char \<Rightarrow> nat option" where
  "digit_value c =
     (let n = of_char c :: nat
      in if 48 \<le> n \<and> n \<le> 57 then Some (n - 48)
         else if 97 \<le> n \<and> n \<le> 102 then Some (n - 87)
         else if 65 \<le> n \<and> n \<le> 70 then Some (n - 55)
         else None)"

fun digits_value :: "nat \<Rightarrow> string \<Rightarrow> nat \<Rightarrow> nat option" where
  "digits_value b [] acc = Some acc"
| "digits_value b (c # cs) acc =
     (case digit_value c of
        None \<Rightarrow> None
      | Some d \<Rightarrow> if d < b then digits_value b cs (acc * b + d) else None)"

definition digits_in_base :: "nat \<Rightarrow> string \<Rightarrow> int option" where
  "digits_in_base b s = (if s = [] then None else map_option int (digits_value b s 0))"

text \<open>\<open>BigInt(text)\<close>; \<open>None\<close> is the thrown \<open>SyntaxError\<close>.\<close>

definition js_bigint :: "string \<Rightarrow> int option" where
  "js_bigint s =
     (let t = js_trim s; pre = js_lower (take 2 t)
      in if t = [] then Some 0
         else if pre = ''0x'' then digits_in_base 16 (drop 2 t)
         else if pre = ''0o'' then digits_in_base 8 (drop 2 t)
         else if pre = ''0b'' then digits_in_base 2 (drop 2 t)
         else if hd t = CHR 0x2D then map_option uminus (digits_in_base 10 (tl t))
         else if hd t = CHR 0x2B then digits_in_base 10 (tl t)
         else digits_in_base 10 t)"

section \<open>Snapshots\<close>

datatype job_status = JsQueued | JsRunning | JsPaused | JsCancelling | JsCompleted | JsFailed | JsCancelled

datatype job_kind =
    JkZipCreate | JkZipExtract | JkSevenZCreate | JkSevenZExtract | JkRarExtract | JkTarGzCreate
  | JkTarZstdCreate | JkTarZstdExtract | JkTzapCreate | JkTzapExtract | JkAppleArchiveCreate
  | JkAppleArchiveExtract | JkArchiveExtract | JkRawStreamExtract | JkTestArchive

datatype job_phase = JpPlanningPayload | JpPlanningMetadata | JpEmittingPayload | JpEmittingMetadata | JpCommittingOutput

record start_job_response =
  sj_jobId :: string
  sj_kind :: job_kind
  sj_status :: job_status
  sj_createdAt :: string

record job_progress_facts =
  jf_processedBytes :: rat
  jf_totalBytes :: "rat option"
  jf_processedEntries :: rat
  jf_totalEntries :: "rat option"
  jf_currentPath :: "string option"
  jf_recentPaths :: "string list"
  jf_activePhase :: "job_phase option"
  jf_phaseProcessedBytes :: rat
  jf_phaseTotalBytes :: "rat option"
  jf_warningCount :: rat
  jf_activeElapsedMillis :: rat
  jf_phaseElapsedMillis :: rat

record job_terminal_summary =
  jt_writtenEntries :: rat
  jt_skippedEntries :: "rat option"
  jt_writtenBytes :: rat
  jt_warnings :: "string list"

datatype job_event_type =
    JeStarted | JeEntryStarted | JeBytesProcessed | JePhaseStarted | JePhaseBytesProcessed | JeEntryFinished
  | JePaused | JeResumed | JeWarning | JeCompleted | JeFailed | JeCancelled

record job_event =
  je_eventType :: job_event_type
  je_jobKind :: "job_kind option"
  je_phase :: "job_phase option"
  je_code :: "string option"
  je_hint :: "string option"
  je_severity :: "severity option"
  je_retryable :: "bool option"
  je_path :: "string option"
  je_bytes :: "rat option"
  je_totalBytes :: "rat option"
  je_totalBytesProcessed :: "rat option"
  je_entries :: "rat option"
  je_totalEntries :: "rat option"
  je_message :: "string option"

record job_artifact =
  ja_artifactId :: string
  ja_isDirectory :: bool
  ja_path :: string

record job_action =
  jc_actionId :: string
  jc_isReveal :: bool
  jc_artifactId :: string

datatype job_locale = LocaleEn | LocaleZhCn

record retry_extract =
  re_actionId :: string
  re_archivePath :: string
  re_destinationPath :: string
  re_overwrite :: overwrite_policy
  re_destinationCollisionStrategy :: collision_strategy
  re_entryPaths :: "string list"
  re_selectAll :: "bool option"
  re_excludedEntryPaths :: "string list option"
  re_stripComponents :: rat
  re_tzapRestorePolicy :: "restore_policy option"
  re_tzapAllowDegraded :: "bool option"
  re_tzapAllowAbsoluteSymlinks :: "bool option"
  re_ignoreSymlinks :: "bool option"
  re_locale :: "job_locale option"

record retry_test =
  rt_actionId :: string
  rt_archivePath :: string
  rt_entryPaths :: "string list"

record retry_drag =
  rd_actionId :: string
  rd_archivePath :: string
  rd_entryPaths :: "string list"
  rd_selectAll :: bool
  rd_excludedEntryPaths :: "string list"
  rd_stripComponents :: rat

datatype job_retry = RetryExtract retry_extract | RetryTest retry_test | RetryDrag retry_drag

record job_snapshot =
  js_revision :: string
  js_jobId :: string
  js_kind :: job_kind
  js_status :: job_status
  js_createdAt :: string
  js_updatedAt :: string
  js_canPause :: bool
  js_canResume :: bool
  js_canCancel :: bool
  js_canDismiss :: bool
  js_progressFacts :: job_progress_facts
  js_latestFailure :: "job_event option"
  js_boundedNotices :: "job_event list"
  js_availableActions :: "job_action list"
  js_outputArtifacts :: "job_artifact list"
  js_retryDescriptor :: "job_retry option"
  js_terminalSummary :: "job_terminal_summary option"

section \<open>Predicates\<close>

definition isPasswordErrorCode :: "string option \<Rightarrow> bool" where
  "isPasswordErrorCode code \<longleftrightarrow> code = Some ''password_required'' \<or> code = Some ''invalid_password''"

definition isTerminalJobStatus :: "job_status \<Rightarrow> bool" where
  "isTerminalJobStatus status \<longleftrightarrow> status = JsCompleted \<or> status = JsFailed \<or> status = JsCancelled"

definition isLiveJobStatus :: "job_status \<Rightarrow> bool" where
  "isLiveJobStatus status \<longleftrightarrow> status = JsQueued \<or> status = JsRunning \<or> status = JsPaused"

definition isCreateJobKind :: "job_kind \<Rightarrow> bool" where
  "isCreateJobKind kind \<longleftrightarrow>
     kind = JkZipCreate \<or> kind = JkSevenZCreate \<or> kind = JkTarZstdCreate \<or> kind = JkTarGzCreate
     \<or> kind = JkTzapCreate \<or> kind = JkAppleArchiveCreate"

section \<open>Progress\<close>

fun tzap_create_range :: "job_phase \<Rightarrow> rat \<times> rat" where
  "tzap_create_range JpPlanningPayload = (0, 40)"
| "tzap_create_range JpPlanningMetadata = (40, 42)"
| "tzap_create_range JpEmittingPayload = (42, 94)"
| "tzap_create_range JpEmittingMetadata = (94, 99)"
| "tzap_create_range JpCommittingOutput = (99, 99)"

fun tzap_single_pass_range :: "job_phase \<Rightarrow> rat \<times> rat" where
  "tzap_single_pass_range JpPlanningPayload = (0, 0)"
| "tzap_single_pass_range JpPlanningMetadata = (0, 0)"
| "tzap_single_pass_range JpEmittingPayload = (0, 94)"
| "tzap_single_pass_range JpEmittingMetadata = (94, 99)"
| "tzap_single_pass_range JpCommittingOutput = (99, 99)"

text \<open>\<open>total !== null && total > 0 ? Math.max(0, Math.min(scale, done / total * scale)) : null\<close>.\<close>

definition clamped_share :: "rat \<Rightarrow> rat \<Rightarrow> rat option \<Rightarrow> rat option" where
  "clamped_share scale part whole =
     (case whole of
        None \<Rightarrow> None
      | Some t \<Rightarrow> if 0 < t then Some (max 0 (min scale (part / t * scale))) else None)"

definition progressPercentForTzapPhase :: "job_phase \<Rightarrow> rat \<Rightarrow> rat option \<Rightarrow> bool \<Rightarrow> rat" where
  "progressPercentForTzapPhase phase processedBytes totalBytes hasPlanningPhase =
     (let (lo, hi) = (if hasPlanningPhase then tzap_create_range phase else tzap_single_pass_range phase);
          fraction = nullish (clamped_share 1 processedBytes totalBytes) 0
      in lo + (hi - lo) * fraction)"

fun phase_is_planning :: "job_phase \<Rightarrow> bool" where
  "phase_is_planning JpPlanningPayload = True"
| "phase_is_planning JpPlanningMetadata = True"
| "phase_is_planning _ = False"

fun phase_string :: "job_phase \<Rightarrow> string" where
  "phase_string JpPlanningPayload = ''planningPayload''"
| "phase_string JpPlanningMetadata = ''planningMetadata''"
| "phase_string JpEmittingPayload = ''emittingPayload''"
| "phase_string JpEmittingMetadata = ''emittingMetadata''"
| "phase_string JpCommittingOutput = ''committingOutput''"

fun status_string :: "job_status \<Rightarrow> string" where
  "status_string JsQueued = ''queued''"
| "status_string JsRunning = ''running''"
| "status_string JsPaused = ''paused''"
| "status_string JsCancelling = ''cancelling''"
| "status_string JsCompleted = ''completed''"
| "status_string JsFailed = ''failed''"
| "status_string JsCancelled = ''cancelled''"

record job_progress =
  gp_id :: string
  gp_kind :: job_kind
  gp_status :: job_status
  gp_elapsedMs :: rat
  gp_remainingMs :: "rat option"
  gp_processedFiles :: rat
  gp_totalFiles :: "rat option"
  gp_errorCount :: nat
  gp_warningCount :: rat
  gp_totalBytes :: "rat option"
  gp_processedBytes :: rat
  gp_compressedBytes :: "rat option"
  gp_speedBytesPerSecond :: "rat option"
  gp_compressionRatio :: "rat option"
  gp_currentFile :: string
  gp_progressPercent :: "rat option"
  gp_latestStatusMessage :: string
  gp_phase :: "job_phase option"

definition or_else :: "'a option \<Rightarrow> 'a option \<Rightarrow> 'a option" where
  "or_else a b = (case a of Some x \<Rightarrow> Some x | None \<Rightarrow> b)"

definition deriveRetainedJobProgress :: "job_snapshot \<Rightarrow> job_progress" where
  "deriveRetainedJobProgress snapshot =
     (let facts = js_progressFacts snapshot;
          processedBytes = jf_processedBytes facts;
          totalBytes = jf_totalBytes facts;
          elapsedMs = jf_activeElapsedMillis facts;
          bytePercent = clamped_share 100 processedBytes totalBytes;
          filePercent = clamped_share 100 (jf_processedEntries facts) (jf_totalEntries facts);
          phasePercent =
            (if js_kind snapshot = JkTzapCreate
             then map_option (\<lambda>phase. progressPercentForTzapPhase phase (jf_phaseProcessedBytes facts)
                    (jf_phaseTotalBytes facts) (phase_is_planning phase)) (jf_activePhase facts)
             else None);
          progressPercent =
            (if js_status snapshot = JsCompleted then Some 100
             else or_else phasePercent (or_else bytePercent filePercent));
          writtenBytes = map_option jt_writtenBytes (js_terminalSummary snapshot)
      in \<lparr> gp_id = js_jobId snapshot, gp_kind = js_kind snapshot, gp_status = js_status snapshot,
           gp_elapsedMs = elapsedMs,
           gp_remainingMs =
             (case progressPercent of
                None \<Rightarrow> None
              | Some p \<Rightarrow> if 0 < p then Some (elapsedMs * ((100 - p) / p)) else None),
           gp_processedFiles = jf_processedEntries facts, gp_totalFiles = jf_totalEntries facts,
           gp_errorCount = (if js_latestFailure snapshot \<noteq> None then 1 else 0),
           gp_warningCount = jf_warningCount facts, gp_totalBytes = totalBytes,
           gp_processedBytes = processedBytes, gp_compressedBytes = writtenBytes,
           gp_speedBytesPerSecond =
             (if 0 < elapsedMs \<and> 0 < processedBytes then Some (processedBytes / (elapsedMs / 1000)) else None),
           gp_compressionRatio =
             (if isCreateJobKind (js_kind snapshot)
              then calculateCompressionRatio (map_option Fin totalBytes) (map_option Fin writtenBytes)
              else None),
           gp_currentFile =
             (if jf_recentPaths facts \<noteq> [] then last (jf_recentPaths facts)
              else nullish (jf_currentPath facts) []),
           gp_progressPercent = progressPercent,
           gp_latestStatusMessage =
             nullish (or_else (Option.bind (js_latestFailure snapshot) je_message)
               (map_option phase_string (jf_activePhase facts))) (status_string (js_status snapshot)),
           gp_phase = jf_activePhase facts \<rparr>)"

section \<open>Facts\<close>

lemma clamped_share_bounds:
  "clamped_share scale part whole = Some x \<Longrightarrow> 0 \<le> scale \<Longrightarrow> 0 \<le> x \<and> x \<le> scale"
  by (auto simp: clamped_share_def split: option.splits if_splits)

lemma tzap_percent_bounds: "0 \<le> progressPercentForTzapPhase p n t b \<and> progressPercentForTzapPhase p n t b \<le> 99"
proof -
  let ?f = "nullish (clamped_share 1 n t) 0"
  have f: "0 \<le> ?f" "?f \<le> 1"
    using clamped_share_bounds [of 1 n t] by (cases "clamped_share 1 n t"; simp)+
  have between: "lo \<le> lo + (hi - lo) * ?f \<and> lo + (hi - lo) * ?f \<le> hi" if "lo \<le> hi" for lo hi :: rat
    using f that mult_left_le [of ?f "hi - lo"] by (simp add: mult.commute)
  obtain lo hi where r: "(if b then tzap_create_range p else tzap_single_pass_range p) = (lo, hi)"
    by fastforce
  then have "lo \<le> hi" "0 \<le> lo" "hi \<le> 99"
    by (cases p; cases b; auto)+
  with between [of lo hi] r show ?thesis
    by (auto simp: progressPercentForTzapPhase_def)
qed

lemma progress_percent_cases:
  "gp_progressPercent (deriveRetainedJobProgress s) =
     (if js_status s = JsCompleted then Some 100
      else or_else
        (if js_kind s = JkTzapCreate
         then map_option (\<lambda>phase. progressPercentForTzapPhase phase (jf_phaseProcessedBytes (js_progressFacts s))
                (jf_phaseTotalBytes (js_progressFacts s)) (phase_is_planning phase))
                (jf_activePhase (js_progressFacts s))
         else None)
        (or_else (clamped_share 100 (jf_processedBytes (js_progressFacts s)) (jf_totalBytes (js_progressFacts s)))
          (clamped_share 100 (jf_processedEntries (js_progressFacts s)) (jf_totalEntries (js_progressFacts s)))))"
  by (simp add: deriveRetainedJobProgress_def Let_def)

text \<open>The emitting rows of the two-pass table are never read, so a two-pass creation that has planned 42 per
  cent starts again at 0 when it emits.\<close>

lemma two_pass_progress_restarts:
  "progressPercentForTzapPhase JpPlanningMetadata 5 (Some 5) (phase_is_planning JpPlanningMetadata) = 42
   \<and> progressPercentForTzapPhase JpEmittingPayload 0 (Some 5) (phase_is_planning JpEmittingPayload) = 0"
  by (simp add: progressPercentForTzapPhase_def clamped_share_def)

text \<open>A job half way through its bytes, for examples.\<close>

definition sample_job :: "string \<Rightarrow> string \<Rightarrow> job_status \<Rightarrow> job_snapshot" where
  "sample_job jobId revision status =
     \<lparr> js_revision = revision, js_jobId = jobId, js_kind = JkZipCreate, js_status = status,
       js_createdAt = [], js_updatedAt = [], js_canPause = True, js_canResume = False, js_canCancel = True,
       js_canDismiss = False,
       js_progressFacts =
         \<lparr> jf_processedBytes = 50, jf_totalBytes = Some 100, jf_processedEntries = 2, jf_totalEntries = None,
           jf_currentPath = None, jf_recentPaths = [], jf_activePhase = None, jf_phaseProcessedBytes = 0,
           jf_phaseTotalBytes = None, jf_warningCount = 0, jf_activeElapsedMillis = 4000,
           jf_phaseElapsedMillis = 0 \<rparr>,
       js_latestFailure = None, js_boundedNotices = [], js_availableActions = [], js_outputArtifacts = [],
       js_retryDescriptor = None, js_terminalSummary = None \<rparr>"

section \<open>Properties\<close>

text \<open>The progress of a job is a percentage: between 0 and 100 whatever the counters say, 100 exactly
  reported when the job is completed, below 100 for a running tzap creation, and the remaining time is
  never negative while the elapsed time is not.\<close>

theorem progress_is_percentage:
  assumes "gp_progressPercent (deriveRetainedJobProgress s) = Some p"
  shows "0 \<le> p \<and> p \<le> 100 \<and> (js_status s = JsCompleted \<longrightarrow> p = 100)
    \<and> (js_status s \<noteq> JsCompleted \<and> js_kind s = JkTzapCreate
        \<and> jf_activePhase (js_progressFacts s) \<noteq> None \<longrightarrow> p \<le> 99)
    \<and> (0 \<le> jf_activeElapsedMillis (js_progressFacts s) \<longrightarrow>
        (\<forall>r. gp_remainingMs (deriveRetainedJobProgress s) = Some r \<longrightarrow> 0 \<le> r))"
proof -
  note cases = assms [unfolded progress_percent_cases]
  have bounds: "0 \<le> p \<and> p \<le> 100"
    using cases tzap_percent_bounds [THEN conjunct1] tzap_percent_bounds [THEN conjunct2, THEN order_trans [of _ 99 100]]
      clamped_share_bounds [of 100]
    by (auto simp: or_else_def split: if_splits option.splits)
  moreover have "js_status s \<noteq> JsCompleted \<and> js_kind s = JkTzapCreate
      \<and> jf_activePhase (js_progressFacts s) \<noteq> None \<longrightarrow> p \<le> 99"
    using cases tzap_percent_bounds by (auto simp: or_else_def)
  moreover have "gp_remainingMs (deriveRetainedJobProgress s) =
      (if 0 < p then Some (jf_activeElapsedMillis (js_progressFacts s) * ((100 - p) / p)) else None)"
    using assms by (simp add: deriveRetainedJobProgress_def Let_def)
  ultimately show ?thesis
    using cases by (auto split: if_splits)
qed

theorem progress_is_percentage_witness:
  "gp_progressPercent (deriveRetainedJobProgress (sample_job ''j'' ''1'' JsRunning)) = Some 50 \<and> (50 :: rat) \<le> 100"
proof -
  have p: "gp_progressPercent (deriveRetainedJobProgress (sample_job ''j'' ''1'' JsRunning)) = Some 50"
    by (simp add: progress_percent_cases sample_job_def or_else_def clamped_share_def)
  from progress_is_percentage [OF p] p show ?thesis
    by blast
qed

end
