(* ===== verification/DisposableTask.thy ===== *)
theory DisposableTask
  imports Jobs
begin

text \<open>
  The window of one background job, \<^verbatim>\<open>src/src/app/workspaces/disposableTask.ts\<close>: a reducer on the
  task's phase, its last job snapshot and the close prompt.  The copies and freezes of the code are the
  identity.  \<open>None\<close> is the exception that \<open>BigInt\<close> throws on a malformed revision.
\<close>

datatype task_phase = TpStarting | TpRunning | TpPaused | TpCancelling | TpSucceeded | TpFailed | TpCancelled | TpClosing

record task_state =
  ts_phase :: task_phase
  ts_job :: job_snapshot
  ts_closePromptOpen :: bool

datatype task_event =
    TeJobUpdated job_snapshot
  | TeCloseRequested
  | TeKeepOpen
  | TeContinueInBackground
  | TeCancelRequested
  | TeControlRejected
  | TeAutoCloseElapsed

definition TERMINAL_PHASES :: "task_phase list" where
  "TERMINAL_PHASES = [TpSucceeded, TpFailed, TpCancelled, TpClosing]"

definition isLivePhase :: "task_phase \<Rightarrow> bool" where
  "isLivePhase phase \<longleftrightarrow> phase = TpStarting \<or> phase = TpRunning \<or> phase = TpPaused \<or> phase = TpCancelling"

definition isLiveDisposableTask :: "task_state \<Rightarrow> bool" where
  "isLiveDisposableTask state = isLivePhase (ts_phase state)"

fun phaseForStatus :: "job_status \<Rightarrow> task_phase" where
  "phaseForStatus JsQueued = TpStarting"
| "phaseForStatus JsRunning = TpRunning"
| "phaseForStatus JsPaused = TpPaused"
| "phaseForStatus JsCancelling = TpCancelling"
| "phaseForStatus JsCompleted = TpSucceeded"
| "phaseForStatus JsFailed = TpFailed"
| "phaseForStatus JsCancelled = TpCancelled"

definition createDisposableTask :: "start_job_response \<Rightarrow> task_state" where
  "createDisposableTask response =
     \<lparr> ts_phase = phaseForStatus (sj_status response),
       ts_job =
         \<lparr> js_revision = ''0'', js_jobId = sj_jobId response, js_kind = sj_kind response,
           js_status = sj_status response, js_createdAt = sj_createdAt response,
           js_updatedAt = sj_createdAt response, js_canPause = True, js_canResume = False, js_canCancel = True,
           js_canDismiss = False,
           js_progressFacts =
             \<lparr> jf_processedBytes = 0, jf_totalBytes = None, jf_processedEntries = 0, jf_totalEntries = None,
               jf_currentPath = None, jf_recentPaths = [], jf_activePhase = None, jf_phaseProcessedBytes = 0,
               jf_phaseTotalBytes = None, jf_warningCount = 0, jf_activeElapsedMillis = 0,
               jf_phaseElapsedMillis = 0 \<rparr>,
           js_latestFailure = None, js_boundedNotices = [], js_availableActions = [], js_outputArtifacts = [],
           js_retryDescriptor = None, js_terminalSummary = None \<rparr>,
       ts_closePromptOpen = False \<rparr>"

definition set_phase :: "task_phase \<Rightarrow> task_state \<Rightarrow> task_state" where
  "set_phase phase state = state\<lparr> ts_phase := phase, ts_closePromptOpen := False \<rparr>"

text \<open>The guards of \<open>jobUpdated\<close> are evaluated from left to right; \<open>BigInt\<close> runs only when the first two
  let it.\<close>

fun reduceDisposableTask :: "task_state \<Rightarrow> task_event \<Rightarrow> task_state option" where
  "reduceDisposableTask state (TeJobUpdated snapshot) =
     (if js_jobId snapshot \<noteq> js_jobId (ts_job state) \<or> ts_phase state \<in> set TERMINAL_PHASES then Some state
      else (case (js_bigint (js_revision snapshot), js_bigint (js_revision (ts_job state))) of
              (Some new, Some old) \<Rightarrow>
                if new \<le> old then Some state
                else Some \<lparr> ts_phase = phaseForStatus (js_status snapshot), ts_job = snapshot,
                            ts_closePromptOpen = False \<rparr>
            | _ \<Rightarrow> None))"
| "reduceDisposableTask state TeCloseRequested =
     Some (if isLivePhase (ts_phase state) then state\<lparr> ts_closePromptOpen := True \<rparr>
           else set_phase TpClosing state)"
| "reduceDisposableTask state TeKeepOpen = Some (state\<lparr> ts_closePromptOpen := False \<rparr>)"
| "reduceDisposableTask state TeContinueInBackground = Some (set_phase TpClosing state)"
| "reduceDisposableTask state TeCancelRequested =
     Some (if isLivePhase (ts_phase state) then set_phase TpCancelling state else state)"
| "reduceDisposableTask state TeControlRejected =
     Some (if isLivePhase (ts_phase state) then set_phase (phaseForStatus (js_status (ts_job state))) state
           else state)"
| "reduceDisposableTask state TeAutoCloseElapsed =
     Some (if ts_phase state = TpSucceeded \<or> ts_phase state = TpCancelled then set_phase TpClosing state
           else state)"

section \<open>The machine\<close>

inductive task_initial :: "task_state \<Rightarrow> bool" where
  "task_initial (createDisposableTask response)"

inductive task_step :: "task_state \<Rightarrow> task_state \<Rightarrow> bool" where
  "reduceDisposableTask state event = Some state' \<Longrightarrow> task_step state state'"

inductive_cases task_initialE: "task_initial s"
inductive_cases task_stepE: "task_step s s'"

text \<open>The close prompt is open only over live work, the revision can be compared, and unless the task is being
  cancelled or is closing its phase is that of the last snapshot.\<close>

definition task_inv :: "task_state \<Rightarrow> bool" where
  "task_inv s \<longleftrightarrow>
     (ts_closePromptOpen s \<longrightarrow> isLivePhase (ts_phase s))
     \<and> js_bigint (js_revision (ts_job s)) \<noteq> None
     \<and> (ts_phase s = TpClosing
        \<or> (ts_phase s = TpCancelling \<and> isLivePhase (phaseForStatus (js_status (ts_job s))))
        \<or> ts_phase s = phaseForStatus (js_status (ts_job s)))"

text \<open>Progress of a task: the job is the same, its revision does not fall, a finished job is never replaced,
  and closing is final.\<close>

definition task_le :: "task_state \<Rightarrow> task_state \<Rightarrow> bool" where
  "task_le s t \<longleftrightarrow>
     js_jobId (ts_job t) = js_jobId (ts_job s)
     \<and> the (js_bigint (js_revision (ts_job s))) \<le> the (js_bigint (js_revision (ts_job t)))
     \<and> (ts_phase s \<in> set TERMINAL_PHASES \<longrightarrow>
          ts_job t = ts_job s \<and> (ts_phase t = ts_phase s \<or> ts_phase t = TpClosing))"

lemma phase_not_closing [simp]: "phaseForStatus st \<noteq> TpClosing"
  by (cases st) simp_all

lemma live_or_terminal: "isLivePhase p \<longleftrightarrow> p \<notin> set TERMINAL_PHASES"
  by (cases p) (simp_all add: isLivePhase_def TERMINAL_PHASES_def)

lemma bigint_zero: "js_bigint ''0'' = Some 0"
  by code_simp

lemma task_step_job:
  assumes "reduceDisposableTask s e = Some t"
  shows "ts_job t = ts_job s
    \<or> (\<exists>new old. js_jobId (ts_job t) = js_jobId (ts_job s) \<and> ts_phase s \<notin> set TERMINAL_PHASES
        \<and> js_bigint (js_revision (ts_job t)) = Some new \<and> js_bigint (js_revision (ts_job s)) = Some old
        \<and> old < new \<and> ts_phase t = phaseForStatus (js_status (ts_job t)) \<and> \<not> ts_closePromptOpen t)"
  using assms by (cases e) (auto simp: set_phase_def split: if_splits option.splits)

lemma set_phase_inv:
  assumes "task_inv s" and "p = TpClosing \<or> p = TpCancelling \<and> isLivePhase (phaseForStatus (js_status (ts_job s)))
    \<or> p = phaseForStatus (js_status (ts_job s))"
  shows "task_inv (set_phase p s)"
  using assms by (simp add: task_inv_def set_phase_def)

lemma live_phase_job: "task_inv s \<Longrightarrow> isLivePhase (ts_phase s) \<Longrightarrow> isLivePhase (phaseForStatus (js_status (ts_job s)))"
  by (auto simp: task_inv_def isLivePhase_def)

lemma task_event_inv:
  assumes inv: "task_inv s" and step: "reduceDisposableTask s e = Some t"
  shows "task_inv t"
proof (cases e)
  case (TeJobUpdated snapshot)
  from task_step_job [OF step] show ?thesis
  proof
    assume "ts_job t = ts_job s"
    moreover have "t = s \<or> ts_job t = snapshot \<and> ts_phase t = phaseForStatus (js_status snapshot) \<and> \<not> ts_closePromptOpen t"
      using step by (auto simp: TeJobUpdated split: if_splits option.splits)
    ultimately show ?thesis
      using inv by (elim disjE) (simp, simp add: task_inv_def)
  qed (elim exE conjE, simp add: task_inv_def)
next
  case TeCloseRequested
  with step have "t = (if isLivePhase (ts_phase s) then s\<lparr> ts_closePromptOpen := True \<rparr> else set_phase TpClosing s)"
    by simp
  with inv show ?thesis
    by (cases "isLivePhase (ts_phase s)") (simp add: task_inv_def, simp add: set_phase_inv)
next
  case TeKeepOpen
  with step have "t = s\<lparr> ts_closePromptOpen := False \<rparr>"
    by simp
  with inv show ?thesis
    by (simp add: task_inv_def)
qed (use step inv live_phase_job in \<open>auto intro: set_phase_inv split: if_splits\<close>)

lemma task_step_inv: "task_inv s \<Longrightarrow> task_step s t \<Longrightarrow> task_inv t"
  by (auto elim!: task_stepE intro: task_event_inv)

lemma terminal_step_phase:
  assumes "reduceDisposableTask s e = Some t" and "ts_phase s \<in> set TERMINAL_PHASES"
  shows "ts_phase t = ts_phase s \<or> ts_phase t = TpClosing"
  using assms by (cases e) (auto simp: set_phase_def live_or_terminal split: if_splits)

lemma task_step_le: "task_step s t \<Longrightarrow> task_le s t"
proof -
  assume "task_step s t"
  then obtain e where e: "reduceDisposableTask s e = Some t"
    by (auto elim: task_stepE)
  from task_step_job [OF e] terminal_step_phase [OF e] show "task_le s t"
    unfolding task_le_def by (elim disjE exE conjE) simp_all
qed

lemma closing_terminal [simp]: "TpClosing \<in> set TERMINAL_PHASES"
  by (simp add: TERMINAL_PHASES_def)

lemma outcome_terminal [simp]: "TpSucceeded \<in> set TERMINAL_PHASES" "TpFailed \<in> set TERMINAL_PHASES"
    "TpCancelled \<in> set TERMINAL_PHASES"
  by (simp_all add: TERMINAL_PHASES_def)

lemma task_le_trans: "task_le s t \<Longrightarrow> task_le t u \<Longrightarrow> task_le s u"
  unfolding task_le_def by (metis closing_terminal order_trans)

interpretation task: monotone_machine task_initial task_step task_inv task_le
proof unfold_locales
  show "task_initial s \<Longrightarrow> task_inv s" for s
    by (auto elim!: task_initialE simp: task_inv_def createDisposableTask_def bigint_zero)
  show "task_le s s" for s
    by (simp add: task_le_def)
qed (auto intro: task_step_inv task_step_le task_le_trans)

text \<open>A run of events; \<open>None\<close> as soon as one throws.\<close>

fun run_task :: "task_state \<Rightarrow> task_event list \<Rightarrow> task_state option" where
  "run_task s [] = Some s"
| "run_task s (e # es) = Option.bind (reduceDisposableTask s e) (\<lambda>t. run_task t es)"


lemma run_task_steps: "run_task s es = Some t \<Longrightarrow> task_step\<^sup>*\<^sup>* s t"
proof (induction es arbitrary: s)
  case (Cons e es)
  then obtain u where "reduceDisposableTask s e = Some u" and "run_task u es = Some t"
    by (auto simp: bind_eq_Some_conv)
  with Cons.IH show ?case
    by (meson converse_rtranclp_into_rtranclp task_step.intros)
qed simp

lemma run_task_le: "run_task s es = Some t \<Longrightarrow> task_inv s \<Longrightarrow> task_le s t \<and> task_inv t"
  using run_task_steps task.steps_le by blast

lemma created_task_inv: "task_inv (createDisposableTask r)"
  using task.init_inv task_initial.intros by blast

section \<open>Properties\<close>

text \<open>C33: Whatever happens to the window of a started job, the window keeps showing that job, never an older
  snapshot of it than before, shows the close prompt only over live work, and once the job has finished
  neither the snapshot nor the outcome changes any more, except that the window closes.\<close>

theorem task_window_progress:
  assumes "run_task (createDisposableTask r) es = Some s" and "run_task s es' = Some t"
  shows "js_jobId (ts_job t) = sj_jobId r
    \<and> the (js_bigint (js_revision (ts_job s))) \<le> the (js_bigint (js_revision (ts_job t)))
    \<and> (ts_closePromptOpen t \<longrightarrow> isLiveDisposableTask t)
    \<and> (\<not> isLiveDisposableTask s \<longrightarrow>
         ts_job t = ts_job s \<and> (ts_phase t = ts_phase s \<or> ts_phase t = TpClosing))"
proof -
  have s: "task_le (createDisposableTask r) s \<and> task_inv s"
    using run_task_le [OF assms(1) created_task_inv] .
  then have t: "task_le s t \<and> task_inv t"
    using run_task_le [OF assms(2)] by blast
  have "js_jobId (ts_job (createDisposableTask r)) = sj_jobId r"
    by (simp add: createDisposableTask_def)
  with s t show ?thesis
    by (auto simp: task_le_def task_inv_def isLiveDisposableTask_def live_or_terminal)
qed

definition sample_response :: start_job_response where
  "sample_response = \<lparr> sj_jobId = ''j'', sj_kind = JkZipCreate, sj_status = JsQueued, sj_createdAt = ''t'' \<rparr>"

theorem task_window_progress_witness:
  "(\<exists>s t. run_task (createDisposableTask sample_response)
       [TeJobUpdated (sample_job ''j'' ''5'' JsRunning), TeCancelRequested] = Some s
    \<and> run_task s [TeJobUpdated (sample_job ''j'' ''3'' JsPaused), TeJobUpdated (sample_job ''j'' ''7'' JsCancelled)] = Some t
    \<and> js_jobId (ts_job t) = ''j'' \<and> ts_phase s = TpCancelling \<and> ts_phase t = TpCancelled)"
proof -
  let ?a = "[TeJobUpdated (sample_job ''j'' ''5'' JsRunning), TeCancelRequested]"
  let ?b = "[TeJobUpdated (sample_job ''j'' ''3'' JsPaused), TeJobUpdated (sample_job ''j'' ''7'' JsCancelled)]"
  let ?s = "\<lparr> ts_phase = TpCancelling, ts_job = sample_job ''j'' ''5'' JsRunning, ts_closePromptOpen = False \<rparr>"
  let ?t = "\<lparr> ts_phase = TpCancelled, ts_job = sample_job ''j'' ''7'' JsCancelled, ts_closePromptOpen = False \<rparr>"
  have n: "js_bigint ''3'' = Some 3" "js_bigint ''5'' = Some 5" "js_bigint ''7'' = Some 7"
    by code_simp+
  have s: "run_task (createDisposableTask sample_response) ?a = Some ?s"
    by (simp add: createDisposableTask_def sample_response_def sample_job_def n bigint_zero TERMINAL_PHASES_def
      isLivePhase_def set_phase_def)
  have t: "run_task ?s ?b = Some ?t"
    by (simp add: sample_job_def n TERMINAL_PHASES_def)
  from task_window_progress [OF s t] have "js_jobId (ts_job ?t) = sj_jobId sample_response"
    by blast
  with s t show ?thesis
    by (intro exI [of _ ?s] exI [of _ ?t]) (simp add: sample_response_def)
qed

text \<open>What makes the window of a job that has ended close: the user, or the timer unless the job has failed.\<close>

fun leaves :: "task_phase \<Rightarrow> task_event \<Rightarrow> bool" where
  "leaves phase TeCloseRequested = True"
| "leaves phase TeContinueInBackground = True"
| "leaves phase TeAutoCloseElapsed = (phase = TpSucceeded \<or> phase = TpCancelled)"
| "leaves phase e = False"

lemma ended_step:
  assumes "ts_phase s \<in> set TERMINAL_PHASES"
  shows "\<exists>t. reduceDisposableTask s e = Some t \<and> ts_job t = ts_job s
    \<and> ts_phase t = (if leaves (ts_phase s) e then TpClosing else ts_phase s)"
  using assms by (cases e) (simp_all add: set_phase_def live_or_terminal)

lemma ended_run:
  "ts_phase s \<in> set TERMINAL_PHASES \<Longrightarrow>
     \<exists>t. run_task s es = Some t \<and> ts_job t = ts_job s
       \<and> ts_phase t = (if list_ex (leaves (ts_phase s)) es then TpClosing else ts_phase s)"
proof (induction es arbitrary: s)
  case (Cons e es)
  from ended_step [OF Cons.prems, of e] obtain u where u: "reduceDisposableTask s e = Some u" "ts_job u = ts_job s"
      "ts_phase u = (if leaves (ts_phase s) e then TpClosing else ts_phase s)" by blast
  moreover have "ts_phase u \<in> set TERMINAL_PHASES" using u(3) Cons.prems by (simp add: TERMINAL_PHASES_def)
  from Cons.IH [OF this] obtain t where "run_task u es = Some t" "ts_job t = ts_job u"
      "ts_phase t = (if list_ex (leaves (ts_phase u)) es then TpClosing else ts_phase u)" by blast
  ultimately show ?case by auto
qed simp

text \<open>C34: A task window ends: after the newest snapshot of a job that has succeeded, was cancelled or has failed,
  whatever events follow, the window goes on showing that snapshot with its outcome until it closes, and it closes exactly
  when the user asks for it or continues in the background, or when the timer elapses, but a failure stays on
  screen however often the timer elapses or a cancellation is asked for; and from any state at all the user leaves by asking
  to close and continuing in the background.\<close>

theorem task_window_ends:
  assumes "isLiveDisposableTask s" and "js_jobId snapshot = js_jobId (ts_job s)"
    and "js_bigint (js_revision (ts_job s)) = Some old" and "js_bigint (js_revision snapshot) = Some new"
    and "old < new" and "js_status snapshot \<in> {JsCompleted, JsCancelled, JsFailed}"
  shows "(\<exists>t. run_task s (TeJobUpdated snapshot # es) = Some t \<and> ts_job t = snapshot
      \<and> ts_phase t =
          (if list_ex (\<lambda>e. e = TeCloseRequested \<or> e = TeContinueInBackground
                         \<or> e = TeAutoCloseElapsed \<and> js_status snapshot \<noteq> JsFailed) es
           then TpClosing
           else if js_status snapshot = JsCompleted then TpSucceeded
           else if js_status snapshot = JsCancelled then TpCancelled else TpFailed))
    \<and> map_option ts_phase (run_task u [TeCloseRequested, TeContinueInBackground]) = Some TpClosing"
proof -
  define r where "r = \<lparr> ts_phase = phaseForStatus (js_status snapshot), ts_job = snapshot, ts_closePromptOpen = False \<rparr>"
  have step: "reduceDisposableTask s (TeJobUpdated snapshot) = Some r"
    using assms(1-5) by (simp add: isLiveDisposableTask_def live_or_terminal r_def)
  have phase: "ts_phase r = (if js_status snapshot = JsCompleted then TpSucceeded
      else if js_status snapshot = JsCancelled then TpCancelled else TpFailed)"
    using assms(6) by (auto simp: r_def)
  then have "leaves (ts_phase r) = (\<lambda>e. e = TeCloseRequested \<or> e = TeContinueInBackground
      \<or> e = TeAutoCloseElapsed \<and> js_status snapshot \<noteq> JsFailed)"
    using assms(6) by (intro ext, case_tac e) auto
  moreover have "ts_phase r \<in> set TERMINAL_PHASES" using phase by simp
  from ended_run [OF this, of es] obtain t where "run_task r es = Some t" "ts_job t = ts_job r"
      "ts_phase t = (if list_ex (leaves (ts_phase r)) es then TpClosing else ts_phase r)" by blast
  ultimately have "run_task s (TeJobUpdated snapshot # es) = Some t" "ts_job t = snapshot"
      "ts_phase t = (if list_ex (\<lambda>e. e = TeCloseRequested \<or> e = TeContinueInBackground
             \<or> e = TeAutoCloseElapsed \<and> js_status snapshot \<noteq> JsFailed) es
        then TpClosing
        else if js_status snapshot = JsCompleted then TpSucceeded
        else if js_status snapshot = JsCancelled then TpCancelled else TpFailed)"
    using step phase by (simp_all add: r_def)
  moreover have "map_option ts_phase (run_task u [TeCloseRequested, TeContinueInBackground]) = Some TpClosing"
    by (simp add: set_phase_def)
  ultimately show ?thesis by blast
qed

theorem task_window_ends_witness:
  "(\<exists>t. run_task (createDisposableTask sample_response)
     [TeJobUpdated (sample_job ''j'' ''1'' JsFailed), TeAutoCloseElapsed, TeCancelRequested] = Some t \<and> ts_phase t = TpFailed)"
proof -
  have one: "js_bigint ''1'' = Some 1"
    by code_simp
  let ?s = "createDisposableTask sample_response" and ?snapshot = "sample_job ''j'' ''1'' JsFailed"
  have given: "isLiveDisposableTask ?s" "js_jobId ?snapshot = js_jobId (ts_job ?s)"
      "js_bigint (js_revision (ts_job ?s)) = Some 0" "js_bigint (js_revision ?snapshot) = Some 1"
      "js_status ?snapshot = JsFailed"
    by (simp_all add: one bigint_zero createDisposableTask_def sample_response_def sample_job_def isLiveDisposableTask_def
      isLivePhase_def)
  from task_window_ends [OF given(1-4), of "[TeAutoCloseElapsed, TeCancelRequested]"] given(5)
  show ?thesis by (auto simp del: run_task.simps reduceDisposableTask.simps)
qed

text \<open>A malformed revision makes the reducer throw, and only on a snapshot of the live job itself.\<close>

theorem task_throws:
  "reduceDisposableTask s e = None \<longleftrightarrow>
     (\<exists>snapshot. e = TeJobUpdated snapshot \<and> js_jobId snapshot = js_jobId (ts_job s) \<and> isLiveDisposableTask s
        \<and> (js_bigint (js_revision snapshot) = None \<or> js_bigint (js_revision (ts_job s)) = None))"
  by (cases e) (auto simp: isLiveDisposableTask_def live_or_terminal split: option.splits)

end
