(* ===== verification/JobFeed.thy ===== *)
theory JobFeed
  imports Jobs StateMachine
begin

text \<open>
  Job subscriptions, \<^verbatim>\<open>src/src/desktop/jobFeed.ts\<close>.  The code runs on promises; each promise that it waits
  for is a stage of the state here, and its settling is an event of the environment, so that the theorems
  range over every order in which the host can answer.  The host is an external service: it may answer or
  fail at any time.  The callbacks that receive snapshots are taken not to throw.
\<close>

definition newer :: "string \<Rightarrow> string option \<Rightarrow> bool" where
  "newer incoming current =
     (case current of
        None \<Rightarrow> True
      | Some c \<Rightarrow>
          (case (js_bigint incoming, js_bigint c) of
             (Some i, Some k) \<Rightarrow> k < i
           | _ \<Rightarrow> False))"

section \<open>The connection\<close>

record 'p envelope =
  ev_subscriptionId :: string
  ev_revision :: string
  ev_payload :: 'p

record job_descriptor =
  jd_jobId :: string
  jd_revision :: string
  jd_kind :: job_kind
  jd_status :: job_status
  jd_terminal :: bool

record job_catalog =
  jl_catalogRevision :: string
  jl_jobs :: "job_descriptor list"

datatype job_origin = JoMainWindow | JoQuickAction | JoLocalSendAutoExtract | JoNativeDrag | JoPasswordRetry

record accepted_job =
  ac_acceptanceRevision :: string
  ac_job :: start_job_response
  ac_origin :: job_origin

text \<open>
  \<open>connect\<close> is called once before the subscription object exists (\<open>FirstAttempt\<close>) and by \<open>reconnect\<close>
  (\<open>RetryAttempt\<close>).  The stages are its \<open>await\<close>s: closing the previous subscription, subscribing (with the
  generation it captured) and closing a subscription that came too late.  \<open>fc_closing\<close> is an
  \<open>unsubscribe\<close> that waits for the reconnection.
\<close>

datatype attempt = FirstAttempt | RetryAttempt
datatype attempt_stage = Unsubscribing | Subscribing nat | Discarding

record connection =
  fc_disposed :: bool
  fc_first :: "attempt_stage option"
  fc_reconnecting :: "attempt_stage option"
  fc_active :: "string option"
  fc_generation :: nat
  fc_retryTimer :: bool
  fc_closing :: bool

text \<open>Calls to the host, and what it returned: \<open>CeOpened\<close> is a subscription it has opened.\<close>

datatype connection_effect =
    CeSubscribe nat string
  | CeUnsubscribe string
  | CeConnectionError
  | CeOpened string

datatype connection_event =
    CvReconnect
  | CvUnsubscribed
  | CvSubscribed attempt string
  | CvSubscribeFailed attempt
  | CvDiscarded attempt
  | CvTimer
  | CvClose

type_synonym reaction = "connection \<times> connection_effect list"

fun stage_of :: "attempt \<Rightarrow> connection \<Rightarrow> attempt_stage option" where
  "stage_of FirstAttempt c = fc_first c"
| "stage_of RetryAttempt c = fc_reconnecting c"

fun set_stage :: "attempt \<Rightarrow> attempt_stage option \<Rightarrow> connection \<Rightarrow> connection" where
  "set_stage FirstAttempt st c = c\<lparr> fc_first := st \<rparr>"
| "set_stage RetryAttempt st c = c\<lparr> fc_reconnecting := st \<rparr>"

definition begin_connect :: "attempt \<Rightarrow> string \<Rightarrow> connection \<Rightarrow> reaction" where
  "begin_connect who since c =
     (let g = fc_generation c + 1
      in (set_stage who (Some (Subscribing g)) (c\<lparr> fc_generation := g \<rparr>), [CeSubscribe g since]))"

definition schedule_reconnect :: "connection \<Rightarrow> reaction" where
  "schedule_reconnect c =
     (if fc_disposed c \<or> fc_retryTimer c then (c, [])
      else (c\<lparr> fc_retryTimer := True \<rparr>, [CeConnectionError]))"

definition begin_reconnect :: "(string \<Rightarrow> bool) \<Rightarrow> string \<Rightarrow> bool \<Rightarrow> connection \<Rightarrow> reaction" where
  "begin_reconnect closable since has_cause c =
     (if fc_disposed c \<or> fc_reconnecting c \<noteq> None then (c, [])
      else let err = (if has_cause then [CeConnectionError] else []);
               previous = fc_active c;
               c1 = c\<lparr> fc_active := None, fc_generation := fc_generation c + 1 \<rparr>
           in if truthy previous \<and> closable (the previous)
              then (c1\<lparr> fc_reconnecting := Some Unsubscribing \<rparr>, err @ [CeUnsubscribe (the previous)])
              else let (c2, out) = begin_connect RetryAttempt since c1 in (c2, err @ out))"

definition finish_close :: "(string \<Rightarrow> bool) \<Rightarrow> connection \<Rightarrow> reaction" where
  "finish_close closable c =
     (c\<lparr> fc_active := None, fc_closing := False \<rparr>,
      if truthy (fc_active c) \<and> closable (the (fc_active c)) then [CeUnsubscribe (the (fc_active c))] else [])"

text \<open>The attempt is over; a pending \<open>unsubscribe\<close> waits only for the reconnection.\<close>

definition settle :: "(string \<Rightarrow> bool) \<Rightarrow> attempt \<Rightarrow> connection \<Rightarrow> reaction" where
  "settle closable who c =
     (let c1 = set_stage who None c
      in if who = RetryAttempt \<and> fc_closing c1 then finish_close closable c1 else (c1, []))"

definition with_effects :: "connection_effect list \<Rightarrow> reaction \<Rightarrow> reaction" where
  "with_effects out r = (fst r, out @ snd r)"

text \<open>An event that nothing waits for changes nothing.\<close>

fun connection_step :: "(string \<Rightarrow> bool) \<Rightarrow> string \<Rightarrow> connection_event \<Rightarrow> connection \<Rightarrow> reaction" where
  "connection_step closable since CvReconnect c = begin_reconnect closable since True c"
| "connection_step closable since CvUnsubscribed c =
     (if fc_reconnecting c = Some Unsubscribing then begin_connect RetryAttempt since c else (c, []))"
| "connection_step closable since (CvSubscribed who subscriptionId) c =
     (case stage_of who c of
        Some (Subscribing g) \<Rightarrow>
          if fc_disposed c \<or> g \<noteq> fc_generation c
          then (set_stage who (Some Discarding) c, [CeOpened subscriptionId, CeUnsubscribe subscriptionId])
          else with_effects [CeOpened subscriptionId] (settle closable who (c\<lparr> fc_active := Some subscriptionId \<rparr>))
      | _ \<Rightarrow> (c, []))"
| "connection_step closable since (CvSubscribeFailed who) c =
     (case stage_of who c of
        Some (Subscribing g) \<Rightarrow>
          let (c1, out) = schedule_reconnect c in with_effects out (settle closable who c1)
      | _ \<Rightarrow> (c, []))"
| "connection_step closable since (CvDiscarded who) c =
     (if stage_of who c = Some Discarding then settle closable who c else (c, []))"
| "connection_step closable since CvTimer c =
     (if fc_retryTimer c then begin_reconnect closable since False (c\<lparr> fc_retryTimer := False \<rparr>) else (c, []))"
| "connection_step closable since CvClose c =
     (if fc_first c \<noteq> None then (c, [])
      else let c1 = c\<lparr> fc_disposed := True, fc_retryTimer := False \<rparr>
           in if fc_reconnecting c1 \<noteq> None then (c1\<lparr> fc_closing := True \<rparr>, []) else finish_close closable c1)"

definition new_connection :: connection where
  "new_connection =
     \<lparr> fc_disposed = False, fc_first = None, fc_reconnecting = None, fc_active = None, fc_generation = 0,
       fc_retryTimer = False, fc_closing = False \<rparr>"

section \<open>Snapshots of a job or of the catalogue\<close>

datatype 'p feed_log =
    FlCall connection_effect
  | FlDeliver string 'p
  | FlAck string string

record 'p feed =
  fd_connection :: connection
  fd_highest :: "string option"
  fd_log :: "'p feed_log list"

datatype 'p feed_event = FvMessage nat "'p envelope" | FvConnection connection_event

text \<open>\<open>channel.onmessage\<close> of the channel opened by generation \<open>g\<close>.\<close>

definition feed_message :: "nat \<Rightarrow> 'p envelope \<Rightarrow> 'p feed \<Rightarrow> 'p feed" where
  "feed_message g envelope f =
     (let c = fd_connection f
      in if fc_disposed c \<or> g \<noteq> fc_generation c then f
         else let f1 = f\<lparr> fd_connection := c\<lparr> fc_active := Some (ev_subscriptionId envelope) \<rparr> \<rparr>;
                  f2 = (if newer (ev_revision envelope) (fd_highest f)
                        then f1\<lparr> fd_highest := Some (ev_revision envelope),
                                 fd_log := fd_log f @ [FlDeliver (ev_revision envelope) (ev_payload envelope)] \<rparr>
                        else f1)
              in f2\<lparr> fd_log := fd_log f2 @ [FlAck (ev_subscriptionId envelope) (ev_revision envelope)] \<rparr>)"

fun feed_react :: "'p feed_event \<Rightarrow> 'p feed \<Rightarrow> 'p feed" where
  "feed_react (FvMessage g envelope) f = feed_message g envelope f"
| "feed_react (FvConnection ev) f =
     (let (c, out) = connection_step (\<lambda>_. True) [] ev (fd_connection f)
      in f\<lparr> fd_connection := c, fd_log := fd_log f @ map FlCall out \<rparr>)"

text \<open>\<open>subscribeWithReconnect\<close> up to its first \<open>await\<close>.\<close>

definition subscribeWithReconnect :: "'p feed" where
  "subscribeWithReconnect =
     (let (c, out) = begin_connect FirstAttempt [] new_connection
      in \<lparr> fd_connection = c, fd_highest = None, fd_log = map FlCall out \<rparr>)"

fun delivered_revisions :: "'p feed_log list \<Rightarrow> string list" where
  "delivered_revisions [] = []"
| "delivered_revisions (FlDeliver r p # l) = r # delivered_revisions l"
| "delivered_revisions (_ # l) = delivered_revisions l"

lemma delivered_append [simp]:
  "delivered_revisions (a @ b) = delivered_revisions a @ delivered_revisions b"
  by (induction a rule: delivered_revisions.induct) simp_all

lemma delivered_calls [simp]: "delivered_revisions (map FlCall out) = []"
  by (induction out) simp_all

section \<open>What the host owes\<close>

text \<open>The host numbers its subscriptions with non-empty ids, one for each call: \<open>sid g\<close> is the id of the
  subscription made by generation \<open>g\<close>, in its answer and in its messages; it
  sends messages only on a channel it was given.\<close>

definition opens_channel :: "nat \<Rightarrow> 'p feed_log \<Rightarrow> bool" where
  "opens_channel g e = (case e of FlCall (CeSubscribe h since) \<Rightarrow> h = g | _ \<Rightarrow> False)"

fun event_ok :: "(nat \<Rightarrow> string) \<Rightarrow> 'p feed \<Rightarrow> 'p feed_event \<Rightarrow> bool" where
  "event_ok sid f (FvMessage g envelope) \<longleftrightarrow>
     ev_subscriptionId envelope = sid g \<and> sid g \<noteq> [] \<and> (\<exists>e \<in> set (fd_log f). opens_channel g e)"
| "event_ok sid f (FvConnection (CvSubscribed who i)) \<longleftrightarrow>
     (case stage_of who (fd_connection f) of Some (Subscribing g) \<Rightarrow> i = sid g \<and> sid g \<noteq> [] | _ \<Rightarrow> True)"
| "event_ok sid f (FvConnection _) \<longleftrightarrow> True"

inductive feed_initial :: "'p feed \<Rightarrow> bool" where
  "feed_initial subscribeWithReconnect"

inductive feed_step :: "(nat \<Rightarrow> string) \<Rightarrow> 'p feed \<Rightarrow> 'p feed \<Rightarrow> bool" for sid where
  "event_ok sid f ev \<Longrightarrow> feed_step sid f (feed_react ev f)"

inductive_cases feed_initialE: "feed_initial f"
inductive_cases feed_stepE: "feed_step sid f f'"


section \<open>Invariant\<close>

fun calls_of :: "'p feed_log list \<Rightarrow> connection_effect list" where
  "calls_of [] = []"
| "calls_of (FlCall e # l) = e # calls_of l"
| "calls_of (_ # l) = calls_of l"

lemma calls_append [simp]: "calls_of (a @ b) = calls_of a @ calls_of b"
  by (induction a rule: calls_of.induct) simp_all

lemma calls_calls [simp]: "calls_of (map FlCall out) = out"
  by (induction out) simp_all

text \<open>The subscription in use is the one of the current generation.\<close>

definition in_use_ok :: "(nat \<Rightarrow> string) \<Rightarrow> connection \<Rightarrow> bool" where
  "in_use_ok sid c \<longleftrightarrow> (\<forall>x. fc_active c = Some x \<longrightarrow> x = sid (fc_generation c) \<and> x \<noteq> [])"

text \<open>Every subscription the host opened is in use or has been closed.\<close>

definition none_leaked :: "connection \<Rightarrow> connection_effect list \<Rightarrow> bool" where
  "none_leaked c calls \<longleftrightarrow>
     (\<forall>x. CeOpened x \<in> set calls \<longrightarrow> fc_active c = Some x \<or> CeUnsubscribe x \<in> set calls)"

text \<open>Channels are opened by past generations, and while the previous subscription is being closed the
  current generation has none.\<close>

definition generations_ok :: "connection \<Rightarrow> connection_effect list \<Rightarrow> bool" where
  "generations_ok c calls \<longleftrightarrow>
     (\<forall>g since. CeSubscribe g since \<in> set calls \<longrightarrow> g \<le> fc_generation c)
     \<and> (\<forall>g. fc_first c = Some (Subscribing g) \<longrightarrow> (\<exists>since. CeSubscribe g since \<in> set calls))
     \<and> (fc_reconnecting c = Some Unsubscribing \<longrightarrow> (\<forall>since. CeSubscribe (fc_generation c) since \<notin> set calls))"

definition stages_ok :: "connection \<Rightarrow> bool" where
  "stages_ok c \<longleftrightarrow>
     (\<forall>g. fc_reconnecting c = Some (Subscribing g) \<longrightarrow> g = fc_generation c)
     \<and> (fc_reconnecting c = Some Discarding \<longrightarrow> fc_disposed c)
     \<and> fc_first c \<noteq> Some Unsubscribing
     \<and> (fc_reconnecting c = Some Unsubscribing \<longrightarrow> fc_active c = None)"

text \<open>A connection that has not been disposed is connected, connecting, or waiting to try again; a disposed one
  holds no subscription once its reconnection has settled.\<close>

definition alive_or_closed :: "connection \<Rightarrow> bool" where
  "alive_or_closed c \<longleftrightarrow>
     (if fc_disposed c
      then \<not> fc_retryTimer c \<and> (if fc_closing c then fc_reconnecting c \<noteq> None else fc_active c = None)
      else \<not> fc_closing c
        \<and> (fc_first c = Some (Subscribing (fc_generation c)) \<or> fc_reconnecting c \<noteq> None
           \<or> fc_active c \<noteq> None \<or> fc_retryTimer c))"

definition connection_inv :: "(nat \<Rightarrow> string) \<Rightarrow> connection \<Rightarrow> connection_effect list \<Rightarrow> bool" where
  "connection_inv sid c calls \<longleftrightarrow>
     in_use_ok sid c \<and> none_leaked c calls \<and> generations_ok c calls \<and> stages_ok c \<and> alive_or_closed c"

lemma connection_invI:
  "in_use_ok sid c \<Longrightarrow> none_leaked c calls \<Longrightarrow> generations_ok c calls \<Longrightarrow> stages_ok c \<Longrightarrow> alive_or_closed c \<Longrightarrow>
   connection_inv sid c calls"
  by (simp add: connection_inv_def)

lemma connection_invD:
  assumes "connection_inv sid c calls"
  shows "in_use_ok sid c" "none_leaked c calls" "generations_ok c calls" "stages_ok c" "alive_or_closed c"
  using assms by (simp_all add: connection_inv_def)

text \<open>Calls that open nothing, and forgetting the active subscription after closing it.\<close>

lemma none_leaked_calls:
  "none_leaked c calls \<Longrightarrow> fc_active c' = fc_active c \<Longrightarrow> \<forall>x. CeOpened x \<notin> set out \<Longrightarrow> none_leaked c' (calls @ out)"
  by (auto simp: none_leaked_def)

lemma none_leaked_closed:
  "none_leaked c calls \<Longrightarrow> \<forall>x. CeOpened x \<notin> set out \<Longrightarrow>
   \<forall>x. fc_active c = Some x \<longrightarrow> CeUnsubscribe x \<in> set out \<Longrightarrow> none_leaked c' (calls @ out)"
  by (auto simp: none_leaked_def)

lemma generations_ok_same:
  "generations_ok c calls \<Longrightarrow> fc_generation c' = fc_generation c \<Longrightarrow>
   fc_reconnecting c' = Some Unsubscribing \<longrightarrow> fc_reconnecting c = Some Unsubscribing \<Longrightarrow>
   \<forall>g. fc_first c' = Some (Subscribing g) \<longrightarrow> fc_first c = Some (Subscribing g) \<Longrightarrow>
   \<forall>g since. CeSubscribe g since \<notin> set out \<Longrightarrow> generations_ok c' (calls @ out)"
  by (simp add: generations_ok_def)

lemma generations_ok_next:
  assumes "generations_ok c calls" and "fc_generation c' > fc_generation c" and "fc_first c' = fc_first c"
    and "fc_reconnecting c' = Some Unsubscribing \<longrightarrow> (\<forall>g since. CeSubscribe g since \<notin> set out)"
    and "\<forall>g since. CeSubscribe g since \<in> set out \<longrightarrow> g \<le> fc_generation c'"
  shows "generations_ok c' (calls @ out)"
  using assms unfolding generations_ok_def set_append Un_iff
  by (metis leD order.strict_implies_order order_trans)

lemma reconnect_idle_inv:
  assumes inv: "connection_inv sid c calls" and idle: "\<not> fc_disposed c" "fc_reconnecting c = None"
    and c': "c' = c\<lparr> fc_active := None, fc_generation := g, fc_reconnecting := Some st \<rparr>"
    and g: "fc_generation c < g" and st: "st = Unsubscribing \<and> out = err @ [CeUnsubscribe (the (fc_active c))]
      \<or> st = Subscribing g \<and> fc_active c = None \<and> out = err @ [CeSubscribe g since]"
    and err: "set err \<subseteq> {CeConnectionError}"
  shows "connection_inv sid c' (calls @ out)"
proof -
  note inv = connection_invD [OF inv]
  have "CeOpened x \<notin> set out" for x
    using st err by auto
  show ?thesis
  proof (rule connection_invI)
    show "none_leaked c' (calls @ out)"
      by (rule none_leaked_closed [OF inv(2)]) (use st err in auto)
    show "generations_ok c' (calls @ out)"
      by (rule generations_ok_next [OF inv(3)]) (use st err g in \<open>auto simp: c'\<close>)
    show "stages_ok c'"
      using inv(4) st by (auto simp: stages_ok_def c')
    show "alive_or_closed c'"
      using inv(5) idle by (simp add: alive_or_closed_def c')
  qed (simp add: in_use_ok_def c')
qed

lemma begin_reconnect_inv:
  assumes inv: "connection_inv sid c calls" and step: "begin_reconnect (\<lambda>_. True) since has_cause c = (c', out)"
  shows "connection_inv sid c' (calls @ out)"
proof (cases "fc_disposed c \<or> fc_reconnecting c \<noteq> None")
  case False
  let ?err = "if has_cause then [CeConnectionError] else []"
  have err: "set ?err \<subseteq> {CeConnectionError}"
    by auto
  show ?thesis
  proof (cases "fc_active c")
    case None
    with False step have "c' = c\<lparr> fc_active := None, fc_generation := fc_generation c + 2,
        fc_reconnecting := Some (Subscribing (fc_generation c + 2)) \<rparr>"
      and "out = ?err @ [CeSubscribe (fc_generation c + 2) since]"
      by (auto simp: begin_reconnect_def begin_connect_def Let_def)
    with reconnect_idle_inv [OF inv _ _ _ _ _ err] False None show ?thesis
      by simp
  next
    case (Some x)
    then have "x \<noteq> []"
      using connection_invD(1) [OF inv] by (auto simp: in_use_ok_def)
    with Some False step have "c' = c\<lparr> fc_active := None, fc_generation := fc_generation c + 1,
        fc_reconnecting := Some Unsubscribing \<rparr>" and "out = ?err @ [CeUnsubscribe (the (fc_active c))]"
      by (auto simp: begin_reconnect_def Let_def)
    with reconnect_idle_inv [OF inv _ _ _ _ _ err] False Some show ?thesis
      by simp
  qed
qed (use inv step in \<open>auto simp: begin_reconnect_def\<close>)

lemma settle_alive_inv:
  assumes inv: "connection_inv sid c calls" and alive: "\<not> fc_disposed c" "fc_active c \<noteq> None \<or> fc_retryTimer c"
    and step: "settle cl who c = (c', out)"
  shows "connection_inv sid c' (calls @ out)"
proof -
  note inv = connection_invD [OF inv]
  have "\<not> fc_closing c"
    using inv(5) alive by (simp add: alive_or_closed_def)
  then have c': "c' = set_stage who None c" and out: "out = []"
    using step by (cases who; simp add: settle_def Let_def)+
  show ?thesis
  proof (rule connection_invI)
    show "generations_ok c' (calls @ out)"
      by (rule generations_ok_same [OF inv(3)]) (cases who; simp add: c' out)+
  qed (use inv alive \<open>\<not> fc_closing c\<close> in
    \<open>(cases who; simp add: c' out in_use_ok_def none_leaked_def stages_ok_def alive_or_closed_def)+\<close>)
qed

lemma finish_close_inv:
  assumes inv: "in_use_ok sid c" "none_leaked c calls" "generations_ok c calls"
      "fc_first c \<noteq> Some Unsubscribing" "fc_disposed c" "\<not> fc_retryTimer c"
    and c': "finish_close (\<lambda>_. True) (c\<lparr> fc_reconnecting := None \<rparr>) = (c', out)"
  shows "connection_inv sid c' (calls @ out)"
proof -
  have eq: "c' = c\<lparr> fc_reconnecting := None, fc_active := None, fc_closing := False \<rparr>"
      "out = (if truthy (fc_active c) then [CeUnsubscribe (the (fc_active c))] else [])"
    using c' by (auto simp: finish_close_def)
  show ?thesis
  proof (rule connection_invI)
    show "none_leaked c' (calls @ out)"
      by (rule none_leaked_closed [OF inv(2)]) (use inv(1) in \<open>auto simp: eq in_use_ok_def\<close>)
    show "generations_ok c' (calls @ out)"
      by (rule generations_ok_same [OF inv(3)]) (auto simp: eq)
  qed (use inv in \<open>simp_all add: eq in_use_ok_def stages_ok_def alive_or_closed_def\<close>)
qed

lemma settle_disposed_inv:
  assumes inv: "connection_inv sid c calls" and "fc_disposed c" and step: "settle (\<lambda>_. True) who c = (c', out)"
  shows "connection_inv sid c' (calls @ out)"
proof (cases "who = RetryAttempt \<and> fc_closing c")
  case True
  with step have "finish_close (\<lambda>_. True) (c\<lparr> fc_reconnecting := None \<rparr>) = (c', out)"
    by (simp add: settle_def Let_def)
  with connection_invD [OF inv] assms(2) show ?thesis
    by (intro finish_close_inv) (simp_all add: stages_ok_def alive_or_closed_def)
next
  case False
  then have c': "c' = set_stage who None c" and out: "out = []"
    using step by (cases who; simp add: settle_def Let_def)+
  note inv = connection_invD [OF inv]
  show ?thesis
  proof (rule connection_invI)
    show "generations_ok c' (calls @ out)"
      by (rule generations_ok_same [OF inv(3)]) (cases who; simp add: c' out)+
  qed (use inv False assms(2) in
    \<open>(cases who; simp add: c' out in_use_ok_def none_leaked_def stages_ok_def alive_or_closed_def split: if_splits)+\<close>)
qed

lemma discard_inv:
  assumes inv: "connection_inv sid c calls" and st: "stage_of who c = Some (Subscribing g)"
    and stale: "fc_disposed c \<or> g \<noteq> fc_generation c"
  shows "connection_inv sid (set_stage who (Some Discarding) c) (calls @ [CeOpened i, CeUnsubscribe i])"
proof -
  note inv = connection_invD [OF inv]
  show ?thesis
  proof (rule connection_invI)
    show "generations_ok (set_stage who (Some Discarding) c) (calls @ [CeOpened i, CeUnsubscribe i])"
      by (rule generations_ok_same [OF inv(3)]) (cases who; simp)+
    show "none_leaked (set_stage who (Some Discarding) c) (calls @ [CeOpened i, CeUnsubscribe i])"
      using inv(2) by (cases who) (auto simp: none_leaked_def)
  qed (use inv st stale in \<open>(cases who; simp add: in_use_ok_def stages_ok_def alive_or_closed_def split: if_splits)+\<close>)
qed

lemma subscribed_inv:
  assumes inv: "connection_inv sid c calls" and st: "stage_of who c = Some (Subscribing g)"
    and i: "i = sid g" "sid g \<noteq> []"
    and step: "connection_step (\<lambda>_. True) since (CvSubscribed who i) c = (c', out)"
  shows "connection_inv sid c' (calls @ out)"
proof (cases "fc_disposed c \<or> g \<noteq> fc_generation c")
  case True
  with st step have "c' = set_stage who (Some Discarding) c" and "out = [CeOpened i, CeUnsubscribe i]"
    by auto
  with discard_inv [OF inv st True] show ?thesis
    by simp
next
  case False
  let ?c = "c\<lparr> fc_active := Some i \<rparr>"
  obtain out' where s: "settle (\<lambda>_. True) who ?c = (c', out')" and out: "out = CeOpened i # out'"
    using False st step by (cases "settle (\<lambda>_. True) who ?c") (auto simp: with_effects_def)
  note invs = connection_invD [OF inv]
  have not_closing: "fc_reconnecting c \<noteq> Some Unsubscribing"
    using invs(3) False st by (cases who) (auto simp: generations_ok_def)
  have "connection_inv sid ?c (calls @ [CeOpened i])"
  proof (rule connection_invI)
    show "none_leaked ?c (calls @ [CeOpened i])"
      using invs(1,2) i False by (auto simp: none_leaked_def in_use_ok_def)
    show "generations_ok ?c (calls @ [CeOpened i])"
      by (rule generations_ok_same [OF invs(3)]) simp_all
  qed (use invs not_closing i False in \<open>simp_all add: in_use_ok_def stages_ok_def alive_or_closed_def\<close>)
  from settle_alive_inv [OF this _ _ s] False show ?thesis
    by (simp add: out)
qed

lemma schedule_reconnect_inv:
  assumes inv: "connection_inv sid c calls" and step: "schedule_reconnect c = (c', out)"
  shows "connection_inv sid c' (calls @ out) \<and> (fc_disposed c' \<or> fc_retryTimer c')"
proof (cases "fc_disposed c \<or> fc_retryTimer c")
  case False
  with step have eq: "c' = c\<lparr> fc_retryTimer := True \<rparr>" "out = [CeConnectionError]"
    by (simp_all add: schedule_reconnect_def)
  note inv = connection_invD [OF inv]
  have "connection_inv sid c' (calls @ out)"
  proof (rule connection_invI)
    show "generations_ok c' (calls @ out)"
      by (rule generations_ok_same [OF inv(3)]) (simp_all add: eq)
  qed (use inv False in \<open>simp_all add: eq in_use_ok_def none_leaked_def stages_ok_def alive_or_closed_def\<close>)
  then show ?thesis
    by (simp add: eq)
qed (use assms in \<open>auto simp: schedule_reconnect_def\<close>)

lemma subscribe_failed_inv:
  assumes inv: "connection_inv sid c calls" and st: "stage_of who c = Some (Subscribing g)"
    and step: "connection_step (\<lambda>_. True) since (CvSubscribeFailed who) c = (c', out)"
  shows "connection_inv sid c' (calls @ out)"
proof -
  obtain c1 out1 where s1: "schedule_reconnect c = (c1, out1)"
    by fastforce
  then obtain out2 where s2: "settle (\<lambda>_. True) who c1 = (c', out2)" and out: "out = out1 @ out2"
    using st step by (cases "settle (\<lambda>_. True) who c1") (auto simp: with_effects_def)
  from schedule_reconnect_inv [OF inv s1]
  have inv1: "connection_inv sid c1 (calls @ out1)" and "fc_disposed c1 \<or> fc_retryTimer c1"
    by blast+
  then show ?thesis
    using settle_disposed_inv [OF inv1 _ s2] settle_alive_inv [OF inv1 _ _ s2] by (auto simp: out)
qed

lemma discarded_inv:
  assumes inv: "connection_inv sid c calls" and st: "stage_of who c = Some Discarding"
    and step: "settle (\<lambda>_. True) who c = (c', out)"
  shows "connection_inv sid c' (calls @ out)"
proof (cases "fc_disposed c")
  case True
  show ?thesis
    by (rule settle_disposed_inv [OF inv True step])
next
  case False
  note invs = connection_invD [OF inv]
  from False st invs(4) have who: "who = FirstAttempt"
    by (cases who) (auto simp: stages_ok_def)
  with step have eq: "c' = c\<lparr> fc_first := None \<rparr>" "out = []"
    by (simp_all add: settle_def Let_def)
  show ?thesis
  proof (rule connection_invI)
    show "generations_ok c' (calls @ out)"
      by (rule generations_ok_same [OF invs(3)]) (simp_all add: eq)
  qed (use invs False st who in \<open>simp_all add: eq in_use_ok_def none_leaked_def stages_ok_def alive_or_closed_def\<close>)
qed

lemma unsubscribed_inv:
  assumes inv: "connection_inv sid c calls" and st: "fc_reconnecting c = Some Unsubscribing"
    and step: "begin_connect RetryAttempt since c = (c', out)"
  shows "connection_inv sid c' (calls @ out)"
proof -
  let ?g = "fc_generation c + 1"
  have eq: "c' = c\<lparr> fc_generation := ?g, fc_reconnecting := Some (Subscribing ?g) \<rparr>" "out = [CeSubscribe ?g since]"
    using step by (simp_all add: begin_connect_def Let_def)
  note inv = connection_invD [OF inv]
  show ?thesis
  proof (rule connection_invI)
    show "generations_ok c' (calls @ out)"
      by (rule generations_ok_next [OF inv(3)]) (simp_all add: eq)
  qed (use inv st in \<open>simp_all add: eq in_use_ok_def none_leaked_def stages_ok_def alive_or_closed_def split: if_splits\<close>)
qed

lemma timer_inv:
  assumes inv: "connection_inv sid c calls" and "fc_retryTimer c"
    and step: "begin_reconnect (\<lambda>_. True) since False (c\<lparr> fc_retryTimer := False \<rparr>) = (c', out)"
  shows "connection_inv sid c' (calls @ out)"
proof -
  let ?c = "c\<lparr> fc_retryTimer := False \<rparr>"
  note invs = connection_invD [OF inv]
  have others: "in_use_ok sid ?c" "none_leaked ?c calls" "generations_ok ?c calls" "stages_ok ?c"
    using invs by (simp_all add: in_use_ok_def none_leaked_def generations_ok_def stages_ok_def)
  show ?thesis
  proof (cases "alive_or_closed ?c")
    case True
    from begin_reconnect_inv [OF connection_invI [OF others True] step] show ?thesis .
  next
    case False
    with invs(5) assms(2) have idle: "\<not> fc_disposed c" "fc_reconnecting c = None" "fc_active c = None" "\<not> fc_closing c"
      by (auto simp: alive_or_closed_def split: if_splits)
    with step have eq: "c' = c\<lparr> fc_retryTimer := False, fc_active := None, fc_generation := fc_generation c + 2,
        fc_reconnecting := Some (Subscribing (fc_generation c + 2)) \<rparr>" "out = [CeSubscribe (fc_generation c + 2) since]"
      by (auto simp: begin_reconnect_def begin_connect_def Let_def)
    show ?thesis
    proof (rule connection_invI)
      show "generations_ok c' (calls @ out)"
        by (rule generations_ok_next [OF invs(3)]) (simp_all add: eq)
    qed (use invs idle in \<open>simp_all add: eq in_use_ok_def none_leaked_def stages_ok_def alive_or_closed_def\<close>)
  qed
qed

lemma close_inv:
  assumes inv: "connection_inv sid c calls" and step: "connection_step (\<lambda>_. True) since CvClose c = (c', out)"
  shows "connection_inv sid c' (calls @ out)"
proof (cases "fc_first c")
  case None
  let ?c = "c\<lparr> fc_disposed := True, fc_retryTimer := False \<rparr>"
  note invs = connection_invD [OF inv]
  have others: "in_use_ok sid ?c" "none_leaked ?c calls" "generations_ok ?c calls"
    using invs by (simp_all add: in_use_ok_def none_leaked_def generations_ok_def)
  show ?thesis
  proof (cases "fc_reconnecting c")
    case None
    with \<open>fc_first c = None\<close> step have "finish_close (\<lambda>_. True) (?c\<lparr> fc_reconnecting := None \<rparr>) = (c', out)"
      by (cases c) (simp add: Let_def)
    with others \<open>fc_first c = None\<close> show ?thesis
      by (intro finish_close_inv) simp_all
  next
    case (Some st)
    with None step have eq: "c' = ?c\<lparr> fc_closing := True \<rparr>" "out = []"
      by (auto simp: Let_def)
    show ?thesis
      using others invs(4) Some unfolding eq
      by (simp add: connection_inv_def in_use_ok_def none_leaked_def generations_ok_def stages_ok_def alive_or_closed_def)
  qed
qed (use inv step in auto)

lemma connection_step_inv:
  assumes inv: "connection_inv sid c calls"
    and ok: "\<And>who i g. ev = CvSubscribed who i \<Longrightarrow> stage_of who c = Some (Subscribing g) \<Longrightarrow> i = sid g \<and> sid g \<noteq> []"
    and step: "connection_step (\<lambda>_. True) since ev c = (c', out)"
  shows "connection_inv sid c' (calls @ out)"
proof (cases ev)
  case CvReconnect
  with step begin_reconnect_inv [OF inv] show ?thesis
    by simp
next
  case CvUnsubscribed
  with step inv unsubscribed_inv [OF inv] show ?thesis
    by (auto split: if_splits)
next
  case (CvSubscribed who i)
  show ?thesis
  proof (cases "\<exists>g. stage_of who c = Some (Subscribing g)")
    case True
    with CvSubscribed ok step subscribed_inv [OF inv] show ?thesis
      by metis
  qed (use CvSubscribed step inv in \<open>auto split: option.splits attempt_stage.splits\<close>)
next
  case (CvSubscribeFailed who)
  show ?thesis
  proof (cases "\<exists>g. stage_of who c = Some (Subscribing g)")
    case True
    with CvSubscribeFailed step subscribe_failed_inv [OF inv] show ?thesis
      by metis
  qed (use CvSubscribeFailed step inv in \<open>auto split: option.splits attempt_stage.splits\<close>)
next
  case (CvDiscarded who)
  with step inv discarded_inv [OF inv] show ?thesis
    by (auto split: if_splits)
next
  case CvTimer
  with step inv timer_inv [OF inv] show ?thesis
    by (auto split: if_splits)
next
  case CvClose
  with step close_inv [OF inv] show ?thesis
    by metis
qed


section \<open>Deliveries\<close>

definition revision_less :: "string \<Rightarrow> string \<Rightarrow> bool" where
  "revision_less r q \<longleftrightarrow> (\<exists>a b. js_bigint r = Some a \<and> js_bigint q = Some b \<and> a < b)"

lemma newer_some: "newer q (Some r) \<longleftrightarrow> revision_less r q"
  by (auto simp: newer_def revision_less_def split: option.splits)

lemma revision_less_trans: "revision_less p q \<Longrightarrow> revision_less q r \<Longrightarrow> revision_less p r"
  by (auto simp: revision_less_def)

definition last_option :: "'a list \<Rightarrow> 'a option" where
  "last_option xs = (if xs = [] then None else Some (last xs))"

lemma last_option_simps [simp]: "last_option [] = None" "last_option (xs @ [x]) = Some x"
  by (simp_all add: last_option_def)

definition deliveries_ok :: "'p feed \<Rightarrow> bool" where
  "deliveries_ok f \<longleftrightarrow>
     sorted_wrt revision_less (delivered_revisions (fd_log f))
     \<and> fd_highest f = last_option (delivered_revisions (fd_log f))"

lemma sorted_wrt_snoc:
  assumes trans: "\<And>x y z. P x y \<Longrightarrow> P y z \<Longrightarrow> P x z"
    and sorted: "sorted_wrt P xs" and last: "xs \<noteq> [] \<Longrightarrow> P (last xs) y"
  shows "sorted_wrt P (xs @ [y])"
proof (cases xs rule: rev_cases)
  case (snoc ys z)
  with sorted last have ys: "sorted_wrt P ys" "\<forall>x \<in> set ys. P x z" and z: "P z y"
    by (simp_all add: sorted_wrt_append)
  then have "\<forall>x \<in> set ys. P x y"
    using trans by blast
  with ys z snoc show ?thesis
    by (simp add: sorted_wrt_append)
qed simp

lemma message_deliveries_ok:
  assumes "deliveries_ok f"
  shows "deliveries_ok (feed_message g envelope f)"
proof (cases "newer (ev_revision envelope) (fd_highest f)")
  case True
  let ?rs = "delivered_revisions (fd_log f)" and ?r = "ev_revision envelope"
  have "revision_less (last ?rs) ?r" if "?rs \<noteq> []"
    using assms True that by (simp add: deliveries_ok_def last_option_def newer_some)
  then have "sorted_wrt revision_less (?rs @ [?r])"
    using sorted_wrt_snoc [of revision_less, OF revision_less_trans] assms by (simp add: deliveries_ok_def)
  then show ?thesis
    using True assms by (simp add: deliveries_ok_def feed_message_def Let_def)
qed (use assms in \<open>simp add: deliveries_ok_def feed_message_def Let_def\<close>)

lemma react_deliveries_ok: "deliveries_ok f \<Longrightarrow> deliveries_ok (feed_react ev f)"
  by (cases ev) (simp_all add: message_deliveries_ok, simp add: deliveries_ok_def split: prod.splits)

definition feed_inv :: "(nat \<Rightarrow> string) \<Rightarrow> 'p feed \<Rightarrow> bool" where
  "feed_inv sid f \<longleftrightarrow> connection_inv sid (fd_connection f) (calls_of (fd_log f)) \<and> deliveries_ok f"

lemma call_logged: "FlCall e \<in> set l \<longleftrightarrow> e \<in> set (calls_of l)"
  by (induction l rule: calls_of.induct) auto

lemma channel_logged: "(\<exists>e \<in> set l. opens_channel g e) \<longleftrightarrow> (\<exists>since. CeSubscribe g since \<in> set (calls_of l))"
  by (induction l rule: calls_of.induct) (auto simp: opens_channel_def split: connection_effect.splits)

lemma message_connection_inv:
  assumes inv: "connection_inv sid (fd_connection f) (calls_of (fd_log f))" and ok: "event_ok sid f (FvMessage g envelope)"
  shows "connection_inv sid (fd_connection (feed_message g envelope f)) (calls_of (fd_log (feed_message g envelope f)))"
proof (cases "fc_disposed (fd_connection f) \<or> g \<noteq> fc_generation (fd_connection f)")
  case False
  let ?c = "fd_connection f"
  note invs = connection_invD [OF inv]
  have "fd_connection (feed_message g envelope f) = ?c\<lparr> fc_active := Some (sid g) \<rparr>"
    and "calls_of (fd_log (feed_message g envelope f)) = calls_of (fd_log f)"
    using False ok by (auto simp: feed_message_def Let_def)
  moreover have "connection_inv sid (?c\<lparr> fc_active := Some (sid g) \<rparr>) (calls_of (fd_log f))"
  proof (rule connection_invI)
    show "none_leaked (?c\<lparr> fc_active := Some (sid g) \<rparr>) (calls_of (fd_log f))"
      using invs(1,2) False by (auto simp: none_leaked_def in_use_ok_def)
    show "stages_ok (?c\<lparr> fc_active := Some (sid g) \<rparr>)"
      using invs(3,4) False ok by (auto simp: stages_ok_def generations_ok_def channel_logged)
  qed (use invs ok False in \<open>simp_all add: in_use_ok_def generations_ok_def alive_or_closed_def\<close>)
  ultimately show ?thesis
    by simp
qed (use inv in \<open>simp add: feed_message_def Let_def\<close>)

lemma feed_step_inv:
  assumes "feed_inv sid f" and "feed_step sid f f'"
  shows "feed_inv sid f'"
proof -
  obtain ev where ok: "event_ok sid f ev" and f': "f' = feed_react ev f"
    using assms(2) by (auto elim: feed_stepE)
  have "connection_inv sid (fd_connection f') (calls_of (fd_log f'))"
  proof (cases ev)
    case (FvMessage g envelope)
    with ok assms(1) message_connection_inv show ?thesis
      by (fastforce simp: f' feed_inv_def)
  next
    case (FvConnection cv)
    obtain c out where step: "connection_step (\<lambda>_. True) [] cv (fd_connection f) = (c, out)"
      by fastforce
    have "connection_inv sid c (calls_of (fd_log f) @ out)"
    proof (rule connection_step_inv [OF _ _ step])
      show "connection_inv sid (fd_connection f) (calls_of (fd_log f))"
        using assms(1) by (simp add: feed_inv_def)
      show "i = sid g \<and> sid g \<noteq> []"
        if "cv = CvSubscribed who i" "stage_of who (fd_connection f) = Some (Subscribing g)" for who i g
        using ok that by (simp add: FvConnection)
    qed
    with step show ?thesis
      by (simp add: f' FvConnection)
  qed
  with assms(1) show ?thesis
    by (simp add: feed_inv_def f' react_deliveries_ok)
qed

lemma feed_initial_inv: "feed_initial f \<Longrightarrow> feed_inv sid f"
  by (auto elim!: feed_initialE simp: feed_inv_def subscribeWithReconnect_def begin_connect_def new_connection_def
    connection_inv_def in_use_ok_def none_leaked_def generations_ok_def stages_ok_def alive_or_closed_def
    deliveries_ok_def Let_def)

interpretation feed: machine feed_initial "feed_step sid" "feed_inv sid" for sid
  by unfold_locales (rule feed_initial_inv, assumption, rule feed_step_inv)


lemma reachable_feed_inv: "reachable feed_initial (feed_step sid) f \<Longrightarrow> feed_inv sid f"
  by (rule feed.reachable_inv)

text \<open>The answers of a host that works, from any state of a connection that is not closed: at most three
  events until a subscription is active.\<close>

definition host_answers :: "(nat \<Rightarrow> string) \<Rightarrow> connection \<Rightarrow> connection_event list" where
  "host_answers sid c =
     (if fc_active c \<noteq> None then []
      else (case fc_reconnecting c of
              Some Unsubscribing \<Rightarrow> [CvUnsubscribed, CvSubscribed RetryAttempt (sid (fc_generation c + 1))]
            | Some _ \<Rightarrow> [CvSubscribed RetryAttempt (sid (fc_generation c))]
            | None \<Rightarrow>
                if fc_first c = Some (Subscribing (fc_generation c))
                then [CvSubscribed FirstAttempt (sid (fc_generation c))]
                else [CvTimer, CvSubscribed RetryAttempt (sid (fc_generation c + 2))]))"

definition react_calls :: "connection_event list \<Rightarrow> 'p feed \<Rightarrow> 'p feed" where
  "react_calls evs f = run_inputs feed_react (map FvConnection evs) f"

lemma react_calls_simps [simp]:
  "react_calls [] f = f" "react_calls (ev # evs) f = react_calls evs (feed_react (FvConnection ev) f)"
  by (simp_all add: react_calls_def)

lemma subscribed_connects:
  assumes "stage_of who (fd_connection f) = Some (Subscribing g)" and "g = fc_generation (fd_connection f)"
    and "\<not> fc_disposed (fd_connection f)" and "\<not> fc_closing (fd_connection f)"
  shows "fc_active (fd_connection (feed_react (FvConnection (CvSubscribed who i)) f)) = Some i"
  using assms by (cases who) (simp_all add: settle_def with_effects_def)

lemma answers_steps:
  assumes "event_ok sid f (FvConnection ev)" and "(feed_step sid)\<^sup>*\<^sup>* (feed_react (FvConnection ev) f) f'"
  shows "(feed_step sid)\<^sup>*\<^sup>* f f'"
  using assms by (meson converse_rtranclp_into_rtranclp feed_step.intros)

lemma recovery_aux:
  fixes f :: "'p feed"
  assumes inv: "feed_inv sid f" and open_: "\<not> fc_disposed (fd_connection f)" and ids: "\<And>g. sid g \<noteq> []"
  defines "f' \<equiv> react_calls (host_answers sid (fd_connection f)) f"
  shows "(feed_step sid)\<^sup>*\<^sup>* f f' \<and> fc_active (fd_connection f') \<noteq> None"
proof -
  let ?c = "fd_connection f" and ?g = "fc_generation (fd_connection f)"
  have st: "stages_ok ?c" and al: "alive_or_closed ?c"
    using inv connection_invD [of sid ?c] by (auto simp: feed_inv_def)
  from al open_ have nc: "\<not> fc_closing ?c"
    by (simp add: alive_or_closed_def)
  have one: "(feed_step sid)\<^sup>*\<^sup>* h h' \<and> fc_active (fd_connection h') \<noteq> None"
    if "h' = feed_react (FvConnection (CvSubscribed who (sid g))) h"
      "stage_of who (fd_connection h) = Some (Subscribing g)"
      "g = fc_generation (fd_connection h)" "\<not> fc_disposed (fd_connection h)" "\<not> fc_closing (fd_connection h)"
    for who g and h h' :: "'p feed"
  proof -
    have "event_ok sid h (FvConnection (CvSubscribed who (sid g)))"
      using ids that(2) by simp
    with that subscribed_connects [OF that(2-5), of "sid g"] show ?thesis
      by (metis feed_step.intros option.distinct(1) r_into_rtranclp)
  qed
  show ?thesis
  proof (cases "fc_active ?c = None")
    case True
    show ?thesis
    proof (cases "fc_reconnecting ?c")
      case None
      show ?thesis
      proof (cases "fc_first ?c = Some (Subscribing ?g)")
        case first: True
        with True None have f': "f' = feed_react (FvConnection (CvSubscribed FirstAttempt (sid ?g))) f"
          by (simp add: f'_def host_answers_def)
        show ?thesis
          by (rule one [OF f']) (use first open_ nc in simp_all)
      next
        case False
        let ?h = "feed_react (FvConnection CvTimer) f"
        have "fc_retryTimer ?c"
          using al open_ False True None by (simp add: alive_or_closed_def)
        then have h: "fc_reconnecting (fd_connection ?h) = Some (Subscribing (?g + 2))"
          "fc_generation (fd_connection ?h) = ?g + 2" "\<not> fc_disposed (fd_connection ?h)" "\<not> fc_closing (fd_connection ?h)"
          using True None open_ nc by (simp_all add: begin_reconnect_def begin_connect_def Let_def)
        from True None False have f': "f' = feed_react (FvConnection (CvSubscribed RetryAttempt (sid (?g + 2)))) ?h"
          by (simp add: f'_def host_answers_def)
        have "(feed_step sid)\<^sup>*\<^sup>* ?h f' \<and> fc_active (fd_connection f') \<noteq> None"
          by (rule one [OF f']) (use h in simp_all)
        then show ?thesis
          using answers_steps [of sid f CvTimer f'] by simp
      qed
    next
      case (Some stage)
      show ?thesis
      proof (cases "stage = Unsubscribing")
        case unsub: True
        let ?h = "feed_react (FvConnection CvUnsubscribed) f"
        have h: "fc_reconnecting (fd_connection ?h) = Some (Subscribing (?g + 1))"
          "fc_generation (fd_connection ?h) = ?g + 1" "\<not> fc_disposed (fd_connection ?h)" "\<not> fc_closing (fd_connection ?h)"
          using unsub Some open_ nc by (simp_all add: begin_connect_def Let_def)
        from True Some unsub have f': "f' = feed_react (FvConnection (CvSubscribed RetryAttempt (sid (?g + 1)))) ?h"
          by (simp add: f'_def host_answers_def)
        have "(feed_step sid)\<^sup>*\<^sup>* ?h f' \<and> fc_active (fd_connection f') \<noteq> None"
          by (rule one [OF f']) (use h in simp_all)
        then show ?thesis
          using answers_steps [of sid f CvUnsubscribed f'] by simp
      next
        case False
        with Some st open_ have stage: "stage = Subscribing ?g"
          by (cases stage) (auto simp: stages_ok_def)
        with True Some have f': "f' = feed_react (FvConnection (CvSubscribed RetryAttempt (sid ?g))) f"
          by (simp add: f'_def host_answers_def)
        show ?thesis
          by (rule one [OF f']) (use Some stage open_ nc in simp_all)
      qed
    qed
  qed (simp add: f'_def host_answers_def)
qed


section \<open>Accepted jobs\<close>

text \<open>
  Jobs accepted on behalf of the main window are presented one after the other, each acknowledged after its
  presentation was claimed.  \<open>af_chain\<close> is the promise chain \<open>deliveryChain\<close>: its head is being presented,
  or acknowledged when \<open>af_acking\<close> is set.
\<close>

datatype accepted_log =
    AlCall connection_effect
  | AlQueue accepted_job
  | AlPresent accepted_job
  | AlAcknowledge accepted_job

record accepted_feed =
  af_connection :: connection
  af_lastAcceptance :: string
  af_lastDelivered :: string
  af_chain :: "accepted_job list"
  af_acking :: bool
  af_log :: "accepted_log list"

datatype accepted_event =
    AvMessage nat accepted_job
  | AvPresented bool
  | AvAcknowledged bool
  | AvConnection connection_event

text \<open>Only ids that begin with \<open>subscription-\<close> are closed.\<close>

definition accepted_closable :: "string \<Rightarrow> bool" where
  "accepted_closable i = prefix ''subscription-'' i"

definition add_accepted_log :: "accepted_log list \<Rightarrow> accepted_feed \<Rightarrow> accepted_feed" where
  "add_accepted_log l f = f\<lparr> af_log := af_log f @ l \<rparr>"

definition accepted_connection :: "connection_event \<Rightarrow> accepted_feed \<Rightarrow> accepted_feed" where
  "accepted_connection ev f =
     (let (c, out) = connection_step accepted_closable (af_lastAcceptance f) ev (af_connection f)
      in add_accepted_log (map AlCall out) (f\<lparr> af_connection := c \<rparr>))"

text \<open>A link of the chain has settled; the next one, if any, starts to present its job.\<close>

definition next_link :: "accepted_feed \<Rightarrow> accepted_feed" where
  "next_link f =
     (let rest = tl (af_chain f)
      in add_accepted_log (map AlPresent (take 1 rest)) (f\<lparr> af_chain := rest, af_acking := False \<rparr>))"

text \<open>The \<open>catch\<close> of a link.\<close>

definition link_failed :: "accepted_feed \<Rightarrow> accepted_feed" where
  "link_failed f =
     next_link (accepted_connection CvReconnect (f\<lparr> af_lastDelivered := af_lastAcceptance f \<rparr>))"

definition accepted_message :: "nat \<Rightarrow> accepted_job \<Rightarrow> accepted_feed \<Rightarrow> accepted_feed" where
  "accepted_message g job f =
     (let c = af_connection f
      in if fc_disposed c \<or> g \<noteq> fc_generation c then f
         else if \<not> newer (ac_acceptanceRevision job) (Some (af_lastDelivered f)) then f
         else add_accepted_log (AlQueue job # (if af_chain f = [] then [AlPresent job] else []))
                (f\<lparr> af_lastDelivered := ac_acceptanceRevision job, af_chain := af_chain f @ [job] \<rparr>))"

fun accepted_react :: "accepted_event \<Rightarrow> accepted_feed \<Rightarrow> accepted_feed" where
  "accepted_react (AvMessage g job) f = accepted_message g job f"
| "accepted_react (AvPresented claimed) f =
     (case af_chain f of
        job # _ \<Rightarrow>
          if af_acking f then f
          else if claimed then add_accepted_log [AlAcknowledge job] (f\<lparr> af_acking := True \<rparr>)
          else link_failed f
      | [] \<Rightarrow> f)"
| "accepted_react (AvAcknowledged good) f =
     (case af_chain f of
        job # _ \<Rightarrow>
          if \<not> af_acking f then f
          else if good then next_link (f\<lparr> af_lastAcceptance := ac_acceptanceRevision job \<rparr>)
          else link_failed f
      | [] \<Rightarrow> f)"
| "accepted_react (AvConnection ev) f = accepted_connection ev f"

definition subscribeAcceptedJobs :: accepted_feed where
  "subscribeAcceptedJobs =
     (let (c, out) = begin_connect FirstAttempt ''0'' new_connection
      in \<lparr> af_connection = c, af_lastAcceptance = ''0'', af_lastDelivered = ''0'', af_chain = [],
           af_acking = False, af_log = map AlCall out \<rparr>)"

fun queued :: "accepted_log list \<Rightarrow> accepted_job list" where
  "queued [] = []"
| "queued (AlQueue j # l) = j # queued l"
| "queued (_ # l) = queued l"

fun presented :: "accepted_log list \<Rightarrow> accepted_job list" where
  "presented [] = []"
| "presented (AlPresent j # l) = j # presented l"
| "presented (_ # l) = presented l"

fun acknowledged :: "accepted_log list \<Rightarrow> accepted_job list" where
  "acknowledged [] = []"
| "acknowledged (AlAcknowledge j # l) = j # acknowledged l"
| "acknowledged (_ # l) = acknowledged l"

lemma queued_append [simp]: "queued (a @ b) = queued a @ queued b"
  by (induction a rule: queued.induct) simp_all

lemma presented_append [simp]: "presented (a @ b) = presented a @ presented b"
  by (induction a rule: presented.induct) simp_all

lemma acknowledged_append [simp]: "acknowledged (a @ b) = acknowledged a @ acknowledged b"
  by (induction a rule: acknowledged.induct) simp_all

lemma accepted_log_calls [simp]:
  "queued (map AlCall out) = [] \<and> presented (map AlCall out) = [] \<and> acknowledged (map AlCall out) = []"
  by (induction out) simp_all

lemma accepted_log_present [simp]:
  "queued (map AlPresent js) = [] \<and> presented (map AlPresent js) = js \<and> acknowledged (map AlPresent js) = []"
  by (induction js) simp_all

text \<open>What was presented is what was queued, less the jobs still waiting behind the head of the chain; what was
  acknowledged comes from earlier presentations, in their order.\<close>

definition accepted_inv :: "accepted_feed \<Rightarrow> bool" where
  "accepted_inv f \<longleftrightarrow>
     queued (af_log f) = presented (af_log f) @ tl (af_chain f)
     \<and> (af_chain f = [] \<longrightarrow> \<not> af_acking f)
     \<and> (\<exists>past acks. presented (af_log f) = past @ take 1 (af_chain f) \<and> subseq acks past
          \<and> acknowledged (af_log f) = acks @ (if af_acking f then take 1 (af_chain f) else []))"


lemma connection_keeps_log [simp]:
  "queued (af_log (accepted_connection ev f)) = queued (af_log f)"
  "presented (af_log (accepted_connection ev f)) = presented (af_log f)"
  "acknowledged (af_log (accepted_connection ev f)) = acknowledged (af_log f)"
  "af_chain (accepted_connection ev f) = af_chain f"
  "af_acking (accepted_connection ev f) = af_acking f"
  "af_lastAcceptance (accepted_connection ev f) = af_lastAcceptance f"
  "af_lastDelivered (accepted_connection ev f) = af_lastDelivered f"
  by (simp_all add: accepted_connection_def add_accepted_log_def split: prod.splits)

lemma accepted_inv_cong:
  assumes "accepted_inv f"
    and "queued (af_log f') = queued (af_log f)" "presented (af_log f') = presented (af_log f)"
      "acknowledged (af_log f') = acknowledged (af_log f)" "af_chain f' = af_chain f" "af_acking f' = af_acking f"
  shows "accepted_inv f'"
  using assms(1) unfolding accepted_inv_def assms(2-6) .

lemma next_link_inv:
  assumes inv: "accepted_inv f" and chain: "af_chain f = job # rest"
  shows "accepted_inv (next_link f)"
proof -
  obtain past acks where past: "presented (af_log f) = past @ [job]" and sub: "subseq acks past"
    and acks: "acknowledged (af_log f) = acks @ (if af_acking f then [job] else [])"
    using inv chain by (auto simp: accepted_inv_def)
  have "subseq (acknowledged (af_log f)) (past @ [job])"
    using sub by (simp add: acks list_emb_append_mono)
  moreover have "queued (af_log f) = past @ [job] @ rest"
    using inv chain past by (simp add: accepted_inv_def)
  ultimately show ?thesis
    using past chain
    by (cases rest) (simp_all add: accepted_inv_def next_link_def add_accepted_log_def)
qed

lemma link_failed_inv:
  assumes "accepted_inv f" and "af_chain f = job # rest"
  shows "accepted_inv (link_failed f)"
  unfolding link_failed_def
  by (rule next_link_inv [where job = job and rest = rest])
    (use assms in \<open>auto intro: accepted_inv_cong\<close>)

lemma accepted_message_inv: "accepted_inv f \<Longrightarrow> accepted_inv (accepted_message g job f)"
proof (cases "accepted_message g job f = f")
  case False
  assume inv: "accepted_inv f"
  from False have f': "accepted_message g job f =
      add_accepted_log (AlQueue job # (if af_chain f = [] then [AlPresent job] else []))
        (f\<lparr> af_lastDelivered := ac_acceptanceRevision job, af_chain := af_chain f @ [job] \<rparr>)"
    by (auto simp: accepted_message_def Let_def split: if_splits)
  show ?thesis
    using inv unfolding f'
    by (cases "af_chain f"; cases "af_acking f") (auto simp: accepted_inv_def add_accepted_log_def)
qed simp

lemma accepted_react_inv: "accepted_inv f \<Longrightarrow> accepted_inv (accepted_react ev f)"
proof (cases ev)
  case (AvPresented claimed)
  assume inv: "accepted_inv f"
  show ?thesis
  proof (cases "af_chain f")
    case (Cons job rest)
    have "accepted_inv (add_accepted_log [AlAcknowledge job] (f\<lparr> af_acking := True \<rparr>))" if "\<not> af_acking f"
      using inv that Cons by (auto simp: accepted_inv_def add_accepted_log_def)
    with inv Cons AvPresented link_failed_inv [OF inv Cons] show ?thesis
      by simp
  qed (use inv AvPresented in simp)
next
  case (AvAcknowledged good)
  assume inv: "accepted_inv f"
  show ?thesis
  proof (cases "af_chain f")
    case (Cons job rest)
    have "accepted_inv (next_link (f\<lparr> af_lastAcceptance := ac_acceptanceRevision job \<rparr>))"
      by (rule next_link_inv [where job = job and rest = rest])
        (use inv Cons in \<open>auto intro: accepted_inv_cong\<close>)
    with inv Cons AvAcknowledged link_failed_inv [OF inv Cons] show ?thesis
      by simp
  qed (use inv AvAcknowledged in simp)
qed (auto simp: accepted_message_inv intro: accepted_inv_cong)

lemma subscribe_accepted_inv: "accepted_inv subscribeAcceptedJobs"
  by (simp add: subscribeAcceptedJobs_def begin_connect_def accepted_inv_def)

lemma accepted_run_inv: "accepted_inv f \<Longrightarrow> accepted_inv (run_inputs accepted_react evs f)"
  by (induction evs arbitrary: f) (simp_all add: accepted_react_inv)

text \<open>
  How far the delivery of a job is, told from outside: by what the feed has called and how these calls ended.  A
  presentation may start only when nothing is under way, and an acknowledgement only for a job whose presentation
  has just been claimed; any other call of the two is not allowed.
\<close>

datatype delivery = NoDelivery | Presenting accepted_job | Claimed accepted_job | Acknowledging accepted_job

fun delivery_event :: "accepted_event \<Rightarrow> delivery \<Rightarrow> delivery" where
  "delivery_event (AvPresented claimed) (Presenting job) = (if claimed then Claimed job else NoDelivery)"
| "delivery_event (AvAcknowledged good) (Acknowledging job) = NoDelivery"
| "delivery_event ev d = d"

fun delivery_effect :: "accepted_log \<Rightarrow> delivery \<Rightarrow> delivery option" where
  "delivery_effect (AlPresent job) d = (if d = NoDelivery then Some (Presenting job) else None)"
| "delivery_effect (AlAcknowledge job) d = (if d = Claimed job then Some (Acknowledging job) else None)"
| "delivery_effect l d = Some d"

fun delivery_effects :: "accepted_log list \<Rightarrow> delivery \<Rightarrow> delivery option" where
  "delivery_effects [] d = Some d"
| "delivery_effects (l # ls) d = Option.bind (delivery_effect l d) (delivery_effects ls)"

definition new_calls :: "accepted_event \<Rightarrow> accepted_feed \<Rightarrow> accepted_log list" where
  "new_calls ev f = drop (length (af_log f)) (af_log (accepted_react ev f))"

text \<open>Every call that a run makes is allowed, and a job that was claimed is acknowledged at once.\<close>

fun one_at_a_time :: "accepted_event list \<Rightarrow> accepted_feed \<Rightarrow> delivery \<Rightarrow> bool" where
  "one_at_a_time [] f d = True"
| "one_at_a_time (ev # evs) f d =
     (case delivery_effects (new_calls ev f) (delivery_event ev d) of
        None \<Rightarrow> False
      | Some (Claimed job) \<Rightarrow> False
      | Some d' \<Rightarrow> one_at_a_time evs (accepted_react ev f) d')"

definition delivery_of :: "accepted_feed \<Rightarrow> delivery" where
  "delivery_of f =
     (case af_chain f of [] \<Rightarrow> NoDelivery | job # _ \<Rightarrow> if af_acking f then Acknowledging job else Presenting job)"

lemma delivery_effects_append [simp]:
  "delivery_effects (a @ b) d = Option.bind (delivery_effects a d) (delivery_effects b)"
  by (induction a arbitrary: d) (simp_all split: Option.bind_split)

lemma delivery_calls [simp]: "delivery_effects (map AlCall out) d = Some d"
  by (induction out) simp_all

text \<open>What is added to the log.\<close>

lemma connection_log: "\<exists>out. af_log (accepted_connection ev f) = af_log f @ map AlCall out"
  by (auto simp: accepted_connection_def add_accepted_log_def split: prod.split)

lemma link_failed_log:
  "\<exists>out. af_log (link_failed f) = af_log f @ map AlCall out @ map AlPresent (take 1 (tl (af_chain f)))"
  using connection_log [of CvReconnect "f\<lparr> af_lastDelivered := af_lastAcceptance f \<rparr>"]
  by (auto simp: link_failed_def next_link_def add_accepted_log_def Let_def)

lemma connection_calls: "\<exists>out. new_calls (AvConnection ev) f = map AlCall out"
  using connection_log [of ev f] by (auto simp: new_calls_def)

lemma delivery_of_same [simp]:
  "delivery_of (accepted_connection ev f) = delivery_of f"
  "delivery_of (next_link f) = (case tl (af_chain f) of [] \<Rightarrow> NoDelivery | job # _ \<Rightarrow> Presenting job)"
  "delivery_of (link_failed f) = (case tl (af_chain f) of [] \<Rightarrow> NoDelivery | job # _ \<Rightarrow> Presenting job)"
  by (simp_all add: delivery_of_def next_link_def link_failed_def add_accepted_log_def Let_def split: list.split)

lemma delivery_followed:
  assumes "accepted_inv f"
  shows "delivery_effects (new_calls ev f) (delivery_event ev (delivery_of f)) = Some (delivery_of (accepted_react ev f))"
proof (cases ev)
  case (AvMessage g job)
  then show ?thesis
    using assms
    by (auto simp: new_calls_def delivery_of_def accepted_message_def add_accepted_log_def accepted_inv_def Let_def
        split: list.split)
next
  case (AvPresented claimed)
  show ?thesis
  proof (cases "af_chain f = [] \<or> af_acking f")
    case True
    then show ?thesis by (auto simp: AvPresented new_calls_def delivery_of_def split: list.split)
  next
    case False
    then obtain job rest where chain: "af_chain f = job # rest" "\<not> af_acking f" by (cases "af_chain f") auto
    from link_failed_log [of f] obtain out
      where "af_log (link_failed f) = af_log f @ map AlCall out @ map AlPresent (take 1 rest)" by (auto simp: chain)
    moreover have "delivery_of f = Presenting job"
      and "delivery_of (add_accepted_log l (f\<lparr> af_acking := True \<rparr>)) = Acknowledging job" for l
      using chain by (simp_all add: delivery_of_def add_accepted_log_def)
    moreover have "af_log (add_accepted_log l f') = af_log f' @ l" for l f' by (simp add: add_accepted_log_def)
    ultimately show ?thesis
      using chain by (cases rest) (simp_all add: AvPresented new_calls_def)
  qed
next
  case (AvAcknowledged good)
  show ?thesis
  proof (cases "af_chain f = [] \<or> \<not> af_acking f")
    case True
    then show ?thesis by (auto simp: AvAcknowledged new_calls_def delivery_of_def split: list.split)
  next
    case False
    then obtain job rest where chain: "af_chain f = job # rest" "af_acking f" by (cases "af_chain f") auto
    from link_failed_log [of f] obtain out
      where "af_log (link_failed f) = af_log f @ map AlCall out @ map AlPresent (take 1 rest)" by (auto simp: chain)
    moreover have "delivery_event ev (delivery_of f) = NoDelivery"
      by (simp add: AvAcknowledged delivery_of_def chain)
    moreover have "af_log (next_link f') = af_log f' @ map AlPresent (take 1 (tl (af_chain f')))" for f'
      by (simp add: next_link_def add_accepted_log_def Let_def)
    ultimately show ?thesis
      using chain by (cases rest) (simp_all add: AvAcknowledged new_calls_def)
  qed
next
  case (AvConnection e)
  from connection_calls [of e f] obtain out where "new_calls (AvConnection e) f = map AlCall out" ..
  then show ?thesis by (simp add: AvConnection)
qed

lemma orderly_run: "accepted_inv f \<Longrightarrow> one_at_a_time evs f (delivery_of f)"
proof (induction evs arbitrary: f)
  case (Cons ev evs)
  have "delivery_of (accepted_react ev f) \<noteq> Claimed job" for job
    by (auto simp: delivery_of_def split: list.split)
  with Cons.IH [OF accepted_react_inv [OF Cons.prems], of ev] delivery_followed [OF Cons.prems, of ev] show ?case
    by (cases "delivery_of (accepted_react ev f)") auto
qed simp

section \<open>The in-memory feed\<close>

text \<open>Listeners are numbered callbacks; a delivery is a callback with what it is called with.\<close>

record memory_feed =
  mf_jobs :: "(string \<times> job_snapshot) list"
  mf_jobListeners :: "(string \<times> nat list) list"
  mf_catalogListeners :: "nat list"
  mf_catalog :: job_catalog

definition createInMemoryJobFeed :: "job_snapshot list \<Rightarrow> memory_feed" where
  "createInMemoryJobFeed initial =
     \<lparr> mf_jobs = fold (\<lambda>snapshot m. AList.update (js_jobId snapshot) snapshot m) initial [],
       mf_jobListeners = [], mf_catalogListeners = [],
       mf_catalog = \<lparr> jl_catalogRevision = ''0'', jl_jobs = [] \<rparr> \<rparr>"

definition memory_subscribeJob :: "string \<Rightarrow> nat \<Rightarrow> memory_feed \<Rightarrow> memory_feed \<times> (nat \<times> job_snapshot) list" where
  "memory_subscribeJob jobId accept m =
     (let listeners = set_add accept (nullish (map_of (mf_jobListeners m) jobId) [])
      in (m\<lparr> mf_jobListeners := AList.update jobId listeners (mf_jobListeners m) \<rparr>,
          case map_of (mf_jobs m) jobId of Some current \<Rightarrow> [(accept, current)] | None \<Rightarrow> []))"

definition memory_unsubscribeJob :: "string \<Rightarrow> nat \<Rightarrow> memory_feed \<Rightarrow> memory_feed" where
  "memory_unsubscribeJob jobId accept m =
     m\<lparr> mf_jobListeners :=
          AList.update jobId (set_delete accept (nullish (map_of (mf_jobListeners m) jobId) [])) (mf_jobListeners m) \<rparr>"

definition memory_subscribeCatalog :: "nat \<Rightarrow> memory_feed \<Rightarrow> memory_feed \<times> (nat \<times> job_catalog) list" where
  "memory_subscribeCatalog accept m =
     (m\<lparr> mf_catalogListeners := set_add accept (mf_catalogListeners m) \<rparr>, [(accept, mf_catalog m)])"

definition memory_publish :: "job_snapshot \<Rightarrow> memory_feed \<Rightarrow> memory_feed \<times> (nat \<times> job_snapshot) list" where
  "memory_publish snapshot m =
     (case map_of (mf_jobs m) (js_jobId snapshot) of
        Some current \<Rightarrow>
          if \<not> newer (js_revision snapshot) (Some (js_revision current)) then (m, [])
          else (m\<lparr> mf_jobs := AList.update (js_jobId snapshot) snapshot (mf_jobs m) \<rparr>,
                map (\<lambda>accept. (accept, snapshot)) (nullish (map_of (mf_jobListeners m) (js_jobId snapshot)) []))
      | None \<Rightarrow>
          (m\<lparr> mf_jobs := AList.update (js_jobId snapshot) snapshot (mf_jobs m) \<rparr>,
           map (\<lambda>accept. (accept, snapshot)) (nullish (map_of (mf_jobListeners m) (js_jobId snapshot)) [])))"

definition memory_publishCatalog :: "job_catalog \<Rightarrow> memory_feed \<Rightarrow> memory_feed \<times> (nat \<times> job_catalog) list" where
  "memory_publishCatalog snapshot m =
     (if \<not> newer (jl_catalogRevision snapshot) (Some (jl_catalogRevision (mf_catalog m))) then (m, [])
      else (m\<lparr> mf_catalog := snapshot \<rparr>, map (\<lambda>accept. (accept, snapshot)) (mf_catalogListeners m)))"

text \<open>A listener that has subscribed sees, with the first snapshot it gets and every later one, exactly what the
  feed retains: what it was last given is the retained snapshot.\<close>

lemma publish_reaches_subscriber:
  assumes "memory_publish snapshot m = (m', out)" and "out \<noteq> []"
  shows "map_of (mf_jobs m') (js_jobId snapshot) = Some snapshot
    \<and> map fst out = nullish (map_of (mf_jobListeners m) (js_jobId snapshot)) []
    \<and> (\<forall>current. map_of (mf_jobs m) (js_jobId snapshot) = Some current \<longrightarrow>
         revision_less (js_revision current) (js_revision snapshot))"
  using assms by (auto simp: memory_publish_def newer_some update_conv' comp_def split: option.splits if_splits)


section \<open>Properties\<close>

text \<open>C28: In any order in which the host answers, fails, sends and times out, and whatever the user closes: a
  subscriber is given each job snapshot in strictly increasing order of revision; and no subscription that the
  host opened is forgotten - it is the one in use or it has been closed, so that after \<open>unsubscribe\<close> has
  settled every one of them has been closed.\<close>

theorem feed_in_order_without_leaks:
  assumes "reachable feed_initial (feed_step sid) f"
  shows "sorted_wrt revision_less (delivered_revisions (fd_log f))
    \<and> (\<forall>i. FlCall (CeOpened i) \<in> set (fd_log f) \<longrightarrow>
         fc_active (fd_connection f) = Some i \<or> FlCall (CeUnsubscribe i) \<in> set (fd_log f))
    \<and> (fc_disposed (fd_connection f) \<and> fc_reconnecting (fd_connection f) = None \<longrightarrow>
         (\<forall>i. FlCall (CeOpened i) \<in> set (fd_log f) \<longrightarrow> FlCall (CeUnsubscribe i) \<in> set (fd_log f)))"
proof -
  have inv: "feed_inv sid f"
    by (rule reachable_feed_inv [OF assms])
  then have "none_leaked (fd_connection f) (calls_of (fd_log f))" and al: "alive_or_closed (fd_connection f)"
    and "deliveries_ok f"
    using connection_invD by (auto simp: feed_inv_def)
  then show ?thesis
    by (auto simp: none_leaked_def alive_or_closed_def deliveries_ok_def call_logged split: if_splits)
qed

definition sample_sid :: "nat \<Rightarrow> string" where
  "sample_sid g = replicate g CHR ''s''"

definition sample_feed_events :: "nat feed_event list" where
  "sample_feed_events =
     [FvMessage 1 \<lparr> ev_subscriptionId = ''s'', ev_revision = ''1'', ev_payload = 7 \<rparr>,
      FvConnection (CvSubscribed FirstAttempt ''s''), FvConnection CvReconnect,
      FvConnection CvUnsubscribed, FvConnection (CvSubscribed RetryAttempt ''sss''),
      FvMessage 3 \<lparr> ev_subscriptionId = ''sss'', ev_revision = ''2'', ev_payload = 8 \<rparr>,
      FvConnection CvClose]"

theorem feed_in_order_without_leaks_witness:
  "delivered_revisions (fd_log (run_inputs feed_react sample_feed_events subscribeWithReconnect)) = [''1'', ''2'']
   \<and> sorted_wrt revision_less [''1'', ''2'']"
proof -
  let ?f = "\<lambda>n. run_inputs feed_react (take n sample_feed_events) subscribeWithReconnect"
  have ok: "event_ok sample_sid (?f n) (sample_feed_events ! n)" if "n \<in> {0, 1, 2, 3, 4, 5, 6}" for n
    using that by (elim insertE emptyE; simp; code_simp)
  have "reachable feed_initial (feed_step sample_sid) (?f n)" if "n \<le> 7" for n
    using that
  proof (induction n)
    case (Suc n)
    then have "n \<in> {0, 1, 2, 3, 4, 5, 6}" and n: "n < length sample_feed_events"
      by (auto simp: sample_feed_events_def)
    then have "feed_step sample_sid (?f n) (?f (Suc n))"
      using feed_step.intros [OF ok] by (simp add: take_Suc_conv_app_nth)
    with Suc show ?case
      using reachable.move by fastforce
  qed (simp add: reachable.start feed_initial.intros)
  from this [of 7] have "reachable feed_initial (feed_step sample_sid)
      (run_inputs feed_react sample_feed_events subscribeWithReconnect)"
    by (simp add: sample_feed_events_def)
  from feed_in_order_without_leaks [OF this]
  have "sorted_wrt revision_less
      (delivered_revisions (fd_log (run_inputs feed_react sample_feed_events subscribeWithReconnect)))"
    by blast
  moreover have "delivered_revisions (fd_log (run_inputs feed_react sample_feed_events subscribeWithReconnect))
      = [''1'', ''2'']"
    by code_simp
  ultimately show ?thesis
    by simp
qed

text \<open>C29: A feed is never stuck: from every state that can arise and is not closed, a host that answers leads
  back to an open subscription within at most three events (close the old subscription or let the timer
  elapse, then subscribe).\<close>

theorem feed_recovers:
  fixes f :: "'p feed"
  assumes "reachable feed_initial (feed_step sid) f" and "\<not> fc_disposed (fd_connection f)" and "\<And>g. sid g \<noteq> []"
  shows "length (host_answers sid (fd_connection f)) \<le> 3
    \<and> (feed_step sid)\<^sup>*\<^sup>* f (react_calls (host_answers sid (fd_connection f)) f)
    \<and> fc_active (fd_connection (react_calls (host_answers sid (fd_connection f)) f)) \<noteq> None"
  using recovery_aux [OF reachable_feed_inv [OF assms(1)] assms(2,3)]
  by (simp add: host_answers_def split: option.splits attempt_stage.splits)

theorem feed_recovers_witness:
  "fc_active (fd_connection (react_calls [CvSubscribed FirstAttempt ''sub-1''] (subscribeWithReconnect :: nat feed)))
     \<noteq> None"
proof -
  have "host_answers (\<lambda>g. ''sub-1'') (fd_connection (subscribeWithReconnect :: nat feed))
      = [CvSubscribed FirstAttempt ''sub-1'']"
    by code_simp
  moreover have "reachable feed_initial (feed_step (\<lambda>g. ''sub-1'')) (subscribeWithReconnect :: nat feed)"
    by (rule reachable.start) (rule feed_initial.intros)
  ultimately show ?thesis
    using feed_recovers [of "\<lambda>g. ''sub-1''" "subscribeWithReconnect :: nat feed"]
    by (simp add: subscribeWithReconnect_def begin_connect_def new_connection_def)
qed

text \<open>C30: Accepted jobs are presented one at a time, in the order in which they were queued: a presentation starts
  only when no other is under way and no acknowledgement is awaited, a job is acknowledged exactly when its presentation
  has been claimed (a job whose presentation fails or is not claimed is not acknowledged), acknowledgements keep the
  order, and when the chain is empty every queued job has been presented - whatever presentations and acknowledgements
  fail and however the connection behaves.\<close>

theorem accepted_jobs_in_order:
  "one_at_a_time evs subscribeAcceptedJobs NoDelivery
   \<and> prefix (presented (af_log (run_inputs accepted_react evs subscribeAcceptedJobs)))
          (queued (af_log (run_inputs accepted_react evs subscribeAcceptedJobs)))
   \<and> subseq (acknowledged (af_log (run_inputs accepted_react evs subscribeAcceptedJobs)))
            (presented (af_log (run_inputs accepted_react evs subscribeAcceptedJobs)))
   \<and> (af_chain (run_inputs accepted_react evs subscribeAcceptedJobs) = [] \<longrightarrow>
        presented (af_log (run_inputs accepted_react evs subscribeAcceptedJobs))
        = queued (af_log (run_inputs accepted_react evs subscribeAcceptedJobs)))"
proof (intro conjI)
  show "one_at_a_time evs subscribeAcceptedJobs NoDelivery"
    using orderly_run [OF subscribe_accepted_inv, of evs]
    by (simp add: delivery_of_def subscribeAcceptedJobs_def begin_connect_def)
qed (use accepted_run_inv [OF subscribe_accepted_inv, of evs] in
      \<open>auto simp: accepted_inv_def list_emb_append_mono list_emb_prefix split: if_splits\<close>)

definition accepted_example :: "string \<Rightarrow> accepted_job" where
  "accepted_example revision =
     \<lparr> ac_acceptanceRevision = revision,
       ac_job = \<lparr> sj_jobId = ''job-'' @ revision, sj_kind = JkZipExtract, sj_status = JsQueued, sj_createdAt = [] \<rparr>,
       ac_origin = JoNativeDrag \<rparr>"

theorem accepted_jobs_in_order_witness:
  "presented (af_log (run_inputs accepted_react
     [AvMessage 1 (accepted_example ''1''), AvMessage 1 (accepted_example ''2''), AvPresented True, AvAcknowledged True,
      AvPresented False] subscribeAcceptedJobs)) = [accepted_example ''1'', accepted_example ''2'']"
proof -
  let ?evs = "[AvMessage 1 (accepted_example ''1''), AvMessage 1 (accepted_example ''2''), AvPresented True,
    AvAcknowledged True, AvPresented False]"
  have "af_chain (run_inputs accepted_react ?evs subscribeAcceptedJobs) = []"
    and "queued (af_log (run_inputs accepted_react ?evs subscribeAcceptedJobs))
      = [accepted_example ''1'', accepted_example ''2'']"
    by code_simp+
  with accepted_jobs_in_order [of ?evs] show ?thesis
    by metis
qed

text \<open>If the presentation of a job is not claimed while the next job waits in the chain, the next one is
  presented and acknowledged, and the subscription resumes after it: the first job is neither presented again
  nor acknowledged.\<close>

lemma unclaimed_job_is_lost:
  "let f = run_inputs accepted_react
             [AvConnection (CvSubscribed FirstAttempt ''subscription-1''),
              AvMessage 1 (accepted_example ''1''), AvMessage 1 (accepted_example ''2''),
              AvPresented False, AvPresented True, AvAcknowledged True, AvConnection CvUnsubscribed]
             subscribeAcceptedJobs
   in acknowledged (af_log f) = [accepted_example ''2''] \<and> last (af_log f) = AlCall (CeSubscribe 3 ''2'')
      \<and> af_chain f = []"
  by code_simp

end
