(* ===== verification/Lifecycle.thy ===== *)
theory Lifecycle
  imports Jobs JobFeed
begin

text \<open>
  The presence of the process: whether the coordinator of disposable tasks may close
  (\<^verbatim>\<open>src/src/app/shell/disposableTaskLifecycle.ts\<close>), the jobs that keep it alive
  (\<^verbatim>\<open>shell/processJobAccounting.ts\<close>) and the requests that open or reveal windows
  (\<^verbatim>\<open>shell/quickActionLaunchDisposition.ts\<close>, with the table of
  \<^verbatim>\<open>api/generated/shellActions.generated.ts\<close>).
\<close>

section \<open>The coordinator\<close>

record lifecycle =
  lc_normalLaunchObserved :: bool
  lc_quickActionOnlyCoordinator :: bool
  lc_quickActionActivityObserved :: bool
  lc_pendingQuickActionRequests :: int

definition createDisposableTaskLifecycle :: lifecycle where
  "createDisposableTaskLifecycle =
     \<lparr> lc_normalLaunchObserved = False, lc_quickActionOnlyCoordinator = False,
       lc_quickActionActivityObserved = False, lc_pendingQuickActionRequests = 0 \<rparr>"

definition observeNormalLaunch :: "lifecycle \<Rightarrow> lifecycle" where
  "observeNormalLaunch s = s\<lparr> lc_normalLaunchObserved := True, lc_quickActionOnlyCoordinator := False \<rparr>"

definition observeQuickActionLaunch :: "lifecycle \<Rightarrow> lifecycle" where
  "observeQuickActionLaunch s =
     (if \<not> lc_normalLaunchObserved s then s\<lparr> lc_quickActionOnlyCoordinator := True \<rparr> else s)"

definition beginQuickActionRequest :: "lifecycle \<Rightarrow> lifecycle" where
  "beginQuickActionRequest s =
     s\<lparr> lc_quickActionOnlyCoordinator := (if lc_normalLaunchObserved s then False else True),
        lc_quickActionActivityObserved := True,
        lc_pendingQuickActionRequests := lc_pendingQuickActionRequests s + 1 \<rparr>"

definition endQuickActionRequest :: "lifecycle \<Rightarrow> lifecycle" where
  "endQuickActionRequest s =
     s\<lparr> lc_pendingQuickActionRequests := max 0 (lc_pendingQuickActionRequests s - 1) \<rparr>"

definition observeMainWindowHiddenForTasks :: "lifecycle \<Rightarrow> lifecycle" where
  "observeMainWindowHiddenForTasks s =
     s\<lparr> lc_quickActionOnlyCoordinator := True, lc_quickActionActivityObserved := True \<rparr>"

record close_input =
  ci_desktopRuntime :: bool
  ci_hasOpenTaskWindows :: bool
  ci_hasActiveJobs :: bool
  ci_mainWindowShown :: bool

definition shouldCloseCoordinator :: "lifecycle \<Rightarrow> close_input \<Rightarrow> bool" where
  "shouldCloseCoordinator s inp \<longleftrightarrow>
     ci_desktopRuntime inp \<and> lc_quickActionOnlyCoordinator s \<and> lc_quickActionActivityObserved s
     \<and> lc_pendingQuickActionRequests s = 0 \<and> \<not> ci_hasOpenTaskWindows inp \<and> \<not> ci_hasActiveJobs inp
     \<and> \<not> ci_mainWindowShown inp"

section \<open>Inbound requests\<close>

datatype shell_action =
    SaOpen | SaCompress | SaExtract | SaCompressZip | SaCompressTzap | SaCompressSevenZ | SaCompressTarZst
  | SaCompressTarGz | SaCompressAppleArchive | SaCompressCleanSource | SaCompressShareOnLan | SaShareOnLan
  | SaExtractHere | SaExtractToFolder

datatype window_disposition = MainWindow | DisposableTask

text \<open>The column \<open>windowDisposition\<close> of \<open>SHELL_ACTION_POLICIES\<close>.\<close>

definition SHELL_ACTION_DISPOSITIONS :: "(shell_action \<times> window_disposition) list" where
  "SHELL_ACTION_DISPOSITIONS =
     [(SaOpen, MainWindow), (SaCompress, MainWindow), (SaExtract, MainWindow),
      (SaCompressZip, DisposableTask), (SaCompressTzap, DisposableTask),
      (SaCompressSevenZ, DisposableTask), (SaCompressTarZst, DisposableTask),
      (SaCompressTarGz, DisposableTask), (SaCompressAppleArchive, DisposableTask),
      (SaCompressCleanSource, DisposableTask), (SaCompressShareOnLan, MainWindow),
      (SaShareOnLan, MainWindow), (SaExtractHere, DisposableTask),
      (SaExtractToFolder, DisposableTask)]"

text \<open>\<open>None\<close> is the thrown error for a missing policy.\<close>

definition quickActionWindowDisposition :: "shell_action \<Rightarrow> window_disposition option" where
  "quickActionWindowDisposition kind = map_of SHELL_ACTION_DISPOSITIONS kind"


text \<open>
  \<open>runInboundQuickAction\<close> around \<open>execute\<close>: what happens before it is awaited (\<open>None\<close> when the policy is
  missing or revealing the main window fails, which leaves the function), and the \<open>finally\<close> block, which runs
  whether \<open>execute\<close> fulfils or rejects.  \<open>co_running\<close> are the requests whose \<open>execute\<close> is pending.
\<close>

record coordinator =
  co_lifecycle :: lifecycle
  co_running :: "window_disposition list"

definition inbound_begin :: "shell_action \<Rightarrow> bool \<Rightarrow> coordinator \<Rightarrow> coordinator option" where
  "inbound_begin kind revealed c =
     (case quickActionWindowDisposition kind of
        None \<Rightarrow> None
      | Some DisposableTask \<Rightarrow>
          Some (c\<lparr> co_lifecycle := beginQuickActionRequest (observeQuickActionLaunch (co_lifecycle c)),
                   co_running := DisposableTask # co_running c \<rparr>)
      | Some MainWindow \<Rightarrow> if revealed then Some (c\<lparr> co_running := MainWindow # co_running c \<rparr>) else None)"

definition inbound_settled :: "window_disposition \<Rightarrow> coordinator \<Rightarrow> coordinator" where
  "inbound_settled disposition c =
     (if disposition \<in> set (co_running c)
      then (c\<lparr> co_lifecycle := (if disposition = DisposableTask then endQuickActionRequest (co_lifecycle c)
                                 else co_lifecycle c),
               co_running := remove1 disposition (co_running c) \<rparr>)
      else c)"

datatype coordinator_op = CoInbound shell_action bool | CoSettled window_disposition | CoNormalLaunch | CoHidden

fun coordinator_apply :: "coordinator_op \<Rightarrow> coordinator \<Rightarrow> coordinator" where
  "coordinator_apply (CoInbound kind revealed) c = nullish (inbound_begin kind revealed c) c"
| "coordinator_apply (CoSettled d) c = inbound_settled d c"
| "coordinator_apply CoNormalLaunch c = c\<lparr> co_lifecycle := observeNormalLaunch (co_lifecycle c) \<rparr>"
| "coordinator_apply CoHidden c = c\<lparr> co_lifecycle := observeMainWindowHiddenForTasks (co_lifecycle c) \<rparr>"

definition new_coordinator :: coordinator where
  "new_coordinator = \<lparr> co_lifecycle = createDisposableTaskLifecycle, co_running = [] \<rparr>"

section \<open>Jobs that keep the process alive\<close>

record job_accounting =
  pa_activeJobIds :: "string list"
  pa_observedInCatalog :: "string list"
  pa_recentTerminalJobIds :: "string list"

definition createProcessJobAccounting :: job_accounting where
  "createProcessJobAccounting =
     \<lparr> pa_activeJobIds = [], pa_observedInCatalog = [], pa_recentTerminalJobIds = [] \<rparr>"

definition MAX_RECENT_TERMINAL_JOB_IDS :: nat where
  "MAX_RECENT_TERMINAL_JOB_IDS = 512"

definition observeAccepted :: "start_job_response \<Rightarrow> job_accounting \<Rightarrow> job_accounting" where
  "observeAccepted job a =
     (if isLiveJobStatus (sj_status job) \<and> \<not> set_has (pa_recentTerminalJobIds a) (sj_jobId job)
      then a\<lparr> pa_activeJobIds := set_add (sj_jobId job) (pa_activeJobIds a) \<rparr>
      else a)"

text \<open>The \<open>while\<close> loop that deletes the oldest ids, first in the order of insertion.\<close>

function trim_recent :: "string list \<Rightarrow> string list" where
  "trim_recent ids =
     (if MAX_RECENT_TERMINAL_JOB_IDS < length ids then trim_recent (set_delete (hd ids) ids) else ids)"
  by auto

lemma set_delete_hd_shorter: "ids \<noteq> [] \<Longrightarrow> length (set_delete (hd ids) ids) < length ids"
  by (cases ids) (auto simp: set_delete_def le_imp_less_Suc)

termination trim_recent
  by (relation "measure length") (auto intro: set_delete_hd_shorter)

declare trim_recent.simps [simp del]

definition find_descriptor :: "string \<Rightarrow> job_catalog \<Rightarrow> job_descriptor option" where
  "find_descriptor jobId catalog = find (\<lambda>job. jd_jobId job = jobId) (jl_jobs catalog)"

definition live_catalog_ids :: "job_catalog \<Rightarrow> string list" where
  "live_catalog_ids catalog =
     js_set (map jd_jobId (filter (\<lambda>job. \<not> jd_terminal job \<and> isLiveJobStatus (jd_status job)) (jl_jobs catalog)))"

text \<open>One turn of the last loop.\<close>

definition drop_gone_job :: "job_catalog \<Rightarrow> string \<Rightarrow> job_accounting \<Rightarrow> job_accounting" where
  "drop_gone_job catalog jobId a =
     (if (case find_descriptor jobId catalog of Some descriptor \<Rightarrow> jd_terminal descriptor | None \<Rightarrow> False)
         \<or> (set_has (pa_observedInCatalog a) jobId \<and> jobId \<notin> jd_jobId ` set (jl_jobs catalog))
      then a\<lparr> pa_activeJobIds := set_delete jobId (pa_activeJobIds a),
              pa_observedInCatalog := set_delete jobId (pa_observedInCatalog a) \<rparr>
      else a)"

definition reconcileCatalog :: "job_catalog \<Rightarrow> job_accounting \<Rightarrow> job_accounting" where
  "reconcileCatalog catalog a =
     (let terminal = map jd_jobId (filter jd_terminal (jl_jobs catalog));
          a1 = a\<lparr> pa_recentTerminalJobIds := trim_recent (set_add_all terminal (pa_recentTerminalJobIds a)) \<rparr>;
          live = live_catalog_ids catalog;
          a2 = a1\<lparr> pa_activeJobIds := set_add_all live (pa_activeJobIds a1),
                   pa_observedInCatalog := set_add_all live (pa_observedInCatalog a1) \<rparr>
      in fold (drop_gone_job catalog) (pa_activeJobIds a2) a2)"

definition hasActiveJobs :: "job_accounting \<Rightarrow> bool" where
  "hasActiveJobs a \<longleftrightarrow> pa_activeJobIds a \<noteq> []"

datatype accounting_op = PaAccepted start_job_response | PaCatalog job_catalog

fun accounting_apply :: "accounting_op \<Rightarrow> job_accounting \<Rightarrow> job_accounting" where
  "accounting_apply (PaAccepted job) a = observeAccepted job a"
| "accounting_apply (PaCatalog catalog) a = reconcileCatalog catalog a"


section \<open>Lemmas\<close>

definition disposable_running :: "coordinator \<Rightarrow> int" where
  "disposable_running c = int (count_list (co_running c) DisposableTask)"

lemma count_remove1: "x \<in> set xs \<Longrightarrow> count_list xs x = Suc (count_list (remove1 x xs) x)"
  by (induction xs) auto

lemma count_remove1_other: "x \<noteq> y \<Longrightarrow> count_list (remove1 y xs) x = count_list xs x"
  by (induction xs) auto

lemma coordinator_apply_pending:
  "lc_pendingQuickActionRequests (co_lifecycle c) = disposable_running c \<Longrightarrow>
   lc_pendingQuickActionRequests (co_lifecycle (coordinator_apply op c)) = disposable_running (coordinator_apply op c)"
proof (cases op)
  case (CoInbound kind revealed)
  assume "lc_pendingQuickActionRequests (co_lifecycle c) = disposable_running c"
  with CoInbound show ?thesis
    by (auto simp: inbound_begin_def disposable_running_def beginQuickActionRequest_def observeQuickActionLaunch_def
      split: option.splits window_disposition.splits)
next
  case (CoSettled d)
  assume "lc_pendingQuickActionRequests (co_lifecycle c) = disposable_running c"
  with CoSettled show ?thesis
    using count_remove1 [of DisposableTask "co_running c"] count_remove1_other [of DisposableTask MainWindow "co_running c"]
    by (cases d) (auto simp: inbound_settled_def disposable_running_def endQuickActionRequest_def)
qed (auto simp: observeNormalLaunch_def observeMainWindowHiddenForTasks_def disposable_running_def)

lemma run_pending:
  "lc_pendingQuickActionRequests (co_lifecycle c) = disposable_running c \<Longrightarrow>
   lc_pendingQuickActionRequests (co_lifecycle (run_inputs coordinator_apply ops c))
     = disposable_running (run_inputs coordinator_apply ops c)"
proof (induction ops arbitrary: c)
  case (Cons op ops)
  show ?case
    unfolding run_inputs_simps by (rule Cons.IH) (rule coordinator_apply_pending [OF Cons.prems])
qed simp

text \<open>A process that was launched normally, and whose main window was not hidden for tasks since.\<close>

definition launched :: "coordinator \<Rightarrow> bool" where
  "launched c \<longleftrightarrow> lc_normalLaunchObserved (co_lifecycle c) \<and> \<not> lc_quickActionOnlyCoordinator (co_lifecycle c)"

lemma launched_step: "launched c \<Longrightarrow> op \<noteq> CoHidden \<Longrightarrow> launched (coordinator_apply op c)"
  by (cases op) (auto simp: launched_def inbound_begin_def inbound_settled_def beginQuickActionRequest_def
    observeQuickActionLaunch_def endQuickActionRequest_def observeNormalLaunch_def split: option.splits window_disposition.splits)

lemma launched_run: "launched c \<Longrightarrow> CoHidden \<notin> set ops \<Longrightarrow> launched (run_inputs coordinator_apply ops c)"
  by (induction ops arbitrary: c) (auto simp: launched_step)

lemma set_delete_hd: "distinct xs \<Longrightarrow> set_delete (hd xs) xs = tl xs"
  by (cases xs) (auto simp: set_delete_def intro!: filter_True)

lemma trim_recent_drop:
  "distinct ids \<Longrightarrow> trim_recent ids = drop (length ids - MAX_RECENT_TERMINAL_JOB_IDS) ids"
proof (induction ids rule: trim_recent.induct)
  case (1 ids)
  show ?case
  proof (cases "MAX_RECENT_TERMINAL_JOB_IDS < length ids")
    case True
    then have "trim_recent ids = trim_recent (tl ids)"
      using 1(2) by (subst trim_recent.simps) (simp add: set_delete_hd)
    also have "\<dots> = drop (length (tl ids) - MAX_RECENT_TERMINAL_JOB_IDS) (tl ids)"
      using 1 True by (simp add: set_delete_hd distinct_tl)
    also have "\<dots> = drop (length ids - MAX_RECENT_TERMINAL_JOB_IDS) ids"
      using True by (cases ids) (simp_all add: Suc_diff_le)
    finally show ?thesis .
  next
    case False
    then show ?thesis
      by (subst trim_recent.simps) simp
  qed
qed

definition gone :: "job_catalog \<Rightarrow> job_accounting \<Rightarrow> string \<Rightarrow> bool" where
  "gone catalog a jobId \<longleftrightarrow>
     (case find_descriptor jobId catalog of Some descriptor \<Rightarrow> jd_terminal descriptor | None \<Rightarrow> False)
     \<or> (jobId \<in> set (pa_observedInCatalog a) \<and> jobId \<notin> jd_jobId ` set (jl_jobs catalog))"

lemma drop_gone_job_fields:
  "pa_activeJobIds (drop_gone_job catalog j a) = filter (\<lambda>x. \<not> (x = j \<and> gone catalog a x)) (pa_activeJobIds a)"
  "pa_observedInCatalog (drop_gone_job catalog j a) = filter (\<lambda>x. \<not> (x = j \<and> gone catalog a x)) (pa_observedInCatalog a)"
  "pa_recentTerminalJobIds (drop_gone_job catalog j a) = pa_recentTerminalJobIds a"
  by (auto simp: drop_gone_job_def gone_def set_delete_def set_has_def intro!: filter_cong)

lemma gone_drop_other: "x \<noteq> j \<Longrightarrow> gone catalog (drop_gone_job catalog j a) x = gone catalog a x"
  by (auto simp: gone_def drop_gone_job_fields)

lemma fold_drop_gone:
  assumes "distinct js"
  shows "pa_activeJobIds (fold (drop_gone_job catalog) js a)
      = filter (\<lambda>x. \<not> (x \<in> set js \<and> gone catalog a x)) (pa_activeJobIds a)
    \<and> pa_observedInCatalog (fold (drop_gone_job catalog) js a)
      = filter (\<lambda>x. \<not> (x \<in> set js \<and> gone catalog a x)) (pa_observedInCatalog a)
    \<and> pa_recentTerminalJobIds (fold (drop_gone_job catalog) js a) = pa_recentTerminalJobIds a"
  using assms
proof (induction js arbitrary: a)
  case (Cons j js)
  let ?a = "drop_gone_job catalog j a"
  have "j \<notin> set js" and "distinct js"
    using Cons.prems by auto
  have "gone catalog ?a x = gone catalog a x" if "x \<in> set js" for x
    using that \<open>j \<notin> set js\<close> by (intro gone_drop_other) auto
  with \<open>j \<notin> set js\<close> have "filter (\<lambda>x. \<not> (x \<in> set js \<and> gone catalog ?a x)) (filter (\<lambda>x. \<not> (x = j \<and> gone catalog a x)) xs)
      = filter (\<lambda>x. \<not> (x \<in> set (j # js) \<and> gone catalog a x)) xs" for xs
    by (auto simp: filter_filter intro!: filter_cong)
  with Cons.IH [OF \<open>distinct js\<close>, of ?a] show ?case
    by (simp add: drop_gone_job_fields)
qed simp

definition accounting_inv :: "job_accounting \<Rightarrow> bool" where
  "accounting_inv a \<longleftrightarrow>
     distinct (pa_activeJobIds a) \<and> distinct (pa_observedInCatalog a) \<and> distinct (pa_recentTerminalJobIds a)
     \<and> set (pa_observedInCatalog a) \<subseteq> set (pa_activeJobIds a)
     \<and> length (pa_recentTerminalJobIds a) \<le> MAX_RECENT_TERMINAL_JOB_IDS"

lemma reconcile_fields:
  fixes catalog :: job_catalog
  assumes "accounting_inv a"
  defines "act \<equiv> set_add_all (live_catalog_ids catalog) (pa_activeJobIds a)"
    and "obs \<equiv> set_add_all (live_catalog_ids catalog) (pa_observedInCatalog a)"
    and "a2 \<equiv> a\<lparr> pa_observedInCatalog := set_add_all (live_catalog_ids catalog) (pa_observedInCatalog a) \<rparr>"
  shows "pa_activeJobIds (reconcileCatalog catalog a) = filter (\<lambda>x. \<not> gone catalog a2 x) act"
    and "pa_observedInCatalog (reconcileCatalog catalog a) = filter (\<lambda>x. \<not> (x \<in> set act \<and> gone catalog a2 x)) obs"
    and "pa_recentTerminalJobIds (reconcileCatalog catalog a)
      = trim_recent (set_add_all (map jd_jobId (filter jd_terminal (jl_jobs catalog))) (pa_recentTerminalJobIds a))"
proof -
  have d: "distinct act"
    using assms(1) by (simp add: act_def accounting_inv_def)
  let ?t = "trim_recent (set_add_all (map jd_jobId (filter jd_terminal (jl_jobs catalog))) (pa_recentTerminalJobIds a))"
  let ?b = "a\<lparr> pa_recentTerminalJobIds := ?t, pa_activeJobIds := act, pa_observedInCatalog := obs \<rparr>"
  have r: "reconcileCatalog catalog a = fold (drop_gone_job catalog) act ?b"
    by (simp add: reconcileCatalog_def act_def obs_def Let_def)
  have g: "gone catalog ?b x = gone catalog a2 x" for x
    by (simp add: gone_def a2_def obs_def)
  note f = fold_drop_gone [OF d, of catalog ?b]
  show "pa_activeJobIds (reconcileCatalog catalog a) = filter (\<lambda>x. \<not> gone catalog a2 x) act"
    using f by (auto simp: r g intro: filter_cong)
  show "pa_observedInCatalog (reconcileCatalog catalog a) = filter (\<lambda>x. \<not> (x \<in> set act \<and> gone catalog a2 x)) obs"
    using f by (simp add: r g)
  show "pa_recentTerminalJobIds (reconcileCatalog catalog a) = ?t"
    using f by (simp add: r)
qed

lemma reconcile_inv:
  assumes "accounting_inv a"
  shows "accounting_inv (reconcileCatalog catalog a)"
proof -
  let ?t = "set_add_all (map jd_jobId (filter jd_terminal (jl_jobs catalog))) (pa_recentTerminalJobIds a)"
  have "distinct ?t"
    using assms by (simp add: accounting_inv_def)
  with reconcile_fields [OF assms, of catalog] assms show ?thesis
    by (auto simp: accounting_inv_def trim_recent_drop)
qed

lemma observe_accepted_inv: "accounting_inv a \<Longrightarrow> accounting_inv (observeAccepted job a)"
  by (auto simp: accounting_inv_def observeAccepted_def)

lemma accounting_run_inv: "accounting_inv (run_inputs accounting_apply ops createProcessJobAccounting)"
proof -
  have "accounting_inv a \<Longrightarrow> accounting_inv (run_inputs accounting_apply ops a)" for a
  proof (induction ops arbitrary: a)
    case (Cons op ops)
    then show ?case
      by (cases op) (simp_all add: reconcile_inv observe_accepted_inv)
  qed simp
  then show ?thesis
    by (simp add: accounting_inv_def createProcessJobAccounting_def)
qed


section \<open>Properties\<close>

text \<open>However launches, requests and their completions interleave, the coordinator knows exactly how many
  disposable requests are under way, so it does not close while one is; it does not close over a visible main
  window, an open task window or an active job; and once the application was launched normally it does not
  close until its main window is hidden for tasks.\<close>

theorem coordinator_stays:
  "lc_pendingQuickActionRequests (co_lifecycle (run_inputs coordinator_apply ops new_coordinator))
     = disposable_running (run_inputs coordinator_apply ops new_coordinator)
   \<and> (shouldCloseCoordinator (co_lifecycle (run_inputs coordinator_apply ops new_coordinator)) inp \<longrightarrow>
        DisposableTask \<notin> set (co_running (run_inputs coordinator_apply ops new_coordinator))
        \<and> \<not> ci_mainWindowShown inp \<and> \<not> ci_hasOpenTaskWindows inp \<and> \<not> ci_hasActiveJobs inp)
   \<and> (CoHidden \<notin> set later \<longrightarrow>
        \<not> shouldCloseCoordinator (co_lifecycle
            (run_inputs coordinator_apply (ops @ CoNormalLaunch # later) new_coordinator)) inp)"
proof -
  let ?c = "run_inputs coordinator_apply ops new_coordinator"
  have p: "lc_pendingQuickActionRequests (co_lifecycle ?c) = disposable_running ?c"
    by (rule run_pending) (simp add: new_coordinator_def createDisposableTaskLifecycle_def disposable_running_def)
  have "launched (coordinator_apply CoNormalLaunch ?c)"
    by (simp add: launched_def observeNormalLaunch_def)
  then have "CoHidden \<notin> set later \<longrightarrow> launched (run_inputs coordinator_apply (ops @ CoNormalLaunch # later) new_coordinator)"
    using launched_run by (simp del: coordinator_apply.simps)
  with p show ?thesis
    by (auto simp: shouldCloseCoordinator_def launched_def disposable_running_def count_list_0_iff)
qed

theorem coordinator_stays_witness:
  "shouldCloseCoordinator (co_lifecycle (run_inputs coordinator_apply
       [CoInbound SaExtractHere True, CoSettled DisposableTask] new_coordinator))
     \<lparr> ci_desktopRuntime = True, ci_hasOpenTaskWindows = False, ci_hasActiveJobs = False, ci_mainWindowShown = False \<rparr>
   \<and> lc_pendingQuickActionRequests (co_lifecycle (run_inputs coordinator_apply
       [CoInbound SaExtractHere True, CoInbound SaOpen True] new_coordinator)) = 1"
proof -
  have "disposable_running (run_inputs coordinator_apply [CoInbound SaExtractHere True, CoInbound SaOpen True]
      new_coordinator) = 1"
    by code_simp
  with coordinator_stays [where ops = "[CoInbound SaExtractHere True, CoInbound SaOpen True]"]
  have "lc_pendingQuickActionRequests (co_lifecycle (run_inputs coordinator_apply
       [CoInbound SaExtractHere True, CoInbound SaOpen True] new_coordinator)) = 1"
    by metis
  moreover have "shouldCloseCoordinator (co_lifecycle (run_inputs coordinator_apply
       [CoInbound SaExtractHere True, CoSettled DisposableTask] new_coordinator))
     \<lparr> ci_desktopRuntime = True, ci_hasOpenTaskWindows = False, ci_hasActiveJobs = False, ci_mainWindowShown = False \<rparr>"
    by code_simp
  ultimately show ?thesis
    by blast
qed

text \<open>The loop that forgets old terminal jobs ends, and keeps exactly the newest 512 in order.\<close>

theorem trim_keeps_newest:
  assumes "distinct ids"
  shows "trim_recent ids = drop (length ids - 512) ids \<and> length (trim_recent ids) = min 512 (length ids)"
  using trim_recent_drop [OF assms] by (simp add: MAX_RECENT_TERMINAL_JOB_IDS_def)

theorem trim_keeps_newest_witness: "trim_recent [''a'', ''b''] = [''a'', ''b'']"
proof -
  have "distinct [''a'', ''b'']"
    by simp
  from trim_keeps_newest [OF this] show ?thesis
    by simp
qed

text \<open>After any history, reconciling with a catalogue leaves a job active exactly when it was active or is
  live in the catalogue, the catalogue does not report it finished, and it has not disappeared from a catalogue
  in which it had been seen; the ids of finished jobs are bounded; and a late acceptance of a job among them
  does not bring it back.\<close>

theorem reconcile_active_jobs:
  fixes ops catalog
  defines "a \<equiv> run_inputs accounting_apply ops createProcessJobAccounting"
  shows "set (pa_activeJobIds (reconcileCatalog catalog a)) =
      {j. (j \<in> set (pa_activeJobIds a) \<or> j \<in> set (live_catalog_ids catalog))
        \<and> (case find_descriptor j catalog of Some d \<Rightarrow> \<not> jd_terminal d | None \<Rightarrow> j \<notin> set (pa_observedInCatalog a))}
    \<and> distinct (pa_activeJobIds a) \<and> set (pa_observedInCatalog a) \<subseteq> set (pa_activeJobIds a)
    \<and> length (pa_recentTerminalJobIds a) \<le> 512
    \<and> (sj_jobId job \<in> set (pa_recentTerminalJobIds a) \<longrightarrow> observeAccepted job a = a)"
proof -
  have inv: "accounting_inv a"
    unfolding a_def by (rule accounting_run_inv)
  have none: "find_descriptor j catalog = None \<longleftrightarrow> j \<notin> jd_jobId ` set (jl_jobs catalog)" for j
    by (auto simp: find_descriptor_def find_None_iff image_iff)
  have live: "j \<in> set (live_catalog_ids catalog) \<Longrightarrow> j \<in> jd_jobId ` set (jl_jobs catalog)" for j
    by (auto simp: live_catalog_ids_def)
  have "set (pa_activeJobIds (reconcileCatalog catalog a)) =
      {j. (j \<in> set (pa_activeJobIds a) \<or> j \<in> set (live_catalog_ids catalog))
        \<and> (case find_descriptor j catalog of Some d \<Rightarrow> \<not> jd_terminal d | None \<Rightarrow> j \<notin> set (pa_observedInCatalog a))}"
    unfolding reconcile_fields(1) [OF inv]
    using none live by (auto simp: gone_def split: option.splits)
  with inv show ?thesis
    by (simp add: accounting_inv_def MAX_RECENT_TERMINAL_JOB_IDS_def observeAccepted_def set_has_def)
qed

theorem reconcile_active_jobs_witness:
  "observeAccepted \<lparr> sj_jobId = ''j'', sj_kind = JkZipCreate, sj_status = JsRunning, sj_createdAt = [] \<rparr>
     (run_inputs accounting_apply
        [PaCatalog \<lparr> jl_catalogRevision = ''1'', jl_jobs =
           [\<lparr> jd_jobId = ''j'', jd_revision = ''4'', jd_kind = JkZipCreate, jd_status = JsCompleted, jd_terminal = True \<rparr>] \<rparr>]
        createProcessJobAccounting)
   = \<lparr> pa_activeJobIds = [], pa_observedInCatalog = [], pa_recentTerminalJobIds = [''j''] \<rparr>"
proof -
  let ?ops = "[PaCatalog \<lparr> jl_catalogRevision = ''1'', jl_jobs =
     [\<lparr> jd_jobId = ''j'', jd_revision = ''4'', jd_kind = JkZipCreate, jd_status = JsCompleted, jd_terminal = True \<rparr>] \<rparr>]"
  let ?job = "\<lparr> sj_jobId = ''j'', sj_kind = JkZipCreate, sj_status = JsRunning, sj_createdAt = [] \<rparr>"
  have e: "run_inputs accounting_apply ?ops createProcessJobAccounting
      = \<lparr> pa_activeJobIds = [], pa_observedInCatalog = [], pa_recentTerminalJobIds = [''j''] \<rparr>"
    by code_simp
  show ?thesis
    using reconcile_active_jobs [of "\<lparr> jl_catalogRevision = [], jl_jobs = [] \<rparr>" ?ops ?job]
    unfolding e by simp
qed

end
