(* ===== verification/JobHandoff.thy ===== *)
theory JobHandoff
  imports JobFeed
begin

text \<open>
  What happens to a job after the backend has accepted it: its task window is presented and the acceptance is
  acknowledged (\<^verbatim>\<open>src/src/app/controllers/jobHandoffController.ts\<close>), and follow-up actions wait for it to end
  (\<^verbatim>\<open>jobTerminationWatcher.ts\<close>).  Calls are numbered by their caller; a promise that has not settled is an
  entry of the state, and the log records what was called and how each call returned.
\<close>

section \<open>Handing a job to its window\<close>

datatype handoff_argument = HandedJob start_job_response | HandedEnvelope accepted_job

fun handed_envelope :: "handoff_argument \<Rightarrow> accepted_job" where
  "handed_envelope (HandedJob job) = \<lparr> ac_acceptanceRevision = ''0'', ac_job = job, ac_origin = JoMainWindow \<rparr>"
| "handed_envelope (HandedEnvelope envelope) = envelope"

text \<open>\<open>HlReturn caller None\<close> is a call that rejects.\<close>

datatype handoff_log =
    HlCall nat
  | HlRecord start_job_response
  | HlReset
  | HlPresent string
  | HlReportFailure string
  | HlAcknowledge accepted_job
  | HlReturn nat "bool option"

text \<open>\<open>jh_presentations\<close> holds the callers that await each pending presentation, \<open>jh_acking\<close> the callers that await
  an acknowledgement, with its key and whether they are inside the \<open>try\<close>.\<close>

record handoff =
  jh_presentations :: "(string \<times> (nat \<times> accepted_job) list) list"
  jh_delivered :: "string list"
  jh_acknowledged :: "string list"
  jh_acking :: "(nat \<times> string \<times> bool) list"
  jh_log :: "handoff_log list"

definition createJobHandoffController :: handoff where
  "createJobHandoffController =
     \<lparr> jh_presentations = [], jh_delivered = [], jh_acknowledged = [], jh_acking = [], jh_log = [] \<rparr>"

definition add_handoff_log :: "handoff_log list \<Rightarrow> handoff \<Rightarrow> handoff" where
  "add_handoff_log l h = h\<lparr> jh_log := jh_log h @ l \<rparr>"

definition ack_key :: "accepted_job \<Rightarrow> string" where
  "ack_key envelope = sj_jobId (ac_job envelope) @ '':'' @ ac_acceptanceRevision envelope"

definition handoff_acknowledge :: "nat \<Rightarrow> bool \<Rightarrow> accepted_job \<Rightarrow> handoff \<Rightarrow> handoff" where
  "handoff_acknowledge caller in_try envelope h =
     (let key = ack_key envelope
      in if set_has (jh_acknowledged h) key then add_handoff_log [HlReturn caller (Some True)] h
         else add_handoff_log [HlAcknowledge envelope]
                (h\<lparr> jh_acknowledged := set_add key (jh_acknowledged h),
                    jh_acking := jh_acking h @ [(caller, key, in_try)] \<rparr>))"

definition handoff_delivered :: "bool \<Rightarrow> nat \<times> accepted_job \<Rightarrow> handoff \<Rightarrow> handoff" where
  "handoff_delivered in_try call h =
     (let (caller, envelope) = call
      in if ac_acceptanceRevision envelope \<noteq> ''0'' then handoff_acknowledge caller in_try envelope h
         else add_handoff_log [HlReturn caller (Some True)] h)"

definition handoffAcceptedJob :: "nat \<Rightarrow> handoff_argument \<Rightarrow> bool \<Rightarrow> handoff \<Rightarrow> handoff" where
  "handoffAcceptedJob caller accepted has_reset h0 =
     (let envelope = handed_envelope accepted; job = ac_job envelope; h = add_handoff_log [HlCall caller] h0
      in if set_has (jh_delivered h) (sj_jobId job) then handoff_delivered False (caller, envelope) h
         else case map_of (jh_presentations h) (sj_jobId job) of
                Some callers \<Rightarrow>
                  h\<lparr> jh_presentations :=
                       AList.update (sj_jobId job) (callers @ [(caller, envelope)]) (jh_presentations h) \<rparr>
              | None \<Rightarrow>
                  add_handoff_log ([HlRecord job] @ (if has_reset then [HlReset] else []) @ [HlPresent (sj_jobId job)])
                    (h\<lparr> jh_presentations := AList.update (sj_jobId job) [(caller, envelope)] (jh_presentations h) \<rparr>))"

text \<open>\<open>presentTaskWindow\<close> settles: the entry of the map is deleted and the callers go on, in their order.\<close>

definition presentation_settled :: "string \<Rightarrow> bool \<Rightarrow> handoff \<Rightarrow> handoff" where
  "presentation_settled jobId good h =
     (case map_of (jh_presentations h) jobId of
        None \<Rightarrow> h
      | Some callers \<Rightarrow>
          let h1 = h\<lparr> jh_presentations := AList.delete jobId (jh_presentations h) \<rparr>
          in if good
             then fold (handoff_delivered True) callers (h1\<lparr> jh_delivered := set_add jobId (jh_delivered h1) \<rparr>)
             else add_handoff_log (HlReportFailure jobId # map (\<lambda>c. HlReturn (fst c) (Some False)) callers) h1)"

definition acknowledgement_settled :: "nat \<Rightarrow> bool \<Rightarrow> handoff \<Rightarrow> handoff" where
  "acknowledgement_settled caller good h =
     (case map_of (jh_acking h) caller of
        None \<Rightarrow> h
      | Some (key, in_try) \<Rightarrow>
          let h1 = h\<lparr> jh_acking := remove1 (caller, key, in_try) (jh_acking h) \<rparr>
          in if good then add_handoff_log [HlReturn caller (Some True)] h1
             else add_handoff_log [HlReturn caller (if in_try then Some False else None)]
                    (h1\<lparr> jh_acknowledged := set_delete key (jh_acknowledged h1) \<rparr>))"

datatype handoff_op =
    JhCall nat handoff_argument bool
  | JhPresented string bool
  | JhAcknowledged nat bool

fun handoff_apply :: "handoff_op \<Rightarrow> handoff \<Rightarrow> handoff" where
  "handoff_apply (JhCall caller accepted has_reset) h = handoffAcceptedJob caller accepted has_reset h"
| "handoff_apply (JhPresented jobId good) h = presentation_settled jobId good h"
| "handoff_apply (JhAcknowledged caller good) h = acknowledgement_settled caller good h"

section \<open>Waiting for a job to end\<close>

record termination_watcher =
  jw_latestCatalog :: "job_catalog option"
  jw_waiters :: "(string \<times> nat list) list"
  jw_resolved :: "(nat \<times> job_status) list"

definition createJobTerminationWatcher :: termination_watcher where
  "createJobTerminationWatcher = \<lparr> jw_latestCatalog = None, jw_waiters = [], jw_resolved = [] \<rparr>"

definition terminalStatus :: "termination_watcher \<Rightarrow> string \<Rightarrow> job_status option" where
  "terminalStatus w jobId =
     (case jw_latestCatalog w of
        None \<Rightarrow> None
      | Some catalog \<Rightarrow>
          (case find (\<lambda>candidate. jd_jobId candidate = jobId) (jl_jobs catalog) of
             Some job \<Rightarrow> if jd_terminal job then Some (jd_status job) else None
           | None \<Rightarrow> None))"

definition resolve_job :: "job_descriptor \<Rightarrow> termination_watcher \<Rightarrow> termination_watcher" where
  "resolve_job job w =
     (if \<not> jd_terminal job then w
      else case map_of (jw_waiters w) (jd_jobId job) of
             None \<Rightarrow> w
           | Some jobWaiters \<Rightarrow>
               w\<lparr> jw_waiters := AList.delete (jd_jobId job) (jw_waiters w),
                  jw_resolved := jw_resolved w @ map (\<lambda>r. (r, jd_status job)) jobWaiters \<rparr>)"

definition watcher_observe :: "job_catalog \<Rightarrow> termination_watcher \<Rightarrow> termination_watcher" where
  "watcher_observe catalog w = fold resolve_job (jl_jobs catalog) (w\<lparr> jw_latestCatalog := Some catalog \<rparr>)"

text \<open>Each promise has its own \<open>resolve\<close>, here the number of the waiter.\<close>

definition watcher_wait :: "nat \<Rightarrow> string \<Rightarrow> termination_watcher \<Rightarrow> termination_watcher" where
  "watcher_wait waiter jobId w =
     (case terminalStatus w jobId of
        Some status \<Rightarrow> w\<lparr> jw_resolved := jw_resolved w @ [(waiter, status)] \<rparr>
      | None \<Rightarrow>
          w\<lparr> jw_waiters := AList.update jobId (nullish (map_of (jw_waiters w) jobId) [] @ [waiter]) (jw_waiters w) \<rparr>)"

datatype watcher_op = JwObserve job_catalog | JwWait nat string

fun watcher_apply :: "watcher_op \<Rightarrow> termination_watcher \<Rightarrow> termination_watcher" where
  "watcher_apply (JwObserve catalog) w = watcher_observe catalog w"
| "watcher_apply (JwWait waiter jobId) w = watcher_wait waiter jobId w"


section \<open>Counting in association lists\<close>

definition alist_sum :: "('v \<Rightarrow> nat) \<Rightarrow> ('k \<times> 'v) list \<Rightarrow> nat" where
  "alist_sum g m = sum_list (map (\<lambda>e. g (snd e)) m)"

lemma alist_sum_Nil [simp]: "alist_sum g [] = 0"
  by (simp add: alist_sum_def)

lemma alist_sum_update_new: "map_of m k = None \<Longrightarrow> alist_sum g (AList.update k v m) = alist_sum g m + g v"
  by (induction m) (auto simp: alist_sum_def split: if_splits)

lemma alist_sum_update: "map_of m k = Some u \<Longrightarrow> alist_sum g (AList.update k v m) + g u = alist_sum g m + g v"
  by (induction m) (auto simp: alist_sum_def split: if_splits)

lemma delete_absent: "map_of m k = None \<Longrightarrow> AList.delete k m = m"
  by (induction m) (auto split: if_splits)

lemma alist_sum_delete:
  "distinct (map fst m) \<Longrightarrow> map_of m k = Some u \<Longrightarrow> alist_sum g (AList.delete k m) + g u = alist_sum g m"
proof (induction m)
  case (Cons e m)
  show ?case
  proof (cases "fst e = k")
    case True
    with Cons.prems have "map_of m k = None" and "u = snd e"
      by (auto simp: map_of_eq_None_iff)
    with True delete_absent [of m k] show ?thesis
      by (cases e) (simp add: alist_sum_def)
  qed (use Cons in \<open>auto simp: alist_sum_def\<close>)
qed simp

section \<open>The handoff: every call returns, every window is presented once\<close>

definition calls_by :: "nat \<Rightarrow> handoff \<Rightarrow> nat" where
  "calls_by c h = count_list (jh_log h) (HlCall c)"

definition is_return :: "nat \<Rightarrow> handoff_log \<Rightarrow> bool" where
  "is_return c e = (case e of HlReturn d r \<Rightarrow> d = c | _ \<Rightarrow> False)"

definition returns_to :: "nat \<Rightarrow> handoff \<Rightarrow> nat" where
  "returns_to c h = length (filter (is_return c) (jh_log h))"

definition own_calls :: "nat \<Rightarrow> (nat \<times> 'a) list \<Rightarrow> nat" where
  "own_calls c xs = length (filter (\<lambda>x. fst x = c) xs)"

definition waiting_calls :: "nat \<Rightarrow> handoff \<Rightarrow> nat" where
  "waiting_calls c h = alist_sum (own_calls c) (jh_presentations h) + own_calls c (jh_acking h)"

definition presents :: "string \<Rightarrow> handoff \<Rightarrow> nat" where
  "presents j h = count_list (jh_log h) (HlPresent j)"

definition failures :: "string \<Rightarrow> handoff \<Rightarrow> nat" where
  "failures j h = count_list (jh_log h) (HlReportFailure j)"

definition calls_balance :: "handoff \<Rightarrow> bool" where
  "calls_balance h \<longleftrightarrow> (\<forall>c. calls_by c h = returns_to c h + waiting_calls c h)"

definition pending :: "handoff \<Rightarrow> string \<Rightarrow> bool" where
  "pending h j \<longleftrightarrow> map_of (jh_presentations h) j \<noteq> None"

definition presents_balance :: "handoff \<Rightarrow> bool" where
  "presents_balance h \<longleftrightarrow>
     (\<forall>j. presents j h = failures j h + of_bool (j \<in> set (jh_delivered h))
            + of_bool (pending h j))
     \<and> (\<forall>j. pending h j \<longrightarrow> j \<notin> set (jh_delivered h))
     \<and> distinct (map fst (jh_presentations h))"

lemma own_calls_simps [simp]:
  "own_calls c [] = 0" "own_calls c (xs @ ys) = own_calls c xs + own_calls c ys"
  "own_calls c (x # xs) = of_bool (fst x = c) + own_calls c xs"
  by (simp_all add: own_calls_def)

lemma own_calls_remove1: "x \<in> set xs \<Longrightarrow> own_calls c (remove1 x xs) + of_bool (fst x = c) = own_calls c xs"
  by (induction xs) (auto simp: own_calls_def)

lemmas handoff_counts = calls_by_def returns_to_def waiting_calls_def presents_def failures_def is_return_def

text \<open>A delivered call either returns at once or waits for its acknowledgement; nothing else changes.\<close>

lemma handoff_delivered_effect:
  "jh_presentations (handoff_delivered in_try call h) = jh_presentations h"
  "jh_delivered (handoff_delivered in_try call h) = jh_delivered h"
  "presents j (handoff_delivered in_try call h) = presents j h"
  "failures j (handoff_delivered in_try call h) = failures j h"
  "calls_by c (handoff_delivered in_try call h) = calls_by c h"
  "returns_to c (handoff_delivered in_try call h) + waiting_calls c (handoff_delivered in_try call h)
     = returns_to c h + waiting_calls c h + of_bool (fst call = c)"
  by (auto simp: handoff_delivered_def handoff_acknowledge_def add_handoff_log_def handoff_counts Let_def
    split: prod.splits)

lemma fold_delivered_effect:
  "jh_presentations (fold (handoff_delivered in_try) calls h) = jh_presentations h
   \<and> jh_delivered (fold (handoff_delivered in_try) calls h) = jh_delivered h
   \<and> presents j (fold (handoff_delivered in_try) calls h) = presents j h
   \<and> failures j (fold (handoff_delivered in_try) calls h) = failures j h
   \<and> calls_by c (fold (handoff_delivered in_try) calls h) = calls_by c h
   \<and> returns_to c (fold (handoff_delivered in_try) calls h) + waiting_calls c (fold (handoff_delivered in_try) calls h)
     = returns_to c h + waiting_calls c h + own_calls c calls"
  by (induction calls arbitrary: h) (simp_all add: handoff_delivered_effect)


lemma own_calls_pairs: "own_calls c xs = length (filter (is_return c) (map (\<lambda>x. HlReturn (fst x) r) xs))"
  by (induction xs) (auto simp: own_calls_def is_return_def)

lemma count_returns [simp]:
  "count_list (map (\<lambda>x. HlReturn (fst x) r) xs) (HlCall c) = 0"
  "count_list (map (\<lambda>x. HlReturn (fst x) r) xs) (HlPresent j) = 0"
  "count_list (map (\<lambda>x. HlReturn (fst x) r) xs) (HlReportFailure j) = 0"
  by (induction xs) auto

lemma handoff_call_balance:
  assumes "calls_balance h" and "presents_balance h"
  shows "calls_balance (handoffAcceptedJob caller accepted has_reset h)
    \<and> presents_balance (handoffAcceptedJob caller accepted has_reset h)"
proof -
  let ?env = "handed_envelope accepted" and ?j = "sj_jobId (ac_job (handed_envelope accepted))"
  let ?h0 = "add_handoff_log [HlCall caller] h" and ?h' = "handoffAcceptedJob caller accepted has_reset h"
  have h0: "calls_by c ?h0 = calls_by c h + of_bool (c = caller)" "returns_to c ?h0 = returns_to c h"
    "waiting_calls c ?h0 = waiting_calls c h" "presents j ?h0 = presents j h" "failures j ?h0 = failures j h"
    "jh_presentations ?h0 = jh_presentations h" "jh_delivered ?h0 = jh_delivered h" for c j
    by (auto simp: handoff_counts add_handoff_log_def)
  show ?thesis
  proof (cases "?j \<in> set (jh_delivered h)")
    case True
    then have "?h' = handoff_delivered False (caller, ?env) ?h0"
      by (simp add: handoffAcceptedJob_def Let_def add_handoff_log_def set_has_def)
    with assms show ?thesis
      by (simp add: calls_balance_def presents_balance_def pending_def handoff_delivered_effect h0)
  next
    case False
    show ?thesis
    proof (cases "map_of (jh_presentations h) ?j")
      case None
      let ?l = "[HlRecord (ac_job ?env)] @ (if has_reset then [HlReset] else []) @ [HlPresent ?j]"
      have h': "?h' = add_handoff_log ?l
          (?h0\<lparr> jh_presentations := AList.update ?j [(caller, ?env)] (jh_presentations h) \<rparr>)"
        using False None by (simp add: handoffAcceptedJob_def Let_def add_handoff_log_def set_has_def)
      have "calls_by c ?h' = calls_by c h + of_bool (c = caller)" "returns_to c ?h' = returns_to c h"
        "waiting_calls c ?h' = waiting_calls c h + of_bool (c = caller)" for c
        unfolding h' by (auto simp: handoff_counts add_handoff_log_def alist_sum_update_new [OF None])
      moreover have "presents j ?h' = presents j h + of_bool (j = ?j)" "failures j ?h' = failures j h"
        "jh_delivered ?h' = jh_delivered h"
        "pending ?h' j \<longleftrightarrow> j = ?j \<or> pending h j" for j
        unfolding h' by (auto simp: handoff_counts add_handoff_log_def update_conv' pending_def)
      moreover have "\<not> pending h ?j"
        using None by (simp add: pending_def)
      moreover have "distinct (map fst (jh_presentations ?h'))"
        using assms(2) unfolding h' by (simp add: presents_balance_def add_handoff_log_def distinct_update)
      ultimately show ?thesis
        using assms False by (auto simp: calls_balance_def presents_balance_def)
    next
      case (Some callers)
      have h': "?h' = ?h0\<lparr> jh_presentations := AList.update ?j (callers @ [(caller, ?env)]) (jh_presentations h) \<rparr>"
        using False Some by (simp add: handoffAcceptedJob_def Let_def add_handoff_log_def set_has_def)
      have "calls_by c ?h' = calls_by c h + of_bool (c = caller)" "returns_to c ?h' = returns_to c h"
        "waiting_calls c ?h' = waiting_calls c h + of_bool (c = caller)" for c
        using alist_sum_update [OF Some, of "own_calls c" "callers @ [(caller, ?env)]"]
        unfolding h' by (auto simp: handoff_counts add_handoff_log_def)
      moreover have "presents j ?h' = presents j h" "failures j ?h' = failures j h" "jh_delivered ?h' = jh_delivered h"
        "pending ?h' j \<longleftrightarrow> pending h j" for j
        using Some unfolding h' by (auto simp: handoff_counts add_handoff_log_def update_conv' pending_def)
      moreover have "distinct (map fst (jh_presentations ?h'))"
        using assms(2) unfolding h' by (simp add: presents_balance_def add_handoff_log_def distinct_update)
      ultimately show ?thesis
        using assms by (simp add: calls_balance_def presents_balance_def)
    qed
  qed
qed

lemma presentation_balance:
  assumes "calls_balance h" and "presents_balance h"
  shows "calls_balance (presentation_settled jobId good h) \<and> presents_balance (presentation_settled jobId good h)"
proof (cases "map_of (jh_presentations h) jobId")
  case (Some callers)
  let ?h1 = "h\<lparr> jh_presentations := AList.delete jobId (jh_presentations h) \<rparr>"
  have d: "distinct (map fst (jh_presentations h))" and nd: "jobId \<notin> set (jh_delivered h)"
    using assms(2) Some by (auto simp: presents_balance_def pending_def)
  have w: "waiting_calls c ?h1 + own_calls c callers = waiting_calls c h" for c
    using alist_sum_delete [OF d Some, of "own_calls c"] by (simp add: waiting_calls_def)
  have m: "pending ?h1 j \<longleftrightarrow> j \<noteq> jobId \<and> pending h j" and p: "pending h jobId" for j
    using Some by (auto simp: delete_conv' pending_def)
  have d1: "distinct (map fst (jh_presentations ?h1))"
    using d by (simp add: distinct_delete)
  show ?thesis
  proof (cases good)
    case True
    let ?h2 = "?h1\<lparr> jh_delivered := set_add jobId (jh_delivered h) \<rparr>"
    have h': "presentation_settled jobId good h = fold (handoff_delivered True) callers ?h2"
      using True Some by (simp add: presentation_settled_def Let_def)
    have same: "calls_by c ?h2 = calls_by c h" "returns_to c ?h2 = returns_to c h"
      "waiting_calls c ?h2 = waiting_calls c ?h1" "presents j ?h2 = presents j h" "failures j ?h2 = failures j h" for c j
      by (simp_all add: handoff_counts)
    note f = fold_delivered_effect [where in_try = True and calls = callers and h = ?h2]
    have "calls_balance (presentation_settled jobId good h)"
      unfolding h' calls_balance_def
    proof
      fix c
      from f [where c = c] w [of c] same assms(1)
      show "calls_by c (fold (handoff_delivered True) callers ?h2)
          = returns_to c (fold (handoff_delivered True) callers ?h2)
            + waiting_calls c (fold (handoff_delivered True) callers ?h2)"
        by (simp add: calls_balance_def)
    qed
    moreover have "pending (presentation_settled jobId good h) j \<longleftrightarrow> j \<noteq> jobId \<and> pending h j" for j
      using m [of j] unfolding h' by (simp add: pending_def f)
    then have "presents_balance (presentation_settled jobId good h)"
      using assms(2) p d1 nd unfolding presents_balance_def by (auto simp: h' f same)
    ultimately show ?thesis
      by blast
  next
    case False
    then have h': "presentation_settled jobId good h =
        add_handoff_log (HlReportFailure jobId # map (\<lambda>c. HlReturn (fst c) (Some False)) callers) ?h1"
      using Some by (simp add: presentation_settled_def Let_def)
    have "returns_to c (presentation_settled jobId good h) = returns_to c h + own_calls c callers" for c
      unfolding h' by (simp add: returns_to_def add_handoff_log_def is_return_def [of c "HlReportFailure jobId"]
        own_calls_pairs [of c callers "Some False"])
    moreover have "calls_by c (presentation_settled jobId good h) = calls_by c h"
      "waiting_calls c (presentation_settled jobId good h) = waiting_calls c ?h1" for c
      unfolding h' by (simp_all add: calls_by_def waiting_calls_def add_handoff_log_def)
    ultimately have "calls_balance (presentation_settled jobId good h)"
      using assms(1) w by (metis (no_types, lifting) add.assoc add.commute calls_balance_def)
    moreover have "pending (presentation_settled jobId good h) j \<longleftrightarrow> j \<noteq> jobId \<and> pending h j" for j
      using m [of j] unfolding h' by (simp add: pending_def add_handoff_log_def)
    then have "presents_balance (presentation_settled jobId good h)"
      using assms(2) p d1 nd unfolding presents_balance_def
      by (auto simp: h' presents_def failures_def add_handoff_log_def)
    ultimately show ?thesis
      by blast
  qed
qed (use assms in \<open>simp add: presentation_settled_def\<close>)

lemma acknowledgement_balance:
  assumes "calls_balance h" and "presents_balance h"
  shows "calls_balance (acknowledgement_settled caller good h) \<and> presents_balance (acknowledgement_settled caller good h)"
proof (cases "map_of (jh_acking h) caller")
  case (Some e)
  obtain key in_try where e: "e = (key, in_try)"
    by fastforce
  let ?h' = "acknowledgement_settled caller good h"
  have "(caller, key, in_try) \<in> set (jh_acking h)"
    using Some e by (auto dest: map_of_SomeD)
  note r = own_calls_remove1 [OF this]
  have "calls_by c ?h' = calls_by c h" "returns_to c ?h' = returns_to c h + of_bool (caller = c)"
    "waiting_calls c ?h' + of_bool (caller = c) = waiting_calls c h" "presents j ?h' = presents j h"
    "failures j ?h' = failures j h" "jh_delivered ?h' = jh_delivered h" "jh_presentations ?h' = jh_presentations h" for c j
    using Some e r [of c] by (auto simp: acknowledgement_settled_def Let_def add_handoff_log_def handoff_counts)
  note eff = this
  have "calls_balance ?h'"
    unfolding calls_balance_def
  proof
    fix c
    from eff(1-3) [of c] assms(1) show "calls_by c ?h' = returns_to c ?h' + waiting_calls c ?h'"
      by (simp add: calls_balance_def)
  qed
  moreover have "presents_balance ?h'"
    using assms(2) by (simp add: presents_balance_def pending_def eff(4-7))
  ultimately show ?thesis
    by blast
qed (use assms in \<open>simp add: acknowledgement_settled_def\<close>)

lemma handoff_run_balance:
  "calls_balance h \<Longrightarrow> presents_balance h \<Longrightarrow>
   calls_balance (run_inputs handoff_apply ops h) \<and> presents_balance (run_inputs handoff_apply ops h)"
proof (induction ops arbitrary: h)
  case (Cons op ops)
  then show ?case
    by (cases op) (simp_all add: handoff_call_balance presentation_balance acknowledgement_balance)
qed simp


section \<open>The watcher: no wait is lost\<close>

definition resolutions :: "nat \<Rightarrow> termination_watcher \<Rightarrow> nat" where
  "resolutions r w = length (filter (\<lambda>x. fst x = r) (jw_resolved w))"

definition still_waiting :: "nat \<Rightarrow> termination_watcher \<Rightarrow> nat" where
  "still_waiting r w = alist_sum (\<lambda>rs. count_list rs r) (jw_waiters w)"

definition keys_distinct :: "termination_watcher \<Rightarrow> bool" where
  "keys_distinct w \<longleftrightarrow> distinct (map fst (jw_waiters w))"

lemma resolutions_map: "length (filter ((\<lambda>x. fst x = r) \<circ> (\<lambda>q. (q, st))) rs) = count_list rs r"
  by (induction rs) auto

lemma resolve_job_effect:
  assumes "keys_distinct w"
  shows "keys_distinct (resolve_job job w)
    \<and> resolutions r (resolve_job job w) + still_waiting r (resolve_job job w) = resolutions r w + still_waiting r w
    \<and> (\<forall>j. map_of (jw_waiters (resolve_job job w)) j
      = (if jd_terminal job \<and> j = jd_jobId job then None else map_of (jw_waiters w) j))
    \<and> jw_latestCatalog (resolve_job job w) = jw_latestCatalog w"
proof (cases "jd_terminal job \<and> map_of (jw_waiters w) (jd_jobId job) \<noteq> None")
  case True
  then obtain rs where rs: "map_of (jw_waiters w) (jd_jobId job) = Some rs"
    by blast
  from True rs assms alist_sum_delete [of "jw_waiters w" "jd_jobId job" rs "\<lambda>rs. count_list rs r"]
  show ?thesis
    by (auto simp: resolve_job_def keys_distinct_def resolutions_def still_waiting_def resolutions_map
      distinct_delete delete_conv')
next
  case False
  then have "resolve_job job w = w"
    by (auto simp: resolve_job_def)
  with False assms show ?thesis
    by auto
qed

lemma fold_resolve_effect:
  "keys_distinct w \<Longrightarrow>
   keys_distinct (fold resolve_job jobs w)
   \<and> resolutions r (fold resolve_job jobs w) + still_waiting r (fold resolve_job jobs w) = resolutions r w + still_waiting r w
   \<and> (\<forall>j. map_of (jw_waiters (fold resolve_job jobs w)) j
     = (if \<exists>job \<in> set jobs. jd_terminal job \<and> j = jd_jobId job then None else map_of (jw_waiters w) j))
   \<and> jw_latestCatalog (fold resolve_job jobs w) = jw_latestCatalog w"
proof (induction jobs arbitrary: w)
  case (Cons job jobs)
  note e = resolve_job_effect [OF Cons.prems, of job r]
  from Cons.IH [of "resolve_job job w"] e show ?case
    by auto
qed auto

definition watcher_inv :: "termination_watcher \<Rightarrow> bool" where
  "watcher_inv w \<longleftrightarrow>
     keys_distinct w \<and> (\<forall>j. map_of (jw_waiters w) j \<noteq> None \<longrightarrow> terminalStatus w j = None)"

lemma observe_watcher:
  assumes "watcher_inv w"
  shows "watcher_inv (watcher_observe catalog w)
    \<and> resolutions r (watcher_observe catalog w) + still_waiting r (watcher_observe catalog w)
      = resolutions r w + still_waiting r w"
proof -
  let ?w = "w\<lparr> jw_latestCatalog := Some catalog \<rparr>"
  have d: "keys_distinct ?w" and same: "resolutions r ?w = resolutions r w" "still_waiting r ?w = still_waiting r w"
    using assms by (simp_all add: watcher_inv_def keys_distinct_def resolutions_def still_waiting_def)
  note f = fold_resolve_effect [OF d, of "jl_jobs catalog" r, folded watcher_observe_def]
  have "terminalStatus (watcher_observe catalog w) j = None" if "map_of (jw_waiters (watcher_observe catalog w)) j \<noteq> None" for j
    using that f by (auto simp: terminalStatus_def find_Some_iff split: option.splits if_splits)
  with f same show ?thesis
    by (simp add: watcher_inv_def)
qed

lemma wait_watcher:
  assumes "watcher_inv w"
  shows "watcher_inv (watcher_wait q j w)
    \<and> resolutions r (watcher_wait q j w) + still_waiting r (watcher_wait q j w)
      = resolutions r w + still_waiting r w + of_bool (q = r)"
proof (cases "terminalStatus w j")
  case None
  have t: "terminalStatus (watcher_wait q j w) i = terminalStatus w i" for i
    by (auto simp: watcher_wait_def terminalStatus_def split: option.splits)
  have "watcher_inv (watcher_wait q j w)"
    using assms None by (auto simp: watcher_inv_def t) (auto simp: watcher_wait_def keys_distinct_def distinct_update
      update_conv' split: if_splits)
  moreover have "still_waiting r (watcher_wait q j w) = still_waiting r w + of_bool (q = r)"
  proof (cases "map_of (jw_waiters w) j")
    case w: None
    show ?thesis
      using None w by (simp add: watcher_wait_def still_waiting_def alist_sum_update_new [OF w])
  next
    case (Some rs)
    show ?thesis
      using None Some alist_sum_update [OF Some, of "\<lambda>rs. count_list rs r" "rs @ [q]"]
      by (simp add: watcher_wait_def still_waiting_def)
  qed
  moreover have "resolutions r (watcher_wait q j w) = resolutions r w"
    using None by (simp add: watcher_wait_def resolutions_def)
  ultimately show ?thesis
    by simp
next
  case (Some st)
  then have "watcher_wait q j w = w\<lparr> jw_resolved := jw_resolved w @ [(q, st)] \<rparr>"
    by (simp add: watcher_wait_def)
  with assms show ?thesis
    by (auto simp: watcher_inv_def keys_distinct_def terminalStatus_def resolutions_def still_waiting_def)
qed

fun waits_by :: "nat \<Rightarrow> watcher_op list \<Rightarrow> nat" where
  "waits_by r [] = 0"
| "waits_by r (JwWait q j # ops) = of_bool (q = r) + waits_by r ops"
| "waits_by r (JwObserve c # ops) = waits_by r ops"

lemma watcher_run:
  "watcher_inv w \<Longrightarrow>
   watcher_inv (run_inputs watcher_apply ops w)
   \<and> resolutions r (run_inputs watcher_apply ops w) + still_waiting r (run_inputs watcher_apply ops w)
     = resolutions r w + still_waiting r w + waits_by r ops"
proof (induction ops arbitrary: w)
  case (Cons op ops)
  show ?case
  proof (cases op)
    case (JwObserve c)
    with Cons.IH [of "watcher_observe c w"] observe_watcher [OF Cons.prems, of c r] show ?thesis
      by simp
  next
    case (JwWait q j)
    with Cons.IH [of "watcher_wait q j w"] wait_watcher [OF Cons.prems, of q j r] show ?thesis
      by simp
  qed
qed simp

section \<open>Properties\<close>

text \<open>C31: However the handoffs of jobs, the presentations and the acknowledgements interleave and fail, every call
  has returned exactly once or is still waiting for a presentation or an acknowledgement, and the window of a
  job is presented successfully at most once: there is one presentation more than failures if the job is
  presented or being presented, never both, and as many otherwise.\<close>

theorem handoff_presents_once:
  "calls_by c (run_inputs handoff_apply ops createJobHandoffController)
     = returns_to c (run_inputs handoff_apply ops createJobHandoffController)
       + waiting_calls c (run_inputs handoff_apply ops createJobHandoffController)
   \<and> presents j (run_inputs handoff_apply ops createJobHandoffController)
     = failures j (run_inputs handoff_apply ops createJobHandoffController)
       + of_bool (j \<in> set (jh_delivered (run_inputs handoff_apply ops createJobHandoffController))
           \<or> pending (run_inputs handoff_apply ops createJobHandoffController) j)
   \<and> \<not> (j \<in> set (jh_delivered (run_inputs handoff_apply ops createJobHandoffController))
        \<and> pending (run_inputs handoff_apply ops createJobHandoffController) j)"
proof -
  have "calls_balance createJobHandoffController" "presents_balance createJobHandoffController"
    by (simp_all add: createJobHandoffController_def calls_balance_def presents_balance_def pending_def handoff_counts)
  from handoff_run_balance [OF this, of ops] show ?thesis
    by (auto simp: calls_balance_def presents_balance_def)
qed

text \<open>C32: No wait for the end of a job is lost or answered twice, whether the job ends before or after the wait
  begins: each wait has been resolved once or is still pending, and a pending wait is for a job that the latest
  catalogue does not report as ended.\<close>

theorem watcher_answers_every_wait:
  "resolutions r (run_inputs watcher_apply ops createJobTerminationWatcher)
     + still_waiting r (run_inputs watcher_apply ops createJobTerminationWatcher) = waits_by r ops
   \<and> (map_of (jw_waiters (run_inputs watcher_apply ops createJobTerminationWatcher)) j \<noteq> None \<longrightarrow>
        terminalStatus (run_inputs watcher_apply ops createJobTerminationWatcher) j = None)"
proof -
  have "watcher_inv createJobTerminationWatcher"
    by (simp add: createJobTerminationWatcher_def watcher_inv_def keys_distinct_def)
  from watcher_run [OF this, of ops r] show ?thesis
    by (simp add: watcher_inv_def)
      (simp add: createJobTerminationWatcher_def resolutions_def still_waiting_def)
qed

theorem watcher_answers_every_wait_witness:
  "resolutions 5 (run_inputs watcher_apply
     [JwWait 5 ''j'', JwObserve \<lparr> jl_catalogRevision = ''1'', jl_jobs =
        [\<lparr> jd_jobId = ''j'', jd_revision = ''4'', jd_kind = JkZipCreate, jd_status = JsCompleted, jd_terminal = True \<rparr>] \<rparr>]
     createJobTerminationWatcher) = 1"
proof -
  let ?w = "run_inputs watcher_apply
     [JwWait 5 ''j'', JwObserve \<lparr> jl_catalogRevision = ''1'', jl_jobs =
        [\<lparr> jd_jobId = ''j'', jd_revision = ''4'', jd_kind = JkZipCreate, jd_status = JsCompleted, jd_terminal = True \<rparr>] \<rparr>]
     createJobTerminationWatcher"
  have "still_waiting 5 ?w = 0"
    by code_simp
  with watcher_answers_every_wait [of 5 "[JwWait 5 ''j'', JwObserve \<lparr> jl_catalogRevision = ''1'', jl_jobs =
        [\<lparr> jd_jobId = ''j'', jd_revision = ''4'', jd_kind = JkZipCreate, jd_status = JsCompleted, jd_terminal = True \<rparr>] \<rparr>]"]
  show ?thesis
    by simp
qed

end
