(* ===== verification/Json.thy ===== *)
theory Json
  imports JsCollections
begin

text \<open>
  \<open>JSON.parse\<close>, and \<open>JSON.stringify\<close> of strings and arrays of strings, as the stores of the application use
  them.  Strings are code units below 256; a text with an escape above that stands for no string here and is
  not parsed.  A number keeps its text.  The fuel is two steps for each character, which is enough: every value
  and every separator takes a character, and each of them costs at most two calls.
\<close>

datatype json =
    JsonNull
  | JsonBool bool
  | JsonNumber string
  | JsonString string
  | JsonArray "json list"
  | JsonObject "(string \<times> json) list"

abbreviation (input) quote_char :: char where "quote_char \<equiv> CHR 0x22"
abbreviation (input) backslash :: char where "backslash \<equiv> CHR 0x5C"

definition json_space :: "char \<Rightarrow> bool" where
  "json_space c \<longleftrightarrow> c = CHR 0x20 \<or> c = CHR 0x09 \<or> c = CHR 0x0A \<or> c = CHR 0x0D"

definition skip_space :: "string \<Rightarrow> string" where
  "skip_space s = dropWhile json_space s"

section \<open>Strings\<close>

definition hex_digit :: "nat \<Rightarrow> char" where
  "hex_digit n = (if n < 10 then char_of (48 + n) else char_of (87 + n))"

definition hex_value :: "char \<Rightarrow> nat option" where
  "hex_value c =
     (let n = of_char c :: nat
      in if 48 \<le> n \<and> n \<le> 57 then Some (n - 48)
         else if 97 \<le> n \<and> n \<le> 102 then Some (n - 87)
         else if 65 \<le> n \<and> n \<le> 70 then Some (n - 55)
         else None)"

definition simple_escapes :: "(char \<times> char) list" where
  "simple_escapes =
     [(CHR 0x22, CHR 0x22), (CHR 0x5C, CHR 0x5C), (CHR 0x2F, CHR 0x2F), (CHR 0x62, CHR 0x08),
      (CHR 0x66, CHR 0x0C), (CHR 0x6E, CHR 0x0A), (CHR 0x72, CHR 0x0D), (CHR 0x74, CHR 0x09)]"

definition escape_char :: "char \<Rightarrow> string" where
  "escape_char c =
     (if c = quote_char then [backslash, quote_char]
      else if c = backslash then [backslash, backslash]
      else if c = CHR 0x08 then [backslash, CHR 0x62]
      else if c = CHR 0x0C then [backslash, CHR 0x66]
      else if c = CHR 0x0A then [backslash, CHR 0x6E]
      else if c = CHR 0x0D then [backslash, CHR 0x72]
      else if c = CHR 0x09 then [backslash, CHR 0x74]
      else let n = of_char c :: nat
           in if n < 32 then [backslash, CHR 0x75, CHR 0x30, CHR 0x30, hex_digit (n div 16), hex_digit (n mod 16)]
              else [c])"

definition stringify_string :: "string \<Rightarrow> string" where
  "stringify_string s = quote_char # concat (map escape_char s) @ [quote_char]"

definition stringify_strings :: "string list \<Rightarrow> string" where
  "stringify_strings xs = CHR 0x5B # js_join (CHR 0x2C) (map stringify_string xs) @ [CHR 0x5D]"

text \<open>The characters after the opening quotation mark.\<close>

fun parse_string :: "string \<Rightarrow> (string \<times> string) option" where
  "parse_string [] = None"
| "parse_string (c # s) =
     (if c = quote_char then Some ([], s)
      else if c = backslash then
        (case s of
           [] \<Rightarrow> None
         | e # s1 \<Rightarrow>
             if e = CHR 0x75 then
               (case s1 of
                  a # b # d # f # s2 \<Rightarrow>
                    (case (hex_value a, hex_value b, hex_value d, hex_value f) of
                       (Some x, Some y, Some z, Some w) \<Rightarrow>
                         if x * 16 + y = 0
                         then map_option (\<lambda>(t, r). (char_of (z * 16 + w) # t, r)) (parse_string s2)
                         else None
                     | _ \<Rightarrow> None)
                | _ \<Rightarrow> None)
             else (case map_of simple_escapes e of
                     Some x \<Rightarrow> map_option (\<lambda>(t, r). (x # t, r)) (parse_string s1)
                   | None \<Rightarrow> None))
      else if (of_char c :: nat) < 32 then None
      else map_option (\<lambda>(t, r). (c # t, r)) (parse_string s))"

section \<open>Numbers and literals\<close>

definition is_digit :: "char \<Rightarrow> bool" where
  "is_digit c \<longleftrightarrow> (let n = of_char c :: nat in 48 \<le> n \<and> n \<le> 57)"

definition take_digits :: "string \<Rightarrow> (string \<times> string) option" where
  "take_digits s = (let d = takeWhile is_digit s in if d = [] then None else Some (d, dropWhile is_digit s))"

definition parse_integer :: "string \<Rightarrow> (string \<times> string) option" where
  "parse_integer s =
     (case s of
        c # r \<Rightarrow> if c = CHR 0x30 then Some ([c], r) else take_digits s
      | [] \<Rightarrow> None)"

definition parse_fraction :: "string \<Rightarrow> (string \<times> string) option" where
  "parse_fraction s =
     (case s of
        c # r \<Rightarrow> if c = CHR 0x2E then map_option (\<lambda>(d, q). (c # d, q)) (take_digits r) else Some ([], s)
      | [] \<Rightarrow> Some ([], s))"

definition parse_exponent :: "string \<Rightarrow> (string \<times> string) option" where
  "parse_exponent s =
     (case s of
        c # r \<Rightarrow>
          if c = CHR 0x65 \<or> c = CHR 0x45
          then (case r of
                  g # q \<Rightarrow>
                    if g = CHR 0x2B \<or> g = CHR 0x2D then map_option (\<lambda>(d, u). (c # g # d, u)) (take_digits q)
                    else map_option (\<lambda>(d, u). (c # d, u)) (take_digits r)
                | [] \<Rightarrow> None)
          else Some ([], s)
      | [] \<Rightarrow> Some ([], s))"

definition parse_number :: "string \<Rightarrow> (json \<times> string) option" where
  "parse_number s =
     (let (sign, s1) = (case s of c # r \<Rightarrow> if c = CHR 0x2D then ([c], r) else ([], s) | [] \<Rightarrow> ([], s))
      in case parse_integer s1 of
           None \<Rightarrow> None
         | Some (i, s2) \<Rightarrow>
             (case parse_fraction s2 of
                None \<Rightarrow> None
              | Some (f, s3) \<Rightarrow>
                  map_option (\<lambda>(e, s4). (JsonNumber (sign @ i @ f @ e), s4)) (parse_exponent s3)))"

definition parse_literal :: "string \<Rightarrow> (json \<times> string) option" where
  "parse_literal s =
     (if take 4 s = ''null'' then Some (JsonNull, drop 4 s)
      else if take 4 s = ''true'' then Some (JsonBool True, drop 4 s)
      else if take 5 s = ''false'' then Some (JsonBool False, drop 5 s)
      else parse_number s)"

section \<open>Values\<close>

text \<open>\<open>parse_elements\<close> reads from an element to the closing bracket, \<open>parse_members\<close> from a member to the closing
  brace.\<close>

fun parse_value :: "nat \<Rightarrow> string \<Rightarrow> (json \<times> string) option"
  and parse_elements :: "nat \<Rightarrow> string \<Rightarrow> (json list \<times> string) option"
  and parse_members :: "nat \<Rightarrow> string \<Rightarrow> ((string \<times> json) list \<times> string) option" where
  "parse_value 0 s = None"
| "parse_value (Suc n) s =
     (case skip_space s of
        [] \<Rightarrow> None
      | c # r \<Rightarrow>
          if c = quote_char then map_option (\<lambda>(t, q). (JsonString t, q)) (parse_string r)
          else if c = CHR 0x5B then
            (case skip_space r of
               d # q \<Rightarrow>
                 if d = CHR 0x5D then Some (JsonArray [], q)
                 else map_option (\<lambda>(xs, q). (JsonArray xs, q)) (parse_elements n r)
             | [] \<Rightarrow> None)
          else if c = CHR 0x7B then
            (case skip_space r of
               d # q \<Rightarrow>
                 if d = CHR 0x7D then Some (JsonObject [], q)
                 else map_option (\<lambda>(ms, q). (JsonObject ms, q)) (parse_members n r)
             | [] \<Rightarrow> None)
          else parse_literal (c # r))"
| "parse_elements 0 s = None"
| "parse_elements (Suc n) s =
     (case parse_value n s of
        None \<Rightarrow> None
      | Some (x, r) \<Rightarrow>
          (case skip_space r of
             c # q \<Rightarrow>
               if c = CHR 0x5D then Some ([x], q)
               else if c = CHR 0x2C then map_option (\<lambda>(xs, u). (x # xs, u)) (parse_elements n q)
               else None
           | [] \<Rightarrow> None))"
| "parse_members 0 s = None"
| "parse_members (Suc n) s =
     (case skip_space s of
        c # r \<Rightarrow>
          if c = quote_char then
            (case parse_string r of
               None \<Rightarrow> None
             | Some (k, r1) \<Rightarrow>
                 (case skip_space r1 of
                    d # r2 \<Rightarrow>
                      if d = CHR 0x3A then
                        (case parse_value n r2 of
                           None \<Rightarrow> None
                         | Some (x, r3) \<Rightarrow>
                             (case skip_space r3 of
                                e # q \<Rightarrow>
                                  if e = CHR 0x7D then Some ([(k, x)], q)
                                  else if e = CHR 0x2C
                                  then map_option (\<lambda>(ms, u). ((k, x) # ms, u)) (parse_members n q)
                                  else None
                              | [] \<Rightarrow> None))
                      else None
                  | [] \<Rightarrow> None))
          else None
      | [] \<Rightarrow> None)"

text \<open>\<open>None\<close> is the thrown \<open>SyntaxError\<close>.\<close>

definition json_parse :: "string \<Rightarrow> json option" where
  "json_parse s =
     (case parse_value (2 * length s + 2) s of
        Some (x, r) \<Rightarrow> if skip_space r = [] then Some x else None
      | None \<Rightarrow> None)"

section \<open>Reading back an array of strings\<close>

lemma less_32_cases: "(n :: nat) < 32 \<Longrightarrow> n \<in> set [0..<32]"
  by simp

lemma hex_value_digit: "n < 16 \<Longrightarrow> hex_value (hex_digit n) = Some n"
  by (auto simp: hex_value_def hex_digit_def)

lemma parse_escaped:
  "parse_string (escape_char c @ s) = map_option (\<lambda>(t, r). (c # t, r)) (parse_string s)"
proof (cases "c \<in> {CHR 0x22, CHR 0x5C, CHR 0x08, CHR 0x0C, CHR 0x0A, CHR 0x0D, CHR 0x09}")
  case True
  then show ?thesis
    by (auto simp: escape_char_def simple_escapes_def)
next
  case False
  let ?n = "of_char c :: nat"
  show ?thesis
  proof (cases "?n < 32")
    case True
    then have "?n div 16 < 16" "?n mod 16 < 16" "?n div 16 * 16 + ?n mod 16 = ?n"
      by auto
    moreover have "hex_value (CHR 0x30) = Some 0"
      by (simp add: hex_value_def)
    ultimately show ?thesis
      using False True by (simp add: escape_char_def Let_def hex_value_digit)
  next
    case large: False
    then have e: "escape_char c = [c]"
      using False by (simp add: escape_char_def Let_def)
    show ?thesis
      using False large unfolding e by simp
  qed
qed

lemma parse_stringified:
  "parse_string (concat (map escape_char s) @ quote_char # r) = Some (s, r)"
  by (induction s) (simp_all add: parse_escaped)

lemma skip_space_other: "\<not> json_space c \<Longrightarrow> skip_space (c # s) = c # s"
  by (simp add: skip_space_def)

lemma parse_value_string: "parse_value (Suc n) (stringify_string s @ r) = Some (JsonString s, r)"
proof -
  have "skip_space (stringify_string s @ r) = quote_char # concat (map escape_char s) @ quote_char # r"
    by (simp add: stringify_string_def skip_space_other json_space_def)
  then show ?thesis
    by (simp add: parse_stringified)
qed

lemma parse_elements_strings:
  "xs \<noteq> [] \<Longrightarrow> 2 * length xs \<le> n \<Longrightarrow>
   parse_elements n (js_join (CHR 0x2C) (map stringify_string xs) @ CHR 0x5D # r) = Some (map JsonString xs, r)"
proof (induction xs arbitrary: n)
  case (Cons x xs)
  then obtain m where n: "n = Suc (Suc m)"
    by (metis Suc_le_D length_Cons mult_2 numeral_2_eq_2 mult_Suc_right add_2_eq_Suc Suc_le_mono)
  note pv = parse_value_string [of m x]
  show ?case
  proof (cases xs)
    case Nil
    then show ?thesis
      by (simp add: n pv skip_space_other json_space_def del: parse_value.simps)
  next
    case (Cons y ys)
    with Cons.prems Cons.IH [of "Suc m"] n show ?thesis
      by (simp add: pv skip_space_other json_space_def del: parse_value.simps)
  qed
qed simp


lemma length_js_join: "length xs \<le> length (js_join c xs) + (if \<exists>w \<in> set xs. w = [] then length xs else 0)"
  by (induction c xs rule: js_join.induct) (auto simp: Suc_le_eq)

lemma join_strings_length: "length xs \<le> length (js_join (CHR 0x2C) (map stringify_string xs))"
  using length_js_join [of "map stringify_string xs" "CHR 0x2C"] by (auto simp: stringify_string_def split: if_splits)

lemma join_strings_Cons: "\<exists>t. js_join (CHR 0x2C) (map stringify_string (x # xs)) = quote_char # t"
  by (cases xs) (simp_all add: stringify_string_def)

theorem parse_stringified_strings: "json_parse (stringify_strings xs) = Some (JsonArray (map JsonString xs))"
proof (cases xs)
  case Nil
  show ?thesis
    unfolding Nil by code_simp
next
  case (Cons x ys)
  let ?body = "js_join (CHR 0x2C) (map stringify_string xs)"
  obtain t where t: "?body = quote_char # t"
    using join_strings_Cons Cons by metis
  have "2 * length xs \<le> 2 * length (stringify_strings xs) + 1"
    using join_strings_length [of xs] by (simp add: stringify_strings_def)
  then have e: "parse_elements (2 * length (stringify_strings xs) + 1) (?body @ [CHR 0x5D]) = Some (map JsonString xs, [])"
    by (intro parse_elements_strings) (simp_all add: Cons)
  have "skip_space (stringify_strings xs) = CHR 0x5B # ?body @ [CHR 0x5D]"
    by (simp add: stringify_strings_def skip_space_other json_space_def)
  moreover have "skip_space (?body @ [CHR 0x5D]) = quote_char # t @ [CHR 0x5D]"
    by (simp add: t skip_space_other json_space_def)
  ultimately have "parse_value (Suc (2 * length (stringify_strings xs) + 1)) (stringify_strings xs)
      = Some (JsonArray (map JsonString xs), [])"
    using e by simp
  then show ?thesis
    by (simp add: json_parse_def skip_space_def)
qed

end
