(* ===== verification/PathHistory.thy ===== *)
theory PathHistory
  imports Json StateMachine
begin

text \<open>
  Recently used paths, \<^verbatim>\<open>src/src/app/pathHistory.ts\<close>: three bounded lists of distinct trimmed paths, most
  recent first, kept in the browser's storage as JSON.  The storage is a service of the browser: a partial
  map that may be missing, may refuse to read and may refuse to write.
\<close>

definition EXTRACT_DESTINATION_HISTORY_MAX :: nat where "EXTRACT_DESTINATION_HISTORY_MAX = 10"
definition CREATE_DESTINATION_HISTORY_MAX :: nat where "CREATE_DESTINATION_HISTORY_MAX = 10"
definition RECENT_ARCHIVE_HISTORY_MAX :: nat where "RECENT_ARCHIVE_HISTORY_MAX = 8"

text \<open>The loop over the entries with the set of those seen; the set holds what the list holds.\<close>

fun normalize_history_loop :: "string list \<Rightarrow> string list \<Rightarrow> string list \<Rightarrow> string list" where
  "normalize_history_loop [] normalizedEntries seen = normalizedEntries"
| "normalize_history_loop (entry # entries) normalizedEntries seen =
     (let normalizedEntry = js_trim entry
      in if normalizedEntry = [] \<or> set_has seen normalizedEntry
         then normalize_history_loop entries normalizedEntries seen
         else normalize_history_loop entries (normalizedEntries @ [normalizedEntry]) (set_add normalizedEntry seen))"

definition normalizePathHistory :: "string list \<Rightarrow> string list" where
  "normalizePathHistory entries = normalize_history_loop entries [] []"

definition setPathHistoryEntries :: "string list \<Rightarrow> nat \<Rightarrow> string list" where
  "setPathHistoryEntries entries maxEntries = take maxEntries (normalizePathHistory entries)"

definition recordPathHistoryEntry :: "string list \<Rightarrow> string \<Rightarrow> nat \<Rightarrow> string list option" where
  "recordPathHistoryEntry currentEntries recordedPath maxEntries =
     (let normalizedPath = js_trim recordedPath
      in if normalizedPath = [] then None
         else Some (setPathHistoryEntries
                (normalizedPath # filter (\<lambda>entry. entry \<noteq> normalizedPath) currentEntries) maxEntries))"

section \<open>The store\<close>

datatype history_kind = ExtractDestination | CreateDestination | RecentArchive

fun history_max :: "history_kind \<Rightarrow> nat" where
  "history_max ExtractDestination = EXTRACT_DESTINATION_HISTORY_MAX"
| "history_max CreateDestination = CREATE_DESTINATION_HISTORY_MAX"
| "history_max RecentArchive = RECENT_ARCHIVE_HISTORY_MAX"

fun history_key :: "history_kind \<Rightarrow> string" where
  "history_key ExtractDestination = ''zmanager.extractDestinationHistory''"
| "history_key CreateDestination = ''zmanager.createDestinationHistory''"
| "history_key RecentArchive = ''zmanager.recentArchiveHistory''"

record history_storage =
  hs_items :: "(string \<times> string) list"
  hs_readable :: bool
  hs_writable :: bool

record history_store =
  hi_extractDestinationHistory :: "string list"
  hi_createDestinationHistory :: "string list"
  hi_recentArchiveHistory :: "string list"
  hi_storage :: "history_storage option"

definition createPathHistoryStore :: "history_storage option \<Rightarrow> history_store" where
  "createPathHistoryStore storage =
     \<lparr> hi_extractDestinationHistory = setPathHistoryEntries [] EXTRACT_DESTINATION_HISTORY_MAX,
       hi_createDestinationHistory = setPathHistoryEntries [] CREATE_DESTINATION_HISTORY_MAX,
       hi_recentArchiveHistory = setPathHistoryEntries [] RECENT_ARCHIVE_HISTORY_MAX,
       hi_storage = storage \<rparr>"

fun json_strings :: "json list \<Rightarrow> string list" where
  "json_strings [] = []"
| "json_strings (JsonString s # js) = s # json_strings js"
| "json_strings (_ # js) = json_strings js"

definition readPathHistoryEntries :: "history_storage option \<Rightarrow> string \<Rightarrow> string list" where
  "readPathHistoryEntries storage key =
     (case storage of
        None \<Rightarrow> []
      | Some st \<Rightarrow>
          if \<not> hs_readable st then []
          else (case map_of (hs_items st) key of
                  None \<Rightarrow> []
                | Some raw \<Rightarrow>
                    if raw = [] then []
                    else (case json_parse raw of Some (JsonArray js) \<Rightarrow> json_strings js | _ \<Rightarrow> [])))"

definition savePathHistoryEntries :: "history_storage option \<Rightarrow> string \<Rightarrow> string list \<Rightarrow> history_storage option" where
  "savePathHistoryEntries storage key entries =
     map_option (\<lambda>st. if hs_writable st
       then st\<lparr> hs_items := AList.update key (stringify_strings entries) (hs_items st) \<rparr> else st) storage"

fun history_of :: "history_kind \<Rightarrow> history_store \<Rightarrow> string list" where
  "history_of ExtractDestination h = hi_extractDestinationHistory h"
| "history_of CreateDestination h = hi_createDestinationHistory h"
| "history_of RecentArchive h = hi_recentArchiveHistory h"

fun put_history :: "history_kind \<Rightarrow> string list \<Rightarrow> history_store \<Rightarrow> history_store" where
  "put_history ExtractDestination xs h = h\<lparr> hi_extractDestinationHistory := xs \<rparr>"
| "put_history CreateDestination xs h = h\<lparr> hi_createDestinationHistory := xs \<rparr>"
| "put_history RecentArchive xs h = h\<lparr> hi_recentArchiveHistory := xs \<rparr>"

definition setHistory :: "history_kind \<Rightarrow> string list \<Rightarrow> history_store \<Rightarrow> history_store" where
  "setHistory kind entries h =
     (let xs = setPathHistoryEntries entries (history_max kind)
      in put_history kind xs (h\<lparr> hi_storage := savePathHistoryEntries (hi_storage h) (history_key kind) xs \<rparr>))"

text \<open>\<open>None\<close> when the path is blank; the store is then unchanged.\<close>

definition recordHistory :: "history_kind \<Rightarrow> string \<Rightarrow> history_store \<Rightarrow> history_store option" where
  "recordHistory kind path h =
     map_option (\<lambda>next. setHistory kind next h) (recordPathHistoryEntry (history_of kind h) path (history_max kind))"

definition load_history :: "history_kind \<Rightarrow> history_store \<Rightarrow> history_store" where
  "load_history kind h =
     put_history kind (setPathHistoryEntries (readPathHistoryEntries (hi_storage h) (history_key kind)) (history_max kind)) h"

definition loadHistories :: "history_store \<Rightarrow> history_store" where
  "loadHistories h = load_history RecentArchive (load_history CreateDestination (load_history ExtractDestination h))"

section \<open>Histories\<close>

definition history_ok :: "nat \<Rightarrow> string list \<Rightarrow> bool" where
  "history_ok n xs \<longleftrightarrow> length xs \<le> n \<and> distinct xs \<and> (\<forall>x \<in> set xs. js_trim x = x \<and> x \<noteq> [])"

lemma normalize_history_loop_conv:
  "set seen = set acc \<Longrightarrow>
   normalize_history_loop entries acc seen = set_add_all (filter (\<lambda>s. s \<noteq> []) (map js_trim entries)) acc"
proof (induction entries arbitrary: acc seen)
  case (Cons e es)
  show ?case
  proof (cases "js_trim e = [] \<or> js_trim e \<in> set acc")
    case True
    with Cons show ?thesis
      by (auto simp: Let_def set_has_def set_add_all_def set_add_def)
  next
    case False
    with Cons.prems Cons.IH [of "set_add (js_trim e) seen" "acc @ [js_trim e]"] show ?thesis
      by (auto simp: Let_def set_has_def set_add_all_def set_add_def)
  qed
qed (simp add: set_add_all_def)

lemma normalizePathHistory_conv: "normalizePathHistory entries = collect_normalised js_trim entries"
  by (simp add: normalizePathHistory_def normalize_history_loop_conv collect_normalised_conv js_set_def)

lemma history_normal: "history_ok n (setPathHistoryEntries entries n)"
  by (auto simp: history_ok_def setPathHistoryEntries_def normalizePathHistory_conv trim.collect_fixed
    dest!: in_set_takeD intro: distinct_take)

lemma history_fixed: "history_ok n xs \<Longrightarrow> setPathHistoryEntries xs n = xs"
  by (simp add: history_ok_def setPathHistoryEntries_def normalizePathHistory_conv trim.collect_id)

lemma json_strings_map [simp]: "json_strings (map JsonString xs) = xs"
  by (induction xs) simp_all

definition storage_works :: "history_store \<Rightarrow> bool" where
  "storage_works h \<longleftrightarrow> (case hi_storage h of None \<Rightarrow> False | Some st \<Rightarrow> hs_readable st \<and> hs_writable st)"

definition store_ok :: "history_store \<Rightarrow> bool" where
  "store_ok h \<longleftrightarrow> (\<forall>kind. history_ok (history_max kind) (history_of kind h))"

lemma history_put [simp]: "history_of kind (put_history k xs h) = (if k = kind then xs else history_of kind h)"
  by (cases kind; cases k) simp_all

lemma put_keeps_storage [simp]: "hi_storage (put_history k xs h) = hi_storage h"
  by (cases k) simp_all

lemma history_storage_update [simp]: "history_of kind (h\<lparr> hi_storage := st \<rparr>) = history_of kind h"
  by (cases kind) simp_all

lemma key_inject [simp]: "history_key k = history_key l \<longleftrightarrow> k = l"
  by (cases k; cases l) simp_all

lemma create_store_ok: "store_ok (createPathHistoryStore st)"
  unfolding store_ok_def
proof
  show "history_ok (history_max kind) (history_of kind (createPathHistoryStore st))" for kind
    by (cases kind) (simp_all add: createPathHistoryStore_def history_normal)
qed

lemma set_history_ok: "store_ok h \<Longrightarrow> store_ok (setHistory kind entries h)"
  by (simp add: store_ok_def setHistory_def Let_def history_normal)

lemma record_history_ok: "store_ok h \<Longrightarrow> recordHistory kind path h = Some h' \<Longrightarrow> store_ok h'"
  by (auto simp: recordHistory_def set_history_ok)

lemma load_one_ok: "store_ok h \<Longrightarrow> store_ok (load_history kind h)"
  by (simp add: store_ok_def load_history_def history_normal)

lemma load_history_ok: "store_ok h \<Longrightarrow> store_ok (loadHistories h)"
  unfolding loadHistories_def by (intro load_one_ok)

datatype history_op = HoSet history_kind "string list" | HoRecord history_kind string | HoLoad

fun history_apply :: "history_op \<Rightarrow> history_store \<Rightarrow> history_store" where
  "history_apply (HoSet kind entries) h = setHistory kind entries h"
| "history_apply (HoRecord kind path) h = nullish (recordHistory kind path h) h"
| "history_apply HoLoad h = loadHistories h"

text \<open>What the storage holds is what the store holds.\<close>

definition stored :: "history_store \<Rightarrow> history_kind \<Rightarrow> string list" where
  "stored h kind = setPathHistoryEntries (readPathHistoryEntries (hi_storage h) (history_key kind)) (history_max kind)"

definition persisted :: "history_store \<Rightarrow> bool" where
  "persisted h \<longleftrightarrow> storage_works h \<and> store_ok h \<and> (\<forall>kind. stored h kind = history_of kind h)"

lemma load_one_fields [simp]:
  "hi_storage (load_history k h) = hi_storage h"
  "history_of kind (load_history k h) = (if k = kind then stored h k else history_of kind h)"
  by (simp_all add: load_history_def stored_def)

lemma stored_load [simp]: "stored (load_history k h) = stored h"
  by (simp add: stored_def fun_eq_iff)

lemma load_fields [simp]:
  "hi_storage (loadHistories h) = hi_storage h"
  "history_of kind (loadHistories h) = stored h kind"
  by (simp add: loadHistories_def) (cases kind; simp add: loadHistories_def del: history_of.simps)

lemma load_persisted: "storage_works h \<Longrightarrow> store_ok h \<Longrightarrow> persisted (loadHistories h)"
  by (simp add: persisted_def storage_works_def load_history_ok) (simp add: stored_def)

lemma read_saved:
  assumes "storage_works h"
  shows "readPathHistoryEntries (savePathHistoryEntries (hi_storage h) key xs) k
    = (if k = key then xs else readPathHistoryEntries (hi_storage h) k)"
proof -
  obtain st where st: "hi_storage h = Some st" "hs_readable st" "hs_writable st"
    using assms by (auto simp: storage_works_def split: option.splits)
  have "stringify_strings xs \<noteq> []"
    by (simp add: stringify_strings_def)
  with st show ?thesis
    by (simp add: readPathHistoryEntries_def savePathHistoryEntries_def update_conv' parse_stringified_strings)
qed

lemma set_persisted:
  assumes "persisted h"
  shows "persisted (setHistory kind entries h)"
proof -
  let ?xs = "setPathHistoryEntries entries (history_max kind)" and ?h' = "setHistory kind entries h"
  have w: "storage_works h"
    using assms by (simp add: persisted_def)
  have st: "hi_storage ?h' = savePathHistoryEntries (hi_storage h) (history_key kind) ?xs"
    by (simp add: setHistory_def Let_def)
  have "stored ?h' k = history_of k ?h'" for k
    using assms by (simp add: stored_def st read_saved [OF w] persisted_def setHistory_def Let_def
      history_fixed [OF history_normal])
  moreover have "storage_works ?h'"
    using w by (auto simp: storage_works_def st savePathHistoryEntries_def split: option.splits)
  ultimately show ?thesis
    using assms by (simp add: persisted_def set_history_ok)
qed

lemma apply_persisted: "persisted h \<Longrightarrow> persisted (history_apply op h)"
proof (cases op)
  case (HoRecord kind path)
  assume "persisted h"
  with HoRecord show ?thesis
    by (cases "recordPathHistoryEntry (history_of kind h) path (history_max kind)")
      (simp_all add: recordHistory_def set_persisted)
next
  case HoLoad
  assume "persisted h"
  with HoLoad load_persisted show ?thesis
    by (simp add: persisted_def)
qed (simp add: set_persisted)

lemma apply_store_ok: "store_ok h \<Longrightarrow> store_ok (history_apply op h)"
proof (cases op)
  case (HoRecord kind path)
  assume "store_ok h"
  with HoRecord record_history_ok show ?thesis
    by (cases "recordHistory kind path h") auto
qed (simp_all add: set_history_ok load_history_ok)

section \<open>Properties\<close>

text \<open>Recording a path puts it, trimmed, at the top of its history; the other paths keep their order below it,
  only the oldest being dropped when the history is full; the other histories do not change; a blank path is
  refused.\<close>

theorem record_puts_on_top:
  assumes "store_ok h"
  shows "case recordHistory kind path h of
      None \<Rightarrow> js_trim path = []
    | Some h' \<Rightarrow> js_trim path \<noteq> [] \<and> store_ok h'
        \<and> history_of kind h' = take (history_max kind) (js_trim path # filter (\<lambda>x. x \<noteq> js_trim path) (history_of kind h))
        \<and> (\<forall>other. other = kind \<or> history_of other h' = history_of other h)"
proof (cases "js_trim path = []")
  case False
  let ?p = "js_trim path" and ?xs = "js_trim path # filter (\<lambda>x. x \<noteq> js_trim path) (history_of kind h)"
  let ?next = "setPathHistoryEntries ?xs (history_max kind)"
  have "distinct ?xs" and "\<And>s. s \<in> set ?xs \<Longrightarrow> js_trim s = s \<and> s \<noteq> []"
    using assms False by (auto simp: store_ok_def history_ok_def)
  then have "collect_normalised js_trim ?xs = ?xs"
    by (rule trim.collect_id)
  then have xs: "?next = take (history_max kind) ?xs"
    by (simp only: setPathHistoryEntries_def normalizePathHistory_conv)
  have r: "recordHistory kind path h = Some (setHistory kind ?next h)"
    using False by (simp add: recordHistory_def recordPathHistoryEntry_def Let_def)
  have "history_of kind (setHistory kind ?next h) = setPathHistoryEntries ?next (history_max kind)"
    by (simp add: setHistory_def Let_def)
  also have "\<dots> = ?next"
    by (rule history_fixed [OF history_normal])
  also note xs
  finally have "history_of kind (setHistory kind ?next h) = take (history_max kind) ?xs" .
  moreover have "other = kind \<or> history_of other (setHistory kind ?next h) = history_of other h" for other
    by (simp add: setHistory_def Let_def)
  ultimately show ?thesis
    using False set_history_ok [OF assms] by (simp add: r)
qed (simp add: recordHistory_def recordPathHistoryEntry_def)

theorem record_puts_on_top_witness:
  "map_option hi_extractDestinationHistory
     (recordHistory ExtractDestination '' /b '' (setHistory ExtractDestination [''/a'', ''/b''] (createPathHistoryStore None)))
   = Some [''/b'', ''/a'']"
proof -
  let ?h = "setHistory ExtractDestination [''/a'', ''/b''] (createPathHistoryStore None)"
  have ok: "store_ok ?h"
    by (intro set_history_ok create_store_ok)
  have t: "js_trim '' /b '' = ''/b''" and h: "history_of ExtractDestination ?h = [''/a'', ''/b'']"
    by code_simp+
  from record_puts_on_top [OF ok, where kind = ExtractDestination and path = "'' /b ''"] show ?thesis
    unfolding t h by (auto simp: EXTRACT_DESTINATION_HISTORY_MAX_def split: option.splits)
qed

text \<open>The histories survive a restart: with a storage that can be read and written, after loading and any
  sequence of operations a new store on the same storage loads the same three histories, which are distinct
  trimmed non-empty paths within their bounds.\<close>

theorem histories_survive_restart:
  assumes "hs_readable st" and "hs_writable st"
  shows "history_of kind (loadHistories (createPathHistoryStore
        (hi_storage (run_inputs history_apply ops (loadHistories (createPathHistoryStore (Some st)))))))
      = history_of kind (run_inputs history_apply ops (loadHistories (createPathHistoryStore (Some st))))
    \<and> history_ok (history_max kind)
        (history_of kind (run_inputs history_apply ops (loadHistories (createPathHistoryStore (Some st)))))"
proof -
  have run: "persisted (run_inputs history_apply ops h)" if "persisted h" for h
    using that by (induction ops arbitrary: h) (simp_all add: apply_persisted)
  have "persisted (loadHistories (createPathHistoryStore (Some st)))"
    using assms by (intro load_persisted create_store_ok) (simp add: storage_works_def createPathHistoryStore_def)
  from run [OF this] show ?thesis
    by (simp add: persisted_def store_ok_def) (simp add: stored_def createPathHistoryStore_def)
qed

theorem histories_survive_restart_witness:
  "history_of RecentArchive (loadHistories (createPathHistoryStore (hi_storage
     (run_inputs history_apply [HoRecord RecentArchive ''/x.zip''] (loadHistories (createPathHistoryStore
        (Some \<lparr> hs_items = [], hs_readable = True, hs_writable = True \<rparr>)))))))
   = [''/x.zip'']"
proof -
  let ?st = "\<lparr> hs_items = [], hs_readable = True, hs_writable = True \<rparr>"
  have "history_of RecentArchive (run_inputs history_apply [HoRecord RecentArchive ''/x.zip'']
      (loadHistories (createPathHistoryStore (Some ?st)))) = [''/x.zip'']"
    by code_simp
  with histories_survive_restart [of ?st RecentArchive "[HoRecord RecentArchive ''/x.zip'']"] show ?thesis
    by (simp del: load_fields)
qed

end
