(* ===== verification/ArchiveFileTypes.thy ===== *)
theory ArchiveFileTypes
  imports JsCollections
begin

text \<open>
  Which files are archives, by name: \<^verbatim>\<open>src/src/app/archiveFileTypes.ts\<close> with the lists of
  \<^verbatim>\<open>generated/archiveFileTypes.generated.json\<close>.
\<close>

definition SUPPORTED_SINGLE_ARCHIVE_EXTENSIONS :: "string list" where
  "SUPPORTED_SINGLE_ARCHIVE_EXTENSIONS =
     [''7z'', ''a'', ''aar'', ''ad1'', ''aea'', ''aff4'', ''apk'', ''appimage'', ''appx'', ''ar'', ''b64'',
      ''br'', ''bz2'', ''cab'', ''cb7'', ''cbr'', ''cbt'', ''cbz'', ''ccd'', ''cdi'', ''cpgz'', ''cpio'',
      ''cue'', ''dar'', ''dd'', ''deb'', ''dmg'', ''dsk'', ''e01'', ''epub'', ''ex01'', ''gz'', ''img'',
      ''ipa'', ''iso'', ''isz'', ''jar'', ''lha'', ''lib'', ''lz'', ''lz4'', ''lzh'', ''lzma'', ''lzo'',
      ''mdf'', ''mds'', ''msi'', ''mtree'', ''nrg'', ''pax'', ''pkg'', ''qcow'', ''qcow2'', ''rar'',
      ''raw'', ''rpm'', ''sevenz'', ''sqfs'', ''squashfs'', ''swm'', ''tar'', ''taz'', ''tbz'', ''tbz2'',
      ''tgz'', ''tlzma'', ''txz'', ''tzap'', ''tzst'', ''udf'', ''ustar'', ''uu'', ''vdi'', ''vhd'',
      ''vhdx'', ''vmdk'', ''war'', ''warc'', ''wim'', ''xar'', ''xpi'', ''xz'', ''z'', ''zip'', ''zipx'',
      ''zst'']"

definition SUPPORTED_COMPOUND_ARCHIVE_EXTENSIONS :: "string list" where
  "SUPPORTED_COMPOUND_ARCHIVE_EXTENSIONS =
     [''cpio.bz2'', ''cpio.gz'', ''cpio.lzma'', ''cpio.xz'', ''cpio.zst'', ''tar.b64'', ''tar.br'',
      ''tar.bz2'', ''tar.gz'', ''tar.lrz'', ''tar.lz'', ''tar.lz4'', ''tar.lzma'', ''tar.lzo'', ''tar.uu'',
      ''tar.xz'', ''tar.z'', ''tar.zst'']"

definition SUPPORTED_SPLIT_ARCHIVE_FILE_SUFFIXES :: "string list" where
  "SUPPORTED_SPLIT_ARCHIVE_FILE_SUFFIXES =
     [''.7z.001'', ''.vol000.tzap'']"

text \<open>Longest first, so that \<open>.tar.gz\<close> is found before \<open>.gz\<close>.\<close>

definition compareSuffixes :: "string \<Rightarrow> string \<Rightarrow> int" where
  "compareSuffixes lhs rhs =
     (if length lhs = length rhs then (if lhs < rhs then -1 else if rhs < lhs then 1 else 0)
      else int (length rhs) - int (length lhs))"

definition SUPPORTED_ARCHIVE_FILE_SUFFIXES :: "string list" where
  "SUPPORTED_ARCHIVE_FILE_SUFFIXES =
     js_sort compareSuffixes
       (map (\<lambda>extension. CHR 0x2E # extension) SUPPORTED_COMPOUND_ARCHIVE_EXTENSIONS
        @ map (\<lambda>extension. CHR 0x2E # extension) SUPPORTED_SINGLE_ARCHIVE_EXTENSIONS
        @ SUPPORTED_SPLIT_ARCHIVE_FILE_SUFFIXES)"

section \<open>Pieces of a name\<close>

text \<open>\<open>lastIndexOf\<close>; \<open>None\<close> is -1.\<close>

definition last_index_of :: "string \<Rightarrow> string \<Rightarrow> nat option" where
  "last_index_of sub s =
     (let found = filter (\<lambda>i. prefix sub (drop i s)) [0..<Suc (length s) - length sub]
      in if found = [] then None else Some (last found))"

definition to_slash :: "char \<Rightarrow> char" where
  "to_slash c = (if c = CHR 0x5C then CHR 0x2F else c)"

definition getLastPathComponent :: "string \<Rightarrow> string" where
  "getLastPathComponent path =
     (let normalized = rev (dropWhile (\<lambda>c. c = CHR 0x2F) (rev (map to_slash path)));
          parts = filter (\<lambda>w. w \<noteq> []) (js_split (CHR 0x2F) normalized)
      in if parts = [] then normalized else last parts)"

definition getPathExtension :: "string \<Rightarrow> string" where
  "getPathExtension name =
     (case last_index_of ''.'' name of
        None \<Rightarrow> []
      | Some dotIndex \<Rightarrow> if dotIndex = length name - 1 then [] else js_lower (drop (dotIndex + 1) name))"

definition getCompoundExtension :: "string \<Rightarrow> string" where
  "getCompoundExtension name =
     (let parts = js_split (CHR 0x2E) (js_lower name)
      in if length parts < 3 then []
         else parts ! (length parts - 2) @ ''.'' @ parts ! (length parts - 1))"

definition deletePathExtension :: "string \<Rightarrow> string" where
  "deletePathExtension name =
     (case last_index_of ''.'' name of
        None \<Rightarrow> name
      | Some dotIndex \<Rightarrow> if dotIndex = 0 then name else take dotIndex name)"

definition isAsciiDigits :: "string \<Rightarrow> bool" where
  "isAsciiDigits s \<longleftrightarrow> s \<noteq> [] \<and> list_all (\<lambda>c. let n = of_char c :: nat in 48 \<le> n \<and> n \<le> 57) s"

text \<open>Volumes of a split tzap archive, \<open>name.vol001.tzap\<close>.\<close>

definition baseNameWithoutTzapVolumeSuffix :: "string \<Rightarrow> string option" where
  "baseNameWithoutTzapVolumeSuffix name =
     (if \<not> suffix ''.tzap'' (js_lower name) then None
      else let stem = take (length name - length ''.tzap'') name
           in case last_index_of ''.vol'' (js_lower stem) of
                None \<Rightarrow> None
              | Some markerIndex \<Rightarrow>
                  (let baseName = take markerIndex stem; digits = drop (markerIndex + length ''.vol'') stem
                   in if baseName = [] \<or> \<not> isAsciiDigits digits then None else Some baseName))"

definition isTzapVolumeArchiveName :: "string \<Rightarrow> bool" where
  "isTzapVolumeArchiveName name \<longleftrightarrow> baseNameWithoutTzapVolumeSuffix (getLastPathComponent name) \<noteq> None"

section \<open>Archives\<close>

definition isSupportedArchivePath :: "string \<Rightarrow> bool" where
  "isSupportedArchivePath path =
     (let name = js_lower (getLastPathComponent path)
      in if isTzapVolumeArchiveName name then True
         else if list_ex (\<lambda>suf. suffix suf name) SUPPORTED_SPLIT_ARCHIVE_FILE_SUFFIXES then True
         else if getCompoundExtension name \<in> set SUPPORTED_COMPOUND_ARCHIVE_EXTENSIONS then True
         else getPathExtension name \<in> set SUPPORTED_SINGLE_ARCHIVE_EXTENSIONS)"

definition baseNameWithoutKnownArchiveExtension :: "string \<Rightarrow> string" where
  "baseNameWithoutKnownArchiveExtension path =
     (let name = getLastPathComponent path
      in case baseNameWithoutTzapVolumeSuffix name of
           Some tzapVolumeBaseName \<Rightarrow> tzapVolumeBaseName
         | None \<Rightarrow>
             (case find (\<lambda>suf. suffix suf (js_lower name)) SUPPORTED_ARCHIVE_FILE_SUFFIXES of
                Some knownSuffix \<Rightarrow> take (length name - length knownSuffix) name
              | None \<Rightarrow> deletePathExtension name))"

definition getKnownArchiveSuffix :: "string \<Rightarrow> string option" where
  "getKnownArchiveSuffix path =
     (let name = js_lower (getLastPathComponent path)
      in if isTzapVolumeArchiveName name
         then Some (drop (length (baseNameWithoutKnownArchiveExtension name)) name)
         else find (\<lambda>suf. suffix suf name) SUPPORTED_ARCHIVE_FILE_SUFFIXES)"

section \<open>Lemmas\<close>

lemma of_char_lower:
  "(of_char (js_lower_char c) :: nat) =
     (if (65 \<le> (of_char c :: nat) \<and> (of_char c :: nat) \<le> 90)
         \<or> (192 \<le> (of_char c :: nat) \<and> (of_char c :: nat) \<le> 222 \<and> (of_char c :: nat) \<noteq> 215)
      then of_char c + 32 else of_char c)"
  by (auto simp: js_lower_char_def Let_def)

lemma js_lower_char_idem [simp]: "js_lower_char (js_lower_char c) = js_lower_char c"
  using of_char_lower [of c] by (auto simp: js_lower_char_def [of "js_lower_char c"] Let_def split: if_splits)

text \<open>Lower case neither makes nor removes separators, dots and digits.\<close>

lemma lower_plain:
  assumes "(of_char d :: nat) < 65 \<or> (of_char d :: nat) = 92"
  shows "js_lower_char c = d \<longleftrightarrow> c = d"
proof
  assume "js_lower_char c = d"
  with assms of_char_lower [of c] have "(of_char c :: nat) = of_char d"
    by (auto split: if_splits)
  then show "c = d"
    by simp
next
  assume "c = d"
  with assms show "js_lower_char c = d"
    by (auto simp: js_lower_char_def Let_def)
qed

lemma js_lower_idem [simp]: "js_lower (js_lower s) = js_lower s"
  by (simp add: js_lower_def)

lemma last_filter_upt:
  assumes "k < n" "P k" "\<And>i. k < i \<Longrightarrow> i < n \<Longrightarrow> \<not> P i"
  shows "filter P [0..<n] \<noteq> [] \<and> last (filter P [0..<n]) = k"
proof -
  have "[0..<n] = [0..<k] @ k # [Suc k..<n]"
    using assms(1) by (metis upt_add_eq_append upt_conv_Cons le_add_diff_inverse less_imp_le_nat zero_le)
  moreover have "filter P [Suc k..<n] = []"
    using assms(3) by (auto simp: filter_empty_conv)
  ultimately show ?thesis
    using assms(2) by simp
qed

lemma last_index_char:
  assumes "c \<notin> set b"
  shows "last_index_of [c] (a @ c # b) = Some (length a)"
proof -
  let ?s = "a @ c # b" and ?P = "\<lambda>i. prefix [c] (drop i (a @ c # b))"
  have n: "Suc (length ?s) - length [c] = length ?s"
    by simp
  have "\<not> ?P i" if "length a < i" "i < length ?s" for i
  proof -
    have "hd (drop i ?s) \<in> set b"
      using that by (simp add: hd_drop_conv_nth nth_append)
    with assms that show ?thesis
      by (cases "drop i ?s") auto
  qed
  then have "filter ?P [0..<length ?s] \<noteq> [] \<and> last (filter ?P [0..<length ?s]) = length a"
    by (intro last_filter_upt) auto
  then show ?thesis
    by (simp only: last_index_of_def n Let_def if_False)
qed

lemma last_index_char_None: "c \<notin> set s \<Longrightarrow> last_index_of [c] s = None"
proof -
  assume c: "c \<notin> set s"
  have "\<not> prefix [c] (drop i s)" for i
    using c by (metis in_set_dropD list.set_intros(1) prefix_def append_Cons)
  then show ?thesis
    by (simp add: last_index_of_def)
qed

lemma path_extension_append: "CHR 0x2E \<notin> set e \<Longrightarrow> e \<noteq> [] \<Longrightarrow> getPathExtension (a @ CHR 0x2E # e) = js_lower e"
  by (simp add: getPathExtension_def last_index_char)

lemma path_extension_cases:
  "getPathExtension n = [] \<or> (\<exists>a b. n = a @ CHR 0x2E # b \<and> CHR 0x2E \<notin> set b \<and> getPathExtension n = js_lower b)"
proof (cases "CHR 0x2E \<in> set n")
  case True
  then obtain a b where "n = a @ CHR 0x2E # b" "CHR 0x2E \<notin> set b"
    by (meson split_list_last)
  then show ?thesis
    by (cases "b = []") (auto simp: path_extension_append getPathExtension_def last_index_char)
qed (simp add: getPathExtension_def last_index_char_None)

lemma single_extensions_plain:
  "list_all (\<lambda>e. e \<noteq> [] \<and> CHR 0x2E \<notin> set e \<and> js_lower e = e) SUPPORTED_SINGLE_ARCHIVE_EXTENSIONS"
  by code_simp

lemma compound_extensions_pairs:
  "list_all (\<lambda>e. length (js_split (CHR 0x2E) e) = 2) SUPPORTED_COMPOUND_ARCHIVE_EXTENSIONS"
  by code_simp

lemma single_extension_iff:
  assumes "js_lower n = n"
  shows "getPathExtension n \<in> set SUPPORTED_SINGLE_ARCHIVE_EXTENSIONS
    \<longleftrightarrow> (\<exists>e \<in> set SUPPORTED_SINGLE_ARCHIVE_EXTENSIONS. suffix (CHR 0x2E # e) n)"
proof
  assume e: "getPathExtension n \<in> set SUPPORTED_SINGLE_ARCHIVE_EXTENSIONS"
  then have "getPathExtension n \<noteq> []"
    using single_extensions_plain by (auto simp: list_all_iff)
  then obtain a b where n: "n = a @ CHR 0x2E # b" and x: "getPathExtension n = js_lower b"
    using path_extension_cases [of n] by blast
  have "js_lower b = b"
    using assms unfolding n by (simp add: js_lower_def)
  with e n x show "\<exists>e \<in> set SUPPORTED_SINGLE_ARCHIVE_EXTENSIONS. suffix (CHR 0x2E # e) n"
    by (auto simp: suffix_def)
next
  assume "\<exists>e \<in> set SUPPORTED_SINGLE_ARCHIVE_EXTENSIONS. suffix (CHR 0x2E # e) n"
  then obtain e a where e: "e \<in> set SUPPORTED_SINGLE_ARCHIVE_EXTENSIONS" and n: "n = a @ CHR 0x2E # e"
    by (auto simp: suffix_def)
  with single_extensions_plain have "e \<noteq> [] \<and> CHR 0x2E \<notin> set e \<and> js_lower e = e"
    by (auto simp: list_all_iff)
  with e n show "getPathExtension n \<in> set SUPPORTED_SINGLE_ARCHIVE_EXTENSIONS"
    by (simp add: path_extension_append)
qed


lemma compound_split:
  assumes "js_split (CHR 0x2E) e = [x, y]"
  shows "e = x @ CHR 0x2E # y" and "CHR 0x2E \<notin> set x" and "CHR 0x2E \<notin> set y"
  using js_join_split [of "CHR 0x2E" e] js_split_pieces [of _ "CHR 0x2E" e] assms by auto

lemma last_two: "2 < length xs \<Longrightarrow> \<exists>qs x y. xs = qs @ [x, y] \<and> qs \<noteq> []"
proof -
  assume len: "2 < length xs"
  then obtain ys y where xs: "xs = ys @ [y]"
    by (cases xs rule: rev_cases) auto
  with len obtain qs x where "ys = qs @ [x]"
    by (cases ys rule: rev_cases) auto
  with xs len show ?thesis
    by auto
qed

lemma compound_extension_iff:
  assumes low: "js_lower n = n"
  shows "getCompoundExtension n \<in> set SUPPORTED_COMPOUND_ARCHIVE_EXTENSIONS
    \<longleftrightarrow> (\<exists>e \<in> set SUPPORTED_COMPOUND_ARCHIVE_EXTENSIONS. suffix (CHR 0x2E # e) n)"
proof
  let ?ps = "js_split (CHR 0x2E) n"
  assume e: "getCompoundExtension n \<in> set SUPPORTED_COMPOUND_ARCHIVE_EXTENSIONS"
  have "[] \<notin> set SUPPORTED_COMPOUND_ARCHIVE_EXTENSIONS"
    by code_simp
  with e have len: "\<not> length ?ps < 3"
    by (auto simp: getCompoundExtension_def low)
  then obtain qs x y where ps: "?ps = qs @ [x, y]" and qs: "qs \<noteq> []"
    using last_two [of ?ps] by auto
  then have "getCompoundExtension n = x @ CHR 0x2E # y"
    using len by (simp add: getCompoundExtension_def low nth_append)
  moreover have "n = js_join (CHR 0x2E) qs @ CHR 0x2E # x @ CHR 0x2E # y"
    using js_join_split [of "CHR 0x2E" n] ps qs by (simp add: js_join_append)
  ultimately show "\<exists>e \<in> set SUPPORTED_COMPOUND_ARCHIVE_EXTENSIONS. suffix (CHR 0x2E # e) n"
    using e by (auto simp: suffix_def)
next
  assume "\<exists>e \<in> set SUPPORTED_COMPOUND_ARCHIVE_EXTENSIONS. suffix (CHR 0x2E # e) n"
  then obtain e a where e: "e \<in> set SUPPORTED_COMPOUND_ARCHIVE_EXTENSIONS" and n: "n = a @ CHR 0x2E # e"
    by (auto simp: suffix_def)
  with compound_extensions_pairs have "length (js_split (CHR 0x2E) e) = 2"
    by (auto simp: list_all_iff)
  then obtain x y where xy: "js_split (CHR 0x2E) e = [x, y]"
    by (auto simp: length_Suc_conv numeral_2_eq_2)
  have "js_split (CHR 0x2E) n = js_split (CHR 0x2E) a @ [x, y]"
    by (simp add: n js_split_append xy)
  moreover have "js_split (CHR 0x2E) a \<noteq> []"
    by simp
  ultimately have "getCompoundExtension n = x @ CHR 0x2E # y"
    by (cases "js_split (CHR 0x2E) a") (simp_all add: getCompoundExtension_def low nth_append)
  with e compound_split(1) [OF xy] show "getCompoundExtension n \<in> set SUPPORTED_COMPOUND_ARCHIVE_EXTENSIONS"
    by simp
qed

text \<open>The last component has no separator, so taking it again changes nothing.\<close>

lemma split_has_piece: "s \<noteq> [] \<Longrightarrow> last s \<noteq> c \<Longrightarrow> \<exists>w \<in> set (js_split c s). w \<noteq> []"
proof (cases "c \<in> set s")
  case True
  assume s: "s \<noteq> []" "last s \<noteq> c"
  from True obtain a b where ab: "s = a @ c # b" "c \<notin> set b"
    by (meson split_list_last)
  with s have "b \<noteq> []"
    by auto
  with ab show ?thesis
    by (auto simp: js_split_append js_split_no_sep)
qed (simp add: js_split_no_sep)

lemma component_no_separator:
  "CHR 0x2F \<notin> set (getLastPathComponent p) \<and> CHR 0x5C \<notin> set (getLastPathComponent p)"
proof -
  let ?n = "rev (dropWhile (\<lambda>c. c = CHR 0x2F) (rev (map to_slash p)))"
  let ?parts = "filter (\<lambda>w. w \<noteq> []) (js_split (CHR 0x2F) ?n)"
  have bs: "CHR 0x5C \<notin> set ?n"
    by (auto dest!: set_dropWhileD simp: to_slash_def split: if_splits)
  show ?thesis
  proof (cases "?n = []")
    case True
    have "getLastPathComponent p = []"
      unfolding getLastPathComponent_def Let_def True by simp
    then show ?thesis
      by simp
  next
    case False
    have "last ?n \<noteq> CHR 0x2F"
      using False hd_dropWhile [of "\<lambda>c. c = CHR 0x2F" "rev (map to_slash p)"] by (simp add: last_rev)
    with False have "\<exists>w \<in> set (js_split (CHR 0x2F) ?n). w \<noteq> []"
      by (rule split_has_piece)
    then have "?parts \<noteq> []"
      by (auto simp: filter_empty_conv)
    then have "last ?parts \<in> set (js_split (CHR 0x2F) ?n)" and "getLastPathComponent p = last ?parts"
      using last_in_set [of ?parts] by (simp_all add: getLastPathComponent_def Let_def del: rev_is_Nil_conv)
    with js_split_pieces js_split_subset bs show ?thesis
      by (metis subsetD)
  qed
qed

lemma component_idem [simp]: "getLastPathComponent (js_lower (getLastPathComponent p)) = js_lower (getLastPathComponent p)"
proof -
  let ?n = "js_lower (getLastPathComponent p)"
  have low: "js_lower_char c = CHR 0x2F \<Longrightarrow> c = CHR 0x2F" "js_lower_char c = CHR 0x5C \<Longrightarrow> c = CHR 0x5C" for c
    by (simp_all add: lower_plain)
  have n: "CHR 0x2F \<notin> set ?n" "CHR 0x5C \<notin> set ?n"
    using component_no_separator [of p] low unfolding js_lower_def set_map image_iff by metis+
  then have "map to_slash ?n = ?n"
    by (auto simp: to_slash_def intro!: map_idI)
  moreover have "dropWhile (\<lambda>c. c = CHR 0x2F) (rev ?n) = rev ?n"
    using n(1) by (cases "rev ?n") (auto simp: dropWhile_eq_self_iff)
  ultimately show ?thesis
    using n(1) by (simp add: getLastPathComponent_def Let_def js_split_no_sep)
qed


lemma suffixes_iff:
  "suf \<in> set SUPPORTED_ARCHIVE_FILE_SUFFIXES \<longleftrightarrow>
     suf \<in> (\<lambda>e. CHR 0x2E # e) ` set SUPPORTED_COMPOUND_ARCHIVE_EXTENSIONS
     \<or> suf \<in> (\<lambda>e. CHR 0x2E # e) ` set SUPPORTED_SINGLE_ARCHIVE_EXTENSIONS
     \<or> suf \<in> set SUPPORTED_SPLIT_ARCHIVE_FILE_SUFFIXES"
  unfolding SUPPORTED_ARCHIVE_FILE_SUFFIXES_def by simp

lemma supported_aux:
  "isSupportedArchivePath path \<longleftrightarrow> getKnownArchiveSuffix path \<noteq> None"
proof -
  let ?n = "js_lower (getLastPathComponent path)"
  have "find (\<lambda>suf. suffix suf ?n) SUPPORTED_ARCHIVE_FILE_SUFFIXES \<noteq> None
      \<longleftrightarrow> (\<exists>suf \<in> set SUPPORTED_ARCHIVE_FILE_SUFFIXES. suffix suf ?n)"
    by (auto simp: find_None_iff)
  also have "\<dots> \<longleftrightarrow> (\<exists>e \<in> set SUPPORTED_COMPOUND_ARCHIVE_EXTENSIONS. suffix (CHR 0x2E # e) ?n)
      \<or> (\<exists>e \<in> set SUPPORTED_SINGLE_ARCHIVE_EXTENSIONS. suffix (CHR 0x2E # e) ?n)
      \<or> (\<exists>suf \<in> set SUPPORTED_SPLIT_ARCHIVE_FILE_SUFFIXES. suffix suf ?n)"
    by (auto simp: suffixes_iff)
  also have "\<dots> \<longleftrightarrow> getCompoundExtension ?n \<in> set SUPPORTED_COMPOUND_ARCHIVE_EXTENSIONS
      \<or> getPathExtension ?n \<in> set SUPPORTED_SINGLE_ARCHIVE_EXTENSIONS
      \<or> list_ex (\<lambda>suf. suffix suf ?n) SUPPORTED_SPLIT_ARCHIVE_FILE_SUFFIXES"
    using compound_extension_iff [of ?n] single_extension_iff [of ?n] by (simp add: list_ex_iff)
  finally show ?thesis
    by (auto simp: isSupportedArchivePath_def getKnownArchiveSuffix_def Let_def simp del: not_None_eq)
qed

lemma js_lower_take: "js_lower (take n s) = take n (js_lower s)"
  by (simp add: js_lower_def take_map)

lemma js_lower_drop: "js_lower (drop n s) = drop n (js_lower s)"
  by (simp add: js_lower_def drop_map)

lemma ascii_digits_lower: "isAsciiDigits (js_lower s) = isAsciiDigits s"
proof -
  have "(48 \<le> (of_char (js_lower_char c) :: nat) \<and> (of_char (js_lower_char c) :: nat) \<le> 57)
      \<longleftrightarrow> (48 \<le> (of_char c :: nat) \<and> (of_char c :: nat) \<le> 57)" for c
    using of_char_lower [of c] by auto
  then show ?thesis
    by (simp add: isAsciiDigits_def js_lower_def list_all_iff Let_def)
qed

lemma tzap_volume_lower:
  "baseNameWithoutTzapVolumeSuffix (js_lower s) = map_option js_lower (baseNameWithoutTzapVolumeSuffix s)"
  by (simp add: baseNameWithoutTzapVolumeSuffix_def Let_def js_lower_take [symmetric] js_lower_drop [symmetric]
    ascii_digits_lower split: option.split) (auto simp: js_lower_def)

lemma tzap_volume_prefix: "baseNameWithoutTzapVolumeSuffix s = Some b \<Longrightarrow> prefix b s"
  by (auto simp: baseNameWithoutTzapVolumeSuffix_def Let_def take_is_prefix split: if_splits option.splits)

section \<open>Properties\<close>

text \<open>The two ways in which the code recognises an archive agree: a path is supported exactly when its name has
  a known archive suffix, and then the base name without extension and the suffix are exactly the name, in
  lower case.\<close>

theorem supported_iff_known_suffix:
  "(isSupportedArchivePath path \<longleftrightarrow> getKnownArchiveSuffix path \<noteq> None)
   \<and> (\<forall>suf. getKnownArchiveSuffix path = Some suf \<longrightarrow>
        js_lower (baseNameWithoutKnownArchiveExtension path) @ suf = js_lower (getLastPathComponent path))"
proof -
  let ?name = "getLastPathComponent path"
  have "js_lower (baseNameWithoutKnownArchiveExtension path) @ suf = js_lower ?name"
    if known: "getKnownArchiveSuffix path = Some suf" for suf
  proof (cases "baseNameWithoutTzapVolumeSuffix ?name")
    case (Some b)
    have "baseNameWithoutKnownArchiveExtension (js_lower ?name) = js_lower b"
      using Some by (simp add: baseNameWithoutKnownArchiveExtension_def Let_def tzap_volume_lower)
    with known Some have "suf = drop (length b) (js_lower ?name)"
      by (simp add: getKnownArchiveSuffix_def isTzapVolumeArchiveName_def tzap_volume_lower Let_def)
    moreover have "js_lower ?name = js_lower b @ drop (length b) (js_lower ?name)"
      using tzap_volume_prefix [OF Some] by (auto simp: prefix_def js_lower_append js_lower_drop [symmetric])
    ultimately show ?thesis
      using Some by (simp add: baseNameWithoutKnownArchiveExtension_def Let_def)
  next
    case None
    with known have f: "find (\<lambda>suf. suffix suf (js_lower ?name)) SUPPORTED_ARCHIVE_FILE_SUFFIXES = Some suf"
      by (simp add: getKnownArchiveSuffix_def isTzapVolumeArchiveName_def tzap_volume_lower Let_def)
    then have "suffix suf (js_lower ?name)"
      by (auto simp: find_Some_iff)
    then obtain a where a: "js_lower ?name = a @ suf"
      by (auto simp: suffix_def)
    then have "length ?name = length a + length suf"
      by (metis length_append length_js_lower)
    with None f a show ?thesis
      by (simp add: baseNameWithoutKnownArchiveExtension_def Let_def js_lower_take)
  qed
  with supported_aux show ?thesis
    by blast
qed

theorem supported_iff_known_suffix_witness:
  "js_lower (baseNameWithoutKnownArchiveExtension ''/x/Data.TAR.GZ'') @ ''.tar.gz'' = ''data.tar.gz''"
proof -
  have k: "getKnownArchiveSuffix ''/x/Data.TAR.GZ'' = Some ''.tar.gz''"
    and n: "js_lower (getLastPathComponent ''/x/Data.TAR.GZ'') = ''data.tar.gz''"
    by code_simp+
  from supported_iff_known_suffix [of "''/x/Data.TAR.GZ''"] k n show ?thesis
    by auto
qed

end
