(* ===== verification/ShellWorkspace.thy ===== *)
theory ShellWorkspace
  imports ArchiveFileTypes StateMachine
begin

text \<open>
  What is done with dropped files (\<^verbatim>\<open>src/src/app/dropIntent.ts\<close>) and the state of the shell around the
  workspaces (\<^verbatim>\<open>shell/shellWorkspace.ts\<close>): the mode, the status line, the drop overlay and the preview
  files to clean up.  The clones and freezes of the code are the identity.
\<close>

section \<open>Dropped paths\<close>

datatype drop_surface = OnBrowse | OnCreate | OnGlobal | OnUnknown
datatype dropped_kind = DroppedFile | DroppedDirectory | DroppedUnknown
datatype drop_mode = ModeCompress | ModeExtract
datatype dropped_path = PlainPath string | PathItem string "dropped_kind option"
datatype drop_reject = EmptyDrop | BrowseRequiresArchive | OpenRequiresSingleArchive

datatype drop_decision =
    OpenArchive drop_surface string "string list option"
  | AddCreateSources drop_surface "string list"
  | AskAction drop_surface "string list" "string list"
  | RejectUnsupportedDrop drop_surface drop_reject "string list" "string list" "string list"

definition dropSurfaceForWorkspace :: "bool \<Rightarrow> drop_mode option \<Rightarrow> drop_surface" where
  "dropSurfaceForWorkspace createDialogOpen mode =
     (if createDialogOpen \<or> mode = Some ModeCompress then OnCreate
      else if mode = Some ModeExtract then OnBrowse
      else OnGlobal)"

fun dropped_text :: "dropped_path \<Rightarrow> string" where
  "dropped_text (PlainPath p) = p"
| "dropped_text (PathItem p kind) = p"

fun dropped_kind_of :: "dropped_path \<Rightarrow> dropped_kind" where
  "dropped_kind_of (PlainPath p) = DroppedUnknown"
| "dropped_kind_of (PathItem p kind) = nullish kind DroppedUnknown"

definition classifyDroppedPath :: "dropped_path \<Rightarrow> (string \<times> bool) option" where
  "classifyDroppedPath droppedPath =
     (let trimmedPath = js_trim (dropped_text droppedPath)
      in if trimmedPath = [] then None
         else Some (trimmedPath, dropped_kind_of droppedPath \<noteq> DroppedDirectory \<and> isSupportedArchivePath trimmedPath))"

definition rejectDrop :: "drop_surface \<Rightarrow> drop_reject \<Rightarrow> string list \<Rightarrow> string list \<Rightarrow> string list \<Rightarrow> drop_decision" where
  "rejectDrop surface reason paths archivePaths sourcePaths =
     RejectUnsupportedDrop surface reason paths archivePaths sourcePaths"

definition classifyDropIntent :: "dropped_path list \<Rightarrow> drop_surface \<Rightarrow> drop_decision" where
  "classifyDropIntent droppedPaths surface =
     (let classifiedPaths = List.map_filter classifyDroppedPath droppedPaths;
          paths = map fst classifiedPaths;
          archivePaths = map fst (filter snd classifiedPaths);
          sourcePaths = map fst (filter (\<lambda>item. \<not> snd item) classifiedPaths)
      in if paths = [] then rejectDrop surface EmptyDrop paths archivePaths sourcePaths
         else if surface = OnCreate then AddCreateSources surface paths
         else if archivePaths \<noteq> [] \<and> sourcePaths \<noteq> [] then AskAction surface archivePaths sourcePaths
         else (case archivePaths of
                 [archivePath] \<Rightarrow> OpenArchive surface archivePath None
               | archivePath # extraArchivePaths \<Rightarrow> OpenArchive surface archivePath (Some extraArchivePaths)
               | [] \<Rightarrow>
                   if surface = OnBrowse then rejectDrop surface BrowseRequiresArchive paths archivePaths sourcePaths
                   else AddCreateSources surface sourcePaths))"

section \<open>The shell\<close>

datatype overlay_mode = OverlayIdle | OverlayActive | OverlayChoosing
datatype overlay_target = TargetCompress | TargetExtract | TargetChoose | TargetBlocked | TargetUnknown

datatype overlay_message =
    OmAddSourcesCopy | OmAddSourcesTitle | OmBlockedMessage | OmBlockedTitle | OmBrowseRequiresArchive
  | OmBrowserPreview | OmChooseModeMessage | OmChooseModeMixed | OmChooseModeTitle | OmEmpty
  | OmOpenArchiveAction | OmOpenArchiveMessage | OmOpenArchiveTitle

record overlay_copy =
  oc_titleKey :: overlay_message
  oc_messageKey :: overlay_message
  oc_messageParams :: "(string \<times> string) list option"
  oc_supportKey :: "overlay_message option"
  oc_target :: overlay_target
  oc_showActions :: "bool option"

text \<open>The part of a decision that asks which action to take.\<close>

record pending_choice =
  pc_surface :: drop_surface
  pc_archivePaths :: "string list"
  pc_sourcePaths :: "string list"

record preview_cleanup =
  pv_cleanupRoot :: string
  pv_previewPath :: string
  pv_entryPath :: string

record shell =
  sh_activeMode :: drop_mode
  sh_operationalStatus :: string
  sh_dropOverlayMode :: overlay_mode
  sh_dropOverlayCopy :: "overlay_copy option"
  sh_pendingDropChoice :: "pending_choice option"
  sh_previewCleanup :: preview_cleanup
  sh_quickActionWindowShown :: bool

definition createEmptyPreviewCleanupMetadata :: preview_cleanup where
  "createEmptyPreviewCleanupMetadata = \<lparr> pv_cleanupRoot = [], pv_previewPath = [], pv_entryPath = [] \<rparr>"

definition createShellWorkspace :: shell where
  "createShellWorkspace =
     \<lparr> sh_activeMode = ModeCompress, sh_operationalStatus = [], sh_dropOverlayMode = OverlayIdle,
       sh_dropOverlayCopy = None, sh_pendingDropChoice = None,
       sh_previewCleanup = createEmptyPreviewCleanupMetadata, sh_quickActionWindowShown = False \<rparr>"

definition setWorkspaceMode :: "drop_mode \<Rightarrow> shell \<Rightarrow> shell" where
  "setWorkspaceMode mode s = s\<lparr> sh_activeMode := mode \<rparr>"

definition setOperationalStatus :: "string \<Rightarrow> shell \<Rightarrow> shell" where
  "setOperationalStatus message s = s\<lparr> sh_operationalStatus := message \<rparr>"

definition setQuickActionWindowShown :: "bool \<Rightarrow> shell \<Rightarrow> shell" where
  "setQuickActionWindowShown shown s = s\<lparr> sh_quickActionWindowShown := shown \<rparr>"

definition setDropOverlay :: "overlay_mode \<Rightarrow> overlay_copy option \<Rightarrow> shell \<Rightarrow> shell" where
  "setDropOverlay mode copy s =
     s\<lparr> sh_dropOverlayMode := mode, sh_dropOverlayCopy := copy, sh_pendingDropChoice := None \<rparr>"

definition setDropOverlayChoice :: "pending_choice \<Rightarrow> overlay_copy \<Rightarrow> shell \<Rightarrow> shell" where
  "setDropOverlayChoice choice copy s =
     s\<lparr> sh_dropOverlayMode := OverlayChoosing, sh_dropOverlayCopy := Some copy, sh_pendingDropChoice := Some choice \<rparr>"

definition clearDropOverlay :: "shell \<Rightarrow> shell" where
  "clearDropOverlay s =
     s\<lparr> sh_dropOverlayMode := OverlayIdle, sh_dropOverlayCopy := None, sh_pendingDropChoice := None \<rparr>"

definition clearTrackedPreview :: "shell \<Rightarrow> shell" where
  "clearTrackedPreview s = s\<lparr> sh_previewCleanup := createEmptyPreviewCleanupMetadata \<rparr>"

definition trackPreviewResultMetadata :: "preview_cleanup \<Rightarrow> shell \<Rightarrow> shell" where
  "trackPreviewResultMetadata metadata s =
     s\<lparr> sh_previewCleanup :=
          \<lparr> pv_cleanupRoot = pv_cleanupRoot metadata, pv_previewPath = pv_previewPath metadata,
            pv_entryPath = pv_entryPath metadata \<rparr> \<rparr>"

definition hasTrackedPreviewCleanup :: "shell \<Rightarrow> bool" where
  "hasTrackedPreviewCleanup s \<longleftrightarrow>
     pv_cleanupRoot (sh_previewCleanup s) \<noteq> [] \<or> pv_previewPath (sh_previewCleanup s) \<noteq> []"

definition hasPreviewCleanupRoot :: "shell \<Rightarrow> bool" where
  "hasPreviewCleanupRoot s \<longleftrightarrow> pv_cleanupRoot (sh_previewCleanup s) \<noteq> []"

definition getCachedPreviewPathForEntry :: "string \<Rightarrow> shell \<Rightarrow> string option" where
  "getCachedPreviewPathForEntry entryPath s =
     (if pv_entryPath (sh_previewCleanup s) \<noteq> entryPath \<or> pv_previewPath (sh_previewCleanup s) = [] then None
      else Some (pv_previewPath (sh_previewCleanup s)))"

datatype shell_op =
    ShMode drop_mode
  | ShStatus string
  | ShQuickActionWindow bool
  | ShOverlay overlay_mode "overlay_copy option"
  | ShChoice pending_choice overlay_copy
  | ShClearOverlay
  | ShClearPreview
  | ShTrackPreview preview_cleanup

fun shell_apply :: "shell_op \<Rightarrow> shell \<Rightarrow> shell" where
  "shell_apply (ShMode mode) s = setWorkspaceMode mode s"
| "shell_apply (ShStatus message) s = setOperationalStatus message s"
| "shell_apply (ShQuickActionWindow shown) s = setQuickActionWindowShown shown s"
| "shell_apply (ShOverlay mode copy) s = setDropOverlay mode copy s"
| "shell_apply (ShChoice choice copy) s = setDropOverlayChoice choice copy s"
| "shell_apply ShClearOverlay s = clearDropOverlay s"
| "shell_apply ShClearPreview s = clearTrackedPreview s"
| "shell_apply (ShTrackPreview metadata) s = trackPreviewResultMetadata metadata s"

section \<open>Lemmas\<close>

text \<open>A pending choice is offered in the mode that shows it, with its text.\<close>

definition shell_inv :: "shell \<Rightarrow> bool" where
  "shell_inv s \<longleftrightarrow>
     (sh_pendingDropChoice s \<noteq> None \<longrightarrow> sh_dropOverlayMode s = OverlayChoosing \<and> sh_dropOverlayCopy s \<noteq> None)"

inductive shell_initial :: "shell \<Rightarrow> bool" where
  "shell_initial createShellWorkspace"

inductive shell_step :: "shell \<Rightarrow> shell \<Rightarrow> bool" where
  "shell_step s (shell_apply op s)"

inductive_cases shell_initialE: "shell_initial s"
inductive_cases shell_stepE: "shell_step s s'"

lemmas shell_op_defs =
  setWorkspaceMode_def setOperationalStatus_def setQuickActionWindowShown_def setDropOverlay_def
  setDropOverlayChoice_def clearDropOverlay_def clearTrackedPreview_def trackPreviewResultMetadata_def

lemma shell_apply_inv: "shell_inv s \<Longrightarrow> shell_inv (shell_apply op s)"
  by (cases op) (simp_all add: shell_inv_def shell_op_defs)

interpretation shell: machine shell_initial shell_step shell_inv
proof
  show "shell_initial s \<Longrightarrow> shell_inv s" for s
    by (auto elim!: shell_initialE simp: shell_inv_def createShellWorkspace_def)
  show "shell_inv s \<Longrightarrow> shell_step s s' \<Longrightarrow> shell_inv s'" for s s'
    by (auto elim!: shell_stepE simp: shell_apply_inv)
qed

lemma shell_run_inv: "shell_inv (run_inputs shell_apply ops createShellWorkspace)"
  by (rule shell.reachable_inv, rule reachable_run) (auto intro: shell_step.intros reachable.start shell_initial.intros)

text \<open>The paths that a decision is about.\<close>

fun decision_paths :: "drop_decision \<Rightarrow> string list" where
  "decision_paths (OpenArchive surface p extra) = p # nullish extra []"
| "decision_paths (AddCreateSources surface ps) = ps"
| "decision_paths (AskAction surface as ss) = as @ ss"
| "decision_paths (RejectUnsupportedDrop surface reason ps as ss) = ps"

definition dropped_archives :: "dropped_path list \<Rightarrow> string list" where
  "dropped_archives ds =
     map (js_trim \<circ> dropped_text)
       (filter (\<lambda>d. js_trim (dropped_text d) \<noteq> [] \<and> dropped_kind_of d \<noteq> DroppedDirectory
                    \<and> isSupportedArchivePath (js_trim (dropped_text d))) ds)"

definition dropped_sources :: "dropped_path list \<Rightarrow> string list" where
  "dropped_sources ds =
     map (js_trim \<circ> dropped_text)
       (filter (\<lambda>d. js_trim (dropped_text d) \<noteq> []
                    \<and> (dropped_kind_of d = DroppedDirectory \<or> \<not> isSupportedArchivePath (js_trim (dropped_text d)))) ds)"

definition dropped_paths :: "dropped_path list \<Rightarrow> string list" where
  "dropped_paths ds = filter (\<lambda>p. p \<noteq> []) (map (js_trim \<circ> dropped_text) ds)"

lemma classified_paths: "map fst (List.map_filter classifyDroppedPath ds) = dropped_paths ds"
  by (induction ds) (simp_all add: List.map_filter_simps dropped_paths_def classifyDroppedPath_def Let_def)

lemma classified_archives: "map fst (filter snd (List.map_filter classifyDroppedPath ds)) = dropped_archives ds"
  by (induction ds) (simp_all add: List.map_filter_simps dropped_archives_def classifyDroppedPath_def Let_def)

lemma classified_sources:
  "map fst (filter (\<lambda>item. \<not> snd item) (List.map_filter classifyDroppedPath ds)) = dropped_sources ds"
  by (induction ds) (simp_all add: List.map_filter_simps dropped_sources_def classifyDroppedPath_def Let_def)

lemma dropped_partition: "mset (dropped_archives ds) + mset (dropped_sources ds) = mset (dropped_paths ds)"
  by (induction ds) (simp_all add: dropped_archives_def dropped_sources_def dropped_paths_def)

lemma classify_unfold:
  "classifyDropIntent ds surface =
     (if dropped_paths ds = []
      then RejectUnsupportedDrop surface EmptyDrop (dropped_paths ds) (dropped_archives ds) (dropped_sources ds)
      else if surface = OnCreate then AddCreateSources surface (dropped_paths ds)
      else if dropped_archives ds \<noteq> [] \<and> dropped_sources ds \<noteq> []
      then AskAction surface (dropped_archives ds) (dropped_sources ds)
      else (case dropped_archives ds of
              [archivePath] \<Rightarrow> OpenArchive surface archivePath None
            | archivePath # extraArchivePaths \<Rightarrow> OpenArchive surface archivePath (Some extraArchivePaths)
            | [] \<Rightarrow>
                if surface = OnBrowse
                then RejectUnsupportedDrop surface BrowseRequiresArchive (dropped_paths ds) (dropped_archives ds) (dropped_sources ds)
                else AddCreateSources surface (dropped_sources ds)))"
  unfolding classifyDropIntent_def Let_def classified_paths classified_archives classified_sources rejectDrop_def ..

section \<open>Properties\<close>

text \<open>A drop loses nothing and invents nothing: whatever the code decides is about exactly the dropped paths,
  trimmed, that are not blank; archives are opened only when nothing else was dropped, the user is asked
  exactly when both were dropped outside the create view, and only an empty drop or a drop of other files on
  the browse view is rejected.\<close>

theorem drop_decision:
  "mset (decision_paths (classifyDropIntent ds surface)) = mset (dropped_paths ds)
   \<and> (case classifyDropIntent ds surface of
        OpenArchive s p extra \<Rightarrow> surface \<noteq> OnCreate \<and> p # nullish extra [] = dropped_archives ds \<and> dropped_sources ds = []
      | AskAction s as ss \<Rightarrow>
          surface \<noteq> OnCreate \<and> as = dropped_archives ds \<and> ss = dropped_sources ds \<and> as \<noteq> [] \<and> ss \<noteq> []
      | AddCreateSources s ps \<Rightarrow> ps \<noteq> [] \<and> (surface = OnCreate \<or> surface \<noteq> OnBrowse \<and> dropped_archives ds = [])
      | RejectUnsupportedDrop s reason ps as ss \<Rightarrow>
          reason = EmptyDrop \<and> ps = [] \<or> reason = BrowseRequiresArchive \<and> surface = OnBrowse \<and> as = [] \<and> ps \<noteq> [])"
proof (cases "dropped_paths ds = [] \<or> surface = OnCreate")
  case True
  then show ?thesis
    by (auto simp: classify_unfold)
next
  case False
  have part: "mset (dropped_paths ds) = mset (dropped_archives ds) + mset (dropped_sources ds)"
    by (simp add: dropped_partition)
  with False have some: "dropped_archives ds \<noteq> [] \<or> dropped_sources ds \<noteq> []"
    by auto
  show ?thesis
    using False some part by (simp add: classify_unfold split: list.split)
qed

text \<open>Whatever the operations of the shell, a pending choice is shown in the choosing overlay with its text, and
  tracked preview files are reported until they are cleared: a cached preview is offered only for its own entry
  and only while it is tracked.\<close>

theorem shell_overlay:
  "(sh_pendingDropChoice (run_inputs shell_apply ops createShellWorkspace) \<noteq> None \<longrightarrow>
      sh_dropOverlayMode (run_inputs shell_apply ops createShellWorkspace) = OverlayChoosing
      \<and> sh_dropOverlayCopy (run_inputs shell_apply ops createShellWorkspace) \<noteq> None)
   \<and> (getCachedPreviewPathForEntry entry (run_inputs shell_apply ops createShellWorkspace) \<noteq> None \<longrightarrow>
        hasTrackedPreviewCleanup (run_inputs shell_apply ops createShellWorkspace))
   \<and> getCachedPreviewPathForEntry entry (clearTrackedPreview (run_inputs shell_apply ops createShellWorkspace)) = None"
  using shell_run_inv [of ops]
  by (simp add: shell_inv_def getCachedPreviewPathForEntry_def hasTrackedPreviewCleanup_def clearTrackedPreview_def
    createEmptyPreviewCleanupMetadata_def)


theorem shell_overlay_witness:
  "sh_dropOverlayMode (run_inputs shell_apply
      [ShChoice \<lparr> pc_surface = OnGlobal, pc_archivePaths = [''/a.zip''], pc_sourcePaths = [''/b''] \<rparr>
        \<lparr> oc_titleKey = OmChooseModeTitle, oc_messageKey = OmChooseModeMixed, oc_messageParams = None,
          oc_supportKey = None, oc_target = TargetChoose, oc_showActions = Some True \<rparr>] createShellWorkspace) = OverlayChoosing"
  using shell_overlay [of "[ShChoice \<lparr> pc_surface = OnGlobal, pc_archivePaths = [''/a.zip''], pc_sourcePaths = [''/b''] \<rparr>
        \<lparr> oc_titleKey = OmChooseModeTitle, oc_messageKey = OmChooseModeMixed, oc_messageParams = None,
          oc_supportKey = None, oc_target = TargetChoose, oc_showActions = Some True \<rparr>]"]
  by (simp add: setDropOverlayChoice_def)

end
