(* ===== verification/CreateFlow.thy ===== *)
theory CreateFlow
  imports HierarchicalTable ExtractionPolicy Formatting
begin

text \<open>
  The rules of creating an archive, \<^verbatim>\<open>src/src/app/createFlow.ts\<close> with \<^verbatim>\<open>createFormatCapabilities.ts\<close>: names
  and extensions, the common directory of the sources, the rows and exclusions of a plan, when creation is
  available, and the request sent to the backend.  The parent of a native path and \<open>localeCompare\<close> are
  parameters.  Sizes and counts of a plan come from JSON and are exact rationals.
\<close>

section \<open>Data\<close>

datatype create_format = CfZip | CfTarZst | CfTzap | CfSevenZ | CfTarGz | CfAppleArchive
datatype split_mode = SplitNone | SplitVolumeSize | SplitVolumeCount
datatype create_state = CsIdle | CsLoading | CsReady | CsError

datatype attribute_namespace = NsWindows | NsBsd | NsPortable

record plan_entry =
  pe_path :: string
  pe_kind :: archive_entry_kind
  pe_size :: "rat option"
  pe_modified :: "string option"
  pe_mode :: "nat option"
  pe_sourcePath :: string
  pe_created :: "string option"
  pe_accessed :: "string option"
  pe_attributes :: "(attribute_namespace \<times> string) list option"
  pe_linkTarget :: "string option"
  pe_uid :: "nat option"
  pe_gid :: "nat option"
  pe_owner :: "string option"
  pe_group :: "string option"

record create_plan =
  cp_includedCount :: nat
  cp_excludedCount :: nat
  cp_totalBytes :: rat
  cp_excludedBytes :: rat
  cp_entries :: "string list"
  cp_planEntries :: "plan_entry list"
  cp_excludedEntries :: "string list"
  cp_warnings :: "string list"

datatype tzap_signing =
    SigningNone
  | SigningEnrolled string
  | SigningPkcs12 string string
  | SigningCertificate string string "string list option" "string option"

record tzap_recipients =
  tr_recipientKeyIds :: "string list"
  tr_contactRecipientIds :: "string list"
  tr_oneTimeCertificatePaths :: "string list"

record tzap_certificates =
  tz_signingSelection :: "tzap_signing option"
  tz_recipientSelection :: "tzap_recipients option"

section \<open>Names and extensions\<close>

fun CREATE_FORMAT_EXTENSIONS :: "create_format \<Rightarrow> string" where
  "CREATE_FORMAT_EXTENSIONS CfZip = ''zip''"
| "CREATE_FORMAT_EXTENSIONS CfTarZst = ''tzst''"
| "CREATE_FORMAT_EXTENSIONS CfTzap = ''tzap''"
| "CREATE_FORMAT_EXTENSIONS CfSevenZ = ''7z''"
| "CREATE_FORMAT_EXTENSIONS CfTarGz = ''tgz''"
| "CREATE_FORMAT_EXTENSIONS CfAppleArchive = ''aar''"

fun CREATE_FORMAT_ALLOWED_EXTENSIONS :: "create_format \<Rightarrow> string list" where
  "CREATE_FORMAT_ALLOWED_EXTENSIONS CfZip = [''zip'']"
| "CREATE_FORMAT_ALLOWED_EXTENSIONS CfTarZst = [''tzst'', ''tar.zst'']"
| "CREATE_FORMAT_ALLOWED_EXTENSIONS CfTzap = [''tzap'']"
| "CREATE_FORMAT_ALLOWED_EXTENSIONS CfSevenZ = [''7z'']"
| "CREATE_FORMAT_ALLOWED_EXTENSIONS CfTarGz = [''tgz'', ''tar.gz'']"
| "CREATE_FORMAT_ALLOWED_EXTENSIONS CfAppleArchive = [''aar'', ''aea'']"

definition RECOGNIZED_CREATE_EXTENSIONS :: "string list" where
  "RECOGNIZED_CREATE_EXTENSIONS =
     [''tar.gz'', ''tar.zst'', ''zip'', ''tgz'', ''tzst'', ''tzap'', ''7z'', ''aar'', ''aea'']"

definition CREATE_PASSWORD_FORMATS :: "create_format list" where
  "CREATE_PASSWORD_FORMATS = [CfZip, CfTzap, CfSevenZ, CfAppleArchive]"

definition getArchiveName :: "string \<Rightarrow> string \<Rightarrow> string" where
  "getArchiveName path fallback =
     (let parts = filter (\<lambda>w. w \<noteq> []) (js_split (CHR 0x2F) (map (\<lambda>c. if c = CHR 0x5C then CHR 0x2F else c) path))
      in if parts = [] then fallback else last parts)"

definition getCreateFormatExtension :: "create_format \<Rightarrow> bool \<Rightarrow> string" where
  "getCreateFormatExtension format hasPassword =
     (if format = CfAppleArchive \<and> hasPassword then ''aea'' else CREATE_FORMAT_EXTENSIONS format)"

definition getCreateArchiveExtension :: "string \<Rightarrow> string option" where
  "getCreateArchiveExtension path =
     find (\<lambda>extension. suffix (CHR 0x2E # extension) (js_lower path)) RECOGNIZED_CREATE_EXTENSIONS"

definition withCreateArchiveExtension :: "string \<Rightarrow> create_format \<Rightarrow> bool \<Rightarrow> string" where
  "withCreateArchiveExtension path format hasPassword =
     (let trimmed = js_trim path;
          dotted = CHR 0x2E # getCreateFormatExtension format hasPassword
      in if trimmed = [] then trimmed
         else (case getCreateArchiveExtension trimmed of
                 None \<Rightarrow> trimmed @ dotted
               | Some existingExtension \<Rightarrow>
                   let basePath = take (length trimmed - (length existingExtension + 1)) trimmed
                   in if existingExtension \<in> set (CREATE_FORMAT_ALLOWED_EXTENSIONS format)
                      then if format = CfAppleArchive
                           then if (existingExtension = ''aea'') = hasPassword then trimmed else basePath @ dotted
                           else trimmed
                      else basePath @ dotted))"

definition unsafe_name_char :: "char \<Rightarrow> bool" where
  "unsafe_name_char c \<longleftrightarrow> c \<in> set [CHR 0x3C, CHR 0x3E, CHR 0x3A, CHR 0x22, CHR 0x2F, CHR 0x5C, CHR 0x7C, CHR 0x3F, CHR 0x2A]
     \<or> (of_char c :: nat) \<le> 31"

definition suggestedCreateArchiveName :: "string list \<Rightarrow> create_format \<Rightarrow> string \<Rightarrow> bool \<Rightarrow> string" where
  "suggestedCreateArchiveName sources format fallback hasPassword =
     (let sourceName = (case sources of
                          firstSource # _ \<Rightarrow> if firstSource = [] then fallback else getArchiveName firstSource fallback
                        | [] \<Rightarrow> fallback);
          safeName = str_or (js_trim (map (\<lambda>c. if unsafe_name_char c then CHR 0x5F else c) sourceName)) fallback
      in safeName @ CHR 0x2E # getCreateFormatExtension format hasPassword)"

definition createFormatSupportsPassword :: "create_format \<Rightarrow> bool" where
  "createFormatSupportsPassword format \<longleftrightarrow> set_has CREATE_PASSWORD_FORMATS format"

section \<open>Numbers of the request\<close>

definition clamp_floor :: "rat \<Rightarrow> rat \<Rightarrow> jsnum option \<Rightarrow> rat option" where
  "clamp_floor lo hi v =
     (case v of Some (Fin x) \<Rightarrow> Some (min hi (max lo (of_int \<lfloor>x\<rfloor>))) | _ \<Rightarrow> None)"

definition normalizeTzapRecoveryPercentage :: "jsnum option \<Rightarrow> rat option" where
  "normalizeTzapRecoveryPercentage v = clamp_floor 0 100 v"

definition normalizeTzapVolumeLossTolerance :: "jsnum option \<Rightarrow> rat option" where
  "normalizeTzapVolumeLossTolerance v = clamp_floor 0 16 v"

definition normalizeCreateVolumeSize :: "jsnum option \<Rightarrow> rat option" where
  "normalizeCreateVolumeSize v =
     (case v of Some (Fin x) \<Rightarrow> if x \<le> 0 then None else Some (of_int \<lfloor>x\<rfloor>) | _ \<Rightarrow> None)"

definition isSafeInteger :: "jsnum \<Rightarrow> bool" where
  "isSafeInteger v = (case v of Fin x \<Rightarrow> of_int \<lfloor>x\<rfloor> = x \<and> \<bar>x\<bar> \<le> 9007199254740991 | _ \<Rightarrow> False)"

definition TZAP_VOLUME_COUNT_MIN :: rat where "TZAP_VOLUME_COUNT_MIN = 2"
definition TZAP_VOLUME_COUNT_MAX :: rat where "TZAP_VOLUME_COUNT_MAX = 4294967295"

definition normalizeTzapVolumeCount :: "jsnum option \<Rightarrow> rat option" where
  "normalizeTzapVolumeCount v =
     (case v of
        Some (Fin x) \<Rightarrow>
          if \<not> isSafeInteger (Fin x) \<or> x < TZAP_VOLUME_COUNT_MIN \<or> x > TZAP_VOLUME_COUNT_MAX then None else Some x
      | _ \<Rightarrow> None)"

section \<open>The common directory of the sources\<close>

record parsed_directory =
  pd_root :: string
  pd_segments :: "string list"
  pd_separator :: char

definition slashes :: "string \<Rightarrow> string" where
  "slashes s = map (\<lambda>c. if c = CHR 0x5C then CHR 0x2F else c) s"

definition name_segments :: "string \<Rightarrow> string list" where
  "name_segments s = filter (\<lambda>w. w \<noteq> []) (js_split (CHR 0x2F) s)"

definition no_line_break :: "string \<Rightarrow> bool" where
  "no_line_break s \<longleftrightarrow> CHR 0x0A \<notin> set s \<and> CHR 0x0D \<notin> set s"

definition is_letter :: "char \<Rightarrow> bool" where
  "is_letter c \<longleftrightarrow> (let n = of_char c :: nat in (65 \<le> n \<and> n \<le> 90) \<or> (97 \<le> n \<and> n \<le> 122))"

text \<open>The optional tail \<open>(?:/(.*))?$\<close> of both patterns: \<open>None\<close> when it does not match.\<close>

definition match_tail :: "string \<Rightarrow> string option" where
  "match_tail s =
     (case s of
        [] \<Rightarrow> Some []
      | c # t \<Rightarrow> if c = CHR 0x2F \<and> no_line_break t then Some t else None)"

definition match_unc :: "string \<Rightarrow> (string \<times> string) option" where
  "match_unc s =
     (if take 2 s \<noteq> ''//'' then None
      else let host = takeWhile (\<lambda>c. c \<noteq> CHR 0x2F) (drop 2 s);
               rest = dropWhile (\<lambda>c. c \<noteq> CHR 0x2F) (drop 2 s)
           in if host = [] \<or> rest = [] then None
              else let share = takeWhile (\<lambda>c. c \<noteq> CHR 0x2F) (tl rest);
                       tail = dropWhile (\<lambda>c. c \<noteq> CHR 0x2F) (tl rest)
                   in if share = [] then None
                      else map_option (\<lambda>t. (''//'' @ host @ CHR 0x2F # share, t)) (match_tail tail))"

definition match_drive :: "string \<Rightarrow> (string \<times> string) option" where
  "match_drive s =
     (case s of
        c # d # r \<Rightarrow> if is_letter c \<and> d = CHR 0x3A then map_option (\<lambda>t. ([c, d], t)) (match_tail r) else None
      | _ \<Rightarrow> None)"

definition parseDirectoryPath :: "string \<Rightarrow> parsed_directory option" where
  "parseDirectoryPath directory =
     (let trimmed = rev (dropWhile (\<lambda>c. c = CHR 0x2F \<or> c = CHR 0x5C) (rev (js_trim directory)))
      in if trimmed = [] then None
         else let separator = (if CHR 0x5C \<in> set trimmed then CHR 0x5C else CHR 0x2F);
                  normalized = slashes trimmed
              in Some (case match_unc normalized of
                   Some (r, t) \<Rightarrow> \<lparr> pd_root = r, pd_segments = name_segments t, pd_separator = separator \<rparr>
                 | None \<Rightarrow>
                     (case match_drive normalized of
                        Some (r, t) \<Rightarrow> \<lparr> pd_root = r, pd_segments = name_segments t, pd_separator = separator \<rparr>
                      | None \<Rightarrow>
                          if take 1 normalized = ''/''
                          then \<lparr> pd_root = ''/'', pd_segments = name_segments (drop 1 normalized), pd_separator = CHR 0x2F \<rparr>
                          else \<lparr> pd_root = [], pd_segments = name_segments normalized, pd_separator = separator \<rparr>)))"

definition is_drive_root :: "string \<Rightarrow> bool" where
  "is_drive_root r = (case r of [c, d] \<Rightarrow> is_letter c \<and> d = CHR 0x3A | _ \<Rightarrow> False)"

definition isCaseInsensitiveRoot :: "string \<Rightarrow> bool" where
  "isCaseInsensitiveRoot r \<longleftrightarrow> is_drive_root r \<or> take 2 r = ''//''"

definition samePathPart :: "string \<Rightarrow> string \<Rightarrow> bool \<Rightarrow> bool" where
  "samePathPart left right caseInsensitive =
     (if caseInsensitive then js_lower left = js_lower right else left = right)"

definition formatParsedDirectoryPath :: "parsed_directory \<Rightarrow> string list \<Rightarrow> string option" where
  "formatParsedDirectoryPath parsed segments =
     (let separator = pd_separator parsed; joined = js_join separator segments
      in if take 2 (pd_root parsed) = ''//''
         then let r = map (\<lambda>c. if c = CHR 0x2F then separator else c) (pd_root parsed)
              in Some (if segments \<noteq> [] then r @ separator # joined else r)
         else if is_drive_root (pd_root parsed)
         then Some (if segments \<noteq> [] then pd_root parsed @ separator # joined else pd_root parsed @ [separator])
         else if pd_root parsed = ''/''
         then Some (if segments \<noteq> [] then CHR 0x2F # js_join (CHR 0x2F) segments else ''/'')
         else if segments = [] then None
         else Some joined)"

text \<open>The loop over the segments of the first directory; \<open>parent.segments[index] ?? ""\<close> is a missing segment.\<close>

fun common_segments :: "bool \<Rightarrow> string list \<Rightarrow> string list list \<Rightarrow> string list" where
  "common_segments ci [] others = []"
| "common_segments ci (segment # rest) others =
     (if list_all (\<lambda>other. samePathPart segment (case other of s # _ \<Rightarrow> s | [] \<Rightarrow> []) ci) others
      then segment # common_segments ci rest (map tl others)
      else [])"

definition commonSourceParentDirectory :: "(string \<Rightarrow> string) \<Rightarrow> string list \<Rightarrow> string option" where
  "commonSourceParentDirectory nativeParentPath sources =
     (case List.map_filter (\<lambda>source. parseDirectoryPath (nativeParentPath source)) sources of
        [] \<Rightarrow> None
      | firstParent # remainingParents \<Rightarrow>
          let ci = isCaseInsensitiveRoot (pd_root firstParent)
          in if list_ex (\<lambda>parent. \<not> samePathPart (pd_root firstParent) (pd_root parent) ci) remainingParents then None
             else formatParsedDirectoryPath firstParent
                    (common_segments ci (pd_segments firstParent)
                      (map pd_segments (firstParent # remainingParents))))"


section \<open>Rows and exclusions of a plan\<close>

text \<open>A parameter that is a \<open>Set\<close> or an array.\<close>

datatype path_collection = PathSet "string list" | PathArray "string list"

fun collection_items :: "path_collection \<Rightarrow> string list" where
  "collection_items (PathSet ps) = ps"
| "collection_items (PathArray ps) = ps"

definition normalizeExcludedCreatePlanPaths :: "path_collection \<Rightarrow> string list" where
  "normalizeExcludedCreatePlanPaths excludedPaths =
     js_set (filter (\<lambda>p. p \<noteq> []) (map (\<lambda>p. normalizeArchivePath (Some p)) (collection_items excludedPaths)))"

definition plan_row_options :: "plan_entry list \<Rightarrow> string option \<Rightarrow> string option \<Rightarrow> plan_entry hier_options" where
  "plan_row_options entries currentFolder searchQuery =
     \<lparr> ho_entries = entries, ho_getPath = pe_path, ho_isFolderEntry = (\<lambda>entry. pe_kind entry = KDirectory),
       ho_currentFolder = Some (normalizeArchivePath currentFolder),
       ho_mode = Some (if (case searchQuery of None \<Rightarrow> False | Some q \<Rightarrow> js_trim q \<noteq> []) then HSearch else HFolder),
       ho_searchQuery = searchQuery, ho_showParentRow = Some (normalizeArchivePath currentFolder \<noteq> []),
       ho_parentRowName = None, ho_matchesSearch = None \<rparr>"

fun is_parent_row :: "'e hier_row \<Rightarrow> bool" where
  "is_parent_row (ParentRow _ _ _ _) = True"
| "is_parent_row (FolderRow _ _ _ _ _) = False"
| "is_parent_row (EntryRow _ _ _ _) = False"

fun is_folder_row :: "'e hier_row \<Rightarrow> bool" where
  "is_folder_row (ParentRow _ _ _ _) = False"
| "is_folder_row (FolderRow _ _ _ _ _) = True"
| "is_folder_row (EntryRow _ _ _ _) = False"

fun is_entry_row :: "'e hier_row \<Rightarrow> bool" where
  "is_entry_row (ParentRow _ _ _ _) = False"
| "is_entry_row (FolderRow _ _ _ _ _) = False"
| "is_entry_row (EntryRow _ _ _ _) = True"

definition buildCreatePlanRows ::
    "(string \<Rightarrow> string \<Rightarrow> int) \<Rightarrow> plan_entry list \<Rightarrow> string option \<Rightarrow> string option \<Rightarrow> plan_entry hier_row list" where
  "buildCreatePlanRows localeCompare entries currentFolder searchQuery =
     (let rows = buildHierarchicalRows (plan_row_options entries currentFolder searchQuery);
          by_name = (\<lambda>left right. localeCompare (row_name left) (row_name right))
      in filter is_parent_row rows
         @ js_sort by_name (filter is_folder_row rows)
         @ js_sort by_name (filter is_entry_row rows))"

definition createPlanEntriesForPath :: "plan_entry list \<Rightarrow> string \<Rightarrow> plan_entry list" where
  "createPlanEntriesForPath entries path =
     (let normalizedPath = normalizeArchivePath (Some path)
      in if normalizedPath = [] then entries
         else filter (\<lambda>entry. isArchivePathInFolder (pe_path entry) (Some normalizedPath)) entries)"

definition isCreatePlanPathIncluded :: "path_collection \<Rightarrow> string \<Rightarrow> bool" where
  "isCreatePlanPathIncluded excludedPaths path =
     (let normalizedPath = normalizeArchivePath (Some path)
      in if normalizedPath = [] then True
         else (case excludedPaths of
                 PathSet ps \<Rightarrow> \<not> set_has ps normalizedPath
               | PathArray ps \<Rightarrow> \<not> set_has (normalizeExcludedCreatePlanPaths excludedPaths) normalizedPath))"

datatype plan_inclusion = PlanIncluded | PlanExcluded | PlanPartial

definition normalized_excluded :: "path_collection \<Rightarrow> string list" where
  "normalized_excluded excludedPaths =
     (case excludedPaths of PathSet ps \<Rightarrow> ps | PathArray ps \<Rightarrow> normalizeExcludedCreatePlanPaths excludedPaths)"

fun createPlanRowInclusionState ::
    "plan_entry hier_row \<Rightarrow> plan_entry list \<Rightarrow> path_collection \<Rightarrow> plan_inclusion" where
  "createPlanRowInclusionState (ParentRow _ _ _ _) entries excludedPaths = PlanIncluded"
| "createPlanRowInclusionState (EntryRow _ path _ _) entries excludedPaths =
     (if \<not> set_has (normalized_excluded excludedPaths) (normalizeArchivePath (Some path)) then PlanIncluded
      else PlanExcluded)"
| "createPlanRowInclusionState (FolderRow _ path _ _ _) entries excludedPaths =
     (let excluded = normalized_excluded excludedPaths;
          affectedEntries = createPlanEntriesForPath entries path
      in if affectedEntries = []
         then (if \<not> set_has excluded (normalizeArchivePath (Some path)) then PlanIncluded else PlanExcluded)
         else let includedCount =
                    length (filter (\<lambda>entry. \<not> set_has excluded (normalizeArchivePath (Some (pe_path entry)))) affectedEntries)
              in if includedCount = 0 then PlanExcluded
                 else if includedCount = length affectedEntries then PlanIncluded
                 else PlanPartial)"

text \<open>\<open>while (parent) { excludedPaths.delete(parent); parent = getParentArchivePath(parent) ?? "" }\<close>\<close>

function delete_ancestors :: "string \<Rightarrow> string list \<Rightarrow> string list" where
  "delete_ancestors parent excluded =
     (if parent = [] then excluded
      else delete_ancestors (nullish (getParentArchivePath (Some parent)) []) (set_delete parent excluded))"
  by pat_completeness auto
termination
  by (relation "measure (\<lambda>(c, _). if c = [] then 0 else Suc (length (path_segments c)))")
    (auto simp: getParentArchivePath_eq js_join_good_eq_Nil intro!: diff_less)

declare delete_ancestors.simps [simp del]

definition inclusion_step :: "bool \<Rightarrow> string \<Rightarrow> string list \<Rightarrow> string list" where
  "inclusion_step included entryPath excludedPaths =
     (if entryPath = [] then excludedPaths
      else if included
      then delete_ancestors (nullish (getParentArchivePath (Some entryPath)) []) (set_delete entryPath excludedPaths)
      else set_add entryPath excludedPaths)"

definition applyCreatePlanPathInclusion ::
    "plan_entry list \<Rightarrow> path_collection \<Rightarrow> string \<Rightarrow> bool \<Rightarrow> string list" where
  "applyCreatePlanPathInclusion entries excluded path included =
     (let affectedEntries = createPlanEntriesForPath entries path;
          paths = (if affectedEntries \<noteq> [] then map (\<lambda>entry. normalizeArchivePath (Some (pe_path entry))) affectedEntries
                   else [normalizeArchivePath (Some path)])
      in fold (inclusion_step included) paths (normalizeExcludedCreatePlanPaths excluded))"

definition entry_bytes :: "plan_entry list \<Rightarrow> rat" where
  "entry_bytes entries = sum_list (map (\<lambda>entry. nullish (pe_size entry) 0) entries)"

definition filterCreatePlanByIncludedPaths :: "create_plan \<Rightarrow> path_collection \<Rightarrow> create_plan" where
  "filterCreatePlanByIncludedPaths plan excludedPaths =
     (let includedEntries = filter (\<lambda>entry. isCreatePlanPathIncluded excludedPaths (pe_path entry)) (cp_planEntries plan);
          excludedByUser = filter (\<lambda>entry. \<not> isCreatePlanPathIncluded excludedPaths (pe_path entry)) (cp_planEntries plan)
      in plan\<lparr> cp_includedCount := length includedEntries,
               cp_excludedCount := cp_excludedCount plan + length excludedByUser,
               cp_totalBytes := entry_bytes includedEntries,
               cp_excludedBytes := cp_excludedBytes plan + entry_bytes excludedByUser,
               cp_entries := map pe_path includedEntries,
               cp_planEntries := includedEntries,
               cp_excludedEntries := cp_excludedEntries plan @ map pe_path excludedByUser \<rparr>)"

section \<open>The source of a row\<close>

definition sourcePathForCreatePlanArchivePath :: "string \<Rightarrow> plan_entry list \<Rightarrow> string list \<Rightarrow> string" where
  "sourcePathForCreatePlanArchivePath archivePath entries createSources =
     (let normalizedArchivePath = normalizeArchivePath (Some archivePath)
      in if normalizedArchivePath = [] then []
         else let rootEntries =
                    js_sort (\<lambda>left right. int (length (normalizeArchivePath (Some (pe_path right))))
                                          - int (length (normalizeArchivePath (Some (pe_path left)))))
                      (filter (\<lambda>entry. pe_sourcePath entry \<in> set createSources) entries)
              in case find (\<lambda>entry. isArchivePathInFolder normalizedArchivePath (Some (pe_path entry))) rootEntries of
                   Some rootEntry \<Rightarrow> pe_sourcePath rootEntry
                 | None \<Rightarrow> [])"

definition normalizedNativePathForCompare :: "string \<Rightarrow> string" where
  "normalizedNativePathForCompare path =
     (let normalized = rev (dropWhile (\<lambda>c. c = CHR 0x2F) (rev (slashes (js_trim path))))
      in if (case normalized of c # d # e # _ \<Rightarrow> is_letter c \<and> d = CHR 0x3A \<and> e = CHR 0x2F | _ \<Rightarrow> False)
            \<or> take 2 normalized = ''//''
         then js_lower normalized else normalized)"

definition sourcePathForNativePath :: "string \<Rightarrow> string list \<Rightarrow> string" where
  "sourcePathForNativePath nativePath createSources =
     (let normalizedNativePath = normalizedNativePathForCompare nativePath
      in if normalizedNativePath = [] then []
         else nullish (find (\<lambda>sourcePath.
                 let normalizedSourcePath = normalizedNativePathForCompare sourcePath
                 in normalizedNativePath = normalizedSourcePath
                    \<or> prefix (normalizedSourcePath @ ''/'') normalizedNativePath) createSources) [])"

definition row_source :: "plan_entry hier_row \<Rightarrow> plan_entry option" where
  "row_source row =
     (case row of
        ParentRow _ _ _ _ \<Rightarrow> None
      | FolderRow _ _ _ entry _ \<Rightarrow> entry
      | EntryRow _ _ _ entry \<Rightarrow> Some entry)"

definition sourcePathForCreatePlanRow :: "plan_entry hier_row \<Rightarrow> plan_entry list \<Rightarrow> string list \<Rightarrow> string" where
  "sourcePathForCreatePlanRow row entries createSources =
     (if is_parent_row row then []
      else let sourceFromArchivePath = sourcePathForCreatePlanArchivePath (row_path row) entries createSources;
               sourceFromNativePath =
                 (case row_source row of
                    Some e \<Rightarrow> if pe_sourcePath e = [] then [] else sourcePathForNativePath (pe_sourcePath e) createSources
                  | None \<Rightarrow> []);
               descendantSources =
                 js_set (filter (\<lambda>p. p \<noteq> [])
                   (map (\<lambda>entry. sourcePathForNativePath (pe_sourcePath entry) createSources)
                     (createPlanEntriesForPath entries (row_path row))))
           in if sourceFromArchivePath \<noteq> [] then sourceFromArchivePath
              else if sourceFromNativePath \<noteq> [] then sourceFromNativePath
              else (case descendantSources of
                      [only] \<Rightarrow> only
                    | _ \<Rightarrow> nullish (find (\<lambda>sourcePath. getPathBasename (Some sourcePath) [] = row_path row) createSources) []))"

section \<open>Availability\<close>

definition isCreatePlanRevisionCurrent :: "nat \<Rightarrow> nat \<Rightarrow> bool" where
  "isCreatePlanRevisionCurrent resultRevision currentRevision \<longleftrightarrow> resultRevision = currentRevision"

definition createStateAfterDestinationEdit :: "create_state \<Rightarrow> bool \<Rightarrow> create_state" where
  "createStateAfterDestinationEdit state hasCurrentPlan =
     (if state = CsError \<and> hasCurrentPlan then CsReady else state)"

datatype create_unavailable =
    NeedsSources | NeedsIncludedEntries | NeedsDestination | Planning | NeedsPlan | InvalidSplitConfiguration | Starting

text \<open>\<open>undefined\<close> and \<open>null\<close> of the numbers are the same to this code.\<close>

record availability_input =
  ai_sourceCount :: nat
  ai_includedEntryCount :: "nat option"
  ai_destinationPath :: string
  ai_planState :: create_state
  ai_hasPlan :: bool
  ai_submissionInFlight :: bool
  ai_format :: "create_format option"
  ai_splitMode :: "split_mode option"
  ai_volumeSize :: "jsnum option"
  ai_volumeCount :: "jsnum option"
  ai_tzapVolumeLossTolerance :: "jsnum option"
  ai_recipientEncryptionSelected :: bool

fun js_positive :: "jsnum \<Rightarrow> bool" where
  "js_positive (Fin x) \<longleftrightarrow> 0 < x"
| "js_positive PosInf \<longleftrightarrow> True"
| "js_positive _ \<longleftrightarrow> False"

definition isCreateSplitConfigurationValid :: "availability_input \<Rightarrow> bool" where
  "isCreateSplitConfigurationValid i =
     (let tolerance = nullish (ai_tzapVolumeLossTolerance i) (Fin 0)
      in if ai_recipientEncryptionSelected i
            \<and> (ai_volumeSize i \<noteq> None \<or> ai_volumeCount i \<noteq> None \<or> js_positive tolerance)
         then False
         else (case nullish (ai_splitMode i) SplitNone of
                 SplitNone \<Rightarrow> ai_volumeSize i = None \<and> ai_volumeCount i = None \<and> tolerance = Fin 0
               | SplitVolumeSize \<Rightarrow>
                   ai_format i \<noteq> Some CfTzap
                   \<or> (case ai_volumeSize i of Some (Fin x) \<Rightarrow> 0 < x | _ \<Rightarrow> False)
               | SplitVolumeCount \<Rightarrow>
                   ai_format i = Some CfTzap \<and> ai_volumeSize i = None
                   \<and> (case ai_volumeCount i of
                        Some (Fin x) \<Rightarrow> isSafeInteger (Fin x) \<and> TZAP_VOLUME_COUNT_MIN \<le> x \<and> x \<le> TZAP_VOLUME_COUNT_MAX
                      | _ \<Rightarrow> False)))"

definition createArchiveUnavailableReason :: "availability_input \<Rightarrow> create_unavailable option" where
  "createArchiveUnavailableReason i =
     (if ai_submissionInFlight i then Some Starting
      else if ai_sourceCount i = 0 then Some NeedsSources
      else if ai_includedEntryCount i = Some 0 then Some NeedsIncludedEntries
      else if js_trim (ai_destinationPath i) = [] then Some NeedsDestination
      else if ai_planState i = CsLoading then Some Planning
      else if ai_planState i \<noteq> CsReady \<or> \<not> ai_hasPlan i then Some NeedsPlan
      else if \<not> isCreateSplitConfigurationValid i then Some InvalidSplitConfiguration
      else None)"

section \<open>The start request\<close>

datatype zip_compression = ZipStore | ZipDeflate

record build_create_input =
  bc_sources :: "string list"
  bc_destinationPath :: string
  bc_format :: create_format
  bc_cleanSource :: bool
  bc_excludeNames :: "string list option"
  bc_excludeArchivePaths :: "string list option"
  bc_includeArchivePaths :: "string list option"
  bc_respectGitignore :: "bool option"
  bc_followSymlinks :: "bool option"
  bc_replaceExisting :: bool
  bc_destinationCollisionStrategy :: "collision_strategy option"
  bc_preserveMetadata :: bool
  bc_password :: "string option"
  bc_compressionLevel :: "jsnum option"
  bc_splitMode :: "split_mode option"
  bc_volumeSize :: "jsnum option"
  bc_volumeCount :: "jsnum option"
  bc_tzapRecoveryPercentage :: "jsnum option"
  bc_tzapVolumeLossTolerance :: "jsnum option"
  bc_zipCompression :: "zip_compression option"
  bc_sevenZSolid :: "bool option"
  bc_sevenZThreads :: "jsnum option"
  bc_sevenZChunkSize :: "jsnum option"
  bc_sevenZEncryptFileNames :: "bool option"
  bc_tzapCertificates :: "tzap_certificates option"
  bc_tzapBootstrapSidecar :: "bool option"

text \<open>A field that the code leaves out is \<open>None\<close>.\<close>

record start_create_request =
  sc_sources :: "string list"
  sc_destinationPath :: string
  sc_format :: create_format
  sc_cleanSource :: bool
  sc_excludeNames :: "string list option"
  sc_excludeArchivePaths :: "string list option"
  sc_includeArchivePaths :: "string list option"
  sc_respectGitignore :: "bool option"
  sc_followSymlinks :: "bool option"
  sc_replaceExisting :: bool
  sc_destinationCollisionStrategy :: "collision_strategy option"
  sc_password :: "string option"
  sc_compressionLevel :: "jsnum option"
  sc_volumeSize :: "rat option"
  sc_volumeCount :: "rat option"
  sc_tzapRecoveryPercentage :: "rat option"
  sc_tzapVolumeLossTolerance :: "rat option"
  sc_zipCompression :: "zip_compression option"
  sc_sevenZSolid :: "bool option"
  sc_sevenZThreads :: "jsnum option"
  sc_sevenZChunkSize :: "jsnum option"
  sc_sevenZEncryptFileNames :: "bool option"
  sc_tzapCertificates :: "tzap_certificates option"
  sc_tzapBootstrapSidecar :: "bool option"
  sc_preserveMetadata :: bool

definition nonempty_list :: "'a list option \<Rightarrow> 'a list option" where
  "nonempty_list v = (case v of Some (x # xs) \<Rightarrow> Some (x # xs) | _ \<Rightarrow> None)"

fun js_floor :: "jsnum \<Rightarrow> jsnum" where
  "js_floor (Fin x) = Fin (of_int \<lfloor>x\<rfloor>)"
| "js_floor x = x"

definition truthy_floor :: "jsnum option \<Rightarrow> jsnum option" where
  "truthy_floor v = (case v of Some x \<Rightarrow> if x = Fin 0 \<or> x = NaN then None else Some (js_floor x) | None \<Rightarrow> None)"

definition request_split_mode :: "build_create_input \<Rightarrow> split_mode" where
  "request_split_mode i =
     (let requestedSplitMode =
            (case bc_splitMode i of
               Some m \<Rightarrow> m
             | None \<Rightarrow>
                 if bc_volumeCount i \<noteq> None then SplitVolumeCount
                 else if bc_volumeSize i \<noteq> None then SplitVolumeSize
                 else SplitNone)
      in if bc_format i = CfTzap then requestedSplitMode
         else if bc_volumeSize i \<noteq> None then SplitVolumeSize
         else SplitNone)"

definition buildStartCreateRequest :: "build_create_input \<Rightarrow> start_create_request" where
  "buildStartCreateRequest i =
     (let format = bc_format i;
          splitMode = request_split_mode i;
          volumeSize = (if splitMode = SplitVolumeSize then normalizeCreateVolumeSize (bc_volumeSize i) else None);
          volumeCount = (if splitMode = SplitVolumeCount then normalizeTzapVolumeCount (bc_volumeCount i) else None);
          tzap = (format = CfTzap); sevenZ = (format = CfSevenZ)
      in \<lparr> sc_sources = bc_sources i,
           sc_destinationPath = withCreateArchiveExtension (bc_destinationPath i) format (truthy (bc_password i)),
           sc_format = format, sc_cleanSource = bc_cleanSource i,
           sc_excludeNames = nonempty_list (bc_excludeNames i),
           sc_excludeArchivePaths = nonempty_list (bc_excludeArchivePaths i),
           sc_includeArchivePaths = nonempty_list (bc_includeArchivePaths i),
           sc_respectGitignore = bc_respectGitignore i, sc_followSymlinks = bc_followSymlinks i,
           sc_replaceExisting = bc_replaceExisting i,
           sc_destinationCollisionStrategy = bc_destinationCollisionStrategy i,
           sc_password = (if truthy (bc_password i) \<and> createFormatSupportsPassword format then bc_password i else None),
           sc_compressionLevel = bc_compressionLevel i,
           sc_volumeSize =
             (if format \<noteq> CfTarZst \<and> format \<noteq> CfTarGz \<and> format \<noteq> CfAppleArchive then volumeSize else None),
           sc_volumeCount = (if tzap then volumeCount else None),
           sc_tzapRecoveryPercentage =
             (if tzap then Some (nullish (normalizeTzapRecoveryPercentage (bc_tzapRecoveryPercentage i)) 5) else None),
           sc_tzapVolumeLossTolerance =
             (if tzap
              then Some (if splitMode = SplitNone then 0
                         else nullish (normalizeTzapVolumeLossTolerance (bc_tzapVolumeLossTolerance i)) 0)
              else None),
           sc_zipCompression = (if format = CfZip then Some (nullish (bc_zipCompression i) ZipDeflate) else None),
           sc_sevenZSolid = (if sevenZ then Some (nullish (bc_sevenZSolid i) True) else None),
           sc_sevenZThreads = (if sevenZ then truthy_floor (bc_sevenZThreads i) else None),
           sc_sevenZChunkSize = (if sevenZ then truthy_floor (bc_sevenZChunkSize i) else None),
           sc_sevenZEncryptFileNames = (if sevenZ then Some (nullish (bc_sevenZEncryptFileNames i) True) else None),
           sc_tzapCertificates = (if tzap then bc_tzapCertificates i else None),
           sc_tzapBootstrapSidecar = (if tzap then bc_tzapBootstrapSidecar i else None),
           sc_preserveMetadata = bc_preserveMetadata i \<rparr>)"

section \<open>Capabilities of the formats\<close>

record format_capabilities =
  fc_password :: bool
  fc_splitVolumes :: bool
  fc_compressionLevel :: bool
  fc_zipCompression :: bool
  fc_tzapRecovery :: bool
  fc_tzapVolumeLossTolerance :: bool
  fc_sevenZAdvanced :: bool

fun createFormatCapabilities :: "create_format \<Rightarrow> format_capabilities" where
  "createFormatCapabilities CfZip =
     \<lparr> fc_password = True, fc_splitVolumes = True, fc_compressionLevel = True, fc_zipCompression = True,
       fc_tzapRecovery = False, fc_tzapVolumeLossTolerance = False, fc_sevenZAdvanced = False \<rparr>"
| "createFormatCapabilities CfTarZst =
     \<lparr> fc_password = False, fc_splitVolumes = False, fc_compressionLevel = True, fc_zipCompression = False,
       fc_tzapRecovery = False, fc_tzapVolumeLossTolerance = False, fc_sevenZAdvanced = False \<rparr>"
| "createFormatCapabilities CfTzap =
     \<lparr> fc_password = True, fc_splitVolumes = True, fc_compressionLevel = True, fc_zipCompression = False,
       fc_tzapRecovery = True, fc_tzapVolumeLossTolerance = True, fc_sevenZAdvanced = False \<rparr>"
| "createFormatCapabilities CfSevenZ =
     \<lparr> fc_password = True, fc_splitVolumes = True, fc_compressionLevel = True, fc_zipCompression = False,
       fc_tzapRecovery = False, fc_tzapVolumeLossTolerance = False, fc_sevenZAdvanced = True \<rparr>"
| "createFormatCapabilities CfTarGz =
     \<lparr> fc_password = False, fc_splitVolumes = False, fc_compressionLevel = True, fc_zipCompression = False,
       fc_tzapRecovery = False, fc_tzapVolumeLossTolerance = False, fc_sevenZAdvanced = False \<rparr>"
| "createFormatCapabilities CfAppleArchive =
     \<lparr> fc_password = True, fc_splitVolumes = False, fc_compressionLevel = True, fc_zipCompression = False,
       fc_tzapRecovery = False, fc_tzapVolumeLossTolerance = False, fc_sevenZAdvanced = False \<rparr>"

definition ALL_CREATE_FORMATS :: "create_format list" where
  "ALL_CREATE_FORMATS = [CfZip, CfTarZst, CfTzap, CfSevenZ, CfTarGz, CfAppleArchive]"

definition supportedCreateFormats :: "bool \<Rightarrow> create_format list" where
  "supportedCreateFormats appleArchiveAvailable =
     (if appleArchiveAvailable then ALL_CREATE_FORMATS
      else filter (\<lambda>f. f \<noteq> CfAppleArchive) ALL_CREATE_FORMATS)"

end
