(* ===== verification/CreateWorkspace.thy ===== *)
theory CreateWorkspace
  imports CreateFlow ColumnCatalogue ArchiveWorkspace
begin

text \<open>
  The create workspace, \<^verbatim>\<open>src/src/app/workspaces/createWorkspace.ts\<close>: its state
  (\<open>MutableCreateWorkspaceState\<close>) and every operation of the object that \<open>createCreateWorkspace\<close> returns.
  The names of the operations carry the prefix \<open>cw_\<close>, since the archive workspace has operations of the same
  names.  An operation returns the new state and what it reports beside the snapshot; the snapshot is a function
  of the state (\<open>CreateWorkspaceView\<close>).  The parent of a native path, \<open>localeCompare\<close> and
  \<open>Number\<close> of a text are parameters.
\<close>

section \<open>State\<close>

datatype plan_message =
    PmNoSources | PmPlanning | PmPickDestination | PmRefreshPlan | PmPasswordMismatch | PmInvalidSplit | PmUnableStart

record plan_status =
  pt_messageKey :: "plan_message option"
  pt_fallbackText :: "string option"

abbreviation plan_status_key :: "plan_message \<Rightarrow> plan_status" where
  "plan_status_key k \<equiv> \<lparr> pt_messageKey = Some k, pt_fallbackText = None \<rparr>"

datatype signing_mode = SmIdentity | SmAdvanced

record create_options =
  co_destinationPath :: string
  co_format :: create_format
  co_cleanSource :: bool
  co_respectGitignore :: bool
  co_followSymlinks :: bool
  co_replaceExisting :: bool
  co_preserveMetadata :: bool
  co_compressionLevel :: "rat option"
  co_splitMode :: split_mode
  co_volumeSize :: "rat option"
  co_volumeCount :: "rat option"
  co_tzapRecoveryPercentage :: rat
  co_tzapVolumeLossTolerance :: rat
  co_zipCompression :: zip_compression
  co_sevenZSolid :: bool
  co_sevenZThreads :: "jsnum option"
  co_sevenZChunkSize :: "jsnum option"
  co_sevenZEncryptFileNames :: bool
  co_tzapRecipientCertificatePaths :: string
  co_tzapRecipientKeyIds :: string
  co_tzapContactRecipientIds :: string
  co_tzapSigningMode :: signing_mode
  co_tzapSigningIdentityId :: string
  co_tzapSigningIdentityPath :: string
  co_tzapSigningCertificatePath :: string
  co_tzapSigningPrivateKeyPath :: string
  co_tzapSigningChainPaths :: string
  co_tzapBootstrapSidecar :: bool
  co_submissionInFlight :: bool

record cw_selection =
  cl_selectedPaths :: "string list"
  cl_focusedPath :: string
  cl_anchorPath :: string

record cw_state =
  cw_sources :: "string list"
  cw_planState :: create_state
  cw_currentPlan :: "create_plan option"
  cw_planStatus :: "plan_status option"
  cw_planRevision :: nat
  cw_excludedArchivePaths :: "string list"
  cw_currentFolder :: string
  cw_searchQuery :: string
  cw_expandedTreeFolders :: "string list"
  cw_selection :: cw_selection
  cw_options :: create_options
  cw_columnSettings :: column_settings

text \<open>What the workspace takes from the platform.\<close>

record cw_env =
  cx_localeCompare :: "string \<Rightarrow> string \<Rightarrow> int"
  cx_nativeParentPath :: "string \<Rightarrow> string"
  cx_number :: "string \<Rightarrow> jsnum"

definition DEFAULT_CHUNK_SIZE :: jsnum where "DEFAULT_CHUNK_SIZE = Fin 16777216"

definition TZAP_RECOVERY_PERCENTAGE_DEFAULT :: rat where "TZAP_RECOVERY_PERCENTAGE_DEFAULT = 5"

definition DEFAULT_CREATE_OPTIONS :: create_options where
  "DEFAULT_CREATE_OPTIONS =
     \<lparr> co_destinationPath = [], co_format = CfTarZst, co_cleanSource = False, co_respectGitignore = True,
       co_followSymlinks = False, co_replaceExisting = False, co_preserveMetadata = True,
       co_compressionLevel = None, co_splitMode = SplitNone, co_volumeSize = None, co_volumeCount = None,
       co_tzapRecoveryPercentage = TZAP_RECOVERY_PERCENTAGE_DEFAULT, co_tzapVolumeLossTolerance = 0,
       co_zipCompression = ZipDeflate, co_sevenZSolid = True, co_sevenZThreads = None,
       co_sevenZChunkSize = Some DEFAULT_CHUNK_SIZE, co_sevenZEncryptFileNames = True,
       co_tzapRecipientCertificatePaths = [], co_tzapRecipientKeyIds = [], co_tzapContactRecipientIds = [],
       co_tzapSigningMode = SmIdentity, co_tzapSigningIdentityId = [], co_tzapSigningIdentityPath = [],
       co_tzapSigningCertificatePath = [], co_tzapSigningPrivateKeyPath = [], co_tzapSigningChainPaths = [],
       co_tzapBootstrapSidecar = False, co_submissionInFlight = False \<rparr>"

definition emptyCreateSelection :: cw_selection where
  "emptyCreateSelection = \<lparr> cl_selectedPaths = [], cl_focusedPath = [], cl_anchorPath = [] \<rparr>"

definition createCreateWorkspace :: "partial_settings option \<Rightarrow> cw_state" where
  "createCreateWorkspace initialColumnSettings =
     \<lparr> cw_sources = [], cw_planState = CsIdle, cw_currentPlan = None, cw_planStatus = None, cw_planRevision = 0,
       cw_excludedArchivePaths = [], cw_currentFolder = [], cw_searchQuery = [], cw_expandedTreeFolders = [[]],
       cw_selection = emptyCreateSelection, cw_options = DEFAULT_CREATE_OPTIONS,
       cw_columnSettings =
         (case initialColumnSettings of
            Some settings \<Rightarrow> normalizeCreateColumnSettings (Some settings)
          | None \<Rightarrow> resetCreateColumnSettings) \<rparr>"

section \<open>Paths and folders of the plan\<close>

definition normalizeCreateArchivePath :: "string option \<Rightarrow> string" where
  "normalizeCreateArchivePath path = normalizeArchivePath (Some (nullish (map_option js_trim path) []))"

definition plan_entries :: "cw_state \<Rightarrow> plan_entry list" where
  "plan_entries state = (case cw_currentPlan state of None \<Rightarrow> [] | Some plan \<Rightarrow> cp_planEntries plan)"

definition plannedArchivePaths :: "create_plan option \<Rightarrow> string list" where
  "plannedArchivePaths plan =
     filter (\<lambda>p. p \<noteq> [])
       (map (\<lambda>entry. normalizeCreateArchivePath (Some (pe_path entry)))
         (case plan of None \<Rightarrow> [] | Some p \<Rightarrow> cp_planEntries p))"

definition createPlanFolderExists :: "plan_entry list \<Rightarrow> string option \<Rightarrow> bool" where
  "createPlanFolderExists entries folderPath =
     (let normalizedFolder = normalizeCreateArchivePath folderPath
      in if normalizedFolder = [] then True
         else list_ex (\<lambda>entry.
                let normalizedEntryPath = normalizeCreateArchivePath (Some (pe_path entry))
                in (normalizedEntryPath = normalizedFolder \<and> pe_kind entry = KDirectory)
                   \<or> prefix (normalizedFolder @ ''/'') normalizedEntryPath) entries)"

definition normalizeExistingCreateFolderPath :: "plan_entry list \<Rightarrow> string option \<Rightarrow> string option" where
  "normalizeExistingCreateFolderPath entries folderPath =
     (let normalizedFolder = normalizeCreateArchivePath folderPath
      in if normalizedFolder = [] then Some []
         else if createPlanFolderExists entries (Some normalizedFolder) then Some normalizedFolder else None)"

definition compareCreateArchivePaths :: "(string \<Rightarrow> string \<Rightarrow> int) \<Rightarrow> string \<Rightarrow> string \<Rightarrow> int" where
  "compareCreateArchivePaths localeCompare left right =
     (if left = [] \<and> right \<noteq> [] then -1
      else if left \<noteq> [] \<and> right = [] then 1
      else localeCompare left right)"

definition cw_normalizeExpandedTreeFolders :: "(string \<Rightarrow> string \<Rightarrow> int) \<Rightarrow> string list \<Rightarrow> string list" where
  "cw_normalizeExpandedTreeFolders localeCompare expandedFolders =
     js_sort (compareCreateArchivePaths localeCompare)
       (set_add_all (map (\<lambda>folder. normalizeCreateArchivePath (Some folder)) expandedFolders) (js_set [[]]))"

text \<open>The loop over the ancestors is the one of the archive workspace, \<open>add_ancestors\<close>.\<close>

definition cw_expandedFolderAndAncestors ::
    "(string \<Rightarrow> string \<Rightarrow> int) \<Rightarrow> string list \<Rightarrow> string \<Rightarrow> string list" where
  "cw_expandedFolderAndAncestors localeCompare expandedFolders folderPath =
     cw_normalizeExpandedTreeFolders localeCompare
       (add_ancestors (normalizeCreateArchivePath (Some folderPath))
         (js_set (cw_normalizeExpandedTreeFolders localeCompare expandedFolders)))"

definition pruneExpandedTreeFolders ::
    "(string \<Rightarrow> string \<Rightarrow> int) \<Rightarrow> string list \<Rightarrow> plan_entry list \<Rightarrow> string list" where
  "pruneExpandedTreeFolders localeCompare expandedFolders entries =
     filter (\<lambda>folderPath. createPlanFolderExists entries (Some folderPath))
       (cw_normalizeExpandedTreeFolders localeCompare expandedFolders)"

definition sortedExcludedArchivePaths :: "(string \<Rightarrow> string \<Rightarrow> int) \<Rightarrow> string list \<Rightarrow> string list" where
  "sortedExcludedArchivePaths localeCompare paths = js_sort localeCompare paths"

definition sameStringSet :: "string list \<Rightarrow> string list \<Rightarrow> bool" where
  "sameStringSet left right \<longleftrightarrow> length left = length right \<and> list_all (set_has right) left"

definition sameOrderedSources :: "string list \<Rightarrow> string list \<Rightarrow> bool" where
  "sameOrderedSources left right \<longleftrightarrow>
     length left = length right \<and> list_all (\<lambda>i. left ! i = right ! i) [0..<length left]"

section \<open>Rows and selection\<close>

definition cw_visibleRowsForState :: "cw_env \<Rightarrow> cw_state \<Rightarrow> plan_entry hier_row list" where
  "cw_visibleRowsForState env state =
     buildCreatePlanRows (cx_localeCompare env) (plan_entries state) (Some (cw_currentFolder state))
       (Some (cw_searchQuery state))"

definition visibleSelectablePathsForState :: "cw_env \<Rightarrow> cw_state \<Rightarrow> string list" where
  "visibleSelectablePathsForState env state = selectableHierarchicalRowPaths (cw_visibleRowsForState env state)"

definition normalizeCreateSelectedPaths :: "(string \<Rightarrow> string \<Rightarrow> int) \<Rightarrow> string list \<Rightarrow> string list" where
  "normalizeCreateSelectedPaths localeCompare paths =
     js_sort localeCompare (collect_normalised (\<lambda>p. normalizeCreateArchivePath (Some p)) paths)"

definition cw_selectionFromResult :: "cw_env \<Rightarrow> table_selection \<Rightarrow> cw_selection" where
  "cw_selectionFromResult env selection =
     \<lparr> cl_selectedPaths = normalizeCreateSelectedPaths (cx_localeCompare env) (sel_paths selection),
       cl_focusedPath = normalizeCreateArchivePath (Some (sel_focused selection)),
       cl_anchorPath = normalizeCreateArchivePath (Some (sel_anchor selection)) \<rparr>"

definition cleanupSelectionForRows ::
    "cw_env \<Rightarrow> cw_selection \<Rightarrow> plan_entry hier_row list \<Rightarrow> cw_selection" where
  "cleanupSelectionForRows env selection rows =
     cw_selectionFromResult env
       (cleanupHierarchicalTableSelection
         \<lparr> st_paths = js_set (cl_selectedPaths selection), st_focused = Some (cl_focusedPath selection),
           st_anchor = Some (cl_anchorPath selection) \<rparr>
         (selectableHierarchicalRowPaths rows) False)"

definition sameCreateSelection :: "cw_selection \<Rightarrow> cw_selection \<Rightarrow> bool" where
  "sameCreateSelection left right \<longleftrightarrow>
     sameOrderedSources (cl_selectedPaths left) (cl_selectedPaths right)
     \<and> cl_focusedPath left = cl_focusedPath right \<and> cl_anchorPath left = cl_anchorPath right"

definition cleanupSelectionForState :: "cw_env \<Rightarrow> cw_state \<Rightarrow> cw_state" where
  "cleanupSelectionForState env state =
     (let selection = cleanupSelectionForRows env (cw_selection state) (cw_visibleRowsForState env state)
      in if sameCreateSelection (cw_selection state) selection then state
         else state\<lparr> cw_selection := selection \<rparr>)"

definition applySelectionResult :: "cw_env \<Rightarrow> table_selection \<Rightarrow> cw_state \<Rightarrow> cw_state \<times> bool" where
  "applySelectionResult env selection state =
     (let nextSelection =
            cw_selectionFromResult env
              (cleanupHierarchicalTableSelection
                \<lparr> st_paths = sel_paths selection, st_focused = Some (sel_focused selection),
                  st_anchor = Some (sel_anchor selection) \<rparr>
                (visibleSelectablePathsForState env state) False);
          changed = (\<not> sameCreateSelection (cw_selection state) nextSelection)
      in (if changed then state\<lparr> cw_selection := nextSelection \<rparr> else state, changed))"

section \<open>Numbers and options\<close>

text \<open>\<open>number | string | null\<close>; a field of a patch that is \<open>undefined\<close> is \<open>None\<close>.\<close>

datatype js_scalar = ScNull | ScNumber jsnum | ScString string

definition finite_or_none :: "jsnum \<Rightarrow> rat option" where
  "finite_or_none v = (case v of Fin x \<Rightarrow> Some x | _ \<Rightarrow> None)"

definition normalizeOptionalNumber :: "(string \<Rightarrow> jsnum) \<Rightarrow> js_scalar option \<Rightarrow> rat option" where
  "normalizeOptionalNumber number v =
     (case v of
        None \<Rightarrow> None
      | Some ScNull \<Rightarrow> None
      | Some (ScString text) \<Rightarrow>
          (let trimmed = js_trim text in if trimmed = [] then None else finite_or_none (number trimmed))
      | Some (ScNumber n) \<Rightarrow> finite_or_none n)"

definition normalizeOptionalNonNegativeInteger :: "(string \<Rightarrow> jsnum) \<Rightarrow> js_scalar option \<Rightarrow> rat option" where
  "normalizeOptionalNonNegativeInteger number v =
     (case normalizeOptionalNumber number v of
        None \<Rightarrow> None
      | Some numeric \<Rightarrow> if numeric < 0 then None else Some (of_int \<lfloor>numeric\<rfloor>))"

definition normalizeTzapRecoveryOption :: "(string \<Rightarrow> jsnum) \<Rightarrow> js_scalar option \<Rightarrow> rat" where
  "normalizeTzapRecoveryOption number v =
     nullish (normalizeTzapRecoveryPercentage (map_option Fin (normalizeOptionalNumber number v)))
       TZAP_RECOVERY_PERCENTAGE_DEFAULT"

definition TZAP_SPLIT_DEFAULT_VOLUME_LOSS_TOLERANCE :: rat where
  "TZAP_SPLIT_DEFAULT_VOLUME_LOSS_TOLERANCE = 0"

definition normalizedOptionalPath :: "string option \<Rightarrow> string option" where
  "normalizedOptionalPath path = some_nonempty (nullish (map_option js_trim path) [])"

definition cw_joinNativePath :: "string \<Rightarrow> string \<Rightarrow> string" where
  "cw_joinNativePath parentPath childName =
     (let trimmedParent = rev (dropWhile (\<lambda>c. c = CHR 0x2F \<or> c = CHR 0x5C) (rev (js_trim parentPath)))
      in if trimmedParent = [] then childName
         else trimmedParent @ (if CHR 0x5C \<in> set trimmedParent then CHR 0x5C else CHR 0x2F) # childName)"

text \<open>
  \<open>value.split(/[...]+/).map(trim).filter(Boolean)\<close>: since the empty pieces are dropped, splitting at runs of
  separators and at each of them is the same.
\<close>

definition split_trimmed :: "char list \<Rightarrow> string \<Rightarrow> string list" where
  "split_trimmed separators v =
     filter (\<lambda>w. w \<noteq> []) (map js_trim (js_split (CHR 0x0A) (map (\<lambda>c. if c \<in> set separators then CHR 0x0A else c) v)))"

definition splitCertificatePaths :: "string \<Rightarrow> string list" where
  "splitCertificatePaths v = split_trimmed [CHR 0x3B, CHR 0x0D, CHR 0x0A] v"

definition splitSelectionIds :: "string \<Rightarrow> string list" where
  "splitSelectionIds v = split_trimmed [CHR 0x3B, CHR 0x2C, CHR 0x0D, CHR 0x0A] v"

definition hasTzapRecipientSelection :: "create_options \<Rightarrow> bool" where
  "hasTzapRecipientSelection options \<longleftrightarrow>
     splitCertificatePaths (co_tzapRecipientCertificatePaths options) \<noteq> []
     \<or> splitSelectionIds (co_tzapRecipientKeyIds options) \<noteq> []
     \<or> splitSelectionIds (co_tzapContactRecipientIds options) \<noteq> []"

definition tzapCertificateRequestFromState :: "create_options \<Rightarrow> string \<Rightarrow> tzap_certificates option" where
  "tzapCertificateRequestFromState options signingIdentityPassword =
     (let recipientCertificatePaths = splitCertificatePaths (co_tzapRecipientCertificatePaths options);
          recipientKeyIds = splitSelectionIds (co_tzapRecipientKeyIds options);
          contactRecipientIds = splitSelectionIds (co_tzapContactRecipientIds options);
          advanced = (co_tzapSigningMode options = SmAdvanced);
          signingP12Path = (if advanced then js_trim (co_tzapSigningIdentityPath options) else []);
          signingChainPaths = (if advanced then splitCertificatePaths (co_tzapSigningChainPaths options) else []);
          signingCertificatePath = (if advanced then js_trim (co_tzapSigningCertificatePath options) else []);
          signingPrivateKeyPath = (if advanced then js_trim (co_tzapSigningPrivateKeyPath options) else []);
          signingIdentityId =
            (if co_tzapSigningMode options = SmIdentity then js_trim (co_tzapSigningIdentityId options) else []);
          hasRecipientSelection =
            (recipientCertificatePaths \<noteq> [] \<or> recipientKeyIds \<noteq> [] \<or> contactRecipientIds \<noteq> [])
      in if \<not> hasRecipientSelection \<and> signingIdentityId = [] \<and> signingP12Path = [] \<and> signingCertificatePath = []
            \<and> signingPrivateKeyPath = [] \<and> signingChainPaths = []
         then None
         else Some \<lparr>
           tz_signingSelection = Some
             (if signingIdentityId \<noteq> [] then SigningEnrolled signingIdentityId
              else if signingP12Path \<noteq> [] then SigningPkcs12 signingP12Path signingIdentityPassword
              else if signingCertificatePath \<noteq> [] \<or> signingPrivateKeyPath \<noteq> [] \<or> signingChainPaths \<noteq> []
              then SigningCertificate signingCertificatePath signingPrivateKeyPath (Some signingChainPaths)
                     (some_nonempty signingIdentityPassword)
              else SigningNone),
           tz_recipientSelection =
             (if hasRecipientSelection
              then Some \<lparr> tr_recipientKeyIds = recipientKeyIds, tr_contactRecipientIds = contactRecipientIds,
                          tr_oneTimeCertificatePaths = recipientCertificatePaths \<rparr>
              else None) \<rparr>)"

text \<open>\<^verbatim>\<open>FormatCreateDefaults\<close> of \<^verbatim>\<open>preferences.ts\<close>.\<close>

datatype tzap_signing_default = TsNone | TsAccountDefault | TsIdentity

record format_create_defaults =
  fd_cleanSource :: bool
  fd_respectGitignore :: "bool option"
  fd_followSymlinks :: "bool option"
  fd_compressionLevel :: "jsnum option"
  fd_volumeSize :: "jsnum option"
  fd_tzapRecoveryPercentage :: "jsnum option"
  fd_tzapVolumeLossTolerance :: "jsnum option"
  fd_tzapSigningDefault :: "tzap_signing_default option"
  fd_tzapDefaultSigningIdentityId :: "string option"
  fd_tzapBootstrapSidecar :: "bool option"
  fd_zipCompression :: "zip_compression option"
  fd_sevenZSolid :: "bool option"
  fd_sevenZThreads :: "jsnum option"
  fd_sevenZChunkSize :: "jsnum option"
  fd_sevenZEncryptFileNames :: "bool option"
  fd_preserveMetadata :: bool
  fd_replaceExisting :: bool
  fd_promptForPassword :: bool

definition truthy_number :: "jsnum option \<Rightarrow> bool" where
  "truthy_number v = (case v of None \<Rightarrow> False | Some x \<Rightarrow> x \<noteq> Fin 0 \<and> x \<noteq> NaN)"

definition applyDefaultsToOptions ::
    "cw_env \<Rightarrow> create_options \<Rightarrow> create_format \<Rightarrow> format_create_defaults \<Rightarrow> create_options" where
  "applyDefaultsToOptions env options format defaults =
     (let volumeSize = normalizeCreateVolumeSize (fd_volumeSize defaults);
          tzap = (format = CfTzap); sevenZ = (format = CfSevenZ);
          scalar = map_option ScNumber
      in options\<lparr>
           co_format := format,
           co_cleanSource := fd_cleanSource defaults,
           co_respectGitignore := nullish (fd_respectGitignore defaults) False,
           co_followSymlinks := nullish (fd_followSymlinks defaults) False,
           co_replaceExisting := fd_replaceExisting defaults,
           co_preserveMetadata := fd_preserveMetadata defaults,
           co_compressionLevel :=
             normalizeOptionalNonNegativeInteger (cx_number env) (scalar (fd_compressionLevel defaults)),
           co_splitMode := (if volumeSize = None then SplitNone else SplitVolumeSize),
           co_volumeSize := volumeSize,
           co_volumeCount := None,
           co_tzapRecoveryPercentage :=
             (if tzap then normalizeTzapRecoveryOption (cx_number env) (scalar (fd_tzapRecoveryPercentage defaults))
              else TZAP_RECOVERY_PERCENTAGE_DEFAULT),
           co_tzapVolumeLossTolerance :=
             (if tzap \<and> truthy_number (fd_volumeSize defaults)
              then nullish (normalizeTzapVolumeLossTolerance (fd_tzapVolumeLossTolerance defaults))
                     TZAP_SPLIT_DEFAULT_VOLUME_LOSS_TOLERANCE
              else 0),
           co_zipCompression := (if format = CfZip then nullish (fd_zipCompression defaults) ZipDeflate else ZipDeflate),
           co_sevenZSolid := (if sevenZ then nullish (fd_sevenZSolid defaults) True else True),
           co_sevenZThreads := (if sevenZ then fd_sevenZThreads defaults else None),
           co_sevenZChunkSize :=
             (if sevenZ then Some (nullish (fd_sevenZChunkSize defaults) DEFAULT_CHUNK_SIZE) else None),
           co_sevenZEncryptFileNames := (if sevenZ then nullish (fd_sevenZEncryptFileNames defaults) True else True),
           co_tzapRecipientCertificatePaths := [],
           co_tzapRecipientKeyIds := [],
           co_tzapContactRecipientIds := [],
           co_tzapSigningMode := SmIdentity,
           co_tzapSigningIdentityId :=
             (if tzap \<and> fd_tzapSigningDefault defaults = Some TsIdentity
              then nullish (fd_tzapDefaultSigningIdentityId defaults) [] else []),
           co_tzapSigningIdentityPath := [],
           co_tzapSigningCertificatePath := [],
           co_tzapSigningPrivateKeyPath := [],
           co_tzapSigningChainPaths := [],
           co_tzapBootstrapSidecar := (if tzap then nullish (fd_tzapBootstrapSidecar defaults) False else False) \<rparr>)"

text \<open>\<open>===\<close> on numbers: \<open>NaN\<close> differs from itself; only the two fields kept as given could be \<open>NaN\<close>.\<close>

definition same_number :: "jsnum option \<Rightarrow> jsnum option \<Rightarrow> bool" where
  "same_number l r \<longleftrightarrow> l = r \<and> l \<noteq> Some NaN"

definition sameOptions :: "create_options \<Rightarrow> create_options \<Rightarrow> bool" where
  "sameOptions left right \<longleftrightarrow>
     co_destinationPath left = co_destinationPath right \<and> co_format left = co_format right
     \<and> co_cleanSource left = co_cleanSource right \<and> co_respectGitignore left = co_respectGitignore right
     \<and> co_followSymlinks left = co_followSymlinks right \<and> co_replaceExisting left = co_replaceExisting right
     \<and> co_preserveMetadata left = co_preserveMetadata right \<and> co_compressionLevel left = co_compressionLevel right
     \<and> co_splitMode left = co_splitMode right \<and> co_volumeSize left = co_volumeSize right
     \<and> co_volumeCount left = co_volumeCount right
     \<and> co_tzapRecoveryPercentage left = co_tzapRecoveryPercentage right
     \<and> co_tzapVolumeLossTolerance left = co_tzapVolumeLossTolerance right
     \<and> co_zipCompression left = co_zipCompression right \<and> co_sevenZSolid left = co_sevenZSolid right
     \<and> same_number (co_sevenZThreads left) (co_sevenZThreads right) \<and> same_number (co_sevenZChunkSize left) (co_sevenZChunkSize right)
     \<and> co_sevenZEncryptFileNames left = co_sevenZEncryptFileNames right
     \<and> co_tzapRecipientCertificatePaths left = co_tzapRecipientCertificatePaths right
     \<and> co_tzapRecipientKeyIds left = co_tzapRecipientKeyIds right
     \<and> co_tzapContactRecipientIds left = co_tzapContactRecipientIds right
     \<and> co_tzapSigningMode left = co_tzapSigningMode right
     \<and> co_tzapSigningIdentityId left = co_tzapSigningIdentityId right
     \<and> co_tzapSigningIdentityPath left = co_tzapSigningIdentityPath right
     \<and> co_tzapSigningCertificatePath left = co_tzapSigningCertificatePath right
     \<and> co_tzapSigningPrivateKeyPath left = co_tzapSigningPrivateKeyPath right
     \<and> co_tzapSigningChainPaths left = co_tzapSigningChainPaths right
     \<and> co_tzapBootstrapSidecar left = co_tzapBootstrapSidecar right
     \<and> co_submissionInFlight left = co_submissionInFlight right"

section \<open>Changing the state of the plan\<close>

definition isPlanInitial :: "cw_state \<Rightarrow> bool" where
  "isPlanInitial state \<longleftrightarrow>
     cw_planState state = CsIdle \<and> cw_currentPlan state = None \<and> cw_planStatus state = None
     \<and> length (cw_excludedArchivePaths state) = 0 \<and> cw_currentFolder state = [] \<and> cw_searchQuery state = []
     \<and> sameStringSet (cw_expandedTreeFolders state) [[]]
     \<and> sameCreateSelection (cw_selection state) emptyCreateSelection
     \<and> sameOptions (cw_options state) DEFAULT_CREATE_OPTIONS"

definition resetPlanState :: "cw_state \<Rightarrow> cw_state" where
  "resetPlanState state =
     state\<lparr> cw_planState := CsIdle, cw_currentPlan := None, cw_planStatus := None, cw_excludedArchivePaths := [],
            cw_currentFolder := [], cw_searchQuery := [], cw_expandedTreeFolders := [[]],
            cw_selection := emptyCreateSelection \<rparr>"

definition beginQueuedPlanState :: "cw_state \<Rightarrow> nat \<Rightarrow> cw_state" where
  "beginQueuedPlanState state revision =
     (if cw_sources state = []
      then state\<lparr> cw_planState := CsIdle, cw_currentPlan := None,
                  cw_planStatus := Some (plan_status_key PmNoSources), cw_planRevision := revision,
                  cw_excludedArchivePaths := [], cw_currentFolder := [], cw_searchQuery := [],
                  cw_expandedTreeFolders := [[]], cw_selection := emptyCreateSelection \<rparr>
      else state\<lparr> cw_planState := CsLoading, cw_planStatus := Some (plan_status_key PmPlanning),
                  cw_planRevision := revision \<rparr>)"

definition freezePlanStatus :: "plan_status \<Rightarrow> plan_status option" where
  "freezePlanStatus status =
     (if pt_messageKey status = None \<and> \<not> truthy (pt_fallbackText status) then None
      else Some \<lparr> pt_messageKey = pt_messageKey status,
                  pt_fallbackText = (if truthy (pt_fallbackText status) then pt_fallbackText status else None) \<rparr>)"

definition setPlanErrorState :: "cw_state \<Rightarrow> plan_status \<Rightarrow> cw_state" where
  "setPlanErrorState state status =
     (let nextView = (if cw_currentPlan state \<noteq> None
                      then (cw_currentFolder state, cw_searchQuery state, cw_expandedTreeFolders state)
                      else ([], [], [[]]))
      in state\<lparr> cw_planState := CsError, cw_planStatus := freezePlanStatus status,
                cw_currentFolder := fst nextView, cw_searchQuery := fst (snd nextView),
                cw_expandedTreeFolders := snd (snd nextView),
                cw_selection :=
                  (if cw_currentPlan state \<noteq> None then cw_selection state else emptyCreateSelection) \<rparr>)"

definition refreshPlanAfterTransientInputEdit :: "cw_state \<Rightarrow> cw_state" where
  "refreshPlanAfterTransientInputEdit state =
     (if cw_planState state \<noteq> CsError \<or> cw_currentPlan state = None then state
      else state\<lparr> cw_planState := CsReady, cw_planStatus := None \<rparr>)"

definition pruneExcludedPathsForPlan :: "cw_state \<Rightarrow> cw_state" where
  "pruneExcludedPathsForPlan state =
     (case cw_currentPlan state of
        None \<Rightarrow> state
      | Some plan \<Rightarrow>
          let plannedPaths = js_set (plannedArchivePaths (Some plan))
          in state\<lparr> cw_excludedArchivePaths :=
                      js_set (filter (set_has plannedPaths) (cw_excludedArchivePaths state)) \<rparr>)"

definition reconcileViewForPlan :: "cw_env \<Rightarrow> cw_state \<Rightarrow> cw_state" where
  "reconcileViewForPlan env state =
     (case cw_currentPlan state of
        None \<Rightarrow> state\<lparr> cw_currentFolder := [], cw_searchQuery := [], cw_expandedTreeFolders := [[]] \<rparr>
      | Some plan \<Rightarrow>
          let entries = cp_planEntries plan; lc = cx_localeCompare env;
              currentFolder = (if createPlanFolderExists entries (Some (cw_currentFolder state))
                               then cw_currentFolder state else []);
              expanded = cw_expandedFolderAndAncestors lc
                           (pruneExpandedTreeFolders lc (cw_expandedTreeFolders state) entries) currentFolder
          in state\<lparr> cw_currentFolder := currentFolder, cw_expandedTreeFolders := js_set expanded,
                    cw_selection :=
                      cleanupSelectionForRows env (cw_selection state)
                        (buildCreatePlanRows lc entries (Some currentFolder) (Some (cw_searchQuery state))) \<rparr>)"

section \<open>Sources\<close>

text \<open>The elements of \<open>readonly unknown[]\<close>: \<open>None\<close> is anything but a string.\<close>

definition normalizeSourcePaths :: "string option list \<Rightarrow> string list" where
  "normalizeSourcePaths paths = collect_normalised js_trim (List.map_filter (\<lambda>p. p) paths)"

record source_mutation =
  sm_changed :: bool
  sm_addedSources :: "string list"
  sm_removedSources :: "string list"
  sm_becameEmpty :: bool

definition mutationResult ::
    "cw_state \<Rightarrow> bool \<Rightarrow> string list \<Rightarrow> string list \<Rightarrow> cw_state \<times> source_mutation" where
  "mutationResult state changed addedSources removedSources =
     (state, \<lparr> sm_changed = changed, sm_addedSources = addedSources, sm_removedSources = removedSources,
               sm_becameEmpty = (changed \<and> cw_sources state = []) \<rparr>)"

definition cw_addSources :: "string option list \<Rightarrow> cw_state \<Rightarrow> cw_state \<times> source_mutation" where
  "cw_addSources paths state =
     (let normalizedPaths = normalizeSourcePaths paths
      in if normalizedPaths = [] then mutationResult state False [] []
         else let addedSources = filter (\<lambda>path. \<not> set_has (cw_sources state) path) normalizedPaths
              in if addedSources = [] then mutationResult state False [] []
                 else mutationResult
                        ((resetPlanState state)\<lparr> cw_sources := cw_sources state @ addedSources \<rparr>)
                        True addedSources [])"

definition cw_setSources :: "string option list \<Rightarrow> cw_state \<Rightarrow> cw_state \<times> source_mutation" where
  "cw_setSources paths state =
     (let nextSources = normalizeSourcePaths paths;
          addedSources = filter (\<lambda>path. \<not> set_has (cw_sources state) path) nextSources;
          removedSources = filter (\<lambda>path. \<not> set_has nextSources path) (cw_sources state);
          changed = (\<not> sameOrderedSources (cw_sources state) nextSources)
      in mutationResult
           (if changed then (resetPlanState state)\<lparr> cw_sources := nextSources \<rparr> else state)
           changed addedSources removedSources)"

definition cw_removeSources :: "string option list \<Rightarrow> cw_state \<Rightarrow> cw_state \<times> source_mutation" where
  "cw_removeSources paths state =
     (let removals = js_set (normalizeSourcePaths paths)
      in if length removals = 0 then mutationResult state False [] []
         else let nextSources = filter (\<lambda>path. \<not> set_has removals path) (cw_sources state);
                  removedSources = filter (set_has removals) (cw_sources state)
              in if removedSources = [] then mutationResult state False [] []
                 else mutationResult ((resetPlanState state)\<lparr> cw_sources := nextSources \<rparr>) True [] removedSources)"

definition cw_clearSources :: "cw_state \<Rightarrow> cw_state \<times> source_mutation" where
  "cw_clearSources state =
     (if cw_sources state = [] then mutationResult state False [] []
      else mutationResult ((resetPlanState state)\<lparr> cw_sources := [] \<rparr>) True [] (cw_sources state))"

text \<open>The state that \<open>reset\<close> and \<open>resetAfterAcceptedStart\<close> write.\<close>

definition restarted :: "cw_state \<Rightarrow> create_options \<Rightarrow> cw_state" where
  "restarted state options =
     \<lparr> cw_sources = [], cw_planState = CsIdle, cw_currentPlan = None, cw_planStatus = None,
       cw_planRevision = cw_planRevision state + 1, cw_excludedArchivePaths = [], cw_currentFolder = [],
       cw_searchQuery = [], cw_expandedTreeFolders = [[]], cw_selection = emptyCreateSelection,
       cw_options = options\<lparr> co_destinationPath := [], co_submissionInFlight := False \<rparr>,
       cw_columnSettings = cw_columnSettings state \<rparr>"

definition cw_reset :: "cw_state \<Rightarrow> cw_state \<times> source_mutation" where
  "cw_reset state =
     (if cw_sources state = [] \<and> isPlanInitial state then mutationResult state False [] []
      else mutationResult (restarted state (cw_options state)) True [] (cw_sources state))"

definition resetAfterAcceptedStart ::
    "cw_env \<Rightarrow> create_format option \<Rightarrow> format_create_defaults option \<Rightarrow> cw_state \<Rightarrow> cw_state \<times> source_mutation" where
  "resetAfterAcceptedStart env format defaults state =
     (let nextOptions = (case (format, defaults) of
                           (Some f, Some d) \<Rightarrow> applyDefaultsToOptions env (cw_options state) f d
                         | _ \<Rightarrow> cw_options state)
      in mutationResult (restarted state nextOptions) True [] (cw_sources state))"

section \<open>Planning\<close>

record plan_options =
  po_cleanSource :: "bool option"
  po_respectGitignore :: "bool option"
  po_excludeNames :: "string list option"
  po_excludeArchivePaths :: "string list option"
  po_includeArchivePaths :: "string list option"
  po_followSymlinks :: "bool option"

record plan_create_request =
  pq_sources :: "string list"
  pq_cleanSource :: bool
  pq_respectGitignore :: bool
  pq_excludeNames :: "string list option"
  pq_excludeArchivePaths :: "string list option"
  pq_includeArchivePaths :: "string list option"
  pq_followSymlinks :: bool

definition planOptionsFromState :: "cw_state \<Rightarrow> plan_options" where
  "planOptionsFromState state =
     \<lparr> po_cleanSource = Some (co_cleanSource (cw_options state)),
       po_respectGitignore = Some (co_respectGitignore (cw_options state)),
       po_excludeNames = Some [], po_excludeArchivePaths = Some [], po_includeArchivePaths = Some [],
       po_followSymlinks = Some (co_followSymlinks (cw_options state)) \<rparr>"

text \<open>\<open>{...left, ...right}\<close>: the fields that \<open>right\<close> has win.\<close>

definition merge_plan_options :: "plan_options \<Rightarrow> plan_options \<Rightarrow> plan_options" where
  "merge_plan_options left right =
     (let pick = (\<lambda>r l. case r of None \<Rightarrow> l | Some x \<Rightarrow> Some x);
          pick_list = (\<lambda>r l. case r of None \<Rightarrow> l | Some x \<Rightarrow> Some x)
      in \<lparr> po_cleanSource = pick (po_cleanSource right) (po_cleanSource left),
           po_respectGitignore = pick (po_respectGitignore right) (po_respectGitignore left),
           po_excludeNames = pick_list (po_excludeNames right) (po_excludeNames left),
           po_excludeArchivePaths = pick_list (po_excludeArchivePaths right) (po_excludeArchivePaths left),
           po_includeArchivePaths = pick_list (po_includeArchivePaths right) (po_includeArchivePaths left),
           po_followSymlinks = pick (po_followSymlinks right) (po_followSymlinks left) \<rparr>)"

definition normalizeOptionalStrings :: "string list \<Rightarrow> string list" where
  "normalizeOptionalStrings vs = filter (\<lambda>v. v \<noteq> []) (map js_trim vs)"

definition buildPlanCreateRequest :: "string list \<Rightarrow> plan_options \<Rightarrow> plan_create_request" where
  "buildPlanCreateRequest sources options =
     \<lparr> pq_sources = sources, pq_cleanSource = nullish (po_cleanSource options) False,
       pq_respectGitignore = nullish (po_respectGitignore options) False,
       pq_excludeNames = map_option normalizeOptionalStrings (nonempty_list (po_excludeNames options)),
       pq_excludeArchivePaths = map_option normalizeOptionalStrings (nonempty_list (po_excludeArchivePaths options)),
       pq_includeArchivePaths = map_option normalizeOptionalStrings (nonempty_list (po_includeArchivePaths options)),
       pq_followSymlinks = nullish (po_followSymlinks options) False \<rparr>"

definition cw_queuePlan :: "cw_state \<Rightarrow> cw_state \<times> nat \<times> bool" where
  "cw_queuePlan state =
     (let revision = cw_planRevision state + 1; state' = beginQueuedPlanState state revision
      in (state', revision, cw_sources state' \<noteq> []))"

datatype begin_plan_result =
    PlanStarts (started_revision: nat) (started_request: plan_create_request)
  | PlanNeedsSources nat
  | PlanStale nat

definition cw_beginPlan :: "plan_options option \<Rightarrow> nat option \<Rightarrow> cw_state \<Rightarrow> cw_state \<times> begin_plan_result" where
  "cw_beginPlan options revision state =
     (let nextRevision = nullish revision (cw_planRevision state + 1)
      in if revision \<noteq> None \<and> revision \<noteq> Some (cw_planRevision state) then (state, PlanStale nextRevision)
         else let state' = beginQueuedPlanState state nextRevision
              in if cw_sources state' = [] then (state', PlanNeedsSources nextRevision)
                 else (state', PlanStarts nextRevision
                        (buildPlanCreateRequest (cw_sources state')
                          (case options of
                             None \<Rightarrow> planOptionsFromState state'
                           | Some o' \<Rightarrow> merge_plan_options (planOptionsFromState state') o'))))"

definition cw_acceptPlanResult :: "cw_env \<Rightarrow> nat \<Rightarrow> create_plan \<Rightarrow> cw_state \<Rightarrow> cw_state \<times> bool" where
  "cw_acceptPlanResult env revision plan state =
     (if revision \<noteq> cw_planRevision state then (state, False)
      else (reconcileViewForPlan env
              (pruneExcludedPathsForPlan
                (state\<lparr> cw_planState := CsReady, cw_currentPlan := Some plan, cw_planStatus := None \<rparr>)), True))"

definition cw_acceptPlanError :: "nat \<Rightarrow> plan_status \<Rightarrow> cw_state \<Rightarrow> cw_state \<times> bool" where
  "cw_acceptPlanError revision status state =
     (if revision \<noteq> cw_planRevision state then (state, False) else (setPlanErrorState state status, True))"

definition cw_setPlanError :: "plan_status \<Rightarrow> cw_state \<Rightarrow> cw_state" where
  "cw_setPlanError status state = setPlanErrorState state status"

definition refreshPlanAfterDestinationEdit :: "cw_state \<Rightarrow> cw_state" where
  "refreshPlanAfterDestinationEdit state =
     (if cw_planState state = CsError \<and> cw_currentPlan state \<noteq> None
      then state\<lparr> cw_planState := CsReady, cw_planStatus := None \<rparr> else state)"

section \<open>Options and destination\<close>

record option_patch =
  op_destinationPath :: "string option"
  op_cleanSource :: "bool option"
  op_respectGitignore :: "bool option"
  op_followSymlinks :: "bool option"
  op_replaceExisting :: "bool option"
  op_preserveMetadata :: "bool option"
  op_compressionLevel :: "js_scalar option"
  op_splitMode :: "split_mode option"
  op_volumeSize :: "js_scalar option"
  op_volumeCount :: "js_scalar option"
  op_tzapRecoveryPercentage :: "js_scalar option"
  op_tzapVolumeLossTolerance :: "js_scalar option"
  op_zipCompression :: "zip_compression option"
  op_sevenZSolid :: "bool option"
  op_sevenZThreads :: "js_scalar option"
  op_sevenZChunkSize :: "js_scalar option"
  op_sevenZEncryptFileNames :: "bool option"
  op_tzapRecipientCertificatePaths :: "string option"
  op_tzapRecipientKeyIds :: "string option"
  op_tzapContactRecipientIds :: "string option"
  op_tzapSigningMode :: "signing_mode option"
  op_tzapSigningIdentityId :: "string option"
  op_tzapSigningIdentityPath :: "string option"
  op_tzapSigningCertificatePath :: "string option"
  op_tzapSigningPrivateKeyPath :: "string option"
  op_tzapSigningChainPaths :: "string option"
  op_tzapBootstrapSidecar :: "bool option"

definition patched :: "'a option \<Rightarrow> 'a \<Rightarrow> 'a" where
  "patched new old = (case new of None \<Rightarrow> old | Some x \<Rightarrow> x)"

definition patched_by :: "('b option \<Rightarrow> 'a) \<Rightarrow> 'b option \<Rightarrow> 'a \<Rightarrow> 'a" where
  "patched_by f new old = (case new of None \<Rightarrow> old | Some x \<Rightarrow> f (Some x))"

text \<open>The object literal of \<open>setOptions\<close>.\<close>

definition patched_options :: "cw_env \<Rightarrow> option_patch \<Rightarrow> create_options \<Rightarrow> create_options" where
  "patched_options env patch options =
     (let num = normalizeOptionalNumber (cx_number env);
          volume = (\<lambda>v. normalizeCreateVolumeSize (map_option Fin (num v)))
      in options\<lparr>
           co_destinationPath := patched (op_destinationPath patch) (co_destinationPath options),
           co_cleanSource := patched (op_cleanSource patch) (co_cleanSource options),
           co_respectGitignore := patched (op_respectGitignore patch) (co_respectGitignore options),
           co_followSymlinks := patched (op_followSymlinks patch) (co_followSymlinks options),
           co_replaceExisting := patched (op_replaceExisting patch) (co_replaceExisting options),
           co_preserveMetadata := patched (op_preserveMetadata patch) (co_preserveMetadata options),
           co_compressionLevel :=
             patched_by (normalizeOptionalNonNegativeInteger (cx_number env)) (op_compressionLevel patch)
               (co_compressionLevel options),
           co_splitMode := patched (op_splitMode patch) (co_splitMode options),
           co_volumeSize := patched_by volume (op_volumeSize patch) (co_volumeSize options),
           co_volumeCount :=
             patched_by (\<lambda>v. normalizeTzapVolumeCount (map_option Fin (num v))) (op_volumeCount patch)
               (co_volumeCount options),
           co_tzapRecoveryPercentage :=
             patched_by (normalizeTzapRecoveryOption (cx_number env)) (op_tzapRecoveryPercentage patch)
               (co_tzapRecoveryPercentage options),
           co_tzapVolumeLossTolerance :=
             patched_by (\<lambda>v. nullish (normalizeTzapVolumeLossTolerance (map_option Fin (num v))) 0)
               (op_tzapVolumeLossTolerance patch) (co_tzapVolumeLossTolerance options),
           co_zipCompression := patched (op_zipCompression patch) (co_zipCompression options),
           co_sevenZSolid := patched (op_sevenZSolid patch) (co_sevenZSolid options),
           co_sevenZThreads :=
             patched_by (\<lambda>v. map_option Fin (normalizeOptionalNonNegativeInteger (cx_number env) v))
               (op_sevenZThreads patch) (co_sevenZThreads options),
           co_sevenZChunkSize :=
             patched_by (\<lambda>v. map_option Fin (volume v)) (op_sevenZChunkSize patch) (co_sevenZChunkSize options),
           co_sevenZEncryptFileNames := patched (op_sevenZEncryptFileNames patch) (co_sevenZEncryptFileNames options),
           co_tzapRecipientCertificatePaths :=
             patched (op_tzapRecipientCertificatePaths patch) (co_tzapRecipientCertificatePaths options),
           co_tzapRecipientKeyIds := patched (op_tzapRecipientKeyIds patch) (co_tzapRecipientKeyIds options),
           co_tzapContactRecipientIds := patched (op_tzapContactRecipientIds patch) (co_tzapContactRecipientIds options),
           co_tzapSigningMode := patched (op_tzapSigningMode patch) (co_tzapSigningMode options),
           co_tzapSigningIdentityId := patched (op_tzapSigningIdentityId patch) (co_tzapSigningIdentityId options),
           co_tzapSigningIdentityPath := patched (op_tzapSigningIdentityPath patch) (co_tzapSigningIdentityPath options),
           co_tzapSigningCertificatePath :=
             patched (op_tzapSigningCertificatePath patch) (co_tzapSigningCertificatePath options),
           co_tzapSigningPrivateKeyPath :=
             patched (op_tzapSigningPrivateKeyPath patch) (co_tzapSigningPrivateKeyPath options),
           co_tzapSigningChainPaths := patched (op_tzapSigningChainPaths patch) (co_tzapSigningChainPaths options),
           co_tzapBootstrapSidecar := patched (op_tzapBootstrapSidecar patch) (co_tzapBootstrapSidecar options) \<rparr>)"

text \<open>The statements after the literal that keep the split mode and the two sizes together.\<close>

definition split_by_mode :: "option_patch \<Rightarrow> create_options \<Rightarrow> create_options" where
  "split_by_mode patch o' =
     (if op_splitMode patch = None then o'
      else (case co_splitMode o' of
              SplitNone \<Rightarrow> o'\<lparr> co_volumeSize := None, co_volumeCount := None \<rparr>
            | SplitVolumeSize \<Rightarrow> o'\<lparr> co_volumeCount := None \<rparr>
            | SplitVolumeCount \<Rightarrow> o'\<lparr> co_volumeSize := None \<rparr>))"

definition split_by_size :: "option_patch \<Rightarrow> create_options \<Rightarrow> create_options" where
  "split_by_size patch o' =
     (if op_volumeSize patch = None then o'
      else o'\<lparr> co_splitMode := (if co_volumeSize o' = None then SplitNone else SplitVolumeSize),
               co_volumeCount := None \<rparr>)"

definition split_by_count :: "option_patch \<Rightarrow> create_options \<Rightarrow> create_options" where
  "split_by_count patch o' =
     (if op_volumeCount patch = None then o'
      else o'\<lparr> co_splitMode := (if co_volumeCount o' = None then SplitNone else SplitVolumeCount),
               co_volumeSize := None \<rparr>)"

definition split_tolerance :: "create_options \<Rightarrow> option_patch \<Rightarrow> create_options \<Rightarrow> create_options" where
  "split_tolerance options patch o' =
     (if co_format options = CfTzap \<and> co_splitMode o' = SplitNone
      then o'\<lparr> co_tzapVolumeLossTolerance := 0 \<rparr>
      else if co_format options = CfTzap \<and> (op_volumeSize patch \<noteq> None \<or> op_volumeCount patch \<noteq> None)
              \<and> co_splitMode options = SplitNone \<and> op_tzapVolumeLossTolerance patch = None
      then o'\<lparr> co_tzapVolumeLossTolerance := TZAP_SPLIT_DEFAULT_VOLUME_LOSS_TOLERANCE \<rparr>
      else o')"

definition next_options :: "cw_env \<Rightarrow> option_patch \<Rightarrow> create_options \<Rightarrow> create_options" where
  "next_options env patch options =
     split_tolerance options patch
       (split_by_count patch (split_by_size patch (split_by_mode patch (patched_options env patch options))))"

definition plan_will_refresh :: "cw_state \<Rightarrow> bool" where
  "plan_will_refresh state \<longleftrightarrow> cw_planState state = CsError \<and> cw_currentPlan state \<noteq> None"

definition cw_setOptions :: "cw_env \<Rightarrow> option_patch \<Rightarrow> cw_state \<Rightarrow> cw_state \<times> bool" where
  "cw_setOptions env patch state =
     (let nextOptions = next_options env patch (cw_options state);
          optionsChanged = (\<not> sameOptions (cw_options state) nextOptions)
      in if \<not> optionsChanged \<and> \<not> plan_will_refresh state then (state, False)
         else (refreshPlanAfterTransientInputEdit (state\<lparr> cw_options := nextOptions \<rparr>), True))"

definition suggestedDestinationPathFromOptions ::
    "cw_env \<Rightarrow> string list \<Rightarrow> create_format \<Rightarrow> string option \<Rightarrow> string" where
  "suggestedDestinationPathFromOptions env sources format defaultDirectory =
     (let sourceParentDirectory = commonSourceParentDirectory (cx_nativeParentPath env) sources;
          directory = (case normalizedOptionalPath defaultDirectory of
                         Some d \<Rightarrow> Some d
                       | None \<Rightarrow> sourceParentDirectory);
          nameSource = (if length sources > 1
                        then (if truthy sourceParentDirectory then [the sourceParentDirectory] else [])
                        else sources);
          name = suggestedCreateArchiveName nameSource format ''archive'' False
      in if truthy directory then cw_joinNativePath (the directory) name else name)"

definition suggestedDestinationPathFromState :: "cw_env \<Rightarrow> cw_state \<Rightarrow> string option \<Rightarrow> string" where
  "suggestedDestinationPathFromState env state defaultDirectory =
     suggestedDestinationPathFromOptions env (cw_sources state) (co_format (cw_options state)) defaultDirectory"

definition suggestedArchiveName :: "string list option \<Rightarrow> cw_state \<Rightarrow> string" where
  "suggestedArchiveName sources state =
     suggestedCreateArchiveName (nullish sources (cw_sources state)) (co_format (cw_options state)) ''archive'' False"

abbreviation set_options :: "create_options \<Rightarrow> cw_state \<Rightarrow> cw_state" where
  "set_options o' state \<equiv> state\<lparr> cw_options := o' \<rparr>"

abbreviation set_destination :: "string \<Rightarrow> cw_state \<Rightarrow> cw_state" where
  "set_destination path state \<equiv> set_options ((cw_options state)\<lparr> co_destinationPath := path \<rparr>) state"

definition applyFormatDefaults ::
    "cw_env \<Rightarrow> create_format \<Rightarrow> format_create_defaults \<Rightarrow> string option option \<Rightarrow> cw_state \<Rightarrow> cw_state \<times> bool" where
  "applyFormatDefaults env format defaults suggestionOptions state =
     (let applied = applyDefaultsToOptions env (cw_options state) format defaults;
          nextOptions =
            (case suggestionOptions of
               Some defaultDirectory \<Rightarrow>
                 if js_trim (co_destinationPath applied) = [] \<and> cw_sources state \<noteq> []
                 then applied\<lparr> co_destinationPath :=
                        suggestedDestinationPathFromOptions env (cw_sources state) (co_format applied) defaultDirectory \<rparr>
                 else applied
             | None \<Rightarrow> applied);
          changed = (\<not> sameOptions (cw_options state) nextOptions)
      in (if changed then set_options nextOptions state else state, changed))"

definition changeFormat ::
    "cw_env \<Rightarrow> create_format \<Rightarrow> format_create_defaults \<Rightarrow> cw_state \<Rightarrow> cw_state \<times> bool" where
  "changeFormat env format defaults state =
     (let applied = applyDefaultsToOptions env (cw_options state) format defaults;
          path = co_destinationPath (cw_options state);
          nextOptions = (if js_trim path \<noteq> []
                         then applied\<lparr> co_destinationPath := withCreateArchiveExtension path format False \<rparr>
                         else applied);
          changed = (\<not> sameOptions (cw_options state) nextOptions)
      in (if changed then set_options nextOptions state else state, changed))"

definition setDestinationPath :: "string \<Rightarrow> cw_state \<Rightarrow> cw_state \<times> bool" where
  "setDestinationPath path state =
     (if co_destinationPath (cw_options state) = path \<and> \<not> plan_will_refresh state then (state, False)
      else (refreshPlanAfterTransientInputEdit (set_destination path state), True))"

definition fill_blank_destination :: "string \<Rightarrow> cw_state \<Rightarrow> cw_state \<times> bool" where
  "fill_blank_destination nextPath state =
     (let changed = (co_destinationPath (cw_options state) \<noteq> nextPath)
      in (if changed then set_destination nextPath state else state, changed))"

definition setDestinationPathIfBlank :: "string \<Rightarrow> cw_state \<Rightarrow> cw_state \<times> bool" where
  "setDestinationPathIfBlank path state =
     (if js_trim (co_destinationPath (cw_options state)) \<noteq> [] then (state, False)
      else fill_blank_destination (js_trim path) state)"

definition suggestDestinationPathIfBlank :: "cw_env \<Rightarrow> string option \<Rightarrow> cw_state \<Rightarrow> cw_state \<times> bool" where
  "suggestDestinationPathIfBlank env defaultDirectory state =
     (if js_trim (co_destinationPath (cw_options state)) \<noteq> [] then (state, False)
      else fill_blank_destination (suggestedDestinationPathFromState env state defaultDirectory) state)"

definition destinationPathWithFormatExtension :: "string option \<Rightarrow> cw_state \<Rightarrow> string" where
  "destinationPathWithFormatExtension path state =
     withCreateArchiveExtension (nullish path (co_destinationPath (cw_options state))) (co_format (cw_options state)) False"

definition archiveNameForOutputFolder :: "cw_state \<Rightarrow> string \<Rightarrow> string" where
  "archiveNameForOutputFolder state destinationPath =
     str_or (js_trim (getArchiveName (withCreateArchiveExtension destinationPath (co_format (cw_options state)) False) []))
       (suggestedCreateArchiveName (cw_sources state) (co_format (cw_options state)) ''archive'' False)"

definition destinationPathForOutputFolder :: "string \<Rightarrow> string option \<Rightarrow> cw_state \<Rightarrow> string" where
  "destinationPathForOutputFolder folderPath destinationPath state =
     withCreateArchiveExtension
       (cw_joinNativePath folderPath
         (archiveNameForOutputFolder state (nullish destinationPath (co_destinationPath (cw_options state)))))
       (co_format (cw_options state)) False"

definition ensureDestinationExtension :: "cw_state \<Rightarrow> cw_state \<times> bool \<times> string" where
  "ensureDestinationExtension state =
     (let destinationPath =
            withCreateArchiveExtension (co_destinationPath (cw_options state)) (co_format (cw_options state)) False;
          changed = (destinationPath \<noteq> [] \<and> co_destinationPath (cw_options state) \<noteq> destinationPath)
      in (if changed then set_destination destinationPath state else state, changed, destinationPath))"

definition setSubmissionInFlight :: "bool \<Rightarrow> cw_state \<Rightarrow> cw_state \<times> bool" where
  "setSubmissionInFlight inFlight state =
     (if co_submissionInFlight (cw_options state) = inFlight then (state, False)
      else (set_options ((cw_options state)\<lparr> co_submissionInFlight := inFlight \<rparr>) state, True))"

section \<open>Starting\<close>

record start_input =
  si_password :: "string option"
  si_passwordConfirm :: "string option"
  si_signingIdentityPassword :: "string option"
  si_destinationCollisionStrategy :: "collision_strategy option"

datatype start_unavailable = SuReason create_unavailable | SuPasswordMismatch

datatype start_result =
    StartRequest start_create_request
  | StartUnavailable start_unavailable "plan_status option"

definition start_build_input :: "cw_env \<Rightarrow> cw_state \<Rightarrow> string \<Rightarrow> string \<Rightarrow> collision_strategy option \<Rightarrow> build_create_input" where
  "start_build_input env state password signingIdentityPassword strategy =
     (let o' = cw_options state; tzap = (co_format o' = CfTzap); sevenZ = (co_format o' = CfSevenZ)
      in \<lparr> bc_sources = cw_sources state, bc_destinationPath = co_destinationPath o', bc_format = co_format o',
           bc_cleanSource = co_cleanSource o', bc_excludeNames = None,
           bc_excludeArchivePaths = Some (sortedExcludedArchivePaths (cx_localeCompare env) (cw_excludedArchivePaths state)),
           bc_includeArchivePaths = None, bc_respectGitignore = Some (co_respectGitignore o'),
           bc_followSymlinks = Some (co_followSymlinks o'), bc_replaceExisting = co_replaceExisting o',
           bc_destinationCollisionStrategy = strategy, bc_preserveMetadata = co_preserveMetadata o',
           bc_password = some_nonempty password, bc_compressionLevel = map_option Fin (co_compressionLevel o'),
           bc_splitMode = Some (co_splitMode o'), bc_volumeSize = map_option Fin (co_volumeSize o'),
           bc_volumeCount = map_option Fin (co_volumeCount o'),
           bc_tzapRecoveryPercentage = (if tzap then Some (Fin (co_tzapRecoveryPercentage o')) else None),
           bc_tzapVolumeLossTolerance = (if tzap then Some (Fin (co_tzapVolumeLossTolerance o')) else None),
           bc_zipCompression = (if co_format o' = CfZip then Some (co_zipCompression o') else None),
           bc_sevenZSolid = (if sevenZ then Some (co_sevenZSolid o') else None),
           bc_sevenZThreads = (if sevenZ then co_sevenZThreads o' else None),
           bc_sevenZChunkSize = (if sevenZ then co_sevenZChunkSize o' else None),
           bc_sevenZEncryptFileNames = (if sevenZ then Some (co_sevenZEncryptFileNames o') else None),
           bc_tzapCertificates = (if tzap then tzapCertificateRequestFromState o' signingIdentityPassword else None),
           bc_tzapBootstrapSidecar = (if tzap then Some (co_tzapBootstrapSidecar o') else None) \<rparr>)"

definition buildStartCreateRequestFromState ::
    "cw_env \<Rightarrow> cw_state \<Rightarrow> string \<Rightarrow> string \<Rightarrow> collision_strategy option \<Rightarrow> start_create_request" where
  "buildStartCreateRequestFromState env state password signingIdentityPassword strategy =
     buildStartCreateRequest (start_build_input env state password signingIdentityPassword strategy)"

text \<open>The settings that decide whether creation is available; the snapshot and the start of a creation ask the same.\<close>

definition availability_of :: "cw_state \<Rightarrow> nat option \<Rightarrow> availability_input" where
  "availability_of state includedEntryCount =
     (let o' = cw_options state
      in \<lparr> ai_sourceCount = length (cw_sources state), ai_includedEntryCount = includedEntryCount,
           ai_destinationPath = co_destinationPath o', ai_planState = cw_planState state,
           ai_hasPlan = (cw_currentPlan state \<noteq> None), ai_submissionInFlight = co_submissionInFlight o',
           ai_format = Some (co_format o'), ai_splitMode = Some (co_splitMode o'),
           ai_volumeSize = map_option Fin (co_volumeSize o'), ai_volumeCount = map_option Fin (co_volumeCount o'),
           ai_tzapVolumeLossTolerance = Some (Fin (co_tzapVolumeLossTolerance o')),
           ai_recipientEncryptionSelected = hasTzapRecipientSelection o' \<rparr>)"

text \<open>A refusal that shows a message puts the plan in the error state.\<close>

definition refuse_start :: "cw_state \<Rightarrow> plan_message \<Rightarrow> start_unavailable \<Rightarrow> cw_state \<times> start_result" where
  "refuse_start state m reason =
     (let state' = setPlanErrorState state (plan_status_key m) in (state', StartUnavailable reason (cw_planStatus state')))"

text \<open>The checks, made on the state whose destination has its extension.\<close>

definition start_checked :: "cw_env \<Rightarrow> start_input \<Rightarrow> string \<Rightarrow> cw_state \<Rightarrow> cw_state \<times> start_result" where
  "start_checked env input destinationPath state =
     (if co_submissionInFlight (cw_options state) then (state, StartUnavailable (SuReason Starting) None)
      else if cw_sources state = [] then (state, StartUnavailable (SuReason NeedsSources) None)
      else if destinationPath = [] then refuse_start state PmPickDestination (SuReason NeedsDestination)
      else if cw_planState state = CsLoading then refuse_start state PmRefreshPlan (SuReason Planning)
      else if cw_planState state \<noteq> CsReady \<or> cw_currentPlan state = None
      then refuse_start state PmRefreshPlan (SuReason NeedsPlan)
      else let includedPlan =
                 filterCreatePlanByIncludedPaths (the (cw_currentPlan state)) (PathSet (cw_excludedArchivePaths state))
           in if cp_planEntries includedPlan = [] then (state, StartUnavailable (SuReason NeedsIncludedEntries) None)
              else if \<not> isCreateSplitConfigurationValid (availability_of state None)
              then refuse_start state PmInvalidSplit (SuReason InvalidSplitConfiguration)
              else let supportsPassword = createFormatSupportsPassword (co_format (cw_options state));
                       password = (if supportsPassword then nullish (map_option js_trim (si_password input)) [] else []);
                       passwordConfirm =
                         (if supportsPassword then nullish (map_option js_trim (si_passwordConfirm input)) [] else [])
                   in if (password \<noteq> [] \<or> passwordConfirm \<noteq> []) \<and> password \<noteq> passwordConfirm
                      then refuse_start state PmPasswordMismatch SuPasswordMismatch
                      else (state, StartRequest
                             (buildStartCreateRequestFromState env state password
                               (nullish (si_signingIdentityPassword input) [])
                               (si_destinationCollisionStrategy input))))"

definition cw_buildStartCreateRequest :: "cw_env \<Rightarrow> start_input \<Rightarrow> cw_state \<Rightarrow> cw_state \<times> start_result" where
  "cw_buildStartCreateRequest env input state =
     (let destinationPath =
            withCreateArchiveExtension (co_destinationPath (cw_options state)) (co_format (cw_options state)) False
      in start_checked env input destinationPath
           (if destinationPath \<noteq> [] \<and> destinationPath \<noteq> co_destinationPath (cw_options state)
            then set_destination destinationPath state else state))"

record quick_create_input =
  qc_sources :: "string option list"
  qc_destinationPath :: string
  qc_format :: create_format
  qc_cleanSource :: bool
  qc_replaceExisting :: bool
  qc_destinationCollisionStrategy :: "collision_strategy option"
  qc_preserveMetadata :: bool
  qc_password :: "string option"
  qc_compressionLevel :: "jsnum option"
  qc_volumeSize :: "jsnum option"
  qc_respectGitignore :: "bool option"
  qc_followSymlinks :: "bool option"
  qc_tzapRecoveryPercentage :: "jsnum option"
  qc_tzapVolumeLossTolerance :: "jsnum option"
  qc_zipCompression :: "zip_compression option"
  qc_sevenZSolid :: "bool option"
  qc_sevenZThreads :: "jsnum option"
  qc_sevenZChunkSize :: "jsnum option"
  qc_sevenZEncryptFileNames :: "bool option"

datatype quick_create_refusal = QuickNeedsSources | QuickNeedsDestination

definition buildQuickCreateStartRequest :: "quick_create_input \<Rightarrow> quick_create_refusal + start_create_request" where
  "buildQuickCreateStartRequest input =
     (let sources = normalizeSourcePaths (qc_sources input); destinationPath = js_trim (qc_destinationPath input)
      in if sources = [] then Inl QuickNeedsSources
         else if destinationPath = [] then Inl QuickNeedsDestination
         else Inr (buildStartCreateRequest
           \<lparr> bc_sources = sources, bc_destinationPath = destinationPath, bc_format = qc_format input,
             bc_cleanSource = qc_cleanSource input, bc_excludeNames = None, bc_excludeArchivePaths = None,
             bc_includeArchivePaths = None, bc_respectGitignore = qc_respectGitignore input,
             bc_followSymlinks = qc_followSymlinks input, bc_replaceExisting = qc_replaceExisting input,
             bc_destinationCollisionStrategy =
               resolveDestinationCollisionStrategy
                 \<lparr> cx_isDisposableTask = None, cx_isQuickAction = None,
                   cx_replaceExisting = Some (qc_replaceExisting input), cx_overwrite = None,
                   cx_strategy = qc_destinationCollisionStrategy input \<rparr>,
             bc_preserveMetadata = qc_preserveMetadata input,
             bc_password = some_nonempty (nullish (map_option js_trim (qc_password input)) []),
             bc_compressionLevel = qc_compressionLevel input, bc_splitMode = None,
             bc_volumeSize = qc_volumeSize input, bc_volumeCount = None,
             bc_tzapRecoveryPercentage = qc_tzapRecoveryPercentage input,
             bc_tzapVolumeLossTolerance = qc_tzapVolumeLossTolerance input,
             bc_zipCompression = qc_zipCompression input, bc_sevenZSolid = qc_sevenZSolid input,
             bc_sevenZThreads = qc_sevenZThreads input, bc_sevenZChunkSize = qc_sevenZChunkSize input,
             bc_sevenZEncryptFileNames = qc_sevenZEncryptFileNames input, bc_tzapCertificates = None,
             bc_tzapBootstrapSidecar = None \<rparr>))"

section \<open>Navigation and selection\<close>

text \<open>The two results are \<open>accepted\<close> and \<open>changed\<close>.\<close>

definition cw_navigateToFolder :: "cw_env \<Rightarrow> string \<Rightarrow> cw_state \<Rightarrow> cw_state \<times> bool \<times> bool" where
  "cw_navigateToFolder env folderPath state =
     (case normalizeExistingCreateFolderPath (plan_entries state) (Some folderPath) of
        None \<Rightarrow> (state, False, False)
      | Some nextFolder \<Rightarrow>
          if nextFolder = cw_currentFolder state then (state, True, False)
          else (cleanupSelectionForState env
                 (state\<lparr> cw_currentFolder := nextFolder, cw_searchQuery := [],
                         cw_expandedTreeFolders :=
                           js_set (cw_expandedFolderAndAncestors (cx_localeCompare env)
                             (cw_expandedTreeFolders state) nextFolder) \<rparr>), True, True))"

definition cw_setSearchQuery :: "cw_env \<Rightarrow> string \<Rightarrow> cw_state \<Rightarrow> cw_state" where
  "cw_setSearchQuery env query state =
     (if query = cw_searchQuery state then state
      else cleanupSelectionForState env (state\<lparr> cw_searchQuery := query \<rparr>))"

definition cw_clearSearch :: "cw_env \<Rightarrow> cw_state \<Rightarrow> cw_state" where
  "cw_clearSearch env state =
     (if cw_searchQuery state = [] then state
      else cleanupSelectionForState env (state\<lparr> cw_searchQuery := [] \<rparr>))"

definition expand_folders :: "cw_env \<Rightarrow> string list \<Rightarrow> cw_state \<Rightarrow> cw_state \<times> bool \<times> bool" where
  "expand_folders env expandedTreeFolders state =
     (let next = js_set (cw_expandedFolderAndAncestors (cx_localeCompare env) expandedTreeFolders (cw_currentFolder state));
          changed = (\<not> sameStringSet (cw_expandedTreeFolders state) next)
      in (if changed then state\<lparr> cw_expandedTreeFolders := next \<rparr> else state, True, changed))"

definition cw_toggleTreeFolder :: "cw_env \<Rightarrow> string \<Rightarrow> cw_state \<Rightarrow> cw_state \<times> bool \<times> bool" where
  "cw_toggleTreeFolder env folderPath state =
     (case normalizeExistingCreateFolderPath (plan_entries state) (Some folderPath) of
        None \<Rightarrow> (state, False, False)
      | Some normalizedFolder \<Rightarrow>
          if normalizedFolder = [] then (state, False, False)
          else expand_folders env
                 (if set_has (cw_expandedTreeFolders state) normalizedFolder
                  then set_delete normalizedFolder (cw_expandedTreeFolders state)
                  else set_add normalizedFolder (cw_expandedTreeFolders state)) state)"

definition setTreeFolderExpanded :: "cw_env \<Rightarrow> string \<Rightarrow> bool \<Rightarrow> cw_state \<Rightarrow> cw_state \<times> bool \<times> bool" where
  "setTreeFolderExpanded env folderPath expanded state =
     (case normalizeExistingCreateFolderPath (plan_entries state) (Some folderPath) of
        None \<Rightarrow> (state, False, False)
      | Some normalizedFolder \<Rightarrow>
          if normalizedFolder = [] then (state, False, False)
          else expand_folders env
                 (if expanded then set_add normalizedFolder (cw_expandedTreeFolders state)
                  else set_delete normalizedFolder (cw_expandedTreeFolders state)) state)"

definition selection_state :: "cw_state \<Rightarrow> table_selection_state" where
  "selection_state state =
     \<lparr> st_paths = js_set (cl_selectedPaths (cw_selection state)),
       st_focused = Some (cl_focusedPath (cw_selection state)),
       st_anchor = Some (cl_anchorPath (cw_selection state)) \<rparr>"

definition selectRow :: "cw_env \<Rightarrow> string \<Rightarrow> bool \<times> bool \<times> bool \<Rightarrow> cw_state \<Rightarrow> cw_state \<times> bool" where
  "selectRow env path modifiers state =
     applySelectionResult env
       (applyHierarchicalRowSelectionIntent
         \<lparr> in_path = normalizeCreateArchivePath (Some path), in_visiblePaths = visibleSelectablePathsForState env state,
           in_currentSelection = js_set (cl_selectedPaths (cw_selection state)),
           in_anchorPath = Some (cl_anchorPath (cw_selection state)),
           in_ctrlKey = fst modifiers, in_metaKey = fst (snd modifiers), in_shiftKey = snd (snd modifiers) \<rparr>) state"

definition cw_updateSelection :: "cw_env \<Rightarrow> table_selection \<Rightarrow> cw_state \<Rightarrow> cw_state \<times> bool" where
  "cw_updateSelection env selection state = applySelectionResult env selection state"

definition toggleRowSelection :: "cw_env \<Rightarrow> string \<Rightarrow> cw_state \<Rightarrow> cw_state \<times> bool" where
  "toggleRowSelection env path state =
     applySelectionResult env
       (toggleHierarchicalTablePathSelection (js_set (cl_selectedPaths (cw_selection state)))
         (normalizeCreateArchivePath (Some path))) state"

definition focusRow :: "cw_env \<Rightarrow> string \<Rightarrow> cw_state \<Rightarrow> cw_state \<times> bool" where
  "focusRow env path state =
     applySelectionResult env
       (focusHierarchicalTablePath (selection_state state) (normalizeCreateArchivePath (Some path))) state"

definition ensureRowSelected :: "cw_env \<Rightarrow> string \<Rightarrow> cw_state \<Rightarrow> cw_state \<times> bool" where
  "ensureRowSelected env path state =
     applySelectionResult env
       (ensureHierarchicalTablePathSelected (selection_state state) (normalizeCreateArchivePath (Some path)) False) state"

definition cw_clearSelection :: "cw_env \<Rightarrow> cw_state \<Rightarrow> cw_state \<times> bool" where
  "cw_clearSelection env state = applySelectionResult env clearHierarchicalTableSelection state"

section \<open>Inclusion\<close>

definition set_excluded :: "string list \<Rightarrow> cw_state \<Rightarrow> cw_state \<times> bool" where
  "set_excluded nextExcludedPaths state =
     (let changed = (\<not> sameStringSet (cw_excludedArchivePaths state) nextExcludedPaths)
      in (if changed then state\<lparr> cw_excludedArchivePaths := nextExcludedPaths \<rparr> else state, changed))"

definition setPathIncluded :: "string \<Rightarrow> bool \<Rightarrow> cw_state \<Rightarrow> cw_state \<times> bool" where
  "setPathIncluded path included state =
     (let normalizedPath = normalizeCreateArchivePath (Some path)
      in if cw_currentPlan state = None \<or> normalizedPath = [] then (state, False)
         else set_excluded
                (applyCreatePlanPathInclusion (plan_entries state) (PathSet (cw_excludedArchivePaths state))
                  normalizedPath included) state)"

definition setAllPathsIncluded :: "bool \<Rightarrow> cw_state \<Rightarrow> cw_state \<times> bool" where
  "setAllPathsIncluded included state =
     set_excluded (if included then [] else js_set (plannedArchivePaths (cw_currentPlan state))) state"

definition setCurrentFolderIncluded :: "string option \<Rightarrow> bool \<Rightarrow> cw_state \<Rightarrow> cw_state \<times> bool" where
  "setCurrentFolderIncluded folderPath included state =
     (let normalizedFolderPath = normalizeCreateArchivePath folderPath
      in if normalizedFolderPath = []
         then set_excluded (if included then [] else js_set (plannedArchivePaths (cw_currentPlan state))) state
         else if cw_currentPlan state = None then (state, False)
         else set_excluded
                (applyCreatePlanPathInclusion (plan_entries state) (PathSet (cw_excludedArchivePaths state))
                  normalizedFolderPath included) state)"

definition setVisibleRowsIncluded :: "cw_env \<Rightarrow> bool \<Rightarrow> cw_state \<Rightarrow> cw_state \<times> bool" where
  "setVisibleRowsIncluded env included state =
     (if cw_currentPlan state = None then (state, False)
      else let visiblePaths =
                 filter (\<lambda>p. p \<noteq> [])
                   (map (\<lambda>row. normalizeCreateArchivePath (Some (row_path row)))
                     (filter (\<lambda>row. \<not> is_parent_row row) (cw_visibleRowsForState env state)))
           in if visiblePaths = [] then (state, False)
              else set_excluded
                     (fold (\<lambda>path excluded.
                        applyCreatePlanPathInclusion (plan_entries state) (PathSet excluded) path included)
                       visiblePaths (js_set (cw_excludedArchivePaths state))) state)"

section \<open>Columns\<close>

definition cw_setColumnWidth :: "string \<Rightarrow> jsnum \<Rightarrow> cw_state \<Rightarrow> cw_state" where
  "cw_setColumnWidth columnId width state =
     state\<lparr> cw_columnSettings := setCreateColumnWidth (cw_columnSettings state) columnId width \<rparr>"

definition cw_toggleColumnVisibility :: "string \<Rightarrow> cw_state \<Rightarrow> cw_state" where
  "cw_toggleColumnVisibility columnId state =
     state\<lparr> cw_columnSettings := toggleCreateColumnVisibility (cw_columnSettings state) columnId \<rparr>"

definition cw_moveColumn :: "string \<Rightarrow> move_direction \<Rightarrow> cw_state \<Rightarrow> cw_state" where
  "cw_moveColumn columnId direction state =
     state\<lparr> cw_columnSettings := moveCreateColumn (cw_columnSettings state) columnId direction \<rparr>"

definition cw_reorderColumn :: "string \<Rightarrow> string \<Rightarrow> cw_state \<Rightarrow> cw_state" where
  "cw_reorderColumn sourceColumnId targetColumnId state =
     state\<lparr> cw_columnSettings := reorderCreateColumn (cw_columnSettings state) sourceColumnId targetColumnId \<rparr>"

definition cw_resetColumns :: "partial_settings option \<Rightarrow> cw_state \<Rightarrow> cw_state" where
  "cw_resetColumns settings state =
     state\<lparr> cw_columnSettings :=
              (case settings of
                 Some given \<Rightarrow> normalizeCreateColumnSettings (Some given)
               | None \<Rightarrow> resetCreateColumnSettings) \<rparr>"


end
