(* ===== verification/CreateWorkspaceView.thy ===== *)
theory CreateWorkspaceView
  imports CreateWorkspace
begin

text \<open>
  What \<^verbatim>\<open>createWorkspace.ts\<close> computes from its state: the tree of folders of the plan, the inclusion of a
  path, the include-all control, and the snapshot that every operation returns.  Freezing and cloning are the
  identity, and so is the memo of the last snapshot.
\<close>

section \<open>The tree of folders\<close>

record create_tree_folder =
  ctf_path :: string
  ctf_name :: string
  ctf_depth :: nat
  ctf_hasChildren :: bool
  ctf_isExpanded :: bool

type_synonym children_map = "(string \<times> string list) list"

definition add_child :: "string \<Rightarrow> string \<Rightarrow> children_map \<Rightarrow> children_map" where
  "add_child parentPath childName m =
     (case map_of m parentPath of
        Some current \<Rightarrow> AList.update parentPath (set_add childName current) m
      | None \<Rightarrow> AList.update parentPath (js_set [childName]) m)"

definition add_entry_children :: "plan_entry \<Rightarrow> children_map \<Rightarrow> children_map" where
  "add_entry_children entry m =
     (let normalizedPath = normalizeCreateArchivePath (Some (pe_path entry));
          segments = name_segments normalizedPath;
          folderDepth = (if pe_kind entry = KDirectory then length segments else length segments - 1)
      in if normalizedPath = [] \<or> segments = [] then m
         else fold (\<lambda>index m.
                add_child (if index = 0 then [] else js_join (CHR 0x2F) (take index segments)) (segments ! index) m)
              [0..<folderDepth] m)"

definition buildCreatePlanTreeChildren :: "(string \<Rightarrow> string \<Rightarrow> int) \<Rightarrow> plan_entry list \<Rightarrow> children_map" where
  "buildCreatePlanTreeChildren localeCompare entries =
     map (\<lambda>(parentPath, childSet). (parentPath, js_sort localeCompare childSet))
       (fold add_entry_children entries [])"

text \<open>
  \<open>addChildFolders\<close>: the recursion goes from a folder to its children; the fuel is the number of levels that
  are left, and no path of the map is longer than the fuel that \<open>createPlanTreeFolders\<close> gives.
\<close>

fun addChildFolders ::
    "nat \<Rightarrow> children_map \<Rightarrow> string list \<Rightarrow> string \<Rightarrow> nat \<Rightarrow> create_tree_folder list" where
  "addChildFolders 0 childrenByParent expandedFolders parentPath depth = []"
| "addChildFolders (Suc fuel) childrenByParent expandedFolders parentPath depth =
     concat (map (\<lambda>childName.
       let childPath = (if parentPath = [] then childName else parentPath @ CHR 0x2F # childName);
           childHasChildren = (map_of childrenByParent childPath \<noteq> None);
           isExpanded = set_has expandedFolders childPath
       in \<lparr> ctf_path = childPath, ctf_name = childName, ctf_depth = depth, ctf_hasChildren = childHasChildren,
            ctf_isExpanded = isExpanded \<rparr>
          # (if childHasChildren \<and> isExpanded
             then addChildFolders fuel childrenByParent expandedFolders childPath (depth + 1) else []))
       (case map_of childrenByParent parentPath of None \<Rightarrow> [] | Some children \<Rightarrow> children))"

definition tree_fuel :: "children_map \<Rightarrow> nat" where
  "tree_fuel childrenByParent = Suc (foldr max (map (\<lambda>(p, _). length p) childrenByParent) 0)"

definition createPlanTreeFolders ::
    "(string \<Rightarrow> string \<Rightarrow> int) \<Rightarrow> plan_entry list \<Rightarrow> string \<Rightarrow> string list \<Rightarrow> create_tree_folder list" where
  "createPlanTreeFolders localeCompare entries currentFolder expandedTreeFolders =
     (let childrenByParent = buildCreatePlanTreeChildren localeCompare entries;
          expandedFolders = js_set (cw_expandedFolderAndAncestors localeCompare expandedTreeFolders currentFolder)
      in \<lparr> ctf_path = [], ctf_name = [], ctf_depth = 0,
           ctf_hasChildren = (map_of childrenByParent [] \<noteq> None), ctf_isExpanded = True \<rparr>
         # addChildFolders (tree_fuel childrenByParent) childrenByParent expandedFolders [] 1)"

section \<open>Inclusion\<close>

definition pathInclusionState :: "cw_state \<Rightarrow> string \<Rightarrow> plan_inclusion" where
  "pathInclusionState state path =
     (let normalizedPath = normalizeCreateArchivePath (Some path);
          excluded = PathSet (cw_excludedArchivePaths state)
      in if cw_currentPlan state = None \<or> normalizedPath = [] then PlanIncluded
         else let affectedEntries = createPlanEntriesForPath (plan_entries state) normalizedPath
              in if affectedEntries = []
                 then (if isCreatePlanPathIncluded excluded normalizedPath then PlanIncluded else PlanExcluded)
                 else let includedCount =
                            length (filter (\<lambda>entry. isCreatePlanPathIncluded excluded (pe_path entry)) affectedEntries)
                      in if includedCount = 0 then PlanExcluded
                         else if includedCount = length affectedEntries then PlanIncluded
                         else PlanPartial)"

definition getRowInclusionState :: "cw_state \<Rightarrow> plan_entry hier_row \<Rightarrow> plan_inclusion" where
  "getRowInclusionState state row =
     createPlanRowInclusionState row (plan_entries state) (PathSet (cw_excludedArchivePaths state))"

record include_all_control =
  ic_checked :: bool
  ic_indeterminate :: bool
  ic_disabled :: bool
  ic_affectedEntryCount :: nat
  ic_includedEntryCount :: nat

definition includeAllControlState :: "cw_state \<Rightarrow> string option \<Rightarrow> include_all_control" where
  "includeAllControlState state path =
     (let off = \<lparr> ic_checked = False, ic_indeterminate = False, ic_disabled = True, ic_affectedEntryCount = 0,
                  ic_includedEntryCount = 0 \<rparr>
      in if cw_sources state = [] \<or> cw_planState state = CsLoading \<or> cw_currentPlan state = None then off
         else let entries = createPlanEntriesForPath (plan_entries state) (normalizeCreateArchivePath path)
              in if entries = [] then off
                 else let includedEntryCount =
                            length (filter (\<lambda>entry. isCreatePlanPathIncluded (PathSet (cw_excludedArchivePaths state))
                              (pe_path entry)) entries)
                      in \<lparr> ic_checked = (includedEntryCount = length entries),
                           ic_indeterminate = (0 < includedEntryCount \<and> includedEntryCount < length entries),
                           ic_disabled = False, ic_affectedEntryCount = length entries,
                           ic_includedEntryCount = includedEntryCount \<rparr>)"

section \<open>The snapshot\<close>

record cw_plan_snapshot =
  cps_state :: create_state
  cps_current :: "create_plan option"
  cps_status :: "plan_status option"
  cps_warnings :: "string list"
  cps_revision :: nat
  cps_hasPlan :: bool

record cw_inclusion_snapshot =
  cis_excludedArchivePaths :: "string list"
  cis_includedEntries :: "plan_entry list"
  cis_includedCount :: nat
  cis_hasIncludedEntries :: bool
  cis_filteredPlan :: "create_plan option"

record cw_view_snapshot =
  cvs_currentFolder :: string
  cvs_searchQuery :: string
  cvs_expandedTreeFolders :: "string list"
  cvs_rows :: "plan_entry hier_row list"
  cvs_treeFolders :: "create_tree_folder list"
  cvs_columnSettings :: column_settings

record cw_selection_snapshot =
  css_selectedPaths :: "string list"
  css_selectedCount :: nat
  css_focusedPath :: string
  css_anchorPath :: string
  css_visibleSelectablePaths :: "string list"
  css_visibleSelectedPaths :: "string list"

text \<open>The options of the state, with the recovery percentage that is shown, and three groups of flags.\<close>

record cw_options_snapshot =
  cos_options :: create_options
  cos_supportsPassword :: bool
  cos_passwordVisible :: bool
  cos_passwordDisabled :: bool
  cos_supportsTzapRecovery :: bool
  cos_tzapRecoveryVisible :: bool
  cos_tzapRecoveryDisabled :: bool
  cos_canCreate :: bool
  cos_unavailableReason :: "create_unavailable option"

record cw_snapshot =
  csn_sources :: "string list"
  csn_sourceCount :: nat
  csn_hasSources :: bool
  csn_isEmpty :: bool
  csn_plan :: cw_plan_snapshot
  csn_inclusion :: cw_inclusion_snapshot
  csn_view :: cw_view_snapshot
  csn_selection :: cw_selection_snapshot
  csn_options :: cw_options_snapshot

definition createSelectionSnapshot :: "cw_state \<Rightarrow> plan_entry hier_row list \<Rightarrow> cw_selection_snapshot" where
  "createSelectionSnapshot state rows =
     (let visibleSelectablePaths = selectableHierarchicalRowPaths rows;
          selectedPaths = cl_selectedPaths (cw_selection state)
      in \<lparr> css_selectedPaths = selectedPaths, css_selectedCount = length selectedPaths,
           css_focusedPath = cl_focusedPath (cw_selection state), css_anchorPath = cl_anchorPath (cw_selection state),
           css_visibleSelectablePaths = visibleSelectablePaths,
           css_visibleSelectedPaths = filter (set_has (js_set visibleSelectablePaths)) selectedPaths \<rparr>)"

definition createOptionsSnapshot :: "cw_state \<Rightarrow> nat \<Rightarrow> cw_options_snapshot" where
  "createOptionsSnapshot state includedEntryCount =
     (let o' = cw_options state;
          supportsPassword = createFormatSupportsPassword (co_format o');
          supportsTzapRecovery = (co_format o' = CfTzap);
          unavailableReason =
            createArchiveUnavailableReason
              (availability_of state (if cw_currentPlan state \<noteq> None then Some includedEntryCount else None))
      in \<lparr> cos_options = o'\<lparr> co_tzapRecoveryPercentage :=
             (if supportsTzapRecovery then co_tzapRecoveryPercentage o' else TZAP_RECOVERY_PERCENTAGE_DEFAULT) \<rparr>,
           cos_supportsPassword = supportsPassword, cos_passwordVisible = supportsPassword,
           cos_passwordDisabled = (\<not> supportsPassword), cos_supportsTzapRecovery = supportsTzapRecovery,
           cos_tzapRecoveryVisible = supportsTzapRecovery, cos_tzapRecoveryDisabled = (\<not> supportsTzapRecovery),
           cos_canCreate = (unavailableReason = None), cos_unavailableReason = unavailableReason \<rparr>)"

definition cw_snapshotFromState :: "cw_env \<Rightarrow> cw_state \<Rightarrow> cw_snapshot" where
  "cw_snapshotFromState env state =
     (let currentPlan = cw_currentPlan state; lc = cx_localeCompare env;
          filteredPlan =
            map_option (\<lambda>plan. filterCreatePlanByIncludedPaths plan (PathSet (cw_excludedArchivePaths state))) currentPlan;
          includedEntries = (case filteredPlan of None \<Rightarrow> [] | Some plan \<Rightarrow> cp_planEntries plan);
          expandedTreeFolders = cw_expandedFolderAndAncestors lc (cw_expandedTreeFolders state) (cw_currentFolder state);
          rows = cw_visibleRowsForState env state
      in \<lparr> csn_sources = cw_sources state, csn_sourceCount = length (cw_sources state),
           csn_hasSources = (cw_sources state \<noteq> []), csn_isEmpty = (cw_sources state = []),
           csn_plan = \<lparr> cps_state = cw_planState state, cps_current = currentPlan, cps_status = cw_planStatus state,
             cps_warnings = (case currentPlan of None \<Rightarrow> [] | Some plan \<Rightarrow> cp_warnings plan),
             cps_revision = cw_planRevision state, cps_hasPlan = (currentPlan \<noteq> None) \<rparr>,
           csn_inclusion = \<lparr> cis_excludedArchivePaths = sortedExcludedArchivePaths lc (cw_excludedArchivePaths state),
             cis_includedEntries = includedEntries, cis_includedCount = length includedEntries,
             cis_hasIncludedEntries = (includedEntries \<noteq> []), cis_filteredPlan = filteredPlan \<rparr>,
           csn_view = \<lparr> cvs_currentFolder = cw_currentFolder state, cvs_searchQuery = cw_searchQuery state,
             cvs_expandedTreeFolders = expandedTreeFolders, cvs_rows = rows,
             cvs_treeFolders =
               createPlanTreeFolders lc (plan_entries state) (cw_currentFolder state) expandedTreeFolders,
             cvs_columnSettings = cw_columnSettings state \<rparr>,
           csn_selection = createSelectionSnapshot state rows,
           csn_options = createOptionsSnapshot state (length includedEntries) \<rparr>)"

end
