(* ===== verification/CreateProps.thy ===== *)
theory CreateProps
  imports CreateFlow WorkspaceMachine
begin

text \<open>
  What the rules of \<^verbatim>\<open>CreateFlow\<close> guarantee: the extension of the archive fits its format, the request
  carries only what its format supports and within range, ticking and unticking a row changes exactly the
  rows it should, filtering a plan loses no entry and no byte, and the common directory is the longest one.
\<close>

section \<open>Extensions\<close>

lemma lower_extensions:
  "list_all (\<lambda>e. js_lower (CHR 0x2E # e) = CHR 0x2E # e) RECOGNIZED_CREATE_EXTENSIONS"
  by code_simp

lemma format_extension_recognised: "getCreateFormatExtension format pw \<in> set RECOGNIZED_CREATE_EXTENSIONS"
  by (cases format) (simp_all add: getCreateFormatExtension_def RECOGNIZED_CREATE_EXTENSIONS_def)

lemma lower_dotted:
  "js_lower (CHR 0x2E # getCreateFormatExtension format pw) = CHR 0x2E # getCreateFormatExtension format pw"
  using lower_extensions format_extension_recognised unfolding list_all_iff by blast

lemma create_extension_appended:
  "getCreateArchiveExtension (b @ CHR 0x2E # getCreateFormatExtension format pw) = Some (getCreateFormatExtension format pw)"
  unfolding getCreateArchiveExtension_def js_lower_append lower_dotted suffix_to_prefix
  by (cases format) (simp_all add: getCreateFormatExtension_def RECOGNIZED_CREATE_EXTENSIONS_def)

lemma format_extension_allowed: "getCreateFormatExtension format pw \<in> set (CREATE_FORMAT_ALLOWED_EXTENSIONS format)"
  by (cases format) (simp_all add: getCreateFormatExtension_def)

lemma apple_extension: "(getCreateFormatExtension CfAppleArchive pw = ''aea'') = pw"
  by (simp add: getCreateFormatExtension_def)

text \<open>A name whose extension already fits.\<close>

definition extension_fits :: "string \<Rightarrow> create_format \<Rightarrow> bool \<Rightarrow> bool" where
  "extension_fits p format hasPassword \<longleftrightarrow>
     (case getCreateArchiveExtension p of
        None \<Rightarrow> False
      | Some e \<Rightarrow> e \<in> set (CREATE_FORMAT_ALLOWED_EXTENSIONS format)
                  \<and> (format = CfAppleArchive \<longrightarrow> (e = ''aea'') = hasPassword))"

lemma fitting_kept: "js_trim p \<noteq> [] \<Longrightarrow> extension_fits (js_trim p) format pw \<Longrightarrow> withCreateArchiveExtension p format pw = js_trim p"
  by (auto simp: extension_fits_def withCreateArchiveExtension_def Let_def split: option.splits)

lemma appended_fits: "extension_fits (b @ CHR 0x2E # getCreateFormatExtension format pw) format pw"
  using create_extension_appended [of b format pw] format_extension_allowed [of format pw] apple_extension [of pw]
  by (auto simp: extension_fits_def)

lemma not_fitting_appended:
  assumes "js_trim p \<noteq> []" and "\<not> extension_fits (js_trim p) format pw"
  shows "\<exists>b. prefix b (js_trim p) \<and> withCreateArchiveExtension p format pw = b @ CHR 0x2E # getCreateFormatExtension format pw"
proof (cases "getCreateArchiveExtension (js_trim p)")
  case None
  then show ?thesis
    using assms(1) by (auto simp: withCreateArchiveExtension_def Let_def)
next
  case (Some e)
  with assms have "withCreateArchiveExtension p format pw =
      take (length (js_trim p) - (length e + 1)) (js_trim p) @ CHR 0x2E # getCreateFormatExtension format pw"
    by (auto simp: withCreateArchiveExtension_def extension_fits_def Let_def)
  then show ?thesis
    using take_is_prefix by blast
qed

lemma trimmed_extension:
  assumes "prefix b (js_trim p)"
  shows "js_trim (b @ CHR 0x2E # getCreateFormatExtension format pw) = b @ CHR 0x2E # getCreateFormatExtension format pw"
proof (rule js_trim_fixed)
  let ?q = "b @ CHR 0x2E # getCreateFormatExtension format pw"
  have "\<not> js_space (last ?q)"
    by (cases format) (simp_all add: getCreateFormatExtension_def js_space_def)
  moreover have "\<not> js_space (hd ?q)"
  proof (cases b)
    case Nil
    then show ?thesis
      by (simp add: js_space_def)
  next
    case (Cons c cs)
    with assms have "js_trim p \<noteq> []" and "hd (js_trim p) = c"
      by (auto simp: prefix_def)
    with js_trim_ends [of p] Cons show ?thesis
      by auto
  qed
  ultimately show "?q = [] \<or> \<not> js_space (hd ?q) \<and> \<not> js_space (last ?q)"
    by blast
qed

text \<open>the archive is created under a name that fits its format.\<close>

theorem created_name_fits:
  assumes "js_trim p \<noteq> []"
  shows "extension_fits (withCreateArchiveExtension p format pw) format pw
       \<and> withCreateArchiveExtension (withCreateArchiveExtension p format pw) format pw = withCreateArchiveExtension p format pw
       \<and> (extension_fits (js_trim p) format pw \<longrightarrow> withCreateArchiveExtension p format pw = js_trim p)
       \<and> (\<not> extension_fits (js_trim p) format pw \<longrightarrow>
            suffix (CHR 0x2E # getCreateFormatExtension format pw) (withCreateArchiveExtension p format pw))"
proof (cases "extension_fits (js_trim p) format pw")
  case True
  then have "withCreateArchiveExtension p format pw = js_trim p"
    by (rule fitting_kept [OF assms])
  with True assms show ?thesis
    using fitting_kept [of "js_trim p" format pw] by simp
next
  case False
  then obtain b where b: "prefix b (js_trim p)"
    and r: "withCreateArchiveExtension p format pw = b @ CHR 0x2E # getCreateFormatExtension format pw"
    using not_fitting_appended [OF assms] by blast
  let ?q = "b @ CHR 0x2E # getCreateFormatExtension format pw"
  have t: "js_trim ?q = ?q"
    by (rule trimmed_extension [OF b])
  have f: "extension_fits ?q format pw"
    by (rule appended_fits)
  have "withCreateArchiveExtension ?q format pw = ?q"
    using fitting_kept [of ?q format pw] t f by simp
  with False r f show ?thesis
    by (simp add: suffix_def)
qed

theorem created_name_fits_witness:
  "js_trim ''holiday.ZIP'' \<noteq> []
   \<and> extension_fits (withCreateArchiveExtension ''holiday.ZIP'' CfTarGz False) CfTarGz False
   \<and> withCreateArchiveExtension ''holiday.ZIP'' CfTarGz False = ''holiday.tgz''"
proof (intro conjI)
  show t: "js_trim ''holiday.ZIP'' \<noteq> []"
    by code_simp
  show "extension_fits (withCreateArchiveExtension ''holiday.ZIP'' CfTarGz False) CfTarGz False"
    using created_name_fits [OF t] by blast
qed code_simp

section \<open>The request\<close>

definition whole_between :: "rat \<Rightarrow> rat \<Rightarrow> rat \<Rightarrow> bool" where
  "whole_between lo hi x \<longleftrightarrow> of_int \<lfloor>x\<rfloor> = x \<and> lo \<le> x \<and> x \<le> hi"

definition option_all :: "('a \<Rightarrow> bool) \<Rightarrow> 'a option \<Rightarrow> bool" where
  "option_all P v = (case v of None \<Rightarrow> True | Some x \<Rightarrow> P x)"

lemma option_all_simps [simp]: "option_all P None" "option_all P (Some x) = P x"
  by (simp_all add: option_all_def)

text \<open>What a request of a format may carry, read off the capability table.\<close>

definition tzap_fields_typed :: "start_create_request \<Rightarrow> bool" where
  "tzap_fields_typed r \<longleftrightarrow>
     ((sc_tzapRecoveryPercentage r \<noteq> None) = fc_tzapRecovery (createFormatCapabilities (sc_format r))
    \<and> (sc_tzapVolumeLossTolerance r \<noteq> None) = fc_tzapVolumeLossTolerance (createFormatCapabilities (sc_format r))
    \<and> option_all (whole_between 0 100) (sc_tzapRecoveryPercentage r)
    \<and> option_all (whole_between 0 16) (sc_tzapVolumeLossTolerance r)
    \<and> (sc_tzapCertificates r \<noteq> None \<longrightarrow> sc_format r = CfTzap)
    \<and> (sc_tzapBootstrapSidecar r \<noteq> None \<longrightarrow> sc_format r = CfTzap))"

definition volume_fields_typed :: "start_create_request \<Rightarrow> bool" where
  "volume_fields_typed r \<longleftrightarrow>
     ((sc_volumeSize r \<noteq> None \<longrightarrow> fc_splitVolumes (createFormatCapabilities (sc_format r)))
    \<and> (sc_volumeCount r \<noteq> None \<longrightarrow> sc_format r = CfTzap \<and> sc_volumeSize r = None)
    \<and> option_all (\<lambda>x. of_int \<lfloor>x\<rfloor> = x \<and> 0 \<le> x) (sc_volumeSize r)
    \<and> option_all (whole_between TZAP_VOLUME_COUNT_MIN TZAP_VOLUME_COUNT_MAX) (sc_volumeCount r))"

definition format_fields_typed :: "start_create_request \<Rightarrow> bool" where
  "format_fields_typed r \<longleftrightarrow>
     ((sc_zipCompression r \<noteq> None) = fc_zipCompression (createFormatCapabilities (sc_format r))
    \<and> (sc_sevenZSolid r \<noteq> None) = fc_sevenZAdvanced (createFormatCapabilities (sc_format r))
    \<and> (sc_sevenZEncryptFileNames r \<noteq> None) = fc_sevenZAdvanced (createFormatCapabilities (sc_format r))
    \<and> (sc_sevenZThreads r \<noteq> None \<longrightarrow> fc_sevenZAdvanced (createFormatCapabilities (sc_format r)))
    \<and> (sc_sevenZChunkSize r \<noteq> None \<longrightarrow> fc_sevenZAdvanced (createFormatCapabilities (sc_format r)))
    \<and> (sc_password r \<noteq> None \<longrightarrow> fc_password (createFormatCapabilities (sc_format r)))
    \<and> sc_password r \<noteq> Some [] \<and> sc_excludeNames r \<noteq> Some [] \<and> sc_excludeArchivePaths r \<noteq> Some []
    \<and> sc_includeArchivePaths r \<noteq> Some [])"

lemma clamp_floor_range:
  "lo \<le> hi \<Longrightarrow> option_all (whole_between (of_int lo) (of_int hi)) (clamp_floor (of_int lo) (of_int hi) v)"
  by (auto simp: clamp_floor_def whole_between_def min_def max_def split: option.split jsnum.split)

lemma recovery_range: "whole_between 0 100 (nullish (normalizeTzapRecoveryPercentage v) 5)"
  using clamp_floor_range [of 0 100 v]
  by (cases "clamp_floor 0 100 v") (simp_all add: normalizeTzapRecoveryPercentage_def whole_between_def)

lemma tolerance_range: "whole_between 0 16 (nullish (normalizeTzapVolumeLossTolerance v) 0)"
  using clamp_floor_range [of 0 16 v]
  by (cases "clamp_floor 0 16 v") (simp_all add: normalizeTzapVolumeLossTolerance_def whole_between_def)

lemma volume_size_range: "option_all (\<lambda>x. of_int \<lfloor>x\<rfloor> = x \<and> 0 \<le> x) (normalizeCreateVolumeSize v)"
  by (auto simp: normalizeCreateVolumeSize_def split: option.split jsnum.split)

lemma volume_count_range:
  "option_all (whole_between TZAP_VOLUME_COUNT_MIN TZAP_VOLUME_COUNT_MAX) (normalizeTzapVolumeCount v)"
  by (auto simp: normalizeTzapVolumeCount_def whole_between_def isSafeInteger_def split: option.split jsnum.split)

lemma nonempty_list_neq_Nil [simp]: "nonempty_list v \<noteq> Some []"
  by (auto simp: nonempty_list_def split: option.split list.split)

lemma request_tzap_fields: "tzap_fields_typed (buildStartCreateRequest i)"
  using recovery_range [of "bc_tzapRecoveryPercentage i"] tolerance_range [of "bc_tzapVolumeLossTolerance i"]
  by (cases "bc_format i") (simp_all add: tzap_fields_typed_def buildStartCreateRequest_def Let_def whole_between_def)

lemma request_volume_fields: "volume_fields_typed (buildStartCreateRequest i)"
  using volume_size_range [of "bc_volumeSize i"] volume_count_range [of "bc_volumeCount i"]
  by (cases "bc_format i") (simp_all add: volume_fields_typed_def buildStartCreateRequest_def Let_def)

lemma request_format_fields: "format_fields_typed (buildStartCreateRequest i)"
  by (cases "bc_format i")
    (simp_all add: format_fields_typed_def buildStartCreateRequest_def Let_def createFormatSupportsPassword_def
      CREATE_PASSWORD_FORMATS_def truthy_def set_has_def split: option.split)

text \<open>a request is well typed for its format.\<close>

theorem request_is_typed:
  "sc_format (buildStartCreateRequest i) = bc_format i
   \<and> tzap_fields_typed (buildStartCreateRequest i)
   \<and> volume_fields_typed (buildStartCreateRequest i)
   \<and> format_fields_typed (buildStartCreateRequest i)
   \<and> sc_destinationPath (buildStartCreateRequest i)
       = withCreateArchiveExtension (bc_destinationPath i) (bc_format i) (truthy (bc_password i))"
  using request_tzap_fields request_volume_fields request_format_fields
  by (simp add: buildStartCreateRequest_def Let_def)

text \<open>The availability rule and the request read the same split settings.\<close>

definition same_split :: "availability_input \<Rightarrow> build_create_input \<Rightarrow> bool" where
  "same_split a i \<longleftrightarrow>
     ai_format a = Some (bc_format i) \<and> ai_splitMode a = bc_splitMode i \<and> ai_volumeSize a = bc_volumeSize i
   \<and> ai_volumeCount a = bc_volumeCount i \<and> ai_tzapVolumeLossTolerance a = bc_tzapVolumeLossTolerance i"

lemma available_split: "createArchiveUnavailableReason a = None \<Longrightarrow> isCreateSplitConfigurationValid a"
  by (auto simp: createArchiveUnavailableReason_def split: if_splits)

text \<open>an available creation is split the way the user set it.\<close>

theorem available_request_keeps_split:
  assumes "createArchiveUnavailableReason a = None" and "same_split a i" and "bc_format i = CfTzap"
  shows "case nullish (bc_splitMode i) SplitNone of
           SplitNone \<Rightarrow>
             sc_volumeSize (buildStartCreateRequest i) = None \<and> sc_volumeCount (buildStartCreateRequest i) = None
             \<and> sc_tzapVolumeLossTolerance (buildStartCreateRequest i) = Some 0
         | SplitVolumeSize \<Rightarrow>
             \<exists>x. bc_volumeSize i = Some (Fin x) \<and> 0 < x
               \<and> sc_volumeSize (buildStartCreateRequest i) = Some (of_int \<lfloor>x\<rfloor>)
               \<and> sc_volumeCount (buildStartCreateRequest i) = None
         | SplitVolumeCount \<Rightarrow>
             \<exists>x. bc_volumeCount i = Some (Fin x) \<and> 2 \<le> x
               \<and> sc_volumeCount (buildStartCreateRequest i) = Some x
               \<and> sc_volumeSize (buildStartCreateRequest i) = None"
proof -
  have v: "isCreateSplitConfigurationValid a"
    using assms(1) by (rule available_split)
  show ?thesis
    using v assms(2,3)
    by (cases "bc_splitMode i")
      (auto simp: isCreateSplitConfigurationValid_def same_split_def Let_def buildStartCreateRequest_def
        request_split_mode_def normalizeCreateVolumeSize_def normalizeTzapVolumeCount_def
        TZAP_VOLUME_COUNT_MIN_def dest: sym split: split_mode.splits option.splits jsnum.splits if_splits)
qed

definition split_example :: "availability_input \<times> build_create_input" where
  "split_example =
     (\<lparr> ai_sourceCount = 1, ai_includedEntryCount = Some 3, ai_destinationPath = ''out.tzap'', ai_planState = CsReady,
        ai_hasPlan = True, ai_submissionInFlight = False, ai_format = Some CfTzap, ai_splitMode = Some SplitVolumeSize,
        ai_volumeSize = Some (Fin (1 / 2)), ai_volumeCount = None, ai_tzapVolumeLossTolerance = Some (Fin 0),
        ai_recipientEncryptionSelected = False \<rparr>,
      \<lparr> bc_sources = [''docs''], bc_destinationPath = ''out.tzap'', bc_format = CfTzap, bc_cleanSource = False,
        bc_excludeNames = None, bc_excludeArchivePaths = None, bc_includeArchivePaths = None,
        bc_respectGitignore = None, bc_followSymlinks = None, bc_replaceExisting = False,
        bc_destinationCollisionStrategy = None, bc_preserveMetadata = True, bc_password = None,
        bc_compressionLevel = None, bc_splitMode = Some SplitVolumeSize, bc_volumeSize = Some (Fin (1 / 2)),
        bc_volumeCount = None, bc_tzapRecoveryPercentage = None, bc_tzapVolumeLossTolerance = Some (Fin 0),
        bc_zipCompression = None, bc_sevenZSolid = None, bc_sevenZThreads = None, bc_sevenZChunkSize = None,
        bc_sevenZEncryptFileNames = None, bc_tzapCertificates = None, bc_tzapBootstrapSidecar = None \<rparr>)"

lemma split_example_available: "createArchiveUnavailableReason (fst split_example) = None"
  by code_simp

lemma split_example_same: "same_split (fst split_example) (snd split_example)"
  by (simp add: split_example_def same_split_def)

theorem available_request_keeps_split_witness:
  "\<exists>x. bc_volumeSize (snd split_example) = Some (Fin x) \<and> 0 < x
     \<and> sc_volumeSize (buildStartCreateRequest (snd split_example)) = Some (of_int \<lfloor>x\<rfloor>)"
proof -
  have f: "bc_format (snd split_example) = CfTzap"
    and m: "nullish (bc_splitMode (snd split_example)) SplitNone = SplitVolumeSize"
    by (simp_all add: split_example_def)
  show ?thesis
    using available_request_keeps_split [OF split_example_available split_example_same f] unfolding m by auto
qed

text \<open>
  A fraction of a byte passes the check of the form, and the request asks for volumes of no bytes:
  \<^verbatim>\<open>normalizeCreateVolumeSize\<close> tests the sign before it rounds down.
\<close>

theorem fractional_volume_size_rounds_to_zero:
  "createArchiveUnavailableReason (fst split_example) = None
   \<and> sc_volumeSize (buildStartCreateRequest (snd split_example)) = Some 0"
proof
  have "\<lfloor>1 / 2 :: rat\<rfloor> = 0"
    by (simp add: floor_eq_iff)
  then show "sc_volumeSize (buildStartCreateRequest (snd split_example)) = Some 0"
    by (simp add: split_example_def buildStartCreateRequest_def Let_def request_split_mode_def normalizeCreateVolumeSize_def)
qed (rule split_example_available)

section \<open>Exclusions\<close>

lemma excluded_normal:
  "p \<in> set (normalizeExcludedCreatePlanPaths c) \<Longrightarrow> p \<noteq> [] \<and> normalizeArchivePath (Some p) = p"
  by (auto simp: normalizeExcludedCreatePlanPaths_def)

lemma set_delete_ancestors:
  assumes "normal_path c" and "[] \<notin> set ex"
  shows "set (delete_ancestors c ex) = set ex - ancestor_paths c"
  using assms
proof (induction c ex rule: delete_ancestors.induct)
  case (1 c ex)
  show ?case
  proof (cases "c = []")
    case True
    then show ?thesis
      using 1(3) by (simp add: delete_ancestors.simps)
  next
    case False
    have n: "normal_path (nullish (getParentArchivePath (Some c)) [])"
      by (auto simp: getParentArchivePath_eq intro: normal_join)
    have "set (delete_ancestors c ex) = set (set_delete c ex) - ancestor_paths (nullish (getParentArchivePath (Some c)) [])"
      using 1(1) [OF False n] 1(3) False by (subst delete_ancestors.simps) simp
    then show ?thesis
      using ancestor_step [OF 1(2) False] by auto
  qed
qed

lemma set_inclusion_step:
  assumes "normal_path q" and "[] \<notin> set ex"
  shows "set (inclusion_step included q ex) =
           (if included then set ex - ancestor_paths q else set ex \<union> ({q} - {[]}))"
proof -
  have n: "normal_path (nullish (getParentArchivePath (Some q)) [])"
    by (auto simp: getParentArchivePath_eq intro: normal_join)
  show ?thesis
    using assms set_delete_ancestors [OF n, of "set_delete q ex"] ancestor_step [of q]
    by (auto simp: inclusion_step_def)
qed

lemma set_fold_inclusion:
  assumes "\<forall>q \<in> set qs. normal_path q" and "[] \<notin> set ex"
  shows "set (fold (inclusion_step included) qs ex) =
           (if included then set ex - \<Union> (ancestor_paths ` set qs) else set ex \<union> (set qs - {[]}))"
  using assms
proof (induction qs arbitrary: ex)
  case (Cons q qs)
  then have s: "set (inclusion_step included q ex) =
      (if included then set ex - ancestor_paths q else set ex \<union> ({q} - {[]}))"
    by (intro set_inclusion_step) simp_all
  then have "[] \<notin> set (inclusion_step included q ex)"
    using Cons.prems(2) by auto
  then show ?case
    using Cons.IH [of "inclusion_step included q ex"] Cons.prems(1) s by auto
qed simp

text \<open>The paths that a tick or untick of \<open>path\<close> is about.\<close>

definition affected_paths :: "plan_entry list \<Rightarrow> string \<Rightarrow> string set" where
  "affected_paths entries path =
     (if createPlanEntriesForPath entries path = [] then {normalizeArchivePath (Some path)}
      else (\<lambda>e. normalizeArchivePath (Some (pe_path e))) ` set (createPlanEntriesForPath entries path))"

lemma distinct_delete_ancestors: "distinct ex \<Longrightarrow> distinct (delete_ancestors c ex)"
  by (induction c ex rule: delete_ancestors.induct) (subst delete_ancestors.simps, simp)

lemma distinct_fold_inclusion: "distinct ex \<Longrightarrow> distinct (fold (inclusion_step included) qs ex)"
  by (induction qs arbitrary: ex) (simp_all add: inclusion_step_def distinct_delete_ancestors)

lemma set_inclusion:
  "set (applyCreatePlanPathInclusion entries excluded path included) =
     (if included
      then set (normalizeExcludedCreatePlanPaths excluded) - \<Union> (ancestor_paths ` affected_paths entries path)
      else set (normalizeExcludedCreatePlanPaths excluded) \<union> (affected_paths entries path - {[]}))"
proof -
  have "[] \<notin> set (normalizeExcludedCreatePlanPaths excluded)"
    using excluded_normal by blast
  then show ?thesis
    by (simp add: applyCreatePlanPathInclusion_def Let_def affected_paths_def set_fold_inclusion normal_path_def)
qed

lemma inclusion_distinct [simp]: "distinct (applyCreatePlanPathInclusion entries excluded path included)"
  by (simp add: applyCreatePlanPathInclusion_def Let_def distinct_fold_inclusion normalizeExcludedCreatePlanPaths_def)

text \<open>ticking a row takes the exclusion off what it affects and off every folder above, unticking excludes just
  what it affects; nothing else changes.
\<close>

theorem inclusion_exact:
  "distinct (applyCreatePlanPathInclusion entries excluded path included)
   \<and> set (applyCreatePlanPathInclusion entries excluded path included) =
       (if included
        then set (normalizeExcludedCreatePlanPaths excluded) - \<Union> (ancestor_paths ` affected_paths entries path)
        else set (normalizeExcludedCreatePlanPaths excluded) \<union> (affected_paths entries path - {[]}))"
  using set_inclusion inclusion_distinct by blast

lemma self_ancestor: "normal_path q \<Longrightarrow> q \<in> ancestor_paths q"
  unfolding ancestor_paths_def by (intro CollectI exI [of _ "path_segments q"]) (simp add: normal_path_join)

lemma affected_after_inclusion:
  assumes "normalizeArchivePath (Some path) \<noteq> []" and "q \<in> affected_paths entries path"
  shows "q \<in> set (applyCreatePlanPathInclusion entries excluded path included) \<longleftrightarrow> \<not> included" and "q \<noteq> []"
proof -
  show q: "q \<noteq> []"
    using assms by (auto simp: affected_paths_def createPlanEntriesForPath_def Let_def isArchivePathInFolder_eq
      split: if_splits)
  have "q \<in> ancestor_paths q"
    using assms(2) by (intro self_ancestor) (auto simp: affected_paths_def normal_path_def split: if_splits)
  with q assms(2) show "q \<in> set (applyCreatePlanPathInclusion entries excluded path included) \<longleftrightarrow> \<not> included"
    unfolding set_inclusion by auto
qed

text \<open>after a tick the row of the folder reads as included and so does every entry in it, after an untick as excluded.
\<close>

theorem row_follows_inclusion:
  assumes "normalizeArchivePath (Some path) \<noteq> []"
  shows "createPlanRowInclusionState (FolderRow name path key entry children) entries
             (PathSet (applyCreatePlanPathInclusion entries excluded path included))
           = (if included then PlanIncluded else PlanExcluded)
       \<and> (\<forall>e \<in> set (createPlanEntriesForPath entries path).
            isCreatePlanPathIncluded (PathSet (applyCreatePlanPathInclusion entries excluded path included)) (pe_path e)
              = included)"
proof -
  let ?es = "createPlanEntriesForPath entries path"
  let ?x = "applyCreatePlanPathInclusion entries excluded path included"
  have m: "normalizeArchivePath (Some (pe_path e)) \<in> set ?x \<longleftrightarrow> \<not> included"
      "normalizeArchivePath (Some (pe_path e)) \<noteq> []" if "e \<in> set ?es" for e
    using that by (intro affected_after_inclusion [OF assms]; auto simp: affected_paths_def)+
  have e: "normalizeArchivePath (Some path) \<in> set ?x \<longleftrightarrow> \<not> included" if "?es = []"
    using that by (intro affected_after_inclusion [OF assms]) (simp add: affected_paths_def)
  have "filter (\<lambda>e. normalizeArchivePath (Some (pe_path e)) \<notin> set ?x) ?es = (if included then ?es else [])"
    using m(1) by (auto simp: filter_id_conv filter_empty_conv)
  with m e show ?thesis
    by (cases included; cases "?es = []") (simp_all add: normalized_excluded_def Let_def set_has_def isCreatePlanPathIncluded_def)
qed

definition plan_example :: "plan_entry list" where
  "plan_example =
     map (\<lambda>(p, k). \<lparr> pe_path = p, pe_kind = k, pe_size = Some 10, pe_modified = None, pe_mode = None,
            pe_sourcePath = CHR 0x2F # p, pe_created = None, pe_accessed = None, pe_attributes = None,
            pe_linkTarget = None, pe_uid = None, pe_gid = None, pe_owner = None, pe_group = None \<rparr>)
       [(''docs'', KDirectory), (''docs/a.txt'', KFile), (''docs/b.txt'', KFile), (''c.txt'', KFile)]"

theorem row_follows_inclusion_witness:
  "createPlanRowInclusionState (FolderRow [] ''docs'' ''docs'' None False) plan_example
     (PathSet (applyCreatePlanPathInclusion plan_example (PathArray []) ''docs'' False)) = PlanExcluded
   \<and> applyCreatePlanPathInclusion plan_example (PathArray []) ''docs'' False = [''docs'', ''docs/a.txt'', ''docs/b.txt'']"
proof
  have "normalizeArchivePath (Some ''docs'') \<noteq> []"
    by code_simp
  from row_follows_inclusion [OF this, of "[]" "''docs''" None False plan_example "PathArray []" False]
  show "createPlanRowInclusionState (FolderRow [] ''docs'' ''docs'' None False) plan_example
     (PathSet (applyCreatePlanPathInclusion plan_example (PathArray []) ''docs'' False)) = PlanExcluded"
    by simp
qed code_simp

section \<open>Filtering a plan\<close>

lemma entry_bytes_split: "entry_bytes (filter P es) + entry_bytes (filter (\<lambda>e. \<not> P e) es) = entry_bytes es"
  by (induction es) (simp_all add: entry_bytes_def)

text \<open>filtering a plan moves entries and bytes from the included side to the excluded side, loses none, and
  filtering again changes nothing.
\<close>

theorem filtered_plan_conserves:
  "cp_includedCount (filterCreatePlanByIncludedPaths plan ex) + cp_excludedCount (filterCreatePlanByIncludedPaths plan ex)
     = length (cp_planEntries plan) + cp_excludedCount plan
   \<and> cp_totalBytes (filterCreatePlanByIncludedPaths plan ex) + cp_excludedBytes (filterCreatePlanByIncludedPaths plan ex)
     = entry_bytes (cp_planEntries plan) + cp_excludedBytes plan
   \<and> mset (cp_entries (filterCreatePlanByIncludedPaths plan ex)) + mset (cp_excludedEntries (filterCreatePlanByIncludedPaths plan ex))
     = mset (map pe_path (cp_planEntries plan)) + mset (cp_excludedEntries plan)
   \<and> filterCreatePlanByIncludedPaths (filterCreatePlanByIncludedPaths plan ex) ex = filterCreatePlanByIncludedPaths plan ex"
proof -
  let ?P = "\<lambda>e. isCreatePlanPathIncluded ex (pe_path e)"
  have m: "image_mset pe_path (filter_mset ?P (mset es)) + image_mset pe_path (filter_mset (\<lambda>e. \<not> ?P e) (mset es))
      = image_mset pe_path (mset es)" for es
    by (metis image_mset_union multiset_partition)
  show ?thesis
    using sum_length_filter_compl [of ?P "cp_planEntries plan"] entry_bytes_split [of ?P "cp_planEntries plan"]
      m [of "cp_planEntries plan"]
    by (simp add: filterCreatePlanByIncludedPaths_def Let_def entry_bytes_def ac_simps)
qed

section \<open>The common directory\<close>

text \<open>The segment of a directory at a depth, empty past its end.\<close>

definition segment_at :: "string list \<Rightarrow> nat \<Rightarrow> string" where
  "segment_at ss k = (if k < length ss then ss ! k else [])"

lemma segment_at_tl: "segment_at (tl ss) k = segment_at ss (Suc k)"
  by (cases ss) (simp_all add: segment_at_def)

lemma common_segments_longest:
  "prefix (common_segments ci ss others) ss
   \<and> (\<forall>k < length (common_segments ci ss others). \<forall>other \<in> set others. samePathPart (ss ! k) (segment_at other k) ci)
   \<and> (length (common_segments ci ss others) < length ss \<longrightarrow>
        (\<exists>other \<in> set others. \<not> samePathPart (ss ! length (common_segments ci ss others))
           (segment_at other (length (common_segments ci ss others))) ci))"
proof (induction ci ss others rule: common_segments.induct)
  case (2 ci s ss others)
  have h: "(case other of x # _ \<Rightarrow> x | [] \<Rightarrow> []) = segment_at other 0" for other
    by (cases other) (simp_all add: segment_at_def)
  show ?case
  proof (cases "\<forall>other \<in> set others. samePathPart s (segment_at other 0) ci")
    case True
    then have c: "common_segments ci (s # ss) others = s # common_segments ci ss (map tl others)"
      and l: "list_all (\<lambda>other. samePathPart s (case other of x # _ \<Rightarrow> x | [] \<Rightarrow> []) ci) others"
      by (simp_all add: h list_all_iff)
    show ?thesis
      unfolding c using 2 [OF l] True
      by (auto simp: less_Suc_eq_0_disj segment_at_tl)
  qed (auto simp: h list_all_iff)
qed simp

lemma prefix_nth: "prefix xs ys \<Longrightarrow> k < length xs \<Longrightarrow> ys ! k = xs ! k"
  by (auto simp: prefix_def nth_append)

lemma same_part_refl [simp]: "samePathPart a a ci"
  by (simp add: samePathPart_def)

text \<open>the directory shared by the sources is the longest one that contains them all.\<close>

theorem common_parent_longest:
  assumes "List.map_filter (\<lambda>source. parseDirectoryPath (nativeParentPath source)) sources = f # rest"
    and "\<forall>p \<in> set rest. samePathPart (pd_root f) (pd_root p) (isCaseInsensitiveRoot (pd_root f))"
  shows "\<exists>cs. commonSourceParentDirectory nativeParentPath sources = formatParsedDirectoryPath f cs
           \<and> prefix cs (pd_segments f)
           \<and> (\<forall>k < length cs. \<forall>p \<in> set rest.
                samePathPart (cs ! k) (segment_at (pd_segments p) k) (isCaseInsensitiveRoot (pd_root f)))
           \<and> (length cs < length (pd_segments f) \<longrightarrow>
                (\<exists>p \<in> set rest. \<not> samePathPart (pd_segments f ! length cs) (segment_at (pd_segments p) (length cs))
                   (isCaseInsensitiveRoot (pd_root f))))"
proof -
  let ?ci = "isCaseInsensitiveRoot (pd_root f)"
  let ?cs = "common_segments ?ci (pd_segments f) (map pd_segments (f # rest))"
  have c: "commonSourceParentDirectory nativeParentPath sources = formatParsedDirectoryPath f ?cs"
    using assms by (simp add: commonSourceParentDirectory_def Let_def list_ex_iff)
  have l: "prefix ?cs (pd_segments f)"
      "\<forall>k < length ?cs. \<forall>p \<in> set rest. samePathPart (pd_segments f ! k) (segment_at (pd_segments p) k) ?ci"
      "length ?cs < length (pd_segments f) \<longrightarrow>
         (\<exists>p \<in> set rest. \<not> samePathPart (pd_segments f ! length ?cs) (segment_at (pd_segments p) (length ?cs)) ?ci)"
    using common_segments_longest [of ?ci "pd_segments f" "map pd_segments (f # rest)"]
    by (auto simp: segment_at_def)
  have n: "pd_segments f ! k = ?cs ! k" if "k < length ?cs" for k
    using l(1) that by (rule prefix_nth)
  show ?thesis
    by (rule exI [of _ ?cs]) (use c l n in simp)
qed

theorem common_parent_longest_witness:
  "\<exists>cs. commonSourceParentDirectory (\<lambda>s. rev (tl (dropWhile (\<lambda>c. c \<noteq> CHR 0x2F) (rev s))))
          [''/home/ann/a.txt'', ''/home/bob/b.txt''] = formatParsedDirectoryPath (\<lparr> pd_root = ''/'', pd_segments = [''home'', ''ann''], pd_separator = CHR 0x2F \<rparr>) cs
        \<and> prefix cs [''home'', ''ann'']"
proof -
  let ?n = "\<lambda>s. rev (tl (dropWhile (\<lambda>c. c \<noteq> CHR 0x2F) (rev s))) :: string"
  let ?f = "\<lparr> pd_root = ''/'', pd_segments = [''home'', ''ann''], pd_separator = CHR 0x2F \<rparr>"
  let ?g = "\<lparr> pd_root = ''/'', pd_segments = [''home'', ''bob''], pd_separator = CHR 0x2F \<rparr>"
  have 1: "List.map_filter (\<lambda>source. parseDirectoryPath (?n source)) [''/home/ann/a.txt'', ''/home/bob/b.txt''] = ?f # [?g]"
    by code_simp
  have 2: "\<forall>p \<in> set [?g]. samePathPart (pd_root ?f) (pd_root p) (isCaseInsensitiveRoot (pd_root ?f))"
    by simp
  show ?thesis
    using common_parent_longest [OF 1 2] by auto
qed


end
