(* ===== verification/CreateMachine.thy ===== *)
theory CreateMachine
  imports CreateWorkspaceView CreateProps
begin

text \<open>
  The create workspace as a state machine: its operations as inputs, the invariant of every state it can reach,
  and what its operations guarantee.
\<close>

section \<open>Operations\<close>

datatype cw_op =
    OpAddSources "string option list"
  | OpSetSources "string option list"
  | OpRemoveSources "string option list"
  | OpClearSources
  | OpReset
  | OpResetAfterAcceptedStart "create_format option" "format_create_defaults option"
  | OpQueuePlan
  | OpBeginPlan "plan_options option" "nat option"
  | OpAcceptPlanResult nat create_plan
  | OpAcceptPlanError nat plan_status
  | OpSetPlanError plan_status
  | OpRefreshPlanAfterDestinationEdit
  | OpApplyFormatDefaults create_format format_create_defaults "string option option"
  | OpChangeFormat create_format format_create_defaults
  | OpSetOptions option_patch
  | OpSetDestinationPath string
  | OpSetDestinationPathIfBlank string
  | OpSuggestDestinationPathIfBlank "string option"
  | OpEnsureDestinationExtension
  | OpBuildStartCreateRequest start_input
  | OpSetSubmissionInFlight bool
  | OpNavigateToFolder string
  | OpSetSearchQuery string
  | OpClearSearch
  | OpToggleTreeFolder string
  | OpSetTreeFolderExpanded string bool
  | OpSelectRow string "bool \<times> bool \<times> bool"
  | OpUpdateSelection table_selection
  | OpToggleRowSelection string
  | OpFocusRow string
  | OpEnsureRowSelected string
  | OpClearSelection
  | OpSetPathIncluded string bool
  | OpSetAllPathsIncluded bool
  | OpSetCurrentFolderIncluded "string option" bool
  | OpSetVisibleRowsIncluded bool
  | OpSetColumnWidth string jsnum
  | OpToggleColumnVisibility string
  | OpMoveColumn string move_direction
  | OpReorderColumn string string
  | OpResetColumns "partial_settings option"

fun cw_apply :: "cw_env \<Rightarrow> cw_op \<Rightarrow> cw_state \<Rightarrow> cw_state" where
  "cw_apply env (OpAddSources paths) s = fst (cw_addSources paths s)"
| "cw_apply env (OpSetSources paths) s = fst (cw_setSources paths s)"
| "cw_apply env (OpRemoveSources paths) s = fst (cw_removeSources paths s)"
| "cw_apply env OpClearSources s = fst (cw_clearSources s)"
| "cw_apply env OpReset s = fst (cw_reset s)"
| "cw_apply env (OpResetAfterAcceptedStart f d) s = fst (resetAfterAcceptedStart env f d s)"
| "cw_apply env OpQueuePlan s = fst (cw_queuePlan s)"
| "cw_apply env (OpBeginPlan o' r) s = fst (cw_beginPlan o' r s)"
| "cw_apply env (OpAcceptPlanResult r plan) s = fst (cw_acceptPlanResult env r plan s)"
| "cw_apply env (OpAcceptPlanError r status) s = fst (cw_acceptPlanError r status s)"
| "cw_apply env (OpSetPlanError status) s = cw_setPlanError status s"
| "cw_apply env OpRefreshPlanAfterDestinationEdit s = refreshPlanAfterDestinationEdit s"
| "cw_apply env (OpApplyFormatDefaults f d so) s = fst (applyFormatDefaults env f d so s)"
| "cw_apply env (OpChangeFormat f d) s = fst (changeFormat env f d s)"
| "cw_apply env (OpSetOptions patch) s = fst (cw_setOptions env patch s)"
| "cw_apply env (OpSetDestinationPath path) s = fst (setDestinationPath path s)"
| "cw_apply env (OpSetDestinationPathIfBlank path) s = fst (setDestinationPathIfBlank path s)"
| "cw_apply env (OpSuggestDestinationPathIfBlank d) s = fst (suggestDestinationPathIfBlank env d s)"
| "cw_apply env OpEnsureDestinationExtension s = fst (ensureDestinationExtension s)"
| "cw_apply env (OpBuildStartCreateRequest i) s = fst (cw_buildStartCreateRequest env i s)"
| "cw_apply env (OpSetSubmissionInFlight b) s = fst (setSubmissionInFlight b s)"
| "cw_apply env (OpNavigateToFolder f) s = fst (cw_navigateToFolder env f s)"
| "cw_apply env (OpSetSearchQuery q) s = cw_setSearchQuery env q s"
| "cw_apply env OpClearSearch s = cw_clearSearch env s"
| "cw_apply env (OpToggleTreeFolder f) s = fst (cw_toggleTreeFolder env f s)"
| "cw_apply env (OpSetTreeFolderExpanded f b) s = fst (setTreeFolderExpanded env f b s)"
| "cw_apply env (OpSelectRow p m) s = fst (selectRow env p m s)"
| "cw_apply env (OpUpdateSelection t) s = fst (cw_updateSelection env t s)"
| "cw_apply env (OpToggleRowSelection p) s = fst (toggleRowSelection env p s)"
| "cw_apply env (OpFocusRow p) s = fst (focusRow env p s)"
| "cw_apply env (OpEnsureRowSelected p) s = fst (ensureRowSelected env p s)"
| "cw_apply env OpClearSelection s = fst (cw_clearSelection env s)"
| "cw_apply env (OpSetPathIncluded p b) s = fst (setPathIncluded p b s)"
| "cw_apply env (OpSetAllPathsIncluded b) s = fst (setAllPathsIncluded b s)"
| "cw_apply env (OpSetCurrentFolderIncluded f b) s = fst (setCurrentFolderIncluded f b s)"
| "cw_apply env (OpSetVisibleRowsIncluded b) s = fst (setVisibleRowsIncluded env b s)"
| "cw_apply env (OpSetColumnWidth c w) s = cw_setColumnWidth c w s"
| "cw_apply env (OpToggleColumnVisibility c) s = cw_toggleColumnVisibility c s"
| "cw_apply env (OpMoveColumn c d) s = cw_moveColumn c d s"
| "cw_apply env (OpReorderColumn c d) s = cw_reorderColumn c d s"
| "cw_apply env (OpResetColumns st) s = cw_resetColumns st s"

definition cw_init :: "cw_state \<Rightarrow> bool" where
  "cw_init s \<longleftrightarrow> (\<exists>settings. s = createCreateWorkspace settings)"

inductive cw_step :: "cw_env \<Rightarrow> cw_state \<Rightarrow> cw_state \<Rightarrow> bool" for env :: cw_env where
  cw_stepI: "cw_step env s (cw_apply env operation s)"

inductive_cases cw_stepE: "cw_step env s s'"

section \<open>The invariant\<close>

definition sources_inv :: "cw_state \<Rightarrow> bool" where
  "sources_inv s \<longleftrightarrow> distinct (cw_sources s) \<and> (\<forall>p \<in> set (cw_sources s). p \<noteq> [] \<and> js_trim p = p)"

definition plan_inv :: "cw_state \<Rightarrow> bool" where
  "plan_inv s \<longleftrightarrow>
     (cw_planState s = CsReady \<longrightarrow> cw_currentPlan s \<noteq> None)
     \<and> (cw_currentPlan s = None \<longrightarrow> cw_excludedArchivePaths s = [])"

definition excluded_inv :: "cw_state \<Rightarrow> bool" where
  "excluded_inv s \<longleftrightarrow> normal_paths (cw_excludedArchivePaths s)"

definition folder_inv :: "cw_state \<Rightarrow> bool" where
  "folder_inv s \<longleftrightarrow>
     normal_path (cw_currentFolder s) \<and> createPlanFolderExists (plan_entries s) (Some (cw_currentFolder s))
     \<and> distinct (cw_expandedTreeFolders s) \<and> [] \<in> set (cw_expandedTreeFolders s)
     \<and> (\<forall>p \<in> set (cw_expandedTreeFolders s). normal_path p)"

text \<open>What is selected comes from a row that is shown; the stored paths are trimmed.\<close>

definition shown_paths :: "cw_env \<Rightarrow> cw_state \<Rightarrow> string set" where
  "shown_paths env s = (\<lambda>p. normalizeCreateArchivePath (Some p)) ` set (visibleSelectablePathsForState env s)"

definition chosen_inv :: "cw_env \<Rightarrow> cw_state \<Rightarrow> bool" where
  "chosen_inv env s \<longleftrightarrow>
     distinct (cl_selectedPaths (cw_selection s)) \<and> set (cl_selectedPaths (cw_selection s)) \<subseteq> shown_paths env s - {[]}
     \<and> cl_focusedPath (cw_selection s) \<in> insert [] (shown_paths env s)
     \<and> cl_anchorPath (cw_selection s) \<in> insert [] (shown_paths env s)"

definition split_inv :: "create_options \<Rightarrow> bool" where
  "split_inv o' \<longleftrightarrow>
     (case co_splitMode o' of
        SplitNone \<Rightarrow> co_volumeSize o' = None \<and> co_volumeCount o' = None
      | SplitVolumeSize \<Rightarrow> co_volumeCount o' = None
      | SplitVolumeCount \<Rightarrow> co_volumeSize o' = None)"

definition numbers_inv :: "create_options \<Rightarrow> bool" where
  "numbers_inv o' \<longleftrightarrow>
     option_all (\<lambda>x. of_int \<lfloor>x\<rfloor> = x \<and> 0 \<le> x) (co_compressionLevel o')
     \<and> option_all (\<lambda>x. of_int \<lfloor>x\<rfloor> = x \<and> 0 \<le> x) (co_volumeSize o')
     \<and> option_all (whole_between TZAP_VOLUME_COUNT_MIN TZAP_VOLUME_COUNT_MAX) (co_volumeCount o')
     \<and> whole_between 0 100 (co_tzapRecoveryPercentage o')
     \<and> whole_between 0 16 (co_tzapVolumeLossTolerance o')"

definition options_inv :: "create_options \<Rightarrow> bool" where
  "options_inv o' \<longleftrightarrow> split_inv o' \<and> numbers_inv o'"

definition cw_inv :: "cw_env \<Rightarrow> cw_state \<Rightarrow> bool" where
  "cw_inv env s \<longleftrightarrow>
     sources_inv s \<and> plan_inv s \<and> excluded_inv s \<and> folder_inv s \<and> chosen_inv env s \<and> options_inv (cw_options s)"

section \<open>What the updates leave alone\<close>

lemma sources_inv_frame [simp]:
  "sources_inv (s\<lparr> cw_planState := a \<rparr>) = sources_inv s"
  "sources_inv (s\<lparr> cw_currentPlan := b \<rparr>) = sources_inv s"
  "sources_inv (s\<lparr> cw_planStatus := c \<rparr>) = sources_inv s"
  "sources_inv (s\<lparr> cw_planRevision := d \<rparr>) = sources_inv s"
  "sources_inv (s\<lparr> cw_excludedArchivePaths := e \<rparr>) = sources_inv s"
  "sources_inv (s\<lparr> cw_currentFolder := f \<rparr>) = sources_inv s"
  "sources_inv (s\<lparr> cw_searchQuery := g \<rparr>) = sources_inv s"
  "sources_inv (s\<lparr> cw_expandedTreeFolders := h \<rparr>) = sources_inv s"
  "sources_inv (s\<lparr> cw_selection := i \<rparr>) = sources_inv s"
  "sources_inv (s\<lparr> cw_options := j \<rparr>) = sources_inv s"
  "sources_inv (s\<lparr> cw_columnSettings := k \<rparr>) = sources_inv s"
  by (simp_all add: sources_inv_def)

lemma plan_inv_frame [simp]:
  "plan_inv (s\<lparr> cw_sources := a \<rparr>) = plan_inv s"
  "plan_inv (s\<lparr> cw_planStatus := b \<rparr>) = plan_inv s"
  "plan_inv (s\<lparr> cw_planRevision := c \<rparr>) = plan_inv s"
  "plan_inv (s\<lparr> cw_currentFolder := i \<rparr>) = plan_inv s"
  "plan_inv (s\<lparr> cw_searchQuery := d \<rparr>) = plan_inv s"
  "plan_inv (s\<lparr> cw_expandedTreeFolders := e \<rparr>) = plan_inv s"
  "plan_inv (s\<lparr> cw_selection := f \<rparr>) = plan_inv s"
  "plan_inv (s\<lparr> cw_options := g \<rparr>) = plan_inv s"
  "plan_inv (s\<lparr> cw_columnSettings := h \<rparr>) = plan_inv s"
  by (simp_all add: plan_inv_def)

lemma excluded_inv_frame [simp]:
  "excluded_inv (s\<lparr> cw_sources := a \<rparr>) = excluded_inv s"
  "excluded_inv (s\<lparr> cw_planState := b \<rparr>) = excluded_inv s"
  "excluded_inv (s\<lparr> cw_currentPlan := c \<rparr>) = excluded_inv s"
  "excluded_inv (s\<lparr> cw_planStatus := d \<rparr>) = excluded_inv s"
  "excluded_inv (s\<lparr> cw_planRevision := e \<rparr>) = excluded_inv s"
  "excluded_inv (s\<lparr> cw_currentFolder := f \<rparr>) = excluded_inv s"
  "excluded_inv (s\<lparr> cw_searchQuery := g \<rparr>) = excluded_inv s"
  "excluded_inv (s\<lparr> cw_expandedTreeFolders := h \<rparr>) = excluded_inv s"
  "excluded_inv (s\<lparr> cw_selection := i \<rparr>) = excluded_inv s"
  "excluded_inv (s\<lparr> cw_options := j \<rparr>) = excluded_inv s"
  "excluded_inv (s\<lparr> cw_columnSettings := k \<rparr>) = excluded_inv s"
  "excluded_inv (s\<lparr> cw_excludedArchivePaths := l \<rparr>) = normal_paths l"
  by (simp_all add: excluded_inv_def)

lemma plan_entries_frame [simp]:
  "plan_entries (s\<lparr> cw_sources := a \<rparr>) = plan_entries s"
  "plan_entries (s\<lparr> cw_planState := b \<rparr>) = plan_entries s"
  "plan_entries (s\<lparr> cw_planStatus := c \<rparr>) = plan_entries s"
  "plan_entries (s\<lparr> cw_planRevision := d \<rparr>) = plan_entries s"
  "plan_entries (s\<lparr> cw_excludedArchivePaths := e \<rparr>) = plan_entries s"
  "plan_entries (s\<lparr> cw_currentFolder := f \<rparr>) = plan_entries s"
  "plan_entries (s\<lparr> cw_searchQuery := g \<rparr>) = plan_entries s"
  "plan_entries (s\<lparr> cw_expandedTreeFolders := h \<rparr>) = plan_entries s"
  "plan_entries (s\<lparr> cw_selection := i \<rparr>) = plan_entries s"
  "plan_entries (s\<lparr> cw_options := j \<rparr>) = plan_entries s"
  "plan_entries (s\<lparr> cw_columnSettings := k \<rparr>) = plan_entries s"
  by (simp_all add: plan_entries_def)

lemma folder_inv_frame [simp]:
  "folder_inv (s\<lparr> cw_sources := a \<rparr>) = folder_inv s"
  "folder_inv (s\<lparr> cw_planState := b \<rparr>) = folder_inv s"
  "folder_inv (s\<lparr> cw_planStatus := c \<rparr>) = folder_inv s"
  "folder_inv (s\<lparr> cw_planRevision := d \<rparr>) = folder_inv s"
  "folder_inv (s\<lparr> cw_excludedArchivePaths := e \<rparr>) = folder_inv s"
  "folder_inv (s\<lparr> cw_searchQuery := f \<rparr>) = folder_inv s"
  "folder_inv (s\<lparr> cw_selection := g \<rparr>) = folder_inv s"
  "folder_inv (s\<lparr> cw_options := h \<rparr>) = folder_inv s"
  "folder_inv (s\<lparr> cw_columnSettings := i \<rparr>) = folder_inv s"
  by (simp_all add: folder_inv_def)

lemma shown_frame [simp]:
  "shown_paths env (s\<lparr> cw_sources := a \<rparr>) = shown_paths env s"
  "shown_paths env (s\<lparr> cw_planState := b \<rparr>) = shown_paths env s"
  "shown_paths env (s\<lparr> cw_planStatus := c \<rparr>) = shown_paths env s"
  "shown_paths env (s\<lparr> cw_planRevision := d \<rparr>) = shown_paths env s"
  "shown_paths env (s\<lparr> cw_excludedArchivePaths := e \<rparr>) = shown_paths env s"
  "shown_paths env (s\<lparr> cw_expandedTreeFolders := f \<rparr>) = shown_paths env s"
  "shown_paths env (s\<lparr> cw_selection := g \<rparr>) = shown_paths env s"
  "shown_paths env (s\<lparr> cw_options := h \<rparr>) = shown_paths env s"
  "shown_paths env (s\<lparr> cw_columnSettings := i \<rparr>) = shown_paths env s"
  by (simp_all add: shown_paths_def visibleSelectablePathsForState_def cw_visibleRowsForState_def)

lemma chosen_inv_frame [simp]:
  "chosen_inv env (s\<lparr> cw_sources := a \<rparr>) = chosen_inv env s"
  "chosen_inv env (s\<lparr> cw_planState := b \<rparr>) = chosen_inv env s"
  "chosen_inv env (s\<lparr> cw_planStatus := c \<rparr>) = chosen_inv env s"
  "chosen_inv env (s\<lparr> cw_planRevision := d \<rparr>) = chosen_inv env s"
  "chosen_inv env (s\<lparr> cw_excludedArchivePaths := e \<rparr>) = chosen_inv env s"
  "chosen_inv env (s\<lparr> cw_expandedTreeFolders := f \<rparr>) = chosen_inv env s"
  "chosen_inv env (s\<lparr> cw_options := g \<rparr>) = chosen_inv env s"
  "chosen_inv env (s\<lparr> cw_columnSettings := h \<rparr>) = chosen_inv env s"
  by (simp_all add: chosen_inv_def)

lemma chosen_empty [simp]: "cw_selection s = emptyCreateSelection \<Longrightarrow> chosen_inv env s"
  by (simp add: chosen_inv_def emptyCreateSelection_def)

lemma folder_root [simp]:
  "cw_currentFolder s = [] \<Longrightarrow> cw_expandedTreeFolders s = [[]] \<Longrightarrow> folder_inv s"
  by (simp add: folder_inv_def createPlanFolderExists_def normalizeCreateArchivePath_def)

lemma no_plan_inv: "cw_planState s \<noteq> CsReady \<Longrightarrow> cw_excludedArchivePaths s = [] \<Longrightarrow> plan_inv s"
  by (simp add: plan_inv_def)

lemma nothing_excluded [simp]: "cw_excludedArchivePaths s = [] \<Longrightarrow> excluded_inv s"
  by (simp add: excluded_inv_def)

section \<open>Selection and folders\<close>

lemma normal_create [simp]: "normal_path (normalizeCreateArchivePath p)"
  by (simp add: normalizeCreateArchivePath_def)

lemma create_path_Nil [simp]: "normalizeCreateArchivePath (Some []) = []" "normalizeCreateArchivePath None = []"
  by (simp_all add: normalizeCreateArchivePath_def)

lemma cleanup_shown:
  "set (sel_paths (cleanupHierarchicalTableSelection t visible False)) \<subseteq> set visible"
  "sel_focused (cleanupHierarchicalTableSelection t visible False) \<in> insert [] (set visible)"
  "sel_anchor (cleanupHierarchicalTableSelection t visible False) \<in> insert [] (set visible)"
proof -
  let ?r = "cleanupHierarchicalTableSelection t visible False"
  show p: "set (sel_paths ?r) \<subseteq> set visible"
    by (auto simp: cleanupHierarchicalTableSelection_def Let_def set_has_def)
  show f: "sel_focused ?r \<in> insert [] (set visible)"
    by (auto simp: cleanupHierarchicalTableSelection_def Let_def set_has_def)
  have s: "first_such (set_has (js_set visible)) ps \<in> insert [] (set visible)" for ps
    by (auto simp: first_such_def set_has_def find_Some_iff split: option.split)
  show "sel_anchor ?r \<in> insert [] (set visible)"
    using f s by (auto simp: cleanupHierarchicalTableSelection_def Let_def set_has_def str_or_def)
qed

lemma distinct_created [simp]: "distinct (normalizeCreateSelectedPaths lc ps)"
  by (simp add: normalizeCreateSelectedPaths_def)

lemma cleaned_selection:
  "chosen_inv env (s\<lparr> cw_selection := cw_selectionFromResult env
     (cleanupHierarchicalTableSelection t (visibleSelectablePathsForState env s) False) \<rparr>)"
proof -
  let ?v = "visibleSelectablePathsForState env s"
  let ?n = "\<lambda>p. normalizeCreateArchivePath (Some p)"
  let ?r = "cleanupHierarchicalTableSelection t ?v False"
  have "set (normalizeCreateSelectedPaths (cx_localeCompare env) (sel_paths ?r)) \<subseteq> ?n ` set ?v - {[]}"
    using cleanup_shown(1) [of t ?v] by (auto simp: normalizeCreateSelectedPaths_def set_collect_normalised)
  moreover have "?n (sel_focused ?r) \<in> insert [] (?n ` set ?v)" and "?n (sel_anchor ?r) \<in> insert [] (?n ` set ?v)"
    using cleanup_shown(2,3) [of t ?v] by (auto simp del: insert_iff)
  ultimately show ?thesis
    by (simp add: chosen_inv_def cw_selectionFromResult_def shown_paths_def [symmetric])
qed

lemma same_list: "sameOrderedSources xs ys \<longleftrightarrow> xs = ys"
  unfolding sameOrderedSources_def list_all_iff by (subst list_eq_iff_nth_eq) auto

lemma same_selection: "sameCreateSelection l r \<longleftrightarrow> l = r"
  by (cases l; cases r) (simp add: sameCreateSelection_def same_list)

lemma applied_selection:
  "fst (applySelectionResult env t s) =
     s\<lparr> cw_selection := cw_selectionFromResult env (cleanupHierarchicalTableSelection
       \<lparr> st_paths = sel_paths t, st_focused = Some (sel_focused t), st_anchor = Some (sel_anchor t) \<rparr>
       (visibleSelectablePathsForState env s) False) \<rparr>"
  by (auto simp: applySelectionResult_def Let_def same_selection)

lemma cleaned_state:
  "cleanupSelectionForState env s =
     s\<lparr> cw_selection := cw_selectionFromResult env (cleanupHierarchicalTableSelection
       \<lparr> st_paths = js_set (cl_selectedPaths (cw_selection s)), st_focused = Some (cl_focusedPath (cw_selection s)),
         st_anchor = Some (cl_anchorPath (cw_selection s)) \<rparr>
       (visibleSelectablePathsForState env s) False) \<rparr>"
  by (simp add: cleanupSelectionForState_def cleanupSelectionForRows_def visibleSelectablePathsForState_def
      Let_def same_selection)

text \<open>An update of the folder or the search whose selection is then cleaned.\<close>

lemma cleaned_state_inv:
  "cw_inv env (cleanupSelectionForState env s) \<longleftrightarrow>
     sources_inv s \<and> plan_inv s \<and> excluded_inv s \<and> folder_inv s \<and> options_inv (cw_options s)"
  unfolding cw_inv_def cleaned_state using cleaned_selection by simp

lemma applied_selection_inv: "cw_inv env s \<Longrightarrow> cw_inv env (fst (applySelectionResult env t s))"
  unfolding cw_inv_def applied_selection using cleaned_selection by simp

lemma set_expanded_create [simp]:
  "distinct (js_set (cw_expandedFolderAndAncestors lc ex f))"
  "[] \<in> set (cw_expandedFolderAndAncestors lc ex f)"
  "p \<in> set (cw_expandedFolderAndAncestors lc ex f) \<Longrightarrow> normal_path p"
  by (auto simp: cw_expandedFolderAndAncestors_def cw_normalizeExpandedTreeFolders_def)

lemma existing_folder:
  assumes "normalizeExistingCreateFolderPath entries f = Some g"
  shows "normal_path g" and "createPlanFolderExists entries (Some g)"
  using assms
  by (auto simp: normalizeExistingCreateFolderPath_def createPlanFolderExists_def Let_def split: if_splits)

lemma navigate_inv: "cw_inv env s \<Longrightarrow> cw_inv env (fst (cw_navigateToFolder env f s))"
proof (cases "normalizeExistingCreateFolderPath (plan_entries s) (Some f)")
  case (Some g)
  assume i: "cw_inv env s"
  from i existing_folder [OF Some] Some show ?thesis
    by (auto simp: cw_navigateToFolder_def cleaned_state_inv) (simp_all add: cw_inv_def plan_inv_def folder_inv_def)
qed (simp add: cw_navigateToFolder_def)

lemma search_inv:
  "cw_inv env s \<Longrightarrow> cw_inv env (cw_setSearchQuery env q s)" "cw_inv env s \<Longrightarrow> cw_inv env (cw_clearSearch env s)"
  by (simp_all add: cw_setSearchQuery_def cw_clearSearch_def cleaned_state_inv) (simp_all add: cw_inv_def)

lemma expand_inv:
  assumes "cw_inv env s"
  shows "cw_inv env (fst (expand_folders env ex s))"
proof -
  have "folder_inv (s\<lparr> cw_expandedTreeFolders := js_set (cw_expandedFolderAndAncestors lc ex g) \<rparr>)" for lc g
    using assms by (auto simp: cw_inv_def folder_inv_def)
  with assms show ?thesis
    by (simp add: expand_folders_def Let_def cw_inv_def)
qed

lemma tree_folder_inv:
  "cw_inv env s \<Longrightarrow> cw_inv env (fst (cw_toggleTreeFolder env f s))"
  "cw_inv env s \<Longrightarrow> cw_inv env (fst (setTreeFolderExpanded env f b s))"
  by (auto simp: cw_toggleTreeFolder_def setTreeFolderExpanded_def split: option.split intro!: expand_inv)

section \<open>Inclusion\<close>

lemma normal_inclusion [simp]: "normal_paths (applyCreatePlanPathInclusion entries excluded path included)"
proof -
  have "normal_path q" if "q \<in> affected_paths entries path" for q
    using that by (auto simp: affected_paths_def split: if_splits)
  then show ?thesis
    using excluded_normal [of _ excluded] inclusion_distinct set_inclusion [of entries excluded path included]
    by (auto simp: normal_paths_def normal_path_def split: if_splits)
qed

lemma normal_planned [simp]: "normal_paths (js_set (plannedArchivePaths plan))"
  by (auto simp: normal_paths_def plannedArchivePaths_def)

lemma excluded_update:
  assumes "cw_inv env s" and "normal_paths ps" and "cw_currentPlan s = None \<Longrightarrow> ps = []"
  shows "cw_inv env (fst (set_excluded ps s))"
proof -
  have "plan_inv (s\<lparr> cw_excludedArchivePaths := ps \<rparr>)"
    using assms by (auto simp: cw_inv_def plan_inv_def)
  with assms show ?thesis
    by (simp add: set_excluded_def Let_def cw_inv_def)
qed

lemma normal_fold_inclusion:
  "normal_paths ps \<Longrightarrow>
     normal_paths (fold (\<lambda>path excluded. applyCreatePlanPathInclusion entries (PathSet excluded) path included) qs ps)"
  by (induction qs arbitrary: ps) simp_all

lemma inclusion_inv:
  "cw_inv env s \<Longrightarrow> cw_inv env (fst (setPathIncluded p b s))"
  "cw_inv env s \<Longrightarrow> cw_inv env (fst (setAllPathsIncluded b s))"
  "cw_inv env s \<Longrightarrow> cw_inv env (fst (setCurrentFolderIncluded f b s))"
  "cw_inv env s \<Longrightarrow> cw_inv env (fst (setVisibleRowsIncluded env b s))"
proof -
  assume i: "cw_inv env s"
  have all: "cw_inv env (fst (set_excluded (if b then [] else js_set (plannedArchivePaths (cw_currentPlan s))) s))"
    using i by (intro excluded_update) (simp_all split: if_splits, simp_all add: plannedArchivePaths_def)
  have some: "cw_currentPlan s \<noteq> None \<Longrightarrow> normal_paths ps \<Longrightarrow> cw_inv env (fst (set_excluded ps s))" for ps
    using i by (rule excluded_update) simp_all
  show "cw_inv env (fst (setPathIncluded p b s))"
    using i some by (simp add: setPathIncluded_def Let_def)
  show "cw_inv env (fst (setAllPathsIncluded b s))"
    using all by (simp add: setAllPathsIncluded_def)
  show "cw_inv env (fst (setCurrentFolderIncluded f b s))"
    using i all some by (simp add: setCurrentFolderIncluded_def Let_def)
  have "normal_paths (js_set (cw_excludedArchivePaths s))"
    using i by (simp add: cw_inv_def excluded_inv_def normal_paths_def)
  then show "cw_inv env (fst (setVisibleRowsIncluded env b s))"
    using i some normal_fold_inclusion by (simp add: setVisibleRowsIncluded_def Let_def)
qed

section \<open>Sources and plans\<close>

lemma normal_sources:
  "distinct (normalizeSourcePaths ps)" "p \<in> set (normalizeSourcePaths ps) \<Longrightarrow> p \<noteq> [] \<and> js_trim p = p"
  by (auto simp: normalizeSourcePaths_def set_collect_normalised)

lemma reset_plan_inv:
  assumes "cw_inv env s" and "distinct ps" and "\<forall>p \<in> set ps. p \<noteq> [] \<and> js_trim p = p"
  shows "cw_inv env ((resetPlanState s)\<lparr> cw_sources := ps \<rparr>)"
  using assms unfolding cw_inv_def resetPlanState_def
  by (simp add: sources_inv_def) (simp add: plan_inv_def normal_paths_def)

lemma options_inv_frame [simp]:
  "options_inv (o'\<lparr> co_destinationPath := path \<rparr>) = options_inv o'"
  "options_inv (o'\<lparr> co_submissionInFlight := b \<rparr>) = options_inv o'"
  by (cases "co_splitMode o'"; simp add: options_inv_def split_inv_def numbers_inv_def)+

lemma restarted_inv: "options_inv o' \<Longrightarrow> cw_inv env (restarted s o')"
  by (simp add: cw_inv_def sources_inv_def restarted_def plan_inv_def)

lemma mutation_fst [simp]: "fst (mutationResult s c a r) = s"
  by (simp add: mutationResult_def)

lemma source_op_inv:
  assumes "cw_inv env s"
  shows "cw_inv env (fst (cw_addSources ps s))" and "cw_inv env (fst (cw_setSources ps s))"
    and "cw_inv env (fst (cw_removeSources ps s))" and "cw_inv env (fst (cw_clearSources s))"
    and "cw_inv env (fst (cw_reset s))"
proof -
  have s: "distinct (cw_sources s)" "\<forall>p \<in> set (cw_sources s). p \<noteq> [] \<and> js_trim p = p"
    and o': "options_inv (cw_options s)"
    using assms by (simp_all add: cw_inv_def sources_inv_def)
  have "cw_inv env ((resetPlanState s)\<lparr> cw_sources := cw_sources s @ filter (\<lambda>p. \<not> set_has (cw_sources s) p) (normalizeSourcePaths ps) \<rparr>)"
    using s normal_sources [where ps = ps] by (intro reset_plan_inv assms) (auto simp: set_has_def)
  with assms show "cw_inv env (fst (cw_addSources ps s))"
    by (simp add: cw_addSources_def Let_def)
  have "cw_inv env ((resetPlanState s)\<lparr> cw_sources := normalizeSourcePaths ps \<rparr>)"
    using normal_sources [where ps = ps] by (intro reset_plan_inv assms) auto
  with assms show "cw_inv env (fst (cw_setSources ps s))"
    by (simp add: cw_setSources_def Let_def)
  have "cw_inv env ((resetPlanState s)\<lparr> cw_sources := filter P (cw_sources s) \<rparr>)" for P
    using s by (intro reset_plan_inv assms) auto
  with assms show "cw_inv env (fst (cw_removeSources ps s))"
    by (simp add: cw_removeSources_def Let_def)
  show "cw_inv env (fst (cw_clearSources s))"
    using assms reset_plan_inv [OF assms, of "[]"] by (simp add: cw_clearSources_def)
  show "cw_inv env (fst (cw_reset s))"
    using assms restarted_inv [OF o'] by (simp add: cw_reset_def)
qed

lemma queued_inv: "cw_inv env s \<Longrightarrow> cw_inv env (beginQueuedPlanState s r)"
  unfolding cw_inv_def beginQueuedPlanState_def
  by (cases "cw_sources s = []") (simp_all add: no_plan_inv normal_paths_def, simp_all add: plan_inv_def)

lemma plan_op_inv:
  assumes "cw_inv env s"
  shows "cw_inv env (fst (cw_queuePlan s))" and "cw_inv env (fst (cw_beginPlan o' r s))"
  using assms queued_inv by (simp_all add: cw_queuePlan_def cw_beginPlan_def Let_def)

lemma error_inv:
  assumes "cw_inv env s"
  shows "cw_inv env (setPlanErrorState s status)"
proof (cases "cw_currentPlan s = None")
  case True
  with assms show ?thesis
    unfolding cw_inv_def setPlanErrorState_def by simp (simp add: plan_inv_def)
next
  case False
  with assms show ?thesis
    unfolding cw_inv_def setPlanErrorState_def by simp (simp add: plan_inv_def folder_inv_def chosen_inv_def)
qed

lemma refresh_inv:
  assumes "cw_inv env s"
  shows "cw_inv env (refreshPlanAfterTransientInputEdit s)" and "cw_inv env (refreshPlanAfterDestinationEdit s)"
  using assms
  by (simp_all add: cw_inv_def refreshPlanAfterTransientInputEdit_def refreshPlanAfterDestinationEdit_def)
    (simp_all add: plan_inv_def)

text \<open>Reconciling the view sets the folder and the expanded folders, and cleans the selection.\<close>

lemma reconciled:
  assumes "cw_currentPlan u = Some plan"
    and f: "f = (if createPlanFolderExists (cp_planEntries plan) (Some (cw_currentFolder u)) then cw_currentFolder u else [])"
    and v: "v = u\<lparr> cw_currentFolder := f, cw_expandedTreeFolders := js_set (cw_expandedFolderAndAncestors (cx_localeCompare env)
              (pruneExpandedTreeFolders (cx_localeCompare env) (cw_expandedTreeFolders u) (cp_planEntries plan)) f) \<rparr>"
  shows "reconcileViewForPlan env u = v\<lparr> cw_selection := cw_selectionFromResult env
     (cleanupHierarchicalTableSelection
       \<lparr> st_paths = js_set (cl_selectedPaths (cw_selection u)), st_focused = Some (cl_focusedPath (cw_selection u)),
         st_anchor = Some (cl_anchorPath (cw_selection u)) \<rparr> (visibleSelectablePathsForState env v) False) \<rparr>"
  using assms(1) unfolding reconcileViewForPlan_def Let_def v
  by (simp add: f [symmetric] cleanupSelectionForRows_def visibleSelectablePathsForState_def
      cw_visibleRowsForState_def plan_entries_def)

lemma accepted_plan_inv:
  assumes "cw_inv env s"
  shows "cw_inv env (fst (cw_acceptPlanResult env r plan s))"
proof (cases "r = cw_planRevision s")
  case True
  let ?t = "s\<lparr> cw_planState := CsReady, cw_currentPlan := Some plan, cw_planStatus := None \<rparr>"
  let ?es = "cp_planEntries plan"
  define u where "u = pruneExcludedPathsForPlan ?t"
  define f where "f = (if createPlanFolderExists ?es (Some (cw_currentFolder u)) then cw_currentFolder u else [])"
  define v where "v = u\<lparr> cw_currentFolder := f, cw_expandedTreeFolders := js_set (cw_expandedFolderAndAncestors (cx_localeCompare env)
              (pruneExpandedTreeFolders (cx_localeCompare env) (cw_expandedTreeFolders u) ?es) f) \<rparr>"
  have u: "u = ?t\<lparr> cw_excludedArchivePaths := js_set (filter (set_has (js_set (plannedArchivePaths (Some plan)))) (cw_excludedArchivePaths s)) \<rparr>"
    by (simp add: u_def pruneExcludedPathsForPlan_def Let_def)
  have "normal_path (cw_currentFolder s)"
    using assms by (simp add: cw_inv_def folder_inv_def)
  then have "normal_path f" and "createPlanFolderExists ?es (Some f)"
    by (auto simp: f_def u createPlanFolderExists_def)
  then have "folder_inv v"
    by (auto simp: folder_inv_def v_def u plan_entries_def)
  moreover have "plan_inv v"
    by (simp add: v_def u plan_inv_def)
  moreover have "excluded_inv v"
    using assms by (auto simp: cw_inv_def v_def u excluded_inv_def normal_paths_def)
  moreover have "sources_inv v" and "options_inv (cw_options v)"
    using assms by (simp_all add: cw_inv_def v_def u)
  moreover have "fst (cw_acceptPlanResult env r plan s) = reconcileViewForPlan env u"
    using True by (simp add: cw_acceptPlanResult_def u_def)
  moreover have "cw_currentPlan u = Some plan"
    by (simp add: u)
  ultimately show ?thesis
    unfolding cw_inv_def using reconciled [OF _ f_def v_def] cleaned_selection [where env = env and s = v] by simp
qed (simp add: cw_acceptPlanResult_def assms)

section \<open>Options\<close>

lemma options_update: "cw_inv env s \<Longrightarrow> options_inv o' \<Longrightarrow> cw_inv env (set_options o' s)"
  by (simp add: cw_inv_def)

lemma state_options: "cw_inv env s \<Longrightarrow> options_inv (cw_options s)"
  by (simp add: cw_inv_def)

lemma whole_floor: "option_all (\<lambda>x. of_int \<lfloor>x\<rfloor> = x \<and> 0 \<le> x) (normalizeOptionalNonNegativeInteger number v)"
  by (auto simp: normalizeOptionalNonNegativeInteger_def split: option.split)

lemma recovery_option_range: "whole_between 0 100 (normalizeTzapRecoveryOption number v)"
  unfolding normalizeTzapRecoveryOption_def TZAP_RECOVERY_PERCENTAGE_DEFAULT_def by (rule recovery_range)

lemma default_recovery_range: "whole_between 0 100 TZAP_RECOVERY_PERCENTAGE_DEFAULT"
  by (simp add: TZAP_RECOVERY_PERCENTAGE_DEFAULT_def whole_between_def)

lemma default_tolerance_range:
  "whole_between 0 16 (nullish (normalizeTzapVolumeLossTolerance v) TZAP_SPLIT_DEFAULT_VOLUME_LOSS_TOLERANCE)"
  unfolding TZAP_SPLIT_DEFAULT_VOLUME_LOSS_TOLERANCE_def by (rule tolerance_range)

lemma zero_range [simp]: "whole_between 0 16 0"
  by (simp add: whole_between_def)

lemma defaults_inv: "options_inv (applyDefaultsToOptions env o' f d)"
  unfolding options_inv_def
proof
  show "split_inv (applyDefaultsToOptions env o' f d)"
    by (simp add: split_inv_def applyDefaultsToOptions_def Let_def)
  show "numbers_inv (applyDefaultsToOptions env o' f d)"
    unfolding numbers_inv_def applyDefaultsToOptions_def Let_def
    using whole_floor volume_size_range [of "fd_volumeSize d"] recovery_option_range default_recovery_range
      default_tolerance_range
    by simp
qed

lemma patched_by_all: "(\<And>v. P (f v)) \<Longrightarrow> P old \<Longrightarrow> P (patched_by f new old)"
  by (simp add: patched_by_def split: option.split)

lemma patched_numbers:
  assumes "numbers_inv o'"
  shows "numbers_inv (patched_options env patch o')"
proof -
  have "option_all (\<lambda>x. of_int \<lfloor>x\<rfloor> = x \<and> 0 \<le> x) (co_compressionLevel (patched_options env patch o'))"
    using assms whole_floor unfolding numbers_inv_def patched_options_def Let_def
    by (simp del: of_int_floor_cancel) (rule patched_by_all, simp_all del: of_int_floor_cancel)
  moreover have "option_all (\<lambda>x. of_int \<lfloor>x\<rfloor> = x \<and> 0 \<le> x) (co_volumeSize (patched_options env patch o'))"
    using assms volume_size_range unfolding numbers_inv_def patched_options_def Let_def
    by (simp del: of_int_floor_cancel) (rule patched_by_all, simp_all del: of_int_floor_cancel)
  moreover have "option_all (whole_between TZAP_VOLUME_COUNT_MIN TZAP_VOLUME_COUNT_MAX) (co_volumeCount (patched_options env patch o'))"
    using assms volume_count_range unfolding numbers_inv_def patched_options_def Let_def
    by simp (rule patched_by_all, simp_all)
  moreover have "whole_between 0 100 (co_tzapRecoveryPercentage (patched_options env patch o'))"
    using assms recovery_option_range unfolding numbers_inv_def patched_options_def Let_def
    by simp (rule patched_by_all, simp_all)
  moreover have "whole_between 0 16 (co_tzapVolumeLossTolerance (patched_options env patch o'))"
    using assms tolerance_range unfolding numbers_inv_def patched_options_def Let_def
    by simp (rule patched_by_all, simp_all)
  ultimately show ?thesis
    unfolding numbers_inv_def by blast
qed

lemma split_steps_numbers:
  "numbers_inv o' \<Longrightarrow> numbers_inv (split_by_mode patch o')"
  "numbers_inv o' \<Longrightarrow> numbers_inv (split_by_size patch o')"
  "numbers_inv o' \<Longrightarrow> numbers_inv (split_by_count patch o')"
  "numbers_inv o' \<Longrightarrow> numbers_inv (split_tolerance old patch o')"
  by (simp_all add: split_by_mode_def split_by_size_def split_by_count_def split_tolerance_def numbers_inv_def
      TZAP_SPLIT_DEFAULT_VOLUME_LOSS_TOLERANCE_def split: split_mode.split)

lemma split_consistent:
  assumes "split_inv o'"
  shows "split_inv (split_by_count patch (split_by_size patch (split_by_mode patch (patched_options env patch o'))))"
proof (cases "op_splitMode patch = None \<and> op_volumeSize patch = None \<and> op_volumeCount patch = None")
  case True
  with assms show ?thesis
    by (cases "co_splitMode o'")
      (simp_all add: split_inv_def split_by_count_def split_by_size_def split_by_mode_def patched_options_def
        Let_def patched_def patched_by_def)
next
  case False
  then show ?thesis
    by (cases "op_volumeCount patch"; cases "op_volumeSize patch"; cases "co_splitMode (patched_options env patch o')")
      (auto simp: split_inv_def split_by_count_def split_by_size_def split_by_mode_def split: split_mode.split)
qed

lemma split_tolerance_frame [simp]: "split_inv (split_tolerance old patch o') = split_inv o'"
  by (cases "co_splitMode o'") (simp_all add: split_inv_def split_tolerance_def)

lemma next_options_inv: "options_inv o' \<Longrightarrow> options_inv (next_options env patch o')"
  unfolding options_inv_def next_options_def
  by (simp add: split_consistent split_steps_numbers patched_numbers)

lemma option_op_inv:
  assumes "cw_inv env s"
  shows "cw_inv env (fst (cw_setOptions env patch s))" and "cw_inv env (fst (setDestinationPath path s))"
    and "cw_inv env (fst (setDestinationPathIfBlank path s))"
    and "cw_inv env (fst (suggestDestinationPathIfBlank env dir s))"
    and "cw_inv env (fst (ensureDestinationExtension s))" and "cw_inv env (fst (setSubmissionInFlight b s))"
    and "cw_inv env (fst (applyFormatDefaults env f d so s))" and "cw_inv env (fst (changeFormat env f d s))"
    and "cw_inv env (fst (resetAfterAcceptedStart env fo do' s))"
proof -
  note o' = state_options [OF assms]
  have d: "cw_inv env (set_destination p s)" for p
    using assms o' by (simp add: options_update)
  have b: "cw_inv env (fst (fill_blank_destination p s))" for p
    using assms d by (simp add: fill_blank_destination_def Let_def)
  show "cw_inv env (fst (cw_setOptions env patch s))"
    using assms next_options_inv [OF o'] by (simp add: cw_setOptions_def Let_def refresh_inv options_update)
  show "cw_inv env (fst (setDestinationPath path s))"
    using assms d by (simp add: setDestinationPath_def refresh_inv)
  show "cw_inv env (fst (setDestinationPathIfBlank path s))"
    and "cw_inv env (fst (suggestDestinationPathIfBlank env dir s))"
    using assms b by (simp_all add: setDestinationPathIfBlank_def suggestDestinationPathIfBlank_def)
  show "cw_inv env (fst (ensureDestinationExtension s))"
    using assms d by (simp add: ensureDestinationExtension_def Let_def)
  show "cw_inv env (fst (setSubmissionInFlight b s))"
    using assms o' by (simp add: setSubmissionInFlight_def options_update)
  show "cw_inv env (fst (applyFormatDefaults env f d so s))"
    using assms defaults_inv by (simp add: applyFormatDefaults_def Let_def options_update split: option.split)
  show "cw_inv env (fst (changeFormat env f d s))"
    using assms defaults_inv by (simp add: changeFormat_def Let_def options_update)
  show "cw_inv env (fst (resetAfterAcceptedStart env fo do' s))"
    using o' defaults_inv by (simp add: resetAfterAcceptedStart_def restarted_inv split: option.split)
qed

lemma refused_inv: "cw_inv env s \<Longrightarrow> cw_inv env (fst (refuse_start s m r))"
  by (simp add: refuse_start_def Let_def error_inv)

lemma checked_inv: "cw_inv env s \<Longrightarrow> cw_inv env (fst (start_checked env i p s))"
  by (simp add: start_checked_def Let_def refused_inv)

lemma start_inv:
  assumes "cw_inv env s"
  shows "cw_inv env (fst (cw_buildStartCreateRequest env i s))"
  unfolding cw_buildStartCreateRequest_def Let_def
  using assms state_options [OF assms] by (intro checked_inv) (simp add: options_update)

lemma column_op_inv:
  assumes "cw_inv env s"
  shows "cw_inv env (cw_setColumnWidth c w s)" and "cw_inv env (cw_toggleColumnVisibility c s)"
    and "cw_inv env (cw_moveColumn c dir s)" and "cw_inv env (cw_reorderColumn c c' s)"
    and "cw_inv env (cw_resetColumns st s)"
  using assms
  by (simp_all add: cw_inv_def cw_setColumnWidth_def cw_toggleColumnVisibility_def cw_moveColumn_def
      cw_reorderColumn_def cw_resetColumns_def)

lemma selection_op_inv:
  assumes "cw_inv env s"
  shows "cw_inv env (fst (selectRow env p m s))" and "cw_inv env (fst (cw_updateSelection env t s))"
    and "cw_inv env (fst (toggleRowSelection env p s))" and "cw_inv env (fst (focusRow env p s))"
    and "cw_inv env (fst (ensureRowSelected env p s))" and "cw_inv env (fst (cw_clearSelection env s))"
  using applied_selection_inv [OF assms]
  by (simp_all add: selectRow_def cw_updateSelection_def toggleRowSelection_def focusRow_def ensureRowSelected_def
      cw_clearSelection_def)

section \<open>The machine\<close>

lemma initial_inv: "cw_inv env (createCreateWorkspace settings)"
  by (simp add: cw_inv_def sources_inv_def createCreateWorkspace_def plan_inv_def DEFAULT_CREATE_OPTIONS_def
      options_inv_def split_inv_def numbers_inv_def TZAP_RECOVERY_PERCENTAGE_DEFAULT_def whole_between_def)

lemma apply_inv: "cw_inv env s \<Longrightarrow> cw_inv env (cw_apply env operation s)"
  by (cases operation)
    (simp_all add: source_op_inv plan_op_inv accepted_plan_inv error_inv refresh_inv option_op_inv start_inv
      navigate_inv search_inv tree_folder_inv selection_op_inv inclusion_inv column_op_inv cw_acceptPlanError_def
      cw_setPlanError_def)

interpretation create_workspace: machine cw_init "cw_step env" "cw_inv env" for env
  by unfold_locales (auto simp: cw_init_def initial_inv apply_inv elim!: cw_stepE)


end
