(* ===== verification/CreateWorkspaceProps.thy ===== *)
theory CreateWorkspaceProps
  imports CreateMachine
begin

text \<open>
  What the create workspace guarantees: its invariant, the agreement of the button with the start of a
  creation, the request against what is shown, and the rules for accepting a plan.
\<close>

section \<open>The invariant\<close>

text \<open>C9: in every state that the create workspace can reach, whatever operations ran, the sources are pairwise
  different, trimmed and not blank; a plan that is ready is there; the exclusions are normal and only there
  with a plan; the current folder exists in the plan; what is selected, focused or the anchor is a row that is
  shown; the split settings agree with each other; and of the numbers the compression level and the volume size are
  whole and not negative, the number of volumes is whole and between 2 and 4294967295, the recovery
  percentage is whole and at most 100, and the tolerated loss of volumes is whole and at most 16.  (The threads and the
  chunk size of 7z are not among them: they are taken from the defaults of the format as they are.)
\<close>

theorem create_workspace_invariant:
  assumes "reachable cw_init (cw_step env) s"
  shows "sources_inv s \<and> plan_inv s \<and> excluded_inv s \<and> folder_inv s \<and> chosen_inv env s
       \<and> split_inv (cw_options s) \<and> numbers_inv (cw_options s)"
  using create_workspace.reachable_inv [OF assms] by (simp add: cw_inv_def options_inv_def)

definition example_env :: cw_env where
  "example_env = \<lparr> cx_localeCompare = code_unit_compare,
     cx_nativeParentPath = (\<lambda>s. rev (tl (dropWhile (\<lambda>c. c \<noteq> CHR 0x2F) (rev s)))), cx_number = (\<lambda>s. NaN) \<rparr>"

definition example_plan :: create_plan where
  "example_plan = \<lparr> cp_includedCount = 4, cp_excludedCount = 0, cp_totalBytes = 40, cp_excludedBytes = 0,
     cp_entries = map pe_path plan_example, cp_planEntries = plan_example, cp_excludedEntries = [], cp_warnings = [] \<rparr>"

definition example_ops :: "cw_op list" where
  "example_ops = [OpAddSources [Some '' /docs '', None, Some ''/docs''], OpSetDestinationPath ''out'', OpQueuePlan,
     OpAcceptPlanResult 1 example_plan, OpSetPathIncluded ''docs/a.txt'' False, OpNavigateToFolder ''docs'',
     OpSelectRow ''docs/b.txt'' (False, False, False)]"

definition example_state :: cw_state where
  "example_state = run_inputs (cw_apply example_env) example_ops (createCreateWorkspace None)"

lemma example_reachable: "reachable cw_init (cw_step example_env) example_state"
  unfolding example_state_def
  by (rule reachable_run, rule cw_stepI, rule reachable.start) (auto simp: cw_init_def)

theorem create_workspace_invariant_witness:
  "reachable cw_init (cw_step example_env) example_state \<and> sources_inv example_state
   \<and> cw_sources example_state = [''/docs''] \<and> cl_selectedPaths (cw_selection example_state) = [''docs/b.txt'']"
proof (intro conjI)
  show "sources_inv example_state"
    using create_workspace_invariant [OF example_reachable] by blast
qed (rule example_reachable | code_simp)+

section \<open>Starting\<close>

definition typed_password :: "cw_state \<Rightarrow> string option \<Rightarrow> string" where
  "typed_password s p =
     (if createFormatSupportsPassword (co_format (cw_options s)) then nullish (map_option js_trim p) [] else [])"

lemma extension_blank: "withCreateArchiveExtension p f b = [] \<longleftrightarrow> js_trim p = []"
proof (cases "js_trim p = []")
  case False
  then have "withCreateArchiveExtension p f b \<noteq> []"
    using fitting_kept [OF False, of f b] not_fitting_appended [OF False, of f b] by (cases "extension_fits (js_trim p) f b") auto
  with False show ?thesis
    by simp
qed (simp add: withCreateArchiveExtension_def)

lemma split_fields:
  "ai_format a = ai_format b \<Longrightarrow> ai_splitMode a = ai_splitMode b \<Longrightarrow> ai_volumeSize a = ai_volumeSize b \<Longrightarrow>
   ai_volumeCount a = ai_volumeCount b \<Longrightarrow> ai_tzapVolumeLossTolerance a = ai_tzapVolumeLossTolerance b \<Longrightarrow>
   ai_recipientEncryptionSelected a = ai_recipientEncryptionSelected b \<Longrightarrow>
     isCreateSplitConfigurationValid a = isCreateSplitConfigurationValid b"
  by (simp only: isCreateSplitConfigurationValid_def)

lemma split_ignores_destination:
  "isCreateSplitConfigurationValid (availability_of (set_destination p s) n)
     = isCreateSplitConfigurationValid (availability_of s None)"
  "isCreateSplitConfigurationValid (availability_of s (Some k)) = isCreateSplitConfigurationValid (availability_of s None)"
  by (rule split_fields; simp add: availability_of_def Let_def hasTzapRecipientSelection_def)+

lemma availability_fields:
  "ai_sourceCount (availability_of s n) = length (cw_sources s)"
  "ai_includedEntryCount (availability_of s n) = n"
  "ai_destinationPath (availability_of s n) = co_destinationPath (cw_options s)"
  "ai_planState (availability_of s n) = cw_planState s"
  "ai_hasPlan (availability_of s n) = (cw_currentPlan s \<noteq> None)"
  "ai_submissionInFlight (availability_of s n) = co_submissionInFlight (cw_options s)"
  by (simp_all add: availability_of_def Let_def)

lemma availability_included:
  "createArchiveUnavailableReason (availability_of s n) = None \<longleftrightarrow>
     \<not> co_submissionInFlight (cw_options s) \<and> cw_sources s \<noteq> [] \<and> n \<noteq> Some 0
     \<and> js_trim (co_destinationPath (cw_options s)) \<noteq> [] \<and> cw_planState s = CsReady \<and> cw_currentPlan s \<noteq> None
     \<and> isCreateSplitConfigurationValid (availability_of s None)"
  unfolding createArchiveUnavailableReason_def availability_fields
  by (cases n) (auto simp: split_ignores_destination)

text \<open>C13: a creation starts exactly when the button is available and the two passwords, where the format takes one,
  are the same.
\<close>

theorem start_iff_ready:
  "(case snd (cw_buildStartCreateRequest env i s) of StartRequest _ \<Rightarrow> True | StartUnavailable _ _ \<Rightarrow> False) \<longleftrightarrow>
     cos_canCreate (csn_options (cw_snapshotFromState env s))
     \<and> typed_password s (si_password i) = typed_password s (si_passwordConfirm i)"
proof -
  let ?p = "withCreateArchiveExtension (co_destinationPath (cw_options s)) (co_format (cw_options s)) False"
  have ready: "cos_canCreate (csn_options (cw_snapshotFromState env s)) \<longleftrightarrow>
      createArchiveUnavailableReason (availability_of s (map_option (\<lambda>plan.
        length (cp_planEntries (filterCreatePlanByIncludedPaths plan (PathSet (cw_excludedArchivePaths s))))) (cw_currentPlan s))) = None"
    by (cases "cw_currentPlan s") (simp_all add: cw_snapshotFromState_def createOptionsSnapshot_def Let_def)
  show ?thesis
    unfolding ready availability_included extension_blank [symmetric, of _ "co_format (cw_options s)" False]
    by (cases "cw_currentPlan s"; cases "?p = []")
      (auto simp: cw_buildStartCreateRequest_def start_checked_def Let_def refuse_start_def split_ignores_destination typed_password_def)
qed

lemma typed_password_frame [simp]: "typed_password (set_destination p s) x = typed_password s x"
  by (simp add: typed_password_def)

lemma checked_started:
  assumes "snd (start_checked env i p s) = StartRequest req"
  shows "\<exists>plan. cw_currentPlan s = Some plan
       \<and> cp_planEntries (filterCreatePlanByIncludedPaths plan (PathSet (cw_excludedArchivePaths s))) \<noteq> []
       \<and> req = buildStartCreateRequestFromState env s (typed_password s (si_password i))
                (nullish (si_signingIdentityPassword i) []) (si_destinationCollisionStrategy i)"
  using assms unfolding start_checked_def Let_def refuse_start_def
  by (cases "cw_currentPlan s") (simp_all add: typed_password_def split: if_splits)

lemma started:
  assumes "snd (cw_buildStartCreateRequest env i s) = StartRequest req"
  shows "\<exists>p plan. cw_currentPlan s = Some plan
       \<and> cp_planEntries (filterCreatePlanByIncludedPaths plan (PathSet (cw_excludedArchivePaths s))) \<noteq> []
       \<and> req = buildStartCreateRequestFromState env (set_destination p s) (typed_password s (si_password i))
                (nullish (si_signingIdentityPassword i) []) (si_destinationCollisionStrategy i)"
proof -
  obtain p where "snd (start_checked env i q (set_destination p s)) = StartRequest req"
    if "q = withCreateArchiveExtension (co_destinationPath (cw_options s)) (co_format (cw_options s)) False" for q
  proof (cases "withCreateArchiveExtension (co_destinationPath (cw_options s)) (co_format (cw_options s)) False
      \<in> {[], co_destinationPath (cw_options s)}")
    case True
    with assms that [of "co_destinationPath (cw_options s)"] show ?thesis
      by (auto simp: cw_buildStartCreateRequest_def Let_def)
  next
    case False
    with assms that [of "withCreateArchiveExtension (co_destinationPath (cw_options s)) (co_format (cw_options s)) False"]
    show ?thesis
      by (simp add: cw_buildStartCreateRequest_def Let_def)
  qed
  from checked_started [OF this [OF refl]] show ?thesis
    by (intro exI [of _ p]) simp
qed

text \<open>C14: the request that starts a creation says what the user sees: the sources, the format and the password, and
  an entry of the plan is shown as included exactly when the request does not exclude it.
\<close>

theorem request_says_what_is_shown:
  assumes "snd (cw_buildStartCreateRequest env i s) = StartRequest req"
  shows "sc_sources req = cw_sources s \<and> sc_format req = co_format (cw_options s)
       \<and> sc_password req = some_nonempty (typed_password s (si_password i))
       \<and> cis_includedEntries (csn_inclusion (cw_snapshotFromState env s)) \<noteq> []
       \<and> (\<forall>e \<in> set (plan_entries s). normalizeArchivePath (Some (pe_path e)) \<noteq> [] \<longrightarrow>
            (e \<in> set (cis_includedEntries (csn_inclusion (cw_snapshotFromState env s))) \<longleftrightarrow>
             normalizeArchivePath (Some (pe_path e)) \<notin> set (nullish (sc_excludeArchivePaths req) [])))"
proof -
  obtain p plan where plan: "cw_currentPlan s = Some plan"
    and ne: "cp_planEntries (filterCreatePlanByIncludedPaths plan (PathSet (cw_excludedArchivePaths s))) \<noteq> []"
    and req: "req = buildStartCreateRequestFromState env (set_destination p s) (typed_password s (si_password i))
                (nullish (si_signingIdentityPassword i) []) (si_destinationCollisionStrategy i)"
    using started [OF assms] by blast
  have inc: "cis_includedEntries (csn_inclusion (cw_snapshotFromState env s))
      = cp_planEntries (filterCreatePlanByIncludedPaths plan (PathSet (cw_excludedArchivePaths s)))"
    by (simp add: cw_snapshotFromState_def Let_def plan)
  have ex: "set (nullish (sc_excludeArchivePaths req) []) = set (cw_excludedArchivePaths s)"
  proof -
    have "set (nullish (nonempty_list (Some xs)) []) = set xs" for xs :: "string list"
      by (cases xs) (simp_all add: nonempty_list_def)
    then show ?thesis
      by (simp add: req buildStartCreateRequestFromState_def buildStartCreateRequest_def start_build_input_def Let_def
          sortedExcludedArchivePaths_def)
  qed
  have pw: "sc_password req = some_nonempty (typed_password s (si_password i))"
    by (simp add: req buildStartCreateRequestFromState_def buildStartCreateRequest_def start_build_input_def Let_def
        typed_password_def some_nonempty_def)
  show ?thesis
    unfolding inc ex
    using ne pw
    by (simp add: plan_entries_def plan filterCreatePlanByIncludedPaths_def isCreatePlanPathIncluded_def Let_def set_has_def)
      (simp add: req buildStartCreateRequestFromState_def buildStartCreateRequest_def start_build_input_def Let_def)
qed

definition plain_start :: start_input where
  "plain_start = \<lparr> si_password = Some ''abc'', si_passwordConfirm = None, si_signingIdentityPassword = None,
     si_destinationCollisionStrategy = None \<rparr>"

definition example_request :: start_create_request where
  "example_request = (case snd (cw_buildStartCreateRequest example_env plain_start example_state) of
     StartRequest r \<Rightarrow> r | StartUnavailable _ _ \<Rightarrow> undefined)"

theorem request_says_what_is_shown_witness:
  "snd (cw_buildStartCreateRequest example_env plain_start example_state) = StartRequest example_request
   \<and> sc_sources example_request = [''/docs''] \<and> sc_password example_request = None
   \<and> sc_excludeArchivePaths example_request = Some [''docs/a.txt'']"
proof -
  have r: "snd (cw_buildStartCreateRequest example_env plain_start example_state) = StartRequest example_request"
    by code_simp
  have "sc_sources example_request = cw_sources example_state"
    and "sc_password example_request = some_nonempty (typed_password example_state (si_password plain_start))"
    using request_says_what_is_shown [OF r] by blast+
  moreover have "cw_sources example_state = [''/docs'']"
    and "some_nonempty (typed_password example_state (si_password plain_start)) = None"
    and "sc_excludeArchivePaths example_request = Some [''docs/a.txt'']"
    by code_simp+
  ultimately show ?thesis
    using r by simp
qed

section \<open>Sources\<close>

lemma set_has_js: "set_has (js_set xs) = (\<lambda>x. x \<in> set xs)"
  by (simp add: fun_eq_iff set_has_def)

text \<open>What a change of the sources reports, and what it does to the plan.\<close>

definition report_exact :: "cw_state \<Rightarrow> cw_state \<times> source_mutation \<Rightarrow> bool" where
  "report_exact s r \<longleftrightarrow>
     (let s' = fst r; m = snd r
      in set (sm_addedSources m) = set (cw_sources s') - set (cw_sources s)
         \<and> set (sm_removedSources m) = set (cw_sources s) - set (cw_sources s')
         \<and> sm_changed m = (cw_sources s' \<noteq> cw_sources s)
         \<and> sm_becameEmpty m = (sm_changed m \<and> cw_sources s' = [])
         \<and> (sm_changed m \<longrightarrow> cw_planState s' = CsIdle \<and> cw_currentPlan s' = None \<and> cw_excludedArchivePaths s' = []
              \<and> cw_selection s' = emptyCreateSelection)
         \<and> (\<not> sm_changed m \<longrightarrow> s' = s))"

lemma report_mutation:
  "report_exact s (mutationResult s' c a r) \<longleftrightarrow>
     set a = set (cw_sources s') - set (cw_sources s) \<and> set r = set (cw_sources s) - set (cw_sources s')
     \<and> c = (cw_sources s' \<noteq> cw_sources s)
     \<and> (c \<longrightarrow> cw_planState s' = CsIdle \<and> cw_currentPlan s' = None \<and> cw_excludedArchivePaths s' = []
              \<and> cw_selection s' = emptyCreateSelection)
     \<and> (\<not> c \<longrightarrow> s' = s)"
  by (simp add: report_exact_def mutationResult_def)

text \<open>the sources are an ordered set: adding appends what is new, setting replaces, removing and clearing take
  away; each change reports exactly what was added and removed, and drops the plan and all that hangs on it.
\<close>

theorem sources_are_an_ordered_set:
  "cw_sources (fst (cw_addSources ps s))
     = cw_sources s @ filter (\<lambda>p. p \<notin> set (cw_sources s)) (normalizeSourcePaths ps)
   \<and> cw_sources (fst (cw_setSources ps s)) = normalizeSourcePaths ps
   \<and> cw_sources (fst (cw_removeSources ps s)) = filter (\<lambda>p. p \<notin> set (normalizeSourcePaths ps)) (cw_sources s)
   \<and> cw_sources (fst (cw_clearSources s)) = []
   \<and> report_exact s (cw_addSources ps s) \<and> report_exact s (cw_setSources ps s)
   \<and> report_exact s (cw_removeSources ps s) \<and> report_exact s (cw_clearSources s)"
proof (intro conjI)
  let ?n = "normalizeSourcePaths ps"
  show "cw_sources (fst (cw_addSources ps s)) = cw_sources s @ filter (\<lambda>p. p \<notin> set (cw_sources s)) ?n"
    by (auto simp: cw_addSources_def Let_def set_has_def)
  show "cw_sources (fst (cw_setSources ps s)) = ?n"
    by (simp add: cw_setSources_def Let_def same_list)
  show "cw_sources (fst (cw_removeSources ps s)) = filter (\<lambda>p. p \<notin> set ?n) (cw_sources s)"
  proof (cases "filter (\<lambda>p. p \<in> set ?n) (cw_sources s) = []")
    case True
    then have "filter (\<lambda>p. p \<notin> set ?n) (cw_sources s) = cw_sources s"
      by (auto simp: filter_empty_conv intro: filter_True)
    with True show ?thesis
      by (simp add: cw_removeSources_def Let_def set_has_js)
  next
    case False
    then have "js_set ?n \<noteq> []"
      by (auto simp: filter_empty_conv dest: arg_cong [of _ _ set])
    with False show ?thesis
      by (simp add: cw_removeSources_def Let_def set_has_js)
  qed
  show "cw_sources (fst (cw_clearSources s)) = []"
    by (simp add: cw_clearSources_def)
  show "report_exact s (cw_addSources ps s)"
    by (auto simp: cw_addSources_def Let_def report_mutation set_has_def resetPlanState_def filter_empty_conv)
  show "report_exact s (cw_setSources ps s)"
    by (auto simp: cw_setSources_def Let_def report_mutation set_has_def resetPlanState_def same_list)
  show "report_exact s (cw_removeSources ps s)"
    by (auto simp: cw_removeSources_def Let_def report_mutation set_has_js resetPlanState_def filter_empty_conv
        filter_id_conv)
  show "report_exact s (cw_clearSources s)"
    by (auto simp: cw_clearSources_def report_mutation resetPlanState_def)
qed


end
