(* ===== verification/JsonText.thy ===== *)
theory JsonText
  imports Json Jobs
begin

text \<open>
  Numbers as text: \<open>Number(text)\<close>, the numbers of \<open>JSON.parse\<close>, and \<open>JSON.stringify\<close> of values whose numbers are
  whole, with the proof that parsing reads back what was written.  A number keeps its exact value: only the
  overflow to infinity of the conversion to a double is there.
\<close>

section \<open>Numbers\<close>

text \<open>The exponent and the fraction of \<open>take_digits\<close> texts; \<open>None\<close> when the text is not a decimal literal.\<close>

definition scaled :: "nat \<Rightarrow> int \<Rightarrow> rat" where
  "scaled m e = (if 0 \<le> e then of_nat m * 10 ^ nat e else of_nat m / 10 ^ nat (- e))"

definition to_double :: "rat \<Rightarrow> jsnum" where
  "to_double q =
     (if 2 ^ 1024 - 2 ^ 970 \<le> q then PosInf else if q \<le> - (2 ^ 1024 - 2 ^ 970) then NegInf else Fin q)"

definition exponent_value :: "string \<Rightarrow> int option" where
  "exponent_value s =
     (case s of
        [] \<Rightarrow> Some 0
      | c # r \<Rightarrow>
          if c = CHR 0x65 \<or> c = CHR 0x45
          then (let (negative, ds) =
                      (case r of g # q \<Rightarrow> if g = CHR 0x2D then (True, q) else if g = CHR 0x2B then (False, q) else (False, r)
                         | [] \<Rightarrow> (False, r))
                in if ds \<noteq> [] \<and> list_all Json.is_digit ds
                   then Some (if negative then - int (decimal_value ds) else int (decimal_value ds)) else None)
          else None)"

definition unsigned_decimal :: "string \<Rightarrow> rat option" where
  "unsigned_decimal s =
     (let whole = takeWhile Json.is_digit s; r = dropWhile Json.is_digit s;
          (fraction, rest) =
            (case r of c # q \<Rightarrow> if c = CHR 0x2E then (takeWhile Json.is_digit q, dropWhile Json.is_digit q) else ([], r)
               | [] \<Rightarrow> ([], r))
      in if whole @ fraction = [] then None
         else map_option (\<lambda>e. scaled (decimal_value (whole @ fraction)) (e - int (length fraction))) (exponent_value rest))"

definition signed_decimal :: "string \<Rightarrow> jsnum option" where
  "signed_decimal s =
     (let (negative, t) =
            (case s of c # r \<Rightarrow> if c = CHR 0x2D then (True, r) else if c = CHR 0x2B then (False, r) else (False, s)
               | [] \<Rightarrow> (False, s))
      in if t = ''Infinity'' then Some (if negative then NegInf else PosInf)
         else map_option (\<lambda>q. to_double (if negative then - q else q)) (unsigned_decimal t))"

text \<open>\<open>Number(text)\<close>; what is no number is \<open>NaN\<close>.\<close>

definition js_number :: "string \<Rightarrow> jsnum" where
  "js_number s =
     (let t = js_trim s; prefix = js_lower (take 2 t);
          based = (\<lambda>b. case digits_in_base b (drop 2 t) of None \<Rightarrow> NaN | Some i \<Rightarrow> to_double (of_int i))
      in if t = [] then Fin 0
         else if prefix = ''0x'' then based 16
         else if prefix = ''0o'' then based 8
         else if prefix = ''0b'' then based 2
         else nullish (signed_decimal t) NaN)"

text \<open>The value of a number of a JSON text, which is always a decimal literal.\<close>

definition json_number :: "string \<Rightarrow> jsnum" where
  "json_number s = nullish (signed_decimal s) NaN"

section \<open>Writing\<close>

fun stringify_json :: "json \<Rightarrow> string" where
  "stringify_json JsonNull = ''null''"
| "stringify_json (JsonBool b) = (if b then ''true'' else ''false'')"
| "stringify_json (JsonNumber s) = s"
| "stringify_json (JsonString s) = stringify_string s"
| "stringify_json (JsonArray xs) = CHR 0x5B # js_join (CHR 0x2C) (map stringify_json xs) @ [CHR 0x5D]"
| "stringify_json (JsonObject ms) =
     CHR 0x7B # js_join (CHR 0x2C) (map (\<lambda>(k, x). stringify_string k @ CHR 0x3A # stringify_json x) ms) @ [CHR 0x7D]"

text \<open>Values whose numbers are natural.\<close>

fun natural_json :: "json \<Rightarrow> bool" where
  "natural_json (JsonNumber s) \<longleftrightarrow> (\<exists>n. s = nat_string n)"
| "natural_json (JsonArray xs) \<longleftrightarrow> list_all natural_json xs"
| "natural_json (JsonObject ms) \<longleftrightarrow> list_all (\<lambda>(k, x). natural_json x) ms"
| "natural_json _ \<longleftrightarrow> True"

section \<open>Digits\<close>

lemma digit_of_nat: "(d :: nat) < 10 \<Longrightarrow> Json.is_digit (char_of (48 + d))"
  by (simp add: Json.is_digit_def Let_def of_char_of)

lemma decimal_digits: "list_all Json.is_digit (nat_string n)"
proof -
  have "list_all Json.is_digit (nat_digits b n)" if "b = 10" for b
    using that by (induction b n rule: nat_digits.induct) (subst nat_digits.simps, auto simp: digit_of_nat)
  then show ?thesis by (simp add: nat_string_def)
qed

lemma nat_string_not_Nil [simp]: "nat_string n \<noteq> []"
  by (simp add: nat_string_def nat_digits.simps [of 10 n])

lemma decimal_value_snoc: "decimal_value (ds @ [c]) = 10 * decimal_value ds + Formatting.digit_value c"
  by (simp add: decimal_value_def)

lemma decimal_value_nat_string [simp]: "decimal_value (nat_string n) = n"
proof -
  have "decimal_value (nat_digits b n) = n" if "b = 10" for b
    using that
  proof (induction b n rule: nat_digits.induct)
    case (1 b n)
    then show ?case
      by (subst nat_digits.simps)
        (auto simp: decimal_value_snoc decimal_value_def Formatting.digit_value_def of_char_of simp del: One_nat_def)
  qed
  then show ?thesis by (simp add: nat_string_def)
qed

lemma digit_zero:
  assumes "(d :: nat) < 10" and zero: "char_of (48 + d) = CHR 0x30"
  shows "d = 0"
proof -
  have "of_char (char_of (48 + d)) = (48 :: nat)" unfolding zero by simp
  with assms(1) show ?thesis by (simp only: of_char_of) simp
qed

lemma nat_string_first: "hd (nat_string n) = CHR 0x30 \<Longrightarrow> nat_string n = [CHR 0x30]"
proof -
  have "hd (nat_digits b n) = CHR 0x30 \<Longrightarrow> n = 0" if "b = 10" for b
    using that
  proof (induction b n rule: nat_digits.induct)
    case (1 b n)
    show ?case
    proof (cases "n < 10")
      case True
      with 1(2,3) show ?thesis
        using digit_zero [of n] by (simp add: nat_digits.simps [of 10 n])
    next
      case False
      moreover have "nat_digits b (n div b) \<noteq> []" by (simp add: nat_digits.simps [of b "n div b"])
      ultimately show ?thesis
        using 1 by (simp add: nat_digits.simps [of 10 n])
    qed
  qed
  moreover assume "hd (nat_string n) = CHR 0x30"
  ultimately have "n = 0" by (simp add: nat_string_def)
  then show ?thesis by (simp only:) code_simp
qed

section \<open>Reading back a number\<close>

text \<open>What may follow a value inside a text: nothing, a comma or a closing bracket.\<close>

definition follows :: "string \<Rightarrow> bool" where
  "follows r \<longleftrightarrow> r = [] \<or> hd r \<in> {CHR 0x2C, CHR 0x5D, CHR 0x7D}"

lemma follows_simps [simp]:
  "follows []" "follows (CHR 0x2C # r)" "follows (CHR 0x5D # r)" "follows (CHR 0x7D # r)"
  by (simp_all add: follows_def)

lemma follows_not_digit: "follows (c # r) \<Longrightarrow> \<not> Json.is_digit c"
  by (auto simp: follows_def Json.is_digit_def)

lemma all_digits:
  "list_all Json.is_digit ds \<Longrightarrow> takeWhile Json.is_digit ds = ds"
  "list_all Json.is_digit ds \<Longrightarrow> dropWhile Json.is_digit ds = []"
  by (simp_all add: list_all_iff)

lemma take_digits_before: "ds \<noteq> [] \<Longrightarrow> list_all Json.is_digit ds \<Longrightarrow> follows r \<Longrightarrow> take_digits (ds @ r) = Some (ds, r)"
  by (cases r)
    (simp_all add: take_digits_def Let_def all_digits takeWhile_append dropWhile_append list_all_iff follows_not_digit)

lemma nat_string_Cons: obtains c ds where "nat_string n = c # ds" "Json.is_digit c" "c = CHR 0x30 \<longrightarrow> ds = []"
proof (cases "nat_string n")
  case (Cons c ds)
  then show ?thesis using that [of c ds] decimal_digits [of n] nat_string_first [of n] by auto
qed simp

lemma parse_natural: "follows r \<Longrightarrow> parse_number (nat_string n @ r) = Some (JsonNumber (nat_string n), r)"
proof -
  assume r: "follows r"
  obtain c ds where n: "nat_string n = c # ds" and c: "Json.is_digit c" and zero: "c = CHR 0x30 \<longrightarrow> ds = []"
    by (rule nat_string_Cons)
  have "c \<noteq> CHR 0x2D" using c by (auto simp: Json.is_digit_def)
  moreover have "parse_integer (c # ds @ r) = Some (c # ds, r)"
    using take_digits_before [of "nat_string n" r] decimal_digits [of n] r zero by (auto simp: parse_integer_def n)
  moreover have "parse_fraction r = Some ([], r)" and "parse_exponent r = Some ([], r)"
    using r by (auto simp: parse_fraction_def parse_exponent_def follows_def split: list.split)
  ultimately show ?thesis by (simp add: parse_number_def n)
qed

lemma digit_not_special:
  assumes "Json.is_digit c"
  shows "c \<noteq> quote_char" "c \<noteq> CHR 0x5B" "c \<noteq> CHR 0x7B" "\<not> json_space c" "c \<noteq> CHR 0x6E" "c \<noteq> CHR 0x74" "c \<noteq> CHR 0x66"
    "c \<noteq> CHR 0x2D" "c \<noteq> CHR 0x2B" "c \<noteq> CHR 0x2E" "c \<noteq> CHR 0x49"
    "c \<noteq> CHR 0x5D" "c \<noteq> CHR 0x7D"
  using assms by (auto simp: Json.is_digit_def json_space_def)

lemma literal_of_digit: "Json.is_digit c \<Longrightarrow> parse_literal (c # s) = parse_number (c # s)"
  using digit_not_special by (auto simp: parse_literal_def)

lemma parse_value_natural: "follows r \<Longrightarrow> parse_value (Suc n) (nat_string k @ r) = Some (JsonNumber (nat_string k), r)"
proof -
  assume r: "follows r"
  obtain c ds where k: "nat_string k = c # ds" and c: "Json.is_digit c"
    by (rule nat_string_Cons)
  show ?thesis
    using parse_natural [OF r, of k] digit_not_special [OF c]
    by (simp add: k skip_space_other literal_of_digit [OF c])
qed

lemma json_number_natural: "n < 2 ^ 1023 \<Longrightarrow> json_number (nat_string n) = Fin (of_nat n)"
proof -
  assume n: "n < 2 ^ 1023"
  obtain c ds where k: "nat_string n = c # ds" and c: "Json.is_digit c"
    by (rule nat_string_Cons)
  note digits = all_digits [OF decimal_digits [of n]]
  have "unsigned_decimal (nat_string n) = Some (of_nat n)"
    by (simp add: unsigned_decimal_def digits exponent_value_def scaled_def)
  moreover have "signed_decimal (nat_string n) = map_option to_double (unsigned_decimal (nat_string n))"
    using digit_not_special [OF c] by (simp add: signed_decimal_def k)
  moreover have "to_double (of_nat n) = Fin (of_nat n)"
  proof -
    have "(of_nat n :: rat) < of_nat (2 ^ 1023)" using n by (simp only: of_nat_less_iff)
    then show ?thesis by (simp add: to_double_def)
  qed
  ultimately show ?thesis by (simp add: json_number_def)
qed

section \<open>Reading back a value\<close>

lemma stringified_first:
  assumes "natural_json j"
  obtains c s where "stringify_json j = c # s" "\<not> json_space c" "c \<noteq> CHR 0x5D" "c \<noteq> CHR 0x7D"
proof (cases j)
  case (JsonNumber t)
  with assms obtain n where "stringify_json j = nat_string n" by auto
  moreover obtain c ds where "nat_string n = c # ds" "Json.is_digit c" by (rule nat_string_Cons)
  ultimately show ?thesis
    using that [of c ds] digit_not_special [of c] by auto
next
  case (JsonBool b)
  then show ?thesis by (cases b) (auto intro: that simp: json_space_def)
qed (auto intro: that simp: json_space_def stringify_string_def)

lemma read_element:
  "parse_value n s = Some (x, CHR 0x2C # r) \<Longrightarrow>
     parse_elements (Suc n) s = map_option (\<lambda>(xs, u). (x # xs, u)) (parse_elements n r)"
  "parse_value n s = Some (x, CHR 0x5D # r) \<Longrightarrow> parse_elements (Suc n) s = Some ([x], r)"
  by (simp_all add: skip_space_other json_space_def)

lemma parse_stringified_elements:
  assumes "xs \<noteq> []" and "length (js_join (CHR 0x2C) (map stringify_json xs)) + 1 < n"
    and "\<And>x r n. x \<in> set xs \<Longrightarrow> follows r \<Longrightarrow> length (stringify_json x) < n
           \<Longrightarrow> parse_value n (stringify_json x @ r) = Some (x, r)"
  shows "parse_elements n (js_join (CHR 0x2C) (map stringify_json xs) @ CHR 0x5D # r) = Some (xs, r)"
  using assms
proof (induction xs arbitrary: n)
  case (Cons x xs)
  obtain m where n: "n = Suc m" using Cons.prems(2) by (cases n) auto
  show ?case
  proof (cases xs)
    case Nil
    with Cons.prems(2) have "parse_value m (stringify_json x @ CHR 0x5D # r) = Some (x, CHR 0x5D # r)"
      by (intro Cons.prems(3)) (simp_all add: n)
    then show ?thesis unfolding n by (simp only: Nil list.map js_join.simps read_element(2))
  next
    case (Cons y ys)
    let ?rest = "js_join (CHR 0x2C) (map stringify_json xs) @ CHR 0x5D # r"
    have join: "js_join (CHR 0x2C) (map stringify_json (x # xs)) @ CHR 0x5D # r = stringify_json x @ CHR 0x2C # ?rest"
      by (simp add: Cons)
    have "parse_value m (stringify_json x @ CHR 0x2C # ?rest) = Some (x, CHR 0x2C # ?rest)"
      using Cons.prems(2) by (intro Cons.prems(3)) (simp_all add: n Cons)
    moreover have "parse_elements m ?rest = Some (xs, r)"
      using Cons.prems(2,3) by (intro Cons.IH) (simp_all add: n Cons)
    ultimately show ?thesis unfolding n join by (simp only: read_element(1)) simp
  qed
qed simp

abbreviation stringify_member :: "string \<times> json \<Rightarrow> string" where
  "stringify_member m \<equiv> stringify_string (fst m) @ CHR 0x3A # stringify_json (snd m)"

lemma read_member:
  "parse_value n s = Some (x, CHR 0x2C # r) \<Longrightarrow>
     parse_members (Suc n) (stringify_string k @ CHR 0x3A # s) = map_option (\<lambda>(ms, u). ((k, x) # ms, u)) (parse_members n r)"
  "parse_value n s = Some (x, CHR 0x7D # r) \<Longrightarrow> parse_members (Suc n) (stringify_string k @ CHR 0x3A # s) = Some ([(k, x)], r)"
  by (simp_all add: skip_space_other json_space_def stringify_string_def parse_stringified)

lemma parse_stringified_members:
  assumes "ms \<noteq> []" and "length (js_join (CHR 0x2C) (map stringify_member ms)) + 1 < n"
    and "\<And>m r n. m \<in> set ms \<Longrightarrow> follows r \<Longrightarrow> length (stringify_json (snd m)) < n
           \<Longrightarrow> parse_value n (stringify_json (snd m) @ r) = Some (snd m, r)"
  shows "parse_members n (js_join (CHR 0x2C) (map stringify_member ms) @ CHR 0x7D # r) = Some (ms, r)"
  using assms
proof (induction ms arbitrary: n)
  case (Cons m ms)
  obtain k where n: "n = Suc k" using Cons.prems(2) by (cases n) auto
  show ?case
  proof (cases ms)
    case Nil
    with Cons.prems(2) have "parse_value k (stringify_json (snd m) @ CHR 0x7D # r) = Some (snd m, CHR 0x7D # r)"
      by (intro Cons.prems(3)) (simp_all add: n)
    from read_member(2) [OF this, of "fst m"] show ?thesis unfolding n by (simp add: Nil)
  next
    case (Cons y ys)
    let ?rest = "js_join (CHR 0x2C) (map stringify_member ms) @ CHR 0x7D # r"
    have "parse_value k (stringify_json (snd m) @ CHR 0x2C # ?rest) = Some (snd m, CHR 0x2C # ?rest)"
      using Cons.prems(2) by (intro Cons.prems(3)) (simp_all add: n Cons)
    from read_member(1) [OF this, of "fst m"]
    have "parse_members n (stringify_member m @ CHR 0x2C # ?rest) = map_option (\<lambda>(ms, u). (m # ms, u)) (parse_members k ?rest)"
      by (simp add: n)
    moreover have "parse_members k ?rest = Some (ms, r)"
      using Cons.prems(2,3) by (intro Cons.IH) (simp_all add: n Cons)
    moreover have "js_join (CHR 0x2C) (map stringify_member (m # ms)) @ CHR 0x7D # r = stringify_member m @ CHR 0x2C # ?rest"
      by (simp add: Cons)
    ultimately show ?thesis by simp
  qed
qed simp

lemma stringified_members: "stringify_json (JsonObject ms) = CHR 0x7B # js_join (CHR 0x2C) (map stringify_member ms) @ [CHR 0x7D]"
  by (simp add: case_prod_unfold)

lemma joined_first:
  assumes "js_join c (w # ws) = t"
  shows "\<exists>u. t = w @ u"
  using assms by (cases ws) auto

text \<open>Every value with natural numbers is read back from its text, whatever follows it.\<close>

lemma parse_value_stringified:
  "natural_json j \<Longrightarrow> follows r \<Longrightarrow> length (stringify_json j) < n \<Longrightarrow> parse_value n (stringify_json j @ r) = Some (j, r)"
proof (induction j arbitrary: n r)
  case (JsonArray xs)
  obtain m where n: "n = Suc m" using JsonArray.prems(3) by (cases n) auto
  show ?case
  proof (cases xs)
    case Nil
    then show ?thesis by (simp add: n skip_space_other json_space_def)
  next
    case (Cons x ys)
    let ?body = "js_join (CHR 0x2C) (map stringify_json xs)"
    have "natural_json x" using JsonArray.prems(1) Cons by simp
    then obtain c s where first: "stringify_json x = c # s" "\<not> json_space c" "c \<noteq> CHR 0x5D"
      by (rule stringified_first)
    with joined_first [of "CHR 0x2C" "stringify_json x" "map stringify_json ys" ?body] Cons
    obtain u where body: "?body = c # u" by auto
    have "parse_elements m (?body @ CHR 0x5D # r) = Some (xs, r)"
      using JsonArray by (intro parse_stringified_elements) (auto simp: n list_all_iff Cons)
    then show ?thesis
      using first(2,3) by (simp add: n body skip_space_other json_space_def)
  qed
next
  case (JsonObject ms)
  obtain k where n: "n = Suc k" using JsonObject.prems(3) by (cases n) auto
  show ?case
  proof (cases ms)
    case Nil
    then show ?thesis by (simp add: n skip_space_other json_space_def)
  next
    case (Cons m ys)
    let ?body = "js_join (CHR 0x2C) (map stringify_member ms)"
    obtain u where body: "?body = quote_char # u"
      using joined_first [of "CHR 0x2C" "stringify_member m" "map stringify_member ys" ?body] Cons
      by (auto simp: stringify_string_def)
    have "parse_members k (?body @ CHR 0x7D # r) = Some (ms, r)"
    proof (rule parse_stringified_members)
      fix x and r' and i
      assume "x \<in> set ms" "follows r'" "length (stringify_json (snd x)) < i"
      moreover have "natural_json (snd x)"
        using JsonObject.prems(1) \<open>x \<in> set ms\<close> by (auto simp: list_all_iff)
      ultimately show "parse_value i (stringify_json (snd x) @ r') = Some (snd x, r')"
        using JsonObject.IH [of x "snd x"] by (simp add: snds.simps prod_eq_iff)
    qed (use JsonObject.prems(3) Cons in \<open>simp_all only: stringified_members n, simp_all\<close>)
    moreover have "stringify_json (JsonObject ms) @ r = CHR 0x7B # quote_char # u @ CHR 0x7D # r"
      unfolding stringified_members body by simp
    moreover have "?body @ CHR 0x7D # r = quote_char # u @ CHR 0x7D # r" by (simp only: body append_Cons)
    ultimately show ?thesis by (simp add: n skip_space_other json_space_def)
  qed
next
  case (JsonString s)
  then show ?case by (cases n) (simp_all add: parse_value_string del: parse_value.simps)
next
  case (JsonNumber s)
  then show ?case by (cases n) (auto simp: parse_value_natural simp del: parse_value.simps)
next
  case JsonNull
  then show ?case by (cases n) (simp_all add: parse_literal_def skip_space_other json_space_def)
next
  case (JsonBool b)
  then show ?case by (cases n) (simp_all add: parse_literal_def skip_space_other json_space_def)
qed

lemma json_parse_stringified: "natural_json j \<Longrightarrow> json_parse (stringify_json j) = Some j"
  using parse_value_stringified [of j "[]" "2 * length (stringify_json j) + 2"] by (simp add: json_parse_def skip_space_def)

end
