(* ===== verification/Preferences.thy ===== *)
theory Preferences
  imports JsonText CreateWorkspace
begin

text \<open>
  The preferences of the application and the settings in the storage of the browser: \<^verbatim>\<open>src/src/app/preferences.ts\<close>,
  \<^verbatim>\<open>preferenceStorage.ts\<close>, \<^verbatim>\<open>tzapEnvironment.ts\<close>, the sizes of \<^verbatim>\<open>volumeSizePresets.ts\<close> and the locale
  preference of \<^verbatim>\<open>i18n/locale.ts\<close>.

  The storage is a partial map from keys to strings; the environment that the build fixes is a parameter, and so is
  the text of a number that is not a natural number below \<open>10 ^ 21\<close>, which \<open>String\<close> writes with a fraction, a sign or
  an exponent.
\<close>

section \<open>Enumerations\<close>

text \<open>
  The unions of literal types are stored by name; \<open>isOneOf\<close> reads a name back.
\<close>

definition isOneOf :: "(string \<times> 'a) list \<Rightarrow> string option \<Rightarrow> 'a option" where
  "isOneOf names v = (case v of None \<Rightarrow> None | Some s \<Rightarrow> map_of names s)"

text \<open>\<open>isOneOf(VALUES, value) ? value : fallback\<close>.\<close>

definition stored_enum :: "(string \<times> 'a) list \<Rightarrow> string option \<Rightarrow> 'a \<Rightarrow> 'a" where
  "stored_enum names v fallback = nullish (isOneOf names v) fallback"

definition enum_name :: "(string \<times> 'a) list \<Rightarrow> 'a \<Rightarrow> string" where
  "enum_name names x = nullish (map_of (map prod.swap names) x) []"

locale stored_names =
  fixes names :: "(string \<times> 'a) list"
  assumes names_distinct: "distinct (map fst names)"
    and names_unique: "distinct (map snd names)"
begin

lemma name_read_back: "x \<in> snd ` set names \<Longrightarrow> stored_enum names (Some (enum_name names x)) fallback = x"
proof -
  assume "x \<in> snd ` set names"
  then obtain s where s: "(s, x) \<in> set names" by auto
  then have "map_of (map prod.swap names) x = Some s"
    using names_unique by (intro map_of_is_SomeI) (auto simp: comp_def)
  moreover have "map_of names s = Some x"
    using s names_distinct by (intro map_of_is_SomeI)
  ultimately show ?thesis by (simp add: stored_enum_def enum_name_def isOneOf_def)
qed

lemma stored_in_range: "fallback \<in> snd ` set names \<Longrightarrow> stored_enum names v fallback \<in> snd ` set names"
  by (auto simp: stored_enum_def isOneOf_def nullish_def split: option.splits dest: map_of_SomeD)
    (metis image_eqI map_of_SomeD snd_conv)

end

datatype locale_preference = LocaleSystem | LocaleEn | LocaleZhCN
datatype output_location = SourceFolder | CustomFolder
datatype extraction_behavior = AskEveryTime | BehaviorHere | BehaviorToFolder
datatype preview_cleanup = BeforeNextPreview | WhenAppCloses
datatype tzap_environment = EnvProd | EnvStaging

definition LOCALE_PREFERENCES :: "(string \<times> locale_preference) list" where
  "LOCALE_PREFERENCES = [(''system'', LocaleSystem), (''en'', LocaleEn), (''zh-CN'', LocaleZhCN)]"

definition ARCHIVE_FORMATS :: "(string \<times> create_format) list" where
  "ARCHIVE_FORMATS = [(''zip'', CfZip), (''tarZst'', CfTarZst), (''tzap'', CfTzap), (''sevenZ'', CfSevenZ),
     (''tarGz'', CfTarGz), (''appleArchive'', CfAppleArchive)]"

definition OUTPUT_LOCATIONS :: "(string \<times> output_location) list" where
  "OUTPUT_LOCATIONS = [(''sourceFolder'', SourceFolder), (''customFolder'', CustomFolder)]"

definition EXTRACTION_BEHAVIORS :: "(string \<times> extraction_behavior) list" where
  "EXTRACTION_BEHAVIORS =
     [(''askEveryTime'', AskEveryTime), (''extractHere'', BehaviorHere), (''extractToFolder'', BehaviorToFolder)]"

definition EXTRACT_PATH_MODES :: "(string \<times> path_mode) list" where
  "EXTRACT_PATH_MODES = [(''full'', PmFull), (''current'', PmCurrent), (''none'', PmNone)]"

definition EXTRACT_OVERWRITE_POLICIES :: "(string \<times> overwrite_policy) list" where
  "EXTRACT_OVERWRITE_POLICIES =
     [(''refuse'', OwRefuse), (''ask'', OwAsk), (''rename'', OwRename), (''replace'', OwReplace)]"

definition TZAP_RESTORE_POLICIES :: "(string \<times> restore_policy) list" where
  "TZAP_RESTORE_POLICIES =
     [(''content'', RpContent), (''portable'', RpPortable), (''sameOs'', RpSameOs), (''system'', RpSystem)]"

definition TZAP_SIGNING_DEFAULTS :: "(string \<times> tzap_signing_default) list" where
  "TZAP_SIGNING_DEFAULTS = [(''accountDefault'', TsAccountDefault), (''none'', TsNone), (''identity'', TsIdentity)]"

definition PREVIEW_CLEANUP_POLICIES :: "(string \<times> preview_cleanup) list" where
  "PREVIEW_CLEANUP_POLICIES = [(''beforeNextPreview'', BeforeNextPreview), (''whenAppCloses'', WhenAppCloses)]"

text \<open>The columns of the archive table by which the table can be sorted after a restart.\<close>

definition TABLE_SORT_KEYS :: "(string \<times> archive_column) list" where
  "TABLE_SORT_KEYS = [(''name'', AcName), (''size'', AcSize), (''compressedSize'', AcCompressedSize),
     (''modified'', AcModified), (''created'', AcCreated), (''accessed'', AcAccessed), (''attributes'', AcAttributes),
     (''encrypted'', AcEncrypted), (''method'', AcMethod), (''crc'', AcCrc), (''comment'', AcComment),
     (''kind'', AcKind), (''ratio'', AcRatio), (''solid'', AcSolid), (''linkTarget'', AcLinkTarget),
     (''metadataDiagnostics'', AcMetadataDiagnostics), (''uid'', AcUid), (''gid'', AcGid), (''owner'', AcOwner),
     (''group'', AcGroup)]"

definition TZAP_ENVIRONMENTS :: "(string \<times> tzap_environment) list" where
  "TZAP_ENVIRONMENTS = [(''staging'', EnvStaging), (''prod'', EnvProd)]"

interpretation locale_names: stored_names LOCALE_PREFERENCES by unfold_locales (code_simp)+
interpretation format_names: stored_names ARCHIVE_FORMATS by unfold_locales (code_simp)+
interpretation output_names: stored_names OUTPUT_LOCATIONS by unfold_locales (code_simp)+
interpretation behavior_names: stored_names EXTRACTION_BEHAVIORS by unfold_locales (code_simp)+
interpretation path_mode_names: stored_names EXTRACT_PATH_MODES by unfold_locales (code_simp)+
interpretation overwrite_names: stored_names EXTRACT_OVERWRITE_POLICIES by unfold_locales (code_simp)+
interpretation restore_names: stored_names TZAP_RESTORE_POLICIES by unfold_locales (code_simp)+
interpretation signing_names: stored_names TZAP_SIGNING_DEFAULTS by unfold_locales (code_simp)+
interpretation cleanup_names: stored_names PREVIEW_CLEANUP_POLICIES by unfold_locales (code_simp)+
interpretation sort_names: stored_names TABLE_SORT_KEYS by unfold_locales (code_simp)+
interpretation environment_names: stored_names TZAP_ENVIRONMENTS by unfold_locales (code_simp)+

section \<open>Values of a type that is not known\<close>

text \<open>\<open>unknown\<close>: what \<open>JSON.parse\<close> may return, and \<open>undefined\<close>.\<close>

datatype unknown = UkUndefined | UkNull | UkBool bool | UkNumber jsnum | UkString string | UkOther

fun unknown_of :: "json option \<Rightarrow> unknown" where
  "unknown_of None = UkUndefined"
| "unknown_of (Some JsonNull) = UkNull"
| "unknown_of (Some (JsonBool b)) = UkBool b"
| "unknown_of (Some (JsonNumber s)) = UkNumber (json_number s)"
| "unknown_of (Some (JsonString s)) = UkString s"
| "unknown_of (Some _) = UkOther"

definition storedBool :: "string option \<Rightarrow> bool \<Rightarrow> bool" where
  "storedBool v fallback = (if v = Some ''true'' then True else if v = Some ''false'' then False else fallback)"

fun storedNumber :: "unknown \<Rightarrow> jsnum option \<Rightarrow> jsnum option" where
  "storedNumber UkUndefined fallback = None"
| "storedNumber UkNull fallback = None"
| "storedNumber (UkString s) fallback = (if s = [] then None else fallback)"
| "storedNumber (UkNumber (Fin q)) fallback = (if q < 0 then fallback else Some (Fin (of_int \<lfloor>q\<rfloor>)))"
| "storedNumber _ fallback = fallback"

definition storedPositiveNumber :: "unknown \<Rightarrow> jsnum option \<Rightarrow> jsnum option" where
  "storedPositiveNumber v fallback =
     (case storedNumber v fallback of
        Some (Fin q) \<Rightarrow> if 0 < q then Some (Fin q) else None
      | Some PosInf \<Rightarrow> Some PosInf
      | _ \<Rightarrow> None)"

definition storedTzapRecoveryPercentage :: "unknown \<Rightarrow> jsnum option \<Rightarrow> jsnum option" where
  "storedTzapRecoveryPercentage v fallback =
     (case v of
        UkNumber (Fin q) \<Rightarrow>
          (case normalizeTzapRecoveryPercentage (Some (Fin q)) of None \<Rightarrow> fallback | Some r \<Rightarrow> Some (Fin r))
      | _ \<Rightarrow> fallback)"

definition storedTzapVolumeLossTolerance :: "unknown \<Rightarrow> jsnum \<Rightarrow> jsnum" where
  "storedTzapVolumeLossTolerance v fallback =
     (case v of
        UkNumber (Fin q) \<Rightarrow>
          (case normalizeTzapVolumeLossTolerance (Some (Fin q)) of None \<Rightarrow> fallback | Some r \<Rightarrow> Fin r)
      | _ \<Rightarrow> fallback)"

definition storedTzapVolumeLossToleranceForSplit :: "unknown \<Rightarrow> unknown \<Rightarrow> jsnum \<Rightarrow> jsnum" where
  "storedTzapVolumeLossToleranceForSplit volumeSize v fallback =
     (if storedPositiveNumber volumeSize None = None then Fin 0 else storedTzapVolumeLossTolerance v fallback)"

definition storedObjectBool :: "unknown \<Rightarrow> bool \<Rightarrow> bool" where
  "storedObjectBool v fallback = (case v of UkBool b \<Rightarrow> b | _ \<Rightarrow> fallback)"

definition storedOptionalString :: "unknown \<Rightarrow> string option \<Rightarrow> string option" where
  "storedOptionalString v fallback = (case v of UkString s \<Rightarrow> some_nonempty (js_trim s) | _ \<Rightarrow> fallback)"

definition storedTzapSigningDefault :: "unknown \<Rightarrow> tzap_signing_default \<Rightarrow> tzap_signing_default" where
  "storedTzapSigningDefault v fallback =
     stored_enum TZAP_SIGNING_DEFAULTS (case v of UkString s \<Rightarrow> Some s | _ \<Rightarrow> None) fallback"

definition cleanPath :: "string option \<Rightarrow> string" where
  "cleanPath v = nullish (map_option js_trim v) []"

section \<open>Defaults of the formats\<close>

definition plain_format_defaults :: format_create_defaults where
  "plain_format_defaults =
     \<lparr> fd_cleanSource = False, fd_respectGitignore = Some True, fd_followSymlinks = Some False,
       fd_compressionLevel = None, fd_volumeSize = None, fd_tzapRecoveryPercentage = None,
       fd_tzapVolumeLossTolerance = None, fd_tzapSigningDefault = None, fd_tzapDefaultSigningIdentityId = None,
       fd_tzapBootstrapSidecar = None, fd_zipCompression = None, fd_sevenZSolid = None, fd_sevenZThreads = None,
       fd_sevenZChunkSize = None, fd_sevenZEncryptFileNames = None, fd_preserveMetadata = True,
       fd_replaceExisting = False, fd_promptForPassword = False \<rparr>"

type_synonym format_defaults_map = "create_format \<Rightarrow> format_create_defaults"

fun default_createFormatDefaults :: format_defaults_map where
  "default_createFormatDefaults CfZip = plain_format_defaults\<lparr> fd_zipCompression := Some ZipDeflate \<rparr>"
| "default_createFormatDefaults CfTzap =
     plain_format_defaults\<lparr> fd_tzapRecoveryPercentage := Some (Fin TZAP_RECOVERY_PERCENTAGE_DEFAULT),
       fd_tzapVolumeLossTolerance := Some (Fin 0), fd_tzapSigningDefault := Some TsAccountDefault,
       fd_tzapBootstrapSidecar := Some False \<rparr>"
| "default_createFormatDefaults CfSevenZ =
     plain_format_defaults\<lparr> fd_sevenZSolid := Some True, fd_sevenZChunkSize := Some (Fin (16 * 1024 * 1024)),
       fd_sevenZEncryptFileNames := Some True \<rparr>"
| "default_createFormatDefaults _ = plain_format_defaults"

text \<open>A property of an object that has been parsed: the last of several members with the name counts.\<close>

definition json_field :: "json option \<Rightarrow> string \<Rightarrow> unknown" where
  "json_field raw name =
     (case raw of Some (JsonObject ms) \<Rightarrow> unknown_of (map_of (rev ms) name) | _ \<Rightarrow> UkUndefined)"

definition signing_mode_of :: "unknown \<Rightarrow> unknown \<Rightarrow> format_create_defaults \<Rightarrow> tzap_signing_default" where
  "signing_mode_of mode identity fallback =
     (let mode' = storedTzapSigningDefault mode (nullish (fd_tzapSigningDefault fallback) TsAccountDefault);
          identityId = storedOptionalString identity (fd_tzapDefaultSigningIdentityId fallback)
      in if mode' = TsIdentity \<and> \<not> truthy identityId then TsAccountDefault else mode')"

text \<open>One format of the stored object; \<open>f\<close> is a property of its value.\<close>

definition load_format_defaults :: "create_format \<Rightarrow> format_create_defaults \<Rightarrow> (string \<Rightarrow> unknown) \<Rightarrow> format_create_defaults" where
  "load_format_defaults format fallback f =
     \<lparr> fd_cleanSource = storedObjectBool (f ''cleanSource'') (fd_cleanSource fallback),
       fd_respectGitignore =
         Some (storedObjectBool (f ''respectGitignore'') (nullish (fd_respectGitignore fallback) False)),
       fd_followSymlinks = Some (storedObjectBool (f ''followSymlinks'') (nullish (fd_followSymlinks fallback) False)),
       fd_compressionLevel = storedNumber (f ''compressionLevel'') (fd_compressionLevel fallback),
       fd_volumeSize = storedPositiveNumber (f ''volumeSize'') (fd_volumeSize fallback),
       fd_tzapRecoveryPercentage =
         (if format = CfTzap
          then storedTzapRecoveryPercentage (f ''tzapRecoveryPercentage'') (fd_tzapRecoveryPercentage fallback)
          else None),
       fd_tzapVolumeLossTolerance =
         (if format = CfTzap
          then Some (storedTzapVolumeLossToleranceForSplit (f ''volumeSize'') (f ''tzapVolumeLossTolerance'')
                 (nullish (fd_tzapVolumeLossTolerance fallback) (Fin 0)))
          else None),
       fd_tzapSigningDefault =
         (if format = CfTzap
          then Some (signing_mode_of (f ''tzapSigningDefault'') (f ''tzapDefaultSigningIdentityId'') fallback) else None),
       fd_tzapDefaultSigningIdentityId =
         (if format = CfTzap
          then storedOptionalString (f ''tzapDefaultSigningIdentityId'') (fd_tzapDefaultSigningIdentityId fallback)
          else None),
       fd_tzapBootstrapSidecar =
         (if format = CfTzap
          then Some (storedObjectBool (f ''tzapBootstrapSidecar'') (nullish (fd_tzapBootstrapSidecar fallback) False))
          else None),
       fd_zipCompression =
         (if format = CfZip then Some (if f ''zipCompression'' = UkString ''store'' then ZipStore else ZipDeflate)
          else None),
       fd_sevenZSolid =
         (if format = CfSevenZ
          then Some (storedObjectBool (f ''sevenZSolid'') (nullish (fd_sevenZSolid fallback) True)) else None),
       fd_sevenZThreads =
         (if format = CfSevenZ then storedPositiveNumber (f ''sevenZThreads'') (fd_sevenZThreads fallback) else None),
       fd_sevenZChunkSize =
         (if format = CfSevenZ then storedPositiveNumber (f ''sevenZChunkSize'') (fd_sevenZChunkSize fallback) else None),
       fd_sevenZEncryptFileNames =
         (if format = CfSevenZ
          then Some (storedObjectBool (f ''sevenZEncryptFileNames'') (nullish (fd_sevenZEncryptFileNames fallback) True))
          else None),
       fd_preserveMetadata = storedObjectBool (f ''preserveMetadata'') (fd_preserveMetadata fallback),
       fd_replaceExisting = storedObjectBool (f ''replaceExisting'') (fd_replaceExisting fallback),
       fd_promptForPassword =
         (createFormatSupportsPassword format
          \<and> storedObjectBool (f ''promptForPassword'') (fd_promptForPassword fallback)) \<rparr>"

definition format_name :: "create_format \<Rightarrow> string" where
  "format_name format = enum_name ARCHIVE_FORMATS format"

text \<open>
  The object of a format is a property of what has been parsed, which anything but \<open>null\<close> can be asked for.
\<close>

definition loadCreateFormatDefaults :: "string option \<Rightarrow> format_defaults_map" where
  "loadCreateFormatDefaults v =
     (if \<not> truthy v then default_createFormatDefaults
      else case json_parse (the v) of
             None \<Rightarrow> default_createFormatDefaults
           | Some JsonNull \<Rightarrow> default_createFormatDefaults
           | Some parsed \<Rightarrow>
               (\<lambda>format. load_format_defaults format (default_createFormatDefaults format)
                  (json_field (case parsed of JsonObject ms \<Rightarrow> map_of (rev ms) (format_name format) | _ \<Rightarrow> None))))"

section \<open>Sizes of volumes\<close>

definition KIBIBYTE :: rat where "KIBIBYTE = 1024"
definition MEBIBYTE :: rat where "MEBIBYTE = 1024 * KIBIBYTE"
definition GIBIBYTE :: rat where "GIBIBYTE = 1024 * MEBIBYTE"

definition DEFAULT_VOLUME_SIZE_PRESETS :: "rat list" where
  "DEFAULT_VOLUME_SIZE_PRESETS =
     [MEBIBYTE, 10 * MEBIBYTE, 50 * MEBIBYTE, 100 * MEBIBYTE, 500 * MEBIBYTE, GIBIBYTE, 2 * GIBIBYTE, 4 * GIBIBYTE]"

definition preset_size :: "unknown \<Rightarrow> rat option" where
  "preset_size v = (case v of UkNumber (Fin q) \<Rightarrow> if isSafeInteger (Fin q) \<and> 0 < q then Some q else None | _ \<Rightarrow> None)"

definition normalizeVolumeSizePresets :: "unknown list \<Rightarrow> rat list" where
  "normalizeVolumeSizePresets vs = js_set (List.map_filter preset_size vs)"

definition presets_or_default :: "rat list \<Rightarrow> rat list" where
  "presets_or_default sizes = (if sizes \<noteq> [] then sizes else DEFAULT_VOLUME_SIZE_PRESETS)"

definition loadVolumeSizePresets :: "string option \<Rightarrow> rat list" where
  "loadVolumeSizePresets v =
     (if \<not> truthy v then DEFAULT_VOLUME_SIZE_PRESETS
      else case json_parse (the v) of
             Some (JsonArray xs) \<Rightarrow> presets_or_default (normalizeVolumeSizePresets (map (\<lambda>x. unknown_of (Some x)) xs))
           | _ \<Rightarrow> DEFAULT_VOLUME_SIZE_PRESETS)"

section \<open>The preferences\<close>

definition parseTzapBuildEnvironment :: "string option \<Rightarrow> tzap_environment option" where
  "parseTzapBuildEnvironment v = isOneOf TZAP_ENVIRONMENTS v"

text \<open>\<open>FIXED_TZAP_BUILD_ENVIRONMENT\<close>, from the settings of the build.\<close>

definition fixed_build_environment :: "string option \<Rightarrow> bool \<Rightarrow> tzap_environment option" where
  "fixed_build_environment configured dev =
     (case parseTzapBuildEnvironment configured of Some e \<Rightarrow> Some e | None \<Rightarrow> if dev then None else Some EnvProd)"

definition resolveTzapEnvironment :: "tzap_environment option \<Rightarrow> string option \<Rightarrow> tzap_environment" where
  "resolveTzapEnvironment fixed stored =
     (case fixed of Some e \<Rightarrow> e | None \<Rightarrow> nullish (parseTzapBuildEnvironment stored) EnvProd)"

record app_preferences =
  ap_locale :: locale_preference
  ap_defaultArchiveFormat :: create_format
  ap_defaultCleanSourceEnabled :: bool
  ap_createFormatDefaults :: format_defaults_map
  ap_volumeSizePresets :: "rat list"
  ap_defaultOutputLocation :: output_location
  ap_customOutputFolderPath :: string
  ap_customExtractFolderPath :: string
  ap_defaultExtractionBehavior :: extraction_behavior
  ap_defaultExtractPathMode :: path_mode
  ap_defaultExtractOverwrite :: overwrite_policy
  ap_defaultExtractStripComponents :: jsnum
  ap_defaultExtractDeduplicateRoot :: bool
  ap_defaultTzapRestorePolicy :: restore_policy
  ap_defaultTzapAllowDegraded :: bool
  ap_defaultTzapAllowAbsoluteSymlinks :: bool
  ap_defaultExtractIgnoreSymlinks :: bool
  ap_previewCleanupPolicy :: preview_cleanup
  ap_showParentFolderItem :: bool
  ap_showRealFileIcons :: bool
  ap_showGridLines :: bool
  ap_fullRowSelect :: bool
  ap_singleClickOpen :: bool
  ap_alternativeSelectionMode :: bool
  ap_showToolbarLabels :: bool
  ap_flatViewDefault :: bool
  ap_tableSortKey :: archive_column
  ap_tableSortAscending :: bool
  ap_tzapEnvironment :: tzap_environment
  ap_lanShareAlias :: string
  ap_lanShareEnableReceiving :: bool
  ap_lanShareReceiveFolderPath :: string
  ap_lanShareAutoExtract :: bool

definition DEFAULT_APP_PREFERENCES :: "tzap_environment option \<Rightarrow> app_preferences" where
  "DEFAULT_APP_PREFERENCES fixed =
     \<lparr> ap_locale = LocaleSystem, ap_defaultArchiveFormat = CfTarZst, ap_defaultCleanSourceEnabled = False,
       ap_createFormatDefaults = default_createFormatDefaults, ap_volumeSizePresets = DEFAULT_VOLUME_SIZE_PRESETS,
       ap_defaultOutputLocation = SourceFolder, ap_customOutputFolderPath = [], ap_customExtractFolderPath = [],
       ap_defaultExtractionBehavior = AskEveryTime, ap_defaultExtractPathMode = PmFull,
       ap_defaultExtractOverwrite = OwAsk, ap_defaultExtractStripComponents = Fin 0,
       ap_defaultExtractDeduplicateRoot = False, ap_defaultTzapRestorePolicy = RpPortable,
       ap_defaultTzapAllowDegraded = False, ap_defaultTzapAllowAbsoluteSymlinks = False,
       ap_defaultExtractIgnoreSymlinks = False, ap_previewCleanupPolicy = BeforeNextPreview,
       ap_showParentFolderItem = True, ap_showRealFileIcons = True, ap_showGridLines = True, ap_fullRowSelect = True,
       ap_singleClickOpen = False, ap_alternativeSelectionMode = False, ap_showToolbarLabels = True,
       ap_flatViewDefault = False, ap_tableSortKey = AcName, ap_tableSortAscending = True,
       ap_tzapEnvironment = resolveTzapEnvironment fixed None, ap_lanShareAlias = [],
       ap_lanShareEnableReceiving = True, ap_lanShareReceiveFolderPath = [], ap_lanShareAutoExtract = True \<rparr>"

section \<open>Loading\<close>

text \<open>The storage, \<open>localStorage\<close>; \<open>PREFERENCE_KEYS\<close> puts one prefix before the names.\<close>

type_synonym preference_storage = "string \<rightharpoonup> string"

definition PREFERENCE_KEY :: "string \<Rightarrow> string" where
  "PREFERENCE_KEY name = ''zmanager.'' @ name"

abbreviation getItem :: "preference_storage \<Rightarrow> string \<Rightarrow> string option" where
  "getItem st name \<equiv> st (PREFERENCE_KEY name)"

definition loadAppPreferences :: "tzap_environment option \<Rightarrow> preference_storage option \<Rightarrow> app_preferences" where
  "loadAppPreferences fixed storage =
     (let d = DEFAULT_APP_PREFERENCES fixed
      in case storage of None \<Rightarrow> d
       | Some st \<Rightarrow>
          \<lparr> ap_locale = stored_enum LOCALE_PREFERENCES (getItem st ''locale'') (ap_locale d),
            ap_defaultArchiveFormat =
              stored_enum ARCHIVE_FORMATS (getItem st ''defaultArchiveFormat'') (ap_defaultArchiveFormat d),
            ap_defaultCleanSourceEnabled =
              storedBool (getItem st ''defaultCleanSourceEnabled'') (ap_defaultCleanSourceEnabled d),
            ap_createFormatDefaults = loadCreateFormatDefaults (getItem st ''createFormatDefaults''),
            ap_volumeSizePresets = loadVolumeSizePresets (getItem st ''volumeSizePresets''),
            ap_defaultOutputLocation =
              stored_enum OUTPUT_LOCATIONS (getItem st ''defaultOutputLocation'') (ap_defaultOutputLocation d),
            ap_customOutputFolderPath = cleanPath (getItem st ''customOutputFolderPath''),
            ap_customExtractFolderPath = cleanPath (getItem st ''customExtractFolderPath''),
            ap_defaultExtractionBehavior =
              stored_enum EXTRACTION_BEHAVIORS (getItem st ''defaultExtractionBehavior'')
                (ap_defaultExtractionBehavior d),
            ap_defaultExtractPathMode =
              stored_enum EXTRACT_PATH_MODES (getItem st ''defaultExtractPathMode'') (ap_defaultExtractPathMode d),
            ap_defaultExtractOverwrite =
              stored_enum EXTRACT_OVERWRITE_POLICIES (getItem st ''defaultExtractOverwrite'')
                (ap_defaultExtractOverwrite d),
            ap_defaultExtractStripComponents =
              (case getItem st ''defaultExtractStripComponents'' of
                 None \<Rightarrow> ap_defaultExtractStripComponents d
               | Some s \<Rightarrow>
                   nullish (storedNumber (UkNumber (js_number s)) (Some (ap_defaultExtractStripComponents d))) (Fin 0)),
            ap_defaultExtractDeduplicateRoot =
              storedBool (getItem st ''defaultExtractDeduplicateRoot'') (ap_defaultExtractDeduplicateRoot d),
            ap_defaultTzapRestorePolicy =
              stored_enum TZAP_RESTORE_POLICIES (getItem st ''defaultTzapRestorePolicy'') (ap_defaultTzapRestorePolicy d),
            ap_defaultTzapAllowDegraded =
              storedBool (getItem st ''defaultTzapAllowDegraded'') (ap_defaultTzapAllowDegraded d),
            ap_defaultTzapAllowAbsoluteSymlinks =
              storedBool (getItem st ''defaultTzapAllowAbsoluteSymlinks'') (ap_defaultTzapAllowAbsoluteSymlinks d),
            ap_defaultExtractIgnoreSymlinks =
              storedBool (getItem st ''defaultExtractIgnoreSymlinks'') (ap_defaultExtractIgnoreSymlinks d),
            ap_previewCleanupPolicy =
              stored_enum PREVIEW_CLEANUP_POLICIES (getItem st ''previewCleanupPolicy'') (ap_previewCleanupPolicy d),
            ap_showParentFolderItem = storedBool (getItem st ''showParentFolderItem'') (ap_showParentFolderItem d),
            ap_showRealFileIcons = storedBool (getItem st ''showRealFileIcons'') (ap_showRealFileIcons d),
            ap_showGridLines = storedBool (getItem st ''showGridLines'') (ap_showGridLines d),
            ap_fullRowSelect = storedBool (getItem st ''fullRowSelect'') (ap_fullRowSelect d),
            ap_singleClickOpen = storedBool (getItem st ''singleClickOpen'') (ap_singleClickOpen d),
            ap_alternativeSelectionMode =
              storedBool (getItem st ''alternativeSelectionMode'') (ap_alternativeSelectionMode d),
            ap_showToolbarLabels = storedBool (getItem st ''showToolbarLabels'') (ap_showToolbarLabels d),
            ap_flatViewDefault = storedBool (getItem st ''flatViewDefault'') (ap_flatViewDefault d),
            ap_tableSortKey = stored_enum TABLE_SORT_KEYS (getItem st ''tableSortKey'') (ap_tableSortKey d),
            ap_tableSortAscending = storedBool (getItem st ''tableSortAscending'') (ap_tableSortAscending d),
            ap_tzapEnvironment = resolveTzapEnvironment fixed (getItem st ''tzapEnvironment''),
            ap_lanShareAlias = nullish (getItem st ''lanShareAlias'') (ap_lanShareAlias d),
            ap_lanShareEnableReceiving = storedBool (getItem st ''lanShareEnableReceiving'') (ap_lanShareEnableReceiving d),
            ap_lanShareReceiveFolderPath = cleanPath (getItem st ''lanShareReceiveFolderPath''),
            ap_lanShareAutoExtract = storedBool (getItem st ''lanShareAutoExtract'') (ap_lanShareAutoExtract d) \<rparr>)"

section \<open>Saving\<close>

text \<open>\<open>String(x)\<close> of a number; \<open>other\<close> is the text of a finite number that is not a natural one below \<open>10 ^ 21\<close>.\<close>

definition natural_number :: "rat \<Rightarrow> bool" where
  "natural_number q \<longleftrightarrow> of_int \<lfloor>q\<rfloor> = q \<and> 0 \<le> q \<and> q < 10 ^ 21"

definition number_text :: "(rat \<Rightarrow> string) \<Rightarrow> jsnum \<Rightarrow> string" where
  "number_text other x =
     (case x of
        Fin q \<Rightarrow> if natural_number q then nat_string (nat \<lfloor>q\<rfloor>) else other q
      | PosInf \<Rightarrow> ''Infinity''
      | NegInf \<Rightarrow> ''-Infinity''
      | NaN \<Rightarrow> ''NaN'')"

definition bool_text :: "bool \<Rightarrow> string" where
  "bool_text b = (if b then ''true'' else ''false'')"

text \<open>What \<open>JSON.stringify\<close> writes of a number that may be \<open>null\<close>, and of a property that may be \<open>undefined\<close>.\<close>

definition json_of_number :: "(rat \<Rightarrow> string) \<Rightarrow> jsnum option \<Rightarrow> json" where
  "json_of_number other v = (case v of Some (Fin q) \<Rightarrow> JsonNumber (number_text other (Fin q)) | _ \<Rightarrow> JsonNull)"

definition member :: "string \<Rightarrow> ('a \<Rightarrow> json) \<Rightarrow> 'a option \<Rightarrow> (string \<times> json) list" where
  "member name f v = (case v of None \<Rightarrow> [] | Some x \<Rightarrow> [(name, f x)])"

definition zip_compression_name :: "zip_compression \<Rightarrow> string" where
  "zip_compression_name z = (case z of ZipStore \<Rightarrow> ''store'' | ZipDeflate \<Rightarrow> ''deflate'')"

definition format_defaults_members :: "(rat \<Rightarrow> string) \<Rightarrow> format_create_defaults \<Rightarrow> (string \<times> json) list" where
  "format_defaults_members other d =
     (let number = json_of_number other; some_number = (\<lambda>x. json_of_number other (Some x))
      in [(''cleanSource'', JsonBool (fd_cleanSource d))]
       @ member ''respectGitignore'' JsonBool (fd_respectGitignore d)
       @ member ''followSymlinks'' JsonBool (fd_followSymlinks d)
       @ [(''compressionLevel'', number (fd_compressionLevel d)),
          (''volumeSize'', number (fd_volumeSize d)),
          (''tzapRecoveryPercentage'', number (fd_tzapRecoveryPercentage d)),
          (''preserveMetadata'', JsonBool (fd_preserveMetadata d)),
          (''replaceExisting'', JsonBool (fd_replaceExisting d)),
          (''promptForPassword'', JsonBool (fd_promptForPassword d))]
       @ member ''zipCompression'' (\<lambda>z. JsonString (zip_compression_name z)) (fd_zipCompression d)
       @ member ''tzapVolumeLossTolerance'' some_number (fd_tzapVolumeLossTolerance d)
       @ member ''tzapSigningDefault'' (\<lambda>m. JsonString (enum_name TZAP_SIGNING_DEFAULTS m)) (fd_tzapSigningDefault d)
       @ member ''tzapDefaultSigningIdentityId'' JsonString (fd_tzapDefaultSigningIdentityId d)
       @ member ''tzapBootstrapSidecar'' JsonBool (fd_tzapBootstrapSidecar d)
       @ member ''sevenZSolid'' JsonBool (fd_sevenZSolid d)
       @ member ''sevenZThreads'' some_number (fd_sevenZThreads d)
       @ member ''sevenZChunkSize'' some_number (fd_sevenZChunkSize d)
       @ member ''sevenZEncryptFileNames'' JsonBool (fd_sevenZEncryptFileNames d))"

definition format_defaults_json :: "(rat \<Rightarrow> string) \<Rightarrow> format_defaults_map \<Rightarrow> json" where
  "format_defaults_json other defaults =
     JsonObject (map (\<lambda>(name, format). (name, JsonObject (format_defaults_members other (defaults format)))) ARCHIVE_FORMATS)"

definition sort_key_name :: "archive_column \<Rightarrow> string" where
  "sort_key_name key = enum_name (TABLE_SORT_KEYS @ [(''mode'', AcMode)]) key"

text \<open>What is written, in order; \<open>None\<close> removes the item.\<close>

definition trimmed_item :: "string \<Rightarrow> string \<Rightarrow> string \<times> string option" where
  "trimmed_item name path = (name, some_nonempty (js_trim path))"

definition preference_items :: "(rat \<Rightarrow> string) \<Rightarrow> app_preferences \<Rightarrow> (string \<times> string option) list" where
  "preference_items other p =
     [(''defaultArchiveFormat'', Some (format_name (ap_defaultArchiveFormat p))),
      (''locale'', Some (enum_name LOCALE_PREFERENCES (ap_locale p))),
      (''defaultCleanSourceEnabled'', Some (bool_text (ap_defaultCleanSourceEnabled p))),
      (''createFormatDefaults'', Some (stringify_json (format_defaults_json other (ap_createFormatDefaults p)))),
      (''volumeSizePresets'',
        Some (stringify_json (JsonArray (map (\<lambda>q. json_of_number other (Some (Fin q))) (ap_volumeSizePresets p))))),
      (''defaultOutputLocation'', Some (enum_name OUTPUT_LOCATIONS (ap_defaultOutputLocation p))),
      (''defaultExtractionBehavior'', Some (enum_name EXTRACTION_BEHAVIORS (ap_defaultExtractionBehavior p))),
      (''defaultExtractPathMode'', Some (enum_name EXTRACT_PATH_MODES (ap_defaultExtractPathMode p))),
      (''defaultExtractOverwrite'', Some (enum_name EXTRACT_OVERWRITE_POLICIES (ap_defaultExtractOverwrite p))),
      (''defaultExtractStripComponents'', Some (number_text other (ap_defaultExtractStripComponents p))),
      (''defaultExtractDeduplicateRoot'', Some (bool_text (ap_defaultExtractDeduplicateRoot p))),
      (''defaultTzapRestorePolicy'', Some (enum_name TZAP_RESTORE_POLICIES (ap_defaultTzapRestorePolicy p))),
      (''defaultTzapAllowDegraded'', Some (bool_text (ap_defaultTzapAllowDegraded p))),
      (''defaultTzapAllowAbsoluteSymlinks'', Some (bool_text (ap_defaultTzapAllowAbsoluteSymlinks p))),
      (''defaultExtractIgnoreSymlinks'', Some (bool_text (ap_defaultExtractIgnoreSymlinks p))),
      (''previewCleanupPolicy'', Some (enum_name PREVIEW_CLEANUP_POLICIES (ap_previewCleanupPolicy p))),
      (''showParentFolderItem'', Some (bool_text (ap_showParentFolderItem p))),
      (''showRealFileIcons'', Some (bool_text (ap_showRealFileIcons p))),
      (''showGridLines'', Some (bool_text (ap_showGridLines p))),
      (''fullRowSelect'', Some (bool_text (ap_fullRowSelect p))),
      (''singleClickOpen'', Some (bool_text (ap_singleClickOpen p))),
      (''alternativeSelectionMode'', Some (bool_text (ap_alternativeSelectionMode p))),
      (''showToolbarLabels'', Some (bool_text (ap_showToolbarLabels p))),
      (''flatViewDefault'', Some (bool_text (ap_flatViewDefault p))),
      (''tableSortKey'', Some (sort_key_name (ap_tableSortKey p))),
      (''tableSortAscending'', Some (bool_text (ap_tableSortAscending p))),
      (''tzapEnvironment'', Some (enum_name TZAP_ENVIRONMENTS (ap_tzapEnvironment p))),
      (''lanShareAlias'', Some (ap_lanShareAlias p)),
      (''lanShareEnableReceiving'', Some (bool_text (ap_lanShareEnableReceiving p))),
      (''lanShareAutoExtract'', Some (bool_text (ap_lanShareAutoExtract p))),
      trimmed_item ''customOutputFolderPath'' (ap_customOutputFolderPath p),
      trimmed_item ''customExtractFolderPath'' (ap_customExtractFolderPath p),
      trimmed_item ''lanShareReceiveFolderPath'' (ap_lanShareReceiveFolderPath p)]"

definition set_item :: "string \<times> string option \<Rightarrow> preference_storage \<Rightarrow> preference_storage" where
  "set_item item st = st(PREFERENCE_KEY (fst item) := snd item)"

definition saveAppPreferences ::
    "(rat \<Rightarrow> string) \<Rightarrow> app_preferences \<Rightarrow> preference_storage option \<Rightarrow> preference_storage option" where
  "saveAppPreferences other p storage =
     map_option (fold set_item (preference_items other p)) storage"

section \<open>Changing\<close>

text \<open>\<open>Partial<AppPreferences>\<close>.\<close>

record preference_patch =
  pp_locale :: "locale_preference option"
  pp_defaultArchiveFormat :: "create_format option"
  pp_defaultCleanSourceEnabled :: "bool option"
  pp_createFormatDefaults :: "format_defaults_map option"
  pp_volumeSizePresets :: "jsnum list option"
  pp_defaultOutputLocation :: "output_location option"
  pp_customOutputFolderPath :: "string option"
  pp_customExtractFolderPath :: "string option"
  pp_defaultExtractionBehavior :: "extraction_behavior option"
  pp_defaultExtractPathMode :: "path_mode option"
  pp_defaultExtractOverwrite :: "overwrite_policy option"
  pp_defaultExtractStripComponents :: "jsnum option"
  pp_defaultExtractDeduplicateRoot :: "bool option"
  pp_defaultTzapRestorePolicy :: "restore_policy option"
  pp_defaultTzapAllowDegraded :: "bool option"
  pp_defaultTzapAllowAbsoluteSymlinks :: "bool option"
  pp_defaultExtractIgnoreSymlinks :: "bool option"
  pp_previewCleanupPolicy :: "preview_cleanup option"
  pp_showParentFolderItem :: "bool option"
  pp_showRealFileIcons :: "bool option"
  pp_showGridLines :: "bool option"
  pp_fullRowSelect :: "bool option"
  pp_singleClickOpen :: "bool option"
  pp_alternativeSelectionMode :: "bool option"
  pp_showToolbarLabels :: "bool option"
  pp_flatViewDefault :: "bool option"
  pp_tableSortKey :: "archive_column option"
  pp_tableSortAscending :: "bool option"
  pp_tzapEnvironment :: "tzap_environment option"
  pp_lanShareAlias :: "string option"
  pp_lanShareEnableReceiving :: "bool option"
  pp_lanShareReceiveFolderPath :: "string option"
  pp_lanShareAutoExtract :: "bool option"

definition uk_number :: "jsnum option \<Rightarrow> unknown" where
  "uk_number v = (case v of None \<Rightarrow> UkNull | Some x \<Rightarrow> UkNumber x)"

definition uk_string :: "string option \<Rightarrow> unknown" where
  "uk_string v = (case v of None \<Rightarrow> UkUndefined | Some s \<Rightarrow> UkString s)"

definition normalize_format_defaults :: "create_format \<Rightarrow> format_create_defaults \<Rightarrow> format_create_defaults" where
  "normalize_format_defaults format v =
     (let fallback = default_createFormatDefaults format; tzap = (format = CfTzap); sevenZ = (format = CfSevenZ);
          identity = uk_string (fd_tzapDefaultSigningIdentityId v)
      in \<lparr> fd_cleanSource = fd_cleanSource v,
           fd_respectGitignore = Some (nullish (fd_respectGitignore v) False),
           fd_followSymlinks = Some (nullish (fd_followSymlinks v) False),
           fd_compressionLevel = storedNumber (uk_number (fd_compressionLevel v)) (fd_compressionLevel fallback),
           fd_volumeSize = storedPositiveNumber (uk_number (fd_volumeSize v)) (fd_volumeSize fallback),
           fd_tzapRecoveryPercentage =
             (if tzap
              then storedTzapRecoveryPercentage (uk_number (fd_tzapRecoveryPercentage v)) (fd_tzapRecoveryPercentage fallback)
              else None),
           fd_tzapVolumeLossTolerance =
             (if tzap
              then Some (storedTzapVolumeLossToleranceForSplit (uk_number (fd_volumeSize v))
                     (uk_number (fd_tzapVolumeLossTolerance v)) (nullish (fd_tzapVolumeLossTolerance fallback) (Fin 0)))
              else None),
           fd_tzapSigningDefault =
             (if tzap
              then Some (signing_mode_of (uk_string (map_option (enum_name TZAP_SIGNING_DEFAULTS) (fd_tzapSigningDefault v)))
                     identity fallback)
              else None),
           fd_tzapDefaultSigningIdentityId =
             (if tzap then storedOptionalString identity (fd_tzapDefaultSigningIdentityId fallback) else None),
           fd_tzapBootstrapSidecar = None,
           fd_zipCompression =
             (if format = CfZip then Some (if fd_zipCompression v = Some ZipStore then ZipStore else ZipDeflate) else None),
           fd_sevenZSolid = (if sevenZ then Some (nullish (fd_sevenZSolid v) (nullish (fd_sevenZSolid fallback) True)) else None),
           fd_sevenZThreads =
             (if sevenZ then storedPositiveNumber (uk_number (fd_sevenZThreads v)) (fd_sevenZThreads fallback) else None),
           fd_sevenZChunkSize =
             (if sevenZ then storedPositiveNumber (uk_number (fd_sevenZChunkSize v)) (fd_sevenZChunkSize fallback) else None),
           fd_sevenZEncryptFileNames =
             (if sevenZ
              then Some (nullish (fd_sevenZEncryptFileNames v) (nullish (fd_sevenZEncryptFileNames fallback) True))
              else None),
           fd_preserveMetadata = fd_preserveMetadata v,
           fd_replaceExisting = fd_replaceExisting v,
           fd_promptForPassword = (createFormatSupportsPassword format \<and> fd_promptForPassword v) \<rparr>)"

definition normalizeCreateFormatDefaults :: "format_defaults_map \<Rightarrow> format_defaults_map" where
  "normalizeCreateFormatDefaults defaults = (\<lambda>format. normalize_format_defaults format (defaults format))"

definition preferencesWithPatch ::
    "tzap_environment option \<Rightarrow> app_preferences \<Rightarrow> preference_patch \<Rightarrow> app_preferences" where
  "preferencesWithPatch fixed p patch =
     \<lparr> ap_locale = patched (pp_locale patch) (ap_locale p),
       ap_defaultArchiveFormat = patched (pp_defaultArchiveFormat patch) (ap_defaultArchiveFormat p),
       ap_defaultCleanSourceEnabled = patched (pp_defaultCleanSourceEnabled patch) (ap_defaultCleanSourceEnabled p),
       ap_createFormatDefaults =
         normalizeCreateFormatDefaults (patched (pp_createFormatDefaults patch) (ap_createFormatDefaults p)),
       ap_volumeSizePresets =
         presets_or_default (normalizeVolumeSizePresets (map UkNumber
           (patched (pp_volumeSizePresets patch) (map Fin (ap_volumeSizePresets p))))),
       ap_defaultOutputLocation = patched (pp_defaultOutputLocation patch) (ap_defaultOutputLocation p),
       ap_customOutputFolderPath =
         patched (map_option js_trim (pp_customOutputFolderPath patch)) (ap_customOutputFolderPath p),
       ap_customExtractFolderPath =
         patched (map_option js_trim (pp_customExtractFolderPath patch)) (ap_customExtractFolderPath p),
       ap_defaultExtractionBehavior = patched (pp_defaultExtractionBehavior patch) (ap_defaultExtractionBehavior p),
       ap_defaultExtractPathMode = patched (pp_defaultExtractPathMode patch) (ap_defaultExtractPathMode p),
       ap_defaultExtractOverwrite = patched (pp_defaultExtractOverwrite patch) (ap_defaultExtractOverwrite p),
       ap_defaultExtractStripComponents =
         patched (pp_defaultExtractStripComponents patch) (ap_defaultExtractStripComponents p),
       ap_defaultExtractDeduplicateRoot =
         patched (pp_defaultExtractDeduplicateRoot patch) (ap_defaultExtractDeduplicateRoot p),
       ap_defaultTzapRestorePolicy = patched (pp_defaultTzapRestorePolicy patch) (ap_defaultTzapRestorePolicy p),
       ap_defaultTzapAllowDegraded = patched (pp_defaultTzapAllowDegraded patch) (ap_defaultTzapAllowDegraded p),
       ap_defaultTzapAllowAbsoluteSymlinks =
         patched (pp_defaultTzapAllowAbsoluteSymlinks patch) (ap_defaultTzapAllowAbsoluteSymlinks p),
       ap_defaultExtractIgnoreSymlinks =
         patched (pp_defaultExtractIgnoreSymlinks patch) (ap_defaultExtractIgnoreSymlinks p),
       ap_previewCleanupPolicy = patched (pp_previewCleanupPolicy patch) (ap_previewCleanupPolicy p),
       ap_showParentFolderItem = patched (pp_showParentFolderItem patch) (ap_showParentFolderItem p),
       ap_showRealFileIcons = patched (pp_showRealFileIcons patch) (ap_showRealFileIcons p),
       ap_showGridLines = patched (pp_showGridLines patch) (ap_showGridLines p),
       ap_fullRowSelect = patched (pp_fullRowSelect patch) (ap_fullRowSelect p),
       ap_singleClickOpen = patched (pp_singleClickOpen patch) (ap_singleClickOpen p),
       ap_alternativeSelectionMode = patched (pp_alternativeSelectionMode patch) (ap_alternativeSelectionMode p),
       ap_showToolbarLabels = patched (pp_showToolbarLabels patch) (ap_showToolbarLabels p),
       ap_flatViewDefault = patched (pp_flatViewDefault patch) (ap_flatViewDefault p),
       ap_tableSortKey = patched (pp_tableSortKey patch) (ap_tableSortKey p),
       ap_tableSortAscending = patched (pp_tableSortAscending patch) (ap_tableSortAscending p),
       ap_tzapEnvironment = resolveTzapEnvironment fixed (map_option (enum_name TZAP_ENVIRONMENTS) (pp_tzapEnvironment patch)),
       ap_lanShareAlias = patched (pp_lanShareAlias patch) (ap_lanShareAlias p),
       ap_lanShareEnableReceiving = patched (pp_lanShareEnableReceiving patch) (ap_lanShareEnableReceiving p),
       ap_lanShareReceiveFolderPath =
         patched (map_option js_trim (pp_lanShareReceiveFolderPath patch)) (ap_lanShareReceiveFolderPath p),
       ap_lanShareAutoExtract = patched (pp_lanShareAutoExtract patch) (ap_lanShareAutoExtract p) \<rparr>"

section \<open>Reading\<close>

definition createDefaultsForFormat :: "app_preferences \<Rightarrow> create_format \<Rightarrow> format_create_defaults" where
  "createDefaultsForFormat p format = ap_createFormatDefaults p format"

definition resolveTzapSigningIdentityId :: "format_create_defaults \<Rightarrow> string option \<Rightarrow> string list \<Rightarrow> string" where
  "resolveTzapSigningIdentityId defaults accountDefaultIdentityId activeIdentityIds =
     (let candidate =
            (if fd_tzapSigningDefault defaults = Some TsIdentity then nullish (fd_tzapDefaultSigningIdentityId defaults) []
             else if fd_tzapSigningDefault defaults = Some TsNone then []
             else nullish accountDefaultIdentityId [])
      in if candidate \<noteq> [] \<and> candidate \<in> set activeIdentityIds then candidate else [])"

definition defaultCreateDirectory :: "app_preferences \<Rightarrow> string option" where
  "defaultCreateDirectory p =
     (if ap_defaultOutputLocation p \<noteq> CustomFolder then None else some_nonempty (js_trim (ap_customOutputFolderPath p)))"

end
