(* ===== verification/PreferencesProps.thy ===== *)
theory PreferencesProps
  imports Preferences CreateProps
begin

text \<open>
  What the preferences guarantee: what has been saved is loaded again, whatever the storage holds gives preferences
  that are in order, and so does a change.
\<close>

section \<open>Preferences in order\<close>

definition whole_number :: "jsnum \<Rightarrow> bool" where
  "whole_number x \<longleftrightarrow> (case x of Fin q \<Rightarrow> of_int \<lfloor>q\<rfloor> = q \<and> 0 \<le> q | _ \<Rightarrow> False)"

definition positive_whole :: "jsnum \<Rightarrow> bool" where
  "positive_whole x \<longleftrightarrow> (case x of Fin q \<Rightarrow> of_int \<lfloor>q\<rfloor> = q \<and> 0 < q | _ \<Rightarrow> False)"

definition fin_between :: "rat \<Rightarrow> rat \<Rightarrow> jsnum \<Rightarrow> bool" where
  "fin_between lo hi x \<longleftrightarrow> (case x of Fin q \<Rightarrow> whole_between lo hi q | _ \<Rightarrow> False)"

definition trimmed_name :: "string \<Rightarrow> bool" where
  "trimmed_name s \<longleftrightarrow> s \<noteq> [] \<and> js_trim s = s"

definition tzap_defaults_ok :: "format_create_defaults \<Rightarrow> bool" where
  "tzap_defaults_ok d \<longleftrightarrow>
     (\<exists>r t m. fd_tzapRecoveryPercentage d = Some r \<and> fin_between 0 100 r
        \<and> fd_tzapVolumeLossTolerance d = Some t \<and> fin_between 0 16 t \<and> (fd_volumeSize d = None \<longrightarrow> t = Fin 0)
        \<and> fd_tzapSigningDefault d = Some m \<and> (m = TsIdentity \<longrightarrow> fd_tzapDefaultSigningIdentityId d \<noteq> None))
     \<and> option_all trimmed_name (fd_tzapDefaultSigningIdentityId d)"

definition no_tzap_defaults :: "format_create_defaults \<Rightarrow> bool" where
  "no_tzap_defaults d \<longleftrightarrow>
     fd_tzapRecoveryPercentage d = None \<and> fd_tzapVolumeLossTolerance d = None \<and> fd_tzapSigningDefault d = None
     \<and> fd_tzapDefaultSigningIdentityId d = None \<and> fd_tzapBootstrapSidecar d = None"

definition sevenZ_defaults_ok :: "format_create_defaults \<Rightarrow> bool" where
  "sevenZ_defaults_ok d \<longleftrightarrow>
     fd_sevenZSolid d \<noteq> None \<and> fd_sevenZEncryptFileNames d \<noteq> None \<and> option_all positive_whole (fd_sevenZThreads d)
     \<and> option_all positive_whole (fd_sevenZChunkSize d)"

definition no_sevenZ_defaults :: "format_create_defaults \<Rightarrow> bool" where
  "no_sevenZ_defaults d \<longleftrightarrow>
     fd_sevenZSolid d = None \<and> fd_sevenZThreads d = None \<and> fd_sevenZChunkSize d = None \<and> fd_sevenZEncryptFileNames d = None"

text \<open>The defaults of a format hold what the format has, in its bounds, and nothing else.\<close>

definition format_defaults_ok :: "create_format \<Rightarrow> format_create_defaults \<Rightarrow> bool" where
  "format_defaults_ok format d \<longleftrightarrow>
     fd_respectGitignore d \<noteq> None \<and> fd_followSymlinks d \<noteq> None
     \<and> option_all whole_number (fd_compressionLevel d) \<and> option_all positive_whole (fd_volumeSize d)
     \<and> (if format = CfTzap then tzap_defaults_ok d else no_tzap_defaults d)
     \<and> (if format = CfSevenZ then sevenZ_defaults_ok d else no_sevenZ_defaults d)
     \<and> (fd_zipCompression d \<noteq> None \<longleftrightarrow> format = CfZip)
     \<and> (fd_promptForPassword d \<longrightarrow> createFormatSupportsPassword format)"

definition presets_ok :: "rat list \<Rightarrow> bool" where
  "presets_ok sizes \<longleftrightarrow> sizes \<noteq> [] \<and> distinct sizes \<and> (\<forall>q \<in> set sizes. isSafeInteger (Fin q) \<and> 0 < q)"

definition preferences_ok :: "tzap_environment option \<Rightarrow> app_preferences \<Rightarrow> bool" where
  "preferences_ok fixed p \<longleftrightarrow>
     (\<forall>format. format_defaults_ok format (ap_createFormatDefaults p format))
     \<and> presets_ok (ap_volumeSizePresets p)
     \<and> js_trim (ap_customOutputFolderPath p) = ap_customOutputFolderPath p
     \<and> js_trim (ap_customExtractFolderPath p) = ap_customExtractFolderPath p
     \<and> js_trim (ap_lanShareReceiveFolderPath p) = ap_lanShareReceiveFolderPath p
     \<and> whole_number (ap_defaultExtractStripComponents p)
     \<and> ap_tableSortKey p \<noteq> AcMode
     \<and> (fixed \<noteq> None \<longrightarrow> fixed = Some (ap_tzapEnvironment p))"

section \<open>Stored values\<close>

lemma some_nonempty_trimmed: "option_all trimmed_name (some_nonempty (js_trim s))"
  by (simp add: some_nonempty_def trimmed_name_def)

lemma optional_string_ok: "option_all trimmed_name fallback \<Longrightarrow> option_all trimmed_name (storedOptionalString v fallback)"
  by (cases v) (simp_all add: storedOptionalString_def some_nonempty_trimmed)

lemma stored_number_ok: "option_all whole_number fallback \<Longrightarrow> option_all whole_number (storedNumber v fallback)"
  by (induction v fallback rule: storedNumber.induct) (simp_all add: whole_number_def)

lemma stored_positive_ok: "option_all whole_number fallback \<Longrightarrow> option_all positive_whole (storedPositiveNumber v fallback)"
  using stored_number_ok [of fallback v]
  by (auto simp: storedPositiveNumber_def whole_number_def positive_whole_def split: option.split jsnum.split)

lemma floor_between: "a \<le> b \<Longrightarrow> whole_between (of_int a) (of_int b) (min (of_int b) (max (of_int a) (of_int \<lfloor>x :: rat\<rfloor>)))"
  by (auto simp: whole_between_def min_def max_def)

lemma clamped_ok: "clamp_floor (of_int a) (of_int b) (Some (Fin x)) = Some r \<Longrightarrow> a \<le> b \<Longrightarrow> whole_between (of_int a) (of_int b) r"
  using floor_between by (auto simp: clamp_floor_def)

lemma recovery_ok:
  assumes "option_all (fin_between 0 100) fallback" and "fallback \<noteq> None"
  shows "\<exists>r. storedTzapRecoveryPercentage v fallback = Some r \<and> fin_between 0 100 r"
  using assms clamped_ok [of 0 100]
  by (cases fallback) (auto simp: storedTzapRecoveryPercentage_def normalizeTzapRecoveryPercentage_def fin_between_def
      split: unknown.split jsnum.split option.split)

lemma tolerance_ok: "fin_between 0 16 fallback \<Longrightarrow> fin_between 0 16 (storedTzapVolumeLossToleranceForSplit vol v fallback)"
  using clamped_ok [of 0 16]
  by (auto simp: storedTzapVolumeLossToleranceForSplit_def storedTzapVolumeLossTolerance_def
      normalizeTzapVolumeLossTolerance_def fin_between_def whole_between_def
      split: unknown.split jsnum.split option.split)

lemma tolerance_without_split:
  "storedPositiveNumber vol None = None \<Longrightarrow> storedTzapVolumeLossToleranceForSplit vol v fallback = Fin 0"
  by (simp add: storedTzapVolumeLossToleranceForSplit_def)

lemma signing_mode_ok:
  "signing_mode_of mode identity fallback = TsIdentity
     \<Longrightarrow> storedOptionalString identity (fd_tzapDefaultSigningIdentityId fallback) \<noteq> None"
  by (cases "storedOptionalString identity (fd_tzapDefaultSigningIdentityId fallback)")
    (auto simp: signing_mode_of_def Let_def split: if_splits)

text \<open>What the built-in defaults are.\<close>

lemma default_fields [simp]:
  "fd_volumeSize (default_createFormatDefaults format) = None"
  "fd_compressionLevel (default_createFormatDefaults format) = None"
  "fd_sevenZThreads (default_createFormatDefaults format) = None"
  "fd_tzapDefaultSigningIdentityId (default_createFormatDefaults format) = None"
  "fd_tzapRecoveryPercentage (default_createFormatDefaults CfTzap) = Some (Fin 5)"
  "fd_tzapVolumeLossTolerance (default_createFormatDefaults CfTzap) = Some (Fin 0)"
  "fd_tzapBootstrapSidecar (default_createFormatDefaults CfTzap) = Some False"
  "fd_sevenZChunkSize (default_createFormatDefaults CfSevenZ) = Some (Fin 16777216)"
  by (cases format; simp add: plain_format_defaults_def TZAP_RECOVERY_PERCENTAGE_DEFAULT_def)+

declare default_createFormatDefaults.simps [simp del]

lemma default_bounds [simp]: "fin_between 0 100 (Fin 5)" "fin_between 0 16 (Fin 0)"
  by (simp_all add: fin_between_def whole_between_def)

lemma tzap_signing_mode_ok:
  "signing_mode_of mode identity (default_createFormatDefaults format) = TsIdentity \<Longrightarrow> \<exists>s. storedOptionalString identity None = Some s"
  using signing_mode_ok [of mode identity "default_createFormatDefaults format"] by simp

lemma loaded_format_ok: "format_defaults_ok format (load_format_defaults format (default_createFormatDefaults format) f)"
proof -
  let ?d = "load_format_defaults format (default_createFormatDefaults format) f"
  have "tzap_defaults_ok ?d" if "format = CfTzap"
    using that recovery_ok [of "Some (Fin 5)" "f ''tzapRecoveryPercentage''"]
    by (auto simp: tzap_defaults_ok_def load_format_defaults_def optional_string_ok tolerance_ok tolerance_without_split
        dest: tzap_signing_mode_ok)
  moreover have "sevenZ_defaults_ok ?d" if "format = CfSevenZ"
    using that by (simp add: sevenZ_defaults_ok_def load_format_defaults_def stored_positive_ok whole_number_def)
  ultimately show ?thesis
    by (simp add: format_defaults_ok_def no_tzap_defaults_def no_sevenZ_defaults_def load_format_defaults_def
        stored_number_ok stored_positive_ok)
qed

lemma normalized_format_ok: "format_defaults_ok format (normalize_format_defaults format d)"
proof -
  let ?d = "normalize_format_defaults format d"
  have "tzap_defaults_ok ?d" if "format = CfTzap"
    using that recovery_ok [of "Some (Fin 5)" "uk_number (fd_tzapRecoveryPercentage d)"]
    by (auto simp: tzap_defaults_ok_def normalize_format_defaults_def Let_def optional_string_ok tolerance_ok
        tolerance_without_split dest: tzap_signing_mode_ok)
  moreover have "sevenZ_defaults_ok ?d" if "format = CfSevenZ"
    using that by (simp add: sevenZ_defaults_ok_def normalize_format_defaults_def Let_def stored_positive_ok whole_number_def)
  ultimately show ?thesis
    by (simp add: format_defaults_ok_def no_tzap_defaults_def no_sevenZ_defaults_def normalize_format_defaults_def
        Let_def stored_number_ok stored_positive_ok)
qed

lemma default_format_ok: "format_defaults_ok format (default_createFormatDefaults format)"
  by (cases format)
    (simp_all add: format_defaults_ok_def tzap_defaults_ok_def no_tzap_defaults_def sevenZ_defaults_ok_def
      no_sevenZ_defaults_def default_createFormatDefaults.simps plain_format_defaults_def positive_whole_def
      TZAP_RECOVERY_PERCENTAGE_DEFAULT_def fin_between_def whole_between_def)

lemma loaded_formats_ok: "format_defaults_ok format (loadCreateFormatDefaults v format)"
  by (simp add: loadCreateFormatDefaults_def default_format_ok loaded_format_ok split: option.split json.split)

lemma default_presets_ok: "presets_ok DEFAULT_VOLUME_SIZE_PRESETS"
  unfolding presets_ok_def by code_simp

lemma normalized_presets_ok: "presets_ok (presets_or_default (normalizeVolumeSizePresets vs))"
proof (cases "normalizeVolumeSizePresets vs = []")
  case True
  then show ?thesis by (simp add: presets_or_default_def default_presets_ok)
next
  case False
  have "isSafeInteger (Fin q) \<and> 0 < q" if "q \<in> set (normalizeVolumeSizePresets vs)" for q
    using that
    by (auto simp: normalizeVolumeSizePresets_def List.map_filter_def preset_size_def split: unknown.splits jsnum.splits if_splits)
  with False show ?thesis
    by (simp add: presets_or_default_def presets_ok_def) (simp add: normalizeVolumeSizePresets_def)
qed

lemma loaded_presets_ok: "presets_ok (loadVolumeSizePresets v)"
  by (simp add: loadVolumeSizePresets_def default_presets_ok normalized_presets_ok split: option.split json.split)

lemma clean_path_trimmed: "js_trim (cleanPath v) = cleanPath v"
  by (cases v) (simp_all add: cleanPath_def)

lemma sort_key_loaded: "stored_enum TABLE_SORT_KEYS v AcName \<noteq> AcMode"
proof -
  have "AcName \<in> snd ` set TABLE_SORT_KEYS" and "AcMode \<notin> snd ` set TABLE_SORT_KEYS"
    by (code_simp)+
  with sort_names.stored_in_range [of AcName v] show ?thesis by metis
qed

lemma resolved_environment: "fixed \<noteq> None \<longrightarrow> fixed = Some (resolveTzapEnvironment fixed v)"
  by (cases fixed) (simp_all add: resolveTzapEnvironment_def)

lemma stored_strip_ok:
  "whole_number (nullish (storedNumber v (Some (Fin 0))) (Fin 0))"
  using stored_number_ok [of "Some (Fin 0)" v]
  by (cases "storedNumber v (Some (Fin 0))") (simp_all add: whole_number_def)

lemma default_sidecar: "fd_tzapBootstrapSidecar (default_createFormatDefaults format) \<noteq> None \<longleftrightarrow> format = CfTzap"
  by (cases format) (simp_all add: default_createFormatDefaults.simps plain_format_defaults_def)

lemma loaded_sidecar: "fd_tzapBootstrapSidecar (loadCreateFormatDefaults v format) \<noteq> None \<longleftrightarrow> format = CfTzap"
proof -
  have "fd_tzapBootstrapSidecar (load_format_defaults format d f) \<noteq> None \<longleftrightarrow> format = CfTzap" for d f
    by (simp add: load_format_defaults_def)
  then show ?thesis using default_sidecar by (simp add: loadCreateFormatDefaults_def split: option.split json.split)
qed

text \<open>C20: Whatever the storage holds, the preferences that are loaded are in order: the defaults of every format are
complete, with the option of the sidecar that a tzap archive has, within their bounds, and hold nothing of another format;
there is a size for volumes and every size is a positive safe integer that occurs once; the paths are trimmed; and the
environment is the one that the build fixes.\<close>

theorem loaded_preferences_ok:
  "preferences_ok fixed (loadAppPreferences fixed storage)
   \<and> (\<forall>format. fd_tzapBootstrapSidecar (ap_createFormatDefaults (loadAppPreferences fixed storage) format) \<noteq> None
        \<longleftrightarrow> format = CfTzap)"
proof
  show "\<forall>format. fd_tzapBootstrapSidecar (ap_createFormatDefaults (loadAppPreferences fixed storage) format) \<noteq> None
      \<longleftrightarrow> format = CfTzap"
    by (simp add: loadAppPreferences_def DEFAULT_APP_PREFERENCES_def loaded_sidecar default_sidecar Let_def
        split: option.split del: not_None_eq)
  show "preferences_ok fixed (loadAppPreferences fixed storage)"
  proof (cases storage)
    case None
    have "preferences_ok fixed (DEFAULT_APP_PREFERENCES fixed)"
      using resolved_environment [of fixed None]
      by (auto simp: preferences_ok_def DEFAULT_APP_PREFERENCES_def default_format_ok default_presets_ok whole_number_def)
    then show ?thesis by (simp add: loadAppPreferences_def None)
  next
    case (Some st)
    have "whole_number (ap_defaultExtractStripComponents (loadAppPreferences fixed storage))"
      using stored_strip_ok by (auto simp: loadAppPreferences_def Some DEFAULT_APP_PREFERENCES_def whole_number_def Let_def
          split: option.split)
    then show ?thesis
      using resolved_environment [of fixed "st (PREFERENCE_KEY ''tzapEnvironment'')"]
      by (auto simp: preferences_ok_def loadAppPreferences_def Some Let_def loaded_formats_ok loaded_presets_ok
          clean_path_trimmed sort_key_loaded DEFAULT_APP_PREFERENCES_def)
  qed
qed

lemma patched_trimmed: "js_trim old = old \<Longrightarrow> js_trim (patched (map_option js_trim new) old) = patched (map_option js_trim new) old"
  by (cases new) (simp_all add: patched_def)

section \<open>Values in order are kept\<close>

lemma kept_number: "option_all whole_number v \<Longrightarrow> storedNumber (uk_number v) fallback = v"
  by (cases v) (auto simp: uk_number_def whole_number_def split: jsnum.splits)

lemma positive_is_whole: "option_all positive_whole v \<Longrightarrow> option_all whole_number v"
  by (cases v) (auto simp: whole_number_def positive_whole_def split: jsnum.splits)

lemma kept_positive: "option_all positive_whole v \<Longrightarrow> storedPositiveNumber (uk_number v) fallback = v"
  using kept_number [OF positive_is_whole, of v fallback]
  by (cases v) (auto simp: storedPositiveNumber_def positive_whole_def split: jsnum.splits)

lemma clamped_same: "whole_between a b q \<Longrightarrow> clamp_floor a b (Some (Fin q)) = Some q"
  by (auto simp: clamp_floor_def whole_between_def min_def max_def)

lemma kept_recovery: "fin_between 0 100 r \<Longrightarrow> storedTzapRecoveryPercentage (UkNumber r) fallback = Some r"
  by (auto simp: storedTzapRecoveryPercentage_def normalizeTzapRecoveryPercentage_def fin_between_def clamped_same
      split: jsnum.splits)

lemma kept_tolerance:
  assumes "fin_between 0 16 t" and "storedPositiveNumber vol None = None \<longrightarrow> t = Fin 0"
  shows "storedTzapVolumeLossToleranceForSplit vol (UkNumber t) fallback = t"
  using assms
  by (auto simp: storedTzapVolumeLossToleranceForSplit_def storedTzapVolumeLossTolerance_def
      normalizeTzapVolumeLossTolerance_def fin_between_def clamped_same split: jsnum.splits)

lemma kept_string: "option_all trimmed_name v \<Longrightarrow> storedOptionalString (uk_string v) None = v"
  by (cases v) (simp_all add: storedOptionalString_def uk_string_def trimmed_name_def some_nonempty_def)

lemma signing_mode_named: "m \<in> snd ` set TZAP_SIGNING_DEFAULTS"
  by (cases m) (simp_all add: TZAP_SIGNING_DEFAULTS_def)

lemma kept_signing_mode:
  assumes "m = TsIdentity \<longrightarrow> identity \<noteq> None" and "option_all trimmed_name identity"
  shows "signing_mode_of (UkString (enum_name TZAP_SIGNING_DEFAULTS m)) (uk_string identity) (default_createFormatDefaults CfTzap) = m"
  using assms kept_string [OF assms(2)] signing_names.name_read_back [OF signing_mode_named [of m]]
  by (cases identity) (auto simp: signing_mode_of_def storedTzapSigningDefault_def trimmed_name_def Let_def)

lemma uk_simps [simp]: "uk_number (Some x) = UkNumber x" "uk_string (Some s) = UkString s"
  by (simp_all add: uk_number_def uk_string_def)

text \<open>Normalising defaults that are in order keeps them, except that it drops the option of the sidecar.\<close>

lemma kept_format:
  assumes ok: "format_defaults_ok format d"
  shows "normalize_format_defaults format d = d\<lparr> fd_tzapBootstrapSidecar := None \<rparr>"
proof -
  have plain: "storedNumber (uk_number (fd_compressionLevel d)) f = fd_compressionLevel d"
    "storedPositiveNumber (uk_number (fd_volumeSize d)) f = fd_volumeSize d"
    "Some (nullish (fd_respectGitignore d) False) = fd_respectGitignore d"
    "Some (nullish (fd_followSymlinks d) False) = fd_followSymlinks d"
    "(createFormatSupportsPassword format \<and> fd_promptForPassword d) = fd_promptForPassword d" for f
    using ok by (auto simp: format_defaults_ok_def kept_number kept_positive)
  have zip: "(if format = CfZip then Some (if fd_zipCompression d = Some ZipStore then ZipStore else ZipDeflate) else None)
      = fd_zipCompression d"
    using ok by (cases "fd_zipCompression d"; cases "the (fd_zipCompression d)") (auto simp: format_defaults_ok_def)
  consider "format = CfTzap" | "format = CfSevenZ" | "format \<noteq> CfTzap" "format \<noteq> CfSevenZ" by blast
  then show ?thesis
  proof cases
    case 1
    obtain r t m where tz: "fd_tzapRecoveryPercentage d = Some r" "fin_between 0 100 r"
      "fd_tzapVolumeLossTolerance d = Some t" "fin_between 0 16 t" "fd_volumeSize d = None \<longrightarrow> t = Fin 0"
      "fd_tzapSigningDefault d = Some m" "m = TsIdentity \<longrightarrow> fd_tzapDefaultSigningIdentityId d \<noteq> None"
      and identity: "option_all trimmed_name (fd_tzapDefaultSigningIdentityId d)"
      using ok 1 by (auto simp: format_defaults_ok_def tzap_defaults_ok_def)
    have "no_sevenZ_defaults d" using ok 1 by (simp add: format_defaults_ok_def)
    then show ?thesis
      using plain zip 1 tz kept_string [OF identity] kept_signing_mode [OF tz(7) identity]
      by (simp add: normalize_format_defaults_def Let_def kept_recovery kept_tolerance no_sevenZ_defaults_def)
  next
    case 2
    then have "sevenZ_defaults_ok d" and "no_tzap_defaults d" using ok by (simp_all add: format_defaults_ok_def)
    then show ?thesis
      using plain zip 2
      by (auto simp: normalize_format_defaults_def Let_def sevenZ_defaults_ok_def no_tzap_defaults_def kept_positive)
  next
    case 3
    then have "no_sevenZ_defaults d" and "no_tzap_defaults d" using ok by (simp_all add: format_defaults_ok_def)
    then show ?thesis
      using plain zip 3
      by (simp add: normalize_format_defaults_def Let_def no_sevenZ_defaults_def no_tzap_defaults_def)
  qed
qed

lemma kept_presets:
  assumes "presets_ok sizes"
  shows "presets_or_default (normalizeVolumeSizePresets (map UkNumber (map Fin sizes))) = sizes"
proof -
  have "\<forall>q \<in> set sizes. preset_size (UkNumber (Fin q)) = Some q"
    using assms by (simp add: presets_ok_def preset_size_def)
  then have "List.map_filter preset_size (map UkNumber (map Fin sizes)) = sizes"
    by (induction sizes) (simp_all add: List.map_filter_simps)
  then show ?thesis
    using assms by (simp add: normalizeVolumeSizePresets_def presets_or_default_def presets_ok_def js_set_distinct)
qed

text \<open>A change of preferences that are in order, as long as it sets a whole number of path components to strip and a sort key other than the mode, gives preferences that are in order.  The defaults of the formats and the sizes of volumes that it does not set stay as they were, except that the option of the bootstrap sidecar is lost.\<close>

theorem changed_preferences_ok:
  assumes "preferences_ok fixed p" and "option_all whole_number (pp_defaultExtractStripComponents patch)"
    and "pp_tableSortKey patch \<noteq> Some AcMode"
  shows "preferences_ok fixed (preferencesWithPatch fixed p patch)
    \<and> (pp_createFormatDefaults patch = None \<longrightarrow>
         ap_createFormatDefaults (preferencesWithPatch fixed p patch)
           = (\<lambda>format. (ap_createFormatDefaults p format)\<lparr> fd_tzapBootstrapSidecar := None \<rparr>))
    \<and> (pp_volumeSizePresets patch = None \<longrightarrow>
         ap_volumeSizePresets (preferencesWithPatch fixed p patch) = ap_volumeSizePresets p)"
proof (intro conjI impI)
  have "whole_number (patched (pp_defaultExtractStripComponents patch) (ap_defaultExtractStripComponents p))"
    using assms by (cases "pp_defaultExtractStripComponents patch") (simp_all add: patched_def preferences_ok_def)
  moreover have "patched (pp_tableSortKey patch) (ap_tableSortKey p) \<noteq> AcMode"
    using assms by (cases "pp_tableSortKey patch") (simp_all add: patched_def preferences_ok_def)
  ultimately show "preferences_ok fixed (preferencesWithPatch fixed p patch)"
    using assms(1) resolved_environment [of fixed]
    by (simp add: preferences_ok_def preferencesWithPatch_def normalizeCreateFormatDefaults_def normalized_format_ok
        normalized_presets_ok patched_trimmed)
qed (use assms(1) kept_presets in \<open>simp_all add: preferencesWithPatch_def preferences_ok_def patched_def
      normalizeCreateFormatDefaults_def kept_format\<close>)

section \<open>What has been saved\<close>

definition PREFERENCE_NAMES :: "string list" where
  "PREFERENCE_NAMES =
     [''defaultArchiveFormat'', ''locale'', ''defaultCleanSourceEnabled'', ''createFormatDefaults'', ''volumeSizePresets'',
      ''defaultOutputLocation'', ''defaultExtractionBehavior'', ''defaultExtractPathMode'', ''defaultExtractOverwrite'',
      ''defaultExtractStripComponents'', ''defaultExtractDeduplicateRoot'', ''defaultTzapRestorePolicy'',
      ''defaultTzapAllowDegraded'', ''defaultTzapAllowAbsoluteSymlinks'', ''defaultExtractIgnoreSymlinks'',
      ''previewCleanupPolicy'', ''showParentFolderItem'', ''showRealFileIcons'', ''showGridLines'', ''fullRowSelect'',
      ''singleClickOpen'', ''alternativeSelectionMode'', ''showToolbarLabels'', ''flatViewDefault'', ''tableSortKey'',
      ''tableSortAscending'', ''tzapEnvironment'', ''lanShareAlias'', ''lanShareEnableReceiving'',
      ''lanShareAutoExtract'', ''customOutputFolderPath'', ''customExtractFolderPath'', ''lanShareReceiveFolderPath'']"

lemma item_names: "map fst (preference_items other p) = PREFERENCE_NAMES"
  by (simp add: preference_items_def trimmed_item_def PREFERENCE_NAMES_def)

lemma names_differ: "distinct PREFERENCE_NAMES"
  by code_simp

lemma same_key [simp]: "PREFERENCE_KEY a = PREFERENCE_KEY b \<longleftrightarrow> a = b"
  by (simp add: PREFERENCE_KEY_def)

lemma set_item_simps [simp]:
  "set_item (name, v) st (PREFERENCE_KEY name) = v"
  "fst item \<noteq> name \<Longrightarrow> set_item item st (PREFERENCE_KEY name) = st (PREFERENCE_KEY name)"
  by (simp_all add: set_item_def)

lemma unwritten: "name \<notin> fst ` set items \<Longrightarrow> fold set_item items st (PREFERENCE_KEY name) = st (PREFERENCE_KEY name)"
  by (induction items arbitrary: st) auto

lemma written:
  "distinct (map fst items) \<Longrightarrow> (name, v) \<in> set items \<Longrightarrow> fold set_item items st (PREFERENCE_KEY name) = v"
proof (induction items arbitrary: st)
  case (Cons item items)
  then show ?case
    using unwritten [of name items] by (cases "item = (name, v)") auto
qed simp

definition saved :: "(rat \<Rightarrow> string) \<Rightarrow> app_preferences \<Rightarrow> preference_storage \<Rightarrow> preference_storage" where
  "saved other p st = fold set_item (preference_items other p) st"

lemma saved_storage: "saveAppPreferences other p (Some st) = Some (saved other p st)"
  by (simp add: saveAppPreferences_def saved_def)

lemma saved_item: "(name, v) \<in> set (preference_items other p) \<Longrightarrow> getItem (saved other p st) name = v"
  unfolding saved_def by (rule written) (simp_all add: item_names names_differ)

lemma saved_items [simp]:
  "getItem (saved other p st) ''defaultArchiveFormat'' = Some (format_name (ap_defaultArchiveFormat p))"
  "getItem (saved other p st) ''locale'' = Some (enum_name LOCALE_PREFERENCES (ap_locale p))"
  "getItem (saved other p st) ''defaultCleanSourceEnabled'' = Some (bool_text (ap_defaultCleanSourceEnabled p))"
  "getItem (saved other p st) ''createFormatDefaults''
     = Some (stringify_json (format_defaults_json other (ap_createFormatDefaults p)))"
  "getItem (saved other p st) ''volumeSizePresets''
     = Some (stringify_json (JsonArray (map (\<lambda>q. json_of_number other (Some (Fin q))) (ap_volumeSizePresets p))))"
  "getItem (saved other p st) ''defaultOutputLocation'' = Some (enum_name OUTPUT_LOCATIONS (ap_defaultOutputLocation p))"
  "getItem (saved other p st) ''defaultExtractionBehavior''
     = Some (enum_name EXTRACTION_BEHAVIORS (ap_defaultExtractionBehavior p))"
  "getItem (saved other p st) ''defaultExtractPathMode'' = Some (enum_name EXTRACT_PATH_MODES (ap_defaultExtractPathMode p))"
  "getItem (saved other p st) ''defaultExtractOverwrite''
     = Some (enum_name EXTRACT_OVERWRITE_POLICIES (ap_defaultExtractOverwrite p))"
  "getItem (saved other p st) ''defaultExtractStripComponents''
     = Some (number_text other (ap_defaultExtractStripComponents p))"
  "getItem (saved other p st) ''defaultExtractDeduplicateRoot'' = Some (bool_text (ap_defaultExtractDeduplicateRoot p))"
  "getItem (saved other p st) ''defaultTzapRestorePolicy''
     = Some (enum_name TZAP_RESTORE_POLICIES (ap_defaultTzapRestorePolicy p))"
  "getItem (saved other p st) ''defaultTzapAllowDegraded'' = Some (bool_text (ap_defaultTzapAllowDegraded p))"
  "getItem (saved other p st) ''defaultTzapAllowAbsoluteSymlinks''
     = Some (bool_text (ap_defaultTzapAllowAbsoluteSymlinks p))"
  "getItem (saved other p st) ''defaultExtractIgnoreSymlinks'' = Some (bool_text (ap_defaultExtractIgnoreSymlinks p))"
  "getItem (saved other p st) ''previewCleanupPolicy''
     = Some (enum_name PREVIEW_CLEANUP_POLICIES (ap_previewCleanupPolicy p))"
  "getItem (saved other p st) ''showParentFolderItem'' = Some (bool_text (ap_showParentFolderItem p))"
  "getItem (saved other p st) ''showRealFileIcons'' = Some (bool_text (ap_showRealFileIcons p))"
  "getItem (saved other p st) ''showGridLines'' = Some (bool_text (ap_showGridLines p))"
  "getItem (saved other p st) ''fullRowSelect'' = Some (bool_text (ap_fullRowSelect p))"
  "getItem (saved other p st) ''singleClickOpen'' = Some (bool_text (ap_singleClickOpen p))"
  "getItem (saved other p st) ''alternativeSelectionMode'' = Some (bool_text (ap_alternativeSelectionMode p))"
  "getItem (saved other p st) ''showToolbarLabels'' = Some (bool_text (ap_showToolbarLabels p))"
  "getItem (saved other p st) ''flatViewDefault'' = Some (bool_text (ap_flatViewDefault p))"
  "getItem (saved other p st) ''tableSortKey'' = Some (sort_key_name (ap_tableSortKey p))"
  "getItem (saved other p st) ''tableSortAscending'' = Some (bool_text (ap_tableSortAscending p))"
  "getItem (saved other p st) ''tzapEnvironment'' = Some (enum_name TZAP_ENVIRONMENTS (ap_tzapEnvironment p))"
  "getItem (saved other p st) ''lanShareAlias'' = Some (ap_lanShareAlias p)"
  "getItem (saved other p st) ''lanShareEnableReceiving'' = Some (bool_text (ap_lanShareEnableReceiving p))"
  "getItem (saved other p st) ''lanShareAutoExtract'' = Some (bool_text (ap_lanShareAutoExtract p))"
  "getItem (saved other p st) ''customOutputFolderPath'' = some_nonempty (js_trim (ap_customOutputFolderPath p))"
  "getItem (saved other p st) ''customExtractFolderPath'' = some_nonempty (js_trim (ap_customExtractFolderPath p))"
  "getItem (saved other p st) ''lanShareReceiveFolderPath'' = some_nonempty (js_trim (ap_lanShareReceiveFolderPath p))"
  by (rule saved_item, simp add: preference_items_def trimmed_item_def)+

section \<open>Reading back\<close>

lemma bool_back [simp]: "storedBool (Some (bool_text b)) f = b"
  by (cases b) (simp_all add: storedBool_def bool_text_def)

lemma enums_back [simp]:
  "stored_enum LOCALE_PREFERENCES (Some (enum_name LOCALE_PREFERENCES a)) fa = a"
  "stored_enum ARCHIVE_FORMATS (Some (format_name b)) fb = b"
  "stored_enum OUTPUT_LOCATIONS (Some (enum_name OUTPUT_LOCATIONS c)) fc = c"
  "stored_enum EXTRACTION_BEHAVIORS (Some (enum_name EXTRACTION_BEHAVIORS d)) fd = d"
  "stored_enum EXTRACT_PATH_MODES (Some (enum_name EXTRACT_PATH_MODES e)) fe = e"
  "stored_enum EXTRACT_OVERWRITE_POLICIES (Some (enum_name EXTRACT_OVERWRITE_POLICIES f)) ff = f"
  "stored_enum TZAP_RESTORE_POLICIES (Some (enum_name TZAP_RESTORE_POLICIES g)) fg = g"
  "stored_enum PREVIEW_CLEANUP_POLICIES (Some (enum_name PREVIEW_CLEANUP_POLICIES h)) fh = h"
  unfolding format_name_def
  subgoal by (rule locale_names.name_read_back, cases a, simp_all add: LOCALE_PREFERENCES_def)
  subgoal by (rule format_names.name_read_back, cases b, simp_all add: ARCHIVE_FORMATS_def)
  subgoal by (rule output_names.name_read_back, cases c, simp_all add: OUTPUT_LOCATIONS_def)
  subgoal by (rule behavior_names.name_read_back, cases d, simp_all add: EXTRACTION_BEHAVIORS_def)
  subgoal by (rule path_mode_names.name_read_back, cases e, simp_all add: EXTRACT_PATH_MODES_def)
  subgoal by (rule overwrite_names.name_read_back, cases f, simp_all add: EXTRACT_OVERWRITE_POLICIES_def)
  subgoal by (rule restore_names.name_read_back, cases g, simp_all add: TZAP_RESTORE_POLICIES_def)
  subgoal by (rule cleanup_names.name_read_back, cases h, simp_all add: PREVIEW_CLEANUP_POLICIES_def)
  done

lemma sort_key_back [simp]: "k \<noteq> AcMode \<Longrightarrow> stored_enum TABLE_SORT_KEYS (Some (sort_key_name k)) f = k"
  by (cases k) (simp_all add: stored_enum_def isOneOf_def sort_key_name_def enum_name_def TABLE_SORT_KEYS_def)

lemma path_back [simp]: "js_trim path = path \<Longrightarrow> cleanPath (some_nonempty path) = path"
  by (simp add: cleanPath_def some_nonempty_def)

lemma environment_back: "fixed \<noteq> None \<longrightarrow> fixed = Some e \<Longrightarrow> resolveTzapEnvironment fixed (Some (enum_name TZAP_ENVIRONMENTS e)) = e"
  by (cases fixed; cases e)
    (auto simp: resolveTzapEnvironment_def parseTzapBuildEnvironment_def isOneOf_def enum_name_def TZAP_ENVIRONMENTS_def)

text \<open>Natural numbers as text.\<close>

lemma digit_not_space: "Json.is_digit c \<Longrightarrow> \<not> js_space c"
  by (auto simp: Json.is_digit_def js_space_def)

lemma natural_text_trimmed: "js_trim (nat_string n) = nat_string n"
  using decimal_digits [of n] hd_in_set [of "nat_string n"] last_in_set [of "nat_string n"]
  by (intro js_trim_fixed) (auto simp: list_all_iff digit_not_space)

lemma digit_lower: "Json.is_digit c \<Longrightarrow> js_lower_char c = c"
  by (auto simp: Json.is_digit_def js_lower_char_def Let_def)

lemma js_number_natural: "n < 2 ^ 1023 \<Longrightarrow> js_number (nat_string n) = Fin (of_nat n)"
proof -
  assume n: "n < 2 ^ 1023"
  obtain c ds where k: "nat_string n = c # ds" and c: "Json.is_digit c" and zero: "c = CHR 0x30 \<longrightarrow> ds = []"
    by (rule nat_string_Cons)
  have "js_lower (take 2 (nat_string n)) \<notin> {''0x'', ''0o'', ''0b''}"
  proof (cases "c = CHR 0x30")
    case True
    then show ?thesis using zero k by (simp add: js_lower_def)
  next
    case False
    then show ?thesis using digit_lower [OF c] k by (simp add: js_lower_def)
  qed
  then show ?thesis
    using json_number_natural [OF n] by (simp add: js_number_def natural_text_trimmed json_number_def)
qed

definition fits :: "jsnum \<Rightarrow> bool" where
  "fits x \<longleftrightarrow> (case x of Fin q \<Rightarrow> natural_number q | _ \<Rightarrow> False)"

lemma natural_as_nat: "natural_number q \<Longrightarrow> \<exists>n. q = of_nat n \<and> n < 2 ^ 1023"
proof -
  assume q: "natural_number q"
  define n where "n = nat \<lfloor>q\<rfloor>"
  have "q = of_nat n" using q by (auto simp: n_def natural_number_def)
  moreover have "(of_nat n :: rat) < of_nat (10 ^ 21)" using q calculation by (simp add: natural_number_def)
  then have "n < 10 ^ 21" by (simp only: of_nat_less_iff)
  then have "n < 2 ^ 1023" by (rule less_trans) simp
  ultimately show ?thesis by blast
qed

lemma fitting_text: "fits x \<Longrightarrow> \<exists>n. x = Fin (of_nat n) \<and> n < 2 ^ 1023 \<and> number_text other x = nat_string n"
  using natural_as_nat by (fastforce simp: fits_def number_text_def split: jsnum.splits)

lemma number_back: "fits x \<Longrightarrow> js_number (number_text other x) = x"
  using fitting_text [of x other] js_number_natural by auto

lemma json_number_back:
  "fits x \<Longrightarrow> unknown_of (Some (json_of_number other (Some x))) = UkNumber x"
  "fits x \<Longrightarrow> natural_json (json_of_number other (Some x))"
  using fitting_text [of x other] json_number_natural by (auto simp: json_of_number_def)

lemma json_optional_back:
  "option_all fits v \<Longrightarrow> unknown_of (Some (json_of_number other v)) = uk_number v"
  "option_all fits v \<Longrightarrow> natural_json (json_of_number other v)"
proof -
  assume "option_all fits v"
  then show "unknown_of (Some (json_of_number other v)) = uk_number v" and "natural_json (json_of_number other v)"
    by (cases v; simp add: json_number_back; simp add: json_of_number_def uk_number_def)+
qed

section \<open>The defaults of a format as an object\<close>

definition numbers_fit :: "format_create_defaults \<Rightarrow> bool" where
  "numbers_fit d \<longleftrightarrow>
     option_all fits (fd_compressionLevel d) \<and> option_all fits (fd_volumeSize d)
     \<and> option_all fits (fd_tzapRecoveryPercentage d) \<and> option_all fits (fd_tzapVolumeLossTolerance d)
     \<and> option_all fits (fd_sevenZThreads d) \<and> option_all fits (fd_sevenZChunkSize d)"

lemma member_simps [simp]:
  "rev (member name f v) = member name f v"
  "map_of (member name f v) k = (if k = name then map_option f v else None)"
  by (cases v; simp add: member_def)+

abbreviation read_member_of :: "(rat \<Rightarrow> string) \<Rightarrow> format_create_defaults \<Rightarrow> string \<Rightarrow> unknown" where
  "read_member_of other d \<equiv> json_field (Some (JsonObject (format_defaults_members other d)))"

lemma required_members:
  "read_member_of other d ''cleanSource'' = UkBool (fd_cleanSource d)"
  "read_member_of other d ''preserveMetadata'' = UkBool (fd_preserveMetadata d)"
  "read_member_of other d ''replaceExisting'' = UkBool (fd_replaceExisting d)"
  "read_member_of other d ''promptForPassword'' = UkBool (fd_promptForPassword d)"
  by (simp_all add: json_field_def format_defaults_members_def Let_def map_add_def)

lemma number_members:
  "read_member_of other d ''compressionLevel'' = unknown_of (Some (json_of_number other (fd_compressionLevel d)))"
  "read_member_of other d ''volumeSize'' = unknown_of (Some (json_of_number other (fd_volumeSize d)))"
  "read_member_of other d ''tzapRecoveryPercentage'' = unknown_of (Some (json_of_number other (fd_tzapRecoveryPercentage d)))"
  by (simp_all add: json_field_def format_defaults_members_def Let_def map_add_def)

lemma optional_members:
  "read_member_of other d ''respectGitignore'' = unknown_of (map_option JsonBool (fd_respectGitignore d))"
  "read_member_of other d ''followSymlinks'' = unknown_of (map_option JsonBool (fd_followSymlinks d))"
  "read_member_of other d ''zipCompression''
     = unknown_of (map_option (\<lambda>z. JsonString (zip_compression_name z)) (fd_zipCompression d))"
  "read_member_of other d ''tzapVolumeLossTolerance''
     = unknown_of (map_option (\<lambda>x. json_of_number other (Some x)) (fd_tzapVolumeLossTolerance d))"
  "read_member_of other d ''tzapSigningDefault''
     = unknown_of (map_option (\<lambda>m. JsonString (enum_name TZAP_SIGNING_DEFAULTS m)) (fd_tzapSigningDefault d))"
  "read_member_of other d ''tzapDefaultSigningIdentityId'' = uk_string (fd_tzapDefaultSigningIdentityId d)"
  "read_member_of other d ''tzapBootstrapSidecar'' = unknown_of (map_option JsonBool (fd_tzapBootstrapSidecar d))"
  "read_member_of other d ''sevenZSolid'' = unknown_of (map_option JsonBool (fd_sevenZSolid d))"
  "read_member_of other d ''sevenZThreads''
     = unknown_of (map_option (\<lambda>x. json_of_number other (Some x)) (fd_sevenZThreads d))"
  "read_member_of other d ''sevenZChunkSize''
     = unknown_of (map_option (\<lambda>x. json_of_number other (Some x)) (fd_sevenZChunkSize d))"
  "read_member_of other d ''sevenZEncryptFileNames'' = unknown_of (map_option JsonBool (fd_sevenZEncryptFileNames d))"
  by (simp_all add: json_field_def format_defaults_members_def Let_def map_add_def uk_string_def split: option.split)

definition restored :: "create_format \<Rightarrow> format_create_defaults \<Rightarrow> format_create_defaults" where
  "restored format d =
     (if format = CfTzap then d\<lparr> fd_tzapBootstrapSidecar := Some (nullish (fd_tzapBootstrapSidecar d) False) \<rparr> else d)"

lemma optional_number_back:
  "option_all fits v \<Longrightarrow> option_all positive_whole v
     \<Longrightarrow> storedPositiveNumber (unknown_of (map_option (\<lambda>x. json_of_number other (Some x)) v)) f = v"
  using kept_positive [of v f] by (cases v) (simp_all add: json_number_back storedPositiveNumber_def)

lemma optional_bool_back:
  "v \<noteq> None \<Longrightarrow> Some (storedObjectBool (unknown_of (map_option JsonBool v)) f) = v"
  "storedObjectBool (unknown_of (map_option JsonBool v)) f = nullish v f"
  by (cases v; simp add: storedObjectBool_def)+

lemma format_back:
  assumes ok: "format_defaults_ok format d" and fit: "numbers_fit d"
  shows "load_format_defaults format (default_createFormatDefaults format) (read_member_of other d) = restored format d"
proof -
  note members = required_members number_members optional_members
  have plain: "storedNumber (unknown_of (Some (json_of_number other (fd_compressionLevel d)))) f = fd_compressionLevel d"
    "storedPositiveNumber (unknown_of (Some (json_of_number other (fd_volumeSize d)))) f = fd_volumeSize d"
    "Some (storedObjectBool (unknown_of (map_option JsonBool (fd_respectGitignore d))) b) = fd_respectGitignore d"
    "Some (storedObjectBool (unknown_of (map_option JsonBool (fd_followSymlinks d))) b) = fd_followSymlinks d"
    "storedObjectBool (UkBool c) b = c"
    "(createFormatSupportsPassword format \<and> fd_promptForPassword d) = fd_promptForPassword d" for f b c
    using ok fit by (auto simp: format_defaults_ok_def numbers_fit_def json_optional_back kept_number kept_positive
        optional_bool_back(1) storedObjectBool_def)
  have zip: "(if format = CfZip
      then Some (if read_member_of other d ''zipCompression'' = UkString ''store'' then ZipStore else ZipDeflate) else None)
      = fd_zipCompression d"
    using ok by (cases "fd_zipCompression d"; cases "the (fd_zipCompression d)")
      (auto simp: format_defaults_ok_def zip_compression_name_def optional_members)
  consider "format = CfTzap" | "format = CfSevenZ" | "format \<noteq> CfTzap" "format \<noteq> CfSevenZ" by blast
  then show ?thesis
  proof cases
    case 1
    obtain r t m where tz: "fd_tzapRecoveryPercentage d = Some r" "fin_between 0 100 r"
      "fd_tzapVolumeLossTolerance d = Some t" "fin_between 0 16 t" "fd_volumeSize d = None \<longrightarrow> t = Fin 0"
      "fd_tzapSigningDefault d = Some m" "m = TsIdentity \<longrightarrow> fd_tzapDefaultSigningIdentityId d \<noteq> None"
      and identity: "option_all trimmed_name (fd_tzapDefaultSigningIdentityId d)"
      using ok 1 by (auto simp: format_defaults_ok_def tzap_defaults_ok_def)
    have "fits r" and "fits t" using fit tz by (simp_all add: numbers_fit_def)
    moreover have "no_sevenZ_defaults d" using ok 1 by (simp add: format_defaults_ok_def)
    ultimately show ?thesis
      using plain zip 1 tz kept_string [OF identity] kept_signing_mode [OF tz(7) identity]
      by (simp add: load_format_defaults_def members restored_def kept_recovery kept_tolerance json_number_back
          no_sevenZ_defaults_def optional_bool_back(2) split: option.split)
  next
    case 2
    then have "sevenZ_defaults_ok d" and "no_tzap_defaults d" using ok by (simp_all add: format_defaults_ok_def)
    then show ?thesis
      using plain zip 2 fit
      by (intro format_create_defaults.equality)
        (simp_all add: load_format_defaults_def members restored_def sevenZ_defaults_ok_def no_tzap_defaults_def
          optional_number_back optional_bool_back(1) numbers_fit_def)
  next
    case 3
    then have "no_sevenZ_defaults d" and "no_tzap_defaults d" using ok by (simp_all add: format_defaults_ok_def)
    then show ?thesis
      using plain zip 3
      by (intro format_create_defaults.equality)
        (simp_all add: load_format_defaults_def members restored_def no_sevenZ_defaults_def no_tzap_defaults_def
          split del: if_split)
  qed
qed

lemma natural_member:
  "option_all (\<lambda>x. natural_json (f x)) v \<Longrightarrow> list_all (\<lambda>(k, x). natural_json x) (member name f v)"
  by (cases v) (simp_all add: member_def)

lemma natural_numbers: "option_all fits v \<Longrightarrow> option_all (\<lambda>x. natural_json (json_of_number other (Some x))) v"
  by (cases v) (simp_all add: json_number_back)

lemma natural_others [simp]:
  "option_all (\<lambda>x. True) v"
  by (cases v) simp_all

lemma members_natural: "numbers_fit d \<Longrightarrow> natural_json (JsonObject (format_defaults_members other d))"
  by (simp add: numbers_fit_def format_defaults_members_def Let_def json_optional_back natural_numbers natural_member)

lemma formats_back:
  assumes "\<And>format. format_defaults_ok format (defaults format)" and "\<And>format. numbers_fit (defaults format)"
  shows "loadCreateFormatDefaults (Some (stringify_json (format_defaults_json other defaults)))
    = (\<lambda>format. restored format (defaults format))"
proof -
  let ?members = "map (\<lambda>(name, format). (name, JsonObject (format_defaults_members other (defaults format)))) ARCHIVE_FORMATS"
  have "natural_json (JsonObject (format_defaults_members other (defaults format)))" for format
    using assms(2) by (rule members_natural)
  then have "natural_json (format_defaults_json other defaults)"
    by (simp add: format_defaults_json_def list_all_iff case_prod_unfold del: natural_json.simps)
      (simp add: list_all_iff case_prod_unfold)
  from json_parse_stringified [OF this]
  have parsed: "json_parse (stringify_json (format_defaults_json other defaults)) = Some (JsonObject ?members)"
    by (simp add: format_defaults_json_def)
  have "map_of (rev ?members) (format_name format) = Some (JsonObject (format_defaults_members other (defaults format)))" for format
    by (cases format) (simp_all add: ARCHIVE_FORMATS_def format_name_def enum_name_def)
  moreover have "stringify_json (format_defaults_json other defaults) \<noteq> []" by (simp add: format_defaults_json_def)
  ultimately show ?thesis
    using assms by (simp add: loadCreateFormatDefaults_def parsed format_back)
qed

lemma presets_back:
  assumes "presets_ok sizes"
  shows "loadVolumeSizePresets (Some (stringify_json (JsonArray (map (\<lambda>q. json_of_number other (Some (Fin q))) sizes)))) = sizes"
proof -
  let ?vs = "map (\<lambda>q. json_of_number other (Some (Fin q))) sizes"
  have fit: "\<forall>q \<in> set sizes. fits (Fin q)"
    using assms by (auto simp: presets_ok_def fits_def natural_number_def isSafeInteger_def)
  then have "natural_json (JsonArray ?vs)"
    by (simp add: list_all_iff json_number_back)
  from json_parse_stringified [OF this] have "json_parse (stringify_json (JsonArray ?vs)) = Some (JsonArray ?vs)" .
  moreover have "map (\<lambda>x. unknown_of (Some x)) ?vs = map UkNumber (map Fin sizes)"
    using fit by (simp add: json_number_back)
  moreover have "stringify_json (JsonArray ?vs) \<noteq> []" by simp
  ultimately show ?thesis
    using kept_presets [OF assms] by (simp only: loadVolumeSizePresets_def truthy_simps option.case json.case option.sel if_False simp_thms)
qed

definition preferences_fit :: "app_preferences \<Rightarrow> bool" where
  "preferences_fit p \<longleftrightarrow>
     (\<forall>format. numbers_fit (ap_createFormatDefaults p format)) \<and> fits (ap_defaultExtractStripComponents p)"

text \<open>C19: Preferences that are in order and whose numbers are below \<open>10 ^ 21\<close> are loaded as they were saved, whatever the storage held before; only an unset option of the bootstrap sidecar becomes an explicit no.\<close>

theorem saved_preferences_are_loaded:
  assumes "preferences_ok fixed p" and "preferences_fit p"
  shows "loadAppPreferences fixed (saveAppPreferences other p (Some st))
    = p\<lparr> ap_createFormatDefaults := (\<lambda>format. restored format (ap_createFormatDefaults p format)) \<rparr>"
proof -
  have ok: "\<And>format. format_defaults_ok format (ap_createFormatDefaults p format)" "presets_ok (ap_volumeSizePresets p)"
    "js_trim (ap_customOutputFolderPath p) = ap_customOutputFolderPath p"
    "js_trim (ap_customExtractFolderPath p) = ap_customExtractFolderPath p"
    "js_trim (ap_lanShareReceiveFolderPath p) = ap_lanShareReceiveFolderPath p"
    "whole_number (ap_defaultExtractStripComponents p)" "ap_tableSortKey p \<noteq> AcMode"
    "fixed \<noteq> None \<longrightarrow> fixed = Some (ap_tzapEnvironment p)"
    using assms(1) by (simp_all add: preferences_ok_def)
  have fit: "\<And>format. numbers_fit (ap_createFormatDefaults p format)" "fits (ap_defaultExtractStripComponents p)"
    using assms(2) by (simp_all add: preferences_fit_def)
  have strip: "nullish (storedNumber (UkNumber (ap_defaultExtractStripComponents p)) f) (Fin 0) = ap_defaultExtractStripComponents p" for f
    using kept_number [of "Some (ap_defaultExtractStripComponents p)" f] ok(6) by simp
  show ?thesis
    by (rule app_preferences.equality)
      (simp_all add: loadAppPreferences_def saved_storage Let_def ok formats_back fit presets_back number_back strip
        environment_back del: stringify_json.simps)
qed

definition example_preferences :: app_preferences where
  "example_preferences =
     (DEFAULT_APP_PREFERENCES None)\<lparr> ap_defaultExtractStripComponents := Fin 2, ap_customOutputFolderPath := ''/out'',
       ap_volumeSizePresets := [1024, 4096], ap_tableSortKey := AcSize, ap_tzapEnvironment := EnvStaging,
       ap_lanShareAlias := ''desk'' \<rparr>"

lemma example_preferences_ok: "preferences_ok None example_preferences"
  by (simp add: preferences_ok_def example_preferences_def DEFAULT_APP_PREFERENCES_def default_format_ok presets_ok_def
      whole_number_def isSafeInteger_def) code_simp

lemma default_numbers_fit: "numbers_fit (default_createFormatDefaults format)"
  by (cases format) (simp_all add: numbers_fit_def default_createFormatDefaults.simps plain_format_defaults_def fits_def
      natural_number_def TZAP_RECOVERY_PERCENTAGE_DEFAULT_def)

lemma example_preferences_fit: "preferences_fit example_preferences"
  by (simp add: preferences_fit_def example_preferences_def DEFAULT_APP_PREFERENCES_def default_numbers_fit fits_def
      natural_number_def)

theorem saved_preferences_are_loaded_witness:
  "ap_lanShareAlias (loadAppPreferences None (saveAppPreferences (\<lambda>q. []) example_preferences (Some Map.empty))) = ''desk''
   \<and> ap_volumeSizePresets (loadAppPreferences None (saveAppPreferences (\<lambda>q. []) example_preferences (Some Map.empty))) = [1024, 4096]
   \<and> ap_tzapEnvironment (loadAppPreferences None (saveAppPreferences (\<lambda>q. []) example_preferences (Some Map.empty))) = EnvStaging"
  unfolding saved_preferences_are_loaded [OF example_preferences_ok example_preferences_fit]
  by (simp add: example_preferences_def)

definition NO_PREFERENCE_CHANGES :: preference_patch where
  "NO_PREFERENCE_CHANGES =
     \<lparr> pp_locale = None, pp_defaultArchiveFormat = None, pp_defaultCleanSourceEnabled = None,
       pp_createFormatDefaults = None, pp_volumeSizePresets = None, pp_defaultOutputLocation = None,
       pp_customOutputFolderPath = None, pp_customExtractFolderPath = None, pp_defaultExtractionBehavior = None,
       pp_defaultExtractPathMode = None, pp_defaultExtractOverwrite = None, pp_defaultExtractStripComponents = None,
       pp_defaultExtractDeduplicateRoot = None, pp_defaultTzapRestorePolicy = None, pp_defaultTzapAllowDegraded = None,
       pp_defaultTzapAllowAbsoluteSymlinks = None, pp_defaultExtractIgnoreSymlinks = None,
       pp_previewCleanupPolicy = None, pp_showParentFolderItem = None, pp_showRealFileIcons = None,
       pp_showGridLines = None, pp_fullRowSelect = None, pp_singleClickOpen = None, pp_alternativeSelectionMode = None,
       pp_showToolbarLabels = None, pp_flatViewDefault = None, pp_tableSortKey = None, pp_tableSortAscending = None,
       pp_tzapEnvironment = None, pp_lanShareAlias = None, pp_lanShareEnableReceiving = None,
       pp_lanShareReceiveFolderPath = None, pp_lanShareAutoExtract = None \<rparr>"

theorem changed_preferences_ok_witness:
  "preferences_ok None (preferencesWithPatch None example_preferences (NO_PREFERENCE_CHANGES\<lparr> pp_showGridLines := Some False \<rparr>))
   \<and> ap_volumeSizePresets (preferencesWithPatch None example_preferences
        (NO_PREFERENCE_CHANGES\<lparr> pp_showGridLines := Some False \<rparr>)) = [1024, 4096]
   \<and> \<not> ap_showGridLines (preferencesWithPatch None example_preferences
        (NO_PREFERENCE_CHANGES\<lparr> pp_showGridLines := Some False \<rparr>))"
  using changed_preferences_ok [OF example_preferences_ok,
      of "NO_PREFERENCE_CHANGES\<lparr> pp_showGridLines := Some False \<rparr>"]
  by (simp add: NO_PREFERENCE_CHANGES_def example_preferences_def)
    (simp add: preferencesWithPatch_def patched_def)

section \<open>What is lost\<close>

text \<open>Every change of the preferences drops the option of the bootstrap sidecar; after the next start it is off.\<close>

theorem change_drops_sidecar:
  "fd_tzapBootstrapSidecar (ap_createFormatDefaults (preferencesWithPatch fixed p patch) format) = None"
  by (simp add: preferencesWithPatch_def normalizeCreateFormatDefaults_def normalize_format_defaults_def Let_def)

text \<open>In a development build every change that does not name the environment puts it back to production.\<close>

theorem change_resets_environment:
  "pp_tzapEnvironment patch = None \<Longrightarrow> ap_tzapEnvironment (preferencesWithPatch None p patch) = EnvProd"
  by (simp add: preferencesWithPatch_def resolveTzapEnvironment_def parseTzapBuildEnvironment_def isOneOf_def)

text \<open>The table can be sorted by the mode, but the key is not among those that are read back.\<close>

theorem sort_by_mode_is_lost:
  "ap_tableSortKey p = AcMode
     \<Longrightarrow> ap_tableSortKey (loadAppPreferences fixed (saveAppPreferences other p (Some st))) = AcName"
  by (simp add: loadAppPreferences_def saved_storage Let_def)
    (simp add: stored_enum_def isOneOf_def sort_key_name_def enum_name_def TABLE_SORT_KEYS_def DEFAULT_APP_PREFERENCES_def)

end
