(* ===== verification/VolumePresets.thy ===== *)
theory VolumePresets
  imports PreferencesProps
begin

text \<open>
  The list of volume sizes as the text of a field: \<open>parseVolumeSizePresetList\<close> and \<open>formatVolumeSizePresetList\<close> of
  \<^verbatim>\<open>src/src/app/volumeSizePresets.ts\<close>, and the proof that a list is read back from its text.
\<close>

definition unit_size :: "string \<Rightarrow> rat option" where
  "unit_size u = map_of [(''b'', 1), (''kb'', KIBIBYTE), (''mb'', MEBIBYTE), (''gb'', GIBIBYTE)] (js_lower u)"

text \<open>The decimal number at the start of a text and what follows it, as \<open>\d+(?:\.\d+)?\<close> matches.\<close>

definition leading_decimal :: "string \<Rightarrow> (string \<times> string) option" where
  "leading_decimal s =
     (let whole = takeWhile Json.is_digit s; r = dropWhile Json.is_digit s
      in if whole = [] then None
         else case r of
                c # q \<Rightarrow>
                  if c = CHR 0x2E \<and> takeWhile Json.is_digit q \<noteq> []
                  then Some (whole @ c # takeWhile Json.is_digit q, dropWhile Json.is_digit q)
                  else Some (whole, r)
              | [] \<Rightarrow> Some (whole, r))"

definition parseVolumeSize :: "string \<Rightarrow> rat option" where
  "parseVolumeSize s =
     (case leading_decimal s of
        None \<Rightarrow> None
      | Some (amount, r) \<Rightarrow>
          (case (js_number amount, unit_size (dropWhile js_space r)) of
             (Fin a, Some m) \<Rightarrow> if isSafeInteger (Fin (a * m)) \<and> 0 < a * m then Some (a * m) else None
           | _ \<Rightarrow> None))"

definition parseVolumeSizePresetList :: "string \<Rightarrow> rat list option" where
  "parseVolumeSizePresetList s =
     (let tokens = split_trimmed [CHR 0x2C, CHR 0x3B, CHR 0x0D, CHR 0x0A] s; parsed = map parseVolumeSize tokens
      in if tokens = [] then None
         else if list_all (\<lambda>v. v \<noteq> None) parsed
         then Some (normalizeVolumeSizePresets (map (\<lambda>v. UkNumber (Fin (the v))) parsed)) else None)"

definition whole_multiple :: "rat \<Rightarrow> rat \<Rightarrow> bool" where
  "whole_multiple m q \<longleftrightarrow> of_int \<lfloor>q / m\<rfloor> = q / m"

definition formatVolumeSize :: "(rat \<Rightarrow> string) \<Rightarrow> rat \<Rightarrow> string" where
  "formatVolumeSize other bytes =
     (if whole_multiple GIBIBYTE bytes then number_text other (Fin (bytes / GIBIBYTE)) @ '' GB''
      else if whole_multiple MEBIBYTE bytes then number_text other (Fin (bytes / MEBIBYTE)) @ '' MB''
      else if whole_multiple KIBIBYTE bytes then number_text other (Fin (bytes / KIBIBYTE)) @ '' KB''
      else number_text other (Fin bytes) @ '' B'')"

fun join_comma :: "string list \<Rightarrow> string" where
  "join_comma [] = []"
| "join_comma [w] = w"
| "join_comma (w # v # ws) = w @ '', '' @ join_comma (v # ws)"

definition formatVolumeSizePresetList :: "(rat \<Rightarrow> string) \<Rightarrow> rat list \<Rightarrow> string" where
  "formatVolumeSizePresetList other sizes = join_comma (map (formatVolumeSize other) sizes)"

section \<open>Reading back\<close>

definition size_text :: "nat \<Rightarrow> string \<Rightarrow> string" where
  "size_text n unit = nat_string n @ CHR 0x20 # unit"

definition size_units :: "(string \<times> rat) list" where
  "size_units = [(''GB'', GIBIBYTE), (''MB'', MEBIBYTE), (''KB'', KIBIBYTE), (''B'', 1)]"

lemma safe_as_nat: "isSafeInteger (Fin q) \<Longrightarrow> 0 < q \<Longrightarrow> \<exists>n. q = of_nat n \<and> n < 2 ^ 1023 \<and> natural_number q"
  using natural_as_nat [of q] by (auto simp: isSafeInteger_def natural_number_def)

lemma number_text_nat: "n < 10 ^ 21 \<Longrightarrow> number_text other (Fin (of_nat n)) = nat_string n"
proof -
  assume "n < 10 ^ 21"
  then have "(of_nat n :: rat) < of_nat (10 ^ 21)" by (simp only: of_nat_less_iff)
  then show ?thesis by (simp add: number_text_def natural_number_def)
qed

lemma formatted_unit:
  assumes "whole_multiple m q" and "1 \<le> m" and "isSafeInteger (Fin q)" and "0 < q"
  shows "\<exists>n. number_text other (Fin (q / m)) = nat_string n \<and> of_nat n * m = q \<and> n < 2 ^ 1023"
proof -
  have m: "0 < m" using assms(2) by simp
  then have le: "q / m \<le> q" using assms(2,4) by (simp add: divide_le_eq)
  have small: "q \<le> 9007199254740991" using assms(3,4) by (simp add: isSafeInteger_def)
  have nat: "natural_number (q / m)"
    using assms(1,4) m le small by (simp add: natural_number_def whole_multiple_def)
  from natural_as_nat [OF this] obtain n where n: "q / m = of_nat n" "n < 2 ^ 1023" by blast
  have "number_text other (Fin (q / m)) = nat_string (nat \<lfloor>q / m\<rfloor>)" using nat by (simp add: number_text_def)
  moreover have "nat \<lfloor>q / m\<rfloor> = n" by (simp add: n)
  moreover have "of_nat n * m = q" using m by (simp flip: n(1))
  ultimately show ?thesis using n(2) by blast
qed

lemma formatted_size:
  assumes "isSafeInteger (Fin q)" and "0 < q"
  shows "\<exists>n unit m. formatVolumeSize other q = size_text n unit \<and> (unit, m) \<in> set size_units \<and> of_nat n * m = q \<and> n < 2 ^ 1023"
proof -
  have sizes: "1 \<le> GIBIBYTE" "1 \<le> MEBIBYTE" "1 \<le> KIBIBYTE" by (simp_all add: GIBIBYTE_def MEBIBYTE_def KIBIBYTE_def)
  have one: "whole_multiple 1 q" using assms(1) by (simp add: whole_multiple_def isSafeInteger_def)
  consider "whole_multiple GIBIBYTE q" | "\<not> whole_multiple GIBIBYTE q" "whole_multiple MEBIBYTE q"
    | "\<not> whole_multiple GIBIBYTE q" "\<not> whole_multiple MEBIBYTE q" "whole_multiple KIBIBYTE q"
    | "\<not> whole_multiple GIBIBYTE q" "\<not> whole_multiple MEBIBYTE q" "\<not> whole_multiple KIBIBYTE q" by blast
  then show ?thesis
  proof cases
    case 1
    with formatted_unit [OF 1 sizes(1) assms, of other] show ?thesis
      by (auto simp: formatVolumeSize_def size_text_def size_units_def intro!: exI [of _ "''GB''"] exI [of _ GIBIBYTE])
  next
    case 2
    with formatted_unit [OF 2(2) sizes(2) assms, of other] show ?thesis
      by (auto simp: formatVolumeSize_def size_text_def size_units_def intro!: exI [of _ "''MB''"] exI [of _ MEBIBYTE])
  next
    case 3
    with formatted_unit [OF 3(3) sizes(3) assms, of other] show ?thesis
      by (auto simp: formatVolumeSize_def size_text_def size_units_def intro!: exI [of _ "''KB''"] exI [of _ KIBIBYTE])
  next
    case 4
    with formatted_unit [OF one _ assms, of other] show ?thesis
      by (auto simp: formatVolumeSize_def size_text_def size_units_def intro!: exI [of _ "''B''"] exI [of _ "1 :: rat"])
  qed
qed

abbreviation list_separators :: "char list" where
  "list_separators \<equiv> [CHR 0x2C, CHR 0x3B, CHR 0x0D, CHR 0x0A]"

definition unseparated :: "string \<Rightarrow> bool" where
  "unseparated s \<longleftrightarrow> list_all (\<lambda>c. c \<notin> set list_separators) s"

lemma all_units_read:
  "list_all (\<lambda>(unit, m). unit_size unit = Some m \<and> unit \<noteq> [] \<and> \<not> js_space (hd unit) \<and> \<not> js_space (last unit)
     \<and> unseparated unit) size_units"
  by code_simp

lemma units_read:
  "(unit, m) \<in> set size_units
     \<Longrightarrow> unit_size unit = Some m \<and> unit \<noteq> [] \<and> \<not> js_space (hd unit) \<and> \<not> js_space (last unit) \<and> unseparated unit"
  using all_units_read by (auto simp: list_all_iff)

lemma parsed_size:
  assumes "(unit, m) \<in> set size_units" and "n < 2 ^ 1023" and "isSafeInteger (Fin (of_nat n * m))" and "0 < of_nat n * m"
  shows "parseVolumeSize (size_text n unit) = Some (of_nat n * m)"
proof -
  have digits: "list_all Json.is_digit (nat_string n)" by (rule decimal_digits)
  have "\<not> Json.is_digit (CHR 0x20)" by code_simp
  then have "leading_decimal (size_text n unit) = Some (nat_string n, CHR 0x20 # unit)"
    using digits by (simp add: leading_decimal_def Let_def size_text_def takeWhile_append dropWhile_append list_all_iff all_digits)
  moreover have "dropWhile js_space (CHR 0x20 # unit) = unit"
    using units_read [OF assms(1)] by (cases unit) (simp_all add: js_space_def)
  ultimately show ?thesis
    using units_read [OF assms(1)] assms by (simp add: parseVolumeSize_def js_number_natural)
qed

lemma separator_split:
  "unseparated w \<Longrightarrow> split_trimmed list_separators (w @ CHR 0x2C # r)
     = filter (\<lambda>w. w \<noteq> []) [js_trim w] @ split_trimmed list_separators r"
  "unseparated w \<Longrightarrow> split_trimmed list_separators w = filter (\<lambda>w. w \<noteq> []) [js_trim w]"
proof -
  assume clean: "unseparated w"
  let ?f = "\<lambda>c. if c \<in> set list_separators then CHR 0x0A else c"
  have plain: "c \<notin> set list_separators" if "c \<in> set w" for c
    using clean that unfolding unseparated_def list_all_iff by blast
  have w: "map ?f w = w" by (rule map_idI) (simp only: plain if_False)
  have "CHR 0x0A \<notin> set w" using plain by force
  then have split: "js_split (CHR 0x0A) w = [w]" by (simp add: js_split_no_sep)
  have "map ?f (w @ CHR 0x2C # r) = w @ CHR 0x0A # map ?f r" by (simp only: map_append w) simp
  then show "split_trimmed list_separators (w @ CHR 0x2C # r)
     = filter (\<lambda>w. w \<noteq> []) [js_trim w] @ split_trimmed list_separators r"
    by (simp only: split_trimmed_def js_split_append split map_append filter_append list.map)
  show "split_trimmed list_separators w = filter (\<lambda>w. w \<noteq> []) [js_trim w]"
    by (simp only: split_trimmed_def w split list.map)
qed

lemma split_joined:
  assumes "\<forall>w \<in> set ws. unseparated w \<and> w \<noteq> [] \<and> js_trim w = w \<and> js_trim (CHR 0x20 # w) = w"
    and "pre = [] \<or> pre = [CHR 0x20]" and "ws \<noteq> []"
  shows "split_trimmed list_separators (pre @ join_comma ws) = ws"
  using assms
proof (induction ws arbitrary: pre rule: join_comma.induct)
  case (2 w)
  then have "unseparated (pre @ w)" and "js_trim (pre @ w) = w" and "w \<noteq> []" by (auto simp: unseparated_def)
  then show ?case by (simp add: separator_split(2))
next
  case (3 w v ws)
  then have "unseparated (pre @ w)" and trim: "js_trim (pre @ w) = w" and "w \<noteq> []" by (auto simp: unseparated_def)
  moreover have "split_trimmed list_separators ([CHR 0x20] @ join_comma (v # ws)) = v # ws"
    using 3 by (intro "3.IH") auto
  moreover have "pre @ join_comma (w # v # ws) = (pre @ w) @ CHR 0x2C # [CHR 0x20] @ join_comma (v # ws)" by simp
  ultimately show ?case by (simp only: separator_split(1)) (simp add: trim)
qed simp

lemma trimmed_size_text:
  assumes "(unit, m) \<in> set size_units"
  shows "unseparated (size_text n unit)" "size_text n unit \<noteq> []" "js_trim (size_text n unit) = size_text n unit"
    "js_trim (CHR 0x20 # size_text n unit) = size_text n unit"
proof -
  obtain c ds where n: "nat_string n = c # ds" "Json.is_digit c" by (rule nat_string_Cons)
  have "\<forall>x \<in> set (nat_string n). x \<notin> set list_separators"
    using decimal_digits [of n] by (auto simp: list_all_iff Json.is_digit_def)
  then show "unseparated (size_text n unit)"
    using units_read [OF assms] by (auto simp: unseparated_def size_text_def list_all_iff)
  show "size_text n unit \<noteq> []" by (simp add: size_text_def)
  show trim: "js_trim (size_text n unit) = size_text n unit"
    using units_read [OF assms] n digit_not_space by (intro js_trim_fixed) (simp add: size_text_def)
  have "dropWhile js_space (CHR 0x20 # size_text n unit) = dropWhile js_space (size_text n unit)" by (simp add: js_space_def)
  then show "js_trim (CHR 0x20 # size_text n unit) = size_text n unit"
    using trim by (simp only: js_trim_def)
qed

text \<open>The text of a list of volume sizes, each a positive safe integer that occurs once, is read back as the same list, whichever units it is shown in.\<close>

theorem volume_sizes_round_trip:
  assumes "presets_ok sizes"
  shows "parseVolumeSizePresetList (formatVolumeSizePresetList other sizes) = Some sizes"
proof -
  let ?text = "formatVolumeSize other"
  have each: "unseparated (?text q) \<and> ?text q \<noteq> [] \<and> js_trim (?text q) = ?text q \<and> js_trim (CHR 0x20 # ?text q) = ?text q
      \<and> parseVolumeSize (?text q) = Some q" if "q \<in> set sizes" for q
  proof -
    have q: "isSafeInteger (Fin q)" "0 < q" using assms that by (auto simp: presets_ok_def)
    from formatted_size [OF this] obtain n unit m where t: "?text q = size_text n unit" "(unit, m) \<in> set size_units"
      "of_nat n * m = q" "n < 2 ^ 1023" by blast
    then show ?thesis using trimmed_size_text [OF t(2)] parsed_size [OF t(2,4)] q by simp
  qed
  have tokens: "split_trimmed list_separators ([] @ join_comma (map ?text sizes)) = map ?text sizes"
    using each assms by (intro split_joined) (auto simp: presets_ok_def)
  moreover have "map parseVolumeSize (map ?text sizes) = map Some sizes" using each by simp
  moreover have "normalizeVolumeSizePresets (map (\<lambda>q. UkNumber (Fin q)) sizes) = sizes"
    using kept_presets [OF assms] assms
    by (auto simp: presets_or_default_def presets_ok_def comp_def normalizeVolumeSizePresets_def List.map_filter_def
        preset_size_def js_set_distinct cong: filter_cong map_cong)
  moreover have "map (\<lambda>v. UkNumber (Fin (the v))) (map Some sizes) = map (\<lambda>q. UkNumber (Fin q)) sizes" by simp
  ultimately show ?thesis
    using assms by (simp add: parseVolumeSizePresetList_def formatVolumeSizePresetList_def presets_ok_def Let_def
        list_all_iff comp_def del: map_map)
qed

theorem volume_sizes_round_trip_witness:
  "parseVolumeSizePresetList (formatVolumeSizePresetList (\<lambda>q. []) [1048576, 1536, 7]) = Some [1048576, 1536, 7]
   \<and> formatVolumeSizePresetList (\<lambda>q. []) [1048576, 1536, 7] = ''1 MB, 1536 B, 7 B''"
proof (rule conjI)
  show "parseVolumeSizePresetList (formatVolumeSizePresetList (\<lambda>q. []) [1048576, 1536, 7]) = Some [1048576, 1536, 7]"
    by (rule volume_sizes_round_trip) (simp add: presets_ok_def isSafeInteger_def)
qed code_simp

end
