(* ===== verification/CreatePlanning.thy ===== *)
theory CreatePlanning
  imports CreateWorkspaceProps
begin

text \<open>
  Planning an archive: the planner that the create workspace implements, and the controller that queues, runs and
  settles plans (\<open>controllers/createPlanController.ts\<close>) with the debounce timer (\<open>desktop/timers.ts\<close>) and
  the edits of the runtime that restart it (\<open>runtime/zmanagerRuntimeAdapter.ts\<close>).

  The snapshot that is published is a function of the workspace (\<open>CreateWorkspaceView\<close>) and is not repeated here.
\<close>

section \<open>The abstract planner\<close>

text \<open>
  What the rest of the program may assume of planning: which sources are planned, how far the plan is, the plan,
  and the revision that tells an answer from one that came too late.
\<close>

record planner =
  pl_sources :: "string list"
  pl_phase :: create_state
  pl_plan :: "create_plan option"
  pl_revision :: nat

datatype planner_event =
    EvEditSources                       \<comment> \<open>sources are added, removed or set\<close>
  | EvRestart                           \<comment> \<open>all is reset\<close>
  | EvAsk "nat option"                  \<comment> \<open>a plan is asked for, with a revision that was given out before or with a new one\<close>
  | EvAnswer nat create_plan            \<comment> \<open>the plan that was asked for with a revision\<close>
  | EvFailure nat                       \<comment> \<open>it could not be made\<close>
  | EvReport                            \<comment> \<open>an error of a creation\<close>
  | EvStart                             \<comment> \<open>a creation is to start\<close>
  | EvEdit                              \<comment> \<open>the options or the destination are edited\<close>
  | EvView                              \<comment> \<open>anything else\<close>

text \<open>The revision that is asked with, if it is not an old one.\<close>

definition asked_revision :: "planner \<Rightarrow> nat option \<Rightarrow> nat" where
  "asked_revision p given = (case given of None \<Rightarrow> pl_revision p + 1 | Some r \<Rightarrow> r)"

definition may_ask :: "planner \<Rightarrow> nat option \<Rightarrow> bool" where
  "may_ask p given \<longleftrightarrow> given = None \<or> given = Some (pl_revision p)"

inductive planner_step :: "planner_event \<Rightarrow> planner \<Rightarrow> planner \<Rightarrow> bool" where
  edit_sources: "planner_step EvEditSources p (p\<lparr> pl_sources := sources, pl_phase := CsIdle, pl_plan := None \<rparr>)"
| same_sources: "planner_step EvEditSources p p"
| restart:
    "planner_step EvRestart p
       (p\<lparr> pl_sources := [], pl_phase := CsIdle, pl_plan := None, pl_revision := pl_revision p + 1 \<rparr>)"
| nothing_to_restart: "planner_step EvRestart p p"
| ask:
    "pl_sources p \<noteq> [] \<Longrightarrow> may_ask p given
       \<Longrightarrow> planner_step (EvAsk given) p (p\<lparr> pl_phase := CsLoading, pl_revision := asked_revision p given \<rparr>)"
| nothing_to_ask:
    "pl_sources p = [] \<Longrightarrow> may_ask p given
       \<Longrightarrow> planner_step (EvAsk given) p
             (p\<lparr> pl_phase := CsIdle, pl_plan := None, pl_revision := asked_revision p given \<rparr>)"
| late_ask: "\<not> may_ask p given \<Longrightarrow> planner_step (EvAsk given) p p"
| answer: "r = pl_revision p \<Longrightarrow> planner_step (EvAnswer r plan) p (p\<lparr> pl_phase := CsReady, pl_plan := Some plan \<rparr>)"
| late_answer: "r \<noteq> pl_revision p \<Longrightarrow> planner_step (EvAnswer r plan) p p"
| fail: "r = pl_revision p \<Longrightarrow> planner_step (EvFailure r) p (p\<lparr> pl_phase := CsError \<rparr>)"
| late_fail: "r \<noteq> pl_revision p \<Longrightarrow> planner_step (EvFailure r) p p"
| report: "planner_step EvReport p (p\<lparr> pl_phase := CsError \<rparr>)"
| refused: "planner_step EvStart p (p\<lparr> pl_phase := CsError \<rparr>)"
| started: "planner_step EvStart p p"
| recover: "pl_phase p = CsError \<Longrightarrow> pl_plan p \<noteq> None \<Longrightarrow> planner_step EvEdit p (p\<lparr> pl_phase := CsReady \<rparr>)"
| edit: "planner_step EvEdit p p"
| view: "planner_step EvView p p"

inductive_cases planner_stepE: "planner_step e p q"

inductive_simps planner_answers [simp]:
  "planner_step (EvAnswer r plan) p q" "planner_step (EvFailure r) p q" "planner_step EvView p q"

text \<open>What the planner guarantees, whatever it does.\<close>

lemma planner_revision: "planner_step e p q \<Longrightarrow> pl_revision p \<le> pl_revision q"
  by (elim planner_stepE) (auto simp: may_ask_def asked_revision_def)

lemma planner_drops_plan: "planner_step e p q \<Longrightarrow> pl_sources q = pl_sources p \<or> pl_plan q = None"
  by (elim planner_stepE) auto

lemma planner_ready:
  "planner_step e p q \<Longrightarrow> (pl_phase p = CsReady \<longrightarrow> pl_plan p \<noteq> None) \<Longrightarrow> pl_phase q = CsReady \<longrightarrow> pl_plan q \<noteq> None"
  by (elim planner_stepE) auto

definition planner_of :: "cw_state \<Rightarrow> planner" where
  "planner_of s =
     \<lparr> pl_sources = cw_sources s, pl_phase = cw_planState s, pl_plan = cw_currentPlan s, pl_revision = cw_planRevision s \<rparr>"

text \<open>Operations that the planner does not see.\<close>

lemma planner_of_frame [simp]:
  "planner_of (s\<lparr> cw_planStatus := c \<rparr>) = planner_of s"
  "planner_of (s\<lparr> cw_excludedArchivePaths := e \<rparr>) = planner_of s"
  "planner_of (s\<lparr> cw_currentFolder := f \<rparr>) = planner_of s"
  "planner_of (s\<lparr> cw_searchQuery := g \<rparr>) = planner_of s"
  "planner_of (s\<lparr> cw_expandedTreeFolders := h \<rparr>) = planner_of s"
  "planner_of (s\<lparr> cw_selection := i \<rparr>) = planner_of s"
  "planner_of (s\<lparr> cw_options := j \<rparr>) = planner_of s"
  "planner_of (s\<lparr> cw_columnSettings := k \<rparr>) = planner_of s"
  by (simp_all add: planner_of_def)

lemma planner_of_updates:
  "planner_of (s\<lparr> cw_planState := a \<rparr>) = (planner_of s)\<lparr> pl_phase := a \<rparr>"
  "planner_of (s\<lparr> cw_currentPlan := b \<rparr>) = (planner_of s)\<lparr> pl_plan := b \<rparr>"
  "planner_of (s\<lparr> cw_sources := c \<rparr>) = (planner_of s)\<lparr> pl_sources := c \<rparr>"
  "planner_of (s\<lparr> cw_planRevision := d \<rparr>) = (planner_of s)\<lparr> pl_revision := d \<rparr>"
  by (simp_all add: planner_of_def)

lemma planner_of_fields [simp]:
  "pl_sources (planner_of s) = cw_sources s" "pl_phase (planner_of s) = cw_planState s"
  "pl_plan (planner_of s) = cw_currentPlan s" "pl_revision (planner_of s) = cw_planRevision s"
  by (simp_all add: planner_of_def)

lemma planner_of_cleanup [simp]:
  "planner_of (cleanupSelectionForState env s) = planner_of s"
  "planner_of (fst (applySelectionResult env t s)) = planner_of s"
  by (simp_all add: cleanupSelectionForState_def applySelectionResult_def Let_def)

lemma planner_of_view [simp]:
  "planner_of (fst (set_excluded xs s)) = planner_of s"
  "planner_of (fst (expand_folders env ps s)) = planner_of s"
  by (simp_all add: set_excluded_def expand_folders_def Let_def)

lemma planner_of_prune [simp]:
  "planner_of (pruneExcludedPathsForPlan s) = planner_of s"
  "planner_of (reconcileViewForPlan env s) = planner_of s"
  by (simp_all add: pruneExcludedPathsForPlan_def reconcileViewForPlan_def Let_def split: option.splits)

section \<open>The workspace refines it\<close>

fun event_of :: "cw_op \<Rightarrow> planner_event" where
  "event_of (OpAddSources paths) = EvEditSources"
| "event_of (OpSetSources paths) = EvEditSources"
| "event_of (OpRemoveSources paths) = EvEditSources"
| "event_of OpClearSources = EvEditSources"
| "event_of OpReset = EvRestart"
| "event_of (OpResetAfterAcceptedStart f d) = EvRestart"
| "event_of OpQueuePlan = EvAsk None"
| "event_of (OpBeginPlan o' r) = EvAsk r"
| "event_of (OpAcceptPlanResult r plan) = EvAnswer r plan"
| "event_of (OpAcceptPlanError r status) = EvFailure r"
| "event_of (OpSetPlanError status) = EvReport"
| "event_of (OpBuildStartCreateRequest i) = EvStart"
| "event_of OpRefreshPlanAfterDestinationEdit = EvEdit"
| "event_of (OpSetOptions patch) = EvEdit"
| "event_of (OpSetDestinationPath path) = EvEdit"
| "event_of _ = EvView"

fun unplanned :: "cw_op \<Rightarrow> bool" where
  "unplanned (OpApplyFormatDefaults f d so) = True"
| "unplanned (OpChangeFormat f d) = True"
| "unplanned (OpSetDestinationPathIfBlank path) = True"
| "unplanned (OpSuggestDestinationPathIfBlank d) = True"
| "unplanned OpEnsureDestinationExtension = True"
| "unplanned (OpSetSubmissionInFlight b) = True"
| "unplanned (OpNavigateToFolder f) = True"
| "unplanned (OpSetSearchQuery q) = True"
| "unplanned OpClearSearch = True"
| "unplanned (OpToggleTreeFolder f) = True"
| "unplanned (OpSetTreeFolderExpanded f b) = True"
| "unplanned (OpSelectRow p m) = True"
| "unplanned (OpUpdateSelection t) = True"
| "unplanned (OpToggleRowSelection p) = True"
| "unplanned (OpFocusRow p) = True"
| "unplanned (OpEnsureRowSelected p) = True"
| "unplanned OpClearSelection = True"
| "unplanned (OpSetPathIncluded p b) = True"
| "unplanned (OpSetAllPathsIncluded b) = True"
| "unplanned (OpSetCurrentFolderIncluded f b) = True"
| "unplanned (OpSetVisibleRowsIncluded b) = True"
| "unplanned (OpSetColumnWidth c w) = True"
| "unplanned (OpToggleColumnVisibility c) = True"
| "unplanned (OpMoveColumn c d) = True"
| "unplanned (OpReorderColumn c d) = True"
| "unplanned (OpResetColumns st) = True"
| "unplanned _ = False"

lemma unplanned_keeps: "unplanned operation \<Longrightarrow> planner_of (cw_apply env operation s) = planner_of s"
  by (cases operation)
    (simp_all add: applyFormatDefaults_def changeFormat_def setDestinationPathIfBlank_def fill_blank_destination_def
      suggestDestinationPathIfBlank_def ensureDestinationExtension_def setSubmissionInFlight_def
      cw_navigateToFolder_def cw_setSearchQuery_def cw_clearSearch_def cw_toggleTreeFolder_def
      setTreeFolderExpanded_def selectRow_def cw_updateSelection_def toggleRowSelection_def focusRow_def
      ensureRowSelected_def cw_clearSelection_def setPathIncluded_def setAllPathsIncluded_def
      setCurrentFolderIncluded_def setVisibleRowsIncluded_def cw_setColumnWidth_def cw_toggleColumnVisibility_def
      cw_moveColumn_def cw_reorderColumn_def cw_resetColumns_def Let_def split: option.split)

lemma planner_reset_plan:
  "planner_of ((resetPlanState s)\<lparr> cw_sources := sources \<rparr>)
     = (planner_of s)\<lparr> pl_sources := sources, pl_phase := CsIdle, pl_plan := None \<rparr>"
  by (simp add: resetPlanState_def planner_of_def)

lemma planner_restarted:
  "planner_of (restarted s o')
     = (planner_of s)\<lparr> pl_sources := [], pl_phase := CsIdle, pl_plan := None, pl_revision := pl_revision (planner_of s) + 1 \<rparr>"
  by (simp add: restarted_def planner_of_def)

lemma unplanned_event: "unplanned operation \<Longrightarrow> event_of operation = EvView"
  by (cases operation) simp_all

lemma edit_refines:
  "planner_step EvEditSources (planner_of s) (planner_of (fst (cw_addSources paths s)))"
  "planner_step EvEditSources (planner_of s) (planner_of (fst (cw_setSources paths s)))"
  "planner_step EvEditSources (planner_of s) (planner_of (fst (cw_removeSources paths s)))"
  "planner_step EvEditSources (planner_of s) (planner_of (fst (cw_clearSources s)))"
  by (simp_all add: cw_addSources_def cw_setSources_def cw_removeSources_def cw_clearSources_def Let_def
      planner_reset_plan planner_step.intros)

lemma reset_refines:
  "planner_step EvRestart (planner_of s) (planner_of (fst (cw_reset s)))"
  "planner_step EvRestart (planner_of s) (planner_of (fst (resetAfterAcceptedStart env f d s)))"
  by (simp_all add: cw_reset_def resetAfterAcceptedStart_def Let_def planner_restarted planner_step.intros
      planner_step.restart [of "planner_of s", simplified])

lemma queued_refines:
  assumes "may_ask (planner_of s) given" and "r = asked_revision (planner_of s) given"
  shows "planner_step (EvAsk given) (planner_of s) (planner_of (beginQueuedPlanState s r))"
proof (cases "cw_sources s = []")
  case True
  then show ?thesis
    using planner_step.nothing_to_ask [of "planner_of s" given] assms
    by (simp add: beginQueuedPlanState_def planner_of_def)
next
  case False
  then show ?thesis
    using planner_step.ask [of "planner_of s" given] assms
    by (simp add: beginQueuedPlanState_def planner_of_def)
qed

lemma error_planner: "planner_of (setPlanErrorState s status) = (planner_of s)\<lparr> pl_phase := CsError \<rparr>"
  by (simp add: setPlanErrorState_def planner_of_def Let_def)

lemma ask_refines:
  "planner_step (EvAsk None) (planner_of s) (planner_of (fst (cw_queuePlan s)))"
  "planner_step (EvAsk r) (planner_of s) (planner_of (fst (cw_beginPlan o' r s)))"
proof -
  show "planner_step (EvAsk None) (planner_of s) (planner_of (fst (cw_queuePlan s)))"
    by (simp add: cw_queuePlan_def Let_def queued_refines may_ask_def asked_revision_def)
  show "planner_step (EvAsk r) (planner_of s) (planner_of (fst (cw_beginPlan o' r s)))"
    by (cases r) (auto simp: cw_beginPlan_def Let_def may_ask_def asked_revision_def nullish_def
        intro!: queued_refines planner_step.late_ask)
qed

lemma plan_refines:
  "planner_step (EvAnswer n plan) (planner_of s) (planner_of (fst (cw_acceptPlanResult env n plan s)))"
  "planner_step (EvFailure n) (planner_of s) (planner_of (fst (cw_acceptPlanError n status s)))"
  "planner_step EvReport (planner_of s) (planner_of (cw_setPlanError status s))"
  by (simp_all add: cw_acceptPlanResult_def cw_acceptPlanError_def cw_setPlanError_def error_planner planner_of_updates
      planner_step.report)

lemma recover_refines:
  "planner_of s' = planner_of s \<Longrightarrow> planner_step EvEdit (planner_of s) (planner_of (refreshPlanAfterTransientInputEdit s'))"
  "planner_step EvEdit (planner_of s) (planner_of (refreshPlanAfterDestinationEdit s))"
proof -
  assume same: "planner_of s' = planner_of s"
  then have "cw_planState s' = cw_planState s" and "cw_currentPlan s' = cw_currentPlan s"
    by (simp_all add: planner_of_def)
  with same show "planner_step EvEdit (planner_of s) (planner_of (refreshPlanAfterTransientInputEdit s'))"
    using planner_step.recover [of "planner_of s"]
    by (auto simp: refreshPlanAfterTransientInputEdit_def planner_of_updates planner_step.edit)
next
  show "planner_step EvEdit (planner_of s) (planner_of (refreshPlanAfterDestinationEdit s))"
    using planner_step.recover [of "planner_of s"]
    by (auto simp: refreshPlanAfterDestinationEdit_def planner_of_updates planner_step.edit)
qed

lemma refuse_planner: "planner_of (fst (refuse_start s m reason)) = (planner_of s)\<lparr> pl_phase := CsError \<rparr>"
  by (simp add: refuse_start_def Let_def error_planner)

lemma checked_refines: "planner_step EvStart (planner_of s) (planner_of (fst (start_checked env i p s)))"
  by (simp add: start_checked_def Let_def refuse_planner planner_step.intros)

lemma start_refines: "planner_step EvStart (planner_of s) (planner_of (fst (cw_buildStartCreateRequest env i s)))"
  using checked_refines [of "set_destination p s" for p]
  by (simp add: cw_buildStartCreateRequest_def Let_def checked_refines)

lemma option_refines:
  "planner_step EvEdit (planner_of s) (planner_of (fst (cw_setOptions env patch s)))"
  "planner_step EvEdit (planner_of s) (planner_of (fst (setDestinationPath path s)))"
  by (simp_all add: cw_setOptions_def setDestinationPath_def Let_def planner_step.edit recover_refines)

lemma operation_refines:
  "planner_step (event_of operation) (planner_of s) (planner_of (cw_apply env operation s))"
proof (cases "unplanned operation")
  case True
  then show ?thesis by (simp add: unplanned_keeps unplanned_event)
next
  case False
  then show ?thesis
    by (cases operation)
      (simp_all add: edit_refines reset_refines ask_refines plan_refines recover_refines start_refines option_refines
        del: planner_answers)
qed

definition planner_moves :: "planner \<Rightarrow> planner \<Rightarrow> bool" where
  "planner_moves p q \<longleftrightarrow> (\<exists>e. planner_step e p q)"

lemma step_refines: "cw_step env s s' \<Longrightarrow> planner_moves (planner_of s) (planner_of s')"
  by (elim cw_stepE) (auto simp: planner_moves_def intro: operation_refines)

interpretation planned: simulation "cw_step env" planner_moves planner_of for env
  by unfold_locales (blast intro: step_refines)

section \<open>The debounce timer\<close>

text \<open>What is waiting in the timer: the callback of \<open>schedule\<close>, here the revision that it plans.\<close>

type_synonym 'a debounce = "'a option"

definition debounce_hasPending :: "'a debounce \<Rightarrow> bool" where
  "debounce_hasPending timer \<longleftrightarrow> timer \<noteq> None"

definition debounce_cancel :: "'a debounce \<Rightarrow> 'a debounce" where
  "debounce_cancel timer = (if timer = None then timer else None)"

definition debounce_schedule :: "'a \<Rightarrow> 'a debounce \<Rightarrow> 'a debounce" where
  "debounce_schedule callback timer = (let timer = debounce_cancel timer in Some callback)"

text \<open>The end of the delay: the timer is cleared before the callback runs.\<close>

definition debounce_elapse :: "'a debounce \<Rightarrow> 'a debounce \<times> 'a option" where
  "debounce_elapse timer = (None, timer)"

lemma debounce_simps [simp]:
  "debounce_cancel timer = None" "debounce_schedule c timer = Some c" "debounce_elapse timer = (None, timer)"
  by (simp_all add: debounce_cancel_def debounce_schedule_def debounce_elapse_def)

section \<open>The controller\<close>

text \<open>
  \<open>pn_runs\<close> are the runs of \<open>runPlanCreate\<close> that are awaited, each with the revision and the request it was
  started with; they settle in any order.
\<close>

record planning =
  pn_workspace :: cw_state
  pn_timer :: "nat debounce"
  pn_runs :: "(nat \<times> plan_create_request) list"

record planning_env =
  pe_workspace :: cw_env
  pe_canUseBrowserPreview :: bool
  pe_browserPreview :: "string list \<Rightarrow> create_plan"

datatype plan_outcome =
    PlanResolved create_plan
  | PlanRejected "string option"  \<comment> \<open>the message of the command error, if it is one\<close>

definition DEFAULT_PLAN_OPTIONS :: plan_options where
  "DEFAULT_PLAN_OPTIONS =
     \<lparr> po_cleanSource = None, po_respectGitignore = None, po_excludeNames = Some [],
       po_excludeArchivePaths = Some [], po_includeArchivePaths = Some [], po_followSymlinks = Some False \<rparr>"

definition runPlan :: "planning_env \<Rightarrow> nat option \<Rightarrow> planning \<Rightarrow> planning" where
  "runPlan env revision st =
     (let timer = debounce_cancel (pn_timer st);
          (workspace, planStart) = cw_beginPlan (Some DEFAULT_PLAN_OPTIONS) revision (pn_workspace st);
          begun = st\<lparr> pn_workspace := workspace, pn_timer := timer \<rparr>
      in case planStart of
           PlanStarts started request \<Rightarrow>
             if pe_canUseBrowserPreview env
             then begun\<lparr> pn_workspace :=
                    fst (cw_acceptPlanResult (pe_workspace env) started
                          (pe_browserPreview env (pq_sources request)) workspace) \<rparr>
             else begun\<lparr> pn_runs := pn_runs st @ [(started, request)] \<rparr>
         | _ \<Rightarrow> begun)"

text \<open>What \<open>runPlan\<close> does when the run it awaits settles; \<open>i\<close> is the place of the run among the awaited ones.\<close>

definition settlePlan :: "planning_env \<Rightarrow> nat \<Rightarrow> plan_outcome \<Rightarrow> planning \<Rightarrow> planning" where
  "settlePlan env i outcome st =
     (if i < length (pn_runs st)
      then let started = fst (pn_runs st ! i);
               workspace =
                 (case outcome of
                    PlanResolved plan \<Rightarrow> fst (cw_acceptPlanResult (pe_workspace env) started plan (pn_workspace st))
                  | PlanRejected m \<Rightarrow>
                      fst (cw_acceptPlanError started
                            \<lparr> pt_messageKey = None,
                              pt_fallbackText = Some (nullish m ''Could not create archive plan.'') \<rparr> (pn_workspace st)))
           in st\<lparr> pn_workspace := workspace, pn_runs := take i (pn_runs st) @ drop (Suc i) (pn_runs st) \<rparr>
      else st)"

definition queuePlanRun :: "planning \<Rightarrow> planning" where
  "queuePlanRun st =
     (let timer = debounce_cancel (pn_timer st);
          (workspace, revision, hasSources) = cw_queuePlan (pn_workspace st);
          queued = st\<lparr> pn_workspace := workspace, pn_timer := timer \<rparr>
      in if cw_sources workspace = [] then queued else queued\<lparr> pn_timer := debounce_schedule revision timer \<rparr>)"

definition cancelQueuedPlanRun :: "planning \<Rightarrow> planning" where
  "cancelQueuedPlanRun st = st\<lparr> pn_timer := debounce_cancel (pn_timer st) \<rparr>"

definition planTimerElapses :: "planning_env \<Rightarrow> planning \<Rightarrow> planning" where
  "planTimerElapses env st =
     (let (timer, callback) = debounce_elapse (pn_timer st); elapsed = st\<lparr> pn_timer := timer \<rparr>
      in case callback of None \<Rightarrow> elapsed | Some revision \<Rightarrow> runPlan env (Some revision) elapsed)"

section \<open>What the runtime does to the sources and the options\<close>

abbreviation on_workspace :: "(cw_state \<Rightarrow> cw_state) \<Rightarrow> planning \<Rightarrow> planning" where
  "on_workspace f st \<equiv> st\<lparr> pn_workspace := f (pn_workspace st) \<rparr>"

text \<open>\<open>addSources\<close>, with the default directory of the preferences.\<close>

definition runtime_addSources :: "cw_env \<Rightarrow> string option \<Rightarrow> string list \<Rightarrow> planning \<Rightarrow> planning" where
  "runtime_addSources env defaultDirectory paths st =
     (let (workspace, result) = cw_addSources (map Some paths) (pn_workspace st)
      in if \<not> sm_changed result then st\<lparr> pn_workspace := workspace \<rparr>
         else queuePlanRun (st\<lparr> pn_workspace :=
                (if cw_sources (pn_workspace st) = [] \<and> cw_sources workspace \<noteq> []
                    \<and> js_trim (co_destinationPath (cw_options workspace)) = []
                 then fst (suggestDestinationPathIfBlank env defaultDirectory workspace) else workspace) \<rparr>))"

definition clearCreateSources :: "cw_env \<Rightarrow> planning \<Rightarrow> planning" where
  "clearCreateSources env st =
     queuePlanRun (on_workspace (\<lambda>w. fst (cw_clearSelection env (fst (cw_clearSources w)))) st)"

definition removeCreateSources :: "cw_env \<Rightarrow> string list \<Rightarrow> planning \<Rightarrow> planning" where
  "removeCreateSources env sourcePaths st =
     (let (workspace, result) = cw_removeSources (map Some sourcePaths) (pn_workspace st)
      in if \<not> sm_changed result then st\<lparr> pn_workspace := workspace \<rparr>
         else queuePlanRun (st\<lparr> pn_workspace := fst (cw_clearSelection env workspace) \<rparr>))"

definition runtime_setOptions :: "cw_env \<Rightarrow> option_patch \<Rightarrow> planning \<Rightarrow> planning" where
  "runtime_setOptions env patch st = queuePlanRun (on_workspace (\<lambda>w. fst (cw_setOptions env patch w)) st)"

definition runtime_changeFormat ::
    "cw_env \<Rightarrow> create_format \<Rightarrow> format_create_defaults \<Rightarrow> planning \<Rightarrow> planning" where
  "runtime_changeFormat env format defaults st =
     queuePlanRun (on_workspace (\<lambda>w. fst (changeFormat env format defaults w)) st)"

text \<open>\<open>resetSubmittedState\<close>, once the job of a creation has been accepted.\<close>

definition resetSubmittedState :: "cw_env \<Rightarrow> planning \<Rightarrow> planning" where
  "resetSubmittedState env st = on_workspace (\<lambda>w. fst (resetAfterAcceptedStart env None None w)) (cancelQueuedPlanRun st)"

text \<open>
  What \<open>openQuickCreateReview\<close> of the quick actions does to the plan: sources, the settings of a workspace that had
  none, and a plan at once.
\<close>

definition clean_source_patch :: "bool \<Rightarrow> option_patch" where
  "clean_source_patch cleanSource =
     \<lparr> op_destinationPath = None, op_cleanSource = Some cleanSource, op_respectGitignore = None,
       op_followSymlinks = None, op_replaceExisting = None, op_preserveMetadata = None, op_compressionLevel
       = None, op_splitMode = None, op_volumeSize = None, op_volumeCount = None, op_tzapRecoveryPercentage
       = None, op_tzapVolumeLossTolerance = None, op_zipCompression = None, op_sevenZSolid = None,
       op_sevenZThreads = None, op_sevenZChunkSize = None, op_sevenZEncryptFileNames = None,
       op_tzapRecipientCertificatePaths = None, op_tzapRecipientKeyIds = None, op_tzapContactRecipientIds =
       None, op_tzapSigningMode = None, op_tzapSigningIdentityId = None, op_tzapSigningIdentityPath = None,
       op_tzapSigningCertificatePath = None, op_tzapSigningPrivateKeyPath = None, op_tzapSigningChainPaths
       = None, op_tzapBootstrapSidecar = None \<rparr>"

definition reviewSources ::
    "planning_env \<Rightarrow> string list \<Rightarrow> create_format \<Rightarrow> format_create_defaults \<Rightarrow> bool \<Rightarrow> (string list \<Rightarrow> string)
       \<Rightarrow> planning \<Rightarrow> planning" where
  "reviewSources env sources format defaults cleanSource destination st =
     (let cenv = pe_workspace env;
          added = fst (cw_addSources (map Some sources) (pn_workspace st));
          prepared =
            (if cw_sources (pn_workspace st) = []
             then fst (setDestinationPath (destination (cw_sources added))
                    (fst (cw_setOptions cenv (clean_source_patch cleanSource)
                      (fst (applyFormatDefaults cenv format defaults None added)))))
             else added)
      in runPlan env None (cancelQueuedPlanRun (st\<lparr> pn_workspace := prepared \<rparr>)))"

section \<open>The whole of planning as a step relation\<close>

text \<open>
  Every way in which the program changes the workspace, the timer and the awaited runs.  \<open>plans sources plan\<close> says
  that \<open>plan\<close> is a plan of \<open>sources\<close>: a run resolves with a plan of the sources of its request.
\<close>

fun background :: "cw_op \<Rightarrow> bool" where
  "background (OpAddSources paths) = False"
| "background (OpSetSources paths) = False"
| "background (OpRemoveSources paths) = False"
| "background OpClearSources = False"
| "background OpQueuePlan = False"
| "background (OpBeginPlan o' r) = False"
| "background (OpAcceptPlanResult r plan) = False"
| "background (OpAcceptPlanError r status) = False"
| "background _ = True"

inductive planning_step :: "planning_env \<Rightarrow> (string list \<Rightarrow> create_plan \<Rightarrow> bool) \<Rightarrow> planning \<Rightarrow> planning \<Rightarrow> bool"
  for env plans where
  background_edit: "background operation
    \<Longrightarrow> planning_step env plans st (on_workspace (cw_apply (pe_workspace env) operation) st)"
| source_added: "planning_step env plans st (runtime_addSources (pe_workspace env) dir paths st)"
| sources_cleared: "planning_step env plans st (clearCreateSources (pe_workspace env) st)"
| sources_removed: "planning_step env plans st (removeCreateSources (pe_workspace env) paths st)"
| options_set: "planning_step env plans st (runtime_setOptions (pe_workspace env) patch st)"
| format_changed: "planning_step env plans st (runtime_changeFormat (pe_workspace env) f d st)"
| submitted: "planning_step env plans st (resetSubmittedState (pe_workspace env) st)"
| reviewed: "planning_step env plans st (reviewSources env sources f d clean destination st)"
| replanned: "planning_step env plans st (queuePlanRun st)"
| elapsed: "planning_step env plans st (planTimerElapses env st)"
| resolved: "i < length (pn_runs st) \<Longrightarrow> plans (pq_sources (snd (pn_runs st ! i))) plan
    \<Longrightarrow> planning_step env plans st (settlePlan env i (PlanResolved plan) st)"
| rejected: "i < length (pn_runs st) \<Longrightarrow> planning_step env plans st (settlePlan env i (PlanRejected m) st)"

definition planning_init :: "planning \<Rightarrow> bool" where
  "planning_init st \<longleftrightarrow> cw_init (pn_workspace st) \<and> pn_timer st = None \<and> pn_runs st = []"

text \<open>The environment previews a plan of the sources it is given.\<close>

definition honest_preview :: "planning_env \<Rightarrow> (string list \<Rightarrow> create_plan \<Rightarrow> bool) \<Rightarrow> bool" where
  "honest_preview env plans \<longleftrightarrow> (\<forall>sources. plans sources (pe_browserPreview env sources))"

definition plan_awaited :: "planning \<Rightarrow> bool" where
  "plan_awaited st \<longleftrightarrow>
     pn_timer st = Some (cw_planRevision (pn_workspace st))
     \<or> cw_planRevision (pn_workspace st) \<in> fst ` set (pn_runs st)"

definition runs_current :: "planning \<Rightarrow> bool" where
  "runs_current st \<longleftrightarrow>
     (\<forall>run \<in> set (pn_runs st).
        fst run \<le> cw_planRevision (pn_workspace st)
        \<and> (fst run = cw_planRevision (pn_workspace st) \<longrightarrow> pq_sources (snd run) = cw_sources (pn_workspace st)))"

definition plan_of_sources :: "(string list \<Rightarrow> create_plan \<Rightarrow> bool) \<Rightarrow> cw_state \<Rightarrow> bool" where
  "plan_of_sources plans w \<longleftrightarrow> (\<forall>plan. cw_currentPlan w = Some plan \<longrightarrow> plans (cw_sources w) plan)"

definition planning_inv :: "(string list \<Rightarrow> create_plan \<Rightarrow> bool) \<Rightarrow> planning \<Rightarrow> bool" where
  "planning_inv plans st \<longleftrightarrow>
     (cw_planState (pn_workspace st) = CsLoading \<longrightarrow> plan_awaited st)
     \<and> runs_current st \<and> plan_of_sources plans (pn_workspace st)"

section \<open>Planning keeps its invariant\<close>

lemma begun_planner:
  "planner_of (beginQueuedPlanState w r) =
     (if cw_sources w = [] then (planner_of w)\<lparr> pl_phase := CsIdle, pl_plan := None, pl_revision := r \<rparr>
      else (planner_of w)\<lparr> pl_phase := CsLoading, pl_revision := r \<rparr>)"
  by (simp add: beginQueuedPlanState_def planner_of_def)

lemma begun_fields [simp]:
  "cw_sources (beginQueuedPlanState w r) = cw_sources w"
  "cw_planRevision (beginQueuedPlanState w r) = r"
  by (simp_all add: beginQueuedPlanState_def)

text \<open>What a change of the sources or the options, made before a plan is asked for, may do.\<close>

definition edited :: "cw_state \<Rightarrow> cw_state \<Rightarrow> bool" where
  "edited w w' \<longleftrightarrow>
     cw_planRevision w' = cw_planRevision w
     \<and> (cw_currentPlan w' = None \<or> cw_sources w' = cw_sources w \<and> cw_currentPlan w' = cw_currentPlan w)"

lemma same_planner:
  "planner_of w' = planner_of w \<longleftrightarrow>
     cw_sources w' = cw_sources w \<and> cw_planState w' = cw_planState w
     \<and> cw_currentPlan w' = cw_currentPlan w \<and> cw_planRevision w' = cw_planRevision w"
  by (auto simp: planner_of_def)

lemma edited_plan: "edited w w' \<Longrightarrow> plan_of_sources plans w \<Longrightarrow> plan_of_sources plans w'"
  by (auto simp: edited_def plan_of_sources_def)

lemma edited_trans: "edited u v \<Longrightarrow> edited v w \<Longrightarrow> edited u w"
  by (auto simp: edited_def)

lemma edited_same: "planner_of w' = planner_of w \<Longrightarrow> edited w w'"
  by (auto simp: edited_def same_planner)

lemma sources_edited:
  "edited w (fst (cw_addSources paths w))"
  "edited w (fst (cw_removeSources paths w))"
  "edited w (fst (cw_clearSources w))"
  by (simp_all add: cw_addSources_def cw_removeSources_def cw_clearSources_def Let_def resetPlanState_def edited_def)

lemma edited_options:
  "edited w (fst (cw_setOptions env patch w))"
  "edited w (fst (setDestinationPath path w))"
  by (simp_all add: cw_setOptions_def setDestinationPath_def Let_def refreshPlanAfterTransientInputEdit_def edited_def)

lemma unplanned_ops:
  "planner_of (fst (applyFormatDefaults env f d so w)) = planner_of w"
  "planner_of (fst (changeFormat env f d w)) = planner_of w"
  "planner_of (fst (suggestDestinationPathIfBlank env dir w)) = planner_of w"
  "planner_of (fst (cw_clearSelection env w)) = planner_of w"
  by (simp_all add: applyFormatDefaults_def changeFormat_def suggestDestinationPathIfBlank_def
      fill_blank_destination_def cw_clearSelection_def Let_def split: option.split)

definition runs_bounded :: "planning \<Rightarrow> bool" where
  "runs_bounded st \<longleftrightarrow> (\<forall>run \<in> set (pn_runs st). fst run \<le> cw_planRevision (pn_workspace st))"

lemma queued_planning_inv:
  assumes "runs_bounded st" and "plan_of_sources plans (pn_workspace st)"
  shows "planning_inv plans (queuePlanRun st)"
  using assms
  by (fastforce simp: planning_inv_def queuePlanRun_def cw_queuePlan_def Let_def plan_awaited_def
      runs_current_def runs_bounded_def plan_of_sources_def beginQueuedPlanState_def)

text \<open>An edit keeps what a new plan needs.\<close>

lemma edited_bounded:
  assumes "planning_inv plans st" and "edited (pn_workspace st) w"
  shows "runs_bounded (st\<lparr> pn_workspace := w \<rparr>)" and "plan_of_sources plans w"
  using assms edited_plan by (auto simp: runs_bounded_def planning_inv_def runs_current_def edited_def)

lemma edited_queue_inv:
  "planning_inv plans st \<Longrightarrow> edited (pn_workspace st) w \<Longrightarrow> planning_inv plans (queuePlanRun (st\<lparr> pn_workspace := w \<rparr>))"
  using edited_bounded queued_planning_inv by simp

lemma accepted_planner:
  "planner_of (fst (cw_acceptPlanResult env r plan w)) =
     (if r = cw_planRevision w then (planner_of w)\<lparr> pl_phase := CsReady, pl_plan := Some plan \<rparr> else planner_of w)"
  by (simp add: cw_acceptPlanResult_def planner_of_updates)

lemma accepted_fields:
  "cw_sources (fst (cw_acceptPlanResult env r plan w)) = cw_sources w"
  "cw_planRevision (fst (cw_acceptPlanResult env r plan w)) = cw_planRevision w"
  "cw_currentPlan (fst (cw_acceptPlanResult env r plan w)) = (if r = cw_planRevision w then Some plan else cw_currentPlan w)"
  "cw_planState (fst (cw_acceptPlanResult env r plan w)) = (if r = cw_planRevision w then CsReady else cw_planState w)"
  using arg_cong [OF accepted_planner [of env r plan w], of pl_sources]
    arg_cong [OF accepted_planner [of env r plan w], of pl_revision]
    arg_cong [OF accepted_planner [of env r plan w], of pl_plan]
    arg_cong [OF accepted_planner [of env r plan w], of pl_phase]
  by (simp_all split: if_splits)

lemma failed_fields:
  "cw_sources (fst (cw_acceptPlanError r status w)) = cw_sources w"
  "cw_planRevision (fst (cw_acceptPlanError r status w)) = cw_planRevision w"
  "cw_currentPlan (fst (cw_acceptPlanError r status w)) = cw_currentPlan w"
  "cw_planState (fst (cw_acceptPlanError r status w)) = (if r = cw_planRevision w then CsError else cw_planState w)"
  by (simp_all add: cw_acceptPlanError_def setPlanErrorState_def Let_def)

lemma run_planning_inv:
  assumes "runs_bounded st" and "plan_of_sources plans (pn_workspace st)" and "honest_preview env plans"
  shows "planning_inv plans (runPlan env None st)"
  using assms
  by (fastforce simp: planning_inv_def runPlan_def cw_beginPlan_def Let_def plan_awaited_def runs_current_def
      runs_bounded_def plan_of_sources_def honest_preview_def beginQueuedPlanState_def accepted_fields
      buildPlanCreateRequest_def)

lemma elapsed_planning_inv:
  assumes "planning_inv plans st" and "honest_preview env plans"
  shows "planning_inv plans (planTimerElapses env st)"
proof (cases "pn_timer st = Some (cw_planRevision (pn_workspace st))")
  case True
  then show ?thesis
    using assms
    by (fastforce simp: planning_inv_def planTimerElapses_def runPlan_def cw_beginPlan_def Let_def plan_awaited_def
        runs_current_def plan_of_sources_def honest_preview_def beginQueuedPlanState_def accepted_fields
        buildPlanCreateRequest_def)
next
  case False
  then show ?thesis
    using assms
    by (auto simp: planning_inv_def planTimerElapses_def runPlan_def cw_beginPlan_def Let_def plan_awaited_def
        runs_current_def plan_of_sources_def split: option.split)
qed

lemma remaining_runs: "i < length xs \<Longrightarrow> x \<in> set xs \<Longrightarrow> x \<noteq> xs ! i \<Longrightarrow> x \<in> set (take i xs @ drop (Suc i) xs)"
  by (subst (asm) id_take_nth_drop [of i xs]) auto

lemma removed_runs: "x \<in> set (take i xs @ drop j xs) \<Longrightarrow> x \<in> set xs"
  by (auto dest: in_set_takeD in_set_dropD)

lemma still_awaited:
  assumes "plan_awaited st" and "i < length (pn_runs st)" and "fst (pn_runs st ! i) \<noteq> cw_planRevision (pn_workspace st)"
  shows "pn_timer st = Some (cw_planRevision (pn_workspace st))
    \<or> cw_planRevision (pn_workspace st) \<in> fst ` set (take i (pn_runs st) @ drop (Suc i) (pn_runs st))"
proof (cases "pn_timer st = Some (cw_planRevision (pn_workspace st))")
  case False
  with assms(1) obtain run where run: "run \<in> set (pn_runs st)" and current: "cw_planRevision (pn_workspace st) = fst run"
    unfolding plan_awaited_def by blast
  have "run \<noteq> pn_runs st ! i" using assms(3) current by auto
  with assms(2) run have "run \<in> set (take i (pn_runs st) @ drop (Suc i) (pn_runs st))"
    by (intro remaining_runs)
  from imageI [OF this, of fst] show ?thesis unfolding current by (rule disjI2)
qed simp

lemma settled_planning_inv:
  assumes inv: "planning_inv plans st" and i: "i < length (pn_runs st)"
    and answer: "\<And>plan. outcome = PlanResolved plan \<Longrightarrow> plans (pq_sources (snd (pn_runs st ! i))) plan"
  shows "planning_inv plans (settlePlan env i outcome st)"
proof -
  have run: "pn_runs st ! i \<in> set (pn_runs st)" using i by simp
  have runs: "runs_current (settlePlan env i outcome st)"
    using inv by (auto simp: planning_inv_def runs_current_def settlePlan_def Let_def accepted_fields failed_fields
        split: plan_outcome.split dest: removed_runs in_set_takeD in_set_dropD)
  have plan: "plan_of_sources plans (pn_workspace (settlePlan env i outcome st))"
    using inv i run answer
    by (auto simp: planning_inv_def runs_current_def settlePlan_def Let_def plan_of_sources_def accepted_fields
        failed_fields split: plan_outcome.split)
  have "plan_awaited (settlePlan env i outcome st)" if "cw_planState (pn_workspace (settlePlan env i outcome st)) = CsLoading"
  proof -
    have old: "fst (pn_runs st ! i) \<noteq> cw_planRevision (pn_workspace st)" and "cw_planState (pn_workspace st) = CsLoading"
      using that i by (auto simp: settlePlan_def Let_def accepted_fields failed_fields split: plan_outcome.splits if_splits)
    then have "plan_awaited st" using inv by (simp add: planning_inv_def)
    from still_awaited [OF this i old] show ?thesis
      using i by (auto simp: plan_awaited_def settlePlan_def Let_def accepted_fields failed_fields split: plan_outcome.split)
  qed
  with runs plan show ?thesis by (simp add: planning_inv_def)
qed

text \<open>An operation in the background never starts a plan, and when it drops the sources it moves the revision on.\<close>

definition undisturbed :: "cw_state \<Rightarrow> cw_state \<Rightarrow> bool" where
  "undisturbed w w' \<longleftrightarrow>
     (cw_planState w' = CsLoading \<longrightarrow> cw_planState w = CsLoading) \<and> cw_planRevision w' = cw_planRevision w
     \<and> cw_sources w' = cw_sources w \<and> cw_currentPlan w' = cw_currentPlan w"

definition restarted_from :: "cw_state \<Rightarrow> cw_state \<Rightarrow> bool" where
  "restarted_from w w' \<longleftrightarrow>
     cw_planState w' = CsIdle \<and> cw_planRevision w' = cw_planRevision w + 1 \<and> cw_currentPlan w' = None"

lemma undisturbed_same: "planner_of w' = planner_of w \<Longrightarrow> undisturbed w w'"
  by (simp add: same_planner undisturbed_def)

lemma undisturbed_checked: "undisturbed w (fst (start_checked env i p w))"
  by (simp add: start_checked_def Let_def refuse_start_def setPlanErrorState_def undisturbed_def)

lemma undisturbed_from: "undisturbed (set_options o' w) w' = undisturbed w w'"
  by (simp add: undisturbed_def)

lemma undisturbed_start: "undisturbed w (fst (cw_buildStartCreateRequest env i w))"
proof -
  have "undisturbed w (fst (start_checked env i p (set_destination p w)))" for p
    using undisturbed_checked [of "set_destination p w"] unfolding undisturbed_from .
  then show ?thesis by (simp add: cw_buildStartCreateRequest_def Let_def undisturbed_checked)
qed

lemma undisturbed_options:
  "undisturbed w (fst (cw_setOptions env patch w))"
  "undisturbed w (fst (setDestinationPath path w))"
  "undisturbed w (refreshPlanAfterDestinationEdit w)"
  "undisturbed w (cw_setPlanError status w)"
  by (simp_all add: cw_setOptions_def setDestinationPath_def Let_def refreshPlanAfterTransientInputEdit_def
      refreshPlanAfterDestinationEdit_def cw_setPlanError_def setPlanErrorState_def undisturbed_def)

lemma reset_restarts:
  "fst (cw_reset w) = w \<or> restarted_from w (fst (cw_reset w))"
  "restarted_from w (fst (resetAfterAcceptedStart env f d w))"
  by (simp_all add: cw_reset_def resetAfterAcceptedStart_def restarted_def restarted_from_def Let_def)

lemma background_effect:
  assumes "background operation"
  shows "undisturbed w (cw_apply env operation w) \<or> restarted_from w (cw_apply env operation w)"
proof (cases "unplanned operation")
  case True
  then show ?thesis by (simp add: undisturbed_same unplanned_keeps)
next
  case False
  with assms show ?thesis
    using reset_restarts(1) [of w]
    by (cases operation) (auto simp: undisturbed_options undisturbed_start reset_restarts(2) undisturbed_same)
qed

lemma undisturbed_inv: "planning_inv plans st \<Longrightarrow> undisturbed (pn_workspace st) w \<Longrightarrow> planning_inv plans (st\<lparr> pn_workspace := w \<rparr>)"
  by (simp add: planning_inv_def undisturbed_def plan_awaited_def runs_current_def plan_of_sources_def)

lemma restarted_planning_inv:
  "planning_inv plans st \<Longrightarrow> restarted_from (pn_workspace st) w \<Longrightarrow> planning_inv plans (st\<lparr> pn_timer := t, pn_workspace := w \<rparr>)"
  "planning_inv plans st \<Longrightarrow> restarted_from (pn_workspace st) w \<Longrightarrow> planning_inv plans (st\<lparr> pn_workspace := w \<rparr>)"
  by (fastforce simp: planning_inv_def restarted_from_def runs_current_def plan_of_sources_def)+

lemma background_inv:
  "planning_inv plans st \<Longrightarrow> background operation
     \<Longrightarrow> planning_inv plans (on_workspace (cw_apply env operation) st)"
  using background_effect [of operation "pn_workspace st" env] undisturbed_inv restarted_planning_inv(2) by blast

lemma unchanged_sources:
  "\<not> sm_changed (snd (cw_addSources paths w)) \<Longrightarrow> fst (cw_addSources paths w) = w"
  "\<not> sm_changed (snd (cw_removeSources paths w)) \<Longrightarrow> fst (cw_removeSources paths w) = w"
  by (auto simp: cw_addSources_def cw_removeSources_def mutationResult_def Let_def split: if_splits)

lemma suggested_edit: "edited w v \<Longrightarrow> edited w (fst (suggestDestinationPathIfBlank env dir v))"
  by (rule edited_trans [OF _ edited_same]) (simp_all only: unplanned_ops)

lemma cleared_edit: "edited w v \<Longrightarrow> edited w (fst (cw_clearSelection env v))"
  by (rule edited_trans [OF _ edited_same]) (simp_all only: unplanned_ops)

lemma added_inv: "planning_inv plans st \<Longrightarrow> planning_inv plans (runtime_addSources env dir paths st)"
  using unchanged_sources(1) [of "map Some paths" "pn_workspace st"]
  by (simp add: runtime_addSources_def Let_def case_prod_unfold edited_queue_inv suggested_edit sources_edited)

lemma cleared_inv: "planning_inv plans st \<Longrightarrow> planning_inv plans (clearCreateSources env st)"
  by (simp add: clearCreateSources_def edited_queue_inv cleared_edit sources_edited)

lemma removed_inv: "planning_inv plans st \<Longrightarrow> planning_inv plans (removeCreateSources env paths st)"
  using unchanged_sources(2) [of "map Some paths" "pn_workspace st"]
  by (simp add: removeCreateSources_def Let_def case_prod_unfold edited_queue_inv cleared_edit sources_edited)

lemma option_inv:
  "planning_inv plans st \<Longrightarrow> planning_inv plans (runtime_setOptions env patch st)"
  "planning_inv plans st \<Longrightarrow> planning_inv plans (runtime_changeFormat env f d st)"
  by (simp_all add: runtime_setOptions_def runtime_changeFormat_def edited_queue_inv edited_options edited_same
      unplanned_ops)

lemma submitted_inv: "planning_inv plans st \<Longrightarrow> planning_inv plans (resetSubmittedState env st)"
  using restarted_planning_inv(1) [OF _ reset_restarts(2)]
  by (simp add: resetSubmittedState_def cancelQueuedPlanRun_def)

lemma review_edit:
  "edited w v \<Longrightarrow> edited w (fst (setDestinationPath path (fst (cw_setOptions env patch
     (fst (applyFormatDefaults env f d None v))))))"
  by (rule edited_trans [OF edited_trans [OF edited_trans [OF _ edited_same] edited_options(1)] edited_options(2)])
    (simp_all only: unplanned_ops)

lemma reviewed_inv:
  assumes "planning_inv plans st" and "honest_preview env plans"
  shows "planning_inv plans (reviewSources env sources f d clean destination st)"
proof -
  have "edited (pn_workspace st) w \<Longrightarrow> planning_inv plans (runPlan env None (cancelQueuedPlanRun (st\<lparr> pn_workspace := w \<rparr>)))" for w
    using edited_bounded [OF assms(1), of w] assms(2)
    by (intro run_planning_inv) (simp_all add: cancelQueuedPlanRun_def runs_bounded_def)
  then show ?thesis by (simp add: reviewSources_def Let_def review_edit sources_edited)
qed

lemma requeued_inv: "planning_inv plans st \<Longrightarrow> planning_inv plans (queuePlanRun st)"
  using edited_queue_inv [of plans st "pn_workspace st"] edited_same by simp

lemma planning_step_inv:
  assumes "planning_step env plans st st'" and "honest_preview env plans" and "planning_inv plans st"
  shows "planning_inv plans st'"
  using assms
proof (induction rule: planning_step.induct)
  case (resolved i st plan)
  then show ?case by (intro settled_planning_inv) auto
next
  case (rejected i st m)
  then show ?case by (intro settled_planning_inv) auto
qed (simp_all add: background_inv added_inv cleared_inv removed_inv option_inv submitted_inv reviewed_inv requeued_inv
      elapsed_planning_inv)

lemma planning_init_inv: "planning_init st \<Longrightarrow> planning_inv plans st"
  by (auto simp: planning_init_def cw_init_def createCreateWorkspace_def planning_inv_def runs_current_def
      plan_of_sources_def)

interpretation create_planning:
  machine planning_init "planning_step env plans" "\<lambda>st. honest_preview env plans \<longrightarrow> planning_inv plans st" for env plans
  by unfold_locales (auto intro: planning_init_inv planning_step_inv)

lemma reachable_planning:
  "reachable planning_init (planning_step env plans) st \<Longrightarrow> honest_preview env plans \<Longrightarrow> planning_inv plans st"
  using create_planning.reachable_inv by blast

section \<open>What planning guarantees\<close>

text \<open>C10: The workspace refines the abstract planner, operation by operation: an answer or a failure is taken
  exactly when it comes with the revision of the workspace and changes nothing otherwise; a plan is asked for with a
  new revision, or with the current one, and never with an old one; a change of the sources loses their plan; an edit of
  the options or of the destination recovers from an error only when there is a plan to show; and every operation
  that only changes the view leaves the sources, the phase, the plan and the revision as they were.\<close>

theorem workspace_refines_planner:
  "planner_step (event_of operation) (planner_of s) (planner_of (cw_apply env operation s))"
  by (rule operation_refines)

text \<open>The revision never goes back, over any run of operations.\<close>

lemma revision_monotone: "(cw_step env)\<^sup>*\<^sup>* s s' \<Longrightarrow> cw_planRevision s \<le> cw_planRevision s'"
  using planned.steps_guarantee [of env s s' "\<lambda>p q. pl_revision p \<le> pl_revision q"] planner_revision
  by (fastforce simp: planner_moves_def intro: order_trans)

text \<open>C11: Whatever the order in which plans are queued, timers elapse and runs settle, and however the sources change meanwhile, a plan that the workspace shows is a plan of the sources that it shows.\<close>

theorem shown_plan_is_of_shown_sources:
  assumes "reachable planning_init (planning_step env plans) st" and "honest_preview env plans"
    and "cw_currentPlan (pn_workspace st) = Some plan"
  shows "plans (cw_sources (pn_workspace st)) plan"
  using reachable_planning [OF assms(1,2)] assms(3) by (simp add: planning_inv_def plan_of_sources_def)

text \<open>Sources, a timer, a run and its answer.\<close>

definition example_answer :: "string list \<Rightarrow> create_plan" where
  "example_answer sources =
     (if sources = [''/docs''] then example_plan
      else example_plan\<lparr> cp_includedCount := 0, cp_totalBytes := 0, cp_entries := [], cp_planEntries := [] \<rparr>)"

definition example_planning_env :: planning_env where
  "example_planning_env =
     \<lparr> pe_workspace = example_env, pe_canUseBrowserPreview = False, pe_browserPreview = example_answer \<rparr>"

definition example_plans :: "string list \<Rightarrow> create_plan \<Rightarrow> bool" where
  "example_plans sources plan \<longleftrightarrow> plan = example_answer sources"

definition example_queued :: planning where
  "example_queued = runtime_addSources example_env None [''/docs'']
     \<lparr> pn_workspace = createCreateWorkspace None, pn_timer = None, pn_runs = [] \<rparr>"

definition example_planned :: planning where
  "example_planned = settlePlan example_planning_env 0 (PlanResolved example_plan)
     (planTimerElapses example_planning_env example_queued)"

lemma example_honest: "honest_preview example_planning_env example_plans"
  by (simp add: honest_preview_def example_plans_def example_planning_env_def)

lemma example_queued_reachable:
  "reachable planning_init (planning_step example_planning_env example_plans) example_queued"
proof (rule reachable.move)
  show "reachable planning_init (planning_step example_planning_env example_plans)
    \<lparr> pn_workspace = createCreateWorkspace None, pn_timer = None, pn_runs = [] \<rparr>"
    by (rule reachable.start) (auto simp: planning_init_def cw_init_def)
  show "planning_step example_planning_env example_plans
    \<lparr> pn_workspace = createCreateWorkspace None, pn_timer = None, pn_runs = [] \<rparr> example_queued"
    using planning_step.source_added [of example_planning_env]
    by (simp add: example_queued_def example_planning_env_def)
qed

lemma example_planned_reachable:
  "reachable planning_init (planning_step example_planning_env example_plans) example_planned"
proof -
  have "length (pn_runs (planTimerElapses example_planning_env example_queued)) = 1"
    and "pq_sources (snd (hd (pn_runs (planTimerElapses example_planning_env example_queued)))) = [''/docs'']"
    by code_simp+
  then have "planning_step example_planning_env example_plans
      (planTimerElapses example_planning_env example_queued) example_planned"
    unfolding example_planned_def by (intro planning_step.resolved) (auto simp: example_plans_def example_answer_def length_Suc_conv)
  then show ?thesis
    using reachable.move [OF example_queued_reachable planning_step.elapsed] by (rule reachable.move [rotated])
qed

theorem shown_plan_is_of_shown_sources_witness:
  "example_plans (cw_sources (pn_workspace example_planned)) example_plan
   \<and> cw_sources (pn_workspace example_planned) = [''/docs'']"
proof -
  have "cw_currentPlan (pn_workspace example_planned) = Some example_plan"
    and sources: "cw_sources (pn_workspace example_planned) = [''/docs'']"
    by code_simp+
  with shown_plan_is_of_shown_sources [OF example_planned_reachable example_honest] show ?thesis by blast
qed

lemma late_answer:
  "fst (pn_runs st ! i) \<noteq> cw_planRevision (pn_workspace st) \<Longrightarrow> pn_workspace (settlePlan env i outcome st) = pn_workspace st"
  by (simp add: settlePlan_def Let_def cw_acceptPlanResult_def cw_acceptPlanError_def split: plan_outcome.split)

lemma settled_phase:
  "i < length (pn_runs st) \<Longrightarrow> fst (pn_runs st ! i) = cw_planRevision (pn_workspace st)
     \<Longrightarrow> cw_planState (pn_workspace (settlePlan env i outcome st)) \<noteq> CsLoading"
  by (cases outcome) (simp_all add: settlePlan_def Let_def accepted_fields failed_fields)

text \<open>C12: A workspace that is loading gets its answer: once the timer has elapsed, either it no longer loads, or one of the awaited runs is such that the workspace stops loading however that run settles.\<close>

theorem loading_ends:
  assumes "reachable planning_init (planning_step env plans) st" and "honest_preview env plans"
  shows "cw_planState (pn_workspace (planTimerElapses env st)) \<noteq> CsLoading
    \<or> (\<exists>i < length (pn_runs (planTimerElapses env st)).
         \<forall>outcome. cw_planState (pn_workspace (settlePlan env i outcome (planTimerElapses env st))) \<noteq> CsLoading)"
proof (cases "cw_planState (pn_workspace (planTimerElapses env st)) = CsLoading")
  case True
  have "planning_inv plans (planTimerElapses env st)"
    using reachable_planning [OF assms] assms(2) by (rule elapsed_planning_inv)
  with True have awaited: "plan_awaited (planTimerElapses env st)" by (simp add: planning_inv_def)
  have "pn_timer (planTimerElapses env st) = None"
    by (simp add: planTimerElapses_def runPlan_def Let_def case_prod_unfold
        split: option.split begin_plan_result.split)
  with awaited obtain i where "i < length (pn_runs (planTimerElapses env st))"
    and "fst (pn_runs (planTimerElapses env st) ! i) = cw_planRevision (pn_workspace (planTimerElapses env st))"
    by (auto simp: plan_awaited_def in_set_conv_nth)
  then show ?thesis using settled_phase by blast
qed simp

theorem loading_ends_witness:
  "cw_planState (pn_workspace example_queued) = CsLoading
   \<and> cw_planState (pn_workspace (planTimerElapses example_planning_env example_queued)) = CsLoading
   \<and> (\<exists>i < length (pn_runs (planTimerElapses example_planning_env example_queued)).
          \<forall>outcome. cw_planState (pn_workspace (settlePlan example_planning_env i outcome
            (planTimerElapses example_planning_env example_queued))) \<noteq> CsLoading)"
proof -
  have "cw_planState (pn_workspace example_queued) = CsLoading"
    and "cw_planState (pn_workspace (planTimerElapses example_planning_env example_queued)) = CsLoading" by code_simp+
  with loading_ends [OF example_queued_reachable example_honest] show ?thesis by blast
qed

text \<open>
  The plan is made without following symbolic links, whatever the options say: the default options of the controller
  are written over those of the workspace.  The request of a creation takes the option of the workspace.
\<close>

theorem plan_never_follows_symlinks:
  "snd (cw_beginPlan (Some DEFAULT_PLAN_OPTIONS) revision s) = PlanStarts n request \<Longrightarrow> \<not> pq_followSymlinks request"
  by (auto simp: cw_beginPlan_def Let_def DEFAULT_PLAN_OPTIONS_def merge_plan_options_def buildPlanCreateRequest_def
      nullish_def split: if_splits)

end
