(* ===== verification/QuickActions.thy ===== *)
theory QuickActions
  imports PreferencesProps ArchiveFileTypes Lifecycle CreatePlanning
begin

text \<open>
  The actions of the shell: \<^verbatim>\<open>src/src/app/quickActions.ts\<close> and \<^verbatim>\<open>controllers/quickActionController.ts\<close>, with the two
  path functions of \<^verbatim>\<open>src/src/runtime/zmanagerRuntimeAdapter.ts\<close>.

  A function that awaits is given what it awaits, in order: the answers of the backend to the requests and of the
  user to the prompts.  What it does to the rest of the program is the list of its effects.  When the answers run
  out the function is still waiting.
\<close>

section \<open>Paths\<close>

definition trim_separators :: "string \<Rightarrow> string" where
  "trim_separators path = rev (dropWhile (\<lambda>c. c = CHR 0x2F \<or> c = CHR 0x5C) (rev (js_trim path)))"

definition nativeParentPath :: "string \<Rightarrow> string" where
  "nativeParentPath path =
     (let trimmed = trim_separators path;
          parent = rev (drop 1 (dropWhile (\<lambda>c. c \<noteq> CHR 0x2F \<and> c \<noteq> CHR 0x5C) (rev trimmed)))
      in parent)"

definition runtime_joinNativePath :: "string \<Rightarrow> string \<Rightarrow> string" where
  "runtime_joinNativePath parentPath childName =
     (let trimmedParent = trim_separators parentPath
      in if trimmedParent = [] then childName
         else trimmedParent @ (if CHR 0x5C \<in> set trimmedParent then CHR 0x5C else CHR 0x2F) # childName)"

record path_helpers =
  qh_nativeParentPath :: "string \<Rightarrow> string"
  qh_joinNativePath :: "string \<Rightarrow> string \<Rightarrow> string"

definition runtime_path_helpers :: path_helpers where
  "runtime_path_helpers = \<lparr> qh_nativeParentPath = nativeParentPath, qh_joinNativePath = runtime_joinNativePath \<rparr>"

definition uniqueQuickActionPaths :: "string list \<Rightarrow> string list" where
  "uniqueQuickActionPaths paths = js_set (filter (\<lambda>p. p \<noteq> []) (map js_trim paths))"

definition unsupportedQuickExtractPath :: "string list \<Rightarrow> string option" where
  "unsupportedQuickExtractPath paths = find (\<lambda>path. \<not> isSupportedArchivePath path) (uniqueQuickActionPaths paths)"

definition quickCreateDestination :: "path_helpers \<Rightarrow> string list \<Rightarrow> create_format \<Rightarrow> app_preferences \<Rightarrow> string" where
  "quickCreateDestination helpers paths format preferences =
     (let firstPath = (case paths of [] \<Rightarrow> [] | p # _ \<Rightarrow> p);
          outputDirectory =
            nullish (case defaultCreateDirectory preferences of
                       Some d \<Rightarrow> Some d
                     | None \<Rightarrow> commonSourceParentDirectory (qh_nativeParentPath helpers) paths)
              (qh_nativeParentPath helpers firstPath);
          name = suggestedCreateArchiveName paths format ''archive'' False
      in withCreateArchiveExtension
           (if outputDirectory \<noteq> [] then qh_joinNativePath helpers outputDirectory name else name) format False)"

definition quickExtractDestination :: "path_helpers \<Rightarrow> string \<Rightarrow> extraction_action \<Rightarrow> string" where
  "quickExtractDestination helpers archivePath action =
     (let parent = qh_nativeParentPath helpers archivePath; policy = archiveExtractionPolicy action
      in if ep_destination policy = ArchiveParent then parent
         else let folderName = baseNameWithoutKnownArchiveExtension archivePath
              in if parent \<noteq> [] then qh_joinNativePath helpers parent folderName else folderName)"

definition quickExtractDestinationCollisionStrategy :: "extraction_action \<Rightarrow> collision_strategy option" where
  "quickExtractDestinationCollisionStrategy action = ep_strategy (archiveExtractionPolicy action)"

definition quickExtractSingleRootFolder :: "(string \<times> string option) list \<Rightarrow> string option" where
  "quickExtractSingleRootFolder entries = singleArchiveRootFolder entries"

definition quickExtractDestinationPlan ::
    "path_helpers \<Rightarrow> string \<Rightarrow> extraction_action \<Rightarrow> (string \<times> string option) list option
       \<Rightarrow> string \<times> nat \<times> collision_strategy option" where
  "quickExtractDestinationPlan helpers archivePath action entries =
     (let destinationPath = quickExtractDestination helpers archivePath action;
          rootFolder = (case entries of None \<Rightarrow> None | Some es \<Rightarrow> quickExtractSingleRootFolder es)
      in (destinationPath, quickExtractPathPolicy action (truthy rootFolder)))"

section \<open>Which action does what\<close>

datatype quick_dispatch =
    QdOpenArchive "string list"
  | QdOpenCreateReview "string list" create_format bool
  | QdStartCreate "string list" create_format bool
  | QdOpenExtractReview "string list"
  | QdStartExtract "string list" extraction_action
  | QdNothing

definition quick_create :: "app_preferences \<Rightarrow> string list \<Rightarrow> create_format \<Rightarrow> quick_dispatch" where
  "quick_create preferences paths format =
     QdStartCreate paths format (fd_cleanSource (createDefaultsForFormat preferences format))"

fun runQuickActionRequest :: "shell_action \<Rightarrow> string list \<Rightarrow> app_preferences \<Rightarrow> quick_dispatch" where
  "runQuickActionRequest SaOpen paths p = QdOpenArchive paths"
| "runQuickActionRequest SaCompress paths p =
     QdOpenCreateReview paths (ap_defaultArchiveFormat p)
       (fd_cleanSource (createDefaultsForFormat p (ap_defaultArchiveFormat p)))"
| "runQuickActionRequest SaExtract paths p =
     (case ap_defaultExtractionBehavior p of
        AskEveryTime \<Rightarrow> QdOpenExtractReview paths
      | BehaviorHere \<Rightarrow> QdStartExtract paths ExtractHere
      | BehaviorToFolder \<Rightarrow> QdStartExtract paths ExtractToFolder)"
| "runQuickActionRequest SaCompressZip paths p = quick_create p paths CfZip"
| "runQuickActionRequest SaCompressTzap paths p = quick_create p paths CfTzap"
| "runQuickActionRequest SaCompressSevenZ paths p = quick_create p paths CfSevenZ"
| "runQuickActionRequest SaCompressTarZst paths p = quick_create p paths CfTarZst"
| "runQuickActionRequest SaCompressTarGz paths p = quick_create p paths CfTarGz"
| "runQuickActionRequest SaCompressAppleArchive paths p = quick_create p paths CfAppleArchive"
| "runQuickActionRequest SaCompressCleanSource paths p = QdStartCreate paths CfTarZst True"
| "runQuickActionRequest SaExtractHere paths p = QdStartExtract paths ExtractHere"
| "runQuickActionRequest SaExtractToFolder paths p = QdStartExtract paths ExtractToFolder"
| "runQuickActionRequest SaCompressShareOnLan paths p = QdNothing"
| "runQuickActionRequest SaShareOnLan paths p = QdNothing"

section \<open>Effects and answers\<close>

datatype quick_message =
    QmCreateNeedsSource | QmCreateNeedsDestination | QmCreateStarting | QmCreateCancelled | QmCreateStarted
  | QmCreatePlanning | QmCreateReview | QmCreateNeedsReview
  | QmExtractNeedsArchive | QmExtractOneArchive | QmExtractChooseOptions | QmUnsupported string | QmChooseDestination string

datatype quick_status = QsText string | QsUnableStart | QsUnableExtract string

datatype quick_effect =
    QeMessage quick_message
  | QeStatus quick_status
  | QeStartCreate start_create_request
  | QeStartExtract start_extract_request
  | QeHandoff start_job_response
  | QeRecordCreate string
  | QeRecordExtract string
  | QePromptNew
  | QePromptRetry string
  | QeBrowseError string string
  | QeLoad string
  | QeOpenExtractDialog

text \<open>
  The backend rejects a request, or accepts it; handing the accepted job over may throw too.  The error is what
  \<open>toCommandError\<close> makes of what is thrown.
\<close>

datatype job_answer =
    JobRejected "command_error option"
  | JobAccepted start_job_response
  | HandoffFailed start_job_response "command_error option"

section \<open>Creating\<close>

definition quick_create_input_of ::
    "string list \<Rightarrow> string \<Rightarrow> create_format \<Rightarrow> bool \<Rightarrow> format_create_defaults \<Rightarrow> string option \<Rightarrow> quick_create_input" where
  "quick_create_input_of sources destinationPath format cleanSource d password =
     \<lparr> qc_sources = map Some sources, qc_destinationPath = destinationPath, qc_format = format,
       qc_cleanSource = cleanSource, qc_replaceExisting = fd_replaceExisting d,
       qc_destinationCollisionStrategy =
         resolveDestinationCollisionStrategy
           \<lparr> cx_isDisposableTask = None, cx_isQuickAction = Some True, cx_replaceExisting = Some (fd_replaceExisting d),
             cx_overwrite = None, cx_strategy = None \<rparr>,
       qc_preserveMetadata = fd_preserveMetadata d, qc_password = password,
       qc_compressionLevel = fd_compressionLevel d, qc_volumeSize = fd_volumeSize d,
       qc_respectGitignore = fd_respectGitignore d, qc_followSymlinks = fd_followSymlinks d,
       qc_tzapRecoveryPercentage = fd_tzapRecoveryPercentage d,
       qc_tzapVolumeLossTolerance = fd_tzapVolumeLossTolerance d, qc_zipCompression = fd_zipCompression d,
       qc_sevenZSolid = fd_sevenZSolid d, qc_sevenZThreads = fd_sevenZThreads d,
       qc_sevenZChunkSize = fd_sevenZChunkSize d, qc_sevenZEncryptFileNames = fd_sevenZEncryptFileNames d \<rparr>"

definition create_failed :: "command_error option \<Rightarrow> quick_effect" where
  "create_failed err = QeStatus (case err of Some e \<Rightarrow> QsText (ce_message e) | None \<Rightarrow> QsUnableStart)"

definition create_answered :: "start_create_request \<Rightarrow> job_answer \<Rightarrow> quick_effect list" where
  "create_answered request answer =
     (case answer of
        JobRejected err \<Rightarrow> [create_failed err]
      | JobAccepted response \<Rightarrow>
          [QeRecordCreate (sc_destinationPath request), QeHandoff response, QeMessage QmCreateStarted]
      | HandoffFailed response err \<Rightarrow>
          [QeRecordCreate (sc_destinationPath request), QeHandoff response, create_failed err])"

text \<open>\<open>prompted\<close> is the answer to the prompt for a password, \<open>answer\<close> that of the backend.\<close>

definition startQuickCreate ::
    "path_helpers \<Rightarrow> app_preferences \<Rightarrow> string list \<Rightarrow> create_format \<Rightarrow> bool \<Rightarrow> string option \<Rightarrow> job_answer
       \<Rightarrow> quick_effect list" where
  "startQuickCreate helpers preferences paths format cleanSource prompted answer =
     (let sources = uniqueQuickActionPaths paths;
          destinationPath = quickCreateDestination helpers sources format preferences;
          defaults = createDefaultsForFormat preferences format;
          prompts = (fd_promptForPassword defaults \<and> createFormatSupportsPassword format);
          password = (if prompts then prompted else None)
      in if sources = [] then [QeMessage QmCreateNeedsSource]
         else if destinationPath = [] then [QeMessage QmCreateNeedsDestination]
         else QeMessage QmCreateStarting # (if prompts then [QePromptNew] else [])
           @ (if prompts \<and> \<not> truthy prompted then [QeMessage QmCreateCancelled]
              else case buildQuickCreateStartRequest
                          (quick_create_input_of sources destinationPath format cleanSource defaults password) of
                     Inl QuickNeedsSources \<Rightarrow> [QeMessage QmCreateNeedsSource]
                   | Inl QuickNeedsDestination \<Rightarrow> [QeMessage QmCreateNeedsDestination]
                   | Inr request \<Rightarrow> QeStartCreate request # create_answered request answer))"

text \<open>
  The review: the sources and their plan in the create workspace.  \<open>review_message\<close> is shown when the plan is
  there, on the state of that moment.
\<close>

definition openQuickCreateReview ::
    "planning_env \<Rightarrow> path_helpers \<Rightarrow> app_preferences \<Rightarrow> string list \<Rightarrow> create_format \<Rightarrow> bool \<Rightarrow> planning
       \<Rightarrow> planning \<times> quick_effect list" where
  "openQuickCreateReview env helpers preferences paths format cleanSource st =
     (let sources = uniqueQuickActionPaths paths
      in if sources = [] then (st, [QeMessage QmCreateNeedsSource])
         else (reviewSources env sources format (createDefaultsForFormat preferences format) cleanSource
                 (\<lambda>sources. quickCreateDestination helpers sources format preferences) st,
               [QeMessage QmCreatePlanning]))"

definition review_message :: "planning \<Rightarrow> quick_effect" where
  "review_message st =
     QeMessage (if cw_planState (pn_workspace st) = CsReady \<and> cw_currentPlan (pn_workspace st) \<noteq> None
                then QmCreateReview else QmCreateNeedsReview)"

section \<open>Extracting\<close>

definition quickExtractOverwrite :: "overwrite_policy \<Rightarrow> overwrite_policy" where
  "quickExtractOverwrite policy = (if policy = OwReplace \<or> policy = OwAsk then policy else OwRename)"

text \<open>The state of browsing after the archive has been loaded for the review.\<close>

definition openQuickExtractReview :: "string list \<Rightarrow> browse_state \<Rightarrow> quick_effect list" where
  "openQuickExtractReview paths browseState =
     (case uniqueQuickActionPaths paths of
        [archivePath] \<Rightarrow>
          if archivePath = [] \<or> \<not> isSupportedArchivePath archivePath then [QeMessage (QmUnsupported archivePath)]
          else QeLoad archivePath
            # (if browseState \<noteq> BsLoaded \<and> browseState \<noteq> BsEmpty then []
               else [QeMessage QmExtractChooseOptions, QeOpenExtractDialog])
      | _ \<Rightarrow> [QeMessage QmExtractOneArchive])"

definition quick_extract_request ::
    "app_preferences \<Rightarrow> string \<Rightarrow> string \<times> nat \<times> collision_strategy option \<Rightarrow> string option \<Rightarrow> start_extract_request" where
  "quick_extract_request preferences archivePath plan password =
     (let (destinationPath, stripComponents, strategy) = plan;
          overwrite = quickExtractOverwrite (ap_defaultExtractOverwrite preferences)
      in buildStartExtractRequest
           \<lparr> bx_archivePath = archivePath, bx_destinationPath = destinationPath, bx_overwrite = overwrite,
             bx_strategy = (if overwrite = OwRename then strategy else None),
             bx_stripComponents = js_nat stripComponents, bx_password = nonempty_opt password,
             bx_entryPaths = None, bx_selectAll = None, bx_excludedEntryPaths = None,
             bx_tzapRestorePolicy = Some (ap_defaultTzapRestorePolicy preferences),
             bx_tzapAllowAbsoluteSymlinks = Some (ap_defaultTzapAllowAbsoluteSymlinks preferences),
             bx_ignoreSymlinks = Some (ap_defaultExtractIgnoreSymlinks preferences), bx_recipientKeyId = None \<rparr>)"

definition isPasswordCommandError :: "command_error option \<Rightarrow> bool" where
  "isPasswordCommandError err \<longleftrightarrow>
     (case err of None \<Rightarrow> False | Some e \<Rightarrow> ce_code e = ''password_required'' \<or> ce_code e = ''invalid_password'')"

definition extract_status :: "string \<Rightarrow> command_error option \<Rightarrow> quick_effect" where
  "extract_status archivePath err =
     QeStatus (case err of Some e \<Rightarrow> QsText (ce_message e) | None \<Rightarrow> QsUnableExtract archivePath)"

definition extract_hint :: "command_error option \<Rightarrow> quick_effect list" where
  "extract_hint err =
     (case err of Some e \<Rightarrow> if truthy (ce_hint e) then [QeBrowseError (ce_message e) (the (ce_hint e))] else [] | None \<Rightarrow> [])"

text \<open>
  The loop of one archive: a request, its answer, and after a password error a prompt (its answer is the second
  part) and the next turn.  The second result tells that the loop has been left.
\<close>

fun extract_attempts ::
    "app_preferences \<Rightarrow> string \<Rightarrow> string \<times> nat \<times> collision_strategy option \<Rightarrow> string option
       \<Rightarrow> (job_answer \<times> string option) list \<Rightarrow> quick_effect list \<times> bool" where
  "extract_attempts preferences archivePath plan password [] =
     ([QeStartExtract (quick_extract_request preferences archivePath plan password)], False)"
| "extract_attempts preferences archivePath plan password ((answer, reply) # answers) =
     (let request = QeStartExtract (quick_extract_request preferences archivePath plan password);
          accepted = (case answer of
                        JobRejected err \<Rightarrow> []
                      | JobAccepted response \<Rightarrow> [QeRecordExtract (fst plan), QeHandoff response]
                      | HandoffFailed response err \<Rightarrow> [QeRecordExtract (fst plan), QeHandoff response]);
          failed = (case answer of JobRejected err \<Rightarrow> Some err | JobAccepted response \<Rightarrow> None | HandoffFailed response err \<Rightarrow> Some err)
      in case failed of
           None \<Rightarrow> (request # accepted, True)
         | Some err \<Rightarrow>
             if isPasswordCommandError err
             then (let prompt = QePromptRetry (case err of None \<Rightarrow> [] | Some e \<Rightarrow> ce_code e)
                   in if \<not> truthy reply then (request # accepted @ [prompt, extract_status archivePath err], True)
                      else let (effects, left) = extract_attempts preferences archivePath plan reply answers
                           in (request # accepted @ prompt # effects, left))
             else (request # accepted @ extract_status archivePath err # extract_hint err, True))"

text \<open>What is awaited for one archive: the listing, when the action needs it, and the answers.\<close>

datatype listing_answer = ListingThrew | Listed browse_state "(string \<times> string option) list"

record archive_script =
  as_listing :: listing_answer
  as_answers :: "(job_answer \<times> string option) list"

definition listed_entries :: "listing_answer \<Rightarrow> (string \<times> string option) list option" where
  "listed_entries answer =
     (case answer of ListingThrew \<Rightarrow> None | Listed state entries \<Rightarrow> if state = BsLoaded \<or> state = BsEmpty then Some entries else None)"

definition extract_archive ::
    "path_helpers \<Rightarrow> app_preferences \<Rightarrow> extraction_action \<Rightarrow> string \<Rightarrow> archive_script \<Rightarrow> quick_effect list \<times> bool" where
  "extract_archive helpers preferences action archivePath script =
     (let here = (action = ExtractHere);
          entries = (if here then listed_entries (as_listing script) else None);
          plan = quickExtractDestinationPlan helpers archivePath action entries;
          (effects, left) =
            (if fst plan = [] then ([QeMessage (QmChooseDestination archivePath)], True)
             else extract_attempts preferences archivePath plan None (as_answers script))
      in ((if here then [QeLoad archivePath] else []) @ effects, left))"

text \<open>One script for each archive that is supported.\<close>

fun extract_archives ::
    "path_helpers \<Rightarrow> app_preferences \<Rightarrow> extraction_action \<Rightarrow> string list \<Rightarrow> archive_script list \<Rightarrow> quick_effect list" where
  "extract_archives helpers preferences action [] scripts = []"
| "extract_archives helpers preferences action (archivePath # archives) scripts =
     (if \<not> isSupportedArchivePath archivePath
      then QeMessage (QmUnsupported archivePath) # extract_archives helpers preferences action archives scripts
      else case scripts of
             [] \<Rightarrow>
               if action = ExtractHere then [QeLoad archivePath]
               else fst (extract_archive helpers preferences action archivePath \<lparr> as_listing = ListingThrew, as_answers = [] \<rparr>)
           | script # scripts \<Rightarrow>
               let (effects, left) = extract_archive helpers preferences action archivePath script
               in effects @ (if left then extract_archives helpers preferences action archives scripts else []))"

definition startQuickExtract ::
    "path_helpers \<Rightarrow> app_preferences \<Rightarrow> string list \<Rightarrow> extraction_action \<Rightarrow> archive_script list \<Rightarrow> quick_effect list" where
  "startQuickExtract helpers preferences paths action scripts =
     (let archives = uniqueQuickActionPaths paths
      in if archives = [] then [QeMessage QmExtractNeedsArchive]
         else extract_archives helpers preferences action archives scripts)"

section \<open>What the actions guarantee\<close>

fun request_of :: "quick_effect \<Rightarrow> start_extract_request option" where
  "request_of (QeStartExtract r) = Some r"
| "request_of _ = None"

fun is_prompt :: "quick_effect \<Rightarrow> bool" where
  "is_prompt (QePromptRetry code) = True"
| "is_prompt _ = False"

definition requests :: "quick_effect list \<Rightarrow> start_extract_request list" where
  "requests effects = List.map_filter request_of effects"

definition prompts :: "quick_effect list \<Rightarrow> nat" where
  "prompts effects = length (filter is_prompt effects)"

lemma requests_simps [simp]:
  "requests [] = []"
  "requests (e # es) = (case request_of e of None \<Rightarrow> requests es | Some r \<Rightarrow> r # requests es)"
  "requests (es @ fs) = requests es @ requests fs"
  by (simp_all add: requests_def List.map_filter_def split: option.split)

lemma prompts_simps [simp]:
  "prompts [] = 0"
  "prompts (e # es) = (if is_prompt e then 1 else 0) + prompts es"
  "prompts (es @ fs) = prompts es + prompts fs"
  by (simp_all add: prompts_def)

lemma hint_requests [simp]: "requests (extract_hint err) = []" "prompts (extract_hint err) = 0"
  by (simp_all add: extract_hint_def split: option.split)

lemma status_effect [simp]: "request_of (extract_status a err) = None" "\<not> is_prompt (extract_status a err)"
  by (simp_all add: extract_status_def)

text \<open>The answers of the user to the prompts of a script.\<close>

definition replies :: "(job_answer \<times> string option) list \<Rightarrow> string option set" where
  "replies answers = insert None (snd ` set answers)"

lemma attempts_requests:
  "r \<in> set (requests (fst (extract_attempts preferences a plan password answers)))
     \<Longrightarrow> \<exists>p \<in> insert password (replies answers). r = quick_extract_request preferences a plan p"
proof (induction preferences a plan password answers rule: extract_attempts.induct)
  case (1 preferences a plan password)
  then show ?case by simp
next
  case (2 preferences a plan password answer reply answers)
  then show ?case
    by (cases answer) (auto simp: replies_def Let_def case_prod_unfold split: if_splits)
qed

lemma attempts_count:
  "length (requests (fst (extract_attempts preferences a plan password answers)))
     \<le> 1 + prompts (fst (extract_attempts preferences a plan password answers))"
proof (induction preferences a plan password answers rule: extract_attempts.induct)
  case (2 preferences a plan password answer reply answers)
  then show ?case
    by (cases answer) (auto simp: Let_def case_prod_unfold split: if_splits)
qed simp

lemma attempts_first: "requests (fst (extract_attempts preferences a plan password answers)) \<noteq> []"
proof (cases answers)
  case (Cons step rest)
  then show ?thesis
    by (cases step; cases "fst step") (auto simp: Let_def case_prod_unfold)
qed simp

lemma request_fields:
  "sx_archivePath (quick_extract_request preferences a plan p) = a"
  "sx_destinationPath (quick_extract_request preferences a plan p) = fst plan"
  "sx_overwrite (quick_extract_request preferences a plan p) = quickExtractOverwrite (ap_defaultExtractOverwrite preferences)"
  "sx_strategy (quick_extract_request preferences a plan p)
     = (if quickExtractOverwrite (ap_defaultExtractOverwrite preferences) = OwRename then snd (snd plan) else None)"
  "sx_password (quick_extract_request preferences a plan p) = nonempty_opt p"
  by (simp_all add: quick_extract_request_def case_prod_unfold buildStartExtractRequest_def Let_def nonempty_opt_def)

lemma plan_destination: "fst (quickExtractDestinationPlan helpers a action entries) = quickExtractDestination helpers a action"
  by (simp add: quickExtractDestinationPlan_def Let_def)

lemma plan_strategy:
  "snd (snd (quickExtractDestinationPlan helpers a action entries)) = (if action = ExtractToFolder then Some CsRename else None)"
  by (cases action) (simp_all add: quickExtractDestinationPlan_def quickExtractPathPolicy_def Let_def)

definition safe_request ::
    "path_helpers \<Rightarrow> app_preferences \<Rightarrow> extraction_action \<Rightarrow> string set \<Rightarrow> string option set \<Rightarrow> start_extract_request \<Rightarrow> bool" where
  "safe_request helpers preferences action archives passwords r \<longleftrightarrow>
     sx_archivePath r \<in> archives \<and> isSupportedArchivePath (sx_archivePath r)
     \<and> sx_destinationPath r = quickExtractDestination helpers (sx_archivePath r) action \<and> sx_destinationPath r \<noteq> []
     \<and> sx_overwrite r = (if ap_defaultExtractOverwrite preferences \<in> {OwReplace, OwAsk}
                           then ap_defaultExtractOverwrite preferences else OwRename)
     \<and> sx_strategy r = (if sx_overwrite r = OwRename \<and> action = ExtractToFolder then Some CsRename else None)
     \<and> sx_password r \<in> insert None passwords"

lemma archive_requests:
  assumes "isSupportedArchivePath a" and "r \<in> set (requests (fst (extract_archive helpers preferences action a script)))"
  shows "safe_request helpers preferences action {a} (replies (as_answers script)) r"
proof -
  define plan where "plan = quickExtractDestinationPlan helpers a action
    (if action = ExtractHere then listed_entries (as_listing script) else None)"
  have nonempty: "fst plan \<noteq> []" and "r \<in> set (requests (fst (extract_attempts preferences a plan None (as_answers script))))"
    using assms(2) by (auto simp: extract_archive_def Let_def plan_def case_prod_unfold split: if_splits)
  from attempts_requests [OF this(2)] obtain p where p: "p \<in> replies (as_answers script)"
    and r: "r = quick_extract_request preferences a plan p" by (auto simp: replies_def)
  have "nonempty_opt p \<in> insert None (replies (as_answers script))" using p by (simp add: nonempty_opt_def)
  then show ?thesis
    using assms(1) nonempty
    by (simp add: safe_request_def r request_fields plan_def plan_destination plan_strategy quickExtractOverwrite_def)
qed

lemma safe_request_mono:
  "safe_request helpers preferences action A P r \<Longrightarrow> A \<subseteq> B \<Longrightarrow> P \<subseteq> Q \<Longrightarrow> safe_request helpers preferences action B Q r"
  by (auto simp: safe_request_def)

definition script_replies :: "archive_script list \<Rightarrow> string option set" where
  "script_replies scripts = (\<Union>script \<in> set scripts. replies (as_answers script))"

lemma archives_requests:
  "r \<in> set (requests (extract_archives helpers preferences action archives scripts))
     \<Longrightarrow> safe_request helpers preferences action (set archives) (insert None (script_replies scripts)) r"
proof (induction helpers preferences action archives scripts rule: extract_archives.induct)
  case (2 helpers preferences action a archives scripts)
  show ?case
  proof (cases "isSupportedArchivePath a")
    case False
    with 2 show ?thesis by (auto intro: safe_request_mono)
  next
    case supported: True
    show ?thesis
    proof (cases scripts)
      case Nil
      with 2(3) supported archive_requests [OF supported, of r helpers preferences action "\<lparr> as_listing = ListingThrew, as_answers = [] \<rparr>"]
      show ?thesis by (auto simp: replies_def intro: safe_request_mono split: if_splits)
    next
      case (Cons script rest)
      consider "r \<in> set (requests (fst (extract_archive helpers preferences action a script)))"
        | "r \<in> set (requests (extract_archives helpers preferences action archives rest))"
          "snd (extract_archive helpers preferences action a script)"
        using 2(3) supported Cons by (auto simp: case_prod_unfold Let_def split: if_splits)
      then show ?thesis
      proof cases
        case 1
        from archive_requests [OF supported 1] show ?thesis
          by (rule safe_request_mono) (auto simp: script_replies_def Cons)
      next
        case 2
        have "(fst (extract_archive helpers preferences action a script), True) = extract_archive helpers preferences action a script"
          using 2(2) by (intro prod_eqI) simp_all
        then have "safe_request helpers preferences action (set archives) (insert None (script_replies rest)) r"
          using "2.IH"(2) [OF _ Cons refl, of "fst (extract_archive helpers preferences action a script)"
              "snd (extract_archive helpers preferences action a script)"] supported 2 by simp
        then show ?thesis by (rule safe_request_mono) (auto simp: script_replies_def Cons)
      qed
    qed
  qed
qed simp

text \<open>C21: Whatever the backend and the user answer, every extraction that a quick action asks for is of a supported archive of the selection, into the folder that the action prescribes, without replacing files unless the preferences say so, with a renamed folder only where conflicts are renamed, and with no password but one that the user gave.\<close>

theorem quick_extract_requests_are_safe:
  assumes "r \<in> set (requests (startQuickExtract helpers preferences paths action scripts))"
  shows "safe_request helpers preferences action (set (uniqueQuickActionPaths paths)) (script_replies scripts) r"
proof -
  have "safe_request helpers preferences action (set (uniqueQuickActionPaths paths)) (insert None (script_replies scripts)) r"
    using assms by (intro archives_requests) (auto simp: startQuickExtract_def Let_def split: if_splits)
  then show ?thesis unfolding safe_request_def insert_absorb2 .
qed

text \<open>The tries of the archives: each script is used up before the next archive, unless the loop is left.\<close>

definition all_left ::
    "path_helpers \<Rightarrow> app_preferences \<Rightarrow> extraction_action \<Rightarrow> string list \<Rightarrow> archive_script list \<Rightarrow> bool" where
  "all_left helpers preferences action archives scripts \<longleftrightarrow>
     length scripts = length (filter isSupportedArchivePath archives)
     \<and> list_all2 (\<lambda>a script. snd (extract_archive helpers preferences action a script))
         (filter isSupportedArchivePath archives) scripts"

definition archive_handled ::
    "path_helpers \<Rightarrow> extraction_action \<Rightarrow> quick_effect list \<Rightarrow> string \<Rightarrow> bool" where
  "archive_handled helpers action effects a \<longleftrightarrow>
     (if \<not> isSupportedArchivePath a then QeMessage (QmUnsupported a) \<in> set effects
      else if quickExtractDestination helpers a action = [] then QeMessage (QmChooseDestination a) \<in> set effects
      else a \<in> sx_archivePath ` set (requests effects))"

lemma handled_mono:
  "archive_handled helpers action es a \<Longrightarrow> archive_handled helpers action (es @ fs) a"
  "archive_handled helpers action fs a \<Longrightarrow> archive_handled helpers action (es @ fs) a"
  by (auto simp: archive_handled_def split: if_splits)

lemma one_archive_handled:
  assumes "isSupportedArchivePath a"
  shows "archive_handled helpers action (fst (extract_archive helpers preferences action a script)) a"
proof (cases "quickExtractDestination helpers a action = []")
  case True
  then show ?thesis
    using assms by (simp add: archive_handled_def extract_archive_def Let_def plan_destination)
next
  case False
  let ?r = "requests (fst (extract_archive helpers preferences action a script))"
  have "?r \<noteq> []"
    using False attempts_first by (simp add: extract_archive_def Let_def plan_destination case_prod_unfold)
  then obtain r where r: "r \<in> set ?r" by (cases ?r) auto
  have "sx_archivePath r = a" using archive_requests [OF assms r] by (simp add: safe_request_def)
  with r False assms show ?thesis by (auto simp: archive_handled_def)
qed

lemma archives_handled:
  "all_left helpers preferences action archives scripts \<Longrightarrow> a \<in> set archives
     \<Longrightarrow> archive_handled helpers action (extract_archives helpers preferences action archives scripts) a"
proof (induction archives arbitrary: scripts)
  case (Cons b archives)
  show ?case
  proof (cases "isSupportedArchivePath b")
    case False
    then have "all_left helpers preferences action archives scripts" using Cons.prems by (simp add: all_left_def)
    from Cons.IH [OF this] Cons.prems(2) False show ?thesis
      using handled_mono(2) [of helpers action _ a "[QeMessage (QmUnsupported b)]"]
      by (auto simp: archive_handled_def)
  next
    case True
    with Cons.prems(1) obtain script rest where scripts: "scripts = script # rest"
      and left: "snd (extract_archive helpers preferences action b script)" "all_left helpers preferences action archives rest"
      by (cases scripts) (auto simp: all_left_def)
    have "extract_archives helpers preferences action (b # archives) scripts
        = fst (extract_archive helpers preferences action b script) @ extract_archives helpers preferences action archives rest"
      using True left by (simp add: scripts case_prod_unfold Let_def)
    moreover have "a = b \<or> archive_handled helpers action (extract_archives helpers preferences action archives rest) a"
      using Cons.IH [OF left(2)] Cons.prems(2) by auto
    ultimately show ?thesis
      using one_archive_handled [OF True] handled_mono by metis
  qed
qed simp

text \<open>An archive that fails, or that is not supported, does not keep a quick action from the others: when every loop has been left, each archive of the selection has been asked for, or the user has been told that it is not supported or has no folder to go to.\<close>

theorem quick_extract_handles_all:
  assumes "all_left helpers preferences action (uniqueQuickActionPaths paths) scripts" and "a \<in> set (uniqueQuickActionPaths paths)"
  shows "archive_handled helpers action (startQuickExtract helpers preferences paths action scripts) a"
  using archives_handled [OF assms] assms(2) by (auto simp: startQuickExtract_def Let_def)

text \<open>One request more than prompts for a password: only a password error is tried again, and only with a new password.\<close>

lemma archive_request_count:
  "length (requests (fst (extract_archive helpers preferences action a script)))
     \<le> 1 + prompts (fst (extract_archive helpers preferences action a script))"
  using attempts_count by (auto simp: extract_archive_def Let_def case_prod_unfold)

text \<open>An archive that needs a password, and a file that is no archive.\<close>

definition example_scripts :: "archive_script list" where
  "example_scripts =
     [\<lparr> as_listing = ListingThrew,
        as_answers =
          [(JobRejected (Some \<lparr> ce_code = ''password_required'', ce_message = ''locked'', ce_hint = None,
              ce_severity = SevWarning, ce_retryable = True \<rparr>), Some ''pw''),
           (JobAccepted \<lparr> sj_jobId = ''1'', sj_kind = JkZipExtract, sj_status = JsQueued, sj_createdAt = [] \<rparr>, None)] \<rparr>]"

definition example_selection :: "string list" where
  "example_selection = ['' /t/a.zip '', ''/t/b.txt'', ''/t/a.zip'']"

abbreviation example_run :: "quick_effect list" where
  "example_run \<equiv> startQuickExtract runtime_path_helpers (DEFAULT_APP_PREFERENCES None) example_selection ExtractToFolder example_scripts"

theorem quick_extract_requests_are_safe_witness:
  "map sx_password (requests example_run) = [None, Some ''pw'']
   \<and> sx_destinationPath (requests example_run ! 0) = ''/t/a'' \<and> sx_overwrite (requests example_run ! 1) = OwAsk"
proof -
  have passwords: "map sx_password (requests example_run) = [None, Some ''pw'']" by code_simp
  then have two: "length (requests example_run) = 2" by (metis length_map length_Cons list.size(3) numeral_2_eq_2)
  have paths: "uniqueQuickActionPaths example_selection = [''/t/a.zip'', ''/t/b.txt'']"
    and "\<not> isSupportedArchivePath ''/t/b.txt''"
    and "quickExtractDestination runtime_path_helpers ''/t/a.zip'' ExtractToFolder = ''/t/a''" by code_simp+
  then have ok: "sx_destinationPath r = ''/t/a'' \<and> sx_overwrite r = OwAsk" if "r \<in> set (requests example_run)" for r
    using quick_extract_requests_are_safe [OF that] by (auto simp: safe_request_def DEFAULT_APP_PREFERENCES_def)
  from two have "requests example_run ! 0 \<in> set (requests example_run)" and "requests example_run ! 1 \<in> set (requests example_run)"
    by (simp_all del: One_nat_def)
  with ok passwords show ?thesis by blast
qed

theorem quick_extract_handles_all_witness:
  "archive_handled runtime_path_helpers ExtractToFolder example_run ''/t/a.zip''
   \<and> QeMessage (QmUnsupported ''/t/b.txt'') \<in> set example_run"
proof -
  have left: "all_left runtime_path_helpers (DEFAULT_APP_PREFERENCES None) ExtractToFolder (uniqueQuickActionPaths example_selection) example_scripts"
    unfolding all_left_def by code_simp
  have "''/t/a.zip'' \<in> set (uniqueQuickActionPaths example_selection)" "''/t/b.txt'' \<in> set (uniqueQuickActionPaths example_selection)"
    and "\<not> isSupportedArchivePath ''/t/b.txt''" by code_simp+
  with quick_extract_handles_all [OF left] show ?thesis by (fastforce simp: archive_handled_def)
qed

end
