(* ===== verification/ArchiveLoad.thy ===== *)
theory ArchiveLoad
  imports WorkspaceMachine
begin

text \<open>
  Loading an archive into the archive workspace (\<open>controllers/archiveLoadController.ts\<close>): index sessions of the
  backend, the pages of a folder or a search, the folders of the tree, and the password loop.

  The controller is asynchronous.  Its variables are the record \<open>load_state\<close>; every place where one of its functions
  awaits is a constructor of \<open>load_task\<close>, which holds the local variables that are used afterwards; \<open>resume\<close> is what
  the function does from there to its next await or its end.  The calls it makes are written to a trace.  The inner
  function \<open>acceptFolder\<close> is resumed together with the function that awaits it.  Counts of entries and page numbers are
  naturals.
\<close>

section \<open>What the backend answers\<close>

datatype index_status = IxIndexing | IxReady | IxEmpty | IxFailed | IxCancelled

record index_snapshot =
  ix_revision :: string
  ix_sessionId :: string
  ix_archivePath :: string
  ix_status :: index_status
  ix_discoveredEntries :: nat
  ix_discoveredBytes :: "nat option"
  ix_finalEntryCount :: "nat option"
  ix_finalTotalBytes :: "nat option"
  ix_latestFailure :: "command_error option"

record children_page =
  cp_sessionId :: string
  cp_parentPath :: string
  cp_entries :: "archive_entry list"
  cp_nextCursor :: "string option"
  cp_childCount :: nat

section \<open>The state of the controller\<close>

definition VISIBLE_PAGE_LIMIT :: nat where
  "VISIBLE_PAGE_LIMIT = 200"

definition MAX_TREE_SUMMARY_ENTRIES :: nat where
  "MAX_TREE_SUMMARY_ENTRIES = 2048"

record index_session =
  is_sessionId :: string
  is_revision :: string
  is_archivePath :: string
  is_entryCount :: nat
  is_totalSize :: "nat option"
  is_parentPath :: string
  is_cursor :: "string option"
  is_nextCursor :: "string option"
  is_previousCursors :: "string option list"
  is_pageNumber :: nat
  is_query :: "string option"

text \<open>A request of entries: of a folder, or of a search (then without a folder); the tree asks for no order.\<close>

record entries_request =
  er_sessionId :: string
  er_parentPath :: "string option"
  er_query :: "string option"
  er_cursor :: "string option"
  er_limit :: nat
  er_sort :: "ws_sort option"

datatype load_error_text = LtWithHint command_error | LtMessage string | LtFailedList

datatype load_event =
    EvEnterExtract
  | EvStart string "string option"
  | EvOpened string
  | EvWait string string
  | EvEntries entries_request
  | EvClose string
  | EvPrompt password_retry
  | EvLoadError load_error_text

text \<open>The local variables of \<open>acceptFolder\<close> and of \<open>loadArchive\<close>.\<close>

record page_run =
  pu_session :: index_session
  pu_requestId :: nat
  pu_parentPath :: string
  pu_generation :: nat
  pu_cursor :: "string option"
  pu_pageNumber :: nat
  pu_previousCursors :: "string option list"
  pu_query :: "string option"
  pu_renderUnchanged :: bool

record load_run =
  lr_archivePath :: string
  lr_password :: "string option"
  lr_preserveState :: bool
  lr_preservedFolder :: string
  lr_generation :: nat

datatype load_task =
    AwaitClose load_run
  | AwaitStart load_run
  | AwaitIndex load_run string
  | AwaitPartialPage load_run string index_snapshot page_run
  | AwaitInitialPage load_run index_snapshot page_run
  | AwaitRetry load_run password_retry "command_error option"
  | AwaitPage page_run
  | AwaitTree string nat string nat

datatype load_answer =
    AnClosed
  | AnStarted string index_snapshot
  | AnIndexed index_snapshot
  | AnEntries children_page
  | AnReply "string option"
  | AnRejected "command_error option"

type_synonym page_signature =
  "string \<times> string option \<times> string option \<times> nat \<times> (string \<times> archive_entry_kind \<times> jsnum option \<times> jsnum option) list"

record load_state =
  ls_active :: "index_session option"
  ls_generation :: nat
  ls_pageRequestId :: nat
  ls_lastSignature :: "page_signature option"
  ls_workspace :: ws_state
  ls_tasks :: "load_task list"
  ls_trace :: "load_event list"

record load_env =
  le_columns :: "string \<Rightarrow> column_settings"
  le_workspace :: ws_env

definition emit :: "load_event \<Rightarrow> load_state \<Rightarrow> load_state" where
  "emit e st = st\<lparr> ls_trace := ls_trace st @ [e] \<rparr>"

definition await :: "load_task \<Rightarrow> load_state \<Rightarrow> load_state" where
  "await task st = st\<lparr> ls_tasks := ls_tasks st @ [task] \<rparr>"

definition active_id :: "load_state \<Rightarrow> string option" where
  "active_id st = map_option is_sessionId (ls_active st)"

section \<open>Sessions and pages\<close>

definition closeActive :: "load_state \<Rightarrow> load_state" where
  "closeActive st =
     (case ls_active st of
        None \<Rightarrow> st
      | Some previous \<Rightarrow> emit (EvClose (is_sessionId previous)) (st\<lparr> ls_active := None \<rparr>))"

definition entries_request_of :: "index_session \<Rightarrow> string \<Rightarrow> string option \<Rightarrow> string option \<Rightarrow> ws_sort \<Rightarrow> entries_request" where
  "entries_request_of session parentPath cursor query order =
     \<lparr> er_sessionId = is_sessionId session, er_parentPath = (if query = None then Some parentPath else None),
       er_query = query, er_cursor = nonempty_opt cursor, er_limit = VISIBLE_PAGE_LIMIT, er_sort = Some order \<rparr>"

text \<open>\<open>acceptFolder\<close> until it awaits the entries, and from there on; the flag tells that it returns the page.\<close>

definition requestFolder ::
    "string \<Rightarrow> nat \<Rightarrow> string option \<Rightarrow> nat \<Rightarrow> string option list \<Rightarrow> string option \<Rightarrow> bool \<Rightarrow> load_state
       \<Rightarrow> load_state \<times> page_run option" where
  "requestFolder parentPath expectedGeneration cursor pageNumber previousCursors query renderUnchanged st =
     (case ls_active st of
        None \<Rightarrow> (st, None)
      | Some session \<Rightarrow>
          let requestId = ls_pageRequestId st + 1;
              order = wv_sort (ws_view (ls_workspace st))
          in (emit (EvEntries (entries_request_of session parentPath cursor query order))
                (st\<lparr> ls_pageRequestId := requestId \<rparr>),
              Some \<lparr> pu_session = session, pu_requestId = requestId, pu_parentPath = parentPath,
                     pu_generation = expectedGeneration, pu_cursor = cursor, pu_pageNumber = pageNumber,
                     pu_previousCursors = previousCursors, pu_query = query,
                     pu_renderUnchanged = renderUnchanged \<rparr>))"

definition pageSignature :: "page_run \<Rightarrow> children_page \<Rightarrow> page_signature" where
  "pageSignature run page =
     (cp_parentPath page, pu_cursor run, cp_nextCursor page, cp_childCount page,
      map (\<lambda>entry. (ae_path entry, ae_kind entry, ae_size entry, ae_compressedSize entry)) (cp_entries page))"

definition acceptFolder :: "page_run \<Rightarrow> children_page \<Rightarrow> load_state \<Rightarrow> load_state \<times> bool" where
  "acceptFolder run page st =
     (if pu_requestId run \<noteq> ls_pageRequestId st \<or> pu_generation run \<noteq> ls_generation st
         \<or> active_id st \<noteq> Some (cp_sessionId page) then (st, False)
      else
        let session = pu_session run;
            taken = st\<lparr> ls_active := Some (session\<lparr> is_parentPath := cp_parentPath page, is_cursor := pu_cursor run,
                         is_nextCursor := cp_nextCursor page, is_previousCursors := pu_previousCursors run,
                         is_pageNumber := pu_pageNumber run, is_query := pu_query run \<rparr>) \<rparr>
        in if \<not> pu_renderUnchanged run \<and> ls_lastSignature st = Some (pageSignature run page) then (taken, True)
           else (taken\<lparr> ls_lastSignature := Some (pageSignature run page),
                   ls_workspace := acceptPage
                     \<lparr> lp_archivePath = is_archivePath session, lp_parentPath = pu_parentPath run,
                       lp_entries = cp_entries page, lp_entryCount = js_nat (is_entryCount session),
                       lp_totalSize = map_option js_nat (is_totalSize session),
                       lp_pageNumber = Some (js_nat (pu_pageNumber run)),
                       lp_childCount = Some (js_nat (cp_childCount page)),
                       lp_hasPrevious = Some (pu_previousCursors run \<noteq> []),
                       lp_hasNext = Some (truthy (cp_nextCursor page)) \<rparr> (ls_workspace st) \<rparr>, True))"

section \<open>Loading an archive\<close>

definition index_session_of :: "string \<Rightarrow> index_snapshot \<Rightarrow> nat \<Rightarrow> nat option \<Rightarrow> string \<Rightarrow> index_session" where
  "index_session_of sessionId snapshot entryCount totalSize parentPath =
     \<lparr> is_sessionId = sessionId, is_revision = ix_revision snapshot, is_archivePath = ix_archivePath snapshot,
       is_entryCount = entryCount, is_totalSize = totalSize, is_parentPath = parentPath, is_cursor = None,
       is_nextCursor = None, is_previousCursors = [], is_pageNumber = 1, is_query = None \<rparr>"

text \<open>The head of the loop: a new generation, and the old session is closed.\<close>

definition begin_attempt :: "load_run \<Rightarrow> load_state \<Rightarrow> load_state" where
  "begin_attempt run st =
     (let requestGeneration = ls_generation st + 1
      in await (AwaitClose (run\<lparr> lr_generation := requestGeneration \<rparr>))
           (closeActive (st\<lparr> ls_generation := requestGeneration \<rparr>)))"

definition loadArchive :: "string \<Rightarrow> string option \<Rightarrow> bool \<Rightarrow> load_state \<Rightarrow> load_state" where
  "loadArchive archivePath password preserveState st =
     begin_attempt
       \<lparr> lr_archivePath = archivePath, lr_password = map_option js_trim password, lr_preserveState = preserveState,
         lr_preservedFolder = (if preserveState then wv_currentFolder (ws_view (ls_workspace st)) else []),
         lr_generation = ls_generation st \<rparr> (emit EvEnterExtract st)"

definition start_index :: "load_env \<Rightarrow> load_run \<Rightarrow> load_state \<Rightarrow> load_state" where
  "start_index env run st =
     await (AwaitStart run)
       (emit (EvStart (lr_archivePath run) (nonempty_opt (lr_password run)))
         (st\<lparr> ls_lastSignature := None,
            ls_workspace := beginLoading
              \<lparr> bl_archivePath = lr_archivePath run, bl_preserveListing = lr_preserveState run,
                bl_tableColumns = Some (le_columns env (lr_archivePath run)) \<rparr> (ls_workspace st) \<rparr>))"

definition wait_index :: "load_run \<Rightarrow> string \<Rightarrow> string \<Rightarrow> load_state \<Rightarrow> load_state" where
  "wait_index run sessionId afterRevision st = await (AwaitIndex run sessionId) (emit (EvWait sessionId afterRevision) st)"

text \<open>The \<open>catch\<close> of the loop.\<close>

definition load_failure_of :: "command_error option \<Rightarrow> load_failure" where
  "load_failure_of err = (case err of Some e \<Rightarrow> LfCommand e | None \<Rightarrow> LfUnknown)"

definition load_failed :: "load_run \<Rightarrow> command_error option \<Rightarrow> load_state \<Rightarrow> load_state" where
  "load_failed run commandError st =
     (if lr_generation run \<noteq> ls_generation st then st
      else
        let workspace = requestPasswordRetry RoListArchive commandError (ls_workspace st)
        in case ws_passwordRetry workspace of
             None \<Rightarrow>
               emit (EvLoadError (case commandError of Some e \<Rightarrow> LtWithHint e | None \<Rightarrow> LtFailedList))
                 (st\<lparr> ls_workspace := loadFailed (load_failure_of commandError) workspace \<rparr>)
           | Some retry \<Rightarrow>
               await (AwaitRetry run retry commandError) (closeActive (st\<lparr> ls_workspace := workspace \<rparr>)))"

definition prompt_retry :: "load_run \<Rightarrow> password_retry \<Rightarrow> command_error option \<Rightarrow> string option \<Rightarrow> load_state \<Rightarrow> load_state" where
  "prompt_retry run retry commandError nextPassword st =
     (let prompted = emit (EvPrompt retry) st
      in if \<not> truthy nextPassword
         then emit (EvLoadError (case commandError of Some e \<Rightarrow> LtMessage (ce_message e) | None \<Rightarrow> LtFailedList))
                (prompted\<lparr> ls_workspace := loadFailed (load_failure_of commandError) (ls_workspace prompted) \<rparr>)
         else begin_attempt (run\<lparr> lr_password := nextPassword \<rparr>) prompted)"

definition session_current :: "load_run \<Rightarrow> string \<Rightarrow> load_state \<Rightarrow> bool" where
  "session_current run sessionId st \<longleftrightarrow> lr_generation run = ls_generation st \<and> active_id st = Some sessionId"

text \<open>From the end of the indexing loop.\<close>

definition index_done :: "load_run \<Rightarrow> index_snapshot \<Rightarrow> load_state \<Rightarrow> load_state" where
  "index_done run terminal st =
     (if \<not> session_current run (ix_sessionId terminal) st then st
      else if ix_status terminal = IxFailed \<or> ix_status terminal = IxCancelled
      then load_failed run (ix_latestFailure terminal) st
      else
        let entryCount = nullish (ix_finalEntryCount terminal) (ix_discoveredEntries terminal);
            session = index_session_of (ix_sessionId terminal) terminal entryCount (ix_finalTotalBytes terminal)
                        (lr_preservedFolder run);
            (requested, page) = requestFolder (lr_preservedFolder run) (lr_generation run) None 1 [] None True
                                  (st\<lparr> ls_active := Some session \<rparr>)
        in case page of None \<Rightarrow> requested | Some p \<Rightarrow> await (AwaitInitialPage run terminal p) requested)"

definition index_started :: "load_run \<Rightarrow> string \<Rightarrow> index_snapshot \<Rightarrow> load_state \<Rightarrow> load_state" where
  "index_started run sessionId snapshot st =
     (let opened = emit (EvOpened sessionId) st
      in if lr_generation run \<noteq> ls_generation st then emit (EvClose sessionId) opened
         else
           let session = index_session_of sessionId snapshot (ix_discoveredEntries snapshot) None [];
               begun = opened\<lparr> ls_active := Some session \<rparr>
           in if ix_status snapshot = IxIndexing then wait_index run sessionId (ix_revision snapshot) begun
              else index_done run snapshot begun)"

definition index_answered :: "load_run \<Rightarrow> string \<Rightarrow> index_snapshot \<Rightarrow> load_state \<Rightarrow> load_state" where
  "index_answered run sessionId terminal st =
     (if \<not> session_current run (ix_sessionId terminal) st then st
      else
        let session = index_session_of (ix_sessionId terminal) terminal (ix_discoveredEntries terminal)
                        (ix_discoveredBytes terminal) (lr_preservedFolder run);
            known = st\<lparr> ls_active := Some session \<rparr>
        in if ix_status terminal \<noteq> IxIndexing then index_done run terminal known
           else if ix_discoveredEntries terminal = 0 then wait_index run sessionId (ix_revision terminal) known
           else
             let (requested, page) = requestFolder (lr_preservedFolder run) (lr_generation run) None 1 [] None False known
             in case page of
                  None \<Rightarrow> wait_index run sessionId (ix_revision terminal) requested
                | Some p \<Rightarrow> await (AwaitPartialPage run sessionId terminal p) requested)"

definition initial_page :: "index_snapshot \<Rightarrow> page_run \<Rightarrow> children_page \<Rightarrow> load_state \<Rightarrow> load_state" where
  "initial_page terminal p page st =
     (let (accepted, returned) = acceptFolder p page st
      in if nullish (ix_finalEntryCount terminal) 0 = 0 \<and> returned \<and> cp_childCount page = 0
         then accepted\<lparr> ls_workspace := setBrowseState BsEmpty None (ls_workspace accepted) \<rparr> else accepted)"

section \<open>Folders, searches and pages\<close>

definition await_page :: "load_state \<times> page_run option \<Rightarrow> load_state" where
  "await_page requested = (case requested of (st, None) \<Rightarrow> st | (st, Some p) \<Rightarrow> await (AwaitPage p) st)"

definition loadFolder :: "string \<Rightarrow> load_state \<Rightarrow> load_state" where
  "loadFolder parentPath st = await_page (requestFolder parentPath (ls_generation st) None 1 [] None True st)"

definition loadSearch :: "string \<Rightarrow> load_state \<Rightarrow> load_state" where
  "loadSearch query st =
     (case ls_active st of
        None \<Rightarrow> st
      | Some session \<Rightarrow>
          await_page (requestFolder (is_parentPath session) (ls_generation st) None 1 [] (Some query) True st))"

definition loadNextPage :: "load_state \<Rightarrow> load_state" where
  "loadNextPage st =
     (case ls_active st of
        None \<Rightarrow> st
      | Some session \<Rightarrow>
          if \<not> truthy (is_nextCursor session) then st
          else await_page (requestFolder (is_parentPath session) (ls_generation st) (is_nextCursor session)
                 (is_pageNumber session + 1) (is_previousCursors session @ [is_cursor session]) (is_query session) True st))"

definition loadPreviousPage :: "load_state \<Rightarrow> load_state" where
  "loadPreviousPage st =
     (case ls_active st of
        None \<Rightarrow> st
      | Some session \<Rightarrow>
          if is_previousCursors session = [] then st
          else await_page (requestFolder (is_parentPath session) (ls_generation st) (last (is_previousCursors session))
                 (max 1 (is_pageNumber session - 1)) (butlast (is_previousCursors session)) (is_query session) True st))"

definition request_tree :: "string \<Rightarrow> nat \<Rightarrow> string \<Rightarrow> string option \<Rightarrow> nat \<Rightarrow> load_state \<Rightarrow> load_state" where
  "request_tree sessionId expectedGeneration parentPath cursor loadedEntries st =
     await (AwaitTree sessionId expectedGeneration parentPath loadedEntries)
       (emit (EvEntries
          \<lparr> er_sessionId = sessionId, er_parentPath = Some parentPath, er_query = None,
            er_cursor = nonempty_opt cursor, er_limit = VISIBLE_PAGE_LIMIT, er_sort = None \<rparr>) st)"

definition loadTreeFolder :: "string \<Rightarrow> load_state \<Rightarrow> load_state" where
  "loadTreeFolder parentPath st =
     (case ls_active st of
        None \<Rightarrow> st
      | Some session \<Rightarrow> request_tree (is_sessionId session) (ls_generation st) parentPath None 0 st)"

definition tree_page :: "string \<Rightarrow> nat \<Rightarrow> string \<Rightarrow> nat \<Rightarrow> children_page \<Rightarrow> load_state \<Rightarrow> load_state" where
  "tree_page sessionId expectedGeneration parentPath loadedEntries page st =
     (if expectedGeneration \<noteq> ls_generation st \<or> active_id st \<noteq> Some (cp_sessionId page) then st
      else
        let accepted = st\<lparr> ls_workspace := acceptTreePage (cp_entries page) (ls_workspace st) \<rparr>;
            loaded = loadedEntries + length (cp_entries page)
        in if truthy (cp_nextCursor page) \<and> loaded < MAX_TREE_SUMMARY_ENTRIES
           then request_tree sessionId expectedGeneration parentPath (cp_nextCursor page) loaded accepted
           else accepted)"

definition close_index :: "load_state \<Rightarrow> load_state" where
  "close_index st = closeActive (st\<lparr> ls_generation := ls_generation st + 1 \<rparr>)"

section \<open>Resuming\<close>

text \<open>What an awaiting function does when it is answered; no result if the answer is not one to what is awaited.\<close>

fun resume :: "load_env \<Rightarrow> load_task \<Rightarrow> load_answer \<Rightarrow> load_state \<Rightarrow> load_state option" where
  "resume env (AwaitClose run) AnClosed st = Some (start_index env run st)"
| "resume env (AwaitStart run) (AnStarted sessionId snapshot) st = Some (index_started run sessionId snapshot st)"
| "resume env (AwaitStart run) (AnRejected err) st = Some (load_failed run err st)"
| "resume env (AwaitIndex run sessionId) (AnIndexed terminal) st = Some (index_answered run sessionId terminal st)"
| "resume env (AwaitIndex run sessionId) (AnRejected err) st = Some (load_failed run err st)"
| "resume env (AwaitPartialPage run sessionId terminal p) (AnEntries page) st =
     Some (wait_index run sessionId (ix_revision terminal) (fst (acceptFolder p page st)))"
| "resume env (AwaitPartialPage run sessionId terminal p) (AnRejected err) st = Some (load_failed run err st)"
| "resume env (AwaitInitialPage run terminal p) (AnEntries page) st = Some (initial_page terminal p page st)"
| "resume env (AwaitInitialPage run terminal p) (AnRejected err) st = Some (load_failed run err st)"
| "resume env (AwaitRetry run retry err) (AnReply reply) st = Some (prompt_retry run retry err reply st)"
| "resume env (AwaitPage p) (AnEntries page) st = Some (fst (acceptFolder p page st))"
| "resume env (AwaitPage p) (AnRejected err) st = Some st"
| "resume env (AwaitTree sessionId generation parentPath loaded) (AnEntries page) st =
     Some (tree_page sessionId generation parentPath loaded page st)"
| "resume env (AwaitTree sessionId generation parentPath loaded) (AnRejected err) st = Some st"
| "resume env task answer st = None"

definition settle_load :: "load_env \<Rightarrow> nat \<Rightarrow> load_answer \<Rightarrow> load_state \<Rightarrow> load_state" where
  "settle_load env i answer st =
     (if i < length (ls_tasks st)
      then nullish (resume env (ls_tasks st ! i) answer
             (st\<lparr> ls_tasks := take i (ls_tasks st) @ drop (Suc i) (ls_tasks st) \<rparr>)) st
      else st)"

end
