(* ===== verification/ArchiveLoadProps.thy ===== *)
theory ArchiveLoadProps
  imports ArchiveLoad WorkspaceProps
begin

text \<open>
  The archive loader as a machine: its steps, the invariant of its sessions, loads and pages, and what follows:
  every index session that was opened is the active one or has been closed, late answers are dropped, the previous
  page is the one that was left, and loading a folder of the tree ends.
\<close>

section \<open>The steps\<close>

text \<open>A page is an answer for the session it was asked of.\<close>

fun honest_answer :: "load_task \<Rightarrow> load_answer \<Rightarrow> bool" where
  "honest_answer (AwaitPartialPage run sessionId terminal p) (AnEntries page) =
     (cp_sessionId page = is_sessionId (pu_session p))"
| "honest_answer (AwaitInitialPage run terminal p) (AnEntries page) = (cp_sessionId page = is_sessionId (pu_session p))"
| "honest_answer (AwaitPage p) (AnEntries page) = (cp_sessionId page = is_sessionId (pu_session p))"
| "honest_answer (AwaitTree sessionId generation parentPath loaded) (AnEntries page) = (cp_sessionId page = sessionId)"
| "honest_answer task answer = True"

inductive load_step :: "load_env \<Rightarrow> load_state \<Rightarrow> load_state \<Rightarrow> bool" for env where
  edited: "load_step env st (st\<lparr> ls_workspace := ws_apply (le_workspace env) operation (ls_workspace st) \<rparr>)"
| archive: "load_step env st (loadArchive archivePath password preserveState st)"
| folder: "load_step env st (loadFolder parentPath st)"
| search: "load_step env st (loadSearch query st)"
| tree: "load_step env st (loadTreeFolder parentPath st)"
| next_page: "load_step env st (loadNextPage st)"
| previous_page: "load_step env st (loadPreviousPage st)"
| closes: "load_step env st (close_index st)"
| settled: "i < length (ls_tasks st) \<Longrightarrow> honest_answer (ls_tasks st ! i) answer
    \<Longrightarrow> load_step env st (settle_load env i answer st)"

inductive_cases load_stepE: "load_step env st st'"

definition load_init :: "load_state \<Rightarrow> bool" where
  "load_init st \<longleftrightarrow> ws_initial (ls_workspace st) \<and> ls_active st = None \<and> ls_tasks st = [] \<and> ls_trace st = []"

section \<open>The invariant\<close>

fun load_of :: "load_task \<Rightarrow> load_run option" where
  "load_of (AwaitClose run) = Some run"
| "load_of (AwaitStart run) = Some run"
| "load_of (AwaitIndex run sessionId) = Some run"
| "load_of (AwaitPartialPage run sessionId terminal p) = Some run"
| "load_of (AwaitInitialPage run terminal p) = Some run"
| "load_of (AwaitRetry run retry err) = Some run"
| "load_of (AwaitPage p) = None"
| "load_of (AwaitTree sessionId generation parentPath loaded) = None"

fun page_of :: "load_task \<Rightarrow> page_run option" where
  "page_of (AwaitPartialPage run sessionId terminal p) = Some p"
| "page_of (AwaitInitialPage run terminal p) = Some p"
| "page_of (AwaitPage p) = Some p"
| "page_of task = None"

text \<open>Between the closing of the old session and the start of the new one.\<close>

fun reopens :: "load_task \<Rightarrow> bool" where
  "reopens (AwaitClose run) = True"
| "reopens (AwaitStart run) = True"
| "reopens (AwaitRetry run retry err) = True"
| "reopens task = False"

fun tree_bounded :: "load_task \<Rightarrow> bool" where
  "tree_bounded (AwaitTree sessionId generation parentPath loaded) = (loaded < MAX_TREE_SUMMARY_ENTRIES)"
| "tree_bounded task = True"

definition current_load :: "nat \<Rightarrow> load_task \<Rightarrow> bool" where
  "current_load g task \<longleftrightarrow> map_option lr_generation (load_of task) = Some g"

fun opened_by :: "load_event \<Rightarrow> string set" where
  "opened_by (EvOpened s) = {s}"
| "opened_by e = {}"

fun closed_by :: "load_event \<Rightarrow> string set" where
  "closed_by (EvClose s) = {s}"
| "closed_by e = {}"

definition opened_sessions :: "load_state \<Rightarrow> string set" where
  "opened_sessions st = \<Union> (opened_by ` set (ls_trace st))"

definition closed_sessions :: "load_state \<Rightarrow> string set" where
  "closed_sessions st = \<Union> (closed_by ` set (ls_trace st))"

definition sessions_accounted :: "load_state \<Rightarrow> bool" where
  "sessions_accounted st \<longleftrightarrow> opened_sessions st \<subseteq> closed_sessions st \<union> set_option (active_id st)"

definition task_ok :: "load_state \<Rightarrow> load_task \<Rightarrow> bool" where
  "task_ok st task \<longleftrightarrow>
     (\<forall>run. load_of task = Some run \<longrightarrow> lr_generation run \<le> ls_generation st)
     \<and> (reopens task \<and> current_load (ls_generation st) task \<longrightarrow> ls_active st = None)
     \<and> (\<forall>p. page_of task = Some p \<longrightarrow> pu_pageNumber p = Suc (length (pu_previousCursors p)))
     \<and> tree_bounded task"

definition active_numbered :: "load_state \<Rightarrow> bool" where
  "active_numbered st \<longleftrightarrow> (\<forall>s. ls_active st = Some s \<longrightarrow> is_pageNumber s = Suc (length (is_previousCursors s)))"

definition load_inv :: "load_state \<Rightarrow> bool" where
  "load_inv st \<longleftrightarrow>
     sessions_accounted st \<and> active_numbered st \<and> list_all (task_ok st) (ls_tasks st)
     \<and> length (filter (current_load (ls_generation st)) (ls_tasks st)) \<le> 1"

text \<open>The rest of the state while a load is being resumed: if the load is the current one, there is no other.\<close>

definition rest_inv :: "load_run \<Rightarrow> load_state \<Rightarrow> bool" where
  "rest_inv run st \<longleftrightarrow>
     load_inv st \<and> lr_generation run \<le> ls_generation st
     \<and> (lr_generation run = ls_generation st \<longrightarrow> filter (current_load (ls_generation st)) (ls_tasks st) = [])"

section \<open>The invariant is kept\<close>

lemma emit_fields [simp]:
  "ls_active (emit e st) = ls_active st" "ls_generation (emit e st) = ls_generation st"
  "ls_pageRequestId (emit e st) = ls_pageRequestId st" "ls_lastSignature (emit e st) = ls_lastSignature st"
  "ls_workspace (emit e st) = ls_workspace st" "ls_tasks (emit e st) = ls_tasks st" "active_id (emit e st) = active_id st"
  "opened_sessions (emit e st) = opened_sessions st \<union> opened_by e"
  "closed_sessions (emit e st) = closed_sessions st \<union> closed_by e"
  by (auto simp: emit_def active_id_def opened_sessions_def closed_sessions_def)

lemma await_fields [simp]:
  "ls_active (await task st) = ls_active st" "ls_generation (await task st) = ls_generation st"
  "ls_pageRequestId (await task st) = ls_pageRequestId st" "ls_lastSignature (await task st) = ls_lastSignature st"
  "ls_workspace (await task st) = ls_workspace st" "ls_tasks (await task st) = ls_tasks st @ [task]"
  "active_id (await task st) = active_id st"
  "opened_sessions (await task st) = opened_sessions st" "closed_sessions (await task st) = closed_sessions st"
  by (auto simp: await_def active_id_def opened_sessions_def closed_sessions_def)

lemma sessions_fields [simp]:
  "opened_sessions (ls_active_update f st) = opened_sessions st" "closed_sessions (ls_active_update f st) = closed_sessions st"
  "opened_sessions (ls_workspace_update w st) = opened_sessions st" "closed_sessions (ls_workspace_update w st) = closed_sessions st"
  "opened_sessions (ls_generation_update g st) = opened_sessions st" "closed_sessions (ls_generation_update g st) = closed_sessions st"
  "opened_sessions (ls_tasks_update ts st) = opened_sessions st" "closed_sessions (ls_tasks_update ts st) = closed_sessions st"
  "opened_sessions (ls_pageRequestId_update n st) = opened_sessions st"
  "closed_sessions (ls_pageRequestId_update n st) = closed_sessions st"
  "opened_sessions (ls_lastSignature_update u st) = opened_sessions st"
  "closed_sessions (ls_lastSignature_update u st) = closed_sessions st"
  by (simp_all add: opened_sessions_def closed_sessions_def)

lemma active_id_fields [simp]:
  "active_id (ls_workspace_update w st) = active_id st" "active_id (ls_generation_update g st) = active_id st"
  "active_id (ls_tasks_update ts st) = active_id st" "active_id (ls_pageRequestId_update n st) = active_id st"
  "active_id (ls_lastSignature_update u st) = active_id st"
  "active_id (ls_active_update f st) = map_option is_sessionId (f (ls_active st))"
  by (simp_all add: active_id_def)

lemma task_ok_cong:
  "ls_active st = ls_active st' \<Longrightarrow> ls_generation st = ls_generation st' \<Longrightarrow> task_ok st = task_ok st'"
  by (simp add: task_ok_def fun_eq_iff)

text \<open>Only the active session, the generation, the tasks and the sessions of the trace matter.\<close>

lemma load_inv_cong:
  assumes "ls_active st = ls_active st'" and "ls_generation st = ls_generation st'" and "ls_tasks st = ls_tasks st'"
    and "opened_sessions st = opened_sessions st'" and "closed_sessions st' \<subseteq> closed_sessions st"
    and "load_inv st'"
  shows "load_inv st"
proof -
  have "active_id st = active_id st'" using assms(1) by (simp add: active_id_def)
  moreover have "task_ok st = task_ok st'" using assms(1,2) by (rule task_ok_cong)
  ultimately show ?thesis using assms by (auto simp: load_inv_def sessions_accounted_def active_numbered_def)
qed

lemma load_inv_same:
  assumes "ls_active st = ls_active st'" and "ls_generation st = ls_generation st'" and "ls_tasks st = ls_tasks st'"
    and "opened_sessions st = opened_sessions st'" and "closed_sessions st = closed_sessions st'"
  shows "load_inv st = load_inv st'"
  using load_inv_cong [of st st'] load_inv_cong [of st' st] assms by auto

lemma load_inv_emit [simp]: "opened_by e = {} \<Longrightarrow> load_inv st \<Longrightarrow> load_inv (emit e st)"
  by (rule load_inv_cong [where st' = st]) auto

lemma rest_inv_emit [simp]: "opened_by e = {} \<Longrightarrow> rest_inv run st \<Longrightarrow> rest_inv run (emit e st)"
  by (simp add: rest_inv_def)

lemma load_inv_workspace [simp]: "load_inv (ls_workspace_update w st) = load_inv st"
  by (rule load_inv_same) simp_all

lemma rest_inv_workspace [simp]: "rest_inv run (ls_workspace_update w st) = rest_inv run st"
  by (simp add: rest_inv_def)

lemma load_inv_signature [simp]: "load_inv (ls_lastSignature_update u st) = load_inv st"
  by (rule load_inv_same) simp_all

lemma load_inv_requestId [simp]: "load_inv (ls_pageRequestId_update n st) = load_inv st"
  by (rule load_inv_same) simp_all

lemma load_inv_await:
  "load_inv st \<Longrightarrow> load_of task = None \<Longrightarrow> task_ok st task \<Longrightarrow> load_inv (await task st)"
  using task_ok_cong [of "await task st" st]
  by (simp add: load_inv_def sessions_accounted_def active_numbered_def current_load_def)

lemma rest_inv_await:
  "rest_inv run st \<Longrightarrow> load_of task = Some run' \<Longrightarrow> lr_generation run' = lr_generation run \<Longrightarrow> task_ok st task
     \<Longrightarrow> load_inv (await task st)"
  using task_ok_cong [of "await task st" st]
  by (auto simp: rest_inv_def load_inv_def sessions_accounted_def active_numbered_def current_load_def)

lemma closeActive_facts [simp]:
  "ls_active (closeActive st) = None" "ls_generation (closeActive st) = ls_generation st" "active_id (closeActive st) = None"
  "ls_tasks (closeActive st) = ls_tasks st" "ls_workspace (closeActive st) = ls_workspace st"
  "opened_sessions (closeActive st) = opened_sessions st"
  "closed_sessions (closeActive st) = closed_sessions st \<union> set_option (active_id st)"
  by (auto simp: closeActive_def active_id_def split: option.split)

lemma load_inv_closeActive: "load_inv st \<Longrightarrow> load_inv (closeActive st)"
  by (auto simp: load_inv_def sessions_accounted_def active_numbered_def task_ok_def list_all_iff)

lemma rest_inv_closeActive: "rest_inv run st \<Longrightarrow> rest_inv run (closeActive st)"
  by (simp add: rest_inv_def load_inv_closeActive)

text \<open>A new generation makes every load a load of the past.\<close>

lemma no_load_of_the_future:
  "load_inv st \<Longrightarrow> ls_generation st < g \<Longrightarrow> filter (current_load g) (ls_tasks st) = []"
  by (fastforce simp: load_inv_def task_ok_def list_all_iff current_load_def filter_empty_conv)

lemma load_inv_next_generation:
  assumes "load_inv st"
  shows "load_inv (closeActive (st\<lparr> ls_generation := Suc (ls_generation st) \<rparr>))"
  using assms no_load_of_the_future [OF assms, of "Suc (ls_generation st)"]
  by (auto simp: load_inv_def sessions_accounted_def active_numbered_def task_ok_def list_all_iff)

lemma load_inv_begin_attempt:
  assumes "load_inv st"
  shows "load_inv (begin_attempt run st)"
proof -
  let ?run = "run\<lparr> lr_generation := Suc (ls_generation st) \<rparr>"
  have "rest_inv ?run (closeActive (st\<lparr> ls_generation := Suc (ls_generation st) \<rparr>))"
    using assms no_load_of_the_future [OF assms, of "Suc (ls_generation st)"]
    by (simp add: rest_inv_def load_inv_next_generation)
  then have "load_inv (await (AwaitClose ?run) (closeActive (st\<lparr> ls_generation := Suc (ls_generation st) \<rparr>)))"
    by (rule rest_inv_await [where run' = ?run]) (simp_all add: task_ok_def)
  then show ?thesis by (simp add: begin_attempt_def Let_def)
qed

lemma load_inv_close_index: "load_inv st \<Longrightarrow> load_inv (close_index st)"
  by (simp add: close_index_def load_inv_next_generation)

lemma load_inv_loadArchive: "load_inv st \<Longrightarrow> load_inv (loadArchive archivePath password preserveState st)"
  by (simp add: loadArchive_def load_inv_begin_attempt)

subsection \<open>Pages\<close>

lemma requestFolder_facts:
  assumes "requestFolder parentPath g cursor n cursors query unchanged st = (st', page)"
  shows "ls_active st' = ls_active st" and "ls_generation st' = ls_generation st" and "ls_tasks st' = ls_tasks st"
    and "opened_sessions st' = opened_sessions st" and "closed_sessions st' = closed_sessions st"
    and "page = Some p \<Longrightarrow> pu_pageNumber p = n \<and> pu_previousCursors p = cursors"
    and "load_inv st \<Longrightarrow> load_inv st'" and "rest_inv run st \<Longrightarrow> rest_inv run st'"
  using assms by (auto simp: requestFolder_def rest_inv_def Let_def split: option.splits)

lemma load_inv_await_page:
  assumes "load_inv st" and "n = Suc (length cursors)"
  shows "load_inv (await_page (requestFolder parentPath g cursor n cursors query unchanged st))"
proof -
  obtain st' page where r: "requestFolder parentPath g cursor n cursors query unchanged st = (st', page)"
    by (cases "requestFolder parentPath g cursor n cursors query unchanged st")
  note facts = requestFolder_facts [OF r]
  show ?thesis
    using facts(6) facts(7) [OF assms(1)] assms(2)
    unfolding r
    by (auto simp: await_page_def task_ok_def intro!: load_inv_await split: option.split)
qed

lemma load_inv_folder_operations:
  assumes "load_inv st"
  shows "load_inv (loadFolder parentPath st)" "load_inv (loadSearch query st)" "load_inv (loadNextPage st)"
    "load_inv (loadPreviousPage st)"
proof -
  have numbered: "is_pageNumber s = Suc (length (is_previousCursors s))" if "ls_active st = Some s" for s
    using assms that by (simp add: load_inv_def active_numbered_def)
  show "load_inv (loadFolder parentPath st)" "load_inv (loadSearch query st)" "load_inv (loadNextPage st)"
    "load_inv (loadPreviousPage st)"
    using assms numbered
    by (auto simp: loadFolder_def loadSearch_def loadNextPage_def loadPreviousPage_def max_def
        split: option.split intro!: load_inv_await_page)
qed

lemma acceptFolder_facts:
  assumes "cp_sessionId page = is_sessionId (pu_session p)"
  shows "active_id (fst (acceptFolder p page st)) = active_id st"
    and "ls_active (fst (acceptFolder p page st)) = None \<longleftrightarrow> ls_active st = None"
    and "ls_generation (fst (acceptFolder p page st)) = ls_generation st"
    and "ls_tasks (fst (acceptFolder p page st)) = ls_tasks st"
    and "opened_sessions (fst (acceptFolder p page st)) = opened_sessions st"
    and "closed_sessions (fst (acceptFolder p page st)) = closed_sessions st"
  using assms by (auto simp: acceptFolder_def Let_def active_id_def)

lemma acceptFolder_numbered:
  "active_numbered st \<Longrightarrow> pu_pageNumber p = Suc (length (pu_previousCursors p))
     \<Longrightarrow> active_numbered (fst (acceptFolder p page st))"
  by (auto simp: acceptFolder_def Let_def active_numbered_def)

lemma load_inv_acceptFolder:
  assumes "load_inv st" and "cp_sessionId page = is_sessionId (pu_session p)"
    and "pu_pageNumber p = Suc (length (pu_previousCursors p))"
  shows "load_inv (fst (acceptFolder p page st))"
proof -
  note facts = acceptFolder_facts [OF assms(2), of st]
  have "task_ok (fst (acceptFolder p page st)) = task_ok st"
    using facts(2,3) by (simp add: task_ok_def fun_eq_iff)
  with assms facts show ?thesis
    by (simp add: load_inv_def sessions_accounted_def acceptFolder_numbered)
qed

lemma rest_inv_acceptFolder:
  "rest_inv run st \<Longrightarrow> cp_sessionId page = is_sessionId (pu_session p)
     \<Longrightarrow> pu_pageNumber p = Suc (length (pu_previousCursors p)) \<Longrightarrow> rest_inv run (fst (acceptFolder p page st))"
  using acceptFolder_facts [of page p st] by (simp add: rest_inv_def load_inv_acceptFolder)

lemma load_inv_request_tree:
  "load_inv st \<Longrightarrow> loaded < MAX_TREE_SUMMARY_ENTRIES \<Longrightarrow> load_inv (request_tree sessionId g parentPath cursor loaded st)"
  by (simp add: request_tree_def load_inv_await task_ok_def)

lemma load_inv_tree:
  assumes "load_inv st"
  shows "load_inv (loadTreeFolder parentPath st)" "load_inv (tree_page sessionId g parentPath loaded page st)"
  using assms
  by (auto simp: loadTreeFolder_def tree_page_def Let_def MAX_TREE_SUMMARY_ENTRIES_def split: option.split
      intro!: load_inv_request_tree)

subsection \<open>Loads\<close>

lemma rest_inv_load_inv: "rest_inv run st \<Longrightarrow> load_inv st"
  by (simp add: rest_inv_def)

lemma rest_inv_bound: "rest_inv run st \<Longrightarrow> lr_generation run \<le> ls_generation st"
  by (simp add: rest_inv_def)

lemma load_inv_wait_index: "rest_inv run st \<Longrightarrow> load_inv (wait_index run sessionId revision st)"
  by (auto simp: wait_index_def task_ok_def dest: rest_inv_bound intro!: rest_inv_await [where run = run])

lemma load_inv_load_failed:
  assumes "rest_inv run st"
  shows "load_inv (load_failed run err st)"
proof -
  have "load_inv (await (AwaitRetry run retry err) (closeActive (st\<lparr> ls_workspace := w \<rparr>)))" for retry w
    using assms
    by (auto simp: task_ok_def dest: rest_inv_bound intro!: rest_inv_await [where run = run] rest_inv_closeActive)
  then show ?thesis
    using assms by (auto simp: load_failed_def Let_def rest_inv_load_inv split: option.split)
qed

text \<open>Refreshing the active session keeps its identity.\<close>

lemma rest_inv_refreshed:
  assumes "rest_inv run st" and "active_id st = Some (is_sessionId session)"
    and "is_pageNumber session = Suc (length (is_previousCursors session))"
  shows "rest_inv run (st\<lparr> ls_active := Some session \<rparr>)"
proof -
  obtain s where "ls_active st = Some s" using assms(2) by (auto simp: active_id_def)
  then have "task_ok (st\<lparr> ls_active := Some session \<rparr>) = task_ok st" by (simp add: task_ok_def fun_eq_iff)
  with assms show ?thesis
    by (simp add: rest_inv_def load_inv_def sessions_accounted_def active_numbered_def)
qed

lemma index_session_of_fields [simp]:
  "is_sessionId (index_session_of s snapshot n bytes parentPath) = s"
  "is_pageNumber (index_session_of s snapshot n bytes parentPath) = 1"
  "is_previousCursors (index_session_of s snapshot n bytes parentPath) = []"
  by (simp_all add: index_session_of_def)

lemma load_inv_awaited_folder:
  assumes "rest_inv run st" and "\<And>p st'. rest_inv run st' \<Longrightarrow> pu_pageNumber p = Suc 0 \<Longrightarrow> pu_previousCursors p = [] \<Longrightarrow> load_inv (f p st')"
    and "\<And>st'. rest_inv run st' \<Longrightarrow> load_inv (h st')"
  shows "load_inv (case requestFolder parentPath g None (Suc 0) [] None unchanged st of
                     (requested, page) \<Rightarrow> case page of None \<Rightarrow> h requested | Some p \<Rightarrow> f p requested)"
proof -
  obtain st' page where r: "requestFolder parentPath g None (Suc 0) [] None unchanged st = (st', page)"
    by (cases "requestFolder parentPath g None (Suc 0) [] None unchanged st")
  note facts = requestFolder_facts [OF r]
  show ?thesis using facts(6) facts(8) [OF assms(1)] assms(2,3) by (auto simp: r split: option.split)
qed

lemma load_inv_index_done:
  assumes "rest_inv run st"
  shows "load_inv (index_done run terminal st)"
proof -
  have "load_inv (await (AwaitInitialPage run terminal p) st')"
    if "rest_inv run st'" and "pu_pageNumber p = Suc 0" and "pu_previousCursors p = []" for p st'
    using that by (auto simp: task_ok_def dest: rest_inv_bound intro!: rest_inv_await [where run = run])
  then show ?thesis
    using assms
    by (auto simp: index_done_def Let_def session_current_def rest_inv_load_inv load_inv_load_failed
        intro!: load_inv_awaited_folder [where run = run] rest_inv_refreshed)
qed

lemma load_inv_index_answered:
  assumes "rest_inv run st"
  shows "load_inv (index_answered run sessionId terminal st)"
proof -
  have "load_inv (await (AwaitPartialPage run sessionId terminal p) st')"
    if "rest_inv run st'" and "pu_pageNumber p = Suc 0" and "pu_previousCursors p = []" for p st'
    using that by (auto simp: task_ok_def dest: rest_inv_bound intro!: rest_inv_await [where run = run])
  then show ?thesis
    using assms
    by (auto simp: index_answered_def Let_def session_current_def rest_inv_load_inv
        intro!: load_inv_awaited_folder [where run = run] rest_inv_refreshed load_inv_index_done load_inv_wait_index)
qed

lemma load_inv_index_started:
  assumes "rest_inv run st" and "lr_generation run = ls_generation st \<Longrightarrow> ls_active st = None"
  shows "load_inv (index_started run sessionId snapshot st)"
proof (cases "lr_generation run = ls_generation st")
  case True
  with assms(2) have "ls_active st = None" by simp
  then have "active_id st = None" by (simp add: active_id_def)
  let ?session = "index_session_of sessionId snapshot (ix_discoveredEntries snapshot) None []"
  have idle: "filter (current_load (ls_generation st)) (ls_tasks st) = []"
    using assms(1) True by (simp add: rest_inv_def)
  then have "\<forall>task \<in> set (ls_tasks st). task_ok st task \<longrightarrow> task_ok (emit (EvOpened sessionId) st\<lparr> ls_active := Some ?session \<rparr>) task"
    by (auto simp: task_ok_def filter_empty_conv)
  then have "rest_inv run (emit (EvOpened sessionId) st\<lparr> ls_active := Some ?session \<rparr>)"
    using assms(1) idle \<open>active_id st = None\<close>
    by (auto simp: rest_inv_def load_inv_def sessions_accounted_def active_numbered_def list_all_iff)
  then show ?thesis
    using True by (simp add: index_started_def Let_def load_inv_wait_index load_inv_index_done)
next
  case False
  then have "index_started run sessionId snapshot st = emit (EvClose sessionId) (emit (EvOpened sessionId) st)"
    by (simp add: index_started_def)
  moreover have "task_ok (emit (EvClose sessionId) (emit (EvOpened sessionId) st)) = task_ok st"
    by (rule task_ok_cong) simp_all
  ultimately show ?thesis
    using assms(1) by (auto simp: rest_inv_def load_inv_def sessions_accounted_def active_numbered_def)
qed


lemma load_inv_initial_page:
  assumes "load_inv st" and "cp_sessionId page = is_sessionId (pu_session p)"
    and "pu_pageNumber p = Suc (length (pu_previousCursors p))"
  shows "load_inv (initial_page terminal p page st)"
  using load_inv_acceptFolder [OF assms] by (auto simp: initial_page_def case_prod_unfold Let_def)

lemma load_inv_prompt_retry: "load_inv st \<Longrightarrow> load_inv (prompt_retry run retry err reply st)"
  by (auto simp: prompt_retry_def Let_def load_inv_begin_attempt)

lemma load_inv_start_index:
  assumes "rest_inv run st" and "lr_generation run = ls_generation st \<Longrightarrow> ls_active st = None"
  shows "load_inv (start_index env run st)"
proof -
  have "rest_inv run (emit e (st\<lparr> ls_lastSignature := u, ls_workspace := w \<rparr>))" if "opened_by e = {}" for e u w
    using assms(1) that load_inv_signature [of "\<lambda>_. u" st] by (simp add: rest_inv_def)
  then show ?thesis
    using assms
    by (auto simp: start_index_def task_ok_def current_load_def dest: rest_inv_bound
        intro!: rest_inv_await [where run = run and run' = run])
qed

text \<open>The state without the task that is resumed.\<close>

lemma removed_task:
  assumes "i < length ts"
  shows "length (filter P ts) = length (filter P (take i ts @ drop (Suc i) ts)) + (if P (ts ! i) then 1 else 0)"
proof -
  have "ts = take i ts @ ts ! i # drop (Suc i) ts" using assms by (rule id_take_nth_drop)
  then have "filter P ts = filter P (take i ts @ ts ! i # drop (Suc i) ts)" by simp
  then show ?thesis by simp
qed

lemma removed_task_inv:
  assumes "load_inv st" and "i < length (ls_tasks st)"
  defines "rest \<equiv> st\<lparr> ls_tasks := take i (ls_tasks st) @ drop (Suc i) (ls_tasks st) \<rparr>"
  shows "load_inv rest" and "load_of (ls_tasks st ! i) = Some run \<Longrightarrow> rest_inv run rest" and "task_ok rest (ls_tasks st ! i)"
proof -
  have same: "task_ok rest = task_ok st" unfolding rest_def by (rule task_ok_cong) simp_all
  have ok: "list_all (task_ok st) (ls_tasks st)" using assms(1) by (simp add: load_inv_def)
  then have "list_all (task_ok st) (take i (ls_tasks st) @ drop (Suc i) (ls_tasks st))"
    by (auto simp: list_all_iff dest: in_set_takeD in_set_dropD)
  moreover note removed_task [OF assms(2), of "current_load (ls_generation st)"]
  ultimately show inv: "load_inv rest"
    using assms(1) same by (auto simp: load_inv_def sessions_accounted_def active_numbered_def rest_def split: if_splits)
  show task: "task_ok rest (ls_tasks st ! i)"
    using ok assms(2) same by (simp add: list_all_length)
  show "rest_inv run rest" if "load_of (ls_tasks st ! i) = Some run"
    using that inv task removed_task [OF assms(2), of "current_load (ls_generation st)"] assms(1)
    by (auto simp: rest_inv_def task_ok_def current_load_def load_inv_def rest_def)
qed

lemma resumed_inv:
  assumes "resume env task answer rest = Some st'" and "honest_answer task answer" and "load_inv rest"
    and "\<And>run. load_of task = Some run \<Longrightarrow> rest_inv run rest" and "task_ok rest task"
  shows "load_inv st'"
  using assms
  by (cases "(env, task, answer, rest)" rule: resume.cases)
    (auto simp: task_ok_def current_load_def intro: load_inv_start_index load_inv_index_started load_inv_load_failed
      load_inv_index_answered load_inv_wait_index rest_inv_acceptFolder load_inv_initial_page load_inv_prompt_retry
      load_inv_acceptFolder load_inv_tree)

lemma load_inv_settle:
  assumes "load_inv st" and "honest_answer (ls_tasks st ! i) answer"
  shows "load_inv (settle_load env i answer st)"
proof (cases "i < length (ls_tasks st)")
  case True
  note rest = removed_task_inv [OF assms(1) True]
  show ?thesis
    using resumed_inv [OF _ assms(2) rest(1) rest(2) rest(3), of env] assms(1)
    by (auto simp: settle_load_def nullish_def split: option.split)
qed (simp add: settle_load_def assms(1))

interpretation archive_load: machine load_init "load_step env" load_inv for env
proof
  show "load_inv st" if "load_init st" for st
    using that
    by (simp add: load_init_def load_inv_def sessions_accounted_def active_numbered_def opened_sessions_def)
  show "load_inv st'" if "load_inv st" and "load_step env st st'" for st st'
    using that(2,1)
    by cases (simp_all add: load_inv_loadArchive load_inv_folder_operations load_inv_tree load_inv_close_index
        load_inv_settle)
qed

section \<open>What the loader guarantees\<close>

text \<open>C6: In every reachable state of the archive loader, whatever loads overlap, fail or are given up and in whatever
order the backend answers, every index session that was opened is the active one or has been closed.\<close>

theorem index_sessions_do_not_leak:
  assumes "reachable load_init (load_step env) st" and "EvOpened sessionId \<in> set (ls_trace st)"
  shows "EvClose sessionId \<in> set (ls_trace st) \<or> active_id st = Some sessionId"
proof -
  have "sessionId \<in> opened_sessions st" using assms(2) by (force simp: opened_sessions_def)
  then have "sessionId \<in> closed_sessions st \<or> active_id st = Some sessionId"
    using archive_load.reachable_inv [OF assms(1)] by (auto simp: load_inv_def sessions_accounted_def)
  moreover have "e = EvClose sessionId" if "sessionId \<in> closed_by e" for e
    using that by (cases e) auto
  ultimately show ?thesis by (auto simp: closed_sessions_def)
qed

lemma settled_last:
  assumes "ls_tasks st = ts @ task # us"
  shows "settle_load env (length ts) answer st = nullish (resume env task answer (st\<lparr> ls_tasks := ts @ us \<rparr>)) st"
  using assms by (simp add: settle_load_def)

lemma awaited_folder:
  assumes "ls_active st = Some session"
  shows "await_page (requestFolder parentPath g cursor n cursors query unchanged st) =
    await (AwaitPage
      \<lparr> pu_session = session, pu_requestId = ls_pageRequestId st + 1, pu_parentPath = parentPath, pu_generation = g,
        pu_cursor = cursor, pu_pageNumber = n, pu_previousCursors = cursors, pu_query = query,
        pu_renderUnchanged = unchanged \<rparr>)
     (emit (EvEntries (entries_request_of session parentPath cursor query (wv_sort (ws_view (ls_workspace st)))))
       (st\<lparr> ls_pageRequestId := ls_pageRequestId st + 1 \<rparr>))"
  using assms by (simp add: requestFolder_def await_page_def)

lemma acceptPage_sort [simp]: "wv_sort (ws_view (acceptPage page w)) = wv_sort (ws_view w)"
  by (simp add: acceptPage_def Let_def)

text \<open>From any page that has a next one, going to the next page and, when it has come, back again asks for the
entries of the page that was left: same session, folder or search, cursor and order, and the same page number and
earlier pages.\<close>

theorem previous_page_returns:
  assumes "reachable load_init (load_step env) st" and "ls_active st = Some session" and "truthy (is_nextCursor session)"
    and "cp_sessionId page = is_sessionId session" and "cp_parentPath page = is_parentPath session"
  defines "moved \<equiv> loadPreviousPage (settle_load env (length (ls_tasks st)) (AnEntries page) (loadNextPage st))"
  shows "last (ls_trace moved) = EvEntries (entries_request_of session (is_parentPath session) (is_cursor session)
           (is_query session) (wv_sort (ws_view (ls_workspace st))))
         \<and> (\<exists>p. last (ls_tasks moved) = AwaitPage p \<and> pu_cursor p = is_cursor session
               \<and> pu_pageNumber p = is_pageNumber session \<and> pu_previousCursors p = is_previousCursors session
               \<and> pu_requestId p = ls_pageRequestId moved \<and> pu_generation p = ls_generation moved)"
proof -
  have "is_pageNumber session = Suc (length (is_previousCursors session))"
    using archive_load.reachable_inv [OF assms(1)] assms(2) by (simp add: load_inv_def active_numbered_def)
  moreover have tasks: "ls_tasks (loadNextPage st) = ls_tasks st @ [AwaitPage
      \<lparr> pu_session = session, pu_requestId = ls_pageRequestId st + 1, pu_parentPath = is_parentPath session,
        pu_generation = ls_generation st, pu_cursor = is_nextCursor session, pu_pageNumber = is_pageNumber session + 1,
        pu_previousCursors = is_previousCursors session @ [is_cursor session], pu_query = is_query session,
        pu_renderUnchanged = True \<rparr>]"
    using assms(2,3) by (simp add: loadNextPage_def awaited_folder)
  ultimately show ?thesis
    using assms(2-5) settled_last [OF tasks, of env "AnEntries page"]
    by (simp add: moved_def loadNextPage_def awaited_folder acceptFolder_def Let_def loadPreviousPage_def active_id_def
        entries_request_of_def nullish_def)
      (simp add: emit_def await_def)
qed

text \<open>C7: When two folders are asked for one after the other, the workspace ends up the same whichever answer comes
first: it shows the entries of the folder asked for last.\<close>

theorem newest_folder_wins:
  fixes a b :: string and st :: load_state
  assumes "ls_active st = Some session" and "cp_sessionId older = is_sessionId session"
    and "cp_sessionId newer = is_sessionId session"
  defines "asked \<equiv> loadFolder b (loadFolder a st)" and "n \<equiv> length (ls_tasks st)"
  shows "ls_workspace (settle_load env n (AnEntries newer) (settle_load env n (AnEntries older) asked))
           = ls_workspace (settle_load env n (AnEntries older) (settle_load env (Suc n) (AnEntries newer) asked))
         \<and> ws_entries (ls_workspace (settle_load env n (AnEntries older) (settle_load env (Suc n) (AnEntries newer) asked)))
             = cp_entries newer
         \<and> wv_currentFolder (ws_view (ls_workspace (settle_load env n (AnEntries older)
               (settle_load env (Suc n) (AnEntries newer) asked)))) = normalizeArchivePath (Some b)"
  using assms(1-3)
  by (simp add: asked_def n_def loadFolder_def awaited_folder settle_load_def nth_append acceptFolder_def Let_def
      active_id_def nullish_def acceptPage_def)

lemma tree_rounds:
  assumes "\<forall>page \<in> set pages. cp_entries page \<noteq> []"
    and "ls_tasks st = ts \<or> (\<exists>sessionId g parentPath loaded. ls_tasks st = ts @ [AwaitTree sessionId g parentPath loaded]
           \<and> loaded < MAX_TREE_SUMMARY_ENTRIES \<and> MAX_TREE_SUMMARY_ENTRIES \<le> loaded + length pages)"
  shows "ls_tasks (foldl (\<lambda>st page. settle_load env (length ts) (AnEntries page) st) st pages) = ts"
  using assms
proof (induction pages arbitrary: st)
  case (Cons page pages)
  let ?next = "settle_load env (length ts) (AnEntries page) st"
  have "ls_tasks ?next = ts \<or> (\<exists>sessionId g parentPath loaded. ls_tasks ?next = ts @ [AwaitTree sessionId g parentPath loaded]
      \<and> loaded < MAX_TREE_SUMMARY_ENTRIES \<and> MAX_TREE_SUMMARY_ENTRIES \<le> loaded + length pages)"
    using Cons.prems(2)
  proof (elim disjE exE conjE)
    fix sessionId g parentPath loaded
    assume tasks: "ls_tasks st = ts @ [AwaitTree sessionId g parentPath loaded]"
      and bound: "loaded < MAX_TREE_SUMMARY_ENTRIES" "MAX_TREE_SUMMARY_ENTRIES \<le> loaded + length (page # pages)"
    obtain entry entries where "cp_entries page = entry # entries"
      using Cons.prems(1) by (cases "cp_entries page") auto
    with bound settled_last [of st ts "AwaitTree sessionId g parentPath loaded" "[]" env "AnEntries page"] tasks
    show ?thesis by (auto simp: nullish_def tree_page_def Let_def request_tree_def)
  qed (simp add: settle_load_def)
  with Cons show ?case by simp
qed auto

text \<open>C8: Loading a folder of the tree ends: if every page of the backend has an entry, then after at most
\<^verbatim>\<open>MAX_TREE_SUMMARY_ENTRIES\<close> (2048) pages no further one is awaited, however many pages the backend still has.\<close>

theorem tree_loading_ends:
  assumes "\<forall>page \<in> set pages. cp_entries page \<noteq> []" and "length pages = MAX_TREE_SUMMARY_ENTRIES"
  shows "ls_tasks (foldl (\<lambda>st page. settle_load env (length (ls_tasks before)) (AnEntries page) st)
           (loadTreeFolder parentPath before) pages) = ls_tasks before"
  by (rule tree_rounds)
    (use assms in \<open>auto simp: loadTreeFolder_def request_tree_def MAX_TREE_SUMMARY_ENTRIES_def split: option.split\<close>)

section \<open>Concrete runs\<close>

datatype load_input = InLoad string | InFolder string | InNextPage | InAnswer nat load_answer

fun load_input_step :: "load_env \<Rightarrow> load_input \<Rightarrow> load_state \<Rightarrow> load_state" where
  "load_input_step env (InLoad archivePath) st = loadArchive archivePath None False st"
| "load_input_step env (InFolder parentPath) st = loadFolder parentPath st"
| "load_input_step env InNextPage st = loadNextPage st"
| "load_input_step env (InAnswer i answer) st = settle_load env i answer st"

fun playable :: "load_input \<Rightarrow> load_state \<Rightarrow> bool" where
  "playable (InAnswer i answer) st = (i < length (ls_tasks st) \<and> honest_answer (ls_tasks st ! i) answer)"
| "playable input st = True"

fun play :: "load_env \<Rightarrow> load_input list \<Rightarrow> load_state \<Rightarrow> load_state option" where
  "play env [] st = Some st"
| "play env (input # inputs) st = (if playable input st then play env inputs (load_input_step env input st) else None)"

lemma play_reachable:
  "play env inputs st = Some st' \<Longrightarrow> reachable load_init (load_step env) st \<Longrightarrow> reachable load_init (load_step env) st'"
proof (induction inputs arbitrary: st)
  case (Cons input inputs)
  then have "playable input st" by (auto split: if_splits)
  then have "load_step env st (load_input_step env input st)"
    by (cases input) (auto intro: load_step.intros)
  with Cons show ?case by (auto split: if_splits intro: reachable.move)
qed simp

definition first_load_state :: load_state where
  "first_load_state =
     \<lparr> ls_active = None, ls_generation = 0, ls_pageRequestId = 0, ls_lastSignature = None,
       ls_workspace = createInitialState no_options,
       ls_tasks = [], ls_trace = [] \<rparr>"

definition plain_load_env :: load_env where
  "plain_load_env =
     \<lparr> le_columns = (\<lambda>archivePath. wv_tableColumns (ws_view (ls_workspace first_load_state))),
       le_workspace = plain_env \<rparr>"

definition ready_snapshot :: "string \<Rightarrow> string \<Rightarrow> index_snapshot" where
  "ready_snapshot sessionId archivePath =
     \<lparr> ix_revision = ''1'', ix_sessionId = sessionId, ix_archivePath = archivePath, ix_status = IxReady,
       ix_discoveredEntries = 2, ix_discoveredBytes = None, ix_finalEntryCount = Some 2, ix_finalTotalBytes = None,
       ix_latestFailure = None \<rparr>"

definition one_file_page :: "string \<Rightarrow> string \<Rightarrow> string option \<Rightarrow> children_page" where
  "one_file_page sessionId path nextCursor =
     \<lparr> cp_sessionId = sessionId, cp_parentPath = [], cp_entries = [bare_entry path KFile], cp_nextCursor = nextCursor,
       cp_childCount = 2 \<rparr>"

definition open_inputs :: "string \<Rightarrow> string \<Rightarrow> load_input list" where
  "open_inputs sessionId archivePath =
     [InLoad archivePath, InAnswer 0 AnClosed, InAnswer 0 (AnStarted sessionId (ready_snapshot sessionId archivePath)),
      InAnswer 0 (AnEntries (one_file_page sessionId ''a.txt'' (Some ''2'')))]"

definition example_opened :: load_state where
  "example_opened = the (play plain_load_env (open_inputs ''s1'' ''/a.zip'') first_load_state)"

lemma first_load_reachable: "reachable load_init (load_step env) first_load_state"
  by (rule reachable.start) (auto simp: load_init_def first_load_state_def intro: ws_initial.intros)

lemma example_opened_played: "play plain_load_env (open_inputs ''s1'' ''/a.zip'') first_load_state = Some example_opened"
  by code_simp

lemmas example_opened_reachable = play_reachable [OF example_opened_played first_load_reachable]

theorem index_sessions_do_not_leak_witness:
  "EvClose ''s1'' \<in> set (ls_trace example_opened) \<or> active_id example_opened = Some ''s1''"
proof -
  have "EvOpened ''s1'' \<in> set (ls_trace example_opened)" by code_simp
  with example_opened_reachable show ?thesis by (rule index_sessions_do_not_leak)
qed

definition example_session :: index_session where
  "example_session =
     \<lparr> is_sessionId = ''s1'', is_revision = ''1'', is_archivePath = ''/a.zip'', is_entryCount = 2, is_totalSize = None,
       is_parentPath = [], is_cursor = None, is_nextCursor = Some ''2'', is_previousCursors = [], is_pageNumber = 1,
       is_query = None \<rparr>"

lemma example_active: "ls_active example_opened = Some example_session"
  by code_simp

theorem previous_page_returns_witness:
  "last (ls_trace (loadPreviousPage (settle_load plain_load_env (length (ls_tasks example_opened))
      (AnEntries (one_file_page ''s1'' ''b.txt'' None)) (loadNextPage example_opened))))
   = EvEntries (entries_request_of example_session [] None None (wv_sort (ws_view (ls_workspace example_opened))))"
proof -
  have "truthy (is_nextCursor example_session)"
    and "cp_sessionId (one_file_page ''s1'' ''b.txt'' None) = is_sessionId example_session"
    and "cp_parentPath (one_file_page ''s1'' ''b.txt'' None) = is_parentPath example_session"
    and fields: "is_parentPath example_session = []" "is_cursor example_session = None" "is_query example_session = None"
    by code_simp+
  with previous_page_returns [OF example_opened_reachable example_active]
  show ?thesis by metis
qed

theorem newest_folder_wins_witness:
  "ws_entries (ls_workspace (settle_load plain_load_env 0 (AnEntries (one_file_page ''s1'' ''x.txt'' None))
     (settle_load plain_load_env 1 (AnEntries (one_file_page ''s1'' ''y.txt'' None))
       (loadFolder ''y'' (loadFolder ''x'' example_opened))))) = [bare_entry ''y.txt'' KFile]"
proof -
  have session: "cp_sessionId (one_file_page ''s1'' path next) = is_sessionId example_session" for path "next"
    by (simp add: one_file_page_def example_session_def)
  have "length (ls_tasks example_opened) = 0" by code_simp
  moreover have "cp_entries (one_file_page ''s1'' ''y.txt'' None) = [bare_entry ''y.txt'' KFile]"
    by (simp add: one_file_page_def)
  ultimately show ?thesis
    using newest_folder_wins [OF example_active session session, of plain_load_env "''y.txt''" None "''x.txt''" None "''y''" "''x''"]
    by simp
qed

theorem tree_loading_ends_witness:
  "ls_tasks (foldl (\<lambda>st page. settle_load plain_load_env 0 (AnEntries page) st) (loadTreeFolder ''x'' example_opened)
     (replicate 2048 (one_file_page ''s1'' ''x/y'' (Some ''more'')))) = []"
proof -
  have tasks: "ls_tasks example_opened = []" by code_simp
  have "\<forall>page \<in> set (replicate 2048 (one_file_page ''s1'' ''x/y'' (Some ''more''))). cp_entries page \<noteq> []"
    by (simp add: one_file_page_def)
  from tree_loading_ends [OF this, of plain_load_env example_opened "''x''"] tasks show ?thesis
    by (simp add: MAX_TREE_SUMMARY_ENTRIES_def)
qed

section \<open>What can go wrong\<close>

text \<open>
  A load that is superseded while the session before it is being closed goes on all the same when the session has been
  closed: it puts the workspace into the loading state of its own archive, although a newer archive may be shown
  already.  Its index is then given up as that of an older load, and nothing that would end the loading is awaited.
\<close>

lemma superseded_load:
  assumes "ls_tasks st = []"
  shows "\<exists>older newer. ls_tasks (loadArchive c p' k' (loadArchive b p k st)) = [AwaitClose older, AwaitClose newer]
           \<and> lr_archivePath older = b \<and> lr_archivePath newer = c
           \<and> lr_generation newer = ls_generation (loadArchive c p' k' (loadArchive b p k st))
           \<and> lr_generation older < ls_generation (loadArchive c p' k' (loadArchive b p k st))"
  using assms by (simp add: loadArchive_def begin_attempt_def Let_def)

theorem superseded_load_hides_archive:
  fixes env :: load_env and st :: load_state
  assumes "ls_tasks st = [AwaitClose older]" and "lr_generation older < ls_generation st"
    and "late = settle_load env 0 (AnStarted sessionId snapshot) (settle_load env 0 AnClosed st)"
  shows "ws_browseState (ls_workspace late) = BsLoading"
    and "ws_currentArchivePath (ls_workspace late) = js_trim (lr_archivePath older)"
    and "ls_tasks late = []" and "ls_active late = ls_active st"
  using assms
  by (simp_all add: settle_load_def nullish_def start_index_def index_started_def beginLoading_def Let_def)

end
