(* ===== verification/ExtractWorkspace.thy ===== *)
theory ExtractWorkspace
  imports QuickActions
begin

text \<open>
  The extraction workspace (\<open>workspaces/extractWorkspace.ts\<close>): the options of an extraction, their defaults, and the
  verification of the certificate of a tzap archive; the form of the extraction dialog (\<open>extractDialogState.ts\<close>); and
  what the runtime does with them: the defaults of an archive, their application whenever a page of entries is shown,
  and the verification command (\<open>runtime/zmanagerRuntimeAdapter.ts\<close>).

  A patch is a record of optional fields; a field that is present with the value undefined is not distinguished from an
  absent one.  Copying and freezing of snapshots has no counterpart.
\<close>

section \<open>The verification of a certificate\<close>

datatype verification_state =
  VsIdle | VsChecking | VsSignatureValid | VsTrusted | VsVerifiedOffline | VsVerifiedWithCaveat | VsError

text \<open>Of the answer of the backend, the fields that decide and the names that are shown.\<close>

record verify_response =
  vr_outcome :: string
  vr_subject :: string
  vr_issuer :: string
  vr_verificationState :: "string option"
  vr_signatureCheck :: "string option"
  vr_trustCheck :: "string option"
  vr_statusCheck :: "string option"

record tzap_verification =
  tv_validateTrust :: bool
  tv_trustedCaCertificatePaths :: "string list"
  tv_trustedSystemRoots :: bool
  tv_includeOfficialTzapRoot :: bool
  tv_checkCurrentStatus :: bool
  tv_state :: verification_state
  tv_result :: "verify_response option"
  tv_error :: string

definition REFUSED_OUTCOMES :: "string list" where
  "REFUSED_OUTCOMES = [''invalid'', ''revoked'', ''suspended'', ''unverifiable'']"

definition CAVEAT_OUTCOMES :: "string list" where
  "CAVEAT_OUTCOMES = [''signed_before_renewal'', ''verified_with_caveat'', ''status_unavailable'']"

definition verificationStateForResult :: "verify_response \<Rightarrow> bool \<Rightarrow> verification_state" where
  "verificationStateForResult result checkCurrentStatus =
     (if vr_outcome result \<in> set REFUSED_OUTCOMES \<or> vr_verificationState result = Some ''invalid'' then VsError
      else if checkCurrentStatus \<and> vr_statusCheck result = Some ''status_unavailable'' then VsVerifiedWithCaveat
      else if vr_outcome result \<in> set CAVEAT_OUTCOMES
           \<or> nullish (vr_verificationState result) [] \<in> set CAVEAT_OUTCOMES then VsVerifiedWithCaveat
      else if vr_outcome result = ''cryptographically_intact_offline''
           \<or> vr_verificationState result = Some ''cryptographically_intact_offline'' then VsVerifiedOffline
      else if vr_outcome result \<in> set [''trusted'', ''fresh_valid'']
           \<or> nullish (vr_verificationState result) [] \<in> set [''trusted'', ''fresh_valid''] then VsTrusted
      else if vr_outcome result = ''signatureValid'' \<or> vr_verificationState result = Some ''signature_valid''
      then VsSignatureValid
      else if vr_signatureCheck result = Some ''ok''
      then (if truthy (vr_trustCheck result) \<and> vr_trustCheck result \<noteq> Some ''untrusted'' then VsTrusted
            else VsSignatureValid)
      else VsError)"

section \<open>Options and defaults\<close>

record extract_defaults =
  xd_destinationPath :: string
  xd_pathMode :: path_mode
  xd_overwrite :: overwrite_policy
  xd_stripComponents :: jsnum
  xd_deduplicateRoot :: bool
  xd_tzapRestorePolicy :: "restore_policy option"
  xd_tzapAllowDegraded :: "bool option"
  xd_tzapAllowAbsoluteSymlinks :: "bool option"
  xd_ignoreSymlinks :: "bool option"

record extract_options =
  eo_destinationPath :: string
  eo_pathMode :: path_mode
  eo_overwrite :: overwrite_policy
  eo_stripComponents :: jsnum
  eo_deduplicateRoot :: bool
  eo_tzapRestorePolicy :: restore_policy
  eo_tzapAllowDegraded :: bool
  eo_tzapAllowAbsoluteSymlinks :: bool
  eo_ignoreSymlinks :: bool
  eo_tzapRecipientKeyId :: string
  eo_usesGlobalDefaults :: bool
  eo_passwordPromptOpen :: bool
  eo_tzapVerification :: tzap_verification

record extract_workspace =
  xw_defaults :: extract_defaults
  xw_options :: extract_options

record extract_patch =
  xp_destinationPath :: "string option"
  xp_pathMode :: "path_mode option"
  xp_overwrite :: "overwrite_policy option"
  xp_stripComponents :: "jsnum option"
  xp_deduplicateRoot :: "bool option"
  xp_tzapRestorePolicy :: "restore_policy option"
  xp_tzapAllowDegraded :: "bool option"
  xp_tzapAllowAbsoluteSymlinks :: "bool option"
  xp_ignoreSymlinks :: "bool option"
  xp_tzapRecipientKeyId :: "string option"
  xp_passwordPromptOpen :: "bool option"

record verification_patch =
  vp_validateTrust :: "bool option"
  vp_trustedCaCertificatePaths :: "string list option"
  vp_trustedSystemRoots :: "bool option"
  vp_includeOfficialTzapRoot :: "bool option"
  vp_checkCurrentStatus :: "bool option"

definition normalizePathMode :: "path_mode \<Rightarrow> path_mode" where
  "normalizePathMode v = (if v = PmCurrent \<or> v = PmNone then v else PmFull)"

definition normalizeOverwrite :: "overwrite_policy \<Rightarrow> overwrite_policy" where
  "normalizeOverwrite v = (if v = OwRefuse \<or> v = OwReplace \<or> v = OwRename then v else OwAsk)"

definition normalizeTzapRestorePolicy :: "restore_policy option \<Rightarrow> restore_policy" where
  "normalizeTzapRestorePolicy v =
     (if v = Some RpContent \<or> v = Some RpSameOs \<or> v = Some RpSystem then the v else RpPortable)"

definition normalizeStripComponents :: "jsnum \<Rightarrow> jsnum" where
  "normalizeStripComponents v = (case v of Fin q \<Rightarrow> if 0 \<le> q then js_trunc (Fin q) else Fin 0 | _ \<Rightarrow> Fin 0)"

definition uniquePaths :: "string list \<Rightarrow> string list" where
  "uniquePaths paths = js_set (filter (\<lambda>p. p \<noteq> []) (map js_trim paths))"

definition normalizeDefaults :: "extract_defaults \<Rightarrow> extract_defaults" where
  "normalizeDefaults d =
     \<lparr> xd_destinationPath = js_trim (xd_destinationPath d), xd_pathMode = normalizePathMode (xd_pathMode d),
       xd_overwrite = normalizeOverwrite (xd_overwrite d),
       xd_stripComponents = normalizeStripComponents (xd_stripComponents d),
       xd_deduplicateRoot = xd_deduplicateRoot d,
       xd_tzapRestorePolicy = Some (normalizeTzapRestorePolicy (xd_tzapRestorePolicy d)),
       xd_tzapAllowDegraded = Some (nullish (xd_tzapAllowDegraded d) False),
       xd_tzapAllowAbsoluteSymlinks = Some (nullish (xd_tzapAllowAbsoluteSymlinks d) False),
       xd_ignoreSymlinks = Some (nullish (xd_ignoreSymlinks d) False) \<rparr>"

definition idle_verification :: tzap_verification where
  "idle_verification =
     \<lparr> tv_validateTrust = False, tv_trustedCaCertificatePaths = [], tv_trustedSystemRoots = False,
       tv_includeOfficialTzapRoot = True, tv_checkCurrentStatus = False, tv_state = VsIdle, tv_result = None,
       tv_error = [] \<rparr>"

definition snapshotFromDefaults :: "extract_defaults \<Rightarrow> extract_options" where
  "snapshotFromDefaults d =
     \<lparr> eo_destinationPath = xd_destinationPath d, eo_pathMode = xd_pathMode d, eo_overwrite = xd_overwrite d,
       eo_stripComponents = xd_stripComponents d, eo_deduplicateRoot = xd_deduplicateRoot d,
       eo_tzapRestorePolicy = nullish (xd_tzapRestorePolicy d) RpPortable,
       eo_tzapAllowDegraded = nullish (xd_tzapAllowDegraded d) False,
       eo_tzapAllowAbsoluteSymlinks = nullish (xd_tzapAllowAbsoluteSymlinks d) False,
       eo_ignoreSymlinks = nullish (xd_ignoreSymlinks d) False, eo_tzapRecipientKeyId = [],
       eo_usesGlobalDefaults = True, eo_passwordPromptOpen = False, eo_tzapVerification = idle_verification \<rparr>"

definition FALLBACK_DEFAULTS :: extract_defaults where
  "FALLBACK_DEFAULTS =
     \<lparr> xd_destinationPath = [], xd_pathMode = PmFull, xd_overwrite = OwAsk, xd_stripComponents = Fin 0,
       xd_deduplicateRoot = False, xd_tzapRestorePolicy = Some RpPortable, xd_tzapAllowDegraded = Some False,
       xd_tzapAllowAbsoluteSymlinks = Some False, xd_ignoreSymlinks = Some False \<rparr>"

section \<open>The operations\<close>

definition createExtractWorkspace :: "extract_defaults option \<Rightarrow> extract_workspace" where
  "createExtractWorkspace initialDefaults =
     (let defaults = normalizeDefaults (nullish initialDefaults FALLBACK_DEFAULTS)
      in \<lparr> xw_defaults = defaults, xw_options = snapshotFromDefaults defaults \<rparr>)"

definition applyDefaults :: "extract_defaults \<Rightarrow> extract_workspace \<Rightarrow> extract_workspace" where
  "applyDefaults nextDefaults w =
     (let defaults = normalizeDefaults nextDefaults
      in w\<lparr> xw_defaults := defaults,
           xw_options := (if eo_usesGlobalDefaults (xw_options w) then snapshotFromDefaults defaults
                          else (xw_options w)\<lparr> eo_destinationPath := xd_destinationPath defaults \<rparr>) \<rparr>)"

definition changesDurableOption :: "extract_patch \<Rightarrow> bool" where
  "changesDurableOption patch \<longleftrightarrow>
     xp_destinationPath patch \<noteq> None \<or> xp_pathMode patch \<noteq> None \<or> xp_overwrite patch \<noteq> None
     \<or> xp_stripComponents patch \<noteq> None \<or> xp_deduplicateRoot patch \<noteq> None \<or> xp_tzapRestorePolicy patch \<noteq> None
     \<or> xp_tzapAllowDegraded patch \<noteq> None \<or> xp_tzapAllowAbsoluteSymlinks patch \<noteq> None
     \<or> xp_ignoreSymlinks patch \<noteq> None \<or> xp_tzapRecipientKeyId patch \<noteq> None"

definition normalizedPatch :: "extract_patch \<Rightarrow> extract_options \<Rightarrow> extract_options" where
  "normalizedPatch patch current =
     current\<lparr> eo_pathMode := nullish (map_option normalizePathMode (xp_pathMode patch)) (eo_pathMode current),
       eo_overwrite := nullish (map_option normalizeOverwrite (xp_overwrite patch)) (eo_overwrite current),
       eo_stripComponents :=
         nullish (map_option normalizeStripComponents (xp_stripComponents patch)) (eo_stripComponents current),
       eo_deduplicateRoot := nullish (xp_deduplicateRoot patch) (eo_deduplicateRoot current),
       eo_tzapRestorePolicy :=
         nullish (map_option (\<lambda>v. normalizeTzapRestorePolicy (Some v)) (xp_tzapRestorePolicy patch))
           (eo_tzapRestorePolicy current),
       eo_tzapAllowDegraded := nullish (xp_tzapAllowDegraded patch) (eo_tzapAllowDegraded current),
       eo_tzapAllowAbsoluteSymlinks :=
         nullish (xp_tzapAllowAbsoluteSymlinks patch) (eo_tzapAllowAbsoluteSymlinks current),
       eo_ignoreSymlinks := nullish (xp_ignoreSymlinks patch) (eo_ignoreSymlinks current),
       eo_tzapRecipientKeyId :=
         nullish (map_option js_trim (xp_tzapRecipientKeyId patch)) (eo_tzapRecipientKeyId current),
       eo_passwordPromptOpen := nullish (xp_passwordPromptOpen patch) (eo_passwordPromptOpen current),
       eo_destinationPath := nullish (xp_destinationPath patch) (eo_destinationPath current) \<rparr>"

definition xw_setOptions :: "extract_patch \<Rightarrow> extract_workspace \<Rightarrow> extract_workspace" where
  "xw_setOptions patch w =
     (let patched = normalizedPatch patch (xw_options w)
      in w\<lparr> xw_options := patched\<lparr> eo_usesGlobalDefaults :=
              (if changesDurableOption patch then False else eo_usesGlobalDefaults (xw_options w)) \<rparr> \<rparr>)"

definition resetToDefaults :: "extract_workspace \<Rightarrow> extract_workspace" where
  "resetToDefaults w = w\<lparr> xw_options := snapshotFromDefaults (xw_defaults w) \<rparr>"

definition update_verification ::
    "(tzap_verification \<Rightarrow> tzap_verification) \<Rightarrow> extract_workspace \<Rightarrow> extract_workspace" where
  "update_verification f w =
     w\<lparr> xw_options := (xw_options w)\<lparr> eo_tzapVerification := f (eo_tzapVerification (xw_options w)) \<rparr> \<rparr>"

definition setTzapVerificationOptions :: "verification_patch \<Rightarrow> extract_workspace \<Rightarrow> extract_workspace" where
  "setTzapVerificationOptions patch =
     update_verification (\<lambda>v.
       v\<lparr> tv_validateTrust := nullish (vp_validateTrust patch) (tv_validateTrust v),
         tv_trustedCaCertificatePaths :=
           nullish (map_option uniquePaths (vp_trustedCaCertificatePaths patch)) (tv_trustedCaCertificatePaths v),
         tv_trustedSystemRoots := nullish (vp_trustedSystemRoots patch) (tv_trustedSystemRoots v),
         tv_includeOfficialTzapRoot := nullish (vp_includeOfficialTzapRoot patch) (tv_includeOfficialTzapRoot v),
         tv_checkCurrentStatus := nullish (vp_checkCurrentStatus patch) (tv_checkCurrentStatus v),
         tv_state := VsIdle, tv_result := None, tv_error := [] \<rparr>)"

definition beginTzapVerification :: "extract_workspace \<Rightarrow> extract_workspace" where
  "beginTzapVerification =
     update_verification (\<lambda>v. v\<lparr> tv_state := VsChecking, tv_result := None, tv_error := [] \<rparr>)"

definition acceptTzapVerification :: "verify_response \<Rightarrow> extract_workspace \<Rightarrow> extract_workspace" where
  "acceptTzapVerification result =
     update_verification (\<lambda>v.
       v\<lparr> tv_state := verificationStateForResult result (tv_checkCurrentStatus v), tv_result := Some result,
         tv_error := [] \<rparr>)"

definition rejectTzapVerification :: "string \<Rightarrow> extract_workspace \<Rightarrow> extract_workspace" where
  "rejectTzapVerification err =
     update_verification (\<lambda>v. v\<lparr> tv_state := VsError, tv_result := None, tv_error := err \<rparr>)"

text \<open>\<open>String(n)\<close>: \<open>other\<close> is the text of a number that is not a natural one.\<close>

definition xw_buildStartInput :: "(rat \<Rightarrow> string) \<Rightarrow> string option \<Rightarrow> extract_workspace \<Rightarrow> extract_start_input" where
  "xw_buildStartInput other password w =
     (let s = xw_options w
      in \<lparr> xi_destinationBasePath = eo_destinationPath s, xi_useSubfolder = False, xi_subfolder = [],
           xi_pathMode = eo_pathMode s, xi_overwrite = eo_overwrite s,
           xi_stripComponents = StripText (number_text other (eo_stripComponents s)),
           xi_deduplicateRoot = eo_deduplicateRoot s, xi_tzapRestorePolicy = Some (eo_tzapRestorePolicy s),
           xi_tzapAllowAbsoluteSymlinks = Some (eo_tzapAllowAbsoluteSymlinks s),
           xi_ignoreSymlinks = Some (eo_ignoreSymlinks s),
           xi_tzapRecipientKeyId = trimmed_opt (Some (eo_tzapRecipientKeyId s)),
           xi_password = trimmed_opt password \<rparr>)"

definition extractModeForSelection :: "nat \<Rightarrow> extract_mode" where
  "extractModeForSelection selectedCount = (if 0 < selectedCount then ModeSelection else ModeArchive)"

section \<open>The form of the dialog\<close>

record dialog_form =
  df_destination :: string
  df_useSubfolder :: bool
  df_subfolder :: string
  df_pathMode :: path_mode
  df_overwrite :: overwrite_policy
  df_stripComponents :: string
  df_deduplicateRoot :: bool
  df_tzapRestorePolicy :: restore_policy
  df_tzapAllowDegraded :: bool
  df_tzapAllowAbsoluteSymlinks :: bool
  df_ignoreSymlinks :: bool
  df_passwordPromptOpen :: bool

record dialog_patch =
  dp_destination :: "string option"
  dp_useSubfolder :: "bool option"
  dp_subfolder :: "string option"
  dp_pathMode :: "path_mode option"
  dp_overwrite :: "overwrite_policy option"
  dp_stripComponents :: "string option"
  dp_deduplicateRoot :: "bool option"
  dp_tzapRestorePolicy :: "restore_policy option"
  dp_tzapAllowDegraded :: "bool option"
  dp_tzapAllowAbsoluteSymlinks :: "bool option"
  dp_ignoreSymlinks :: "bool option"
  dp_passwordPromptOpen :: "bool option"

definition DEFAULT_EXTRACT_DIALOG_FORM :: dialog_form where
  "DEFAULT_EXTRACT_DIALOG_FORM =
     \<lparr> df_destination = [], df_useSubfolder = False, df_subfolder = [], df_pathMode = PmFull, df_overwrite = OwAsk,
       df_stripComponents = ''0'', df_deduplicateRoot = False, df_tzapRestorePolicy = RpPortable,
       df_tzapAllowDegraded = False, df_tzapAllowAbsoluteSymlinks = False, df_ignoreSymlinks = False,
       df_passwordPromptOpen = False \<rparr>"

definition normalizeExtractPathMode :: "path_mode option \<Rightarrow> path_mode" where
  "normalizeExtractPathMode v = (if v = Some PmCurrent \<or> v = Some PmNone then the v else PmFull)"

definition normalizeExtractOverwrite :: "overwrite_policy option \<Rightarrow> overwrite_policy" where
  "normalizeExtractOverwrite v =
     (case v of
        None \<Rightarrow> df_overwrite DEFAULT_EXTRACT_DIALOG_FORM
      | Some w \<Rightarrow> if w = OwReplace \<or> w = OwRename \<or> w = OwAsk then w else OwRefuse)"

definition createExtractDialogFormSnapshot :: "dialog_patch \<Rightarrow> dialog_form" where
  "createExtractDialogFormSnapshot patch =
     (let d = DEFAULT_EXTRACT_DIALOG_FORM
      in \<lparr> df_destination = nullish (dp_destination patch) (df_destination d),
           df_useSubfolder = nullish (dp_useSubfolder patch) (df_useSubfolder d),
           df_subfolder = nullish (dp_subfolder patch) (df_subfolder d),
           df_pathMode = normalizeExtractPathMode (dp_pathMode patch),
           df_overwrite = normalizeExtractOverwrite (dp_overwrite patch),
           df_stripComponents = nullish (dp_stripComponents patch) (df_stripComponents d),
           df_deduplicateRoot = nullish (dp_deduplicateRoot patch) (df_deduplicateRoot d),
           df_tzapRestorePolicy = normalizeTzapRestorePolicy (dp_tzapRestorePolicy patch),
           df_tzapAllowDegraded = nullish (dp_tzapAllowDegraded patch) (df_tzapAllowDegraded d),
           df_tzapAllowAbsoluteSymlinks =
             nullish (dp_tzapAllowAbsoluteSymlinks patch) (df_tzapAllowAbsoluteSymlinks d),
           df_ignoreSymlinks = nullish (dp_ignoreSymlinks patch) (df_ignoreSymlinks d),
           df_passwordPromptOpen = nullish (dp_passwordPromptOpen patch) (df_passwordPromptOpen d) \<rparr>)"

definition over :: "'a option \<Rightarrow> 'a \<Rightarrow> 'a option" where
  "over v w = Some (nullish v w)"

definition patchExtractDialogFormSnapshot :: "dialog_form \<Rightarrow> dialog_patch \<Rightarrow> dialog_form" where
  "patchExtractDialogFormSnapshot s patch =
     createExtractDialogFormSnapshot
       \<lparr> dp_destination = over (dp_destination patch) (df_destination s),
         dp_useSubfolder = over (dp_useSubfolder patch) (df_useSubfolder s),
         dp_subfolder = over (dp_subfolder patch) (df_subfolder s),
         dp_pathMode = over (dp_pathMode patch) (df_pathMode s),
         dp_overwrite = over (dp_overwrite patch) (df_overwrite s),
         dp_stripComponents = over (dp_stripComponents patch) (df_stripComponents s),
         dp_deduplicateRoot = over (dp_deduplicateRoot patch) (df_deduplicateRoot s),
         dp_tzapRestorePolicy = over (dp_tzapRestorePolicy patch) (df_tzapRestorePolicy s),
         dp_tzapAllowDegraded = over (dp_tzapAllowDegraded patch) (df_tzapAllowDegraded s),
         dp_tzapAllowAbsoluteSymlinks = over (dp_tzapAllowAbsoluteSymlinks patch) (df_tzapAllowAbsoluteSymlinks s),
         dp_ignoreSymlinks = over (dp_ignoreSymlinks patch) (df_ignoreSymlinks s),
         dp_passwordPromptOpen = over (dp_passwordPromptOpen patch) (df_passwordPromptOpen s) \<rparr>"

definition extractStartInputFromDialogForm :: "dialog_form \<Rightarrow> string option \<Rightarrow> extract_start_input" where
  "extractStartInputFromDialogForm form password =
     \<lparr> xi_destinationBasePath = df_destination form, xi_useSubfolder = df_useSubfolder form,
       xi_subfolder = df_subfolder form, xi_pathMode = df_pathMode form, xi_overwrite = df_overwrite form,
       xi_stripComponents = StripText (df_stripComponents form), xi_deduplicateRoot = df_deduplicateRoot form,
       xi_tzapRestorePolicy = Some (df_tzapRestorePolicy form),
       xi_tzapAllowAbsoluteSymlinks = Some (df_tzapAllowAbsoluteSymlinks form),
       xi_ignoreSymlinks = Some (df_ignoreSymlinks form), xi_tzapRecipientKeyId = None,
       xi_password = trimmed_opt password \<rparr>"

section \<open>What the runtime does\<close>

definition APP_TITLE :: string where
  "APP_TITLE = ''ZManager''"

text \<open>The folder name: the name of the archive without its known suffix.\<close>

definition extractionDefaultsForArchive :: "app_preferences \<Rightarrow> string \<Rightarrow> extract_defaults" where
  "extractionDefaultsForArchive preferences archivePath =
     (let parent = nativeParentPath archivePath;
          custom = js_trim (ap_customExtractFolderPath preferences);
          configuredBase = (if custom \<noteq> [] then custom else
                              case defaultCreateDirectory preferences of
                                Some d \<Rightarrow> if d \<noteq> [] then d else parent
                              | None \<Rightarrow> parent);
          archiveName = getPathBasename (Some archivePath) APP_TITLE;
          folderName = (case getKnownArchiveSuffix archivePath of
                          Some suffix' \<Rightarrow>
                            if suffix' \<noteq> [] \<and> suffix (js_lower suffix') (js_lower archiveName)
                            then take (length archiveName - length suffix') archiveName else archiveName
                        | None \<Rightarrow> archiveName);
          extractionAction =
            (if ap_defaultExtractionBehavior preferences = BehaviorHere then ExtractHere else ExtractToFolder)
      in \<lparr> xd_destinationPath =
             (if ep_destination (archiveExtractionPolicy extractionAction) = ArchiveParent then parent
              else runtime_joinNativePath configuredBase (if folderName \<noteq> [] then folderName else APP_TITLE)),
           xd_pathMode = ap_defaultExtractPathMode preferences, xd_overwrite = ap_defaultExtractOverwrite preferences,
           xd_stripComponents = ap_defaultExtractStripComponents preferences,
           xd_deduplicateRoot = ap_defaultExtractDeduplicateRoot preferences,
           xd_tzapRestorePolicy = Some (ap_defaultTzapRestorePolicy preferences),
           xd_tzapAllowDegraded = Some (ap_defaultTzapAllowDegraded preferences),
           xd_tzapAllowAbsoluteSymlinks = Some (ap_defaultTzapAllowAbsoluteSymlinks preferences),
           xd_ignoreSymlinks = Some (ap_defaultExtractIgnoreSymlinks preferences) \<rparr>)"

text \<open>Called for every page of entries that is shown.\<close>

definition applyExtractPreferenceDefaults :: "app_preferences \<Rightarrow> string \<Rightarrow> extract_workspace \<Rightarrow> extract_workspace" where
  "applyExtractPreferenceDefaults preferences archivePath =
     applyDefaults (extractionDefaultsForArchive preferences archivePath)"

definition chooseTzapTrustedCAs :: "string list \<Rightarrow> extract_workspace \<Rightarrow> extract_workspace" where
  "chooseTzapTrustedCAs paths w =
     setTzapVerificationOptions
       \<lparr> vp_validateTrust = None,
         vp_trustedCaCertificatePaths = Some (tv_trustedCaCertificatePaths (eo_tzapVerification (xw_options w)) @ paths),
         vp_trustedSystemRoots = None, vp_includeOfficialTzapRoot = None, vp_checkCurrentStatus = None \<rparr> w"

definition removeTzapTrustedCA :: "string \<Rightarrow> extract_workspace \<Rightarrow> extract_workspace" where
  "removeTzapTrustedCA path w =
     setTzapVerificationOptions
       \<lparr> vp_validateTrust = None,
         vp_trustedCaCertificatePaths =
           Some (filter (\<lambda>item. item \<noteq> path) (tv_trustedCaCertificatePaths (eo_tzapVerification (xw_options w)))),
         vp_trustedSystemRoots = None, vp_includeOfficialTzapRoot = None, vp_checkCurrentStatus = None \<rparr> w"

text \<open>The request of a verification; then, when the command has answered, what is done with the answer.\<close>

record verify_request =
  vq_archivePath :: string
  vq_validateTrust :: bool
  vq_trustedCaCertificatePaths :: "string list"
  vq_trustedSystemRoots :: bool
  vq_includeOfficialTzapRoot :: bool
  vq_checkCurrentStatus :: bool
  vq_environment :: tzap_environment

definition verifyCurrentTzapCertificate ::
    "bool \<Rightarrow> app_preferences \<Rightarrow> string \<Rightarrow> extract_workspace \<Rightarrow> extract_workspace \<times> verify_request option" where
  "verifyCurrentTzapCertificate hostedEnabled preferences archivePath w =
     (if \<not> sublist ''.tzap'' (js_lower archivePath) then (w, None)
      else (let v = eo_tzapVerification (xw_options w)
            in (beginTzapVerification w,
                Some \<lparr> vq_archivePath = archivePath, vq_validateTrust = tv_validateTrust v,
                       vq_trustedCaCertificatePaths = tv_trustedCaCertificatePaths v,
                       vq_trustedSystemRoots = tv_trustedSystemRoots v,
                       vq_includeOfficialTzapRoot = tv_includeOfficialTzapRoot v,
                       vq_checkCurrentStatus = (hostedEnabled \<and> tv_checkCurrentStatus v),
                       vq_environment = ap_tzapEnvironment preferences \<rparr>)))"

fun verification_answered :: "verify_response + string \<Rightarrow> extract_workspace \<Rightarrow> extract_workspace" where
  "verification_answered (Inl result) = acceptTzapVerification result"
| "verification_answered (Inr err) = rejectTzapVerification err"

end
