(* ===== verification/ExtractWorkspaceProps.thy ===== *)
theory ExtractWorkspaceProps
  imports ExtractWorkspace
begin

text \<open>
  The extraction workspace as a machine, its invariant, and what follows: a verification is shown as successful only
  with an answer that justifies it, and the request of an extraction says what the options show.
\<close>

section \<open>The steps and the invariant\<close>

inductive xw_step :: "extract_workspace \<Rightarrow> extract_workspace \<Rightarrow> bool" where
  defaults_applied: "xw_step w (applyDefaults d w)"
| options_set: "xw_step w (xw_setOptions patch w)"
| options_reset: "xw_step w (resetToDefaults w)"
| verification_set: "xw_step w (setTzapVerificationOptions vp w)"
| verification_begun: "xw_step w (beginTzapVerification w)"
| verification_accepted: "xw_step w (acceptTzapVerification result w)"
| verification_rejected: "xw_step w (rejectTzapVerification err w)"

inductive xw_initial :: "extract_workspace \<Rightarrow> bool" where
  "xw_initial (createExtractWorkspace d)"

inductive_cases xw_stepE: "xw_step w w'"
inductive_cases xw_initialE: "xw_initial w"

definition whole_count :: "jsnum \<Rightarrow> bool" where
  "whole_count x \<longleftrightarrow> (\<exists>n::nat. x = js_nat n)"

definition defaults_ok :: "extract_defaults \<Rightarrow> bool" where
  "defaults_ok d \<longleftrightarrow> whole_count (xd_stripComponents d) \<and> js_trim (xd_destinationPath d) = xd_destinationPath d"

definition verification_ok :: "tzap_verification \<Rightarrow> bool" where
  "verification_ok v \<longleftrightarrow>
     distinct (tv_trustedCaCertificatePaths v)
     \<and> (\<forall>p \<in> set (tv_trustedCaCertificatePaths v). p \<noteq> [] \<and> js_trim p = p)
     \<and> (case tv_result v of
          Some r \<Rightarrow> tv_state v = verificationStateForResult r (tv_checkCurrentStatus v) \<and> tv_error v = []
        | None \<Rightarrow> tv_state v = VsIdle \<or> tv_state v = VsChecking \<or> tv_state v = VsError)"

definition xw_inv :: "extract_workspace \<Rightarrow> bool" where
  "xw_inv w \<longleftrightarrow>
     defaults_ok (xw_defaults w) \<and> whole_count (eo_stripComponents (xw_options w))
     \<and> js_trim (eo_tzapRecipientKeyId (xw_options w)) = eo_tzapRecipientKeyId (xw_options w)
     \<and> verification_ok (eo_tzapVerification (xw_options w))"

lemma whole_counts [simp]: "whole_count (Fin 0)" "0 \<le> q \<Longrightarrow> whole_count (Fin (of_int \<lfloor>q\<rfloor>))"
proof -
  show "whole_count (Fin 0)" by (auto simp: whole_count_def js_nat_def intro!: exI [of _ "0::nat"])
  show "whole_count (Fin (of_int \<lfloor>q\<rfloor>))" if "0 \<le> q"
    using that by (auto simp: whole_count_def js_nat_def intro!: exI [of _ "nat \<lfloor>q\<rfloor>"])
qed

lemma whole_normalized [simp]: "whole_count (normalizeStripComponents v)"
  by (cases v) (simp_all add: normalizeStripComponents_def)

lemma unique_paths_ok:
  "distinct (uniquePaths ps)" "p \<in> set (uniquePaths ps) \<Longrightarrow> p \<noteq> [] \<and> js_trim p = p"
  by (auto simp: uniquePaths_def set_js_set)

lemma normalized_defaults_ok [simp]: "defaults_ok (normalizeDefaults d)"
  by (simp add: defaults_ok_def normalizeDefaults_def)

lemma idle_verification_ok [simp]: "verification_ok idle_verification"
  by (simp add: verification_ok_def idle_verification_def)

lemma snapshot_inv: "defaults_ok d \<Longrightarrow> xw_inv \<lparr> xw_defaults = d, xw_options = snapshotFromDefaults d \<rparr>"
  by (simp add: xw_inv_def snapshotFromDefaults_def defaults_ok_def)

lemma update_verification_inv:
  "xw_inv w \<Longrightarrow> (verification_ok (eo_tzapVerification (xw_options w)) \<Longrightarrow> verification_ok (f (eo_tzapVerification (xw_options w))))
     \<Longrightarrow> xw_inv (update_verification f w)"
  by (simp add: xw_inv_def update_verification_def)

lemma patched_inv:
  assumes "xw_inv w"
  shows "xw_inv (xw_setOptions patch w)"
proof -
  have "whole_count (nullish (map_option normalizeStripComponents (xp_stripComponents patch)) (eo_stripComponents (xw_options w)))"
    using assms by (cases "xp_stripComponents patch") (simp_all add: xw_inv_def)
  moreover have "js_trim (nullish (map_option js_trim (xp_tzapRecipientKeyId patch)) (eo_tzapRecipientKeyId (xw_options w)))
      = nullish (map_option js_trim (xp_tzapRecipientKeyId patch)) (eo_tzapRecipientKeyId (xw_options w))"
    using assms by (cases "xp_tzapRecipientKeyId patch") (simp_all add: xw_inv_def)
  ultimately show ?thesis
    using assms by (simp add: xw_setOptions_def normalizedPatch_def xw_inv_def Let_def)
qed

lemma set_verification_ok:
  assumes "xw_inv w"
  shows "xw_inv (setTzapVerificationOptions vp w)"
  unfolding setTzapVerificationOptions_def
proof (rule update_verification_inv [OF assms])
  assume "verification_ok (eo_tzapVerification (xw_options w))"
  then show "verification_ok ((\<lambda>v.
       v\<lparr> tv_validateTrust := nullish (vp_validateTrust vp) (tv_validateTrust v),
         tv_trustedCaCertificatePaths :=
           nullish (map_option uniquePaths (vp_trustedCaCertificatePaths vp)) (tv_trustedCaCertificatePaths v),
         tv_trustedSystemRoots := nullish (vp_trustedSystemRoots vp) (tv_trustedSystemRoots v),
         tv_includeOfficialTzapRoot := nullish (vp_includeOfficialTzapRoot vp) (tv_includeOfficialTzapRoot v),
         tv_checkCurrentStatus := nullish (vp_checkCurrentStatus vp) (tv_checkCurrentStatus v),
         tv_state := VsIdle, tv_result := None, tv_error := [] \<rparr>) (eo_tzapVerification (xw_options w)))"
    by (cases "vp_trustedCaCertificatePaths vp") (auto simp: verification_ok_def unique_paths_ok)
qed

interpretation extract_workspace: machine xw_initial xw_step xw_inv
proof
  show "xw_inv w" if "xw_initial w" for w
    using that by cases (simp add: createExtractWorkspace_def Let_def snapshot_inv)
  show "xw_inv w'" if "xw_inv w" and "xw_step w w'" for w w'
    using that(2)
  proof cases
    case (defaults_applied d)
    then show ?thesis
      using that(1) snapshot_inv [of "normalizeDefaults d"] by (simp add: applyDefaults_def xw_inv_def Let_def)
  next
    case options_reset
    then show ?thesis
      using that(1) snapshot_inv [of "xw_defaults w"] by (simp add: resetToDefaults_def xw_inv_def)
  qed (use that(1) in \<open>auto simp: beginTzapVerification_def acceptTzapVerification_def rejectTzapVerification_def
        verification_ok_def patched_inv set_verification_ok intro: update_verification_inv\<close>)
qed

section \<open>What the workspace guarantees\<close>




lemma deepest_folder: "fold (\<lambda>p m. max m (archivePathDepth p)) ps (n :: nat) = Max (insert n (archivePathDepth ` set ps))"
proof (induction ps arbitrary: n)
  case (Cons p ps)
  then show ?case by (cases "set ps = {}") (simp_all add: insert_commute max.commute)
qed simp

text \<open>The number of leading folders that an extraction strips: the number shown, or the folders that the path mode drops.\<close>

definition stripped_folders :: "path_mode \<Rightarrow> jsnum \<Rightarrow> string \<Rightarrow> string list \<Rightarrow> jsnum" where
  "stripped_folders mode shown folder paths =
     (case mode of
        PmFull \<Rightarrow> shown
      | PmCurrent \<Rightarrow> js_max shown (js_nat (archivePathDepth folder))
      | PmNone \<Rightarrow> js_max shown (js_nat (Max (insert 0 (archivePathDepth ` set paths)))))"

lemma shown_strip:
  assumes "reachable xw_initial xw_step w" and "eo_stripComponents (xw_options w) = Fin q" and "q < 10 ^ 21"
  shows "js_max (Fin 0) (numberOrZero js_number (StripText (number_text other (eo_stripComponents (xw_options w)))))
           = eo_stripComponents (xw_options w)"
proof -
  have "whole_count (eo_stripComponents (xw_options w))"
    using extract_workspace.reachable_inv [OF assms(1)] by (simp add: xw_inv_def)
  then have "fits (eo_stripComponents (xw_options w))"
    using assms(2,3) by (auto simp: whole_count_def js_nat_def fits_def natural_number_def intro: exI [of _ "int n" for n])
  then obtain n where n: "eo_stripComponents (xw_options w) = js_nat n"
      and printed: "number_text other (eo_stripComponents (xw_options w)) = nat_string n" and bound: "n < 2 ^ 1023"
    using fitting_text [of _ other] unfolding js_nat_def by blast
  have "numberOrZero js_number (StripText (nat_string n)) = js_nat n"
    using js_number_natural [OF bound] by (simp add: natural_text_trimmed js_nat_def Let_def)
  then show ?thesis using n printed by (simp add: js_nat_def)
qed

text \<open>What is resolved of the input that the workspace builds.\<close>

lemma shown_input:
  assumes "reachable xw_initial xw_step w" and "eo_stripComponents (xw_options w) = Fin q" and "q < 10 ^ 21"
    and "r = resolveExtractStartInput js_number join (xw_buildStartInput other password w) folder allPaths references"
  shows "rx_destination r = trimmed_opt (Some (eo_destinationPath (xw_options w)))"
    and "rx_destinationValid r = (rx_destination r \<noteq> None)"
    and "rx_overwrite r = eo_overwrite (xw_options w)"
    and "rx_tzapRestorePolicy r = eo_tzapRestorePolicy (xw_options w)"
    and "rx_tzapAllowAbsoluteSymlinks r = eo_tzapAllowAbsoluteSymlinks (xw_options w)"
    and "rx_ignoreSymlinks r = eo_ignoreSymlinks (xw_options w)"
    and "rx_tzapRecipientKeyId r = nonempty_opt (Some (eo_tzapRecipientKeyId (xw_options w)))"
    and "rx_password r = (if eo_tzapRecipientKeyId (xw_options w) = [] then trimmed_opt password else None)"
    and "rx_entryReferences r = references"
    and "\<not> eo_deduplicateRoot (xw_options w) \<Longrightarrow>
           rx_stripComponents r = stripped_folders (eo_pathMode (xw_options w)) (eo_stripComponents (xw_options w)) folder
             (if references \<noteq> [] then references else allPaths)"
proof -
  have key: "js_trim (eo_tzapRecipientKeyId (xw_options w)) = eo_tzapRecipientKeyId (xw_options w)"
    using extract_workspace.reachable_inv [OF assms(1)] by (simp add: xw_inv_def)
  note defs = assms(4) resolveExtractStartInput_def xw_buildStartInput_def resolveExtractDestination_def Let_def
    trimmed_opt_def nonempty_opt_def
  show "rx_destination r = trimmed_opt (Some (eo_destinationPath (xw_options w)))"
    and "rx_destinationValid r = (rx_destination r \<noteq> None)"
    and "rx_overwrite r = eo_overwrite (xw_options w)"
    and "rx_tzapRestorePolicy r = eo_tzapRestorePolicy (xw_options w)"
    and "rx_tzapAllowAbsoluteSymlinks r = eo_tzapAllowAbsoluteSymlinks (xw_options w)"
    and "rx_ignoreSymlinks r = eo_ignoreSymlinks (xw_options w)"
    and "rx_entryReferences r = references"
    by (simp_all add: defs)
  show "rx_tzapRecipientKeyId r = nonempty_opt (Some (eo_tzapRecipientKeyId (xw_options w)))"
    and "rx_password r = (if eo_tzapRecipientKeyId (xw_options w) = [] then trimmed_opt password else None)"
    using key by (cases password; simp add: defs)+
  show "rx_stripComponents r = stripped_folders (eo_pathMode (xw_options w)) (eo_stripComponents (xw_options w)) folder
      (if references \<noteq> [] then references else allPaths)" if "\<not> eo_deduplicateRoot (xw_options w)"
    using shown_strip [OF assms(1-3), of other] that
    by (cases "eo_pathMode (xw_options w)")
      (simp_all add: assms(4) resolveExtractStartInput_def xw_buildStartInput_def Let_def resolveExtractStripComponents_def
        stripped_folders_def deepest_folder)
qed

section \<open>Concrete instances\<close>








section \<open>What is lost\<close>

text \<open>Showing a page of entries puts the default destination in the place of the one the user chose.\<close>

theorem page_overwrites_destination:
  "eo_destinationPath (xw_options (applyExtractPreferenceDefaults preferences archivePath (xw_setOptions patch w)))
     = js_trim (xd_destinationPath (extractionDefaultsForArchive preferences archivePath))"
  by (simp add: applyExtractPreferenceDefaults_def applyDefaults_def snapshotFromDefaults_def normalizeDefaults_def Let_def)

text \<open>As long as no option has been changed, it also drops the verification, its result and its trust options.\<close>

theorem page_drops_verification:
  "eo_usesGlobalDefaults (xw_options w)
     \<Longrightarrow> eo_tzapVerification (xw_options (applyExtractPreferenceDefaults preferences archivePath w)) = idle_verification"
  by (simp add: applyExtractPreferenceDefaults_def applyDefaults_def snapshotFromDefaults_def Let_def)

text \<open>
  The answer of a verification is shown whatever has happened since it was asked for: here the verification options
  have been changed, or the page of another archive has been shown.
\<close>

theorem late_verification_is_shown:
  "tv_state (eo_tzapVerification (xw_options (verification_answered (Inl r) (setTzapVerificationOptions patch
      (fst (verifyCurrentTzapCertificate hosted preferences archivePath w))))))
    = verificationStateForResult r (nullish (vp_checkCurrentStatus patch) (tv_checkCurrentStatus
        (eo_tzapVerification (xw_options w))))"
  "tv_result (eo_tzapVerification (xw_options (verification_answered (Inl r) (applyExtractPreferenceDefaults preferences
      otherArchive (fst (verifyCurrentTzapCertificate hosted preferences archivePath w)))))) = Some r"
  by (simp_all add: setTzapVerificationOptions_def acceptTzapVerification_def update_verification_def
      verifyCurrentTzapCertificate_def beginTzapVerification_def Let_def)

end
