(* ===== verification/Submission.thy ===== *)
theory Submission
  imports ExtractWorkspace
begin

text \<open>
  What the main window submits: the creation, the extraction and the test of an archive
  (\<open>controllers/createStartController.ts\<close>, \<open>extractStartController.ts\<close>, \<open>archiveTestController.ts\<close>) and the
  permission they share (\<open>mainWindowSubmissionGuard.ts\<close>).

  Each start builds a request from its workspace, takes the permission and awaits the answer of the backend; the awaited
  submissions are a list in the state, and \<open>settle_submission\<close> is what happens from the answer on.  What is done to the
  rest of the program is a list of effects.
\<close>

section \<open>The permission\<close>

definition guard_isInFlight :: "bool \<Rightarrow> bool" where
  "guard_isInFlight inFlight = inFlight"

definition guard_tryBegin :: "bool \<Rightarrow> bool \<times> bool" where
  "guard_tryBegin inFlight = (if inFlight then (inFlight, False) else (True, True))"

definition guard_end :: "bool \<Rightarrow> bool" where
  "guard_end inFlight = False"

text \<open>What the controllers rely on: at most one of them has the permission.\<close>

locale permission =
  fixes isInFlight :: "'g \<Rightarrow> bool"
    and tryBegin :: "'g \<Rightarrow> 'g \<times> bool"
    and finish :: "'g \<Rightarrow> 'g"
  assumes granted_iff: "snd (tryBegin g) \<longleftrightarrow> \<not> isInFlight g"
    and in_flight_after: "isInFlight (fst (tryBegin g))"
    and free_after: "\<not> isInFlight (finish g)"
begin

text \<open>\<open>n\<close> holders.\<close>

definition held_by :: "nat \<Rightarrow> 'g \<Rightarrow> bool" where
  "held_by n g \<longleftrightarrow> n = (if isInFlight g then 1 else 0)"

lemma held_at_most_once: "held_by n g \<Longrightarrow> n \<le> 1"
  by (simp add: held_by_def)

lemma held_after_begin: "held_by n g \<Longrightarrow> held_by (if snd (tryBegin g) then Suc n else n) (fst (tryBegin g))"
  by (simp add: held_by_def granted_iff in_flight_after)

lemma held_after_end: "held_by (Suc n) g \<Longrightarrow> held_by n (finish g)"
  by (simp add: held_by_def free_after split: if_splits)

lemma refused_while_held: "held_by (Suc n) g \<Longrightarrow> \<not> snd (tryBegin g)"
  by (simp add: held_by_def granted_iff split: if_splits)

end

interpretation submission_guard: permission guard_isInFlight guard_tryBegin guard_end
  by unfold_locales (simp_all add: guard_isInFlight_def guard_tryBegin_def guard_end_def)

section \<open>The state\<close>

datatype submission =
    SubmitCreate start_create_request
  | SubmitExtract extract_mode start_extract_request string
  | SubmitTest test_request

datatype submission_message = SmText string | SmUnableExtract extract_mode | SmUnableTest

datatype submission_effect =
    SeStartCreate start_create_request
  | SeStartExtract start_extract_request
  | SeStartTest test_request
  | SeCreateStarted start_job_response start_create_request
  | SeHandoff start_job_response
  | SeRecordDestination string
  | SeCloseExtractDialog
  | SeChooseDestinationFirst
  | SeSelectEntryFirst
  | SePasswordInDialog password_retry
  | SePrompt password_retry
  | SeBrowseError submission_message

record main_window =
  mw_inFlight :: bool
  mw_create :: cw_state
  mw_archive :: ws_state
  mw_awaiting :: "submission list"
  mw_effects :: "submission_effect list"

definition perform :: "submission_effect list \<Rightarrow> main_window \<Rightarrow> main_window" where
  "perform effects st = st\<lparr> mw_effects := mw_effects st @ effects \<rparr>"

definition release :: "main_window \<Rightarrow> main_window" where
  "release st = st\<lparr> mw_inFlight := guard_end (mw_inFlight st) \<rparr>"

section \<open>Creating\<close>

definition runCreate :: "cw_env \<Rightarrow> start_input \<Rightarrow> main_window \<Rightarrow> main_window" where
  "runCreate env input st =
     (if guard_isInFlight (mw_inFlight st) then st
      else if cw_sources (mw_create st) = [] then st
      else
        let (workspace, requestResult) = cw_buildStartCreateRequest env input (mw_create st);
            built = st\<lparr> mw_create := workspace \<rparr>
        in case requestResult of
             StartUnavailable reason status \<Rightarrow> built
           | StartRequest request \<Rightarrow>
               let (inFlight, granted) = guard_tryBegin (mw_inFlight st)
               in if \<not> granted then built
                  else perform [SeStartCreate request]
                    (built\<lparr> mw_inFlight := inFlight, mw_create := fst (setSubmissionInFlight True workspace),
                       mw_awaiting := mw_awaiting st @ [SubmitCreate request] \<rparr>))"

definition create_start_failed :: "command_error option \<Rightarrow> plan_status" where
  "create_start_failed commandError =
     (case commandError of
        Some e \<Rightarrow>
          if ce_message e \<noteq> [] then \<lparr> pt_messageKey = None, pt_fallbackText = Some (ce_message e) \<rparr>
          else plan_status_key PmUnableStart
      | None \<Rightarrow> plan_status_key PmUnableStart)"

definition create_settled :: "start_create_request \<Rightarrow> job_answer \<Rightarrow> main_window \<Rightarrow> main_window" where
  "create_settled request answer st =
     (let ended = (\<lambda>s. (release s)\<lparr> mw_create := fst (setSubmissionInFlight False (mw_create s)) \<rparr>)
      in case answer of
           JobRejected commandError \<Rightarrow>
             ended (st\<lparr> mw_create := cw_setPlanError (create_start_failed commandError) (mw_create st) \<rparr>)
         | JobAccepted response \<Rightarrow> perform [SeCreateStarted response request] (ended st)
         | HandoffFailed response commandError \<Rightarrow> perform [SeCreateStarted response request] (ended st))"

section \<open>Extracting\<close>

definition extract_request_input_of :: "extract_mode \<Rightarrow> string \<Rightarrow> resolved_extract_input \<Rightarrow> extract_request_input" where
  "extract_request_input_of mode destination r =
     \<lparr> ei_mode = mode, ei_destinationPath = destination, ei_overwrite = rx_overwrite r, ei_strategy = None,
       ei_stripComponents = rx_stripComponents r, ei_tzapRestorePolicy = Some (rx_tzapRestorePolicy r),
       ei_tzapAllowAbsoluteSymlinks = Some (rx_tzapAllowAbsoluteSymlinks r),
       ei_ignoreSymlinks = Some (rx_ignoreSymlinks r), ei_recipientKeyId = nonempty_opt (rx_tzapRecipientKeyId r),
       ei_password = rx_password r \<rparr>"

definition startExtract :: "extract_mode \<Rightarrow> extract_start_input \<Rightarrow> main_window \<Rightarrow> main_window" where
  "startExtract mode input st =
     (let w = mw_archive st;
          r = resolveExtractStartInput js_number runtime_joinNativePath input (wv_currentFolder (ws_view w))
                (map ae_path (ws_entries w)) (getExtractReferencePaths w mode)
      in if ws_currentArchivePath w = [] then st
         else case rx_destination r of
           None \<Rightarrow> perform [SeChooseDestinationFirst] st
         | Some destination \<Rightarrow>
             if \<not> rx_destinationValid r \<or> destination = [] then perform [SeChooseDestinationFirst] st
             else if mode = ModeSelection \<and> rx_entryReferences r = [] \<and> \<not> ws_allSelected (wv_selection (ws_view w))
             then perform [SeSelectEntryFirst] st
             else case buildExtractRequest (extract_request_input_of mode destination r) w of
                 Inl reason \<Rightarrow> if mode = ModeSelection then perform [SeSelectEntryFirst] st else st
               | Inr request \<Rightarrow>
                   let (inFlight, granted) = guard_tryBegin (mw_inFlight st)
                   in if \<not> granted then st
                      else perform [SeStartExtract request]
                        (st\<lparr> mw_inFlight := inFlight,
                           mw_awaiting := mw_awaiting st @ [SubmitExtract mode request destination] \<rparr>))"

definition passwordRetryOperation :: "extract_mode \<Rightarrow> retry_operation" where
  "passwordRetryOperation mode = (if mode = ModeArchive then RoExtractArchive else RoExtractSelection)"

definition extract_settled :: "extract_mode \<Rightarrow> string \<Rightarrow> job_answer \<Rightarrow> main_window \<Rightarrow> main_window" where
  "extract_settled mode destination answer st =
     (case answer of
        JobAccepted response \<Rightarrow>
          perform [SeHandoff response, SeRecordDestination destination, SeCloseExtractDialog] (release st)
      | HandoffFailed response commandError \<Rightarrow> perform [SeHandoff response] (release st)
      | JobRejected commandError \<Rightarrow>
          let workspace = requestPasswordRetry (passwordRetryOperation mode) commandError (mw_archive st);
              failed = release (st\<lparr> mw_archive := workspace \<rparr>)
          in case ws_passwordRetry workspace of
               Some retry \<Rightarrow> perform [SePasswordInDialog retry] failed
             | None \<Rightarrow>
                 perform [SeBrowseError (case commandError of Some e \<Rightarrow> SmText (ce_message e) | None \<Rightarrow> SmUnableExtract mode)]
                   failed)"

section \<open>Testing\<close>

definition testArchive :: "main_window \<Rightarrow> main_window" where
  "testArchive st =
     (if ws_currentArchivePath (mw_archive st) = [] \<or> guard_isInFlight (mw_inFlight st) then st
      else case buildTestRequest None (mw_archive st) of
          Inl reason \<Rightarrow> st
        | Inr request \<Rightarrow>
            let (inFlight, granted) = guard_tryBegin (mw_inFlight st)
            in if \<not> granted then st
               else perform [SeStartTest request]
                 (st\<lparr> mw_inFlight := inFlight, mw_awaiting := mw_awaiting st @ [SubmitTest request] \<rparr>))"

definition commandErrorMessage :: "command_error \<Rightarrow> string" where
  "commandErrorMessage e = ce_message e @ (if truthy (ce_hint e) then CHR 0x0A # the (ce_hint e) else [])"

text \<open>\<open>nextPassword\<close> is what the user enters if a prompt is shown; a test that is tried again keeps the permission.\<close>

definition test_settled :: "job_answer \<Rightarrow> string option \<Rightarrow> main_window \<Rightarrow> main_window" where
  "test_settled answer nextPassword st =
     (case answer of
        JobAccepted response \<Rightarrow> perform [SeHandoff response] (release st)
      | HandoffFailed response commandError \<Rightarrow> perform [SeHandoff response] (release st)
      | JobRejected commandError \<Rightarrow>
          let workspace = requestPasswordRetry RoTestArchive commandError (mw_archive st);
              failed = st\<lparr> mw_archive := workspace \<rparr>
          in case ws_passwordRetry workspace of
               Some retry \<Rightarrow>
                 if \<not> truthy nextPassword
                 then release (perform
                   [SePrompt retry,
                    SeBrowseError (case commandError of Some e \<Rightarrow> SmText (ce_message e) | None \<Rightarrow> SmUnableTest)]
                   (failed\<lparr> mw_archive := clearPasswordRetry workspace \<rparr>))
                 else (case buildTestRequest nextPassword workspace of
                     Inl reason \<Rightarrow> release (perform [SePrompt retry] failed)
                   | Inr request \<Rightarrow>
                       perform [SePrompt retry, SeStartTest request]
                         (failed\<lparr> mw_awaiting := mw_awaiting failed @ [SubmitTest request] \<rparr>))
             | None \<Rightarrow>
                 release (perform
                   [SeBrowseError (case commandError of Some e \<Rightarrow> SmText (commandErrorMessage e) | None \<Rightarrow> SmUnableTest)]
                   failed))"

section \<open>Answers\<close>

definition settle_submission :: "nat \<Rightarrow> job_answer \<Rightarrow> string option \<Rightarrow> main_window \<Rightarrow> main_window" where
  "settle_submission i answer nextPassword st =
     (if i < length (mw_awaiting st)
      then let rest = st\<lparr> mw_awaiting := take i (mw_awaiting st) @ drop (Suc i) (mw_awaiting st) \<rparr>
           in case mw_awaiting st ! i of
                SubmitCreate request \<Rightarrow> create_settled request answer rest
              | SubmitExtract mode request destination \<Rightarrow> extract_settled mode destination answer rest
              | SubmitTest request \<Rightarrow> test_settled answer nextPassword rest
      else st)"

end
