(* ===== verification/SubmissionProps.thy ===== *)
theory SubmissionProps
  imports Submission WorkspaceProps ExtractWorkspaceProps
begin

text \<open>
  The submissions of the main window as a machine: one submission at a time, whatever is edited meanwhile, and every
  answer gives the permission back, unless it is a password error after which a test is tried again.
\<close>

section \<open>Edits do not begin a submission\<close>

abbreviation starting :: "cw_state \<Rightarrow> bool" where
  "starting s \<equiv> co_submissionInFlight (cw_options s)"

lemma starting_view [simp]:
  "starting (cleanupSelectionForState env s) = starting s"
  "starting (fst (applySelectionResult env t s)) = starting s"
  "starting (fst (set_excluded xs s)) = starting s"
  "starting (fst (expand_folders env ps s)) = starting s"
  by (simp_all add: cleanupSelectionForState_def applySelectionResult_def set_excluded_def expand_folders_def Let_def)

lemma starting_plan [simp]:
  "starting (resetPlanState s) = starting s" "\<not> starting (restarted s o')"
  "starting (beginQueuedPlanState s r) = starting s" "starting (reconcileViewForPlan env s) = starting s"
  "starting (pruneExcludedPathsForPlan s) = starting s" "starting (setPlanErrorState s st) = starting s"
  "starting (refreshPlanAfterTransientInputEdit s) = starting s"
  by (simp_all add: resetPlanState_def restarted_def beginQueuedPlanState_def reconcileViewForPlan_def
      pruneExcludedPathsForPlan_def setPlanErrorState_def refreshPlanAfterTransientInputEdit_def
      refreshPlanAfterDestinationEdit_def Let_def split: option.split)

lemma starting_options [simp]:
  "co_submissionInFlight (applyDefaultsToOptions env o' f d) = co_submissionInFlight o'"
  "co_submissionInFlight (next_options env patch o') = co_submissionInFlight o'"
  "starting (fst (cw_setOptions env patch s)) = starting s"
  by (simp_all add: applyDefaultsToOptions_def next_options_def split_tolerance_def split_by_count_def split_by_size_def
      split_by_mode_def patched_options_def cw_setOptions_def Let_def split: split_mode.split)

lemma starting_destination [simp]: "starting (fst (setDestinationPath p s)) = starting s"
  by (simp add: setDestinationPath_def)

lemma starting_build [simp]: "starting (fst (cw_buildStartCreateRequest env i s)) = starting s"
  by (simp add: cw_buildStartCreateRequest_def start_checked_def refuse_start_def Let_def)

lemma unplanned_starts_nothing:
  "unplanned operation \<Longrightarrow> operation \<noteq> OpSetSubmissionInFlight True \<Longrightarrow> starting (cw_apply env operation s) \<Longrightarrow> starting s"
  by (cases operation)
    (simp_all add: applyFormatDefaults_def changeFormat_def setDestinationPathIfBlank_def fill_blank_destination_def
      suggestDestinationPathIfBlank_def ensureDestinationExtension_def setSubmissionInFlight_def
      cw_navigateToFolder_def cw_setSearchQuery_def cw_clearSearch_def cw_toggleTreeFolder_def
      setTreeFolderExpanded_def selectRow_def cw_updateSelection_def toggleRowSelection_def focusRow_def
      ensureRowSelected_def cw_clearSelection_def setPathIncluded_def setAllPathsIncluded_def
      setCurrentFolderIncluded_def setVisibleRowsIncluded_def cw_setColumnWidth_def cw_toggleColumnVisibility_def
      cw_moveColumn_def cw_reorderColumn_def cw_resetColumns_def Let_def split: option.splits if_splits)

lemma planned_starts_nothing:
  "\<not> unplanned operation \<Longrightarrow> starting (cw_apply env operation s) \<Longrightarrow> starting s"
  by (cases operation)
    (simp_all add: cw_addSources_def cw_setSources_def cw_removeSources_def cw_clearSources_def cw_reset_def
      resetAfterAcceptedStart_def cw_queuePlan_def cw_beginPlan_def cw_acceptPlanResult_def cw_acceptPlanError_def
      cw_setPlanError_def refreshPlanAfterDestinationEdit_def Let_def split: option.splits if_splits)

lemma edit_starts_nothing:
  "operation \<noteq> OpSetSubmissionInFlight True \<Longrightarrow> starting (cw_apply env operation s) \<Longrightarrow> starting s"
  using unplanned_starts_nothing planned_starts_nothing by blast

lemma submission_flag [simp]: "starting (fst (setSubmissionInFlight b s)) = b"
  by (auto simp: setSubmissionInFlight_def)

section \<open>The machine\<close>

inductive mw_step :: "cw_env \<Rightarrow> ws_env \<Rightarrow> main_window \<Rightarrow> main_window \<Rightarrow> bool" for cenv wenv where
  create_edited: "operation \<noteq> OpSetSubmissionInFlight True
    \<Longrightarrow> mw_step cenv wenv st (st\<lparr> mw_create := cw_apply cenv operation (mw_create st) \<rparr>)"
| archive_edited: "mw_step cenv wenv st (st\<lparr> mw_archive := ws_apply wenv edit (mw_archive st) \<rparr>)"
| create_started: "mw_step cenv wenv st (runCreate cenv input st)"
| extract_started: "mw_step cenv wenv st (startExtract mode xinput st)"
| test_started: "mw_step cenv wenv st (testArchive st)"
| answered: "mw_step cenv wenv st (settle_submission i answer nextPassword st)"

inductive_cases mw_stepE: "mw_step cenv wenv st st'"

definition mw_init :: "main_window \<Rightarrow> bool" where
  "mw_init st \<longleftrightarrow> cw_init (mw_create st) \<and> ws_initial (mw_archive st) \<and> \<not> mw_inFlight st \<and> mw_awaiting st = []"

fun creating :: "submission \<Rightarrow> bool" where
  "creating (SubmitCreate request) = True"
| "creating submission = False"

definition mw_inv :: "main_window \<Rightarrow> bool" where
  "mw_inv st \<longleftrightarrow>
     submission_guard.held_by (length (mw_awaiting st)) (mw_inFlight st)
     \<and> (starting (mw_create st) \<longrightarrow> list_ex creating (mw_awaiting st))"

lemma held_iff: "submission_guard.held_by n inFlight \<longleftrightarrow> n = (if inFlight then 1 else 0)"
  by (simp add: submission_guard.held_by_def guard_isInFlight_def)

lemma performed [simp]:
  "mw_inFlight (perform es st) = mw_inFlight st" "mw_create (perform es st) = mw_create st"
  "mw_archive (perform es st) = mw_archive st" "mw_awaiting (perform es st) = mw_awaiting st"
  "mw_effects (perform es st) = mw_effects st @ es"
  by (simp_all add: perform_def)

lemma released [simp]:
  "\<not> mw_inFlight (release st)" "mw_create (release st) = mw_create st" "mw_archive (release st) = mw_archive st"
  "mw_awaiting (release st) = mw_awaiting st" "mw_effects (release st) = mw_effects st"
  by (simp_all add: release_def guard_end_def)

lemmas start_defs = runCreate_def startExtract_def testArchive_def guard_isInFlight_def guard_tryBegin_def
lemmas settle_defs = create_settled_def extract_settled_def test_settled_def

lemma started_inv:
  assumes "mw_inv st"
  shows "mw_inv (runCreate env input st)" "mw_inv (startExtract mode xinput st)" "mw_inv (testArchive st)"
proof -
  have same: "starting (fst (cw_buildStartCreateRequest env input (mw_create st))) = starting (mw_create st)" by simp
  show "mw_inv (runCreate env input st)"
    using assms same
    by (auto simp: start_defs mw_inv_def held_iff Let_def case_prod_unfold split: start_result.split simp del: starting_build)
  show "mw_inv (startExtract mode xinput st)"
    using assms by (auto simp: start_defs mw_inv_def held_iff Let_def split: option.split sum.split)
  show "mw_inv (testArchive st)"
    using assms by (auto simp: start_defs mw_inv_def held_iff split: sum.split)
qed

text \<open>What an answer leaves: nothing, or the test that is tried again.\<close>

definition window_free :: "main_window \<Rightarrow> bool" where
  "window_free st \<longleftrightarrow> mw_awaiting st = [] \<and> \<not> mw_inFlight st \<and> \<not> starting (mw_create st)"

definition test_retried :: "main_window \<Rightarrow> job_answer \<Rightarrow> string option \<Rightarrow> main_window \<Rightarrow> bool" where
  "test_retried st answer nextPassword st' \<longleftrightarrow>
     (\<exists>request request' commandError retry.
        mw_awaiting st = [SubmitTest request] \<and> mw_awaiting st' = [SubmitTest request'] \<and> mw_inFlight st'
        \<and> \<not> starting (mw_create st') \<and> answer = JobRejected commandError \<and> truthy nextPassword
        \<and> ws_passwordRetry (requestPasswordRetry RoTestArchive commandError (mw_archive st)) = Some retry)"

lemma settled_submission:
  assumes "mw_inv st" and "i < length (mw_awaiting st)" and st': "st' = settle_submission i answer nextPassword st"
  shows "window_free st' \<or> test_retried st answer nextPassword st'"
proof -
  have "length (mw_awaiting st) = 1" and held: "mw_inFlight st"
    using assms by (auto simp: mw_inv_def held_iff split: if_splits)
  then obtain s where s: "mw_awaiting st = [s]" by (auto simp: length_Suc_conv)
  with assms(2) have i: "i = 0" by simp
  have flag: "starting (mw_create st) \<longrightarrow> creating s" using assms(1) s by (simp add: mw_inv_def)
  have rest: "st' =
      (case s of SubmitCreate request \<Rightarrow> create_settled request answer (st\<lparr> mw_awaiting := [] \<rparr>)
       | SubmitExtract mode request destination \<Rightarrow> extract_settled mode destination answer (st\<lparr> mw_awaiting := [] \<rparr>)
       | SubmitTest request \<Rightarrow> test_settled answer nextPassword (st\<lparr> mw_awaiting := [] \<rparr>))"
    by (simp add: st' settle_submission_def s i Let_def)
  show ?thesis
  proof (cases s)
    case (SubmitTest request)
    then show ?thesis
      using rest flag held s
      by (auto simp: test_settled_def Let_def window_free_def test_retried_def split: job_answer.split option.split sum.split)
  qed (use rest flag in \<open>auto simp: settle_defs Let_def window_free_def split: job_answer.split option.split\<close>)
qed

lemma settled_inv:
  assumes "mw_inv st"
  shows "mw_inv (settle_submission i answer nextPassword st)"
proof (cases "i < length (mw_awaiting st)")
  case True
  show ?thesis
    using settled_submission [OF assms True refl, of answer nextPassword]
    by (auto simp: mw_inv_def held_iff window_free_def test_retried_def)
qed (simp add: settle_submission_def assms)

interpretation main_window: machine mw_init "mw_step cenv wenv" mw_inv for cenv wenv
proof
  show "mw_inv st" if "mw_init st" for st
    using that by (auto simp: mw_init_def mw_inv_def held_iff cw_init_def createCreateWorkspace_def DEFAULT_CREATE_OPTIONS_def)
  show "mw_inv st'" if "mw_inv st" and "mw_step cenv wenv st st'" for st st'
    using that(2)
  proof cases
    case (create_edited operation)
    then show ?thesis
      using that(1) edit_starts_nothing [of operation cenv "mw_create st"] by (auto simp: mw_inv_def)
  next
    case (archive_edited edit)
    then show ?thesis using that(1) by (simp add: mw_inv_def)
  qed (simp_all add: that(1) started_inv settled_inv)
qed

section \<open>What the window guarantees\<close>

text \<open>C15: In every reachable state of the main window, whatever is edited while an answer is awaited, at most one
creation, extraction or test is awaited, the permission is held exactly while one is, and the create workspace says that
a creation is being submitted only while one is awaited; so it never stays so.\<close>

theorem one_submission_at_a_time:
  assumes "reachable mw_init (mw_step cenv wenv) st"
  shows "length (mw_awaiting st) \<le> 1 \<and> (mw_inFlight st \<longleftrightarrow> mw_awaiting st \<noteq> [])
         \<and> (starting (mw_create st) \<longrightarrow> (\<exists>request. mw_awaiting st = [SubmitCreate request]))"
proof -
  have inv: "mw_inv st" using main_window.reachable_inv [OF assms] .
  then have length: "length (mw_awaiting st) \<le> 1"
    using submission_guard.held_at_most_once by (auto simp: mw_inv_def)
  have "\<exists>request. mw_awaiting st = [SubmitCreate request]" if "starting (mw_create st)"
  proof -
    from that inv obtain s where s: "s \<in> set (mw_awaiting st)" and "creating s" by (auto simp: mw_inv_def list_ex_iff)
    from \<open>creating s\<close> obtain request where "s = SubmitCreate request" by (cases s) simp_all
    with s length show ?thesis by (cases "mw_awaiting st") (auto simp: le_Suc_eq)
  qed
  with inv length show ?thesis by (auto simp: mw_inv_def held_iff split: if_splits)
qed

text \<open>C16: Every answer to a submission ends it: whether the backend has accepted or refused it, and whether the hand-over
of the job fails or not, nothing is awaited afterwards, the permission is free and the create workspace is no longer
submitting; only a test whose password was wrong is submitted again, and only if the user entered another one.\<close>

theorem answers_end_submissions:
  assumes "reachable mw_init (mw_step cenv wenv) st" and "i < length (mw_awaiting st)"
    and "st' = settle_submission i answer nextPassword st"
  shows "mw_awaiting st' = [] \<and> \<not> mw_inFlight st' \<and> \<not> starting (mw_create st')
         \<or> (\<exists>request request' e. mw_awaiting st = [SubmitTest request] \<and> mw_awaiting st' = [SubmitTest request']
              \<and> answer = JobRejected (Some e) \<and> isPasswordRetryCommandCode (ce_code e) \<and> truthy nextPassword)"
proof -
  have retry: "\<exists>e. err = Some e \<and> isPasswordRetryCommandCode (ce_code e)"
    if "ws_passwordRetry (requestPasswordRetry RoTestArchive err w) = Some retry" for err w retry
    using that by (auto simp: requestPasswordRetry_def passwordRetryForCommandError_def Let_def split: option.splits if_splits)
  show ?thesis
    using settled_submission [OF main_window.reachable_inv [OF assms(1)] assms(2,3)]
    by (auto simp: window_free_def test_retried_def dest: retry)
qed

text \<open>While a submission is awaited nothing else is submitted.\<close>

lemma no_second_submission:
  assumes "mw_inFlight st"
  shows "runCreate env input st = st" and "testArchive st = st"
    and "mw_awaiting (startExtract mode xinput st) = mw_awaiting st"
  using assms by (auto simp: start_defs Let_def split: option.split sum.split)

section \<open>Concrete runs\<close>



definition first_window :: main_window where
  "first_window =
     \<lparr> mw_inFlight = False, mw_create = createCreateWorkspace None, mw_archive = createInitialState no_options,
       mw_awaiting = [], mw_effects = [] \<rparr>"

definition loaded_window :: main_window where
  "loaded_window = first_window\<lparr> mw_archive := ws_apply plain_env
     (OpLoadSucceeded \<lparr> al_archivePath = ''/a.zip'', al_entries = sample_entries, al_entryCount = Fin 5, al_totalSize = None \<rparr>
       \<lparr> lo_preserveState = None, lo_defaultTableColumns = None \<rparr>) (mw_archive first_window) \<rparr>"

lemma loaded_window_reachable: "reachable mw_init (mw_step example_env plain_env) loaded_window"
proof -
  have "mw_init first_window"
    by (auto simp: mw_init_def first_window_def cw_init_def intro: ws_initial.intros)
  then have "reachable mw_init (mw_step example_env plain_env) first_window" by (rule reachable.start)
  then show ?thesis unfolding loaded_window_def by (rule reachable.move) (rule archive_edited)
qed

lemma tested_window_reachable: "reachable mw_init (mw_step example_env plain_env) (testArchive loaded_window)"
  by (rule reachable.move, rule loaded_window_reachable, rule test_started)

lemma tested_window: "length (mw_awaiting (testArchive loaded_window)) = 1"
  by code_simp

theorem one_submission_at_a_time_witness:
  "length (mw_awaiting (testArchive loaded_window)) \<le> 1 \<and> mw_inFlight (testArchive loaded_window)
   \<and> \<not> starting (mw_create (testArchive loaded_window))"
proof -
  have "mw_awaiting (testArchive loaded_window) \<noteq> []" using tested_window by auto
  moreover have "\<not> starting (mw_create (testArchive loaded_window))" by code_simp
  ultimately show ?thesis using one_submission_at_a_time [OF tested_window_reachable] by blast
qed



definition disk_error :: command_error where
  "disk_error =
     \<lparr> ce_code = ''io_error'', ce_message = ''No space'', ce_hint = None, ce_severity = SevError, ce_retryable = False \<rparr>"

theorem answers_end_submissions_witness:
  "mw_awaiting (settle_submission 0 (JobRejected (Some disk_error)) None (testArchive loaded_window)) = []
   \<and> \<not> mw_inFlight (settle_submission 0 (JobRejected (Some disk_error)) None (testArchive loaded_window))"
  using answers_end_submissions [OF tested_window_reachable _ refl, of 0 "JobRejected (Some disk_error)" None] tested_window
  by auto

section \<open>What can go wrong\<close>

text \<open>
  A test is tried again with the archive that is open when the password error arrives, not with the one it was started
  for: if another archive has been opened meanwhile, that archive is tested, with the password entered for the first.
\<close>

theorem retried_test_takes_open_archive:
  assumes "mw_awaiting st = [SubmitTest request]" and "ws_currentArchivePath (mw_archive st) \<noteq> []"
    and "isPasswordRetryCommandCode (ce_code e)" and "truthy password"
  shows "\<exists>request'. mw_awaiting (settle_submission 0 (JobRejected (Some e)) password st) = [SubmitTest request']
           \<and> tq_archivePath request' = ws_currentArchivePath (mw_archive st) \<and> tq_password request' = password"
  using assms
  by (simp add: settle_submission_def test_settled_def requestPasswordRetry_def passwordRetryForCommandError_def
      buildTestRequest_def nonempty_opt_def Let_def)

end
