(* ===== verification/Commands.thy ===== *)
theory Commands
  imports ArchiveWorkspaceView
begin

text \<open>
  Commands: \<^verbatim>\<open>src/src/app/classicCommands.ts\<close> (which command is enabled, and why not),
  \<^verbatim>\<open>commands/commandRouter.ts\<close> (what keys and actions mean, and the router that runs a command) and the
  command table of \<^verbatim>\<open>src/src/api/generated/applicationCommands.generated.ts\<close>, with the keyboard decoder of
  \<^verbatim>\<open>ui/react/interaction/ShellKeyboardShortcuts.tsx\<close> and the way the runtime adapter calls the router.
  A command is its identifier, a string, since the router answers identifiers that it does not know.
\<close>

section \<open>The command table\<close>

record command_definition =
  cm_id :: string
  cm_label :: string
  cm_labelKey :: "string option"
  cm_shortcut :: "string option"
  cm_tooltip :: "string option"
  cm_unsupported :: bool
  cm_mutation :: bool

definition make_command ::
    "string \<Rightarrow> string \<Rightarrow> string option \<Rightarrow> string option \<Rightarrow> string option \<Rightarrow> bool \<Rightarrow> bool \<Rightarrow> command_definition" where
  "make_command i l k s t u m =
     \<lparr> cm_id = i, cm_label = l, cm_labelKey = k, cm_shortcut = s, cm_tooltip = t, cm_unsupported = u,
       cm_mutation = m \<rparr>"

definition COMMAND_DEFINITIONS :: "command_definition list" where
  "COMMAND_DEFINITIONS =
     [make_command ''open'' ''Open...'' (Some ''command.open'') (Some ''Ctrl+O'') (Some ''Open archive (Ctrl+O)'') False False,
      make_command ''closeArchive'' ''Close Archive'' (Some ''command.closeArchive'') None (Some ''Close the current archive'') False False,
      make_command ''openInside'' ''Open in Archive'' (Some ''command.openInside'') (Some ''Ctrl+PageDown'') None False False,
      make_command ''openOutside'' ''Open Outside'' (Some ''command.openOutside'') (Some ''Shift+Enter'') None False False,
      make_command ''view'' ''View'' (Some ''command.view'') (Some ''F3'') (Some ''View (F3)'') False False,
      make_command ''edit'' ''Edit'' None (Some ''F4'') None True True,
      make_command ''rename'' ''Rename'' None (Some ''F2'') None True True,
      make_command ''copyTo'' ''Copy To...'' None (Some ''F5'') (Some ''Copy To... (F5)'') False False,
      make_command ''moveTo'' ''Move To...'' None (Some ''F6'') None True True,
      make_command ''delete'' ''Delete'' None (Some ''Delete'') None True True,
      make_command ''splitFile'' ''Split file...'' None None None True False,
      make_command ''combineFiles'' ''Combine files...'' None None None True False,
      make_command ''properties'' ''Properties'' (Some ''command.properties'') (Some ''Alt+Enter'') (Some ''Properties (Alt+Enter)'') False False,
      make_command ''comment'' ''Comment...'' None (Some ''Ctrl+Z'') None True True,
      make_command ''crc32'' ''CRC-32'' None None None True False,
      make_command ''crc64'' ''CRC-64'' None None None True False,
      make_command ''xxh64'' ''XXH64'' None None None True False,
      make_command ''md5'' ''MD5'' None None None True False,
      make_command ''sha1'' ''SHA-1'' None None None True False,
      make_command ''sha256'' ''SHA-256'' None None None True False,
      make_command ''sha384'' ''SHA-384'' None None None True False,
      make_command ''sha512'' ''SHA-512'' None None None True False,
      make_command ''sha3256'' ''SHA3-256'' None None None True False,
      make_command ''blake2sp'' ''BLAKE2sp'' None None None True False,
      make_command ''crcAll'' ''All'' None None None True False,
      make_command ''diff'' ''Diff'' None None None True False,
      make_command ''createFolder'' ''Create Folder'' None (Some ''F7'') None True True,
      make_command ''exit'' ''Exit'' (Some ''command.exit'') (Some ''Alt+F4'') None False False,
      make_command ''selectAll'' ''Select All'' (Some ''command.selectAll'') (Some ''Ctrl+A'') None False False,
      make_command ''deselectAll'' ''Deselect All'' (Some ''command.deselectAll'') (Some ''Shift+Numpad Minus'') None False False,
      make_command ''invertSelection'' ''Invert Selection'' (Some ''command.invertSelection'') (Some ''Numpad Star'') None False False,
      make_command ''selectMask'' ''Select...'' None (Some ''Numpad Plus'') None True False,
      make_command ''deselectMask'' ''Deselect...'' None (Some ''Numpad Minus'') None True False,
      make_command ''selectByType'' ''Select by Type'' (Some ''command.selectByType'') (Some ''Alt+Numpad Plus'') None False False,
      make_command ''deselectByType'' ''Deselect by Type'' (Some ''command.deselectByType'') (Some ''Alt+Numpad Minus'') None False False,
      make_command ''largeIcons'' ''Large Icons'' None (Some ''Ctrl+1'') None True False,
      make_command ''smallIcons'' ''Small Icons'' None (Some ''Ctrl+2'') None True False,
      make_command ''listView'' ''List'' None (Some ''Ctrl+3'') None True False,
      make_command ''detailsView'' ''Details'' None (Some ''Ctrl+4'') None False False,
      make_command ''sortName'' ''Name'' (Some ''command.sortName'') (Some ''Ctrl+F3'') None False False,
      make_command ''sortType'' ''Type'' (Some ''command.sortType'') (Some ''Ctrl+F4'') None False False,
      make_command ''sortDate'' ''Date'' (Some ''command.sortDate'') (Some ''Ctrl+F5'') None False False,
      make_command ''sortSize'' ''Size'' (Some ''command.sortSize'') (Some ''Ctrl+F6'') None False False,
      make_command ''unsorted'' ''Unsorted'' None (Some ''Ctrl+F7'') None True False,
      make_command ''flatView'' ''Flat View'' (Some ''command.flatView'') None None False False,
      make_command ''twoPanels'' ''2 Panels'' None (Some ''F9'') None True False,
      make_command ''standardToolbar'' ''Standard Toolbar'' None None None False False,
      make_command ''showButtonText'' ''Show Buttons Text'' (Some ''command.showButtonText'') None None False False,
      make_command ''openRoot'' ''Open Root Folder'' None (Some [CHR 0x5C]) None False False,
      make_command ''upOneLevel'' ''Up One Level'' (Some ''commands.upOneLevel'') (Some ''Backspace'') None False False,
      make_command ''foldersHistory'' ''Folders History...'' None (Some ''Alt+F12'') None True False,
      make_command ''refresh'' ''Refresh'' (Some ''common.refresh'') (Some ''Ctrl+R'') (Some ''Refresh (Ctrl+R)'') False False,
      make_command ''autoRefresh'' ''Auto Refresh'' None None None True False,
      make_command ''addFavorite'' ''Add folder to Favorites as'' None None None True False,
      make_command ''options'' ''Options...'' (Some ''command.options'') None None False False,
      make_command ''benchmark'' ''Benchmark'' None None None True False,
      make_command ''deleteTempFiles'' ''Delete Temporary Files...'' (Some ''command.deleteTempFiles'') None None False False,
      make_command ''helpContents'' ''Contents...'' (Some ''command.helpContents'') (Some ''F1'') None True False,
      make_command ''about'' ''About ZManager...'' (Some ''command.about'') None None False False,
      make_command ''add'' ''Add'' (Some ''command.add'') (Some ''Ctrl+N'') (Some ''Add (Ctrl+N)'') False False,
      make_command ''extract'' ''Extract'' (Some ''command.extract'') (Some ''F5'') (Some ''Extract (F5)'') False False,
      make_command ''test'' ''Test'' (Some ''command.test'') None (Some ''Test archive'') False False,
      make_command ''copy'' ''Copy'' (Some ''command.copy'') (Some ''F5'') (Some ''Copy (F5)'') False False,
      make_command ''move'' ''Move'' None (Some ''F6'') None True True,
      make_command ''info'' ''Info'' (Some ''command.info'') (Some ''Alt+Enter'') (Some ''Info (Alt+Enter)'') False False]"

definition COMMAND_IDS :: "string list" where
  "COMMAND_IDS = map cm_id COMMAND_DEFINITIONS"

definition command_of :: "string \<Rightarrow> command_definition option" where
  "command_of cid = find (\<lambda>c. cm_id c = cid) COMMAND_DEFINITIONS"

datatype menu_item =
    MenuCommand string
  | MenuSeparator
  | MenuSubmenu string "string option" "menu_item list"

definition CLASSIC_MENU_GROUPS :: "(string \<times> menu_item list) list" where
  "CLASSIC_MENU_GROUPS =
     [(''File'', [MenuCommand ''open'', MenuCommand ''openInside'', MenuCommand ''openOutside'', MenuCommand ''view'',
        MenuSeparator, MenuCommand ''properties'', MenuSeparator, MenuCommand ''exit'']),
      (''Edit'', [MenuCommand ''selectAll'', MenuCommand ''deselectAll'', MenuCommand ''invertSelection'', MenuCommand ''selectByType'',
        MenuCommand ''deselectByType'']),
      (''View'', [MenuCommand ''sortName'', MenuCommand ''sortType'', MenuCommand ''sortDate'', MenuCommand ''sortSize'',
        MenuSeparator, MenuCommand ''flatView'', MenuSeparator, MenuSubmenu ''Toolbars'' (Some ''commandMenu.toolbars'') [MenuCommand ''showButtonText'']]),
      (''Tools'', [MenuCommand ''options'', MenuSeparator, MenuCommand ''deleteTempFiles'']),
      (''Help'', [MenuCommand ''about''])]"

record command_bar_group =
  bg_id :: string
  bg_label :: string
  bg_items :: "string list"

definition CLASSIC_TOOLBAR_GROUPS :: "command_bar_group list" where
  "CLASSIC_TOOLBAR_GROUPS =
     [\<lparr> bg_id = ''compress'', bg_label = ''Compress'', bg_items = [''add''] \<rparr>,
      \<lparr> bg_id = ''extract'', bg_label = ''Extract'', bg_items = [''open'', ''closeArchive'', ''extract'', ''test''] \<rparr>,
      \<lparr> bg_id = ''table'', bg_label = ''Table actions'', bg_items = [''view'', ''copy'', ''info'', ''refresh'', ''selectAll'', ''flatView''] \<rparr>,
      \<lparr> bg_id = ''settings'', bg_label = ''Settings'', bg_items = [''options'', ''deleteTempFiles''] \<rparr>,
      \<lparr> bg_id = ''help'', bg_label = ''Help'', bg_items = [''helpContents'', ''about''] \<rparr>]"

definition CLASSIC_TOOLBAR_ORDER :: "string list" where
  "CLASSIC_TOOLBAR_ORDER =
     [''add'', ''open'', ''closeArchive'', ''extract'', ''test'', ''view'', ''copy'', ''info'',
      ''refresh'', ''selectAll'', ''flatView'', ''options'', ''deleteTempFiles'', ''helpContents'', ''about'']"

section \<open>Labels and toolbars\<close>

datatype toolbar_mode = ModeCompress | ModeExtract

fun TOOLBAR_GROUP_IDS_BY_MODE :: "toolbar_mode \<Rightarrow> string list" where
  "TOOLBAR_GROUP_IDS_BY_MODE ModeCompress = [''compress'']"
| "TOOLBAR_GROUP_IDS_BY_MODE ModeExtract = [''extract'', ''table'']"

definition toolbarGroupsForWorkspaceMode :: "toolbar_mode \<Rightarrow> command_bar_group list" where
  "toolbarGroupsForWorkspaceMode mode =
     (let visibleGroupIds = TOOLBAR_GROUP_IDS_BY_MODE mode
      in filter (\<lambda>group. bg_id group \<in> set visibleGroupIds) CLASSIC_TOOLBAR_GROUPS)"

definition with_shortcut :: "string \<Rightarrow> string option \<Rightarrow> string" where
  "with_shortcut label shortcut =
     (case shortcut of
        Some s \<Rightarrow> if s = [] then label else label @ '' ('' @ s @ '')''
      | None \<Rightarrow> label)"

definition commandTooltip :: "command_definition \<Rightarrow> string" where
  "commandTooltip command = nullish (cm_tooltip command) (with_shortcut (cm_label command) (cm_shortcut command))"

definition commandLabel :: "command_definition \<Rightarrow> (string \<Rightarrow> string) option \<Rightarrow> string" where
  "commandLabel command i18n =
     (case (cm_labelKey command, i18n) of
        (Some key, Some t) \<Rightarrow> if key = [] then cm_label command else t key
      | _ \<Rightarrow> cm_label command)"

definition commandTooltipText :: "command_definition \<Rightarrow> (string \<Rightarrow> string) option \<Rightarrow> string" where
  "commandTooltipText command i18n = with_shortcut (commandLabel command i18n) (cm_shortcut command)"

section \<open>Which commands are enabled\<close>

definition UNSUPPORTED_OPERATION_MESSAGE :: string where
  "UNSUPPORTED_OPERATION_MESSAGE = ''Operation is not supported.''"

definition SINGLE_FILE_REQUIRED_MESSAGE :: string where
  "SINGLE_FILE_REQUIRED_MESSAGE = ''You must select one file.''"

definition SINGLE_FOLDER_REQUIRED_MESSAGE :: string where
  "SINGLE_FOLDER_REQUIRED_MESSAGE = ''You must select one folder.''"

definition NO_ARCHIVE_OPEN_MESSAGE :: string where
  "NO_ARCHIVE_OPEN_MESSAGE = ''Open an archive first.''"

definition ARCHIVE_NOT_READY_MESSAGE :: string where
  "ARCHIVE_NOT_READY_MESSAGE = ''Archive contents are not ready.''"

definition NO_SELECTION_MESSAGE :: string where
  "NO_SELECTION_MESSAGE = ''Select one or more entries first.''"

definition NO_ENTRIES_MESSAGE :: string where
  "NO_ENTRIES_MESSAGE = ''No entries are available.''"

record command_context =
  cc_browseState :: browse_state
  cc_hasArchive :: bool
  cc_focusedRow :: bool
  cc_canNavigateUp :: "bool option"
  cc_canOpenInside :: "bool option"
  cc_selectedCount :: jsnum
  cc_visibleSelectableCount :: jsnum
  cc_mutableOperationsSupported :: bool

record command_state =
  cst_enabled :: bool
  cst_reason :: "string option"

type_synonym command_state_map = "(string \<times> command_state) list"

definition enable :: "string list \<Rightarrow> bool \<Rightarrow> string option \<Rightarrow> command_state_map \<Rightarrow> command_state_map" where
  "enable ids enabled reason state =
     fold (\<lambda>cid. AList.update cid \<lparr> cst_enabled = enabled, cst_reason = reason \<rparr>) ids state"

fun positive :: "jsnum \<Rightarrow> bool" where
  "positive (Fin q) = (0 < q)"
| "positive PosInf = True"
| "positive _ = False"

definition selectCommandState :: "command_context \<Rightarrow> command_state_map" where
  "selectCommandState context =
     (let canOperateArchive = cc_hasArchive context;
          canUseArchive =
            (cc_hasArchive context \<and> cc_browseState context \<noteq> BsLoading
             \<and> (cc_browseState context = BsLoaded \<or> cc_browseState context = BsEmpty));
          canListEntries = (canUseArchive \<and> cc_browseState context = BsLoaded);
          hasSelection = positive (cc_selectedCount context);
          hasOneSelection = (cc_selectedCount context = Fin 1);
          hasFocusedOrSelected = (cc_focusedRow context \<or> hasSelection);
          canNavigateUp = nullish (cc_canNavigateUp context) False;
          canOpenInside = nullish (cc_canOpenInside context) False;
          mutationsEnabled = cc_mutableOperationsSupported context;
          archiveReason =
            Some (if cc_hasArchive context then ARCHIVE_NOT_READY_MESSAGE else NO_ARCHIVE_OPEN_MESSAGE);
          hasVisible = positive (cc_visibleSelectableCount context);
          state = map (\<lambda>cid. (cid, \<lparr> cst_enabled = False, cst_reason = None \<rparr>)) COMMAND_IDS;
          state = enable [''open'', ''add'', ''options'', ''helpContents'', ''about'', ''standardToolbar'',
                          ''showButtonText'', ''exit''] True None state;
          state = enable [''closeArchive'', ''extract'', ''test'', ''properties'', ''info'', ''refresh'']
                    canOperateArchive archiveReason state;
          state = enable [''copyTo'', ''flatView''] canUseArchive archiveReason state;
          state = enable [''copy''] (hasSelection \<and> canListEntries)
                    (if hasSelection then archiveReason else Some NO_SELECTION_MESSAGE) state;
          state = enable [''view'', ''openOutside''] (hasOneSelection \<and> canListEntries \<and> \<not> canOpenInside)
                    (if hasOneSelection \<and> \<not> canOpenInside then archiveReason
                     else Some SINGLE_FILE_REQUIRED_MESSAGE) state;
          state = enable [''openInside''] (canOpenInside \<and> canListEntries)
                    (Some (if hasOneSelection then SINGLE_FOLDER_REQUIRED_MESSAGE
                           else SINGLE_FILE_REQUIRED_MESSAGE)) state;
          state = enable [''selectAll''] (canListEntries \<and> hasVisible)
                    (if canListEntries then Some NO_ENTRIES_MESSAGE else archiveReason) state;
          state = enable [''deselectAll''] hasSelection (Some NO_SELECTION_MESSAGE) state;
          state = enable [''invertSelection''] (canListEntries \<and> hasVisible)
                    (if canListEntries then Some NO_ENTRIES_MESSAGE else archiveReason) state;
          state = enable [''selectByType'', ''deselectByType''] (hasFocusedOrSelected \<and> canListEntries)
                    (if hasFocusedOrSelected then archiveReason else Some NO_SELECTION_MESSAGE) state;
          state = enable [''detailsView'', ''sortName'', ''sortType'', ''sortDate'', ''sortSize'']
                    canListEntries archiveReason state;
          state = enable [''openRoot''] canUseArchive archiveReason state;
          state = enable [''upOneLevel''] (canUseArchive \<and> canNavigateUp)
                    (if canUseArchive then Some ''Already at the archive root.'' else archiveReason) state;
          state = enable [''deleteTempFiles''] True None state;
          state = enable [''edit'', ''rename'', ''moveTo'', ''delete'', ''comment'', ''createFolder'', ''move'']
                    (mutationsEnabled \<and> hasSelection) (Some NO_SELECTION_MESSAGE) state
      in fold (\<lambda>definition.
           if cm_unsupported definition
           then AList.update (cm_id definition)
                  \<lparr> cst_enabled = False, cst_reason = Some UNSUPPORTED_OPERATION_MESSAGE \<rparr>
           else (\<lambda>st. st)) COMMAND_DEFINITIONS state)"

section \<open>Routes\<close>

datatype routed_extract_mode = WholeArchive | Selection
datatype routed_extract_destination = ByDialog | Here
datatype routed_info_target = InfoCurrent | InfoArchive | InfoContext
datatype routed_open_source = FromDialog | FromClipboard | FromPath

record command_payload =
  cp_extractMode :: "routed_extract_mode option"
  cp_extractDestination :: "routed_extract_destination option"
  cp_infoTarget :: "routed_info_target option"
  cp_archivePath :: "string option"
  cp_openSource :: "routed_open_source option"
  cp_entryPath :: "string option"
  cp_addSourcesMenuAnchor :: "(rat \<times> rat) option"

definition no_payload :: command_payload where
  "no_payload = \<lparr> cp_extractMode = None, cp_extractDestination = None, cp_infoTarget = None,
     cp_archivePath = None, cp_openSource = None, cp_entryPath = None, cp_addSourcesMenuAnchor = None \<rparr>"

type_synonym routed_command = "string \<times> command_payload"

record keyboard_input =
  ki_key :: string
  ki_ctrlKey :: "bool option"
  ki_altKey :: "bool option"
  ki_selectedCount :: "jsnum option"

definition truthy_count :: "jsnum option \<Rightarrow> bool" where
  "truthy_count n \<longleftrightarrow> (case n of None \<Rightarrow> False | Some v \<Rightarrow> v \<noteq> Fin 0 \<and> v \<noteq> NaN)"

definition selectKeyboardCommand :: "keyboard_input \<Rightarrow> routed_command option" where
  "selectKeyboardCommand inp =
     (let key = ki_key inp; lowerKey = js_lower key; ctrl = nullish (ki_ctrlKey inp) False;
          alt = nullish (ki_altKey inp) False
      in if ctrl \<and> lowerKey = ''o'' then Some (''open'', no_payload)
         else if ctrl \<and> lowerKey = ''n'' then Some (''add'', no_payload)
         else if ctrl \<and> lowerKey = ''a'' then Some (''selectAll'', no_payload)
         else if key = ''F5'' then
           Some (''extract'', no_payload\<lparr> cp_extractMode :=
             Some (if truthy_count (ki_selectedCount inp) then Selection else WholeArchive) \<rparr>)
         else if ctrl \<and> lowerKey = ''r'' then Some (''refresh'', no_payload)
         else if key = ''Backspace'' \<or> (alt \<and> key = ''ArrowUp'') then Some (''upOneLevel'', no_payload)
         else if key = ''Enter'' then
           (if ki_selectedCount inp = Some (Fin 1) then Some (''view'', no_payload) else None)
         else if key = ''F3'' then Some (''view'', no_payload)
         else if alt \<and> key = ''Enter'' then Some (''info'', no_payload)
         else None)"

definition selectDetailsCommand :: "string option \<Rightarrow> routed_command option" where
  "selectDetailsCommand action =
     (if action = Some ''open-archive'' then Some (''open'', no_payload)
      else if action = Some ''preview'' then Some (''view'', no_payload)
      else if action = Some ''extract-selected''
      then Some (''extract'', no_payload\<lparr> cp_extractMode := Some Selection \<rparr>)
      else if action = Some ''test-selected'' then Some (''test'', no_payload)
      else if action = Some ''properties'' then Some (''properties'', no_payload)
      else if action = Some ''archive-info'' then Some (''info'', no_payload\<lparr> cp_infoTarget := Some InfoArchive \<rparr>)
      else None)"

definition selectTreeCommand :: "string option \<Rightarrow> routed_command option" where
  "selectTreeCommand action = (if action = Some ''open'' then Some (''open'', no_payload) else None)"

record context_command_options =
  xo_archivePath :: "string option"
  xo_entryPath :: "string option"
  xo_extractMode :: "routed_extract_mode option"

definition selectContextCommand :: "string option \<Rightarrow> context_command_options \<Rightarrow> routed_command option" where
  "selectContextCommand action options =
     (if action = Some ''open-archive'' then Some (''open'', no_payload)
      else if action = Some ''paste-archive-path''
      then Some (''open'', no_payload\<lparr> cp_openSource := Some FromClipboard \<rparr>)
      else if action = Some ''open-recent-archive'' then
        (case xo_archivePath options of
           Some p \<Rightarrow> if p = [] then None
                     else Some (''open'', no_payload\<lparr> cp_openSource := Some FromPath, cp_archivePath := Some p \<rparr>)
         | None \<Rightarrow> None)
      else if action = Some ''open-entry'' then Some (''view'', no_payload)
      else if action = Some ''open-outside'' then Some (''openOutside'', no_payload)
      else if action = Some ''select-by-type'' then Some (''selectByType'', no_payload)
      else if action = Some ''deselect-by-type'' then Some (''deselectByType'', no_payload)
      else if action = Some ''extract'' then Some (''extract'', no_payload\<lparr> cp_extractMode := Some Selection \<rparr>)
      else if action = Some ''extract-here'' then
        Some (''extract'', no_payload\<lparr> cp_extractMode := Some (nullish (xo_extractMode options) WholeArchive),
                                       cp_extractDestination := Some Here \<rparr>)
      else if action = Some ''test'' then Some (''test'', no_payload)
      else if action = Some ''info'' then
        Some (''info'', no_payload\<lparr> cp_infoTarget := Some InfoContext, cp_entryPath := xo_entryPath options \<rparr>)
      else None)"

section \<open>The router\<close>

text \<open>The calls on the effects of the router, each of which the runtime adapter provides.\<close>

datatype router_effect =
    OpenArchive routed_open_source "string option"
  | CloseArchive
  | AddSources "(rat \<times> rat) option"
  | SelectAll | DeselectAll | InvertSelection | SelectByType | DeselectByType
  | OpenRoot | UpOneLevel | OpenInside | OpenOutside
  | Extract routed_extract_mode routed_extract_destination
  | TestArchive | ViewEntry | CopySelectedPaths
  | Info routed_info_target "string option"
  | Refresh | ExitApp | DetailsView
  | SortBy string
  | ToggleToolbarLabels | ShowOptions | ShowAbout | ToggleFlatView | DeleteTempFiles
  | ReportDisabled string "string option"
  | ReportUnsupported string string

datatype execution_status = Executed | Disabled | Unsupported

record execution_result =
  er_commandId :: string
  er_status :: execution_status
  er_reason :: "string option"

definition executed :: "string \<Rightarrow> execution_result" where
  "executed cid = \<lparr> er_commandId = cid, er_status = Executed, er_reason = None \<rparr>"

definition disabled :: "string \<Rightarrow> string option \<Rightarrow> execution_result" where
  "disabled cid reason =
     \<lparr> er_commandId = cid, er_status = Disabled, er_reason = (if reason = Some [] then None else reason) \<rparr>"

definition unsupported :: "string \<Rightarrow> string \<Rightarrow> execution_result" where
  "unsupported cid reason = \<lparr> er_commandId = cid, er_status = Unsupported, er_reason = Some reason \<rparr>"

definition reportUnsupported :: "string \<Rightarrow> router_effect list \<times> execution_result" where
  "reportUnsupported cid =
     ([ReportUnsupported cid UNSUPPORTED_OPERATION_MESSAGE], unsupported cid UNSUPPORTED_OPERATION_MESSAGE)"

text \<open>The switch of \<open>run\<close>; \<open>None\<close> are the commands that no case executes.\<close>

definition command_effect :: "string \<Rightarrow> command_payload \<Rightarrow> router_effect option" where
  "command_effect cid payload =
     (if cid = ''open'' then Some (OpenArchive (nullish (cp_openSource payload) FromDialog) (cp_archivePath payload))
      else if cid = ''closeArchive'' then Some CloseArchive
      else if cid = ''add'' then Some (AddSources (cp_addSourcesMenuAnchor payload))
      else if cid = ''selectAll'' then Some SelectAll
      else if cid = ''deselectAll'' then Some DeselectAll
      else if cid = ''invertSelection'' then Some InvertSelection
      else if cid = ''selectByType'' then Some SelectByType
      else if cid = ''deselectByType'' then Some DeselectByType
      else if cid = ''openRoot'' then Some OpenRoot
      else if cid = ''upOneLevel'' then Some UpOneLevel
      else if cid = ''openInside'' then Some OpenInside
      else if cid = ''openOutside'' then Some OpenOutside
      else if cid = ''extract'' then
        Some (Extract (nullish (cp_extractMode payload) WholeArchive)
                      (nullish (cp_extractDestination payload) ByDialog))
      else if cid = ''test'' then Some TestArchive
      else if cid = ''view'' then Some ViewEntry
      else if cid = ''copy'' then Some CopySelectedPaths
      else if cid = ''info'' \<or> cid = ''properties'' then
        Some (Info (nullish (cp_infoTarget payload) InfoCurrent) (cp_entryPath payload))
      else if cid = ''refresh'' then Some Refresh
      else if cid = ''exit'' then Some ExitApp
      else if cid = ''detailsView'' then Some DetailsView
      else if cid = ''sortName'' then Some (SortBy ''name'')
      else if cid = ''sortType'' then Some (SortBy ''kind'')
      else if cid = ''sortDate'' then Some (SortBy ''modified'')
      else if cid = ''sortSize'' then Some (SortBy ''size'')
      else if cid = ''showButtonText'' then Some ToggleToolbarLabels
      else if cid = ''options'' then Some ShowOptions
      else if cid = ''about'' then Some ShowAbout
      else if cid = ''flatView'' then Some ToggleFlatView
      else if cid = ''deleteTempFiles'' then Some DeleteTempFiles
      else None)"

definition run ::
    "command_state_map \<Rightarrow> string \<Rightarrow> command_payload \<Rightarrow> router_effect list \<times> execution_result" where
  "run states cid payload =
     (case command_of cid of
        None \<Rightarrow> reportUnsupported cid
      | Some definition \<Rightarrow>
          if cm_unsupported definition then reportUnsupported cid
          else (let state = map_of states cid
                in if \<not> nullish (map_option cst_enabled state) False
                   then ([ReportDisabled cid (Option.bind state cst_reason)],
                         disabled cid (Option.bind state cst_reason))
                   else (case command_effect cid payload of
                           Some e \<Rightarrow> ([e], executed cid)
                         | None \<Rightarrow> reportUnsupported cid)))"

section \<open>The callers\<close>

definition currentCommandStateMap :: "command_snapshot \<Rightarrow> command_state_map" where
  "currentCommandStateMap co =
     selectCommandState \<lparr> cc_browseState = co_browseState co, cc_hasArchive = co_hasArchive co,
       cc_focusedRow = co_focusedRow co, cc_canNavigateUp = Some (co_canNavigateUp co),
       cc_canOpenInside = Some (co_canOpenInside co), cc_selectedCount = co_selectedCount co,
       cc_visibleSelectableCount = js_nat (co_visibleSelectableCount co),
       cc_mutableOperationsSupported = False \<rparr>"

definition commandPayload :: "jsnum \<Rightarrow> string \<Rightarrow> command_payload" where
  "commandPayload archiveSelectedCount cid =
     (if cid = ''extract''
      then no_payload\<lparr> cp_extractMode :=
        Some (if truthy_count (Some archiveSelectedCount) then Selection else WholeArchive) \<rparr>
      else no_payload)"

text \<open>\<open>{...base, ...payload}\<close>, where \<open>base\<close> has at most the extraction mode.\<close>

definition with_defaults :: "command_payload \<Rightarrow> command_payload \<Rightarrow> command_payload" where
  "with_defaults base payload =
     (case cp_extractMode payload of
        None \<Rightarrow> payload\<lparr> cp_extractMode := cp_extractMode base \<rparr>
      | Some _ \<Rightarrow> payload)"

definition runRoutedCommand ::
    "command_snapshot \<Rightarrow> string \<Rightarrow> command_payload \<Rightarrow> router_effect list \<times> execution_result" where
  "runRoutedCommand co cid payload =
     run (currentCommandStateMap co) cid (with_defaults (commandPayload (co_selectedCount co) cid) payload)"

datatype keyboard_decision = KdIgnore | KdEscape | KdFocusSearch | KdCommand string command_payload

record keyboard_event =
  ke_key :: string
  ke_ctrlKey :: "bool option"
  ke_altKey :: "bool option"
  ke_editableTarget :: "bool option"

text \<open>The first two arguments: a dialog is shown, the preferences are being edited.\<close>

definition decodeShellKeyboardShortcut ::
    "bool \<Rightarrow> bool \<Rightarrow> selection_snapshot \<Rightarrow> keyboard_event \<Rightarrow> keyboard_decision" where
  "decodeShellKeyboardShortcut dialogShown preferencesDraft selection event =
     (if ke_key event = ''Escape'' then KdEscape
      else if dialogShown \<or> preferencesDraft \<or> nullish (ke_editableTarget event) False then KdIgnore
      else if nullish (ke_ctrlKey event) False \<and> js_lower (ke_key event) = ''f'' then KdFocusSearch
      else let selectedCount =
                 (if ke_key event = ''F5''
                  then (if ss_allSelected selection then ss_selectedCount selection
                        else js_nat (length (ss_selectedPaths selection)))
                  else js_nat (length (ss_selectedEntryPaths selection)))
           in case selectKeyboardCommand \<lparr> ki_key = ke_key event,
                     ki_ctrlKey = Some (nullish (ke_ctrlKey event) False),
                     ki_altKey = Some (nullish (ke_altKey event) False),
                     ki_selectedCount = Some selectedCount \<rparr> of
                Some (cid, payload) \<Rightarrow> KdCommand cid payload
              | None \<Rightarrow> KdIgnore)"

section \<open>Lemmas\<close>

lemma map_of_enable:
  "map_of (enable ids enabled reason st) k =
     (if k \<in> set ids then Some \<lparr> cst_enabled = enabled, cst_reason = reason \<rparr> else map_of st k)"
  unfolding enable_def by (induction ids arbitrary: st) (auto simp: update_conv')

lemma map_of_block_unsupported:
  "map_of (fold (\<lambda>d. if cm_unsupported d then AList.update (cm_id d) v else (\<lambda>st. st)) ds st) k =
     (if k \<in> set (map cm_id (filter cm_unsupported ds)) then Some v else map_of st k)"
  by (induction ds arbitrary: st) (auto simp: update_conv')

definition UNSUPPORTED_IDS :: "string list" where
  "UNSUPPORTED_IDS = map cm_id (filter cm_unsupported COMMAND_DEFINITIONS)"

lemma command_ids_distinct: "distinct COMMAND_IDS"
  by code_simp

lemma command_of_unknown: "command_of cid = None \<longleftrightarrow> cid \<notin> set COMMAND_IDS"
  by (auto simp: command_of_def find_None_iff COMMAND_IDS_def)

lemma command_of_unsupported:
  "command_of cid = Some d \<Longrightarrow> cm_unsupported d \<longleftrightarrow> cid \<in> set UNSUPPORTED_IDS"
proof -
  assume "command_of cid = Some d"
  then have d: "d \<in> set COMMAND_DEFINITIONS" "cm_id d = cid"
    by (auto simp: command_of_def find_Some_iff)
  have "d' = d" if "d' \<in> set COMMAND_DEFINITIONS" "cm_id d' = cid" for d'
    using command_ids_distinct that d unfolding COMMAND_IDS_def distinct_map inj_on_def by blast
  with d show ?thesis
    unfolding UNSUPPORTED_IDS_def set_map set_filter by blast
qed

lemma run_status:
  "er_status (snd (run states cid payload)) =
     (if cid \<notin> set COMMAND_IDS \<or> cid \<in> set UNSUPPORTED_IDS then Unsupported
      else if \<not> nullish (map_option cst_enabled (map_of states cid)) False then Disabled
      else if command_effect cid payload = None then Unsupported else Executed)"
proof (cases "command_of cid")
  case None
  then show ?thesis
    using command_of_unknown [of cid] by (simp add: run_def reportUnsupported_def unsupported_def)
next
  case (Some d)
  have known: "cid \<in> set COMMAND_IDS"
    using Some command_of_unknown [of cid] by (metis option.distinct(1))
  show ?thesis
    unfolding run_def Some option.case command_of_unsupported [OF Some] Let_def
    using known by (cases "command_effect cid payload")
      (simp_all add: reportUnsupported_def unsupported_def disabled_def executed_def)
qed

lemma if_Some_None: "((if b then Some x else y) = None) = (\<not> b \<and> y = None)"
  by simp

text \<open>The commands of the switch.\<close>

definition EXECUTABLE_IDS :: "string list" where
  "EXECUTABLE_IDS =
     [''open'', ''closeArchive'', ''add'', ''selectAll'', ''deselectAll'', ''invertSelection'', ''selectByType'',
      ''deselectByType'', ''openRoot'', ''upOneLevel'', ''openInside'', ''openOutside'', ''extract'', ''test'',
      ''view'', ''copy'', ''info'', ''properties'', ''refresh'', ''exit'', ''detailsView'', ''sortName'',
      ''sortType'', ''sortDate'', ''sortSize'', ''showButtonText'', ''options'', ''about'', ''flatView'',
      ''deleteTempFiles'']"

lemma command_effect_None: "command_effect cid payload = None \<longleftrightarrow> cid \<notin> set EXECUTABLE_IDS"
  unfolding command_effect_def if_Some_None EXECUTABLE_IDS_def by (simp only: list.set insert_iff empty_iff) argo

lemma executable_supported: "list_all (\<lambda>cid. cid \<in> set COMMAND_IDS \<and> cid \<notin> set UNSUPPORTED_IDS) EXECUTABLE_IDS"
  by code_simp

lemma run_executed:
  "er_status (snd (run states cid payload)) = Executed
     \<longleftrightarrow> cid \<in> set EXECUTABLE_IDS \<and> nullish (map_option cst_enabled (map_of states cid)) False"
  using executable_supported command_effect_None [of cid payload]
  unfolding run_status list_all_iff by auto

text \<open>What each command needs before it runs.\<close>

definition ready :: "command_context \<Rightarrow> string \<Rightarrow> bool" where
  "ready c cid \<longleftrightarrow>
     cid \<in> {''open'', ''add'', ''options'', ''about'', ''showButtonText'', ''exit'', ''deleteTempFiles''}
     \<or> cid = ''deselectAll'' \<and> positive (cc_selectedCount c)
     \<or> cc_hasArchive c \<and>
       (cid \<in> {''closeArchive'', ''extract'', ''test'', ''properties'', ''info'', ''refresh''}
        \<or> cc_browseState c \<in> {BsLoaded, BsEmpty}
          \<and> (cid \<in> {''flatView'', ''openRoot''} \<or> cid = ''upOneLevel'' \<and> cc_canNavigateUp c = Some True)
        \<or> cc_browseState c = BsLoaded
          \<and> (cid \<in> {''detailsView'', ''sortName'', ''sortType'', ''sortDate'', ''sortSize''}
             \<or> cid = ''copy'' \<and> positive (cc_selectedCount c)
             \<or> cid \<in> {''view'', ''openOutside''} \<and> cc_selectedCount c = Fin 1 \<and> cc_canOpenInside c \<noteq> Some True
             \<or> cid = ''openInside'' \<and> cc_canOpenInside c = Some True
             \<or> cid \<in> {''selectAll'', ''invertSelection''} \<and> positive (cc_visibleSelectableCount c)
             \<or> cid \<in> {''selectByType'', ''deselectByType''}
               \<and> (cc_focusedRow c \<or> positive (cc_selectedCount c))))"

lemma nullish_flag: "nullish b False \<longleftrightarrow> b = Some True"
  by (cases b) auto

lemma enabled_not_unsupported:
  assumes "cid \<notin> set UNSUPPORTED_IDS"
  shows "map_of (fold (\<lambda>d. if cm_unsupported d then AList.update (cm_id d) v else (\<lambda>st. st)) COMMAND_DEFINITIONS st) cid
    = map_of st cid"
  using assms unfolding map_of_block_unsupported UNSUPPORTED_IDS_def by simp

lemma enabled_ready:
  assumes "cid \<in> set EXECUTABLE_IDS"
  shows "nullish (map_option cst_enabled (map_of (selectCommandState c) cid)) False \<longleftrightarrow> ready c cid"
proof -
  have sup: "cid \<notin> set UNSUPPORTED_IDS"
    using assms executable_supported unfolding list_all_iff by blast
  show ?thesis
    using assms
    unfolding selectCommandState_def Let_def enabled_not_unsupported [OF sup] map_of_enable ready_def
      EXECUTABLE_IDS_def list.set insert_iff empty_iff
    by (elim disjE; simp add: nullish_flag; cases "cc_browseState c"; simp; blast)
qed

lemma ready_executable: "ready c cid \<Longrightarrow> cid \<in> set EXECUTABLE_IDS"
  unfolding ready_def insert_iff empty_iff by (elim disjE conjE) (simp_all add: EXECUTABLE_IDS_def)

text \<open>C22: A command runs exactly when what it needs is there: some always run, those on the archive need one that is
  open, those on its listing a listing that has been loaded, and those on entries the right selection; whatever
  the context says, no command that would change an archive runs.\<close>

theorem commands_run_exactly_when_ready:
  "(er_status (snd (run (selectCommandState c) cid payload)) = Executed \<longleftrightarrow> ready c cid)
   \<and> set (map cm_id (filter cm_mutation COMMAND_DEFINITIONS))
       \<inter> {cid. er_status (snd (run (selectCommandState c) cid payload)) = Executed} = {}"
proof -
  have run: "er_status (snd (run (selectCommandState c) cid payload)) = Executed \<longleftrightarrow> ready c cid" for cid
    unfolding run_executed using enabled_ready [of cid c] ready_executable [of c cid] by blast
  have "list_all (\<lambda>cid. cid \<notin> set EXECUTABLE_IDS) (map cm_id (filter cm_mutation COMMAND_DEFINITIONS))"
    by code_simp
  then show ?thesis
    unfolding run list_all_iff using ready_executable [of c] by blast
qed

section \<open>What is offered can be run\<close>

fun menu_commands :: "menu_item \<Rightarrow> string list" where
  "menu_commands (MenuCommand cid) = [cid]"
| "menu_commands MenuSeparator = []"
| "menu_commands (MenuSubmenu label key items) = concat (map menu_commands items)"

definition offered :: "string set" where
  "offered =
     set (concat (map (\<lambda>(label, items). concat (map menu_commands items)) CLASSIC_MENU_GROUPS))
     \<union> set (concat (map bg_items (toolbarGroupsForWorkspaceMode ModeCompress @ toolbarGroupsForWorkspaceMode ModeExtract)))
     \<union> {cid. \<exists>shown draft selection event payload.
              decodeShellKeyboardShortcut shown draft selection event = KdCommand cid payload}
     \<union> {cid. \<exists>action payload. selectDetailsCommand action = Some (cid, payload)
                             \<or> selectTreeCommand action = Some (cid, payload)}
     \<union> {cid. \<exists>action options payload. selectContextCommand action options = Some (cid, payload)}"

lemma menus_executable:
  "list_all (\<lambda>cid. cid \<in> set EXECUTABLE_IDS)
     (concat (map (\<lambda>(label, items). concat (map menu_commands items)) CLASSIC_MENU_GROUPS))"
  by code_simp

lemma toolbars_executable:
  "list_all (\<lambda>cid. cid \<in> set EXECUTABLE_IDS)
     (concat (map bg_items (toolbarGroupsForWorkspaceMode ModeCompress @ toolbarGroupsForWorkspaceMode ModeExtract)))"
  by code_simp

lemma keyboard_executable: "selectKeyboardCommand inp = Some (cid, payload) \<Longrightarrow> cid \<in> set EXECUTABLE_IDS"
  by (auto simp: selectKeyboardCommand_def EXECUTABLE_IDS_def Let_def split: if_splits)

lemma decoded_executable:
  "decodeShellKeyboardShortcut shown draft selection event = KdCommand cid payload \<Longrightarrow> cid \<in> set EXECUTABLE_IDS"
  by (auto simp: decodeShellKeyboardShortcut_def Let_def intro: keyboard_executable split: if_splits option.splits)

lemma details_executable: "selectDetailsCommand action = Some (cid, payload) \<Longrightarrow> cid \<in> set EXECUTABLE_IDS"
  by (auto simp: selectDetailsCommand_def EXECUTABLE_IDS_def split: if_splits)

lemma tree_executable: "selectTreeCommand action = Some (cid, payload) \<Longrightarrow> cid \<in> set EXECUTABLE_IDS"
  by (auto simp: selectTreeCommand_def EXECUTABLE_IDS_def split: if_splits)

lemma context_executable: "selectContextCommand action options = Some (cid, payload) \<Longrightarrow> cid \<in> set EXECUTABLE_IDS"
  by (auto simp: selectContextCommand_def EXECUTABLE_IDS_def split: if_splits option.splits)

lemma offered_executable: "offered \<subseteq> set EXECUTABLE_IDS"
  using menus_executable toolbars_executable
  unfolding offered_def list_all_iff
  by (blast intro: decoded_executable details_executable tree_executable context_executable)

fun is_report :: "router_effect \<Rightarrow> bool" where
  "is_report (ReportDisabled _ _) = True"
| "is_report (ReportUnsupported _ _) = True"
| "is_report _ = False"

lemma no_report: "command_effect cid payload = Some e \<Longrightarrow> \<not> is_report e"
proof -
  have "pred_option (\<lambda>e. \<not> is_report e) (command_effect cid payload)"
    unfolding command_effect_def by (simp add: if_distrib [of "pred_option _"] cong: if_cong)
  then show "command_effect cid payload = Some e \<Longrightarrow> \<not> is_report e"
    by simp
qed

text \<open>
  The menu bar of macOS is built by the native host and is not among \<open>offered\<close>: its item for the contents of the help
  is a command that the router has no answer for.
\<close>

lemma help_contents_is_unsupported:
  "run states ''helpContents'' payload = reportUnsupported ''helpContents''" "''helpContents'' \<notin> offered"
proof -
  show "run states ''helpContents'' payload = reportUnsupported ''helpContents''"
  proof (cases "command_of ''helpContents''")
    case (Some d)
    have "''helpContents'' \<in> set UNSUPPORTED_IDS" by code_simp
    with Some command_of_unsupported [OF Some] show ?thesis by (simp add: run_def)
  qed (simp add: run_def)
  have "''helpContents'' \<notin> set EXECUTABLE_IDS" by code_simp
  then show "''helpContents'' \<notin> offered" using offered_executable by blast
qed

text \<open>C23: A command that the application itself offers - in the menus that it draws in its window (not the menu bar that
  the native host builds on macOS), in the toolbars, by the keyboard, in the details pane, in the tree or in a context
  menu - is never answered with the message that it is not supported: if it is enabled the router makes its one call and
  says so, otherwise it reports the reason why it is disabled, once, and does nothing else.\<close>

theorem offered_commands_are_answered:
  assumes "cid \<in> offered"
  shows "run states cid payload =
    (case map_of states cid of
       None \<Rightarrow> ([ReportDisabled cid None], disabled cid None)
     | Some st \<Rightarrow> if cst_enabled st then ([the (command_effect cid payload)], executed cid)
                  else ([ReportDisabled cid (cst_reason st)], disabled cid (cst_reason st)))
    \<and> (\<exists>e. command_effect cid payload = Some e \<and> \<not> is_report e)"
proof -
  have ex: "cid \<in> set EXECUTABLE_IDS"
    using assms offered_executable by blast
  obtain e where e: "command_effect cid payload = Some e"
    using ex command_effect_None [of cid payload] by blast
  have sup: "cid \<in> set COMMAND_IDS" "cid \<notin> set UNSUPPORTED_IDS"
    using ex executable_supported unfolding list_all_iff by blast+
  obtain d where d: "command_of cid = Some d"
    using sup(1) command_of_unknown [of cid] by blast
  have "\<not> cm_unsupported d"
    using sup(2) command_of_unsupported [OF d] by blast
  then show ?thesis
    using d e no_report [OF e] by (auto simp: run_def Let_def split: option.split)
qed

theorem offered_commands_are_answered_witness:
  "run (selectCommandState \<lparr> cc_browseState = BsIdle, cc_hasArchive = False, cc_focusedRow = False,
         cc_canNavigateUp = None, cc_canOpenInside = None, cc_selectedCount = Fin 0,
         cc_visibleSelectableCount = Fin 0, cc_mutableOperationsSupported = False \<rparr>) ''test'' no_payload
     = ([ReportDisabled ''test'' (Some NO_ARCHIVE_OPEN_MESSAGE)], disabled ''test'' (Some NO_ARCHIVE_OPEN_MESSAGE))"
  (is "run (selectCommandState ?c) _ _ = _")
proof -
  have "selectContextCommand (Some ''test'') \<lparr> xo_archivePath = None, xo_entryPath = None, xo_extractMode = None \<rparr>
      = Some (''test'', no_payload)"
    by (simp add: selectContextCommand_def)
  then have offered: "''test'' \<in> offered"
    unfolding offered_def by blast
  have "map_of (selectCommandState ?c) ''test''
      = Some \<lparr> cst_enabled = False, cst_reason = Some NO_ARCHIVE_OPEN_MESSAGE \<rparr>"
    by code_simp
  then show ?thesis
    using offered_commands_are_answered [OF offered, of "selectCommandState ?c" no_payload] by simp
qed

section \<open>Shortcuts that the table promises\<close>

text \<open>The table gives \<open>Alt+Enter\<close> to \<open>info\<close> and \<open>properties\<close>, but \<open>selectKeyboardCommand\<close> tests the plain
  \<open>Enter\<close> first: with it the key never gives either of them.\<close>

lemma alt_enter_is_not_info:
  "Option.bind (command_of ''info'') cm_shortcut = Some ''Alt+Enter''
   \<and> selectKeyboardCommand \<lparr> ki_key = ''Enter'', ki_ctrlKey = ctrl, ki_altKey = Some True, ki_selectedCount = n \<rparr>
       \<in> {None, Some (''view'', no_payload)}"
proof
  show "Option.bind (command_of ''info'') cm_shortcut = Some ''Alt+Enter''"
    by code_simp
  show "selectKeyboardCommand \<lparr> ki_key = ''Enter'', ki_ctrlKey = ctrl, ki_altKey = Some True, ki_selectedCount = n \<rparr>
       \<in> {None, Some (''view'', no_payload)}"
    by (simp add: selectKeyboardCommand_def Let_def js_lower_def js_lower_char_def)
qed

end
