(* ===== verification/ColumnAvailability.thy ===== *)
theory ColumnAvailability
  imports ArchiveFileTypes ColumnCatalogue
begin

text \<open>
  Which columns an archive can fill, and which of them its table shows:
  \<^verbatim>\<open>src/src/app/archiveFormatFamily.ts\<close> (the format family of a file name),
  \<^verbatim>\<open>extractColumnAvailability.ts\<close> (the audited columns of each family) and
  \<^verbatim>\<open>workspaceColumnResolver.ts\<close> (available, configured and visible columns of both workspaces).
\<close>

section \<open>Format families\<close>

definition ALL_ARCHIVE_FORMAT_FAMILIES :: "string list" where
  "ALL_ARCHIVE_FORMAT_FAMILIES =
     [''zip'', ''sevenZ'', ''tzap'', ''tarZstd'', ''tarGzip'', ''tarBzip2'', ''tarXz'', ''tarBrotli'',
      ''tarLzip'', ''tarLz4'', ''tarLzma'', ''tarLzo'', ''tarLrzip'', ''tarCompressZ'', ''tar'',
      ''appleArchive'', ''gzipStream'', ''bzip2Stream'', ''xzStream'', ''zstdStream'', ''brotliStream'',
      ''lzipStream'', ''lz4Stream'', ''lzmaStream'', ''lzoStream'', ''lrzipStream'', ''compressZStream'',
      ''rar'', ''cab'', ''cpio'', ''deb'', ''iso'', ''rpm'', ''xar'', ''lha'', ''ar'', ''warc'', ''mtree'',
      ''msi'', ''vhd'', ''vmdk'', ''udf'', ''dmg'', ''pkg'', ''genericPackage'']"

datatype family_resolution = KnownFamily string | UnknownFamily

text \<open>Each family with its physical suffixes; compound suffixes stand before the streams they end in.\<close>

definition FAMILY_REGISTRY :: "(string \<times> string list) list" where
  "FAMILY_REGISTRY =
     [(''tarZstd'', [''.tar.zst'', ''.tzst'']),
      (''tarGzip'', [''.tar.gz'', ''.tgz'']),
      (''tarBzip2'', [''.tar.bz2'', ''.tbz2'', ''.tbz'']),
      (''tarXz'', [''.tar.xz'', ''.txz'']),
      (''tarBrotli'', [''.tar.br'']),
      (''tarLzip'', [''.tar.lz'']),
      (''tarLz4'', [''.tar.lz4'']),
      (''tarLzma'', [''.tar.lzma'', ''.tlzma'']),
      (''tarLzo'', [''.tar.lzo'']),
      (''tarLrzip'', [''.tar.lrz'']),
      (''tarCompressZ'', [''.tar.z'', ''.taz'']),
      (''tar'', [''.tar'', ''.cbt'', ''.pax'', ''.ustar'', ''.tar.uu'', ''.tar.b64'']),
      (''cpio'', [''.cpio'', ''.cpio.gz'', ''.cpgz'', ''.cpio.bz2'', ''.cpio.xz'', ''.cpio.lzma'', ''.cpio.zst'']),
      (''zip'', [''.zip'', ''.zipx'', ''.jar'', ''.war'', ''.ipa'', ''.apk'', ''.appx'', ''.xpi'', 
         ''.cbz'', ''.epub'']),
      (''sevenZ'', [''.7z'', ''.cb7'', ''.sevenz'']),
      (''tzap'', [''.tzap'']),
      (''appleArchive'', [''.aar'', ''.aea'']),
      (''rar'', [''.rar'', ''.cbr'']),
      (''cab'', [''.cab'']),
      (''deb'', [''.deb'']),
      (''iso'', [''.iso'']),
      (''rpm'', [''.rpm'']),
      (''xar'', [''.xar'']),
      (''lha'', [''.lha'', ''.lzh'']),
      (''ar'', [''.a'', ''.ar'', ''.lib'']),
      (''warc'', [''.warc'']),
      (''mtree'', [''.mtree'']),
      (''msi'', [''.msi'']),
      (''vhd'', [''.vhd'']),
      (''vmdk'', [''.vmdk'']),
      (''udf'', [''.udf'']),
      (''dmg'', [''.dmg'']),
      (''pkg'', [''.pkg'']),
      (''genericPackage'', [''.appimage'', ''.squashfs'', ''.sqfs'', ''.ccd'', ''.cdi'', ''.cue'', ''.ad1'', ''.aff4'', 
         ''.dar'', ''.dd'', ''.e01'', ''.ex01'', ''.img'', ''.isz'', ''.mdf'', ''.mds'', 
         ''.nrg'', ''.qcow'', ''.qcow2'', ''.raw'', ''.swm'', ''.vdi'', ''.vhdx'', ''.wim'', 
         ''.dsk'']),
      (''gzipStream'', [''.gz'']),
      (''bzip2Stream'', [''.bz2'']),
      (''xzStream'', [''.xz'']),
      (''zstdStream'', [''.zst'']),
      (''brotliStream'', [''.br'']),
      (''lzipStream'', [''.lz'']),
      (''lz4Stream'', [''.lz4'']),
      (''lzmaStream'', [''.lzma'']),
      (''lzoStream'', [''.lzo'']),
      (''lrzipStream'', [''.lrz'']),
      (''compressZStream'', [''.z'', ''.uu'', ''.b64''])]"

text \<open>The label key of every entry is \<open>format.family.\<close> followed by its family.\<close>

definition displayLabelKey :: "string \<Rightarrow> string" where
  "displayLabelKey family = ''format.family.'' @ family"

definition suffixToFamily :: "(string \<times> string) list" where
  "suffixToFamily =
     fold (\<lambda>(family, suffixes) m.
        fold (\<lambda>suf m.
           let key = js_lower suf
           in if map_of m key = None then AList.update key family m else m) suffixes m)
       FAMILY_REGISTRY []"

definition normalizeSplitSuffix :: "string \<Rightarrow> string" where
  "normalizeSplitSuffix suf =
     (let lower = js_lower suf
      in if prefix ''.7z.'' lower \<and> length lower = 7 \<and> isAsciiDigits (drop 4 lower) then ''.7z''
         else if prefix ''.vol'' lower \<and> suffix ''.tzap'' lower \<and> 12 \<le> length lower
                 \<and> isAsciiDigits (drop 4 (take (length lower - 5) lower))
              then ''.tzap''
         else suf)"

definition resolve_suffix :: "string \<Rightarrow> family_resolution" where
  "resolve_suffix suf =
     (case map_of suffixToFamily (js_lower (normalizeSplitSuffix suf)) of
        None \<Rightarrow> UnknownFamily
      | Some family \<Rightarrow> KnownFamily family)"

definition resolveArchiveFormatFamily :: "string \<Rightarrow> family_resolution" where
  "resolveArchiveFormatFamily archivePath =
     (case getKnownArchiveSuffix archivePath of
        None \<Rightarrow> UnknownFamily
      | Some suf \<Rightarrow> if suf = [] then UnknownFamily else resolve_suffix suf)"

definition resolveSuffixToFamily :: "string \<Rightarrow> family_resolution" where
  "resolveSuffixToFamily suf = resolve_suffix (if prefix ''.'' suf then suf else CHR 0x2E # suf)"

definition preferredSuffixForFamily :: "string \<Rightarrow> string" where
  "preferredSuffixForFamily family =
     nullish (map_option hd (map_of (rev FAMILY_REGISTRY) family)) (CHR 0x2E # family)"

definition displayLabelKeyForFamily :: "string \<Rightarrow> string" where
  "displayLabelKeyForFamily family =
     nullish (map_option (\<lambda>_. displayLabelKey family) (map_of (rev FAMILY_REGISTRY) family))
       ''format.family.unknown''"

definition allRegisteredSuffixes :: "string list" where
  "allRegisteredSuffixes = concat (map snd FAMILY_REGISTRY)"

section \<open>Columns of a family\<close>

definition EXTRACT_AVAILABILITY :: "(string \<times> string list) list" where
  "EXTRACT_AVAILABILITY =
     [(''zip'', [''size'', ''compressedSize'', ''modified'', ''mode'', ''encrypted'', ''method'', ''crc'', ''comment'', ''ratio'']),
      (''sevenZ'', [''size'', ''compressedSize'', ''modified'', ''mode'', ''crc'', ''created'', ''accessed'', ''solid'', ''attributes'', 
         ''ratio'']),
      (''tzap'', [''size'', ''modified'', ''mode'', ''encrypted'', ''method'', ''solid'', ''metadataDiagnostics'', ''linkTarget'', ''created'', 
         ''accessed'', ''attributes'', ''uid'', ''gid'', ''owner'', ''group'']),
      (''tarZstd'', [''size'', ''modified'', ''mode'', ''linkTarget'', ''uid'', ''gid'', ''owner'', ''group'']),
      (''tarGzip'', [''size'', ''modified'', ''mode'', ''linkTarget'', ''uid'', ''gid'', ''owner'', ''group'']),
      (''tarBzip2'', [''size'', ''modified'', ''mode'', ''linkTarget'', ''uid'', ''gid'', ''owner'', ''group'']),
      (''tarXz'', [''size'', ''modified'', ''mode'', ''linkTarget'', ''uid'', ''gid'', ''owner'', ''group'']),
      (''tarBrotli'', [''size'', ''modified'', ''mode'', ''linkTarget'', ''uid'', ''gid'', ''owner'', ''group'']),
      (''tarLzip'', [''size'', ''modified'', ''mode'', ''linkTarget'', ''uid'', ''gid'', ''owner'', ''group'']),
      (''tarLz4'', [''size'', ''modified'', ''mode'', ''linkTarget'', ''uid'', ''gid'', ''owner'', ''group'']),
      (''tarLzma'', [''size'', ''modified'', ''mode'', ''linkTarget'', ''uid'', ''gid'', ''owner'', ''group'']),
      (''tarLzo'', [''size'', ''modified'', ''mode'', ''linkTarget'', ''uid'', ''gid'', ''owner'', ''group'']),
      (''tarLrzip'', [''size'', ''modified'', ''mode'', ''linkTarget'', ''uid'', ''gid'', ''owner'', ''group'']),
      (''tarCompressZ'', [''size'', ''modified'', ''mode'', ''linkTarget'', ''uid'', ''gid'', ''owner'', ''group'']),
      (''tar'', [''size'', ''modified'', ''mode'', ''linkTarget'', ''uid'', ''gid'', ''owner'', ''group'']),
      (''appleArchive'', [''size'', ''modified'', ''mode'', ''encrypted'', ''method'', ''crc'', ''created'', ''linkTarget'', ''attributes'', 
         ''uid'', ''gid'']),
      (''gzipStream'', [''compressedSize'']),
      (''bzip2Stream'', [''compressedSize'']),
      (''xzStream'', [''compressedSize'']),
      (''zstdStream'', [''compressedSize'']),
      (''brotliStream'', [''compressedSize'']),
      (''lzipStream'', [''compressedSize'']),
      (''lz4Stream'', [''compressedSize'']),
      (''lzmaStream'', [''compressedSize'']),
      (''lzoStream'', [''compressedSize'']),
      (''lrzipStream'', [''compressedSize'']),
      (''compressZStream'', [''compressedSize'']),
      (''rar'', [''size'', ''modified'']),
      (''cab'', [''size'', ''modified'']),
      (''cpio'', [''size'', ''modified'', ''mode'', ''uid'', ''gid'']),
      (''deb'', [''size'', ''modified'']),
      (''iso'', [''size'', ''modified'']),
      (''rpm'', [''size'', ''modified'']),
      (''xar'', [''size'', ''modified'']),
      (''lha'', [''size'', ''modified'']),
      (''ar'', [''size'', ''modified'']),
      (''warc'', [''size'', ''modified'']),
      (''mtree'', [''size'', ''modified'']),
      (''msi'', [''size'', ''modified'']),
      (''vhd'', [''size'', ''modified'']),
      (''vmdk'', [''size'', ''modified'']),
      (''udf'', [''size'', ''modified'']),
      (''dmg'', [''size'', ''modified'']),
      (''pkg'', [''size'', ''modified'']),
      (''genericPackage'', [''size'', ''modified''])]"

definition UNKNOWN_AVAILABILITY :: "string list" where
  "UNKNOWN_AVAILABILITY = [''name'', ''kind'']"

definition getExtractAvailableColumns :: "string \<Rightarrow> string list" where
  "getExtractAvailableColumns family =
     fold (\<lambda>cid result. if cid \<noteq> ''name'' \<and> cid \<noteq> ''kind'' then result @ [cid] else result)
       (nullish (map_of EXTRACT_AVAILABILITY family) []) [''name'', ''kind'']"

definition getUnknownExtractAvailableColumns :: "string list" where
  "getUnknownExtractAvailableColumns = UNKNOWN_AVAILABILITY"

section \<open>The resolver\<close>

datatype table_scenario = ScenarioCompress | ScenarioExtract

record resolved_columns =
  rc_scenario :: table_scenario
  rc_available :: "string list"
  rc_configuredDefault :: "string list"
  rc_currentVisible :: "string list"
  rc_canonicalOrder :: "string list"
  rc_menu :: "string list"

record compress_resolve_input =
  ci_capabilitySet :: "string list"
  ci_prefs :: visibility_preferences
  ci_overrides :: "string list option"

definition resolveCompressColumns :: "compress_resolve_input \<Rightarrow> resolved_columns" where
  "resolveCompressColumns inp =
     (let availableSet = js_set (ci_capabilitySet inp);
          availableIds = filter (set_has availableSet) CANONICAL_COLUMN_ORDER;
          menuIds = filter (\<lambda>cid. cid \<noteq> ''name'') availableIds;
          configuredDefaults = intersectVisibleColumns availableIds (js_set (vp_visible (ci_prefs inp)));
          currentVisible = resolveWorkspaceVisibility configuredDefaults (ci_overrides inp) availableSet ''name''
      in \<lparr> rc_scenario = ScenarioCompress, rc_available = availableIds,
           rc_configuredDefault = configuredDefaults, rc_currentVisible = currentVisible,
           rc_canonicalOrder = availableIds, rc_menu = menuIds \<rparr>)"

definition resolveCompressCapabilitySet :: "string list option \<Rightarrow> string list" where
  "resolveCompressCapabilitySet rawIds =
     validateCompressCapabilitySet rawIds COMPRESS_SAFE_BASE_IDS COMPRESS_APPLICABLE_IDS"

record extract_resolve_input =
  xi_family :: family_resolution
  xi_prefs :: visibility_preferences
  xi_overrides :: "string list option"

text \<open>The per-format override of a family; both an absent key and an undefined value give \<open>None\<close>.\<close>

definition family_override :: "visibility_preferences \<Rightarrow> string \<Rightarrow> string list option" where
  "family_override prefs family = Option.bind (map_of (vp_byFamily prefs) family) (\<lambda>v. v)"

definition resolveKnownExtractColumns :: "string \<Rightarrow> extract_resolve_input \<Rightarrow> resolved_columns" where
  "resolveKnownExtractColumns family inp =
     (let familyAvailable = js_set (getExtractAvailableColumns family);
          availableIds = filter (set_has familyAvailable) CANONICAL_COLUMN_ORDER;
          menuIds = filter (\<lambda>cid. cid \<noteq> ''name'') availableIds;
          configuredVisible =
            (case family_override (xi_prefs inp) family of
               Some familyOverride \<Rightarrow>
                 js_set (filter (\<lambda>cid. cid \<in> set COMMON_COLUMN_IDS) (vp_visible (xi_prefs inp))
                         @ filter (\<lambda>cid. cid \<in> set EXTRACT_ONLY_COLUMN_IDS) familyOverride)
             | None \<Rightarrow> js_set (vp_visible (xi_prefs inp)));
          configuredDefaults = intersectVisibleColumns availableIds configuredVisible;
          availableSet = js_set availableIds;
          currentVisible = resolveWorkspaceVisibility configuredDefaults (xi_overrides inp) availableSet ''name''
      in \<lparr> rc_scenario = ScenarioExtract, rc_available = availableIds,
           rc_configuredDefault = configuredDefaults, rc_currentVisible = currentVisible,
           rc_canonicalOrder = availableIds, rc_menu = menuIds \<rparr>)"

definition resolveUnknownExtractColumns :: "extract_resolve_input \<Rightarrow> resolved_columns" where
  "resolveUnknownExtractColumns inp =
     (let availableIds = getUnknownExtractAvailableColumns;
          configuredDefaults = intersectVisibleColumns availableIds (js_set (vp_visible (xi_prefs inp)));
          currentVisible =
            resolveWorkspaceVisibility configuredDefaults (xi_overrides inp) (js_set availableIds) ''name''
      in \<lparr> rc_scenario = ScenarioExtract, rc_available = availableIds,
           rc_configuredDefault = configuredDefaults, rc_currentVisible = currentVisible,
           rc_canonicalOrder = availableIds, rc_menu = filter (\<lambda>cid. cid \<noteq> ''name'') availableIds \<rparr>)"

definition resolveExtractColumns :: "extract_resolve_input \<Rightarrow> resolved_columns" where
  "resolveExtractColumns inp =
     (case xi_family inp of
        UnknownFamily \<Rightarrow> resolveUnknownExtractColumns inp
      | KnownFamily family \<Rightarrow> resolveKnownExtractColumns family inp)"

text \<open>A sort key that is not visible falls back to the name, ascending. An empty key is as good as none.\<close>

definition resolveExtractSortKey :: "string option \<Rightarrow> bool \<Rightarrow> string list \<Rightarrow> string \<times> bool" where
  "resolveExtractSortKey configuredSortKey configuredSortAscending visibleColumnIds =
     (case configuredSortKey of
        Some key \<Rightarrow> if key \<noteq> [] \<and> key \<in> set visibleColumnIds then (key, configuredSortAscending)
                    else (''name'', True)
      | None \<Rightarrow> (''name'', True))"

definition arraysEqual :: "'a list \<Rightarrow> 'a list \<Rightarrow> bool" where
  "arraysEqual a b =
     (if length a \<noteq> length b then False else list_all (\<lambda>i. a ! i = b ! i) [0..<length a])"

definition compareResolvedDefaults ::
    "resolved_columns \<Rightarrow> resolved_columns \<Rightarrow> resolved_columns \<Rightarrow> resolved_columns \<Rightarrow> bool \<times> bool" where
  "compareResolvedDefaults compressBefore compressAfter extractBefore extractAfter =
     (\<not> arraysEqual (rc_configuredDefault compressBefore) (rc_configuredDefault compressAfter),
      \<not> arraysEqual (rc_configuredDefault extractBefore) (rc_configuredDefault extractAfter))"

definition resolveExtractFamilyFromPath :: "string \<Rightarrow> family_resolution" where
  "resolveExtractFamilyFromPath archivePath = resolveArchiveFormatFamily archivePath"

definition archiveSettingsFromResolved :: "resolved_columns \<Rightarrow> column_settings" where
  "archiveSettingsFromResolved resolved =
     \<lparr> cs_visible = rc_currentVisible resolved, cs_order = rc_canonicalOrder resolved, cs_widths = [] \<rparr>"

definition createSettingsFromResolved :: "resolved_columns \<Rightarrow> column_settings" where
  "createSettingsFromResolved resolved =
     \<lparr> cs_visible = rc_currentVisible resolved, cs_order = rc_canonicalOrder resolved, cs_widths = [] \<rparr>"

section \<open>Lemmas\<close>

lemma map_of_fold_suffixes:
  "map_of (fold (\<lambda>suf m. if map_of m (js_lower suf) = None then AList.update (js_lower suf) f m else m) sufs m) k
     = (case map_of m k of Some v \<Rightarrow> Some v | None \<Rightarrow> if k \<in> set (map js_lower sufs) then Some f else None)"
proof (induction sufs arbitrary: m)
  case (Cons s sufs)
  show ?case
    by (auto simp: Cons.IH update_conv' split: option.split)
qed (simp split: option.split)

lemma map_of_fold_registry:
  "map_of (fold (\<lambda>(family, suffixes) m.
        fold (\<lambda>suf m. let key = js_lower suf in if map_of m key = None then AList.update key family m else m)
          suffixes m) reg m) k
     = (case map_of m k of Some v \<Rightarrow> Some v
        | None \<Rightarrow> map_option fst (find (\<lambda>(f, ss). k \<in> set (map js_lower ss)) reg))"
  by (induction reg arbitrary: m) (auto simp: map_of_fold_suffixes Let_def split: option.split)

lemma registry_lower: "map (\<lambda>(f, ss). (f, map js_lower ss)) FAMILY_REGISTRY = FAMILY_REGISTRY"
  by code_simp

lemma find_map_pairs: "map_option fst (find (\<lambda>(f, ss). P (g ss)) xs) = map_option fst (find (\<lambda>(f, ss). P ss) (map (\<lambda>(f, ss). (f, g ss)) xs))"
  by (induction xs) auto

text \<open>A suffix belongs to the first family that lists it.\<close>

lemma suffix_family: "map_of suffixToFamily k = map_option fst (find (\<lambda>(f, ss). k \<in> set ss) FAMILY_REGISTRY)"
  using find_map_pairs [of "\<lambda>ss. k \<in> set ss" "map js_lower" FAMILY_REGISTRY]
  by (simp add: suffixToFamily_def map_of_fold_registry registry_lower)

lemma registered_singles:
  "list_all (\<lambda>e. find (\<lambda>(f, ss). CHR 0x2E # e \<in> set ss) FAMILY_REGISTRY \<noteq> None)
     SUPPORTED_SINGLE_ARCHIVE_EXTENSIONS"
  by code_simp

lemma registered_compounds:
  "list_all (\<lambda>e. find (\<lambda>(f, ss). CHR 0x2E # e \<in> set ss) FAMILY_REGISTRY \<noteq> None)
     SUPPORTED_COMPOUND_ARCHIVE_EXTENSIONS"
  by code_simp

lemma known_suffixes_plain:
  "list_all (\<lambda>e. js_lower (normalizeSplitSuffix (CHR 0x2E # e)) = CHR 0x2E # e)
     (SUPPORTED_COMPOUND_ARCHIVE_EXTENSIONS @ SUPPORTED_SINGLE_ARCHIVE_EXTENSIONS)"
  by code_simp

lemma split_suffixes_resolve:
  "map resolve_suffix SUPPORTED_SPLIT_ARCHIVE_FILE_SUFFIXES = [KnownFamily ''sevenZ'', KnownFamily ''tzap'']"
  unfolding resolve_suffix_def suffix_family by code_simp

lemma resolve_suffix_eq:
  "resolve_suffix suf =
     (case find (\<lambda>(f, ss). js_lower (normalizeSplitSuffix suf) \<in> set ss) FAMILY_REGISTRY of
        None \<Rightarrow> UnknownFamily | Some (f, ss) \<Rightarrow> KnownFamily f)"
  by (auto simp: resolve_suffix_def suffix_family split: option.split)

lemma known_suffix_resolves:
  assumes "suf \<in> set SUPPORTED_ARCHIVE_FILE_SUFFIXES"
  shows "resolve_suffix suf \<noteq> UnknownFamily"
proof (cases "suf \<in> set SUPPORTED_SPLIT_ARCHIVE_FILE_SUFFIXES")
  case True
  then have "resolve_suffix suf \<in> set (map resolve_suffix SUPPORTED_SPLIT_ARCHIVE_FILE_SUFFIXES)"
    by simp
  then show ?thesis
    unfolding split_suffixes_resolve by auto
next
  case False
  with assms obtain e where e: "suf = CHR 0x2E # e"
      "e \<in> set (SUPPORTED_COMPOUND_ARCHIVE_EXTENSIONS @ SUPPORTED_SINGLE_ARCHIVE_EXTENSIONS)"
    by (auto simp: suffixes_iff)
  then have "js_lower (normalizeSplitSuffix suf) = suf"
    using known_suffixes_plain unfolding list_all_iff by blast
  moreover have "find (\<lambda>(f, ss). suf \<in> set ss) FAMILY_REGISTRY \<noteq> None"
    using e registered_singles registered_compounds unfolding list_all_iff set_append by blast
  ultimately show ?thesis
    by (auto simp: resolve_suffix_eq)
qed

lemma registered_families: "list_all (\<lambda>(f, ss). f \<in> set ALL_ARCHIVE_FORMAT_FAMILIES \<and> \<not> list_ex (prefix ''.vol'') ss) FAMILY_REGISTRY"
  by code_simp

lemma resolved_family_known: "resolve_suffix suf \<in> insert UnknownFamily (KnownFamily ` set ALL_ARCHIVE_FORMAT_FAMILIES)"
proof (cases "find (\<lambda>(f, ss). js_lower (normalizeSplitSuffix suf) \<in> set ss) FAMILY_REGISTRY")
  case (Some e)
  then have "e \<in> set FAMILY_REGISTRY"
    by (metis find_Some_iff nth_mem)
  then have "fst e \<in> set ALL_ARCHIVE_FORMAT_FAMILIES"
    using registered_families unfolding list_all_iff by fastforce
  with Some show ?thesis
    by (cases e) (simp add: resolve_suffix_eq)
qed (simp add: resolve_suffix_eq)

text \<open>The volumes of a tzap archive, by the shape of their names.\<close>

lemma digits_no_dot: "isAsciiDigits ds \<Longrightarrow> CHR 0x2E \<notin> set ds"
  by (auto simp: isAsciiDigits_def list_all_iff Let_def)

lemma last_index_vol:
  assumes "isAsciiDigits ds"
  shows "last_index_of ''.vol'' (b @ ''.vol'' @ ds) = Some (length b)"
proof -
  let ?s = "b @ ''.vol'' @ ds" and ?P = "\<lambda>i. prefix ''.vol'' (drop i (b @ ''.vol'' @ ds))"
  have dot: "CHR 0x2E \<notin> set (''vol'' @ ds)"
    using digits_no_dot [OF assms] by simp
  have n: "Suc (length ?s) - length ''.vol'' = Suc (length b + length ds)"
    by simp
  have "\<not> ?P i" if "length b < i" "i < Suc (length b + length ds)" for i
  proof
    assume "?P i"
    then have "hd (drop i ?s) = CHR 0x2E" and "drop i ?s \<noteq> []"
      by (auto simp: prefix_def)
    moreover have "drop i ?s = drop (i - length b - 1) (''vol'' @ ds)"
      using that by (cases "i - length b") auto
    ultimately have "CHR 0x2E \<in> set (''vol'' @ ds)"
      by (metis hd_in_set in_set_dropD)
    with dot show False
      by blast
  qed
  then have "filter ?P [0..<Suc (length b + length ds)] \<noteq> [] \<and> last (filter ?P [0..<Suc (length b + length ds)]) = length b"
    by (intro last_filter_upt) auto
  then show ?thesis
    by (simp only: last_index_of_def n Let_def if_False)
qed

lemma last_index_occurs:
  assumes "last_index_of sub t = Some i"
  shows "prefix sub (drop i t)"
proof -
  let ?found = "filter (\<lambda>i. prefix sub (drop i t)) [0..<Suc (length t) - length sub]"
  have "?found \<noteq> []" "i = last ?found"
    using assms by (auto simp: last_index_of_def Let_def split: if_splits)
  then have "i \<in> set ?found"
    by (metis last_in_set)
  then show ?thesis
    by simp
qed

lemma lower_prefix: "js_lower (x @ y) = x @ y' \<Longrightarrow> js_lower x = x"
  by (simp add: js_lower_append append_eq_append_conv)

lemma prefix_drop_append: "prefix p t \<Longrightarrow> p @ drop (length p) t = t"
  by (auto simp: prefix_def)

lemma tzap_volume_iff:
  "baseNameWithoutTzapVolumeSuffix name = Some b \<and> js_lower name = name
     \<longleftrightarrow> b \<noteq> [] \<and> js_lower name = name \<and> (\<exists>ds. isAsciiDigits ds \<and> name = b @ ''.vol'' @ ds @ ''.tzap'')"
proof (intro iffI; (elim conjE exE)?)
  assume some: "baseNameWithoutTzapVolumeSuffix name = Some b" and low: "js_lower name = name"
  let ?stem = "take (length name - length ''.tzap'') name"
  from some low obtain i where suf: "suffix ''.tzap'' name" and i: "last_index_of ''.vol'' ?stem = Some i"
    and b: "b = take i ?stem" "b \<noteq> []" and ds: "isAsciiDigits (drop (i + length ''.vol'') ?stem)"
    by (auto simp: baseNameWithoutTzapVolumeSuffix_def Let_def js_lower_take split: if_splits option.splits)
  have name: "name = ?stem @ ''.tzap''"
    using suf by (auto simp: suffix_def)
  have "?stem = take i ?stem @ ''.vol'' @ drop (length ''.vol'') (drop i ?stem)"
    unfolding prefix_drop_append [OF last_index_occurs [OF i]] by (simp only: append_take_drop_id)
  then have "?stem = b @ ''.vol'' @ drop (i + length ''.vol'') ?stem"
    unfolding b by (simp only: drop_drop add.commute [of i])
  with name have "name = b @ ''.vol'' @ drop (i + length ''.vol'') ?stem @ ''.tzap''"
    by (metis append.assoc)
  with b ds low show "b \<noteq> [] \<and> js_lower name = name \<and> (\<exists>ds. isAsciiDigits ds \<and> name = b @ ''.vol'' @ ds @ ''.tzap'')"
    by blast
next
  fix ds
  assume *: "b \<noteq> []" "js_lower name = name" "isAsciiDigits ds" "name = b @ ''.vol'' @ ds @ ''.tzap''"
  let ?stem = "b @ ''.vol'' @ ds"
  have stem: "take (length name - length ''.tzap'') name = ?stem"
    unfolding *(4) by (simp add: take_Cons')
  have "js_lower (?stem @ ''.tzap'') = ?stem @ ''.tzap''"
    using *(2,4) by simp
  then have low: "js_lower ?stem = ?stem"
    by (rule lower_prefix)
  have "suffix ''.tzap'' (js_lower name)"
    using *(2,4) by (auto simp: suffix_def)
  then show "baseNameWithoutTzapVolumeSuffix name = Some b \<and> js_lower name = name"
    unfolding baseNameWithoutTzapVolumeSuffix_def stem Let_def low last_index_vol [OF *(3)]
    using * by simp
qed

lemma volume_known_suffix:
  assumes "js_lower (getLastPathComponent path) = b @ ''.vol'' @ ds @ ''.tzap''" "b \<noteq> []" "isAsciiDigits ds"
  shows "getKnownArchiveSuffix path = Some (''.vol'' @ ds @ ''.tzap'')"
proof -
  let ?n = "js_lower (getLastPathComponent path)"
  have "baseNameWithoutTzapVolumeSuffix ?n = Some b"
    using tzap_volume_iff [THEN iffD2, of b ?n] assms js_lower_idem [of "getLastPathComponent path"] by blast
  then have "isTzapVolumeArchiveName ?n" and "baseNameWithoutKnownArchiveExtension ?n = b"
    by (simp_all add: isTzapVolumeArchiveName_def baseNameWithoutKnownArchiveExtension_def Let_def)
  then show ?thesis
    by (simp add: getKnownArchiveSuffix_def Let_def assms(1))
qed

lemma volume_resolves:
  assumes "isAsciiDigits ds" "js_lower ds = ds"
  shows "resolve_suffix (''.vol'' @ ds @ ''.tzap'') = (if length ds < 3 then UnknownFamily else KnownFamily ''tzap'')"
proof -
  let ?s = "''.vol'' @ ds @ ''.tzap''"
  have low: "js_lower ?s = ?s"
    using assms(2) by (simp add: js_lower_append) (simp add: js_lower_def js_lower_char_def)
  have norm: "normalizeSplitSuffix ?s = (if length ds < 3 then ?s else ''.tzap'')"
    using assms(1) unfolding normalizeSplitSuffix_def low Let_def
    by (auto simp: suffix_def)
  have "find (\<lambda>(f, ss). ?s \<in> set ss) FAMILY_REGISTRY = None"
    unfolding find_None_iff
  proof
    assume "\<exists>e. e \<in> set FAMILY_REGISTRY \<and> (case e of (f, ss) \<Rightarrow> ?s \<in> set ss)"
    then obtain f ss where e: "(f, ss) \<in> set FAMILY_REGISTRY" "?s \<in> set ss"
      by blast
    then have "\<not> list_ex (prefix ''.vol'') ss"
      using registered_families unfolding list_all_iff by fast
    with e(2) show False
      by (auto simp: list_ex_iff)
  qed
  moreover have "resolve_suffix ''.tzap'' = KnownFamily ''tzap''"
    unfolding resolve_suffix_eq by code_simp
  moreover have "js_lower (normalizeSplitSuffix ''.tzap'') = js_lower ''.tzap''"
    by code_simp
  moreover define s where "s = ?s"
  ultimately show ?thesis
    using low norm unfolding s_def [symmetric]
    by (cases "length ds < 3") (simp_all add: resolve_suffix_eq)
qed

lemma unsupported_unknown: "\<not> isSupportedArchivePath path \<Longrightarrow> resolveArchiveFormatFamily path = UnknownFamily"
  by (simp add: supported_aux resolveArchiveFormatFamily_def)

lemma suffix_family_path:
  "getKnownArchiveSuffix path = Some suf \<Longrightarrow> suf \<noteq> [] \<Longrightarrow> resolveArchiveFormatFamily path = resolve_suffix suf"
  by (simp add: resolveArchiveFormatFamily_def)

section \<open>Lemmas on the resolver\<close>

lemma filter_set_add_all: "(\<And>m. m \<in> set ms \<Longrightarrow> \<not> P m) \<Longrightarrow> filter P (set_add_all ms xs) = filter P xs"
  by (induction ms arbitrary: xs) (auto simp: set_add_all_def set_add_def)

lemma canonical_order: "CANONICAL_COLUMN_ORDER = ''name'' # ''kind'' # drop 2 CANONICAL_COLUMN_ORDER"
  "distinct CANONICAL_COLUMN_ORDER"
  by code_simp+

lemma extract_ids: "''name'' \<in> set EXTRACT_APPLICABLE_IDS" "''kind'' \<in> set EXTRACT_APPLICABLE_IDS"
  by code_simp+

lemma getExtractAvailableColumns_eq:
  "set (getExtractAvailableColumns family)
     = {''name'', ''kind''} \<union> set (nullish (map_of EXTRACT_AVAILABILITY family) [])"
proof -
  have "set (fold (\<lambda>cid result. if cid \<noteq> ''name'' \<and> cid \<noteq> ''kind'' then result @ [cid] else result) ids acc)
      = set acc \<union> (set ids - {''name'', ''kind''})" for ids acc
    by (induction ids arbitrary: acc) auto
  then show ?thesis
    unfolding getExtractAvailableColumns_def by auto
qed

text \<open>The audit lists every family, with columns of the extraction table only.\<close>

lemma availability_audit:
  "map fst EXTRACT_AVAILABILITY = ALL_ARCHIVE_FORMAT_FAMILIES"
  "list_all (\<lambda>(f, ids). list_all (\<lambda>c. c \<in> set EXTRACT_APPLICABLE_IDS) ids) EXTRACT_AVAILABILITY"
  by code_simp+

lemma available_applicable: "set (getExtractAvailableColumns family) \<subseteq> set EXTRACT_APPLICABLE_IDS"
  using availability_audit(2) extract_ids
  by (cases "map_of EXTRACT_AVAILABILITY family")
    (auto simp: getExtractAvailableColumns_eq list_all_iff dest!: map_of_SomeD)

lemma scopes_disjoint: "c \<in> set EXTRACT_ONLY_COLUMN_IDS \<Longrightarrow> c \<notin> set COMMON_COLUMN_IDS"
proof -
  have "list_all (\<lambda>c. c \<notin> set COMMON_COLUMN_IDS) EXTRACT_ONLY_COLUMN_IDS"
    by code_simp
  then show "c \<in> set EXTRACT_ONLY_COLUMN_IDS \<Longrightarrow> c \<notin> set COMMON_COLUMN_IDS"
    by (simp add: list_all_iff)
qed

lemma resolve_visibility_eq:
  "\<exists>vis. resolveWorkspaceVisibility defaults overrides available ''name'' = vis \<and> distinct vis
     \<and> set vis = (set (nullish overrides defaults) \<union> {''name''}) \<inter> set available"
proof -
  have "set (fold (\<lambda>id visible. if set_has available id then set_add id visible else visible) ids acc)
      = set acc \<union> (set ids \<inter> set available)
    \<and> (distinct acc \<longrightarrow> distinct (fold (\<lambda>id visible. if set_has available id then set_add id visible else visible) ids acc))"
    for ids acc
    by (induction ids arbitrary: acc) (auto simp: set_has_def)
  then show ?thesis
    by (auto simp: resolveWorkspaceVisibility_def Let_def set_has_def set_add_def)
qed

text \<open>What the table shows after its settings were replaced by resolved ones.\<close>

lemma shown_columns:
  assumes avail: "av = filter P CANONICAL_COLUMN_ORDER" "P ''name''" "set av \<subseteq> set EXTRACT_APPLICABLE_IDS"
    and cur: "set cur \<subseteq> set av" "''name'' \<in> set cur"
  shows "map_option (map tc_id) (visibleColumns \<lparr> cs_visible = cur, cs_order = av, cs_widths = [] \<rparr>)
    = Some (filter (\<lambda>c. c \<in> set cur) av)"
proof -
  let ?s = "\<lparr> cs_visible = cur, cs_order = av, cs_widths = [] \<rparr>"
  let ?n = "normalizeColumnSettings (Some (as_partial ?s))"
  have ids: "tc_id ` set ARCHIVE_TABLE_COLUMNS = set EXTRACT_APPLICABLE_IDS"
    using archive_columns_ids by (metis set_map)
  obtain rest where rest: "av = ''name'' # rest"
    using avail(1,2) by (subst (asm) canonical_order(1)) simp
  have d: "distinct av"
    unfolding avail(1) using canonical_order(2) by simp
  have vis: "set (cs_visible ?n) = set cur"
    using cur avail(3)
    by (auto simp: normalizeColumnSettings_def extract_columns.normalize_eq Let_def as_partial_def ids)
  have "set_add_all (filter (\<lambda>id. id \<noteq> ''name'') (js_set (filter (\<lambda>id. id \<in> set EXTRACT_APPLICABLE_IDS) av))) [''name''] = av"
  proof -
    have "filter (\<lambda>id. id \<in> set EXTRACT_APPLICABLE_IDS) av = av"
      using avail(3) by (auto simp: filter_id_conv)
    moreover have "filter (\<lambda>id. id \<noteq> ''name'') av = rest"
      using d unfolding rest by (auto simp: filter_id_conv)
    ultimately show ?thesis
      using d set_add_all_fresh [of "[''name'']" rest] by (simp add: js_set_distinct rest)
  qed
  then have order: "cs_order ?n = set_add_all (filter (\<lambda>id. id \<noteq> ''name'')
      (filter (\<lambda>id. id \<in> set EXTRACT_APPLICABLE_IDS \<and> id \<notin> set av) DEFAULT_ARCHIVE_TABLE_COLUMN_ORDER_IDS)) av"
    using avail(3)
    by (simp add: normalizeColumnSettings_def extract_columns.normalize_eq Let_def as_partial_def ids) (metis (no_types, lifting) filter_cong inf.absorb_iff2 set_filter subsetD)
  have "filter (\<lambda>c. c \<in> set cur) (cs_order ?n) = filter (\<lambda>c. c \<in> set cur) av"
    unfolding order using cur(1) by (intro filter_set_add_all) auto
  with vis show ?thesis
    using extract_columns.visible_columns_eq [of ?s]
    unfolding visibleColumns_def normalizeColumnSettings_def by auto
qed

section \<open>Properties\<close>

text \<open>C25: A file name has a format family, and with it a column set, exactly when it is the name of a supported archive other
  than a tzap volume whose number has less than three digits; the family is always a listed one.  The exception is what the
  code does and not what it says: the comment of \<open>normalizeSplitSuffix\<close> speaks of any sequence of digits, and the
  test for a supported archive takes any, but the expression below the comment asks for three.\<close>

theorem supported_archives_have_a_family:
  "(resolveArchiveFormatFamily path = UnknownFamily
     \<longleftrightarrow> (if isSupportedArchivePath path
          then \<exists>base digits. base \<noteq> [] \<and> isAsciiDigits digits \<and> length digits < 3
                 \<and> js_lower (getLastPathComponent path) = base @ ''.vol'' @ digits @ ''.tzap''
          else True))
   \<and> resolveArchiveFormatFamily path \<in> insert UnknownFamily (KnownFamily ` set ALL_ARCHIVE_FORMAT_FAMILIES)"
proof (cases "\<exists>b ds. b \<noteq> [] \<and> isAsciiDigits ds \<and> js_lower (getLastPathComponent path) = b @ ''.vol'' @ ds @ ''.tzap''")
  case True
  then obtain b ds where v: "b \<noteq> []" "isAsciiDigits ds" "js_lower (getLastPathComponent path) = b @ ''.vol'' @ ds @ ''.tzap''"
    by blast
  have suf: "getKnownArchiveSuffix path = Some (''.vol'' @ ds @ ''.tzap'')"
    using volume_known_suffix v by blast
  have low: "js_lower ds = ds"
  proof -
    have "js_lower (b @ ''.vol'' @ ds @ ''.tzap'') = b @ ''.vol'' @ ds @ ''.tzap''"
      unfolding v(3) [symmetric] by simp
    then show ?thesis
      by (simp add: js_lower_append js_lower_def)
  qed
  have unique: "ds' = ds" if "b' \<noteq> []" "isAsciiDigits ds'"
      "js_lower (getLastPathComponent path) = b' @ ''.vol'' @ ds' @ ''.tzap''" for b' ds'
    using volume_known_suffix [OF that(3,1,2)] suf by simp
  have eq: "resolveArchiveFormatFamily path = (if length ds < 3 then UnknownFamily else KnownFamily ''tzap'')"
    using suffix_family_path [OF suf] volume_resolves [OF v(2) low] by simp
  have "isSupportedArchivePath path"
    using suf by (simp add: supported_aux)
  moreover have "(\<exists>base digits. base \<noteq> [] \<and> isAsciiDigits digits \<and> length digits < 3
            \<and> js_lower (getLastPathComponent path) = base @ ''.vol'' @ digits @ ''.tzap'') \<longleftrightarrow> length ds < 3"
    using v unique by blast
  moreover have "''tzap'' \<in> set ALL_ARCHIVE_FORMAT_FAMILIES"
    by code_simp
  ultimately show ?thesis
    unfolding eq by simp
next
  case False
  show ?thesis
  proof (cases "getKnownArchiveSuffix path")
    case None
    then show ?thesis
      by (simp add: supported_aux unsupported_unknown)
  next
    case (Some suf)
    have "\<not> isTzapVolumeArchiveName (js_lower (getLastPathComponent path))"
      using False tzap_volume_iff [of "js_lower (getLastPathComponent path)"] by (auto simp: isTzapVolumeArchiveName_def)
    with Some have known: "suf \<in> set SUPPORTED_ARCHIVE_FILE_SUFFIXES"
      by (auto simp: getKnownArchiveSuffix_def Let_def find_Some_iff)
    then have "suf \<noteq> []"
      by (auto simp: suffixes_iff SUPPORTED_SPLIT_ARCHIVE_FILE_SUFFIXES_def)
    with Some known show ?thesis
      using False resolved_family_known [of suf] known_suffix_resolves [OF known]
      by (auto simp: suffix_family_path supported_aux)
  qed
qed

text \<open>A volume with a short number is a supported archive all the same; the comment on
  \<open>normalizeSplitSuffix\<close> promises any sequence of digits.\<close>

lemma short_volume_number_has_no_family:
  "isSupportedArchivePath ''/d/a.vol01.tzap'' \<and> resolveArchiveFormatFamily ''/d/a.vol01.tzap'' = UnknownFamily"
  unfolding supported_aux resolveArchiveFormatFamily_def resolve_suffix_eq by code_simp

text \<open>What can be filled for an archive, and what the preferences choose for it.\<close>

fun fillable :: "family_resolution \<Rightarrow> string list" where
  "fillable UnknownFamily = [''name'', ''kind'']"
| "fillable (KnownFamily f) = [''name'', ''kind''] @ nullish (map_of EXTRACT_AVAILABILITY f) []"

fun chosen :: "visibility_preferences \<Rightarrow> family_resolution \<Rightarrow> string \<Rightarrow> bool" where
  "chosen prefs UnknownFamily c = (c \<in> set (vp_visible prefs))"
| "chosen prefs (KnownFamily f) c =
     (case family_override prefs f of
        None \<Rightarrow> c \<in> set (vp_visible prefs)
      | Some ids \<Rightarrow> if c \<in> set COMMON_COLUMN_IDS then c \<in> set (vp_visible prefs)
                    else c \<in> set EXTRACT_ONLY_COLUMN_IDS \<and> c \<in> set ids)"

text \<open>C24: Resetting the columns of the archive that is open shows the name column first and then, in the canonical
  order, exactly the columns that archives of its format fill and that the preferences choose: the columns common to
  both workspaces by the global choice, the others by the override of the format where there is one. Archives
  of no known format show at most the name and the kind.\<close>

theorem reset_shows_fillable_columns:
  "map_option (map tc_id)
     (visibleColumns (archiveSettingsFromResolved
       (resolveExtractColumns \<lparr> xi_family = resolveExtractFamilyFromPath path, xi_prefs = prefs, xi_overrides = None \<rparr>)))
   = Some (filter (\<lambda>c. c = ''name'' \<or> (c \<in> set (fillable (resolveArchiveFormatFamily path))
                                      \<and> chosen prefs (resolveArchiveFormatFamily path) c))
        CANONICAL_COLUMN_ORDER)"
proof (cases "resolveArchiveFormatFamily path")
  case UnknownFamily
  let ?av = "[''name'', ''kind'']"
  let ?cur = "resolveWorkspaceVisibility (intersectVisibleColumns ?av (js_set (vp_visible prefs))) None (js_set ?av) ''name''"
  have av: "?av = filter (\<lambda>c. c \<in> {''name'', ''kind''}) CANONICAL_COLUMN_ORDER"
    by code_simp
  have cur: "set ?cur = insert ''name'' (set (vp_visible prefs) \<inter> set ?av)"
    using resolve_visibility_eq [of "intersectVisibleColumns ?av (js_set (vp_visible prefs))" None "js_set ?av"]
    by (auto simp: intersectVisibleColumns_def set_has_def)
  have "map_option (map tc_id) (visibleColumns \<lparr> cs_visible = ?cur, cs_order = ?av, cs_widths = [] \<rparr>)
      = Some (filter (\<lambda>c. c \<in> set ?cur) ?av)"
    using extract_ids cur by (intro shown_columns [OF av]) auto
  also have "filter (\<lambda>c. c \<in> set ?cur) ?av
      = filter (\<lambda>c. c = ''name'' \<or> (c \<in> {''name'', ''kind''} \<and> c \<in> set (vp_visible prefs))) CANONICAL_COLUMN_ORDER"
    unfolding cur by (subst av) (auto simp: filter_filter intro!: filter_cong)
  finally show ?thesis
    by (simp add: UnknownFamily resolveExtractFamilyFromPath_def resolveExtractColumns_def
      resolveUnknownExtractColumns_def archiveSettingsFromResolved_def getUnknownExtractAvailableColumns_def
      UNKNOWN_AVAILABILITY_def Let_def)
next
  case (KnownFamily f)
  let ?r = "resolveKnownExtractColumns f \<lparr> xi_family = KnownFamily f, xi_prefs = prefs, xi_overrides = None \<rparr>"
  let ?av = "filter (set_has (js_set (getExtractAvailableColumns f))) CANONICAL_COLUMN_ORDER"
  have order: "rc_canonicalOrder ?r = ?av"
    by (simp add: resolveKnownExtractColumns_def Let_def)
  have name: "''name'' \<in> set ?av"
    using canonical_order(1) by (simp add: set_has_def getExtractAvailableColumns_eq) (metis list.set_intros(1))
  have default: "set (rc_configuredDefault ?r) = {c \<in> set ?av. chosen prefs (KnownFamily f) c}"
    by (auto simp: resolveKnownExtractColumns_def Let_def intersectVisibleColumns_def set_has_def
      dest: scopes_disjoint split: option.splits if_splits)
  have cur: "set (rc_currentVisible ?r) = insert ''name'' (set (rc_configuredDefault ?r))"
    using resolve_visibility_eq [of "rc_configuredDefault ?r" None "js_set ?av"] name default
    by (auto simp: resolveKnownExtractColumns_def Let_def)
  have "map_option (map tc_id) (visibleColumns
      \<lparr> cs_visible = rc_currentVisible ?r, cs_order = ?av, cs_widths = [] \<rparr>)
      = Some (filter (\<lambda>c. c \<in> set (rc_currentVisible ?r)) ?av)"
    using available_applicable [of f] name cur default
    by (intro shown_columns [of _ "set_has (js_set (getExtractAvailableColumns f))"]) (auto simp: set_has_def)
  also have "filter (\<lambda>c. c \<in> set (rc_currentVisible ?r)) ?av
      = filter (\<lambda>c. c = ''name'' \<or> (c \<in> set (fillable (KnownFamily f)) \<and> chosen prefs (KnownFamily f) c))
          CANONICAL_COLUMN_ORDER"
    unfolding cur default filter_filter using name
    by (intro filter_cong refl) (auto simp: set_has_def getExtractAvailableColumns_eq)
  finally show ?thesis
    by (simp add: KnownFamily resolveExtractFamilyFromPath_def resolveExtractColumns_def
      archiveSettingsFromResolved_def order)
qed

end
