(* ===== verification/ContextMenus.thy ===== *)
theory ContextMenus
  imports Commands ColumnAvailability
begin

text \<open>
  Context menus: \<^verbatim>\<open>src/src/app/commands/contextMenuModel.ts\<close> (the items of every menu) and
  \<open>handleContextMenuAction\<close> of \<^verbatim>\<open>src/src/runtime/zmanagerRuntimeAdapter.ts\<close> (what an item does).
  The translator is a parameter: it takes a key and the values that fill its text.
\<close>

section \<open>Items\<close>

type_synonym translator = "string \<Rightarrow> (string \<times> (string + nat)) list \<Rightarrow> string"

record menu_payload =
  mu_action :: string
  mu_archivePath :: "string option"
  mu_columnId :: "string option"
  mu_compressMenuPath :: "string option"
  mu_entryPath :: "string option"
  mu_folderPath :: "string option"
  mu_sourcePath :: "string option"

definition action_only :: "string \<Rightarrow> menu_payload" where
  "action_only action = \<lparr> mu_action = action, mu_archivePath = None, mu_columnId = None, mu_compressMenuPath = None,
     mu_entryPath = None, mu_folderPath = None, mu_sourcePath = None \<rparr>"

record item_options =
  io_disabled :: bool
  io_disabledReason :: "string option"
  io_title :: "string option"

datatype context_item =
    ActionItem string menu_payload item_options
  | CheckboxItem string menu_payload bool item_options
  | CaptionItem string
  | SeparatorItem

definition no_options :: item_options where
  "no_options = \<lparr> io_disabled = False, io_disabledReason = None, io_title = None \<rparr>"

definition disabled_if :: "bool \<Rightarrow> item_options" where
  "disabled_if b = no_options\<lparr> io_disabled := b \<rparr>"

definition optionalItemOptions :: "item_options \<Rightarrow> item_options" where
  "optionalItemOptions options =
     \<lparr> io_disabled = io_disabled options,
       io_disabledReason = (if io_disabledReason options = Some [] then None else io_disabledReason options),
       io_title = (if io_title options = Some [] then None else io_title options) \<rparr>"

definition actionItem :: "string \<Rightarrow> menu_payload \<Rightarrow> item_options \<Rightarrow> context_item" where
  "actionItem label payload options = ActionItem label payload (optionalItemOptions options)"

definition checkboxItem :: "string \<Rightarrow> menu_payload \<Rightarrow> bool \<Rightarrow> item_options \<Rightarrow> context_item" where
  "checkboxItem label payload checked options = CheckboxItem label payload checked (optionalItemOptions options)"

definition entryPayload :: "string \<Rightarrow> string option \<Rightarrow> menu_payload" where
  "entryPayload action entryPath =
     (case entryPath of
        Some p \<Rightarrow> if p = [] then action_only action else (action_only action)\<lparr> mu_entryPath := Some p \<rparr>
      | None \<Rightarrow> action_only action)"

definition optionalFolderPayload :: "string \<Rightarrow> string option \<Rightarrow> menu_payload" where
  "optionalFolderPayload action folderPath = (action_only action)\<lparr> mu_folderPath := folderPath \<rparr>"

definition optionalSourcePayload :: "string \<Rightarrow> string \<Rightarrow> menu_payload" where
  "optionalSourcePayload action sourcePath =
     (if sourcePath = [] then action_only action else (action_only action)\<lparr> mu_sourcePath := Some sourcePath \<rparr>)"

definition middleTruncateMenuLabel :: "string \<Rightarrow> nat \<Rightarrow> string" where
  "middleTruncateMenuLabel label maxLength =
     (if length label \<le> maxLength then label
      else let headLength = max 12 (nat \<lceil>(rat_of_nat maxLength - 3) * (52 / 100)\<rceil>);
               tailLength = max 12 (maxLength - headLength - 3)
           in take headLength label @ ''...'' @ drop (length label - tailLength) label)"

section \<open>Menus\<close>

definition buildStartupContextMenuItems ::
    "translator \<Rightarrow> bool \<Rightarrow> string list \<Rightarrow> nat option \<Rightarrow> context_item list" where
  "buildStartupContextMenuItems t canPastePath recentArchiveHistory recentLimit =
     (let recentArchives = take (nullish recentLimit 4) recentArchiveHistory
      in [actionItem (t ''browse.emptyOpenAction'' []) (action_only ''open-archive'') no_options]
         @ (if canPastePath
            then [actionItem (t ''command.pastePath'' []) (action_only ''paste-archive-path'') no_options] else [])
         @ (if recentArchives = [] then []
            else [SeparatorItem, CaptionItem (t ''command.openRecent'' [])]
                 @ map (\<lambda>archivePath. actionItem (middleTruncateMenuLabel archivePath 46)
                         ((action_only ''open-recent-archive'')\<lparr> mu_archivePath := Some archivePath \<rparr>) no_options)
                     recentArchives))"

definition buildAddSourcesContextMenuItems :: "translator \<Rightarrow> context_item list" where
  "buildAddSourcesContextMenuItems t =
     [actionItem (t ''command.filesWithEllipsis'' []) (action_only ''add-source-files'') no_options,
      actionItem (t ''command.folderWithEllipsis'' []) (action_only ''add-source-folder'') no_options]"

text \<open>The items \<open>multiArchiveEntryContextMenuItems\<close> and both folder menus share, after their first.\<close>

definition entry_commands :: "translator \<Rightarrow> string \<Rightarrow> string option \<Rightarrow> bool \<Rightarrow> context_item list" where
  "entry_commands t extractKey entryPath hasArchive =
     [actionItem (t extractKey []) (entryPayload ''extract'' entryPath) no_options,
      actionItem (t ''command.extractHere'' []) (entryPayload ''extract-here'' entryPath) no_options,
      actionItem (t ''command.test'' []) (entryPayload ''test'' entryPath) (disabled_if (\<not> hasArchive)),
      actionItem (t ''command.properties'' []) (entryPayload ''info'' entryPath) no_options]"

definition buildArchiveFolderContextMenuItems ::
    "translator \<Rightarrow> string \<Rightarrow> string option \<Rightarrow> nat \<Rightarrow> bool \<Rightarrow> context_item list" where
  "buildArchiveFolderContextMenuItems t folderPath entryPath selectedCount hasArchive =
     (if 1 < selectedCount then entry_commands t ''extract.selectedAction'' entryPath hasArchive
      else actionItem (t ''command.openFolder'' [])
             ((action_only ''open-folder'')\<lparr> mu_folderPath := Some folderPath, mu_entryPath := entryPath \<rparr>) no_options
           # entry_commands t ''command.extractWithEllipsis'' entryPath hasArchive)"

record entry_menu_input =
  em_entryPath :: string
  em_canOpenInside :: bool
  em_canOpenOutside :: bool
  em_selectedCount :: nat
  em_selectedEntryCount :: jsnum
  em_hasArchive :: bool

definition singleArchiveEntryContextMenuItems :: "translator \<Rightarrow> entry_menu_input \<Rightarrow> context_item list" where
  "singleArchiveEntryContextMenuItems t inp =
     [actionItem (t (if em_canOpenInside inp then ''command.openFolder'' else ''command.view'') [])
        (entryPayload ''open-entry'' (Some (em_entryPath inp))) no_options]
     @ (if em_canOpenOutside inp
        then [actionItem (t ''command.openOutside'' []) (entryPayload ''open-outside'' (Some (em_entryPath inp)))
                no_options]
        else [])
     @ entry_commands t ''command.extractWithEllipsis'' (Some (em_entryPath inp)) (em_hasArchive inp)"

definition multiArchiveEntryContextMenuItems :: "translator \<Rightarrow> entry_menu_input \<Rightarrow> context_item list" where
  "multiArchiveEntryContextMenuItems t inp =
     entry_commands t ''extract.selectedAction'' (Some (em_entryPath inp)) (em_hasArchive inp)"

definition buildArchiveEntryContextMenuItems :: "translator \<Rightarrow> entry_menu_input \<Rightarrow> context_item list" where
  "buildArchiveEntryContextMenuItems t inp =
     (let selectedItems = (if em_selectedCount inp = 1 then singleArchiveEntryContextMenuItems t inp
                           else multiArchiveEntryContextMenuItems t inp)
      in selectedItems
         @ [SeparatorItem,
            actionItem (t ''command.selectByType'' [])
              (entryPayload ''select-by-type'' (Some (em_entryPath inp))) no_options,
            actionItem (t ''command.deselectByType'' [])
              (entryPayload ''deselect-by-type'' (Some (em_entryPath inp)))
              (disabled_if (em_selectedEntryCount inp = Fin 0))])"

definition column_label :: "translator \<Rightarrow> table_column \<Rightarrow> string" where
  "column_label t column = t (tc_labelKey column) []"

definition column_checkbox :: "translator \<Rightarrow> string list \<Rightarrow> table_column \<Rightarrow> context_item" where
  "column_checkbox t visibleColumnIds column =
     (let isNameColumn = (tc_id column = ''name'');
          tooltipKey = Option.bind (getColumnDefinition (tc_id column)) cd_tooltipKey;
          title = (case tooltipKey of Some key \<Rightarrow> if key = [] then None else Some (t key []) | None \<Rightarrow> None)
      in checkboxItem (column_label t column)
           ((action_only ''toggle-column'')\<lparr> mu_columnId := Some (tc_id column) \<rparr>)
           (isNameColumn \<or> tc_id column \<in> set visibleColumnIds)
           \<lparr> io_disabled = isNameColumn, io_disabledReason = None, io_title = title \<rparr>)"

definition column_items :: "translator \<Rightarrow> table_column list \<Rightarrow> string list \<Rightarrow> string list \<Rightarrow> context_item list" where
  "column_items t columns availableSet visibleColumnIds =
     [actionItem (t ''command.resetColumns'' []) (action_only ''reset-columns'') no_options, SeparatorItem,
      CaptionItem (t ''command.chooseColumns'' [])]
     @ map (column_checkbox t visibleColumnIds) (filter (\<lambda>column. set_has availableSet (tc_id column)) columns)"

definition available_for_path :: "string option \<Rightarrow> string list" where
  "available_for_path archivePath =
     (let familyRes = (case archivePath of
                         Some p \<Rightarrow> if p = [] then UnknownFamily else resolveArchiveFormatFamily p
                       | None \<Rightarrow> UnknownFamily)
      in case familyRes of
           KnownFamily family \<Rightarrow> getExtractAvailableColumns family
         | UnknownFamily \<Rightarrow> getUnknownExtractAvailableColumns)"

definition buildArchiveHeaderContextMenuItems ::
    "translator \<Rightarrow> column_settings \<Rightarrow> string option \<Rightarrow> string option \<Rightarrow> context_item list" where
  "buildArchiveHeaderContextMenuItems t tableColumnSettings selectedColumnId archivePath =
     (let availableSet = js_set (available_for_path archivePath);
          selectedColumn =
            (case selectedColumnId of
               Some cid \<Rightarrow> if cid \<noteq> [] \<and> set_has availableSet cid
                          then find (\<lambda>column. tc_id column = cid) ARCHIVE_TABLE_COLUMNS else None
             | None \<Rightarrow> None);
          normalizedSettings = normalizeColumnSettings (Some (as_partial tableColumnSettings))
      in (case selectedColumn of
            None \<Rightarrow> []
          | Some column \<Rightarrow>
              [CaptionItem (t ''detail.columnCaption'' [(''label'', Inl (column_label t column))]),
               actionItem (t ''command.sortAscending'' [])
                 ((action_only ''sort-ascending'')\<lparr> mu_columnId := Some (tc_id column) \<rparr>) no_options,
               actionItem (t ''command.sortDescending'' [])
                 ((action_only ''sort-descending'')\<lparr> mu_columnId := Some (tc_id column) \<rparr>) no_options,
               SeparatorItem])
         @ column_items t ARCHIVE_TABLE_COLUMNS availableSet (cs_visible normalizedSettings))"

definition buildCreateHeaderContextMenuItems ::
    "translator \<Rightarrow> column_settings \<Rightarrow> string option \<Rightarrow> string list option \<Rightarrow> context_item list" where
  "buildCreateHeaderContextMenuItems t tableColumnSettings selectedColumnId availableColumnIds =
     (let normalizedSettings = normalizeCreateColumnSettings (Some (as_partial tableColumnSettings));
          availableSet = (case availableColumnIds of
                            Some ids \<Rightarrow> js_set ids
                          | None \<Rightarrow> js_set (map tc_id CREATE_SOURCE_TABLE_COLUMNS));
          selectedColumn =
            find (\<lambda>column. Some (tc_id column) = selectedColumnId \<and> set_has availableSet (tc_id column))
              CREATE_SOURCE_TABLE_COLUMNS
      in (case selectedColumn of
            None \<Rightarrow> []
          | Some column \<Rightarrow>
              [CaptionItem (t ''detail.columnCaption'' [(''label'', Inl (column_label t column))]), SeparatorItem])
         @ column_items t CREATE_SOURCE_TABLE_COLUMNS availableSet (cs_visible normalizedSettings))"

record compress_menu_input =
  cn_rowPath :: string
  cn_folderPath :: "string option"
  cn_sourcePath :: string
  cn_contextRowCount :: nat
  cn_removableSourceCount :: nat
  cn_canInclude :: bool
  cn_canExclude :: bool
  cn_hasSources :: bool

definition counted_label :: "translator \<Rightarrow> nat \<Rightarrow> string \<Rightarrow> string \<Rightarrow> string" where
  "counted_label t n many one = (if 1 < n then t many [(''count'', Inr n)] else t one [])"

definition buildCompressRowContextMenuItems :: "translator \<Rightarrow> compress_menu_input \<Rightarrow> context_item list" where
  "buildCompressRowContextMenuItems t inp =
     (let includeLabel = counted_label t (cn_contextRowCount inp) ''command.includeSelectedInArchive''
                           ''command.includeInArchive'';
          excludeLabel = counted_label t (cn_contextRowCount inp) ''command.excludeSelectedFromArchive''
                           ''command.excludeFromArchive'';
          removeLabel = counted_label t (cn_removableSourceCount inp) ''command.removeSelectedSources''
                          ''command.removeSource''
      in [actionItem (t ''command.openFolder'' []) (optionalFolderPayload ''compress-open-folder'' (cn_folderPath inp))
            (disabled_if (cn_folderPath inp = None)),
          actionItem (t ''command.revealInFileManager'' []) (optionalSourcePayload ''reveal-source'' (cn_sourcePath inp))
            (disabled_if (cn_sourcePath inp = [])),
          SeparatorItem,
          actionItem includeLabel
            ((action_only ''include-compress-path'')\<lparr> mu_compressMenuPath := Some (cn_rowPath inp) \<rparr>)
            (disabled_if (\<not> cn_canInclude inp)),
          actionItem excludeLabel
            ((action_only ''exclude-compress-path'')\<lparr> mu_compressMenuPath := Some (cn_rowPath inp) \<rparr>)
            (disabled_if (\<not> cn_canExclude inp)),
          SeparatorItem]
         @ (if 0 < cn_removableSourceCount inp
            then [actionItem removeLabel (optionalSourcePayload ''remove-source'' (cn_sourcePath inp)) no_options] else [])
         @ [actionItem (t ''command.clearAllSources'' []) (action_only ''clear-sources'')
              (disabled_if (\<not> cn_hasSources inp))])"

definition buildSourceContextMenuItems :: "translator \<Rightarrow> string \<Rightarrow> context_item list" where
  "buildSourceContextMenuItems t sourcePath =
     [actionItem (t ''command.revealInFileManager'' [])
        ((action_only ''reveal-source'')\<lparr> mu_sourcePath := Some sourcePath \<rparr>) no_options,
      actionItem (t ''command.removeSource'' [])
        ((action_only ''remove-source'')\<lparr> mu_sourcePath := Some sourcePath \<rparr>) no_options,
      SeparatorItem,
      actionItem (t ''command.clearAllSources'' []) (action_only ''clear-sources'') no_options]"

section \<open>What an item does\<close>

text \<open>The calls that \<open>handleContextMenuAction\<close> makes; a command goes to \<open>runRoutedCommand\<close>.\<close>

datatype menu_effect =
    RunCommand string command_payload
  | AddSourceFiles | AddSourceFolder
  | NavigateToCompressFolder string
  | NavigateToFolder string
  | SelectAndView string
  | ToggleCreateColumn string | ResetCreateColumns
  | SortDirection string bool
  | ToggleArchiveColumn string | ResetArchiveColumns
  | RevealInFileManager string
  | SetCompressPathIncluded string bool
  | RemoveCreateSources string
  | ClearCreateSources

text \<open>
  The environment: the number of selected paths, whether the compress workspace is shown, and whether an entry is
  a directory. \<open>None\<close> is an action that nothing handles. The branch for \<open>open-entry\<close> is kept as it is written,
  although \<open>selectContextCommand\<close> has already claimed the action.
\<close>

definition handleContextMenuAction ::
    "jsnum \<Rightarrow> bool \<Rightarrow> (string \<Rightarrow> bool) \<Rightarrow> menu_payload \<Rightarrow> menu_effect option" where
  "handleContextMenuAction archiveSelectedCount compressMode isDirectory payload =
     (let action = mu_action payload;
          entryPath = nullish (mu_entryPath payload) [];
          sourcePath = nullish (mu_sourcePath payload) []
      in case selectContextCommand (Some action)
           \<lparr> xo_archivePath = mu_archivePath payload, xo_entryPath = Some entryPath,
             xo_extractMode = Some (if truthy_count (Some archiveSelectedCount) then Selection else WholeArchive) \<rparr> of
           Some (cid, p) \<Rightarrow> Some (RunCommand cid p)
         | None \<Rightarrow>
             if action = ''add-source-files'' then Some AddSourceFiles
             else if action = ''add-source-folder'' then Some AddSourceFolder
             else if action = ''compress-open-folder'' \<and> mu_folderPath payload \<noteq> None
             then Some (NavigateToCompressFolder (the (mu_folderPath payload)))
             else if action = ''open-folder'' \<and> mu_folderPath payload \<noteq> None
             then Some (NavigateToFolder (the (mu_folderPath payload)))
             else if action = ''open-entry'' then
               (if entryPath = [] then None
                else if isDirectory entryPath then Some (NavigateToFolder entryPath)
                else Some (SelectAndView entryPath))
             else if compressMode \<and> action = ''toggle-column'' \<and> truthy (mu_columnId payload)
             then Some (ToggleCreateColumn (the (mu_columnId payload)))
             else if compressMode \<and> action = ''reset-columns'' then Some ResetCreateColumns
             else if \<not> compressMode \<and> action = ''sort-ascending'' \<and> truthy (mu_columnId payload)
             then Some (SortDirection (the (mu_columnId payload)) True)
             else if \<not> compressMode \<and> action = ''sort-descending'' \<and> truthy (mu_columnId payload)
             then Some (SortDirection (the (mu_columnId payload)) False)
             else if \<not> compressMode \<and> action = ''toggle-column'' \<and> truthy (mu_columnId payload)
             then Some (ToggleArchiveColumn (the (mu_columnId payload)))
             else if \<not> compressMode \<and> action = ''reset-columns'' then Some ResetArchiveColumns
             else if action = ''reveal-source'' \<and> sourcePath \<noteq> [] then Some (RevealInFileManager sourcePath)
             else if action = ''include-compress-path'' \<or> action = ''exclude-compress-path'' then
               (if truthy (mu_compressMenuPath payload)
                then Some (SetCompressPathIncluded (the (mu_compressMenuPath payload))
                             (action = ''include-compress-path''))
                else None)
             else if action = ''remove-source'' then Some (RemoveCreateSources sourcePath)
             else if action = ''clear-sources'' then Some ClearCreateSources
             else None)"

text \<open>What resetting the columns computes: the settings, and for the archive a new sorting when its column is gone.\<close>

definition resetCreateColumnsAction :: "string list \<Rightarrow> visibility_preferences \<Rightarrow> column_settings" where
  "resetCreateColumnsAction compressCapabilitySet columnVisibilityPrefs =
     createSettingsFromResolved
       (resolveCompressColumns \<lparr> ci_capabilitySet = compressCapabilitySet, ci_prefs = columnVisibilityPrefs,
          ci_overrides = None \<rparr>)"

definition resetArchiveColumnsAction ::
    "string \<Rightarrow> visibility_preferences \<Rightarrow> string \<Rightarrow> bool \<Rightarrow> string \<Rightarrow> column_settings \<times> (string \<times> bool) option" where
  "resetArchiveColumnsAction archivePath columnVisibilityPrefs tableSortKey tableSortAscending currentSortKey =
     (let familyRes = (if archivePath = [] then UnknownFamily else resolveExtractFamilyFromPath archivePath);
          resolved = resolveExtractColumns \<lparr> xi_family = familyRes, xi_prefs = columnVisibilityPrefs, xi_overrides = None \<rparr>;
          fallback = resolveExtractSortKey (Some tableSortKey) tableSortAscending (rc_currentVisible resolved)
      in (archiveSettingsFromResolved resolved, if fst fallback \<noteq> currentSortKey then Some fallback else None))"

section \<open>Every enabled item does something\<close>

fun acts :: "jsnum \<Rightarrow> bool \<Rightarrow> (string \<Rightarrow> bool) \<Rightarrow> context_item \<Rightarrow> bool" where
  "acts n m d (ActionItem _ payload options) = (io_disabled options \<or> handleContextMenuAction n m d payload \<noteq> None)"
| "acts n m d (CheckboxItem _ payload _ options) = (io_disabled options \<or> handleContextMenuAction n m d payload \<noteq> None)"
| "acts n m d (CaptionItem _) = True"
| "acts n m d SeparatorItem = True"

lemma acts_action: "acts n m d (actionItem l p opt) = (io_disabled opt \<or> handleContextMenuAction n m d p \<noteq> None)"
  by (simp add: actionItem_def optionalItemOptions_def)

lemma acts_checkbox: "acts n m d (checkboxItem l p b opt) = (io_disabled opt \<or> handleContextMenuAction n m d p \<noteq> None)"
  by (simp add: checkboxItem_def optionalItemOptions_def)

lemma payload_simps [simp]:
  "mu_action (action_only a) = a" "mu_archivePath (action_only a) = None" "mu_columnId (action_only a) = None"
  "mu_compressMenuPath (action_only a) = None" "mu_folderPath (action_only a) = None"
  "mu_sourcePath (action_only a) = None" "mu_action (entryPayload a e) = a" "mu_folderPath (entryPayload a e) = None"
  "mu_action (optionalSourcePayload a s) = a" "mu_action (optionalFolderPayload a f) = a"
  "mu_folderPath (optionalFolderPayload a f) = f" "mu_sourcePath (optionalSourcePayload a s) = (if s = [] then None else Some s)"
  "io_disabled no_options = False" "io_disabled (disabled_if b) = b"
  by (simp_all add: action_only_def entryPayload_def optionalSourcePayload_def optionalFolderPayload_def no_options_def
    disabled_if_def split: option.split)

lemmas menu_handling = handleContextMenuAction_def Let_def selectContextCommand_def

lemma entry_commands_act: "list_all (acts n m d) (entry_commands t k e h)"
  by (simp add: entry_commands_def acts_action menu_handling)

lemma startup_acts:
  "[] \<notin> set recents \<Longrightarrow> list_all (acts n m d) (buildStartupContextMenuItems t paste recents limit)"
  by (auto simp: buildStartupContextMenuItems_def Let_def acts_action list_all_iff menu_handling split: option.split
    dest: in_set_takeD)

lemma sources_act: "list_all (acts n m d) (buildAddSourcesContextMenuItems t)"
  by (simp add: buildAddSourcesContextMenuItems_def acts_action menu_handling)

lemma folder_acts: "list_all (acts n m d) (buildArchiveFolderContextMenuItems t f e c h)"
  using entry_commands_act by (simp add: buildArchiveFolderContextMenuItems_def acts_action menu_handling)

lemma entry_acts: "list_all (acts n m d) (buildArchiveEntryContextMenuItems t e)"
  using entry_commands_act
  by (simp add: buildArchiveEntryContextMenuItems_def singleArchiveEntryContextMenuItems_def
    multiArchiveEntryContextMenuItems_def acts_action menu_handling)

lemma row_acts: "cn_rowPath row \<noteq> [] \<Longrightarrow> list_all (acts n m d) (buildCompressRowContextMenuItems t row)"
  by (auto simp: buildCompressRowContextMenuItems_def acts_action menu_handling)

lemma source_acts: "sourcePath \<noteq> [] \<Longrightarrow> list_all (acts n m d) (buildSourceContextMenuItems t sourcePath)"
  by (simp add: buildSourceContextMenuItems_def acts_action menu_handling)

lemma column_ids_nonempty:
  "list_all (\<lambda>c. tc_id c \<noteq> []) ARCHIVE_TABLE_COLUMNS" "list_all (\<lambda>c. tc_id c \<noteq> []) CREATE_SOURCE_TABLE_COLUMNS"
  by code_simp+

lemma column_items_act:
  "list_all (\<lambda>c. tc_id c \<noteq> []) columns \<Longrightarrow> list_all (acts n m d) (column_items t columns available visible)"
  by (auto simp: column_items_def column_checkbox_def acts_action acts_checkbox list_all_iff menu_handling)

lemma archive_header_acts: "list_all (acts n False d) (buildArchiveHeaderContextMenuItems t s sel path)"
proof -
  have "tc_id c \<noteq> []" if "find P ARCHIVE_TABLE_COLUMNS = Some c" for P c
    using that column_ids_nonempty(1) by (auto simp: find_Some_iff list_all_iff)
  then show ?thesis
    using column_items_act [OF column_ids_nonempty(1)]
    by (auto simp: buildArchiveHeaderContextMenuItems_def Let_def acts_action menu_handling split: option.split)
qed

lemma create_header_acts: "list_all (acts n True d) (buildCreateHeaderContextMenuItems t s sel available)"
  using column_items_act [OF column_ids_nonempty(2)]
  by (auto simp: buildCreateHeaderContextMenuItems_def Let_def split: option.split)

text \<open>No enabled item of any menu is ignored: choosing it runs a command or makes one call, whatever is selected; the
  header menus are those of their own workspace.\<close>

theorem enabled_items_act:
  assumes "[] \<notin> set recents" and "cn_rowPath row \<noteq> []" and "sourcePath \<noteq> []"
  shows "list_all (acts n m d)
      (buildStartupContextMenuItems t paste recents limit @ buildAddSourcesContextMenuItems t
       @ buildArchiveFolderContextMenuItems t folder entryPath selected hasArchive @ buildArchiveEntryContextMenuItems t entry
       @ buildCompressRowContextMenuItems t row @ buildSourceContextMenuItems t sourcePath)
    \<and> list_all (acts n False d) (buildArchiveHeaderContextMenuItems t s sel path)
    \<and> list_all (acts n True d) (buildCreateHeaderContextMenuItems t cs csel available)"
  using assms by (simp add: startup_acts sources_act folder_acts entry_acts row_acts source_acts archive_header_acts
    create_header_acts)

section \<open>The header menus and the settings\<close>

fun checkbox_of :: "context_item \<Rightarrow> (string \<times> bool) list" where
  "checkbox_of (CheckboxItem _ payload checked _) = [(nullish (mu_columnId payload) [], checked)]"
| "checkbox_of _ = []"

definition checkboxes :: "context_item list \<Rightarrow> (string \<times> bool) list" where
  "checkboxes items = concat (map checkbox_of items)"

lemma checkboxes_append [simp]: "checkboxes (xs @ ys) = checkboxes xs @ checkboxes ys"
  by (simp add: checkboxes_def)

lemma checkboxes_simps [simp]:
  "checkboxes [] = []" "checkboxes (actionItem l p opt # xs) = checkboxes xs" "checkboxes (SeparatorItem # xs) = checkboxes xs"
  "checkboxes (CaptionItem l # xs) = checkboxes xs"
  by (simp_all add: checkboxes_def actionItem_def)

lemma checkboxes_columns:
  "checkboxes (map (column_checkbox t visible) columns)
     = map (\<lambda>c. (tc_id c, tc_id c = ''name'' \<or> tc_id c \<in> set visible)) columns"
  by (induction columns) (simp_all add: checkboxes_def column_checkbox_def checkboxItem_def Let_def)

lemma checkboxes_items:
  "checkboxes (column_items t columns available visible)
     = map (\<lambda>c. (c, c = ''name'' \<or> c \<in> set visible)) (filter (set_has available) (map tc_id columns))"
  by (simp add: column_items_def checkboxes_columns filter_map comp_def)

lemma archive_header_checkboxes:
  "checkboxes (buildArchiveHeaderContextMenuItems t s sel path)
     = map (\<lambda>c. (c, c = ''name'' \<or> c \<in> set (cs_visible (normalizeColumnSettings (Some (as_partial s))))))
         (filter (set_has (js_set (available_for_path path))) EXTRACT_APPLICABLE_IDS)"
  by (simp add: buildArchiveHeaderContextMenuItems_def Let_def checkboxes_items archive_columns_ids split: option.split)

lemma create_header_checkboxes:
  "checkboxes (buildCreateHeaderContextMenuItems t s sel (Some ids))
     = map (\<lambda>c. (c, c = ''name'' \<or> c \<in> set (cs_visible (normalizeCreateColumnSettings (Some (as_partial s))))))
         (filter (set_has (js_set ids)) COMPRESS_APPLICABLE_IDS)"
  by (simp add: buildCreateHeaderContextMenuItems_def Let_def checkboxes_items create_columns_ids split: option.split)

lemma archive_toggle_visible:
  assumes "j \<in> set EXTRACT_APPLICABLE_IDS"
  shows "j \<in> set (cs_visible (normalizeColumnSettings (Some (as_partial (toggleColumnVisibility
      (normalizeColumnSettings (Some (as_partial s))) k)))))
    \<longleftrightarrow> (if j = k \<and> j \<noteq> ''name'' then j \<notin> set (cs_visible (normalizeColumnSettings (Some (as_partial s))))
        else j \<in> set (cs_visible (normalizeColumnSettings (Some (as_partial s)))))"
proof -
  let ?n = "normalizeColumnSettings (Some (as_partial s))"
  have n: "normal_settings ARCHIVE_TABLE_COLUMNS ?n"
    unfolding normalizeColumnSettings_def by (rule extract_columns.normalize_normal)
  have ids: "tc_id ` set ARCHIVE_TABLE_COLUMNS = set EXTRACT_APPLICABLE_IDS"
    using archive_columns_ids by (metis set_map)
  have "normal_settings ARCHIVE_TABLE_COLUMNS (toggleColumnVisibility ?n k)"
    unfolding toggleColumnVisibility_def by (rule extract_columns.toggle_normal)
  then have "normalizeColumnSettings (Some (as_partial (toggleColumnVisibility ?n k))) = toggleColumnVisibility ?n k"
    unfolding normalizeColumnSettings_def by (rule extract_columns.normalize_fixed)
  then show ?thesis
    using extract_columns.toggle_eq [OF n, of k] assms by (auto simp: toggleColumnVisibility_def ids)
qed

text \<open>The header menu of the archive table shows a check box for every column that the archive fills, ticked when the
  table shows it, and choosing one flips that box and no other; the box of the name column stays ticked.\<close>

theorem header_menu_toggles:
  "checkboxes (buildArchiveHeaderContextMenuItems t
      (toggleColumnVisibility (normalizeColumnSettings (Some (as_partial s))) k) sel path)
   = map (\<lambda>(c, b). (c, if c = k \<and> c \<noteq> ''name'' then \<not> b else b))
       (checkboxes (buildArchiveHeaderContextMenuItems t s sel path))"
  unfolding archive_header_checkboxes map_map
  by (rule map_cong [OF refl]) (auto simp: archive_toggle_visible)

text \<open>After a reset the archive is sorted by a column that its table shows.\<close>

lemma reset_sorts_by_shown_column:
  "case resetArchiveColumnsAction path prefs sortKey asc current of
     (settings, Some (key, _)) \<Rightarrow> key \<in> set (cs_visible settings)
   | (settings, None) \<Rightarrow> current \<in> set (cs_visible settings)"
proof -
  define r where "r = resolveExtractColumns
      \<lparr> xi_family = (if path = [] then UnknownFamily else resolveExtractFamilyFromPath path), xi_prefs = prefs, xi_overrides = None \<rparr>"
  have name: "''name'' \<in> set (rc_currentVisible r)"
  proof -
    have "''name'' \<in> set (rc_currentVisible (resolveKnownExtractColumns f inp))"
      "''name'' \<in> set (rc_currentVisible (resolveUnknownExtractColumns inp))" for f inp
      using resolve_visibility_eq canonical_order(1)
      by (simp_all add: resolveKnownExtractColumns_def resolveUnknownExtractColumns_def Let_def set_has_def
        getExtractAvailableColumns_eq getUnknownExtractAvailableColumns_def UNKNOWN_AVAILABILITY_def)
        (metis list.set_intros(1))
    then show ?thesis
      by (simp add: r_def resolveExtractColumns_def split: family_resolution.split)
  qed
  have "fst (resolveExtractSortKey (Some sortKey) asc (rc_currentVisible r)) \<in> set (rc_currentVisible r)"
    using name by (simp add: resolveExtractSortKey_def)
  then show ?thesis
    by (auto simp: resetArchiveColumnsAction_def Let_def r_def [symmetric] archiveSettingsFromResolved_def split: prod.split)
qed

text \<open>A label that is cut is at most as long as asked for.\<close>

lemma recent_label_fits: "length (middleTruncateMenuLabel label 46) \<le> 46"
proof -
  have "nat \<lceil>(rat_of_nat 46 - 3) * (52 / 100)\<rceil> = 23"
    by code_simp
  then show ?thesis
    by (auto simp: middleTruncateMenuLabel_def Let_def)
qed

end
