(* ===== verification/WindowGeometry.thy ===== *)
theory WindowGeometry
  imports JsonText
begin

text \<open>
  Where the main window was and where it is put back: \<^verbatim>\<open>src/src/app/windowGeometry.ts\<close> and the storing,
  restoring and revealing of \<^verbatim>\<open>src/src/desktop/windowController.ts\<close>. The window and the monitors are services
  of the host: what they answer is a parameter, and what is asked of the window is the list of calls returned.
  Numbers are exact, so dividing by a scale factor has no rounding error before it is rounded down.
\<close>

definition APP_MIN_WINDOW_WIDTH_PX :: rat where
  "APP_MIN_WINDOW_WIDTH_PX = 720"

definition APP_MIN_WINDOW_HEIGHT_PX :: rat where
  "APP_MIN_WINDOW_HEIGHT_PX = 480"

section \<open>Geometry\<close>

record window_geometry =
  wg_width :: "rat option"
  wg_height :: "rat option"
  wg_x :: "rat option"
  wg_y :: "rat option"
  wg_logical :: bool

record window_area =
  wa_x :: rat
  wa_y :: rat
  wa_width :: rat
  wa_height :: rat

record monitor_geometry =
  mo_area :: window_area
  mo_workArea :: "window_area option"
  mo_scaleFactor :: "rat option"

definition floor_px :: "rat \<Rightarrow> rat" where
  "floor_px q = of_int \<lfloor>q\<rfloor>"

text \<open>A member of a parsed value that is a finite number; the last member of a name counts.\<close>

fun finite_member :: "json option \<Rightarrow> string \<Rightarrow> rat option" where
  "finite_member (Some (JsonObject ms)) key =
     (case map_of (rev ms) key of
        Some (JsonNumber s) \<Rightarrow> (case json_number s of Fin q \<Rightarrow> Some q | _ \<Rightarrow> None)
      | _ \<Rightarrow> None)"
| "finite_member _ key = None"

fun logical_member :: "json option \<Rightarrow> bool" where
  "logical_member (Some (JsonObject ms)) = (map_of (rev ms) ''unit'' = Some (JsonString ''logical''))"
| "logical_member _ = False"

definition normalizeStoredWindowGeometry :: "json option \<Rightarrow> window_geometry option" where
  "normalizeStoredWindowGeometry v =
     (case (finite_member v ''width'', finite_member v ''height'') of
        (Some rawWidth, Some rawHeight) \<Rightarrow>
          Some \<lparr> wg_width = Some (max APP_MIN_WINDOW_WIDTH_PX (floor_px rawWidth)),
                 wg_height = Some (max APP_MIN_WINDOW_HEIGHT_PX (floor_px rawHeight)),
                 wg_x = map_option floor_px (finite_member v ''x''),
                 wg_y = map_option floor_px (finite_member v ''y''),
                 wg_logical = logical_member v \<rparr>
      | _ \<Rightarrow> None)"






section \<open>The window controller\<close>

text \<open>The storage of the browser: whether it can be read and written, and its items.\<close>

record window_storage =
  wx_items :: "(string \<times> string) list"
  wx_readable :: bool
  wx_writable :: bool

definition WINDOW_GEOMETRY_KEY :: string where
  "WINDOW_GEOMETRY_KEY = ''zmanager.windowGeometry''"

definition readJsonFromStorage :: "window_storage option \<Rightarrow> string \<Rightarrow> json option" where
  "readJsonFromStorage storage key =
     (case storage of
        None \<Rightarrow> None
      | Some st \<Rightarrow>
          if \<not> wx_readable st then None
          else (case map_of (wx_items st) key of
                  None \<Rightarrow> None
                | Some raw \<Rightarrow> if raw = [] then None else json_parse raw))"

definition saveJsonToStorage :: "window_storage option \<Rightarrow> string \<Rightarrow> json \<Rightarrow> window_storage option" where
  "saveJsonToStorage storage key v =
     map_option (\<lambda>st. if wx_writable st then st\<lparr> wx_items := AList.update key (stringify_json v) (wx_items st) \<rparr>
                      else st) storage"

definition loadWindowGeometryFromStorage :: "window_storage option \<Rightarrow> window_geometry option" where
  "loadWindowGeometryFromStorage storage =
     normalizeStoredWindowGeometry (readJsonFromStorage storage WINDOW_GEOMETRY_KEY)"

text \<open>\<open>JSON.stringify\<close> of a geometry; the text of a number that is not natural is a parameter.\<close>

definition number_json :: "(rat \<Rightarrow> string) \<Rightarrow> rat \<Rightarrow> json" where
  "number_json other q =
     JsonNumber (if 0 \<le> q \<and> q = of_int \<lfloor>q\<rfloor> then nat_string (nat \<lfloor>q\<rfloor>) else other q)"

definition geometry_json :: "(rat \<Rightarrow> string) \<Rightarrow> window_geometry \<Rightarrow> json" where
  "geometry_json other g =
     JsonObject (concat [case wg_width g of None \<Rightarrow> [] | Some q \<Rightarrow> [(''width'', number_json other q)],
                         case wg_height g of None \<Rightarrow> [] | Some q \<Rightarrow> [(''height'', number_json other q)],
                         case wg_x g of None \<Rightarrow> [] | Some q \<Rightarrow> [(''x'', number_json other q)],
                         case wg_y g of None \<Rightarrow> [] | Some q \<Rightarrow> [(''y'', number_json other q)],
                         if wg_logical g then [(''unit'', JsonString ''logical'')] else []])"

definition saveWindowGeometryToStorage ::
    "(rat \<Rightarrow> string) \<Rightarrow> window_storage option \<Rightarrow> window_geometry \<Rightarrow> window_storage option" where
  "saveWindowGeometryToStorage other storage geometry =
     (if wg_width geometry = None \<or> wg_height geometry = None then storage
      else saveJsonToStorage storage WINDOW_GEOMETRY_KEY (geometry_json other geometry))"


text \<open>The monitors are \<open>None\<close> when asking for them fails.\<close>

record window_host =
  wh_isDesktop :: bool
  wh_scaleFactor :: rat
  wh_monitors :: "monitor_geometry list option"
  wh_storage :: "window_storage option"




text \<open>The inner size and position of the window, in logical pixels, are the arguments.\<close>

definition persistCurrentWindowGeometry ::
    "(rat \<Rightarrow> string) \<Rightarrow> rat \<times> rat \<Rightarrow> rat \<times> rat \<Rightarrow> window_host \<Rightarrow> window_host" where
  "persistCurrentWindowGeometry other innerSize innerPosition host =
     (if \<not> wh_isDesktop host then host
      else host\<lparr> wh_storage := saveWindowGeometryToStorage other (wh_storage host)
             \<lparr> wg_width = Some (floor_px (fst innerSize)), wg_height = Some (floor_px (snd innerSize)),
               wg_x = Some (floor_px (fst innerPosition)), wg_y = Some (floor_px (snd innerPosition)), wg_logical = True \<rparr> \<rparr>)"

section \<open>Lemmas\<close>






text \<open>A geometry with natural numbers below \<open>2 ^ 1023\<close> and at least the smallest size is loaded as it was saved.\<close>

lemma natural_number_json: "number_json other (of_nat n) = JsonNumber (nat_string n)"
  by (simp add: number_json_def)

lemma geometry_round_trip:
  assumes g: "g = \<lparr> wg_width = Some (of_nat w), wg_height = Some (of_nat h), wg_x = Some (of_nat x),
      wg_y = Some (of_nat y), wg_logical = True \<rparr>"
    and least: "720 \<le> w" "480 \<le> h" and small: "w < 2 ^ 1023" "h < 2 ^ 1023" "x < 2 ^ 1023" "y < 2 ^ 1023"
    and works: "wx_readable st" "wx_writable st"
  shows "loadWindowGeometryFromStorage (saveWindowGeometryToStorage other (Some st) g) = Some g"
proof -
  let ?j = "JsonObject [(''width'', JsonNumber (nat_string w)), (''height'', JsonNumber (nat_string h)),
      (''x'', JsonNumber (nat_string x)), (''y'', JsonNumber (nat_string y)), (''unit'', JsonString ''logical'')]"
  have j: "geometry_json other g = ?j"
    by (simp add: geometry_json_def g natural_number_json)
  have parsed: "json_parse (stringify_json ?j) = Some ?j"
    by (rule json_parse_stringified) auto
  have "stringify_json ?j \<noteq> []"
    by simp
  then have "readJsonFromStorage (saveWindowGeometryToStorage other (Some st) g) WINDOW_GEOMETRY_KEY = Some ?j"
    using works parsed unfolding saveWindowGeometryToStorage_def j saveJsonToStorage_def
    by (simp add: g readJsonFromStorage_def update_conv' del: stringify_json.simps)
  then show ?thesis
    using small least
    by (simp add: loadWindowGeometryFromStorage_def normalizeStoredWindowGeometry_def json_number_natural g floor_px_def
      APP_MIN_WINDOW_WIDTH_PX_def APP_MIN_WINDOW_HEIGHT_PX_def max_def)
qed

section \<open>Properties\<close>


end
