(* ===== verification/NativeInbound.thy ===== *)
theory NativeInbound
  imports JsCollections
begin

text \<open>
  Events that the native host hands to the application: \<^verbatim>\<open>src/src/app/controllers/nativeInboundController.ts\<close>
  with the event types of \<^verbatim>\<open>src/src/api/generated/nativeInboundEvents.generated.ts\<close>. The deliveries are chained, so
  they are processed one after the other; whether the handler, the acknowledgement and the reveal of a delivery
  succeed is its \<open>outcome\<close>. Diagnostics are left out.
\<close>

section \<open>Events\<close>

definition NATIVE_INBOUND_EVENT_VERSION :: int where
  "NATIVE_INBOUND_EVENT_VERSION = 1"

record hosted_auth_payload =
  ha_state :: string
  ha_result :: string
  ha_errorCode :: "string option"
  ha_handoffCode :: "string option"
  ha_callbackUrl :: "string option"

text \<open>A request of the shell: its kind and its paths.\<close>

type_synonym shell_request = "string \<times> string list"

datatype inbound_kind =
    OpenPaths "string list"
  | ShellActionRequest shell_request
  | HostedAuthCallback hosted_auth_payload
  | ReopenApplication

record inbound_event =
  ie_version :: int
  ie_eventId :: string
  ie_idempotencyKey :: "string option"
  ie_kind :: inbound_kind

section \<open>One delivery\<close>

datatype inbound_call =
    HandleQuickAction shell_request string "string option"
  | HandleHostedAuthCallback hosted_auth_payload
  | RevealApplication

text \<open>What happened: a call was made for an event and succeeded or failed, an acknowledgement was sent, a failure was
  reported.\<close>

datatype inbound_log =
    Handled string inbound_call
  | Failed string inbound_call
  | Acknowledged string
  | ReportedFailure

record outcome =
  oc_handled :: bool
  oc_acknowledged :: bool

definition MAX_COMPLETED_NATIVE_EVENT_IDS :: nat where
  "MAX_COMPLETED_NATIVE_EVENT_IDS = 512"

lemma set_delete_oldest: "MAX_COMPLETED_NATIVE_EVENT_IDS < length ids \<Longrightarrow> length (set_delete (hd ids) ids) < length ids"
  by (cases ids) (auto simp: set_delete_def less_Suc_eq_le)

text \<open>The loop of \<open>rememberCompleted\<close>.\<close>

function forget_oldest :: "string list \<Rightarrow> string list" where
  "forget_oldest ids =
     (if MAX_COMPLETED_NATIVE_EVENT_IDS < length ids then forget_oldest (set_delete (hd ids) ids) else ids)"
  by auto

termination forget_oldest
  by (relation "measure length") (auto intro: set_delete_oldest)

declare forget_oldest.simps [simp del]

definition rememberCompleted :: "string \<Rightarrow> string list \<Rightarrow> string list" where
  "rememberCompleted eventId completed = forget_oldest (set_add eventId completed)"

fun call_of :: "inbound_event \<Rightarrow> inbound_call" where
  "call_of e =
     (case ie_kind e of
        OpenPaths paths \<Rightarrow> HandleQuickAction (''open'', paths) (ie_eventId e) (ie_idempotencyKey e)
      | ShellActionRequest request \<Rightarrow> HandleQuickAction request (ie_eventId e) (ie_idempotencyKey e)
      | HostedAuthCallback payload \<Rightarrow> HandleHostedAuthCallback payload
      | ReopenApplication \<Rightarrow> RevealApplication)"

text \<open>\<open>process\<close>: the calls made, the completed ids, and whether it returns rather than throws.\<close>

definition process :: "outcome \<Rightarrow> inbound_event \<Rightarrow> string list \<Rightarrow> inbound_log list \<times> string list \<times> bool" where
  "process oc event completed =
     (if ie_version event \<noteq> NATIVE_INBOUND_EVENT_VERSION then ([], completed, False)
      else if set_has completed (ie_eventId event)
      then ([Acknowledged (ie_eventId event)], completed, oc_acknowledged oc)
      else if \<not> oc_handled oc then ([Failed (ie_eventId event) (call_of event)], completed, False)
      else ([Handled (ie_eventId event) (call_of event), Acknowledged (ie_eventId event)],
            rememberCompleted (ie_eventId event) completed, oc_acknowledged oc))"

text \<open>A link of \<open>deliveryChain\<close>, with its \<open>catch\<close>.\<close>

definition deliver :: "outcome \<times> inbound_event \<Rightarrow> inbound_log list \<times> string list \<Rightarrow> inbound_log list \<times> string list" where
  "deliver d st =
     (case process (fst d) (snd d) (snd st) of
        (calls, completed, returned) \<Rightarrow> (fst st @ calls @ (if returned then [] else [ReportedFailure]), completed))"

definition deliver_all :: "(outcome \<times> inbound_event) list \<Rightarrow> inbound_log list \<times> string list" where
  "deliver_all ds = fold deliver ds ([], [])"

text \<open>The calls of \<open>initialize\<close>: the listener is registered before the host is told that the window is ready.\<close>

datatype inbound_startup_call = Listen | MarkFrontendReady string

definition initialize :: "bool \<Rightarrow> bool \<Rightarrow> string option \<Rightarrow> inbound_startup_call list" where
  "initialize isDesktop listenSucceeds label =
     (if \<not> isDesktop then []
      else Listen # (if listenSucceeds then [MarkFrontendReady (nullish label ''main'')] else []))"

section \<open>Lemmas\<close>

fun handled_id :: "inbound_log \<Rightarrow> string list" where
  "handled_id (Handled i _) = [i]"
| "handled_id _ = []"

fun acknowledged_id :: "inbound_log \<Rightarrow> string list" where
  "acknowledged_id (Acknowledged i) = [i]"
| "acknowledged_id _ = []"

definition handled_ids :: "inbound_log list \<Rightarrow> string list" where
  "handled_ids l = concat (map handled_id l)"

definition acknowledged_ids :: "inbound_log list \<Rightarrow> string list" where
  "acknowledged_ids l = concat (map acknowledged_id l)"

lemma ids_append [simp]:
  "handled_ids (a @ b) = handled_ids a @ handled_ids b" "acknowledged_ids (a @ b) = acknowledged_ids a @ acknowledged_ids b"
  by (simp_all add: handled_ids_def acknowledged_ids_def)

lemma ids_simps [simp]:
  "handled_ids [] = []" "handled_ids (x # l) = handled_id x @ handled_ids l"
  "acknowledged_ids [] = []" "acknowledged_ids (x # l) = acknowledged_id x @ acknowledged_ids l"
  by (simp_all add: handled_ids_def acknowledged_ids_def)

text \<open>Adding an id that is not there keeps the newest ones.\<close>

definition newest :: "'a list \<Rightarrow> 'a list" where
  "newest xs = drop (length xs - MAX_COMPLETED_NATIVE_EVENT_IDS) xs"

lemma set_delete_hd_distinct: "distinct (x # xs) \<Longrightarrow> set_delete x (x # xs) = xs"
  by (auto simp: set_delete_def filter_id_conv)

lemma remember_newest:
  assumes "distinct (newest hs)" and "i \<notin> set (newest hs)"
  shows "rememberCompleted i (newest hs) = newest (hs @ [i])"
proof -
  have len: "length (newest hs) \<le> 512"
    by (simp add: newest_def MAX_COMPLETED_NATIVE_EVENT_IDS_def)
  have add: "set_add i (newest hs) = newest hs @ [i]"
    using assms(2) by (simp add: set_add_def)
  show ?thesis
  proof (cases "length hs < 512")
    case True
    then have "newest hs = hs" and "newest (hs @ [i]) = hs @ [i]"
      by (simp_all add: newest_def MAX_COMPLETED_NATIVE_EVENT_IDS_def)
    with add True show ?thesis
      by (simp add: rememberCompleted_def forget_oldest.simps [of "hs @ [i]"] MAX_COMPLETED_NATIVE_EVENT_IDS_def)
  next
    case False
    then have l: "length (newest hs) = 512"
      by (simp add: newest_def MAX_COMPLETED_NATIVE_EVENT_IDS_def)
    then obtain x xs where x: "newest hs = x # xs"
      by (cases "newest hs") auto
    have "Suc (length hs) - 512 = Suc (length hs - 512)"
      using False by simp
    then have "newest (hs @ [i]) = tl (newest hs) @ [i]"
      using False by (simp add: newest_def MAX_COMPLETED_NATIVE_EVENT_IDS_def tl_drop drop_Suc)
    moreover have "set_delete x (x # xs @ [i]) = xs @ [i]"
      using assms x by (intro set_delete_hd_distinct) auto
    moreover have "length xs = 511"
      using l x by simp
    moreover have "rememberCompleted i (newest hs) = forget_oldest (x # xs @ [i])"
      by (simp add: rememberCompleted_def add) (simp add: x)
    ultimately show ?thesis
      by (simp add: x forget_oldest.simps [of "x # xs @ [i]"] forget_oldest.simps [of "xs @ [i]"]
        MAX_COMPLETED_NATIVE_EVENT_IDS_def)
  qed
qed

text \<open>What holds after every delivery: the completed ids are the newest ones handled, no two of them the same, and no
  id is handled again while it is one of them.\<close>

definition delivery_inv :: "inbound_log list \<times> string list \<Rightarrow> bool" where
  "delivery_inv st \<longleftrightarrow>
     snd st = newest (handled_ids (fst st))
     \<and> (\<forall>k. distinct (take 513 (drop k (handled_ids (fst st)))))
     \<and> set (acknowledged_ids (fst st)) \<subseteq> set (handled_ids (fst st))"

lemma window_snoc:
  assumes "\<And>k. distinct (take 513 (drop k hs))" and "i \<notin> set (newest hs)"
  shows "distinct (take 513 (drop k (hs @ [i])))"
proof (cases "length hs - 512 \<le> k")
  case True
  have "set (drop k hs) \<subseteq> set (newest hs)"
    using True by (auto simp: newest_def MAX_COMPLETED_NATIVE_EVENT_IDS_def intro: set_drop_subset_set_drop [THEN subsetD])
  moreover have "distinct (drop k hs)"
    using assms(1) [of k] True by (simp add: take_all)
  ultimately have "distinct (drop k hs @ [i])"
    using assms(2) by auto
  then have "distinct (drop k (hs @ [i]))"
    by (cases "k \<le> length hs") auto
  then show ?thesis
    by (rule distinct_take)
next
  case False
  then have k: "k < length hs - 512"
    by simp
  then have "take 513 (drop k hs @ [i]) = take 513 (drop k hs)"
    by (simp add: less_diff_conv)
  moreover have "drop k (hs @ [i]) = drop k hs @ [i]"
    using k by simp
  ultimately show ?thesis
    using assms(1) [of k] by (simp only:)
qed

lemma deliver_inv: "delivery_inv st \<Longrightarrow> delivery_inv (deliver d st)"
proof -
  assume inv: "delivery_inv st"
  obtain oc e where d: "d = (oc, e)"
    by (cases d)
  let ?hs = "handled_ids (fst st)"
  have "distinct (take 513 (drop (length ?hs - 512) ?hs))"
    using inv unfolding delivery_inv_def by blast
  moreover have "take 513 (drop (length ?hs - 512) ?hs) = newest ?hs"
    by (simp add: newest_def MAX_COMPLETED_NATIVE_EVENT_IDS_def)
  ultimately have "distinct (newest ?hs)"
    by simp
  note d' = this
  show ?thesis
  proof (cases "ie_version e = NATIVE_INBOUND_EVENT_VERSION \<and> ie_eventId e \<notin> set (newest ?hs) \<and> oc_handled oc")
    case True
    then have "handled_ids (fst (deliver d st)) = ?hs @ [ie_eventId e]"
      and "snd (deliver d st) = rememberCompleted (ie_eventId e) (newest ?hs)"
      and "set (acknowledged_ids (fst (deliver d st))) = insert (ie_eventId e) (set (acknowledged_ids (fst st)))"
      using inv by (simp_all add: deliver_def process_def d set_has_def delivery_inv_def)
    with True show ?thesis
      using inv remember_newest [OF d', of "ie_eventId e"] window_snoc [of ?hs "ie_eventId e"]
      unfolding delivery_inv_def by auto
  next
    case False
    then have "handled_ids (fst (deliver d st)) = ?hs" and "snd (deliver d st) = snd st"
      and "set (acknowledged_ids (fst (deliver d st))) \<subseteq> set (acknowledged_ids (fst st)) \<union> set (newest ?hs)"
      using inv by (auto simp: deliver_def process_def d set_has_def delivery_inv_def split: if_splits)
    moreover have "set (newest ?hs) \<subseteq> set ?hs"
      by (auto simp: newest_def dest: in_set_dropD)
    ultimately show ?thesis
      using inv unfolding delivery_inv_def by auto
  qed
qed

lemma deliver_all_inv: "delivery_inv (deliver_all ds)"
proof -
  have "delivery_inv st \<Longrightarrow> delivery_inv (fold deliver ds st)" for st
    by (induction ds arbitrary: st) (simp_all add: deliver_inv)
  then show ?thesis
    by (simp add: deliver_all_def delivery_inv_def newest_def)
qed

section \<open>Properties\<close>

text \<open>C36: Whatever events the host hands over, however often it repeats them and whatever fails, an event is not handled
  again before 512 others have been handled after it, only events that were handled are acknowledged, and the ids
  kept for this are the newest 512.\<close>

theorem inbound_events_are_handled_once:
  "distinct (take 513 (drop k (handled_ids (fst (deliver_all ds)))))
   \<and> set (acknowledged_ids (fst (deliver_all ds))) \<subseteq> set (handled_ids (fst (deliver_all ds)))
   \<and> snd (deliver_all ds) = newest (handled_ids (fst (deliver_all ds)))"
  using deliver_all_inv [of ds] by (simp add: delivery_inv_def)

text \<open>An event that is repeated after it was handled is acknowledged again, so that a lost acknowledgement is made up for;
  one whose handler failed is tried again.\<close>

lemma repeated_event_is_acknowledged:
  "ie_version e = 1 \<Longrightarrow> ie_eventId e \<in> set completed
     \<Longrightarrow> process oc e completed = ([Acknowledged (ie_eventId e)], completed, oc_acknowledged oc)"
  by (simp add: process_def set_has_def NATIVE_INBOUND_EVENT_VERSION_def)

lemma failed_event_is_tried_again:
  "ie_version e = 1 \<Longrightarrow> ie_eventId e \<notin> set completed \<Longrightarrow> \<not> oc_handled oc
     \<Longrightarrow> fst (snd (process oc e completed)) = completed"
  by (simp add: process_def set_has_def NATIVE_INBOUND_EVENT_VERSION_def)

end
