(* ===== verification/ShareQueue.thy ===== *)
theory ShareQueue
  imports Jobs
begin

text \<open>
  The queue of shares as the window knows it: \<^verbatim>\<open>src/src/app/controllers/shareQueueController.ts\<close>. The backend
  keeps the queue; the controller reads it again after every hint and every change it asked for, one read after the
  other, and keeps only answers with a newer revision. A step is an event that the controller reacts to: a call of
  one of its operations, or the settling of a request. The items are not looked into; their type is a parameter.
\<close>

section \<open>Revisions\<close>

definition revision :: "string \<Rightarrow> int" where
  "revision v = nullish (js_bigint v) 0"

section \<open>State\<close>

record 'i share_registry =
  sr_queueRevision :: string
  sr_items :: "'i list"

definition EMPTY_SNAPSHOT :: "'i share_registry" where
  "EMPTY_SNAPSHOT = \<lparr> sr_queueRevision = ''0'', sr_items = [] \<rparr>"

text \<open>The operations that change a share; a key names the operation and the share.\<close>

datatype share_operation = SetReceiver | StartShare bool | SkipShare | CancelShare | RemoveShare

fun mutation_key :: "share_operation \<Rightarrow> string \<Rightarrow> string" where
  "mutation_key SetReceiver shareId = ''setReceiver:'' @ shareId"
| "mutation_key (StartShare _) shareId = ''start:'' @ shareId"
| "mutation_key SkipShare shareId = ''skip:'' @ shareId"
| "mutation_key CancelShare shareId = ''cancel:'' @ shareId"
| "mutation_key RemoveShare shareId = ''remove:'' @ shareId"

text \<open>Who waits for a link of the chain of reads: nobody, a mutation with its result, or an enqueuing.\<close>

datatype load_owner = ForHint | ForMutation string bool | ForEnqueue nat

text \<open>What is asked of the backend and of the window, and how the callers are answered.\<close>

datatype 'i share_effect =
    ReadQueue
  | AskBackend share_operation string
  | AskEnqueue nat
  | Publish "'i share_registry"
  | ReportError
  | MutationEnds string bool
  | EnqueueEnds nat bool
  | RevealQueue nat

text \<open>The first of the loads is the one whose read was asked for. A mutation in the map runs until its own load ended;
  \<open>sq_running\<close> are those whose operation has not settled yet.\<close>

record 'i share_queue =
  sq_snapshot :: "'i share_registry"
  sq_loads :: "load_owner list"
  sq_mutations :: "string list"
  sq_running :: "string list"
  sq_enqueuing :: "nat list"
  sq_enqueued :: nat
  sq_effects :: "'i share_effect list"

definition createShareQueueController :: "'i share_queue" where
  "createShareQueueController =
     \<lparr> sq_snapshot = EMPTY_SNAPSHOT, sq_loads = [], sq_mutations = [], sq_running = [], sq_enqueuing = [],
       sq_enqueued = 0, sq_effects = [] \<rparr>"

definition effect :: "'i share_effect \<Rightarrow> 'i share_queue \<Rightarrow> 'i share_queue" where
  "effect e q = q\<lparr> sq_effects := sq_effects q @ [e] \<rparr>"

section \<open>Operations\<close>

definition share_apply :: "'i share_registry \<Rightarrow> 'i share_queue \<Rightarrow> 'i share_queue" where
  "share_apply next q =
     (if revision (sr_queueRevision next) \<le> revision (sr_queueRevision (sq_snapshot q)) then q
      else effect (Publish next) (q\<lparr> sq_snapshot := next \<rparr>))"

text \<open>\<open>load\<close> adds a link to the chain; the link reads when the ones before it have ended.\<close>

definition share_load :: "load_owner \<Rightarrow> 'i share_queue \<Rightarrow> 'i share_queue" where
  "share_load owner q =
     (let q1 = q\<lparr> sq_loads := sq_loads q @ [owner] \<rparr>
      in if sq_loads q = [] then effect ReadQueue q1 else q1)"

definition runMutation :: "share_operation \<Rightarrow> string \<Rightarrow> 'i share_queue \<Rightarrow> 'i share_queue" where
  "runMutation op shareId q =
     (let key = mutation_key op shareId
      in if set_has (sq_mutations q) key then q
         else effect (AskBackend op shareId)
                (q\<lparr> sq_mutations := sq_mutations q @ [key], sq_running := sq_running q @ [key] \<rparr>))"

text \<open>The operation of a mutation settles; either way the queue is read, and the result waits for that.\<close>

definition operation_settled :: "string \<Rightarrow> bool \<Rightarrow> 'i share_queue \<Rightarrow> 'i share_queue" where
  "operation_settled key ok q =
     (if set_has (sq_running q) key
      then share_load (ForMutation key ok) (q\<lparr> sq_running := set_delete key (sq_running q) \<rparr>)
      else q)"

text \<open>An enqueuing is numbered. It is revealed after the queue was read; a failure ends it at once.\<close>

definition enqueue :: "'i share_queue \<Rightarrow> 'i share_queue" where
  "enqueue q =
     (let n = sq_enqueued q
      in effect (AskEnqueue n) (q\<lparr> sq_enqueued := Suc n, sq_enqueuing := sq_enqueuing q @ [n] \<rparr>))"

definition enqueue_settled :: "nat \<Rightarrow> bool \<Rightarrow> 'i share_queue \<Rightarrow> 'i share_queue" where
  "enqueue_settled n ok q =
     (if \<not> set_has (sq_enqueuing q) n then q
      else let q1 = q\<lparr> sq_enqueuing := set_delete n (sq_enqueuing q) \<rparr>
           in if ok then share_load (ForEnqueue n) q1 else effect (EnqueueEnds n False) q1)"

text \<open>What the end of a link sets going for the one that waited for it.\<close>

fun load_ended :: "load_owner \<Rightarrow> 'i share_queue \<Rightarrow> 'i share_queue" where
  "load_ended ForHint q = q"
| "load_ended (ForMutation key ok) q =
     effect (MutationEnds key ok) (q\<lparr> sq_mutations := set_delete key (sq_mutations q) \<rparr>)"
| "load_ended (ForEnqueue n) q = effect (RevealQueue n) q"

text \<open>The read of the first link settles, with a registry or with an error. The one that waited for it goes on; then the next link
  reads.\<close>

definition read_settled :: "'i share_registry option \<Rightarrow> 'i share_queue \<Rightarrow> 'i share_queue" where
  "read_settled answer q =
     (case sq_loads q of
        [] \<Rightarrow> q
      | owner # rest \<Rightarrow>
          (let q1 = (case answer of Some registry \<Rightarrow> share_apply registry q | None \<Rightarrow> effect ReportError q);
               q2 = load_ended owner (q1\<lparr> sq_loads := rest \<rparr>)
           in if rest = [] then q2 else effect ReadQueue q2))"

datatype 'i share_event =
    QueueHint
  | Mutate share_operation string
  | OperationSettled string bool
  | Enqueue
  | EnqueueSettled nat bool
  | ReadSettled "'i share_registry option"

fun share_step :: "'i share_event \<Rightarrow> 'i share_queue \<Rightarrow> 'i share_queue" where
  "share_step QueueHint q = share_load ForHint q"
| "share_step (Mutate op shareId) q = runMutation op shareId q"
| "share_step (OperationSettled key ok) q = operation_settled key ok q"
| "share_step Enqueue q = enqueue q"
| "share_step (EnqueueSettled n ok) q = enqueue_settled n ok q"
| "share_step (ReadSettled answer) q = read_settled answer q"

definition share_run :: "'i share_event list \<Rightarrow> 'i share_queue" where
  "share_run es = fold share_step es createShareQueueController"

section \<open>Observations\<close>

fun published :: "'i share_effect list \<Rightarrow> 'i share_registry list" where
  "published [] = []"
| "published (Publish r # es) = r # published es"
| "published (_ # es) = published es"

fun load_key :: "load_owner \<Rightarrow> string list" where
  "load_key (ForMutation key _) = [key]"
| "load_key _ = []"

definition keys_read_for :: "'i share_queue \<Rightarrow> string list" where
  "keys_read_for q = concat (map load_key (sq_loads q))"

text \<open>How often the operation behind a key was asked for and has ended.\<close>

definition asked :: "string \<Rightarrow> 'i share_queue \<Rightarrow> nat" where
  "asked key q = length (filter (\<lambda>e. case e of AskBackend op s \<Rightarrow> mutation_key op s = key | _ \<Rightarrow> False) (sq_effects q))"

definition ended :: "string \<Rightarrow> 'i share_queue \<Rightarrow> nat" where
  "ended key q = length (filter (\<lambda>e. case e of MutationEnds k _ \<Rightarrow> k = key | _ \<Rightarrow> False) (sq_effects q))"

definition reads_asked :: "'i share_queue \<Rightarrow> nat" where
  "reads_asked q = length (filter (\<lambda>e. case e of ReadQueue \<Rightarrow> True | _ \<Rightarrow> False) (sq_effects q))"

lemma published_append [simp]: "published (a @ b) = published a @ published b"
  by (induction a rule: published.induct) simp_all

lemma effect_simps [simp]:
  "sq_snapshot (effect e q) = sq_snapshot q" "sq_loads (effect e q) = sq_loads q"
  "sq_mutations (effect e q) = sq_mutations q" "sq_running (effect e q) = sq_running q"
  "sq_effects (effect e q) = sq_effects q @ [e]" "keys_read_for (effect e q) = keys_read_for q"
  by (simp_all add: effect_def keys_read_for_def)

lemma counts_effect [simp]:
  "asked key (effect e q) = asked key q + (case e of AskBackend op s \<Rightarrow> if mutation_key op s = key then 1 else 0 | _ \<Rightarrow> 0)"
  "ended key (effect e q) = ended key q + (case e of MutationEnds k _ \<Rightarrow> if k = key then 1 else 0 | _ \<Rightarrow> 0)"
  by (auto simp: asked_def ended_def split: share_effect.split)

lemma counts_update [simp]:
  "asked key (q\<lparr> sq_snapshot := a \<rparr>) = asked key q" "ended key (q\<lparr> sq_snapshot := a \<rparr>) = ended key q"
  "asked key (q\<lparr> sq_loads := l \<rparr>) = asked key q" "ended key (q\<lparr> sq_loads := l \<rparr>) = ended key q"
  "asked key (q\<lparr> sq_mutations := m \<rparr>) = asked key q" "ended key (q\<lparr> sq_mutations := m \<rparr>) = ended key q"
  "asked key (q\<lparr> sq_running := m \<rparr>) = asked key q" "ended key (q\<lparr> sq_running := m \<rparr>) = ended key q"
  "asked key (q\<lparr> sq_enqueuing := n \<rparr>) = asked key q" "ended key (q\<lparr> sq_enqueuing := n \<rparr>) = ended key q"
  "asked key (q\<lparr> sq_enqueued := k \<rparr>) = asked key q" "ended key (q\<lparr> sq_enqueued := k \<rparr>) = ended key q"
  by (simp_all add: asked_def ended_def)

lemma keys_update [simp]:
  "keys_read_for (q\<lparr> sq_snapshot := a \<rparr>) = keys_read_for q" "keys_read_for (q\<lparr> sq_mutations := m \<rparr>) = keys_read_for q"
  "keys_read_for (q\<lparr> sq_running := m \<rparr>) = keys_read_for q" "keys_read_for (q\<lparr> sq_enqueuing := n \<rparr>) = keys_read_for q"
  "keys_read_for (q\<lparr> sq_enqueued := k \<rparr>) = keys_read_for q"
  "keys_read_for (q\<lparr> sq_loads := l \<rparr>) = concat (map load_key l)"
  by (simp_all add: keys_read_for_def)

lemma share_load_facts [simp]:
  "sq_snapshot (share_load ow q) = sq_snapshot q" "sq_mutations (share_load ow q) = sq_mutations q"
  "sq_running (share_load ow q) = sq_running q" "keys_read_for (share_load ow q) = keys_read_for q @ load_key ow"
  "asked key (share_load ow q) = asked key q" "ended key (share_load ow q) = ended key q"
  "published (sq_effects (share_load ow q)) = published (sq_effects q)"
  by (auto simp: share_load_def Let_def keys_read_for_def)

lemma sorted_below_last:
  "sorted_wrt (\<lambda>a b. f a < (f b :: int)) xs \<Longrightarrow> x \<in> set xs \<Longrightarrow> f x \<le> f (last xs)"
  by (induction xs) (auto split: if_splits intro: less_imp_le dest: last_in_set)

definition revisions_ok :: "'i share_queue \<Rightarrow> bool" where
  "revisions_ok q \<longleftrightarrow>
     sq_snapshot q = last (EMPTY_SNAPSHOT # published (sq_effects q))
     \<and> sorted_wrt (\<lambda>a b. revision (sr_queueRevision a) < revision (sr_queueRevision b))
         (EMPTY_SNAPSHOT # published (sq_effects q))"

definition mutations_ok :: "'i share_queue \<Rightarrow> bool" where
  "mutations_ok q \<longleftrightarrow>
     distinct (sq_mutations q) \<and> distinct (sq_running q @ keys_read_for q)
     \<and> set (sq_mutations q) = set (sq_running q @ keys_read_for q)
     \<and> (\<forall>key. asked key q = ended key q + (if key \<in> set (sq_mutations q) then 1 else 0))"

lemma apply_revisions: "revisions_ok q \<Longrightarrow> revisions_ok (share_apply r q)"
proof -
  assume ok: "revisions_ok q"
  let ?old = "EMPTY_SNAPSHOT # published (sq_effects q)"
  have "revision (sr_queueRevision x) < revision (sr_queueRevision r)"
    if "x \<in> set ?old" "revision (sr_queueRevision (last ?old)) < revision (sr_queueRevision r)" for x
    using sorted_below_last [of "\<lambda>a. revision (sr_queueRevision a)" ?old x] ok that
    unfolding revisions_ok_def by linarith
  then show ?thesis
    using ok by (auto simp: revisions_ok_def share_apply_def not_le sorted_wrt_append)
qed

lemma apply_mutations: "mutations_ok q \<Longrightarrow> mutations_ok (share_apply r q)"
  by (simp add: mutations_ok_def share_apply_def)

lemma apply_simps [simp]:
  "sq_loads (share_apply r q) = sq_loads q" "sq_mutations (share_apply r q) = sq_mutations q"
  "sq_running (share_apply r q) = sq_running q" "asked key (share_apply r q) = asked key q"
  "ended key (share_apply r q) = ended key q"
  by (simp_all add: share_apply_def)

lemma revisions_effect: "revisions_ok q \<Longrightarrow> published [e] = [] \<Longrightarrow> revisions_ok (effect e q)"
  by (simp add: revisions_ok_def)

lemma revisions_update [simp]:
  "revisions_ok (q\<lparr> sq_loads := l \<rparr>) = revisions_ok q" "revisions_ok (q\<lparr> sq_mutations := m \<rparr>) = revisions_ok q"
  by (simp_all add: revisions_ok_def)

lemma revisions_load_ended: "revisions_ok q \<Longrightarrow> revisions_ok (load_ended ow q)"
  by (cases ow) (simp_all add: revisions_effect)

lemma step_revisions: "revisions_ok q \<Longrightarrow> revisions_ok (share_step e q)"
proof (cases e)
  case (ReadSettled answer)
  assume ok: "revisions_ok q"
  have q1: "revisions_ok (case answer of Some registry \<Rightarrow> share_apply registry q | None \<Rightarrow> effect ReportError q)"
    using ok by (cases answer) (simp_all add: apply_revisions revisions_effect)
  show ?thesis
  proof (cases "sq_loads q")
    case Nil
    then show ?thesis
      using ok by (simp add: ReadSettled read_settled_def)
  next
    case (Cons ow rest)
    then show ?thesis
      unfolding ReadSettled share_step.simps read_settled_def Let_def Cons list.case
      by (cases "rest = []") (simp_all add: q1 revisions_load_ended revisions_effect)
  qed
qed (auto simp: revisions_ok_def runMutation_def operation_settled_def enqueue_def enqueue_settled_def Let_def)

lemma step_mutations: "mutations_ok q \<Longrightarrow> mutations_ok (share_step e q)"
proof (cases e)
  case (ReadSettled answer)
  assume ok: "mutations_ok q"
  define q1 where "q1 = (case answer of Some registry \<Rightarrow> share_apply registry q | None \<Rightarrow> effect ReportError q)"
  have q1: "sq_loads q1 = sq_loads q" "sq_mutations q1 = sq_mutations q" "sq_running q1 = sq_running q"
      "\<And>key. asked key q1 = asked key q" "\<And>key. ended key q1 = ended key q"
    by (simp_all add: q1_def split: option.split)
  show ?thesis
  proof (cases "sq_loads q")
    case Nil
    then show ?thesis
      using ok by (simp add: ReadSettled read_settled_def)
  next
    case (Cons ow rest)
    have keys: "keys_read_for q = load_key ow @ concat (map load_key rest)"
      by (simp add: keys_read_for_def Cons)
    show ?thesis
      unfolding ReadSettled share_step.simps read_settled_def Cons Let_def list.case q1_def [symmetric]
      using ok by (cases ow) (auto simp: mutations_ok_def q1 keys)
  qed
next
  case (OperationSettled key ok)
  assume "mutations_ok q"
  then show ?thesis
    by (auto simp: OperationSettled operation_settled_def mutations_ok_def set_has_def)
next
  case (Mutate op shareId)
  assume ok: "mutations_ok q"
  have "keys_read_for q = keys_read_for q" and "mutation_key op shareId \<notin> set (sq_mutations q)
      \<Longrightarrow> mutation_key op shareId \<notin> set (sq_running q) \<union> set (keys_read_for q)"
    using ok by (auto simp: mutations_ok_def)
  then show ?thesis
    using ok unfolding Mutate share_step.simps runMutation_def Let_def set_has_def
    by (cases "mutation_key op shareId \<in> set (sq_mutations q)") (simp_all add: mutations_ok_def)
qed (simp_all add: mutations_ok_def enqueue_def enqueue_settled_def Let_def)

lemma run_inv: "revisions_ok (share_run es) \<and> mutations_ok (share_run es)"
proof -
  have rev: "revisions_ok q \<Longrightarrow> revisions_ok (fold share_step es q)" for q :: "'a share_queue"
    by (induction es arbitrary: q) (auto intro: step_revisions)
  have mut: "mutations_ok q \<Longrightarrow> mutations_ok (fold share_step es q)" for q :: "'a share_queue"
    by (induction es arbitrary: q) (auto intro: step_mutations)
  show ?thesis
    unfolding share_run_def
    by (intro conjI rev mut)
      (simp_all add: createShareQueueController_def revisions_ok_def mutations_ok_def keys_read_for_def asked_def ended_def)
qed

lemma load_ended_loads [simp]: "sq_loads (load_ended ow q) = sq_loads q" "sq_running (load_ended ow q) = sq_running q"
  by (cases ow; simp)+

lemma reads_empty_loads:
  "sq_loads (fold (\<lambda>a. share_step (ReadSettled a)) (map answer (sq_loads q)) q) = []
   \<and> sq_running (fold (\<lambda>a. share_step (ReadSettled a)) (map answer (sq_loads q)) q) = sq_running q"
proof (induction "sq_loads q" arbitrary: q)
  case (Cons ow rest)
  let ?q = "read_settled (answer ow) q"
  have "sq_loads ?q = rest" "sq_running ?q = sq_running q"
    unfolding read_settled_def Cons(2) [symmetric] by (simp_all add: Let_def split: option.split)
  then show ?case
    using Cons(1) [of ?q] by (simp add: Cons(2) [symmetric])
qed simp

lemma fold_reads_mutations:
  "mutations_ok q \<Longrightarrow> mutations_ok (fold (\<lambda>a. share_step (ReadSettled a)) as q)"
  by (induction as arbitrary: q) (auto intro: step_mutations simp del: share_step.simps)

section \<open>Properties\<close>

text \<open>C37: However hints, changes and answers interleave and fail: the registries shown have strictly growing revisions and
  the last of them is the one that is there; an operation on a share is not asked for again before it has ended; and
  once the reads that are waited for are answered, whatever they answer, every change whose operation has settled has
  ended.\<close>

theorem shares_are_shown_in_order:
  "(let q = share_run es
    in sorted_wrt (\<lambda>a b. revision (sr_queueRevision a) < revision (sr_queueRevision b))
         (EMPTY_SNAPSHOT # published (sq_effects q))
       \<and> sq_snapshot q = last (EMPTY_SNAPSHOT # published (sq_effects q))
       \<and> asked key q \<le> Suc (ended key q)
       \<and> (let q' = fold (\<lambda>a. share_step (ReadSettled a)) (map answer (sq_loads q)) q
          in sq_loads q' = [] \<and> asked key q' = ended key q' + (if key \<in> set (sq_running q) then 1 else 0)))"
proof -
  let ?q = "share_run es"
  let ?q' = "fold (\<lambda>a. share_step (ReadSettled a)) (map answer (sq_loads ?q)) ?q"
  have r: "revisions_ok ?q" and m: "mutations_ok ?q"
    using run_inv by blast+
  have m': "mutations_ok ?q'"
    using m by (rule fold_reads_mutations)
  have l: "sq_loads ?q' = []" "sq_running ?q' = sq_running ?q"
    using reads_empty_loads [of answer ?q] by blast+
  then have "keys_read_for ?q' = []"
    by (simp add: keys_read_for_def)
  then have "set (sq_mutations ?q') = set (sq_running ?q)"
    using m' l(2) by (simp add: mutations_ok_def)
  then have "asked key ?q' = ended key ?q' + (if key \<in> set (sq_running ?q) then 1 else 0)"
    using m' unfolding mutations_ok_def by auto
  moreover have "asked key ?q \<le> Suc (ended key ?q)"
    using m unfolding mutations_ok_def by auto
  ultimately show ?thesis
    using r l(1) unfolding revisions_ok_def Let_def by blast
qed

end
