(* ===== verification/TaskWindows.thy ===== *)
theory TaskWindows
  imports Jobs ExtractionPolicy
begin

text \<open>
  The windows of tasks: \<^verbatim>\<open>src/src/desktop/disposableTaskWindowManager.ts\<close> (one window for each job, and what its
  events do) and \<^verbatim>\<open>src/src/app/controllers/disposableTaskRecoveryController.ts\<close> (trying a job again with a
  password). A window is the number of its creation; its events arrive in any order, each listener once.
  Diagnostics are left out.
\<close>

section \<open>The window manager\<close>

definition job_kind_name :: "job_kind \<Rightarrow> string" where
  "job_kind_name k =
     (case k of
        JkZipCreate \<Rightarrow> ''zipCreate'' | JkZipExtract \<Rightarrow> ''zipExtract'' | JkSevenZCreate \<Rightarrow> ''sevenZCreate''
      | JkSevenZExtract \<Rightarrow> ''sevenZExtract'' | JkRarExtract \<Rightarrow> ''rarExtract'' | JkTarGzCreate \<Rightarrow> ''tarGzCreate''
      | JkTarZstdCreate \<Rightarrow> ''tarZstdCreate'' | JkTarZstdExtract \<Rightarrow> ''tarZstdExtract'' | JkTzapCreate \<Rightarrow> ''tzapCreate''
      | JkTzapExtract \<Rightarrow> ''tzapExtract'' | JkAppleArchiveCreate \<Rightarrow> ''appleArchiveCreate''
      | JkAppleArchiveExtract \<Rightarrow> ''appleArchiveExtract'' | JkArchiveExtract \<Rightarrow> ''archiveExtract''
      | JkRawStreamExtract \<Rightarrow> ''rawStreamExtract'' | JkTestArchive \<Rightarrow> ''testArchive'')"

definition job_status_name :: "job_status \<Rightarrow> string" where
  "job_status_name s =
     (case s of JsQueued \<Rightarrow> ''queued'' | JsRunning \<Rightarrow> ''running'' | JsPaused \<Rightarrow> ''paused''
      | JsCancelling \<Rightarrow> ''cancelling'' | JsCompleted \<Rightarrow> ''completed'' | JsFailed \<Rightarrow> ''failed''
      | JsCancelled \<Rightarrow> ''cancelled'')"

definition label_char :: "char \<Rightarrow> char" where
  "label_char c =
     (let n = of_char c :: nat
      in if 97 \<le> n \<and> n \<le> 122 \<or> 65 \<le> n \<and> n \<le> 90 \<or> 48 \<le> n \<and> n \<le> 57 \<or> n = 45 then c else CHR 0x2D)"

definition disposableTaskWindowLabel :: "string \<Rightarrow> string" where
  "disposableTaskWindowLabel jobId = ''task-'' @ map label_char jobId"

text \<open>The query of the address; its encoding is that of \<open>URLSearchParams\<close>.\<close>

definition disposableTaskWindowUrl :: "((string \<times> string) list \<Rightarrow> string) \<Rightarrow> start_job_response \<Rightarrow> string" where
  "disposableTaskWindowUrl encode job =
     ''index.html?'' @ encode [(''surface'', ''disposable-task''), (''jobId'', sj_jobId job),
        (''kind'', job_kind_name (sj_kind job)), (''status'', job_status_name (sj_status job)),
        (''createdAt'', sj_createdAt job)]"

definition disposableTaskWindowTitle :: "start_job_response \<Rightarrow> string" where
  "disposableTaskWindowTitle job =
     (if sj_kind job = JkTestArchive then ''Testing with ZManager''
      else if suffix ''Create'' (job_kind_name (sj_kind job)) then ''Compressing with ZManager''
      else ''Extracting with ZManager'')"

record task_window_options =
  tz_label :: string
  tz_url :: string
  tz_title :: string
  tz_size :: "nat \<times> nat"
  tz_minSize :: "nat \<times> nat"

datatype window_listener = WhenReady | WhenDestroyed | WhenError

datatype window_effect =
    CreateWindow nat task_window_options
  | FocusExisting nat
  | WindowReady string
  | WindowClosed string
  | AllClosed
  | PresentationFailed start_job_response

text \<open>\<open>tm_pending\<close>: the listeners that have not fired; \<open>tm_jobs\<close>: the job for which a window was made.\<close>

record task_windows =
  tm_windows :: "(string \<times> nat) list"
  tm_created :: nat
  tm_jobs :: "(nat \<times> start_job_response) list"
  tm_pending :: "(nat \<times> window_listener) list"
  tm_effects :: "window_effect list"

definition no_windows :: task_windows where
  "no_windows = \<lparr> tm_windows = [], tm_created = 0, tm_jobs = [], tm_pending = [], tm_effects = [] \<rparr>"

definition log_window :: "window_effect \<Rightarrow> task_windows \<Rightarrow> task_windows" where
  "log_window e s = s\<lparr> tm_effects := tm_effects s @ [e] \<rparr>"

definition task_options_of :: "((string \<times> string) list \<Rightarrow> string) \<Rightarrow> start_job_response \<Rightarrow> task_window_options" where
  "task_options_of encode job =
     \<lparr> tz_label = disposableTaskWindowLabel (sj_jobId job), tz_url = disposableTaskWindowUrl encode job,
       tz_title = disposableTaskWindowTitle job, tz_size = (620, 460), tz_minSize = (520, 380) \<rparr>"

text \<open>The synchronous part of \<open>open\<close>; the result says whether a window was made.\<close>

definition open_task_window ::
    "((string \<times> string) list \<Rightarrow> string) \<Rightarrow> start_job_response \<Rightarrow> task_windows \<Rightarrow> task_windows \<times> bool" where
  "open_task_window encode job s =
     (case map_of (tm_windows s) (sj_jobId job) of
        Some existing \<Rightarrow> (log_window (FocusExisting existing) s, False)
      | None \<Rightarrow>
          (let n = tm_created s
           in (log_window (CreateWindow n (task_options_of encode job))
                 (s\<lparr> tm_windows := tm_windows s @ [(sj_jobId job, n)], tm_created := Suc n,
                     tm_jobs := (n, job) # tm_jobs s,
                     tm_pending := tm_pending s @ [(n, WhenReady), (n, WhenDestroyed), (n, WhenError)] \<rparr>), True)))"

definition removeWindow :: "nat \<Rightarrow> start_job_response \<Rightarrow> task_windows \<Rightarrow> task_windows" where
  "removeWindow n job s =
     (if map_of (tm_windows s) (sj_jobId job) \<noteq> Some n then s
      else let s1 = log_window (WindowClosed (sj_jobId job))
                      (s\<lparr> tm_windows := filter (\<lambda>w. fst w \<noteq> sj_jobId job) (tm_windows s) \<rparr>)
           in if tm_windows s1 = [] then log_window AllClosed s1 else s1)"

fun listener_fires :: "window_listener \<Rightarrow> nat \<Rightarrow> start_job_response \<Rightarrow> task_windows \<Rightarrow> task_windows" where
  "listener_fires WhenReady n job s = log_window (WindowReady (sj_jobId job)) s"
| "listener_fires WhenDestroyed n job s = removeWindow n job s"
| "listener_fires WhenError n job s = log_window (PresentationFailed job) (removeWindow n job s)"

datatype window_event =
    OpenTaskWindow start_job_response
  | WindowEvent nat window_listener
  | ListeningFails nat

definition window_step :: "((string \<times> string) list \<Rightarrow> string) \<Rightarrow> window_event \<Rightarrow> task_windows \<Rightarrow> task_windows" where
  "window_step encode e s =
     (case e of
        OpenTaskWindow job \<Rightarrow> fst (open_task_window encode job s)
      | WindowEvent n l \<Rightarrow>
          (case map_of (tm_jobs s) n of
             Some job \<Rightarrow>
               if (n, l) \<in> set (tm_pending s)
               then listener_fires l n job (s\<lparr> tm_pending := filter (\<lambda>p. p \<noteq> (n, l)) (tm_pending s) \<rparr>) else s
           | None \<Rightarrow> s)
      | ListeningFails n \<Rightarrow> (case map_of (tm_jobs s) n of Some job \<Rightarrow> removeWindow n job s | None \<Rightarrow> s))"

definition windows_after :: "((string \<times> string) list \<Rightarrow> string) \<Rightarrow> window_event list \<Rightarrow> task_windows" where
  "windows_after encode es = fold (window_step encode) es no_windows"

definition getOpenJobIds :: "task_windows \<Rightarrow> string list" where
  "getOpenJobIds s = map fst (tm_windows s)"

definition hasOpenWindows :: "task_windows \<Rightarrow> bool" where
  "hasOpenWindows s \<longleftrightarrow> 0 < length (tm_windows s)"

section \<open>Trying again with a password\<close>

datatype recovery_result = Started | AcceptedWithoutPresentation | RecoveryCancelled | Unavailable | RecoveryFailed

datatype recovery_effect =
    AskPassword string
  | AskDrag string "string list" bool "string list" rat string
  | AskTest string "string list option" string
  | AskExtract start_extract_request "job_locale option"
  | HandOff start_job_response
  | ReportFailure string

text \<open>
  The environment: what the user enters, whether a drag can be started, whether the start is accepted, and whether the
  hand-over of the job succeeds. A failure carries the message of the command error, if it is one.
\<close>

record recovery_environment =
  rv_password :: "string option"
  rv_canDrag :: bool
  rv_start :: "string option + start_job_response"
  rv_handoff :: "string option option"

definition entries_or_none :: "string list \<Rightarrow> string list option" where
  "entries_or_none entryPaths = (if entryPaths = [] then None else Some entryPaths)"

definition retry_extract_request :: "retry_extract \<Rightarrow> string \<Rightarrow> start_extract_request" where
  "retry_extract_request d password =
     \<lparr> sx_archivePath = re_archivePath d, sx_destinationPath = re_destinationPath d, sx_overwrite = re_overwrite d,
       sx_strategy = resolveDestinationCollisionStrategy
         \<lparr> cx_isDisposableTask = Some True, cx_isQuickAction = None, cx_replaceExisting = None,
           cx_overwrite = Some (re_overwrite d), cx_strategy = Some (re_destinationCollisionStrategy d) \<rparr>,
       sx_entryPaths = entries_or_none (re_entryPaths d), sx_selectAll = None, sx_excludedEntryPaths = None,
       sx_stripComponents = Fin (re_stripComponents d),
       sx_tzapRestorePolicy = nullish (re_tzapRestorePolicy d) RpPortable, sx_tzapAllowDegraded = True,
       sx_tzapAllowAbsoluteSymlinks = nullish (re_tzapAllowAbsoluteSymlinks d) False,
       sx_ignoreSymlinks = nullish (re_ignoreSymlinks d) False, sx_recipientKeyId = None, sx_password = Some password \<rparr>"

fun retry_call :: "job_retry \<Rightarrow> string \<Rightarrow> recovery_effect" where
  "retry_call (RetryDrag d) password =
     AskDrag (rd_archivePath d) (rd_entryPaths d) (rd_selectAll d) (rd_excludedEntryPaths d) (rd_stripComponents d) password"
| "retry_call (RetryTest d) password = AskTest (rt_archivePath d) (entries_or_none (rt_entryPaths d)) password"
| "retry_call (RetryExtract d) password = AskExtract (retry_extract_request d password) (re_locale d)"

fun is_drag :: "job_retry \<Rightarrow> bool" where
  "is_drag (RetryDrag _) = True"
| "is_drag _ = False"

definition retryWithPassword ::
    "recovery_environment \<Rightarrow> job_retry option \<Rightarrow> string option \<Rightarrow> recovery_effect list \<times> recovery_result" where
  "retryWithPassword env descriptor failureCode =
     (case descriptor of
        None \<Rightarrow> ([], Unavailable)
      | Some d \<Rightarrow>
          if \<not> isPasswordErrorCode failureCode then ([], Unavailable)
          else let asked = [AskPassword (nullish failureCode [])]
               in case rv_password env of
                    None \<Rightarrow> (asked, RecoveryCancelled)
                  | Some password \<Rightarrow>
                      if password = [] then (asked, RecoveryCancelled)
                      else if is_drag d \<and> \<not> rv_canDrag env then (asked, Unavailable)
                      else let called = asked @ [retry_call d password]
                           in case rv_start env of
                                Inl commandMessage \<Rightarrow>
                                  (called @ [ReportFailure (nullish commandMessage ''Unable to retry this task.'')],
                                   RecoveryFailed)
                              | Inr job \<Rightarrow>
                                  if is_drag d then (called, Started)
                                  else (case rv_handoff env of
                                          None \<Rightarrow> (called @ [HandOff job], Started)
                                        | Some commandMessage \<Rightarrow>
                                            (called @ [HandOff job, ReportFailure (nullish commandMessage
                                               ''The replacement Job started, but its task window could not be opened.'')],
                                             AcceptedWithoutPresentation)))"

section \<open>Lemmas\<close>

text \<open>The windows of a job that were made and that are gone, from the log.\<close>

definition made :: "string \<Rightarrow> task_windows \<Rightarrow> nat" where
  "made jobId s = length (filter (\<lambda>(n, j). sj_jobId j = jobId) (tm_jobs s))"

definition tasks_gone :: "string \<Rightarrow> task_windows \<Rightarrow> nat" where
  "tasks_gone jobId s = length (filter (\<lambda>e. e = WindowClosed jobId) (tm_effects s))"

definition windows_ok :: "task_windows \<Rightarrow> bool" where
  "windows_ok s \<longleftrightarrow>
     distinct (map fst (tm_windows s))
     \<and> (\<forall>w \<in> set (tm_windows s). snd w < tm_created s \<and> (\<exists>j. map_of (tm_jobs s) (snd w) = Some j \<and> sj_jobId j = fst w))
     \<and> (\<forall>x \<in> set (tm_jobs s). fst x < tm_created s)
     \<and> (\<forall>jobId. made jobId s = tasks_gone jobId s + (if jobId \<in> fst ` set (tm_windows s) then 1 else 0))"

lemma log_window_simps [simp]:
  "tm_windows (log_window e s) = tm_windows s" "tm_created (log_window e s) = tm_created s"
  "tm_jobs (log_window e s) = tm_jobs s" "tm_pending (log_window e s) = tm_pending s"
  "tm_effects (log_window e s) = tm_effects s @ [e]"
  "made i (log_window e s) = made i s" "tasks_gone i (log_window e s) = tasks_gone i s + (if e = WindowClosed i then 1 else 0)"
  by (simp_all add: log_window_def made_def tasks_gone_def)

lemma ok_log: "\<forall>i. e \<noteq> WindowClosed i \<Longrightarrow> windows_ok (log_window e s) = windows_ok s"
  by (simp add: windows_ok_def)

lemma ok_pending [simp]: "windows_ok (s\<lparr> tm_pending := p \<rparr>) = windows_ok s"
  by (simp add: windows_ok_def made_def tasks_gone_def)

lemma made_gone_update [simp]:
  "made i (s\<lparr> tm_windows := w \<rparr>) = made i s" "tasks_gone i (s\<lparr> tm_windows := w \<rparr>) = tasks_gone i s"
  by (simp_all add: made_def tasks_gone_def)

lemma remove_ok: "windows_ok s \<Longrightarrow> windows_ok (removeWindow n job s)"
proof -
  assume ok: "windows_ok s"
  let ?id = "sj_jobId job"
  define s1 where "s1 = log_window (WindowClosed ?id) (s\<lparr> tm_windows := filter (\<lambda>w. fst w \<noteq> ?id) (tm_windows s) \<rparr>)"
  have "windows_ok s1" if "map_of (tm_windows s) ?id = Some n"
  proof -
    have "?id \<in> fst ` set (tm_windows s)"
      using that by (metis domI dom_map_of_conv_image_fst)
    then show ?thesis
      using ok by (auto simp: windows_ok_def s1_def distinct_map_filter)
  qed
  then show ?thesis
    using ok by (auto simp: removeWindow_def s1_def [symmetric] Let_def ok_log)
qed

lemma open_ok: "windows_ok s \<Longrightarrow> windows_ok (fst (open_task_window encode job s))"
proof (cases "map_of (tm_windows s) (sj_jobId job)")
  case None
  assume ok: "windows_ok s"
  have new: "sj_jobId job \<notin> fst ` set (tm_windows s)"
    using None by (simp add: map_of_eq_None_iff)
  let ?s = "fst (open_task_window encode job s)"
  have f: "tm_windows ?s = tm_windows s @ [(sj_jobId job, tm_created s)]" "tm_created ?s = Suc (tm_created s)"
      "tm_jobs ?s = (tm_created s, job) # tm_jobs s" "\<And>i. tasks_gone i ?s = tasks_gone i s"
      "\<And>i. made i ?s = made i s + (if sj_jobId job = i then 1 else 0)"
    by (simp_all add: open_task_window_def None Let_def) (simp_all add: tasks_gone_def made_def)
  show ?thesis
    using ok new unfolding windows_ok_def f by auto
qed (simp add: open_task_window_def ok_log)

lemma fires_ok: "windows_ok s \<Longrightarrow> windows_ok (listener_fires l n job s)"
  by (cases l) (simp_all add: remove_ok ok_log)

lemma step_ok: "windows_ok s \<Longrightarrow> windows_ok (window_step encode e s)"
  by (cases e) (auto simp: window_step_def open_ok remove_ok fires_ok split: option.split)

text \<open>The effects that make or close windows.\<close>

fun opens_or_closes :: "window_effect \<Rightarrow> bool" where
  "opens_or_closes (CreateWindow _ _) = True"
| "opens_or_closes (WindowClosed _) = True"
| "opens_or_closes AllClosed = True"
| "opens_or_closes _ = False"

definition closings :: "task_windows \<Rightarrow> window_effect list" where
  "closings s = filter opens_or_closes (tm_effects s)"

definition closing_ok :: "task_windows \<Rightarrow> bool" where
  "closing_ok s \<longleftrightarrow> (tm_windows s = [] \<longleftrightarrow> last (AllClosed # closings s) = AllClosed)"

lemma closings_log [simp]: "closings (log_window e s) = closings s @ (if opens_or_closes e then [e] else [])"
  by (simp add: closings_def)

lemma closings_update [simp]:
  "closings (s\<lparr> tm_windows := w \<rparr>) = closings s" "closings (s\<lparr> tm_pending := p \<rparr>) = closings s"
  by (simp_all add: closings_def)

lemma remove_closing: "closing_ok s \<Longrightarrow> closing_ok (removeWindow n job s)"
  by (auto simp: closing_ok_def removeWindow_def Let_def)

lemma open_closing: "closing_ok s \<Longrightarrow> closing_ok (fst (open_task_window encode job s))"
  by (auto simp: closing_ok_def open_task_window_def Let_def closings_def split: option.split)

lemma fires_closing: "closing_ok s \<Longrightarrow> closing_ok (listener_fires l n job s)"
  by (cases l) (use remove_closing [of s n job] in \<open>auto simp: closing_ok_def\<close>)

lemma step_closing: "closing_ok s \<Longrightarrow> closing_ok (window_step encode e s)"
proof -
  assume ok: "closing_ok s"
  then have "closing_ok (s\<lparr> tm_pending := p \<rparr>)" for p
    by (simp add: closing_ok_def)
  with ok show ?thesis
    by (cases e) (auto simp: window_step_def open_closing remove_closing fires_closing split: option.split)
qed

lemma windows_after_ok: "windows_ok (windows_after encode es) \<and> closing_ok (windows_after encode es)"
proof -
  have "windows_ok s \<and> closing_ok s \<Longrightarrow> windows_ok (fold (window_step encode) es s) \<and> closing_ok (fold (window_step encode) es s)"
    for s
    by (induction es arbitrary: s) (auto simp: step_ok step_closing)
  then show ?thesis
    by (simp add: windows_after_def no_windows_def windows_ok_def closing_ok_def closings_def made_def tasks_gone_def)
qed

section \<open>The windows that are there\<close>

text \<open>
  Told from outside, by the number of a window: a job without a window gets one, and a window is there until it is
  destroyed, fails to be made, or cannot be listened to.  Each window knows its job; the events of one window say nothing
  of any other.
\<close>

fun presence_step :: "window_event \<Rightarrow> (string \<times> nat) list \<times> nat \<Rightarrow> (string \<times> nat) list \<times> nat" where
  "presence_step (OpenTaskWindow job) (there, n) =
     (if sj_jobId job \<in> fst ` set there then (there, n) else (there @ [(sj_jobId job, n)], Suc n))"
| "presence_step (WindowEvent k WhenReady) (there, n) = (there, n)"
| "presence_step (WindowEvent k WhenDestroyed) (there, n) = (filter (\<lambda>w. snd w \<noteq> k) there, n)"
| "presence_step (WindowEvent k WhenError) (there, n) = (filter (\<lambda>w. snd w \<noteq> k) there, n)"
| "presence_step (ListeningFails k) (there, n) = (filter (\<lambda>w. snd w \<noteq> k) there, n)"

definition windows_present :: "window_event list \<Rightarrow> (string \<times> nat) list" where
  "windows_present es = fst (fold presence_step es ([], 0))"

text \<open>The manager finds a window by its job; the listeners of a window that is there have not fired.\<close>

definition listening :: "task_windows \<Rightarrow> bool" where
  "listening s \<longleftrightarrow>
     (\<forall>w \<in> set (tm_windows s). (snd w, WhenDestroyed) \<in> set (tm_pending s) \<and> (snd w, WhenError) \<in> set (tm_pending s))"

lemma window_of_job:
  assumes "windows_ok s" and "map_of (tm_jobs s) n = Some job" and "w \<in> set (tm_windows s)" and "snd w = n"
  shows "fst w = sj_jobId job" "map_of (tm_windows s) (sj_jobId job) = Some n"
proof -
  obtain j where "map_of (tm_jobs s) (snd w) = Some j" and id: "sj_jobId j = fst w"
    using assms(1,3) unfolding windows_ok_def by blast
  with assms(2,4) show f: "fst w = sj_jobId job" by simp
  have "distinct (map fst (tm_windows s))" using assms(1) by (simp add: windows_ok_def)
  with assms(3,4) f show "map_of (tm_windows s) (sj_jobId job) = Some n" by (metis map_of_eq_Some_iff prod.collapse)
qed

lemma removed_by_number:
  assumes ok: "windows_ok s" and job: "map_of (tm_jobs s) n = Some job"
  shows "tm_windows (removeWindow n job s) = filter (\<lambda>w. snd w \<noteq> n) (tm_windows s)"
proof (cases "map_of (tm_windows s) (sj_jobId job) = Some n")
  case True
  have d: "distinct (map fst (tm_windows s))" using ok by (simp add: windows_ok_def)
  have "fst w = sj_jobId job \<longleftrightarrow> snd w = n" if w: "w \<in> set (tm_windows s)" for w
  proof
    assume "fst w = sj_jobId job"
    with True d w show "snd w = n" by (metis map_of_eq_Some_iff option.inject prod.collapse)
  qed (rule window_of_job(1) [OF ok job w])
  then have "filter (\<lambda>w. fst w \<noteq> sj_jobId job) (tm_windows s) = filter (\<lambda>w. snd w \<noteq> n) (tm_windows s)"
    by (intro filter_cong) auto
  with True show ?thesis by (simp add: removeWindow_def Let_def)
next
  case False
  then have "\<forall>w \<in> set (tm_windows s). snd w \<noteq> n" using window_of_job(2) [OF ok job] by blast
  with False show ?thesis by (simp add: removeWindow_def filter_id_conv)
qed

lemma removed_frame:
  "tm_created (removeWindow n job s) = tm_created s" "tm_pending (removeWindow n job s) = tm_pending s"
  by (simp_all add: removeWindow_def Let_def)

definition follows :: "task_windows \<Rightarrow> (string \<times> nat) list \<times> nat \<Rightarrow> bool" where
  "follows s p \<longleftrightarrow> windows_ok s \<and> listening s \<and> p = (tm_windows s, tm_created s)"

lemma gone_window: "windows_ok s \<Longrightarrow> map_of (tm_jobs s) n = None \<Longrightarrow> filter (\<lambda>w. snd w \<noteq> n) (tm_windows s) = tm_windows s"
  unfolding windows_ok_def by (fastforce simp: filter_id_conv)

lemma fired_follows:
  assumes "follows s p" and job: "map_of (tm_jobs s) n = Some job" and "l = WhenDestroyed \<or> l = WhenError"
    and "t = s\<lparr> tm_pending := filter (\<lambda>q. q \<noteq> (n, l)) (tm_pending s) \<rparr>"
  shows "tm_windows (removeWindow n job t) = filter (\<lambda>w. snd w \<noteq> n) (tm_windows s)"
    "listening (removeWindow n job t)" "tm_created (removeWindow n job t) = tm_created s"
    "windows_ok (removeWindow n job t)"
proof -
  have ok: "windows_ok t" using assms(1,4) by (simp add: follows_def)
  show w: "tm_windows (removeWindow n job t) = filter (\<lambda>w. snd w \<noteq> n) (tm_windows s)"
    using removed_by_number [OF ok, of n job] job assms(4) by simp
  show "windows_ok (removeWindow n job t)" using ok by (rule remove_ok)
  show "tm_created (removeWindow n job t) = tm_created s" by (simp add: removed_frame assms(4))
  show "listening (removeWindow n job t)"
    using assms(1) unfolding listening_def w removed_frame by (auto simp: assms(4) follows_def listening_def)
qed

lemma step_follows: "follows s p \<Longrightarrow> follows (window_step encode e s) (presence_step e p)"
proof -
  assume f: "follows s p"
  then have ok: "windows_ok s" and l: "listening s" and p: "p = (tm_windows s, tm_created s)" by (simp_all add: follows_def)
  have same: "filter (\<lambda>w. snd w \<noteq> n) (tm_windows s) = tm_windows s" if "(n, k) \<notin> set (tm_pending s)"
      "k = WhenDestroyed \<or> k = WhenError" for n k
    using that l by (auto simp: listening_def filter_id_conv)
  have ok': "windows_ok (window_step encode e s)" using ok by (rule step_ok)
  show ?thesis
  proof (cases e)
    case (OpenTaskWindow job)
    have known: "sj_jobId job \<in> fst ` set (tm_windows s) \<longleftrightarrow> map_of (tm_windows s) (sj_jobId job) \<noteq> None"
      by (simp add: map_of_eq_None_iff)
    show ?thesis
      using ok' l known
      by (auto simp: OpenTaskWindow follows_def p window_step_def open_task_window_def listening_def Let_def
          split: option.split)
  next
    case (WindowEvent n k)
    show ?thesis
    proof (cases "map_of (tm_jobs s) n = None \<or> (n, k) \<notin> set (tm_pending s)")
      case True
      then have "window_step encode e s = s" by (auto simp: WindowEvent window_step_def split: option.split)
      with True f show ?thesis
        using gone_window [OF ok, of n] same [of n k] by (cases k) (auto simp: WindowEvent p)
    next
      case False
      then obtain job where job: "map_of (tm_jobs s) n = Some job" and there: "(n, k) \<in> set (tm_pending s)" by auto
      define t where "t = s\<lparr> tm_pending := filter (\<lambda>q. q \<noteq> (n, k)) (tm_pending s) \<rparr>"
      have step: "window_step encode e s = listener_fires k n job t"
        using job there by (simp add: WindowEvent window_step_def t_def)
      show ?thesis
      proof (cases "k = WhenReady")
        case True
        then show ?thesis using ok' l unfolding step by (auto simp: follows_def p t_def listening_def WindowEvent)
      next
        case False
        then have k: "k = WhenDestroyed \<or> k = WhenError" by (cases k) simp_all
        from fired_follows [OF f job k t_def] show ?thesis
          unfolding step using k by (auto simp: follows_def p listening_def WindowEvent ok_log)
      qed
    qed
  next
    case (ListeningFails n)
    show ?thesis
    proof (cases "map_of (tm_jobs s) n")
      case None
      with f gone_window [OF ok None] show ?thesis by (simp add: ListeningFails window_step_def p)
    next
      case (Some job)
      have "listening (removeWindow n job s)"
        using l unfolding listening_def removed_by_number [OF ok Some] removed_frame by auto
      with Some ok' show ?thesis
        by (simp add: ListeningFails window_step_def follows_def p removed_by_number [OF ok Some] removed_frame)
    qed
  qed
qed

lemma windows_are_present: "tm_windows (windows_after encode es) = windows_present es"
proof -
  have "follows s p \<Longrightarrow> follows (fold (window_step encode) es s) (fold presence_step es p)" for s p
    by (induction es arbitrary: s p) (simp_all add: step_follows)
  moreover have "follows no_windows ([], 0)"
    by (simp add: follows_def no_windows_def windows_ok_def listening_def made_def tasks_gone_def)
  ultimately have "follows (windows_after encode es) (fold presence_step es ([], 0))"
    unfolding windows_after_def by blast
  then show ?thesis by (simp add: follows_def windows_present_def)
qed

section \<open>Properties\<close>

text \<open>C38: Whatever jobs are presented and however the windows become ready, fail and are destroyed: the windows that the
  manager knows are exactly those that were made and have since not been destroyed, failed or been impossible to listen to,
  whatever has become of other windows of the same job; there is at most one of a job at any time; every window of a job that
  was made is either there or was reported as closed exactly once; and the report that all are closed is the last one of
  its kind exactly when no window is there.\<close>

theorem task_windows_are_accounted_for:
  "(let s = windows_after encode es
    in tm_windows s = windows_present es \<and> distinct (getOpenJobIds s)
       \<and> made jobId s = tasks_gone jobId s + (if jobId \<in> set (getOpenJobIds s) then 1 else 0)
       \<and> hasOpenWindows s = (last (AllClosed # closings s) \<noteq> AllClosed))"
  using windows_after_ok [of encode es] windows_are_present [of encode es]
  unfolding Let_def windows_ok_def closing_ok_def getOpenJobIds_def hasOpenWindows_def by auto

section \<open>What a retry asks for\<close>

text \<open>The descriptor of an extraction of everything but some entries carries the exceptions, and the backend takes them, but
  the request of the retry does not have them: it asks for all entries.\<close>

lemma password_retry_forgets_exceptions:
  "retryWithPassword \<lparr> rv_password = Some ''pw'', rv_canDrag = True, rv_start = Inl None, rv_handoff = None \<rparr>
     (Some (RetryExtract \<lparr> re_actionId = ''a'', re_archivePath = ''/x.zip'', re_destinationPath = ''/out'',
        re_overwrite = OwRename, re_destinationCollisionStrategy = CsRename, re_entryPaths = [], re_selectAll = Some True,
        re_excludedEntryPaths = Some [''secret.txt''], re_stripComponents = 0, re_tzapRestorePolicy = None,
        re_tzapAllowDegraded = None, re_tzapAllowAbsoluteSymlinks = None, re_ignoreSymlinks = None, re_locale = None \<rparr>))
     (Some ''password_required'')
   = ([AskPassword ''password_required'',
       AskExtract \<lparr> sx_archivePath = ''/x.zip'', sx_destinationPath = ''/out'', sx_overwrite = OwRename,
         sx_strategy = Some CsRename, sx_entryPaths = None, sx_selectAll = None, sx_excludedEntryPaths = None,
         sx_stripComponents = Fin 0, sx_tzapRestorePolicy = RpPortable, sx_tzapAllowDegraded = True,
         sx_tzapAllowAbsoluteSymlinks = False, sx_ignoreSymlinks = False, sx_recipientKeyId = None,
         sx_password = Some ''pw'' \<rparr> None,
       ReportFailure ''Unable to retry this task.''], RecoveryFailed)"
  by (simp add: retryWithPassword_def isPasswordErrorCode_def retry_extract_request_def entries_or_none_def
    resolveDestinationCollisionStrategy_def)

text \<open>A retry asks the backend only after a password was entered for a job that failed for the lack of one, and then
  exactly once; it says that it started exactly when the job was accepted and, unless it is a drag, handed over.\<close>

lemma retry_needs_password:
  "filter (\<lambda>e. case e of AskPassword _ \<Rightarrow> False | HandOff _ \<Rightarrow> False | ReportFailure _ \<Rightarrow> False | _ \<Rightarrow> True)
     (fst (retryWithPassword env descriptor code))
   = (case (descriptor, rv_password env) of
        (Some d, Some pw) \<Rightarrow>
          if isPasswordErrorCode code \<and> pw \<noteq> [] \<and> (is_drag d \<longrightarrow> rv_canDrag env) then [retry_call d pw] else []
      | _ \<Rightarrow> [])"
proof -
  have "case retry_call d pw of AskPassword _ \<Rightarrow> False | HandOff _ \<Rightarrow> False | ReportFailure _ \<Rightarrow> False | _ \<Rightarrow> True" for d pw
    by (cases d) simp_all
  then show ?thesis
    by (auto simp: retryWithPassword_def Let_def split: option.split sum.split)
qed

end
