(* ===== verification/ArchiveOpening.thy ===== *)
theory ArchiveOpening
  imports ArchiveWorkspace ShellWorkspace PathHistory Lifecycle
begin

text \<open>
  Opening archives and previewing their entries, and what happens when the application starts:
  \<^verbatim>\<open>src/src/app/controllers/archiveOpenController.ts\<close>, \<^verbatim>\<open>archivePreviewController.ts\<close> and
  \<^verbatim>\<open>startupController.ts\<close>, with the callbacks that \<^verbatim>\<open>src/src/runtime/zmanagerRuntimeAdapter.ts\<close> gives them. While an
  answer is awaited anything may happen to the workspace and the shell: that is a function of the answer.
\<close>

section \<open>Opening\<close>

datatype open_call =
    ClearPreviewState
  | SetCurrentArchivePath string
  | RecordRecentArchive string
  | LoadArchive string
  | UnsupportedClipboard | ClipboardEmpty | ClipboardFailed

definition openSelectedArchivePath :: "string \<Rightarrow> open_call list" where
  "openSelectedArchivePath selected =
     [ClearPreviewState, SetCurrentArchivePath selected, RecordRecentArchive selected, LoadArchive selected]"

definition openArchiveFromPath :: "string \<Rightarrow> open_call list" where
  "openArchiveFromPath archivePath =
     (let selected = js_trim archivePath in if selected = [] then [] else openSelectedArchivePath selected)"

text \<open>The dialog answers with a path, or with nothing.\<close>

definition onOpenArchive :: "string option \<Rightarrow> open_call list" where
  "onOpenArchive answer =
     (case answer of
        None \<Rightarrow> []
      | Some selected \<Rightarrow> if selected = [] then [] else openSelectedArchivePath selected)"

definition is_quote :: "char \<Rightarrow> bool" where
  "is_quote c \<longleftrightarrow> c = CHR 0x22 \<or> c = CHR 0x27"

definition stripSurroundingQuotes :: "string \<Rightarrow> string" where
  "stripSurroundingQuotes raw =
     (let s = js_trim raw;
          s1 = (if s \<noteq> [] \<and> is_quote (hd s) then tl s else s)
      in if s1 \<noteq> [] \<and> is_quote (last s1) then butlast s1 else s1)"

text \<open>The clipboard fails, or holds a text, or none.\<close>

definition openArchiveFromClipboard :: "bool \<Rightarrow> string option option \<Rightarrow> open_call list" where
  "openArchiveFromClipboard canRead answer =
     (if \<not> canRead then [UnsupportedClipboard]
      else case answer of
             None \<Rightarrow> [ClipboardFailed]
           | Some clipText \<Rightarrow>
               (let pastedPath = stripSurroundingQuotes (nullish clipText [])
                in if pastedPath = [] then [ClipboardEmpty] else openArchiveFromPath pastedPath))"

section \<open>Previewing\<close>

datatype preview_mode = InlinePreview | OpenOutside

datatype preview_message = CachedOpened | OpenedOutside rat | PreviewReady rat

datatype preview_call =
    RunPreviewEntry preview_request
  | OpenPath string
  | CleanupBeforePreview
  | ClearTrackedPreviewState
  | TrackPreviewResult preview_cleanup
  | PromptForPassword password_retry
  | SingleFileRequired
  | ShowLoaded preview_message
  | ShowError string

text \<open>The workspace, the shell, and the calls made so far, each with the archive that was open then.\<close>

record preview_world =
  pw_workspace :: ws_state
  pw_shell :: shell
  pw_calls :: "(string \<times> preview_call) list"

type_synonym meanwhile = "ws_state \<times> shell \<Rightarrow> ws_state \<times> shell"

definition pv_await :: "meanwhile \<Rightarrow> preview_world \<Rightarrow> preview_world" where
  "pv_await others w =
     (let r = others (pw_workspace w, pw_shell w) in w\<lparr> pw_workspace := fst r, pw_shell := snd r \<rparr>)"

definition call :: "preview_call \<Rightarrow> preview_world \<Rightarrow> preview_world" where
  "call c w = w\<lparr> pw_calls := pw_calls w @ [(ws_currentArchivePath (pw_workspace w), c)] \<rparr>"

record preview_response =
  pp_cleanupRoot :: string
  pp_previewPath :: string
  pp_writtenBytes :: rat

text \<open>
  One round of the loop: what the backend answers and what happens meanwhile, what opening the preview gives (\<open>None\<close>
  is success) and what happens meanwhile, and for an error what the user enters and the extraction options of then.
\<close>

record preview_round =
  rn_answer :: "command_error option + preview_response"
  rn_whileRunning :: meanwhile
  rn_opened :: "command_error option option"
  rn_whileOpening :: meanwhile
  rn_password :: "string option"
  rn_overwrite :: overwrite_policy
  rn_stripComponents :: jsnum

record preview_environment =
  pvn_overwrite :: overwrite_policy
  pvn_stripComponents :: jsnum
  pvn_text :: "preview_message \<Rightarrow> string"
  pvn_unablePreview :: string
  pvn_cleansBeforeNext :: bool

fun retryOperationForMode :: "preview_mode \<Rightarrow> retry_operation" where
  "retryOperationForMode OpenOutside = RoOpenOutsideEntry"
| "retryOperationForMode InlinePreview = RoPreviewEntry"

definition isCurrentArchive :: "string \<Rightarrow> preview_world \<Rightarrow> bool" where
  "isCurrentArchive archivePath w \<longleftrightarrow> ws_currentArchivePath (pw_workspace w) = archivePath"

definition pv_on_workspace :: "(ws_state \<Rightarrow> ws_state) \<Rightarrow> preview_world \<Rightarrow> preview_world" where
  "pv_on_workspace f w = w\<lparr> pw_workspace := f (pw_workspace w) \<rparr>"

definition pv_on_shell :: "(shell \<Rightarrow> shell) \<Rightarrow> preview_world \<Rightarrow> preview_world" where
  "pv_on_shell f w = w\<lparr> pw_shell := f (pw_shell w) \<rparr>"


definition preview_error :: "preview_environment \<Rightarrow> command_error option \<Rightarrow> preview_world \<Rightarrow> preview_world" where
  "preview_error env e w =
     (let message = nullish (map_option ce_message e) (pvn_unablePreview env)
      in pv_on_workspace (setBrowseState BsError (Some message)) (call (ShowError message) w))"

text \<open>The \<open>catch\<close> of the loop: the request of the next round, if there is one.\<close>

definition preview_failed ::
    "preview_mode \<Rightarrow> preview_environment \<Rightarrow> preview_round \<Rightarrow> command_error option \<Rightarrow> preview_world
      \<Rightarrow> preview_world \<times> preview_request option" where
  "preview_failed mode env rnd e w =
     (let w1 = pv_on_workspace (requestPasswordRetry (retryOperationForMode mode) e) w
      in case ws_passwordRetry (pw_workspace w1) of
           None \<Rightarrow> (preview_error env e w1, None)
         | Some retry \<Rightarrow>
             (let w2 = call (PromptForPassword retry) w1
              in case nonempty_opt (rn_password rnd) of
                   None \<Rightarrow> (preview_error env e (pv_on_workspace clearPasswordRetry w2), None)
                 | Some password \<Rightarrow>
                     (case buildPreviewRequest (rn_overwrite rnd) (rn_stripComponents rnd) (Some password)
                             (pw_workspace w2) of
                        Inl _ \<Rightarrow> (call SingleFileRequired w2, None)
                      | Inr request \<Rightarrow>
                          if isCurrentArchive (pq_archivePath request) w2 then (w2, Some request) else (w2, None))))"




section \<open>Starting\<close>

record startup_error =
  su_message :: string
  su_hint :: "string option"

datatype startup_disposition = MainWindowDisposition | TaskDisposition

record startup_state =
  ust_launchedForQuickAction :: bool
  ust_windowDisposition :: "startup_disposition option"
  ust_error :: "startup_error option"

text \<open>The reveals carry whether they succeed.\<close>

datatype startup_call =
    FetchStartupState
  | RevealForQuickAction startup_state bool
  | RevealNormalWindow bool
  | StatusMessage string
  | BrowseError string

definition handleQuickActionStartupState :: "startup_state \<Rightarrow> startup_call list" where
  "handleQuickActionStartupState state =
     (if \<not> ust_launchedForQuickAction state then []
      else case ust_error state of
             None \<Rightarrow> []
           | Some e \<Rightarrow>
               StatusMessage (su_message e)
               # (case nonempty_opt (su_hint e) of
                    None \<Rightarrow> []
                  | Some hint \<Rightarrow> [BrowseError (su_message e @ [CHR 0x0A] @ hint)]))"

text \<open>
  The loop of \<open>handleStartupQuickAction\<close>: each answer is a state, with whether revealing the window for it succeeds, or a
  failure (\<open>None\<close>) with its text. The second result says whether the loop has ended.
\<close>

fun startup_loop :: "(string \<Rightarrow> string) \<Rightarrow> bool \<Rightarrow> bool \<Rightarrow> (startup_state \<times> bool) option list \<Rightarrow> startup_call list \<times> bool" where
  "startup_loop failureText normalSucceeds revealed [] = ([FetchStartupState], False)"
| "startup_loop failureText normalSucceeds revealed (answer # answers) =
     (let failed = StatusMessage (failureText ''jobs.quickActionStartupReadFailed'')
                   # (if revealed then [] else [RevealNormalWindow normalSucceeds])
      in case answer of
           None \<Rightarrow> (FetchStartupState # failed, True)
         | Some (state, revealSucceeds) \<Rightarrow>
             if \<not> revealed \<and> \<not> revealSucceeds
             then (FetchStartupState # RevealForQuickAction state False # failed, True)
             else (let calls = FetchStartupState # (if revealed then [] else [RevealForQuickAction state True])
                                @ handleQuickActionStartupState state
                   in if \<not> ust_launchedForQuickAction state \<or> ust_error state \<noteq> None then (calls, True)
                      else case startup_loop failureText normalSucceeds True answers of
                             (later, end') \<Rightarrow> (calls @ later, end')))"

text \<open>\<open>initializeDesktopRuntime\<close>: when revealing the normal window fails in the loop, it is tried once more.\<close>

definition initializeDesktopRuntime ::
    "(string \<Rightarrow> string) \<Rightarrow> bool \<Rightarrow> bool \<times> bool \<Rightarrow> (startup_state \<times> bool) option list \<Rightarrow> startup_call list \<times> bool" where
  "initializeDesktopRuntime failureText isDesktop normalSucceeds answers =
     (if \<not> isDesktop then ([], True)
      else case startup_loop failureText (fst normalSucceeds) False answers of
             (calls, end') \<Rightarrow>
               if RevealNormalWindow False \<in> set calls
               then (calls @ [StatusMessage (failureText ''desktopIntegration.initFailed''),
                              RevealNormalWindow (snd normalSucceeds)], end')
               else (calls, end'))"

text \<open>\<open>loadBootstrapState\<close>: the health of the backend and the contract, or a failure with its command message.\<close>

datatype bootstrap_status = ReadyStatus | BackendUnavailable | CommandMessage string | BrowserPreview

definition loadBootstrapState ::
    "bool \<Rightarrow> (string option + ('h \<times> 'c)) \<Rightarrow> ('h \<Rightarrow> bool) \<Rightarrow> ('h \<times> 'c) option \<times> bootstrap_status" where
  "loadBootstrapState isDesktop answer ready =
     (case answer of
        Inr hc \<Rightarrow> (Some hc, if ready (fst hc) then ReadyStatus else BackendUnavailable)
      | Inl commandMessage \<Rightarrow>
          (None, if isDesktop then (case commandMessage of Some m \<Rightarrow> CommandMessage m | None \<Rightarrow> BackendUnavailable)
                 else BrowserPreview))"

section \<open>Lemmas on previews\<close>

lemma call_simps [simp]:
  "pw_workspace (call c w) = pw_workspace w" "pw_shell (call c w) = pw_shell w"
  "pw_calls (call c w) = pw_calls w @ [(ws_currentArchivePath (pw_workspace w), c)]"
  by (simp_all add: call_def)

lemma pv_await_calls [simp]: "pw_calls (pv_await others w) = pw_calls w"
  by (simp add: pv_await_def Let_def)

lemma on_simps [simp]:
  "pw_calls (pv_on_workspace f w) = pw_calls w" "pw_calls (pv_on_shell g w) = pw_calls w"
  "pw_workspace (pv_on_shell g w) = pw_workspace w" "pw_workspace (pv_on_workspace f w) = f (pw_workspace w)"
  by (simp_all add: pv_on_workspace_def pv_on_shell_def)

lemma archive_kept [simp]:
  "ws_currentArchivePath (clearPasswordRetry s) = ws_currentArchivePath s"
  "ws_currentArchivePath (requestPasswordRetry op e s) = ws_currentArchivePath s"
  "ws_currentArchivePath (setBrowseState b t s) = ws_currentArchivePath s"
  by (simp_all add: clearPasswordRetry_def requestPasswordRetry_def setBrowseState_def)


text \<open>
  What a call may be, by the call before it: a request is for the archive \<open>a\<close>; what is tracked is what the backend
  answered in one of the rounds, for the entry that was just asked for; what is opened is what was tracked just
  before; and a preview is shown as loaded only after it was opened.
\<close>

definition tracked_answer :: "preview_request \<Rightarrow> preview_response \<Rightarrow> preview_cleanup" where
  "tracked_answer request response =
     \<lparr> pv_cleanupRoot = pp_cleanupRoot response, pv_previewPath = pp_previewPath response,
       pv_entryPath = pq_entryPath request \<rparr>"

definition allowed_call :: "string \<Rightarrow> preview_round list \<Rightarrow> preview_call option \<Rightarrow> preview_call \<Rightarrow> bool" where
  "allowed_call a rounds before c \<longleftrightarrow>
     (case c of
        RunPreviewEntry request \<Rightarrow> pq_archivePath request = a
      | TrackPreviewResult d \<Rightarrow>
          (\<exists>request rnd response. before = Some (RunPreviewEntry request) \<and> rnd \<in> set rounds
             \<and> rn_answer rnd = Inr response \<and> d = tracked_answer request response)
      | OpenPath path \<Rightarrow> (\<exists>d. before = Some (TrackPreviewResult d) \<and> pv_previewPath d = path)
      | ShowLoaded m \<Rightarrow> (\<exists>path. before = Some (OpenPath path))
      | _ \<Rightarrow> True)"

text \<open>Every call is allowed, and made while \<open>a\<close> is open.\<close>

fun calls_allowed :: "string \<Rightarrow> preview_round list \<Rightarrow> preview_call option \<Rightarrow> (string \<times> preview_call) list \<Rightarrow> bool" where
  "calls_allowed a rounds before [] = True"
| "calls_allowed a rounds before ((p, c) # cs) =
     (p = a \<and> allowed_call a rounds before c \<and> calls_allowed a rounds (Some c) cs)"

fun last_call :: "preview_call option \<Rightarrow> (string \<times> preview_call) list \<Rightarrow> preview_call option" where
  "last_call before [] = before"
| "last_call before ((p, c) # cs) = last_call (Some c) cs"

lemma allowed_append [simp]:
  "calls_allowed a rounds before (cs @ ds)
     \<longleftrightarrow> calls_allowed a rounds before cs \<and> calls_allowed a rounds (last_call before cs) ds"
  by (induction a rounds before cs rule: calls_allowed.induct) auto

lemma last_append [simp]: "last_call before (cs @ ds) = last_call (last_call before cs) ds"
  by (induction before cs rule: last_call.induct) auto

lemma allowed_simps [simp]:
  "allowed_call a rounds b (RunPreviewEntry r) \<longleftrightarrow> pq_archivePath r = a"
  "allowed_call a rounds b (OpenPath path) \<longleftrightarrow> (\<exists>d. b = Some (TrackPreviewResult d) \<and> pv_previewPath d = path)"
  "allowed_call a rounds b (ShowLoaded m) \<longleftrightarrow> (\<exists>path. b = Some (OpenPath path))"
  "allowed_call a rounds b (ShowError t)" "allowed_call a rounds b (PromptForPassword x)"
  "allowed_call a rounds b SingleFileRequired" "allowed_call a rounds b CleanupBeforePreview"
  "allowed_call a rounds b ClearTrackedPreviewState"
  by (simp_all add: allowed_call_def)








section \<open>Properties\<close>



text \<open>After a password error the request is built from the selection of then: the entry that is previewed, with the password
  entered for the first, need not be the one that was chosen.\<close>

lemma retried_preview_takes_new_selection:
  assumes "snd (preview_failed mode env rnd e w) = Some request"
  shows "\<exists>password. rn_password rnd = Some password
    \<and> buildPreviewRequest (rn_overwrite rnd) (rn_stripComponents rnd) (Some password)
          (requestPasswordRetry (retryOperationForMode mode) e (pw_workspace w)) = Inr request"
proof -
  define s where "s = requestPasswordRetry (retryOperationForMode mode) e (pw_workspace w)"
  show ?thesis
    using assms unfolding s_def [symmetric]
    by (auto simp: preview_failed_def Let_def s_def [symmetric] nonempty_opt_def
        split: option.splits sum.splits if_splits)
qed

section \<open>The window is revealed\<close>

text \<open>
  The callbacks of the runtime adapter. \<open>aw_asked\<close> counts how often the window controller was asked to reveal the
  window, which works or does not; a failure is caught and leaves the window unshown. Rendering the workspace is left out.
\<close>

record app_window =
  aw_lifecycle :: lifecycle
  aw_shown :: bool
  aw_asked :: nat

definition revealNormalAppWindow :: "bool \<Rightarrow> bool \<Rightarrow> bool \<Rightarrow> app_window \<Rightarrow> app_window" where
  "revealNormalAppWindow isDesktop works userInitiated w =
     (let w1 = w\<lparr> aw_lifecycle := observeNormalLaunch (aw_lifecycle w) \<rparr>
      in if \<not> isDesktop \<or> (\<not> userInitiated \<and> aw_shown w) then w1
         else let w2 = w1\<lparr> aw_asked := Suc (aw_asked w1) \<rparr>
              in if works then w2\<lparr> aw_shown := True \<rparr> else w2)"

definition revealWindowForStartupQuickAction :: "bool \<Rightarrow> bool \<Rightarrow> startup_state \<Rightarrow> app_window \<Rightarrow> app_window" where
  "revealWindowForStartupQuickAction isDesktop works state w =
     (if ust_launchedForQuickAction state
         \<and> (ust_windowDisposition state = Some TaskDisposition
            \<or> (ust_windowDisposition state = None \<and> ust_error state = None))
      then w\<lparr> aw_lifecycle := observeQuickActionLaunch (aw_lifecycle w) \<rparr>
      else if lc_quickActionOnlyCoordinator (aw_lifecycle w)
      then w\<lparr> aw_lifecycle := observeQuickActionLaunch (aw_lifecycle w) \<rparr>
      else revealNormalAppWindow isDesktop works False w)"

fun adapter_call :: "bool \<Rightarrow> startup_call \<Rightarrow> app_window \<Rightarrow> app_window" where
  "adapter_call works (RevealForQuickAction state ok) w = revealWindowForStartupQuickAction True works state w"
| "adapter_call works (RevealNormalWindow ok) w = revealNormalAppWindow True works False w"
| "adapter_call works c w = w"

text \<open>
  The start with these callbacks, which never fail: \<open>answers\<close> are the states that the backend answers, or its failures,
  and \<open>w\<close> is the window when the first answer has arrived.
\<close>

definition start_desktop :: "(string \<Rightarrow> string) \<Rightarrow> bool \<Rightarrow> startup_state option list \<Rightarrow> app_window \<Rightarrow> app_window" where
  "start_desktop failureText works answers w =
     fold (adapter_call works)
       (fst (initializeDesktopRuntime failureText True (True, True) (map (map_option (\<lambda>state. (state, True))) answers))) w"

fun reveals :: "startup_call \<Rightarrow> bool" where
  "reveals (RevealForQuickAction state ok) = True"
| "reveals (RevealNormalWindow ok) = True"
| "reveals c = False"

lemma quiet_calls: "list_all (\<lambda>c. \<not> reveals c) cs \<Longrightarrow> fold (adapter_call works) cs w = w"
proof (induction cs arbitrary: w)
  case (Cons c cs)
  then show ?case by (cases c) simp_all
qed simp

lemma handle_quiet: "list_all (\<lambda>c. \<not> reveals c) (handleQuickActionStartupState state)"
  by (simp add: handleQuickActionStartupState_def split: option.split)

lemma loop_quiet: "list_all (\<lambda>c. \<not> reveals c) (fst (startup_loop ft ns True answers))"
  by (induction answers) (auto simp: Let_def handle_quiet split: option.split prod.split)

lemma quiet_no_failure: "list_all (\<lambda>c. \<not> reveals c) cs \<Longrightarrow> RevealNormalWindow False \<notin> set cs"
  by (auto simp: list_all_iff)

lemma loop_calls:
  "\<exists>quiet. list_all (\<lambda>c. \<not> reveals c) quiet
     \<and> fst (startup_loop ft True False (map_option (\<lambda>state. (state, True)) first # answers))
       = FetchStartupState # (case first of
             None \<Rightarrow> [StatusMessage (ft ''jobs.quickActionStartupReadFailed''), RevealNormalWindow True]
           | Some state \<Rightarrow> RevealForQuickAction state True # quiet)"
proof (cases first)
  case None
  then show ?thesis by (intro exI [of _ "[]"]) simp
next
  case (Some state)
  let ?quiet = "handleQuickActionStartupState state
    @ (if \<not> ust_launchedForQuickAction state \<or> ust_error state \<noteq> None then [] else fst (startup_loop ft True True answers))"
  show ?thesis
    using Some handle_quiet loop_quiet
    by (intro exI [of _ ?quiet]) (auto simp: Let_def split: prod.split)
qed

lemma desktop_started:
  "start_desktop ft works (first # answers) w =
     (case first of
        None \<Rightarrow> revealNormalAppWindow True works False w
      | Some state \<Rightarrow> revealWindowForStartupQuickAction True works state w)"
proof -
  let ?rest = "map (map_option (\<lambda>state. (state, True))) answers"
  from loop_calls [of ft first ?rest] obtain quiet where quiet: "list_all (\<lambda>c. \<not> reveals c) quiet"
    and calls: "fst (startup_loop ft True False (map_option (\<lambda>state. (state, True)) first # ?rest))
       = FetchStartupState # (case first of
             None \<Rightarrow> [StatusMessage (ft ''jobs.quickActionStartupReadFailed''), RevealNormalWindow True]
           | Some state \<Rightarrow> RevealForQuickAction state True # quiet)" by blast
  have "RevealNormalWindow False \<notin> set (fst (startup_loop ft True False (map_option (\<lambda>state. (state, True)) first # ?rest)))"
    unfolding calls using quiet_no_failure [OF quiet] by (cases first) auto
  then have "fst (initializeDesktopRuntime ft True (True, True) (map_option (\<lambda>state. (state, True)) first # ?rest))
      = fst (startup_loop ft True False (map_option (\<lambda>state. (state, True)) first # ?rest))"
    by (simp add: initializeDesktopRuntime_def case_prod_unfold)
  then have "start_desktop ft works (first # answers) w
      = fold (adapter_call works) (fst (startup_loop ft True False (map_option (\<lambda>state. (state, True)) first # ?rest))) w"
    by (simp only: start_desktop_def list.map)
  also have "\<dots> = (case first of
        None \<Rightarrow> revealNormalAppWindow True works False w
      | Some state \<Rightarrow> revealWindowForStartupQuickAction True works state w)"
    unfolding calls using quiet_calls [OF quiet] by (cases first) simp_all
  finally show ?thesis .
qed

text \<open>The window is to stay hidden: the application was started for a task, or a task has come in already.\<close>

definition stays_hidden :: "startup_state option \<Rightarrow> app_window \<Rightarrow> bool" where
  "stays_hidden first w \<longleftrightarrow>
     (case first of
        None \<Rightarrow> False
      | Some state \<Rightarrow>
          (if ust_launchedForQuickAction state
           then ust_windowDisposition state = Some TaskDisposition
             \<or> (ust_windowDisposition state = None \<and> ust_error state = None)
           else False)
          \<or> lc_quickActionOnlyCoordinator (aw_lifecycle w))"

text \<open>C40: Whatever the backend answers when the application starts on the desktop, and however often it is asked, its first
  answer decides about the window: if the application was started for a task, or a task has come in already, the window
  is not revealed at all, and the process is the coordinator of tasks unless it was started normally before; otherwise, and
  when the backend fails, revealing it is asked for exactly once, unless it is shown already, and the process is no
  coordinator.  The window is shown in the end if it was or if revealing it was asked for and works.\<close>

theorem startup_reveals_the_window_once:
  "(let w' = start_desktop failureText works (first # answers) w
    in aw_asked w' = aw_asked w + (if stays_hidden first w then 0 else if aw_shown w then 0 else 1)
       \<and> aw_shown w' = (if stays_hidden first w then aw_shown w else if aw_shown w then True else works)
       \<and> lc_quickActionOnlyCoordinator (aw_lifecycle w')
           = (if stays_hidden first w
              then if lc_normalLaunchObserved (aw_lifecycle w) then lc_quickActionOnlyCoordinator (aw_lifecycle w) else True
              else False))"
  unfolding desktop_started Let_def
  by (cases first)
    (auto simp: stays_hidden_def revealWindowForStartupQuickAction_def revealNormalAppWindow_def observeNormalLaunch_def
      observeQuickActionLaunch_def Let_def)

end
