(* ===== verification/Services.thy ===== *)
theory Services
  imports JsCollections
begin

text \<open>
  Small services that the window shows: finding LocalSend devices
  (\<^verbatim>\<open>src/src/app/controllers/localSendDiscoveryController.ts\<close>), the trusted devices
  (\<^verbatim>\<open>localSendTrustController.ts\<close>), the default handlers of file types (\<^verbatim>\<open>defaultHandlerController.ts\<close>), the hand-over of
  a native drag (\<^verbatim>\<open>nativeDragHandoffController.ts\<close>) and how a share is presented
  (\<^verbatim>\<open>src/src/app/shareQueuePresentation.ts\<close>). A step of a controller is a call of it, or the answer to a request it made.
\<close>

section \<open>Finding devices\<close>

datatype service_status = SvIdle | SvLoading | SvReady | SvError

text \<open>A device is known by its fingerprint; the rest of it is not looked into.\<close>

record 'd discovery_snapshot =
  dd_status :: service_status
  dd_devices :: "(string \<times> 'd) list"
  dd_error :: "string option"

text \<open>
  The scans that run carry their generation and their alias; \<open>dv_pending\<close> is the one that a further call for the
  same alias joins. \<open>None\<close> as the time of the last success is minus infinity.
\<close>

record 'd discovery =
  dv_snapshot :: "'d discovery_snapshot"
  dv_generation :: nat
  dv_lastSuccessAt :: "int option"
  dv_pending :: "(string \<times> nat) option"
  dv_running :: "nat list"
  dv_published :: "'d discovery_snapshot list"

definition no_discovery :: "'d discovery_snapshot" where
  "no_discovery = \<lparr> dd_status = SvIdle, dd_devices = [], dd_error = None \<rparr>"

definition createLocalSendDiscoveryController :: "'d discovery" where
  "createLocalSendDiscoveryController =
     \<lparr> dv_snapshot = no_discovery, dv_generation = 0, dv_lastSuccessAt = None, dv_pending = None, dv_running = [],
       dv_published = [] \<rparr>"

definition discovery_update :: "'d discovery_snapshot \<Rightarrow> 'd discovery \<Rightarrow> 'd discovery" where
  "discovery_update new s = s\<lparr> dv_snapshot := new, dv_published := dv_published s @ [new] \<rparr>"

text \<open>The part of \<open>scan\<close> before the answer.\<close>

definition scan :: "'d discovery \<Rightarrow> 'd discovery" where
  "scan s =
     (let generation = Suc (dv_generation s)
      in discovery_update ((dv_snapshot s)\<lparr> dd_status := SvLoading, dd_error := None \<rparr>)
           (s\<lparr> dv_generation := generation, dv_running := dv_running s @ [generation] \<rparr>))"

definition discovery_refresh :: "string \<Rightarrow> 'd discovery \<Rightarrow> 'd discovery" where
  "discovery_refresh alias s =
     (if map_option fst (dv_pending s) = Some alias then s
      else let s1 = scan s in s1\<lparr> dv_pending := Some (alias, dv_generation s1) \<rparr>)"

definition FRESH_FOR_MS :: int where
  "FRESH_FOR_MS = 30000"

definition openPicker :: "string \<Rightarrow> int \<Rightarrow> 'd discovery \<Rightarrow> 'd discovery" where
  "openPicker alias now s =
     (if dd_status (dv_snapshot s) = SvReady \<and> 0 < length (dd_devices (dv_snapshot s))
         \<and> (case dv_lastSuccessAt s of None \<Rightarrow> False | Some t \<Rightarrow> now - t < FRESH_FOR_MS)
      then s else discovery_refresh alias s)"

text \<open>The values of a \<open>Map\<close> from fingerprints: a device named twice keeps its first place and its last description.\<close>

definition by_fingerprint :: "(string \<times> 'd) list \<Rightarrow> (string \<times> 'd) list" where
  "by_fingerprint devices = fold (\<lambda>d m. AList.update (fst d) (snd d) m) devices []"

text \<open>The answer to the scan of a generation, at a time; then the scan no longer is the pending one.\<close>

definition scan_settled :: "nat \<Rightarrow> string + (string \<times> 'd) list \<Rightarrow> int \<Rightarrow> 'd discovery \<Rightarrow> 'd discovery" where
  "scan_settled generation answer now s =
     (if \<not> set_has (dv_running s) generation then s
      else let s1 = s\<lparr> dv_running := set_delete generation (dv_running s) \<rparr>;
               s2 = (if generation \<noteq> dv_generation s1 then s1
                     else case answer of
                            Inr devices \<Rightarrow>
                              discovery_update \<lparr> dd_status = SvReady, dd_devices = by_fingerprint devices, dd_error = None \<rparr>
                                (s1\<lparr> dv_lastSuccessAt := Some now \<rparr>)
                          | Inl message \<Rightarrow>
                              discovery_update ((dv_snapshot s1)\<lparr> dd_status := SvError, dd_error := Some message \<rparr>) s1)
           in if map_option snd (dv_pending s2) = Some generation then s2\<lparr> dv_pending := None \<rparr> else s2)"

datatype 'd discovery_event =
    DiscoveryRefresh string
  | DiscoveryOpen string int
  | DiscoveryAnswer nat "string + (string \<times> 'd) list" int

fun discovery_step :: "'d discovery_event \<Rightarrow> 'd discovery \<Rightarrow> 'd discovery" where
  "discovery_step (DiscoveryRefresh alias) s = discovery_refresh alias s"
| "discovery_step (DiscoveryOpen alias now) s = openPicker alias now s"
| "discovery_step (DiscoveryAnswer generation answer now) s = scan_settled generation answer now s"

definition discovery_run :: "'d discovery_event list \<Rightarrow> 'd discovery" where
  "discovery_run es = fold discovery_step es createLocalSendDiscoveryController"

section \<open>Trusted devices\<close>

record trust_snapshot =
  tu_status :: service_status
  tu_fingerprints :: "string list"
  tu_error :: "string option"

definition no_trust :: trust_snapshot where
  "no_trust = \<lparr> tu_status = SvIdle, tu_fingerprints = [], tu_error = None \<rparr>"

text \<open>\<open>run\<close> before and after its effect has answered.\<close>

definition trust_started :: "trust_snapshot \<Rightarrow> trust_snapshot" where
  "trust_started s = s\<lparr> tu_status := SvLoading, tu_error := None \<rparr>"

definition trust_settled :: "string + string list \<Rightarrow> trust_snapshot \<Rightarrow> trust_snapshot" where
  "trust_settled answer s =
     (case answer of
        Inr fingerprints \<Rightarrow> \<lparr> tu_status = SvReady, tu_fingerprints = fingerprints, tu_error = None \<rparr>
      | Inl message \<Rightarrow> s\<lparr> tu_status := SvError, tu_error := Some message \<rparr>)"

section \<open>Default handlers\<close>

record 'e handler_snapshot =
  dh_status :: service_status
  dh_entries :: "'e list"
  dh_canRestore :: bool
  dh_error :: "string option"

definition no_handlers :: "'e handler_snapshot" where
  "no_handlers = \<lparr> dh_status = SvIdle, dh_entries = [], dh_canRestore = False, dh_error = None \<rparr>"

definition handlers_started :: "'e handler_snapshot \<Rightarrow> 'e handler_snapshot" where
  "handlers_started s = s\<lparr> dh_status := SvLoading, dh_error := None \<rparr>"

definition handlers_settled :: "string + ('e list \<times> bool) \<Rightarrow> 'e handler_snapshot \<Rightarrow> 'e handler_snapshot" where
  "handlers_settled answer s =
     (case answer of
        Inr (entries, canRestore) \<Rightarrow>
          \<lparr> dh_status = SvReady, dh_entries = entries, dh_canRestore = canRestore, dh_error = None \<rparr>
      | Inl message \<Rightarrow> s\<lparr> dh_status := SvError, dh_error := Some message \<rparr>)"

text \<open>An effect is started (\<open>None\<close>) or answers; the number of effects that run is counted.\<close>

definition handler_event :: "(string + ('e list \<times> bool)) option \<Rightarrow> 'e handler_snapshot \<times> nat \<Rightarrow> 'e handler_snapshot \<times> nat" where
  "handler_event e s =
     (case e of
        None \<Rightarrow> (handlers_started (fst s), Suc (snd s))
      | Some answer \<Rightarrow> if snd s = 0 then s else (handlers_settled answer (fst s), snd s - 1))"

definition handlers_run :: "(string + ('e list \<times> bool)) option list \<Rightarrow> 'e handler_snapshot \<times> nat" where
  "handlers_run es = fold handler_event es (no_handlers, 0)"

section \<open>Native drag\<close>

datatype drag_call = ListenForDestination | PresentTask | BeginDrag | StopListening

text \<open>The destination asks for the payload: only the first time, the task is presented.\<close>

definition onDestination :: "drag_call list \<Rightarrow> drag_call list" where
  "onDestination calls = (if set_has calls PresentTask then calls else calls @ [PresentTask])"

text \<open>
  The destination may ask any number of times before, during and after the drag. The result is that of the drag
  (\<open>None\<close> is an error) with whether the task was presented; presenting it succeeds as \<open>presents\<close> says.
\<close>

definition native_drag ::
    "bool \<Rightarrow> bool \<Rightarrow> nat \<times> nat \<times> nat \<Rightarrow> 'r option \<Rightarrow> drag_call list \<times> (bool \<times> 'r) option" where
  "native_drag listens presents asked answer =
     (let calls = (onDestination ^^ fst asked) [ListenForDestination]
      in if \<not> listens then (calls, None)
         else let dragged = (onDestination ^^ fst (snd asked)) (calls @ [BeginDrag])
              in ((onDestination ^^ snd (snd asked)) dragged @ [StopListening],
                  map_option (\<lambda>response. (set_has dragged PresentTask \<and> presents, response)) answer))"

section \<open>How a share is presented\<close>

datatype compression_state = CpNotRequired | CpCompressing | CpCancelling | CpComplete | CpFailed | CpCancelled

datatype transfer_state = TrNotStarted | TrWaiting | TrSending | TrCancelling | TrSent | TrFailed | TrCancelled

datatype sharing_intent = SiPending | SiSkipped

datatype share_lifecycle = SlActive | SlCancelled

datatype share_mode = SmCompressAndShare | SmDirectShare

text \<open>The fields of a share that its presentation reads; a receiver is known or not.\<close>

record share_record =
  si_mode :: share_mode
  si_artifactPath :: "string option"
  si_hasReceiver :: bool
  si_compressionState :: compression_state
  si_compressionProgress :: "(rat \<times> rat option) option"
  si_transferState :: transfer_state
  si_sharingIntent :: sharing_intent
  si_lifecycle :: share_lifecycle
  si_bytesSent :: rat
  si_totalBytes :: "rat option"

datatype share_status =
    ShCancelling | ShShared | ShCompressing | ShCancelled | ShFailed | ShCompressed | ShFinishing | ShSending
  | ShQueuedForReceiver | ShSelectReceiver

record presented_share =
  ps_status :: share_status
  ps_progress :: "(rat \<times> rat option \<times> rat option) option"
  ps_canSelectReceiver :: bool
  ps_canRetry :: bool
  ps_canSkip :: bool
  ps_canCancel :: bool
  ps_canDismiss :: bool

definition presentShare :: "share_record \<Rightarrow> presented_share" where
  "presentShare item =
     (let compressing = si_compressionState item = CpCompressing;
          cancelling = (si_compressionState item = CpCancelling \<or> si_transferState item = TrCancelling);
          sending = si_transferState item = TrSending;
          sent = si_transferState item = TrSent;
          cancelled = (si_lifecycle item = SlCancelled \<or> si_compressionState item = CpCancelled
                       \<or> si_transferState item = TrCancelled);
          skipped = si_sharingIntent item = SiSkipped;
          failed = (si_compressionState item = CpFailed \<or> si_transferState item = TrFailed);
          progress = (if compressing then si_compressionProgress item else None);
          total = (if compressing then (case progress of None \<Rightarrow> None | Some p \<Rightarrow> snd p) else si_totalBytes item);
          processed = (if compressing then nullish (map_option fst progress) 0
                       else if sent \<and> total \<noteq> None then nullish total 0 else si_bytesSent item);
          percent = (if sent then Some 100
                     else case total of
                            None \<Rightarrow> None
                          | Some t \<Rightarrow> if 0 < t then Some (max 0 (min 100 (processed / t * 100))) else None);
          finishing = (sending \<and> (case total of None \<Rightarrow> False | Some t \<Rightarrow> t \<le> processed));
          active = (compressing \<or> sending \<or> cancelling)
      in \<lparr> ps_status =
             (if cancelling then ShCancelling else if sent then ShShared else if compressing then ShCompressing
              else if cancelled then ShCancelled else if failed then ShFailed else if skipped then ShCompressed
              else if finishing then ShFinishing else if sending then ShSending
              else if si_hasReceiver item then ShQueuedForReceiver else ShSelectReceiver),
           ps_progress = (if compressing \<or> sending \<or> sent then Some (processed, total, percent) else None),
           ps_canSelectReceiver = (\<not> si_hasReceiver item \<and> \<not> cancelled \<and> \<not> skipped \<and> \<not> failed \<and> \<not> sent \<and> \<not> cancelling),
           ps_canRetry = (si_transferState item = TrFailed \<and> si_hasReceiver item \<and> truthy (si_artifactPath item)
                          \<and> \<not> cancelled \<and> \<not> skipped),
           ps_canSkip = (si_mode item = SmCompressAndShare \<and> \<not> si_hasReceiver item \<and> \<not> skipped \<and> \<not> cancelled
                         \<and> \<not> failed \<and> \<not> cancelling),
           ps_canCancel = (\<not> sent \<and> \<not> cancelled \<and> \<not> cancelling \<and> (\<not> skipped \<or> compressing) \<and> \<not> failed),
           ps_canDismiss = (\<not> active \<and> \<not> (si_lifecycle item = SlActive \<and> \<not> skipped \<and> si_hasReceiver item
                            \<and> truthy (si_artifactPath item)
                            \<and> (si_transferState item = TrWaiting \<or> si_transferState item = TrNotStarted))) \<rparr>)"

section \<open>Lemmas\<close>

lemma by_fingerprint_distinct: "distinct (map fst (by_fingerprint devices))"
proof -
  have "distinct (map fst m) \<Longrightarrow> distinct (map fst (fold (\<lambda>d m. AList.update (fst d) (snd d) m) devices m))" for m
    by (induction devices arbitrary: m) (simp_all add: distinct_update)
  then show ?thesis
    by (simp add: by_fingerprint_def)
qed

lemma by_fingerprint_fold:
  "map_of (fold (\<lambda>d m. AList.update (fst d) (snd d) m) devices m) k
     = (case map_of (rev devices) k of None \<Rightarrow> map_of m k | Some d \<Rightarrow> Some d)"
  by (induction devices arbitrary: m) (auto simp: update_conv map_add_def split: option.split)

text \<open>A device is described as the last time it is named.\<close>

lemma by_fingerprint_last: "map_of (by_fingerprint devices) k = map_of (rev devices) k"
  by (simp add: by_fingerprint_def by_fingerprint_fold split: option.split)

definition discovery_ok :: "'d discovery \<Rightarrow> bool" where
  "discovery_ok s \<longleftrightarrow>
     distinct (dv_running s) \<and> list_all (\<lambda>g. 0 < g \<and> g \<le> dv_generation s) (dv_running s)
     \<and> (dd_status (dv_snapshot s) = SvLoading) = (dv_generation s \<in> set (dv_running s))
     \<and> map_option snd (dv_pending s) = (if dv_generation s \<in> set (dv_running s) then Some (dv_generation s) else None)
     \<and> distinct (map fst (dd_devices (dv_snapshot s)))
     \<and> dv_snapshot s = last (no_discovery # dv_published s)"

lemma discovery_refresh_ok:
  assumes "discovery_ok s"
  shows "discovery_ok (discovery_refresh alias s)"
proof -
  have "Suc (dv_generation s) \<notin> set (dv_running s)"
    using assms by (auto simp: discovery_ok_def list_all_iff)
  then show ?thesis
    using assms
    by (auto simp: discovery_refresh_def scan_def discovery_update_def discovery_ok_def Let_def list_all_iff)
qed

lemma scan_settled_ok:
  assumes "discovery_ok s"
  shows "discovery_ok (scan_settled generation answer now s)"
proof (cases "generation \<in> set (dv_running s)")
  case True
  show ?thesis
  proof (cases "generation = dv_generation s")
    case True
    then show ?thesis
      using assms \<open>generation \<in> set (dv_running s)\<close> by_fingerprint_distinct
      by (cases answer)
        (auto simp: scan_settled_def discovery_update_def discovery_ok_def Let_def list_all_iff set_has_def set_delete_def)
  next
    case False
    then show ?thesis
      using assms \<open>generation \<in> set (dv_running s)\<close>
      by (auto simp: scan_settled_def discovery_ok_def Let_def list_all_iff set_has_def set_delete_def split: if_splits)
  qed
qed (use assms in \<open>simp add: scan_settled_def set_has_def\<close>)

lemma discovery_step_ok: "discovery_ok s \<Longrightarrow> discovery_ok (discovery_step e s)"
  by (cases e) (auto simp: openPicker_def discovery_refresh_ok scan_settled_ok)

lemma discovery_initial_ok: "discovery_ok createLocalSendDiscoveryController"
  by (simp add: discovery_ok_def createLocalSendDiscoveryController_def no_discovery_def)

lemma discovery_run_ok: "discovery_ok (discovery_run es)"
proof -
  have "discovery_ok s \<Longrightarrow> discovery_ok (fold discovery_step es s)" for s :: "'a discovery"
    by (induction es arbitrary: s) (simp_all add: discovery_step_ok)
  then show ?thesis
    unfolding discovery_run_def using discovery_initial_ok by blast
qed

section \<open>Properties\<close>

text \<open>However calls and answers interleave: the picker shows that it is looking for devices exactly while the newest
  scan has not answered, that scan is the one that a further call joins, what it shows is what was published last, and
  no device is shown twice. Answers of older scans change nothing.\<close>

theorem newest_scan_decides:
  "(let s = discovery_run es
    in (dd_status (dv_snapshot s) = SvLoading) = set_has (dv_running s) (dv_generation s)
       \<and> map_option snd (dv_pending s) = (if set_has (dv_running s) (dv_generation s) then Some (dv_generation s) else None)
       \<and> distinct (map fst (dd_devices (dv_snapshot s)))
       \<and> dv_snapshot s = last (no_discovery # dv_published s)
       \<and> dv_snapshot (scan_settled older answer now s) =
           (if older = dv_generation s then dv_snapshot (scan_settled (dv_generation s) answer now s) else dv_snapshot s))"
  using discovery_run_ok [of es]
  by (auto simp: Let_def discovery_ok_def set_has_def scan_settled_def)

text \<open>The default handlers have no such guard: an answer that comes late replaces the newer one, and while an effect still runs
  the dialog shows that it is ready. Here the entries were read before the default was set, and are shown afterwards.\<close>

lemma late_answer_replaces_newer:
  "handlers_run [None, None, Some (Inr ([''after''], True)), Some (Inr ([''before''], False))]
   = (\<lparr> dh_status = SvReady, dh_entries = [''before''], dh_canRestore = False, dh_error = None \<rparr>, 0)"
  by (simp add: handlers_run_def handler_event_def no_handlers_def handlers_started_def handlers_settled_def)

lemma handlers_settle:
  "snd (handlers_run es) = 0 \<or> dh_status (fst (handlers_run es)) \<noteq> SvIdle"
proof -
  have "dh_status (fst s) \<noteq> SvIdle \<or> snd s = 0 \<Longrightarrow>
    dh_status (fst (fold handler_event es s)) \<noteq> SvIdle \<or> snd (fold handler_event es s) = 0" for s :: "'a handler_snapshot \<times> nat"
    by (induction es arbitrary: s)
      (auto simp: handler_event_def handlers_started_def handlers_settled_def split: option.splits sum.splits prod.splits)
  then show ?thesis
    by (auto simp: handlers_run_def no_handlers_def)
qed

text \<open>A drag presents its task at most once, and says so only when it did.\<close>

lemma onDestination_once: "onDestination (onDestination calls) = onDestination calls"
  by (simp add: onDestination_def set_has_def)

lemma onDestination_power: "(onDestination ^^ n) calls = (if n = 0 then calls else onDestination calls)"
  by (induction n) (auto simp: onDestination_once)

lemma drag_presents_once:
  "count_list (fst (native_drag listens presents asked answer)) PresentTask \<le> 1"
  by (simp add: native_drag_def Let_def onDestination_power onDestination_def set_has_def)

text \<open>What is shown of a share is consistent: the percentage is one, a share that can be sent again has failed and cannot be
  cancelled, and one that is being worked on cannot be dismissed.\<close>

lemma presented_percent:
  "case ps_progress (presentShare item) of
     Some (processed, total', Some percent) \<Rightarrow> 0 \<le> percent \<and> percent \<le> 100
   | _ \<Rightarrow> True"
  by (auto simp: presentShare_def Let_def split: option.split)

lemma presented_actions:
  "ps_canRetry (presentShare item) \<Longrightarrow> \<not> ps_canCancel (presentShare item) \<and> \<not> ps_canSelectReceiver (presentShare item)"
  "ps_canDismiss (presentShare item) \<Longrightarrow> ps_status (presentShare item) \<notin> {ShCancelling, ShCompressing, ShSending, ShFinishing}"
  by (auto simp: presentShare_def Let_def split: if_splits)

end
