(* ===== verification/Account.thy ===== *)
theory Account
  imports JsonText NativeInbound
begin

text \<open>
  The account of the user: \<^verbatim>\<open>src/src/app/workspaces/accountWorkspace.ts\<close>,
  \<^verbatim>\<open>src/src/app/controllers/accountController.ts\<close> and the links of hosted sign-in,
  \<^verbatim>\<open>src/src/desktop/deepLinkAdapter.ts\<close>. An operation is a task that waits for one answer after the other; a step is
  the start of an operation, or the answer to a task, and tasks may interleave. The text of an error is part of the
  answer. Diagnostics are left out.
\<close>

section \<open>The snapshot of the backend\<close>

record account_certificate =
  crt_identityId :: string
  crt_certificateId :: string
  crt_certificateSha256 :: string
  crt_label :: "string option"
  crt_identityType :: string
  crt_state :: string
  crt_assuranceLevel :: string
  crt_notAfterUnixSeconds :: rat
  crt_renewalRecommended :: bool

record account_recipient_key =
  rck_keyId :: string
  rck_algorithm :: string
  rck_publicKeyFingerprint :: string
  rck_createdAtUnixSeconds :: rat
  rck_label :: "string option"
  rck_lifecycle :: string

record account_contact =
  cnt_contactId :: string
  cnt_displayName :: string
  cnt_publicSignerId :: "string option"
  cnt_signingCertificateSha256 :: string
  cnt_recipientPublicKeyFingerprint :: string
  cnt_verificationState :: string
  cnt_missingStatusCaveat :: bool
  cnt_phoneSourced :: "bool option"

record account_capabilities =
  cpb_auth :: string
  cpb_enrollment :: string
  cpb_status :: string
  cpb_accountManagement :: string

record account_dto =
  acd_authStatus :: string
  acd_pendingState :: "string option"
  acd_defaultSigningIdentityId :: "string option"
  acd_capabilities :: account_capabilities
  acd_certificates :: "account_certificate list"
  acd_recipientKeys :: "account_recipient_key list"
  acd_contacts :: "account_contact list"
  acd_displayName :: "string option"
  acd_publicSignerId :: "string option"
  acd_assuranceLevel :: "string option"
  acd_sessionExpiresAtUnixSeconds :: "rat option"

definition EMPTY_ACCOUNT :: account_dto where
  "EMPTY_ACCOUNT =
     \<lparr> acd_authStatus = ''signedOut'', acd_pendingState = None, acd_defaultSigningIdentityId = None,
       acd_capabilities = \<lparr> cpb_auth = ''launch_only'', cpb_enrollment = ''unavailable'', cpb_status = ''offline_cache_only'',
                            cpb_accountManagement = ''external_browser'' \<rparr>,
       acd_certificates = [], acd_recipientKeys = [], acd_contacts = [], acd_displayName = None,
       acd_publicSignerId = None, acd_assuranceLevel = None, acd_sessionExpiresAtUnixSeconds = None \<rparr>"

record contact_card_preview =
  ccp_displayName :: string
  ccp_signingCertificateSha256 :: string
  ccp_recipientPublicKeyFingerprint :: string
  ccp_trustSource :: string
  ccp_verificationState :: string
  ccp_missingStatusCaveat :: bool

record sync_counts =
  syc_imported :: nat
  syc_updated :: nat
  syc_removed :: nat
  syc_rejected :: nat
  syc_rejectedReasons :: "string list"
  syc_statusRefreshFailed :: nat

datatype account_result =
    PlainSnapshot account_dto
  | LifecycleResult account_dto string "string list"
  | ContactSyncResult account_dto rat sync_counts

section \<open>The workspace\<close>

record account_workspace =
  acw_value :: account_dto
  acw_visible :: bool
  acw_busy :: bool
  acw_notice :: string
  acw_contactCardPreview :: "contact_card_preview option"
  acw_pendingEnrollment :: bool
  acw_enrollmentResult :: "string option"
  acw_lifecycle :: "(string \<times> string) option"
  acw_lifecycleIncompleteReasons :: "string list"
  acw_lastContactSyncAt :: "rat option"
  acw_contactSyncCounts :: "sync_counts option"

definition createAccountWorkspace :: account_workspace where
  "createAccountWorkspace =
     \<lparr> acw_value = EMPTY_ACCOUNT, acw_visible = False, acw_busy = False, acw_notice = [], acw_contactCardPreview = None,
       acw_pendingEnrollment = False, acw_enrollmentResult = None, acw_lifecycle = None,
       acw_lifecycleIncompleteReasons = [], acw_lastContactSyncAt = None, acw_contactSyncCounts = None \<rparr>"

definition account_setBusy :: "bool \<Rightarrow> account_workspace \<Rightarrow> account_workspace" where
  "account_setBusy b w = w\<lparr> acw_busy := b \<rparr>"

definition account_setNotice :: "string \<Rightarrow> account_workspace \<Rightarrow> account_workspace" where
  "account_setNotice t w = w\<lparr> acw_notice := t \<rparr>"

definition account_replace :: "account_dto \<Rightarrow> account_workspace \<Rightarrow> account_workspace" where
  "account_replace v w = w\<lparr> acw_value := v \<rparr>"

definition setContactCardPreview :: "contact_card_preview option \<Rightarrow> account_workspace \<Rightarrow> account_workspace" where
  "setContactCardPreview p w = w\<lparr> acw_contactCardPreview := p \<rparr>"

definition setPendingEnrollment :: "bool \<Rightarrow> account_workspace \<Rightarrow> account_workspace" where
  "setPendingEnrollment b w = w\<lparr> acw_pendingEnrollment := b \<rparr>"

definition setEnrollmentResult :: "string option \<Rightarrow> account_workspace \<Rightarrow> account_workspace" where
  "setEnrollmentResult r w = w\<lparr> acw_enrollmentResult := r \<rparr>"

text \<open>The operation and the outcome of a lifecycle result are set and cleared together.\<close>

definition setLifecycleResult :: "string \<Rightarrow> string \<Rightarrow> string list \<Rightarrow> account_workspace \<Rightarrow> account_workspace" where
  "setLifecycleResult operation outcome reasons w =
     w\<lparr> acw_lifecycle := Some (operation, outcome), acw_lifecycleIncompleteReasons := reasons \<rparr>"

definition clearLifecycleResult :: "account_workspace \<Rightarrow> account_workspace" where
  "clearLifecycleResult w = w\<lparr> acw_lifecycle := None, acw_lifecycleIncompleteReasons := [] \<rparr>"

definition setContactSyncResult :: "rat \<Rightarrow> sync_counts \<Rightarrow> account_workspace \<Rightarrow> account_workspace" where
  "setContactSyncResult syncedAt counts w = w\<lparr> acw_lastContactSyncAt := Some syncedAt, acw_contactSyncCounts := Some counts \<rparr>"

section \<open>Operations\<close>

text \<open>
  \<open>RunTask\<close> waits for the operation given to \<open>run\<close>, \<open>RunExpired\<close> for the snapshot after the session expired; the flag
  says that a contact card is being accepted.
\<close>

datatype account_task =
    RunTask string bool
  | RunExpired bool
  | AuthLaunch | AuthOpen | AuthFetch
  | CallbackComplete | CallbackApply string | CallbackFetch string
  | FetchUser | FetchUserSnapshot | FetchUserExpired
  | InspectCard

text \<open>A failure is \<open>unauthorized\<close> or not, with its text. A launch whose address is none is a failure, too.\<close>

datatype account_answer =
    AnResult account_result
  | AnDone
  | AnPreview contact_card_preview
  | AnFailed bool string

definition EXPIRED_NOTICE :: string where
  "EXPIRED_NOTICE = ''Session expired. Please sign in again.''"

fun resultNotice :: "account_result \<Rightarrow> string" where
  "resultNotice (PlainSnapshot v) = []"
| "resultNotice (ContactSyncResult v syncedAt c) =
     ''Contacts synced: '' @ nat_string (syc_imported c) @ '' imported, '' @ nat_string (syc_updated c) @ '' updated, ''
     @ nat_string (syc_removed c) @ '' removed, '' @ nat_string (syc_rejected c) @ '' rejected''
     @ (if syc_statusRefreshFailed c \<noteq> 0
        then '', '' @ nat_string (syc_statusRefreshFailed c) @ '' status checks unavailable'' else [])
     @ ''.''"
| "resultNotice (LifecycleResult v outcome reasons) =
     (if outcome = ''complete'' then ''Account operation completed.''
      else if outcome = ''approval_required'' then ''The operation is waiting for device approval.''
      else if outcome = ''device_linkage_pending'' then ''Device linkage is pending.''
      else if outcome = ''device_linkage_conflict'' then ''Device linkage needs account attention.''
      else if outcome = ''incomplete'' then ''The operation is incomplete; review the affected devices.''
      else ''Account operation: '' @ outcome @ ''.'')"

fun result_snapshot :: "account_result \<Rightarrow> account_dto" where
  "result_snapshot (PlainSnapshot v) = v"
| "result_snapshot (LifecycleResult v _ _) = v"
| "result_snapshot (ContactSyncResult v _ _) = v"

text \<open>The part of \<open>run\<close> after its operation succeeded.\<close>

definition run_succeeded :: "string \<Rightarrow> account_result \<Rightarrow> account_workspace \<Rightarrow> account_workspace" where
  "run_succeeded actionName result w =
     (let w1 = account_setNotice (resultNotice result) (account_replace (result_snapshot result) w);
          w2 = (case result of
                  LifecycleResult v outcome reasons \<Rightarrow> setLifecycleResult actionName outcome reasons w1
                | _ \<Rightarrow> clearLifecycleResult w1)
      in case result of
           ContactSyncResult v syncedAt counts \<Rightarrow> setContactSyncResult syncedAt counts w2
         | _ \<Rightarrow> w2)"

text \<open>What an answer does, and the task that goes on (\<open>None\<close>: it has ended). An answer of another kind does not occur.\<close>

fun account_answered :: "account_task \<Rightarrow> account_answer \<Rightarrow> account_workspace \<Rightarrow> account_workspace \<times> account_task option" where
  "account_answered (RunTask actionName acc) (AnResult result) w = (run_succeeded actionName result w, None)"
| "account_answered (RunTask actionName acc) (AnFailed unauthorized message) w =
     (if unauthorized then (w, Some (RunExpired acc)) else (account_setNotice message w, None))"
| "account_answered (RunExpired acc) (AnResult result) w =
     (account_setNotice EXPIRED_NOTICE (account_replace (result_snapshot result) w), None)"
| "account_answered (RunExpired acc) (AnFailed _ _) w = (account_setNotice EXPIRED_NOTICE w, None)"
| "account_answered AuthLaunch AnDone w = (w, Some AuthOpen)"
| "account_answered AuthOpen AnDone w = (account_setNotice ''Hosted sign-in is pending.'' w, Some AuthFetch)"
| "account_answered AuthFetch (AnResult result) w = (account_replace (result_snapshot result) w, None)"
| "account_answered CallbackComplete (AnResult result) w =
     (account_setNotice ''Hosted sign-in completed.'' (account_replace (result_snapshot result) w), None)"
| "account_answered (CallbackApply res) AnDone w = (w, Some (CallbackFetch res))"
| "account_answered (CallbackFetch res) (AnResult result) w =
     (account_setNotice (''Hosted sign-in '' @ res @ ''.'') (account_replace (result_snapshot result) w), None)"
| "account_answered FetchUser AnDone w = (w, Some FetchUserSnapshot)"
| "account_answered FetchUserSnapshot (AnResult result) w = (account_replace (result_snapshot result) w, None)"
| "account_answered FetchUser (AnFailed unauthorized message) w =
     (if unauthorized then (w, Some FetchUserExpired) else (account_setNotice message w, None))"
| "account_answered FetchUserSnapshot (AnFailed unauthorized message) w =
     (if unauthorized then (w, Some FetchUserExpired) else (account_setNotice message w, None))"
| "account_answered FetchUserExpired (AnResult result) w =
     (account_setNotice EXPIRED_NOTICE (account_replace (result_snapshot result) w), None)"
| "account_answered FetchUserExpired (AnFailed _ _) w = (w, None)"
| "account_answered InspectCard (AnPreview p) w =
     (account_setNotice ''Contact card verified. Review it before accepting.'' (setContactCardPreview (Some p) w), None)"
| "account_answered InspectCard (AnFailed _ message) w = (account_setNotice message (setContactCardPreview None w), None)"
| "account_answered task (AnFailed _ message) w = (account_setNotice message w, None)"
| "account_answered task _ w = (w, Some task)"

record account =
  acc_workspace :: account_workspace
  acc_tasks :: "(nat \<times> account_task) list"
  acc_started :: nat
  acc_published :: "account_workspace list"

definition createAccountController :: account where
  "createAccountController =
     \<lparr> acc_workspace = createAccountWorkspace, acc_tasks = [], acc_started = 0, acc_published = [] \<rparr>"

definition publish_account :: "(account_workspace \<Rightarrow> account_workspace) \<Rightarrow> account \<Rightarrow> account" where
  "publish_account f s =
     (let w = f (acc_workspace s) in s\<lparr> acc_workspace := w, acc_published := acc_published s @ [w] \<rparr>)"

definition start_account_task :: "account_task \<Rightarrow> account \<Rightarrow> account" where
  "start_account_task task s =
     (let s1 = publish_account (account_setBusy True) s
      in s1\<lparr> acc_tasks := acc_tasks s1 @ [(acc_started s1, task)], acc_started := Suc (acc_started s1) \<rparr>)"

text \<open>The calls of the controller; those that only run an operation are named by their action.\<close>

datatype account_operation =
    RunOperation string
  | OpenAccount
  | CloseAccount
  | BeginHostedAuth
  | HandleHostedCallback hosted_auth_payload
  | HandleFetchUser
  | InspectContactCard
  | AcceptContactCard

definition callback_task :: "hosted_auth_payload \<Rightarrow> account_task" where
  "callback_task payload =
     (if ha_result payload = ''completed'' \<and> truthy (ha_handoffCode payload) then CallbackComplete
      else CallbackApply (ha_result payload))"

fun start_operation :: "account_operation \<Rightarrow> account \<Rightarrow> account" where
  "start_operation (RunOperation actionName) s = start_account_task (RunTask actionName False) s"
| "start_operation OpenAccount s =
     start_account_task (RunTask ''openSnapshot'' False) (publish_account (\<lambda>w. w\<lparr> acw_visible := True \<rparr>) s)"
| "start_operation CloseAccount s = publish_account (\<lambda>w. w\<lparr> acw_visible := False \<rparr>) s"
| "start_operation BeginHostedAuth s = start_account_task AuthLaunch s"
| "start_operation (HandleHostedCallback payload) s = start_account_task (callback_task payload) s"
| "start_operation HandleFetchUser s = start_account_task FetchUser s"
| "start_operation InspectContactCard s = start_account_task InspectCard s"
| "start_operation AcceptContactCard s = start_account_task (RunTask ''operation'' True) s"

fun accepts_card :: "account_task \<Rightarrow> bool" where
  "accepts_card (RunTask _ acc) = acc"
| "accepts_card (RunExpired acc) = acc"
| "accepts_card _ = False"

text \<open>The answer to a task; when it has ended, the \<open>finally\<close>, and for an accepted card what follows \<open>run\<close>.\<close>

definition answer_task :: "nat \<Rightarrow> account_answer \<Rightarrow> account \<Rightarrow> account" where
  "answer_task n answer s =
     (case map_of (acc_tasks s) n of
        None \<Rightarrow> s
      | Some task \<Rightarrow>
          (case account_answered task answer (acc_workspace s) of
             (w, Some task') \<Rightarrow>
               s\<lparr> acc_workspace := w, acc_tasks := map (\<lambda>t. if fst t = n then (n, task') else t) (acc_tasks s) \<rparr>
           | (w, None) \<Rightarrow>
               (let s1 = publish_account (account_setBusy False)
                           (s\<lparr> acc_workspace := w, acc_tasks := filter (\<lambda>t. fst t \<noteq> n) (acc_tasks s) \<rparr>)
                in if accepts_card task then publish_account (setContactCardPreview None) s1 else s1)))"

datatype account_event = StartOperation account_operation | AnswerTask nat account_answer

fun account_step :: "account_event \<Rightarrow> account \<Rightarrow> account" where
  "account_step (StartOperation op) s = start_operation op s"
| "account_step (AnswerTask n answer) s = answer_task n answer s"

definition account_run :: "account_event list \<Rightarrow> account" where
  "account_run es = fold account_step es createAccountController"

section \<open>Links of hosted sign-in\<close>

text \<open>The parts of an address that \<open>URL\<close> gives.\<close>

record parsed_url =
  url_protocol :: string
  url_hostname :: string
  url_host :: string
  url_pathname :: string
  url_searchParams :: "(string \<times> string) list"

definition HOSTED_AUTH_RESULTS :: "string list" where
  "HOSTED_AUTH_RESULTS = [''completed'', ''cancelled'', ''failed'']"

definition FORBIDDEN_HOSTED_AUTH_QUERY_KEYS :: "string list" where
  "FORBIDDEN_HOSTED_AUTH_QUERY_KEYS =
     [''code'', ''token'', ''access_token'', ''authorization_code'', ''password'', ''relay_body'', ''session_token'',
      ''refresh_token'', ''id_token'']"

definition token_char :: "char \<Rightarrow> bool" where
  "token_char c \<longleftrightarrow>
     (let n = of_char c :: nat
      in 65 \<le> n \<and> n \<le> 90 \<or> 97 \<le> n \<and> n \<le> 122 \<or> 48 \<le> n \<and> n \<le> 57 \<or> c = CHR ''_'' \<or> c = CHR ''-'')"

definition handoff_char :: "char \<Rightarrow> bool" where
  "handoff_char c \<longleftrightarrow> token_char c \<or> c = CHR ''.'' \<or> c = CHR ''~''"

definition isBoundedToken :: "(char \<Rightarrow> bool) \<Rightarrow> string \<Rightarrow> nat \<Rightarrow> nat \<Rightarrow> bool" where
  "isBoundedToken allowed v minimum maximum \<longleftrightarrow>
     minimum \<le> length v \<and> length v \<le> maximum \<and> v \<noteq> [] \<and> list_all allowed v"

definition parseHostedAuthCallbackUrl :: "(string \<Rightarrow> parsed_url option) \<Rightarrow> string \<Rightarrow> hosted_auth_payload option" where
  "parseHostedAuthCallbackUrl url_parse urlStr =
     (case url_parse urlStr of
        None \<Rightarrow> None
      | Some url \<Rightarrow>
          (let isCurrentCallback =
                 (url_protocol url = ''tzap:'' \<and> url_hostname url = ''auth'' \<and> url_pathname url = ''/callback'');
               isLegacyCallback =
                 (url_protocol url = ''zmanager:'' \<and> url_hostname url = ''auth-callback'' \<and> url_pathname url = [])
           in if \<not> isCurrentCallback \<and> \<not> isLegacyCallback then None
              else if list_ex (\<lambda>p. set_has FORBIDDEN_HOSTED_AUTH_QUERY_KEYS (js_lower (fst p))) (url_searchParams url) then None
              else let state = nullish (map_of (url_searchParams url) ''state'') [];
                       res = nullish (map_of (url_searchParams url) ''result'') []
                   in if \<not> isBoundedToken token_char state 16 256 \<or> \<not> set_has HOSTED_AUTH_RESULTS res then None
                      else let handoffCode =
                                 (if res = ''completed'' then map_of (url_searchParams url) ''handoff_code'' else None)
                           in if res = ''completed''
                                 \<and> (\<not> truthy handoffCode \<or> \<not> isBoundedToken handoff_char (nullish handoffCode []) 16 2048)
                              then None
                              else let errorCode = map_of (url_searchParams url) ''error_code''
                                   in Some \<lparr> ha_state = state, ha_result = res,
                                        ha_errorCode = (if truthy errorCode \<and> length (nullish errorCode []) \<le> 128
                                                        then errorCode else None),
                                        ha_handoffCode = (if truthy handoffCode then handoffCode else None),
                                        ha_callbackUrl = Some (url_protocol url @ ''//'' @ url_host url @ url_pathname url) \<rparr>))"

text \<open>The handler of \<open>initializeDeepLinkAdapter\<close>: every link that is a callback starts an operation.\<close>

definition handleUrls :: "(string \<Rightarrow> parsed_url option) \<Rightarrow> string list \<Rightarrow> account \<Rightarrow> account" where
  "handleUrls url_parse urls s =
     fold (\<lambda>urlStr s. case parseHostedAuthCallbackUrl url_parse urlStr of
                        None \<Rightarrow> s
                      | Some payload \<Rightarrow> start_operation (HandleHostedCallback payload) s) urls s"

section \<open>Lemmas\<close>

lemma workspace_simps [simp]:
  "acw_busy (account_setBusy b w) = b" "acw_busy (account_setNotice t w) = acw_busy w"
  "acw_busy (account_replace v w) = acw_busy w" "acw_busy (setContactCardPreview p w) = acw_busy w"
  "acw_value (account_setBusy b w) = acw_value w" "acw_value (account_setNotice t w) = acw_value w"
  "acw_value (account_replace v w) = v" "acw_value (setContactCardPreview p w) = acw_value w"
  by (simp_all add: account_setBusy_def account_setNotice_def account_replace_def setContactCardPreview_def)

lemma run_succeeded_value [simp]: "acw_value (run_succeeded actionName r w) = result_snapshot r"
  by (cases r) (simp_all add: run_succeeded_def Let_def setLifecycleResult_def clearLifecycleResult_def setContactSyncResult_def)

lemma publish_simps [simp]:
  "acc_tasks (publish_account f s) = acc_tasks s" "acc_started (publish_account f s) = acc_started s"
  "acc_workspace (publish_account f s) = f (acc_workspace s)"
  "acc_published (publish_account f s) = acc_published s @ [f (acc_workspace s)]"
  by (simp_all add: publish_account_def Let_def)

lemma start_simps [simp]:
  "acc_tasks (start_account_task t s) = acc_tasks s @ [(acc_started s, t)]"
  "acc_started (start_account_task t s) = Suc (acc_started s)"
  "acc_workspace (start_account_task t s) = account_setBusy True (acc_workspace s)"
  by (simp_all add: start_account_task_def Let_def)

text \<open>An answer of the kind a task waits for, and how many answers a task still takes at most.\<close>

fun answer_fits :: "account_task \<Rightarrow> account_answer \<Rightarrow> bool" where
  "answer_fits _ (AnFailed _ _) = True"
| "answer_fits (RunTask _ _) (AnResult _) = True"
| "answer_fits (RunExpired _) (AnResult _) = True"
| "answer_fits AuthLaunch AnDone = True"
| "answer_fits AuthOpen AnDone = True"
| "answer_fits AuthFetch (AnResult _) = True"
| "answer_fits CallbackComplete (AnResult _) = True"
| "answer_fits (CallbackApply _) AnDone = True"
| "answer_fits (CallbackFetch _) (AnResult _) = True"
| "answer_fits FetchUser AnDone = True"
| "answer_fits FetchUserSnapshot (AnResult _) = True"
| "answer_fits FetchUserExpired (AnResult _) = True"
| "answer_fits InspectCard (AnPreview _) = True"
| "answer_fits _ _ = False"

fun answers_left :: "account_task \<Rightarrow> nat" where
  "answers_left (RunTask _ _) = 2"
| "answers_left AuthLaunch = 3"
| "answers_left AuthOpen = 2"
| "answers_left (CallbackApply _) = 2"
| "answers_left FetchUser = 3"
| "answers_left FetchUserSnapshot = 2"
| "answers_left _ = 1"

definition remaining :: "account \<Rightarrow> nat" where
  "remaining s = sum_list (map (\<lambda>t. answers_left (snd t)) (acc_tasks s))"

lemma answered_advances:
  "answer_fits t a \<Longrightarrow> case snd (account_answered t a w) of None \<Rightarrow> True | Some t' \<Rightarrow> answers_left t' < answers_left t"
  by (cases "(t, a, w)" rule: account_answered.cases) auto

lemma answers_left_positive: "0 < answers_left t"
  by (cases t) simp_all

lemma sum_replaced:
  assumes "distinct (map fst ts)" "map_of ts n = Some t" "f t' < (f t :: nat)"
  shows "sum_list (map (\<lambda>u. f (snd u)) (map (\<lambda>u. if fst u = n then (n, t') else u) ts)) < sum_list (map (\<lambda>u. f (snd u)) ts)"
  using assms
proof (induction ts)
  case (Cons u ts)
  show ?case
  proof (cases "fst u = n")
    case True
    then have "n \<notin> fst ` set ts"
      using Cons.prems by auto
    then have "map (\<lambda>u. if fst u = n then (n, t') else u) ts = ts"
      by (intro map_idI) (auto simp: image_iff)
    then show ?thesis
      using Cons.prems True by (cases u) auto
  qed (use Cons in auto)
qed simp

lemma sum_removed:
  assumes "map_of ts n = Some t" "0 < (f t :: nat)"
  shows "sum_list (map (\<lambda>u. f (snd u)) (filter (\<lambda>u. fst u \<noteq> n) ts)) < sum_list (map (\<lambda>u. f (snd u)) ts)"
  using assms
proof (induction ts)
  case (Cons u ts)
  have "sum_list (map (\<lambda>u. f (snd u)) (filter (\<lambda>u. fst u \<noteq> n) ts)) \<le> sum_list (map (\<lambda>u. f (snd u)) ts)"
    by (induction ts) auto
  with Cons show ?case
    by (cases u) (auto split: if_splits)
qed simp

definition account_ok :: "account \<Rightarrow> bool" where
  "account_ok s \<longleftrightarrow>
     distinct (map fst (acc_tasks s)) \<and> list_all (\<lambda>t. fst t < acc_started s) (acc_tasks s)
     \<and> (acc_tasks s = [] \<longrightarrow> \<not> acw_busy (acc_workspace s)
                         \<and> acc_workspace s = last (createAccountWorkspace # acc_published s))"

lemma answer_task_ok:
  assumes "account_ok s"
  shows "account_ok (answer_task n answer s)"
proof (cases "map_of (acc_tasks s) n")
  case (Some task)
  then have member: "(n, task) \<in> set (acc_tasks s)"
    by (rule map_of_SomeD)
  obtain w t' where a: "account_answered task answer (acc_workspace s) = (w, t')"
    by force
  have keys: "map fst (map (\<lambda>t. if fst t = n then (n, x) else t) ts) = map fst ts" for x and ts :: "(nat \<times> account_task) list"
    by (induction ts) auto
  show ?thesis
  proof (cases t')
    case None
    then show ?thesis
      using assms by (auto simp: answer_task_def Some a account_ok_def Let_def list_all_iff distinct_map_filter)
  next
    case (Some x)
    have "acc_tasks s \<noteq> []"
      using member by auto
    with Some show ?thesis
      using assms keys [of x "acc_tasks s"]
      by (auto simp: answer_task_def \<open>map_of (acc_tasks s) n = Some task\<close> a account_ok_def list_all_iff simp del: map_map
          split: if_splits)
  qed
qed (use assms in \<open>simp add: answer_task_def\<close>)

lemma start_operation_ok:
  assumes "account_ok s"
  shows "account_ok (start_operation op s)"
  using assms
  by (cases op) (auto simp: account_ok_def list_all_iff account_setBusy_def less_Suc_eq)

lemma account_run_ok: "account_ok (account_run es)"
proof -
  have step: "account_ok s \<Longrightarrow> account_ok (account_step e s)" for e s
    by (cases e) (simp_all add: answer_task_ok start_operation_ok)
  have "account_ok s \<Longrightarrow> account_ok (fold account_step es s)" for s
    by (induction es arbitrary: s) (simp_all add: step)
  moreover have "account_ok createAccountController"
    by (simp add: account_ok_def createAccountController_def createAccountWorkspace_def)
  ultimately show ?thesis
    unfolding account_run_def by blast
qed

lemma answer_remaining:
  assumes "account_ok s" "map_of (acc_tasks s) n = Some task" "answer_fits task answer"
  shows "remaining (answer_task n answer s) < remaining s"
proof -
  obtain w t' where a: "account_answered task answer (acc_workspace s) = (w, t')"
    by force
  show ?thesis
  proof (cases t')
    case None
    then show ?thesis
      using sum_removed [of "acc_tasks s" n task answers_left] assms(2) answers_left_positive
      by (simp add: answer_task_def a remaining_def Let_def)
  next
    case (Some x)
    then have "answers_left x < answers_left task"
      using answered_advances [OF assms(3), of "acc_workspace s"] a by simp
    with Some show ?thesis
      using sum_replaced [of "acc_tasks s" n task answers_left x] assms(1,2)
      by (simp add: answer_task_def a remaining_def account_ok_def)
  qed
qed

lemma remaining_zero: "(remaining s = 0) = (acc_tasks s = [])"
  using answers_left_positive by (cases "acc_tasks s") (simp_all add: remaining_def)

fun answered_snapshots :: "account_event \<Rightarrow> account_dto list" where
  "answered_snapshots (AnswerTask n (AnResult r)) = [result_snapshot r]"
| "answered_snapshots _ = []"

lemma answered_value:
  "acw_value (fst (account_answered t a w)) = (case a of
     AnResult r \<Rightarrow> (if answer_fits t a then result_snapshot r else acw_value w) | _ \<Rightarrow> acw_value w)"
  by (cases "(t, a, w)" rule: account_answered.cases) auto

lemma answer_value:
  "acw_value (acc_workspace (answer_task n a s)) \<in> set (acw_value (acc_workspace s) # answered_snapshots (AnswerTask n a))"
proof (cases "map_of (acc_tasks s) n")
  case (Some t)
  obtain w t' where r: "account_answered t a (acc_workspace s) = (w, t')"
    by force
  then have w: "w = fst (account_answered t a (acc_workspace s))"
    by simp
  have "acw_value (acc_workspace (answer_task n a s)) = acw_value w"
    by (auto simp: answer_task_def Some r Let_def split: option.split)
  also have "\<dots> \<in> set (acw_value (acc_workspace s) # answered_snapshots (AnswerTask n a))"
    unfolding w by (cases a) (auto simp: answered_value)
  finally show ?thesis .
qed (simp add: answer_task_def)

lemma start_value: "acw_value (acc_workspace (start_operation op s)) = acw_value (acc_workspace s)"
  by (cases op) simp_all

lemma step_value:
  "acw_value (acc_workspace (account_step e s)) \<in> set (acw_value (acc_workspace s) # answered_snapshots e)"
proof (cases e)
  case (AnswerTask n a)
  then show ?thesis
    using answer_value [of n a s] by simp
qed (simp add: start_value)

lemma fold_value:
  "acw_value (acc_workspace (fold account_step es s))
     \<in> set (acw_value (acc_workspace s) # concat (map answered_snapshots es))"
proof (induction es arbitrary: s)
  case (Cons e es)
  show ?case
    using Cons.IH [of "account_step e s"] step_value [of e s] by auto
qed simp

lemma parsed_payload:
  assumes "parseHostedAuthCallbackUrl url_parse link = Some payload" "url_parse link = Some url"
  defines "res \<equiv> nullish (map_of (url_searchParams url) ''result'') []"
  defines "code \<equiv> if res = ''completed'' then map_of (url_searchParams url) ''handoff_code'' else None"
  shows "(url_protocol url, url_hostname url, url_pathname url)
           \<in> {(''tzap:'', ''auth'', ''/callback''), (''zmanager:'', ''auth-callback'', [])}"
    and "\<not> list_ex (\<lambda>p. set_has FORBIDDEN_HOSTED_AUTH_QUERY_KEYS (js_lower (fst p))) (url_searchParams url)"
    and "isBoundedToken token_char (nullish (map_of (url_searchParams url) ''state'') []) 16 256"
    and "set_has HOSTED_AUTH_RESULTS res"
    and "res = ''completed'' \<Longrightarrow> truthy code \<and> isBoundedToken handoff_char (nullish code []) 16 2048"
    and "ha_state payload = nullish (map_of (url_searchParams url) ''state'') []"
    and "ha_result payload = res" "ha_handoffCode payload = (if truthy code then code else None)"
    and "length (nullish (ha_errorCode payload) []) \<le> 128"
  using assms(1,2) unfolding parseHostedAuthCallbackUrl_def Let_def code_def res_def
  by (auto split: if_splits)

lemma parsed_callback:
  assumes "parseHostedAuthCallbackUrl url_parse link = Some payload" "url_parse link = Some url"
  shows "(url_protocol url, url_hostname url, url_pathname url)
           \<in> {(''tzap:'', ''auth'', ''/callback''), (''zmanager:'', ''auth-callback'', [])}
         \<and> list_all (\<lambda>p. js_lower (fst p) \<notin> set FORBIDDEN_HOSTED_AUTH_QUERY_KEYS) (url_searchParams url)
         \<and> map_of (url_searchParams url) ''state'' = Some (ha_state payload)
         \<and> isBoundedToken token_char (ha_state payload) 16 256
         \<and> ha_result payload \<in> set HOSTED_AUTH_RESULTS
         \<and> length (nullish (ha_errorCode payload) []) \<le> 128"
proof (intro conjI)
  note f = parsed_payload [OF assms]
  show "(url_protocol url, url_hostname url, url_pathname url)
           \<in> {(''tzap:'', ''auth'', ''/callback''), (''zmanager:'', ''auth-callback'', [])}"
    by (rule f(1))
  show "list_all (\<lambda>p. js_lower (fst p) \<notin> set FORBIDDEN_HOSTED_AUTH_QUERY_KEYS) (url_searchParams url)"
    using f(2) by (auto simp: list_all_iff list_ex_iff set_has_def)
  show "map_of (url_searchParams url) ''state'' = Some (ha_state payload)"
    using f(3,6) by (cases "map_of (url_searchParams url) ''state''") (simp_all add: isBoundedToken_def)
  show "isBoundedToken token_char (ha_state payload) 16 256"
    using f(3,6) by simp
  show "ha_result payload \<in> set HOSTED_AUTH_RESULTS"
    using f(4,7) by (simp add: set_has_def)
  show "length (nullish (ha_errorCode payload) []) \<le> 128"
    by (rule f(9))
qed

lemma parsed_handoff:
  assumes "parseHostedAuthCallbackUrl url_parse link = Some payload" "url_parse link = Some url"
  shows "case ha_handoffCode payload of
      None \<Rightarrow> ha_result payload \<noteq> ''completed''
    | Some code \<Rightarrow> ha_result payload = ''completed'' \<and> isBoundedToken handoff_char code 16 2048"
proof -
  note f = parsed_payload [OF assms]
  show ?thesis
    using f(5,7,8) by (auto simp: truthy_def split: if_splits option.splits)
qed

section \<open>Properties\<close>

text \<open>However the operations of the account and their answers interleave: when no operation runs, the window does not show
  that one does and shows what was published last; every answer of the kind an operation waits for, a failure in
  particular, brings the operations nearer to their end, at which none runs; and the account that is shown is one that the
  backend answered.\<close>

theorem account_operations_end:
  "(let s = account_run es
    in (remaining s = 0) = (acc_tasks s = [])
       \<and> (if acc_tasks s = [] then \<not> acw_busy (acc_workspace s) \<and> acc_workspace s = last (createAccountWorkspace # acc_published s)
          else True)
       \<and> (case map_of (acc_tasks s) n of
            None \<Rightarrow> answer_task n answer s = s
          | Some task \<Rightarrow> if answer_fits task answer then remaining (answer_task n answer s) < remaining s else True)
       \<and> acw_value (acc_workspace s) \<in> set (EMPTY_ACCOUNT # concat (map answered_snapshots es)))"
proof -
  have ok: "account_ok (account_run es)"
    by (rule account_run_ok)
  have v: "acw_value (acc_workspace (account_run es)) \<in> set (EMPTY_ACCOUNT # concat (map answered_snapshots es))"
    using fold_value [of es createAccountController]
    by (simp add: account_run_def createAccountController_def createAccountWorkspace_def)
  show ?thesis
    unfolding Let_def
    using ok v answer_remaining [OF ok, of n]
    by (auto simp: remaining_zero account_ok_def answer_task_def split: option.split)
qed

text \<open>The flag is not counted: when one of two operations ends, the window is offered again although the other still runs.\<close>

lemma busy_ends_early:
  "(let s = account_run [StartOperation OpenAccount, StartOperation BeginHostedAuth, AnswerTask 0 (AnFailed False ''offline'')]
    in map snd (acc_tasks s) = [AuthLaunch] \<and> \<not> acw_busy (acc_workspace s))"
  by code_simp

text \<open>A link that is taken for the end of a sign-in is the callback of the application, carries none of the parameters that
  would reveal a secret, names the attempt by a token of 16 to 256 characters, and brings a code of 16 to 2048
  characters exactly when the sign-in is said to be completed; every other link starts nothing.\<close>

theorem callbacks_are_checked:
  "(case parseHostedAuthCallbackUrl url_parse link of
      None \<Rightarrow> handleUrls url_parse [link] s = s
    | Some payload \<Rightarrow>
        (case url_parse link of
           None \<Rightarrow> False
         | Some url \<Rightarrow>
             (url_protocol url, url_hostname url, url_pathname url)
               \<in> {(''tzap:'', ''auth'', ''/callback''), (''zmanager:'', ''auth-callback'', [])}
             \<and> list_all (\<lambda>p. js_lower (fst p) \<notin> set FORBIDDEN_HOSTED_AUTH_QUERY_KEYS) (url_searchParams url)
             \<and> map_of (url_searchParams url) ''state'' = Some (ha_state payload))
        \<and> isBoundedToken token_char (ha_state payload) 16 256
        \<and> ha_result payload \<in> set HOSTED_AUTH_RESULTS
        \<and> (case ha_handoffCode payload of
             None \<Rightarrow> ha_result payload \<noteq> ''completed''
           | Some code \<Rightarrow> ha_result payload = ''completed'' \<and> isBoundedToken handoff_char code 16 2048)
        \<and> length (nullish (ha_errorCode payload) []) \<le> 128
        \<and> map snd (acc_tasks (handleUrls url_parse [link] s)) = map snd (acc_tasks s) @ [callback_task payload])"
proof (cases "parseHostedAuthCallbackUrl url_parse link")
  case (Some payload)
  obtain url where url: "url_parse link = Some url"
    using Some by (auto simp: parseHostedAuthCallbackUrl_def split: option.splits)
  have "handleUrls url_parse [link] s = start_operation (HandleHostedCallback payload) s"
    by (simp add: handleUrls_def Some)
  then show ?thesis
    using parsed_callback [OF Some url] parsed_handoff [OF Some url] by (simp add: Some url)
qed (simp add: handleUrls_def)

end
