(* ===== verification/Gestures.thy ===== *)
theory Gestures
  imports ArchiveTable
begin

text \<open>
  What dragging does: resizing the panes (\<^verbatim>\<open>src/src/ui/react/interaction/PaneResizer.tsx\<close>,
  \<^verbatim>\<open>ResizablePaneContext.tsx\<close>), selecting rows with a rectangle
  (\<^verbatim>\<open>src/src/ui/react/workspace/tableMarqueeSelection.ts\<close>) and moving columns (\<^verbatim>\<open>useTableColumnReorder.ts\<close>).
  A step is an event of the pointer or the keyboard; what the document answers (the element under the pointer, the
  rectangles of the rows) is part of it. Coordinates are exact numbers; pointer capture and styles are left out.
\<close>

section \<open>Panes\<close>

datatype pane = NavigationPane | DetailsPane

definition paneWidthBounds :: "pane \<Rightarrow> rat \<times> rat" where
  "paneWidthBounds pane = (case pane of NavigationPane \<Rightarrow> (150, 360) | DetailsPane \<Rightarrow> (220, 520))"

definition clampResizablePaneWidth :: "pane \<Rightarrow> rat \<Rightarrow> rat" where
  "clampResizablePaneWidth pane width =
     (case paneWidthBounds pane of (minimum, maximum) \<Rightarrow> max minimum (min width maximum))"

record pane_drag =
  pd_pointerId :: int
  pd_startWidth :: rat
  pd_startX :: rat

record pane_layout =
  pl_navigationWidth :: rat
  pl_detailsWidth :: rat

definition default_layout :: pane_layout where
  "default_layout = \<lparr> pl_navigationWidth = 190, pl_detailsWidth = 280 \<rparr>"

definition pane_width :: "pane \<Rightarrow> pane_layout \<Rightarrow> rat" where
  "pane_width pane layout =
     (case pane of NavigationPane \<Rightarrow> pl_navigationWidth layout | DetailsPane \<Rightarrow> pl_detailsWidth layout)"

definition set_pane_width :: "pane \<Rightarrow> rat \<Rightarrow> pane_layout \<Rightarrow> pane_layout" where
  "set_pane_width pane width layout =
     (case pane of NavigationPane \<Rightarrow> layout\<lparr> pl_navigationWidth := width \<rparr>
                 | DetailsPane \<Rightarrow> layout\<lparr> pl_detailsWidth := width \<rparr>)"

definition startPaneResize :: "int \<Rightarrow> int \<Rightarrow> rat \<Rightarrow> rat \<Rightarrow> pane_drag option \<Rightarrow> pane_drag option" where
  "startPaneResize button pointerId clientX width drag =
     (if button \<noteq> 0 then drag
      else Some \<lparr> pd_pointerId = pointerId, pd_startWidth = width, pd_startX = clientX \<rparr>)"

text \<open>The new width of the pane, if the pointer is the one that drags.\<close>

definition continuePaneResize :: "pane \<Rightarrow> int \<Rightarrow> rat \<Rightarrow> pane_drag option \<Rightarrow> rat option" where
  "continuePaneResize pane pointerId clientX drag =
     (case drag of
        None \<Rightarrow> None
      | Some d \<Rightarrow>
          if pd_pointerId d \<noteq> pointerId then None
          else let delta = clientX - pd_startX d
               in Some (clampResizablePaneWidth pane
                    (if pane = NavigationPane then pd_startWidth d + delta else pd_startWidth d - delta)))"

definition endPaneResize :: "int \<Rightarrow> pane_drag option \<Rightarrow> pane_drag option" where
  "endPaneResize pointerId drag = (if map_option pd_pointerId drag \<noteq> Some pointerId then drag else None)"

definition PANE_RESIZE_KEYBOARD_STEP_PX :: rat where
  "PANE_RESIZE_KEYBOARD_STEP_PX = 16"

definition PANE_RESIZE_KEYBOARD_LARGE_STEP_PX :: rat where
  "PANE_RESIZE_KEYBOARD_LARGE_STEP_PX = 48"

definition resizePaneByKeyboard :: "string \<Rightarrow> bool \<Rightarrow> pane \<Rightarrow> rat \<Rightarrow> rat option" where
  "resizePaneByKeyboard key shiftKey pane currentWidth =
     (let step = (if shiftKey then PANE_RESIZE_KEYBOARD_LARGE_STEP_PX else PANE_RESIZE_KEYBOARD_STEP_PX);
          nextWidth =
            (if key = ''ArrowLeft'' \<or> key = ''ArrowDown''
             then Some (if pane = NavigationPane then currentWidth - step else currentWidth + step)
             else if key = ''ArrowRight'' \<or> key = ''ArrowUp''
             then Some (if pane = NavigationPane then currentWidth + step else currentWidth - step)
             else if key = ''Home'' then Some (fst (paneWidthBounds pane))
             else if key = ''End'' then Some (snd (paneWidthBounds pane))
             else None)
      in map_option (clampResizablePaneWidth pane) nextWidth)"

text \<open>The widths for which there is a class, in the order of the keys.\<close>

definition width_classes :: "pane \<Rightarrow> nat list" where
  "width_classes pane =
     (case pane of
        NavigationPane \<Rightarrow> [150, 166, 182, 198, 214, 230, 246, 262, 278, 294, 310, 326, 342, 358, 360]
      | DetailsPane \<Rightarrow> [220, 236, 252, 268, 284, 300, 316, 332, 348, 364, 380, 396, 412, 428, 444, 460, 476, 492, 508, 520])"

definition closest_width :: "nat list \<Rightarrow> rat \<Rightarrow> nat" where
  "closest_width widths width =
     fold (\<lambda>candidate best. if \<bar>of_nat candidate - width\<bar> < \<bar>of_nat best - width\<bar> then candidate else best)
       (tl widths) (hd widths)"

definition resizablePaneWidthClass :: "pane \<Rightarrow> rat \<Rightarrow> string" where
  "resizablePaneWidthClass pane width = ''w-['' @ nat_string (closest_width (width_classes pane) width) @ ''px]''"

text \<open>The two resizers: each has its drag.\<close>

datatype pane_event =
    PanePointerDown pane int int rat
  | PanePointerMove pane int rat
  | PanePointerEnd pane int
  | PaneKeyDown pane string bool

record panes =
  pn_layout :: pane_layout
  pn_drag :: "pane \<Rightarrow> pane_drag option"

definition panes_at_start :: panes where
  "panes_at_start = \<lparr> pn_layout = default_layout, pn_drag = (\<lambda>_. None) \<rparr>"

definition set_width_if :: "pane \<Rightarrow> rat option \<Rightarrow> panes \<Rightarrow> panes" where
  "set_width_if pane width s =
     (case width of None \<Rightarrow> s | Some w \<Rightarrow> s\<lparr> pn_layout := set_pane_width pane w (pn_layout s) \<rparr>)"

fun pane_step :: "pane_event \<Rightarrow> panes \<Rightarrow> panes" where
  "pane_step (PanePointerDown pane button pointerId clientX) s =
     s\<lparr> pn_drag := (pn_drag s)(pane :=
       startPaneResize button pointerId clientX (pane_width pane (pn_layout s)) (pn_drag s pane)) \<rparr>"
| "pane_step (PanePointerMove pane pointerId clientX) s =
     set_width_if pane (continuePaneResize pane pointerId clientX (pn_drag s pane)) s"
| "pane_step (PanePointerEnd pane pointerId) s =
     s\<lparr> pn_drag := (pn_drag s)(pane := endPaneResize pointerId (pn_drag s pane)) \<rparr>"
| "pane_step (PaneKeyDown pane key shiftKey) s =
     set_width_if pane (resizePaneByKeyboard key shiftKey pane (pane_width pane (pn_layout s))) s"

definition pane_run :: "pane_event list \<Rightarrow> panes" where
  "pane_run es = fold pane_step es panes_at_start"

section \<open>Selecting with a rectangle\<close>

record viewport_rect =
  vr_left :: rat
  vr_top :: rat
  vr_width :: rat
  vr_height :: rat

definition viewportRectBetween :: "rat \<Rightarrow> rat \<Rightarrow> rat \<Rightarrow> rat \<Rightarrow> viewport_rect" where
  "viewportRectBetween startX startY endX endY =
     (let l = min startX endX; t = min startY endY; r = max startX endX; b = max startY endY
      in \<lparr> vr_left = l, vr_top = t, vr_width = r - l, vr_height = b - t \<rparr>)"

text \<open>A row is its path, if it has one, and its rectangle.\<close>

definition rowPathsInViewportRect :: "(string option \<times> viewport_rect) list \<Rightarrow> viewport_rect \<Rightarrow> string list" where
  "rowPathsInViewportRect rows rect =
     concat (map (\<lambda>(path, row).
       let intersects = (vr_left row \<le> vr_left rect + vr_width rect \<and> vr_left rect \<le> vr_left row + vr_width row
                         \<and> vr_top row \<le> vr_top rect + vr_height rect \<and> vr_top rect \<le> vr_top row + vr_height row)
       in if intersects \<and> truthy path then [nullish path []] else []) rows)"

record marquee_gesture =
  mq_pointerId :: int
  mq_startX :: rat
  mq_startY :: rat
  mq_started :: bool
  mq_additive :: bool
  mq_baseSelection :: "string list"
  mq_visiblePaths :: "string list"

text \<open>\<open>Math.hypot(a, b) < limit\<close>.\<close>

definition nearer_than :: "rat \<Rightarrow> rat \<Rightarrow> rat \<Rightarrow> bool" where
  "nearer_than limit a b \<longleftrightarrow> a * a + b * b < limit * limit"

definition MARQUEE_SELECTION_THRESHOLD_PX :: rat where
  "MARQUEE_SELECTION_THRESHOLD_PX = 5"

record pointer_event =
  pt_pointerId :: int
  pt_clientX :: rat
  pt_clientY :: rat
  pt_ctrlKey :: bool
  pt_metaKey :: bool
  pt_shiftKey :: bool

definition armTableMarqueeSelectionGesture ::
    "bool \<Rightarrow> pointer_event \<Rightarrow> string list \<Rightarrow> string list \<Rightarrow> marquee_gesture option \<Rightarrow> marquee_gesture option" where
  "armTableMarqueeSelectionGesture canStart e selectedPaths visiblePaths gesture =
     (if \<not> canStart then gesture
      else Some \<lparr> mq_pointerId = pt_pointerId e, mq_startX = pt_clientX e, mq_startY = pt_clientY e, mq_started = False,
                  mq_additive = (pt_ctrlKey e \<or> pt_metaKey e \<or> pt_shiftKey e),
                  mq_baseSelection = js_set selectedPaths, mq_visiblePaths = visiblePaths \<rparr>)"

text \<open>The gesture afterwards, and the rectangle and the selection that are shown, if they change.\<close>

definition continueTableMarqueeSelectionGesture ::
    "pointer_event \<Rightarrow> (string option \<times> viewport_rect) list \<Rightarrow> marquee_gesture option
      \<Rightarrow> marquee_gesture option \<times> (viewport_rect \<times> table_selection) option" where
  "continueTableMarqueeSelectionGesture e rows gesture =
     (case gesture of
        None \<Rightarrow> (None, None)
      | Some g \<Rightarrow>
          if mq_pointerId g \<noteq> pt_pointerId e then (gesture, None)
          else let rect = viewportRectBetween (mq_startX g) (mq_startY g) (pt_clientX e) (pt_clientY e)
               in if \<not> mq_started g \<and> nearer_than MARQUEE_SELECTION_THRESHOLD_PX (vr_width rect) (vr_height rect)
                  then (gesture, None)
                  else (Some (g\<lparr> mq_started := True \<rparr>),
                        Some (rect, applyHierarchicalMarqueeSelection (rowPathsInViewportRect rows rect)
                                      (mq_visiblePaths g) (mq_baseSelection g) (mq_additive g))))"

text \<open>The result says whether the rectangle was drawn, so that the click that follows is not taken for one.\<close>

definition endTableMarqueeSelectionGesture :: "int \<Rightarrow> marquee_gesture option \<Rightarrow> marquee_gesture option \<times> bool" where
  "endTableMarqueeSelectionGesture pointerId gesture =
     (case gesture of
        None \<Rightarrow> (None, False)
      | Some g \<Rightarrow> if mq_pointerId g \<noteq> pointerId then (gesture, False) else (None, mq_started g))"

section \<open>Moving columns\<close>

datatype drop_position = DropAfter | DropBefore

record column_gesture =
  cg_pointerId :: int
  cg_source :: string
  cg_startX :: rat
  cg_startY :: rat
  cg_started :: bool
  cg_target :: "string option"

record column_drag_state =
  cd_dropPosition :: "drop_position option"
  cd_source :: string
  cd_target :: "string option"

record column_reorder =
  cr_gesture :: "column_gesture option"
  cr_suppressClick :: bool
  cr_dragState :: "column_drag_state option"

definition no_reorder :: column_reorder where
  "no_reorder = \<lparr> cr_gesture = None, cr_suppressClick = False, cr_dragState = None \<rparr>"

definition COLUMN_REORDER_THRESHOLD_PX :: rat where
  "COLUMN_REORDER_THRESHOLD_PX = 5"

text \<open>The column of the header under the pointer, if there is one, must be movable.\<close>

definition columnIdAtPoint :: "string list \<Rightarrow> string option \<Rightarrow> string option" where
  "columnIdAtPoint movableColumnIds header =
     (case header of None \<Rightarrow> None | Some cid \<Rightarrow> if cid \<noteq> [] \<and> set_has movableColumnIds cid then Some cid else None)"

definition dropPositionForColumns :: "string \<Rightarrow> string \<Rightarrow> string list \<Rightarrow> drop_position" where
  "dropPositionForColumns source target columnOrder =
     (if indexOf source columnOrder < indexOf target columnOrder then DropAfter else DropBefore)"

datatype column_event =
    ColumnPointerDown string bool int bool int rat rat
  | ColumnPointerMove "string list" int rat rat "string option"
  | ColumnPointerUp int
  | ColumnPointerCancel int
  | ColumnLostPointerCapture int
  | ColumnClick

datatype column_effect = ReorderColumn string string | ClickHandled

definition finishGesture :: "int \<Rightarrow> bool \<Rightarrow> column_reorder \<Rightarrow> column_reorder \<times> column_effect list" where
  "finishGesture pointerId commit s =
     (case cr_gesture s of
        None \<Rightarrow> (s, [])
      | Some g \<Rightarrow>
          if cg_pointerId g \<noteq> pointerId then (s, [])
          else let s1 = s\<lparr> cr_gesture := None, cr_dragState := None \<rparr>
               in if \<not> cg_started g then (s1, [])
                  else (s1\<lparr> cr_suppressClick := True \<rparr>,
                        case cg_target g of
                          None \<Rightarrow> []
                        | Some target \<Rightarrow> if commit \<and> target \<noteq> [] \<and> target \<noteq> cg_source g then [ReorderColumn (cg_source g) target] else []))"

definition column_pointer_down :: "string \<Rightarrow> bool \<Rightarrow> int \<Rightarrow> bool \<Rightarrow> int \<Rightarrow> rat \<Rightarrow> rat \<Rightarrow> column_reorder \<Rightarrow> column_reorder" where
  "column_pointer_down columnId movable button onResizer pointerId x y s =
     (if \<not> movable \<or> button \<noteq> 0 \<or> onResizer then s
      else s\<lparr> cr_gesture := Some \<lparr> cg_pointerId = pointerId, cg_source = columnId, cg_startX = x, cg_startY = y,
                                  cg_started = False, cg_target = None \<rparr> \<rparr>)"

definition column_pointer_move :: "string list \<Rightarrow> int \<Rightarrow> rat \<Rightarrow> rat \<Rightarrow> string option \<Rightarrow> column_reorder \<Rightarrow> column_reorder" where
  "column_pointer_move movableColumnIds pointerId x y header s =
     (case cr_gesture s of
        None \<Rightarrow> s
      | Some g \<Rightarrow>
          if cg_pointerId g \<noteq> pointerId
             \<or> (\<not> cg_started g \<and> nearer_than COLUMN_REORDER_THRESHOLD_PX (x - cg_startX g) (y - cg_startY g))
          then s
          else let targetColumnId = columnIdAtPoint movableColumnIds header;
                   target = (if targetColumnId = Some (cg_source g) then None else targetColumnId)
               in s\<lparr> cr_gesture := Some (g\<lparr> cg_started := True, cg_target := target \<rparr>),
                     cr_dragState := Some \<lparr> cd_dropPosition =
                         map_option (\<lambda>t. dropPositionForColumns (cg_source g) t movableColumnIds) target,
                       cd_source = cg_source g, cd_target = target \<rparr> \<rparr>)"

fun column_step :: "column_event \<Rightarrow> column_reorder \<Rightarrow> column_reorder \<times> column_effect list" where
  "column_step (ColumnPointerDown columnId movable button onResizer pointerId x y) s =
     (column_pointer_down columnId movable button onResizer pointerId x y s, [])"
| "column_step (ColumnPointerMove movableColumnIds pointerId x y header) s =
     (column_pointer_move movableColumnIds pointerId x y header s, [])"
| "column_step (ColumnPointerUp pointerId) s = finishGesture pointerId True s"
| "column_step (ColumnPointerCancel pointerId) s = finishGesture pointerId False s"
| "column_step (ColumnLostPointerCapture pointerId) s =
     (if map_option cg_pointerId (cr_gesture s) = Some pointerId
      then s\<lparr> cr_gesture := None, cr_dragState := None \<rparr> else s, [])"
| "column_step ColumnClick s = (if cr_suppressClick s then (s\<lparr> cr_suppressClick := False \<rparr>, []) else (s, [ClickHandled]))"

fun column_run :: "column_event list \<Rightarrow> column_reorder \<Rightarrow> column_reorder \<times> column_effect list" where
  "column_run [] s = (s, [])"
| "column_run (e # es) s =
     (case column_step e s of (s1, effects) \<Rightarrow> (case column_run es s1 of (s2, later) \<Rightarrow> (s2, effects @ later)))"

section \<open>Lemmas\<close>

text \<open>In a list of widths whose steps are at most \<open>2 * d\<close>, one is at most \<open>d\<close> away.\<close>

lemma near_width:
  assumes "successively (\<lambda>a b. (of_nat b :: rat) \<le> of_nat a + 2 * d) (a # ws)"
    "of_nat a - d \<le> w" "w \<le> of_nat (last (a # ws)) + d"
  shows "\<exists>x \<in> set (a # ws). \<bar>of_nat x - w\<bar> \<le> d"
  using assms
proof (induction ws arbitrary: a)
  case (Cons b ws)
  show ?case
  proof (cases "w \<le> of_nat a + d")
    case False
    then have "of_nat b - d \<le> w"
      using Cons.prems(1) by simp
    then obtain x where "x \<in> set (b # ws)" "\<bar>of_nat x - w\<bar> \<le> d"
      using Cons.IH [of b] Cons.prems by auto
    then show ?thesis
      by auto
  qed (use Cons.prems in \<open>auto simp: abs_le_iff\<close>)
qed (auto simp: abs_le_iff)

lemma fold_closest:
  fixes w :: rat
  assumes "x \<in> set (b # ws)"
  shows "\<bar>of_nat (fold (\<lambda>c b. if \<bar>of_nat c - w\<bar> < \<bar>of_nat b - w\<bar> then c else b) ws b) - w\<bar> \<le> \<bar>of_nat x - w\<bar>"
  using assms
proof (induction ws arbitrary: b x)
  case (Cons c ws)
  let ?b = "if \<bar>of_nat c - w\<bar> < \<bar>of_nat b - w\<bar> then c else b"
  have ih: "\<bar>of_nat (fold (\<lambda>c b. if \<bar>of_nat c - w\<bar> < \<bar>of_nat b - w\<bar> then c else b) ws ?b) - w\<bar> \<le> \<bar>of_nat y - w\<bar>"
    if "y \<in> set (?b # ws)" for y
    using Cons.IH [OF that] .
  show ?case
  proof (cases "x \<in> set ws")
    case True
    then show ?thesis
      using ih [of x] by simp
  next
    case False
    then have "x = b \<or> x = c"
      using Cons.prems by auto
    then have "\<bar>of_nat ?b - w\<bar> \<le> \<bar>of_nat x - w\<bar>"
      by auto
    then show ?thesis
      using ih [of ?b] by (simp del: of_nat_eq_iff)
  qed
qed simp

lemma closest_width_near:
  assumes "fst (paneWidthBounds pane) \<le> w" "w \<le> snd (paneWidthBounds pane)"
  shows "\<bar>of_nat (closest_width (width_classes pane) w) - w\<bar> \<le> 8"
proof -
  have cons: "width_classes pane = hd (width_classes pane) # tl (width_classes pane)"
    by (cases pane) (simp_all add: width_classes_def)
  have ends: "of_nat (hd (width_classes pane)) - 8 \<le> w" "w \<le> of_nat (last (width_classes pane)) + 8"
    using assms by (cases pane; simp add: paneWidthBounds_def width_classes_def)+
  have "successively (\<lambda>a b. (of_nat b :: rat) \<le> of_nat a + 2 * 8) (width_classes pane)"
    by (cases pane) (simp_all add: width_classes_def)
  then have "\<exists>x \<in> set (width_classes pane). \<bar>of_nat x - w\<bar> \<le> 8"
    using ends near_width [of 8 "hd (width_classes pane)" "tl (width_classes pane)" w] by (simp only: cons [symmetric])
  then obtain x where x: "x \<in> set (width_classes pane)" "\<bar>of_nat x - w\<bar> \<le> 8"
    by blast
  have "x \<in> set (hd (width_classes pane) # tl (width_classes pane))"
    using x cons by metis
  then show ?thesis
    using fold_closest [of x "hd (width_classes pane)" "tl (width_classes pane)" w] x
    by (simp add: closest_width_def)
qed

lemma pane_clamp_bounds:
  "fst (paneWidthBounds pane) \<le> clampResizablePaneWidth pane w \<and> clampResizablePaneWidth pane w \<le> snd (paneWidthBounds pane)"
  by (cases pane) (simp_all add: clampResizablePaneWidth_def paneWidthBounds_def)

definition widths_ok :: "panes \<Rightarrow> bool" where
  "widths_ok s \<longleftrightarrow> (\<forall>pane. fst (paneWidthBounds pane) \<le> pane_width pane (pn_layout s)
                          \<and> pane_width pane (pn_layout s) \<le> snd (paneWidthBounds pane))"

lemma pane_width_set [simp]:
  "pane_width p (set_pane_width q w layout) = (if p = q then w else pane_width p layout)"
  by (cases p; cases q) (simp_all add: pane_width_def set_pane_width_def)

lemma set_width_if_ok:
  "widths_ok s \<Longrightarrow> (case width of None \<Rightarrow> True | Some w \<Rightarrow> \<exists>v. w = clampResizablePaneWidth pane v) \<Longrightarrow> widths_ok (set_width_if pane width s)"
  using pane_clamp_bounds by (cases width) (auto simp: set_width_if_def widths_ok_def)

lemma clamped_option:
  "case map_option (clampResizablePaneWidth pane) v of None \<Rightarrow> True | Some w \<Rightarrow> \<exists>u. w = clampResizablePaneWidth pane u"
  by (cases v) auto

lemma pane_step_ok: "widths_ok s \<Longrightarrow> widths_ok (pane_step e s)"
proof (cases e)
  case (PanePointerMove pane pointerId x)
  then show "widths_ok s \<Longrightarrow> ?thesis"
    by (auto simp: continuePaneResize_def Let_def split: option.split intro!: set_width_if_ok)
next
  case (PaneKeyDown pane key shiftKey)
  then show "widths_ok s \<Longrightarrow> ?thesis"
    using clamped_option [of pane] by (simp add: resizePaneByKeyboard_def Let_def set_width_if_ok del: map_option_eq_Some)
qed (simp_all add: widths_ok_def)

lemma pane_run_ok: "widths_ok (pane_run es)"
proof -
  have "widths_ok s \<Longrightarrow> widths_ok (fold pane_step es s)" for s
    by (induction es arbitrary: s) (simp_all add: pane_step_ok)
  moreover have "widths_ok panes_at_start"
    by (auto simp: widths_ok_def panes_at_start_def default_layout_def pane_width_def paneWidthBounds_def split: pane.split)
  ultimately show ?thesis
    unfolding pane_run_def by blast
qed

text \<open>A press that does not move far selects nothing; a rectangle keeps what was selected when a modifier was held.\<close>

lemma small_move_selects_nothing:
  "mq_started g = False \<Longrightarrow> nearer_than 5 (pt_clientX e - mq_startX g) (pt_clientY e - mq_startY g)
     \<Longrightarrow> continueTableMarqueeSelectionGesture e rows (Some g) = (Some g, None)"
proof -
  assume a: "mq_started g = False" "nearer_than 5 (pt_clientX e - mq_startX g) (pt_clientY e - mq_startY g)"
  have sq: "(max u v - min u v) * (max u v - min u v) = (v - u) * (v - u)" for u v :: rat
    by (cases "u \<le> v") (auto simp: algebra_simps)
  show ?thesis
    using a by (simp add: continueTableMarqueeSelectionGesture_def Let_def viewportRectBetween_def nearer_than_def sq
        MARQUEE_SELECTION_THRESHOLD_PX_def)
qed

text \<open>A column is only moved to the place of another one, and only when the pointer that dragged it is released.\<close>

lemma step_reorders: "list_all (\<lambda>x. case x of ReorderColumn a b \<Rightarrow> a \<noteq> b \<and> b \<noteq> [] | ClickHandled \<Rightarrow> True) (snd (column_step e s))"
  by (cases e) (auto simp: finishGesture_def Let_def split: option.split)

lemma columns_change_places:
  "list_all (\<lambda>x. case x of ReorderColumn a b \<Rightarrow> a \<noteq> b \<and> b \<noteq> [] | ClickHandled \<Rightarrow> True) (snd (column_run es s))"
proof (induction es arbitrary: s)
  case (Cons e es)
  obtain s1 a s2 b where "column_step e s = (s1, a)" "column_run es s1 = (s2, b)"
    by (metis surj_pair)
  then show ?case
    using step_reorders [of e s] Cons.IH [of s1] by simp
qed simp

lemma cancelled_reorders_nothing: "snd (column_step (ColumnPointerCancel pointerId) s) = []"
  by (auto simp: finishGesture_def Let_def split: option.split)

text \<open>The click that would follow a drag is swallowed. After a drag that was cancelled none follows, and the next click on any
  header, which is meant to sort, is swallowed instead.\<close>

lemma cancelled_drag_swallows_click:
  "snd (column_run [ColumnPointerDown ''size'' True 0 False 1 10 10,
                    ColumnPointerMove [''size'', ''modified''] 1 90 10 (Some ''modified''),
                    ColumnPointerCancel 1,
                    ColumnClick, ColumnClick] no_reorder) = [ClickHandled]"
  by code_simp

section \<open>Properties\<close>

text \<open>However the resizers are dragged and used by the keyboard, by however many pointers: the panes stay within their
  bounds, and the width that is drawn, for which there is a class, is at most 8 pixels from the width that is kept.\<close>

theorem panes_stay_in_bounds:
  "(let width = pane_width pane (pn_layout (pane_run es))
    in fst (paneWidthBounds pane) \<le> width \<and> width \<le> snd (paneWidthBounds pane)
       \<and> \<bar>of_nat (closest_width (width_classes pane) width) - width\<bar> \<le> 8)"
  using pane_run_ok [of es] closest_width_near [of pane "pane_width pane (pn_layout (pane_run es))"]
  by (auto simp: Let_def widths_ok_def)

end
