(* ===== verification/Localisation.thy ===== *)
theory Localisation
  imports ArchiveTable
begin

text \<open>
  The language of the application: \<^verbatim>\<open>src/src/app/i18n/locale.ts\<close> and \<^verbatim>\<open>translator.ts\<close>. The catalogues of messages
  are parameters.
\<close>

section \<open>Locales\<close>

definition DEFAULT_LOCALE :: string where
  "DEFAULT_LOCALE = ''en''"

definition SYSTEM_LOCALE_PREFERENCE :: string where
  "SYSTEM_LOCALE_PREFERENCE = ''system''"

definition SUPPORTED_LOCALES :: "string list" where
  "SUPPORTED_LOCALES = [''en'', ''zh-CN'']"

datatype text_direction = Ltr | Rtl

record locale_metadata =
  lm_labelKey :: string
  lm_direction :: text_direction
  lm_aliases :: "string list"

definition LOCALE_METADATA :: "(string \<times> locale_metadata) list" where
  "LOCALE_METADATA =
     [(''en'', \<lparr> lm_labelKey = ''preferences.language.english'', lm_direction = Ltr,
                 lm_aliases = [''en-US'', ''en-GB'', ''en-AU'', ''en-CA'', ''en-NZ''] \<rparr>),
      (''zh-CN'', \<lparr> lm_labelKey = ''preferences.language.chineseSimplified'', lm_direction = Ltr,
                    lm_aliases = [''zh-Hans'', ''zh-Hans-CN'', ''zh-SG''] \<rparr>)]"

definition LOCALE_ALIASES :: "(string \<times> string) list" where
  "LOCALE_ALIASES =
     [(''en-US'', ''en''), (''en-GB'', ''en''), (''en-AU'', ''en''), (''en-CA'', ''en''), (''en-NZ'', ''en''),
      (''zh-Hans'', ''zh-CN''), (''zh-Hans-CN'', ''zh-CN''), (''zh-SG'', ''zh-CN'')]"

definition isSupportedLocale :: "string option \<Rightarrow> string list \<Rightarrow> bool" where
  "isSupportedLocale v supportedLocales = (case v of None \<Rightarrow> False | Some s \<Rightarrow> s \<in> set supportedLocales)"

definition isLocalePreference :: "string option \<Rightarrow> bool" where
  "isLocalePreference v \<longleftrightarrow> v = Some SYSTEM_LOCALE_PREFERENCE \<or> isSupportedLocale v SUPPORTED_LOCALES"

text \<open>\<open>toUpperCase\<close> on Latin-1; of the micro sign and \<open>y\<close> with diaeresis, whose capitals lie outside, no tag is made.\<close>

definition upper_of_char :: "char \<Rightarrow> string" where
  "upper_of_char c =
     (let n = of_char c :: nat
      in if n = 223 then ''SS''
         else if (97 \<le> n \<and> n \<le> 122) \<or> (224 \<le> n \<and> n \<le> 254 \<and> n \<noteq> 247) then [char_of (n - 32)] else [c])"

definition js_upper :: "string \<Rightarrow> string" where
  "js_upper s = concat (map upper_of_char s)"

definition normalize_part :: "string \<Rightarrow> string" where
  "normalize_part part =
     (if length part = 2 then js_upper part
      else if length part = 4 then js_upper (take 1 part) @ js_lower (drop 1 part)
      else part)"

definition normalizeLocaleTag :: "string \<Rightarrow> string" where
  "normalizeLocaleTag v =
     (let parts = js_split (CHR ''-'') (map (\<lambda>c. if c = CHR ''_'' then CHR ''-'' else c) (js_trim v))
      in js_join (CHR ''-'') (js_lower (hd parts) # map normalize_part (tl parts)))"

text \<open>The two loops over the languages: first a supported tag, then an alias of one.\<close>

fun supported_tag :: "string list \<Rightarrow> string list \<Rightarrow> string option" where
  "supported_tag supported [] = None"
| "supported_tag supported (language # languages) =
     (let normalized = normalizeLocaleTag language
      in if set_has supported normalized then Some normalized else supported_tag supported languages)"

fun supported_alias :: "string list \<Rightarrow> (string \<times> string) list \<Rightarrow> string list \<Rightarrow> string option" where
  "supported_alias supported normalizedAliases [] = None"
| "supported_alias supported normalizedAliases (language # languages) =
     (case map_of (rev normalizedAliases) (normalizeLocaleTag language) of
        Some target \<Rightarrow>
          if target \<noteq> [] \<and> set_has supported target then Some target
          else supported_alias supported normalizedAliases languages
      | None \<Rightarrow> supported_alias supported normalizedAliases languages)"

definition resolveBestLocale :: "string list \<Rightarrow> string list \<Rightarrow> (string \<times> string) list \<Rightarrow> string" where
  "resolveBestLocale browserLanguages supportedLocales aliases =
     (case supported_tag (js_set supportedLocales) browserLanguages of
        Some tag \<Rightarrow> tag
      | None \<Rightarrow>
          (case supported_alias (js_set supportedLocales) (map (\<lambda>a. (normalizeLocaleTag (fst a), snd a)) aliases) browserLanguages of
             Some target \<Rightarrow> target
           | None \<Rightarrow> DEFAULT_LOCALE))"

definition resolveLocalePreference :: "string \<Rightarrow> string list \<Rightarrow> string list \<Rightarrow> string" where
  "resolveLocalePreference preference browserLanguages supportedLocales =
     (if preference = SYSTEM_LOCALE_PREFERENCE then resolveBestLocale browserLanguages supportedLocales LOCALE_ALIASES
      else if preference \<in> set supportedLocales then preference
      else resolveBestLocale browserLanguages supportedLocales LOCALE_ALIASES)"

definition localeDirection :: "string \<Rightarrow> text_direction option" where
  "localeDirection l = map_option lm_direction (map_of LOCALE_METADATA l)"

text \<open>Without a navigator there are no languages; with an empty list, its single language counts.\<close>

definition navigatorLanguages :: "(string list \<times> string) option \<Rightarrow> string list" where
  "navigatorLanguages navigator =
     (case navigator of None \<Rightarrow> [] | Some (languages, language) \<Rightarrow> if 0 < length languages then languages else [language])"

section \<open>Messages\<close>

definition word_char :: "char \<Rightarrow> bool" where
  "word_char c \<longleftrightarrow>
     (let n = of_char c :: nat in 65 \<le> n \<and> n \<le> 90 \<or> 97 \<le> n \<and> n \<le> 122 \<or> 48 \<le> n \<and> n \<le> 57 \<or> c = CHR ''_'')"

text \<open>The name in front of a closing brace, and what follows it.\<close>

definition placeholder :: "string \<Rightarrow> (string \<times> string) option" where
  "placeholder s =
     (let name = takeWhile word_char s
      in if name = [] then None
         else case dropWhile word_char s of
                [] \<Rightarrow> None
              | c # rest \<Rightarrow> if c = CHR ''}'' then Some (name, rest) else None)"

lemma placeholder_shorter: "placeholder s = Some (name, rest) \<Longrightarrow> length rest < length s"
proof -
  assume p: "placeholder s = Some (name, rest)"
  then obtain c where "dropWhile word_char s = c # rest"
    by (auto simp: placeholder_def Let_def split: if_splits list.splits)
  then show ?thesis
    by (metis Suc_le_lessD length_Cons length_dropWhile_le)
qed

text \<open>A parameter is its text, or \<open>None\<close> for an absent value, which prints as nothing.\<close>

type_synonym message_params = "(string \<times> string option) list"

function interpolateMessage :: "message_params \<Rightarrow> string \<Rightarrow> string" where
  "interpolateMessage params [] = []"
| "interpolateMessage params (c # cs) =
     (case (if c = CHR ''{'' then placeholder cs else None) of
        None \<Rightarrow> c # interpolateMessage params cs
      | Some (name, rest) \<Rightarrow>
          (case map_of params name of
             None \<Rightarrow> CHR ''{'' # name @ [CHR ''}'']
           | Some v \<Rightarrow> nullish v []) @ interpolateMessage params rest)"
  by pat_completeness auto

termination interpolateMessage
  by (relation "measure (\<lambda>(params, s). length s)")
    (auto split: if_splits dest!: placeholder_shorter)

type_synonym message_catalog = "(string \<times> string) list"

definition translated :: "message_catalog \<Rightarrow> message_catalog \<Rightarrow> message_catalog \<Rightarrow> string \<Rightarrow> message_params \<Rightarrow> string" where
  "translated catalog fallbackCatalog englishCatalog key params =
     interpolateMessage params
       (case map_of catalog key of
          Some m \<Rightarrow> m
        | None \<Rightarrow> (case map_of fallbackCatalog key of
                     Some m \<Rightarrow> m
                   | None \<Rightarrow> nullish (map_of englishCatalog key) key))"

text \<open>\<open>createTranslator\<close>: the overrides of a locale come before its catalogue.\<close>

definition createTranslator ::
    "(string \<Rightarrow> message_catalog) \<Rightarrow> string \<Rightarrow> (string \<times> message_catalog) list \<Rightarrow> string \<Rightarrow> message_params \<Rightarrow> string" where
  "createTranslator catalogs l catalogOverrides =
     translated (case map_of catalogOverrides l of None \<Rightarrow> catalogs l | Some overrides \<Rightarrow> overrides @ catalogs l)
       (catalogs DEFAULT_LOCALE) (catalogs DEFAULT_LOCALE)"

section \<open>Lemmas\<close>

lemma supported_tag_find:
  "supported_tag supported languages = find (\<lambda>l. l \<in> set supported) (map normalizeLocaleTag languages)"
  by (induction languages) (simp_all add: Let_def set_has_def)

definition alias_of :: "string \<Rightarrow> string option" where
  "alias_of language = map_of LOCALE_ALIASES (normalizeLocaleTag language)"

lemma normalized_aliases: "rev (map (\<lambda>a. (normalizeLocaleTag (fst a), snd a)) LOCALE_ALIASES) = rev LOCALE_ALIASES"
  by code_simp

lemma map_of_rev_aliases: "map_of (rev LOCALE_ALIASES) x = map_of LOCALE_ALIASES x"
proof -
  have "distinct (map fst LOCALE_ALIASES)"
    by code_simp
  then have "map_of (rev LOCALE_ALIASES) = map_of LOCALE_ALIASES"
    by (subst map_of_inject_set) (simp_all add: rev_map [symmetric])
  then show ?thesis
    by simp
qed

lemma alias_supported: "alias_of language = Some target \<Longrightarrow> target \<in> set SUPPORTED_LOCALES \<and> target \<noteq> []"
  unfolding alias_of_def by (drule map_of_SomeD) (auto simp: LOCALE_ALIASES_def SUPPORTED_LOCALES_def)

lemma supported_alias_filter:
  "supported_alias (js_set SUPPORTED_LOCALES) (map (\<lambda>a. (normalizeLocaleTag (fst a), snd a)) LOCALE_ALIASES) languages
     = (case List.map_filter alias_of languages of [] \<Rightarrow> None | l # _ \<Rightarrow> Some l)"
proof (induction languages)
  case (Cons language languages)
  have "map_of (rev (map (\<lambda>a. (normalizeLocaleTag (fst a), snd a)) LOCALE_ALIASES)) (normalizeLocaleTag language) = alias_of language"
    by (simp only: normalized_aliases map_of_rev_aliases alias_of_def)
  then show ?case
    using Cons alias_supported [of language]
    by (auto simp: List.map_filter_simps set_has_def simp del: rev_map split: option.split)
qed (simp add: List.map_filter_simps)

lemma aliases_are_supported: "filter (\<lambda>t. t \<in> set SUPPORTED_LOCALES) (List.map_filter alias_of languages) = List.map_filter alias_of languages"
  using alias_supported by (auto simp: filter_id_conv List.map_filter_def)

lemma find_hd: "find P xs = (case filter P xs of [] \<Rightarrow> None | x # _ \<Rightarrow> Some x)"
  by (induction xs) simp_all

definition spoken :: "string list \<Rightarrow> string list" where
  "spoken languages = filter (\<lambda>t. t \<in> set SUPPORTED_LOCALES) (map normalizeLocaleTag languages)"

lemma best_locale:
  "resolveBestLocale languages SUPPORTED_LOCALES LOCALE_ALIASES
     = hd (spoken languages @ List.map_filter alias_of languages @ [DEFAULT_LOCALE])"
  unfolding resolveBestLocale_def supported_alias_filter supported_tag_find set_js_set find_hd spoken_def
  by (auto split: list.split)

text \<open>The supported tags of all languages come before the aliases of any: a user who reads American English first, and Chinese
  as well, gets Chinese.\<close>

lemma later_language_wins: "resolveLocalePreference ''system'' [''en-US'', ''zh-CN''] SUPPORTED_LOCALES = ''zh-CN''"
  by code_simp

text \<open>A message is a sequence of texts without braces and of names; its names are replaced by their parameters, and what a
  parameter says is not looked at again.\<close>

datatype message_part = Literal string | Hole string

fun part_ok :: "message_part \<Rightarrow> bool" where
  "part_ok (Literal t) = (CHR ''{'' \<notin> set t)"
| "part_ok (Hole name) = (name \<noteq> [] \<and> list_all word_char name)"

fun part_text :: "message_part \<Rightarrow> string" where
  "part_text (Literal t) = t"
| "part_text (Hole name) = CHR ''{'' # name @ [CHR ''}'']"

fun part_filled :: "message_params \<Rightarrow> message_part \<Rightarrow> string" where
  "part_filled params (Literal t) = t"
| "part_filled params (Hole name) =
     (case map_of params name of None \<Rightarrow> part_text (Hole name) | Some v \<Rightarrow> nullish v [])"

lemma interpolate_literal: "CHR ''{'' \<notin> set t \<Longrightarrow> interpolateMessage params (t @ s) = t @ interpolateMessage params s"
  by (induction t) auto

lemma placeholder_hole: "part_ok (Hole name) \<Longrightarrow> placeholder (name @ CHR ''}'' # s) = Some (name, s)"
proof -
  assume ok: "part_ok (Hole name)"
  then have "takeWhile word_char (name @ CHR ''}'' # s) = name" "dropWhile word_char (name @ CHR ''}'' # s) = CHR ''}'' # s"
    by (auto simp: list_all_iff takeWhile_append2 dropWhile_append2 word_char_def)
  then show ?thesis
    using ok by (simp add: placeholder_def)
qed

lemma interpolate_parts:
  "list_all part_ok ps \<Longrightarrow> interpolateMessage params (concat (map part_text ps)) = concat (map (part_filled params) ps)"
proof (induction ps)
  case (Cons p ps)
  then show ?case
    using placeholder_hole by (cases p) (auto simp: interpolate_literal split: option.split)
qed simp

section \<open>Properties\<close>

text \<open>The language of the application is one that it has. A language that the user chose is taken; else it is the first of
  the languages of the browser that is one of the application's, or else the first of them that is an alias, or English.\<close>

theorem language_is_supported:
  "(let l = resolveLocalePreference preference languages SUPPORTED_LOCALES
    in l \<in> set SUPPORTED_LOCALES \<and> localeDirection l = Some Ltr
       \<and> l = hd (filter (\<lambda>t. t \<in> set SUPPORTED_LOCALES)
                  (preference # map normalizeLocaleTag languages @ List.map_filter alias_of languages @ [DEFAULT_LOCALE])))"
proof -
  let ?S = "\<lambda>t. t \<in> set SUPPORTED_LOCALES"
  let ?all = "preference # map normalizeLocaleTag languages @ List.map_filter alias_of languages @ [DEFAULT_LOCALE]"
  have default: "?S DEFAULT_LOCALE"
    by code_simp
  have f: "filter ?S ?all = (if ?S preference then [preference] else []) @ spoken languages
      @ List.map_filter alias_of languages @ [DEFAULT_LOCALE]"
    using default by (simp add: spoken_def aliases_are_supported)
  have "\<not> ?S SYSTEM_LOCALE_PREFERENCE"
    by code_simp
  then have l: "resolveLocalePreference preference languages SUPPORTED_LOCALES = hd (filter ?S ?all)"
    unfolding f by (auto simp: resolveLocalePreference_def best_locale)
  have "filter ?S ?all \<noteq> []"
    unfolding f by simp
  then have "hd (filter ?S ?all) \<in> set (filter ?S ?all)"
    by (rule hd_in_set)
  then have s: "?S (hd (filter ?S ?all))"
    unfolding set_filter by blast
  moreover have "localeDirection x = Some Ltr" if "?S x" for x
    using that by (auto simp: SUPPORTED_LOCALES_def localeDirection_def LOCALE_METADATA_def)
  ultimately show ?thesis
    unfolding Let_def l using s by blast
qed

end
