(* ===== verification/InfoDialogs.thy ===== *)
theory InfoDialogs
  imports ArchiveWorkspaceView ArchiveFileTypes ExtractWorkspace Localisation
begin

text \<open>
  What the dialogs about an archive, an entry, a selection, the application and its setup say, and the display context
  they are written in: \<^verbatim>\<open>src/src/app/display/dialogSnapshots.ts\<close> and \<^verbatim>\<open>displayContext.ts\<close>, with
  \<open>findNativeCapability\<close> of \<^verbatim>\<open>src/src/api/generated/nativeCapabilities.generated.ts\<close>; and the icons of entries,
  \<^verbatim>\<open>src/src/app/archiveEntryIcons.ts\<close>. The formatters of a locale are parameters.
\<close>

section \<open>The display context\<close>

text \<open>\<open>dx_number\<close> is \<open>String(n)\<close>.\<close>

record display_context =
  dx_resolvedLocale :: string
  dx_translate :: "string \<Rightarrow> string"
  dx_documentLanguage :: string
  dx_documentDirection :: "text_direction option"
  dx_format :: formatters
  dx_number :: "jsnum \<Rightarrow> string"

definition createDisplayContext ::
    "(string \<Rightarrow> message_catalog) \<Rightarrow> (string \<Rightarrow> formatters) \<Rightarrow> (jsnum \<Rightarrow> string) \<Rightarrow> string \<Rightarrow> string list \<Rightarrow> display_context" where
  "createDisplayContext catalogs formats print_number localePreference browserLanguages =
     (let resolvedLocale = resolveLocalePreference localePreference browserLanguages SUPPORTED_LOCALES
      in \<lparr> dx_resolvedLocale = resolvedLocale,
           dx_translate = (\<lambda>key. createTranslator catalogs resolvedLocale [] key []),
           dx_documentLanguage = resolvedLocale, dx_documentDirection = localeDirection resolvedLocale,
           dx_format = formats resolvedLocale, dx_number = print_number \<rparr>)"

datatype display_effect = CommitContext display_context | SetDocument string "text_direction option" | RefreshCommands display_context

text \<open>Each effect is there or not.\<close>

definition applyDisplayContextRefresh :: "display_context \<Rightarrow> bool \<times> bool \<Rightarrow> display_effect list" where
  "applyDisplayContextRefresh context has =
     (if fst has then [SetDocument (dx_documentLanguage context) (dx_documentDirection context)] else [])
     @ (if snd has then [RefreshCommands context] else [])"

definition refreshDisplayContext :: "display_context \<Rightarrow> bool \<Rightarrow> bool \<times> bool \<Rightarrow> display_effect list" where
  "refreshDisplayContext context commits has =
     (if commits then [CommitContext context] else []) @ applyDisplayContextRefresh context has"

datatype refresh_surface = SurfaceBrowse | SurfaceCreate | SurfacePreferences

definition selectDisplayRefreshSurfaces :: "refresh_surface \<Rightarrow> bool \<Rightarrow> refresh_surface list" where
  "selectDisplayRefreshSurfaces activeWorkspace preferencesVisible =
     activeWorkspace # (if preferencesVisible then [SurfacePreferences] else [])"

definition display_bytes :: "display_context \<Rightarrow> jsnum option \<Rightarrow> string" where
  "display_bytes display v = formatBytes (fm_number (dx_format display)) v None None"

definition display_date :: "display_context \<Rightarrow> string option \<Rightarrow> string" where
  "display_date display v = formatDate (fm_dateParse (dx_format display)) (fm_date (dx_format display)) v (Some [])"

definition display_ratio :: "display_context \<Rightarrow> jsnum option \<Rightarrow> jsnum option \<Rightarrow> string" where
  "display_ratio display uncompressed compressed =
     formatCompressionRatio (fm_number (dx_format display)) uncompressed compressed None (Some 0)"

section \<open>Rows of details\<close>

datatype detail_mode = ModeWrap | ModeMiddle

record info_row =
  ir_label :: string
  ir_value :: "string option"
  ir_mode :: "detail_mode option"

definition row_of :: "string \<Rightarrow> string option \<Rightarrow> info_row" where
  "row_of label v = \<lparr> ir_label = label, ir_value = v, ir_mode = None \<rparr>"

definition join_text :: "string \<Rightarrow> string list \<Rightarrow> string" where
  "join_text sep ts = (case ts of [] \<Rightarrow> [] | t # us \<Rightarrow> t @ concat (map (\<lambda>u. sep @ u) us))"

definition info_has_value :: "info_row \<Rightarrow> bool" where
  "info_has_value row \<longleftrightarrow> truthy (ir_value row)"

definition infoDetailRowsToSnapshotRows :: "info_row list \<Rightarrow> info_row list" where
  "infoDetailRowsToSnapshotRows rows = filter info_has_value rows"

definition serializeInfoDetailRows :: "info_row list \<Rightarrow> string" where
  "serializeInfoDetailRows rows =
     join_text [CHR 0x0A] (map (\<lambda>row. ir_label row @ '': '' @ nullish (ir_value row) []) (filter info_has_value rows))"

definition archiveKindLabel :: "archive_entry_kind \<Rightarrow> display_context \<Rightarrow> string" where
  "archiveKindLabel kind display =
     (case kind of
        KDirectory \<Rightarrow> dx_translate display ''detail.directory''
      | KFile \<Rightarrow> ''file'' | KSymlink \<Rightarrow> ''symlink'' | KHardlink \<Rightarrow> ''hardlink'' | KSpecial \<Rightarrow> ''special'')"

definition formatOptionalBytes :: "jsnum option \<Rightarrow> display_context \<Rightarrow> string option" where
  "formatOptionalBytes v display =
     (case v of
        Some (Fin q) \<Rightarrow> if q < 0 then None else Some (display_bytes display v)
      | _ \<Rightarrow> None)"

definition formatOptionalBoolean :: "bool option \<Rightarrow> display_context \<Rightarrow> string option" where
  "formatOptionalBoolean v display =
     map_option (\<lambda>b. dx_translate display (if b then ''detail.booleanYes'' else ''detail.booleanNo'')) v"

definition info_entryByPath :: "archive_entry list \<Rightarrow> string option \<Rightarrow> archive_entry option" where
  "info_entryByPath entries path = find (\<lambda>e. ae_path e = nullish path []) entries"

definition info_sumKnownEntryBytes :: "archive_entry list \<Rightarrow> (archive_entry \<Rightarrow> jsnum option) \<Rightarrow> rat option" where
  "info_sumKnownEntryBytes entries selector =
     (let (hasKnownValue, sum) =
            foldl (\<lambda>(known, sum) entry.
               case selector entry of
                 Some (Fin v) \<Rightarrow> if 0 \<le> v then (True, sum + v) else (known, sum)
               | _ \<Rightarrow> (known, sum)) (False, 0) entries
      in if hasKnownValue then Some sum else None)"

definition formatArchiveTypeFromPath :: "string \<Rightarrow> string option" where
  "formatArchiveTypeFromPath path =
     (case (case getKnownArchiveSuffix path of None \<Rightarrow> None | Some s \<Rightarrow> some_nonempty s) of
        None \<Rightarrow> None
      | Some suf \<Rightarrow> Some (js_upper (if prefix ''.'' suf then drop 1 suf else suf)))"

definition pad_start :: "nat \<Rightarrow> char \<Rightarrow> string \<Rightarrow> string" where
  "pad_start width c s = replicate (width - length s) c @ s"

definition entryInfoDetailRows :: "archive_entry \<Rightarrow> display_context \<Rightarrow> info_row list" where
  "entryInfoDetailRows entry display =
     (let t = dx_translate display
      in [row_of (t ''detail.name'') (Some (getPathBasename (Some (ae_path entry)) (ae_path entry))),
          row_of (t ''detail.type'') (Some (archiveKindLabel (ae_kind entry) display)),
          row_of (t ''detail.path'') (Some (ae_path entry)),
          row_of (t ''detail.size'') (formatOptionalBytes (ae_size entry) display),
          row_of (t ''detail.packed'') (formatOptionalBytes (ae_compressedSize entry) display),
          row_of (t ''detail.modified'') (Some (display_date display (ae_modified entry))),
          row_of (t ''detail.mode'') (map_option (\<lambda>m. pad_start 4 (CHR ''0'') (octal_string m)) (ae_mode entry)),
          row_of (t ''detail.metadataDiagnostics'') (map_option (join_text [CHR 0x0A]) (ae_metadataDiagnostics entry)),
          row_of (t ''detail.ratio'') (Some (display_ratio display (ae_size entry) (ae_compressedSize entry))),
          row_of (t ''detail.created'') (Some (display_date display (ae_created entry))),
          row_of (t ''detail.attributes'') (ae_attributes entry),
          row_of (t ''detail.method'') (ae_method entry),
          row_of ''CRC'' (ae_crc entry),
          row_of (t ''detail.encrypted'') (formatOptionalBoolean (ae_encrypted entry) display),
          row_of (t ''detail.solid'') (formatOptionalBoolean (ae_solid entry) display),
          row_of (t ''detail.linkTarget'') (ae_linkTarget entry)])"

definition js_ceil :: "rat \<Rightarrow> nat" where
  "js_ceil q = nat \<lceil>q\<rceil>"

definition truncatedPathPreview :: "string list \<Rightarrow> nat \<Rightarrow> nat \<Rightarrow> string option" where
  "truncatedPathPreview paths maxItems maxLength =
     (if paths = [] then None
      else let sortedUniquePaths = js_sort code_unit_compare (js_set paths);
               shownPaths = take maxItems sortedUniquePaths;
               preview = join_text '', '' shownPaths
                 @ (if maxItems < length sortedUniquePaths
                    then '' (+'' @ nat_string (length sortedUniquePaths - maxItems) @ '' more)'' else [])
           in if length preview \<le> maxLength then Some preview
              else let headLength = max 8 (js_ceil ((of_nat maxLength - 3) * 58 / 100));
                       tailLength = max 8 (maxLength - headLength - 3)
                   in Some (take headLength preview @ ''...'' @ drop (length preview - tailLength) preview))"

definition selectionInfoDetailRows ::
    "archive_entry hier_row list \<Rightarrow> archive_entry list \<Rightarrow> display_context \<Rightarrow> info_row list" where
  "selectionInfoDetailRows selectedRows entries display =
     (let t = dx_translate display;
          selected = present (map (\<lambda>row. case row_entry row of
                                           Some e \<Rightarrow> Some e
                                         | None \<Rightarrow> info_entryByPath entries (Some (row_path row))) selectedRows);
          selectedTotal = info_sumKnownEntryBytes selected ae_size;
          selectedPacked = info_sumKnownEntryBytes selected ae_compressedSize
      in [row_of (t ''detail.entries'') (Some (nat_string (length selectedRows))),
          row_of (t ''detail.selectedFiles'') (Some (nat_string (length (filter row_is_file selectedRows)))),
          row_of (t ''detail.selectedFolders'') (Some (nat_string (length (filter row_is_folder selectedRows)))),
          row_of (t ''detail.totalSize'') (map_option (\<lambda>q. display_bytes display (Some (Fin q))) selectedTotal),
          row_of (t ''detail.packedSize'') (map_option (\<lambda>q. display_bytes display (Some (Fin q))) selectedPacked),
          row_of (t ''detail.pathPreview'') (truncatedPathPreview (map row_path selectedRows) 3 140)])"

section \<open>The dialogs\<close>

datatype dialog_action_kind = NoAction | NamedAction string | CopyAction string

record dialog_action =
  da_label :: string
  da_kind :: dialog_action_kind
  da_primary :: bool
  da_title :: "string option"

definition plain_action :: "string \<Rightarrow> dialog_action_kind \<Rightarrow> dialog_action" where
  "plain_action label kind = \<lparr> da_label = label, da_kind = kind, da_primary = False, da_title = None \<rparr>"

record info_dialog =
  id_title :: string
  id_description :: string
  id_sectionTitle :: string
  id_rows :: "info_row list"
  id_actions :: "dialog_action list"
  id_returnFocusPath :: string

text \<open>The fields of the archive that its dialog reads: the path, the entries, their number and the total size.\<close>

definition buildArchiveInfoDialogSnapshot ::
    "ws_state \<Rightarrow> display_context \<Rightarrow> string option \<Rightarrow> string option \<Rightarrow> string option \<Rightarrow> info_dialog" where
  "buildArchiveInfoDialogSnapshot archive display lastTestStatus returnFocusPath appTitle =
     (let t = dx_translate display;
          path = ws_currentArchivePath archive;
          totalSize = (case ws_totalSize archive of
                         Some q \<Rightarrow> Some q
                       | None \<Rightarrow> map_option Fin (info_sumKnownEntryBytes (ws_entries archive) ae_size));
          packedSize = info_sumKnownEntryBytes (ws_entries archive) ae_compressedSize;
          rows = infoDetailRowsToSnapshotRows
            [row_of (t ''detail.archiveName'') (Some (getPathBasename (Some path) (nullish appTitle APP_TITLE))),
             (row_of (t ''detail.path'') (Some path))\<lparr> ir_mode := Some ModeMiddle \<rparr>,
             row_of (t ''detail.format'') (formatArchiveTypeFromPath path),
             row_of (t ''detail.entries'') (Some (dx_number display (ws_entryCount archive))),
             row_of (t ''detail.totalUnpackedSize'') (map_option (\<lambda>q. display_bytes display (Some q)) totalSize),
             row_of (t ''detail.packedSize'') (map_option (\<lambda>q. display_bytes display (Some (Fin q))) packedSize),
             row_of (t ''detail.lastTestStatus'') lastTestStatus]
      in \<lparr> id_title = t ''info.archiveTitle'', id_description = t ''info.archiveDescription'',
           id_sectionTitle = t ''info.archiveTitle'', id_rows = rows,
           id_actions = [plain_action (t ''info.copyPath'') (CopyAction path),
                         plain_action (t ''info.copyDetails'') (CopyAction (serializeInfoDetailRows rows))],
           id_returnFocusPath = nullish returnFocusPath [] \<rparr>)"

definition buildEntryInfoDialogSnapshot ::
    "archive_entry \<Rightarrow> display_context \<Rightarrow> string option \<Rightarrow> string option \<Rightarrow> info_dialog" where
  "buildEntryInfoDialogSnapshot entry display previewActionTitle returnFocusPath =
     (let t = dx_translate display;
          rows = infoDetailRowsToSnapshotRows (entryInfoDetailRows entry display);
          canPreview = (ae_kind entry \<noteq> KDirectory)
      in \<lparr> id_title = t ''info.entryTitle'', id_description = t ''info.entryDescription'',
           id_sectionTitle = t ''info.entryTitle'', id_rows = rows,
           id_actions =
             (if canPreview
              then [\<lparr> da_label = t ''command.view'', da_kind = NamedAction ''preview'', da_primary = True,
                      da_title = previewActionTitle \<rparr>]
              else [])
             @ [plain_action (t ''info.copyPath'') (CopyAction (ae_path entry)),
                plain_action (t ''info.copyDetails'') (CopyAction (serializeInfoDetailRows rows)),
                plain_action (t ''info.archiveTitle'') (NamedAction ''archive-info'')],
           id_returnFocusPath = nullish returnFocusPath [] \<rparr>)"

definition buildSelectionInfoDialogSnapshot ::
    "selection_snapshot \<Rightarrow> archive_entry list \<Rightarrow> display_context \<Rightarrow> archive_entry hier_row list option \<Rightarrow> string option
      \<Rightarrow> info_dialog" where
  "buildSelectionInfoDialogSnapshot selection entries display selectedRows returnFocusPath =
     (let t = dx_translate display;
          rows = infoDetailRowsToSnapshotRows
            (selectionInfoDetailRows (nullish selectedRows (ss_visibleSelectedRows selection)) entries display)
      in \<lparr> id_title = t ''info.selectionTitle'', id_description = t ''info.selectionDescription'',
           id_sectionTitle = t ''info.selectionTitle'', id_rows = rows,
           id_actions = [plain_action (t ''info.copyDetails'') (CopyAction (serializeInfoDetailRows rows)),
                         plain_action (t ''info.archiveTitle'') (NamedAction ''archive-info'')],
           id_returnFocusPath = nullish returnFocusPath [] \<rparr>)"

section \<open>Setup\<close>

datatype setup_state = StepSatisfied | StepNeedsApproval | StepNotRegistered | StepUnknown

record setup_step =
  stp_id :: string
  stp_state :: setup_state
  stp_settingsUrl :: "string option"

record setup_row =
  str_id :: string
  str_title :: string
  str_detail :: string
  str_instructions :: string
  str_stateLabel :: string
  str_state :: setup_state
  str_settingsUrl :: "string option"

text \<open>The steps for which there are texts; the keys of the texts are made of the step.\<close>

definition SETUP_STEP_COPY :: "string list" where
  "SETUP_STEP_COPY = [''finderContextMenu'', ''quickLook'', ''spotlight'']"

definition SETUP_STATE_LABELS :: "setup_state \<Rightarrow> string" where
  "SETUP_STATE_LABELS s =
     (case s of
        StepSatisfied \<Rightarrow> ''setup.state.satisfied'' | StepNeedsApproval \<Rightarrow> ''setup.state.needsApproval''
      | StepNotRegistered \<Rightarrow> ''setup.state.notRegistered'' | StepUnknown \<Rightarrow> ''setup.state.unknown'')"

definition setup_row_of :: "display_context \<Rightarrow> setup_step \<Rightarrow> setup_row list" where
  "setup_row_of display step =
     (let t = dx_translate display; copy = (\<lambda>what. t (''setup.step.'' @ stp_id step @ what))
      in if \<not> set_has SETUP_STEP_COPY (stp_id step) then []
         else [\<lparr> str_id = stp_id step, str_title = copy ''.title'', str_detail = copy ''.detail'',
                 str_instructions =
                   (case stp_state step of
                      StepSatisfied \<Rightarrow> []
                    | StepNotRegistered \<Rightarrow> t ''setup.notRegisteredHint''
                    | _ \<Rightarrow> copy ''.instructions''),
                 str_stateLabel = t (SETUP_STATE_LABELS (stp_state step)), str_state = stp_state step,
                 str_settingsUrl = stp_settingsUrl step \<rparr>])"

record setup_dialog =
  sd_title :: string
  sd_description :: string
  sd_steps :: "setup_row list"
  sd_complete :: bool

definition buildSetupDialogSnapshot :: "display_context \<Rightarrow> setup_step list \<Rightarrow> bool \<Rightarrow> setup_dialog" where
  "buildSetupDialogSnapshot display steps isComplete =
     (let rows = concat (map (setup_row_of display) steps)
      in \<lparr> sd_title = dx_translate display ''setup.title'', sd_description = dx_translate display ''setup.description'',
           sd_steps = filter (\<lambda>row. str_state row \<noteq> StepSatisfied) rows @ filter (\<lambda>row. str_state row = StepSatisfied) rows,
           sd_complete = isComplete \<rparr>)"

section \<open>About\<close>

record native_capability =
  nc_id :: string
  nc_applicability :: string
  nc_availability :: string

definition findNativeCapability :: "native_capability list \<Rightarrow> string \<Rightarrow> string + native_capability" where
  "findNativeCapability capabilities cid =
     (case find (\<lambda>c. nc_id c = cid) capabilities of
        None \<Rightarrow> Inl (''Native capability snapshot is missing '' @ cid)
      | Some c \<Rightarrow> Inr c)"

definition isNativeCapabilityAvailable :: "native_capability list \<Rightarrow> string \<Rightarrow> string + bool" where
  "isNativeCapabilityAvailable capabilities cid =
     (case findNativeCapability capabilities cid of
        Inl e \<Rightarrow> Inl e
      | Inr c \<Rightarrow> Inr (nc_availability c = ''available''))"

record healthcheck =
  hc_engine :: string
  hc_version :: string
  hc_shell :: string
  hc_status :: string
  hc_appVersion :: string
  hc_buildId :: string

record project_contract =
  pc_coreDependency :: string
  pc_platform :: string
  pc_capabilities :: "native_capability list"

record about_input =
  ab_healthcheck :: "healthcheck option"
  ab_contract :: "project_contract option"
  ab_appTitle :: "string option"
  ab_appVersion :: "string option"
  ab_diagnosticLogPath :: "string option"
  ab_diagnosticLogLocation :: "string option"

type_synonym about_group = "string \<times> (string \<times> string) list"

text \<open>A capability that the contract does not list is an error; without a contract none is available.\<close>

definition capabilityAvailable :: "project_contract option \<Rightarrow> string \<Rightarrow> string + bool" where
  "capabilityAvailable contract cid =
     (case contract of None \<Rightarrow> Inr False | Some c \<Rightarrow> isNativeCapabilityAvailable (pc_capabilities c) cid)"

definition capabilityApplies :: "project_contract option \<Rightarrow> string \<Rightarrow> bool" where
  "capabilityApplies contract cid =
     (case contract of
        None \<Rightarrow> False
      | Some c \<Rightarrow> map_option nc_applicability (find (\<lambda>k. nc_id k = cid) (pc_capabilities c)) \<noteq> Some ''notApplicable'')"

fun all_or_error :: "(string + 'a) list \<Rightarrow> string + 'a list" where
  "all_or_error [] = Inr []"
| "all_or_error (r # rs) =
     (case r of
        Inl e \<Rightarrow> Inl e
      | Inr x \<Rightarrow> (case all_or_error rs of Inl e \<Rightarrow> Inl e | Inr xs \<Rightarrow> Inr (x # xs)))"

definition enabled_row :: "about_input \<Rightarrow> (string \<Rightarrow> string) \<Rightarrow> string \<Rightarrow> string \<Rightarrow> string \<Rightarrow> string + (string \<times> string)" where
  "enabled_row inp t label cid otherwise =
     (case capabilityAvailable (ab_contract inp) cid of
        Inl e \<Rightarrow> Inl e
      | Inr b \<Rightarrow> Inr (t (''about.diagnostics.'' @ label), t (''about.diagnostics.'' @ (if b then ''enabled'' else otherwise))))"

definition buildAboutDialogSnapshot :: "string \<Rightarrow> display_context \<Rightarrow> about_input \<Rightarrow> string + (string \<times> about_group list)" where
  "buildAboutDialogSnapshot APP_VERSION display inp =
     (let t = dx_translate display;
          d = (\<lambda>key. t (''about.diagnostics.'' @ key));
          hc = ab_healthcheck inp; contract = ab_contract inp;
          diagnosticLogLocation =
            (if ab_diagnosticLogLocation inp = Some ''installation'' then d ''logLocationInstallation''
             else if ab_diagnosticLogLocation inp = Some ''user'' then d ''logLocationUser''
             else if ab_diagnosticLogLocation inp = Some ''userFallback'' then d ''logLocationFallback''
             else d ''unavailable'');
          product = [(d ''appName'', nullish (ab_appTitle inp) APP_TITLE),
                     (d ''appVersion'', nullish (map_option hc_appVersion hc) (nullish (ab_appVersion inp) APP_VERSION)),
                     (d ''buildId'', nullish (map_option hc_buildId hc) (d ''unavailable''))];
          running = [(d ''shell'', nullish (map_option hc_shell hc) (t ''about.shell.browserPreview'')),
                     (d ''engine'', nullish (map_option (\<lambda>h. hc_engine h @ '' '' @ hc_version h) hc) (d ''unavailable'')),
                     (d ''coreDependency'', nullish (map_option pc_coreDependency contract) (d ''unavailable''))];
          integration =
            all_or_error
              (Inr (d ''platform'', nullish (map_option pc_platform contract) (d ''unknown''))
               # enabled_row inp t ''selectedItemActions'' ''shellSelectedItemActions'' ''disabled''
               # enabled_row inp t ''backgroundActions'' ''shellBackgroundActions'' ''disabled''
               # enabled_row inp t ''fileAssociations'' ''fileAssociations'' ''disabled''
               # (if capabilityApplies contract ''quickLook'' \<or> capabilityApplies contract ''spotlight''
                  then [enabled_row inp t ''quickLook'' ''quickLook'' ''disabled'',
                        enabled_row inp t ''spotlight'' ''spotlight'' ''disabled'']
                  else []));
          support =
            all_or_error
              [Inr (d ''status'', nullish (map_option hc_status hc) (d ''frontendOnly'')),
               enabled_row inp t ''shellActions'' ''shellSelectedItemActions'' ''unavailable'',
               Inr (d ''logPath'', nullish (ab_diagnosticLogPath inp) (d ''unavailable'')),
               Inr (d ''logLocation'', diagnosticLogLocation)]
      in case integration of
           Inl e \<Rightarrow> Inl e
         | Inr integrationRows \<Rightarrow>
             (case support of
                Inl e \<Rightarrow> Inl e
              | Inr supportRows \<Rightarrow>
                  Inr (t ''about.title'',
                       [(t ''about.group.product'', product), (t ''about.group.runtime'', running),
                        (t ''about.group.integration'', integrationRows), (t ''about.group.support'', supportRows)])))"

definition group_lines :: "about_group \<Rightarrow> string list" where
  "group_lines g =
     (if js_trim (fst g) = [] then [] else [js_trim (fst g)])
     @ concat (map (\<lambda>r. if js_trim (fst r) \<noteq> [] \<and> js_trim (snd r) \<noteq> [] then [js_trim (fst r) @ '': '' @ js_trim (snd r)] else []) (snd g))
     @ [[]]"

definition serializeAboutDiagnostics :: "about_group list \<Rightarrow> string" where
  "serializeAboutDiagnostics groups = js_trim (join_text [CHR 0x0A] (concat (map group_lines groups)))"

section \<open>Icons\<close>

datatype icon_kind =
    IkArchive | IkAudio | IkCode | IkDatabase | IkDisk | IkFile | IkFolder | IkHardlink | IkImage | IkLocked | IkPackage
  | IkParent | IkSpecial | IkSpreadsheet | IkSymlink | IkText | IkVideo

text \<open>The drawing is named as the library names it.\<close>

record icon_descriptor =
  ic_kind :: icon_kind
  ic_label :: string
  ic_icon :: string

definition AUDIO_EXTENSIONS :: "string list" where
  "AUDIO_EXTENSIONS =
     [''aac'', ''aiff'', ''flac'', ''m4a'', ''mp3'', ''ogg'', ''opus'', ''wav'', ''wma'']"

definition CODE_EXTENSIONS :: "string list" where
  "CODE_EXTENSIONS =
     [''bat'', ''c'', ''cc'', ''cmd'', ''cpp'', ''cs'', ''css'', ''go'', ''h'', ''hpp'', ''html'', ''java'',
      ''js'', ''jsx'', ''kt'', ''lua'', ''php'', ''ps1'', ''py'', ''rb'', ''rs'', ''scss'', ''sh'', ''sql'',
      ''swift'', ''toml'', ''ts'', ''tsx'', ''xml'', ''yaml'', ''yml'']"

definition DATABASE_EXTENSIONS :: "string list" where
  "DATABASE_EXTENSIONS =
     [''db'', ''db3'', ''mdb'', ''sqlite'', ''sqlite3'']"

definition DISK_IMAGE_EXTENSIONS :: "string list" where
  "DISK_IMAGE_EXTENSIONS =
     [''dmg'', ''img'', ''iso'', ''vhd'', ''vhdx'']"

definition IMAGE_EXTENSIONS :: "string list" where
  "IMAGE_EXTENSIONS =
     [''apng'', ''avif'', ''bmp'', ''gif'', ''heic'', ''heif'', ''ico'', ''jpeg'', ''jpg'', ''png'', ''psd'',
      ''raw'', ''svg'', ''tif'', ''tiff'', ''webp'']"

definition PACKAGE_EXTENSIONS :: "string list" where
  "PACKAGE_EXTENSIONS =
     [''appimage'', ''appx'', ''deb'', ''msi'', ''pkg'', ''rpm'']"

definition SPREADSHEET_EXTENSIONS :: "string list" where
  "SPREADSHEET_EXTENSIONS =
     [''csv'', ''ods'', ''tsv'', ''xls'', ''xlsm'', ''xlsx'']"

definition TEXT_EXTENSIONS :: "string list" where
  "TEXT_EXTENSIONS =
     [''cfg'', ''conf'', ''doc'', ''docx'', ''ini'', ''json'', ''log'', ''md'', ''markdown'', ''odt'', ''pdf'',
      ''properties'', ''rtf'', ''text'', ''txt'']"

definition VIDEO_EXTENSIONS :: "string list" where
  "VIDEO_EXTENSIONS =
     [''avi'', ''m4v'', ''mkv'', ''mov'', ''mp4'', ''mpeg'', ''mpg'', ''webm'', ''wmv'']"

type_synonym icon_texts = "(string \<Rightarrow> string) option"

definition icon_text :: "icon_texts \<Rightarrow> string \<Rightarrow> string \<Rightarrow> string" where
  "icon_text i18n key english = (case i18n of None \<Rightarrow> english | Some t \<Rightarrow> t key)"

definition icon :: "icon_texts \<Rightarrow> icon_kind \<Rightarrow> string \<Rightarrow> string \<Rightarrow> string \<Rightarrow> icon_descriptor" where
  "icon i18n kind key english drawing = \<lparr> ic_kind = kind, ic_label = icon_text i18n key english, ic_icon = drawing \<rparr>"

definition icon_lastPathComponent :: "string \<Rightarrow> string" where
  "icon_lastPathComponent path =
     (let normalized = rev (dropWhile (\<lambda>c. c = CHR ''/'') (rev (map (\<lambda>c. if c = CHR 0x5C then CHR ''/'' else c) path)));
          parts = filter (\<lambda>p. p \<noteq> []) (js_split (CHR ''/'') normalized)
      in if parts = [] then normalized else last parts)"

definition fileExtensionForIcon :: "string \<Rightarrow> string option" where
  "fileExtensionForIcon path =
     (let name = icon_lastPathComponent path
      in case last_index (CHR ''.'') name of
           None \<Rightarrow> None
         | Some dotIndex \<Rightarrow>
             if dotIndex = 0 \<or> dotIndex = length name - 1 then None else Some (js_lower (drop (dotIndex + 1) name)))"

definition archiveFileIconDescriptor :: "string \<Rightarrow> bool option \<Rightarrow> icon_texts \<Rightarrow> icon_descriptor" where
  "archiveFileIconDescriptor path encrypted i18n =
     (if nullish encrypted False then icon i18n IkLocked ''icon.encryptedFile'' ''Encrypted file'' ''FileLock''
      else case (case getKnownArchiveSuffix path of None \<Rightarrow> None | Some s \<Rightarrow> some_nonempty s) of
        Some archiveSuffix \<Rightarrow>
          \<lparr> ic_kind = IkArchive, ic_label = js_upper (drop 1 archiveSuffix) @ '' archive'', ic_icon = ''FileArchive'' \<rparr>
      | None \<Rightarrow>
          (case fileExtensionForIcon path of
             None \<Rightarrow> icon i18n IkFile ''entryKind.file'' ''File'' ''File''
           | Some extension \<Rightarrow>
               if extension \<in> set DISK_IMAGE_EXTENSIONS then icon i18n IkDisk ''icon.diskImage'' ''Disk image'' ''Disc3''
               else if extension \<in> set IMAGE_EXTENSIONS then icon i18n IkImage ''icon.imageFile'' ''Image file'' ''FileImage''
               else if extension \<in> set SPREADSHEET_EXTENSIONS
               then icon i18n IkSpreadsheet ''icon.spreadsheetFile'' ''Spreadsheet file'' ''FileSpreadsheet''
               else if extension \<in> set AUDIO_EXTENSIONS then icon i18n IkAudio ''icon.audioFile'' ''Audio file'' ''FileHeadphone''
               else if extension \<in> set VIDEO_EXTENSIONS then icon i18n IkVideo ''icon.videoFile'' ''Video file'' ''FileVideoCamera''
               else if extension \<in> set DATABASE_EXTENSIONS
               then icon i18n IkDatabase ''icon.databaseFile'' ''Database file'' ''Database''
               else if extension \<in> set PACKAGE_EXTENSIONS then icon i18n IkPackage ''icon.packageFile'' ''Package file'' ''Package''
               else if extension \<in> set CODE_EXTENSIONS then icon i18n IkCode ''icon.codeFile'' ''Code file'' ''FileCode''
               else if extension \<in> set TEXT_EXTENSIONS then icon i18n IkText ''icon.documentFile'' ''Document file'' ''FileText''
               else if isSupportedArchivePath path then icon i18n IkArchive ''icon.archiveFile'' ''Archive file'' ''FileArchive''
               else icon i18n IkFile ''entryKind.file'' ''File'' ''File''))"

definition folder_icon :: "icon_texts \<Rightarrow> icon_descriptor" where
  "folder_icon i18n = icon i18n IkFolder ''icon.folder'' ''Folder'' ''FolderClosed''"

definition archiveEntryIconDescriptor :: "archive_entry \<Rightarrow> icon_texts \<Rightarrow> icon_descriptor" where
  "archiveEntryIconDescriptor entry i18n =
     (case ae_kind entry of
        KDirectory \<Rightarrow> folder_icon i18n
      | KSymlink \<Rightarrow> icon i18n IkSymlink ''icon.symbolicLink'' ''Symbolic link'' ''FileSymlink''
      | KHardlink \<Rightarrow> icon i18n IkHardlink ''icon.hardLink'' ''Hard link'' ''FileStack''
      | KSpecial \<Rightarrow> icon i18n IkSpecial ''icon.specialFile'' ''Special file'' ''FileCog''
      | KFile \<Rightarrow> archiveFileIconDescriptor (ae_path entry) (ae_encrypted entry) i18n)"

fun archiveRowIconDescriptor :: "archive_entry hier_row \<Rightarrow> icon_texts \<Rightarrow> icon_descriptor" where
  "archiveRowIconDescriptor (ParentRow _ _ _ _) i18n = icon i18n IkParent ''icon.parentFolder'' ''Parent folder'' ''FolderUp''"
| "archiveRowIconDescriptor (FolderRow _ _ _ _ _) i18n = folder_icon i18n"
| "archiveRowIconDescriptor (EntryRow _ _ _ entry) i18n = archiveEntryIconDescriptor entry i18n"

definition archiveTreeIconDescriptor :: "bool \<Rightarrow> bool \<Rightarrow> icon_texts \<Rightarrow> icon_descriptor" where
  "archiveTreeIconDescriptor isRoot isActive i18n =
     (if isRoot then icon i18n IkArchive ''icon.archiveRoot'' ''Archive root'' ''FolderArchive''
      else if isActive then icon i18n IkFolder ''icon.openFolder'' ''Open folder'' ''FolderOpen''
      else folder_icon i18n)"

section \<open>Lemmas\<close>

text \<open>The preview of the paths of a selection fits into its line, however many and however long they are.\<close>

lemma preview_fits:
  "case truncatedPathPreview paths 3 140 of None \<Rightarrow> paths = [] | Some preview \<Rightarrow> length preview \<le> 140"
proof (cases "paths = []")
  case False
  have ceil: "js_ceil ((of_nat 140 - 3) * 58 / 100) = 80"
    by code_simp
  define p where "p = join_text '', '' (take 3 (js_sort code_unit_compare (js_set paths)))
    @ (if 3 < length (js_sort code_unit_compare (js_set paths))
       then '' (+'' @ nat_string (length (js_sort code_unit_compare (js_set paths)) - 3) @ '' more)'' else [])"
  have "truncatedPathPreview paths 3 140
      = (if length p \<le> 140 then Some p else Some (take 80 p @ ''...'' @ drop (length p - 57) p))"
    unfolding truncatedPathPreview_def Let_def p_def [symmetric] ceil using False by simp
  then show ?thesis
    by simp
qed (simp add: truncatedPathPreview_def)

text \<open>Copying details gives the rows that are shown.\<close>

lemma serialized_rows_are_shown: "serializeInfoDetailRows (infoDetailRowsToSnapshotRows rows) = serializeInfoDetailRows rows"
  by (simp add: serializeInfoDetailRows_def infoDetailRowsToSnapshotRows_def)

lemma shown_rows_have_values: "list_all info_has_value (infoDetailRowsToSnapshotRows rows)"
  by (simp add: infoDetailRowsToSnapshotRows_def list_all_iff)

text \<open>The steps that wait for the user come first, and every step with a text is listed once for each time it is named.\<close>

lemma sorted_wrt_pairs: "(\<And>a b. a \<in> set xs \<Longrightarrow> b \<in> set xs \<Longrightarrow> P a b) \<Longrightarrow> sorted_wrt P xs"
  by (induction xs) auto

lemma setup_order:
  "sorted_wrt (\<lambda>a b. str_state a = StepSatisfied \<longrightarrow> str_state b = StepSatisfied) (sd_steps (buildSetupDialogSnapshot display steps done'))"
  by (auto simp: buildSetupDialogSnapshot_def Let_def sorted_wrt_append intro!: sorted_wrt_pairs)

lemma setup_rows: "mset (sd_steps (buildSetupDialogSnapshot display steps done')) = mset (concat (map (setup_row_of display) steps))"
  by (simp add: buildSetupDialogSnapshot_def Let_def)

lemma setup_instructions:
  "list_all (\<lambda>row. str_state row = StepSatisfied \<longrightarrow> str_instructions row = []) (sd_steps (buildSetupDialogSnapshot display steps done'))"
proof -
  have "list_all (\<lambda>row. str_state row = StepSatisfied \<longrightarrow> str_instructions row = []) (setup_row_of display step)" for step
    by (cases "stp_state step") (simp_all add: setup_row_of_def Let_def)
  then show ?thesis
    by (auto simp: buildSetupDialogSnapshot_def Let_def list_all_iff)
qed

text \<open>Without a contract the dialog about the application needs no capabilities; with one, a missing capability is an error.\<close>

lemma about_without_contract: "ab_contract inp = None \<Longrightarrow> \<exists>d. buildAboutDialogSnapshot version display inp = Inr d"
  by (simp add: buildAboutDialogSnapshot_def Let_def enabled_row_def capabilityAvailable_def capabilityApplies_def)

lemma about_needs_capabilities:
  assumes "ab_contract inp = Some c" "find (\<lambda>k. nc_id k = ''shellSelectedItemActions'') (pc_capabilities c) = None"
  shows "buildAboutDialogSnapshot version display inp = Inl ''Native capability snapshot is missing shellSelectedItemActions''"
  using assms
  by (simp add: buildAboutDialogSnapshot_def Let_def enabled_row_def capabilityAvailable_def isNativeCapabilityAvailable_def
      findNativeCapability_def)

lemma tzap_volume_shorter: "baseNameWithoutTzapVolumeSuffix s = Some b \<Longrightarrow> length b < length s"
proof -
  assume b: "baseNameWithoutTzapVolumeSuffix s = Some b"
  then have "suffix ''.tzap'' (js_lower s)"
    by (auto simp: baseNameWithoutTzapVolumeSuffix_def split: if_splits)
  then have "length ''.tzap'' \<le> length s"
    using suffix_length_le by fastforce
  moreover have "length b \<le> length s - length ''.tzap''"
    using b by (auto simp: baseNameWithoutTzapVolumeSuffix_def Let_def split: if_splits option.splits)
  ultimately show ?thesis
    by simp
qed

lemma known_suffix_nonempty: "getKnownArchiveSuffix path = Some suf \<Longrightarrow> suf \<noteq> []"
proof -
  let ?n = "js_lower (getLastPathComponent path)"
  assume a: "getKnownArchiveSuffix path = Some suf"
  show ?thesis
  proof (cases "baseNameWithoutTzapVolumeSuffix ?n")
    case None
    then have "find (\<lambda>suf. suffix suf ?n) SUPPORTED_ARCHIVE_FILE_SUFFIXES = Some suf"
      using a by (simp add: getKnownArchiveSuffix_def isTzapVolumeArchiveName_def Let_def)
    then have "suf \<in> set SUPPORTED_ARCHIVE_FILE_SUFFIXES"
      by (auto simp: find_Some_iff)
    then show ?thesis
      by (auto simp: suffixes_iff SUPPORTED_SPLIT_ARCHIVE_FILE_SUFFIXES_def)
  next
    case (Some b)
    then show ?thesis
      using a tzap_volume_shorter [OF Some]
      by (auto simp: getKnownArchiveSuffix_def isTzapVolumeArchiveName_def baseNameWithoutKnownArchiveExtension_def Let_def)
  qed
qed

lemma icon_kind_simp [simp]: "ic_kind (icon i18n kind key english drawing) = kind"
  by (simp add: icon_def)

text \<open>The last test for an archive is never reached with success.\<close>

lemma archive_icon:
  "getKnownArchiveSuffix path = Some suf
     \<Longrightarrow> archiveFileIconDescriptor path (Some False) i18n
         = \<lparr> ic_kind = IkArchive, ic_label = js_upper (drop 1 suf) @ '' archive'', ic_icon = ''FileArchive'' \<rparr>"
  by (simp add: archiveFileIconDescriptor_def known_suffix_nonempty some_nonempty_def)

lemma no_archive_icon:
  "getKnownArchiveSuffix path = None \<Longrightarrow> ic_kind (archiveFileIconDescriptor path encrypted i18n) \<noteq> IkArchive"
  using supported_aux [of path] by (simp add: archiveFileIconDescriptor_def split: option.split)

section \<open>Properties\<close>

text \<open>The icon of a file tells what the rest of the application does with it: a file that can be opened as an archive has the
  icon of an archive unless it is encrypted, and no other file has it.\<close>

theorem icons_tell_archives:
  "(ic_kind (archiveFileIconDescriptor path encrypted i18n) = IkArchive)
     = (isSupportedArchivePath path \<and> encrypted \<noteq> Some True)"
proof (cases "getKnownArchiveSuffix path")
  case None
  then show ?thesis
    using no_archive_icon supported_aux [of path] by simp
next
  case (Some suf)
  then have "some_nonempty suf = Some suf"
    by (simp add: some_nonempty_def known_suffix_nonempty)
  with Some show ?thesis
    using supported_aux [of path]
    by (cases encrypted) (auto simp: archiveFileIconDescriptor_def nullish_def)
qed

end
