(* ===== verification/Spec2Isabelle.thy ===== *)
theory Spec2Isabelle
  imports ColumnCatalogue ArchiveWorkspaceView DisposableTask Lifecycle JobHandoff PathHistory ShellWorkspace CreateWorkspaceProps
    VolumePresets QuickActions ArchiveLoadProps ExtractWorkspaceProps SubmissionProps ContextMenus
    WindowGeometry NativeInbound ShareQueue TaskWindows ArchiveOpening Services Account Gestures InfoDialogs
begin

text \<open>
  The application core of ZManager Desktop, a window for browsing, extracting and creating archives.

  \<^bold>\<open>The program.\<close> The core is the TypeScript under \<^verbatim>\<open>src/src/app\<close>, with the adapters of
  \<^verbatim>\<open>src/src/desktop\<close> and the part of \<^verbatim>\<open>src/src/runtime/zmanagerRuntimeAdapter.ts\<close> that decides something. Archives
  are read and written by a Rust backend, jobs run there, and the window is drawn by React; both are seen from here
  through the calls that are made and the answers that come. Two workspaces hold what the window shows: the archive
  workspace (the archive that is open, its folders, its selection) and the create workspace (the sources, the plan and
  the options of an archive that will be made). A controller loads archives into the first one, another asks the backend
  for plans for the second one, three controllers submit work to the backend and share one permission to do so. Accepted
  jobs are handed to windows of their own, which follow the job through the job feed; the process stays alive as long as
  the accounting says that there is work. Preferences, path histories and the window's geometry are kept in the storage
  of the browser. Commands, menus, quick actions of the shell and events of the native host end in the operations of
  these parts.

  \<^bold>\<open>The library.\<close> \<^theory_text>\<open>Prelude\<close> and \<^theory_text>\<open>JsCollections\<close> hold what the code uses of JavaScript: strings as lists of code units,
  \<open>Set\<close> as the list of its elements in insertion order, \<open>Map\<close> as an association list updated in place, \<open>undefined\<close> and
  \<open>null\<close> as \<open>None\<close>, numbers as \<open>jsnum\<close> (an exact rational, an infinity or not a number), the stable sort by a comparison.
  Their locales \<open>js_set_ops\<close>, \<open>comparator\<close> and \<open>normaliser\<close> are the contracts of sets, comparison functions and clean-ups of
  strings. \<^theory_text>\<open>StateMachine\<close> has reachability and the locales \<open>machine\<close>, \<open>monotone_machine\<close> and \<open>simulation\<close>, which each
  component with a state interprets. \<^theory_text>\<open>Json\<close> and \<^theory_text>\<open>JsonText\<close> are \<open>JSON.parse\<close>, \<open>JSON.stringify\<close> and \<open>Number(text)\<close>, with
  the proof that what is written is read back.

  \<^bold>\<open>Archives and tables.\<close>
  \<^item> \<^theory_text>\<open>ArchivePath\<close>, \<^theory_text>\<open>ArchiveTree\<close> (\<^verbatim>\<open>archiveTree.ts\<close>): a path is described by its list of names; the tree has exactly the
    existing folders, and a listing exactly the children of a folder.
  \<^item> \<^theory_text>\<open>HierarchicalTable\<close> (\<^verbatim>\<open>hierarchicalTable.ts\<close>, \<^verbatim>\<open>selection.ts\<close>), \<^theory_text>\<open>TableColumns\<close>, \<^theory_text>\<open>ColumnCatalogue\<close> (\<^verbatim>\<open>tableColumns.ts\<close>,
    \<^verbatim>\<open>tableColumnCatalogue.ts\<close>, \<^verbatim>\<open>scenarioColumnLayout.ts\<close>), \<^theory_text>\<open>Formatting\<close> (\<^verbatim>\<open>formatting.ts\<close>) and \<^theory_text>\<open>ArchiveTable\<close>
    (\<^verbatim>\<open>archiveTable.ts\<close>): rows, selection, columns, cells and sorting. The locale \<open>column_catalogue\<close> is what a table's columns
    owe to the settings; both catalogues interpret it.
  \<^item> \<^theory_text>\<open>ArchiveFileTypes\<close>, \<^theory_text>\<open>ColumnAvailability\<close> (\<^verbatim>\<open>archiveFileTypes.ts\<close>, \<^verbatim>\<open>archiveFormatFamily.ts\<close>,
    \<^verbatim>\<open>extractColumnAvailability.ts\<close>, \<^verbatim>\<open>workspaceColumnResolver.ts\<close>): which files are archives, and which columns they fill.

  \<^bold>\<open>The archive workspace and extraction.\<close>
  \<^item> \<^theory_text>\<open>ExtractionPolicy\<close> (\<^verbatim>\<open>extractionPolicy.ts\<close>, \<^verbatim>\<open>collisionPolicy.ts\<close>, \<^verbatim>\<open>extractFlow.ts\<close>): the request of an extraction.
  \<^item> \<^theory_text>\<open>ArchiveWorkspace\<close> has the record \<open>ws_state\<close> (\<open>MutableArchiveWorkspaceState\<close> of \<^verbatim>\<open>workspaces/archiveWorkspace.ts\<close>) and one
    function for each operation, \<^theory_text>\<open>ArchiveWorkspaceView\<close> what the snapshot computes; \<^theory_text>\<open>WorkspaceMachine\<close> makes them the inputs of
    a machine and shows the invariant, and \<^theory_text>\<open>WorkspaceProps\<close> says what is extracted.
  \<^item> \<^theory_text>\<open>ArchiveLoad\<close>, \<^theory_text>\<open>ArchiveLoadProps\<close> (\<^verbatim>\<open>controllers/archiveLoadController.ts\<close>): the asynchronous loader. Each place where it
    awaits is a task of the state, and answers may come in any order; no index session is forgotten, late answers change
    nothing, and loading a folder ends.
  \<^item> \<^theory_text>\<open>ExtractWorkspace\<close>, \<^theory_text>\<open>ExtractWorkspaceProps\<close> (\<^verbatim>\<open>workspaces/extractWorkspace.ts\<close>, \<^verbatim>\<open>extractDialogState.ts\<close>, with the defaults
    and the verification of the runtime): the options, the request that they mean, and which verifications are trusted.
  \<^item> \<^theory_text>\<open>ArchiveOpening\<close> (\<^verbatim>\<open>controllers/archiveOpenController.ts\<close>, \<^verbatim>\<open>archivePreviewController.ts\<close>, \<^verbatim>\<open>startupController.ts\<close> and the
    two functions of the runtime that reveal the window).

  \<^bold>\<open>The create workspace.\<close>
  \<^item> \<^theory_text>\<open>CreateFlow\<close>, \<^theory_text>\<open>CreateProps\<close> (\<^verbatim>\<open>createFlow.ts\<close>, \<^verbatim>\<open>createFormatCapabilities.ts\<close>): names, formats, plans and requests.
  \<^item> \<^theory_text>\<open>CreateWorkspace\<close> (record \<open>cw_state\<close>, operations \<open>cw_...\<close>, \<^verbatim>\<open>workspaces/createWorkspace.ts\<close>), \<^theory_text>\<open>CreateWorkspaceView\<close> (its
    snapshot), \<^theory_text>\<open>CreateMachine\<close>, \<^theory_text>\<open>CreateWorkspaceProps\<close> (its invariant, and the agreement of what it shows with what it requests).
  \<^item> \<^theory_text>\<open>CreatePlanning\<close> (\<^verbatim>\<open>controllers/createPlanController.ts\<close>, \<^verbatim>\<open>desktop/timers.ts\<close>): an abstract planner takes an answer only with
    the current revision; the workspace refines it, and with the controller a plan that is shown is one of the sources shown.
  \<^item> \<^theory_text>\<open>Submission\<close>, \<^theory_text>\<open>SubmissionProps\<close> (\<^verbatim>\<open>createStartController.ts\<close>, \<^verbatim>\<open>extractStartController.ts\<close>, \<^verbatim>\<open>archiveTestController.ts\<close>,
    \<^verbatim>\<open>mainWindowSubmissionGuard.ts\<close>): the locale \<open>permission\<close> is the contract of the guard.

  \<^bold>\<open>Jobs, windows and the host.\<close>
  \<^item> \<^theory_text>\<open>Jobs\<close>, \<^theory_text>\<open>DisposableTask\<close> (\<^verbatim>\<open>jobs.ts\<close>, \<^verbatim>\<open>workspaces/disposableTask.ts\<close>): progress, and the window of one job as a reducer.
  \<^item> \<^theory_text>\<open>JobFeed\<close> (\<^verbatim>\<open>desktop/jobFeed.ts\<close>), \<^theory_text>\<open>JobHandoff\<close> (\<^verbatim>\<open>jobHandoffController.ts\<close>, \<^verbatim>\<open>jobTerminationWatcher.ts\<close>), \<^theory_text>\<open>TaskWindows\<close>
    (\<^verbatim>\<open>disposableTaskWindowManager.ts\<close>, \<^verbatim>\<open>disposableTaskRecoveryController.ts\<close>), \<^theory_text>\<open>Lifecycle\<close> (\<^verbatim>\<open>disposableTaskLifecycle.ts\<close>,
    \<^verbatim>\<open>processJobAccounting.ts\<close>, \<^verbatim>\<open>quickActionLaunchDisposition.ts\<close>): promises are stages of the state, their settling is an
    event, and the properties hold for every order of events. \<open>delivery\<close> and \<open>presence_step\<close> are the abstract protocols that
    the feed and the window manager follow.
  \<^item> \<^theory_text>\<open>NativeInbound\<close>, \<^theory_text>\<open>ShareQueue\<close>, \<^theory_text>\<open>Services\<close>, \<^theory_text>\<open>Account\<close> (the controllers of native events, shares, LocalSend, default handlers,
    native drags and the account, with \<^verbatim>\<open>desktop/deepLinkAdapter.ts\<close>).
  \<^item> \<^theory_text>\<open>Preferences\<close>, \<^theory_text>\<open>PreferencesProps\<close>, \<^theory_text>\<open>VolumePresets\<close>, \<^theory_text>\<open>PathHistory\<close>, \<^theory_text>\<open>WindowGeometry\<close> (\<^verbatim>\<open>preferences.ts\<close>,
    \<^verbatim>\<open>preferenceStorage.ts\<close>, \<^verbatim>\<open>volumeSizePresets.ts\<close>, \<^verbatim>\<open>pathHistory.ts\<close>, \<^verbatim>\<open>windowGeometry.ts\<close>, \<^verbatim>\<open>desktop/windowController.ts\<close>): what is
    stored, and that whatever the storage holds gives values that are in order.

  \<^bold>\<open>Commands and what is shown.\<close> \<^theory_text>\<open>Commands\<close>, \<^theory_text>\<open>ContextMenus\<close>, \<^theory_text>\<open>QuickActions\<close>, \<^theory_text>\<open>ShellWorkspace\<close> (\<^verbatim>\<open>classicCommands.ts\<close>,
  \<^verbatim>\<open>commands/commandRouter.ts\<close>, \<^verbatim>\<open>contextMenuModel.ts\<close>, \<^verbatim>\<open>quickActions.ts\<close>, \<^verbatim>\<open>quickActionController.ts\<close>, \<^verbatim>\<open>dropIntent.ts\<close>,
  \<^verbatim>\<open>shellWorkspace.ts\<close>), \<^theory_text>\<open>Gestures\<close> (resizing panes, the selection rectangle, moving columns), \<^theory_text>\<open>Localisation\<close>
  (\<^verbatim>\<open>i18n/locale.ts\<close>, \<^verbatim>\<open>translator.ts\<close>) and \<^theory_text>\<open>InfoDialogs\<close> (\<^verbatim>\<open>display/dialogSnapshots.ts\<close>, \<^verbatim>\<open>displayContext.ts\<close>,
  \<^verbatim>\<open>archiveEntryIcons.ts\<close>).

  \<^bold>\<open>Lemmas.\<close> In each theory the lemmas come in this order: facts about single operations (what they change and leave alone), the
  invariant and its preservation by every operation, refinements and round trips, then the properties; \<open>..._witness\<close> applies a
  property to a concrete input. Lemmas named in the records of findings show where the code does something that it does not
  seem to mean.

  \<^bold>\<open>Bounds and fuel.\<close> Constants are the code's: 10000 summaries of folders in the tree, 2048 entries
  and pages for one folder of the tree, 200 rows for a page, 512 ids that native events and ended jobs are remembered
  by. Fuel occurs in the JSON parser (two steps for each character and two more, which every text that it reads needs at
  most) and in the walk of the tree of a plan (one more than the length of its longest path, which bounds the depth).
  The other loops are structural recursions or have a termination proof; where the environment decides how often a
  function goes round, it is given the list of answers, and running out of answers means that it still waits.

  \<^bold>\<open>Parameters.\<close> \<open>Intl\<close> (collators, number and date formats), \<open>localeCompare\<close>, \<open>Date.parse\<close>, the native path functions, \<open>URL\<close>, the
  catalogues of messages and the table of native capabilities are arguments. Where a property needs a law of one of them (a
  collator is a total preorder), the law is a hypothesis, and a witness shows that it can hold.

  \<^bold>\<open>What is not modelled.\<close> Rounding of doubles, apart from overflow to infinity; code units above 255; the text of numbers that are
  not natural (a parameter), and the shortened digits that \<open>String\<close> writes for naturals above \<open>2 ^ 53\<close>; caches, freezing and
  copying; the order of microtasks within one step, beyond the stages that are there; callbacks of the application that throw
  where the code expects them not to (for example \<open>recordAccepted\<close> and \<open>resetSubmittedState\<close> of a handed-over job); diagnostics;
  the second reveal that \<open>initializeDesktopRuntime\<close> would try is modelled, but with the runtime's \<open>revealNormalAppWindow\<close>, which
  catches its own failure, it is not reached. The components of React, the dispatch of their events, the adapters that only call
  the Tauri API, the generated contracts that no modelled part decides by, the native menu of macOS and the Rust backend are
  outside.
\<close>

end
